(* ===== verification/Prelude.thy ===== *)
theory Prelude
  imports Main "HOL-Library.Word"
begin

text \<open>
  Shared vocabulary of the development: the names of the machine types of the C sources
  (octets and the unsigned integers of 16, 32 and 64 bits), the theorem collections the
  component proofs use, the big-endian load and store helpers that the translation units of the
  library carry (\<^verbatim>\<open>put_u16\<close>, \<^verbatim>\<open>get_u16\<close> and so on), and the generic
  facts on words and lists behind them.  An equation between words of a fixed width is decided bit
  by bit: the rules \<open>word8_eqI\<close> to \<open>word64_eqI\<close> unfold it into its bits and the
  collection \<open>word_bits\<close> evaluates each of them.
\<close>

unbundle bit_operations_syntax

section \<open>Types and collections\<close>

type_synonym byte = "8 word"
type_synonym u16 = "16 word"
type_synonym u32 = "32 word"
type_synonym u64 = "64 word"
type_synonym bytes = "byte list"

named_theorems consts_rcp \<open>the numeric constants of the headers\<close>
named_theorems word_bits \<open>bit-level evaluation of word expressions\<close>
named_theorems field_laws \<open>a masked field read back from the octet it was packed into\<close>

declare bit_simps [word_bits]

text \<open>Shifts stay on the fields they were applied to, so that the laws of the packed octets match
  the goals as the encoders produce them.\<close>

declare push_bit_and [simp del] push_bit_or [simp del]
  drop_bit_and [simp del] drop_bit_or [simp del] push_bit_Suc [simp del]

section \<open>Equality of words, bit by bit\<close>

lemma word_eq_by_bits:
  fixes x y :: "'a::len word"
  assumes "list_all (\<lambda>n. bit x n = bit y n) ns" and "set ns = {..<LENGTH('a)}"
  shows "x = y"
  using assms by (intro bit_word_eqI) (simp add: list_all_iff)

lemma word8_eqI:
  fixes x y :: "8 word"
  assumes "list_all (\<lambda>n. bit x n = bit y n)
    [0, 1, 2, 3, 4, 5, 6, 7]"
  shows "x = y"
  using assms
  by (rule word_eq_by_bits)
    (simp add: lessThan_nat_numeral lessThan_Suc numeral_eq_Suc insert_commute)

lemma bit8_beyond [word_bits]: "8 \<le> n \<Longrightarrow> \<not> bit (w :: 8 word) n"
  using bit_imp_le_length [of w n] by auto

lemma word16_eqI:
  fixes x y :: "16 word"
  assumes "list_all (\<lambda>n. bit x n = bit y n)
    [0, 1, 2, 3, 4, 5, 6, 7, 8, 9, 10, 11, 12, 13, 14, 15]"
  shows "x = y"
  using assms
  by (rule word_eq_by_bits)
    (simp add: lessThan_nat_numeral lessThan_Suc numeral_eq_Suc insert_commute)

lemma bit16_beyond [word_bits]: "16 \<le> n \<Longrightarrow> \<not> bit (w :: 16 word) n"
  using bit_imp_le_length [of w n] by auto

lemma word32_eqI:
  fixes x y :: "32 word"
  assumes "list_all (\<lambda>n. bit x n = bit y n)
    [0, 1, 2, 3, 4, 5, 6, 7, 8, 9, 10, 11, 12, 13, 14, 15, 16, 17, 18, 19, 20, 21,
      22, 23, 24, 25, 26, 27, 28, 29, 30, 31]"
  shows "x = y"
  using assms
  by (rule word_eq_by_bits)
    (simp add: lessThan_nat_numeral lessThan_Suc numeral_eq_Suc insert_commute)

lemma bit32_beyond [word_bits]: "32 \<le> n \<Longrightarrow> \<not> bit (w :: 32 word) n"
  using bit_imp_le_length [of w n] by auto

lemma word64_eqI:
  fixes x y :: "64 word"
  assumes "list_all (\<lambda>n. bit x n = bit y n)
    [0, 1, 2, 3, 4, 5, 6, 7, 8, 9, 10, 11, 12, 13, 14, 15, 16, 17, 18, 19, 20, 21,
      22, 23, 24, 25, 26, 27, 28, 29, 30, 31, 32, 33, 34, 35, 36, 37, 38, 39,
      40, 41, 42, 43, 44, 45, 46, 47, 48, 49, 50, 51, 52, 53, 54, 55, 56, 57,
      58, 59, 60, 61, 62, 63]"
  shows "x = y"
  using assms
  by (rule word_eq_by_bits)
    (simp add: lessThan_nat_numeral lessThan_Suc numeral_eq_Suc insert_commute)

lemma bit64_beyond [word_bits]: "64 \<le> n \<Longrightarrow> \<not> bit (w :: 64 word) n"
  using bit_imp_le_length [of w n] by auto

lemma uint_less_of_take_bit:
  fixes w :: "'a::len word"
  assumes "take_bit k w = w"
  shows "uint w < 2 ^ k" and "unat w < 2 ^ k"
proof -
  have "uint w = take_bit k (uint w)"
    by (subst assms [symmetric]) (rule unsigned_take_bit_eq)
  then show "uint w < 2 ^ k" by (metis take_bit_int_less_exp)
  have "unat w = take_bit k (unat w)"
    by (subst assms [symmetric]) (rule unsigned_take_bit_eq)
  then show "unat w < 2 ^ k" by (metis take_bit_nat_less_exp)
qed

lemma xor_right_cancel_iff:
  fixes a b c :: "'a::len word"
  shows "a XOR c = b XOR c \<longleftrightarrow> a = b"
proof
  assume "a XOR c = b XOR c"
  then have "(a XOR c) XOR c = (b XOR c) XOR c" by simp
  then show "a = b" by (simp add: xor.assoc)
qed simp

lemma xor_left_cancel_iff:
  fixes a b c :: "'a::len word"
  shows "c XOR a = c XOR b \<longleftrightarrow> a = b"
  unfolding xor.commute [of c] by (rule xor_right_cancel_iff)

section \<open>Big-endian loads and stores\<close>

definition put_u16 :: "u16 \<Rightarrow> bytes" where
  "put_u16 v = [ucast (drop_bit 8 v), ucast (v AND 0xFF)]"

definition get_u16 :: "bytes \<Rightarrow> u16" where
  "get_u16 p = push_bit 8 (ucast (p ! 0)) OR ucast (p ! 1)"

definition put_u32 :: "u32 \<Rightarrow> bytes" where
  "put_u32 v = [ucast (drop_bit 24 v), ucast (drop_bit 16 v AND 0xFF),
                ucast (drop_bit 8 v AND 0xFF), ucast (v AND 0xFF)]"

definition get_u32 :: "bytes \<Rightarrow> u32" where
  "get_u32 p = push_bit 24 (ucast (p ! 0)) OR push_bit 16 (ucast (p ! 1)) OR
               push_bit 8 (ucast (p ! 2)) OR ucast (p ! 3)"

definition put_u64 :: "u64 \<Rightarrow> bytes" where
  "put_u64 v = [ucast (drop_bit 56 v AND 0xFF), ucast (drop_bit 48 v AND 0xFF),
                ucast (drop_bit 40 v AND 0xFF), ucast (drop_bit 32 v AND 0xFF),
                ucast (drop_bit 24 v AND 0xFF), ucast (drop_bit 16 v AND 0xFF),
                ucast (drop_bit 8 v AND 0xFF), ucast (v AND 0xFF)]"

definition get_u64 :: "bytes \<Rightarrow> u64" where
  "get_u64 p = push_bit 56 (ucast (p ! 0)) OR push_bit 48 (ucast (p ! 1)) OR
               push_bit 40 (ucast (p ! 2)) OR push_bit 32 (ucast (p ! 3)) OR
               push_bit 24 (ucast (p ! 4)) OR push_bit 16 (ucast (p ! 5)) OR
               push_bit 8 (ucast (p ! 6)) OR ucast (p ! 7)"

lemma length_put_u16 [simp]: "length (put_u16 v) = 2"
  by (simp add: put_u16_def)

lemma length_put_u32 [simp]: "length (put_u32 v) = 4"
  by (simp add: put_u32_def)

lemma length_put_u64 [simp]: "length (put_u64 v) = 8"
  by (simp add: put_u64_def)

lemma get_put_u16 [simp]: "get_u16 (put_u16 v @ r) = v"
  by (rule word16_eqI) (simp add: get_u16_def put_u16_def word_bits)

lemma get_put_u32 [simp]: "get_u32 (put_u32 v @ r) = v"
  by (rule word32_eqI) (simp add: get_u32_def put_u32_def word_bits)

lemma get_put_u64 [simp]: "get_u64 (put_u64 v @ r) = v"
  by (rule word64_eqI) (simp add: get_u64_def put_u64_def word_bits)

lemma put_get_u16_octets: "put_u16 (get_u16 [a, b]) = [a, b]"
  unfolding put_u16_def get_u16_def list.inject
  by (intro conjI word8_eqI) (simp_all add: word_bits)

lemma put_get_u32_octets: "put_u32 (get_u32 [a, b, c, d]) = [a, b, c, d]"
  unfolding put_u32_def get_u32_def list.inject
  by (intro conjI word8_eqI) (simp_all add: word_bits)

lemma put_get_u64_octets:
  "put_u64 (get_u64 [a, b, c, d, e, f, g, h]) = [a, b, c, d, e, f, g, h]"
  unfolding put_u64_def get_u64_def list.inject
  by (intro conjI word8_eqI) (simp_all add: word_bits)

section \<open>Lists cut at fixed offsets\<close>

lemma take_drop_append_exact:
  "n = length xs \<Longrightarrow> m = length ys \<Longrightarrow> take m (drop n (xs @ ys @ zs)) = ys"
  by simp

lemma take_prefix_ex: "\<exists>rest. xs = take n xs @ rest"
  by (rule exI [of _ "drop n xs"]) simp

lemma ex_le_Suc_shift: "(\<exists>j\<le>Suc k. P j) = (P 0 \<or> (\<exists>j\<le>k. P (Suc j)))"
  by (simp only: less_Suc_eq_le [symmetric] Ex_less_Suc2)

lemma length_eq_6_conv:
  "length xs = 6 \<longleftrightarrow> (\<exists>a b c d e f. xs = [a, b, c, d, e, f])"
  by (auto simp: length_Suc_conv numeral_eq_Suc)

section \<open>Scans of slot tables\<close>

text \<open>The index of the first element that satisfies a predicate: the loops over fixed tables that
  return a slot or \<^verbatim>\<open>NULL\<close>.\<close>

fun find_index :: "('a \<Rightarrow> bool) \<Rightarrow> 'a list \<Rightarrow> nat option" where
  "find_index P [] = None"
| "find_index P (x # xs) = (if P x then Some 0 else map_option Suc (find_index P xs))"

lemma find_index_None: "find_index P xs = None \<longleftrightarrow> (\<forall>x\<in>set xs. \<not> P x)"
  by (induction xs) auto

lemma find_index_Some:
  "find_index P xs = Some i \<longleftrightarrow> i < length xs \<and> P (xs ! i) \<and> (\<forall>j<i. \<not> P (xs ! j))"
proof (induction xs arbitrary: i)
  case (Cons x xs)
  show ?case
  proof (cases i)
    case 0
    then show ?thesis by auto
  next
    case (Suc k)
    then show ?thesis using Cons.IH [of k] by (auto simp: All_less_Suc2)
  qed
qed simp

lemma find_index_SomeD:
  "find_index P xs = Some i \<Longrightarrow> i < length xs \<and> P (xs ! i)"
  by (simp add: find_index_Some)

lemma find_index_update_same:
  "i < length xs \<Longrightarrow> P (xs ! i) = P y \<Longrightarrow> find_index P (xs[i := y]) = find_index P xs"
proof (induction xs arbitrary: i)
  case (Cons x xs)
  then show ?case by (cases i) auto
qed simp

lemma find_index_nth_cong:
  "length xs = length ys \<Longrightarrow> (\<And>i. i < length xs \<Longrightarrow> P (xs ! i) = Q (ys ! i)) \<Longrightarrow>
   find_index P xs = find_index Q ys"
proof (induction xs ys rule: list_induct2)
  case (Cons x xs y ys)
  have "P x = Q y" using Cons.prems [of 0] by simp
  moreover have "find_index P xs = find_index Q ys"
    using Cons.prems [of "Suc _"] by (intro Cons.IH) simp
  ultimately show ?case by simp
qed simp

text \<open>The number of elements with a property after one element is replaced.\<close>

lemma length_filter_update:
  "i < length xs \<Longrightarrow>
   length (filter P (xs[i := x])) + (if P (xs ! i) then 1 else 0) =
   length (filter P xs) + (if P x then 1 else 0)"
proof (induction xs arbitrary: i)
  case (Cons y ys)
  then show ?case by (cases i) auto
qed simp

lemma word_less_plus_one:
  fixes w :: "'a::len word"
  assumes "w \<noteq> - 1"
  shows "w < w + 1"
proof -
  have "1 + w \<noteq> 0" using assms by (metis add.commute eq_neg_iff_add_eq_0)
  then have "unat (1 + w) = Suc (unat w)" by (rule unatSuc)
  then show ?thesis by (simp add: word_less_nat_alt add.commute)
qed

end
