(* ===== verification/Rcp_Core.thy ===== *)
theory Rcp_Core
  imports Prelude
begin

text \<open>
  The core of the library that every module shares: the status codes of
  \<^verbatim>\<open>include/rcp/rcp.h\<close>, the wire error codes of \<^verbatim>\<open>include/rcp/errors.h\<close>,
  owned byte buffers (\<^verbatim>\<open>src/rcp.c\<close>), the allocation hook table of
  \<^verbatim>\<open>src/alloc.c\<close> and the size guard of \<^verbatim>\<open>src/alloc_overflow.h\<close>.

  The outcome of an allocation is an argument of the functions that allocate: \<open>True\<close> when
  the allocator returns memory.  An owned buffer is an option: \<open>None\<close> is the
  \<^verbatim>\<open>{NULL, 0}\<close> buffer.
\<close>

section \<open>Status codes\<close>

datatype rcp_errc_t =
    RCP_OK | RCP_ERR_CLOSED | RCP_ERR_NOT_FOUND | RCP_ERR_ALREADY_EXISTS | RCP_ERR_TIMEOUT
  | RCP_ERR_BUSY | RCP_ERR_NOT_SUPPORTED | RCP_ERR_FORBIDDEN

fun rcp_strerror :: "rcp_errc_t \<Rightarrow> string" where
  "rcp_strerror RCP_OK = ''rcp: success''"
| "rcp_strerror RCP_ERR_CLOSED = ''rcp: closed''"
| "rcp_strerror RCP_ERR_NOT_FOUND = ''rcp: not found''"
| "rcp_strerror RCP_ERR_ALREADY_EXISTS = ''rcp: already exists''"
| "rcp_strerror RCP_ERR_TIMEOUT = ''rcp: timeout''"
| "rcp_strerror RCP_ERR_BUSY = ''rcp: busy''"
| "rcp_strerror RCP_ERR_NOT_SUPPORTED =
     ''rcp: not supported (transport backend not compiled in)''"
| "rcp_strerror RCP_ERR_FORBIDDEN = ''rcp: command forbidden by access policy''"

datatype rcp_wire_error_t =
    RCP_ERROR_NONE | RCP_ERROR_UNSUPPORTED_CMD | RCP_ERROR_SEQUENCER_NOT_KNOWN
  | RCP_ERROR_UNAUTHORIZED_ACCESS | RCP_ERROR_LOCKED_MEM_ACCESS | RCP_ERROR_REQUEST_CANCELED
  | RCP_ERROR_REQUEST_NOT_FOUND | RCP_ERROR_EP_ERROR | RCP_ERROR_EP_NOT_FOUND
  | RCP_ERROR_PWM_IN_NO_SIGNAL | RCP_ERROR_REQUEST_STORAGE_OVERFLOW
  | RCP_ERROR_REQUEST_REJECTED | RCP_ERROR_POCI_FAILURE | RCP_ERROR_PRESENTATION_TIME_TOO_FAR
  | RCP_ERROR_GPTP_FAIL | RCP_ERROR_INVALID_PARAMETER | RCP_ERROR_CHAIN_ABORTED
  | RCP_ERROR_CHAIN_ERROR

fun wire_error_code :: "rcp_wire_error_t \<Rightarrow> byte" where
  "wire_error_code RCP_ERROR_NONE = 0"
| "wire_error_code RCP_ERROR_UNSUPPORTED_CMD = 1"
| "wire_error_code RCP_ERROR_SEQUENCER_NOT_KNOWN = 2"
| "wire_error_code RCP_ERROR_UNAUTHORIZED_ACCESS = 3"
| "wire_error_code RCP_ERROR_LOCKED_MEM_ACCESS = 4"
| "wire_error_code RCP_ERROR_REQUEST_CANCELED = 5"
| "wire_error_code RCP_ERROR_REQUEST_NOT_FOUND = 6"
| "wire_error_code RCP_ERROR_EP_ERROR = 7"
| "wire_error_code RCP_ERROR_EP_NOT_FOUND = 8"
| "wire_error_code RCP_ERROR_PWM_IN_NO_SIGNAL = 9"
| "wire_error_code RCP_ERROR_REQUEST_STORAGE_OVERFLOW = 10"
| "wire_error_code RCP_ERROR_REQUEST_REJECTED = 11"
| "wire_error_code RCP_ERROR_POCI_FAILURE = 12"
| "wire_error_code RCP_ERROR_PRESENTATION_TIME_TOO_FAR = 13"
| "wire_error_code RCP_ERROR_GPTP_FAIL = 14"
| "wire_error_code RCP_ERROR_INVALID_PARAMETER = 15"
| "wire_error_code RCP_ERROR_CHAIN_ABORTED = 16"
| "wire_error_code RCP_ERROR_CHAIN_ERROR = 17"

fun rcp_wire_error_string :: "rcp_wire_error_t \<Rightarrow> string" where
  "rcp_wire_error_string RCP_ERROR_NONE = ''wire: no error''"
| "rcp_wire_error_string RCP_ERROR_UNSUPPORTED_CMD = ''wire: unsupported command''"
| "rcp_wire_error_string RCP_ERROR_SEQUENCER_NOT_KNOWN = ''wire: sequencer not known''"
| "rcp_wire_error_string RCP_ERROR_UNAUTHORIZED_ACCESS = ''wire: unauthorized access''"
| "rcp_wire_error_string RCP_ERROR_LOCKED_MEM_ACCESS = ''wire: locked memory access''"
| "rcp_wire_error_string RCP_ERROR_REQUEST_CANCELED = ''wire: request canceled''"
| "rcp_wire_error_string RCP_ERROR_REQUEST_NOT_FOUND = ''wire: request not found''"
| "rcp_wire_error_string RCP_ERROR_EP_ERROR = ''wire: endpoint error''"
| "rcp_wire_error_string RCP_ERROR_EP_NOT_FOUND = ''wire: endpoint not found''"
| "rcp_wire_error_string RCP_ERROR_PWM_IN_NO_SIGNAL = ''wire: PWM input has no signal''"
| "rcp_wire_error_string RCP_ERROR_REQUEST_STORAGE_OVERFLOW =
     ''wire: request storage overflow''"
| "rcp_wire_error_string RCP_ERROR_REQUEST_REJECTED = ''wire: request rejected''"
| "rcp_wire_error_string RCP_ERROR_POCI_FAILURE = ''wire: POCI failure (CRC32 mismatch)''"
| "rcp_wire_error_string RCP_ERROR_PRESENTATION_TIME_TOO_FAR =
     ''wire: presentation time too far''"
| "rcp_wire_error_string RCP_ERROR_GPTP_FAIL = ''wire: gPTP failure''"
| "rcp_wire_error_string RCP_ERROR_INVALID_PARAMETER = ''wire: invalid parameter''"
| "rcp_wire_error_string RCP_ERROR_CHAIN_ABORTED = ''wire: chain aborted''"
| "rcp_wire_error_string RCP_ERROR_CHAIN_ERROR = ''wire: chain error''"

section \<open>Owned byte buffers\<close>

type_synonym rcp_bytes_t = "bytes option"

fun rcp_bytes_data :: "rcp_bytes_t \<Rightarrow> bytes" where
  "rcp_bytes_data None = []"
| "rcp_bytes_data (Some bs) = bs"

definition rcp_bytes_len :: "rcp_bytes_t \<Rightarrow> nat" where
  "rcp_bytes_len b = length (rcp_bytes_data b)"

definition rcp_bytes_dup :: "bool \<Rightarrow> bytes \<Rightarrow> rcp_bytes_t" where
  "rcp_bytes_dup mem data =
     (if length data = 0 then None else if \<not> mem then None else Some data)"

lemma rcp_bytes_dup_data [simp]: "rcp_bytes_data (rcp_bytes_dup True data) = data"
  by (simp add: rcp_bytes_dup_def)

section \<open>Allocation hooks\<close>

text \<open>The hook table is four nullable function pointers and a lock flag; a function pointer is
  modelled by an opaque identifier.\<close>

record rcp_alloc_hooks_t =
  malloc_fn :: "nat option"
  calloc_fn :: "nat option"
  realloc_fn :: "nat option"
  free_fn :: "nat option"

record alloc_state =
  g_hooks :: rcp_alloc_hooks_t
  g_locked :: bool

definition no_hooks :: rcp_alloc_hooks_t where
  "no_hooks = \<lparr>malloc_fn = None, calloc_fn = None, realloc_fn = None, free_fn = None\<rparr>"

definition rcp_alloc_reset_hooks :: "alloc_state \<Rightarrow> bool \<times> alloc_state" where
  "rcp_alloc_reset_hooks s =
     (if g_locked s then (False, s) else (True, s\<lparr>g_hooks := no_hooks\<rparr>))"

definition rcp_alloc_set_hooks ::
    "alloc_state \<Rightarrow> rcp_alloc_hooks_t option \<Rightarrow> bool \<times> alloc_state" where
  "rcp_alloc_set_hooks s hooks =
     (if g_locked s then (False, s)
      else case hooks of None \<Rightarrow> rcp_alloc_reset_hooks s
                       | Some h \<Rightarrow> (True, s\<lparr>g_hooks := h\<rparr>))"

definition rcp_alloc_lock_hooks :: "alloc_state \<Rightarrow> bool \<times> alloc_state" where
  "rcp_alloc_lock_hooks s = (if g_locked s then (False, s) else (True, s\<lparr>g_locked := True\<rparr>))"

definition rcp_alloc_unlock_hooks :: "alloc_state \<Rightarrow> bool \<times> alloc_state" where
  "rcp_alloc_unlock_hooks s =
     (if \<not> g_locked s then (False, s) else (True, s\<lparr>g_locked := False\<rparr>))"

section \<open>Size guard\<close>

definition SIZE_MAX :: nat where "SIZE_MAX = 2 ^ 64 - 1"

text \<open>Addition and subtraction of \<^verbatim>\<open>size_t\<close> values, which wrap.\<close>

definition size_add :: "nat \<Rightarrow> nat \<Rightarrow> nat" where "size_add a b = (a + b) mod 2 ^ 64"
definition size_sub :: "nat \<Rightarrow> nat \<Rightarrow> nat" where "size_sub a b = (a + 2 ^ 64 - b) mod 2 ^ 64"

lemma size_add_exact: "a + b \<le> SIZE_MAX \<Longrightarrow> size_add a b = a + b"
  by (simp add: size_add_def SIZE_MAX_def)

lemma size_sub_exact: "b \<le> a \<Longrightarrow> a \<le> SIZE_MAX \<Longrightarrow> size_sub a b = a - b"
proof -
  assume "b \<le> a" and "a \<le> SIZE_MAX"
  then have "a + 2 ^ 64 - b = (a - b) + 2 ^ 64" and "a - b < 2 ^ 64" by (simp_all add: SIZE_MAX_def)
  then show ?thesis by (simp only: size_sub_def mod_add_self2 mod_less)
qed

definition rcp_alloc_size_would_overflow :: "nat \<Rightarrow> nat \<Rightarrow> bool" where
  "rcp_alloc_size_would_overflow n elem_size \<longleftrightarrow> n > SIZE_MAX div elem_size"

definition rcp_alloc_checked_size :: "nat \<Rightarrow> nat \<Rightarrow> nat" where
  "rcp_alloc_checked_size n elem_size =
     (if rcp_alloc_size_would_overflow n elem_size then 0 else (n * elem_size) mod 2 ^ 64)"

lemma checked_size_exact:
  assumes "0 < e"
  shows "rcp_alloc_checked_size n e = (if n * e \<le> SIZE_MAX then n * e else 0)"
proof -
  have iff: "n \<le> SIZE_MAX div e \<longleftrightarrow> n * e \<le> SIZE_MAX"
    using assms by (rule less_eq_div_iff_mult_less_eq)
  show ?thesis
  proof (cases "n * e \<le> SIZE_MAX")
    case True
    moreover from True have "n * e < 2 ^ 64" by (simp add: SIZE_MAX_def)
    ultimately show ?thesis
      using iff by (simp add: rcp_alloc_checked_size_def rcp_alloc_size_would_overflow_def)
  next
    case False
    with iff show ?thesis
      by (simp add: rcp_alloc_checked_size_def rcp_alloc_size_would_overflow_def)
  qed
qed

end
