(* ===== verification/Interfaces.thy ===== *)
theory Interfaces
  imports Rcp_Core
begin

text \<open>
  The contracts the components offer each other.

  A \<open>wire_codec\<close> is an encoder and a decoder of one frame format: a header and a payload go to
  octets and come back.  \<open>canon\<close> is what a header becomes on the wire: fields are cut to their
  bit widths and the length fields are recomputed from the payload.  The laws say when the encoder
  produces a frame and that the decoder inverts it, whatever follows the frame in the buffer.

  A \<open>bounded_fifo\<close> is a queue of limited capacity, given by its contents; \<open>elem_ok\<close> says which
  elements may be queued.
\<close>

section \<open>Frame codecs\<close>

locale wire_codec =
  fixes encode :: "bool \<Rightarrow> 'h \<Rightarrow> bytes \<Rightarrow> rcp_bytes_t"
    and decode :: "bytes \<Rightarrow> 'e + ('h \<times> bytes)"
    and wf :: "'h \<Rightarrow> bool"
    and canon :: "'h \<Rightarrow> bytes \<Rightarrow> 'h"
    and hdr_len :: nat
    and max_payload :: nat
  assumes encode_defined:
      "wf h \<Longrightarrow> (encode mem h p \<noteq> None) = (mem \<and> length p \<le> max_payload)"
    and decode_encode:
      "encode mem h p = Some f \<Longrightarrow> wf h \<Longrightarrow> decode (f @ rest) = Inr (canon h p, p)"
    and decode_inside: "decode b = Inr (h, p) \<Longrightarrow> \<exists>rest. drop hdr_len b = p @ rest"
    and decode_header: "decode b = Inr (h, p) \<Longrightarrow> hdr_len \<le> length b"
begin

lemma roundtrip:
  assumes "wf h" and "length p \<le> max_payload"
  shows "\<exists>f. encode True h p = Some f \<and> decode (f @ rest) = Inr (canon h p, p)"
proof -
  from assms obtain f where "encode True h p = Some f"
    using encode_defined [of h True p] by auto
  with assms(1) show ?thesis using decode_encode by blast
qed

lemma decoded_payload_bound:
  assumes "decode b = Inr (h, p)"
  shows "hdr_len + length p \<le> length b"
proof -
  from decode_inside [OF assms] obtain rest where "drop hdr_len b = p @ rest" ..
  then have "length b - hdr_len = length p + length rest"
    by (metis length_append length_drop)
  with decode_header [OF assms] show ?thesis by simp
qed

text \<open>Frames are self-delimiting: no frame is a proper prefix of another one.\<close>

lemma prefix_free:
  assumes "encode m h p = Some f" and "encode m' h' p' = Some (f @ rest)"
    and "wf h" and "wf h'"
  shows "p = p' \<and> canon h p = canon h' p'"
proof -
  have "decode (f @ rest) = Inr (canon h p, p)" using assms(1,3) by (rule decode_encode)
  moreover have "decode ((f @ rest) @ []) = Inr (canon h' p', p')"
    using assms(2,4) by (rule decode_encode)
  ultimately have "(canon h p, p) = (canon h' p', p')" by (metis append_Nil2 sum.inject(2))
  then show ?thesis by auto
qed

end

section \<open>Banks of sequencer registers\<close>

text \<open>
  Conditional requests read and write a bank of indexed one-octet sequencer states.  A sequencer in
  state zero is disabled.  \<open>guarded_set\<close> is the only way a request moves a sequencer: from
  exactly its (nonzero) start state to its next state, where zero means "stay".
\<close>

locale sequencer_bank =
  fixes get :: "'t \<Rightarrow> u16 \<Rightarrow> byte option"
    and put :: "'t \<Rightarrow> u16 \<Rightarrow> byte \<Rightarrow> bool \<times> 't"
    and invar :: "'t \<Rightarrow> bool"
  assumes put_ok: "invar t \<Longrightarrow> fst (put t i v) = (get t i \<noteq> None)"
    and put_get: "invar t \<Longrightarrow>
      get (snd (put t i v)) j = (if j = i \<and> get t i \<noteq> None then Some v else get t j)"
    and put_invar: "invar t \<Longrightarrow> invar (snd (put t i v))"
begin

definition guarded_set :: "'t \<Rightarrow> u16 \<Rightarrow> byte \<Rightarrow> byte \<Rightarrow> bool \<times> 't" where
  "guarded_set t i start nxt =
     (if get t i = Some start \<and> start \<noteq> 0
      then (if nxt = 0 then (True, t) else put t i nxt)
      else (False, t))"

lemma guarded_set_invar: "invar t \<Longrightarrow> invar (snd (guarded_set t i s n))"
  by (simp add: guarded_set_def put_invar)

lemma guarded_set_result: "invar t \<Longrightarrow> fst (guarded_set t i s n) = (get t i = Some s \<and> s \<noteq> 0)"
  by (simp add: guarded_set_def put_ok)

lemma guarded_set_get:
  "invar t \<Longrightarrow> get (snd (guarded_set t i s n)) j =
     (if j = i \<and> get t i = Some s \<and> s \<noteq> 0 \<and> n \<noteq> 0 then Some n else get t j)"
  by (simp add: guarded_set_def put_get)

definition run_guarded :: "'t \<Rightarrow> (u16 \<times> byte \<times> byte) list \<Rightarrow> 't" where
  "run_guarded = foldl (\<lambda>t (i, s, n). snd (guarded_set t i s n))"

text \<open>No sequence of guarded moves leaves the disabled state, enters it, or makes a sequencer
  appear or disappear.\<close>

lemma run_guarded_disabled:
  "invar t \<Longrightarrow> (get (run_guarded t ms) j = Some 0) = (get t j = Some 0) \<and>
     (get (run_guarded t ms) j = None) = (get t j = None)"
proof (induction ms arbitrary: t)
  case (Cons m ms)
  obtain i s n where m: "m = (i, s, n)" by (cases m)
  from Cons.IH [OF guarded_set_invar [OF Cons.prems, of i s n]] Cons.prems show ?case
    by (auto simp: run_guarded_def m guarded_set_get)
qed (simp add: run_guarded_def)

end

section \<open>Keyed latches\<close>

text \<open>
  A table of latches with limited room, one latch per key.  \<open>signal\<close> reports an event for a key and
  says whether it latches; it fails only when there is no room for a new key.  A latch is released
  by \<open>release\<close> alone.
\<close>

datatype 'k latch_event = Note 'k bool | Release 'k

locale keyed_latch =
  fixes signal :: "'s \<Rightarrow> 'k \<Rightarrow> bool \<Rightarrow> bool \<times> 's"
    and release :: "'s \<Rightarrow> 'k \<Rightarrow> 's"
    and latched :: "'s \<Rightarrow> 'k \<Rightarrow> bool"
  assumes note_full: "\<not> fst (signal s k e) \<Longrightarrow> snd (signal s k e) = s \<and> \<not> latched s k"
    and note_latched: "fst (signal s k e) \<Longrightarrow>
      latched (snd (signal s k e)) j = (if j = k then latched s k \<or> e else latched s j)"
    and release_latched: "latched (release s k) j = (j \<noteq> k \<and> latched s j)"
begin

primrec latch_step :: "'s \<Rightarrow> 'k latch_event \<Rightarrow> 's" where
  "latch_step s (Note k e) = snd (signal s k e)"
| "latch_step s (Release k) = release s k"

lemma latch_step_latched:
  "latched (latch_step s ev) j =
     (case ev of Note k e \<Rightarrow> if k = j \<and> fst (signal s k e) then latched s j \<or> e else latched s j
      | Release k \<Rightarrow> k \<noteq> j \<and> latched s j)"
proof (cases ev)
  case (Note k e)
  then show ?thesis by (cases "fst (signal s k e)") (auto simp: note_latched note_full)
next
  case (Release k)
  then show ?thesis by (auto simp: release_latched)
qed

text \<open>Without a release of its key a latch stays set; without a latching event it stays clear.\<close>

lemma stays_latched:
  "latched s k \<Longrightarrow> Release k \<notin> set evs \<Longrightarrow> latched (foldl latch_step s evs) k"
proof (induction evs arbitrary: s)
  case (Cons ev evs)
  have "latched (latch_step s ev) k"
    using Cons.prems by (cases ev) (auto simp: latch_step_latched simp del: latch_step.simps split: if_splits)
  with Cons show ?case by simp
qed simp

lemma stays_clear:
  "\<not> latched s k \<Longrightarrow> Note k True \<notin> set evs \<Longrightarrow> \<not> latched (foldl latch_step s evs) k"
proof (induction evs arbitrary: s)
  case (Cons ev evs)
  have "\<not> latched (latch_step s ev) k"
    using Cons.prems by (cases ev) (auto simp: latch_step_latched simp del: latch_step.simps split: if_splits)
  with Cons show ?case by simp
qed simp

end

section \<open>Service orders\<close>

text \<open>
  A three-way comparator that orders pending entries: negative when the first one is served before
  the second.  A selection scan over a list keeps the entry that no other one precedes.
\<close>

locale service_order =
  fixes compare :: "'e \<Rightarrow> 'e \<Rightarrow> int"
  assumes antisym: "compare b a = - compare a b"
    and zero_iff: "compare a b = 0 \<longleftrightarrow> a = b"
    and trans: "compare a b < 0 \<Longrightarrow> compare b c < 0 \<Longrightarrow> compare a c < 0"
begin

definition first_of :: "'e \<Rightarrow> 'e list \<Rightarrow> 'e" where
  "first_of = foldl (\<lambda>best x. if compare x best < 0 then x else best)"

lemma total: "compare a b < 0 \<or> a = b \<or> compare b a < 0"
  using antisym [of b a] zero_iff [of a b] by linarith

lemma le_trans: "compare a b \<le> 0 \<Longrightarrow> compare b c \<le> 0 \<Longrightarrow> compare a c \<le> 0"
  using trans [of a b c] zero_iff [of a b] zero_iff [of b c]
  by (metis order.order_iff_strict)

lemma first_of_least: "first_of x xs \<in> set (x # xs) \<and> (\<forall>y\<in>set (x # xs). compare (first_of x xs) y \<le> 0)"
proof (induction xs arbitrary: x)
  case Nil
  then show ?case using zero_iff [of x x] by (simp add: first_of_def)
next
  case (Cons y ys)
  let ?z = "if compare y x < 0 then y else x"
  have step: "first_of x (y # ys) = first_of ?z ys" by (simp add: first_of_def)
  have z: "compare ?z x \<le> 0" "compare ?z y \<le> 0"
    using antisym [of x y] zero_iff [of x x] zero_iff [of y y] by auto
  from Cons.IH [of ?z] have "first_of ?z ys \<in> set (?z # ys)"
    and least: "\<forall>v\<in>set (?z # ys). compare (first_of ?z ys) v \<le> 0" by blast+
  from this(1) have "first_of ?z ys \<in> set (x # y # ys)" by (auto split: if_splits)
  moreover have "compare (first_of ?z ys) v \<le> 0" if "v \<in> set (x # y # ys)" for v
  proof (cases "v \<in> set ys")
    case False
    with that have "compare ?z v \<le> 0" using z by auto
    with least show ?thesis by (meson le_trans list.set_intros(1))
  qed (use least in simp)
  ultimately show ?case unfolding step by blast
qed

end

section \<open>Bounded first-in first-out queues\<close>

locale bounded_fifo =
  fixes push :: "'s \<Rightarrow> 'a \<Rightarrow> 's option"
    and pop :: "'s \<Rightarrow> ('a \<times> 's) option"
    and contents :: "'s \<Rightarrow> 'a list"
    and capacity :: "'s \<Rightarrow> nat"
    and invar :: "'s \<Rightarrow> bool"
    and elem_ok :: "'a \<Rightarrow> bool"
  assumes push_full: "invar s \<Longrightarrow> (push s x = None) = (capacity s \<le> length (contents s))"
    and push_contents: "invar s \<Longrightarrow> elem_ok x \<Longrightarrow> push s x = Some s' \<Longrightarrow>
      invar s' \<and> contents s' = contents s @ [x] \<and> capacity s' = capacity s"
    and pop_empty: "invar s \<Longrightarrow> (pop s = None) = (contents s = [])"
    and pop_contents: "invar s \<Longrightarrow> pop s = Some (x, s') \<Longrightarrow>
      invar s' \<and> contents s = x # contents s' \<and> capacity s' = capacity s"
begin

primrec push_all :: "'s \<Rightarrow> 'a list \<Rightarrow> 's option" where
  "push_all s [] = Some s"
| "push_all s (x # xs) = (case push s x of None \<Rightarrow> None | Some s' \<Rightarrow> push_all s' xs)"

primrec pop_n :: "nat \<Rightarrow> 's \<Rightarrow> ('a list \<times> 's) option" where
  "pop_n 0 s = Some ([], s)"
| "pop_n (Suc n) s = (case pop s of None \<Rightarrow> None
     | Some (x, s') \<Rightarrow> (case pop_n n s' of None \<Rightarrow> None | Some (xs, t) \<Rightarrow> Some (x # xs, t)))"

lemma push_all_contents:
  "invar s \<Longrightarrow> list_all elem_ok xs \<Longrightarrow> length (contents s) + length xs \<le> capacity s \<Longrightarrow>
   \<exists>t. push_all s xs = Some t \<and> invar t \<and> contents t = contents s @ xs \<and> capacity t = capacity s"
proof (induction xs arbitrary: s)
  case (Cons x xs)
  then have "push s x \<noteq> None" by (simp add: push_full)
  then obtain s' where s': "push s x = Some s'" by blast
  from Cons.prems(2) have ok: "elem_ok x" "list_all elem_ok xs" by simp_all
  from push_contents [OF Cons.prems(1) ok(1) s']
  have inv: "invar s'" "contents s' = contents s @ [x]" "capacity s' = capacity s" by simp_all
  with Cons.prems(3) have "length (contents s') + length xs \<le> capacity s'" by simp
  from Cons.IH [OF inv(1) ok(2) this] s' inv(2,3) show ?case by auto
qed simp

lemma pop_n_contents:
  "invar s \<Longrightarrow> n \<le> length (contents s) \<Longrightarrow>
   \<exists>t. pop_n n s = Some (take n (contents s), t) \<and> invar t \<and> contents t = drop n (contents s)
     \<and> capacity t = capacity s"
proof (induction n arbitrary: s)
  case (Suc n)
  then have "pop s \<noteq> None" by (auto simp: pop_empty)
  then obtain x s' where s': "pop s = Some (x, s')" by auto
  with Suc.prems(1) have inv: "invar s'" "contents s = x # contents s'" "capacity s' = capacity s"
    using pop_contents by blast+
  with Suc.prems(2) have "n \<le> length (contents s')" by simp
  from Suc.IH [OF inv(1) this] s' inv(2,3) show ?case by auto
qed simp

text \<open>Everything pushed within the capacity comes out again, in the order it went in.\<close>

lemma fifo_order:
  assumes "invar s" and "contents s = []" and "list_all elem_ok xs" and "length xs \<le> capacity s"
  shows "\<exists>t u. push_all s xs = Some t \<and> pop_n (length xs) t = Some (xs, u) \<and> contents u = []"
proof -
  from push_all_contents [OF assms(1,3)] assms(2,4) obtain t
    where t: "push_all s xs = Some t" "invar t" "contents t = xs" by auto
  from pop_n_contents [OF t(2), of "length xs"] t show ?thesis by auto
qed

end

section \<open>Stores of stamped slots\<close>

text \<open>
  A table of slots with a counter of the used ones.  \<open>claim\<close> takes a slot that is not used and
  gives it the next arrival stamp, \<open>release\<close> makes a slot vacant, and \<open>put\<close> replaces the
  contents of a slot.  The client's invariant is \<open>store_ok\<close>: the counter is right, unused slots
  are vacant, and the stamps of used slots are below the next one and identify their slots.
\<close>

locale slot_store =
  fixes slots :: "'s \<Rightarrow> 'a list"
    and used :: "'a \<Rightarrow> bool"
    and stamp :: "'a \<Rightarrow> u64"
    and vacant :: 'a
    and used_count :: "'s \<Rightarrow> nat"
    and next_stamp :: "'s \<Rightarrow> u64"
    and claim :: "'s \<Rightarrow> (nat \<times> 's) option"
    and release :: "'s \<Rightarrow> nat \<Rightarrow> 's"
    and put :: "'s \<Rightarrow> nat \<Rightarrow> 'a \<Rightarrow> 's"
  assumes vacant_unused: "\<not> used vacant"
    and claim_full: "claim s = None \<longleftrightarrow> (\<forall>x\<in>set (slots s). used x)"
    and claim_slot: "claim s = Some (i, s') \<Longrightarrow>
      i < length (slots s) \<and> \<not> used (slots s ! i) \<and>
      (\<exists>x. used x \<and> stamp x = next_stamp s \<and> slots s' = (slots s)[i := x]) \<and>
      used_count s' = used_count s + 1 \<and> next_stamp s' = next_stamp s + 1"
    and release_slots: "slots (release s i) = (slots s)[i := vacant]"
    and release_rest: "used_count (release s i) = used_count s - 1" "next_stamp (release s i) = next_stamp s"
    and put_slots: "slots (put s i x) = (slots s)[i := x]"
    and put_rest: "used_count (put s i x) = used_count s" "next_stamp (put s i x) = next_stamp s"
begin

definition store_ok :: "'s \<Rightarrow> bool" where
  "store_ok s \<longleftrightarrow> used_count s = length (filter used (slots s)) \<and>
     (\<forall>x\<in>set (slots s). \<not> used x \<longrightarrow> x = vacant) \<and>
     (\<forall>x\<in>set (slots s). used x \<longrightarrow> stamp x < next_stamp s) \<and>
     (\<forall>i<length (slots s). \<forall>j<length (slots s). used (slots s ! i) \<and> used (slots s ! j) \<and>
        stamp (slots s ! i) = stamp (slots s ! j) \<longrightarrow> i = j)"

lemma update_ok:
  assumes "store_ok s" and "i < length (slots s)" and "used (slots s ! i)"
    and "slots s' = (slots s)[i := x]" and "next_stamp s' = next_stamp s"
    and "used x \<longrightarrow> stamp x = stamp (slots s ! i)" and "\<not> used x \<longrightarrow> x = vacant"
    and "used_count s' = (if used x then used_count s else used_count s - 1)"
  shows "store_ok s'"
proof -
  have nth: "slots s' ! j = (if j = i then x else slots s ! j)" if "j < length (slots s)" for j
    using that assms(4) by (simp add: nth_list_update)
  have len: "length (slots s') = length (slots s)" by (simp add: assms(4))
  have "length (filter used (slots s')) + 1 = length (filter used (slots s)) + (if used x then 1 else 0)"
    using length_filter_update [OF assms(2), of used x] assms(3,4) by simp
  then have "used_count s' = length (filter used (slots s'))"
    using assms(1,8) by (auto simp: store_ok_def)
  moreover have "\<forall>y\<in>set (slots s'). (\<not> used y \<longrightarrow> y = vacant) \<and> (used y \<longrightarrow> stamp y < next_stamp s')"
  proof
    fix y assume "y \<in> set (slots s')"
    then have "y = x \<or> y \<in> set (slots s)" using set_update_subset_insert [of "slots s" i x] assms(4) by auto
    moreover have "stamp (slots s ! i) < next_stamp s"
      using assms(1-3) nth_mem [OF assms(2)] by (auto simp: store_ok_def)
    ultimately show "(\<not> used y \<longrightarrow> y = vacant) \<and> (used y \<longrightarrow> stamp y < next_stamp s')"
      using assms(1,5-7) by (auto simp: store_ok_def)
  qed
  moreover have keep: "used (slots s ! m) \<and> stamp (slots s ! m) = stamp (slots s' ! m)"
    if "m < length (slots s)" "used (slots s' ! m)" for m
    using that assms(3,6) by (cases "m = i") (simp_all add: nth)
  have unique: "\<And>j k. j < length (slots s) \<Longrightarrow> k < length (slots s) \<Longrightarrow> used (slots s ! j) \<Longrightarrow>
      used (slots s ! k) \<Longrightarrow> stamp (slots s ! j) = stamp (slots s ! k) \<Longrightarrow> j = k"
    using assms(1) unfolding store_ok_def by blast
  have "j = k" if "j < length (slots s')" "k < length (slots s')"
    "used (slots s' ! j)" "used (slots s' ! k)" "stamp (slots s' ! j) = stamp (slots s' ! k)" for j k
    using unique [of j k] keep [of j] keep [of k] that by (simp add: len)
  ultimately show ?thesis unfolding store_ok_def by blast
qed

lemma put_ok:
  "store_ok s \<Longrightarrow> i < length (slots s) \<Longrightarrow> used (slots s ! i) \<Longrightarrow> used x \<Longrightarrow>
   stamp x = stamp (slots s ! i) \<Longrightarrow> store_ok (put s i x)"
  by (rule update_ok) (auto simp: put_slots put_rest)

lemma release_ok:
  "store_ok s \<Longrightarrow> i < length (slots s) \<Longrightarrow> used (slots s ! i) \<Longrightarrow> store_ok (release s i)"
  by (rule update_ok) (auto simp: release_slots release_rest vacant_unused)

lemma claim_ok:
  assumes "store_ok s" and "claim s = Some (i, s')" and "next_stamp s \<noteq> - 1"
  shows "store_ok s'" and "i < length (slots s')" and "used (slots s' ! i)"
    and "stamp (slots s' ! i) = next_stamp s"
proof -
  obtain x where c: "i < length (slots s)" "\<not> used (slots s ! i)" "used x" "stamp x = next_stamp s"
    "slots s' = (slots s)[i := x]" "used_count s' = used_count s + 1" "next_stamp s' = next_stamp s + 1"
    using claim_slot [OF assms(2)] by blast
  have nth: "slots s' ! j = (if j = i then x else slots s ! j)" if "j < length (slots s)" for j
    using that c(5) by (simp add: nth_list_update)
  have len: "length (slots s') = length (slots s)" by (simp add: c(5))
  have lt: "next_stamp s < next_stamp s + 1" using assms(3) by (rule word_less_plus_one)
  have "used_count s' = length (filter used (slots s'))"
    using length_filter_update [OF c(1), of used x] c assms(1) by (simp add: store_ok_def)
  moreover have "\<forall>y\<in>set (slots s'). (\<not> used y \<longrightarrow> y = vacant) \<and> (used y \<longrightarrow> stamp y < next_stamp s')"
  proof
    fix y assume "y \<in> set (slots s')"
    then have "y = x \<or> y \<in> set (slots s)" using set_update_subset_insert [of "slots s" i x] c(5) by auto
    then show "(\<not> used y \<longrightarrow> y = vacant) \<and> (used y \<longrightarrow> stamp y < next_stamp s')"
      using assms(1) c lt by (auto simp: store_ok_def dest: less_trans)
  qed
  moreover have "j = k" if "j < length (slots s')" "k < length (slots s')"
    "used (slots s' ! j)" "used (slots s' ! k)" "stamp (slots s' ! j) = stamp (slots s' ! k)" for j k
  proof -
    have below: "stamp (slots s ! m) < next_stamp s" if "m < length (slots s)" "used (slots s ! m)" for m
      using assms(1) that nth_mem [of m "slots s"] unfolding store_ok_def by blast
    have unique: "\<And>j k. j < length (slots s) \<Longrightarrow> k < length (slots s) \<Longrightarrow> used (slots s ! j) \<Longrightarrow>
        used (slots s ! k) \<Longrightarrow> stamp (slots s ! j) = stamp (slots s ! k) \<Longrightarrow> j = k"
      using assms(1) unfolding store_ok_def by blast
    show ?thesis
      using that below [of j] below [of k] unique [of j k] c(4)
      by (cases "j = i"; cases "k = i") (simp_all add: len nth)
  qed
  ultimately show "store_ok s'" unfolding store_ok_def by blast
  show "i < length (slots s')" "used (slots s' ! i)" "stamp (slots s' ! i) = next_stamp s"
    using c len nth by auto
qed

text \<open>A claim that is given back leaves the slots as they were.\<close>

lemma claim_release:
  assumes "store_ok s" and "claim s = Some (i, s')"
  shows "slots (release s' i) = slots s"
proof -
  obtain x where c: "i < length (slots s)" "\<not> used (slots s ! i)" "slots s' = (slots s)[i := x]"
    using claim_slot [OF assms(2)] by blast
  then have "slots s ! i = vacant" using assms(1) nth_mem [OF c(1)] by (auto simp: store_ok_def)
  then show ?thesis using c by (metis list_update_id list_update_overwrite release_slots)
qed

lemma claim_room: "store_ok s \<Longrightarrow> (claim s = None) = (used_count s = length (slots s))"
  unfolding claim_full store_ok_def
  by (metis (no_types, lifting) filter_True length_filter_less less_irrefl)

end

end
