(* ===== verification/Avtp.thy ===== *)
theory Avtp
  imports Interfaces
begin

text \<open>
  \<^verbatim>\<open>src/avtp.c\<close> and \<^verbatim>\<open>include/rcp/avtp.h\<close>: stream identifiers and endpoint
  addresses, the NTSCF and TSCF header codecs, timestamp extension, the rule that drops TSCF
  frames on a server without time synchronisation, and the loopback transport, a bounded ring
  buffer of frames.  The codecs are interpretations of \<open>wire_codec\<close>, the loopback transport is
  an interpretation of \<open>bounded_fifo\<close>.

  A pointer and a length become a list of octets; \<^verbatim>\<open>&b[n]\<close> is \<open>drop n b\<close>.  The mutex
  of the loopback transport makes each operation one atomic step on its state; a receive that would
  keep waiting on the condition variable has no result yet.
\<close>

section \<open>Data\<close>

datatype rcp_avtp_errc_t =
    RCP_AVTP_OK | RCP_AVTP_ERR_SHORT_FRAME | RCP_AVTP_ERR_BAD_SUBTYPE

definition RCP_AVTP_SUBTYPE_TSCF :: byte where [consts_rcp]: "RCP_AVTP_SUBTYPE_TSCF = 0x05"
definition RCP_AVTP_SUBTYPE_NTSCF :: byte where [consts_rcp]: "RCP_AVTP_SUBTYPE_NTSCF = 0x82"
definition RCP_AVTP_NTSCF_HEADER_LEN :: nat where [consts_rcp]: "RCP_AVTP_NTSCF_HEADER_LEN = 12"
definition RCP_AVTP_TSCF_HEADER_LEN :: nat where [consts_rcp]: "RCP_AVTP_TSCF_HEADER_LEN = 24"
definition RCP_AVTP_NTSCF_MAX_PAYLOAD :: nat where
  [consts_rcp]: "RCP_AVTP_NTSCF_MAX_PAYLOAD = 2047"
definition RCP_AVTP_TSCF_MAX_PAYLOAD :: nat where
  [consts_rcp]: "RCP_AVTP_TSCF_MAX_PAYLOAD = 65535"

record rcp_stream_id_t =
  mac :: bytes
  unique_id :: u16

type_synonym rcp_byte_bus_id_t = u16

record rcp_avtp_addr_t =
  addr_stream_id :: rcp_stream_id_t
  addr_byte_bus_id :: rcp_byte_bus_id_t

record rcp_avtp_ntscf_header_t =
  n_sv :: byte
  n_version :: byte
  ntscf_data_length :: u16
  n_sequence_num :: byte
  n_stream_id :: rcp_stream_id_t

record rcp_avtp_tscf_header_t =
  t_sv :: byte
  t_version :: byte
  mr :: byte
  tv :: byte
  t_sequence_num :: byte
  tu :: byte
  t_stream_id :: rcp_stream_id_t
  avtp_timestamp :: u32
  stream_data_length :: u16
  reserved0 :: u32
  reserved1 :: u16

text \<open>The C array \<^verbatim>\<open>uint8_t mac[6]\<close> is a list of six octets.\<close>

definition stream_id_wf :: "rcp_stream_id_t \<Rightarrow> bool" where
  "stream_id_wf sid \<longleftrightarrow> length (mac sid) = 6"

section \<open>Stream identifiers\<close>

definition put_stream_id :: "rcp_stream_id_t \<Rightarrow> bytes" where
  "put_stream_id sid = mac sid @ put_u16 (unique_id sid)"

definition get_stream_id :: "bytes \<Rightarrow> rcp_stream_id_t" where
  "get_stream_id p = \<lparr>mac = take 6 p, unique_id = get_u16 (drop 6 p)\<rparr>"

definition rcp_stream_id_make :: "bytes \<Rightarrow> u16 \<Rightarrow> rcp_stream_id_t" where
  "rcp_stream_id_make m uid = \<lparr>mac = take 6 m, unique_id = uid\<rparr>"

definition rcp_stream_id_to_u64 :: "rcp_stream_id_t \<Rightarrow> u64" where
  "rcp_stream_id_to_u64 sid =
     (let mac48 = push_bit 40 (ucast (mac sid ! 0)) OR push_bit 32 (ucast (mac sid ! 1)) OR
                  push_bit 24 (ucast (mac sid ! 2)) OR push_bit 16 (ucast (mac sid ! 3)) OR
                  push_bit 8 (ucast (mac sid ! 4)) OR ucast (mac sid ! 5)
      in push_bit 16 mac48 OR ucast (unique_id sid))"

definition rcp_stream_id_from_u64 :: "u64 \<Rightarrow> rcp_stream_id_t" where
  "rcp_stream_id_from_u64 v =
     (let mac48 = drop_bit 16 v
      in \<lparr>mac = [ucast (drop_bit 40 mac48 AND 0xFF), ucast (drop_bit 32 mac48 AND 0xFF),
                 ucast (drop_bit 24 mac48 AND 0xFF), ucast (drop_bit 16 mac48 AND 0xFF),
                 ucast (drop_bit 8 mac48 AND 0xFF), ucast (mac48 AND 0xFF)],
          unique_id = ucast (v AND 0xFFFF)\<rparr>)"

definition rcp_stream_id_equal :: "rcp_stream_id_t \<Rightarrow> rcp_stream_id_t \<Rightarrow> bool" where
  "rcp_stream_id_equal a b \<longleftrightarrow> mac a = mac b \<and> unique_id a = unique_id b"

definition rcp_avtp_addr_equal :: "rcp_avtp_addr_t \<Rightarrow> rcp_avtp_addr_t \<Rightarrow> bool" where
  "rcp_avtp_addr_equal a b \<longleftrightarrow>
     rcp_stream_id_equal (addr_stream_id a) (addr_stream_id b) \<and>
     addr_byte_bus_id a = addr_byte_bus_id b"

section \<open>NTSCF\<close>

definition rcp_avtp_encode_ntscf ::
    "bool \<Rightarrow> rcp_avtp_ntscf_header_t \<Rightarrow> bytes \<Rightarrow> rcp_bytes_t" where
  "rcp_avtp_encode_ntscf mem hdr payload =
     (let payload_len = length payload in
      if payload_len > RCP_AVTP_NTSCF_MAX_PAYLOAD then None
      else if \<not> mem then None
      else Some
        ([RCP_AVTP_SUBTYPE_NTSCF,
          push_bit 7 (n_sv hdr AND 0x1) OR push_bit 4 (n_version hdr AND 0x7) OR
            ucast (drop_bit 8 (of_nat payload_len :: u64) AND 0x7),
          ucast ((of_nat payload_len :: u64) AND 0xFF),
          n_sequence_num hdr] @
         put_stream_id (n_stream_id hdr) @ payload))"

definition rcp_avtp_decode_ntscf ::
    "bytes \<Rightarrow> rcp_avtp_errc_t + (rcp_avtp_ntscf_header_t \<times> bytes)" where
  "rcp_avtp_decode_ntscf b =
     (if length b < RCP_AVTP_NTSCF_HEADER_LEN then Inl RCP_AVTP_ERR_SHORT_FRAME
      else if b ! 0 \<noteq> RCP_AVTP_SUBTYPE_NTSCF then Inl RCP_AVTP_ERR_BAD_SUBTYPE
      else
        let dlen = (push_bit 8 (ucast (b ! 1 AND 0x07)) OR ucast (b ! 2)) :: u16 in
        if length b < RCP_AVTP_NTSCF_HEADER_LEN + unat dlen then Inl RCP_AVTP_ERR_SHORT_FRAME
        else Inr (\<lparr>n_sv = drop_bit 7 (b ! 1) AND 0x1,
                   n_version = drop_bit 4 (b ! 1) AND 0x7,
                   ntscf_data_length = dlen,
                   n_sequence_num = b ! 3,
                   n_stream_id = get_stream_id (drop 4 b)\<rparr>,
                  take (unat dlen) (drop RCP_AVTP_NTSCF_HEADER_LEN b)))"

section \<open>TSCF\<close>

definition rcp_avtp_encode_tscf ::
    "bool \<Rightarrow> rcp_avtp_tscf_header_t \<Rightarrow> bytes \<Rightarrow> rcp_bytes_t" where
  "rcp_avtp_encode_tscf mem hdr payload =
     (let payload_len = length payload in
      if payload_len > RCP_AVTP_TSCF_MAX_PAYLOAD then None
      else if \<not> mem then None
      else Some
        ([RCP_AVTP_SUBTYPE_TSCF,
          push_bit 7 (t_sv hdr AND 0x1) OR push_bit 4 (t_version hdr AND 0x7) OR
            push_bit 3 (mr hdr AND 0x1) OR (tv hdr AND 0x1),
          t_sequence_num hdr,
          tu hdr AND 0x1] @
         put_stream_id (t_stream_id hdr) @
         put_u32 (avtp_timestamp hdr) @
         [0, 0, 0, 0] @
         put_u16 (of_nat payload_len) @
         [0, 0] @
         payload))"

definition rcp_avtp_decode_tscf ::
    "bytes \<Rightarrow> rcp_avtp_errc_t + (rcp_avtp_tscf_header_t \<times> bytes)" where
  "rcp_avtp_decode_tscf b =
     (if length b < RCP_AVTP_TSCF_HEADER_LEN then Inl RCP_AVTP_ERR_SHORT_FRAME
      else if b ! 0 \<noteq> RCP_AVTP_SUBTYPE_TSCF then Inl RCP_AVTP_ERR_BAD_SUBTYPE
      else
        let dlen = get_u16 (drop 20 b) in
        if length b < RCP_AVTP_TSCF_HEADER_LEN + unat dlen then Inl RCP_AVTP_ERR_SHORT_FRAME
        else Inr (\<lparr>t_sv = drop_bit 7 (b ! 1) AND 0x1,
                   t_version = drop_bit 4 (b ! 1) AND 0x7,
                   mr = drop_bit 3 (b ! 1) AND 0x1,
                   tv = b ! 1 AND 0x1,
                   t_sequence_num = b ! 2,
                   tu = b ! 3 AND 0x1,
                   t_stream_id = get_stream_id (drop 4 b),
                   avtp_timestamp = get_u32 (drop 12 b),
                   stream_data_length = dlen,
                   reserved0 = get_u32 (drop 16 b),
                   reserved1 = get_u16 (drop 22 b)\<rparr>,
                  take (unat dlen) (drop RCP_AVTP_TSCF_HEADER_LEN b)))"

definition rcp_avtp_extend_timestamp :: "u32 \<Rightarrow> u64 \<Rightarrow> u64" where
  "rcp_avtp_extend_timestamp wire_ts reference_now =
     (let period = push_bit 32 1;
          half = period div 2;
          base = reference_now AND NOT (period - 1);
          candidate = base OR ucast wire_ts
      in if candidate > reference_now \<and> candidate - reference_now > half then candidate - period
         else if candidate < reference_now \<and> reference_now - candidate > half
         then candidate + period
         else candidate)"

section \<open>Subtype dispatch and the drop rule\<close>

definition rcp_avtp_peek_subtype :: "bytes \<Rightarrow> rcp_avtp_errc_t + byte" where
  "rcp_avtp_peek_subtype b =
     (if length b < 1 then Inl RCP_AVTP_ERR_SHORT_FRAME else Inr (b ! 0))"

datatype rcp_avtp_tscf_fallback_t = RCP_AVTP_TSCF_FALLBACK_DROP | RCP_AVTP_TSCF_FALLBACK_IGNORE

definition rcp_avtp_should_drop_tscf :: "bool \<Rightarrow> byte \<Rightarrow> rcp_avtp_tscf_fallback_t \<Rightarrow> bool" where
  "rcp_avtp_should_drop_tscf server_time_sync_supported subtype policy =
     (if subtype \<noteq> RCP_AVTP_SUBTYPE_TSCF then False
      else if \<not> server_time_sync_supported then policy = RCP_AVTP_TSCF_FALLBACK_DROP
      else False)"

definition rcp_avtp_tscf_reserved_all_zero :: "rcp_avtp_tscf_header_t \<Rightarrow> bool" where
  "rcp_avtp_tscf_reserved_all_zero hdr \<longleftrightarrow> reserved0 hdr = 0 \<and> reserved1 hdr = 0"

section \<open>Transport reference counts and the loopback transport\<close>

record rcp_avtp_loopback_transport_t =
  lb_refcount :: int
  time_sync_supported :: bool
  lb_closed :: bool
  items :: "rcp_bytes_t list"
  lb_head :: nat
  lb_count :: nat
  lb_cap :: nat

definition rcp_avtp_transport_retain ::
    "rcp_avtp_loopback_transport_t \<Rightarrow> rcp_avtp_loopback_transport_t" where
  "rcp_avtp_transport_retain t = t\<lparr>lb_refcount := lb_refcount t + 1\<rparr>"

text \<open>Releasing the last reference destroys the transport: no state is left.\<close>

definition rcp_avtp_transport_release ::
    "rcp_avtp_loopback_transport_t \<Rightarrow> rcp_avtp_loopback_transport_t option" where
  "rcp_avtp_transport_release t =
     (if lb_refcount t - 1 = 0 then None else Some (t\<lparr>lb_refcount := lb_refcount t - 1\<rparr>))"

definition loopback_send :: "bool \<Rightarrow> rcp_avtp_loopback_transport_t \<Rightarrow> bytes \<Rightarrow>
    rcp_errc_t \<times> rcp_avtp_loopback_transport_t" where
  "loopback_send mem lb frame =
     (if lb_closed lb then (RCP_ERR_CLOSED, lb)
      else if lb_count lb \<ge> lb_cap lb then (RCP_ERR_BUSY, lb)
      else
        let tail = (lb_head lb + lb_count lb) mod lb_cap lb in
        (RCP_OK, lb\<lparr>items := (items lb)[tail := rcp_bytes_dup mem frame],
                     lb_count := lb_count lb + 1\<rparr>))"

definition loopback_recv_waits :: "rcp_avtp_loopback_transport_t \<Rightarrow> bool \<Rightarrow> bool" where
  "loopback_recv_waits lb ctx_done \<longleftrightarrow> lb_count lb = 0 \<and> \<not> lb_closed lb \<and> \<not> ctx_done"

definition loopback_recv :: "rcp_avtp_loopback_transport_t \<Rightarrow> bool \<Rightarrow> nat \<Rightarrow>
    (rcp_errc_t \<times> bytes option \<times> rcp_avtp_loopback_transport_t) option" where
  "loopback_recv lb ctx_done buf_cap =
     (if loopback_recv_waits lb ctx_done then None
      else if lb_count lb = 0
      then Some (if lb_closed lb then RCP_ERR_CLOSED else RCP_ERR_TIMEOUT, None, lb)
      else
        let item = items lb ! lb_head lb in
        if rcp_bytes_len item > buf_cap then Some (RCP_ERR_BUSY, None, lb)
        else Some (RCP_OK, Some (rcp_bytes_data item),
                   lb\<lparr>items := (items lb)[lb_head lb := None],
                      lb_head := (lb_head lb + 1) mod lb_cap lb,
                      lb_count := lb_count lb - 1\<rparr>))"

definition loopback_close ::
    "rcp_avtp_loopback_transport_t \<Rightarrow> rcp_errc_t \<times> rcp_avtp_loopback_transport_t" where
  "loopback_close lb = (RCP_OK, lb\<lparr>lb_closed := True\<rparr>)"

definition rcp_avtp_loopback_transport_new ::
    "bool \<Rightarrow> bool \<Rightarrow> bool \<Rightarrow> nat \<Rightarrow> rcp_avtp_loopback_transport_t option" where
  "rcp_avtp_loopback_transport_new mem_lb mem_items sync queue_capacity =
     (let cap = if queue_capacity = 0 then 1 else queue_capacity in
      if \<not> mem_lb then None
      else if \<not> mem_items then None
      else Some \<lparr>lb_refcount = 1, time_sync_supported = sync, lb_closed = False,
                 items = replicate cap None, lb_head = 0, lb_count = 0, lb_cap = cap\<rparr>)"

section \<open>Stream identifier round trips\<close>

lemma length_put_stream_id [simp]: "stream_id_wf sid \<Longrightarrow> length (put_stream_id sid) = 8"
  by (simp add: stream_id_wf_def put_stream_id_def)

lemma get_put_stream_id [simp]: "stream_id_wf sid \<Longrightarrow> get_stream_id (put_stream_id sid @ r) = sid"
  by (simp add: stream_id_wf_def put_stream_id_def get_stream_id_def)

lemma stream_id_wf_get [simp]: "8 \<le> length p \<Longrightarrow> stream_id_wf (get_stream_id p)"
  by (simp add: stream_id_wf_def get_stream_id_def)

lemma stream_id_from_to_u64:
  "stream_id_wf sid \<Longrightarrow> rcp_stream_id_from_u64 (rcp_stream_id_to_u64 sid) = sid"
  unfolding stream_id_wf_def length_eq_6_conv
  by (cases sid, clarsimp simp: rcp_stream_id_from_u64_def rcp_stream_id_to_u64_def Let_def)
    (intro conjI word8_eqI word16_eqI; simp add: word_bits)

lemma stream_id_to_from_u64: "rcp_stream_id_to_u64 (rcp_stream_id_from_u64 v) = v"
  by (rule word64_eqI)
    (simp add: rcp_stream_id_from_u64_def rcp_stream_id_to_u64_def Let_def word_bits)

lemma stream_id_wf_from_u64: "stream_id_wf (rcp_stream_id_from_u64 v)"
  by (simp add: rcp_stream_id_from_u64_def stream_id_wf_def Let_def)

lemma stream_id_equal_iff [simp]: "rcp_stream_id_equal a b \<longleftrightarrow> a = b"
  by (cases a; cases b) (simp add: rcp_stream_id_equal_def)

lemma addr_equal_iff [simp]: "rcp_avtp_addr_equal a b \<longleftrightarrow> a = b"
  by (cases a; cases b) (simp add: rcp_avtp_addr_equal_def)

section \<open>The NTSCF codec\<close>

definition ntscf_canon :: "rcp_avtp_ntscf_header_t \<Rightarrow> bytes \<Rightarrow> rcp_avtp_ntscf_header_t" where
  "ntscf_canon h p = h\<lparr>n_sv := n_sv h AND 0x1, n_version := n_version h AND 0x7,
                       ntscf_data_length := of_nat (length p)\<rparr>"

definition ntscf_wf :: "rcp_avtp_ntscf_header_t \<Rightarrow> bool" where
  "ntscf_wf h \<longleftrightarrow> stream_id_wf (n_stream_id h)"

lemma ntscf_length_field:
  assumes "n \<le> 2047"
  shows "(push_bit 8 (ucast ((push_bit 7 (a AND 0x1) OR push_bit 4 (b AND 0x7) OR
            ucast (drop_bit 8 (of_nat n :: u64) AND 0x7)) AND 0x07 :: byte)) OR
          ucast (ucast ((of_nat n :: u64) AND 0xFF) :: byte)) = (of_nat n :: u16)"
proof -
  have n: "take_bit 11 n = n" using assms by (simp add: take_bit_eq_mod)
  show ?thesis
    by (subst (3) n [symmetric], rule word16_eqI) (simp add: word_bits)
qed

lemma ntscf_bits [field_laws]:
  fixes a b c :: byte and n :: u64
  shows "drop_bit 7 (push_bit 7 (a AND 0x1) OR push_bit 4 (b AND 0x7) OR
            ucast (drop_bit 8 n AND 0x7)) AND 0x1 = a AND 0x1"
    and "drop_bit 4 (push_bit 7 (a AND 0x1) OR push_bit 4 (b AND 0x7) OR
            ucast (drop_bit 8 n AND 0x7)) AND 0x7 = b AND 0x7"
  by (rule word8_eqI, simp add: word_bits)+

lemma ntscf_decode_encode:
  assumes "rcp_avtp_encode_ntscf mem h p = Some f" and "ntscf_wf h"
  shows "rcp_avtp_decode_ntscf (f @ rest) = Inr (ntscf_canon h p, p)"
proof -
  from assms have len: "length p \<le> 2047" and wf: "stream_id_wf (n_stream_id h)"
    by (auto simp: rcp_avtp_encode_ntscf_def consts_rcp ntscf_wf_def Let_def split: if_splits)
  from len have "unat (of_nat (length p) :: u16) = length p" by (simp add: unat_of_nat)
  with assms(1) len wf show ?thesis
    by (auto simp: rcp_avtp_encode_ntscf_def rcp_avtp_decode_ntscf_def consts_rcp Let_def
        ntscf_canon_def ntscf_length_field field_laws split: if_splits)
qed

lemma ntscf_encode_defined:
  "(rcp_avtp_encode_ntscf mem h p \<noteq> None) = (mem \<and> length p \<le> RCP_AVTP_NTSCF_MAX_PAYLOAD)"
  by (simp add: rcp_avtp_encode_ntscf_def Let_def)

lemma ntscf_decode_SomeD:
  assumes "rcp_avtp_decode_ntscf b = Inr (h, p)"
  shows "RCP_AVTP_NTSCF_HEADER_LEN \<le> length b" and "\<exists>rest. drop RCP_AVTP_NTSCF_HEADER_LEN b = p @ rest"
    and "ntscf_wf h" and "length p = unat (ntscf_data_length h)"
  using assms
  by (auto simp: rcp_avtp_decode_ntscf_def Let_def ntscf_wf_def consts_rcp split: if_splits
      intro: take_prefix_ex)

interpretation ntscf: wire_codec rcp_avtp_encode_ntscf rcp_avtp_decode_ntscf ntscf_wf ntscf_canon
  RCP_AVTP_NTSCF_HEADER_LEN RCP_AVTP_NTSCF_MAX_PAYLOAD
  by unfold_locales
    (simp_all add: ntscf_encode_defined ntscf_decode_encode ntscf_decode_SomeD(1,2) del: not_None_eq)

section \<open>The TSCF codec\<close>

definition tscf_canon :: "rcp_avtp_tscf_header_t \<Rightarrow> bytes \<Rightarrow> rcp_avtp_tscf_header_t" where
  "tscf_canon h p = h\<lparr>t_sv := t_sv h AND 0x1, t_version := t_version h AND 0x7,
     mr := mr h AND 0x1, tv := tv h AND 0x1, tu := tu h AND 0x1,
     stream_data_length := of_nat (length p), reserved0 := 0, reserved1 := 0\<rparr>"

definition tscf_wf :: "rcp_avtp_tscf_header_t \<Rightarrow> bool" where
  "tscf_wf h \<longleftrightarrow> stream_id_wf (t_stream_id h)"

lemma tscf_bits [field_laws]:
  fixes a b c d :: byte
  shows "drop_bit 7 (push_bit 7 (a AND 0x1) OR push_bit 4 (b AND 0x7) OR
            push_bit 3 (c AND 0x1) OR (d AND 0x1)) AND 0x1 = a AND 0x1"
    and "drop_bit 4 (push_bit 7 (a AND 0x1) OR push_bit 4 (b AND 0x7) OR
            push_bit 3 (c AND 0x1) OR (d AND 0x1)) AND 0x7 = b AND 0x7"
    and "drop_bit 3 (push_bit 7 (a AND 0x1) OR push_bit 4 (b AND 0x7) OR
            push_bit 3 (c AND 0x1) OR (d AND 0x1)) AND 0x1 = c AND 0x1"
    and "(push_bit 7 (a AND 0x1) OR push_bit 4 (b AND 0x7) OR
            push_bit 3 (c AND 0x1) OR (d AND 0x1)) AND 0x1 = d AND 0x1"
  by (rule word8_eqI, simp add: word_bits)+

lemma get_u16_zeros [simp]: "get_u16 (0 # 0 # r) = 0"
  by (simp add: get_u16_def)

lemma get_u32_zeros [simp]: "get_u32 (0 # 0 # 0 # 0 # r) = 0"
  by (simp add: get_u32_def)

lemma tscf_decode_encode:
  assumes "rcp_avtp_encode_tscf mem h p = Some f" and "tscf_wf h"
  shows "rcp_avtp_decode_tscf (f @ rest) = Inr (tscf_canon h p, p)"
proof -
  from assms have len: "length p \<le> 65535" and wf: "stream_id_wf (t_stream_id h)"
    by (auto simp: rcp_avtp_encode_tscf_def consts_rcp tscf_wf_def Let_def split: if_splits)
  from len have "unat (of_nat (length p) :: u16) = length p" by (simp add: unat_of_nat)
  with assms(1) len wf show ?thesis
    by (auto simp: rcp_avtp_encode_tscf_def rcp_avtp_decode_tscf_def consts_rcp Let_def
        tscf_canon_def field_laws split: if_splits)
qed

lemma tscf_encode_defined:
  "(rcp_avtp_encode_tscf mem h p \<noteq> None) = (mem \<and> length p \<le> RCP_AVTP_TSCF_MAX_PAYLOAD)"
  by (simp add: rcp_avtp_encode_tscf_def Let_def)

lemma tscf_decode_SomeD:
  assumes "rcp_avtp_decode_tscf b = Inr (h, p)"
  shows "RCP_AVTP_TSCF_HEADER_LEN \<le> length b" and "\<exists>rest. drop RCP_AVTP_TSCF_HEADER_LEN b = p @ rest"
    and "tscf_wf h" and "length p = unat (stream_data_length h)"
  using assms
  by (auto simp: rcp_avtp_decode_tscf_def Let_def tscf_wf_def consts_rcp split: if_splits
      intro: take_prefix_ex)

interpretation tscf: wire_codec rcp_avtp_encode_tscf rcp_avtp_decode_tscf tscf_wf tscf_canon
  RCP_AVTP_TSCF_HEADER_LEN RCP_AVTP_TSCF_MAX_PAYLOAD
  by unfold_locales
    (simp_all add: tscf_encode_defined tscf_decode_encode tscf_decode_SomeD(1,2) del: not_None_eq)

lemma ntscf_peek: "rcp_avtp_decode_ntscf b = Inr x \<Longrightarrow> rcp_avtp_peek_subtype b = Inr RCP_AVTP_SUBTYPE_NTSCF"
  by (auto simp: rcp_avtp_decode_ntscf_def rcp_avtp_peek_subtype_def consts_rcp Let_def split: if_splits)

lemma tscf_peek: "rcp_avtp_decode_tscf b = Inr x \<Longrightarrow> rcp_avtp_peek_subtype b = Inr RCP_AVTP_SUBTYPE_TSCF"
  by (auto simp: rcp_avtp_decode_tscf_def rcp_avtp_peek_subtype_def consts_rcp Let_def split: if_splits)

section \<open>Timestamp extension\<close>

lemma extend_base_uint:
  "uint (r AND NOT (push_bit 32 1 - 1) :: u64) = uint r div 0x100000000 * 0x100000000"
proof -
  have "r AND NOT (push_bit 32 1 - 1) = push_bit 32 (drop_bit 32 r)"
    by (rule word64_eqI) (simp add: word_bits)
  then have "uint (r AND NOT (push_bit 32 1 - 1)) = take_bit 64 (push_bit 32 (uint r div 0x100000000))"
    by (simp add: unsigned_push_bit_eq drop_bit_eq_div uint_div)
  also have "\<dots> = uint r div 0x100000000 * 0x100000000"
  proof (rule trans [OF _ take_bit_int_eq_self])
    show "uint r div 0x100000000 * 0x100000000 < 2 ^ 64" using uint_lt2p [of r] by simp
  qed (simp_all add: push_bit_eq_mult pos_imp_zdiv_nonneg_iff)
  finally show ?thesis .
qed

lemma extend_candidate_uint:
  "uint ((r AND NOT (push_bit 32 1 - 1)) OR ucast w :: u64) =
     uint r div 0x100000000 * 0x100000000 + uint (w :: u32)"
proof -
  let ?b = "r AND NOT (push_bit 32 1 - 1) :: u64"
  have "?b AND ucast w = 0"
    by (rule word64_eqI) (simp add: word_bits)
  then have or: "?b OR ucast w = ?b + ucast w" by (simp add: disjunctive_add_eq_or)
  have w: "uint (ucast w :: u64) = uint w"
    using uint_lt2p [of w] by (simp add: unsigned_ucast_eq take_bit_int_eq_self)
  define q m where "q = uint r div 0x100000000" and "m = uint r mod 0x100000000"
  have "uint r = q * 0x100000000 + m" "0 \<le> m" by (simp_all add: q_def m_def)
  moreover have "uint r < 0x10000000000000000" using uint_lt2p [of r] by simp
  moreover have "uint w < 0x100000000" using uint_lt2p [of w] by simp
  ultimately have "q < 0x100000000" "uint w < 0x100000000" by linarith+
  then have "uint r div 0x100000000 * 0x100000000 + uint w < 2 ^ 64"
    unfolding q_def [symmetric] by simp
  then have "uint ?b + uint (ucast w :: u64) < 2 ^ LENGTH(64)"
    by (simp only: extend_base_uint w) simp
  then have "uint (?b + ucast w) = uint ?b + uint (ucast w :: u64)"
    by (simp only: uint_add_lem)
  then show ?thesis unfolding or extend_base_uint w .
qed

definition extend_delta :: "u32 \<Rightarrow> u64 \<Rightarrow> int" where
  "extend_delta w r = (let d = uint w - uint r mod 0x100000000 in
     if d > 0x80000000 then d - 0x100000000 else if - d > 0x80000000 then d + 0x100000000 else d)"

lemma extend_delta_bound: "\<bar>extend_delta w r\<bar> \<le> 0x80000000"
proof -
  define m v where "m = uint r mod 0x100000000" and "v = uint w"
  have "0 \<le> v" "v < 0x100000000" "0 \<le> m" "m < 0x100000000"
    using uint_lt2p [of w] by (simp_all add: m_def v_def)
  then show ?thesis
    unfolding extend_delta_def Let_def m_def [symmetric] v_def [symmetric] by auto
qed

lemma extend_delta_cong: "(uint r + extend_delta w r) mod 0x100000000 = uint w"
proof -
  define m q where "m = uint r mod 0x100000000" and "q = uint r div 0x100000000"
  have r: "uint r = q * 0x100000000 + m" by (simp add: m_def q_def)
  have w: "uint w mod 0x100000000 = uint w" using uint_lt2p [of w] by simp
  define k :: int where "k = (if uint w - m > 0x80000000 then q - 1
    else if m - uint w > 0x80000000 then q + 1 else q)"
  have "uint r + extend_delta w r = uint w + k * 0x100000000"
    using r unfolding extend_delta_def Let_def m_def [symmetric] k_def by (auto split: if_splits)
  with w show ?thesis by simp
qed

lemma extend_timestamp_delta:
  "rcp_avtp_extend_timestamp w r = r + word_of_int (extend_delta w r)"
proof -
  define c where "c = (r AND NOT (push_bit 32 1 - 1)) OR ucast w"
  define m q where "m = uint r mod 0x100000000" and "q = uint r div 0x100000000"
  have uc: "uint c = q * 0x100000000 + uint w"
    unfolding c_def q_def by (rule extend_candidate_uint)
  have ur: "uint r = q * 0x100000000 + m" by (simp add: m_def q_def)
  have "word_of_int (uint c) = (word_of_int (uint r + (uint w - m)) :: u64)" 
    by (simp only: uc ur) (simp add: algebra_simps)
  then have c: "c = r + word_of_int (uint w - m)"
    by (simp add: algebra_simps)
  have gt: "c > r \<and> c - r > 0x80000000 \<longleftrightarrow> uint w - m > 0x80000000"
  proof (cases "uint c > uint r")
    case True
    then have "uint (c - r) = uint c - uint r" by (simp add: uint_sub_if')
    with True show ?thesis unfolding word_less_def by (simp add: uc ur)
  next
    case False
    then show ?thesis unfolding word_less_def by (simp add: uc ur)
  qed
  have lt: "c < r \<and> r - c > 0x80000000 \<longleftrightarrow> m - uint w > 0x80000000"
  proof (cases "uint r > uint c")
    case True
    then have "uint (r - c) = uint r - uint c" by (simp add: uint_sub_if')
    with True show ?thesis unfolding word_less_def by (simp add: uc ur)
  next
    case False
    then show ?thesis unfolding word_less_def by (simp add: uc ur)
  qed
  have "rcp_avtp_extend_timestamp w r = (if uint w - m > 0x80000000 then c - 0x100000000
    else if m - uint w > 0x80000000 then c + 0x100000000 else c)"
    unfolding rcp_avtp_extend_timestamp_def Let_def c_def [symmetric]
    using gt lt by simp
  then show ?thesis
    unfolding extend_delta_def Let_def m_def [symmetric] c by (simp add: algebra_simps)
qed

lemma extend_timestamp_low: "ucast (rcp_avtp_extend_timestamp w r) = w"
proof -
  have "uint (ucast (rcp_avtp_extend_timestamp w r) :: u32) = uint w"
    using extend_delta_cong [of r w]
    by (simp add: extend_timestamp_delta unsigned_ucast_eq take_bit_eq_mod uint_word_ariths
        uint_word_of_int mod_mod_cancel mod_add_right_eq)
  then show ?thesis by (simp only: word_uint_eq_iff)
qed

lemma extend_delta_nearest:
  assumes "ucast (r + word_of_int d) = w"
  shows "\<bar>extend_delta w r\<bar> \<le> \<bar>d\<bar>"
proof -
  from assms have "(uint r + d) mod 0x100000000 = uint w"
    by (auto simp: unsigned_ucast_eq take_bit_eq_mod uint_word_ariths
        uint_word_of_int mod_mod_cancel mod_add_right_eq)
  with extend_delta_cong [of r w] have "(uint r + d) mod 0x100000000 = (uint r + extend_delta w r) mod 0x100000000"
    by simp
  then have "0x100000000 dvd (d - extend_delta w r)"
    by (simp add: mod_eq_dvd_iff)
  then obtain k where k: "d = extend_delta w r + 0x100000000 * k"
    by (metis add_diff_cancel_left' dvd_def diff_add_cancel)
  show ?thesis
  proof (cases "k = 0")
    case False
    then have "\<bar>0x100000000 * k\<bar> \<ge> 0x100000000" by (simp add: abs_mult)
    with k extend_delta_bound [of w r] show ?thesis by linarith
  qed (use k in simp)
qed

section \<open>The loopback transport\<close>

text \<open>The queued frames, oldest first.\<close>

definition lb_frames :: "rcp_avtp_loopback_transport_t \<Rightarrow> bytes list" where
  "lb_frames lb =
     map (\<lambda>i. rcp_bytes_data (items lb ! ((lb_head lb + i) mod lb_cap lb))) [0..<lb_count lb]"

definition lb_invar :: "rcp_avtp_loopback_transport_t \<Rightarrow> bool" where
  "lb_invar lb \<longleftrightarrow> 0 < lb_cap lb \<and> length (items lb) = lb_cap lb \<and> lb_head lb < lb_cap lb \<and>
     lb_count lb \<le> lb_cap lb"

lemma length_lb_frames [simp]: "length (lb_frames lb) = lb_count lb"
  by (simp add: lb_frames_def)

lemma ring_slots_distinct:
  fixes h i j c :: nat
  assumes "i < c" and "j < c" and "i \<noteq> j"
  shows "(h + i) mod c \<noteq> (h + j) mod c"
proof
  assume "(h + i) mod c = (h + j) mod c"
  then have "i mod c = j mod c" by (simp add: nat_mod_eq_iff)
  with assms show False by simp
qed

lemma loopback_send_invar: "lb_invar lb \<Longrightarrow> lb_invar (snd (loopback_send mem lb frame))"
  by (simp add: loopback_send_def lb_invar_def Let_def)

lemma loopback_send_frames:
  assumes "lb_invar lb" and "loopback_send mem lb frame = (RCP_OK, lb')"
  shows "lb_frames lb' = lb_frames lb @ [rcp_bytes_data (rcp_bytes_dup mem frame)]"
proof -
  from assms have open_room: "\<not> lb_closed lb" "lb_count lb < lb_cap lb"
    and lb': "lb' = lb\<lparr>items := (items lb)[(lb_head lb + lb_count lb) mod lb_cap lb := rcp_bytes_dup mem frame],
                     lb_count := lb_count lb + 1\<rparr>"
    by (auto simp: loopback_send_def Let_def split: if_splits)
  have "(lb_head lb + lb_count lb) mod lb_cap lb \<noteq> (lb_head lb + i) mod lb_cap lb"
    if "i < lb_count lb" for i
    using that open_room(2) by (intro ring_slots_distinct) simp_all
  moreover have "(lb_head lb + lb_count lb) mod lb_cap lb < length (items lb)"
    using assms(1) by (simp add: lb_invar_def)
  ultimately show ?thesis by (simp add: lb_frames_def lb')
qed

lemma loopback_recv_frames:
  assumes "lb_invar lb" and "loopback_recv lb ctx_done buf_cap = Some (RCP_OK, Some frame, lb')"
  shows "lb_invar lb' \<and> lb_frames lb = frame # lb_frames lb' \<and> length frame \<le> buf_cap"
proof -
  from assms have count: "0 < lb_count lb" and cap: "rcp_bytes_len (items lb ! lb_head lb) \<le> buf_cap"
    and frame: "frame = rcp_bytes_data (items lb ! lb_head lb)"
    and lb': "lb' = lb\<lparr>items := (items lb)[lb_head lb := None],
                      lb_head := (lb_head lb + 1) mod lb_cap lb, lb_count := lb_count lb - 1\<rparr>"
    by (auto simp: loopback_recv_def Let_def split: if_splits)
  from assms(1) have inv: "lb_head lb < lb_cap lb" "lb_count lb \<le> lb_cap lb"
    by (auto simp: lb_invar_def)
  have other: "lb_head lb \<noteq> (lb_head lb + Suc i) mod lb_cap lb" if "i < lb_count lb - 1" for i
    using that inv ring_slots_distinct [of 0 "lb_cap lb" "Suc i" "lb_head lb"] by simp
  have "lb_frames lb = frame # map (\<lambda>i. rcp_bytes_data (items lb ! ((lb_head lb + Suc i) mod lb_cap lb))) [0..<lb_count lb - 1]"
    using count inv by (cases "lb_count lb") (simp_all add: lb_frames_def frame map_upt_Suc del: upt_Suc)
  moreover have "lb_frames lb' = map (\<lambda>i. rcp_bytes_data (items lb ! ((lb_head lb + Suc i) mod lb_cap lb))) [0..<lb_count lb - 1]"
    using other by (auto simp: lb_frames_def lb' mod_add_left_eq)
  ultimately show ?thesis
    using assms(1) cap frame by (auto simp: lb_invar_def lb' rcp_bytes_len_def)
qed

definition lb_push :: "rcp_avtp_loopback_transport_t \<Rightarrow> bytes \<Rightarrow> rcp_avtp_loopback_transport_t option" where
  "lb_push lb frame = (case loopback_send True lb frame of (RCP_OK, lb') \<Rightarrow> Some lb' | _ \<Rightarrow> None)"

definition lb_pop :: "nat \<Rightarrow> rcp_avtp_loopback_transport_t \<Rightarrow>
    (bytes \<times> rcp_avtp_loopback_transport_t) option" where
  "lb_pop mtu lb = (case loopback_recv lb True mtu of
      Some (RCP_OK, Some frame, lb') \<Rightarrow> Some (frame, lb') | _ \<Rightarrow> None)"

definition lb_open :: "nat \<Rightarrow> rcp_avtp_loopback_transport_t \<Rightarrow> bool" where
  "lb_open mtu lb \<longleftrightarrow> lb_invar lb \<and> \<not> lb_closed lb \<and> list_all (\<lambda>f. length f \<le> mtu) (lb_frames lb)"

lemma lb_frames_head: "0 < lb_count lb \<Longrightarrow> lb_invar lb \<Longrightarrow>
    lb_frames lb ! 0 = rcp_bytes_data (items lb ! lb_head lb)"
  by (simp add: lb_frames_def lb_invar_def)

lemma lb_push_Some:
  assumes "lb_open mtu lb" and "length x \<le> mtu" and "lb_push lb x = Some lb'"
  shows "lb_open mtu lb' \<and> lb_frames lb' = lb_frames lb @ [x] \<and> lb_cap lb' = lb_cap lb"
proof -
  from assms(3) have send: "loopback_send True lb x = (RCP_OK, lb')"
    by (auto simp: lb_push_def split: prod.splits rcp_errc_t.splits)
  then have "lb_frames lb' = lb_frames lb @ [x]"
    using assms(1) loopback_send_frames [OF _ send] by (simp add: lb_open_def)
  moreover have "lb_invar lb'"
    using assms(1) loopback_send_invar [of lb True x] send by (simp add: lb_open_def)
  ultimately show ?thesis
    using assms(1,2) send by (auto simp: lb_open_def loopback_send_def Let_def split: if_splits)
qed

lemma lb_pop_Some:
  assumes "lb_open mtu lb" and "lb_pop mtu lb = Some (x, lb')"
  shows "lb_open mtu lb' \<and> lb_frames lb = x # lb_frames lb' \<and> lb_cap lb' = lb_cap lb"
proof -
  from assms(2) have recv: "loopback_recv lb True mtu = Some (RCP_OK, Some x, lb')"
    by (auto simp: lb_pop_def split: option.splits prod.splits rcp_errc_t.splits)
  with assms(1) have "lb_invar lb' \<and> lb_frames lb = x # lb_frames lb'"
    using loopback_recv_frames [OF _ recv] by (simp add: lb_open_def)
  with assms(1) recv show ?thesis
    by (auto simp: lb_open_def loopback_recv_def Let_def split: if_splits)
qed

lemma lb_push_None: "lb_open mtu lb \<Longrightarrow> (lb_push lb x = None) = (lb_cap lb \<le> lb_count lb)"
  by (auto simp: lb_push_def lb_open_def loopback_send_def Let_def)

lemma lb_pop_None:
  assumes "lb_open mtu lb"
  shows "(lb_pop mtu lb = None) = (lb_frames lb = [])"
proof (cases "lb_count lb = 0")
  case True
  then show ?thesis using assms
    by (simp add: lb_pop_def loopback_recv_def loopback_recv_waits_def lb_frames_def lb_open_def)
next
  case False
  then have "lb_frames lb ! 0 \<in> set (lb_frames lb)" by (intro nth_mem) simp
  with assms False have "length (rcp_bytes_data (items lb ! lb_head lb)) \<le> mtu"
    by (auto simp: lb_open_def list_all_iff lb_frames_head)
  with False show ?thesis
    by (auto simp: lb_pop_def loopback_recv_def loopback_recv_waits_def Let_def rcp_bytes_len_def
        lb_frames_def)
qed

interpretation loopback: bounded_fifo lb_push "lb_pop mtu" lb_frames lb_cap "lb_open mtu"
    "\<lambda>f. length f \<le> mtu" for mtu
proof unfold_locales
  fix s x assume "lb_open mtu s"
  then show "(lb_push s x = None) = (lb_cap s \<le> length (lb_frames s))"
    by (simp add: lb_push_None)
next
  fix s assume "lb_open mtu s"
  then show "(lb_pop mtu s = None) = (lb_frames s = [])" by (rule lb_pop_None)
qed (rule lb_push_Some lb_pop_Some; assumption)+

lemma lb_open_new:
  assumes "rcp_avtp_loopback_transport_new True True sync n = Some lb"
  shows "lb_open mtu lb" and "lb_frames lb = []" and "lb_cap lb = max 1 n"
  using assms
  by (auto simp: rcp_avtp_loopback_transport_new_def Let_def lb_open_def lb_invar_def lb_frames_def)

section \<open>Properties\<close>

text \<open>Encoding an NTSCF header with a payload of at most 2047 octets produces a frame, and
  decoding that frame, whatever octets follow it, gives the payload back together with the header
  cut to its wire widths and with the length field set to the payload length.\<close>

theorem ntscf_roundtrip:
  assumes "ntscf_wf h" and "length p \<le> RCP_AVTP_NTSCF_MAX_PAYLOAD"
  shows "\<exists>f. rcp_avtp_encode_ntscf True h p = Some f \<and>
             rcp_avtp_decode_ntscf (f @ rest) = Inr (ntscf_canon h p, p)"
  using assms by (rule ntscf.roundtrip)

definition ntscf_sample :: rcp_avtp_ntscf_header_t where
  "ntscf_sample = \<lparr>n_sv = 1, n_version = 0, ntscf_data_length = 0, n_sequence_num = 7,
     n_stream_id = \<lparr>mac = [2, 0, 0, 0, 0, 1], unique_id = 0x1234\<rparr>\<rparr>"

theorem ntscf_roundtrip_witness:
  "\<exists>f. rcp_avtp_encode_ntscf True ntscf_sample [0xAB, 0xCD] = Some f \<and>
       rcp_avtp_decode_ntscf (f @ [0xFF]) = Inr (ntscf_canon ntscf_sample [0xAB, 0xCD], [0xAB, 0xCD])"
  by (rule ntscf_roundtrip)
    (simp_all add: ntscf_sample_def ntscf_wf_def stream_id_wf_def consts_rcp)

text \<open>Encoding a TSCF header with a payload of at most 65535 octets produces a frame that
  decodes to the payload and the header on its wire widths, with the reserved fields read as zero.\<close>

theorem tscf_roundtrip:
  assumes "tscf_wf h" and "length p \<le> RCP_AVTP_TSCF_MAX_PAYLOAD"
  shows "\<exists>f. rcp_avtp_encode_tscf True h p = Some f \<and>
             rcp_avtp_decode_tscf (f @ rest) = Inr (tscf_canon h p, p) \<and>
             rcp_avtp_tscf_reserved_all_zero (tscf_canon h p)"
  using tscf.roundtrip [OF assms, of rest]
  by (auto simp: rcp_avtp_tscf_reserved_all_zero_def tscf_canon_def)

definition tscf_sample :: rcp_avtp_tscf_header_t where
  "tscf_sample = \<lparr>t_sv = 1, t_version = 0, mr = 0, tv = 1, t_sequence_num = 9, tu = 0,
     t_stream_id = \<lparr>mac = [2, 0, 0, 0, 0, 1], unique_id = 5\<rparr>, avtp_timestamp = 0xDEADBEEF,
     stream_data_length = 0, reserved0 = 3, reserved1 = 4\<rparr>"

theorem tscf_roundtrip_witness:
  "\<exists>f. rcp_avtp_encode_tscf True tscf_sample [1, 2, 3] = Some f \<and>
       rcp_avtp_decode_tscf (f @ []) = Inr (tscf_canon tscf_sample [1, 2, 3], [1, 2, 3]) \<and>
       rcp_avtp_tscf_reserved_all_zero (tscf_canon tscf_sample [1, 2, 3])"
  by (rule tscf_roundtrip)
    (simp_all add: tscf_sample_def tscf_wf_def stream_id_wf_def consts_rcp)

text \<open>Of all instants congruent to the 32-bit wire timestamp, \<^verbatim>\<open>rcp_avtp_extend_timestamp\<close>
  returns one whose signed distance to the reference clock is at most half a period and is minimal;
  its low 32 bits are the wire timestamp.\<close>

theorem extend_timestamp_nearest:
  "\<exists>d. rcp_avtp_extend_timestamp w r = r + word_of_int d \<and> \<bar>d\<bar> \<le> 2 ^ 31 \<and>
       ucast (rcp_avtp_extend_timestamp w r) = w \<and>
       {d'. ucast (r + word_of_int d') = w} \<subseteq> {d'. \<bar>d\<bar> \<le> \<bar>d'\<bar>}"
  using extend_timestamp_delta [of w r] extend_delta_bound [of w r] extend_delta_nearest [of r _ w]
    extend_timestamp_low [of w r]
  by (intro exI [of _ "extend_delta w r"]) auto

text \<open>On a new loopback transport every frame sent within the queue capacity (at least one)
  is received again, in the order of sending, by a receiver whose buffer holds each frame, and the
  queue is empty afterwards.\<close>

theorem loopback_fifo:
  assumes "rcp_avtp_loopback_transport_new True True sync n = Some lb"
    and "list_all (\<lambda>f. length f \<le> mtu) frames" and "length frames \<le> max 1 n"
  shows "\<exists>t u. loopback.push_all lb frames = Some t \<and>
             loopback.pop_n mtu (length frames) t = Some (frames, u) \<and> lb_frames u = []"
  using loopback.fifo_order [OF lb_open_new(1,2) [OF assms(1)] assms(2)] assms(3)
  by (simp add: lb_open_new(3) [OF assms(1)])

theorem loopback_fifo_witness:
  "\<exists>lb. rcp_avtp_loopback_transport_new True True False 2 = Some lb \<and>
     (\<exists>t u. loopback.push_all lb [[1, 2], [3]] = Some t \<and>
             loopback.pop_n 10 (length [[1, 2], [3 :: byte]]) t = Some ([[1, 2], [3]], u) \<and>
             lb_frames u = [])"
  using loopback_fifo [of False 2 _ 10 "[[1, 2], [3]]"]
  by (simp add: rcp_avtp_loopback_transport_new_def)

end
