(* ===== verification/Acf.thy ===== *)
theory Acf
  imports Avtp
begin

text \<open>
  \<^verbatim>\<open>src/acf.c\<close> and \<^verbatim>\<open>include/rcp/acf.h\<close>: the byte message header, the ACF_ABB
  and ACF_GBB codecs, response classification, the builders of error and acknowledge responses, and
  the comparison rule of compound-wait requests.  Both codecs are interpretations of
  \<open>wire_codec\<close>.  The fields of the C struct carry the prefix \<open>bm_\<close>.
\<close>

section \<open>Data\<close>

datatype rcp_acf_errc_t = RCP_ACF_OK | RCP_ACF_ERR_SHORT_FRAME | RCP_ACF_ERR_BAD_MSG_TYPE

definition RCP_ACF_MSG_TYPE_ABB :: byte where [consts_rcp]: "RCP_ACF_MSG_TYPE_ABB = 0x0E"
definition RCP_ACF_MSG_TYPE_GBB :: byte where [consts_rcp]: "RCP_ACF_MSG_TYPE_GBB = 0x0D"
definition RCP_ACF_ABB_HEADER_LEN :: nat where [consts_rcp]: "RCP_ACF_ABB_HEADER_LEN = 8"
definition RCP_ACF_GBB_HEADER_LEN :: nat where [consts_rcp]: "RCP_ACF_GBB_HEADER_LEN = 16"
definition RCP_ACF_MAX_QUADLETS :: u16 where [consts_rcp]: "RCP_ACF_MAX_QUADLETS = 0x1FF"
definition RCP_ACF_ABB_MAX_PAYLOAD :: nat where
  [consts_rcp]: "RCP_ACF_ABB_MAX_PAYLOAD = 0x1FF * 4 - 8"
definition RCP_ACF_GBB_MAX_PAYLOAD :: nat where
  [consts_rcp]: "RCP_ACF_GBB_MAX_PAYLOAD = 0x1FF * 4 - 16"

definition RCP_ACF_MTV_UNTIMED :: byte where [consts_rcp]: "RCP_ACF_MTV_UNTIMED = 0"
definition RCP_ACF_MTV_VALID :: byte where [consts_rcp]: "RCP_ACF_MTV_VALID = 1"
definition RCP_ACF_OP_NONE :: byte where [consts_rcp]: "RCP_ACF_OP_NONE = 0"
definition RCP_ACF_OP_WRITE :: byte where [consts_rcp]: "RCP_ACF_OP_WRITE = 1"
definition RCP_ACF_OP_READ :: byte where [consts_rcp]: "RCP_ACF_OP_READ = 2"
definition RCP_ACF_EVT_ACKNOWLEDGE :: byte where [consts_rcp]: "RCP_ACF_EVT_ACKNOWLEDGE = 0x0F"

datatype rcp_acf_response_kind_t =
    RCP_ACF_RESP_ACKNOWLEDGE | RCP_ACF_RESP_WRITE | RCP_ACF_RESP_READ | RCP_ACF_RESP_ERROR

datatype rcp_acf_rss_kind_t = RCP_ACF_RSS_READ_SIZE | RCP_ACF_RSS_SEGMENT_NUM

record rcp_acf_byte_message_info_t =
  bm_msg_type :: byte
  bm_msg_length :: u16
  bm_pad :: byte
  bm_mtv :: byte
  bm_byte_bus_id :: rcp_byte_bus_id_t
  bm_evt :: byte
  bm_hs :: byte
  bm_cs :: byte
  bm_transaction_num :: byte
  bm_op :: byte
  bm_rsp :: byte
  bm_err :: byte
  bm_ms :: byte
  bm_read_size_or_segment_num :: u16

record rcp_acf_gbb_header_t =
  gbb_info :: rcp_acf_byte_message_info_t
  message_timestamp :: u64

definition zero_info :: rcp_acf_byte_message_info_t where
  "zero_info = \<lparr>bm_msg_type = 0, bm_msg_length = 0, bm_pad = 0, bm_mtv = 0, bm_byte_bus_id = 0,
     bm_evt = 0, bm_hs = 0, bm_cs = 0, bm_transaction_num = 0, bm_op = 0, bm_rsp = 0, bm_err = 0,
     bm_ms = 0, bm_read_size_or_segment_num = 0\<rparr>"

section \<open>Header packing\<close>

definition rcp_acf_pack_header :: "byte \<Rightarrow> u16 \<Rightarrow> rcp_acf_byte_message_info_t \<Rightarrow> bytes" where
  "rcp_acf_pack_header msg_type msg_length hdr =
     (let op_bit = (if bm_op hdr = RCP_ACF_OP_READ then 0 else 1) :: byte in
      [push_bit 1 msg_type OR ucast (drop_bit 8 msg_length AND 0x01),
       ucast (msg_length AND 0xFF),
       push_bit 6 (bm_pad hdr AND 0x3) OR push_bit 5 (bm_mtv hdr AND 0x1) OR
         ucast (drop_bit 8 (bm_byte_bus_id hdr) AND 0x7),
       ucast (bm_byte_bus_id hdr AND 0xFF),
       push_bit 4 (bm_evt hdr AND 0xF) OR push_bit 1 (bm_hs hdr AND 0x1) OR (bm_cs hdr AND 0x1),
       bm_transaction_num hdr,
       push_bit 7 op_bit OR push_bit 6 (bm_rsp hdr AND 0x1) OR push_bit 5 (bm_err hdr AND 0x1) OR
         push_bit 4 (bm_ms hdr AND 0x1) OR
         ucast (drop_bit 8 (bm_read_size_or_segment_num hdr) AND 0xF),
       ucast (bm_read_size_or_segment_num hdr AND 0xFF)])"

definition rcp_acf_unpack_header :: "bytes \<Rightarrow> rcp_acf_byte_message_info_t" where
  "rcp_acf_unpack_header b =
     \<lparr>bm_msg_type = drop_bit 1 (b ! 0),
      bm_msg_length = push_bit 8 (ucast (b ! 0 AND 0x01)) OR ucast (b ! 1),
      bm_pad = drop_bit 6 (b ! 2) AND 0x3,
      bm_mtv = drop_bit 5 (b ! 2) AND 0x1,
      bm_byte_bus_id = push_bit 8 (ucast (b ! 2 AND 0x07)) OR ucast (b ! 3),
      bm_evt = drop_bit 4 (b ! 4) AND 0xF,
      bm_hs = drop_bit 1 (b ! 4) AND 0x1,
      bm_cs = b ! 4 AND 0x1,
      bm_transaction_num = b ! 5,
      bm_op = (if drop_bit 7 (b ! 6) AND 0x1 \<noteq> 0 then RCP_ACF_OP_WRITE else RCP_ACF_OP_READ),
      bm_rsp = drop_bit 6 (b ! 6) AND 0x1,
      bm_err = drop_bit 5 (b ! 6) AND 0x1,
      bm_ms = drop_bit 4 (b ! 6) AND 0x1,
      bm_read_size_or_segment_num = push_bit 8 (ucast (b ! 6 AND 0x0F)) OR ucast (b ! 7)\<rparr>"

definition rcp_acf_peek_gbb_request_type :: "bytes \<Rightarrow> byte option" where
  "rcp_acf_peek_gbb_request_type frame =
     (if length frame < 9 then None
      else if bm_msg_type (rcp_acf_unpack_header frame) \<noteq> RCP_ACF_MSG_TYPE_GBB then None
      else Some (frame ! 8))"

definition rcp_acf_pad_len :: "nat \<Rightarrow> byte" where
  "rcp_acf_pad_len unpadded_len = of_nat ((4 - unpadded_len mod 4) mod 4)"

definition rcp_acf_reg_write_len :: "u16 \<Rightarrow> byte \<Rightarrow> nat" where
  "rcp_acf_reg_write_len msg_length pad =
     (if msg_length < 3 then 0
      else
        let total_octets = unat (msg_length - 3) * 4;
            overhead = unat pad + 2
        in if overhead > total_octets then 0 else total_octets - overhead)"

section \<open>Response semantics\<close>

definition rcp_acf_classify_response ::
    "rcp_acf_byte_message_info_t \<Rightarrow> rcp_acf_response_kind_t" where
  "rcp_acf_classify_response hdr =
     (if bm_evt hdr = RCP_ACF_EVT_ACKNOWLEDGE then RCP_ACF_RESP_ACKNOWLEDGE
      else if bm_err hdr \<noteq> 0 then RCP_ACF_RESP_ERROR
      else if bm_op hdr = RCP_ACF_OP_WRITE then RCP_ACF_RESP_WRITE
      else if bm_op hdr = RCP_ACF_OP_READ then RCP_ACF_RESP_READ
      else RCP_ACF_RESP_ACKNOWLEDGE)"

definition rcp_acf_read_size_or_segment_num_kind ::
    "rcp_acf_byte_message_info_t \<Rightarrow> rcp_acf_rss_kind_t" where
  "rcp_acf_read_size_or_segment_num_kind hdr =
     (if bm_op hdr = RCP_ACF_OP_READ then RCP_ACF_RSS_READ_SIZE else RCP_ACF_RSS_SEGMENT_NUM)"

definition rcp_acf_request_header_constraints_valid ::
    "rcp_acf_byte_message_info_t \<Rightarrow> bool \<Rightarrow> bool" where
  "rcp_acf_request_header_constraints_valid hdr cs_has_meaning =
     (if bm_hs hdr \<noteq> 0 then False
      else if bm_rsp hdr \<noteq> 0 then False
      else if bm_err hdr \<noteq> 0 then False
      else if \<not> cs_has_meaning \<and> bm_cs hdr \<noteq> 0 then False
      else True)"

definition rcp_acf_header_is_request :: "rcp_acf_byte_message_info_t \<Rightarrow> bool" where
  "rcp_acf_header_is_request hdr \<longleftrightarrow> bm_rsp hdr = 0"

definition rcp_acf_evt_row2_is_plain :: "byte \<Rightarrow> bool" where
  "rcp_acf_evt_row2_is_plain evt \<longleftrightarrow> evt AND 0x7 = 0"

section \<open>Compound-wait comparison\<close>

definition rcp_acf_compound_wait_evt_valid :: "byte \<Rightarrow> bool" where
  "rcp_acf_compound_wait_evt_valid evt \<longleftrightarrow> evt AND 0x7 \<noteq> 0x3"

text \<open>The C function \<^verbatim>\<open>be16\<close> is \<open>get_u16\<close>.\<close>

definition rcp_acf_compound_wait_match :: "byte \<Rightarrow> bytes \<Rightarrow> bytes \<Rightarrow> bool" where
  "rcp_acf_compound_wait_match evt payload status =
     (let mode = evt AND 0x7; n = length payload in
      if length status < n then False
      else if mode = 0x0 then n = 0 \<or> take n status = payload
      else if mode = 0x1
      then list_all (\<lambda>i. (payload ! i AND status ! i) OR NOT (payload ! i) = 0xFF) [0..<n]
      else if mode = 0x2 then list_all (\<lambda>i. payload ! i AND status ! i = 0x00) [0..<n]
      else if mode = 0x4 \<or> mode = 0x5 then
        (if n < 4 then False
         else if mode = 0x4 then get_u16 payload \<ge> get_u16 status
         else get_u16 payload \<le> get_u16 status)
      else if mode = 0x6 \<or> mode = 0x7 then
        (if n < 4 then False
         else if mode = 0x6 then get_u16 (drop 2 payload) \<ge> get_u16 (drop 2 status)
         else get_u16 (drop 2 payload) \<le> get_u16 (drop 2 status))
      else False)"

section \<open>ACF_ABB\<close>

definition rcp_acf_encode_abb ::
    "bool \<Rightarrow> rcp_acf_byte_message_info_t \<Rightarrow> bytes \<Rightarrow> rcp_bytes_t" where
  "rcp_acf_encode_abb mem hdr payload =
     (let payload_len = length payload in
      if payload_len > RCP_ACF_ABB_MAX_PAYLOAD then None
      else
        let unpadded = RCP_ACF_ABB_HEADER_LEN + payload_len;
            pad = rcp_acf_pad_len unpadded;
            total = unpadded + unat pad;
            quadlets = (of_nat (total div 4) :: u16)
        in if quadlets > RCP_ACF_MAX_QUADLETS then None
           else if \<not> mem then None
           else Some (rcp_acf_pack_header RCP_ACF_MSG_TYPE_ABB quadlets (hdr\<lparr>bm_pad := pad\<rparr>) @
                      payload @ replicate (unat pad) 0))"

definition rcp_acf_decode_abb ::
    "bytes \<Rightarrow> rcp_acf_errc_t + (rcp_acf_byte_message_info_t \<times> bytes)" where
  "rcp_acf_decode_abb b =
     (if length b < RCP_ACF_ABB_HEADER_LEN then Inl RCP_ACF_ERR_SHORT_FRAME
      else if drop_bit 1 (b ! 0) \<noteq> RCP_ACF_MSG_TYPE_ABB then Inl RCP_ACF_ERR_BAD_MSG_TYPE
      else
        let hdr = rcp_acf_unpack_header b;
            total = unat (bm_msg_length hdr) * 4
        in if total < RCP_ACF_ABB_HEADER_LEN then Inl RCP_ACF_ERR_SHORT_FRAME
           else if length b < total then Inl RCP_ACF_ERR_SHORT_FRAME
           else
             let body_len = total - RCP_ACF_ABB_HEADER_LEN in
             if unat (bm_pad hdr) > body_len then Inl RCP_ACF_ERR_SHORT_FRAME
             else Inr (hdr\<lparr>bm_mtv := RCP_ACF_MTV_UNTIMED\<rparr>,
                       take (body_len - unat (bm_pad hdr)) (drop RCP_ACF_ABB_HEADER_LEN b)))"

definition rcp_acf_build_error_response ::
    "bool \<Rightarrow> rcp_byte_bus_id_t \<Rightarrow> byte \<Rightarrow> rcp_wire_error_t \<Rightarrow> rcp_bytes_t" where
  "rcp_acf_build_error_response mem bus tn error_code =
     rcp_acf_encode_abb mem
       (zero_info\<lparr>bm_byte_bus_id := bus, bm_transaction_num := tn, bm_evt := 0,
                  bm_op := RCP_ACF_OP_NONE, bm_rsp := 1, bm_err := 1\<rparr>)
       [wire_error_code error_code]"

definition rcp_acf_evt_requests_acknowledge :: "byte \<Rightarrow> bool" where
  "rcp_acf_evt_requests_acknowledge evt \<longleftrightarrow> evt AND 0x08 \<noteq> 0"

definition rcp_acf_build_acknowledge_response ::
    "bool \<Rightarrow> rcp_byte_bus_id_t \<Rightarrow> byte \<Rightarrow> rcp_bytes_t" where
  "rcp_acf_build_acknowledge_response mem bus tn =
     rcp_acf_encode_abb mem
       (zero_info\<lparr>bm_byte_bus_id := bus, bm_transaction_num := tn,
                  bm_evt := RCP_ACF_EVT_ACKNOWLEDGE, bm_op := RCP_ACF_OP_NONE, bm_rsp := 1,
                  bm_err := 0\<rparr>)
       []"

definition rcp_acf_build_acknowledge_rejected_response ::
    "bool \<Rightarrow> rcp_byte_bus_id_t \<Rightarrow> byte \<Rightarrow> rcp_wire_error_t \<Rightarrow> rcp_bytes_t" where
  "rcp_acf_build_acknowledge_rejected_response mem bus tn error_code =
     rcp_acf_encode_abb mem
       (zero_info\<lparr>bm_byte_bus_id := bus, bm_transaction_num := tn,
                  bm_evt := RCP_ACF_EVT_ACKNOWLEDGE, bm_op := RCP_ACF_OP_NONE, bm_rsp := 1,
                  bm_err := 1\<rparr>)
       [wire_error_code error_code]"

section \<open>ACF_GBB\<close>

definition rcp_acf_encode_gbb :: "bool \<Rightarrow> rcp_acf_gbb_header_t \<Rightarrow> bytes \<Rightarrow> rcp_bytes_t" where
  "rcp_acf_encode_gbb mem hdr payload =
     (let payload_len = length payload in
      if payload_len > RCP_ACF_GBB_MAX_PAYLOAD then None
      else
        let unpadded = RCP_ACF_GBB_HEADER_LEN + payload_len;
            pad = rcp_acf_pad_len unpadded;
            total = unpadded + unat pad;
            quadlets = (of_nat (total div 4) :: u16);
            ts = (if bm_mtv (gbb_info hdr) = RCP_ACF_MTV_UNTIMED then 0 else message_timestamp hdr)
        in if quadlets > RCP_ACF_MAX_QUADLETS then None
           else if \<not> mem then None
           else Some (rcp_acf_pack_header RCP_ACF_MSG_TYPE_GBB quadlets
                        ((gbb_info hdr)\<lparr>bm_pad := pad\<rparr>) @
                      put_u64 ts @ payload @ replicate (unat pad) 0))"

definition rcp_acf_decode_gbb ::
    "bytes \<Rightarrow> rcp_acf_errc_t + (rcp_acf_gbb_header_t \<times> bytes)" where
  "rcp_acf_decode_gbb b =
     (if length b < RCP_ACF_GBB_HEADER_LEN then Inl RCP_ACF_ERR_SHORT_FRAME
      else if drop_bit 1 (b ! 0) \<noteq> RCP_ACF_MSG_TYPE_GBB then Inl RCP_ACF_ERR_BAD_MSG_TYPE
      else
        let info = rcp_acf_unpack_header b;
            total = unat (bm_msg_length info) * 4
        in if total < RCP_ACF_GBB_HEADER_LEN then Inl RCP_ACF_ERR_SHORT_FRAME
           else if length b < total then Inl RCP_ACF_ERR_SHORT_FRAME
           else
             let body_len = total - RCP_ACF_GBB_HEADER_LEN in
             if unat (bm_pad info) > body_len then Inl RCP_ACF_ERR_SHORT_FRAME
             else Inr (\<lparr>gbb_info = info,
                        message_timestamp = get_u64 (drop RCP_ACF_ABB_HEADER_LEN b)\<rparr>,
                       take (body_len - unat (bm_pad info)) (drop RCP_ACF_GBB_HEADER_LEN b)))"

definition rcp_acf_gbb_is_timed :: "rcp_acf_gbb_header_t \<Rightarrow> bool" where
  "rcp_acf_gbb_is_timed hdr \<longleftrightarrow> bm_mtv (gbb_info hdr) = RCP_ACF_MTV_VALID"

definition rcp_acf_peek_msg_type :: "bytes \<Rightarrow> rcp_acf_errc_t + byte" where
  "rcp_acf_peek_msg_type b =
     (if length b < 1 then Inl RCP_ACF_ERR_SHORT_FRAME else Inr (drop_bit 1 (b ! 0)))"

section \<open>Header round trip\<close>

text \<open>What a header becomes on the wire.\<close>

definition info_canon ::
    "byte \<Rightarrow> u16 \<Rightarrow> rcp_acf_byte_message_info_t \<Rightarrow> rcp_acf_byte_message_info_t" where
  "info_canon msg_type msg_length h =
     \<lparr>bm_msg_type = msg_type AND 0x7F, bm_msg_length = msg_length AND 0x1FF,
      bm_pad = bm_pad h AND 0x3, bm_mtv = bm_mtv h AND 0x1,
      bm_byte_bus_id = bm_byte_bus_id h AND 0x7FF, bm_evt = bm_evt h AND 0xF,
      bm_hs = bm_hs h AND 0x1, bm_cs = bm_cs h AND 0x1,
      bm_transaction_num = bm_transaction_num h,
      bm_op = (if bm_op h = RCP_ACF_OP_READ then RCP_ACF_OP_READ else RCP_ACF_OP_WRITE),
      bm_rsp = bm_rsp h AND 0x1, bm_err = bm_err h AND 0x1, bm_ms = bm_ms h AND 0x1,
      bm_read_size_or_segment_num = bm_read_size_or_segment_num h AND 0xFFF\<rparr>"

lemma length_pack_header [simp]: "length (rcp_acf_pack_header t l h) = 8"
  by (simp add: rcp_acf_pack_header_def Let_def)

lemma acf_octet0 [field_laws]:
  fixes t :: byte and l :: u16
  shows "drop_bit (Suc 0) (push_bit (Suc 0) t OR ucast (drop_bit 8 l AND 0x01)) = t AND 0x7F"
    and "push_bit 8 (ucast ((push_bit (Suc 0) t OR ucast (drop_bit 8 l AND 0x01)) AND 0x01)) OR
         ucast (ucast (l AND 0xFF) :: byte) = l AND 0x1FF"
  by (rule word8_eqI word16_eqI, simp add: word_bits)+

lemma acf_octet2 [field_laws]:
  fixes a b :: byte and s :: u16
  shows "drop_bit 6 (push_bit 6 (a AND 0x3) OR push_bit 5 (b AND 0x1) OR
            ucast (drop_bit 8 s AND 0x7)) AND 0x3 = a AND 0x3"
    and "drop_bit 5 (push_bit 6 (a AND 0x3) OR push_bit 5 (b AND 0x1) OR
            ucast (drop_bit 8 s AND 0x7)) AND 0x1 = b AND 0x1"
    and "push_bit 8 (ucast ((push_bit 6 (a AND 0x3) OR push_bit 5 (b AND 0x1) OR
            ucast (drop_bit 8 s AND 0x7)) AND 0x07)) OR ucast (ucast (s AND 0xFF) :: byte) =
         s AND 0x7FF"
  by (rule word8_eqI word16_eqI, simp add: word_bits)+

lemma acf_octet4 [field_laws]:
  fixes a b c :: byte
  shows "drop_bit 4 (push_bit 4 (a AND 0xF) OR push_bit (Suc 0) (b AND 0x1) OR (c AND 0x1)) AND 0xF =
         a AND 0xF"
    and "drop_bit (Suc 0) (push_bit 4 (a AND 0xF) OR push_bit (Suc 0) (b AND 0x1) OR (c AND 0x1)) AND 0x1 =
         b AND 0x1"
    and "(push_bit 4 (a AND 0xF) OR push_bit (Suc 0) (b AND 0x1) OR (c AND 0x1)) AND 0x1 = c AND 0x1"
  by (rule word8_eqI, simp add: word_bits)+

lemma acf_octet6 [field_laws]:
  fixes o' a b c :: byte and s :: u16
  assumes "o' = 0 \<or> o' = 1"
  shows "drop_bit 7 (push_bit 7 o' OR push_bit 6 (a AND 0x1) OR push_bit 5 (b AND 0x1) OR
           push_bit 4 (c AND 0x1) OR ucast (drop_bit 8 s AND 0xF)) AND 0x1 = o'"
    and "drop_bit 6 (push_bit 7 o' OR push_bit 6 (a AND 0x1) OR push_bit 5 (b AND 0x1) OR
           push_bit 4 (c AND 0x1) OR ucast (drop_bit 8 s AND 0xF)) AND 0x1 = a AND 0x1"
    and "drop_bit 5 (push_bit 7 o' OR push_bit 6 (a AND 0x1) OR push_bit 5 (b AND 0x1) OR
           push_bit 4 (c AND 0x1) OR ucast (drop_bit 8 s AND 0xF)) AND 0x1 = b AND 0x1"
    and "drop_bit 4 (push_bit 7 o' OR push_bit 6 (a AND 0x1) OR push_bit 5 (b AND 0x1) OR
           push_bit 4 (c AND 0x1) OR ucast (drop_bit 8 s AND 0xF)) AND 0x1 = c AND 0x1"
    and "push_bit 8 (ucast ((push_bit 7 o' OR push_bit 6 (a AND 0x1) OR push_bit 5 (b AND 0x1) OR
           push_bit 4 (c AND 0x1) OR ucast (drop_bit 8 s AND 0xF)) AND 0x0F)) OR
           ucast (ucast (s AND 0xFF) :: byte) = s AND 0xFFF"
  using assms by (auto intro!: word8_eqI word16_eqI simp: word_bits)

lemma unpack_pack_header:
  "rcp_acf_unpack_header (rcp_acf_pack_header t l h @ r) = info_canon t l h"
  unfolding rcp_acf_unpack_header_def rcp_acf_pack_header_def info_canon_def Let_def
  by (simp add: field_laws)

section \<open>Padding\<close>

lemma pad_len_unat: "unat (rcp_acf_pad_len n) = (4 - n mod 4) mod 4"
proof -
  have "(4 - n mod 4) mod 4 < 4" by simp
  then show ?thesis unfolding rcp_acf_pad_len_def by (simp add: unat_of_nat)
qed

lemma pad_len_bound [simp]: "unat (rcp_acf_pad_len n) < 4"
  by (simp add: pad_len_unat)

lemma padded_eq: "n + unat (rcp_acf_pad_len n) = (n + 3) div 4 * 4"
proof -
  define q r where "q = n div 4" and "r = n mod 4"
  have n: "n = 4 * q + r" and "r < 4" by (simp_all add: q_def r_def)
  then consider "r = 0" | "r = 1" | "r = 2" | "r = 3" by linarith
  then show ?thesis
    unfolding pad_len_unat r_def [symmetric] by cases (simp_all add: n)
qed

lemma padded_aligned: "4 dvd n + unat (rcp_acf_pad_len n)"
  by (simp add: padded_eq)

lemma padded_le: "n \<le> 4 * k \<Longrightarrow> n + unat (rcp_acf_pad_len n) \<le> 4 * k"
  unfolding padded_eq by presburger

lemma small_word_and_mask:
  fixes w :: "'a::len word"
  assumes "unat w < 2 ^ k"
  shows "w AND mask k = w"
  using assms by (simp add: and_mask_less' word_less_nat_alt less_mask_eq take_bit_eq_mask [symmetric])
    (metis take_bit_nat_eq_self unsigned_take_bit_eq word_unat_eq_iff)

lemma pad_len_mask [simp]: "rcp_acf_pad_len n AND 0x3 = rcp_acf_pad_len n"
  using small_word_and_mask [of "rcp_acf_pad_len n" 2] by (simp add: mask_eq_exp_minus_1)

lemma quadlets_facts:
  assumes "n \<le> 2044" 
  defines "t \<equiv> n + unat (rcp_acf_pad_len n)"
  shows "unat (of_nat (t div 4) :: u16) * 4 = t"
    and "(of_nat (t div 4) :: u16) AND 0x1FF = of_nat (t div 4)"
    and "\<not> (of_nat (t div 4) :: u16) > 0x1FF"
proof -
  have le: "t \<le> 4 * 511" unfolding t_def using assms(1) by (intro padded_le) simp
  then have "t div 4 \<le> 511" by simp
  then have u: "unat (of_nat (t div 4) :: u16) = t div 4" by (simp add: unat_of_nat)
  then show "unat (of_nat (t div 4) :: u16) * 4 = t"
    using padded_aligned [of n] by (simp add: t_def)
  show "(of_nat (t div 4) :: u16) AND 0x1FF = of_nat (t div 4)"
    using small_word_and_mask [of "of_nat (t div 4) :: u16" 9] u \<open>t div 4 \<le> 511\<close>
    by (simp add: mask_eq_exp_minus_1)
  show "\<not> (of_nat (t div 4) :: u16) > 0x1FF"
    using u \<open>t div 4 \<le> 511\<close> by (simp add: word_less_nat_alt)
qed

section \<open>The ABB codec\<close>

definition padded_quadlets :: "nat \<Rightarrow> u16" where
  "padded_quadlets n = of_nat ((n + unat (rcp_acf_pad_len n)) div 4)"

lemmas quadlets = quadlets_facts [folded padded_quadlets_def]

definition abb_canon ::
    "rcp_acf_byte_message_info_t \<Rightarrow> bytes \<Rightarrow> rcp_acf_byte_message_info_t" where
  "abb_canon h p =
     (let n = RCP_ACF_ABB_HEADER_LEN + length p
      in info_canon RCP_ACF_MSG_TYPE_ABB (padded_quadlets n)
           (h\<lparr>bm_pad := rcp_acf_pad_len n, bm_mtv := RCP_ACF_MTV_UNTIMED\<rparr>))"

lemma abb_encode_eq:
  "rcp_acf_encode_abb mem h p =
     (if mem \<and> length p \<le> RCP_ACF_ABB_MAX_PAYLOAD
      then let n = 8 + length p; pad = rcp_acf_pad_len n
           in Some (rcp_acf_pack_header RCP_ACF_MSG_TYPE_ABB (padded_quadlets n) (h\<lparr>bm_pad := pad\<rparr>) @
                    p @ replicate (unat pad) 0)
      else None)"
  using quadlets(3) [of "8 + length p"]
  by (auto simp: rcp_acf_encode_abb_def Let_def consts_rcp padded_quadlets_def)

lemma pack_header_msg_type:
  "drop_bit (Suc 0) ((rcp_acf_pack_header t l h @ r) ! 0) = t AND 0x7F"
  by (simp add: rcp_acf_pack_header_def Let_def field_laws)

lemma abb_decode_encode:
  assumes "rcp_acf_encode_abb mem h p = Some f"
  shows "rcp_acf_decode_abb (f @ rest) = Inr (abb_canon h p, p)"
proof -
  let ?n = "8 + length p"
  from assms have len: "length p \<le> 2036"
    and f: "f = rcp_acf_pack_header RCP_ACF_MSG_TYPE_ABB (padded_quadlets ?n) (h\<lparr>bm_pad := rcp_acf_pad_len ?n\<rparr>) @
                p @ replicate (unat (rcp_acf_pad_len ?n)) 0"
    by (auto simp: abb_encode_eq Let_def consts_rcp split: if_splits)
  from len quadlets(1,2) [of ?n] have
    q: "unat (padded_quadlets ?n) * 4 = ?n + unat (rcp_acf_pad_len ?n)"
       "padded_quadlets ?n AND 0x1FF = padded_quadlets ?n" by simp_all
  have "rcp_acf_unpack_header (f @ rest) = info_canon RCP_ACF_MSG_TYPE_ABB (padded_quadlets ?n) (h\<lparr>bm_pad := rcp_acf_pad_len ?n\<rparr>)"
    by (simp add: f unpack_pack_header)
  moreover have "drop_bit (Suc 0) ((f @ rest) ! 0) = RCP_ACF_MSG_TYPE_ABB"
    by (simp only: f append_assoc pack_header_msg_type) (simp add: consts_rcp)
  ultimately show ?thesis using q
    by (simp add: rcp_acf_decode_abb_def Let_def abb_canon_def info_canon_def consts_rcp f)
qed

lemma abb_decode_SomeD:
  assumes "rcp_acf_decode_abb b = Inr (h, p)"
  shows "RCP_ACF_ABB_HEADER_LEN \<le> length b" and "\<exists>rest. drop RCP_ACF_ABB_HEADER_LEN b = p @ rest"
  using assms
  by (auto simp: rcp_acf_decode_abb_def Let_def consts_rcp split: if_splits intro: take_prefix_ex)

lemma abb_encode_defined:
  "(rcp_acf_encode_abb mem h p \<noteq> None) = (mem \<and> length p \<le> RCP_ACF_ABB_MAX_PAYLOAD)"
  by (simp add: abb_encode_eq Let_def)

interpretation abb: wire_codec rcp_acf_encode_abb rcp_acf_decode_abb "\<lambda>_. True" abb_canon
  RCP_ACF_ABB_HEADER_LEN RCP_ACF_ABB_MAX_PAYLOAD
  by unfold_locales
    (simp_all add: abb_encode_defined abb_decode_encode abb_decode_SomeD(1,2) del: not_None_eq)

section \<open>The GBB codec\<close>

definition gbb_canon :: "rcp_acf_gbb_header_t \<Rightarrow> bytes \<Rightarrow> rcp_acf_gbb_header_t" where
  "gbb_canon h p =
     (let n = RCP_ACF_GBB_HEADER_LEN + length p
      in \<lparr>gbb_info = info_canon RCP_ACF_MSG_TYPE_GBB (padded_quadlets n)
            ((gbb_info h)\<lparr>bm_pad := rcp_acf_pad_len n\<rparr>),
          message_timestamp =
            (if bm_mtv (gbb_info h) = RCP_ACF_MTV_UNTIMED then 0 else message_timestamp h)\<rparr>)"

lemma gbb_encode_eq:
  "rcp_acf_encode_gbb mem h p =
     (if mem \<and> length p \<le> RCP_ACF_GBB_MAX_PAYLOAD
      then let n = 16 + length p; pad = rcp_acf_pad_len n
           in Some (rcp_acf_pack_header RCP_ACF_MSG_TYPE_GBB (padded_quadlets n) ((gbb_info h)\<lparr>bm_pad := pad\<rparr>) @
                    put_u64 (if bm_mtv (gbb_info h) = RCP_ACF_MTV_UNTIMED then 0 else message_timestamp h) @
                    p @ replicate (unat pad) 0)
      else None)"
  using quadlets(3) [of "16 + length p"]
  by (auto simp: rcp_acf_encode_gbb_def Let_def consts_rcp padded_quadlets_def)

lemma gbb_decode_encode:
  assumes "rcp_acf_encode_gbb mem h p = Some f"
  shows "rcp_acf_decode_gbb (f @ rest) = Inr (gbb_canon h p, p)"
proof -
  let ?n = "16 + length p"
  let ?ts = "if bm_mtv (gbb_info h) = RCP_ACF_MTV_UNTIMED then 0 else message_timestamp h"
  from assms have len: "length p \<le> 2028"
    and f: "f = rcp_acf_pack_header RCP_ACF_MSG_TYPE_GBB (padded_quadlets ?n) ((gbb_info h)\<lparr>bm_pad := rcp_acf_pad_len ?n\<rparr>) @
                put_u64 ?ts @ p @ replicate (unat (rcp_acf_pad_len ?n)) 0"
    by (auto simp: gbb_encode_eq Let_def consts_rcp split: if_splits)
  from len quadlets(1,2) [of ?n] have
    q: "unat (padded_quadlets ?n) * 4 = ?n + unat (rcp_acf_pad_len ?n)"
       "padded_quadlets ?n AND 0x1FF = padded_quadlets ?n" by simp_all
  have "rcp_acf_unpack_header (f @ rest) = info_canon RCP_ACF_MSG_TYPE_GBB (padded_quadlets ?n) ((gbb_info h)\<lparr>bm_pad := rcp_acf_pad_len ?n\<rparr>)"
    by (simp add: f unpack_pack_header)
  moreover have "drop_bit (Suc 0) ((f @ rest) ! 0) = RCP_ACF_MSG_TYPE_GBB"
    by (simp only: f append_assoc pack_header_msg_type) (simp add: consts_rcp)
  ultimately show ?thesis using q
    by (simp add: rcp_acf_decode_gbb_def Let_def gbb_canon_def info_canon_def consts_rcp f)
qed

lemma gbb_decode_SomeD:
  assumes "rcp_acf_decode_gbb b = Inr (h, p)"
  shows "RCP_ACF_GBB_HEADER_LEN \<le> length b" and "\<exists>rest. drop RCP_ACF_GBB_HEADER_LEN b = p @ rest"
  using assms
  by (auto simp: rcp_acf_decode_gbb_def Let_def consts_rcp split: if_splits intro: take_prefix_ex)

lemma gbb_encode_defined:
  "(rcp_acf_encode_gbb mem h p \<noteq> None) = (mem \<and> length p \<le> RCP_ACF_GBB_MAX_PAYLOAD)"
  by (simp add: gbb_encode_eq Let_def)

interpretation gbb: wire_codec rcp_acf_encode_gbb rcp_acf_decode_gbb "\<lambda>_. True" gbb_canon
  RCP_ACF_GBB_HEADER_LEN RCP_ACF_GBB_MAX_PAYLOAD
  by unfold_locales
    (simp_all add: gbb_encode_defined gbb_decode_encode gbb_decode_SomeD(1,2) del: not_None_eq)

section \<open>Compound-wait comparison against its reference\<close>

definition be16_value :: "bytes \<Rightarrow> nat" where
  "be16_value p = 256 * unat (p ! 0) + unat (p ! 1)"

text \<open>The meaning of each mode, on bits and on numbers: \<open>p\<close> is the payload and \<open>s\<close> the status
  cut to the payload's length.\<close>

definition wait_condition :: "byte \<Rightarrow> bytes \<Rightarrow> bytes \<Rightarrow> bool" where
  "wait_condition mode p s \<longleftrightarrow>
     (if mode = 0 then p = s
      else if mode = 1 then \<forall>i k. i < length p \<and> bit (p ! i) k \<longrightarrow> bit (s ! i) k
      else if mode = 2 then \<forall>i k. i < length p \<and> bit (p ! i) k \<longrightarrow> \<not> bit (s ! i) k
      else if mode = 4 then 4 \<le> length p \<and> be16_value p \<ge> be16_value s
      else if mode = 5 then 4 \<le> length p \<and> be16_value p \<le> be16_value s
      else if mode = 6 then 4 \<le> length p \<and> be16_value (drop 2 p) \<ge> be16_value (drop 2 s)
      else if mode = 7 then 4 \<le> length p \<and> be16_value (drop 2 p) \<le> be16_value (drop 2 s)
      else False)"

lemma unat_get_u16: "unat (get_u16 p) = be16_value p"
proof -
  have "push_bit 8 (ucast (p ! 0)) AND ucast (p ! 1) = (0 :: u16)"
    by (rule word16_eqI) (simp add: word_bits)
  then have "get_u16 p = push_bit 8 (ucast (p ! 0)) + ucast (p ! 1)"
    by (simp add: get_u16_def disjunctive_add_eq_or)
  also have "\<dots> = of_nat (be16_value p)"
    by (simp add: be16_value_def push_bit_eq_mult)
  finally have "get_u16 p = of_nat (be16_value p)" .
  moreover have "be16_value p < 2 ^ 16"
    using unsigned_less [of "p ! 0", where ?'a = nat] unsigned_less [of "p ! 1", where ?'a = nat]
    by (simp add: be16_value_def)
  ultimately show ?thesis by (simp add: unat_of_nat)
qed

lemma bit8_less: "bit (a :: byte) k \<Longrightarrow> k < 8"
  using bit_imp_le_length [of a k] by simp

lemma ones_mask_iff:
  fixes a b :: byte
  shows "(a AND b) OR NOT a = 0xFF \<longleftrightarrow> (\<forall>k. bit a k \<longrightarrow> bit b k)"
proof -
  have ff: "(0xFF :: byte) = NOT 0" by simp
  show ?thesis
    unfolding ff using bit8_less [of a] by (simp add: bit_eq_iff bit_simps) blast
qed

lemma zeros_mask_iff:
  fixes a b :: byte
  shows "a AND b = 0 \<longleftrightarrow> (\<forall>k. bit a k \<longrightarrow> \<not> bit b k)"
  using bit8_less [of a] by (simp add: bit_eq_iff bit_simps) blast

lemma mode_cases:
  fixes evt :: byte
  obtains "evt AND 7 = 0" | "evt AND 7 = 1" | "evt AND 7 = 2" | "evt AND 7 = 3"
    | "evt AND 7 = 4" | "evt AND 7 = 5" | "evt AND 7 = 6" | "evt AND 7 = 7"
proof -
  have "evt AND 7 = take_bit 3 evt" by (simp add: take_bit_eq_mask mask_eq_exp_minus_1)
  then have "unat (evt AND 7) = take_bit 3 (unat evt)" by (simp add: unsigned_take_bit_eq)
  then have "unat (evt AND 7) < 8" by (simp add: take_bit_eq_mod)
  then consider "unat (evt AND 7) = 0" | "unat (evt AND 7) = 1" | "unat (evt AND 7) = 2"
    | "unat (evt AND 7) = 3" | "unat (evt AND 7) = 4" | "unat (evt AND 7) = 5"
    | "unat (evt AND 7) = 6" | "unat (evt AND 7) = 7" by linarith
  then show ?thesis
    by cases (use that in \<open>simp_all add: word_unat_eq_iff\<close>)
qed

lemma compound_wait_match_spec:
  "rcp_acf_compound_wait_match evt p s \<longleftrightarrow>
     length p \<le> length s \<and> wait_condition (evt AND 7) p (take (length p) s)"
proof (cases "length p \<le> length s")
  case True
  have be: "be16_value (take n s) = be16_value s" "be16_value (drop 2 (take n s)) = be16_value (drop 2 s)"
    if "4 \<le> n" for n using that by (simp_all add: be16_value_def drop_take)
  show ?thesis
    by (cases evt rule: mode_cases)
      (use True in \<open>auto simp: rcp_acf_compound_wait_match_def wait_condition_def Let_def list_all_iff
        ones_mask_iff zeros_mask_iff be unat_get_u16 word_le_nat_alt\<close>)
qed (simp add: rcp_acf_compound_wait_match_def Let_def)

section \<open>Responses\<close>

lemma decoded_op_never_none: "bm_op (rcp_acf_unpack_header b) \<in> {RCP_ACF_OP_READ, RCP_ACF_OP_WRITE}"
  by (simp add: rcp_acf_unpack_header_def)

lemma abb_response:
  assumes "length p \<le> RCP_ACF_ABB_MAX_PAYLOAD" and "P (abb_canon h p)"
  shows "\<exists>f h'. rcp_acf_encode_abb True h p = Some f \<and> rcp_acf_decode_abb f = Inr (h', p) \<and> P h'"
  using abb.roundtrip [OF _ assms(1), of h "[]"] assms(2) by auto

lemmas response_defs = rcp_acf_build_error_response_def rcp_acf_build_acknowledge_response_def
  rcp_acf_build_acknowledge_rejected_response_def

lemmas response_eval = consts_rcp abb_canon_def info_canon_def Let_def zero_info_def
  rcp_acf_classify_response_def rcp_acf_header_is_request_def

text \<open>The register-write length is the formula of the specification, cut off at zero.\<close>

lemma reg_write_len_eq:
  "rcp_acf_reg_write_len l pad = (unat l - 3) * 4 - (unat pad + 2)"
proof (cases "l < 3")
  case True
  then have "unat l < 3" by (simp add: word_less_nat_alt)
  with True show ?thesis by (simp add: rcp_acf_reg_write_len_def)
next
  case False
  then have "unat (l - 3) = unat l - 3"
    by (simp add: unat_sub word_le_nat_alt not_less)
  with False show ?thesis by (auto simp: rcp_acf_reg_write_len_def Let_def)
qed

section \<open>Properties\<close>

text \<open>An ACF_ABB message with a payload of at most 2036 octets encodes to a whole number of
  quadlets, at most 511 of them and as many as its length field says, and decodes to the same
  payload and to the header cut to its wire widths.\<close>

theorem abb_roundtrip:
  assumes "length p \<le> RCP_ACF_ABB_MAX_PAYLOAD"
  shows "\<exists>f. rcp_acf_encode_abb True h p = Some f \<and>
             length f = 4 * unat (bm_msg_length (abb_canon h p)) \<and> length f \<le> 4 * 511 \<and>
             rcp_acf_decode_abb (f @ rest) = Inr (abb_canon h p, p)"
proof -
  let ?n = "8 + length p"
  have n: "?n \<le> 2044" using assms by (simp add: consts_rcp)
  have "?n + unat (rcp_acf_pad_len ?n) \<le> 4 * 511" using n by (intro padded_le) simp
  then show ?thesis
    using abb.roundtrip [OF _ assms, of h rest] quadlets(1,2) [OF n] assms
    by (auto simp: abb_encode_eq Let_def abb_canon_def info_canon_def consts_rcp)
qed

theorem abb_roundtrip_witness:
  "\<exists>f. rcp_acf_encode_abb True (zero_info\<lparr>bm_evt := 9, bm_byte_bus_id := 0x7A5\<rparr>) [1, 2, 3] = Some f \<and>
       length f = 4 * unat (bm_msg_length (abb_canon (zero_info\<lparr>bm_evt := 9, bm_byte_bus_id := 0x7A5\<rparr>) [1, 2, 3])) \<and>
       length f \<le> 4 * 511 \<and>
       rcp_acf_decode_abb (f @ [0xEE]) =
         Inr (abb_canon (zero_info\<lparr>bm_evt := 9, bm_byte_bus_id := 0x7A5\<rparr>) [1, 2, 3], [1, 2, 3])"
  by (rule abb_roundtrip) (simp add: consts_rcp)

text \<open>An ACF_GBB message with a payload of at most 2028 octets encodes and decodes to the same
  payload and header; a message marked untimed carries a zero timestamp, any other message its
  timestamp.\<close>

theorem gbb_roundtrip:
  assumes "length p \<le> RCP_ACF_GBB_MAX_PAYLOAD"
  shows "\<exists>f. rcp_acf_encode_gbb True h p = Some f \<and>
             rcp_acf_decode_gbb (f @ rest) = Inr (gbb_canon h p, p) \<and>
             message_timestamp (gbb_canon h p) =
               (if bm_mtv (gbb_info h) = RCP_ACF_MTV_UNTIMED then 0 else message_timestamp h)"
  using gbb.roundtrip [OF _ assms, of h rest] by (auto simp: gbb_canon_def Let_def)

theorem gbb_roundtrip_witness:
  "\<exists>f. rcp_acf_encode_gbb True \<lparr>gbb_info = zero_info\<lparr>bm_mtv := 1\<rparr>, message_timestamp = 77\<rparr> [5] = Some f \<and>
       rcp_acf_decode_gbb (f @ []) =
         Inr (gbb_canon \<lparr>gbb_info = zero_info\<lparr>bm_mtv := 1\<rparr>, message_timestamp = 77\<rparr> [5], [5]) \<and>
       message_timestamp (gbb_canon \<lparr>gbb_info = zero_info\<lparr>bm_mtv := 1\<rparr>, message_timestamp = 77\<rparr> [5]) =
         (if bm_mtv (gbb_info \<lparr>gbb_info = zero_info\<lparr>bm_mtv := 1\<rparr>, message_timestamp = 77\<rparr>) = RCP_ACF_MTV_UNTIMED
          then 0 else message_timestamp \<lparr>gbb_info = zero_info\<lparr>bm_mtv := 1\<rparr>, message_timestamp = 77\<rparr>)"
  by (rule gbb_roundtrip) (simp add: consts_rcp)

text \<open>The octet-wise comparison of a compound-wait request is, in every mode, the bit-level or
  numeric condition of that mode on the status cut to the payload's length; a status shorter than
  the payload and the reserved mode never match.\<close>

theorem compound_wait_match_reference:
  "rcp_acf_compound_wait_match evt p s =
     (length p \<le> length s \<and> wait_condition (evt AND 7) p (take (length p) s))"
  by (rule compound_wait_match_spec)

text \<open>The three response builders produce frames that decode as responses of the addressed
  endpoint and transaction and are classified as an error, an acknowledge and a rejecting
  acknowledge, the error code being the payload where there is one.\<close>

theorem response_builders_classified:
  "(\<exists>f h. rcp_acf_build_error_response True bus tn e = Some f \<and>
      rcp_acf_decode_abb f = Inr (h, [wire_error_code e]) \<and>
      rcp_acf_classify_response h = RCP_ACF_RESP_ERROR \<and> \<not> rcp_acf_header_is_request h \<and>
      bm_byte_bus_id h = bus AND 0x7FF \<and> bm_transaction_num h = tn) \<and>
   (\<exists>f h. rcp_acf_build_acknowledge_response True bus tn = Some f \<and>
      rcp_acf_decode_abb f = Inr (h, []) \<and> bm_err h = 0 \<and>
      rcp_acf_classify_response h = RCP_ACF_RESP_ACKNOWLEDGE \<and> \<not> rcp_acf_header_is_request h \<and>
      bm_byte_bus_id h = bus AND 0x7FF \<and> bm_transaction_num h = tn) \<and>
   (\<exists>f h. rcp_acf_build_acknowledge_rejected_response True bus tn e = Some f \<and>
      rcp_acf_decode_abb f = Inr (h, [wire_error_code e]) \<and> bm_err h = 1 \<and>
      rcp_acf_classify_response h = RCP_ACF_RESP_ACKNOWLEDGE \<and> \<not> rcp_acf_header_is_request h \<and>
      bm_byte_bus_id h = bus AND 0x7FF \<and> bm_transaction_num h = tn)"
  unfolding response_defs by (intro conjI abb_response) (simp_all add: response_eval)

end
