(* ===== verification/Sequencer.thy ===== *)
theory Sequencer
  imports Acf
begin

text \<open>
  \<^verbatim>\<open>src/request_sequencer.c\<close>: the table of sequencer states and owners.  The C struct holds
  two arrays of \<^verbatim>\<open>count\<close> octets; \<open>seq_wf\<close> states their lengths.  The table is an
  interpretation of \<open>sequencer_bank\<close>.
\<close>

section \<open>Data and operations\<close>

definition RCP_SEQUENCER_POWER_ON_STATE :: byte where
  [consts_rcp]: "RCP_SEQUENCER_POWER_ON_STATE = 1"
definition RCP_SEQUENCER_OWNER_UNCLAIMED :: byte where
  [consts_rcp]: "RCP_SEQUENCER_OWNER_UNCLAIMED = 0"

record rcp_sequencer_table_t =
  seq_state :: bytes
  seq_owner :: bytes
  seq_count :: u16

datatype rcp_sequencer_access_errc_t =
    RCP_SEQUENCER_ACCESS_OK | RCP_SEQUENCER_ACCESS_UNKNOWN | RCP_SEQUENCER_ACCESS_DENIED

definition empty_table :: rcp_sequencer_table_t where
  "empty_table = \<lparr>seq_state = [], seq_owner = [], seq_count = 0\<rparr>"

definition rcp_sequencer_table_new :: "bool \<Rightarrow> bool \<Rightarrow> u16 \<Rightarrow> rcp_sequencer_table_t" where
  "rcp_sequencer_table_new mem_state mem_owner count =
     (if count = 0 then empty_table
      else if \<not> mem_state then empty_table
      else if \<not> mem_owner then empty_table
      else \<lparr>seq_state = replicate (unat count) RCP_SEQUENCER_POWER_ON_STATE,
            seq_owner = replicate (unat count) 0, seq_count = count\<rparr>)"

definition rcp_sequencer_table_unsupported :: "rcp_sequencer_table_t \<Rightarrow> bool" where
  "rcp_sequencer_table_unsupported table \<longleftrightarrow> seq_count table = 0"

definition rcp_sequencer_table_reset :: "rcp_sequencer_table_t \<Rightarrow> rcp_sequencer_table_t" where
  "rcp_sequencer_table_reset table =
     (if seq_count table = 0 then table
      else table\<lparr>seq_state :=
        replicate (unat (seq_count table)) RCP_SEQUENCER_POWER_ON_STATE\<rparr>)"

definition rcp_sequencer_table_free :: "rcp_sequencer_table_t \<Rightarrow> rcp_sequencer_table_t" where
  "rcp_sequencer_table_free table = table\<lparr>seq_state := [], seq_owner := [], seq_count := 0\<rparr>"

definition rcp_sequencer_index_valid :: "rcp_sequencer_table_t \<Rightarrow> u16 \<Rightarrow> bool" where
  "rcp_sequencer_index_valid table idx \<longleftrightarrow> idx < seq_count table"

definition rcp_sequencer_get_state :: "rcp_sequencer_table_t \<Rightarrow> u16 \<Rightarrow> byte option" where
  "rcp_sequencer_get_state table idx =
     (if \<not> rcp_sequencer_index_valid table idx then None
      else Some (seq_state table ! unat idx))"

definition rcp_sequencer_set_state ::
    "rcp_sequencer_table_t \<Rightarrow> u16 \<Rightarrow> byte \<Rightarrow> bool \<times> rcp_sequencer_table_t" where
  "rcp_sequencer_set_state table idx state =
     (if \<not> rcp_sequencer_index_valid table idx then (False, table)
      else (True, table\<lparr>seq_state := (seq_state table)[unat idx := state]\<rparr>))"

definition rcp_sequencer_get_owner :: "rcp_sequencer_table_t \<Rightarrow> u16 \<Rightarrow> byte option" where
  "rcp_sequencer_get_owner table idx =
     (if \<not> rcp_sequencer_index_valid table idx then None
      else Some (seq_owner table ! unat idx))"

definition rcp_sequencer_set_owner ::
    "rcp_sequencer_table_t \<Rightarrow> u16 \<Rightarrow> byte \<Rightarrow> bool \<times> rcp_sequencer_table_t" where
  "rcp_sequencer_set_owner table idx ownr =
     (if \<not> rcp_sequencer_index_valid table idx then (False, table)
      else (True, table\<lparr>seq_owner := (seq_owner table)[unat idx := ownr]\<rparr>))"

definition rcp_sequencer_access_check ::
    "rcp_sequencer_table_t \<Rightarrow> u16 \<Rightarrow> byte \<Rightarrow> rcp_sequencer_access_errc_t" where
  "rcp_sequencer_access_check table idx requester =
     (if \<not> rcp_sequencer_index_valid table idx then RCP_SEQUENCER_ACCESS_UNKNOWN
      else if seq_owner table ! unat idx = RCP_SEQUENCER_OWNER_UNCLAIMED
      then RCP_SEQUENCER_ACCESS_DENIED
      else if seq_owner table ! unat idx = requester then RCP_SEQUENCER_ACCESS_OK
      else RCP_SEQUENCER_ACCESS_DENIED)"

definition rcp_sequencer_access_permitted :: "rcp_sequencer_table_t \<Rightarrow> u16 \<Rightarrow> byte \<Rightarrow> bool" where
  "rcp_sequencer_access_permitted table idx requester \<longleftrightarrow>
     rcp_sequencer_access_check table idx requester = RCP_SEQUENCER_ACCESS_OK"

fun rcp_sequencer_wire_error :: "rcp_sequencer_access_errc_t \<Rightarrow> rcp_wire_error_t" where
  "rcp_sequencer_wire_error RCP_SEQUENCER_ACCESS_UNKNOWN = RCP_ERROR_SEQUENCER_NOT_KNOWN"
| "rcp_sequencer_wire_error RCP_SEQUENCER_ACCESS_DENIED = RCP_ERROR_UNAUTHORIZED_ACCESS"
| "rcp_sequencer_wire_error RCP_SEQUENCER_ACCESS_OK = RCP_ERROR_NONE"

section \<open>Invariant\<close>

definition seq_wf :: "rcp_sequencer_table_t \<Rightarrow> bool" where
  "seq_wf t \<longleftrightarrow> length (seq_state t) = unat (seq_count t) \<and>
     length (seq_owner t) = unat (seq_count t)"

lemma seq_wf_ops [simp]:
  "seq_wf (rcp_sequencer_table_new m1 m2 n)"
  "seq_wf t \<Longrightarrow> seq_wf (rcp_sequencer_table_reset t)"
  "seq_wf (rcp_sequencer_table_free t)"
  "seq_wf t \<Longrightarrow> seq_wf (snd (rcp_sequencer_set_state t i v))"
  "seq_wf t \<Longrightarrow> seq_wf (snd (rcp_sequencer_set_owner t i v))"
  by (simp_all add: seq_wf_def rcp_sequencer_table_new_def rcp_sequencer_table_reset_def
      rcp_sequencer_table_free_def rcp_sequencer_set_state_def rcp_sequencer_set_owner_def
      empty_table_def)

lemma seq_get_set_state:
  assumes "seq_wf t"
  shows "rcp_sequencer_get_state (snd (rcp_sequencer_set_state t i v)) j =
     (if j = i \<and> rcp_sequencer_get_state t i \<noteq> None then Some v else rcp_sequencer_get_state t j)"
  using assms
  by (auto simp: rcp_sequencer_get_state_def rcp_sequencer_set_state_def seq_wf_def
      rcp_sequencer_index_valid_def word_less_nat_alt nth_list_update word_unat_eq_iff)

interpretation seqs: sequencer_bank rcp_sequencer_get_state rcp_sequencer_set_state seq_wf
proof unfold_locales
  fix t i v assume "seq_wf t"
  show "fst (rcp_sequencer_set_state t i v) = (rcp_sequencer_get_state t i \<noteq> None)"
    by (simp add: rcp_sequencer_get_state_def rcp_sequencer_set_state_def)
qed (simp_all add: seq_get_set_state)

section \<open>Properties\<close>

text \<open>Access to a sequencer is permitted exactly when its index exists and it is claimed by the
  requesting stream; in particular a new sequencer is denied to every stream until an owner is set,
  and afterwards only that owner is permitted.  The two refusals are reported as different wire
  errors.\<close>

theorem sequencer_access_owner_only:
  assumes "seq_wf t" and "rcp_sequencer_index_valid t i"
  shows "\<not> rcp_sequencer_access_permitted (rcp_sequencer_table_new m1 m2 n) j r \<and>
         (rcp_sequencer_access_permitted (snd (rcp_sequencer_set_owner t i ow)) j r \<longleftrightarrow>
            (if j = i then ow = r \<and> ow \<noteq> 0 else rcp_sequencer_access_permitted t j r)) \<and>
         (rcp_sequencer_wire_error (rcp_sequencer_access_check t j r) = RCP_ERROR_SEQUENCER_NOT_KNOWN
            \<longleftrightarrow> \<not> rcp_sequencer_index_valid t j)"
proof (intro conjI)
  show "\<not> rcp_sequencer_access_permitted (rcp_sequencer_table_new m1 m2 n) j r"
    by (auto simp: rcp_sequencer_access_permitted_def rcp_sequencer_access_check_def consts_rcp
        rcp_sequencer_table_new_def rcp_sequencer_index_valid_def empty_table_def word_less_nat_alt)
qed (use assms in \<open>auto simp: rcp_sequencer_access_permitted_def rcp_sequencer_access_check_def
      rcp_sequencer_set_owner_def rcp_sequencer_index_valid_def seq_wf_def word_less_nat_alt
      nth_list_update word_unat_eq_iff consts_rcp split: if_splits\<close>)

theorem sequencer_access_owner_only_witness:
  "\<not> rcp_sequencer_access_permitted (rcp_sequencer_table_new True True 3) 0 7 \<and>
   (rcp_sequencer_access_permitted
      (snd (rcp_sequencer_set_owner (rcp_sequencer_table_new True True 2) 1 7)) 0 7 \<longleftrightarrow>
        (if (0 :: u16) = 1 then (7 :: byte) = 7 \<and> (7 :: byte) \<noteq> 0
         else rcp_sequencer_access_permitted (rcp_sequencer_table_new True True 2) 0 7)) \<and>
   (rcp_sequencer_wire_error
      (rcp_sequencer_access_check (rcp_sequencer_table_new True True 2) 0 7) =
        RCP_ERROR_SEQUENCER_NOT_KNOWN
        \<longleftrightarrow> \<not> rcp_sequencer_index_valid (rcp_sequencer_table_new True True 2) 0)"
  by (rule sequencer_access_owner_only)
    (simp_all add: rcp_sequencer_table_new_def rcp_sequencer_index_valid_def seq_wf_def)

end
