(* ===== verification/Requests.thy ===== *)
theory Requests
  imports Sequencer
begin

text \<open>
  \<^verbatim>\<open>src/request.c\<close>: the conditional request kinds.  Each kind is a GBB message with
  \<^verbatim>\<open>mtv = 0\<close> whose timestamp region is reused for the request's own fields.  The theory
  models their encoders, decoders and run-time rules: compound and compound-wait steps on the
  sequencers, triggered requests with their occurrence counter, chained members, timed requests on
  the 48-bit wrapping clock, and cancellation.

  The decoders return the C error code or the decoded fields followed by the payload.  The raw frame
  builder \<open>gbb_repurposed_frame\<close> is the code that \<^verbatim>\<open>encode_gbb_repurposed\<close> has as a
  function and that the triggered, chained and timed encoders repeat.
\<close>

section \<open>Constants and data\<close>

definition RCP_REQUEST_TYPE_CHAINED :: byte where [consts_rcp]: "RCP_REQUEST_TYPE_CHAINED = 0x01"
definition RCP_REQUEST_TYPE_CLEAR_ALL :: byte where
  [consts_rcp]: "RCP_REQUEST_TYPE_CLEAR_ALL = 0x05"
definition RCP_REQUEST_TYPE_CLEAR_NON_SAFESTATE :: byte where
  [consts_rcp]: "RCP_REQUEST_TYPE_CLEAR_NON_SAFESTATE = 0x06"
definition RCP_REQUEST_TYPE_CLEAR_SINGLE :: byte where
  [consts_rcp]: "RCP_REQUEST_TYPE_CLEAR_SINGLE = 0x07"
definition RCP_REQUEST_TYPE_TIMED :: byte where [consts_rcp]: "RCP_REQUEST_TYPE_TIMED = 0x0A"
definition RCP_REQUEST_TYPE_COMPOUND_WAIT :: byte where
  [consts_rcp]: "RCP_REQUEST_TYPE_COMPOUND_WAIT = 0x0B"
definition RCP_REQUEST_TYPE_COMPOUND_WAIT_SAFETY :: byte where
  [consts_rcp]: "RCP_REQUEST_TYPE_COMPOUND_WAIT_SAFETY = 0x8B"
definition RCP_REQUEST_TYPE_TRIGGERED :: byte where
  [consts_rcp]: "RCP_REQUEST_TYPE_TRIGGERED = 0x0E"
definition RCP_REQUEST_TYPE_TRIGGERED_SAFETY :: byte where
  [consts_rcp]: "RCP_REQUEST_TYPE_TRIGGERED_SAFETY = 0x8E"
definition RCP_REQUEST_TYPE_COMPOUND :: byte where [consts_rcp]: "RCP_REQUEST_TYPE_COMPOUND = 0x0F"
definition RCP_REQUEST_TYPE_COMPOUND_SAFETY :: byte where
  [consts_rcp]: "RCP_REQUEST_TYPE_COMPOUND_SAFETY = 0x8F"
definition RCP_COMPOUND_REPEAT_INFINITE :: u16 where
  [consts_rcp]: "RCP_COMPOUND_REPEAT_INFINITE = 0xFFFF"
definition RCP_TIMED_PRESENTATION_TIME_MAX :: u64 where
  [consts_rcp]: "RCP_TIMED_PRESENTATION_TIME_MAX = 0x0000FFFFFFFFFFFF"
definition RCP_TIMED_PRESENTATION_TIME_MODULUS :: u64 where
  [consts_rcp]: "RCP_TIMED_PRESENTATION_TIME_MODULUS = 0x0001000000000000"
definition RCP_CHAINED_CS_ABORT_ON_ERROR :: byte where
  [consts_rcp]: "RCP_CHAINED_CS_ABORT_ON_ERROR = 1"

definition RCP_REGMAP_OPT_TIME_SYNC :: byte where [consts_rcp]: "RCP_REGMAP_OPT_TIME_SYNC = 0x08"

datatype rcp_compound_errc_t =
    RCP_COMPOUND_OK | RCP_COMPOUND_ERR_SHORT_FRAME | RCP_COMPOUND_ERR_BAD_MSG_TYPE
  | RCP_COMPOUND_ERR_NOT_REPURPOSED | RCP_COMPOUND_ERR_UNKNOWN_TYPE
  | RCP_COMPOUND_ERR_RESERVED_NONZERO | RCP_COMPOUND_ERR_EVT_HS_CS_NONZERO

record rcp_compound_step_t =
  start_state :: byte
  next_state :: byte
  sequencer_index :: byte
  exec_delay :: u16
  repeat_count :: u16

datatype rcp_triggered_errc_t =
    RCP_TRIGGERED_OK | RCP_TRIGGERED_ERR_SHORT_FRAME | RCP_TRIGGERED_ERR_BAD_MSG_TYPE
  | RCP_TRIGGERED_ERR_NOT_REPURPOSED | RCP_TRIGGERED_ERR_UNKNOWN_TYPE

record rcp_triggered_step_t =
  trigger_source_ep :: byte
  trigger_signal_nr :: byte
  trigger_threshold :: byte
  trigger_exec_delay :: u16
  trigger_repeat_count :: u16

record rcp_triggered_runtime_t =
  occurrence_count :: u32
  started :: bool

datatype rcp_chained_errc_t =
    RCP_CHAINED_OK | RCP_CHAINED_ERR_SHORT_FRAME | RCP_CHAINED_ERR_BAD_MSG_TYPE
  | RCP_CHAINED_ERR_NOT_REPURPOSED | RCP_CHAINED_ERR_UNKNOWN_TYPE
  | RCP_CHAINED_ERR_RESERVED_NONZERO

datatype rcp_chained_member_outcome_t =
    RCP_CHAINED_MEMBER_OK | RCP_CHAINED_MEMBER_CHAIN_ERROR | RCP_CHAINED_MEMBER_CHAIN_ABORTED

datatype rcp_timed_errc_t =
    RCP_TIMED_OK | RCP_TIMED_ERR_SHORT_FRAME | RCP_TIMED_ERR_BAD_MSG_TYPE
  | RCP_TIMED_ERR_NOT_REPURPOSED | RCP_TIMED_ERR_UNKNOWN_TYPE | RCP_TIMED_ERR_RESERVED_NONZERO
  | RCP_TIMED_ERR_UNSUPPORTED_CMD

datatype rcp_timed_admission_t =
    RCP_TIMED_ACCEPT | RCP_TIMED_REJECT_GPTP_FAIL | RCP_TIMED_REJECT_PRESENTATION_TIME_TOO_FAR

datatype rcp_cancel_errc_t =
    RCP_CANCEL_OK | RCP_CANCEL_ERR_SHORT_FRAME | RCP_CANCEL_ERR_BAD_MSG_TYPE
  | RCP_CANCEL_ERR_NOT_REPURPOSED | RCP_CANCEL_ERR_UNKNOWN_TYPE | RCP_CANCEL_ERR_RESERVED_NONZERO
  | RCP_CANCEL_ERR_EVT_HS_CS_NONZERO

datatype rcp_cancel_lifecycle_t =
    RCP_CANCEL_LIFECYCLE_QUEUED | RCP_CANCEL_LIFECYCLE_EXECUTING | RCP_CANCEL_LIFECYCLE_DONE

datatype rcp_cancel_result_t =
    RCP_CANCEL_RESULT_CANCELED | RCP_CANCEL_RESULT_NOT_FOUND | RCP_CANCEL_RESULT_NOT_CANCELLABLE

section \<open>Request types\<close>

definition rcp_request_type_is_safety :: "byte \<Rightarrow> bool" where
  "rcp_request_type_is_safety request_type \<longleftrightarrow> request_type AND 0x80 \<noteq> 0"

definition rcp_request_type_is_compound :: "byte \<Rightarrow> bool" where
  "rcp_request_type_is_compound request_type \<longleftrightarrow>
     request_type = RCP_REQUEST_TYPE_COMPOUND \<or> request_type = RCP_REQUEST_TYPE_COMPOUND_SAFETY"

definition rcp_request_type_is_compound_wait :: "byte \<Rightarrow> bool" where
  "rcp_request_type_is_compound_wait request_type \<longleftrightarrow>
     request_type = RCP_REQUEST_TYPE_COMPOUND_WAIT \<or>
     request_type = RCP_REQUEST_TYPE_COMPOUND_WAIT_SAFETY"

definition rcp_request_type_is_triggered :: "byte \<Rightarrow> bool" where
  "rcp_request_type_is_triggered request_type \<longleftrightarrow>
     request_type = RCP_REQUEST_TYPE_TRIGGERED \<or> request_type = RCP_REQUEST_TYPE_TRIGGERED_SAFETY"

definition rcp_compound_peek_request_type :: "bytes \<Rightarrow> rcp_compound_errc_t + byte" where
  "rcp_compound_peek_request_type b =
     (if length b < RCP_ACF_GBB_HEADER_LEN then Inl RCP_COMPOUND_ERR_SHORT_FRAME
      else if drop_bit 1 (b ! 0) \<noteq> RCP_ACF_MSG_TYPE_GBB then Inl RCP_COMPOUND_ERR_BAD_MSG_TYPE
      else if drop_bit 5 (b ! 2) AND 0x1 \<noteq> RCP_ACF_MTV_UNTIMED
      then Inl RCP_COMPOUND_ERR_NOT_REPURPOSED
      else Inr (b ! RCP_ACF_ABB_HEADER_LEN))"

section \<open>The shared frame builder\<close>

definition gbb_repurposed_frame ::
    "bool \<Rightarrow> rcp_acf_byte_message_info_t \<Rightarrow> u64 \<Rightarrow> bytes \<Rightarrow> rcp_bytes_t" where
  "gbb_repurposed_frame mem info ts payload =
     (let payload_len = length payload in
      if payload_len > RCP_ACF_GBB_MAX_PAYLOAD then None
      else
        let unpadded = RCP_ACF_GBB_HEADER_LEN + payload_len;
            pad = rcp_acf_pad_len unpadded;
            total = unpadded + unat pad;
            quadlets = (of_nat (total div 4) :: u16)
        in if \<not> mem then None
           else Some (rcp_acf_pack_header RCP_ACF_MSG_TYPE_GBB quadlets (info\<lparr>bm_pad := pad\<rparr>) @
                      put_u64 ts @ payload @ replicate (unat pad) 0))"

definition encode_gbb_repurposed ::
    "bool \<Rightarrow> rcp_byte_bus_id_t \<Rightarrow> byte \<Rightarrow> byte \<Rightarrow> byte \<Rightarrow> u64 \<Rightarrow> bytes \<Rightarrow> rcp_bytes_t" where
  "encode_gbb_repurposed mem bus cs evt tn ts payload =
     gbb_repurposed_frame mem
       (zero_info\<lparr>bm_byte_bus_id := bus, bm_cs := cs, bm_evt := evt, bm_transaction_num := tn\<rparr>)
       ts payload"

section \<open>Compound and compound-wait\<close>

definition compound_pack_ts :: "byte \<Rightarrow> rcp_compound_step_t \<Rightarrow> u64" where
  "compound_pack_ts request_type step =
     push_bit 56 (ucast request_type) OR push_bit 48 (ucast (start_state step)) OR
     push_bit 40 (ucast (next_state step)) OR push_bit 32 (ucast (sequencer_index step)) OR
     push_bit 16 (ucast (exec_delay step)) OR ucast (repeat_count step)"

definition compound_unpack_ts :: "u64 \<Rightarrow> rcp_compound_step_t" where
  "compound_unpack_ts ts =
     \<lparr>start_state = ucast (drop_bit 48 ts AND 0xFF), next_state = ucast (drop_bit 40 ts AND 0xFF),
      sequencer_index = ucast (drop_bit 32 ts AND 0xFF),
      exec_delay = ucast (drop_bit 16 ts AND 0xFFFF), repeat_count = ucast (ts AND 0xFFFF)\<rparr>"

definition rcp_compound_encode_request ::
    "bool \<Rightarrow> byte \<Rightarrow> rcp_byte_bus_id_t \<Rightarrow> rcp_compound_step_t \<Rightarrow> byte \<Rightarrow> byte \<Rightarrow> bytes \<Rightarrow> rcp_bytes_t" where
  "rcp_compound_encode_request mem request_type bus step evt tn payload =
     (if \<not> rcp_request_type_is_compound request_type \<and>
         \<not> rcp_request_type_is_compound_wait request_type then None
      else encode_gbb_repurposed mem bus 0 evt tn (compound_pack_ts request_type step) payload)"

definition rcp_compound_decode_request :: "bytes \<Rightarrow> rcp_compound_errc_t +
    ((byte \<times> rcp_byte_bus_id_t \<times> rcp_compound_step_t \<times> byte \<times> byte) \<times> bytes)" where
  "rcp_compound_decode_request b =
     (case rcp_acf_decode_gbb b of
        Inl RCP_ACF_ERR_BAD_MSG_TYPE \<Rightarrow> Inl RCP_COMPOUND_ERR_BAD_MSG_TYPE
      | Inl _ \<Rightarrow> Inl RCP_COMPOUND_ERR_SHORT_FRAME
      | Inr (hdr, payload) \<Rightarrow>
          if bm_mtv (gbb_info hdr) \<noteq> RCP_ACF_MTV_UNTIMED then Inl RCP_COMPOUND_ERR_NOT_REPURPOSED
          else
            let rt = ucast (drop_bit 56 (message_timestamp hdr) AND 0xFF) :: byte in
            if \<not> rcp_request_type_is_compound rt \<and> \<not> rcp_request_type_is_compound_wait rt
            then Inl RCP_COMPOUND_ERR_UNKNOWN_TYPE
            else Inr ((rt, bm_byte_bus_id (gbb_info hdr),
                       compound_unpack_ts (message_timestamp hdr), bm_evt (gbb_info hdr),
                       bm_transaction_num (gbb_info hdr)), payload))"

definition rcp_compound_encode_clear_non_safestate ::
    "bool \<Rightarrow> rcp_byte_bus_id_t \<Rightarrow> byte \<Rightarrow> rcp_bytes_t" where
  "rcp_compound_encode_clear_non_safestate mem bus tn =
     encode_gbb_repurposed mem bus 0 0 tn
       (push_bit 56 (ucast RCP_REQUEST_TYPE_CLEAR_NON_SAFESTATE)) []"

definition rcp_compound_decode_clear_non_safestate ::
    "bytes \<Rightarrow> rcp_compound_errc_t + (rcp_byte_bus_id_t \<times> byte)" where
  "rcp_compound_decode_clear_non_safestate b =
     (case rcp_acf_decode_gbb b of
        Inl RCP_ACF_ERR_BAD_MSG_TYPE \<Rightarrow> Inl RCP_COMPOUND_ERR_BAD_MSG_TYPE
      | Inl _ \<Rightarrow> Inl RCP_COMPOUND_ERR_SHORT_FRAME
      | Inr (hdr, payload) \<Rightarrow>
          if bm_mtv (gbb_info hdr) \<noteq> RCP_ACF_MTV_UNTIMED then Inl RCP_COMPOUND_ERR_NOT_REPURPOSED
          else if ucast (drop_bit 56 (message_timestamp hdr) AND 0xFF) \<noteq>
                  RCP_REQUEST_TYPE_CLEAR_NON_SAFESTATE
          then Inl RCP_COMPOUND_ERR_UNKNOWN_TYPE
          else if message_timestamp hdr AND 0x00FFFFFFFFFFFFFF \<noteq> 0
          then Inl RCP_COMPOUND_ERR_RESERVED_NONZERO
          else if bm_evt (gbb_info hdr) AND 0x07 \<noteq> 0 \<or> bm_hs (gbb_info hdr) \<noteq> 0 \<or>
                  bm_cs (gbb_info hdr) \<noteq> 0
          then Inl RCP_COMPOUND_ERR_EVT_HS_CS_NONZERO
          else Inr (bm_byte_bus_id (gbb_info hdr), bm_transaction_num (gbb_info hdr)))"

definition rcp_compound_advance_guard :: "rcp_sequencer_table_t \<Rightarrow> rcp_compound_step_t \<Rightarrow> bool" where
  "rcp_compound_advance_guard table step =
     (case rcp_sequencer_get_state table (ucast (sequencer_index step)) of
        None \<Rightarrow> False
      | Some current \<Rightarrow> if current = 0 then False else current = start_state step)"

definition rcp_compound_start_condition_met ::
    "rcp_sequencer_table_t \<Rightarrow> rcp_compound_step_t \<Rightarrow> bool" where
  "rcp_compound_start_condition_met table step =
     (case rcp_sequencer_get_state table (ucast (sequencer_index step)) of
        None \<Rightarrow> False
      | Some current \<Rightarrow>
          if current = 0 then False
          else if start_state step = 0 then True
          else current = start_state step)"

definition rcp_compound_exec_delay_elapsed :: "rcp_compound_step_t \<Rightarrow> u32 \<Rightarrow> bool" where
  "rcp_compound_exec_delay_elapsed step elapsed \<longleftrightarrow> elapsed \<ge> ucast (exec_delay step)"

definition apply_next_state ::
    "rcp_sequencer_table_t \<Rightarrow> rcp_compound_step_t \<Rightarrow> bool \<times> rcp_sequencer_table_t" where
  "apply_next_state table step =
     (if next_state step = 0
      then (rcp_sequencer_index_valid table (ucast (sequencer_index step)), table)
      else rcp_sequencer_set_state table (ucast (sequencer_index step)) (next_state step))"

definition rcp_compound_tick ::
    "rcp_sequencer_table_t \<Rightarrow> rcp_compound_step_t \<Rightarrow> u32 \<Rightarrow> bool \<times> rcp_sequencer_table_t" where
  "rcp_compound_tick table step elapsed =
     (if \<not> rcp_compound_exec_delay_elapsed step elapsed then (False, table)
      else if \<not> rcp_compound_advance_guard table step then (False, table)
      else apply_next_state table step)"

definition rcp_compound_wait_tick ::
    "rcp_sequencer_table_t \<Rightarrow> rcp_compound_step_t \<Rightarrow> bool \<Rightarrow> bool \<times> rcp_sequencer_table_t" where
  "rcp_compound_wait_tick table step condition_met =
     (if \<not> condition_met then (False, table)
      else if \<not> rcp_compound_advance_guard table step then (False, table)
      else apply_next_state table step)"

section \<open>Triggered\<close>

definition triggered_pack_ts :: "byte \<Rightarrow> rcp_triggered_step_t \<Rightarrow> u64" where
  "triggered_pack_ts request_type step =
     push_bit 56 (ucast request_type) OR push_bit 48 (ucast (trigger_source_ep step)) OR
     push_bit 40 (ucast (trigger_signal_nr step)) OR
     push_bit 32 (ucast (trigger_threshold step)) OR
     push_bit 16 (ucast (trigger_exec_delay step)) OR ucast (trigger_repeat_count step)"

definition triggered_unpack_ts :: "u64 \<Rightarrow> rcp_triggered_step_t" where
  "triggered_unpack_ts ts =
     \<lparr>trigger_source_ep = ucast (drop_bit 48 ts AND 0xFF),
      trigger_signal_nr = ucast (drop_bit 40 ts AND 0xFF),
      trigger_threshold = ucast (drop_bit 32 ts AND 0xFF),
      trigger_exec_delay = ucast (drop_bit 16 ts AND 0xFFFF),
      trigger_repeat_count = ucast (ts AND 0xFFFF)\<rparr>"

definition rcp_triggered_encode_request ::
    "bool \<Rightarrow> byte \<Rightarrow> rcp_byte_bus_id_t \<Rightarrow> rcp_triggered_step_t \<Rightarrow> byte \<Rightarrow> bytes \<Rightarrow> rcp_bytes_t" where
  "rcp_triggered_encode_request mem request_type bus step tn payload =
     (if \<not> rcp_request_type_is_triggered request_type then None
      else gbb_repurposed_frame mem
             (zero_info\<lparr>bm_byte_bus_id := bus, bm_transaction_num := tn\<rparr>)
             (triggered_pack_ts request_type step) payload)"

definition rcp_triggered_decode_request :: "bytes \<Rightarrow> rcp_triggered_errc_t +
    ((byte \<times> rcp_byte_bus_id_t \<times> rcp_triggered_step_t \<times> byte) \<times> bytes)" where
  "rcp_triggered_decode_request b =
     (case rcp_acf_decode_gbb b of
        Inl RCP_ACF_ERR_BAD_MSG_TYPE \<Rightarrow> Inl RCP_TRIGGERED_ERR_BAD_MSG_TYPE
      | Inl _ \<Rightarrow> Inl RCP_TRIGGERED_ERR_SHORT_FRAME
      | Inr (hdr, payload) \<Rightarrow>
          if bm_mtv (gbb_info hdr) \<noteq> RCP_ACF_MTV_UNTIMED then Inl RCP_TRIGGERED_ERR_NOT_REPURPOSED
          else
            let rt = ucast (drop_bit 56 (message_timestamp hdr) AND 0xFF) :: byte in
            if \<not> rcp_request_type_is_triggered rt then Inl RCP_TRIGGERED_ERR_UNKNOWN_TYPE
            else Inr ((rt, bm_byte_bus_id (gbb_info hdr),
                       triggered_unpack_ts (message_timestamp hdr),
                       bm_transaction_num (gbb_info hdr)), payload))"

definition rcp_triggered_runtime_enter_started ::
    "rcp_triggered_runtime_t \<Rightarrow> rcp_triggered_runtime_t" where
  "rcp_triggered_runtime_enter_started rt = rt\<lparr>occurrence_count := 0, started := True\<rparr>"

definition rcp_triggered_runtime_record_occurrence ::
    "rcp_triggered_runtime_t \<Rightarrow> rcp_triggered_step_t \<Rightarrow> byte \<Rightarrow> byte \<Rightarrow>
     bool \<times> rcp_triggered_runtime_t" where
  "rcp_triggered_runtime_record_occurrence rt step source_ep signal_nr =
     (if \<not> started rt then (False, rt)
      else if source_ep \<noteq> trigger_source_ep step then (False, rt)
      else if signal_nr \<noteq> trigger_signal_nr step then (False, rt)
      else (True, rt\<lparr>occurrence_count := occurrence_count rt + 1\<rparr>))"

definition rcp_triggered_threshold_reached ::
    "rcp_triggered_step_t \<Rightarrow> rcp_triggered_runtime_t \<Rightarrow> bool" where
  "rcp_triggered_threshold_reached step rt \<longleftrightarrow>
     occurrence_count rt > ucast (trigger_threshold step)"

definition rcp_triggered_exec_delay_elapsed :: "rcp_triggered_step_t \<Rightarrow> u32 \<Rightarrow> bool" where
  "rcp_triggered_exec_delay_elapsed step elapsed \<longleftrightarrow> elapsed \<ge> ucast (trigger_exec_delay step)"

definition rcp_triggered_tick ::
    "rcp_triggered_step_t \<Rightarrow> rcp_triggered_runtime_t \<Rightarrow> u32 \<Rightarrow> bool \<Rightarrow>
     bool \<times> rcp_triggered_runtime_t" where
  "rcp_triggered_tick step rt elapsed endpoint_idle =
     (if \<not> started rt then (False, rt)
      else if \<not> rcp_triggered_threshold_reached step rt then (False, rt)
      else if \<not> rcp_triggered_exec_delay_elapsed step elapsed then (False, rt)
      else if \<not> endpoint_idle then (False, rt)
      else (True, rt\<lparr>occurrence_count := 0, started := False\<rparr>))"

section \<open>Chained\<close>

definition rcp_chained_encode_member ::
    "bool \<Rightarrow> rcp_byte_bus_id_t \<Rightarrow> u16 \<Rightarrow> byte \<Rightarrow> byte \<Rightarrow> bytes \<Rightarrow> rcp_bytes_t" where
  "rcp_chained_encode_member mem bus chain_exec_delay cs tn payload =
     gbb_repurposed_frame mem
       (zero_info\<lparr>bm_byte_bus_id := bus, bm_cs := cs AND 0x1, bm_transaction_num := tn\<rparr>)
       (push_bit 56 (ucast RCP_REQUEST_TYPE_CHAINED) OR push_bit 16 (ucast chain_exec_delay))
       payload"

definition rcp_chained_decode_member :: "bytes \<Rightarrow> rcp_chained_errc_t +
    ((rcp_byte_bus_id_t \<times> u16 \<times> byte \<times> byte) \<times> bytes)" where
  "rcp_chained_decode_member b =
     (case rcp_acf_decode_gbb b of
        Inl RCP_ACF_ERR_BAD_MSG_TYPE \<Rightarrow> Inl RCP_CHAINED_ERR_BAD_MSG_TYPE
      | Inl _ \<Rightarrow> Inl RCP_CHAINED_ERR_SHORT_FRAME
      | Inr (hdr, payload) \<Rightarrow>
          if bm_mtv (gbb_info hdr) \<noteq> RCP_ACF_MTV_UNTIMED then Inl RCP_CHAINED_ERR_NOT_REPURPOSED
          else if ucast (drop_bit 56 (message_timestamp hdr) AND 0xFF) \<noteq> RCP_REQUEST_TYPE_CHAINED
          then Inl RCP_CHAINED_ERR_UNKNOWN_TYPE
          else if message_timestamp hdr AND 0x00FFFFFF0000FFFF \<noteq> 0
          then Inl RCP_CHAINED_ERR_RESERVED_NONZERO
          else Inr ((bm_byte_bus_id (gbb_info hdr),
                     ucast (drop_bit 16 (message_timestamp hdr) AND 0xFFFF),
                     bm_cs (gbb_info hdr), bm_transaction_num (gbb_info hdr)), payload))"

definition rcp_chained_exec_delay_elapsed :: "u16 \<Rightarrow> u32 \<Rightarrow> bool" where
  "rcp_chained_exec_delay_elapsed chain_exec_delay elapsed \<longleftrightarrow> elapsed \<ge> ucast chain_exec_delay"

definition rcp_chained_advance ::
    "bool \<Rightarrow> bool \<Rightarrow> bool \<Rightarrow> byte \<Rightarrow> rcp_chained_member_outcome_t \<times> bool" where
  "rcp_chained_advance chain_aborted has_predecessor predecessor_errored cs =
     (if \<not> has_predecessor then (RCP_CHAINED_MEMBER_CHAIN_ERROR, True)
      else if chain_aborted then (RCP_CHAINED_MEMBER_CHAIN_ABORTED, chain_aborted)
      else if predecessor_errored \<and> cs = RCP_CHAINED_CS_ABORT_ON_ERROR
      then (RCP_CHAINED_MEMBER_CHAIN_ABORTED, True)
      else (RCP_CHAINED_MEMBER_OK, chain_aborted))"

section \<open>Timed\<close>

definition rcp_timed_feature_enabled :: "byte \<Rightarrow> bool" where
  "rcp_timed_feature_enabled options \<longleftrightarrow> options AND RCP_REGMAP_OPT_TIME_SYNC \<noteq> 0"

definition rcp_timed_encode_request ::
    "bool \<Rightarrow> rcp_byte_bus_id_t \<Rightarrow> u64 \<Rightarrow> byte \<Rightarrow> bytes \<Rightarrow> rcp_bytes_t" where
  "rcp_timed_encode_request mem bus presentation_time tn payload =
     (if presentation_time > RCP_TIMED_PRESENTATION_TIME_MAX then None
      else gbb_repurposed_frame mem
             (zero_info\<lparr>bm_byte_bus_id := bus, bm_transaction_num := tn\<rparr>)
             (push_bit 56 (ucast RCP_REQUEST_TYPE_TIMED) OR
              (presentation_time AND RCP_TIMED_PRESENTATION_TIME_MAX)) payload)"

definition rcp_timed_encode_request_tscf ::
    "bool \<Rightarrow> bool \<Rightarrow> rcp_acf_byte_message_info_t \<Rightarrow> bytes \<Rightarrow> rcp_stream_id_t \<Rightarrow> u32 \<Rightarrow> byte \<Rightarrow>
     rcp_bytes_t" where
  "rcp_timed_encode_request_tscf mem_acf mem_tscf hdr payload stream_id ts seq =
     (case rcp_acf_encode_abb mem_acf hdr payload of
        None \<Rightarrow> None
      | Some acf_frame \<Rightarrow>
          rcp_avtp_encode_tscf mem_tscf
            \<lparr>t_sv = 1, t_version = 0, mr = 0, tv = 1, t_sequence_num = seq, tu = 0,
             t_stream_id = stream_id, avtp_timestamp = ts, stream_data_length = 0,
             reserved0 = 0, reserved1 = 0\<rparr> acf_frame)"

definition rcp_timed_decode_request :: "bytes \<Rightarrow> rcp_timed_errc_t +
    ((rcp_byte_bus_id_t \<times> u64 \<times> byte) \<times> bytes)" where
  "rcp_timed_decode_request b =
     (case rcp_acf_decode_gbb b of
        Inl RCP_ACF_ERR_BAD_MSG_TYPE \<Rightarrow> Inl RCP_TIMED_ERR_BAD_MSG_TYPE
      | Inl _ \<Rightarrow> Inl RCP_TIMED_ERR_SHORT_FRAME
      | Inr (hdr, payload) \<Rightarrow>
          if bm_mtv (gbb_info hdr) \<noteq> RCP_ACF_MTV_UNTIMED then Inl RCP_TIMED_ERR_NOT_REPURPOSED
          else if ucast (drop_bit 56 (message_timestamp hdr) AND 0xFF) \<noteq> RCP_REQUEST_TYPE_TIMED
          then Inl RCP_TIMED_ERR_UNKNOWN_TYPE
          else if ucast (drop_bit 48 (message_timestamp hdr) AND 0xFF) \<noteq> (0 :: byte)
          then Inl RCP_TIMED_ERR_RESERVED_NONZERO
          else if bm_hs (gbb_info hdr) \<noteq> 0 \<or> bm_cs (gbb_info hdr) \<noteq> 0
          then Inl RCP_TIMED_ERR_UNSUPPORTED_CMD
          else Inr ((bm_byte_bus_id (gbb_info hdr),
                     message_timestamp hdr AND RCP_TIMED_PRESENTATION_TIME_MAX,
                     bm_transaction_num (gbb_info hdr)), payload))"

definition timed_forward_delta :: "u64 \<Rightarrow> u64 \<Rightarrow> u64" where
  "timed_forward_delta presentation_time now =
     (presentation_time - now) AND RCP_TIMED_PRESENTATION_TIME_MAX"

definition timed_in_the_past :: "u64 \<Rightarrow> bool" where
  "timed_in_the_past delta \<longleftrightarrow> delta > RCP_TIMED_PRESENTATION_TIME_MODULUS div 2"

definition rcp_timed_too_far :: "u64 \<Rightarrow> u64 \<Rightarrow> u64 \<Rightarrow> bool" where
  "rcp_timed_too_far presentation_time now max_horizon =
     (let delta = timed_forward_delta presentation_time now
      in if timed_in_the_past delta then False else delta > max_horizon)"

definition rcp_timed_due :: "u64 \<Rightarrow> u64 \<Rightarrow> bool" where
  "rcp_timed_due presentation_time now =
     (let delta = timed_forward_delta presentation_time now
      in delta = 0 \<or> timed_in_the_past delta)"

definition rcp_timed_admit :: "bool \<Rightarrow> u64 \<Rightarrow> u64 \<Rightarrow> u64 \<Rightarrow> rcp_timed_admission_t" where
  "rcp_timed_admit gptp_locked presentation_time now max_horizon =
     (if \<not> gptp_locked then RCP_TIMED_REJECT_GPTP_FAIL
      else if rcp_timed_too_far presentation_time now max_horizon
      then RCP_TIMED_REJECT_PRESENTATION_TIME_TOO_FAR
      else RCP_TIMED_ACCEPT)"

fun rcp_timed_wire_error :: "rcp_timed_admission_t \<Rightarrow> rcp_wire_error_t" where
  "rcp_timed_wire_error RCP_TIMED_REJECT_GPTP_FAIL = RCP_ERROR_GPTP_FAIL"
| "rcp_timed_wire_error RCP_TIMED_REJECT_PRESENTATION_TIME_TOO_FAR =
     RCP_ERROR_PRESENTATION_TIME_TOO_FAR"
| "rcp_timed_wire_error RCP_TIMED_ACCEPT = RCP_ERROR_NONE"

section \<open>Cancellation\<close>

definition cancel_encode_gbb_repurposed ::
    "bool \<Rightarrow> rcp_byte_bus_id_t \<Rightarrow> byte \<Rightarrow> u64 \<Rightarrow> rcp_bytes_t" where
  "cancel_encode_gbb_repurposed mem bus tn ts =
     (if \<not> mem then None
      else Some (rcp_acf_pack_header RCP_ACF_MSG_TYPE_GBB
                   (of_nat (RCP_ACF_GBB_HEADER_LEN div 4))
                   (zero_info\<lparr>bm_byte_bus_id := bus, bm_transaction_num := tn\<rparr>) @ put_u64 ts))"

definition rcp_cancel_encode_clear_all :: "bool \<Rightarrow> rcp_byte_bus_id_t \<Rightarrow> byte \<Rightarrow> rcp_bytes_t" where
  "rcp_cancel_encode_clear_all mem bus tn =
     cancel_encode_gbb_repurposed mem bus tn (push_bit 56 (ucast RCP_REQUEST_TYPE_CLEAR_ALL))"

definition rcp_cancel_decode_clear_all ::
    "bytes \<Rightarrow> rcp_cancel_errc_t + (rcp_byte_bus_id_t \<times> byte)" where
  "rcp_cancel_decode_clear_all b =
     (case rcp_acf_decode_gbb b of
        Inl RCP_ACF_ERR_BAD_MSG_TYPE \<Rightarrow> Inl RCP_CANCEL_ERR_BAD_MSG_TYPE
      | Inl _ \<Rightarrow> Inl RCP_CANCEL_ERR_SHORT_FRAME
      | Inr (hdr, payload) \<Rightarrow>
          if bm_mtv (gbb_info hdr) \<noteq> RCP_ACF_MTV_UNTIMED then Inl RCP_CANCEL_ERR_NOT_REPURPOSED
          else if ucast (drop_bit 56 (message_timestamp hdr) AND 0xFF) \<noteq> RCP_REQUEST_TYPE_CLEAR_ALL
          then Inl RCP_CANCEL_ERR_UNKNOWN_TYPE
          else if message_timestamp hdr AND 0x00FFFFFFFFFFFFFF \<noteq> 0
          then Inl RCP_CANCEL_ERR_RESERVED_NONZERO
          else if bm_evt (gbb_info hdr) AND 0x07 \<noteq> 0 \<or> bm_hs (gbb_info hdr) \<noteq> 0 \<or>
                  bm_cs (gbb_info hdr) \<noteq> 0
          then Inl RCP_CANCEL_ERR_EVT_HS_CS_NONZERO
          else Inr (bm_byte_bus_id (gbb_info hdr), bm_transaction_num (gbb_info hdr)))"

definition rcp_cancel_encode_clear_single ::
    "bool \<Rightarrow> rcp_byte_bus_id_t \<Rightarrow> byte \<Rightarrow> byte \<Rightarrow> rcp_bytes_t" where
  "rcp_cancel_encode_clear_single mem bus clear_tn tn =
     cancel_encode_gbb_repurposed mem bus tn
       (push_bit 56 (ucast RCP_REQUEST_TYPE_CLEAR_SINGLE) OR push_bit 32 (ucast clear_tn))"

definition rcp_cancel_decode_clear_single ::
    "bytes \<Rightarrow> rcp_cancel_errc_t + (rcp_byte_bus_id_t \<times> byte \<times> byte)" where
  "rcp_cancel_decode_clear_single b =
     (case rcp_acf_decode_gbb b of
        Inl RCP_ACF_ERR_BAD_MSG_TYPE \<Rightarrow> Inl RCP_CANCEL_ERR_BAD_MSG_TYPE
      | Inl _ \<Rightarrow> Inl RCP_CANCEL_ERR_SHORT_FRAME
      | Inr (hdr, payload) \<Rightarrow>
          if bm_mtv (gbb_info hdr) \<noteq> RCP_ACF_MTV_UNTIMED then Inl RCP_CANCEL_ERR_NOT_REPURPOSED
          else if ucast (drop_bit 56 (message_timestamp hdr) AND 0xFF) \<noteq>
                  RCP_REQUEST_TYPE_CLEAR_SINGLE
          then Inl RCP_CANCEL_ERR_UNKNOWN_TYPE
          else if message_timestamp hdr AND 0x00FFFF00FFFFFFFF \<noteq> 0
          then Inl RCP_CANCEL_ERR_RESERVED_NONZERO
          else if bm_evt (gbb_info hdr) AND 0x07 \<noteq> 0 \<or> bm_hs (gbb_info hdr) \<noteq> 0 \<or>
                  bm_cs (gbb_info hdr) \<noteq> 0
          then Inl RCP_CANCEL_ERR_EVT_HS_CS_NONZERO
          else Inr (bm_byte_bus_id (gbb_info hdr),
                    ucast (drop_bit 32 (message_timestamp hdr) AND 0xFF),
                    bm_transaction_num (gbb_info hdr)))"

definition rcp_cancel_is_cancellable :: "rcp_cancel_lifecycle_t \<Rightarrow> bool" where
  "rcp_cancel_is_cancellable state \<longleftrightarrow> state = RCP_CANCEL_LIFECYCLE_QUEUED"

definition rcp_cancel_attempt :: "bool \<Rightarrow> rcp_cancel_lifecycle_t \<Rightarrow> rcp_cancel_result_t" where
  "rcp_cancel_attempt found state =
     (if \<not> found then RCP_CANCEL_RESULT_NOT_FOUND
      else if \<not> rcp_cancel_is_cancellable state then RCP_CANCEL_RESULT_NOT_CANCELLABLE
      else RCP_CANCEL_RESULT_CANCELED)"

definition rcp_cancel_chain_should_cascade :: "byte \<Rightarrow> byte \<Rightarrow> bool" where
  "rcp_cancel_chain_should_cascade member_position canceled_position \<longleftrightarrow>
     member_position \<ge> canceled_position"

section \<open>Frames with a reused timestamp region\<close>

lemma repurposed_decode:
  assumes "gbb_repurposed_frame mem info ts p = Some f"
  shows "rcp_acf_decode_gbb (f @ rest) =
    Inr (\<lparr>gbb_info = info_canon RCP_ACF_MSG_TYPE_GBB (padded_quadlets (16 + length p))
             (info\<lparr>bm_pad := rcp_acf_pad_len (16 + length p)\<rparr>), message_timestamp = ts\<rparr>, p)"
proof -
  let ?n = "16 + length p"
  from assms have len: "length p \<le> 2028"
    and f: "f = rcp_acf_pack_header RCP_ACF_MSG_TYPE_GBB (padded_quadlets ?n)
                  (info\<lparr>bm_pad := rcp_acf_pad_len ?n\<rparr>) @
                put_u64 ts @ p @ replicate (unat (rcp_acf_pad_len ?n)) 0"
    by (auto simp: gbb_repurposed_frame_def Let_def consts_rcp padded_quadlets_def split: if_splits)
  from len quadlets(1,2) [of ?n] have
    q: "unat (padded_quadlets ?n) * 4 = ?n + unat (rcp_acf_pad_len ?n)"
       "padded_quadlets ?n AND 0x1FF = padded_quadlets ?n" by simp_all
  have "drop_bit (Suc 0) ((f @ rest) ! 0) = RCP_ACF_MSG_TYPE_GBB"
    by (simp only: f append_assoc pack_header_msg_type) (simp add: consts_rcp)
  with q show ?thesis
    by (simp add: rcp_acf_decode_gbb_def Let_def info_canon_def unpack_pack_header consts_rcp f)
qed

lemma repurposed_defined:
  "(gbb_repurposed_frame mem info ts p \<noteq> None) = (mem \<and> length p \<le> RCP_ACF_GBB_MAX_PAYLOAD)"
  by (simp add: gbb_repurposed_frame_def Let_def)

lemma cancel_frame_repurposed:
  "cancel_encode_gbb_repurposed mem bus tn ts =
     gbb_repurposed_frame mem (zero_info\<lparr>bm_byte_bus_id := bus, bm_transaction_num := tn\<rparr>) ts []"
  by (simp add: cancel_encode_gbb_repurposed_def gbb_repurposed_frame_def Let_def consts_rcp
      rcp_acf_pad_len_def zero_info_def)

lemma compound_ts_fields:
  "compound_unpack_ts (compound_pack_ts rt step) = step"
  "ucast (drop_bit 56 (compound_pack_ts rt step) AND 0xFF) = rt"
proof -
  show "compound_unpack_ts (compound_pack_ts rt step) = step"
    unfolding compound_unpack_ts_def compound_pack_ts_def
    by (cases step, simp, intro conjI word8_eqI word16_eqI; simp add: word_bits)
  show "ucast (drop_bit 56 (compound_pack_ts rt step) AND 0xFF) = rt"
    by (rule word8_eqI) (simp add: compound_pack_ts_def word_bits)
qed

lemma triggered_ts_fields:
  "triggered_unpack_ts (triggered_pack_ts rt step) = step"
  "ucast (drop_bit 56 (triggered_pack_ts rt step) AND 0xFF) = rt"
proof -
  show "triggered_unpack_ts (triggered_pack_ts rt step) = step"
    unfolding triggered_unpack_ts_def triggered_pack_ts_def
    by (cases step, simp, intro conjI word8_eqI word16_eqI; simp add: word_bits)
  show "ucast (drop_bit 56 (triggered_pack_ts rt step) AND 0xFF) = rt"
    by (rule word8_eqI) (simp add: triggered_pack_ts_def word_bits)
qed

lemma chained_ts_fields:
  fixes t :: byte and d :: u16
  defines "ts \<equiv> (push_bit 56 (ucast t) OR push_bit 16 (ucast d)) :: u64"
  shows "ucast (drop_bit 56 ts AND 0xFF) = t" and "ts AND 0x00FFFFFF0000FFFF = 0"
    and "ucast (drop_bit 16 ts AND 0xFFFF) = d"
  unfolding ts_def by (rule word8_eqI word16_eqI word64_eqI, simp add: word_bits)+

lemma timed_ts_fields:
  fixes t :: byte and x :: u64
  assumes "x \<le> RCP_TIMED_PRESENTATION_TIME_MAX"
  defines "ts \<equiv> push_bit 56 (ucast t) OR (x AND RCP_TIMED_PRESENTATION_TIME_MAX)"
  shows "ucast (drop_bit 56 ts AND 0xFF) = t"
    and "ucast (drop_bit 48 ts AND 0xFF) = (0 :: byte)"
    and "ts AND RCP_TIMED_PRESENTATION_TIME_MAX = x"
proof -
  have "unat x < 2 ^ 48" using assms(1) by (simp add: word_le_nat_alt consts_rcp)
  then have "x AND mask 48 = x" by (rule small_word_and_mask)
  then have x: "x AND RCP_TIMED_PRESENTATION_TIME_MAX = x"
    by (simp add: consts_rcp mask_eq_exp_minus_1)
  show "ucast (drop_bit 56 ts AND 0xFF) = t"
    unfolding ts_def by (rule word8_eqI) (simp add: word_bits consts_rcp)
  show "ucast (drop_bit 48 ts AND 0xFF) = (0 :: byte)"
    unfolding ts_def by (rule word8_eqI) (simp add: word_bits consts_rcp)
  have "ts AND RCP_TIMED_PRESENTATION_TIME_MAX = x AND RCP_TIMED_PRESENTATION_TIME_MAX"
    unfolding ts_def by (rule word64_eqI) (simp add: word_bits consts_rcp)
  with x show "ts AND RCP_TIMED_PRESENTATION_TIME_MAX = x" by simp
qed

lemma clear_ts_fields:
  fixes t c :: byte
  shows "ucast (drop_bit 56 (push_bit 56 (ucast t) :: u64) AND 0xFF) = t"
    and "push_bit 56 (ucast t) AND (0x00FFFFFFFFFFFFFF :: u64) = 0"
    and "ucast (drop_bit 56 (push_bit 56 (ucast t) OR push_bit 32 (ucast c) :: u64) AND 0xFF) = t"
    and "(push_bit 56 (ucast t) OR push_bit 32 (ucast c)) AND (0x00FFFF00FFFFFFFF :: u64) = 0"
    and "ucast (drop_bit 32 (push_bit 56 (ucast t) OR push_bit 32 (ucast c) :: u64) AND 0xFF) = c"
  by (rule word8_eqI word64_eqI, simp add: word_bits)+

section \<open>The conditional request codecs\<close>

lemmas repurposed_eval = zero_info_def info_canon_def RCP_ACF_MTV_UNTIMED_def Let_def

definition compound_req_encode ::
    "bool \<Rightarrow> byte \<times> rcp_byte_bus_id_t \<times> rcp_compound_step_t \<times> byte \<times> byte \<Rightarrow> bytes \<Rightarrow> rcp_bytes_t" where
  "compound_req_encode mem r p =
     (case r of (rt, bus, step, evt, tn) \<Rightarrow> rcp_compound_encode_request mem rt bus step evt tn p)"

fun compound_req_wf :: "byte \<times> rcp_byte_bus_id_t \<times> rcp_compound_step_t \<times> byte \<times> byte \<Rightarrow> bool" where
  "compound_req_wf (rt, _) \<longleftrightarrow> rcp_request_type_is_compound rt \<or> rcp_request_type_is_compound_wait rt"

fun compound_req_canon :: "byte \<times> rcp_byte_bus_id_t \<times> rcp_compound_step_t \<times> byte \<times> byte \<Rightarrow> bytes \<Rightarrow>
    byte \<times> rcp_byte_bus_id_t \<times> rcp_compound_step_t \<times> byte \<times> byte" where
  "compound_req_canon (rt, bus, step, evt, tn) p = (rt, bus AND 0x7FF, step, evt AND 0xF, tn)"

lemma compound_decode_inside:
  assumes "rcp_compound_decode_request b = Inr (r, p)"
  shows "\<exists>hdr. rcp_acf_decode_gbb b = Inr (hdr, p)"
  using assms by (auto simp: rcp_compound_decode_request_def Let_def
      split: sum.splits rcp_acf_errc_t.splits if_splits)

lemma triggered_decode_inside:
  assumes "rcp_triggered_decode_request b = Inr (r, p)"
  shows "\<exists>hdr. rcp_acf_decode_gbb b = Inr (hdr, p)"
  using assms by (auto simp: rcp_triggered_decode_request_def Let_def
      split: sum.splits rcp_acf_errc_t.splits if_splits)

lemma chained_decode_inside:
  assumes "rcp_chained_decode_member b = Inr (r, p)"
  shows "\<exists>hdr. rcp_acf_decode_gbb b = Inr (hdr, p)"
  using assms by (auto simp: rcp_chained_decode_member_def Let_def
      split: sum.splits rcp_acf_errc_t.splits if_splits)

lemma timed_decode_inside:
  assumes "rcp_timed_decode_request b = Inr (r, p)"
  shows "\<exists>hdr. rcp_acf_decode_gbb b = Inr (hdr, p)"
  using assms by (auto simp: rcp_timed_decode_request_def Let_def
      split: sum.splits rcp_acf_errc_t.splits if_splits)

interpretation compound: wire_codec compound_req_encode rcp_compound_decode_request
  compound_req_wf compound_req_canon RCP_ACF_GBB_HEADER_LEN RCP_ACF_GBB_MAX_PAYLOAD
proof (unfold_locales, goal_cases)
  case (1 r mem p)
  then show ?case
    by (cases r) (auto simp add: compound_req_encode_def rcp_compound_encode_request_def
        encode_gbb_repurposed_def repurposed_defined simp del: not_None_eq)
next
  case (2 mem r p f rest)
  obtain rt bus step evt tn where r: "r = (rt, bus, step, evt, tn)" by (cases r)
  from 2 have "gbb_repurposed_frame mem
      (zero_info\<lparr>bm_byte_bus_id := bus, bm_cs := 0, bm_evt := evt, bm_transaction_num := tn\<rparr>)
      (compound_pack_ts rt step) p = Some f"
    by (simp add: r compound_req_encode_def rcp_compound_encode_request_def encode_gbb_repurposed_def
        split: if_splits)
  from repurposed_decode [OF this, of rest] 2(2) show ?case
    by (auto simp: r rcp_compound_decode_request_def compound_ts_fields repurposed_eval)
qed (use compound_decode_inside gbb_decode_SomeD in blast)+

definition triggered_req_encode ::
    "bool \<Rightarrow> byte \<times> rcp_byte_bus_id_t \<times> rcp_triggered_step_t \<times> byte \<Rightarrow> bytes \<Rightarrow> rcp_bytes_t" where
  "triggered_req_encode mem r p =
     (case r of (rt, bus, step, tn) \<Rightarrow> rcp_triggered_encode_request mem rt bus step tn p)"

fun triggered_req_wf :: "byte \<times> rcp_byte_bus_id_t \<times> rcp_triggered_step_t \<times> byte \<Rightarrow> bool" where
  "triggered_req_wf (rt, _) \<longleftrightarrow> rcp_request_type_is_triggered rt"

fun triggered_req_canon :: "byte \<times> rcp_byte_bus_id_t \<times> rcp_triggered_step_t \<times> byte \<Rightarrow> bytes \<Rightarrow>
    byte \<times> rcp_byte_bus_id_t \<times> rcp_triggered_step_t \<times> byte" where
  "triggered_req_canon (rt, bus, step, tn) p = (rt, bus AND 0x7FF, step, tn)"

interpretation triggered: wire_codec triggered_req_encode rcp_triggered_decode_request
  triggered_req_wf triggered_req_canon RCP_ACF_GBB_HEADER_LEN RCP_ACF_GBB_MAX_PAYLOAD
proof (unfold_locales, goal_cases)
  case (1 r mem p)
  then show ?case
    by (cases r) (simp add: triggered_req_encode_def rcp_triggered_encode_request_def
        repurposed_defined del: not_None_eq)
next
  case (2 mem r p f rest)
  obtain rt bus step tn where r: "r = (rt, bus, step, tn)" by (cases r)
  from 2 have "gbb_repurposed_frame mem
      (zero_info\<lparr>bm_byte_bus_id := bus, bm_transaction_num := tn\<rparr>) (triggered_pack_ts rt step) p = Some f"
    by (simp add: r triggered_req_encode_def rcp_triggered_encode_request_def split: if_splits)
  from repurposed_decode [OF this, of rest] 2(2) show ?case
    by (auto simp: r rcp_triggered_decode_request_def triggered_ts_fields repurposed_eval)
qed (use triggered_decode_inside gbb_decode_SomeD in blast)+

definition chained_req_encode ::
    "bool \<Rightarrow> rcp_byte_bus_id_t \<times> u16 \<times> byte \<times> byte \<Rightarrow> bytes \<Rightarrow> rcp_bytes_t" where
  "chained_req_encode mem r p =
     (case r of (bus, delay, cs, tn) \<Rightarrow> rcp_chained_encode_member mem bus delay cs tn p)"

fun chained_req_canon :: "rcp_byte_bus_id_t \<times> u16 \<times> byte \<times> byte \<Rightarrow> bytes \<Rightarrow>
    rcp_byte_bus_id_t \<times> u16 \<times> byte \<times> byte" where
  "chained_req_canon (bus, delay, cs, tn) p = (bus AND 0x7FF, delay, cs AND 0x1, tn)"

interpretation chained: wire_codec chained_req_encode rcp_chained_decode_member
  "\<lambda>_. True" chained_req_canon RCP_ACF_GBB_HEADER_LEN RCP_ACF_GBB_MAX_PAYLOAD
proof (unfold_locales, goal_cases)
  case (1 r mem p)
  then show ?case
    by (cases r) (simp add: chained_req_encode_def rcp_chained_encode_member_def
        repurposed_defined del: not_None_eq)
next
  case (2 mem r p f rest)
  obtain bus delay cs tn where r: "r = (bus, delay, cs, tn)" by (cases r)
  from 2 have "gbb_repurposed_frame mem
      (zero_info\<lparr>bm_byte_bus_id := bus, bm_cs := cs AND 0x1, bm_transaction_num := tn\<rparr>)
      (push_bit 56 (ucast RCP_REQUEST_TYPE_CHAINED) OR push_bit 16 (ucast delay)) p = Some f"
    by (simp add: r chained_req_encode_def rcp_chained_encode_member_def)
  from repurposed_decode [OF this, of rest] show ?case
    by (simp add: r rcp_chained_decode_member_def chained_ts_fields repurposed_eval)
qed (use chained_decode_inside gbb_decode_SomeD in blast)+

definition timed_req_encode ::
    "bool \<Rightarrow> rcp_byte_bus_id_t \<times> u64 \<times> byte \<Rightarrow> bytes \<Rightarrow> rcp_bytes_t" where
  "timed_req_encode mem r p = (case r of (bus, t, tn) \<Rightarrow> rcp_timed_encode_request mem bus t tn p)"

fun timed_req_wf :: "rcp_byte_bus_id_t \<times> u64 \<times> byte \<Rightarrow> bool" where
  "timed_req_wf (bus, t, tn) \<longleftrightarrow> t \<le> RCP_TIMED_PRESENTATION_TIME_MAX"

fun timed_req_canon :: "rcp_byte_bus_id_t \<times> u64 \<times> byte \<Rightarrow> bytes \<Rightarrow> rcp_byte_bus_id_t \<times> u64 \<times> byte" where
  "timed_req_canon (bus, t, tn) p = (bus AND 0x7FF, t, tn)"

interpretation timed: wire_codec timed_req_encode rcp_timed_decode_request
  timed_req_wf timed_req_canon RCP_ACF_GBB_HEADER_LEN RCP_ACF_GBB_MAX_PAYLOAD
proof (unfold_locales, goal_cases)
  case (1 r mem p)
  then show ?case
    by (cases r) (auto simp add: timed_req_encode_def rcp_timed_encode_request_def
        repurposed_defined not_less simp del: not_None_eq)
next
  case (2 mem r p f rest)
  obtain bus t tn where r: "r = (bus, t, tn)" by (cases r)
  from 2(2) have t: "t \<le> RCP_TIMED_PRESENTATION_TIME_MAX" by (simp add: r)
  from 2 have "gbb_repurposed_frame mem
      (zero_info\<lparr>bm_byte_bus_id := bus, bm_transaction_num := tn\<rparr>)
      (push_bit 56 (ucast RCP_REQUEST_TYPE_TIMED) OR (t AND RCP_TIMED_PRESENTATION_TIME_MAX)) p = Some f"
    by (simp add: r timed_req_encode_def rcp_timed_encode_request_def
        split: if_splits)
  from repurposed_decode [OF this, of rest] show ?case
    by (simp add: r rcp_timed_decode_request_def timed_ts_fields [OF t] repurposed_eval)
qed (use timed_decode_inside gbb_decode_SomeD in blast)+

section \<open>Sequencer steps\<close>

lemma compound_tick_guarded:
  assumes "seq_wf t"
  shows "rcp_compound_tick t step elapsed =
     (if rcp_compound_exec_delay_elapsed step elapsed
      then seqs.guarded_set t (ucast (sequencer_index step)) (start_state step) (next_state step)
      else (False, t))"
    and "rcp_compound_wait_tick t step met =
     (if met
      then seqs.guarded_set t (ucast (sequencer_index step)) (start_state step) (next_state step)
      else (False, t))"
  using assms
  by (auto simp: rcp_compound_tick_def rcp_compound_wait_tick_def rcp_compound_advance_guard_def
      apply_next_state_def seqs.guarded_set_def rcp_sequencer_get_state_def split: option.splits)

datatype step_event = Tick rcp_compound_step_t u32 | Wait_Tick rcp_compound_step_t bool

fun run_step_event :: "rcp_sequencer_table_t \<Rightarrow> step_event \<Rightarrow> rcp_sequencer_table_t" where
  "run_step_event t (Tick step elapsed) = snd (rcp_compound_tick t step elapsed)"
| "run_step_event t (Wait_Tick step met) = snd (rcp_compound_wait_tick t step met)"

fun step_move :: "step_event \<Rightarrow> (u16 \<times> byte \<times> byte) list" where
  "step_move (Tick step elapsed) = (if rcp_compound_exec_delay_elapsed step elapsed
     then [(ucast (sequencer_index step), start_state step, next_state step)] else [])"
| "step_move (Wait_Tick step met) = (if met
     then [(ucast (sequencer_index step), start_state step, next_state step)] else [])"

lemma run_step_event_guarded: "seq_wf t \<Longrightarrow> run_step_event t ev = seqs.run_guarded t (step_move ev)"
  by (cases ev) (simp_all add: compound_tick_guarded seqs.run_guarded_def)

lemma run_step_event_wf: "seq_wf t \<Longrightarrow> seq_wf (run_step_event t ev)"
  by (cases ev) (simp_all add: compound_tick_guarded seqs.guarded_set_invar)

lemma run_step_events_guarded:
  "seq_wf t \<Longrightarrow> foldl run_step_event t evs = seqs.run_guarded t (concat (map step_move evs))"
proof (induction evs arbitrary: t)
  case (Cons ev evs)
  from Cons.IH [OF run_step_event_wf [OF Cons.prems, of ev]] show ?case
    by (simp add: run_step_event_guarded [OF Cons.prems] seqs.run_guarded_def)
qed (simp add: seqs.run_guarded_def)

section \<open>Trigger occurrences\<close>

definition matching :: "rcp_triggered_step_t \<Rightarrow> byte \<times> byte \<Rightarrow> bool" where
  "matching step occ \<longleftrightarrow> occ = (trigger_source_ep step, trigger_signal_nr step)"

definition record_all :: "rcp_triggered_step_t \<Rightarrow> rcp_triggered_runtime_t \<Rightarrow> (byte \<times> byte) list \<Rightarrow>
    rcp_triggered_runtime_t" where
  "record_all step = foldl (\<lambda>rt (ep, sig). snd (rcp_triggered_runtime_record_occurrence rt step ep sig))"

lemma record_all_count:
  "started rt \<Longrightarrow> record_all step rt occs =
     rt\<lparr>occurrence_count := occurrence_count rt + of_nat (length (filter (matching step) occs))\<rparr>"
proof (induction occs arbitrary: rt)
  case (Cons occ occs)
  obtain ep sig where occ: "occ = (ep, sig)" by (cases occ)
  from Cons show ?case
    by (auto simp: record_all_def occ matching_def rcp_triggered_runtime_record_occurrence_def)
qed (simp add: record_all_def)

section \<open>The 48-bit clock\<close>

lemma forward_delta_uint:
  "uint (timed_forward_delta (now + word_of_int d) now) = d mod 2 ^ 48"
proof -
  have "timed_forward_delta (now + word_of_int d) now = take_bit 48 (word_of_int d)"
    by (simp add: timed_forward_delta_def consts_rcp take_bit_eq_mask mask_eq_exp_minus_1)
  then have "uint (timed_forward_delta (now + word_of_int d) now) = take_bit 48 (uint (word_of_int d :: u64))"
    by (simp add: unsigned_take_bit_eq)
  also have "\<dots> = d mod 2 ^ 48"
    by (simp add: take_bit_eq_mod uint_word_of_int mod_mod_cancel)
  finally show ?thesis .
qed

lemma timed_signed:
  assumes "- (2 ^ 47) < d" and "d \<le> 2 ^ 47"
  shows "rcp_timed_due (now + word_of_int d) now = (d \<le> 0)"
    and "rcp_timed_too_far (now + word_of_int d) now h = (d > uint h)"
proof -
  let ?f = "timed_forward_delta (now + word_of_int d) now"
  have past: "timed_in_the_past ?f = (d mod 2 ^ 48 > 2 ^ 47)"
    by (simp add: timed_in_the_past_def word_less_def forward_delta_uint consts_rcp)
  have zero: "(?f = 0) = (d mod 2 ^ 48 = 0)"
    using forward_delta_uint [of now d] by (metis unsigned_0 word_uint_eq_iff)
  have far: "(?f > h) = (d mod 2 ^ 48 > uint h)"
    by (simp add: word_less_def forward_delta_uint)
  have m: "d mod 2 ^ 48 = (if d < 0 then d + 2 ^ 48 else d)"
  proof (cases "d < 0")
    case True
    have "d mod 2 ^ 48 = (d + 2 ^ 48) mod 2 ^ 48" by simp
    also have "\<dots> = d + 2 ^ 48" using True assms by (intro mod_pos_pos_trivial) simp_all
    finally show ?thesis using True by simp
  next
    case False
    with assms show ?thesis by simp
  qed
  define x where "x = uint h"
  have x: "0 \<le> x" by (simp add: x_def)
  show "rcp_timed_due (now + word_of_int d) now = (d \<le> 0)"
    unfolding rcp_timed_due_def Let_def past zero m using assms by auto
  show "rcp_timed_too_far (now + word_of_int d) now h = (d > uint h)"
    unfolding rcp_timed_too_far_def Let_def past far m x_def [symmetric] using assms x by auto
qed

section \<open>Chains\<close>

text \<open>The outcomes of the members after the first one: each is given its predecessor's error status
  and its own \<^verbatim>\<open>cs\<close> bit.\<close>

primrec chain_run :: "bool \<Rightarrow> (bool \<times> byte) list \<Rightarrow> rcp_chained_member_outcome_t list" where
  "chain_run aborted [] = []"
| "chain_run aborted (m # ms) =
     (let (out, aborted') = rcp_chained_advance aborted True (fst m) (snd m)
      in out # chain_run aborted' ms)"

lemma length_chain_run [simp]: "length (chain_run a ms) = length ms"
  by (induction ms arbitrary: a) (simp_all add: Let_def split: prod.splits)

lemma chain_run_aborted: "k < length ms \<Longrightarrow> chain_run True ms ! k = RCP_CHAINED_MEMBER_CHAIN_ABORTED"
proof (induction ms arbitrary: k)
  case (Cons m ms)
  then show ?case by (cases k) (simp_all add: rcp_chained_advance_def)
qed simp

lemma chain_run_spec:
  "k < length ms \<Longrightarrow> chain_run False ms ! k =
     (if \<exists>j\<le>k. fst (ms ! j) \<and> snd (ms ! j) = RCP_CHAINED_CS_ABORT_ON_ERROR
      then RCP_CHAINED_MEMBER_CHAIN_ABORTED else RCP_CHAINED_MEMBER_OK)"
proof (induction ms arbitrary: k)
  case (Cons m ms)
  show ?case
  proof (cases "fst m \<and> snd m = RCP_CHAINED_CS_ABORT_ON_ERROR")
    case True
    then have "\<exists>j\<le>k. fst ((m # ms) ! j) \<and> snd ((m # ms) ! j) = RCP_CHAINED_CS_ABORT_ON_ERROR"
      by (intro exI [of _ 0]) simp
    with True Cons.prems show ?thesis
      by (cases k) (simp_all add: rcp_chained_advance_def chain_run_aborted)
  next
    case False
    then have run: "chain_run False (m # ms) = RCP_CHAINED_MEMBER_OK # chain_run False ms"
      by (auto simp: rcp_chained_advance_def)
    show ?thesis
    proof (cases k)
      case 0 with False show ?thesis unfolding run by auto
    next
      case (Suc k')
      have "(\<exists>j\<le>Suc k'. fst ((m # ms) ! j) \<and> snd ((m # ms) ! j) = RCP_CHAINED_CS_ABORT_ON_ERROR)
          = (\<exists>j\<le>k'. fst (ms ! j) \<and> snd (ms ! j) = RCP_CHAINED_CS_ABORT_ON_ERROR)"
        unfolding ex_le_Suc_shift using False by auto
      with Suc Cons show ?thesis unfolding run by simp
    qed
  qed
qed simp

section \<open>Properties\<close>

text \<open>A compound or compound-wait request with a payload of at most 2028 octets encodes to a
  frame that decodes to the same request type, sequencer step, comparison mode, transaction number,
  endpoint and payload; any other request type is refused by the encoder.\<close>

theorem compound_roundtrip:
  assumes "length p \<le> RCP_ACF_GBB_MAX_PAYLOAD"
  shows "if rcp_request_type_is_compound rt \<or> rcp_request_type_is_compound_wait rt
         then \<exists>f. rcp_compound_encode_request True rt bus step evt tn p = Some f \<and>
                  rcp_compound_decode_request (f @ rest) =
                    Inr ((rt, bus AND 0x7FF, step, evt AND 0xF, tn), p)
         else rcp_compound_encode_request True rt bus step evt tn p = None"
  using compound.roundtrip [of "(rt, bus, step, evt, tn)", OF _ assms, of rest]
  by (auto simp: compound_req_encode_def rcp_compound_encode_request_def)

theorem compound_roundtrip_witness:
  "if rcp_request_type_is_compound 0x8F \<or> rcp_request_type_is_compound_wait 0x8F
   then \<exists>f. rcp_compound_encode_request True 0x8F 3
              \<lparr>start_state = 1, next_state = 2, sequencer_index = 0, exec_delay = 500, repeat_count = 1\<rparr>
              0 9 [0xAA] = Some f \<and>
            rcp_compound_decode_request (f @ []) =
              Inr ((0x8F, 3 AND 0x7FF,
                \<lparr>start_state = 1, next_state = 2, sequencer_index = 0, exec_delay = 500, repeat_count = 1\<rparr>,
                0 AND 0xF, 9), [0xAA])
   else rcp_compound_encode_request True 0x8F 3
          \<lparr>start_state = 1, next_state = 2, sequencer_index = 0, exec_delay = 500, repeat_count = 1\<rparr>
          0 9 [0xAA] = None"
  by (rule compound_roundtrip) (simp add: consts_rcp)

text \<open>Triggered, chained and timed requests decode to the fields they were encoded from; a
  presentation time beyond 48 bits is refused by the encoder.\<close>

theorem triggered_chained_timed_roundtrip:
  assumes "length p \<le> RCP_ACF_GBB_MAX_PAYLOAD" and "rcp_request_type_is_triggered rt"
  shows "(\<exists>f. rcp_triggered_encode_request True rt bus tstep tn p = Some f \<and>
              rcp_triggered_decode_request (f @ rest) = Inr ((rt, bus AND 0x7FF, tstep, tn), p)) \<and>
         (\<exists>f. rcp_chained_encode_member True bus delay cs tn p = Some f \<and>
              rcp_chained_decode_member (f @ rest) = Inr ((bus AND 0x7FF, delay, cs AND 0x1, tn), p)) \<and>
         (if t > RCP_TIMED_PRESENTATION_TIME_MAX then rcp_timed_encode_request True bus t tn p = None
          else \<exists>f. rcp_timed_encode_request True bus t tn p = Some f \<and>
              rcp_timed_decode_request (f @ rest) = Inr ((bus AND 0x7FF, t, tn), p))"
  using triggered.roundtrip [of "(rt, bus, tstep, tn)", OF _ assms(1), of rest]
    chained.roundtrip [OF _ assms(1), of "(bus, delay, cs, tn)" rest]
    timed.roundtrip [of "(bus, t, tn)", OF _ assms(1), of rest] assms(2)
  by (auto simp: triggered_req_encode_def chained_req_encode_def timed_req_encode_def
      rcp_timed_encode_request_def not_less)

theorem triggered_chained_timed_roundtrip_witness:
  "(\<exists>f. rcp_triggered_encode_request True 0x0E 2
          \<lparr>trigger_source_ep = 4, trigger_signal_nr = 1, trigger_threshold = 2, trigger_exec_delay = 0,
           trigger_repeat_count = 0\<rparr> 8 [1] = Some f \<and>
        rcp_triggered_decode_request (f @ []) = Inr ((0x0E, 2 AND 0x7FF,
          \<lparr>trigger_source_ep = 4, trigger_signal_nr = 1, trigger_threshold = 2, trigger_exec_delay = 0,
           trigger_repeat_count = 0\<rparr>, 8), [1])) \<and>
   (\<exists>f. rcp_chained_encode_member True 2 10 1 8 [1] = Some f \<and>
        rcp_chained_decode_member (f @ []) = Inr ((2 AND 0x7FF, 10, 1 AND 0x1, 8), [1])) \<and>
   (if 1000 > RCP_TIMED_PRESENTATION_TIME_MAX then rcp_timed_encode_request True 2 1000 8 [1] = None
    else \<exists>f. rcp_timed_encode_request True 2 1000 8 [1] = Some f \<and>
        rcp_timed_decode_request (f @ []) = Inr ((2 AND 0x7FF, 1000, 8), [1]))"
  by (rule triggered_chained_timed_roundtrip)
    (simp_all add: consts_rcp rcp_request_type_is_triggered_def)

text \<open>The three cancellation requests decode to what they were encoded from, and each decoder
  refuses the frames of the other kinds as an unknown request type.\<close>

theorem cancellation_codecs:
  "\<exists>all single safe.
     rcp_cancel_encode_clear_all True bus tn = Some all \<and>
     rcp_cancel_encode_clear_single True bus ctn tn = Some single \<and>
     rcp_compound_encode_clear_non_safestate True bus tn = Some safe \<and>
     rcp_cancel_decode_clear_all all = Inr (bus AND 0x7FF, tn) \<and>
     rcp_cancel_decode_clear_single single = Inr (bus AND 0x7FF, ctn, tn) \<and>
     rcp_compound_decode_clear_non_safestate safe = Inr (bus AND 0x7FF, tn) \<and>
     rcp_cancel_decode_clear_all single = Inl RCP_CANCEL_ERR_UNKNOWN_TYPE \<and>
     rcp_cancel_decode_clear_single all = Inl RCP_CANCEL_ERR_UNKNOWN_TYPE \<and>
     rcp_cancel_decode_clear_all safe = Inl RCP_CANCEL_ERR_UNKNOWN_TYPE \<and>
     rcp_compound_decode_clear_non_safestate all = Inl RCP_COMPOUND_ERR_UNKNOWN_TYPE"
proof -
  let ?i = "zero_info\<lparr>bm_byte_bus_id := bus, bm_transaction_num := tn\<rparr>"
  have i: "zero_info\<lparr>bm_byte_bus_id := bus, bm_cs := 0, bm_evt := 0, bm_transaction_num := tn\<rparr> = ?i"
    by (simp add: zero_info_def)
  have ex: "\<exists>f. gbb_repurposed_frame True ?i ts [] = Some f" for ts
    using repurposed_defined [of True ?i ts "[]"] by auto
  obtain a where a: "gbb_repurposed_frame True ?i (push_bit 56 (ucast RCP_REQUEST_TYPE_CLEAR_ALL)) [] = Some a"
    using ex by blast
  obtain s where s: "gbb_repurposed_frame True ?i
      (push_bit 56 (ucast RCP_REQUEST_TYPE_CLEAR_SINGLE) OR push_bit 32 (ucast ctn)) [] = Some s"
    using ex by blast
  obtain n where n: "gbb_repurposed_frame True ?i
      (push_bit 56 (ucast RCP_REQUEST_TYPE_CLEAR_NON_SAFESTATE)) [] = Some n"
    using ex by blast
  have ne: "RCP_REQUEST_TYPE_CLEAR_ALL \<noteq> RCP_REQUEST_TYPE_CLEAR_SINGLE"
    "RCP_REQUEST_TYPE_CLEAR_ALL \<noteq> RCP_REQUEST_TYPE_CLEAR_NON_SAFESTATE" by (simp_all add: consts_rcp)
  note dec = repurposed_decode [where rest = "[]", simplified]
  show ?thesis
    using a s n dec [OF a] dec [OF s] dec [OF n] ne ne [symmetric]
    by (simp add: rcp_cancel_encode_clear_all_def rcp_cancel_encode_clear_single_def
        rcp_compound_encode_clear_non_safestate_def encode_gbb_repurposed_def cancel_frame_repurposed i
        rcp_cancel_decode_clear_all_def rcp_cancel_decode_clear_single_def
        rcp_compound_decode_clear_non_safestate_def clear_ts_fields repurposed_eval)
qed

text \<open>A compound step takes effect exactly when its delay has elapsed and its sequencer is in
  the step's nonzero start state; it then moves that sequencer to its next state, zero meaning that
  the state is kept, and no other sequencer changes.\<close>

theorem compound_tick_effect:
  assumes "seq_wf t"
  shows "fst (rcp_compound_tick t step elapsed) =
           (ucast (exec_delay step) \<le> elapsed \<and> start_state step \<noteq> 0 \<and>
            rcp_sequencer_get_state t (ucast (sequencer_index step)) = Some (start_state step)) \<and>
         rcp_sequencer_get_state (snd (rcp_compound_tick t step elapsed)) j =
           (if fst (rcp_compound_tick t step elapsed) \<and> j = ucast (sequencer_index step) \<and>
               next_state step \<noteq> 0
            then Some (next_state step) else rcp_sequencer_get_state t j)"
  using assms
  by (auto simp: compound_tick_guarded rcp_compound_exec_delay_elapsed_def
      seqs.guarded_set_result seqs.guarded_set_get)

definition sample_step :: rcp_compound_step_t where
  "sample_step = \<lparr>start_state = 1, next_state = 5, sequencer_index = 1, exec_delay = 10,
     repeat_count = 0\<rparr>"

definition sample_table :: rcp_sequencer_table_t where
  "sample_table = \<lparr>seq_state = [1, 1], seq_owner = [3, 3], seq_count = 2\<rparr>"

theorem compound_tick_effect_witness:
  "fst (rcp_compound_tick sample_table sample_step 10) \<and>
   rcp_sequencer_get_state (snd (rcp_compound_tick sample_table sample_step 10)) 1 = Some 5"
  using compound_tick_effect [of sample_table sample_step 10 1]
  by (simp add: sample_table_def sample_step_def seq_wf_def rcp_sequencer_get_state_def
      rcp_sequencer_index_valid_def)

text \<open>No sequence of compound and compound-wait ticks moves a disabled sequencer (state zero) or
  disables one that is enabled.\<close>

theorem disabled_sequencer_stays:
  assumes "seq_wf t"
  shows "(rcp_sequencer_get_state (foldl run_step_event t evs) j = Some 0) =
           (rcp_sequencer_get_state t j = Some 0)"
  using seqs.run_guarded_disabled [OF assms] by (simp add: run_step_events_guarded [OF assms])

theorem disabled_sequencer_stays_witness:
  "(rcp_sequencer_get_state (foldl run_step_event
      \<lparr>seq_state = [0, 1], seq_owner = [1, 1], seq_count = 2\<rparr>
      [Tick \<lparr>start_state = 0, next_state = 3, sequencer_index = 0, exec_delay = 0, repeat_count = 0\<rparr> 9,
       Wait_Tick \<lparr>start_state = 1, next_state = 4, sequencer_index = 1, exec_delay = 0, repeat_count = 0\<rparr> True])
      0 = Some 0) =
   (rcp_sequencer_get_state \<lparr>seq_state = [0, 1], seq_owner = [1, 1], seq_count = 2\<rparr> 0 = Some 0)"
  by (rule disabled_sequencer_stays) (simp add: seq_wf_def)

text \<open>A step whose start state is the wildcard zero meets its start condition on every enabled
  sequencer, yet neither kind of tick ever advances the sequencer for it.\<close>

theorem wildcard_step_never_advances:
  assumes "start_state step = 0"
  shows "rcp_compound_tick t step elapsed = (False, t) \<and>
         rcp_compound_wait_tick t step met = (False, t) \<and>
         (rcp_compound_start_condition_met t step =
           (\<exists>s. rcp_sequencer_get_state t (ucast (sequencer_index step)) = Some s \<and> s \<noteq> 0))"
  using assms
  by (auto simp: rcp_compound_tick_def rcp_compound_wait_tick_def rcp_compound_advance_guard_def
      rcp_compound_start_condition_met_def split: option.splits)

theorem wildcard_step_never_advances_witness:
  "rcp_compound_tick (rcp_sequencer_table_new True True 1)
     \<lparr>start_state = 0, next_state = 3, sequencer_index = 0, exec_delay = 0, repeat_count = 0\<rparr> 5 =
     (False, rcp_sequencer_table_new True True 1)"
  using wildcard_step_never_advances [of
      "\<lparr>start_state = 0, next_state = 3, sequencer_index = 0, exec_delay = 0, repeat_count = 0\<rparr>"
      "rcp_sequencer_table_new True True 1" 5 True] by simp

text \<open>A started triggered request fires exactly when strictly more matching trigger occurrences
  than its threshold were recorded since it was started, its delay has elapsed and the endpoint is
  idle; firing stops it, so it does not fire again without being started anew.  Fewer than
  \<open>2 ^ 32\<close> occurrences are recorded, the range of the counter.\<close>

theorem triggered_fires_after_threshold:
  assumes "length occs < 2 ^ 32"
  shows "let rt' = record_all step (rcp_triggered_runtime_enter_started rt) occs in
         fst (rcp_triggered_tick step rt' elapsed idle) =
           (unat (trigger_threshold step) < length (filter (matching step) occs) \<and>
            ucast (trigger_exec_delay step) \<le> elapsed \<and> idle) \<and>
         (fst (rcp_triggered_tick step rt' elapsed idle) \<longrightarrow>
          fst (rcp_triggered_tick step
                 (record_all step (snd (rcp_triggered_tick step rt' elapsed idle)) later)
                 elapsed2 idle2) = False)"
proof -
  let ?c = "length (filter (matching step) occs)"
  have rt': "record_all step (rcp_triggered_runtime_enter_started rt) occs =
      rt\<lparr>occurrence_count := of_nat ?c, started := True\<rparr>"
    by (simp add: record_all_count rcp_triggered_runtime_enter_started_def)
  have "?c < 2 ^ 32" using assms(1) length_filter_le [of "matching step" occs] by linarith
  then have c: "unat (of_nat ?c :: u32) = ?c" by (simp add: unat_of_nat)
  have th: "unat (ucast (trigger_threshold step) :: u32) = unat (trigger_threshold step)"
    by (simp add: unsigned_ucast_eq take_bit_nat_eq_self_iff order_less_le_trans [OF unsigned_less])
  have stopped: "record_all step r later = r" if "\<not> started r" for r
    using that unfolding record_all_def
    by (induction later) (auto simp: rcp_triggered_runtime_record_occurrence_def)
  show ?thesis
    unfolding Let_def rt' rcp_triggered_tick_def rcp_triggered_threshold_reached_def
      rcp_triggered_exec_delay_elapsed_def
    by (simp add: word_less_nat_alt c th stopped)
qed

theorem triggered_fires_after_threshold_witness:
  "fst (rcp_triggered_tick
      \<lparr>trigger_source_ep = 4, trigger_signal_nr = 1, trigger_threshold = 1, trigger_exec_delay = 0, trigger_repeat_count = 0\<rparr>
      (record_all \<lparr>trigger_source_ep = 4, trigger_signal_nr = 1, trigger_threshold = 1, trigger_exec_delay = 0, trigger_repeat_count = 0\<rparr>
        (rcp_triggered_runtime_enter_started \<lparr>occurrence_count = 9, started = False\<rparr>) [(4, 1), (4, 2), (4, 1)])
      0 True)"
  using triggered_fires_after_threshold [of "[(4, 1), (4, 2), (4, 1)]"
      "\<lparr>trigger_source_ep = 4, trigger_signal_nr = 1, trigger_threshold = 1, trigger_exec_delay = 0, trigger_repeat_count = 0\<rparr>"
      "\<lparr>occurrence_count = 9, started = False\<rparr>" 0 True "[]" 0 True]
  by (simp add: matching_def Let_def)

text \<open>In a chain of members that all have a predecessor, a member may execute exactly when no
  member up to and including it follows a failed predecessor with its abort bit set; otherwise it is
  reported as aborted.  A member without a predecessor is a chain error and aborts the chain.\<close>

theorem chain_outcomes:
  assumes "k < length ms"
  shows "chain_run False ms ! k =
           (if \<exists>j\<le>k. fst (ms ! j) \<and> snd (ms ! j) = RCP_CHAINED_CS_ABORT_ON_ERROR
            then RCP_CHAINED_MEMBER_CHAIN_ABORTED else RCP_CHAINED_MEMBER_OK) \<and>
         rcp_chained_advance a False e cs = (RCP_CHAINED_MEMBER_CHAIN_ERROR, True)"
  using chain_run_spec [OF assms] by (simp add: rcp_chained_advance_def)

theorem chain_outcomes_witness:
  "chain_run False [(True, 0), (True, 1), (False, 0)] ! 2 = RCP_CHAINED_MEMBER_CHAIN_ABORTED"
  using chain_outcomes [of 2 "[(True, 0), (True, 1), (False, 0)]" False False 0]
  by (auto simp: consts_rcp intro: exI [of _ 1] split: if_splits)

text \<open>On the 48-bit wrapping clock a presentation time at signed distance \<open>d\<close> from now, within
  half the modulus, is due exactly when \<open>d \<le> 0\<close> and too far exactly when \<open>d\<close> exceeds the horizon;
  with a locked clock a request is refused exactly in the second case.\<close>

theorem timed_wrapping_clock:
  assumes "- (2 ^ 47) < d" and "d \<le> 2 ^ 47"
  shows "rcp_timed_due (now + word_of_int d) now = (d \<le> 0) \<and>
         rcp_timed_too_far (now + word_of_int d) now h = (d > uint h) \<and>
         rcp_timed_admit locked (now + word_of_int d) now h =
           (if \<not> locked then RCP_TIMED_REJECT_GPTP_FAIL
            else if d > uint h then RCP_TIMED_REJECT_PRESENTATION_TIME_TOO_FAR else RCP_TIMED_ACCEPT)"
  using timed_signed [OF assms] by (simp add: rcp_timed_admit_def)

theorem timed_wrapping_clock_witness:
  "rcp_timed_due (0xFFFFFFFFFFF0 + word_of_int 0x20) 0xFFFFFFFFFFF0 = ((0x20 :: int) \<le> 0) \<and>
   rcp_timed_too_far (0xFFFFFFFFFFF0 + word_of_int 0x20) 0xFFFFFFFFFFF0 0x10 = (0x20 > uint (0x10 :: u64)) \<and>
   rcp_timed_admit True (0xFFFFFFFFFFF0 + word_of_int 0x20) 0xFFFFFFFFFFF0 0x10 =
     (if \<not> True then RCP_TIMED_REJECT_GPTP_FAIL
      else if 0x20 > uint (0x10 :: u64) then RCP_TIMED_REJECT_PRESENTATION_TIME_TOO_FAR else RCP_TIMED_ACCEPT)"
  by (rule timed_wrapping_clock) simp_all

end
