(* ===== verification/Scheduler.thy ===== *)
theory Scheduler
  imports Requests
begin

text \<open>
  \<^verbatim>\<open>src/scheduler.c\<close>: the priority of request kinds, the total order in which pending
  requests are served, and the splitting of a frame into its ACF members.  The kinds are ordered by
  rank as an instance of \<open>linorder\<close>; the service order is an interpretation of
  \<open>service_order\<close>.
\<close>

section \<open>Data and operations\<close>

datatype rcp_sched_kind_t =
    RCP_SCHED_KIND_STANDARD | RCP_SCHED_KIND_CHAINED | RCP_SCHED_KIND_COMPOUND_WAIT
  | RCP_SCHED_KIND_COMPOUND | RCP_SCHED_KIND_TIMED | RCP_SCHED_KIND_TRIGGERED
  | RCP_SCHED_KIND_CANCELLATION

record rcp_sched_entry_t =
  entry_kind :: rcp_sched_kind_t
  entry_sequence :: u64

definition rcp_sched_classify :: "bool \<Rightarrow> byte \<Rightarrow> rcp_sched_kind_t" where
  "rcp_sched_classify is_repurposed request_type =
     (if \<not> is_repurposed then RCP_SCHED_KIND_STANDARD
      else if request_type = RCP_REQUEST_TYPE_CLEAR_ALL \<or>
              request_type = RCP_REQUEST_TYPE_CLEAR_NON_SAFESTATE \<or>
              request_type = RCP_REQUEST_TYPE_CLEAR_SINGLE
      then RCP_SCHED_KIND_CANCELLATION
      else if rcp_request_type_is_triggered request_type then RCP_SCHED_KIND_TRIGGERED
      else if request_type = RCP_REQUEST_TYPE_TIMED then RCP_SCHED_KIND_TIMED
      else if rcp_request_type_is_compound request_type then RCP_SCHED_KIND_COMPOUND
      else if rcp_request_type_is_compound_wait request_type then RCP_SCHED_KIND_COMPOUND_WAIT
      else if request_type = RCP_REQUEST_TYPE_CHAINED then RCP_SCHED_KIND_CHAINED
      else RCP_SCHED_KIND_STANDARD)"

fun rcp_sched_kind_rank :: "rcp_sched_kind_t \<Rightarrow> byte" where
  "rcp_sched_kind_rank RCP_SCHED_KIND_CANCELLATION = 6"
| "rcp_sched_kind_rank RCP_SCHED_KIND_TRIGGERED = 5"
| "rcp_sched_kind_rank RCP_SCHED_KIND_TIMED = 4"
| "rcp_sched_kind_rank RCP_SCHED_KIND_COMPOUND = 3"
| "rcp_sched_kind_rank RCP_SCHED_KIND_COMPOUND_WAIT = 2"
| "rcp_sched_kind_rank RCP_SCHED_KIND_CHAINED = 1"
| "rcp_sched_kind_rank RCP_SCHED_KIND_STANDARD = 0"

definition rcp_sched_compare :: "rcp_sched_entry_t \<Rightarrow> rcp_sched_entry_t \<Rightarrow> int" where
  "rcp_sched_compare a b =
     (let ra = rcp_sched_kind_rank (entry_kind a);
          rb = rcp_sched_kind_rank (entry_kind b)
      in if ra \<noteq> rb then (if ra > rb then -1 else 1)
         else if entry_sequence a \<noteq> entry_sequence b
         then (if entry_sequence a < entry_sequence b then -1 else 1)
         else 0)"

text \<open>One iteration of the loop at an offset inside the frame: the length of the member that starts
  there, or \<open>None\<close> when the frame is malformed.\<close>

definition sched_member_len :: "bytes \<Rightarrow> nat \<Rightarrow> nat option" where
  "sched_member_len b offset =
     (if length b - offset < 2 then None
      else
        let msg_type = drop_bit 1 (b ! offset) in
        if msg_type \<noteq> RCP_ACF_MSG_TYPE_ABB \<and> msg_type \<noteq> RCP_ACF_MSG_TYPE_GBB then None
        else
          let header_len = (if msg_type = RCP_ACF_MSG_TYPE_ABB then RCP_ACF_ABB_HEADER_LEN
                            else RCP_ACF_GBB_HEADER_LEN)
          in if length b - offset < header_len then None
             else
               let quadlets = (push_bit 8 (ucast (b ! offset AND 0x01)) OR
                               ucast (b ! (offset + 1))) :: u16;
                   msg_len = unat quadlets * 4
               in if msg_len < header_len then None
                  else if length b - offset < msg_len then None
                  else Some msg_len)"

lemma sched_member_len_pos: "sched_member_len b offset = Some n \<Longrightarrow> 8 \<le> n \<and> offset + n \<le> length b"
  by (auto simp: sched_member_len_def Let_def consts_rcp split: if_splits)

text \<open>The loop: the offsets found so far, and the count returned (zero for a malformed frame, whose
  earlier offsets have been stored all the same).\<close>

function sched_split_loop :: "bytes \<Rightarrow> nat \<Rightarrow> nat list \<Rightarrow> nat \<times> nat list" where
  "sched_split_loop b offset found =
     (if offset < length b
      then (case sched_member_len b offset of
              None \<Rightarrow> (0, found)
            | Some msg_len \<Rightarrow> sched_split_loop b (offset + msg_len) (found @ [offset]))
      else (length found, found))"
  by pat_completeness auto
termination
  by (relation "measure (\<lambda>(b, offset, found). length b - offset)")
    (auto dest: sched_member_len_pos)

declare sched_split_loop.simps [simp del]

definition rcp_sched_split_frame_members :: "bytes \<Rightarrow> nat \<Rightarrow> nat \<times> nat list" where
  "rcp_sched_split_frame_members b out_cap =
     (let (count, offsets) = sched_split_loop b 0 [] in (count, take out_cap offsets))"

definition rcp_sched_frame_timing_consistent :: "bool \<Rightarrow> bool list \<Rightarrow> bool" where
  "rcp_sched_frame_timing_consistent is_tscf member_is_timed =
     (if \<not> is_tscf then True
      else if length member_is_timed = 0 then True
      else list_all (\<lambda>i. member_is_timed ! i = member_is_timed ! 0) [1..<length member_is_timed])"

section \<open>Kinds as a linear order\<close>

lemma kind_rank_inj: "rcp_sched_kind_rank a = rcp_sched_kind_rank b \<Longrightarrow> a = b"
  by (cases a; cases b) simp_all

instantiation rcp_sched_kind_t :: linorder
begin

definition less_eq_rcp_sched_kind_t :: "rcp_sched_kind_t \<Rightarrow> rcp_sched_kind_t \<Rightarrow> bool" where
  "less_eq_rcp_sched_kind_t a b \<longleftrightarrow> rcp_sched_kind_rank a \<le> rcp_sched_kind_rank b"

definition less_rcp_sched_kind_t :: "rcp_sched_kind_t \<Rightarrow> rcp_sched_kind_t \<Rightarrow> bool" where
  "less_rcp_sched_kind_t a b \<longleftrightarrow> rcp_sched_kind_rank a < rcp_sched_kind_rank b"

instance
  by standard
    (auto simp: less_eq_rcp_sched_kind_t_def less_rcp_sched_kind_t_def intro: kind_rank_inj)

end

lemma sched_before_iff:
  "rcp_sched_compare a b < 0 \<longleftrightarrow>
     entry_kind a > entry_kind b \<or>
     entry_kind a = entry_kind b \<and> entry_sequence a < entry_sequence b"
  by (auto simp: rcp_sched_compare_def Let_def less_rcp_sched_kind_t_def dest: kind_rank_inj)

lemma sched_compare_antisym: "rcp_sched_compare b a = - rcp_sched_compare a b"
  by (auto simp: rcp_sched_compare_def Let_def)

lemma sched_compare_zero: "rcp_sched_compare a b = 0 \<longleftrightarrow> a = b"
  by (cases a; cases b) (auto simp: rcp_sched_compare_def Let_def dest: kind_rank_inj)

lemma sched_compare_trans:
  "rcp_sched_compare a b < 0 \<Longrightarrow> rcp_sched_compare b c < 0 \<Longrightarrow> rcp_sched_compare a c < 0"
  unfolding sched_before_iff by auto

interpretation sched: service_order rcp_sched_compare
  by (unfold_locales, rule sched_compare_antisym, rule sched_compare_zero, rule sched_compare_trans)

section \<open>Splitting a frame into members\<close>

primrec member_offsets :: "nat \<Rightarrow> bytes list \<Rightarrow> nat list" where
  "member_offsets start [] = []"
| "member_offsets start (f # fs) = start # member_offsets (start + length f) fs"

definition whole_member :: "bytes \<Rightarrow> bool" where
  "whole_member f \<longleftrightarrow> sched_member_len f 0 = Some (length f)"

lemma member_len_prefix:
  assumes "whole_member f"
  shows "sched_member_len (pre @ f @ rest) (length pre) = Some (length f)"
proof -
  from assms have "8 \<le> length f" using sched_member_len_pos unfolding whole_member_def by blast
  with assms show ?thesis
    by (auto simp: whole_member_def sched_member_len_def Let_def nth_append consts_rcp
        split: if_splits)
qed

lemma member_len_cut:
  assumes "sched_member_len b offset = Some n"
  shows "whole_member (take n (drop offset b))"
proof -
  from sched_member_len_pos [OF assms] have "8 \<le> n" "offset + n \<le> length b" by simp_all
  with assms show ?thesis
    by (auto simp: whole_member_def sched_member_len_def Let_def consts_rcp split: if_splits)
qed

lemma split_loop_members:
  "list_all whole_member fs \<Longrightarrow>
   sched_split_loop (pre @ concat fs) (length pre) found =
     (length found + length fs, found @ member_offsets (length pre) fs)"
proof (induction fs arbitrary: pre found)
  case Nil
  then show ?case by (simp add: sched_split_loop.simps)
next
  case (Cons f fs)
  from Cons.prems have f: "whole_member f" and fs: "list_all whole_member fs" by simp_all
  then have "f \<noteq> []" using sched_member_len_pos unfolding whole_member_def by fastforce
  with member_len_prefix [OF f, of pre "concat fs"] Cons.IH [OF fs, of "pre @ f" "found @ [length pre]"]
  show ?case
    by (subst sched_split_loop.simps) simp
qed

lemma split_loop_sound:
  "sched_split_loop b offset found = (n, offs) \<Longrightarrow> n \<noteq> 0 \<Longrightarrow> offset \<le> length b \<Longrightarrow>
   \<exists>fs. drop offset b = concat fs \<and> list_all whole_member fs \<and>
        n = length found + length fs \<and> offs = found @ member_offsets offset fs"
proof (induction b offset found rule: sched_split_loop.induct)
  case (1 b offset found)
  show ?case
  proof (cases "offset < length b")
    case False
    with 1(2,4) show ?thesis by (intro exI [of _ "[]"]) (auto simp: sched_split_loop.simps)
  next
    case True
    with 1(2,3) obtain m where m: "sched_member_len b offset = Some m"
      by (cases "sched_member_len b offset") (simp_all add: sched_split_loop.simps)
    with True 1(2) have loop: "sched_split_loop b (offset + m) (found @ [offset]) = (n, offs)"
      by (subst (asm) sched_split_loop.simps) simp
    have bound: "offset + m \<le> length b" using sched_member_len_pos [OF m] by simp
    from 1(1) [OF True m loop 1(3) bound] obtain fs where
      fs: "drop (offset + m) b = concat fs" "list_all whole_member fs"
        "n = length (found @ [offset]) + length fs"
        "offs = (found @ [offset]) @ member_offsets (offset + m) fs" by blast
    let ?f = "take m (drop offset b)"
    have "length ?f = m" using bound by simp
    moreover have "drop offset b = ?f @ drop (offset + m) b"
      by (metis append_take_drop_id drop_drop add.commute)
    ultimately show ?thesis
      using fs member_len_cut [OF m] by (intro exI [of _ "?f # fs"]) simp
  qed
qed

lemma pack_header_length:
  "push_bit 8 (ucast ((rcp_acf_pack_header t l h @ r) ! 0 AND 0x01)) OR
     ucast ((rcp_acf_pack_header t l h @ r) ! Suc 0) = l AND 0x1FF"
  by (simp add: rcp_acf_pack_header_def Let_def field_laws)

lemma packed_member:
  assumes "t = RCP_ACF_MSG_TYPE_ABB \<or> t = RCP_ACF_MSG_TYPE_GBB \<and> 16 \<le> 8 + length r"
    and "unat (l AND 0x1FF) * 4 = 8 + length r"
  shows "whole_member (rcp_acf_pack_header t l h @ r)"
proof -
  have ty: "drop_bit (Suc 0) ((rcp_acf_pack_header t l h @ r) ! 0) = t"
    using assms(1) by (auto simp: pack_header_msg_type consts_rcp)
  show ?thesis
    unfolding whole_member_def sched_member_len_def Let_def
    using assms ty by (auto simp: pack_header_length consts_rcp)
qed

lemma abb_frame_member:
  assumes "rcp_acf_encode_abb mem h p = Some f" shows "whole_member f"
proof -
  from assms have "length p \<le> 2036" by (auto simp: abb_encode_eq consts_rcp split: if_splits)
  with quadlets(1,2) [of "8 + length p"] assms show ?thesis
    by (auto simp: abb_encode_eq Let_def split: if_splits intro!: packed_member)
qed

lemma gbb_frame_member:
  assumes "rcp_acf_encode_gbb mem h p = Some f" shows "whole_member f"
proof -
  from assms have "length p \<le> 2028" by (auto simp: gbb_encode_eq consts_rcp split: if_splits)
  with quadlets(1,2) [of "16 + length p"] assms show ?thesis
    by (auto simp: gbb_encode_eq Let_def simp del: append_assoc split: if_splits intro!: packed_member)
qed

section \<open>Properties\<close>

text \<open>The comparator serves a request of a higher kind first (cancellation, triggered, timed,
  compound, compound-wait, chained, standard) and requests of one kind in order of arrival; it is
  antisymmetric, zero only for equal entries, and picking the first entry of any list of pending
  requests yields one that precedes or equals every other.\<close>

theorem sched_order_total:
  "(rcp_sched_compare a b < 0) =
     (entry_kind b < entry_kind a \<or>
      entry_kind a = entry_kind b \<and> entry_sequence a < entry_sequence b) \<and>
   rcp_sched_compare b a = - rcp_sched_compare a b \<and>
   (rcp_sched_compare a b = 0) = (a = b) \<and>
   set (x # xs) \<subseteq> {y. rcp_sched_compare (sched.first_of x xs) y \<le> 0} \<and>
   sorted_wrt (<) [RCP_SCHED_KIND_STANDARD, RCP_SCHED_KIND_CHAINED, RCP_SCHED_KIND_COMPOUND_WAIT,
     RCP_SCHED_KIND_COMPOUND, RCP_SCHED_KIND_TIMED, RCP_SCHED_KIND_TRIGGERED,
     RCP_SCHED_KIND_CANCELLATION]"
  using sched.first_of_least [of x xs] sched_compare_antisym [of b a]
  by (auto simp: sched_before_iff sched_compare_zero less_rcp_sched_kind_t_def)

text \<open>A frame that is the concatenation of encoded ABB and GBB messages is split into exactly
  these messages: their number is returned and their offsets, as many as the caller has room for.\<close>

theorem split_encoded_members:
  assumes "\<forall>f\<in>set fs. (\<exists>h p. rcp_acf_encode_abb True h p = Some f) \<or>
                     (\<exists>h p. rcp_acf_encode_gbb True h p = Some f)"
  shows "rcp_sched_split_frame_members (concat fs) cap =
           (length fs, take cap (member_offsets 0 fs))"
proof -
  have "list_all whole_member fs"
    using assms abb_frame_member gbb_frame_member by (fastforce simp: list_all_iff)
  from split_loop_members [OF this, of "[]" "[]"] show ?thesis
    by (simp add: rcp_sched_split_frame_members_def)
qed

theorem split_encoded_members_witness:
  "rcp_sched_split_frame_members
     (concat [the (rcp_acf_encode_abb True zero_info [1, 2, 3, 4, 5]),
              the (rcp_acf_encode_abb True zero_info [])]) 8 =
   (2, [0, 16])"
proof -
  let ?f = "the (rcp_acf_encode_abb True zero_info [1, 2, 3, 4, 5])"
  let ?g = "the (rcp_acf_encode_abb True zero_info [])"
  have f: "rcp_acf_encode_abb True zero_info [1, 2, 3, 4, 5] = Some ?f"
    and g: "rcp_acf_encode_abb True zero_info [] = Some ?g"
    and len: "length ?f = 16"
    by (simp_all add: abb_encode_eq consts_rcp Let_def pad_len_unat)
  have "\<forall>x\<in>set [?f, ?g]. (\<exists>h p. rcp_acf_encode_abb True h p = Some x) \<or>
                        (\<exists>h p. rcp_acf_encode_gbb True h p = Some x)"
    using f g by auto
  from split_encoded_members [OF this, of 8] len show ?thesis by simp
qed

text \<open>Whenever the splitter returns a nonzero count, the frame is exactly the concatenation of
  that many members, each with a complete header and the length it declares, and the offsets stored
  are their positions; no octet belongs to two members or to none.\<close>

theorem split_sound:
  assumes "rcp_sched_split_frame_members b cap = (n, offs)" and "n \<noteq> 0"
  shows "\<exists>fs. b = concat fs \<and> length fs = n \<and> offs = take cap (member_offsets 0 fs) \<and>
              list_all (\<lambda>f. sched_member_len f 0 = Some (length f)) fs"
proof -
  from assms(1) obtain os where loop: "sched_split_loop b 0 [] = (n, os)" and "offs = take cap os"
    by (auto simp: rcp_sched_split_frame_members_def split: prod.splits)
  with split_loop_sound [OF loop assms(2)] show ?thesis
    by (auto simp: whole_member_def [abs_def])
qed

theorem split_sound_witness:
  "\<exists>fs. [0x1C, 2, 0, 0, 0, 0, 0, 0] = concat fs \<and> length fs = 1 \<and>
        [0] = take 4 (member_offsets 0 fs) \<and>
        list_all (\<lambda>f. sched_member_len f 0 = Some (length f)) fs"
proof (rule split_sound)
  show "rcp_sched_split_frame_members [0x1C, 2, 0, 0, 0, 0, 0, 0] 4 = (1, [0])"
    by (simp add: rcp_sched_split_frame_members_def sched_split_loop.simps sched_member_len_def
        consts_rcp Let_def)
qed simp

end
