(* ===== verification/E2e.thy ===== *)
theory E2e
  imports Scheduler
begin

text \<open>
  \<^verbatim>\<open>src/e2e.c\<close>: end-to-end protection.  A protected frame is the ACF message without its
  padding, a CRC over the AVTP header fields and that message, and then the padding; the message's
  length field counts the additional quadlet.  The theory also models the safety rules: which
  requests may execute, which survive a watchdog purge, sequence-number acceptance, the fault latches
  of the streams and their table.

  The CRC register is a 32-bit word and the loops over octets are folds of \<open>crc32_update\<close>.
\<close>

section \<open>Data\<close>

datatype rcp_e2e_errc_t = RCP_E2E_OK | RCP_E2E_ERR_SHORT_FRAME | RCP_E2E_ERR_CRC_MISMATCH

definition RCP_E2E_CRC_LEN :: nat where [consts_rcp]: "RCP_E2E_CRC_LEN = 4"
definition RCP_E2E_CRC32_RPOLY :: u32 where "RCP_E2E_CRC32_RPOLY = 0xC8DF352F"
definition RCP_E2E_STREAM_FAULT_TRACKER_MAX_STREAMS :: nat where
  [consts_rcp]: "RCP_E2E_STREAM_FAULT_TRACKER_MAX_STREAMS = 16"
definition RCP_E2E_MEASURE_FORCE_HIGH_IMPEDANCE :: byte where
  [consts_rcp]: "RCP_E2E_MEASURE_FORCE_HIGH_IMPEDANCE = 0"
definition RCP_E2E_MEASURE_SEQUENCER :: byte where [consts_rcp]: "RCP_E2E_MEASURE_SEQUENCER = 1"

record rcp_e2e_wd_result_t =
  overflowed :: bool
  wd_enter_safe_state :: bool
  notify :: bool

record rcp_e2e_seq_tracker_t =
  has_prev :: bool
  prev_seq :: byte

record rcp_e2e_seq_result_t =
  accept :: bool
  discontinuity :: bool
  seq_enter_safe_state :: bool

datatype rcp_e2e_crc_action_t =
    RCP_E2E_CRC_ACTION_DROP_REQUEST | RCP_E2E_CRC_ACTION_LATCH_STREAM_FAULT

record rcp_e2e_stream_fault_t =
  faulted :: bool

record rcp_e2e_stream_fault_tracker_slot_t =
  slot_stream_id :: u64
  slot_used :: bool
  slot_fault :: rcp_e2e_stream_fault_t

type_synonym rcp_e2e_stream_fault_tracker_t = "rcp_e2e_stream_fault_tracker_slot_t list"

record rcp_e2e_stream_status_t =
  status_crc :: rcp_e2e_stream_fault_t
  seq_blocked :: bool
  wd_blocked :: bool
  overflow_blocked :: bool

fun rcp_e2e_wire_error :: "rcp_e2e_errc_t \<Rightarrow> rcp_wire_error_t" where
  "rcp_e2e_wire_error RCP_E2E_ERR_CRC_MISMATCH = RCP_ERROR_POCI_FAILURE"
| "rcp_e2e_wire_error RCP_E2E_OK = RCP_ERROR_NONE"
| "rcp_e2e_wire_error RCP_E2E_ERR_SHORT_FRAME = RCP_ERROR_NONE"

section \<open>CRC\<close>

text \<open>One iteration of the bit loop.\<close>

definition crc32_step :: "u32 \<Rightarrow> u32" where
  "crc32_step crc =
     (if crc AND 1 \<noteq> 0 then drop_bit 1 crc XOR RCP_E2E_CRC32_RPOLY else drop_bit 1 crc)"

definition crc32_update :: "u32 \<Rightarrow> byte \<Rightarrow> u32" where
  "crc32_update crc b = (crc32_step ^^ 8) (crc XOR ucast b)"

definition rcp_e2e_crc32 :: "bytes \<Rightarrow> u32" where
  "rcp_e2e_crc32 data = foldl crc32_update 0xFFFFFFFF data XOR 0xFFFFFFFF"

definition acf_pad_octets :: "bytes \<Rightarrow> byte" where
  "acf_pad_octets frame = (if length frame < 3 then 0 else drop_bit 6 (frame ! 2) AND 0x3)"

definition rcp_e2e_compute_crc ::
    "byte \<Rightarrow> byte \<Rightarrow> bool \<Rightarrow> u64 \<Rightarrow> u32 \<Rightarrow> bytes \<Rightarrow> u32" where
  "rcp_e2e_compute_crc avtp_subtype header_octet1 tu_bit stream_id ts acf_frame =
     (let crc = 0xFFFFFFFF;
          crc = crc32_update crc avtp_subtype;
          crc = crc32_update crc header_octet1;
          crc = crc32_update crc (if tu_bit then 0x01 else 0x00);
          crc = foldl crc32_update crc (put_u64 stream_id);
          crc = foldl crc32_update crc (put_u32 ts);
          crc = foldl crc32_update crc acf_frame
      in crc XOR 0xFFFFFFFF)"

text \<open>The adapted frame, or \<open>None\<close> where the C function returns false and leaves it unmodified.
  \<open>frame_len\<close> octets of the buffer belong to the frame.\<close>

definition adapt_acf_msg_length :: "bytes \<Rightarrow> nat \<Rightarrow> int \<Rightarrow> bytes option" where
  "adapt_acf_msg_length frame frame_len delta_quadlets =
     (if frame_len < 2 then None
      else
        let type_bits = frame ! 0 AND 0xFE;
            len_field = (push_bit 8 (ucast (frame ! 0 AND 0x01)) OR ucast (frame ! 1)) :: u16;
            adapted = uint len_field + delta_quadlets
        in if adapted < 0 \<or> adapted > 0x1FF then None
           else Some (frame[0 := type_bits OR word_of_int (drop_bit 8 adapted AND 0x01),
                            1 := word_of_int (adapted AND 0xFF)]))"

definition rcp_e2e_length_with_crc :: "nat \<Rightarrow> nat" where
  "rcp_e2e_length_with_crc payload_len =
     (if payload_len > SIZE_MAX - RCP_E2E_CRC_LEN then SIZE_MAX else payload_len + RCP_E2E_CRC_LEN)"

definition rcp_e2e_data_length_for_protected_members :: "nat \<Rightarrow> nat" where
  "rcp_e2e_data_length_for_protected_members protected_member_count =
     (if protected_member_count > SIZE_MAX div RCP_E2E_CRC_LEN then SIZE_MAX
      else protected_member_count * RCP_E2E_CRC_LEN)"

section \<open>Wrap and unwrap\<close>

definition rcp_e2e_wrap ::
    "bool \<Rightarrow> byte \<Rightarrow> byte \<Rightarrow> bool \<Rightarrow> u64 \<Rightarrow> u32 \<Rightarrow> bytes \<Rightarrow> rcp_bytes_t" where
  "rcp_e2e_wrap mem avtp_subtype header_octet1 tu_bit stream_id ts acf_frame =
     (let acf_frame_len = length acf_frame in
      if acf_frame_len > SIZE_MAX - RCP_E2E_CRC_LEN then None
      else if acf_frame_len mod 4 \<noteq> 0 then None
      else
        let pad_octets = unat (acf_pad_octets acf_frame) in
        if pad_octets > acf_frame_len then None
        else if \<not> mem then None
        else
          let real_len = acf_frame_len - pad_octets in
          case adapt_acf_msg_length (take real_len acf_frame) real_len 1 of
            None \<Rightarrow> None
          | Some data \<Rightarrow>
              Some (data @
                    put_u32 (rcp_e2e_compute_crc avtp_subtype header_octet1 tu_bit stream_id ts data) @
                    drop real_len acf_frame))"

definition rcp_e2e_unwrap ::
    "bool \<Rightarrow> byte \<Rightarrow> byte \<Rightarrow> bool \<Rightarrow> u64 \<Rightarrow> u32 \<Rightarrow> bytes \<Rightarrow> rcp_e2e_errc_t \<times> rcp_bytes_t" where
  "rcp_e2e_unwrap mem avtp_subtype header_octet1 tu_bit stream_id ts frame =
     (let frame_len = length frame in
      if frame_len < RCP_E2E_CRC_LEN then (RCP_E2E_ERR_SHORT_FRAME, None)
      else
        let pad_octets = unat (acf_pad_octets frame) in
        if pad_octets + RCP_E2E_CRC_LEN > frame_len then (RCP_E2E_ERR_SHORT_FRAME, None)
        else
          let real_len = frame_len - RCP_E2E_CRC_LEN - pad_octets;
              got = get_u32 (drop real_len frame);
              want = rcp_e2e_compute_crc avtp_subtype header_octet1 tu_bit stream_id ts
                       (take real_len frame);
              result = (if got = want then RCP_E2E_OK else RCP_E2E_ERR_CRC_MISMATCH);
              body = take real_len frame @ drop (real_len + RCP_E2E_CRC_LEN) frame
          in if length body = 0 \<or> \<not> mem then (result, None)
             else (result,
                   Some (case adapt_acf_msg_length body real_len (-1) of
                           None \<Rightarrow> body | Some body' \<Rightarrow> body')))"

definition rcp_e2e_wrap_framed ::
    "bool \<Rightarrow> u64 \<Rightarrow> bool \<Rightarrow> byte \<Rightarrow> bool \<Rightarrow> u32 \<Rightarrow> bytes \<Rightarrow> rcp_bytes_t" where
  "rcp_e2e_wrap_framed mem stream_id is_ntscf_framed header_octet1 tu_bit ts acf_frame =
     rcp_e2e_wrap mem (if is_ntscf_framed then RCP_AVTP_SUBTYPE_NTSCF else RCP_AVTP_SUBTYPE_TSCF)
       header_octet1 (if is_ntscf_framed then False else tu_bit) stream_id
       (if is_ntscf_framed then 0 else ts) acf_frame"

definition rcp_e2e_unwrap_framed ::
    "bool \<Rightarrow> u64 \<Rightarrow> bool \<Rightarrow> byte \<Rightarrow> bool \<Rightarrow> u32 \<Rightarrow> bytes \<Rightarrow> rcp_e2e_errc_t \<times> rcp_bytes_t" where
  "rcp_e2e_unwrap_framed mem stream_id is_ntscf_framed header_octet1 tu_bit ts frame =
     rcp_e2e_unwrap mem (if is_ntscf_framed then RCP_AVTP_SUBTYPE_NTSCF else RCP_AVTP_SUBTYPE_TSCF)
       header_octet1 (if is_ntscf_framed then False else tu_bit) stream_id
       (if is_ntscf_framed then 0 else ts) frame"

definition rcp_e2e_fragment_carries_crc :: "bool \<Rightarrow> bool" where
  "rcp_e2e_fragment_carries_crc is_last_fragment = is_last_fragment"

definition rcp_e2e_compute_fragmented_crc ::
    "byte \<Rightarrow> byte \<Rightarrow> bool \<Rightarrow> u64 \<Rightarrow> u32 \<Rightarrow> bytes \<Rightarrow> bytes \<Rightarrow> u32" where
  "rcp_e2e_compute_fragmented_crc avtp_subtype header_octet1 tu_bit stream_id ts
       first_fragment_header reassembled_payload =
     (let crc = 0xFFFFFFFF;
          crc = crc32_update crc avtp_subtype;
          crc = crc32_update crc header_octet1;
          crc = crc32_update crc (if tu_bit then 0x01 else 0x00);
          crc = foldl crc32_update crc (put_u64 stream_id);
          crc = foldl crc32_update crc (put_u32 ts);
          crc = foldl crc32_update crc first_fragment_header;
          crc = foldl crc32_update crc reassembled_payload
      in crc XOR 0xFFFFFFFF)"

section \<open>Safety rules\<close>

definition rcp_e2e_is_safety_request :: "byte \<Rightarrow> bool" where
  "rcp_e2e_is_safety_request request_type \<longleftrightarrow> request_type AND 0x80 \<noteq> 0"

definition rcp_e2e_request_may_execute :: "byte \<Rightarrow> bool \<Rightarrow> bool" where
  "rcp_e2e_request_may_execute request_type endpoint_in_safe_state =
     (if rcp_e2e_is_safety_request request_type then endpoint_in_safe_state else True)"

definition rcp_e2e_watchdog_purge_should_keep :: "byte \<Rightarrow> bool" where
  "rcp_e2e_watchdog_purge_should_keep request_type = rcp_e2e_is_safety_request request_type"

definition rcp_e2e_watchdog_purge_classify :: "bytes \<Rightarrow> bool list" where
  "rcp_e2e_watchdog_purge_classify request_types =
     map rcp_e2e_watchdog_purge_should_keep request_types"

definition rcp_e2e_measure_valid :: "byte \<Rightarrow> bool" where
  "rcp_e2e_measure_valid m \<longleftrightarrow>
     m = RCP_E2E_MEASURE_FORCE_HIGH_IMPEDANCE \<or> m = RCP_E2E_MEASURE_SEQUENCER"

definition rcp_e2e_endpoint_in_safe_state ::
    "byte \<Rightarrow> rcp_sequencer_table_t option \<Rightarrow> u16 \<Rightarrow> byte \<Rightarrow> bool" where
  "rcp_e2e_endpoint_in_safe_state rx_safety_measure table safestate_sequencer safe_state =
     (if rx_safety_measure = RCP_E2E_MEASURE_FORCE_HIGH_IMPEDANCE then True
      else if rx_safety_measure \<noteq> RCP_E2E_MEASURE_SEQUENCER then False
      else
        case table of
          None \<Rightarrow> False
        | Some t \<Rightarrow>
            (case rcp_sequencer_get_state t safestate_sequencer of
               None \<Rightarrow> False
             | Some current \<Rightarrow> if current = 0 then False else current = safe_state))"

definition rcp_e2e_wd_evaluate ::
    "bool \<Rightarrow> u32 \<Rightarrow> bool \<Rightarrow> bool \<Rightarrow> u64 \<Rightarrow> rcp_e2e_wd_result_t" where
  "rcp_e2e_wd_evaluate rx_wd_enable rx_wd_timeout_ms safestate_enable info_enable elapsed =
     (let over = rx_wd_enable \<and> elapsed \<ge> ucast rx_wd_timeout_ms
      in \<lparr>overflowed = over, wd_enter_safe_state = over \<and> safestate_enable,
          notify = over \<and> info_enable\<rparr>)"

definition rcp_e2e_overflow_should_enter_safe_state :: "bool \<Rightarrow> bool" where
  "rcp_e2e_overflow_should_enter_safe_state rx_ovrflw_safestate_enable = rx_ovrflw_safestate_enable"

section \<open>Sequence numbers\<close>

definition rcp_e2e_seq_tracker_init :: rcp_e2e_seq_tracker_t where
  "rcp_e2e_seq_tracker_init = \<lparr>has_prev = False, prev_seq = 0\<rparr>"

definition rcp_e2e_seq_evaluate ::
    "rcp_e2e_seq_tracker_t \<Rightarrow> bool \<Rightarrow> bool \<Rightarrow> byte \<Rightarrow>
     rcp_e2e_seq_result_t \<times> rcp_e2e_seq_tracker_t" where
  "rcp_e2e_seq_evaluate t rx_enforce_seq safestate_enable seq =
     (if \<not> has_prev t
      then (\<lparr>accept = True, discontinuity = False, seq_enter_safe_state = False\<rparr>,
            \<lparr>has_prev = True, prev_seq = seq\<rparr>)
      else
        let fwd_distance = seq - prev_seq t;
            acc = (\<not> rx_enforce_seq \<or> (fwd_distance \<ge> 1 \<and> fwd_distance \<le> 127));
            disc = (fwd_distance \<noteq> 1)
        in (\<lparr>accept = acc, discontinuity = disc,
             seq_enter_safe_state = disc \<and> safestate_enable\<rparr>,
            if acc then t\<lparr>prev_seq := seq\<rparr> else t))"

section \<open>Stream faults\<close>

definition rcp_e2e_crc_error_action :: "bool \<Rightarrow> rcp_e2e_crc_action_t" where
  "rcp_e2e_crc_error_action rx_enforce_e2e =
     (if rx_enforce_e2e then RCP_E2E_CRC_ACTION_LATCH_STREAM_FAULT
      else RCP_E2E_CRC_ACTION_DROP_REQUEST)"

definition rcp_e2e_stream_fault_init :: rcp_e2e_stream_fault_t where
  "rcp_e2e_stream_fault_init = \<lparr>faulted = False\<rparr>"

definition rcp_e2e_stream_fault_on_crc_error ::
    "rcp_e2e_stream_fault_t \<Rightarrow> bool \<Rightarrow> bool \<times> rcp_e2e_stream_fault_t" where
  "rcp_e2e_stream_fault_on_crc_error f rx_enforce_e2e =
     (True,
      if rcp_e2e_crc_error_action rx_enforce_e2e = RCP_E2E_CRC_ACTION_LATCH_STREAM_FAULT
      then f\<lparr>faulted := True\<rparr> else f)"

definition rcp_e2e_stream_fault_is_faulted :: "rcp_e2e_stream_fault_t \<Rightarrow> bool" where
  "rcp_e2e_stream_fault_is_faulted f = faulted f"

definition rcp_e2e_stream_fault_reset :: "rcp_e2e_stream_fault_t \<Rightarrow> rcp_e2e_stream_fault_t" where
  "rcp_e2e_stream_fault_reset f = f\<lparr>faulted := False\<rparr>"

definition rcp_e2e_crc_error_should_enter_safe_state :: "bool \<Rightarrow> bool" where
  "rcp_e2e_crc_error_should_enter_safe_state rx_enforce_e2e = rx_enforce_e2e"

definition stream_fault_tracker_find ::
    "rcp_e2e_stream_fault_tracker_t \<Rightarrow> u64 \<Rightarrow> nat option" where
  "stream_fault_tracker_find t sid = find_index (\<lambda>s. slot_used s \<and> slot_stream_id s = sid) t"

definition stream_fault_tracker_find_free :: "rcp_e2e_stream_fault_tracker_t \<Rightarrow> nat option" where
  "stream_fault_tracker_find_free t = find_index (\<lambda>s. \<not> slot_used s) t"

definition rcp_e2e_stream_fault_tracker_init :: rcp_e2e_stream_fault_tracker_t where
  "rcp_e2e_stream_fault_tracker_init =
     replicate RCP_E2E_STREAM_FAULT_TRACKER_MAX_STREAMS
       \<lparr>slot_stream_id = 0, slot_used = False, slot_fault = rcp_e2e_stream_fault_init\<rparr>"

definition rcp_e2e_stream_fault_tracker_on_crc_error ::
    "rcp_e2e_stream_fault_tracker_t \<Rightarrow> u64 \<Rightarrow> bool \<Rightarrow> bool \<times> rcp_e2e_stream_fault_tracker_t" where
  "rcp_e2e_stream_fault_tracker_on_crc_error t sid rx_enforce_e2e =
     (case stream_fault_tracker_find t sid of
        Some i \<Rightarrow>
          let (r, f) = rcp_e2e_stream_fault_on_crc_error (slot_fault (t ! i)) rx_enforce_e2e
          in (r, t[i := (t ! i)\<lparr>slot_fault := f\<rparr>])
      | None \<Rightarrow>
          (case stream_fault_tracker_find_free t of
             None \<Rightarrow> (False, t)
           | Some i \<Rightarrow>
               let (r, f) = rcp_e2e_stream_fault_on_crc_error rcp_e2e_stream_fault_init rx_enforce_e2e
               in (r, t[i := \<lparr>slot_stream_id = sid, slot_used = True, slot_fault = f\<rparr>])))"

definition rcp_e2e_stream_fault_tracker_is_faulted ::
    "rcp_e2e_stream_fault_tracker_t \<Rightarrow> u64 \<Rightarrow> bool" where
  "rcp_e2e_stream_fault_tracker_is_faulted t sid =
     (case stream_fault_tracker_find t sid of
        None \<Rightarrow> False | Some i \<Rightarrow> rcp_e2e_stream_fault_is_faulted (slot_fault (t ! i)))"

definition rcp_e2e_stream_fault_tracker_reset ::
    "rcp_e2e_stream_fault_tracker_t \<Rightarrow> u64 \<Rightarrow> rcp_e2e_stream_fault_tracker_t" where
  "rcp_e2e_stream_fault_tracker_reset t sid =
     (case stream_fault_tracker_find t sid of
        None \<Rightarrow> t
      | Some i \<Rightarrow> t[i := (t ! i)\<lparr>slot_fault := rcp_e2e_stream_fault_reset (slot_fault (t ! i))\<rparr>])"

section \<open>Aggregate stream status\<close>

definition rcp_e2e_stream_status_init :: rcp_e2e_stream_status_t where
  "rcp_e2e_stream_status_init =
     \<lparr>status_crc = rcp_e2e_stream_fault_init, seq_blocked = False, wd_blocked = False,
      overflow_blocked = False\<rparr>"

definition rcp_e2e_stream_status_note_crc_error ::
    "rcp_e2e_stream_status_t \<Rightarrow> bool \<Rightarrow> bool \<times> rcp_e2e_stream_status_t" where
  "rcp_e2e_stream_status_note_crc_error s rx_enforce_e2e =
     (let (r, f) = rcp_e2e_stream_fault_on_crc_error (status_crc s) rx_enforce_e2e
      in (r, s\<lparr>status_crc := f\<rparr>))"

definition rcp_e2e_stream_status_note_seq ::
    "rcp_e2e_stream_status_t \<Rightarrow> rcp_e2e_seq_result_t \<Rightarrow> rcp_e2e_stream_status_t" where
  "rcp_e2e_stream_status_note_seq s r = (if seq_enter_safe_state r then s\<lparr>seq_blocked := True\<rparr> else s)"

definition rcp_e2e_stream_status_note_wd ::
    "rcp_e2e_stream_status_t \<Rightarrow> rcp_e2e_wd_result_t \<Rightarrow> rcp_e2e_stream_status_t" where
  "rcp_e2e_stream_status_note_wd s r = (if wd_enter_safe_state r then s\<lparr>wd_blocked := True\<rparr> else s)"

definition rcp_e2e_stream_status_note_overflow ::
    "rcp_e2e_stream_status_t \<Rightarrow> bool \<Rightarrow> rcp_e2e_stream_status_t" where
  "rcp_e2e_stream_status_note_overflow s enter_safe_state =
     (if enter_safe_state then s\<lparr>overflow_blocked := True\<rparr> else s)"

definition rcp_e2e_stream_status_reset_crc :: "rcp_e2e_stream_status_t \<Rightarrow> rcp_e2e_stream_status_t" where
  "rcp_e2e_stream_status_reset_crc s = s\<lparr>status_crc := rcp_e2e_stream_fault_reset (status_crc s)\<rparr>"

definition rcp_e2e_stream_status_reset_seq :: "rcp_e2e_stream_status_t \<Rightarrow> rcp_e2e_stream_status_t" where
  "rcp_e2e_stream_status_reset_seq s = s\<lparr>seq_blocked := False\<rparr>"

definition rcp_e2e_stream_status_reset_wd :: "rcp_e2e_stream_status_t \<Rightarrow> rcp_e2e_stream_status_t" where
  "rcp_e2e_stream_status_reset_wd s = s\<lparr>wd_blocked := False\<rparr>"

definition rcp_e2e_stream_status_reset_overflow ::
    "rcp_e2e_stream_status_t \<Rightarrow> rcp_e2e_stream_status_t" where
  "rcp_e2e_stream_status_reset_overflow s = s\<lparr>overflow_blocked := False\<rparr>"

definition rcp_e2e_stream_status_rx_blocked :: "rcp_e2e_stream_status_t \<Rightarrow> bool" where
  "rcp_e2e_stream_status_rx_blocked s \<longleftrightarrow>
     rcp_e2e_stream_fault_is_faulted (status_crc s) \<or> seq_blocked s \<or> wd_blocked s \<or>
     overflow_blocked s"

section \<open>The CRC detects every burst of up to four octets\<close>

lemma crc32_step_bit:
  "bit (crc32_step c) n \<longleftrightarrow> bit c (Suc n) \<noteq> (bit c 0 \<and> bit RCP_E2E_CRC32_RPOLY n)"
proof -
  have "c AND 1 \<noteq> 0 \<longleftrightarrow> bit c 0"
    by (simp add: and_one_eq bit_0 odd_iff_mod_2_eq_one)
  then show ?thesis by (auto simp: crc32_step_def bit_simps)
qed

lemma crc32_step_linear: "crc32_step (a XOR b) = crc32_step a XOR crc32_step b"
  by (rule bit_word_eqI) (auto simp: crc32_step_bit bit_simps)

lemma crc32_step_0 [simp]: "crc32_step 0 = 0"
  by (simp add: crc32_step_def)

lemma crc32_step_inj: "crc32_step a = crc32_step b \<Longrightarrow> a = b"
proof -
  assume eq: "crc32_step a = crc32_step b"
  have top: "bit (crc32_step c) 31 = bit c 0" for c
    by (simp add: crc32_step_bit bit32_beyond RCP_E2E_CRC32_RPOLY_def)
  from eq top have zero: "bit a 0 = bit b 0" by metis
  have "bit a n = bit b n" for n
  proof (cases n)
    case (Suc m)
    from eq have "bit (crc32_step a) m = bit (crc32_step b) m" by simp
    with zero Suc show ?thesis by (auto simp: crc32_step_bit)
  qed (use zero in simp)
  then show "a = b" by (intro bit_word_eqI)
qed

lemma crc32_steps_linear:
  "(crc32_step ^^ n) (a XOR b) = (crc32_step ^^ n) a XOR (crc32_step ^^ n) b"
  by (induction n) (simp_all add: crc32_step_linear)

lemma crc32_steps_inj: "(crc32_step ^^ n) a = (crc32_step ^^ n) b \<Longrightarrow> a = b"
  by (induction n) (auto dest: crc32_step_inj)

lemma crc32_steps_shift:
  assumes high: "\<And>n. 24 \<le> n \<Longrightarrow> \<not> bit x n"
  shows "k \<le> 8 \<Longrightarrow> (crc32_step ^^ k) (push_bit 8 x) = push_bit (8 - k) x"
proof (induction k)
  case (Suc k)
  have "crc32_step (push_bit (8 - k) x) = push_bit (8 - Suc k) x"
  proof (rule bit_word_eqI)
    fix n assume n: "n < LENGTH(32)"
    have e: "8 - k = Suc (7 - k)" "8 - Suc k = 7 - k" using Suc.prems by simp_all
    have "bit x (n - (7 - k)) \<Longrightarrow> n < 31"
      using high [of "n - (7 - k)"] n by (cases "24 \<le> n - (7 - k)") auto
    with n show "bit (crc32_step (push_bit (8 - k) x)) n = bit (push_bit (8 - Suc k) x) n"
      unfolding e by (auto simp: crc32_step_bit bit_push_bit_iff)
  qed
  with Suc show ?case by simp
qed simp

text \<open>The octets of a burst as one word, the first one in the low bits.\<close>

primrec le_word :: "bytes \<Rightarrow> u32" where
  "le_word [] = 0"
| "le_word (b # bs) = ucast b XOR push_bit 8 (le_word bs)"

lemma le_word_high: "bit (le_word bs) n \<Longrightarrow> n < 8 * length bs"
proof (induction bs arbitrary: n)
  case (Cons b bs)
  show ?case
  proof (cases "n < 8")
    case False
    with Cons.prems have "bit (le_word bs) (n - 8)" by (auto simp: bit_simps bit8_beyond)
    with Cons.IH [of "n - 8"] False show ?thesis by auto
  qed simp
qed simp

lemma update_burst:
  "length ws \<le> 4 \<Longrightarrow>
   foldl crc32_update c ws = (crc32_step ^^ (8 * length ws)) (c XOR le_word ws)"
proof (induction ws arbitrary: c)
  case (Cons w ws)
  have "\<not> bit (le_word ws) n" if "24 \<le> n" for n
    using le_word_high [of ws n] Cons.prems that by auto
  then have "(crc32_step ^^ 8) (push_bit 8 (le_word ws)) = le_word ws"
    using crc32_steps_shift [of "le_word ws" 8] by simp
  then have "crc32_update c w XOR le_word ws =
      (crc32_step ^^ 8) (c XOR ucast w XOR push_bit 8 (le_word ws))"
    by (simp only: crc32_update_def crc32_steps_linear xor.assoc)
  moreover have "8 * length (w # ws) = 8 * length ws + 8" by simp
  ultimately show ?case using Cons by (simp only: foldl_Cons funpow_add) (simp add: xor.assoc)
qed simp

lemma le_word_inj: "length as = length bs \<Longrightarrow> length as \<le> 4 \<Longrightarrow> le_word as = le_word bs \<Longrightarrow> as = bs"
proof (induction as bs rule: list_induct2)
  case (Cons a as b bs)
  have bits: "bit (ucast a XOR push_bit 8 (le_word as) :: u32) n =
              bit (ucast b XOR push_bit 8 (le_word bs) :: u32) n" for n
    using Cons.prems(2) by simp
  have "a = b"
  proof (rule bit_word_eqI)
    fix n assume "n < LENGTH(8)"
    with bits [of n] show "bit a n = bit b n" by (simp add: bit_simps)
  qed
  moreover have "le_word as = le_word bs"
  proof (rule bit_word_eqI)
    fix n assume "n < LENGTH(32)"
    show "bit (le_word as) n = bit (le_word bs) n"
    proof (cases "n < 24")
      case True
      with bits [of "n + 8"] show ?thesis by (simp add: bit_simps bit8_beyond)
    next
      case False
      then show ?thesis using le_word_high [of as n] le_word_high [of bs n] Cons by auto
    qed
  qed
  ultimately show ?case using Cons by simp
qed simp

lemma updates_inj: "foldl crc32_update c xs = foldl crc32_update d xs \<Longrightarrow> c = d"
proof (induction xs arbitrary: c d)
  case (Cons x xs)
  from Cons.prems have "foldl crc32_update (crc32_update c x) xs = foldl crc32_update (crc32_update d x) xs"
    by simp
  then have "crc32_update c x = crc32_update d x" by (rule Cons.IH)
  then have "c XOR ucast x = d XOR ucast x"
    unfolding crc32_update_def by (rule crc32_steps_inj)
  then show ?case by (simp only: xor_right_cancel_iff)
qed simp

lemma burst_detected:
  assumes "length ws = length ws'" and "length ws \<le> 4"
    and "foldl crc32_update c (ws @ post) = foldl crc32_update c (ws' @ post)"
  shows "ws = ws'"
proof -
  from assms(3) have "foldl crc32_update c ws = foldl crc32_update c ws'"
    unfolding foldl_append by (rule updates_inj)
  then have "(crc32_step ^^ (8 * length ws)) (c XOR le_word ws) =
      (crc32_step ^^ (8 * length ws)) (c XOR le_word ws')"
    using assms(1,2) by (simp add: update_burst)
  then have "c XOR le_word ws = c XOR le_word ws'" by (rule crc32_steps_inj)
  then have "le_word ws = le_word ws'"
    by (simp only: xor_left_cancel_iff)
  with assms(1,2) show ?thesis by (intro le_word_inj)
qed

text \<open>The octets the CRC covers, in order.\<close>

definition crc_input :: "byte \<Rightarrow> byte \<Rightarrow> bool \<Rightarrow> u64 \<Rightarrow> u32 \<Rightarrow> bytes \<Rightarrow> bytes" where
  "crc_input st o1 tub sid ts frame =
     [st, o1, if tub then 1 else 0] @ put_u64 sid @ put_u32 ts @ frame"

lemma compute_crc_input:
  "rcp_e2e_compute_crc st o1 tub sid ts frame = rcp_e2e_crc32 (crc_input st o1 tub sid ts frame)"
  by (simp add: rcp_e2e_compute_crc_def rcp_e2e_crc32_def crc_input_def Let_def)

lemma crc32_burst:
  assumes "rcp_e2e_crc32 (pre @ ws @ post) = rcp_e2e_crc32 (pre @ ws' @ post)"
    and "length ws = length ws'" and "length ws \<le> 4"
  shows "ws = ws'"
proof -
  from assms(1) have "foldl crc32_update (foldl crc32_update 0xFFFFFFFF pre) (ws @ post) =
      foldl crc32_update (foldl crc32_update 0xFFFFFFFF pre) (ws' @ post)"
    by (simp only: rcp_e2e_crc32_def xor_right_cancel_iff foldl_append)
  with assms(2,3) show ?thesis by (rule burst_detected)
qed

section \<open>Wrap and unwrap\<close>

definition msg_quadlets :: "bytes \<Rightarrow> int" where
  "msg_quadlets frame = uint ((push_bit 8 (ucast (frame ! 0 AND 0x01)) OR ucast (frame ! 1)) :: u16)"

lemma msg_quadlets_range: "0 \<le> msg_quadlets f \<and> msg_quadlets f \<le> 0x1FF"
proof -
  let ?w = "push_bit 8 (ucast (f ! 0 AND 0x01)) OR ucast (f ! 1) :: u16"
  have "take_bit 9 ?w = ?w" by (rule word16_eqI) (simp add: word_bits)
  then have "uint ?w < 2 ^ 9" by (rule uint_less_of_take_bit)
  then show ?thesis by (simp add: msg_quadlets_def)
qed

lemma length_octets:
  fixes a b :: byte and n :: int
  assumes "0 \<le> n" and "n \<le> 0x1FF"
  shows "uint (push_bit 8 (ucast (((a AND 0xFE) OR word_of_int (drop_bit 8 n AND 0x01)) AND 0x01)) OR
           ucast (word_of_int (n AND 0xFF) :: byte) :: u16) = n"
proof -
  let ?w = "push_bit 8 (ucast (((a AND 0xFE) OR word_of_int (drop_bit 8 n AND 0x01)) AND 0x01)) OR
           ucast (word_of_int (n AND 0xFF) :: byte) :: u16"
  have n: "take_bit 9 n = n" using assms by (simp add: take_bit_int_eq_self)
  have "?w = word_of_int (take_bit 9 n)"
    by (rule word16_eqI) (simp add: word_bits)
  with n have "uint ?w = take_bit 16 n" by (simp add: uint_word_of_int take_bit_eq_mod)
  also have "\<dots> = n" using assms by (simp add: take_bit_int_eq_self)
  finally show ?thesis .
qed

lemma length_octets_restore:
  fixes a b :: byte
  defines "n \<equiv> uint ((push_bit 8 (ucast (a AND 0x01)) OR ucast b) :: u16)"
  shows "(((a AND 0xFE) OR x) AND 0xFE) OR word_of_int (drop_bit 8 n AND 0x01) = (a AND 0xFE OR (x AND 0xFE)) OR (a AND 0x01)"
    and "word_of_int (n AND 0xFF) = b"
proof -
  show "(((a AND 0xFE) OR x) AND 0xFE) OR word_of_int (drop_bit 8 n AND 0x01) = (a AND 0xFE OR (x AND 0xFE)) OR (a AND 0x01)"
    unfolding n_def by (rule word8_eqI) (simp add: word_bits)
  show "word_of_int (n AND 0xFF) = b"
    unfolding n_def by (rule word8_eqI) (simp add: word_bits)
qed

lemma adapt_plus_minus:
  assumes "adapt_acf_msg_length f (length f) 1 = Some f'"
  shows "length f' = length f" and "2 \<le> length f" and "drop 2 f' = drop 2 f"
    and "adapt_acf_msg_length (f' @ r) (length f) (-1) = Some (f @ r)"
proof -
  from assms have len: "2 \<le> length f" and rng: "msg_quadlets f + 1 \<le> 0x1FF"
    and f': "f' = f[0 := (f ! 0 AND 0xFE) OR word_of_int (drop_bit 8 (msg_quadlets f + 1) AND 0x01),
               1 := word_of_int ((msg_quadlets f + 1) AND 0xFF)]"
    by (auto simp: adapt_acf_msg_length_def Let_def msg_quadlets_def split: if_splits)
  obtain a b t where f: "f = a # b # t" using len
    by (metis One_nat_def Suc_1 Suc_le_length_iff)
  let ?n = "msg_quadlets f"
  let ?a = "(a AND 0xFE) OR word_of_int (drop_bit 8 (?n + 1) AND 0x01) :: byte"
  let ?b = "word_of_int ((?n + 1) AND 0xFF) :: byte"
  have f'': "f' = ?a # ?b # t" unfolding f' by (simp add: f)
  show "length f' = length f" by (simp add: f')
  show "2 \<le> length f" by fact
  show "drop 2 f' = drop 2 f" unfolding f'' by (simp add: f)
  have n: "0 \<le> ?n" "?n = uint ((push_bit 8 (ucast (a AND 0x01)) OR ucast b) :: u16)"
    using msg_quadlets_range [of f] by (simp_all add: msg_quadlets_def f)
  have q: "uint (push_bit 8 (ucast (?a AND 0x01)) OR ucast ?b :: u16) = ?n + 1"
    using n rng by (intro length_octets) simp_all
  have a: "(?a AND 0xFE) OR word_of_int (drop_bit 8 ?n AND 0x01) = a"
  proof (rule trans [OF length_octets_restore(1) [of a _ b, folded n(2)]])
    show "(a AND 0xFE OR (word_of_int (drop_bit 8 (?n + 1) AND 0x01) AND 0xFE)) OR (a AND 0x01) = a"
      by (rule word8_eqI) (simp add: word_bits)
  qed
  have b: "word_of_int (?n AND 0xFF) = b"
    using length_octets_restore(2) [of a b, folded n(2)] .
  show "adapt_acf_msg_length (f' @ r) (length f) (-1) = Some (f @ r)"
    unfolding adapt_acf_msg_length_def Let_def f''
    using len n(1) msg_quadlets_range [of f] q a b by (simp add: f)
qed

lemma wrap_SomeD:
  assumes "rcp_e2e_wrap mem st o1 tub sid ts f = Some w"
  obtains data where
    "w = data @ put_u32 (rcp_e2e_compute_crc st o1 tub sid ts data) @
         drop (length f - unat (acf_pad_octets f)) f"
    and "adapt_acf_msg_length (take (length f - unat (acf_pad_octets f)) f)
           (length f - unat (acf_pad_octets f)) 1 = Some data"
    and "unat (acf_pad_octets f) \<le> length f"
  using assms by (auto simp: rcp_e2e_wrap_def Let_def split: if_splits option.splits)

lemma pad_octets_less: "unat (acf_pad_octets f) < 4"
proof -
  have "take_bit 2 (acf_pad_octets f) = acf_pad_octets f"
    by (rule word8_eqI) (simp add: acf_pad_octets_def word_bits)
  then have "unat (acf_pad_octets f) < 2 ^ 2" by (rule uint_less_of_take_bit)
  then show ?thesis by simp
qed

lemma wrap_layout:
  assumes "rcp_e2e_wrap mem st o1 tub sid ts f = Some w" and "8 \<le> length f"
  defines "k \<equiv> length f - unat (acf_pad_octets f)"
  obtains data where "w = data @ put_u32 (rcp_e2e_compute_crc st o1 tub sid ts data) @ drop k f"
    and "length data = k" and "5 \<le> k" and "k \<le> length f"
    and "acf_pad_octets w = acf_pad_octets f"
    and "adapt_acf_msg_length (data @ drop k f) k (-1) = Some f"
proof -
  obtain data where w: "w = data @ put_u32 (rcp_e2e_compute_crc st o1 tub sid ts data) @ drop k f"
    and ad: "adapt_acf_msg_length (take k f) k 1 = Some data"
    using wrap_SomeD [OF assms(1)] unfolding k_def by blast
  have k: "5 \<le> k" "k \<le> length f" using assms(2) pad_octets_less [of f] by (simp_all add: k_def)
  then have lk: "length (take k f) = k" by simp
  note a = adapt_plus_minus [of "take k f" data, unfolded lk, OF ad]
  have "data ! 2 = f ! 2"
  proof -
    have "data ! 2 = drop 2 data ! 0" using a(1) k by simp
    also have "\<dots> = f ! 2" using a(3) k by (simp add: drop_take)
    finally show ?thesis .
  qed
  then have "acf_pad_octets w = acf_pad_octets f"
    using a(1) k by (simp add: w acf_pad_octets_def nth_append)
  with that [OF w a(1) k] a(4) [of "drop k f"] show thesis by simp
qed

lemma unwrap_result:
  assumes "length data + 4 + unat (acf_pad_octets (data @ c @ pads)) = length (data @ c @ pads)"
    and "length c = 4" and "data \<noteq> []"
  shows "rcp_e2e_unwrap True st o1 tub sid ts (data @ c @ pads) =
    (if get_u32 c = rcp_e2e_compute_crc st o1 tub sid ts data then RCP_E2E_OK
     else RCP_E2E_ERR_CRC_MISMATCH,
     Some (case adapt_acf_msg_length (data @ pads) (length data) (-1) of
             None \<Rightarrow> data @ pads | Some b \<Rightarrow> b))"
proof -
  have "length c = Suc (Suc (Suc (Suc 0)))" using assms(2) by simp
  then obtain c0 c1 c2 c3 where c: "c = [c0, c1, c2, c3]"
    by (auto simp: length_Suc_conv)
  have len: "length (data @ c @ pads) - 4 - unat (acf_pad_octets (data @ c @ pads)) = length data"
    using assms(1) by linarith
  have tail: "drop (length data + 4) (data @ c @ pads) = pads"
    and got: "get_u32 (drop (length data) (data @ c @ pads)) = get_u32 c"
    and real: "take (length data) (data @ c @ pads) = data"
    by (simp_all add: c get_u32_def)
  show ?thesis
    unfolding rcp_e2e_unwrap_def Let_def consts_rcp len tail got real
    using assms by auto
qed

lemma put_u32_get: "get_u32 (put_u32 v) = v"
  using get_put_u32 [of v "[]"] by simp

text \<open>The outcome of unwrapping a wrapped frame under possibly different header fields, with the
  protected octets possibly replaced by others of the same length and padding field.\<close>

lemma pad_octets_append: "3 \<le> length xs \<Longrightarrow> acf_pad_octets (xs @ ys) = acf_pad_octets xs"
  by (simp add: acf_pad_octets_def nth_append)

lemma unwrap_wrapped:
  assumes w: "w = data @ put_u32 (rcp_e2e_compute_crc st o1 tub sid ts data) @ pads"
    and "acf_pad_octets w = p" and "unat p = length pads" and "5 \<le> length data"
    and "length data' = length data" and "acf_pad_octets data' = acf_pad_octets data"
  shows "rcp_e2e_unwrap True st' o1' tub' sid' ts'
      (data' @ put_u32 (rcp_e2e_compute_crc st o1 tub sid ts data) @ pads) =
    (if rcp_e2e_compute_crc st o1 tub sid ts data = rcp_e2e_compute_crc st' o1' tub' sid' ts' data'
     then RCP_E2E_OK else RCP_E2E_ERR_CRC_MISMATCH,
     Some (case adapt_acf_msg_length (data' @ pads) (length data') (-1) of
             None \<Rightarrow> data' @ pads | Some b \<Rightarrow> b))"
proof -
  let ?c = "put_u32 (rcp_e2e_compute_crc st o1 tub sid ts data)"
  have "acf_pad_octets (data' @ ?c @ pads) = p"
    using assms by (simp add: acf_pad_octets_def nth_append)
  with assms(3,5) have "length data' + 4 + unat (acf_pad_octets (data' @ ?c @ pads)) =
      length (data' @ ?c @ pads)" by simp
  from unwrap_result [OF this, of st' o1' tub' sid' ts'] assms(4,5) show ?thesis
    by (cases "data' = []") (simp_all add: put_u32_get)
qed

section \<open>Protection of encoded messages\<close>

lemma abb_protectable:
  assumes "rcp_acf_encode_abb mem h p = Some f" and "length p \<le> 2032"
  shows "8 \<le> length f" and "length f mod 4 = 0" and "length f \<le> 2040"
    and "msg_quadlets f + 1 \<le> 0x1FF"
proof -
  let ?n = "8 + length p"
  have n: "?n \<le> 2044" using assms(2) by simp
  have le: "?n + unat (rcp_acf_pad_len ?n) \<le> 4 * 510" using assms(2) by (intro padded_le) simp
  from assms have f: "f = rcp_acf_pack_header RCP_ACF_MSG_TYPE_ABB (padded_quadlets ?n)
      (h\<lparr>bm_pad := rcp_acf_pad_len ?n\<rparr>) @ p @ replicate (unat (rcp_acf_pad_len ?n)) 0"
    by (auto simp: abb_encode_eq Let_def split: if_splits)
  then have len: "length f = ?n + unat (rcp_acf_pad_len ?n)" by simp
  show "8 \<le> length f" using len by simp
  show "length f mod 4 = 0" using padded_aligned [of ?n] len by (simp add: dvd_eq_mod_eq_0)
  show "length f \<le> 2040" using le len by simp
  have "msg_quadlets f = uint (padded_quadlets ?n)"
    unfolding msg_quadlets_def f One_nat_def by (simp only: pack_header_length quadlets(2) [OF n])
  moreover have "unat (padded_quadlets ?n) * 4 \<le> 2040" using quadlets(1) [OF n] le by simp
  moreover have "uint (padded_quadlets ?n) = int (unat (padded_quadlets ?n))" by simp
  ultimately show "msg_quadlets f + 1 \<le> 0x1FF" by linarith
qed

lemma adapt_defined:
  assumes "2 \<le> n" and "0 \<le> msg_quadlets f + d" and "msg_quadlets f + d \<le> 0x1FF"
  shows "\<exists>f'. adapt_acf_msg_length f n d = Some f'"
  using assms by (simp add: adapt_acf_msg_length_def Let_def msg_quadlets_def)

lemma wrap_defined:
  assumes "8 \<le> length f" and "length f mod 4 = 0" and "length f \<le> 2040"
    and "msg_quadlets f + 1 \<le> 0x1FF"
  shows "\<exists>w. rcp_e2e_wrap True st o1 tub sid ts f = Some w"
proof -
  let ?k = "length f - unat (acf_pad_octets f)"
  have k: "unat (acf_pad_octets f) \<le> length f" "5 \<le> ?k"
    using pad_octets_less [of f] assms(1) by simp_all
  then have q: "msg_quadlets (take ?k f) = msg_quadlets f"
    by (simp add: msg_quadlets_def)
  have "\<exists>d. adapt_acf_msg_length (take ?k f) ?k 1 = Some d"
    using assms(4) k(2) msg_quadlets_range [of f] by (intro adapt_defined) (simp_all add: q)
  then show ?thesis
    using assms k by (auto simp: rcp_e2e_wrap_def Let_def RCP_E2E_CRC_LEN_def SIZE_MAX_def)
qed

lemma length_wrap:
  assumes "rcp_e2e_wrap mem st o1 tub sid ts f = Some w" and "8 \<le> length f"
  shows "length w = length f + 4"
proof -
  from wrap_layout [OF assms] obtain data where
    "w = data @ put_u32 (rcp_e2e_compute_crc st o1 tub sid ts data) @
         drop (length f - unat (acf_pad_octets f)) f"
    and "length data = length f - unat (acf_pad_octets f)" and "length f - unat (acf_pad_octets f) \<le> length f"
    by metis
  then show ?thesis by simp
qed

lemma unwrap_wrap:
  assumes "rcp_e2e_wrap mem st o1 tub sid ts f = Some w" and "8 \<le> length f"
  shows "rcp_e2e_unwrap True st o1 tub sid ts w = (RCP_E2E_OK, Some f)"
proof -
  let ?k = "length f - unat (acf_pad_octets f)"
  obtain data where w: "w = data @ put_u32 (rcp_e2e_compute_crc st o1 tub sid ts data) @ drop ?k f"
    and d: "length data = ?k" "5 \<le> ?k" "?k \<le> length f"
    and p: "acf_pad_octets w = acf_pad_octets f"
    and ad: "adapt_acf_msg_length (data @ drop ?k f) ?k (-1) = Some f"
    using wrap_layout [OF assms] by metis
  have "unat (acf_pad_octets f) = length (drop ?k f)"
    using pad_octets_less [of f] assms(2) by simp
  from unwrap_wrapped [OF w p this, of data st o1 tub sid ts] d show ?thesis
    unfolding w by (simp add: ad)
qed

text \<open>A changed octet string of the protected region gives another CRC input.\<close>

lemma unwrap_tampered:
  assumes "rcp_e2e_wrap mem st o1 tub sid ts f = Some w" and "8 \<le> length f"
    and "w = pre @ ws @ post" and "length ws = length ws'" and "length ws \<le> 4" and "ws \<noteq> ws'"
    and "acf_pad_octets (pre @ ws' @ post) = acf_pad_octets w"
    and "length pre + length ws \<le> length f - unat (acf_pad_octets f)"
  shows "fst (rcp_e2e_unwrap True st o1 tub sid ts (pre @ ws' @ post)) = RCP_E2E_ERR_CRC_MISMATCH"
proof -
  let ?k = "length f - unat (acf_pad_octets f)"
  obtain data where w: "w = data @ put_u32 (rcp_e2e_compute_crc st o1 tub sid ts data) @ drop ?k f"
    and d: "length data = ?k" "5 \<le> ?k" "?k \<le> length f"
    and p: "acf_pad_octets w = acf_pad_octets f"
    using wrap_layout [OF assms(1,2)] by metis
  let ?c = "put_u32 (rcp_e2e_compute_crc st o1 tub sid ts data)"
  have pads: "unat (acf_pad_octets f) = length (drop ?k f)"
    using pad_octets_less [of f] assms(2) by simp
  define n where "n = ?k - length pre - length ws"
  have "data = take ?k w" using w d by simp
  also have "\<dots> = pre @ ws @ take n post"
    using assms(3,8) by (simp add: n_def)
  finally have data: "data = pre @ ws @ take n post" .
  have "drop n post = drop ?k w" using assms(3,8) by (simp add: n_def)
  also have "\<dots> = ?c @ drop ?k f" using w d by simp
  finally have post: "drop n post = ?c @ drop ?k f" .
  define data' where "data' = pre @ ws' @ take n post"
  have w': "pre @ ws' @ post = data' @ ?c @ drop ?k f"
    unfolding data'_def post [symmetric] by simp
  have len: "length data' = length data" by (simp add: data data'_def assms(4))
  have "acf_pad_octets data' = acf_pad_octets data"
    using pad_octets_append [of data' "?c @ drop ?k f"] pad_octets_append [of data "?c @ drop ?k f"]
      assms(7) len d unfolding w' w by simp
  from unwrap_wrapped [OF w p pads _ len this, of st o1 tub sid ts] d
  have res: "fst (rcp_e2e_unwrap True st o1 tub sid ts (pre @ ws' @ post)) =
      (if rcp_e2e_compute_crc st o1 tub sid ts data = rcp_e2e_compute_crc st o1 tub sid ts data'
       then RCP_E2E_OK else RCP_E2E_ERR_CRC_MISMATCH)"
    unfolding w' by simp
  have "rcp_e2e_compute_crc st o1 tub sid ts data \<noteq> rcp_e2e_compute_crc st o1 tub sid ts data'"
    using crc32_burst [of "[st, o1, if tub then 1 else 0] @ put_u64 sid @ put_u32 ts @ pre" ws
        "take n post" ws'] assms(4-6)
    unfolding compute_crc_input crc_input_def data data'_def by auto
  with res show ?thesis by simp
qed

lemma put_u32_inj: "put_u32 a = put_u32 b \<longleftrightarrow> a = b"
  by (metis put_u32_get)

lemma put_u64_halves:
  "put_u64 v = put_u32 (ucast (drop_bit 32 v)) @ put_u32 (ucast v)"
  unfolding put_u64_def put_u32_def append.simps list.inject
  by (intro conjI word8_eqI) (simp_all add: word_bits)

lemma u64_halves_eqI:
  fixes v w :: u64
  assumes "ucast (drop_bit 32 v) = (ucast (drop_bit 32 w) :: u32)" and "ucast v = (ucast w :: u32)"
  shows "v = w"
proof -
  have "put_u64 v = put_u64 w" by (simp only: put_u64_halves assms)
  then show ?thesis by (metis get_put_u64)
qed

lemma unwrap_foreign:
  assumes "rcp_e2e_wrap mem st o1 tub sid ts f = Some w" and "8 \<le> length f"
  obtains data where
    "fst (rcp_e2e_unwrap True st' o1' tub' sid' ts' w) =
       (if rcp_e2e_crc32 (crc_input st o1 tub sid ts data) =
           rcp_e2e_crc32 (crc_input st' o1' tub' sid' ts' data)
        then RCP_E2E_OK else RCP_E2E_ERR_CRC_MISMATCH)"
proof -
  let ?k = "length f - unat (acf_pad_octets f)"
  obtain data where w: "w = data @ put_u32 (rcp_e2e_compute_crc st o1 tub sid ts data) @ drop ?k f"
    and d: "length data = ?k" "5 \<le> ?k" "?k \<le> length f"
    and p: "acf_pad_octets w = acf_pad_octets f"
    using wrap_layout [OF assms] by metis
  have pads: "unat (acf_pad_octets f) = length (drop ?k f)"
    using pad_octets_less [of f] assms(2) by simp
  from unwrap_wrapped [OF w p pads, of data st' o1' tub' sid' ts', folded w] d
  have "fst (rcp_e2e_unwrap True st' o1' tub' sid' ts' w) =
       (if rcp_e2e_crc32 (crc_input st o1 tub sid ts data) =
           rcp_e2e_crc32 (crc_input st' o1' tub' sid' ts' data)
        then RCP_E2E_OK else RCP_E2E_ERR_CRC_MISMATCH)"
    by (simp add: compute_crc_input)
  then show thesis by (rule that)
qed

text \<open>CRC inputs that differ in one group of header fields of at most four octets.\<close>

lemma crc_input_flags:
  assumes "rcp_e2e_crc32 (crc_input st o1 tub sid ts d) = rcp_e2e_crc32 (crc_input st' o1' tub' sid ts d)"
  shows "st' = st \<and> o1' = o1 \<and> tub' = tub"
  using crc32_burst [of "[]" "[st, o1, if tub then 1 else 0]" "put_u64 sid @ put_u32 ts @ d"
      "[st', o1', if tub' then 1 else 0]"] assms
  by (auto simp: crc_input_def split: if_splits)

lemma crc_input_ts:
  assumes "rcp_e2e_crc32 (crc_input st o1 tub sid ts d) = rcp_e2e_crc32 (crc_input st o1 tub sid ts' d)"
  shows "ts' = ts"
  using crc32_burst [of "[st, o1, if tub then 1 else 0] @ put_u64 sid" "put_u32 ts" d "put_u32 ts'"]
    assms by (simp add: crc_input_def put_u32_inj)

lemma crc_input_sid:
  assumes "rcp_e2e_crc32 (crc_input st o1 tub sid ts d) = rcp_e2e_crc32 (crc_input st o1 tub sid' ts d)"
    and half: "ucast (drop_bit 32 sid) = (ucast (drop_bit 32 sid') :: u32) \<or>
      ucast sid = (ucast sid' :: u32)"
  shows "sid' = sid"
proof -
  let ?h = "\<lambda>v. ucast (drop_bit 32 (v :: u64)) :: u32" and ?l = "\<lambda>v. ucast (v :: u64) :: u32"
  let ?p = "[st, o1, if tub then 1 else 0]"
  have eq: "rcp_e2e_crc32 (?p @ put_u32 (?h sid) @ put_u32 (?l sid) @ put_u32 ts @ d) =
      rcp_e2e_crc32 (?p @ put_u32 (?h sid') @ put_u32 (?l sid') @ put_u32 ts @ d)"
    using assms(1) by (simp only: crc_input_def put_u64_halves append_assoc)
  from half show ?thesis
  proof
    assume h: "?h sid = ?h sid'"
    then have "put_u32 (?l sid) = put_u32 (?l sid')"
      using eq crc32_burst [of "?p @ put_u32 (?h sid)" "put_u32 (?l sid)" "put_u32 ts @ d"
          "put_u32 (?l sid')"] by simp
    with h show ?thesis by (intro u64_halves_eqI) (simp_all only: put_u32_inj)
  next
    assume l: "?l sid = ?l sid'"
    then have "put_u32 (?h sid) = put_u32 (?h sid')"
      using eq crc32_burst [of ?p "put_u32 (?h sid)" "put_u32 (?l sid) @ put_u32 ts @ d"
          "put_u32 (?h sid')"] by simp
    with l show ?thesis by (intro u64_halves_eqI) (simp_all only: put_u32_inj)
  qed
qed

lemma unwrap_crc_tampered:
  assumes "rcp_e2e_wrap mem st o1 tub sid ts f = Some w" and "8 \<le> length f"
    and "w = pre @ ws @ post" and "length ws = length ws'" and "ws \<noteq> ws'"
    and "length f - unat (acf_pad_octets f) \<le> length pre"
    and "length pre + length ws \<le> length f - unat (acf_pad_octets f) + 4"
  shows "fst (rcp_e2e_unwrap True st o1 tub sid ts (pre @ ws' @ post)) = RCP_E2E_ERR_CRC_MISMATCH"
proof -
  let ?k = "length f - unat (acf_pad_octets f)"
  obtain data where w: "w = data @ put_u32 (rcp_e2e_compute_crc st o1 tub sid ts data) @ drop ?k f"
    and d: "length data = ?k" "5 \<le> ?k" "?k \<le> length f"
    and p: "acf_pad_octets w = acf_pad_octets f"
    using wrap_layout [OF assms(1,2)] by metis
  let ?c = "put_u32 (rcp_e2e_compute_crc st o1 tub sid ts data)" and ?v = "pre @ ws' @ post"
  define c' where "c' = take 4 (drop ?k ?v)"
  have "take ?k ?v = take ?k w" and tail: "drop (4 + ?k) ?v = drop (4 + ?k) w"
    using assms(3,4,6,7) by simp_all
  then have data: "take ?k ?v = data" and pads: "drop (4 + ?k) ?v = drop ?k f"
    using w d by simp_all
  have "?v = take ?k ?v @ take 4 (drop ?k ?v) @ drop 4 (drop ?k ?v)"
    by (simp only: append_take_drop_id)
  then have v: "?v = data @ c' @ drop ?k f"
    by (simp only: data c'_def drop_drop pads)
  have lens: "length w = length f + 4" "length ?v = length w"
    using length_wrap [OF assms(1,2)] assms(3,4) by simp_all
  have c4: "length c' = 4" unfolding c'_def length_take length_drop lens(2) using lens(1) d(3) by simp
  have "?v \<noteq> w" using assms(3-5) by simp
  then have cc: "c' \<noteq> ?c" using v w by metis
  have "length c' = Suc (Suc (Suc (Suc 0)))" using c4 by simp
  then have "put_u32 (get_u32 c') = c'" by (auto simp: length_Suc_conv put_get_u32_octets)
  with cc have ne: "get_u32 c' \<noteq> rcp_e2e_compute_crc st o1 tub sid ts data" by metis
  have "?v ! 2 = w ! 2" using d unfolding v w by (simp add: nth_append)
  then have "acf_pad_octets ?v = acf_pad_octets f"
    using lens assms(2) p by (simp add: acf_pad_octets_def)
  then have "length data + 4 + unat (acf_pad_octets (data @ c' @ drop ?k f)) =
      length (data @ c' @ drop ?k f)"
    using lens d pad_octets_less [of f] assms(2) c4 unfolding v by simp
  from unwrap_result [OF this c4] d ne show ?thesis unfolding v by (cases "data = []") simp_all
qed

section \<open>Sequence numbers accepted on a stream\<close>

definition seq_forward :: "byte \<Rightarrow> byte \<Rightarrow> bool" where
  "seq_forward a b \<longleftrightarrow> 1 \<le> unat (b - a) \<and> unat (b - a) \<le> 127"

text \<open>The numbers an enforcing receiver accepts out of those it sees.\<close>

primrec seq_run :: "rcp_e2e_seq_tracker_t \<Rightarrow> bool \<Rightarrow> bytes \<Rightarrow> bytes" where
  "seq_run t ss [] = []"
| "seq_run t ss (q # qs) =
     (let (r, t') = rcp_e2e_seq_evaluate t True ss q
      in if accept r then q # seq_run t' ss qs else seq_run t' ss qs)"

lemma fwd_distance_range:
  fixes d :: byte
  shows "(1 \<le> d \<and> d \<le> 127) = (1 \<le> unat d \<and> unat d \<le> 127)"
  by (simp add: word_le_nat_alt)

lemma seq_run_Cons_prev:
  "seq_run \<lparr>has_prev = True, prev_seq = p\<rparr> ss (q # qs) =
     (if seq_forward p q then q # seq_run \<lparr>has_prev = True, prev_seq = q\<rparr> ss qs
      else seq_run \<lparr>has_prev = True, prev_seq = p\<rparr> ss qs)"
  unfolding seq_forward_def fwd_distance_range [symmetric]
  by (simp add: rcp_e2e_seq_evaluate_def Let_def)

lemma seq_run_forward: "successively seq_forward (p # seq_run \<lparr>has_prev = True, prev_seq = p\<rparr> ss qs)"
proof (induction qs arbitrary: p)
  case (Cons q qs)
  then show ?case by (simp add: seq_run_Cons_prev del: seq_run.simps(2))
qed simp

lemma length_seq_run: "length (seq_run t ss qs) \<le> length qs"
  by (induction qs arbitrary: t) (auto split: prod.splits intro: le_SucI)

lemma seq_run_all:
  "seq_run \<lparr>has_prev = True, prev_seq = p\<rparr> ss qs = qs \<longleftrightarrow> successively seq_forward (p # qs)"
proof (induction qs arbitrary: p)
  case (Cons q qs)
  have "seq_run \<lparr>has_prev = True, prev_seq = p\<rparr> ss qs \<noteq> q # qs"
    using length_seq_run [of _ ss qs] by (metis Suc_n_not_le_n length_Cons)
  with Cons.IH show ?case by (simp add: seq_run_Cons_prev del: seq_run.simps(2))
qed simp

text \<open>C24: With sequence enforcement, the numbers a stream's tracker accepts from its first one on
  each lie one to 127 ahead (modulo 256) of the one accepted before, so duplicates and stale numbers
  are never accepted; and a stream is accepted whole exactly when all its steps are of that kind.
  Without enforcement every number is accepted.\<close>

theorem seq_accepts_forward_steps:
  "successively seq_forward (seq_run rcp_e2e_seq_tracker_init ss qs) \<and>
   (seq_run rcp_e2e_seq_tracker_init ss qs = qs \<longleftrightarrow> successively seq_forward qs) \<and>
   accept (fst (rcp_e2e_seq_evaluate t False ss q)) \<and>
   snd (rcp_e2e_seq_evaluate t False ss q) = \<lparr>has_prev = True, prev_seq = q\<rparr>"
proof -
  have "seq_run rcp_e2e_seq_tracker_init ss qs =
      (case qs of [] \<Rightarrow> [] | q # r \<Rightarrow> q # seq_run \<lparr>has_prev = True, prev_seq = q\<rparr> ss r)"
    by (simp add: rcp_e2e_seq_tracker_init_def rcp_e2e_seq_evaluate_def split: list.split)
  then have "successively seq_forward (seq_run rcp_e2e_seq_tracker_init ss qs)"
    and "seq_run rcp_e2e_seq_tracker_init ss qs = qs \<longleftrightarrow> successively seq_forward qs"
    by (cases qs; simp add: seq_run_forward seq_run_all)+
  then show ?thesis by (cases t) (simp add: rcp_e2e_seq_evaluate_def Let_def)
qed

section \<open>The stream fault tracker as a keyed latch\<close>

lemma tracker_find_slot:
  "stream_fault_tracker_find t sid = Some i \<Longrightarrow>
   i < length t \<and> slot_used (t ! i) \<and> slot_stream_id (t ! i) = sid"
  by (auto simp: stream_fault_tracker_find_def dest: find_index_SomeD)

lemma tracker_find_keep:
  assumes "i < length t" and "slot_used (t ! i)"
  shows "stream_fault_tracker_find (t[i := (t ! i)\<lparr>slot_fault := f\<rparr>]) j = stream_fault_tracker_find t j"
  unfolding stream_fault_tracker_find_def using assms by (intro find_index_update_same) simp_all

lemma tracker_faulted_update:
  assumes "stream_fault_tracker_find t sid = Some i"
  shows "rcp_e2e_stream_fault_tracker_is_faulted (t[i := (t ! i)\<lparr>slot_fault := f\<rparr>]) j =
    (if j = sid then faulted f else rcp_e2e_stream_fault_tracker_is_faulted t j)"
proof -
  from tracker_find_slot [OF assms] have i: "i < length t" "slot_used (t ! i)" "slot_stream_id (t ! i) = sid"
    by simp_all
  have "k \<noteq> i" if "stream_fault_tracker_find t j = Some k" and "j \<noteq> sid" for k
    using tracker_find_slot [OF that(1)] i that(2) by auto
  then show ?thesis using assms i
    by (cases "j = sid"; cases "stream_fault_tracker_find t j")
      (simp_all add: rcp_e2e_stream_fault_tracker_is_faulted_def rcp_e2e_stream_fault_is_faulted_def
        tracker_find_keep)
qed

lemma tracker_find_claim:
  assumes "stream_fault_tracker_find t sid = None" and "stream_fault_tracker_find_free t = Some i"
    and "slot_used s" and "slot_stream_id s = sid"
  shows "stream_fault_tracker_find (t[i := s]) j =
    (if j = sid then Some i else stream_fault_tracker_find t j)"
proof -
  from assms(2) have i: "i < length t" "\<not> slot_used (t ! i)"
    by (auto simp: stream_fault_tracker_find_free_def dest: find_index_SomeD)
  from assms(1) have none: "\<not> (slot_used (t ! k) \<and> slot_stream_id (t ! k) = sid)" if "k < length t" for k
    using that by (auto simp: stream_fault_tracker_find_def find_index_None)
  show ?thesis
  proof (cases "j = sid")
    case True
    then show ?thesis using i none assms(3,4)
      by (auto simp: stream_fault_tracker_find_def find_index_Some nth_list_update)
  next
    case False
    then show ?thesis using i assms(4)
      by (simp add: stream_fault_tracker_find_def find_index_update_same)
  qed
qed

lemma tracker_claim_faulted:
  assumes "stream_fault_tracker_find t sid = None" and "stream_fault_tracker_find_free t = Some i"
  shows "rcp_e2e_stream_fault_tracker_is_faulted
      (t[i := \<lparr>slot_stream_id = sid, slot_used = True, slot_fault = f\<rparr>]) j =
    (if j = sid then faulted f else rcp_e2e_stream_fault_tracker_is_faulted t j)"
proof -
  from assms(2) have i: "i < length t" "\<not> slot_used (t ! i)"
    by (auto simp: stream_fault_tracker_find_free_def dest: find_index_SomeD)
  have "k \<noteq> i" if "stream_fault_tracker_find t j = Some k" for k
    using tracker_find_slot [OF that] i by auto
  then show ?thesis using assms i
    by (auto simp: rcp_e2e_stream_fault_tracker_is_faulted_def rcp_e2e_stream_fault_is_faulted_def
        tracker_find_claim split: option.splits)
qed

lemma on_crc_error_faulted:
  "rcp_e2e_stream_fault_on_crc_error f e = (True, f\<lparr>faulted := faulted f \<or> e\<rparr>)"
  by (cases f) (simp add: rcp_e2e_stream_fault_on_crc_error_def rcp_e2e_crc_error_action_def)

lemma tracker_unknown:
  "stream_fault_tracker_find t sid = None \<Longrightarrow> \<not> rcp_e2e_stream_fault_tracker_is_faulted t sid"
  by (simp add: rcp_e2e_stream_fault_tracker_is_faulted_def)

interpretation faults: keyed_latch rcp_e2e_stream_fault_tracker_on_crc_error
  rcp_e2e_stream_fault_tracker_reset rcp_e2e_stream_fault_tracker_is_faulted
proof unfold_locales
  fix s k e
  assume "\<not> fst (rcp_e2e_stream_fault_tracker_on_crc_error s k e)"
  then show "snd (rcp_e2e_stream_fault_tracker_on_crc_error s k e) = s \<and>
      \<not> rcp_e2e_stream_fault_tracker_is_faulted s k"
    by (auto simp: rcp_e2e_stream_fault_tracker_on_crc_error_def on_crc_error_faulted
        rcp_e2e_stream_fault_tracker_is_faulted_def split: option.splits)
next
  fix s k e j
  have old: "rcp_e2e_stream_fault_tracker_is_faulted s k = faulted (slot_fault (s ! i))"
    if "stream_fault_tracker_find s k = Some i" for i
    using that by (simp add: rcp_e2e_stream_fault_tracker_is_faulted_def
        rcp_e2e_stream_fault_is_faulted_def)
  assume "fst (rcp_e2e_stream_fault_tracker_on_crc_error s k e)"
  then show "rcp_e2e_stream_fault_tracker_is_faulted
        (snd (rcp_e2e_stream_fault_tracker_on_crc_error s k e)) j =
      (if j = k then rcp_e2e_stream_fault_tracker_is_faulted s k \<or> e
       else rcp_e2e_stream_fault_tracker_is_faulted s j)"
    by (auto simp: rcp_e2e_stream_fault_tracker_on_crc_error_def on_crc_error_faulted
        tracker_faulted_update tracker_claim_faulted old tracker_unknown rcp_e2e_stream_fault_init_def
        split: option.splits)
next
  fix s k j
  show "rcp_e2e_stream_fault_tracker_is_faulted (rcp_e2e_stream_fault_tracker_reset s k) j =
      (j \<noteq> k \<and> rcp_e2e_stream_fault_tracker_is_faulted s j)"
    by (auto simp: rcp_e2e_stream_fault_tracker_reset_def tracker_faulted_update
        rcp_e2e_stream_fault_reset_def tracker_unknown
        split: option.splits)
qed

section \<open>Properties\<close>

text \<open>Protecting an encoded ABB message with a payload of at most 2032 octets succeeds, adds
  four octets, and unwrapping the protected frame gives \<open>RCP_E2E_OK\<close> and the message unchanged.
  With NTSCF framing the receiver's timestamp arguments do not matter; with TSCF framing they have
  to be the sender's.\<close>

theorem e2e_wrap_unwrap:
  assumes "rcp_acf_encode_abb mem h p = Some f" and "length p \<le> 2032"
    and "ntscf \<or> (tub' = tub \<and> ts' = ts)"
  shows "\<exists>w. rcp_e2e_wrap_framed True sid ntscf o1 tub ts f = Some w \<and> length w = length f + 4 \<and>
    rcp_e2e_unwrap_framed True sid ntscf o1 tub' ts' w = (RCP_E2E_OK, Some f)"
proof -
  note f = abb_protectable [OF assms(1,2)]
  obtain w where w: "rcp_e2e_wrap_framed True sid ntscf o1 tub ts f = Some w"
    unfolding rcp_e2e_wrap_framed_def using wrap_defined [OF f] by blast
  have "rcp_e2e_unwrap_framed True sid ntscf o1 tub' ts' w = (RCP_E2E_OK, Some f)"
    using unwrap_wrap [OF w [unfolded rcp_e2e_wrap_framed_def] f(1)] assms(3)
    by (auto simp: rcp_e2e_unwrap_framed_def split: if_splits)
  with w length_wrap [OF w [unfolded rcp_e2e_wrap_framed_def] f(1)] show ?thesis by blast
qed

theorem e2e_wrap_unwrap_witness:
  "\<exists>f. rcp_acf_encode_abb True zero_info [1, 2, 3] = Some f \<and>
     (\<exists>w. rcp_e2e_wrap_framed True 7 False 2 True 99 f = Some w \<and> length w = length f + 4 \<and>
        rcp_e2e_unwrap_framed True 7 False 2 True 99 w = (RCP_E2E_OK, Some f))"
proof -
  obtain f where f: "rcp_acf_encode_abb True zero_info [1, 2, 3] = Some f"
    by (simp add: abb_encode_eq consts_rcp Let_def)
  from e2e_wrap_unwrap [OF f, of False True True 99 99 7 2] f show ?thesis by simp
qed

text \<open>C3: A burst of errors within four consecutive octets of a protected frame, whose message has at least
  8 octets, is detected if it leaves the two-bit padding field of the message header (the top bits of octet 2) as it was: if it lies
  inside the protected message or inside the CRC, unwrapping under the same header fields, with the copy
  allocated, reports \<open>RCP_E2E_ERR_CRC_MISMATCH\<close>.
  The condition on the padding field is needed, because unwrapping uses the received field to find the
  CRC before it has checked anything (see \<open>padding_field_unprotected\<close>).\<close>

theorem e2e_detects_bursts:
  assumes "rcp_e2e_wrap mem st o1 tub sid ts f = Some w" and "8 \<le> length f"
    and "w = pre @ ws @ post" and "length ws = length ws'" and "length ws \<le> 4" and "ws \<noteq> ws'"
    and "acf_pad_octets (pre @ ws' @ post) = acf_pad_octets w"
    and "length pre + length ws \<le> length f - unat (acf_pad_octets f) \<or>
         (length f - unat (acf_pad_octets f) \<le> length pre \<and>
          length pre + length ws \<le> length f - unat (acf_pad_octets f) + 4)"
  shows "fst (rcp_e2e_unwrap True st o1 tub sid ts (pre @ ws' @ post)) = RCP_E2E_ERR_CRC_MISMATCH"
  using assms(8) unwrap_tampered [OF assms(1-7)] unwrap_crc_tampered [OF assms(1-4) assms(6)]
  by blast

theorem e2e_detects_bursts_witness:
  "\<exists>w. rcp_e2e_wrap True 0x82 0 False 0 0 (replicate 8 0) = Some w \<and>
     fst (rcp_e2e_unwrap True 0x82 0 False 0 0 (take 2 w @ [63] @ drop 3 w)) =
       RCP_E2E_ERR_CRC_MISMATCH"
proof -
  have "msg_quadlets (replicate 8 0) = 0" by (simp add: msg_quadlets_def numeral_eq_Suc)
  then obtain w where w: "rcp_e2e_wrap True 0x82 0 False 0 0 (replicate 8 0) = Some w"
    using wrap_defined [of "replicate 8 0" "0x82" 0 False 0 0] by auto
  have len: "length w = 12" using length_wrap [OF w] by simp
  have p: "unat (acf_pad_octets (replicate 8 0)) = 0" by (simp add: acf_pad_octets_def numeral_eq_Suc)
  have two: "w ! 2 = 0"
    using w by (auto simp: rcp_e2e_wrap_def adapt_acf_msg_length_def Let_def p nth_append
        split: if_splits)
  then have split: "w = take 2 w @ [0] @ drop 3 w"
    using len id_take_nth_drop [of 2 w] by simp
  have "acf_pad_octets (take 2 w @ [63] @ drop 3 w) = acf_pad_octets w"
    using len two by (simp add: acf_pad_octets_def nth_append)
  from e2e_detects_bursts [OF w _ split _ _ _ this] len p w show ?thesis by simp
qed

text \<open>The checksum on integers, which evaluates quickly.\<close>

definition int_crc_step :: "int \<Rightarrow> int" where
  "int_crc_step x = (if odd x then (x div 2) XOR 0xC8DF352F else x div 2)"

definition int_crc_octet :: "int \<Rightarrow> int \<Rightarrow> int" where
  "int_crc_octet c b = (int_crc_step ^^ 8) (c XOR b)"

lemma int_crc_step_numeral:
  "int_crc_step (numeral (Num.Bit0 n)) = numeral n" "int_crc_step 0 = 0"
  "int_crc_step (numeral (Num.Bit1 n)) = numeral n XOR 0xC8DF352F" "int_crc_step 1 = 0xC8DF352F"
  by (simp_all add: int_crc_step_def)

lemma uint_crc32_step: "uint (crc32_step c) = int_crc_step (uint c)"
proof -
  have "c AND 1 \<noteq> 0 \<longleftrightarrow> odd (uint c)"
    by (simp add: word_uint_eq_iff uint_mod and_one_eq even_iff_mod_2_eq_zero)
  moreover have "uint (drop_bit 1 c) = uint c div 2" by (simp add: drop_bit_eq_div uint_div)
  ultimately show ?thesis
    by (simp add: crc32_step_def int_crc_step_def RCP_E2E_CRC32_RPOLY_def uint_xor)
qed

lemma uint_crc32_octets: "uint (foldl crc32_update c bs) = foldl int_crc_octet (uint c) (map uint bs)"
proof (induction bs arbitrary: c)
  case (Cons b bs)
  have octet: "take_bit 32 (uint b) = uint b"
    using uint_lt2p [of b] by (intro take_bit_int_eq_self) simp_all
  have "uint ((crc32_step ^^ n) d) = (int_crc_step ^^ n) (uint d)" for n d
    by (induction n arbitrary: d) (simp_all add: uint_crc32_step)
  then have "uint (crc32_update c b) = int_crc_octet (uint c) (uint b)"
    by (simp add: crc32_update_def int_crc_octet_def uint_xor unsigned_ucast_eq octet)
  then show ?case using Cons.IH by simp
qed simp

lemma int_crc_octet8:
  "int_crc_octet c b = int_crc_step (int_crc_step (int_crc_step (int_crc_step
     (int_crc_step (int_crc_step (int_crc_step (int_crc_step (c XOR b))))))))"
  by (simp add: int_crc_octet_def eval_nat_numeral)

lemmas crc_eval = int_crc_octet8 int_crc_step_numeral

text \<open>An error in the padding field alone can pass: the message of 20 octets below is accepted, with a
  payload one octet shorter, after a single bit of octet 2 of its protected frame is set.\<close>

definition unlucky_message :: bytes where
  "unlucky_message = [28, 5, 0, 3, 0, 7, 128, 0, 0, 0, 0, 0, 0, 0, 0, 128, 153, 197, 141, 88]"

definition unlucky_frame :: "byte \<Rightarrow> bytes" where
  "unlucky_frame b = [28, 6, b, 3, 0, 7, 128, 0, 0, 0, 0, 0, 0, 0, 0, 128, 153, 197, 141, 88, 231, 198, 175, 171]"

lemma unlucky_crc:
  "rcp_e2e_compute_crc 0x82 0 False 9 0 (take 20 (unlucky_frame 0)) = 0xE7C6AFAB"
  "rcp_e2e_compute_crc 0x82 0 False 9 0 (take 19 (unlucky_frame 64)) = 0x58E7C6AF"
proof -
  let ?h = "[130, 0, 0, 0, 0, 0, 0, 0, 0, 0, 9, 0, 0, 0, 0]"
  have i: "crc_input 0x82 0 False 9 0 m = ?h @ m" for m
    by (simp add: crc_input_def put_u64_def put_u32_def)
  have "foldl int_crc_octet 0xFFFFFFFF (map uint (?h @ take 20 (unlucky_frame 0))) = 0x18395054"
    "foldl int_crc_octet 0xFFFFFFFF (map uint (?h @ take 19 (unlucky_frame 64))) = 0xA7183950"
    by (simp_all add: unlucky_frame_def crc_eval)
  then have "foldl crc32_update 0xFFFFFFFF (?h @ take 20 (unlucky_frame 0)) = 0x18395054"
    "foldl crc32_update 0xFFFFFFFF (?h @ take 19 (unlucky_frame 64)) = 0xA7183950"
    by (simp_all only: word_uint_eq_iff uint_crc32_octets) simp_all
  then show "rcp_e2e_compute_crc 0x82 0 False 9 0 (take 20 (unlucky_frame 0)) = 0xE7C6AFAB"
    "rcp_e2e_compute_crc 0x82 0 False 9 0 (take 19 (unlucky_frame 64)) = 0x58E7C6AF"
    unfolding compute_crc_input i rcp_e2e_crc32_def by simp_all
qed

theorem padding_field_unprotected:
  "rcp_e2e_wrap True RCP_AVTP_SUBTYPE_NTSCF 0 False 9 0 unlucky_message = Some (unlucky_frame 0) \<and>
   (unlucky_frame 0)[2 := 64] = unlucky_frame 64 \<and>
   fst (rcp_e2e_unwrap True RCP_AVTP_SUBTYPE_NTSCF 0 False 9 0 (unlucky_frame 64)) = RCP_E2E_OK"
proof (intro conjI)
  have a: "adapt_acf_msg_length unlucky_message 20 1 = Some (take 20 (unlucky_frame 0))" by code_simp
  have p: "acf_pad_octets unlucky_message = 0" "length unlucky_message = 20"
    "put_u32 0xE7C6AFAB = drop 20 (unlucky_frame 0)"
    by code_simp+
  show "rcp_e2e_wrap True RCP_AVTP_SUBTYPE_NTSCF 0 False 9 0 unlucky_message = Some (unlucky_frame 0)"
    unfolding rcp_e2e_wrap_def p Let_def RCP_AVTP_SUBTYPE_NTSCF_def
    using a unlucky_crc(1) p(2,3) by (simp add: SIZE_MAX_def RCP_E2E_CRC_LEN_def)
  show "(unlucky_frame 0)[2 := 64] = unlucky_frame 64" by (simp add: unlucky_frame_def)
  have q: "unat (acf_pad_octets (unlucky_frame 64)) = 1" "length (unlucky_frame 64) = 24"
    "get_u32 (drop 19 (unlucky_frame 64)) = 0x58E7C6AF"
    by code_simp+
  show "fst (rcp_e2e_unwrap True RCP_AVTP_SUBTYPE_NTSCF 0 False 9 0 (unlucky_frame 64)) = RCP_E2E_OK"
    unfolding rcp_e2e_unwrap_def Let_def q RCP_AVTP_SUBTYPE_NTSCF_def
    using unlucky_crc(2) q(3) by (simp add: RCP_E2E_CRC_LEN_def)
qed

text \<open>A protected frame does not verify under other header fields: if exactly one group of the
  subtype, header octet and timestamp-uncertain bit, the timestamp, or one half of the stream id is
  different at the receiver, unwrapping reports \<open>RCP_E2E_ERR_CRC_MISMATCH\<close>.\<close>

theorem e2e_binds_header:
  assumes "rcp_e2e_wrap mem st o1 tub sid ts f = Some w" and "8 \<le> length f"
  shows "((st', o1', tub') \<noteq> (st, o1, tub) \<longrightarrow>
      fst (rcp_e2e_unwrap True st' o1' tub' sid ts w) = RCP_E2E_ERR_CRC_MISMATCH) \<and>
    (ts' \<noteq> ts \<longrightarrow> fst (rcp_e2e_unwrap True st o1 tub sid ts' w) = RCP_E2E_ERR_CRC_MISMATCH) \<and>
    (sid' \<noteq> sid \<and> (ucast (drop_bit 32 sid) = (ucast (drop_bit 32 sid') :: u32) \<or>
           ucast sid = (ucast sid' :: u32)) \<longrightarrow>
      fst (rcp_e2e_unwrap True st o1 tub sid' ts w) = RCP_E2E_ERR_CRC_MISMATCH)"
proof (intro conjI)
  show "(st', o1', tub') \<noteq> (st, o1, tub) \<longrightarrow>
      fst (rcp_e2e_unwrap True st' o1' tub' sid ts w) = RCP_E2E_ERR_CRC_MISMATCH"
    by (rule unwrap_foreign [OF assms, of st' o1' tub' sid ts]) (auto dest: crc_input_flags)
  show "ts' \<noteq> ts \<longrightarrow> fst (rcp_e2e_unwrap True st o1 tub sid ts' w) = RCP_E2E_ERR_CRC_MISMATCH"
    by (rule unwrap_foreign [OF assms, of st o1 tub sid ts']) (auto dest: crc_input_ts)
  show "sid' \<noteq> sid \<and> (ucast (drop_bit 32 sid) = (ucast (drop_bit 32 sid') :: u32) \<or>
           ucast sid = (ucast sid' :: u32)) \<longrightarrow>
      fst (rcp_e2e_unwrap True st o1 tub sid' ts w) = RCP_E2E_ERR_CRC_MISMATCH"
    by (rule unwrap_foreign [OF assms, of st o1 tub sid' ts]) (auto dest: crc_input_sid)
qed

theorem e2e_binds_header_witness:
  "\<exists>w. rcp_e2e_wrap True 0x82 0 False 0 0 (replicate 8 0) = Some w \<and>
     fst (rcp_e2e_unwrap True 0x05 0 False 0 0 w) = RCP_E2E_ERR_CRC_MISMATCH \<and>
     fst (rcp_e2e_unwrap True 0x82 0 False 0 1 w) = RCP_E2E_ERR_CRC_MISMATCH \<and>
     fst (rcp_e2e_unwrap True 0x82 0 False 1 0 w) = RCP_E2E_ERR_CRC_MISMATCH"
proof -
  have "msg_quadlets (replicate 8 0) = 0" by (simp add: msg_quadlets_def numeral_eq_Suc)
  then obtain w where w: "rcp_e2e_wrap True 0x82 0 False 0 0 (replicate 8 0) = Some w"
    using wrap_defined [of "replicate 8 0" "0x82" 0 False 0 0] by auto
  from e2e_binds_header [OF w, of "0x05" 0 False 1 1] w show ?thesis by simp
qed

text \<open>The events of a stream fault tracker and its state after them.\<close>

definition fault_events ::
    "rcp_e2e_stream_fault_tracker_t \<Rightarrow> u64 latch_event list \<Rightarrow> rcp_e2e_stream_fault_tracker_t" where
  "fault_events = foldl (\<lambda>t ev. case ev of
     Note sid enforce \<Rightarrow> snd (rcp_e2e_stream_fault_tracker_on_crc_error t sid enforce)
   | Release sid \<Rightarrow> rcp_e2e_stream_fault_tracker_reset t sid)"

lemma fault_events_latch: "fault_events t evs = foldl faults.latch_step t evs"
proof -
  have "(\<lambda>t ev. case ev of
      Note sid enforce \<Rightarrow> snd (rcp_e2e_stream_fault_tracker_on_crc_error t sid enforce)
    | Release sid \<Rightarrow> rcp_e2e_stream_fault_tracker_reset t sid) = faults.latch_step"
    by (intro ext) (simp split: latch_event.split)
  then show ?thesis by (simp add: fault_events_def)
qed

text \<open>The stream fault latch.  An enforced CRC error that the tracker records faults its stream;
  once a stream is faulted, no later sequence of CRC errors on any streams and resets of other
  streams clears it; from a new tracker, a stream with no enforced error is never faulted; and when
  all slots are taken an error on a new stream is refused and changes nothing.\<close>

theorem stream_fault_latches:
  "(rcp_e2e_stream_fault_tracker_is_faulted t sid \<and> Release sid \<notin> set evs \<longrightarrow>
      rcp_e2e_stream_fault_tracker_is_faulted (fault_events t evs) sid) \<and>
   (Note sid True \<notin> set evs \<longrightarrow> \<not> rcp_e2e_stream_fault_tracker_is_faulted
      (fault_events rcp_e2e_stream_fault_tracker_init evs) sid) \<and>
   (fst (rcp_e2e_stream_fault_tracker_on_crc_error t sid True) \<longrightarrow>
      rcp_e2e_stream_fault_tracker_is_faulted
        (snd (rcp_e2e_stream_fault_tracker_on_crc_error t sid True)) sid) \<and>
   (\<not> fst (rcp_e2e_stream_fault_tracker_on_crc_error t sid e) \<longrightarrow>
      snd (rcp_e2e_stream_fault_tracker_on_crc_error t sid e) = t)"
proof -
  have "stream_fault_tracker_find rcp_e2e_stream_fault_tracker_init sid = None"
    by (simp add: stream_fault_tracker_find_def rcp_e2e_stream_fault_tracker_init_def find_index_None)
  then have clear: "\<not> rcp_e2e_stream_fault_tracker_is_faulted rcp_e2e_stream_fault_tracker_init sid"
    by (rule tracker_unknown)
  show ?thesis
    unfolding fault_events_latch
    using faults.stays_latched [of t sid evs] faults.stays_clear [OF clear, of evs]
      faults.note_latched [of t sid True sid] faults.note_full [of t sid e] by simp
qed

theorem stream_fault_latches_witness:
  "rcp_e2e_stream_fault_tracker_is_faulted
     (fault_events rcp_e2e_stream_fault_tracker_init [Note 5 True, Note 6 True, Release 6]) 5 \<and>
   \<not> rcp_e2e_stream_fault_tracker_is_faulted
     (fault_events rcp_e2e_stream_fault_tracker_init [Note 5 True, Note 6 False]) 6"
proof -
  let ?t = "snd (rcp_e2e_stream_fault_tracker_on_crc_error rcp_e2e_stream_fault_tracker_init 5 True)"
  have "fst (rcp_e2e_stream_fault_tracker_on_crc_error rcp_e2e_stream_fault_tracker_init 5 True)"
    by code_simp
  then have "rcp_e2e_stream_fault_tracker_is_faulted ?t 5" using stream_fault_latches by blast
  then have "rcp_e2e_stream_fault_tracker_is_faulted (fault_events ?t [Note 6 True, Release 6]) 5"
    using stream_fault_latches [of ?t 5 "[Note 6 True, Release 6]"] by simp
  moreover have "fault_events rcp_e2e_stream_fault_tracker_init [Note 5 True, Note 6 True, Release 6] =
      fault_events ?t [Note 6 True, Release 6]" by (simp add: fault_events_def)
  ultimately show ?thesis
    using stream_fault_latches [of _ 6 "[Note 5 True, Note 6 False]"] by simp
qed

end
