(* ===== verification/Lifecycle.thy ===== *)
theory Lifecycle
  imports E2e
begin

text \<open>
  \<^verbatim>\<open>src/lifecycle.c\<close>: the lifecycle of an RC server.  Plausibility checks of the
  configuration, the guarded transitions between the three lifecycle states, the frame filter of each
  state and the rules that say which register fields a writer may change.

  A \<^verbatim>\<open>NULL\<close> snapshot is \<^const>\<open>None\<close>; \<open>endpoints\<close> and
  \<open>request_streams\<close> carry their counts as list lengths.  The text tables of
  \<^verbatim>\<open>rcp_lifecycle_strerror\<close> are left out.
\<close>

section \<open>Data\<close>

datatype rcp_lifecycle_state_t =
    RCP_LIFECYCLE_HW_UNCONFIGURED | RCP_LIFECYCLE_HW_CONFIGURED | RCP_LIFECYCLE_RCP_CONFIGURED

datatype rcp_lifecycle_errc_t =
    RCP_LIFECYCLE_OK | RCP_LIFECYCLE_ERR_HW_CFG_INCONSISTENT
  | RCP_LIFECYCLE_ERR_RCP_CFG_INCONSISTENT | RCP_LIFECYCLE_ERR_INVALID_TRANSITION
  | RCP_LIFECYCLE_ERR_UNAUTHORIZED | RCP_LIFECYCLE_ERR_EPS_NOT_IDLE

record rcp_lifecycle_endpoint_plausibility_t =
  ep_used :: bool
  hw_pin_mapped :: bool
  has_request_stream :: bool
  has_stream_assoc :: bool
  request_stream_index :: nat

record rcp_lifecycle_request_stream_plausibility_t =
  configured :: bool
  has_response_stream :: bool
  response_stream_index :: nat

record rcp_lifecycle_plausibility_snapshot_t =
  endpoints :: "rcp_lifecycle_endpoint_plausibility_t list"
  request_streams :: "rcp_lifecycle_request_stream_plausibility_t list"
  response_stream_count :: nat

record rcp_lifecycle_writer_ctx_t =
  via_root_client_ep0 :: bool
  via_owning_stream :: bool
  via_non_unicast_frame :: bool
  via_discovery_stream :: bool
  via_valid_stream_association :: bool

datatype rcp_lifecycle_accept_t =
    RCP_LIFECYCLE_ACCEPT | RCP_LIFECYCLE_DROP | RCP_LIFECYCLE_REJECT

datatype rcp_lifecycle_field_kind_t =
    RCP_LIFECYCLE_FIELD_HW_GENERIC | RCP_LIFECYCLE_FIELD_FUNCTIONAL_W
  | RCP_LIFECYCLE_FIELD_FUNCTIONAL_W_STAR | RCP_LIFECYCLE_FIELD_READ_ONLY

definition RCP_LIFECYCLE_DISCOVERY_BYTE_BUS_ID :: rcp_byte_bus_id_t where
  [consts_rcp]: "RCP_LIFECYCLE_DISCOVERY_BYTE_BUS_ID = 0"

section \<open>Plausibility checks\<close>

text \<open>The loop over the endpoints, with its \<^verbatim>\<open>continue\<close> and early returns.\<close>

fun check_hw_endpoints :: "rcp_lifecycle_endpoint_plausibility_t list \<Rightarrow> rcp_lifecycle_errc_t" where
  "check_hw_endpoints [] = RCP_LIFECYCLE_OK"
| "check_hw_endpoints (ep # eps) =
     (if \<not> ep_used ep then check_hw_endpoints eps
      else if \<not> hw_pin_mapped ep then RCP_LIFECYCLE_ERR_HW_CFG_INCONSISTENT
      else if \<not> has_request_stream ep then RCP_LIFECYCLE_ERR_HW_CFG_INCONSISTENT
      else check_hw_endpoints eps)"

definition rcp_lifecycle_check_hw_cfg ::
    "rcp_lifecycle_plausibility_snapshot_t option \<Rightarrow> rcp_lifecycle_errc_t" where
  "rcp_lifecycle_check_hw_cfg snap =
     (case snap of None \<Rightarrow> RCP_LIFECYCLE_ERR_HW_CFG_INCONSISTENT
      | Some s \<Rightarrow> check_hw_endpoints (endpoints s))"

fun has_bound_endpoint :: "nat \<Rightarrow> rcp_lifecycle_endpoint_plausibility_t list \<Rightarrow> bool" where
  "has_bound_endpoint i [] = False"
| "has_bound_endpoint i (ep # eps) =
     (if ep_used ep \<and> has_stream_assoc ep \<and> request_stream_index ep = i then True
      else has_bound_endpoint i eps)"

text \<open>The loop over the request streams from index \<open>i\<close> on.\<close>

fun request_streams_from ::
    "rcp_lifecycle_plausibility_snapshot_t \<Rightarrow> nat \<Rightarrow> rcp_lifecycle_request_stream_plausibility_t list \<Rightarrow>
     bool" where
  "request_streams_from snap i [] = True"
| "request_streams_from snap i (rs # rss) =
     (if \<not> configured rs then request_streams_from snap (i + 1) rss
      else if \<not> has_response_stream rs then False
      else if response_stream_index rs \<ge> response_stream_count snap then False
      else if \<not> has_bound_endpoint i (endpoints snap) then False
      else request_streams_from snap (i + 1) rss)"

definition request_streams_consistent :: "rcp_lifecycle_plausibility_snapshot_t \<Rightarrow> bool" where
  "request_streams_consistent snap = request_streams_from snap 0 (request_streams snap)"

fun check_stream_assocs :: "rcp_lifecycle_endpoint_plausibility_t list \<Rightarrow> bool" where
  "check_stream_assocs [] = True"
| "check_stream_assocs (ep # eps) =
     (if \<not> ep_used ep then check_stream_assocs eps
      else if \<not> has_stream_assoc ep then False
      else check_stream_assocs eps)"

definition rcp_lifecycle_check_rcp_cfg ::
    "rcp_lifecycle_plausibility_snapshot_t option \<Rightarrow> rcp_lifecycle_errc_t" where
  "rcp_lifecycle_check_rcp_cfg snap =
     (case snap of None \<Rightarrow> RCP_LIFECYCLE_ERR_RCP_CFG_INCONSISTENT
      | Some s \<Rightarrow>
          if \<not> check_stream_assocs (endpoints s) then RCP_LIFECYCLE_ERR_RCP_CFG_INCONSISTENT
          else if \<not> request_streams_consistent s then RCP_LIFECYCLE_ERR_RCP_CFG_INCONSISTENT
          else RCP_LIFECYCLE_OK)"

section \<open>Transitions\<close>

text \<open>The result code and the state after the call.\<close>

definition rcp_lifecycle_transition ::
    "rcp_lifecycle_state_t \<Rightarrow> rcp_lifecycle_state_t \<Rightarrow>
     rcp_lifecycle_plausibility_snapshot_t option \<Rightarrow> rcp_lifecycle_writer_ctx_t \<Rightarrow> bool \<Rightarrow>
     rcp_lifecycle_errc_t \<times> rcp_lifecycle_state_t" where
  "rcp_lifecycle_transition from target snap writer all_other_eps_idle =
     (let authorized = via_discovery_stream writer \<or> via_root_client_ep0 writer \<or>
                       via_valid_stream_association writer in
      if target = from then (RCP_LIFECYCLE_OK, from)
      else if from = RCP_LIFECYCLE_HW_UNCONFIGURED \<and> target = RCP_LIFECYCLE_HW_CONFIGURED then
        (let rc = rcp_lifecycle_check_hw_cfg snap in
         if rc \<noteq> RCP_LIFECYCLE_OK then (rc, from) else (RCP_LIFECYCLE_OK, target))
      else if from = RCP_LIFECYCLE_HW_CONFIGURED \<and> target = RCP_LIFECYCLE_RCP_CONFIGURED then
        (if \<not> authorized then (RCP_LIFECYCLE_ERR_UNAUTHORIZED, from)
         else
           let rc = rcp_lifecycle_check_rcp_cfg snap in
           if rc \<noteq> RCP_LIFECYCLE_OK then (rc, from) else (RCP_LIFECYCLE_OK, target))
      else if from = RCP_LIFECYCLE_RCP_CONFIGURED \<and> target = RCP_LIFECYCLE_HW_CONFIGURED then
        (if \<not> via_root_client_ep0 writer \<and> \<not> via_valid_stream_association writer
         then (RCP_LIFECYCLE_ERR_UNAUTHORIZED, from)
         else if \<not> all_other_eps_idle then (RCP_LIFECYCLE_ERR_EPS_NOT_IDLE, from)
         else (RCP_LIFECYCLE_OK, target))
      else if target = RCP_LIFECYCLE_HW_UNCONFIGURED \<and> from = RCP_LIFECYCLE_HW_CONFIGURED then
        (if \<not> authorized then (RCP_LIFECYCLE_ERR_UNAUTHORIZED, from)
         else if \<not> all_other_eps_idle then (RCP_LIFECYCLE_ERR_EPS_NOT_IDLE, from)
         else (RCP_LIFECYCLE_OK, target))
      else if target = RCP_LIFECYCLE_HW_UNCONFIGURED \<and> from = RCP_LIFECYCLE_RCP_CONFIGURED then
        (if \<not> via_root_client_ep0 writer then (RCP_LIFECYCLE_ERR_UNAUTHORIZED, from)
         else if \<not> all_other_eps_idle then (RCP_LIFECYCLE_ERR_EPS_NOT_IDLE, from)
         else (RCP_LIFECYCLE_OK, target))
      else (RCP_LIFECYCLE_ERR_INVALID_TRANSITION, from))"

section \<open>Frame filter\<close>

definition rcp_lifecycle_should_accept ::
    "rcp_lifecycle_state_t \<Rightarrow> bool \<Rightarrow> byte \<Rightarrow> byte \<Rightarrow> rcp_byte_bus_id_t \<Rightarrow>
     rcp_avtp_tscf_fallback_t \<Rightarrow> rcp_lifecycle_accept_t" where
  "rcp_lifecycle_should_accept state sync_supported avtp_subtype acf_msg_type byte_bus_id policy =
     (if rcp_avtp_should_drop_tscf sync_supported avtp_subtype policy then RCP_LIFECYCLE_DROP
      else if state = RCP_LIFECYCLE_HW_UNCONFIGURED then
        (if avtp_subtype = RCP_AVTP_SUBTYPE_TSCF then RCP_LIFECYCLE_DROP
         else if avtp_subtype \<noteq> RCP_AVTP_SUBTYPE_NTSCF \<or>
                 byte_bus_id \<noteq> RCP_LIFECYCLE_DISCOVERY_BYTE_BUS_ID then RCP_LIFECYCLE_DROP
         else if acf_msg_type = RCP_ACF_MSG_TYPE_ABB then RCP_LIFECYCLE_ACCEPT
         else RCP_LIFECYCLE_REJECT)
      else if state = RCP_LIFECYCLE_HW_CONFIGURED then
        (if avtp_subtype = RCP_AVTP_SUBTYPE_TSCF then RCP_LIFECYCLE_DROP
         else if byte_bus_id \<noteq> RCP_LIFECYCLE_DISCOVERY_BYTE_BUS_ID then RCP_LIFECYCLE_DROP
         else if acf_msg_type = RCP_ACF_MSG_TYPE_ABB then RCP_LIFECYCLE_ACCEPT
         else RCP_LIFECYCLE_REJECT)
      else RCP_LIFECYCLE_ACCEPT)"

section \<open>Register locking\<close>

definition rcp_lifecycle_field_writable ::
    "rcp_lifecycle_state_t \<Rightarrow> rcp_lifecycle_field_kind_t \<Rightarrow> rcp_lifecycle_writer_ctx_t \<Rightarrow> bool" where
  "rcp_lifecycle_field_writable state kind writer =
     (let authorized = via_root_client_ep0 writer \<or> via_owning_stream writer;
          hw_configured_authorized = authorized \<or> via_discovery_stream writer;
          writable =
            (case kind of
               RCP_LIFECYCLE_FIELD_HW_GENERIC \<Rightarrow>
                 state = RCP_LIFECYCLE_HW_UNCONFIGURED \<and> via_discovery_stream writer
             | RCP_LIFECYCLE_FIELD_FUNCTIONAL_W \<Rightarrow>
                 if state = RCP_LIFECYCLE_HW_UNCONFIGURED then False
                 else if state = RCP_LIFECYCLE_RCP_CONFIGURED then authorized
                 else hw_configured_authorized
             | RCP_LIFECYCLE_FIELD_FUNCTIONAL_W_STAR \<Rightarrow>
                 if state = RCP_LIFECYCLE_RCP_CONFIGURED then False
                 else if state = RCP_LIFECYCLE_HW_CONFIGURED then hw_configured_authorized
                 else True
             | RCP_LIFECYCLE_FIELD_READ_ONLY \<Rightarrow> False)
      in writable \<and> \<not> via_non_unicast_frame writer)"

text \<open>The maximally privileged writer.  The C code leaves its last member indeterminate, and
  \<open>rcp_lifecycle_field_writable\<close> does not read that member.\<close>

definition best_writer :: rcp_lifecycle_writer_ctx_t where
  "best_writer = \<lparr>via_root_client_ep0 = True, via_owning_stream = True, via_non_unicast_frame = False,
                  via_discovery_stream = True, via_valid_stream_association = False\<rparr>"

definition rcp_lifecycle_field_write_error ::
    "rcp_lifecycle_state_t \<Rightarrow> rcp_lifecycle_field_kind_t \<Rightarrow> rcp_lifecycle_writer_ctx_t \<Rightarrow>
     rcp_wire_error_t" where
  "rcp_lifecycle_field_write_error state kind writer =
     (if rcp_lifecycle_field_writable state kind writer then RCP_ERROR_NONE
      else if \<not> rcp_lifecycle_field_writable state kind best_writer then RCP_ERROR_LOCKED_MEM_ACCESS
      else RCP_ERROR_UNAUTHORIZED_ACCESS)"

definition rcp_lifecycle_field_writable_w_plus ::
    "rcp_lifecycle_state_t \<Rightarrow> rcp_lifecycle_writer_ctx_t \<Rightarrow> bool \<Rightarrow> bool" where
  "rcp_lifecycle_field_writable_w_plus state writer locked =
     (if locked then False
      else rcp_lifecycle_field_writable state RCP_LIFECYCLE_FIELD_FUNCTIONAL_W_STAR writer)"

definition rcp_lifecycle_field_write_error_w_plus ::
    "rcp_lifecycle_state_t \<Rightarrow> rcp_lifecycle_writer_ctx_t \<Rightarrow> bool \<Rightarrow> rcp_wire_error_t" where
  "rcp_lifecycle_field_write_error_w_plus state writer locked =
     (if rcp_lifecycle_field_writable_w_plus state writer locked then RCP_ERROR_NONE
      else if locked then RCP_ERROR_LOCKED_MEM_ACCESS
      else if \<not> rcp_lifecycle_field_writable_w_plus state best_writer False
      then RCP_ERROR_LOCKED_MEM_ACCESS
      else RCP_ERROR_UNAUTHORIZED_ACCESS)"

section \<open>Configuration evidence\<close>

lemma check_hw_endpoints_OK:
  "check_hw_endpoints eps = RCP_LIFECYCLE_OK \<longleftrightarrow>
   (\<forall>ep\<in>set eps. ep_used ep \<longrightarrow> hw_pin_mapped ep \<and> has_request_stream ep)"
  by (induction eps) auto

lemma check_stream_assocs_all:
  "check_stream_assocs eps \<longleftrightarrow> (\<forall>ep\<in>set eps. ep_used ep \<longrightarrow> has_stream_assoc ep)"
  by (induction eps) auto

lemma has_bound_endpoint_ex:
  "has_bound_endpoint i eps \<longleftrightarrow>
   (\<exists>ep\<in>set eps. ep_used ep \<and> has_stream_assoc ep \<and> request_stream_index ep = i)"
  by (induction eps) auto

lemma request_streams_from_all:
  "request_streams_from snap i rss \<longleftrightarrow>
   (\<forall>k<length rss. configured (rss ! k) \<longrightarrow> has_response_stream (rss ! k) \<and>
      response_stream_index (rss ! k) < response_stream_count snap \<and>
      has_bound_endpoint (i + k) (endpoints snap))"
proof (induction rss arbitrary: i)
  case (Cons rs rss)
  then show ?case by (auto simp: All_less_Suc2 not_le)
qed simp

text \<open>What the two checks establish of a snapshot.\<close>

definition hw_plausible :: "rcp_lifecycle_plausibility_snapshot_t \<Rightarrow> bool" where
  "hw_plausible s \<longleftrightarrow> (\<forall>ep\<in>set (endpoints s). ep_used ep \<longrightarrow> hw_pin_mapped ep \<and> has_request_stream ep)"

definition rcp_plausible :: "rcp_lifecycle_plausibility_snapshot_t \<Rightarrow> bool" where
  "rcp_plausible s \<longleftrightarrow>
     (\<forall>ep\<in>set (endpoints s). ep_used ep \<longrightarrow> has_stream_assoc ep) \<and>
     (\<forall>k<length (request_streams s). configured (request_streams s ! k) \<longrightarrow>
        has_response_stream (request_streams s ! k) \<and>
        response_stream_index (request_streams s ! k) < response_stream_count s \<and>
        (\<exists>ep\<in>set (endpoints s). ep_used ep \<and> has_stream_assoc ep \<and> request_stream_index ep = k))"

lemma check_hw_cfg_OK:
  "rcp_lifecycle_check_hw_cfg snap = RCP_LIFECYCLE_OK \<longleftrightarrow> (\<exists>s. snap = Some s \<and> hw_plausible s)"
  by (auto simp: rcp_lifecycle_check_hw_cfg_def check_hw_endpoints_OK hw_plausible_def split: option.splits)

lemma rcp_plausible_checks:
  "rcp_plausible s \<longleftrightarrow> check_stream_assocs (endpoints s) \<and> request_streams_consistent s"
  unfolding rcp_plausible_def check_stream_assocs_all request_streams_consistent_def
    request_streams_from_all has_bound_endpoint_ex add_0 ..

lemma check_rcp_cfg_OK:
  "rcp_lifecycle_check_rcp_cfg snap = RCP_LIFECYCLE_OK \<longleftrightarrow> (\<exists>s. snap = Some s \<and> rcp_plausible s)"
  by (cases snap) (simp_all add: rcp_lifecycle_check_rcp_cfg_def rcp_plausible_checks)

lemma check_hw_endpoints_cases:
  "check_hw_endpoints eps \<in> {RCP_LIFECYCLE_OK, RCP_LIFECYCLE_ERR_HW_CFG_INCONSISTENT}"
  by (induction eps) auto

text \<open>The plausibility checks accept exactly the consistent configurations: every endpoint in use
  has a pin mapping and a request stream; every endpoint in use has a stream association, and every
  configured request stream names an existing response stream and is bound to an endpoint in use.
  Otherwise, and without a snapshot, they report their inconsistency code.\<close>

theorem plausibility_checks_exact:
  "rcp_lifecycle_check_hw_cfg snap =
     (if (\<exists>s. snap = Some s \<and> hw_plausible s) then RCP_LIFECYCLE_OK
      else RCP_LIFECYCLE_ERR_HW_CFG_INCONSISTENT) \<and>
   rcp_lifecycle_check_rcp_cfg snap =
     (if (\<exists>s. snap = Some s \<and> rcp_plausible s) then RCP_LIFECYCLE_OK
      else RCP_LIFECYCLE_ERR_RCP_CFG_INCONSISTENT)"
proof -
  have "rcp_lifecycle_check_hw_cfg snap \<in> {RCP_LIFECYCLE_OK, RCP_LIFECYCLE_ERR_HW_CFG_INCONSISTENT}"
    using check_hw_endpoints_cases by (auto simp: rcp_lifecycle_check_hw_cfg_def split: option.split)
  moreover have "rcp_lifecycle_check_rcp_cfg snap
      \<in> {RCP_LIFECYCLE_OK, RCP_LIFECYCLE_ERR_RCP_CFG_INCONSISTENT}"
    by (simp add: rcp_lifecycle_check_rcp_cfg_def split: option.split)
  ultimately show ?thesis unfolding check_hw_cfg_OK [symmetric] check_rcp_cfg_OK [symmetric] by auto
qed

section \<open>The state machine of the specification\<close>

text \<open>A lifecycle write: target, evidence, writer and whether the other endpoints are idle.\<close>

record lifecycle_write =
  lw_target :: rcp_lifecycle_state_t
  lw_snap :: "rcp_lifecycle_plausibility_snapshot_t option"
  lw_writer :: rcp_lifecycle_writer_ctx_t
  lw_idle :: bool

text \<open>The arrows of the lifecycle diagram.\<close>

inductive lifecycle_step :: "rcp_lifecycle_state_t \<Rightarrow> lifecycle_write \<Rightarrow> rcp_lifecycle_state_t \<Rightarrow> bool" where
  configure_hw:
    "lw_target w = RCP_LIFECYCLE_HW_CONFIGURED \<Longrightarrow> lw_snap w = Some s \<Longrightarrow> hw_plausible s \<Longrightarrow>
     lifecycle_step RCP_LIFECYCLE_HW_UNCONFIGURED w RCP_LIFECYCLE_HW_CONFIGURED"
| configure_rcp:
    "lw_target w = RCP_LIFECYCLE_RCP_CONFIGURED \<Longrightarrow> lw_snap w = Some s \<Longrightarrow> rcp_plausible s \<Longrightarrow>
     via_discovery_stream (lw_writer w) \<or> via_root_client_ep0 (lw_writer w) \<or>
       via_valid_stream_association (lw_writer w) \<Longrightarrow>
     lifecycle_step RCP_LIFECYCLE_HW_CONFIGURED w RCP_LIFECYCLE_RCP_CONFIGURED"
| demote:
    "lw_target w = RCP_LIFECYCLE_HW_CONFIGURED \<Longrightarrow> lw_idle w \<Longrightarrow>
     via_root_client_ep0 (lw_writer w) \<or> via_valid_stream_association (lw_writer w) \<Longrightarrow>
     lifecycle_step RCP_LIFECYCLE_RCP_CONFIGURED w RCP_LIFECYCLE_HW_CONFIGURED"
| reset_hw:
    "lw_target w = RCP_LIFECYCLE_HW_UNCONFIGURED \<Longrightarrow> lw_idle w \<Longrightarrow>
     via_discovery_stream (lw_writer w) \<or> via_root_client_ep0 (lw_writer w) \<or>
       via_valid_stream_association (lw_writer w) \<Longrightarrow>
     lifecycle_step RCP_LIFECYCLE_HW_CONFIGURED w RCP_LIFECYCLE_HW_UNCONFIGURED"
| reset_rcp:
    "lw_target w = RCP_LIFECYCLE_HW_UNCONFIGURED \<Longrightarrow> lw_idle w \<Longrightarrow> via_root_client_ep0 (lw_writer w) \<Longrightarrow>
     lifecycle_step RCP_LIFECYCLE_RCP_CONFIGURED w RCP_LIFECYCLE_HW_UNCONFIGURED"

inductive_simps lifecycle_step_from_unconfigured: "lifecycle_step RCP_LIFECYCLE_HW_UNCONFIGURED w t"
inductive_simps lifecycle_step_from_hw: "lifecycle_step RCP_LIFECYCLE_HW_CONFIGURED w t"
inductive_simps lifecycle_step_from_rcp: "lifecycle_step RCP_LIFECYCLE_RCP_CONFIGURED w t"

lemmas lifecycle_step_simps =
  lifecycle_step_from_unconfigured lifecycle_step_from_hw lifecycle_step_from_rcp

definition lifecycle_apply ::
    "rcp_lifecycle_state_t \<Rightarrow> lifecycle_write \<Rightarrow> rcp_lifecycle_errc_t \<times> rcp_lifecycle_state_t" where
  "lifecycle_apply s w = rcp_lifecycle_transition s (lw_target w) (lw_snap w) (lw_writer w) (lw_idle w)"

lemma lifecycle_apply_step:
  assumes "lifecycle_step s w t"
  shows "lifecycle_apply s w = (RCP_LIFECYCLE_OK, t) \<and> t = lw_target w \<and> t \<noteq> s"
  using assms
  by cases (auto simp: lifecycle_apply_def rcp_lifecycle_transition_def Let_def
      check_hw_cfg_OK check_rcp_cfg_OK)

lemma lifecycle_apply_moves:
  assumes "snd (lifecycle_apply s w) \<noteq> s"
  shows "lifecycle_step s w (snd (lifecycle_apply s w))"
  using assms
  by (cases s; cases "lw_target w")
    (auto simp: lifecycle_apply_def rcp_lifecycle_transition_def Let_def lifecycle_step_simps
      check_hw_cfg_OK check_rcp_cfg_OK split: if_splits)

lemma lifecycle_apply_error:
  "fst (lifecycle_apply s w) \<noteq> RCP_LIFECYCLE_OK \<Longrightarrow> snd (lifecycle_apply s w) = s"
  by (auto simp: lifecycle_apply_def rcp_lifecycle_transition_def Let_def split: if_splits)

lemma lifecycle_apply_ok:
  "fst (lifecycle_apply s w) = RCP_LIFECYCLE_OK \<Longrightarrow> snd (lifecycle_apply s w) = lw_target w"
  by (auto simp: lifecycle_apply_def rcp_lifecycle_transition_def Let_def split: if_splits)

text \<open>The transition function implements the lifecycle diagram: it moves the server from one state
  to another exactly along a step of the diagram and then reports success; in every other case the
  state is unchanged, and success is reported only for a write of the current state.\<close>

theorem lifecycle_transition_refines_diagram:
  "(lifecycle_step s w t \<longleftrightarrow> s \<noteq> t \<and> lifecycle_apply s w = (RCP_LIFECYCLE_OK, t)) \<and>
   ((\<nexists>t. lifecycle_step s w t) \<longrightarrow> snd (lifecycle_apply s w) = s \<and>
      (fst (lifecycle_apply s w) = RCP_LIFECYCLE_OK \<longleftrightarrow> lw_target w = s))"
proof -
  have "lifecycle_step s w t \<longleftrightarrow> s \<noteq> t \<and> lifecycle_apply s w = (RCP_LIFECYCLE_OK, t)"
    using lifecycle_apply_step [of s w t] lifecycle_apply_moves [of s w] by fastforce
  moreover have "fst (lifecycle_apply s w) = RCP_LIFECYCLE_OK" if "lw_target w = s"
    using that by (simp add: lifecycle_apply_def rcp_lifecycle_transition_def)
  ultimately show ?thesis using lifecycle_apply_moves [of s w] lifecycle_apply_ok [of s w] by metis
qed

section \<open>Runs\<close>

definition lifecycle_run :: "rcp_lifecycle_state_t \<Rightarrow> lifecycle_write list \<Rightarrow> rcp_lifecycle_state_t" where
  "lifecycle_run = foldl (\<lambda>s w. snd (lifecycle_apply s w))"

lemma lifecycle_run_snoc: "lifecycle_run s (ws @ [w]) = snd (lifecycle_apply (lifecycle_run s ws) w)"
  by (simp add: lifecycle_run_def)

lemma run_reaches_rcp:
  assumes "lifecycle_run RCP_LIFECYCLE_HW_UNCONFIGURED ws = RCP_LIFECYCLE_RCP_CONFIGURED"
  obtains ws1 w ws2 where "ws = ws1 @ w # ws2"
    and "lifecycle_run RCP_LIFECYCLE_HW_UNCONFIGURED ws1 = RCP_LIFECYCLE_HW_CONFIGURED"
    and "lifecycle_step RCP_LIFECYCLE_HW_CONFIGURED w RCP_LIFECYCLE_RCP_CONFIGURED"
  using assms
proof (induction ws arbitrary: thesis rule: rev_induct)
  case (snoc w ws)
  let ?s = "lifecycle_run RCP_LIFECYCLE_HW_UNCONFIGURED ws"
  show ?case
  proof (cases "?s = RCP_LIFECYCLE_RCP_CONFIGURED")
    case True
    then obtain ws1 v ws2 where "ws = ws1 @ v # ws2"
      "lifecycle_run RCP_LIFECYCLE_HW_UNCONFIGURED ws1 = RCP_LIFECYCLE_HW_CONFIGURED"
      "lifecycle_step RCP_LIFECYCLE_HW_CONFIGURED v RCP_LIFECYCLE_RCP_CONFIGURED"
      using snoc.IH by blast
    then show ?thesis using snoc.prems(1) [of ws1 v "ws2 @ [w]"] by simp
  next
    case False
    then have "lifecycle_step ?s w RCP_LIFECYCLE_RCP_CONFIGURED"
      using snoc.prems(2) lifecycle_apply_moves [of ?s w] by (simp add: lifecycle_run_snoc)
    then have "?s = RCP_LIFECYCLE_HW_CONFIGURED" by cases simp
    with \<open>lifecycle_step ?s w RCP_LIFECYCLE_RCP_CONFIGURED\<close> show ?thesis
      using snoc.prems(1) [of ws w "[]"] by simp
  qed
qed (simp add: lifecycle_run_def)

lemma run_reaches_hw:
  assumes "lifecycle_run RCP_LIFECYCLE_HW_UNCONFIGURED ws \<noteq> RCP_LIFECYCLE_HW_UNCONFIGURED"
  obtains w s where "w \<in> set ws" and "lw_target w = RCP_LIFECYCLE_HW_CONFIGURED"
    and "lw_snap w = Some s" and "hw_plausible s"
  using assms
proof (induction ws arbitrary: thesis rule: rev_induct)
  case (snoc w ws)
  let ?s = "lifecycle_run RCP_LIFECYCLE_HW_UNCONFIGURED ws"
  show ?case
  proof (cases "?s = RCP_LIFECYCLE_HW_UNCONFIGURED")
    case False
    then obtain v s where "v \<in> set ws" "lw_target v = RCP_LIFECYCLE_HW_CONFIGURED"
      "lw_snap v = Some s" "hw_plausible s"
      using snoc.IH by blast
    then show ?thesis using snoc.prems(1) [of v s] by simp
  next
    case True
    then have "lifecycle_step RCP_LIFECYCLE_HW_UNCONFIGURED w (lifecycle_run RCP_LIFECYCLE_HW_UNCONFIGURED (ws @ [w]))"
      using snoc.prems(2) lifecycle_apply_moves [of ?s w] by (simp add: lifecycle_run_snoc)
    then show ?thesis using snoc.prems(1) [of w] by (auto simp: lifecycle_step_from_unconfigured)
  qed
qed (simp add: lifecycle_run_def)

text \<open>C10: No sequence of lifecycle writes brings an unconfigured server into the fully configured state
  without first a write with plausible hardware evidence and then, in the hardware-configured
  state, an authorised write with plausible configuration evidence.\<close>

theorem lifecycle_no_shortcut:
  assumes "lifecycle_run RCP_LIFECYCLE_HW_UNCONFIGURED ws = RCP_LIFECYCLE_RCP_CONFIGURED"
  shows "\<exists>ws1 w ws2 v s s'. ws = ws1 @ w # ws2 \<and>
    v \<in> set ws1 \<and> lw_target v = RCP_LIFECYCLE_HW_CONFIGURED \<and> lw_snap v = Some s \<and> hw_plausible s \<and>
    lw_target w = RCP_LIFECYCLE_RCP_CONFIGURED \<and> lw_snap w = Some s' \<and> rcp_plausible s' \<and>
    (via_discovery_stream (lw_writer w) \<or> via_root_client_ep0 (lw_writer w) \<or>
     via_valid_stream_association (lw_writer w))"
proof -
  obtain ws1 w ws2 where ws: "ws = ws1 @ w # ws2"
    and hw: "lifecycle_run RCP_LIFECYCLE_HW_UNCONFIGURED ws1 = RCP_LIFECYCLE_HW_CONFIGURED"
    and step: "lifecycle_step RCP_LIFECYCLE_HW_CONFIGURED w RCP_LIFECYCLE_RCP_CONFIGURED"
    using run_reaches_rcp [OF assms] .
  obtain v s where v: "v \<in> set ws1" "lw_target v = RCP_LIFECYCLE_HW_CONFIGURED" "lw_snap v = Some s"
    "hw_plausible s"
    using run_reaches_hw [of ws1] hw by auto
  from step obtain s' where "lw_target w = RCP_LIFECYCLE_RCP_CONFIGURED" "lw_snap w = Some s'"
    "rcp_plausible s'" "via_discovery_stream (lw_writer w) \<or> via_root_client_ep0 (lw_writer w) \<or>
       via_valid_stream_association (lw_writer w)"
    by cases auto
  with ws v show ?thesis by blast
qed

definition sample_snapshot :: rcp_lifecycle_plausibility_snapshot_t where
  "sample_snapshot =
     \<lparr>endpoints = [\<lparr>ep_used = True, hw_pin_mapped = True, has_request_stream = True,
                    has_stream_assoc = True, request_stream_index = 0\<rparr>],
      request_streams = [\<lparr>configured = True, has_response_stream = True, response_stream_index = 0\<rparr>],
      response_stream_count = 1\<rparr>"

definition sample_writes :: "lifecycle_write list" where
  "sample_writes =
     [\<lparr>lw_target = RCP_LIFECYCLE_HW_CONFIGURED, lw_snap = Some sample_snapshot, lw_writer = best_writer,
       lw_idle = False\<rparr>,
      \<lparr>lw_target = RCP_LIFECYCLE_RCP_CONFIGURED, lw_snap = Some sample_snapshot, lw_writer = best_writer,
       lw_idle = False\<rparr>]"

theorem lifecycle_no_shortcut_witness:
  "lifecycle_run RCP_LIFECYCLE_HW_UNCONFIGURED sample_writes = RCP_LIFECYCLE_RCP_CONFIGURED \<and>
   (\<exists>ws1 w ws2 v s s'. sample_writes = ws1 @ w # ws2 \<and>
    v \<in> set ws1 \<and> lw_target v = RCP_LIFECYCLE_HW_CONFIGURED \<and> lw_snap v = Some s \<and> hw_plausible s \<and>
    lw_target w = RCP_LIFECYCLE_RCP_CONFIGURED \<and> lw_snap w = Some s' \<and> rcp_plausible s' \<and>
    (via_discovery_stream (lw_writer w) \<or> via_root_client_ep0 (lw_writer w) \<or>
     via_valid_stream_association (lw_writer w)))"
proof -
  have "lifecycle_run RCP_LIFECYCLE_HW_UNCONFIGURED sample_writes = RCP_LIFECYCLE_RCP_CONFIGURED"
    by code_simp
  from lifecycle_no_shortcut [OF this] this show ?thesis by simp
qed

theorem lifecycle_transition_refines_diagram_witness:
  "snd (lifecycle_apply RCP_LIFECYCLE_HW_UNCONFIGURED (sample_writes ! 1)) = RCP_LIFECYCLE_HW_UNCONFIGURED"
proof -
  have "\<nexists>t. lifecycle_step RCP_LIFECYCLE_HW_UNCONFIGURED (sample_writes ! 1) t"
    by (simp add: lifecycle_step_from_unconfigured sample_writes_def)
  with lifecycle_transition_refines_diagram [of RCP_LIFECYCLE_HW_UNCONFIGURED "sample_writes ! 1"]
  show ?thesis by simp
qed

section \<open>Frame filter and locks\<close>

text \<open>The frame filter: while the server is not fully configured it accepts only ABB messages for
  endpoint zero, and no frame with presentation time; it answers other messages for endpoint zero
  with a rejection; in the unconfigured state everything accepted is NTSCF.  A fully configured
  server drops a frame exactly by the time-synchronisation rule.\<close>

theorem lifecycle_filter:
  "(rcp_lifecycle_should_accept s sync st ty bus pol = RCP_LIFECYCLE_ACCEPT \<longleftrightarrow>
      (case s of
         RCP_LIFECYCLE_HW_UNCONFIGURED \<Rightarrow>
           st = RCP_AVTP_SUBTYPE_NTSCF \<and> bus = 0 \<and> ty = RCP_ACF_MSG_TYPE_ABB
       | RCP_LIFECYCLE_HW_CONFIGURED \<Rightarrow>
           st \<noteq> RCP_AVTP_SUBTYPE_TSCF \<and> bus = 0 \<and> ty = RCP_ACF_MSG_TYPE_ABB
       | RCP_LIFECYCLE_RCP_CONFIGURED \<Rightarrow>
           st \<noteq> RCP_AVTP_SUBTYPE_TSCF \<or> sync \<or> pol = RCP_AVTP_TSCF_FALLBACK_IGNORE)) \<and>
   (rcp_lifecycle_should_accept s sync st ty bus pol = RCP_LIFECYCLE_REJECT \<longleftrightarrow>
      bus = 0 \<and> ty \<noteq> RCP_ACF_MSG_TYPE_ABB \<and>
      (s = RCP_LIFECYCLE_HW_UNCONFIGURED \<and> st = RCP_AVTP_SUBTYPE_NTSCF \<or>
       s = RCP_LIFECYCLE_HW_CONFIGURED \<and> st \<noteq> RCP_AVTP_SUBTYPE_TSCF))"
  by (cases s; cases pol) (auto simp: rcp_lifecycle_should_accept_def rcp_avtp_should_drop_tscf_def consts_rcp)

theorem lifecycle_filter_witness:
  "rcp_lifecycle_should_accept RCP_LIFECYCLE_RCP_CONFIGURED True RCP_AVTP_SUBTYPE_TSCF
     RCP_ACF_MSG_TYPE_GBB 5 RCP_AVTP_TSCF_FALLBACK_DROP = RCP_LIFECYCLE_ACCEPT \<and>
   rcp_lifecycle_should_accept RCP_LIFECYCLE_HW_CONFIGURED True RCP_AVTP_SUBTYPE_TSCF
     RCP_ACF_MSG_TYPE_ABB 0 RCP_AVTP_TSCF_FALLBACK_DROP \<noteq> RCP_LIFECYCLE_ACCEPT"
  using lifecycle_filter [of RCP_LIFECYCLE_RCP_CONFIGURED True RCP_AVTP_SUBTYPE_TSCF
      RCP_ACF_MSG_TYPE_GBB 5 RCP_AVTP_TSCF_FALLBACK_DROP]
    lifecycle_filter [of RCP_LIFECYCLE_HW_CONFIGURED True RCP_AVTP_SUBTYPE_TSCF
      RCP_ACF_MSG_TYPE_ABB 0 RCP_AVTP_TSCF_FALLBACK_DROP] by simp

lemma best_writer_best:
  "rcp_lifecycle_field_writable s k w \<Longrightarrow> rcp_lifecycle_field_writable s k best_writer"
  by (cases k) (auto simp: rcp_lifecycle_field_writable_def best_writer_def Let_def)

text \<open>A refused field write is reported as locked exactly when no writer at all could perform it
  in the current state, and as unauthorised exactly when another writer could; it is reported
  without error exactly when it is allowed.  An explicit lock of a lockable field always counts as
  locked.\<close>

theorem field_write_error_exact:
  "(rcp_lifecycle_field_write_error s k w = RCP_ERROR_NONE \<longleftrightarrow> rcp_lifecycle_field_writable s k w) \<and>
   (rcp_lifecycle_field_write_error s k w = RCP_ERROR_LOCKED_MEM_ACCESS \<longleftrightarrow>
      (\<forall>w'. \<not> rcp_lifecycle_field_writable s k w')) \<and>
   (rcp_lifecycle_field_write_error s k w = RCP_ERROR_UNAUTHORIZED_ACCESS \<longleftrightarrow>
      \<not> rcp_lifecycle_field_writable s k w \<and> (\<exists>w'. rcp_lifecycle_field_writable s k w')) \<and>
   rcp_lifecycle_field_write_error_w_plus s w l =
     (if l then RCP_ERROR_LOCKED_MEM_ACCESS
      else rcp_lifecycle_field_write_error s RCP_LIFECYCLE_FIELD_FUNCTIONAL_W_STAR w)"
  using best_writer_best [of s k]
  by (auto simp: rcp_lifecycle_field_write_error_def rcp_lifecycle_field_write_error_w_plus_def
      rcp_lifecycle_field_writable_w_plus_def)

text \<open>Hardware fields can be written only before the hardware configuration is concluded and only
  over the discovery stream in a unicast frame, and such a write by anybody else is unauthorised
  rather than locked; starred fields cannot be written once the server is fully configured; read-only
  fields never; and no field at all is writable in a frame that is not unicast.\<close>

theorem field_locks:
  "(rcp_lifecycle_field_writable s RCP_LIFECYCLE_FIELD_HW_GENERIC w \<longleftrightarrow>
      s = RCP_LIFECYCLE_HW_UNCONFIGURED \<and> via_discovery_stream w \<and> \<not> via_non_unicast_frame w) \<and>
   (\<not> via_discovery_stream w \<longrightarrow>
      rcp_lifecycle_field_write_error RCP_LIFECYCLE_HW_UNCONFIGURED RCP_LIFECYCLE_FIELD_HW_GENERIC w =
        RCP_ERROR_UNAUTHORIZED_ACCESS) \<and>
   \<not> rcp_lifecycle_field_writable RCP_LIFECYCLE_RCP_CONFIGURED RCP_LIFECYCLE_FIELD_FUNCTIONAL_W_STAR w \<and>
   \<not> rcp_lifecycle_field_writable s RCP_LIFECYCLE_FIELD_READ_ONLY w \<and>
   (via_non_unicast_frame w \<longrightarrow> \<not> rcp_lifecycle_field_writable s k w)"
  by (auto simp: rcp_lifecycle_field_writable_def rcp_lifecycle_field_write_error_def best_writer_def Let_def)

theorem field_locks_witness:
  "rcp_lifecycle_field_write_error RCP_LIFECYCLE_HW_UNCONFIGURED RCP_LIFECYCLE_FIELD_HW_GENERIC
     (best_writer\<lparr>via_discovery_stream := False\<rparr>) = RCP_ERROR_UNAUTHORIZED_ACCESS"
  using field_locks [of _ "best_writer\<lparr>via_discovery_stream := False\<rparr>"] by simp

end
