(* ===== verification/Fragment.thy ===== *)
theory Fragment
  imports Lifecycle
begin

text \<open>
  \<^verbatim>\<open>src/fragment.c\<close>: splitting of a payload into segments and reassembly.

  The reassembler's buffer is the list of its first \<^verbatim>\<open>len\<close> octets beside the capacity
  \<^verbatim>\<open>cap\<close>; \<open>mem\<close> says whether the reallocation succeeds.  The plan is returned as the
  list of the \<open>segment_count\<close> filled segments.
\<close>

section \<open>Data\<close>

datatype rcp_fragment_errc_t =
    RCP_FRAGMENT_OK | RCP_FRAGMENT_ERR_DISABLED | RCP_FRAGMENT_ERR_TOO_MANY_SEGMENTS
  | RCP_FRAGMENT_ERR_BAD_SEGMENT_COUNT

definition RCP_FRAGMENT_MAX_INTERMEDIATE_SEGMENTS :: nat where
  [consts_rcp]: "RCP_FRAGMENT_MAX_INTERMEDIATE_SEGMENTS = 4096"

record rcp_fragment_segment_t =
  seg_offset :: nat
  seg_len :: nat
  seg_ms :: bool
  seg_segment_num :: u16

datatype rcp_fragment_reasm_result_t =
    RCP_FRAGMENT_REASM_CONTINUE | RCP_FRAGMENT_REASM_COMPLETE | RCP_FRAGMENT_REASM_ERR_OUT_OF_ORDER
  | RCP_FRAGMENT_REASM_ERR_TOO_LARGE | RCP_FRAGMENT_REASM_ERR_ALLOC

record rcp_fragment_reassembler_t =
  collecting :: bool
  expected_segment_num :: u16
  reasm_buf :: bytes
  reasm_cap :: nat
  max_total_len :: nat

section \<open>Planning\<close>

definition rcp_fragment_plan_count :: "nat \<Rightarrow> nat \<Rightarrow> nat" where
  "rcp_fragment_plan_count payload_len max_fragment_payload =
     (if payload_len = 0 then 1
      else if max_fragment_payload = 0 then 0
      else if payload_len \<le> max_fragment_payload then 1
      else
        let count = size_sub (size_add payload_len max_fragment_payload) 1 div max_fragment_payload;
            intermediate = size_sub count 1
        in if intermediate > RCP_FRAGMENT_MAX_INTERMEDIATE_SEGMENTS then 0 else count)"

text \<open>The loop over the intermediate segments, \<open>n\<close> of them left, and the last segment.\<close>

fun plan_segments :: "nat \<Rightarrow> nat \<Rightarrow> nat \<Rightarrow> nat \<Rightarrow> nat \<Rightarrow> rcp_fragment_segment_t list" where
  "plan_segments payload_len m off i 0 =
     [\<lparr>seg_offset = off, seg_len = size_sub payload_len off, seg_ms = False, seg_segment_num = 0\<rparr>]"
| "plan_segments payload_len m off i (Suc n) =
     \<lparr>seg_offset = off, seg_len = m, seg_ms = True, seg_segment_num = of_nat i\<rparr> #
     plan_segments payload_len m (size_add off m) (i + 1) n"

definition rcp_fragment_plan ::
    "nat \<Rightarrow> nat \<Rightarrow> nat \<Rightarrow> rcp_fragment_errc_t + rcp_fragment_segment_t list" where
  "rcp_fragment_plan payload_len max_fragment_payload segment_count =
     (let expected = rcp_fragment_plan_count payload_len max_fragment_payload in
      if expected = 0 then
        Inl (if max_fragment_payload = 0 then RCP_FRAGMENT_ERR_DISABLED
             else RCP_FRAGMENT_ERR_TOO_MANY_SEGMENTS)
      else if segment_count \<noteq> expected then Inl RCP_FRAGMENT_ERR_BAD_SEGMENT_COUNT
      else if expected = 1 then
        Inr [\<lparr>seg_offset = 0, seg_len = payload_len, seg_ms = False, seg_segment_num = 0\<rparr>]
      else Inr (plan_segments payload_len max_fragment_payload 0 0 (expected - 1)))"

section \<open>Reassembly\<close>

definition rcp_fragment_reassembler_init :: "nat \<Rightarrow> rcp_fragment_reassembler_t" where
  "rcp_fragment_reassembler_init max_total =
     \<lparr>collecting = False, expected_segment_num = 0, reasm_buf = [], reasm_cap = 0,
      max_total_len = max_total\<rparr>"

definition rcp_fragment_reassembler_reset ::
    "rcp_fragment_reassembler_t \<Rightarrow> rcp_fragment_reassembler_t" where
  "rcp_fragment_reassembler_reset r = rcp_fragment_reassembler_init (max_total_len r)"

definition rcp_fragment_reassembler_destroy ::
    "rcp_fragment_reassembler_t \<Rightarrow> rcp_fragment_reassembler_t" where
  "rcp_fragment_reassembler_destroy r =
     \<lparr>collecting = False, expected_segment_num = 0, reasm_buf = [], reasm_cap = 0, max_total_len = 0\<rparr>"

definition reasm_append ::
    "bool \<Rightarrow> rcp_fragment_reassembler_t \<Rightarrow> bytes \<Rightarrow> bool \<times> rcp_fragment_reassembler_t" where
  "reasm_append mem r payload =
     (let len = length (reasm_buf r); append_len = length payload in
      if append_len = 0 then (True, r)
      else if size_add len append_len > reasm_cap r then
        (if \<not> mem then (False, r)
         else
           let new_cap = (if reasm_cap r = 0 then append_len else (reasm_cap r * 2) mod 2 ^ 64);
               new_cap = (if new_cap < size_add len append_len then size_add len append_len
                          else new_cap)
           in (True, r\<lparr>reasm_buf := reasm_buf r @ payload, reasm_cap := new_cap\<rparr>))
      else (True, r\<lparr>reasm_buf := reasm_buf r @ payload\<rparr>))"

definition rcp_fragment_reassembler_feed ::
    "bool \<Rightarrow> rcp_fragment_reassembler_t \<Rightarrow> bool \<Rightarrow> u16 \<Rightarrow> bytes \<Rightarrow>
     rcp_fragment_reasm_result_t \<times> rcp_fragment_reassembler_t" where
  "rcp_fragment_reassembler_feed mem r ms segment_num payload =
     (let too_large = length payload > size_sub (max_total_len r) (length (reasm_buf r)) in
      if \<not> collecting r then
        (if too_large then (RCP_FRAGMENT_REASM_ERR_TOO_LARGE, r)
         else if \<not> ms then
           (case reasm_append mem r payload of
              (False, r) \<Rightarrow> (RCP_FRAGMENT_REASM_ERR_ALLOC, r)
            | (True, r) \<Rightarrow> (RCP_FRAGMENT_REASM_COMPLETE, r))
         else if segment_num \<noteq> 0 then (RCP_FRAGMENT_REASM_ERR_OUT_OF_ORDER, r)
         else
           (case reasm_append mem r payload of
              (False, r) \<Rightarrow> (RCP_FRAGMENT_REASM_ERR_ALLOC, r)
            | (True, r) \<Rightarrow>
                (RCP_FRAGMENT_REASM_CONTINUE, r\<lparr>collecting := True, expected_segment_num := 1\<rparr>)))
      else if ms \<and> segment_num \<noteq> expected_segment_num r then
        (RCP_FRAGMENT_REASM_ERR_OUT_OF_ORDER, r)
      else if too_large then (RCP_FRAGMENT_REASM_ERR_TOO_LARGE, r)
      else
        (case reasm_append mem r payload of
           (False, r) \<Rightarrow> (RCP_FRAGMENT_REASM_ERR_ALLOC, r)
         | (True, r) \<Rightarrow>
             if ms then
               (RCP_FRAGMENT_REASM_CONTINUE, r\<lparr>expected_segment_num := expected_segment_num r + 1\<rparr>)
             else (RCP_FRAGMENT_REASM_COMPLETE, r\<lparr>collecting := False\<rparr>)))"

definition rcp_fragment_reassembler_is_collecting :: "rcp_fragment_reassembler_t \<Rightarrow> bool" where
  "rcp_fragment_reassembler_is_collecting r = collecting r"

definition rcp_fragment_reassembler_get :: "rcp_fragment_reassembler_t \<Rightarrow> bytes" where
  "rcp_fragment_reassembler_get r = reasm_buf r"

section \<open>The plan\<close>

lemma size_exacts:
  "L \<le> 2 ^ 63 \<Longrightarrow> m < L \<Longrightarrow> 0 < m \<Longrightarrow> size_sub (size_add L m) 1 = L + m - 1"
proof -
  assume a: "L \<le> 2 ^ 63" "m < L" "0 < m"
  have "size_sub (size_add L m) 1 = L + m - 1" if "L + m \<le> SIZE_MAX"
    using that a by (simp add: size_add_exact size_sub_exact)
  moreover have "L + m \<le> SIZE_MAX" using a by (simp add: SIZE_MAX_def)
  ultimately show ?thesis by simp
qed

lemma plan_count_cases:
  assumes "L \<le> 2 ^ 63" and "rcp_fragment_plan_count L m = n" and "n \<noteq> 0"
  shows "n = 1 \<and> (L = 0 \<or> L \<le> m) \<or>
    0 < m \<and> 2 \<le> n \<and> n \<le> 4097 \<and> (n - 1) * m < L \<and> L \<le> n * m"
proof (cases "L = 0 \<or> L \<le> m")
  case False
  with assms(2,3) have m: "0 < m" "m < L"
    by (auto simp: rcp_fragment_plan_count_def split: if_splits)
  let ?c = "(L + m - 1) div m"
  have c2: "2 \<le> ?c" using m by (simp add: less_eq_div_iff_mult_less_eq)
  have le: "L + m - 1 < 2 ^ 64" using assms(1) m by simp
  then have "?c \<le> SIZE_MAX" using m div_le_dividend [of "L + m - 1" m] unfolding SIZE_MAX_def by linarith
  then have sub: "size_sub ?c 1 = ?c - 1" using c2 by (simp add: size_sub_exact)
  have n: "n = ?c" "n - 1 \<le> 4096"
    using assms(2,3) False m sub size_exacts [OF assms(1) m(2,1)]
    by (auto simp: rcp_fragment_plan_count_def Let_def consts_rcp split: if_splits)
  obtain k where k: "?c = Suc k" using c2 by (cases ?c) auto
  have "Suc k * m \<le> L + m - 1" unfolding k [symmetric] by (rule div_times_less_eq_dividend)
  then have "(?c - 1) * m < L" using m k by simp
  moreover have "L \<le> ?c * m"
    using dividend_less_div_times [OF m(1), of "L + m - 1"] by simp
  ultimately show ?thesis using n c2 m by simp
qed (use assms in \<open>auto simp: rcp_fragment_plan_count_def split: if_splits\<close>)

abbreviation seg_slice :: "bytes \<Rightarrow> rcp_fragment_segment_t \<Rightarrow> bytes" where
  "seg_slice p s \<equiv> take (seg_len s) (drop (seg_offset s) p)"

lemma plan_step_exact:
  assumes "off + Suc n * m \<le> L" and "L \<le> SIZE_MAX"
  shows "size_add off m = off + m" and "off + m + n * m \<le> L"
proof -
  show "off + m + n * m \<le> L" using assms(1) by simp
  then show "size_add off m = off + m" using assms(2) by (intro size_add_exact) linarith
qed

lemma plan_segments_slices:
  "off + n * m \<le> length p \<Longrightarrow> length p \<le> SIZE_MAX \<Longrightarrow>
   concat (map (seg_slice p) (plan_segments (length p) m off i n)) = drop off p"
proof (induction n arbitrary: off i)
  case 0
  then show ?case by (simp add: size_sub_exact)
next
  case (Suc n)
  note e = plan_step_exact [OF Suc.prems]
  have "take m (drop off p) @ drop (off + m) p = drop off p"
    using append_take_drop_id [of m "drop off p"] by (simp only: drop_drop add.commute [of off])
  with Suc.IH [OF e(2) Suc.prems(2)] show ?case by (simp add: e(1))
qed

lemma plan_segments_lens:
  "off + n * m \<le> L \<Longrightarrow> L \<le> off + Suc n * m \<Longrightarrow> L \<le> SIZE_MAX \<Longrightarrow>
   s \<in> set (plan_segments L m off i n) \<Longrightarrow> seg_len s \<le> m \<and> seg_offset s + seg_len s \<le> L"
proof (induction n arbitrary: off i)
  case 0
  then show ?case by (auto simp: size_sub_exact)
next
  case (Suc n)
  note e = plan_step_exact [OF Suc.prems(1,3)]
  have "L \<le> off + m + Suc n * m" using Suc.prems(2) by simp
  from Suc.IH [OF e(2) this Suc.prems(3)] Suc.prems show ?case by (auto simp: e(1))
qed

lemma plan_segments_ms: "map seg_ms (plan_segments L m off i n) = replicate n True @ [False]"
  by (induction n arbitrary: off i) simp_all

lemma plan_segments_nums:
  "map seg_segment_num (plan_segments L m off i n) = map of_nat [i..<i + n] @ [0]"
proof (induction n arbitrary: off i)
  case (Suc n)
  have "[i..<i + Suc n] = i # [Suc i..<Suc i + n]" by (simp add: upt_conv_Cons)
  with Suc show ?case by simp
qed simp

lemma plan_OK_cases:
  assumes "L \<le> 2 ^ 63" and "rcp_fragment_plan L m n = Inr segs"
  obtains (single) "segs = [\<lparr>seg_offset = 0, seg_len = L, seg_ms = False, seg_segment_num = 0\<rparr>]"
      "n = 1" "L = 0 \<or> L \<le> m"
  | (split) k where "n = Suc k" "0 < m" "1 \<le> k" "k \<le> 4096" "k * m < L" "L \<le> Suc k * m"
      "segs = plan_segments L m 0 0 k"
proof -
  from assms(2) have c: "rcp_fragment_plan_count L m = n" "n \<noteq> 0"
    and segs: "segs = (if n = 1 then [\<lparr>seg_offset = 0, seg_len = L, seg_ms = False, seg_segment_num = 0\<rparr>]
      else plan_segments L m 0 0 (n - 1))"
    by (auto simp: rcp_fragment_plan_def Let_def split: if_splits)
  from plan_count_cases [OF assms(1) c] show thesis
  proof
    assume "n = 1 \<and> (L = 0 \<or> L \<le> m)"
    with segs show thesis by (intro single) auto
  next
    assume a: "0 < m \<and> 2 \<le> n \<and> n \<le> 4097 \<and> (n - 1) * m < L \<and> L \<le> n * m"
    then have "n = Suc (n - 1)" by simp
    with a segs show thesis by (intro split [of "n - 1"]) auto
  qed
qed

section \<open>The reassembler\<close>

definition reasm_ok :: "rcp_fragment_reassembler_t \<Rightarrow> bool" where
  "reasm_ok r \<longleftrightarrow> length (reasm_buf r) \<le> max_total_len r \<and> length (reasm_buf r) \<le> reasm_cap r \<and>
     max_total_len r \<le> SIZE_MAX"

lemma reasm_append_result:
  assumes "reasm_ok r" and "length (reasm_buf r) + length p \<le> max_total_len r"
  shows "\<exists>c. reasm_append mem r p =
      (if mem \<or> p = [] \<or> length (reasm_buf r) + length p \<le> reasm_cap r
       then (True, r\<lparr>reasm_buf := reasm_buf r @ p, reasm_cap := c\<rparr>) else (False, r)) \<and>
    reasm_ok (r\<lparr>reasm_buf := reasm_buf r @ p, reasm_cap := c\<rparr>)"
proof -
  have add: "size_add (length (reasm_buf r)) (length p) = length (reasm_buf r) + length p"
    using assms by (intro size_add_exact) (auto simp: reasm_ok_def)
  define c where "c = (if p = [] \<or> length (reasm_buf r) + length p \<le> reasm_cap r then reasm_cap r
    else max (if reasm_cap r = 0 then length p else (reasm_cap r * 2) mod 2 ^ 64)
          (length (reasm_buf r) + length p))"
  have "reasm_append mem r p =
      (if mem \<or> p = [] \<or> length (reasm_buf r) + length p \<le> reasm_cap r
       then (True, r\<lparr>reasm_buf := reasm_buf r @ p, reasm_cap := c\<rparr>) else (False, r))"
    unfolding reasm_append_def Let_def add c_def by (cases r) (auto simp: max_def)
  moreover have "reasm_ok (r\<lparr>reasm_buf := reasm_buf r @ p, reasm_cap := c\<rparr>)"
    using assms by (auto simp: reasm_ok_def c_def)
  ultimately show ?thesis by blast
qed

lemma too_large_iff:
  "reasm_ok r \<Longrightarrow> (size_sub (max_total_len r) (length (reasm_buf r)) < n) =
     (max_total_len r < length (reasm_buf r) + n)"
  by (auto simp: reasm_ok_def size_sub_exact)

abbreviation reasm_accepts :: "rcp_fragment_reasm_result_t \<Rightarrow> bool" where
  "reasm_accepts x \<equiv> x = RCP_FRAGMENT_REASM_CONTINUE \<or> x = RCP_FRAGMENT_REASM_COMPLETE"

lemma feed_effect:
  assumes "reasm_ok r" and "rcp_fragment_reassembler_feed mem r ms num p = (x, r')"
  shows "reasm_ok r'" and "\<not> reasm_accepts x \<Longrightarrow> r' = r"
    and "reasm_accepts x \<Longrightarrow> reasm_buf r' = reasm_buf r @ p"
    and "max_total_len r' = max_total_len r"
proof -
  have app: "\<exists>c. reasm_append mem r p =
      (if mem \<or> p = [] \<or> length (reasm_buf r) + length p \<le> reasm_cap r
       then (True, r\<lparr>reasm_buf := reasm_buf r @ p, reasm_cap := c\<rparr>) else (False, r)) \<and>
    reasm_ok (r\<lparr>reasm_buf := reasm_buf r @ p, reasm_cap := c\<rparr>)"
    if "\<not> max_total_len r < length (reasm_buf r) + length p"
    using reasm_append_result [OF assms(1)] that by simp
  have "reasm_ok r' \<and> (\<not> reasm_accepts x \<longrightarrow> r' = r) \<and>
      (reasm_accepts x \<longrightarrow> reasm_buf r' = reasm_buf r @ p) \<and> max_total_len r' = max_total_len r"
  proof (cases "max_total_len r < length (reasm_buf r) + length p")
    case True
    then show ?thesis using assms
      by (auto simp: rcp_fragment_reassembler_feed_def Let_def too_large_iff split: if_splits)
  next
    case False
    from app [OF this] obtain c where c: "reasm_append mem r p =
      (if mem \<or> p = [] \<or> length (reasm_buf r) + length p \<le> reasm_cap r
       then (True, r\<lparr>reasm_buf := reasm_buf r @ p, reasm_cap := c\<rparr>) else (False, r))"
      "reasm_ok (r\<lparr>reasm_buf := reasm_buf r @ p, reasm_cap := c\<rparr>)" by blast
    then show ?thesis using assms False
      unfolding rcp_fragment_reassembler_feed_def Let_def too_large_iff [OF assms(1)] c(1)
      by (auto simp: reasm_ok_def split: if_splits)
  qed
  then show "reasm_ok r'" and "\<not> reasm_accepts x \<Longrightarrow> r' = r"
    and "reasm_accepts x \<Longrightarrow> reasm_buf r' = reasm_buf r @ p" and "max_total_len r' = max_total_len r"
    by auto
qed

lemma feed_result:
  assumes "reasm_ok r" and "length (reasm_buf r) + length p \<le> max_total_len r"
  shows "\<exists>c. rcp_fragment_reassembler_feed True r ms num p =
    (if ms \<and> num \<noteq> (if collecting r then expected_segment_num r else 0)
     then (RCP_FRAGMENT_REASM_ERR_OUT_OF_ORDER, r)
     else if ms then
       (RCP_FRAGMENT_REASM_CONTINUE,
        r\<lparr>reasm_buf := reasm_buf r @ p, reasm_cap := c, collecting := True,
          expected_segment_num := if collecting r then expected_segment_num r + 1 else 1\<rparr>)
     else
       (RCP_FRAGMENT_REASM_COMPLETE,
        r\<lparr>reasm_buf := reasm_buf r @ p, reasm_cap := c, collecting := False\<rparr>)) \<and>
    reasm_ok (r\<lparr>reasm_buf := reasm_buf r @ p, reasm_cap := c\<rparr>)"
proof -
  from reasm_append_result [OF assms, of True] obtain c where
    c: "reasm_append True r p = (True, r\<lparr>reasm_buf := reasm_buf r @ p, reasm_cap := c\<rparr>)"
    and ok: "reasm_ok (r\<lparr>reasm_buf := reasm_buf r @ p, reasm_cap := c\<rparr>)" by auto
  have "\<not> max_total_len r < length (reasm_buf r) + length p" using assms(2) by simp
  with c ok show ?thesis
    unfolding rcp_fragment_reassembler_feed_def Let_def too_large_iff [OF assms(1)]
    by (intro exI [of _ c]) (cases r, auto)
qed

text \<open>Feeding planned segments of a payload one after the other, with the results.\<close>

fun feed_segments :: "rcp_fragment_reassembler_t \<Rightarrow> bytes \<Rightarrow> rcp_fragment_segment_t list \<Rightarrow>
    rcp_fragment_reasm_result_t list \<times> rcp_fragment_reassembler_t" where
  "feed_segments r p [] = ([], r)"
| "feed_segments r p (s # ss) =
     (let (x, r') = rcp_fragment_reassembler_feed True r (seg_ms s) (seg_segment_num s) (seg_slice p s);
          (xs, r'') = feed_segments r' p ss
      in (x # xs, r''))"

lemma feed_planned:
  assumes "reasm_ok r" and "reasm_buf r = take off p" and "length p \<le> max_total_len r"
    and "off + n * m \<le> length p" and "(if collecting r then expected_segment_num r else 0) = of_nat i"
    and "\<not> collecting r \<Longrightarrow> i = 0"
  shows "\<exists>r'. feed_segments r p (plan_segments (length p) m off i n) =
      (replicate n RCP_FRAGMENT_REASM_CONTINUE @ [RCP_FRAGMENT_REASM_COMPLETE], r') \<and>
    reasm_buf r' = p \<and> \<not> collecting r'"
  using assms
proof (induction n arbitrary: r off i)
  case 0
  have sz: "length p \<le> SIZE_MAX" using 0 by (simp add: reasm_ok_def)
  have "length (reasm_buf r) + length (drop off p) \<le> max_total_len r" using 0 by simp
  from feed_result [OF 0(1) this, of False 0] 0 sz show ?case by (auto simp: size_sub_exact)
next
  case (Suc n)
  have sz: "length p \<le> SIZE_MAX" using Suc.prems by (simp add: reasm_ok_def)
  note e = plan_step_exact [OF Suc.prems(4) sz]
  let ?q = "take m (drop off p)"
  have tk: "take off p @ ?q = take (off + m) p" by (simp add: take_add)
  have "length (reasm_buf r) + length ?q \<le> max_total_len r"
    using Suc.prems e by simp
  from feed_result [OF Suc.prems(1) this, of True "of_nat i"] Suc.prems(5)
  obtain c where f: "rcp_fragment_reassembler_feed True r True (of_nat i) ?q =
      (RCP_FRAGMENT_REASM_CONTINUE,
        r\<lparr>reasm_buf := reasm_buf r @ ?q, reasm_cap := c, collecting := True,
          expected_segment_num := if collecting r then expected_segment_num r + 1 else 1\<rparr>)"
    and ok: "reasm_ok (r\<lparr>reasm_buf := reasm_buf r @ ?q, reasm_cap := c\<rparr>)" by auto
  let ?r = "r\<lparr>reasm_buf := reasm_buf r @ ?q, reasm_cap := c, collecting := True,
          expected_segment_num := if collecting r then expected_segment_num r + 1 else 1\<rparr>"
  have "\<exists>r'. feed_segments ?r p (plan_segments (length p) m (off + m) (i + 1) n) =
      (replicate n RCP_FRAGMENT_REASM_CONTINUE @ [RCP_FRAGMENT_REASM_COMPLETE], r') \<and>
    reasm_buf r' = p \<and> \<not> collecting r'"
  proof (rule Suc.IH)
    show "reasm_ok ?r" using ok by (simp add: reasm_ok_def)
    show "(if collecting ?r then expected_segment_num ?r else 0) = of_nat (i + 1)"
      using Suc.prems(5,6) by (auto split: if_splits)
  qed (use Suc.prems e tk in \<open>simp_all\<close>)
  then show ?case by (auto simp: f e(1))
qed

lemma feed_single:
  assumes "length p \<le> mt" and "mt \<le> SIZE_MAX"
  shows "\<exists>r. feed_segments (rcp_fragment_reassembler_init mt) p
      [\<lparr>seg_offset = 0, seg_len = length p, seg_ms = False, seg_segment_num = 0\<rparr>] =
      ([RCP_FRAGMENT_REASM_COMPLETE], r) \<and> reasm_buf r = p \<and> \<not> collecting r"
  using feed_result [of "rcp_fragment_reassembler_init mt" p False 0] assms
  by (auto simp: rcp_fragment_reassembler_init_def reasm_ok_def)

section \<open>Properties\<close>

text \<open>A successful plan cuts the payload into consecutive slices that make it up exactly, each no
  longer than the fragment limit unless the payload is sent whole; all but the last carry the
  more-segments mark and the numbers 0, 1, 2, \<dots>, which fit the 12-bit wire field.\<close>

theorem fragment_plan_covers:
  assumes "length p \<le> 2 ^ 63" and "rcp_fragment_plan (length p) m n = Inr segs"
  shows "concat (map (seg_slice p) segs) = p \<and> length segs = n \<and>
    (\<forall>s\<in>set segs. seg_len s \<le> m \<and> seg_offset s + seg_len s \<le> length p) \<and>
    map seg_ms segs = replicate (n - 1) True @ [False] \<and>
    map (unat \<circ> seg_segment_num) segs = [0..<n - 1] @ [0] \<and>
    (\<forall>s\<in>set segs. unat (seg_segment_num s) < 2 ^ 12)"
  using assms
proof (cases rule: plan_OK_cases)
  case single
  then show ?thesis by auto
next
  case (split k)
  have sz: "length p \<le> SIZE_MAX" using assms(1) by (simp add: SIZE_MAX_def)
  have "map (unat \<circ> seg_segment_num) segs = map unat (map seg_segment_num segs)" by simp
  also have "\<dots> = [0..<k] @ [0]"
    using split by (auto simp: plan_segments_nums unat_of_nat intro!: map_idI)
  finally have nums: "map (unat \<circ> seg_segment_num) segs = [0..<k] @ [0]" .
  then have img: "(unat \<circ> seg_segment_num) ` set segs = set ([0..<k] @ [0])"
    by (metis set_map)
  have "unat (seg_segment_num s) < 2 ^ 12" if "s \<in> set segs" for s
    using imageI [OF that, of "unat \<circ> seg_segment_num"] split(4) unfolding img by auto
  moreover have ms: "map seg_ms segs = replicate k True @ [False]"
    by (simp add: split plan_segments_ms)
  moreover have "length segs = Suc k" using arg_cong [OF ms, of length] by simp
  moreover have "concat (map (seg_slice p) segs) = p"
    using plan_segments_slices [of 0 k m p 0] split sz by simp
  moreover have "seg_len s \<le> m \<and> seg_offset s + seg_len s \<le> length p" if "s \<in> set segs" for s
    using plan_segments_lens [of 0 k m "length p" s 0] split sz that by simp
  ultimately show ?thesis using split(1) nums by simp
qed

lemma sample_plan:
  "rcp_fragment_plan (length [1, 2, 3, 4, 5 :: byte]) 2 3 = Inr (plan_segments 5 2 0 0 2)"
proof -
  have l: "length [1, 2, 3, 4, 5 :: byte] = 5" by simp
  have "rcp_fragment_plan_count 5 2 = 3"
    by (simp add: rcp_fragment_plan_count_def size_add_def size_sub_def consts_rcp)
  then show ?thesis unfolding l rcp_fragment_plan_def by simp
qed

theorem fragment_plan_covers_witness:
  "rcp_fragment_plan (length [1, 2, 3, 4, 5 :: byte]) 2 3 \<noteq> Inl RCP_FRAGMENT_ERR_DISABLED \<and>
   (\<exists>segs. rcp_fragment_plan (length [1, 2, 3, 4, 5 :: byte]) 2 3 = Inr segs \<and>
     concat (map (seg_slice [1, 2, 3, 4, 5]) segs) = [1, 2, 3, 4, 5] \<and> length segs = 3)"
proof -
  note s = sample_plan
  with fragment_plan_covers [OF _ s] show ?thesis by auto
qed

text \<open>Feeding the planned fragments of a payload, in order and with memory available, to a new
  reassembler whose limit admits the payload accepts every fragment, reports completion at the last
  one only and yields the payload.\<close>

theorem fragment_reassembly_roundtrip:
  assumes "length p \<le> 2 ^ 63" and "rcp_fragment_plan (length p) m n = Inr segs"
    and "length p \<le> mt" and "mt \<le> SIZE_MAX"
  shows "\<exists>r. feed_segments (rcp_fragment_reassembler_init mt) p segs =
      (replicate (n - 1) RCP_FRAGMENT_REASM_CONTINUE @ [RCP_FRAGMENT_REASM_COMPLETE], r) \<and>
    rcp_fragment_reassembler_get r = p \<and> \<not> rcp_fragment_reassembler_is_collecting r"
  using assms(1,2)
proof (cases rule: plan_OK_cases)
  case single
  then show ?thesis using feed_single [OF assms(3,4)]
    by (simp add: rcp_fragment_reassembler_get_def rcp_fragment_reassembler_is_collecting_def)
next
  case (split k)
  have "reasm_ok (rcp_fragment_reassembler_init mt)"
    using assms(4) by (simp add: reasm_ok_def rcp_fragment_reassembler_init_def)
  from feed_planned [OF this, of 0 p k m 0] split assms(3) show ?thesis
    by (simp add: rcp_fragment_reassembler_init_def rcp_fragment_reassembler_get_def
        rcp_fragment_reassembler_is_collecting_def)
qed

theorem fragment_reassembly_roundtrip_witness:
  "\<exists>segs r. rcp_fragment_plan (length [1, 2, 3, 4, 5 :: byte]) 2 3 = Inr segs \<and>
     feed_segments (rcp_fragment_reassembler_init 9) [1, 2, 3, 4, 5] segs =
      (replicate 2 RCP_FRAGMENT_REASM_CONTINUE @ [RCP_FRAGMENT_REASM_COMPLETE], r) \<and>
     rcp_fragment_reassembler_get r = [1, 2, 3, 4, 5]"
proof -
  note s = sample_plan
  from fragment_reassembly_roundtrip [OF _ s, of 9] obtain r where
    "feed_segments (rcp_fragment_reassembler_init 9) [1, 2, 3, 4, 5] (plan_segments 5 2 0 0 2) =
      (replicate (3 - 1) RCP_FRAGMENT_REASM_CONTINUE @ [RCP_FRAGMENT_REASM_COMPLETE], r)"
    "rcp_fragment_reassembler_get r = [1, 2, 3, 4, 5]"
    unfolding SIZE_MAX_def by auto
  with s show ?thesis by auto
qed

text \<open>An arbitrary sequence of feeds: memory outcome, mark, number and payload of each; the payloads
  of the accepted ones and the state at the end.\<close>

fun feed_run :: "rcp_fragment_reassembler_t \<Rightarrow> (bool \<times> bool \<times> u16 \<times> bytes) list \<Rightarrow>
    bytes list \<times> rcp_fragment_reassembler_t" where
  "feed_run r [] = ([], r)"
| "feed_run r ((mem, ms, num, p) # evs) =
     (let (x, r') = rcp_fragment_reassembler_feed mem r ms num p;
          (acc, r'') = feed_run r' evs
      in (if reasm_accepts x then p # acc else acc, r''))"

lemma feed_run_sound:
  "reasm_ok r \<Longrightarrow> feed_run r evs = (acc, r') \<Longrightarrow>
   reasm_ok r' \<and> reasm_buf r' = reasm_buf r @ concat acc \<and> max_total_len r' = max_total_len r"
proof (induction evs arbitrary: r acc r')
  case (Cons ev evs)
  obtain mem ms num p where ev: "ev = (mem, ms, num, p)" by (cases ev)
  obtain x r1 where f: "rcp_fragment_reassembler_feed mem r ms num p = (x, r1)" by fastforce
  obtain acc1 where run: "feed_run r1 evs = (acc1, r')" and acc: "acc = (if reasm_accepts x then p # acc1 else acc1)"
    using Cons.prems(2) by (auto simp: ev f split: prod.splits)
  note e = feed_effect [OF Cons.prems(1) f]
  from Cons.IH [OF e(1) run] e(2,3,4) acc show ?case by auto
qed auto

text \<open>C25: Whatever is fed to a reassembler, in whatever order and with whatever memory failures, its
  buffer is the concatenation of exactly the accepted fragments and never exceeds the limit; a refused
  fragment changes nothing; and an intermediate fragment with a number other than the expected one is
  refused.\<close>

theorem reassembler_sound:
  assumes "mt \<le> SIZE_MAX" and "feed_run (rcp_fragment_reassembler_init mt) evs = (acc, r)"
  shows "rcp_fragment_reassembler_get r = concat acc \<and> length (rcp_fragment_reassembler_get r) \<le> mt \<and>
    (\<not> reasm_accepts (fst (rcp_fragment_reassembler_feed mem r ms num p)) \<longrightarrow>
       snd (rcp_fragment_reassembler_feed mem r ms num p) = r) \<and>
    (ms \<and> num \<noteq> (if collecting r then expected_segment_num r else 0) \<longrightarrow>
       \<not> reasm_accepts (fst (rcp_fragment_reassembler_feed mem r ms num p)))"
proof -
  have init: "reasm_ok (rcp_fragment_reassembler_init mt)"
    using assms(1) by (simp add: reasm_ok_def rcp_fragment_reassembler_init_def)
  from feed_run_sound [OF this assms(2)] have r: "reasm_ok r" "reasm_buf r = concat acc"
    "max_total_len r = mt" by (simp_all add: rcp_fragment_reassembler_init_def)
  have "fst (rcp_fragment_reassembler_feed mem r ms num p)
      \<in> {RCP_FRAGMENT_REASM_ERR_OUT_OF_ORDER, RCP_FRAGMENT_REASM_ERR_TOO_LARGE}"
    if "ms \<and> num \<noteq> (if collecting r then expected_segment_num r else 0)"
    using that by (auto simp: rcp_fragment_reassembler_feed_def Let_def)
  then have "ms \<and> num \<noteq> (if collecting r then expected_segment_num r else 0) \<longrightarrow>
       \<not> reasm_accepts (fst (rcp_fragment_reassembler_feed mem r ms num p))" by auto
  moreover have "\<not> reasm_accepts (fst (rcp_fragment_reassembler_feed mem r ms num p)) \<longrightarrow>
       snd (rcp_fragment_reassembler_feed mem r ms num p) = r"
    using feed_effect(2) [OF r(1), of mem ms num p] by (cases "rcp_fragment_reassembler_feed mem r ms num p") auto
  ultimately show ?thesis using r by (auto simp: rcp_fragment_reassembler_get_def reasm_ok_def)
qed

theorem reassembler_sound_witness:
  "\<exists>acc r. feed_run (rcp_fragment_reassembler_init 9) [(True, True, 0, [1, 2]), (True, True, 5, [3])] = (acc, r) \<and>
     rcp_fragment_reassembler_get r = concat acc \<and> length (rcp_fragment_reassembler_get r) \<le> 9"
proof -
  obtain acc r where run: "feed_run (rcp_fragment_reassembler_init 9)
      [(True, True, 0, [1, 2]), (True, True, 5, [3])] = (acc, r)" by fastforce
  have "9 \<le> SIZE_MAX" by (simp add: SIZE_MAX_def)
  from reassembler_sound [OF this run, of True True 0 "[]"] run show ?thesis by blast
qed

end
