(* ===== verification/Respqueue.thy ===== *)
theory Respqueue
  imports Fragment "HOL-Library.Multiset" "HOL-Library.Sublist"
begin

text \<open>
  \<^verbatim>\<open>src/respqueue.c\<close>: the response queue of a stream, bounded in octets and in entries.  A
  push that does not fit evicts the entries with the lowest sequence numbers and latches the overflow
  flag.

  The parallel arrays \<^verbatim>\<open>entries\<close> and \<^verbatim>\<open>entries_seq\<close> with their length
  \<^verbatim>\<open>entries_len\<close> are one list of frames with their sequence numbers, oldest first; the
  loops that close a gap remove an element of it.  \<open>mem\<close> says whether the copy of a frame can be
  allocated.
\<close>

section \<open>Data\<close>

definition RCP_RESPQUEUE_MAX_ENTRIES :: nat where [consts_rcp]: "RCP_RESPQUEUE_MAX_ENTRIES = 64"

record rcp_respqueue_t =
  entries :: "(bytes \<times> byte) list"
  octets :: nat
  capacity_octets :: nat
  max_avtpdu_size_octets :: nat
  next_sequence_num :: byte
  overflow :: bool

section \<open>Operations\<close>

definition rcp_respqueue_init :: "nat \<Rightarrow> nat \<Rightarrow> rcp_respqueue_t" where
  "rcp_respqueue_init cap mx =
     \<lparr>entries = [], octets = 0, capacity_octets = cap, max_avtpdu_size_octets = mx,
      next_sequence_num = 0, overflow = False\<rparr>"

definition rcp_respqueue_destroy :: "rcp_respqueue_t \<Rightarrow> rcp_respqueue_t" where
  "rcp_respqueue_destroy q =
     q\<lparr>entries := [], octets := 0, next_sequence_num := 0, overflow := False\<rparr>"

text \<open>The scan for the entry to evict: the first one with the lowest sequence number.\<close>

definition resp_lowest_idx :: "byte list \<Rightarrow> nat" where
  "resp_lowest_idx seqs =
     foldl (\<lambda>lowest i. if seqs ! i < seqs ! lowest then i else lowest) 0 [1..<length seqs]"

text \<open>The condition of the eviction loop and one turn of it.\<close>

definition resp_no_room :: "rcp_respqueue_t \<Rightarrow> nat \<Rightarrow> bool" where
  "resp_no_room q frame_len \<longleftrightarrow>
     (capacity_octets q \<noteq> 0 \<and> frame_len > size_sub (capacity_octets q) (octets q)) \<or>
     length (entries q) = RCP_RESPQUEUE_MAX_ENTRIES"

definition resp_evict_one :: "rcp_respqueue_t \<Rightarrow> rcp_respqueue_t" where
  "resp_evict_one q =
     (let lowest = resp_lowest_idx (map snd (entries q)) in
      q\<lparr>octets := size_sub (octets q) (length (fst (entries q ! lowest))),
        entries := take lowest (entries q) @ drop (Suc lowest) (entries q),
        overflow := True\<rparr>)"

lemma foldl_index_bound:
  "low < n \<Longrightarrow> (\<forall>i\<in>set js. i < n) \<Longrightarrow> foldl (\<lambda>l i. if P i l then i else l) low js < n"
  by (induction js arbitrary: low) auto

lemma resp_lowest_idx_less: "seqs \<noteq> [] \<Longrightarrow> resp_lowest_idx seqs < length seqs"
  unfolding resp_lowest_idx_def by (rule foldl_index_bound) auto

lemma resp_evict_one_shorter:
  "entries q \<noteq> [] \<Longrightarrow> length (entries (resp_evict_one q)) < length (entries q)"
  using resp_lowest_idx_less [of "map snd (entries q)"] by (auto simp: resp_evict_one_def Let_def)

text \<open>The loop.  With an empty queue its condition is false under the queue's invariant, as
  \<open>resp_room_when_empty\<close> below shows; the model stops there in any case.\<close>

function resp_evict :: "rcp_respqueue_t \<Rightarrow> nat \<Rightarrow> rcp_respqueue_t" where
  "resp_evict q frame_len =
     (if resp_no_room q frame_len \<and> entries q \<noteq> [] then resp_evict (resp_evict_one q) frame_len else q)"
  by auto
termination
  by (relation "measure (\<lambda>(q, n). length (entries q))") (simp_all add: resp_evict_one_shorter)

declare resp_evict.simps [simp del]

definition rcp_respqueue_push_seq ::
    "bool \<Rightarrow> rcp_respqueue_t \<Rightarrow> bytes \<Rightarrow> byte \<Rightarrow> bool \<times> rcp_respqueue_t" where
  "rcp_respqueue_push_seq mem q frame sequence_num =
     (let frame_len = length frame in
      if max_avtpdu_size_octets q \<noteq> 0 \<and> frame_len > max_avtpdu_size_octets q then (False, q)
      else if capacity_octets q \<noteq> 0 \<and> frame_len > capacity_octets q then (False, q)
      else if frame_len \<noteq> 0 \<and> \<not> mem then (False, q)
      else
        let q' = resp_evict q frame_len
        in (True, q'\<lparr>entries := entries q' @ [(frame, sequence_num)],
                     octets := size_add (octets q') frame_len\<rparr>))"

definition rcp_respqueue_push :: "bool \<Rightarrow> rcp_respqueue_t \<Rightarrow> bytes \<Rightarrow> bool \<times> rcp_respqueue_t" where
  "rcp_respqueue_push mem q frame =
     (let (ok, q') = rcp_respqueue_push_seq mem q frame (next_sequence_num q)
      in if ok then (True, q'\<lparr>next_sequence_num := next_sequence_num q' + 1\<rparr>) else (False, q'))"

definition rcp_respqueue_overflow :: "rcp_respqueue_t \<Rightarrow> bool" where
  "rcp_respqueue_overflow q = overflow q"

definition rcp_respqueue_clear_overflow :: "rcp_respqueue_t \<Rightarrow> rcp_respqueue_t" where
  "rcp_respqueue_clear_overflow q = q\<lparr>overflow := False\<rparr>"

definition rcp_respqueue_max_avtpdu_size_within_mtu :: "nat \<Rightarrow> nat \<Rightarrow> bool" where
  "rcp_respqueue_max_avtpdu_size_within_mtu mx mtu_budget =
     (if mx = 0 then mtu_budget = 0 else mx \<le> mtu_budget)"

definition rcp_respqueue_pop :: "rcp_respqueue_t \<Rightarrow> (bytes \<times> rcp_respqueue_t) option" where
  "rcp_respqueue_pop q =
     (case entries q of
        [] \<Rightarrow> None
      | e # es \<Rightarrow> Some (fst e, q\<lparr>octets := size_sub (octets q) (length (fst e)), entries := es\<rparr>))"

definition rcp_respqueue_len :: "rcp_respqueue_t \<Rightarrow> nat" where
  "rcp_respqueue_len q = length (entries q)"

definition rcp_respqueue_octets :: "rcp_respqueue_t \<Rightarrow> nat" where
  "rcp_respqueue_octets q = octets q"

definition rcp_respqueue_max_fragment_payload :: "nat \<Rightarrow> nat \<Rightarrow> nat" where
  "rcp_respqueue_max_fragment_payload mx header_len =
     (if mx = 0 then 0
      else
        let reserved = size_add header_len 3
        in if reserved \<ge> mx then 0 else mx - reserved)"

definition rcp_respqueue_should_flush :: "rcp_respqueue_t \<Rightarrow> nat \<Rightarrow> bool" where
  "rcp_respqueue_should_flush q flush_on_count_octets =
     (if length (entries q) = 0 then False
      else if flush_on_count_octets = 0 then True
      else octets q \<ge> flush_on_count_octets)"

text \<open>The packing loop from entry \<open>i\<close> on, with the octets packed so far.\<close>

fun resp_batch_from :: "nat \<Rightarrow> nat \<Rightarrow> nat \<Rightarrow> (bytes \<times> byte) list \<Rightarrow> nat" where
  "resp_batch_from mx i tot [] = i"
| "resp_batch_from mx i tot (e # es) =
     (let next_total = size_add tot (length (fst e))
      in if i > 0 \<and> next_total > mx then i else resp_batch_from mx (i + 1) next_total es)"

definition rcp_respqueue_plan_batch :: "rcp_respqueue_t \<Rightarrow> nat \<Rightarrow> nat" where
  "rcp_respqueue_plan_batch q mx =
     (if length (entries q) = 0 then 0
      else if mx = 0 then length (entries q)
      else resp_batch_from mx 0 0 (entries q))"

definition rcp_respqueue_should_flush_by_time :: "u64 \<Rightarrow> u64 \<Rightarrow> bool" where
  "rcp_respqueue_should_flush_by_time elapsed_since_last_transmit_us flush_time_us =
     (if flush_time_us = 0 then False else elapsed_since_last_transmit_us \<ge> flush_time_us)"

section \<open>Invariant\<close>

abbreviation entry_octets :: "(bytes \<times> byte) list \<Rightarrow> nat" where
  "entry_octets es \<equiv> (\<Sum>e\<leftarrow>es. length (fst e))"

definition resp_ok :: "rcp_respqueue_t \<Rightarrow> bool" where
  "resp_ok q \<longleftrightarrow> octets q = entry_octets (entries q) \<and>
     length (entries q) \<le> RCP_RESPQUEUE_MAX_ENTRIES \<and>
     entry_octets (entries q) \<le> SIZE_MAX \<and> capacity_octets q \<le> SIZE_MAX \<and>
     (capacity_octets q \<noteq> 0 \<longrightarrow> entry_octets (entries q) \<le> capacity_octets q) \<and>
     (max_avtpdu_size_octets q \<noteq> 0 \<longrightarrow> (\<forall>e\<in>set (entries q). length (fst e) \<le> max_avtpdu_size_octets q))"

lemma resp_no_room_iff:
  "resp_ok q \<Longrightarrow> resp_no_room q n \<longleftrightarrow>
   capacity_octets q \<noteq> 0 \<and> capacity_octets q < entry_octets (entries q) + n \<or>
   length (entries q) = RCP_RESPQUEUE_MAX_ENTRIES"
  by (auto simp: resp_no_room_def resp_ok_def size_sub_exact)

lemma resp_room_when_empty:
  "resp_ok q \<Longrightarrow> entries q = [] \<Longrightarrow> capacity_octets q = 0 \<or> n \<le> capacity_octets q \<Longrightarrow>
   \<not> resp_no_room q n"
  by (auto simp: resp_no_room_iff consts_rcp)

lemma lowest_scan:
  "foldl (\<lambda>l i. if seqs ! i < seqs ! l then i else l) low js = r \<Longrightarrow>
   r \<in> insert low (set js) \<and> (\<forall>j\<in>insert low (set js). (seqs ! r :: byte) \<le> seqs ! j)"
proof (induction js arbitrary: low)
  case (Cons j js)
  let ?low = "if seqs ! j < seqs ! low then j else low"
  from Cons.IH [of ?low] Cons.prems have
    r: "r \<in> insert ?low (set js)" "\<forall>k\<in>insert ?low (set js). seqs ! r \<le> seqs ! k" by simp_all
  then have "seqs ! r \<le> seqs ! low \<and> seqs ! r \<le> seqs ! j" by (auto split: if_splits)
  with r show ?case by (auto split: if_splits)
qed auto

lemma resp_lowest_idx_min:
  assumes "j < length seqs"
  shows "seqs ! resp_lowest_idx seqs \<le> seqs ! j"
proof -
  have "j \<in> insert 0 (set [1..<length seqs])" using assms by auto
  with lowest_scan [of seqs 0 "[1..<length seqs]", OF refl] show ?thesis
    unfolding resp_lowest_idx_def by blast
qed

lemma lowest_stays:
  "(\<forall>i\<in>set js. \<not> seqs ! i < seqs ! low) \<Longrightarrow>
   foldl (\<lambda>l i. if seqs ! i < seqs ! l then i else l) low js = low"
  by (induction js) auto

lemma resp_lowest_idx_sorted:
  fixes seqs :: "byte list"
  assumes "sorted seqs"
  shows "resp_lowest_idx seqs = 0"
  unfolding resp_lowest_idx_def
proof (rule lowest_stays, rule ballI)
  fix i assume "i \<in> set [1..<length seqs]"
  then show "\<not> seqs ! i < seqs ! 0" using sorted_nth_mono [OF assms, of 0 i] by auto
qed

text \<open>One eviction removes one entry, whose number is the lowest.\<close>

lemma resp_evict_one_split:
  assumes "entries q \<noteq> []"
  obtains pre e post where "entries q = pre @ e # post" and "entries (resp_evict_one q) = pre @ post"
    and "octets (resp_evict_one q) = size_sub (octets q) (length (fst e))"
    and "\<forall>k\<in>set (pre @ post). snd e \<le> snd k" and "sorted (map snd (entries q)) \<Longrightarrow> pre = []"
proof -
  let ?l = "resp_lowest_idx (map snd (entries q))" and ?es = "entries q"
  have l: "?l < length ?es" using resp_lowest_idx_less [of "map snd ?es"] assms by simp
  have "\<forall>k\<in>set ?es. snd (?es ! ?l) \<le> snd k"
  proof
    fix k assume "k \<in> set ?es"
    then obtain j where "j < length ?es" "k = ?es ! j" by (metis in_set_conv_nth)
    then show "snd (?es ! ?l) \<le> snd k" using resp_lowest_idx_min [of j "map snd ?es"] l by simp
  qed
  moreover have "sorted (map snd ?es) \<Longrightarrow> take ?l ?es = []" by (simp add: resp_lowest_idx_sorted)
  moreover have "?es = take ?l ?es @ ?es ! ?l # drop (Suc ?l) ?es" by (rule id_take_nth_drop [OF l])
  moreover have "set (take ?l ?es @ drop (Suc ?l) ?es) \<subseteq> set ?es"
    using set_take_subset set_drop_subset by fastforce
  ultimately show thesis
    by (intro that [of "take ?l ?es" "?es ! ?l" "drop (Suc ?l) ?es"])
      (auto simp: resp_evict_one_def Let_def)
qed

lemma resp_evict_one_keeps [simp]:
  "capacity_octets (resp_evict_one q) = capacity_octets q"
  "max_avtpdu_size_octets (resp_evict_one q) = max_avtpdu_size_octets q"
  "next_sequence_num (resp_evict_one q) = next_sequence_num q"
  "overflow (resp_evict_one q)"
  by (simp_all add: resp_evict_one_def Let_def)

lemma resp_evict_one_ok:
  assumes "resp_ok q" and "entries q \<noteq> []"
  shows "resp_ok (resp_evict_one q)"
proof -
  obtain pre e post where s: "entries q = pre @ e # post" "entries (resp_evict_one q) = pre @ post"
    "octets (resp_evict_one q) = size_sub (octets q) (length (fst e))"
    using resp_evict_one_split [OF assms(2)] by metis
  then show ?thesis using assms(1) by (auto simp: resp_ok_def size_sub_exact)
qed

lemma resp_evict_keeps [simp]:
  "capacity_octets (resp_evict q n) = capacity_octets q \<and>
   max_avtpdu_size_octets (resp_evict q n) = max_avtpdu_size_octets q \<and>
   next_sequence_num (resp_evict q n) = next_sequence_num q"
proof (induction q n rule: resp_evict.induct)
  case (1 q n)
  then show ?case by (subst (1 2 3) resp_evict.simps) auto
qed

lemma resp_evict_done: "\<not> resp_no_room q n \<Longrightarrow> resp_evict q n = q"
  by (subst resp_evict.simps) simp

lemma resp_evict_step:
  assumes "resp_ok q" and "capacity_octets q = 0 \<or> n \<le> capacity_octets q" and "resp_no_room q n"
  shows "entries q \<noteq> []" and "resp_evict q n = resp_evict (resp_evict_one q) n"
proof -
  show "entries q \<noteq> []" using resp_room_when_empty assms by blast
  then show "resp_evict q n = resp_evict (resp_evict_one q) n"
    using assms(3) by (subst resp_evict.simps) simp
qed

lemma resp_evict_ok:
  "resp_ok q \<Longrightarrow> capacity_octets q = 0 \<or> n \<le> capacity_octets q \<Longrightarrow>
   resp_ok (resp_evict q n) \<and> \<not> resp_no_room (resp_evict q n) n"
proof (induction q n rule: resp_evict.induct)
  case (1 q n)
  show ?case
  proof (cases "resp_no_room q n")
    case True
    note s = resp_evict_step [OF 1(2,3) True]
    then show ?thesis using 1 True resp_evict_one_ok by simp
  qed (use 1 in \<open>simp add: resp_evict_done\<close>)
qed

lemma resp_evict_removes:
  "resp_ok q \<Longrightarrow> capacity_octets q = 0 \<or> n \<le> capacity_octets q \<Longrightarrow>
   \<exists>gone. subseq (entries (resp_evict q n)) (entries q) \<and>
     mset (entries q) = mset (entries (resp_evict q n)) + mset gone \<and>
     (\<forall>e\<in>set gone. \<forall>k\<in>set (entries (resp_evict q n)). snd e \<le> snd k) \<and>
     overflow (resp_evict q n) = (overflow q \<or> gone \<noteq> []) \<and> (gone = [] \<longleftrightarrow> \<not> resp_no_room q n)"
proof (induction q n rule: resp_evict.induct)
  case (1 q n)
  show ?case
  proof (cases "resp_no_room q n")
    case True
    note s = resp_evict_step [OF 1(2,3) True]
    obtain pre e post where q: "entries q = pre @ e # post" "entries (resp_evict_one q) = pre @ post"
      "\<forall>k\<in>set (pre @ post). snd e \<le> snd k"
      using resp_evict_one_split [OF s(1)] by metis
    from 1(1) [OF conjI [OF True s(1)] resp_evict_one_ok [OF 1(2) s(1)]] 1(3) obtain gone where
      g: "subseq (entries (resp_evict q n)) (pre @ post)"
      "mset (pre @ post) = mset (entries (resp_evict q n)) + mset gone"
      "\<forall>e\<in>set gone. \<forall>k\<in>set (entries (resp_evict q n)). snd e \<le> snd k"
      "overflow (resp_evict q n)"
      unfolding s(2) [symmetric] q(2) by auto
    have "subseq (pre @ post) (pre @ e # post)" by (simp add: subseq_append' list_emb_Cons)
    with g(1) have "subseq (entries (resp_evict q n)) (entries q)" unfolding q(1) by (rule subseq_order.trans)
    moreover have "\<forall>k\<in>set (entries (resp_evict q n)). snd e \<le> snd k"
      using q(3) g(2) by (metis UnCI set_mset_mset set_mset_union)
    ultimately show ?thesis using g q(1) True by (intro exI [of _ "e # gone"]) auto
  qed (simp add: resp_evict_done)
qed

text \<open>With numbers in queue order the evicted entries are the oldest ones, and no more than needed.\<close>

lemma resp_evict_sorted:
  "resp_ok q \<Longrightarrow> capacity_octets q = 0 \<or> n \<le> capacity_octets q \<Longrightarrow> sorted (map snd (entries q)) \<Longrightarrow>
   \<exists>k. entries (resp_evict q n) = drop k (entries q) \<and>
     (\<forall>j<k. capacity_octets q \<noteq> 0 \<and> capacity_octets q < entry_octets (drop j (entries q)) + n \<or>
        j = 0 \<and> length (entries q) = RCP_RESPQUEUE_MAX_ENTRIES)"
proof (induction q n rule: resp_evict.induct)
  case (1 q n)
  show ?case
  proof (cases "resp_no_room q n")
    case True
    note s = resp_evict_step [OF 1(2,3) True]
    obtain e post where q: "entries q = e # post" "entries (resp_evict_one q) = post"
      using resp_evict_one_split [OF s(1)] 1(4) by (metis append_Nil)
    from 1(4) have "sorted (map snd (entries (resp_evict_one q)))" by (simp add: q)
    from 1(1) [OF conjI [OF True s(1)] resp_evict_one_ok [OF 1(2) s(1)] _ this] 1(3) obtain k where
      k: "entries (resp_evict q n) = drop k post"
      "\<forall>j<k. capacity_octets q \<noteq> 0 \<and> capacity_octets q < entry_octets (drop j post) + n \<or>
        j = 0 \<and> length post = RCP_RESPQUEUE_MAX_ENTRIES"
      unfolding s(2) [symmetric] q(2) by auto
    have "length post \<noteq> RCP_RESPQUEUE_MAX_ENTRIES" using 1(2) by (auto simp: resp_ok_def q)
    with k True show ?thesis using 1(2)
      by (intro exI [of _ "Suc k"]) (auto simp: q resp_no_room_iff All_less_Suc2)
  qed (use 1 in \<open>auto simp: resp_evict_done intro: exI [of _ 0]\<close>)
qed

definition resp_admits :: "rcp_respqueue_t \<Rightarrow> nat \<Rightarrow> bool" where
  "resp_admits q n \<longleftrightarrow> (max_avtpdu_size_octets q = 0 \<or> n \<le> max_avtpdu_size_octets q) \<and>
     (capacity_octets q = 0 \<or> n \<le> capacity_octets q)"

lemma push_seq_eq:
  "rcp_respqueue_push_seq mem q f s =
     (if resp_admits q (length f) \<and> (mem \<or> f = [])
      then (True, (resp_evict q (length f))\<lparr>entries := entries (resp_evict q (length f)) @ [(f, s)],
                     octets := size_add (octets (resp_evict q (length f))) (length f)\<rparr>)
      else (False, q))"
  by (auto simp: rcp_respqueue_push_seq_def Let_def resp_admits_def)

lemma mset_entry_octets:
  assumes "mset a = mset b + mset c"
  shows "entry_octets a = entry_octets b + entry_octets c"
proof -
  have e: "entry_octets x = sum_mset (image_mset (\<lambda>e. length (fst e)) (mset x))" for x :: "(bytes \<times> byte) list"
    by (simp add: sum_mset_sum_list flip: mset_map)
  show ?thesis unfolding e assms by simp
qed

lemma push_seq_ok:
  assumes "resp_ok q" and "entry_octets (entries q) + length f \<le> SIZE_MAX"
  shows "resp_ok (snd (rcp_respqueue_push_seq mem q f s))"
proof (cases "resp_admits q (length f) \<and> (mem \<or> f = [])")
  case True
  let ?q = "resp_evict q (length f)"
  have adm: "capacity_octets q = 0 \<or> length f \<le> capacity_octets q" using True by (simp add: resp_admits_def)
  have ok: "resp_ok ?q" and room: "\<not> resp_no_room ?q (length f)"
    using resp_evict_ok [OF assms(1) adm] by simp_all
  obtain gone where "mset (entries q) = mset (entries ?q) + mset gone"
    using resp_evict_removes [OF assms(1) adm] by blast
  then have "entry_octets (entries q) = entry_octets (entries ?q) + entry_octets gone" by (rule mset_entry_octets)
  with assms(2) have sz: "entry_octets (entries ?q) + length f \<le> SIZE_MAX" by linarith
  have oct: "octets ?q = entry_octets (entries ?q)" using ok by (simp add: resp_ok_def)
  have "length (entries ?q) \<noteq> RCP_RESPQUEUE_MAX_ENTRIES"
    and "capacity_octets q \<noteq> 0 \<Longrightarrow> entry_octets (entries ?q) + length f \<le> capacity_octets q"
    using room ok by (auto simp: resp_no_room_iff)
  with ok True sz oct show ?thesis
    by (auto simp: push_seq_eq resp_ok_def resp_admits_def size_add_exact)
qed (use assms in \<open>auto simp: push_seq_eq\<close>)

lemma push_ok:
  assumes "resp_ok q" and "entry_octets (entries q) + length f \<le> SIZE_MAX"
  shows "resp_ok (snd (rcp_respqueue_push mem q f))"
  using push_seq_ok [OF assms, of mem "next_sequence_num q"]
  by (cases "rcp_respqueue_push_seq mem q f (next_sequence_num q)")
    (simp add: rcp_respqueue_push_def resp_ok_def)

lemma pop_ok:
  assumes "resp_ok q" and "rcp_respqueue_pop q = Some (f, q')"
  shows "resp_ok q'"
proof (cases "entries q")
  case (Cons e es)
  then have "q' = q\<lparr>octets := size_sub (octets q) (length (fst e)), entries := es\<rparr>"
    using assms(2) by (auto simp: rcp_respqueue_pop_def)
  then show ?thesis using assms(1) Cons by (simp add: resp_ok_def size_sub_exact) linarith
qed (use assms in \<open>simp add: rcp_respqueue_pop_def\<close>)

section \<open>Properties\<close>

text \<open>The operations of a queue after its initialisation.\<close>

datatype resp_op = RPush bool bytes | RPushSeq bool bytes byte | RPop | RClear | RDestroy

fun resp_step :: "rcp_respqueue_t \<Rightarrow> resp_op \<Rightarrow> rcp_respqueue_t" where
  "resp_step q (RPush mem f) = snd (rcp_respqueue_push mem q f)"
| "resp_step q (RPushSeq mem f s) = snd (rcp_respqueue_push_seq mem q f s)"
| "resp_step q RPop = (case rcp_respqueue_pop q of None \<Rightarrow> q | Some (f, q') \<Rightarrow> q')"
| "resp_step q RClear = rcp_respqueue_clear_overflow q"
| "resp_step q RDestroy = rcp_respqueue_destroy q"

text \<open>The octets a run of operations holds in memory at most: all frames ever pushed.\<close>

fun pushed_octets :: "resp_op list \<Rightarrow> nat" where
  "pushed_octets [] = 0"
| "pushed_octets (RPush mem f # ops) = length f + pushed_octets ops"
| "pushed_octets (RPushSeq mem f s # ops) = length f + pushed_octets ops"
| "pushed_octets (_ # ops) = pushed_octets ops"

lemma push_seq_octets:
  assumes "resp_ok q"
  shows "entry_octets (entries (snd (rcp_respqueue_push_seq mem q f s))) \<le> entry_octets (entries q) + length f"
proof (cases "resp_admits q (length f) \<and> (mem \<or> f = [])")
  case True
  then have adm: "capacity_octets q = 0 \<or> length f \<le> capacity_octets q" by (simp add: resp_admits_def)
  obtain gone where "mset (entries q) = mset (entries (resp_evict q (length f))) + mset gone"
    using resp_evict_removes [OF assms adm] by blast
  then have "entry_octets (entries q) = entry_octets (entries (resp_evict q (length f))) + entry_octets gone" by (rule mset_entry_octets)
  with True show ?thesis by (simp add: push_seq_eq)
qed (auto simp: push_seq_eq)

lemma resp_step_ok:
  assumes "resp_ok q" and "entry_octets (entries q) + pushed_octets [op] \<le> SIZE_MAX"
  shows "resp_ok (resp_step q op) \<and>
    entry_octets (entries (resp_step q op)) \<le> entry_octets (entries q) + pushed_octets [op] \<and>
    capacity_octets (resp_step q op) = capacity_octets q \<and>
    max_avtpdu_size_octets (resp_step q op) = max_avtpdu_size_octets q"
proof (cases op)
  case (RPush mem f)
  have e: "entries (snd (rcp_respqueue_push mem q f)) =
      entries (snd (rcp_respqueue_push_seq mem q f (next_sequence_num q)))"
    by (simp add: rcp_respqueue_push_def split: prod.split)
  show ?thesis
    using RPush assms push_ok [of q f mem] push_seq_octets [OF assms(1), of mem f "next_sequence_num q"]
    by (simp add: e) (auto simp: rcp_respqueue_push_def push_seq_eq)
next
  case (RPushSeq mem f s)
  show ?thesis
    using RPushSeq assms push_seq_ok [of q f mem s] push_seq_octets [OF assms(1), of mem f s]
    by (simp add: push_seq_eq)
next
  case RPop
  then show ?thesis using assms pop_ok [OF assms(1)]
    by (cases "entries q") (auto simp: rcp_respqueue_pop_def)
qed (use assms in \<open>auto simp: resp_ok_def rcp_respqueue_clear_overflow_def rcp_respqueue_destroy_def\<close>)

lemma pushed_octets_Cons: "pushed_octets (op # ops) = pushed_octets [op] + pushed_octets ops"
  by (cases op) simp_all

lemma resp_run_ok:
  "resp_ok q \<Longrightarrow> entry_octets (entries q) + pushed_octets ops \<le> SIZE_MAX \<Longrightarrow>
   resp_ok (foldl resp_step q ops) \<and>
   capacity_octets (foldl resp_step q ops) = capacity_octets q \<and>
   max_avtpdu_size_octets (foldl resp_step q ops) = max_avtpdu_size_octets q"
proof (induction ops arbitrary: q)
  case (Cons op ops)
  have "entry_octets (entries q) + pushed_octets [op] \<le> SIZE_MAX"
    using Cons.prems(2) by (simp add: pushed_octets_Cons [of op ops])
  note s = resp_step_ok [OF Cons.prems(1) this]
  then have "entry_octets (entries (resp_step q op)) + pushed_octets ops \<le> SIZE_MAX"
    using Cons.prems(2) by (simp add: pushed_octets_Cons [of op ops])
  with Cons.IH [of "resp_step q op"] s show ?case by simp
qed simp

text \<open>C26: After any operations on a new response queue, as long as the frames ever pushed are
  addressable memory, the running octet count is the sum of the queued frames, at most 64 frames are
  queued, the count stays within a nonzero capacity, and no queued frame is longer than a nonzero
  frame limit.\<close>

theorem respqueue_invariant:
  assumes "cap \<le> SIZE_MAX" and "pushed_octets ops \<le> SIZE_MAX"
    and "q = foldl resp_step (rcp_respqueue_init cap mx) ops"
  shows "rcp_respqueue_octets q = (\<Sum>e\<leftarrow>entries q. length (fst e)) \<and> rcp_respqueue_len q \<le> 64 \<and>
    (cap \<noteq> 0 \<longrightarrow> rcp_respqueue_octets q \<le> cap) \<and>
    (mx \<noteq> 0 \<longrightarrow> (\<forall>e\<in>set (entries q). length (fst e) \<le> mx))"
proof -
  have "resp_ok (rcp_respqueue_init cap mx)"
    using assms(1) by (simp add: resp_ok_def rcp_respqueue_init_def)
  from resp_run_ok [OF this, of ops] assms(2,3) show ?thesis
    by (auto simp: resp_ok_def rcp_respqueue_init_def rcp_respqueue_octets_def rcp_respqueue_len_def
        consts_rcp)
qed

theorem respqueue_invariant_witness:
  "rcp_respqueue_octets (foldl resp_step (rcp_respqueue_init 4 0) [RPush True [1, 2, 3], RPush True [4, 5]]) \<le> 4"
proof -
  have "4 \<le> SIZE_MAX" and "pushed_octets [RPush True [1, 2, 3], RPush True [4, 5]] \<le> SIZE_MAX"
    by (simp_all add: SIZE_MAX_def)
  from respqueue_invariant [OF this refl, of 0] show ?thesis by simp
qed

text \<open>A push is refused exactly when the frame is over the frame limit, over the whole capacity, or
  cannot be copied, and then changes nothing.  Otherwise the frame becomes the newest entry after the
  remaining old entries in their order; the entries that had to go have the lowest sequence
  numbers; some go exactly when there was no room, and then the overflow flag is set.\<close>

theorem respqueue_push_evicts_lowest:
  assumes "resp_ok q"
  shows "(fst (rcp_respqueue_push_seq mem q f s) \<longleftrightarrow> resp_admits q (length f) \<and> (mem \<or> f = [])) \<and>
    (\<not> fst (rcp_respqueue_push_seq mem q f s) \<longrightarrow> snd (rcp_respqueue_push_seq mem q f s) = q) \<and>
    (fst (rcp_respqueue_push_seq mem q f s) \<longrightarrow>
      (\<exists>kept gone. entries (snd (rcp_respqueue_push_seq mem q f s)) = kept @ [(f, s)] \<and>
         subseq kept (entries q) \<and> mset (entries q) = mset kept + mset gone \<and>
         (\<forall>e\<in>set gone. \<forall>k\<in>set kept. snd e \<le> snd k) \<and>
         (gone = [] \<longleftrightarrow> length (entries q) < 64 \<and>
            (capacity_octets q = 0 \<or> octets q + length f \<le> capacity_octets q)) \<and>
         overflow (snd (rcp_respqueue_push_seq mem q f s)) = (overflow q \<or> gone \<noteq> [])))"
proof (cases "resp_admits q (length f) \<and> (mem \<or> f = [])")
  case True
  let ?q = "resp_evict q (length f)"
  have p: "rcp_respqueue_push_seq mem q f s =
      (True, ?q\<lparr>entries := entries ?q @ [(f, s)], octets := size_add (octets ?q) (length f)\<rparr>)"
    using True by (simp add: push_seq_eq)
  have adm: "capacity_octets q = 0 \<or> length f \<le> capacity_octets q" using True by (simp add: resp_admits_def)
  have q: "octets q = entry_octets (entries q)" "length (entries q) \<le> 64"
    using assms by (simp_all add: resp_ok_def consts_rcp)
  obtain gone where g: "subseq (entries ?q) (entries q)"
     "mset (entries q) = mset (entries ?q) + mset gone"
     "\<forall>e\<in>set gone. \<forall>k\<in>set (entries ?q). snd e \<le> snd k"
     "overflow ?q = (overflow q \<or> gone \<noteq> [])" "gone = [] \<longleftrightarrow> \<not> resp_no_room q (length f)"
    using resp_evict_removes [OF assms adm] by blast
  have "\<not> resp_no_room q (length f) \<longleftrightarrow> length (entries q) < 64 \<and>
      (capacity_octets q = 0 \<or> octets q + length f \<le> capacity_octets q)"
    using q by (auto simp: resp_no_room_iff [OF assms] consts_rcp)
  with g(5) have empty: "gone = [] \<longleftrightarrow> length (entries q) < 64 \<and>
      (capacity_octets q = 0 \<or> octets q + length f \<le> capacity_octets q)" by blast
  show ?thesis unfolding p
    using g(1-4) empty True by (intro conjI impI exI [of _ "entries ?q"] exI [of _ gone]) simp_all
qed (auto simp: push_seq_eq)

theorem respqueue_push_evicts_lowest_witness:
  "resp_ok (rcp_respqueue_init 4 0) \<and>
   \<not> fst (rcp_respqueue_push_seq True (rcp_respqueue_init 4 0) [1, 2, 3, 4, 5] 9) \<and>
   fst (rcp_respqueue_push_seq True (rcp_respqueue_init 4 0) [1, 2] 9)"
proof -
  have ok: "resp_ok (rcp_respqueue_init 4 0)"
    by (simp add: resp_ok_def rcp_respqueue_init_def SIZE_MAX_def)
  from respqueue_push_evicts_lowest [OF ok, of True "[1, 2, 3, 4, 5]" 9]
    respqueue_push_evicts_lowest [OF ok, of True "[1, 2]" 9] ok
  show ?thesis by (simp add: resp_admits_def rcp_respqueue_init_def)
qed

text \<open>While sequence numbers grow along the queue (before the 8-bit counter wraps), a push evicts
  the oldest entries and only as many as it must: each of them was still in the way of the
  frame, or the queue had all 64 slots in use.  Afterwards entries leave in arrival order.\<close>

theorem respqueue_evicts_oldest:
  assumes "resp_ok q" and "sorted (map snd (entries q))"
    and "rcp_respqueue_push_seq mem q f s = (True, q')"
  shows "\<exists>k. entries q' = drop k (entries q) @ [(f, s)] \<and>
    (\<forall>j<k. capacity_octets q \<noteq> 0 \<and>
        capacity_octets q < (\<Sum>e\<leftarrow>drop j (entries q). length (fst e)) + length f \<or>
      j = 0 \<and> length (entries q) = 64) \<and>
    map_option fst (rcp_respqueue_pop q') = Some (fst (hd (drop k (entries q) @ [(f, s)])))"
proof -
  from assms(3) have adm: "capacity_octets q = 0 \<or> length f \<le> capacity_octets q"
    and e: "entries q' = entries (resp_evict q (length f)) @ [(f, s)]"
    by (auto simp: push_seq_eq resp_admits_def split: if_splits)
  obtain k where k: "entries (resp_evict q (length f)) = drop k (entries q)"
    "\<forall>j<k. capacity_octets q \<noteq> 0 \<and> capacity_octets q < entry_octets (drop j (entries q)) + length f \<or>
        j = 0 \<and> length (entries q) = RCP_RESPQUEUE_MAX_ENTRIES"
    using resp_evict_sorted [OF assms(1) adm assms(2)] by blast
  have "map_option fst (rcp_respqueue_pop q') = Some (fst (hd (entries q')))"
    by (auto simp: rcp_respqueue_pop_def e split: list.split)
  with k e show ?thesis by (auto simp: consts_rcp intro!: exI [of _ k])
qed

definition full_queue :: rcp_respqueue_t where
  "full_queue = (rcp_respqueue_init 4 0)\<lparr>entries := [([1, 2], 0), ([3, 4], 1)], octets := 4\<rparr>"

theorem respqueue_evicts_oldest_witness:
  "\<exists>q' k. rcp_respqueue_push_seq True full_queue [5] 2 = (True, q') \<and>
     entries q' = drop k (entries full_queue) @ [([5], 2)]"
proof -
  have ok: "resp_ok full_queue" and s: "sorted (map snd (entries full_queue))"
    by (simp_all add: resp_ok_def full_queue_def rcp_respqueue_init_def SIZE_MAX_def consts_rcp)
  obtain q' where p: "rcp_respqueue_push_seq True full_queue [5] 2 = (True, q')"
    by (simp add: push_seq_eq resp_admits_def full_queue_def rcp_respqueue_init_def)
  from respqueue_evicts_oldest [OF ok s p] p show ?thesis by blast
qed

lemma resp_batch_spec:
  assumes "n = resp_batch_from mx i tot es" and "tot + entry_octets es \<le> SIZE_MAX"
    and "0 < i" and "i = 1 \<or> tot \<le> mx"
  shows "i \<le> n \<and> n \<le> i + length es \<and> (n = 1 \<or> tot + entry_octets (take (n - i) es) \<le> mx) \<and>
    (n < i + length es \<longrightarrow> mx < tot + entry_octets (take (Suc n - i) es))"
  using assms
proof (induction es arbitrary: i tot)
  case (Cons e es)
  have nt: "size_add tot (length (fst e)) = tot + length (fst e)"
    using Cons.prems(2) by (intro size_add_exact) simp
  show ?case
  proof (cases "mx < tot + length (fst e)")
    case True
    then show ?thesis using Cons.prems nt by auto
  next
    case False
    with Cons.prems nt have "n = resp_batch_from mx (Suc i) (tot + length (fst e)) es" by simp
    from Cons.IH [OF this] Cons.prems False have
      ih: "Suc i \<le> n" "n \<le> Suc i + length es"
        "n = 1 \<or> tot + length (fst e) + entry_octets (take (n - Suc i) es) \<le> mx"
        "n < Suc i + length es \<longrightarrow> mx < tot + length (fst e) + entry_octets (take (Suc n - Suc i) es)"
      by auto
    obtain d where d: "n = Suc i + d" using ih(1) by (auto simp: le_iff_add)
    show ?thesis using ih Cons.prems(3) unfolding d by (auto simp: Suc_diff_le add.assoc)
  qed
qed auto

text \<open>The batch planned for one frame takes at least one entry of a nonempty queue and is the
  longest prefix that fits the frame limit, or a single entry that is itself over it.\<close>

theorem respqueue_batch_maximal:
  assumes "resp_ok q" and "entries q \<noteq> []" and "mx \<noteq> 0" and "n = rcp_respqueue_plan_batch q mx"
  shows "1 \<le> n \<and> n \<le> rcp_respqueue_len q \<and>
    (n = 1 \<or> (\<Sum>e\<leftarrow>take n (entries q). length (fst e)) \<le> mx) \<and>
    (n < rcp_respqueue_len q \<longrightarrow> mx < (\<Sum>e\<leftarrow>take (Suc n) (entries q). length (fst e)))"
proof -
  obtain e es where q: "entries q = e # es" using assms(2) by (cases "entries q") auto
  have "size_add 0 (length (fst e)) = length (fst e)"
    using assms(1) by (subst size_add_exact) (auto simp: resp_ok_def q)
  then have n: "n = resp_batch_from mx 1 (length (fst e)) es"
    using assms(3,4) by (simp add: rcp_respqueue_plan_batch_def q)
  have "length (fst e) + entry_octets es \<le> SIZE_MAX" using assms(1) by (simp add: resp_ok_def q)
  from resp_batch_spec [OF n this] have
    s: "1 \<le> n" "n \<le> 1 + length es" "n = 1 \<or> length (fst e) + entry_octets (take (n - 1) es) \<le> mx"
      "n < 1 + length es \<longrightarrow> mx < length (fst e) + entry_octets (take (Suc n - 1) es)" by simp_all
  obtain d where "n = Suc d" using s(1) by (cases n) auto
  with s show ?thesis by (simp add: q rcp_respqueue_len_def)
qed

theorem respqueue_batch_maximal_witness:
  "1 \<le> rcp_respqueue_plan_batch full_queue 3 \<and> rcp_respqueue_plan_batch full_queue 3 \<le> 2"
proof -
  have ok: "resp_ok full_queue" and "entries full_queue \<noteq> []" and "rcp_respqueue_len full_queue = 2"
    by (simp_all add: resp_ok_def full_queue_def rcp_respqueue_init_def SIZE_MAX_def consts_rcp
        rcp_respqueue_len_def)
  with respqueue_batch_maximal [OF ok _ _ refl, of 3] show ?thesis by simp
qed

end
