(* ===== verification/Server.thy ===== *)
theory Server
  imports Respqueue
begin

text \<open>
  \<^verbatim>\<open>src/server.c\<close>: one endpoint of an RC server.  A disabled endpoint queues standard
  requests; conditional requests go to a store of 32 slots, from which a tick selects the due request
  that is served first, and which cancellation and the watchdog purge empty.

  The store is a list of 32 slots; a slot pointer is an index into it, and \<^verbatim>\<open>memset\<close> of a
  slot is \<open>free_slot\<close>.  Buffers are values, so releasing them is not visible.  Each allocation the
  C code makes has an outcome in the record \<open>server_mem\<close>.  \<^verbatim>\<open>ctx->sequencers\<close> is a table
  that \<open>rcp_server_endpoint_complete\<close> returns updated.  Output parameters are fields of
  \<open>server_admission\<close>; \<open>adm_index\<close> is \<^const>\<open>None\<close> where the C code does not write
  \<^verbatim>\<open>*out_index\<close>.
\<close>

section \<open>Data\<close>

definition RCP_SERVER_MAX_PENDING :: nat where [consts_rcp]: "RCP_SERVER_MAX_PENDING = 32"
definition RCP_SERVER_GPTP_TRIGGER_ESTABLISHED :: byte where
  [consts_rcp]: "RCP_SERVER_GPTP_TRIGGER_ESTABLISHED = 0"
definition RCP_SERVER_GPTP_TRIGGER_LOST :: byte where
  [consts_rcp]: "RCP_SERVER_GPTP_TRIGGER_LOST = 1"

record rcp_server_pending_t =
  in_use :: bool
  slot_kind :: rcp_sched_kind_t
  slot_request_type :: byte
  slot_transaction_num :: byte
  slot_sequence :: u64
  slot_frame :: rcp_bytes_t
  slot_compound :: rcp_compound_step_t
  compound_wait_evt :: byte
  compound_wait_target :: rcp_bytes_t
  slot_triggered :: rcp_triggered_step_t
  triggered_runtime :: rcp_triggered_runtime_t
  presentation_time :: u64
  chain_exec_delay :: u16
  slot_cs :: byte
  chain_group :: u32
  chain_position :: byte
  armed :: bool
  armed_at :: u32
  predecessor_done :: bool
  has_presentation_gate :: bool
  presentation_gate_ns :: u64

definition free_slot :: rcp_server_pending_t where
  "free_slot =
     \<lparr>in_use = False, slot_kind = RCP_SCHED_KIND_STANDARD, slot_request_type = 0,
      slot_transaction_num = 0, slot_sequence = 0, slot_frame = None,
      slot_compound = \<lparr>start_state = 0, next_state = 0, sequencer_index = 0, exec_delay = 0,
                       repeat_count = 0\<rparr>,
      compound_wait_evt = 0, compound_wait_target = None,
      slot_triggered = \<lparr>trigger_source_ep = 0, trigger_signal_nr = 0, trigger_threshold = 0,
                        trigger_exec_delay = 0, trigger_repeat_count = 0\<rparr>,
      triggered_runtime = \<lparr>occurrence_count = 0, started = False\<rparr>,
      presentation_time = 0, chain_exec_delay = 0, slot_cs = 0, chain_group = 0,
      chain_position = 0, armed = False, armed_at = 0, predecessor_done = False,
      has_presentation_gate = False, presentation_gate_ns = 0\<rparr>"

record rcp_server_endpoint_t =
  ep_enable :: bool
  ep_queue :: "rcp_bytes_t list"
  ep_queue_cap :: nat
  pending :: "rcp_server_pending_t list"
  pending_count :: nat
  next_sequence :: u64
  admission_suspended :: bool

datatype rcp_server_admit_t =
    RCP_SERVER_ADMIT_EXECUTE_NOW | RCP_SERVER_ADMIT_QUEUED | RCP_SERVER_ADMIT_PENDING
  | RCP_SERVER_ADMIT_CANCELLATION | RCP_SERVER_ADMIT_REJECTED | RCP_SERVER_ADMIT_SUSPENDED

record rcp_server_tick_ctx_t =
  ctx_now :: u32
  gptp_now :: u64
  gptp_locked :: bool
  sequencers :: "rcp_sequencer_table_t option"
  endpoint_idle :: bool
  in_safe_state :: bool
  current_status :: bytes

record rcp_server_gptp_trigger_state_t =
  has_previous :: bool
  previous_locked :: bool

record server_mem =
  mem_grow :: bool
  mem_copy :: bool
  mem_target :: bool
  mem_ack :: bool

record server_admission =
  adm_result :: rcp_server_admit_t
  adm_request_type :: byte
  adm_index :: "nat option"
  adm_error :: rcp_wire_error_t
  adm_ack :: rcp_bytes_t

section \<open>The queue of a disabled endpoint\<close>

definition rcp_server_endpoint_init :: "bool \<Rightarrow> rcp_server_endpoint_t" where
  "rcp_server_endpoint_init enable =
     \<lparr>ep_enable = enable, ep_queue = [], ep_queue_cap = 0,
      pending = replicate RCP_SERVER_MAX_PENDING free_slot, pending_count = 0, next_sequence = 0,
      admission_suspended = False\<rparr>"

definition rcp_server_endpoint_destroy :: "rcp_server_endpoint_t \<Rightarrow> rcp_server_endpoint_t" where
  "rcp_server_endpoint_destroy ep =
     ep\<lparr>ep_queue := [], ep_queue_cap := 0, pending := replicate RCP_SERVER_MAX_PENDING free_slot,
        pending_count := 0\<rparr>"

text \<open>The configuration requests that a disabled endpoint executes at once.\<close>

definition submit_is_config :: "bytes \<Rightarrow> bool" where
  "submit_is_config frame =
     (if length frame \<ge> 8 then
        let cfg_hdr = rcp_acf_unpack_header frame in
        if bm_evt cfg_hdr AND 0x07 = 0x07 then
          (if bm_msg_type cfg_hdr = RCP_ACF_MSG_TYPE_ABB then True
           else if bm_msg_type cfg_hdr = RCP_ACF_MSG_TYPE_GBB then
             (case rcp_acf_peek_gbb_request_type frame of
                None \<Rightarrow> False
              | Some request_type \<Rightarrow> \<not> rcp_request_type_is_compound_wait request_type)
           else False)
        else False
      else False)"

definition build_store_ack :: "bool \<Rightarrow> bytes \<Rightarrow> bool \<Rightarrow> rcp_bytes_t" where
  "build_store_ack mem frame want_ack =
     (if \<not> want_ack then None
      else if length frame < 8 then None
      else
        let hdr = rcp_acf_unpack_header frame in
        if \<not> rcp_acf_evt_requests_acknowledge (bm_evt hdr) then None
        else rcp_acf_build_acknowledge_response mem (bm_byte_bus_id hdr) (bm_transaction_num hdr))"

text \<open>Whether the caller has to execute the request now, the acknowledge, and the endpoint.  The
  growth of the queue multiplies its capacity by two; \<^verbatim>\<open>rcp_alloc_checked_size\<close> refuses sizes
  that do not fit (an entry has 16 octets).\<close>

definition rcp_server_endpoint_submit ::
    "server_mem \<Rightarrow> rcp_server_endpoint_t \<Rightarrow> bytes \<Rightarrow> bool \<Rightarrow>
     bool \<times> rcp_bytes_t \<times> rcp_server_endpoint_t" where
  "rcp_server_endpoint_submit mem ep frame want_ack =
     (if ep_enable ep then (True, None, ep)
      else if submit_is_config frame then (True, None, ep)
      else
        let new_cap = (if ep_queue_cap ep = 0 then 4 else (ep_queue_cap ep * 2) mod 2 ^ 64);
            full = (length (ep_queue ep) = ep_queue_cap ep)
        in if full \<and> (rcp_alloc_checked_size new_cap 16 = 0 \<or> \<not> mem_grow mem)
           then (False, None, ep)
           else
             (False, build_store_ack (mem_ack mem) frame want_ack,
              ep\<lparr>ep_queue := ep_queue ep @ [rcp_bytes_dup (mem_copy mem) frame],
                 ep_queue_cap := if full then new_cap else ep_queue_cap ep\<rparr>))"

definition rcp_server_endpoint_set_enable ::
    "rcp_server_endpoint_t \<Rightarrow> bool \<Rightarrow> rcp_server_endpoint_t" where
  "rcp_server_endpoint_set_enable ep enable = ep\<lparr>ep_enable := enable\<rparr>"

definition rcp_server_endpoint_set_admission_suspended ::
    "rcp_server_endpoint_t \<Rightarrow> bool \<Rightarrow> rcp_server_endpoint_t" where
  "rcp_server_endpoint_set_admission_suspended ep suspended = ep\<lparr>admission_suspended := suspended\<rparr>"

definition rcp_server_endpoint_drain_one ::
    "rcp_server_endpoint_t \<Rightarrow> (rcp_bytes_t \<times> rcp_server_endpoint_t) option" where
  "rcp_server_endpoint_drain_one ep =
     (if \<not> ep_enable ep then None
      else
        case ep_queue ep of
          [] \<Rightarrow> None
        | f # fs \<Rightarrow> Some (f, ep\<lparr>ep_queue := fs\<rparr>))"

definition rcp_server_endpoint_queue_len :: "rcp_server_endpoint_t \<Rightarrow> nat" where
  "rcp_server_endpoint_queue_len ep = length (ep_queue ep)"

section \<open>The conditional-request store\<close>

definition release_slot :: "rcp_server_endpoint_t \<Rightarrow> nat \<Rightarrow> rcp_server_endpoint_t" where
  "release_slot ep i =
     ep\<lparr>pending := (pending ep)[i := free_slot], pending_count := pending_count ep - 1\<rparr>"

definition claim_slot :: "rcp_server_endpoint_t \<Rightarrow> (nat \<times> rcp_server_endpoint_t) option" where
  "claim_slot ep =
     (case find_index (\<lambda>s. \<not> in_use s) (pending ep) of
        None \<Rightarrow> None
      | Some i \<Rightarrow>
          Some (i, ep\<lparr>pending := (pending ep)[i := free_slot\<lparr>in_use := True,
                                                          slot_sequence := next_sequence ep\<rparr>],
                      next_sequence := next_sequence ep + 1,
                      pending_count := pending_count ep + 1\<rparr>))"

text \<open>Replaces the contents of a claimed slot.\<close>

definition set_slot :: "rcp_server_endpoint_t \<Rightarrow> nat \<Rightarrow> rcp_server_pending_t \<Rightarrow> rcp_server_endpoint_t" where
  "set_slot ep i s = ep\<lparr>pending := (pending ep)[i := s]\<rparr>"

definition admit_under_tscf_gate ::
    "server_mem \<Rightarrow> rcp_server_endpoint_t \<Rightarrow> bytes \<Rightarrow> u32 \<Rightarrow> u64 \<Rightarrow> rcp_sched_kind_t \<Rightarrow> byte \<Rightarrow> bool \<Rightarrow>
     byte \<Rightarrow> server_admission \<times> rcp_server_endpoint_t" where
  "admit_under_tscf_gate mem ep frame now gate kind request_type want_ack out_request_type =
     (let rejected = \<lparr>adm_result = RCP_SERVER_ADMIT_REJECTED, adm_request_type = out_request_type,
                      adm_index = None, adm_error = RCP_ERROR_NONE, adm_ack = None\<rparr> in
      case claim_slot ep of
        None \<Rightarrow> (rejected, ep)
      | Some (i, ep) \<Rightarrow>
          let copy = rcp_bytes_dup (mem_copy mem) frame;
              slot = (pending ep ! i)\<lparr>slot_kind := kind, slot_request_type := request_type,
                                      has_presentation_gate := True, presentation_gate_ns := gate,
                                      armed_at := now, slot_frame := copy\<rparr>
          in if copy = None \<and> length frame > 0 then (rejected, release_slot ep i)
             else (rejected\<lparr>adm_result := RCP_SERVER_ADMIT_PENDING, adm_index := Some i,
                            adm_ack := build_store_ack (mem_ack mem) frame want_ack\<rparr>,
                   set_slot ep i slot))"

text \<open>The decoding switch: the slot with its kind's fields, or the error code of a rejection.\<close>

definition admit_decode ::
    "server_mem \<Rightarrow> rcp_sched_kind_t \<Rightarrow> bytes \<Rightarrow> rcp_server_pending_t \<Rightarrow>
     rcp_wire_error_t + rcp_server_pending_t" where
  "admit_decode mem kind frame slot =
     (if kind = RCP_SCHED_KIND_COMPOUND \<or> kind = RCP_SCHED_KIND_COMPOUND_WAIT then
        (case rcp_compound_decode_request frame of
           Inl _ \<Rightarrow> Inl RCP_ERROR_NONE
         | Inr ((rt, bus, step, evt, tn), payload) \<Rightarrow>
             let slot = slot\<lparr>slot_compound := step\<rparr> in
             if kind = RCP_SCHED_KIND_COMPOUND_WAIT then
               (if \<not> rcp_acf_compound_wait_evt_valid evt then Inl RCP_ERROR_UNSUPPORTED_CMD
                else
                  let target = rcp_bytes_dup (mem_target mem) payload in
                  if target = None \<and> length payload > 0 then Inl RCP_ERROR_NONE
                  else Inr (slot\<lparr>compound_wait_evt := evt, compound_wait_target := target,
                                 slot_transaction_num := tn\<rparr>))
             else Inr (slot\<lparr>slot_transaction_num := tn\<rparr>))
      else if kind = RCP_SCHED_KIND_TRIGGERED then
        (case rcp_triggered_decode_request frame of
           Inl _ \<Rightarrow> Inl RCP_ERROR_NONE
         | Inr ((rt, bus, step, tn), payload) \<Rightarrow>
             Inr (slot\<lparr>slot_triggered := step, slot_transaction_num := tn,
                       triggered_runtime :=
                         rcp_triggered_runtime_enter_started (triggered_runtime slot)\<rparr>))
      else if kind = RCP_SCHED_KIND_TIMED then
        (case rcp_timed_decode_request frame of
           Inl _ \<Rightarrow> Inl RCP_ERROR_NONE
         | Inr ((bus, pt, tn), payload) \<Rightarrow>
             Inr (slot\<lparr>presentation_time := pt, slot_transaction_num := tn\<rparr>))
      else if kind = RCP_SCHED_KIND_CHAINED then
        (case rcp_chained_decode_member frame of
           Inl _ \<Rightarrow> Inl RCP_ERROR_NONE
         | Inr ((bus, delay, cs, tn), payload) \<Rightarrow>
             Inr (slot\<lparr>chain_exec_delay := delay, slot_cs := cs, slot_transaction_num := tn\<rparr>))
      else Inl RCP_ERROR_NONE)"

text \<open>The path of a standard request without presentation time.\<close>

definition admit_submit ::
    "server_mem \<Rightarrow> rcp_server_endpoint_t \<Rightarrow> bytes \<Rightarrow> bool \<Rightarrow> server_admission \<times> rcp_server_endpoint_t"
  where
  "admit_submit mem ep frame want_ack =
     (let (execute, ack, ep') = rcp_server_endpoint_submit mem ep frame want_ack in
      (\<lparr>adm_result = if execute then RCP_SERVER_ADMIT_EXECUTE_NOW else RCP_SERVER_ADMIT_QUEUED,
        adm_request_type = 0, adm_index = None, adm_error = RCP_ERROR_NONE, adm_ack = ack\<rparr>, ep'))"

text \<open>The path of a conditional request into the store.\<close>

definition admit_conditional ::
    "server_mem \<Rightarrow> rcp_server_endpoint_t \<Rightarrow> bytes \<Rightarrow> u32 \<Rightarrow> bool \<Rightarrow> u64 \<Rightarrow> rcp_sched_kind_t \<Rightarrow> byte \<Rightarrow> bool \<Rightarrow>
     server_admission \<times> rcp_server_endpoint_t" where
  "admit_conditional mem ep frame now tv_bit gate kind request_type want_ack =
     (let rejected = \<lparr>adm_result = RCP_SERVER_ADMIT_REJECTED, adm_request_type = request_type,
                      adm_index = None, adm_error = RCP_ERROR_NONE, adm_ack = None\<rparr> in
      case claim_slot ep of
        None \<Rightarrow> (rejected\<lparr>adm_error := RCP_ERROR_REQUEST_STORAGE_OVERFLOW\<rparr>, ep)
      | Some (i, ep) \<Rightarrow>
          (case admit_decode mem kind frame
                  ((pending ep ! i)\<lparr>slot_kind := kind, slot_request_type := request_type\<rparr>) of
             Inl e \<Rightarrow> (rejected\<lparr>adm_error := e\<rparr>, release_slot ep i)
           | Inr slot \<Rightarrow>
               let copy = rcp_bytes_dup (mem_copy mem) frame;
                   slot = slot\<lparr>has_presentation_gate := tv_bit, presentation_gate_ns := gate,
                               armed_at := now, slot_frame := copy\<rparr>
               in if copy = None \<and> length frame > 0 then (rejected, release_slot ep i)
                  else (rejected\<lparr>adm_result := RCP_SERVER_ADMIT_PENDING, adm_index := Some i,
                                 adm_ack := build_store_ack (mem_ack mem) frame want_ack\<rparr>,
                        set_slot ep i slot)))"

definition rcp_server_endpoint_admit_with_ack ::
    "server_mem \<Rightarrow> rcp_server_endpoint_t \<Rightarrow> bytes \<Rightarrow> u32 \<Rightarrow> bool \<Rightarrow> u32 \<Rightarrow> u64 \<Rightarrow> bool \<Rightarrow>
     server_admission \<times> rcp_server_endpoint_t" where
  "rcp_server_endpoint_admit_with_ack mem ep frame now tv_bit ts gptp_reference_now want_ack =
     (let gate = (if tv_bit then rcp_avtp_extend_timestamp ts gptp_reference_now else 0);
          plain = \<lparr>adm_result = RCP_SERVER_ADMIT_SUSPENDED, adm_request_type = 0, adm_index = None,
                   adm_error = RCP_ERROR_NONE, adm_ack = None\<rparr>;
          standard =
            (if tv_bit then
               admit_under_tscf_gate mem ep frame now gate RCP_SCHED_KIND_STANDARD 0 want_ack 0
             else admit_submit mem ep frame want_ack)
      in if admission_suspended ep then (plain, ep)
         else if length frame \<ge> 8 \<and> \<not> rcp_acf_header_is_request (rcp_acf_unpack_header frame)
         then (plain\<lparr>adm_result := RCP_SERVER_ADMIT_REJECTED,
                     adm_error := RCP_ERROR_INVALID_PARAMETER\<rparr>, ep)
         else
           case rcp_compound_peek_request_type frame of
             Inl _ \<Rightarrow> standard
           | Inr request_type \<Rightarrow>
               let kind = rcp_sched_classify True request_type in
               if kind = RCP_SCHED_KIND_STANDARD then standard
               else if kind = RCP_SCHED_KIND_CANCELLATION then
                 (if tv_bit then
                    admit_under_tscf_gate mem ep frame now gate RCP_SCHED_KIND_CANCELLATION
                      request_type want_ack request_type
                  else (plain\<lparr>adm_result := RCP_SERVER_ADMIT_CANCELLATION,
                              adm_request_type := request_type\<rparr>, ep))
               else admit_conditional mem ep frame now tv_bit gate kind request_type want_ack)"

definition rcp_server_endpoint_admit ::
    "server_mem \<Rightarrow> rcp_server_endpoint_t \<Rightarrow> bytes \<Rightarrow> u32 \<Rightarrow> bool \<Rightarrow> u32 \<Rightarrow> u64 \<Rightarrow>
     server_admission \<times> rcp_server_endpoint_t" where
  "rcp_server_endpoint_admit mem ep frame now tv_bit ts gptp_reference_now =
     rcp_server_endpoint_admit_with_ack mem ep frame now tv_bit ts gptp_reference_now False"

section \<open>Ticks\<close>

definition start_condition_holds :: "rcp_server_pending_t \<Rightarrow> rcp_server_tick_ctx_t \<Rightarrow> bool" where
  "start_condition_holds slot ctx =
     (case slot_kind slot of
        RCP_SCHED_KIND_COMPOUND \<Rightarrow>
          (case sequencers ctx of None \<Rightarrow> False
           | Some t \<Rightarrow> rcp_compound_start_condition_met t (slot_compound slot))
      | RCP_SCHED_KIND_COMPOUND_WAIT \<Rightarrow>
          (case sequencers ctx of None \<Rightarrow> False
           | Some t \<Rightarrow> rcp_compound_start_condition_met t (slot_compound slot))
      | RCP_SCHED_KIND_TRIGGERED \<Rightarrow>
          rcp_triggered_threshold_reached (slot_triggered slot) (triggered_runtime slot)
      | RCP_SCHED_KIND_TIMED \<Rightarrow> True
      | RCP_SCHED_KIND_CHAINED \<Rightarrow> predecessor_done slot
      | RCP_SCHED_KIND_STANDARD \<Rightarrow> True
      | RCP_SCHED_KIND_CANCELLATION \<Rightarrow> True)"

definition arm_if_startable ::
    "rcp_server_pending_t \<Rightarrow> rcp_server_tick_ctx_t \<Rightarrow> bool \<times> rcp_server_pending_t" where
  "arm_if_startable slot ctx =
     (if armed slot then (True, slot)
      else if \<not> start_condition_holds slot ctx then (False, slot)
      else
        (True, if slot_kind slot \<noteq> RCP_SCHED_KIND_CHAINED
               then slot\<lparr>armed := True, armed_at := ctx_now ctx\<rparr> else slot\<lparr>armed := True\<rparr>))"

definition auxiliary_condition_met :: "rcp_server_pending_t \<Rightarrow> rcp_server_tick_ctx_t \<Rightarrow> bool" where
  "auxiliary_condition_met slot ctx =
     (case slot_kind slot of
        RCP_SCHED_KIND_COMPOUND_WAIT \<Rightarrow>
          rcp_acf_compound_wait_match (compound_wait_evt slot)
            (rcp_bytes_data (compound_wait_target slot)) (current_status ctx)
      | RCP_SCHED_KIND_COMPOUND \<Rightarrow> endpoint_idle ctx
      | RCP_SCHED_KIND_TRIGGERED \<Rightarrow> endpoint_idle ctx
      | RCP_SCHED_KIND_CHAINED \<Rightarrow> endpoint_idle ctx
      | RCP_SCHED_KIND_TIMED \<Rightarrow> gptp_locked ctx
      | _ \<Rightarrow> True)"

definition delay_expired :: "rcp_server_pending_t \<Rightarrow> rcp_server_tick_ctx_t \<Rightarrow> u32 \<Rightarrow> bool" where
  "delay_expired slot ctx elapsed =
     (case slot_kind slot of
        RCP_SCHED_KIND_COMPOUND \<Rightarrow> rcp_compound_exec_delay_elapsed (slot_compound slot) elapsed
      | RCP_SCHED_KIND_COMPOUND_WAIT \<Rightarrow> rcp_compound_exec_delay_elapsed (slot_compound slot) elapsed
      | RCP_SCHED_KIND_TRIGGERED \<Rightarrow> rcp_triggered_exec_delay_elapsed (slot_triggered slot) elapsed
      | RCP_SCHED_KIND_TIMED \<Rightarrow> rcp_timed_due (presentation_time slot) (gptp_now ctx)
      | RCP_SCHED_KIND_CHAINED \<Rightarrow> rcp_chained_exec_delay_elapsed (chain_exec_delay slot) elapsed
      | RCP_SCHED_KIND_STANDARD \<Rightarrow> True
      | RCP_SCHED_KIND_CANCELLATION \<Rightarrow> True)"

definition kind_is_gated_by_ep_enable :: "rcp_sched_kind_t \<Rightarrow> bool" where
  "kind_is_gated_by_ep_enable kind \<longleftrightarrow>
     kind \<in> {RCP_SCHED_KIND_COMPOUND, RCP_SCHED_KIND_COMPOUND_WAIT, RCP_SCHED_KIND_TRIGGERED,
             RCP_SCHED_KIND_TIMED, RCP_SCHED_KIND_CHAINED}"

text \<open>\<open>enabled\<close> is \<^verbatim>\<open>ep->ep_enable\<close>; the slot is returned because evaluating it may arm it.\<close>

definition is_due ::
    "rcp_server_pending_t \<Rightarrow> bool \<Rightarrow> rcp_server_tick_ctx_t \<Rightarrow> bool \<times> rcp_server_pending_t" where
  "is_due slot enabled ctx =
     (if \<not> enabled \<and> kind_is_gated_by_ep_enable (slot_kind slot) then (False, slot)
      else if \<not> rcp_e2e_request_may_execute (slot_request_type slot) (in_safe_state ctx)
      then (False, slot)
      else if has_presentation_gate slot \<and>
              \<not> (gptp_locked ctx \<and> rcp_timed_due (presentation_gate_ns slot) (gptp_now ctx))
      then (False, slot)
      else
        let (startable, slot) = arm_if_startable slot ctx in
        if \<not> startable then (False, slot)
        else if \<not> auxiliary_condition_met slot ctx then (False, slot)
        else (delay_expired slot ctx (ctx_now ctx - armed_at slot), slot))"

text \<open>The selection loop from slot \<open>i\<close> on: the slots after it and the best candidate so far.\<close>

fun select_due_from ::
    "bool \<Rightarrow> rcp_server_tick_ctx_t \<Rightarrow> nat \<Rightarrow> rcp_server_pending_t list \<Rightarrow>
     (nat \<times> rcp_sched_entry_t) option \<Rightarrow>
     rcp_server_pending_t list \<times> (nat \<times> rcp_sched_entry_t) option" where
  "select_due_from enabled ctx i [] best = ([], best)"
| "select_due_from enabled ctx i (s # ss) best =
     (if \<not> in_use s then
        (let (ss', r) = select_due_from enabled ctx (i + 1) ss best in (s # ss', r))
      else
        let (due, s') = is_due s enabled ctx in
        if \<not> due then
          (let (ss', r) = select_due_from enabled ctx (i + 1) ss best in (s' # ss', r))
        else
          let entry = \<lparr>entry_kind = slot_kind s', entry_sequence = slot_sequence s'\<rparr>;
              best' = (case best of
                         None \<Rightarrow> Some (i, entry)
                       | Some (b, best_entry) \<Rightarrow>
                           if rcp_sched_compare entry best_entry < 0 then Some (i, entry) else best);
              (ss', r) = select_due_from enabled ctx (i + 1) ss best'
          in (s' # ss', r))"

definition rcp_server_endpoint_select_due ::
    "rcp_server_endpoint_t \<Rightarrow> rcp_server_tick_ctx_t \<Rightarrow> nat option \<times> rcp_server_endpoint_t" where
  "rcp_server_endpoint_select_due ep ctx =
     (let (slots, best) = select_due_from (ep_enable ep) ctx 0 (pending ep) None
      in (map_option fst best, ep\<lparr>pending := slots\<rparr>))"

text \<open>What happens to a slot with a repetition counter after an execution: \<^const>\<open>None\<close> when it is
  released, otherwise the counter left.\<close>

definition repeat_left :: "u16 \<Rightarrow> u16 option" where
  "repeat_left repeat =
     (if repeat = RCP_COMPOUND_REPEAT_INFINITE then Some repeat
      else if repeat = 0 then None
      else Some (repeat - 1))"

definition rcp_server_endpoint_complete ::
    "rcp_server_endpoint_t \<Rightarrow> nat \<Rightarrow> rcp_server_tick_ctx_t \<Rightarrow>
     bool \<times> rcp_server_endpoint_t \<times> rcp_sequencer_table_t option" where
  "rcp_server_endpoint_complete ep index ctx =
     (if index \<ge> RCP_SERVER_MAX_PENDING then (False, ep, sequencers ctx)
      else
        let slot = pending ep ! index; elapsed = ctx_now ctx - armed_at slot in
        if \<not> in_use slot then (False, ep, sequencers ctx)
        else
          case slot_kind slot of
            RCP_SCHED_KIND_COMPOUND \<Rightarrow>
              (let seqs = map_option (\<lambda>t. snd (rcp_compound_tick t (slot_compound slot) elapsed))
                            (sequencers ctx) in
               case repeat_left (repeat_count (slot_compound slot)) of
                 None \<Rightarrow> (False, release_slot ep index, seqs)
               | Some n \<Rightarrow>
                   (True, set_slot ep index
                            (slot\<lparr>slot_compound := (slot_compound slot)\<lparr>repeat_count := n\<rparr>,
                                  armed := False, armed_at := ctx_now ctx\<rparr>), seqs))
          | RCP_SCHED_KIND_COMPOUND_WAIT \<Rightarrow>
              (let seqs = map_option (\<lambda>t. snd (rcp_compound_wait_tick t (slot_compound slot)
                              (rcp_acf_compound_wait_match (compound_wait_evt slot)
                                 (rcp_bytes_data (compound_wait_target slot)) (current_status ctx))))
                            (sequencers ctx) in
               case repeat_left (repeat_count (slot_compound slot)) of
                 None \<Rightarrow> (False, release_slot ep index, seqs)
               | Some n \<Rightarrow>
                   (True, set_slot ep index
                            (slot\<lparr>slot_compound := (slot_compound slot)\<lparr>repeat_count := n\<rparr>,
                                  armed := False, armed_at := ctx_now ctx\<rparr>), seqs))
          | RCP_SCHED_KIND_TRIGGERED \<Rightarrow>
              (let rt = snd (rcp_triggered_tick (slot_triggered slot) (triggered_runtime slot)
                               elapsed True) in
               case repeat_left (trigger_repeat_count (slot_triggered slot)) of
                 None \<Rightarrow> (False, release_slot ep index, sequencers ctx)
               | Some n \<Rightarrow>
                   (True, set_slot ep index
                            (slot\<lparr>slot_triggered := (slot_triggered slot)\<lparr>trigger_repeat_count := n\<rparr>,
                                  armed := False, armed_at := ctx_now ctx,
                                  triggered_runtime := rcp_triggered_runtime_enter_started rt\<rparr>),
                    sequencers ctx))
          | _ \<Rightarrow> (False, release_slot ep index, sequencers ctx))"

section \<open>Events\<close>

fun notify_slots :: "byte \<Rightarrow> byte \<Rightarrow> rcp_server_pending_t list \<Rightarrow> nat \<times> rcp_server_pending_t list" where
  "notify_slots source_ep signal_nr [] = (0, [])"
| "notify_slots source_ep signal_nr (s # ss) =
     (let (matched, ss') = notify_slots source_ep signal_nr ss in
      if \<not> in_use s then (matched, s # ss')
      else if slot_kind s \<noteq> RCP_SCHED_KIND_TRIGGERED then (matched, s # ss')
      else
        let (hit, rt) = rcp_triggered_runtime_record_occurrence (triggered_runtime s)
                          (slot_triggered s) source_ep signal_nr
        in (if hit then matched + 1 else matched, s\<lparr>triggered_runtime := rt\<rparr> # ss'))"

definition rcp_server_endpoint_notify_trigger ::
    "rcp_server_endpoint_t \<Rightarrow> byte \<Rightarrow> byte \<Rightarrow> nat \<times> rcp_server_endpoint_t" where
  "rcp_server_endpoint_notify_trigger ep source_ep signal_nr =
     (let (matched, slots) = notify_slots source_ep signal_nr (pending ep)
      in (matched, ep\<lparr>pending := slots\<rparr>))"

definition rcp_server_gptp_trigger_state_init :: rcp_server_gptp_trigger_state_t where
  "rcp_server_gptp_trigger_state_init = \<lparr>has_previous = False, previous_locked = False\<rparr>"

definition rcp_server_gptp_trigger_evaluate ::
    "rcp_server_gptp_trigger_state_t \<Rightarrow> bool \<Rightarrow> byte option \<times> rcp_server_gptp_trigger_state_t" where
  "rcp_server_gptp_trigger_evaluate s locked =
     (if has_previous s \<and> locked \<noteq> previous_locked s
      then Some (if locked then RCP_SERVER_GPTP_TRIGGER_ESTABLISHED else RCP_SERVER_GPTP_TRIGGER_LOST)
      else None,
      \<lparr>has_previous = True, previous_locked = locked\<rparr>)"

definition rcp_server_endpoint_chain_predecessor_done ::
    "rcp_server_endpoint_t \<Rightarrow> nat \<Rightarrow> u32 \<Rightarrow> bool \<times> rcp_server_endpoint_t" where
  "rcp_server_endpoint_chain_predecessor_done ep index now =
     (if index \<ge> RCP_SERVER_MAX_PENDING then (False, ep)
      else
        let slot = pending ep ! index in
        if \<not> in_use slot \<or> slot_kind slot \<noteq> RCP_SCHED_KIND_CHAINED then (False, ep)
        else (True, set_slot ep index (slot\<lparr>predecessor_done := True, armed_at := now\<rparr>)))"

text \<open>The dispatcher of frames (\<^verbatim>\<open>mock.c\<close>) tags the request it has just stored as a link of a chain: it
  looks for the stored request with the highest arrival number and writes the chain group and the
  position straight into its slot.\<close>

fun last_pending_loop :: "rcp_server_pending_t list \<Rightarrow> nat \<Rightarrow> nat \<Rightarrow> u64 \<Rightarrow> nat" where
  "last_pending_loop [] i best max_seq = best"
| "last_pending_loop (s # ss) i best max_seq =
     (if \<not> in_use s then last_pending_loop ss (i + 1) best max_seq
      else if best = RCP_SERVER_MAX_PENDING \<or> slot_sequence s \<ge> max_seq
      then last_pending_loop ss (i + 1) i (slot_sequence s)
      else last_pending_loop ss (i + 1) best max_seq)"

definition last_pending_index :: "rcp_server_endpoint_t \<Rightarrow> nat" where
  "last_pending_index ep = last_pending_loop (pending ep) 0 RCP_SERVER_MAX_PENDING 0"

definition link_last_pending :: "rcp_server_endpoint_t \<Rightarrow> u32 \<Rightarrow> byte \<Rightarrow> rcp_server_endpoint_t" where
  "link_last_pending ep grp position =
     (let last = last_pending_index ep;
          ep = snd (rcp_server_endpoint_chain_predecessor_done ep last 0)
      in if last < RCP_SERVER_MAX_PENDING
         then set_slot ep last ((pending ep ! last)\<lparr>chain_group := grp, chain_position := position\<rparr>)
         else ep)"

definition rcp_server_endpoint_pending_count :: "rcp_server_endpoint_t \<Rightarrow> nat" where
  "rcp_server_endpoint_pending_count ep = pending_count ep"

section \<open>Cancellation and purge\<close>

text \<open>The loops that release every stored request with a given property, from slot \<open>i\<close> on, \<open>n\<close>
  slots left; they return how many they removed.\<close>

fun release_loop ::
    "(rcp_server_pending_t \<Rightarrow> bool) \<Rightarrow> rcp_server_endpoint_t \<Rightarrow> nat \<Rightarrow> nat \<Rightarrow> nat \<times> rcp_server_endpoint_t"
  where
  "release_loop P ep i 0 = (0, ep)"
| "release_loop P ep i (Suc n) =
     (if \<not> in_use (pending ep ! i) then release_loop P ep (i + 1) n
      else if \<not> P (pending ep ! i) then release_loop P ep (i + 1) n
      else
        let (removed, ep') = release_loop P (release_slot ep i) (i + 1) n
        in (removed + 1, ep'))"

definition rcp_server_endpoint_cancel_all :: "rcp_server_endpoint_t \<Rightarrow> nat \<times> rcp_server_endpoint_t" where
  "rcp_server_endpoint_cancel_all ep = release_loop (\<lambda>s. True) ep 0 RCP_SERVER_MAX_PENDING"

definition rcp_server_endpoint_cancel_single ::
    "rcp_server_endpoint_t \<Rightarrow> byte \<Rightarrow> rcp_cancel_lifecycle_t \<Rightarrow>
     rcp_cancel_result_t \<times> rcp_server_endpoint_t" where
  "rcp_server_endpoint_cancel_single ep clear_transaction_num state =
     (let hit = find_index (\<lambda>s. in_use s \<and> slot_transaction_num s = clear_transaction_num) (pending ep);
          result = rcp_cancel_attempt (hit \<noteq> None) state
      in (result,
          case hit of
            Some i \<Rightarrow> if result = RCP_CANCEL_RESULT_CANCELED then release_slot ep i else ep
          | None \<Rightarrow> ep))"

definition purge_non_safety :: "rcp_server_endpoint_t \<Rightarrow> nat \<times> rcp_server_endpoint_t" where
  "purge_non_safety ep =
     release_loop (\<lambda>s. \<not> rcp_e2e_watchdog_purge_should_keep (slot_request_type s)) ep 0
       RCP_SERVER_MAX_PENDING"

definition rcp_server_endpoint_cancel_non_safestate ::
    "rcp_server_endpoint_t \<Rightarrow> nat \<times> rcp_server_endpoint_t" where
  "rcp_server_endpoint_cancel_non_safestate ep = purge_non_safety ep"

definition rcp_server_endpoint_watchdog_purge ::
    "rcp_server_endpoint_t \<Rightarrow> nat \<times> rcp_server_endpoint_t" where
  "rcp_server_endpoint_watchdog_purge ep = purge_non_safety ep"

definition rcp_server_endpoint_cancel_chain_from ::
    "rcp_server_endpoint_t \<Rightarrow> u32 \<Rightarrow> byte \<Rightarrow> nat \<times> rcp_server_endpoint_t" where
  "rcp_server_endpoint_cancel_chain_from ep grp min_position =
     (if grp = 0 then (0, ep)
      else release_loop (\<lambda>s. chain_group s = grp \<and>
             rcp_cancel_chain_should_cascade (chain_position s) min_position) ep 0
             RCP_SERVER_MAX_PENDING)"

section \<open>The store as a slot store\<close>

lemma free_slot_unused [simp]: "\<not> in_use free_slot"
  by (simp add: free_slot_def)

interpretation store: slot_store pending in_use slot_sequence free_slot pending_count next_sequence
  claim_slot release_slot set_slot
proof unfold_locales
  fix s i s'
  show "\<not> in_use free_slot" by simp
  show "claim_slot s = None \<longleftrightarrow> (\<forall>x\<in>set (pending s). in_use x)"
  proof -
    have "claim_slot s = None \<longleftrightarrow> find_index (\<lambda>x. \<not> in_use x) (pending s) = None"
      by (simp add: claim_slot_def split: option.split)
    then show ?thesis by (simp add: find_index_None)
  qed
  assume "claim_slot s = Some (i, s')"
  then show "i < length (pending s) \<and> \<not> in_use (pending s ! i) \<and>
      (\<exists>x. in_use x \<and> slot_sequence x = next_sequence s \<and> pending s' = (pending s)[i := x]) \<and>
      pending_count s' = pending_count s + 1 \<and> next_sequence s' = next_sequence s + 1"
    by (auto simp: claim_slot_def dest: find_index_SomeD split: option.splits
        intro!: exI [of _ "free_slot\<lparr>in_use := True, slot_sequence := next_sequence s\<rparr>"])
qed (simp_all add: release_slot_def set_slot_def)

definition server_ok :: "rcp_server_endpoint_t \<Rightarrow> bool" where
  "server_ok ep \<longleftrightarrow> store.store_ok ep \<and> length (pending ep) = RCP_SERVER_MAX_PENDING"

lemma server_ok_init: "server_ok (rcp_server_endpoint_init e)"
  by (simp add: server_ok_def store.store_ok_def rcp_server_endpoint_init_def)

lemma store_ok_cong:
  "pending a = pending b \<Longrightarrow> pending_count a = pending_count b \<Longrightarrow> next_sequence a = next_sequence b \<Longrightarrow>
   store.store_ok a = store.store_ok b"
  by (simp add: store.store_ok_def)

lemma server_ok_put:
  "server_ok ep \<Longrightarrow> i < RCP_SERVER_MAX_PENDING \<Longrightarrow> in_use (pending ep ! i) \<Longrightarrow> in_use s \<Longrightarrow>
   slot_sequence s = slot_sequence (pending ep ! i) \<Longrightarrow> server_ok (set_slot ep i s)"
  by (simp add: server_ok_def store.put_ok store.put_slots)

lemma server_ok_release:
  "server_ok ep \<Longrightarrow> i < RCP_SERVER_MAX_PENDING \<Longrightarrow> in_use (pending ep ! i) \<Longrightarrow> server_ok (release_slot ep i)"
  by (simp add: server_ok_def store.release_ok store.release_slots)

lemma claim_slot_eq:
  "claim_slot ep = Some (i, ep') \<Longrightarrow>
   i < length (pending ep) \<and> \<not> in_use (pending ep ! i) \<and>
   ep' = ep\<lparr>pending := (pending ep)[i := free_slot\<lparr>in_use := True, slot_sequence := next_sequence ep\<rparr>],
            next_sequence := next_sequence ep + 1, pending_count := pending_count ep + 1\<rparr>"
  by (auto simp: claim_slot_def dest: find_index_SomeD split: option.splits)

lemma claim_slot_ok:
  assumes "server_ok ep" and "claim_slot ep = Some (i, ep')" and "next_sequence ep \<noteq> - 1"
  shows "server_ok ep'" and "i < RCP_SERVER_MAX_PENDING" and "in_use (pending ep' ! i)"
    and "slot_sequence (pending ep' ! i) = next_sequence ep"
    and "pending (release_slot ep' i) = pending ep" and "pending_count (release_slot ep' i) = pending_count ep"
proof -
  have ok: "store.store_ok ep" and len: "length (pending ep) = RCP_SERVER_MAX_PENDING"
    using assms(1) by (simp_all add: server_ok_def)
  note c = claim_slot_eq [OF assms(2)]
  show "server_ok ep'" using store.claim_ok(1) [OF ok assms(2,3)] c len by (simp add: server_ok_def)
  show "i < RCP_SERVER_MAX_PENDING" using c len by simp
  show "in_use (pending ep' ! i)" "slot_sequence (pending ep' ! i) = next_sequence ep"
    using store.claim_ok [OF ok assms(2,3)] by simp_all
  show "pending (release_slot ep' i) = pending ep" by (rule store.claim_release [OF ok assms(2)])
  show "pending_count (release_slot ep' i) = pending_count ep"
    using c by (simp add: release_slot_def)
qed

end
