(* ===== verification/Server_Store.thy ===== *)
theory Server_Store
  imports Server
begin

text \<open>
  The request store of \<^verbatim>\<open>src/server.c\<close>: what a tick selects, what the releasing loops remove,
  the outcomes of an admission, and the invariant of every endpoint that operations can reach
  (\<open>server_reach\<close>).  The lemmas rest on the interpretation of \<open>slot_store\<close>.
\<close>

section \<open>Selection\<close>

definition slot_entry :: "rcp_server_pending_t \<Rightarrow> rcp_sched_entry_t" where
  "slot_entry s = \<lparr>entry_kind = slot_kind s, entry_sequence = slot_sequence s\<rparr>"

text \<open>The gates that do not depend on the kind's own condition.\<close>

definition slot_permitted :: "bool \<Rightarrow> rcp_server_tick_ctx_t \<Rightarrow> rcp_server_pending_t \<Rightarrow> bool" where
  "slot_permitted enabled ctx s \<longleftrightarrow>
     (enabled \<or> \<not> kind_is_gated_by_ep_enable (slot_kind s)) \<and>
     rcp_e2e_request_may_execute (slot_request_type s) (in_safe_state ctx) \<and>
     (has_presentation_gate s \<longrightarrow>
        gptp_locked ctx \<and> rcp_timed_due (presentation_gate_ns s) (gptp_now ctx))"

definition armed_slot :: "rcp_server_tick_ctx_t \<Rightarrow> rcp_server_pending_t \<Rightarrow> rcp_server_pending_t" where
  "armed_slot ctx s =
     (if \<not> armed s \<and> start_condition_holds s ctx
      then s\<lparr>armed := True,
             armed_at := if slot_kind s = RCP_SCHED_KIND_CHAINED then armed_at s else ctx_now ctx\<rparr>
      else s)"

lemma armed_slot_keeps [simp]:
  "in_use (armed_slot ctx s) = in_use s" "slot_kind (armed_slot ctx s) = slot_kind s"
  "slot_sequence (armed_slot ctx s) = slot_sequence s"
  "slot_request_type (armed_slot ctx s) = slot_request_type s"
  by (simp_all add: armed_slot_def)

lemma arm_eq: "arm_if_startable s ctx = (armed s \<or> start_condition_holds s ctx, armed_slot ctx s)"
  by (simp add: arm_if_startable_def armed_slot_def)

lemma aux_armed: "auxiliary_condition_met (armed_slot ctx s) ctx = auxiliary_condition_met s ctx"
  by (cases "slot_kind s") (simp_all add: auxiliary_condition_met_def armed_slot_def)

lemma delay_armed: "delay_expired (armed_slot ctx s) ctx n = delay_expired s ctx n"
  by (cases "slot_kind s") (simp_all add: delay_expired_def armed_slot_def)

lemma is_due_eq:
  "is_due s enabled ctx =
     (slot_permitted enabled ctx s \<and> (armed s \<or> start_condition_holds s ctx) \<and>
      auxiliary_condition_met s ctx \<and>
      delay_expired s ctx (ctx_now ctx - armed_at (armed_slot ctx s)),
      if slot_permitted enabled ctx s then armed_slot ctx s else s)"
  unfolding is_due_def arm_eq Let_def prod.case aux_armed delay_armed
  by (auto simp: slot_permitted_def)

definition slot_due :: "bool \<Rightarrow> rcp_server_tick_ctx_t \<Rightarrow> rcp_server_pending_t \<Rightarrow> bool" where
  "slot_due enabled ctx s \<longleftrightarrow> in_use s \<and> fst (is_due s enabled ctx)"

definition slot_after :: "bool \<Rightarrow> rcp_server_tick_ctx_t \<Rightarrow> rcp_server_pending_t \<Rightarrow> rcp_server_pending_t" where
  "slot_after enabled ctx s = (if in_use s then snd (is_due s enabled ctx) else s)"

lemma slot_after_keeps [simp]:
  "in_use (slot_after e ctx s) = in_use s" "slot_kind (slot_after e ctx s) = slot_kind s"
  "slot_sequence (slot_after e ctx s) = slot_sequence s"
  by (simp_all add: slot_after_def is_due_eq)

lemma select_from_slots:
  "fst (select_due_from enabled ctx i ss best) = map (slot_after enabled ctx) ss"
proof (induction ss arbitrary: i best)
  case (Cons s ss)
  obtain d s' where d: "is_due s enabled ctx = (d, s')" by fastforce
  then have a: "slot_after enabled ctx s = (if in_use s then s' else s)" by (simp add: slot_after_def)
  show ?case
    by (cases "in_use s"; cases d) (simp_all add: d a Let_def case_prod_unfold Cons.IH)
qed simp

text \<open>The candidates of the loop: index and entry of the due slots.\<close>

fun due_from :: "bool \<Rightarrow> rcp_server_tick_ctx_t \<Rightarrow> nat \<Rightarrow> rcp_server_pending_t list \<Rightarrow> (nat \<times> rcp_sched_entry_t) list"
  where
  "due_from e ctx i [] = []"
| "due_from e ctx i (s # ss) =
     (if slot_due e ctx s then (i, slot_entry s) # due_from e ctx (i + 1) ss else due_from e ctx (i + 1) ss)"

definition better :: "(nat \<times> rcp_sched_entry_t) option \<Rightarrow> nat \<times> rcp_sched_entry_t \<Rightarrow> (nat \<times> rcp_sched_entry_t) option"
  where
  "better best x =
     (case best of None \<Rightarrow> Some x | Some b \<Rightarrow> if rcp_sched_compare (snd x) (snd b) < 0 then Some x else best)"

lemma select_from_best:
  "snd (select_due_from enabled ctx i ss best) = foldl better best (due_from enabled ctx i ss)"
proof (induction ss arbitrary: i best)
  case (Cons s ss)
  show ?case
  proof (cases "slot_due enabled ctx s")
    case True
    obtain s' where d: "is_due s enabled ctx = (True, s')" "in_use s"
      using True by (auto simp: slot_due_def prod_eq_iff)
    have "slot_kind s' = slot_kind s" "slot_sequence s' = slot_sequence s"
      using d by (auto simp: is_due_eq split: if_splits)
    then have "(case best of None \<Rightarrow> Some (i, \<lparr>entry_kind = slot_kind s', entry_sequence = slot_sequence s'\<rparr>)
        | Some (b, best_entry) \<Rightarrow>
            if rcp_sched_compare \<lparr>entry_kind = slot_kind s', entry_sequence = slot_sequence s'\<rparr> best_entry < 0
            then Some (i, \<lparr>entry_kind = slot_kind s', entry_sequence = slot_sequence s'\<rparr>) else best) =
        better best (i, slot_entry s)"
      by (simp add: better_def slot_entry_def split: option.split prod.split)
    with True d Cons.IH show ?thesis by (simp add: Let_def case_prod_unfold)
  next
    case False
    with Cons.IH show ?thesis
      by (cases "in_use s") (simp_all add: Let_def slot_due_def case_prod_unfold)
  qed
qed simp

lemma due_from_nth:
  "(k, e) \<in> set (due_from en ctx i ss) \<longleftrightarrow>
   i \<le> k \<and> k < i + length ss \<and> slot_due en ctx (ss ! (k - i)) \<and> e = slot_entry (ss ! (k - i))"
proof (induction ss arbitrary: i)
  case (Cons s ss)
  then show ?case by (cases "k = i") (auto simp: nth_Cons' Suc_le_eq)
qed simp

lemma foldl_better:
  "foldl better best xs = r \<Longrightarrow>
   (r = None \<longleftrightarrow> best = None \<and> xs = []) \<and>
   (\<forall>x. r = Some x \<longrightarrow> x \<in> set_option best \<union> set xs \<and>
      (\<forall>y\<in>set_option best \<union> set xs. rcp_sched_compare (snd x) (snd y) \<le> 0))"
proof (induction xs arbitrary: best)
  case Nil
  have "rcp_sched_compare e e = 0" for e by (simp add: sched_compare_zero)
  with Nil show ?case by auto
next
  case (Cons z zs)
  let ?b = "better best z"
  have b: "?b \<noteq> None" "set_option ?b \<subseteq> set_option best \<union> {z}"
    by (auto simp: better_def split: option.splits if_splits)
  obtain w where w: "?b = Some w" using b(1) by blast
  have w_le: "\<forall>y\<in>set_option best \<union> {z}. rcp_sched_compare (snd w) (snd y) \<le> 0"
  proof
    fix y assume "y \<in> set_option best \<union> {z}"
    then show "rcp_sched_compare (snd w) (snd y) \<le> 0"
      using w sched_compare_antisym [of "snd w" "snd z"] sched_compare_zero [of "snd w" "snd w"]
      by (auto simp: better_def split: option.splits if_splits)
  qed
  from Cons.IH [of ?b] Cons.prems have ih: "r \<noteq> None"
    "\<forall>x. r = Some x \<longrightarrow> x \<in> set_option ?b \<union> set zs \<and>
       (\<forall>y\<in>set_option ?b \<union> set zs. rcp_sched_compare (snd x) (snd y) \<le> 0)"
    using b(1) by auto
  have "x \<in> set_option best \<union> set (z # zs) \<and>
      (\<forall>y\<in>set_option best \<union> set (z # zs). rcp_sched_compare (snd x) (snd y) \<le> 0)" if "r = Some x" for x
  proof
    from ih(2) that have x: "x \<in> set_option ?b \<union> set zs"
      "\<forall>y\<in>set_option ?b \<union> set zs. rcp_sched_compare (snd x) (snd y) \<le> 0" by blast+
    show "x \<in> set_option best \<union> set (z # zs)" using x(1) b(2) by auto
    have "rcp_sched_compare (snd x) (snd w) \<le> 0" using x(2) w by simp
    then have "rcp_sched_compare (snd x) (snd y) \<le> 0" if "y \<in> set_option best \<union> {z}" for y
      using sched.le_trans w_le that by blast
    with x(2) show "\<forall>y\<in>set_option best \<union> set (z # zs). rcp_sched_compare (snd x) (snd y) \<le> 0" by auto
  qed
  with ih(1) show ?case by auto
qed

lemma server_ok_select:
  assumes "server_ok ep"
  shows "server_ok (snd (rcp_server_endpoint_select_due ep ctx))"
    and "pending (snd (rcp_server_endpoint_select_due ep ctx)) = map (slot_after (ep_enable ep) ctx) (pending ep)"
    and "next_sequence (snd (rcp_server_endpoint_select_due ep ctx)) = next_sequence ep"
proof -
  let ?ep = "snd (rcp_server_endpoint_select_due ep ctx)" and ?f = "slot_after (ep_enable ep) ctx"
  have e: "?ep = ep\<lparr>pending := map ?f (pending ep)\<rparr>"
    by (simp add: rcp_server_endpoint_select_due_def case_prod_unfold select_from_slots)
  show "pending ?ep = map ?f (pending ep)" "next_sequence ?ep = next_sequence ep" by (simp_all add: e)
  have "filter in_use (map ?f xs) = map ?f (filter in_use xs)" for xs
    by (induction xs) auto
  moreover have "?f s = s" if "\<not> in_use s" for s using that by (simp add: slot_after_def)
  ultimately show "server_ok ?ep" using assms by (simp add: server_ok_def store.store_ok_def e)
qed

section \<open>Releasing loops\<close>

lemma release_loop_spec:
  assumes "server_ok ep" and "i + n \<le> RCP_SERVER_MAX_PENDING" and "release_loop P ep i n = (c, ep')"
  shows "server_ok ep' \<and> pending_count ep' + c = pending_count ep \<and> next_sequence ep' = next_sequence ep \<and>
    (\<forall>j<RCP_SERVER_MAX_PENDING. pending ep' ! j =
       (if i \<le> j \<and> j < i + n \<and> in_use (pending ep ! j) \<and> P (pending ep ! j) then free_slot
        else pending ep ! j))"
  using assms
proof (induction n arbitrary: i ep c ep')
  case 0
  then show ?case by auto
next
  case (Suc n)
  have i: "i < RCP_SERVER_MAX_PENDING" "(i + 1) + n \<le> RCP_SERVER_MAX_PENDING" using Suc.prems(2) by simp_all
  show ?case
  proof (cases "in_use (pending ep ! i) \<and> P (pending ep ! i)")
    case False
    then have "release_loop P ep (i + 1) n = (c, ep')" using Suc.prems(3)
      by (auto split: if_splits)
    from Suc.IH [OF Suc.prems(1) i(2) this] False show ?thesis
      by (auto simp: le_Suc_eq Suc_le_eq elim!: less_SucE)
  next
    case True
    let ?ep = "release_slot ep i"
    have ok: "server_ok ?ep" using Suc.prems(1) i(1) True by (simp add: server_ok_release)
    obtain d where d: "release_loop P ?ep (i + 1) n = (d, ep')" "c = d + 1"
      using Suc.prems(3) True by (auto simp: Let_def split: prod.splits)
    have len: "length (pending ep) = RCP_SERVER_MAX_PENDING" using Suc.prems(1) by (simp add: server_ok_def)
    have nth: "pending ?ep ! j = (if j = i then free_slot else pending ep ! j)"
      if "j < RCP_SERVER_MAX_PENDING" for j
      using that len by (simp add: release_slot_def nth_list_update)
    have "0 < pending_count ep"
    proof -
      have "pending ep ! i \<in> set (filter in_use (pending ep))" using True i(1) len by simp
      then have "0 < length (filter in_use (pending ep))" by (rule length_pos_if_in_set)
      then show ?thesis using Suc.prems(1) by (simp add: server_ok_def store.store_ok_def)
    qed
    moreover have "pending_count ?ep = pending_count ep - 1" "next_sequence ?ep = next_sequence ep"
      by (simp_all add: release_slot_def)
    moreover note Suc.IH [OF ok i(2) d(1)]
    ultimately show ?thesis using True d(2) by (auto simp: nth Suc_le_eq)
  qed
qed

lemma release_all_spec:
  assumes "server_ok ep" and "release_loop P ep 0 RCP_SERVER_MAX_PENDING = (c, ep')"
  shows "server_ok ep'" and "next_sequence ep' = next_sequence ep"
    and "pending ep' = map (\<lambda>s. if in_use s \<and> P s then free_slot else s) (pending ep)"
    and "c = length (filter (\<lambda>s. in_use s \<and> P s) (pending ep))"
proof -
  note s = release_loop_spec [OF assms(1) _ assms(2)]
  have len: "length (pending ep) = RCP_SERVER_MAX_PENDING" "length (pending ep') = RCP_SERVER_MAX_PENDING"
    using assms(1) s by (simp_all add: server_ok_def)
  show ok: "server_ok ep'" and "next_sequence ep' = next_sequence ep" using s by simp_all
  show p: "pending ep' = map (\<lambda>s. if in_use s \<and> P s then free_slot else s) (pending ep)"
    using s len by (intro nth_equalityI) auto
  have "filter in_use (map (\<lambda>s. if in_use s \<and> P s then free_slot else s) xs) =
      filter (\<lambda>s. in_use s \<and> \<not> P s) xs" for xs
    by (induction xs) auto
  then have "pending_count ep' = length (filter (\<lambda>s. in_use s \<and> \<not> P s) (pending ep))"
    using ok p by (simp add: server_ok_def store.store_ok_def)
  moreover have "length (filter in_use xs) = length (filter (\<lambda>s. in_use s \<and> P s) xs) +
      length (filter (\<lambda>s. in_use s \<and> \<not> P s) xs)" for xs by (induction xs) auto
  moreover have "pending_count ep' + c = pending_count ep" "pending_count ep = length (filter in_use (pending ep))"
    using s assms(1) by (simp_all add: server_ok_def store.store_ok_def)
  ultimately show "c = length (filter (\<lambda>s. in_use s \<and> P s) (pending ep))" by (metis add_left_cancel add.commute)
qed

section \<open>Admission\<close>

definition unchanged_store :: "rcp_server_endpoint_t \<Rightarrow> rcp_server_endpoint_t \<Rightarrow> bool" where
  "unchanged_store ep ep' \<longleftrightarrow> pending ep' = pending ep \<and> pending_count ep' = pending_count ep \<and>
     (next_sequence ep' = next_sequence ep \<or> next_sequence ep' = next_sequence ep + 1)"

lemma server_ok_unchanged:
  assumes "server_ok ep" and "unchanged_store ep ep'" and "next_sequence ep \<noteq> - 1"
  shows "server_ok ep'"
proof -
  have "next_sequence ep \<le> next_sequence ep'"
    using assms(2) word_less_plus_one [OF assms(3)] by (auto simp: unchanged_store_def)
  then show ?thesis using assms(1,2)
    by (fastforce simp: server_ok_def store.store_ok_def unchanged_store_def)
qed

text \<open>A request that entered the store: the slot it took and what the slot holds.\<close>

definition stored_in ::
    "rcp_server_endpoint_t \<Rightarrow> rcp_server_endpoint_t \<Rightarrow> nat \<Rightarrow> rcp_server_pending_t \<Rightarrow> bool" where
  "stored_in ep ep' i s \<longleftrightarrow> i < RCP_SERVER_MAX_PENDING \<and> \<not> in_use (pending ep ! i) \<and>
     pending ep' = (pending ep)[i := s] \<and> in_use s \<and> \<not> armed s \<and> slot_sequence s = next_sequence ep \<and>
     pending_count ep' = pending_count ep + 1 \<and> next_sequence ep' = next_sequence ep + 1"

lemma stored_in_ok:
  assumes "server_ok ep" and "stored_in ep ep' i s" and "next_sequence ep \<noteq> - 1"
  shows "server_ok ep'"
proof -
  have len: "length (pending ep) = RCP_SERVER_MAX_PENDING" using assms(1) by (simp add: server_ok_def)
  have below: "\<forall>x\<in>set (pending ep). in_use x \<longrightarrow> slot_sequence x < next_sequence ep"
    and unique: "\<forall>a<length (pending ep). \<forall>b<length (pending ep). in_use (pending ep ! a) \<and> in_use (pending ep ! b) \<and>
        slot_sequence (pending ep ! a) = slot_sequence (pending ep ! b) \<longrightarrow> a = b"
    using assms(1) unfolding server_ok_def store.store_ok_def by blast+
  have st: "i < length (pending ep)" "\<not> in_use (pending ep ! i)" "in_use s" "slot_sequence s = next_sequence ep"
    "pending ep' = (pending ep)[i := s]" "pending_count ep' = pending_count ep + 1"
    "next_sequence ep' = next_sequence ep + 1"
    using assms(2) len by (simp_all add: stored_in_def)
  have lt: "next_sequence ep < next_sequence ep + 1" using assms(3) by (rule word_less_plus_one)
  have "pending_count ep' = length (filter in_use (pending ep'))"
    using length_filter_update [OF st(1), of in_use s] st assms(1)
    by (simp add: server_ok_def store.store_ok_def)
  moreover have "\<forall>x\<in>set (pending ep'). (\<not> in_use x \<longrightarrow> x = free_slot) \<and> (in_use x \<longrightarrow> slot_sequence x < next_sequence ep')"
  proof
    fix y assume "y \<in> set (pending ep')"
    then have "y = s \<or> y \<in> set (pending ep)"
      using set_update_subset_insert [of "pending ep" i s] st(5) by auto
    then show "(\<not> in_use y \<longrightarrow> y = free_slot) \<and> (in_use y \<longrightarrow> slot_sequence y < next_sequence ep')"
      using assms(1) st lt below by (auto simp: server_ok_def store.store_ok_def dest: less_trans)
  qed
  moreover have "a = b" if "a < length (pending ep')" "b < length (pending ep')"
    "in_use (pending ep' ! a)" "in_use (pending ep' ! b)"
    "slot_sequence (pending ep' ! a) = slot_sequence (pending ep' ! b)" for a b
  proof -
    have nth: "pending ep' ! m = (if m = i then s else pending ep ! m)" if "m < length (pending ep)" for m
      using that st(5) by (simp add: nth_list_update)
    have lm: "slot_sequence (pending ep ! m) < next_sequence ep" if "m < length (pending ep)" "in_use (pending ep ! m)" for m
      using below that nth_mem by blast
    show ?thesis using that unique lm [of a] lm [of b] st(4,5)
      by (cases "a = i"; cases "b = i") (auto simp: nth)
  qed
  ultimately show ?thesis using st(5) len unfolding server_ok_def store.store_ok_def by (metis length_list_update)
qed

text \<open>The decoding switch writes none of the fields that the claim of the slot, the gate and the
  selection use.\<close>

lemma admit_decode_keeps:
  "admit_decode mem kind frame s = Inr s' \<Longrightarrow>
   in_use s' = in_use s \<and> armed s' = armed s \<and> slot_sequence s' = slot_sequence s \<and>
   slot_kind s' = slot_kind s \<and> slot_request_type s' = slot_request_type s"
  by (auto simp: admit_decode_def Let_def split: if_splits sum.splits prod.splits)

definition same_queue :: "rcp_server_endpoint_t \<Rightarrow> rcp_server_endpoint_t \<Rightarrow> bool" where
  "same_queue ep ep' \<longleftrightarrow> ep_enable ep' = ep_enable ep \<and> ep_queue ep' = ep_queue ep \<and>
     admission_suspended ep' = admission_suspended ep"

text \<open>What an admission that goes through the store leaves behind: nothing, or one new slot that
  holds the frame, its kind and the presentation gate.\<close>

definition store_outcome ::
    "rcp_server_endpoint_t \<Rightarrow> server_admission \<Rightarrow> rcp_server_endpoint_t \<Rightarrow> bytes \<Rightarrow> bool \<Rightarrow> u64 \<Rightarrow>
     rcp_sched_kind_t \<Rightarrow> byte \<Rightarrow> bool" where
  "store_outcome ep a ep' frame tvb gate kind rt \<longleftrightarrow> same_queue ep ep' \<and>
     (adm_result a = RCP_SERVER_ADMIT_REJECTED \<and> adm_index a = None \<and> adm_ack a = None \<and>
        unchanged_store ep ep' \<or>
      adm_result a = RCP_SERVER_ADMIT_PENDING \<and> adm_error a = RCP_ERROR_NONE \<and>
        (\<exists>i s. adm_index a = Some i \<and> stored_in ep ep' i s \<and> rcp_bytes_data (slot_frame s) = frame \<and>
           slot_kind s = kind \<and> slot_request_type s = rt \<and> has_presentation_gate s = tvb \<and>
           presentation_gate_ns s = gate))"

lemma release_claimed:
  assumes "server_ok ep" and "claim_slot ep = Some (i, ep1)"
  shows "unchanged_store ep (release_slot ep1 i)" and "same_queue ep (release_slot ep1 i)"
proof -
  have "pending (release_slot ep1 i) = pending ep"
    using store.claim_release assms by (simp add: server_ok_def)
  then show "unchanged_store ep (release_slot ep1 i)" "same_queue ep (release_slot ep1 i)"
    using claim_slot_eq [OF assms(2)] by (auto simp: unchanged_store_def same_queue_def release_slot_def)
qed

lemma stored_claimed:
  assumes "server_ok ep" and "claim_slot ep = Some (i, ep1)" and "in_use s" and "\<not> armed s"
    and "slot_sequence s = next_sequence ep"
  shows "stored_in ep (set_slot ep1 i s) i s" and "same_queue ep (set_slot ep1 i s)"
  using assms claim_slot_eq [OF assms(2)]
  by (auto simp: stored_in_def set_slot_def server_ok_def same_queue_def)

lemma claimed_slot:
  "claim_slot ep = Some (i, ep1) \<Longrightarrow>
   pending ep1 ! i = free_slot\<lparr>in_use := True, slot_sequence := next_sequence ep\<rparr>"
  by (drule claim_slot_eq) simp

lemma store_outcome_stored:
  "stored_in ep ep' i s \<Longrightarrow> same_queue ep ep' \<Longrightarrow> rcp_bytes_data (slot_frame s) = frame \<Longrightarrow>
   slot_kind s = kind \<Longrightarrow> slot_request_type s = rt \<Longrightarrow> has_presentation_gate s = tvb \<Longrightarrow>
   presentation_gate_ns s = gate \<Longrightarrow> adm_result a = RCP_SERVER_ADMIT_PENDING \<Longrightarrow>
   adm_error a = RCP_ERROR_NONE \<Longrightarrow> adm_index a = Some i \<Longrightarrow>
   store_outcome ep a ep' frame tvb gate kind rt"
  by (auto simp: store_outcome_def)

lemma dup_data: "\<not> (rcp_bytes_dup m data = None \<and> 0 < length data) \<Longrightarrow> rcp_bytes_data (rcp_bytes_dup m data) = data"
  by (auto simp: rcp_bytes_dup_def split: if_splits)

lemma tscf_outcome:
  assumes "server_ok ep"
    and "admit_under_tscf_gate mem ep frame now gate kind rt want ort = (a, ep')"
  shows "store_outcome ep a ep' frame True gate kind rt"
proof (cases "claim_slot ep")
  case None
  with assms(2) show ?thesis
    by (auto simp: admit_under_tscf_gate_def store_outcome_def unchanged_store_def same_queue_def)
next
  case (Some c)
  then obtain i ep1 where c: "claim_slot ep = Some (i, ep1)" by (cases c) auto
  let ?copy = "rcp_bytes_dup (mem_copy mem) frame"
  let ?s = "(pending ep1 ! i)\<lparr>slot_kind := kind, slot_request_type := rt, has_presentation_gate := True,
      presentation_gate_ns := gate, armed_at := now, slot_frame := ?copy\<rparr>"
  have s: "in_use ?s" "\<not> armed ?s" "slot_sequence ?s = next_sequence ep"
    using claimed_slot [OF c] by (simp_all add: free_slot_def)
  show ?thesis
  proof (cases "?copy = None \<and> length frame > 0")
    case True
    then show ?thesis using assms(2) c release_claimed [OF assms(1) c]
      by (auto simp: admit_under_tscf_gate_def store_outcome_def)
  next
    case False
    then have r: "ep' = set_slot ep1 i ?s" "adm_result a = RCP_SERVER_ADMIT_PENDING"
      "adm_error a = RCP_ERROR_NONE" "adm_index a = Some i"
      using assms(2) c by (auto simp: admit_under_tscf_gate_def Let_def simp del: length_greater_0_conv)
    show ?thesis unfolding r(1)
      by (rule store_outcome_stored [OF stored_claimed [OF assms(1) c s]])
        (use r dup_data [OF False] in simp_all)
  qed
qed

lemma conditional_outcome:
  assumes "server_ok ep"
    and "admit_conditional mem ep frame now tvb gate kind rt want = (a, ep')"
  shows "store_outcome ep a ep' frame tvb gate kind rt"
proof (cases "claim_slot ep")
  case None
  with assms(2) show ?thesis
    by (auto simp: admit_conditional_def store_outcome_def unchanged_store_def same_queue_def)
next
  case (Some c)
  then obtain i ep1 where c: "claim_slot ep = Some (i, ep1)" by (cases c) auto
  let ?copy = "rcp_bytes_dup (mem_copy mem) frame"
  let ?d = "admit_decode mem kind frame ((pending ep1 ! i)\<lparr>slot_kind := kind, slot_request_type := rt\<rparr>)"
  show ?thesis
  proof (cases ?d)
    case (Inl e)
    then show ?thesis using assms(2) c release_claimed [OF assms(1) c]
      by (auto simp: admit_conditional_def store_outcome_def)
  next
    case (Inr d)
    let ?s = "d\<lparr>has_presentation_gate := tvb, presentation_gate_ns := gate, armed_at := now, slot_frame := ?copy\<rparr>"
    note k = admit_decode_keeps [OF Inr] claimed_slot [OF c]
    have s: "in_use ?s" "\<not> armed ?s" "slot_sequence ?s = next_sequence ep"
      "slot_kind ?s = kind" "slot_request_type ?s = rt"
      using k by (simp_all add: free_slot_def)
    show ?thesis
    proof (cases "?copy = None \<and> length frame > 0")
      case True
      then show ?thesis using assms(2) c Inr release_claimed [OF assms(1) c]
        by (auto simp: admit_conditional_def store_outcome_def)
    next
      case False
      then have r: "ep' = set_slot ep1 i ?s" "adm_result a = RCP_SERVER_ADMIT_PENDING"
        "adm_error a = RCP_ERROR_NONE" "adm_index a = Some i"
        using assms(2) c Inr by (auto simp: admit_conditional_def Let_def simp del: length_greater_0_conv)
      show ?thesis unfolding r(1)
        by (rule store_outcome_stored [OF stored_claimed [OF assms(1) c s(1-3)]])
          (use r s dup_data [OF False] in simp_all)
    qed
  qed
qed

lemma submit_keeps_store:
  "rcp_server_endpoint_submit mem ep frame want = (x, ack, ep') \<Longrightarrow>
   pending ep' = pending ep \<and> pending_count ep' = pending_count ep \<and> next_sequence ep' = next_sequence ep \<and>
   ep_enable ep' = ep_enable ep \<and> admission_suspended ep' = admission_suspended ep \<and>
   (ep_queue ep' = ep_queue ep \<or> \<not> x \<and> \<not> ep_enable ep \<and>
      ep_queue ep' = ep_queue ep @ [rcp_bytes_dup (mem_copy mem) frame])"
  by (auto simp: rcp_server_endpoint_submit_def Let_def split: if_splits)

lemma admit_submit_keeps:
  "admit_submit mem ep frame want = (a, ep') \<Longrightarrow>
   unchanged_store ep ep' \<and> ep_enable ep' = ep_enable ep \<and>
   (adm_result a = RCP_SERVER_ADMIT_EXECUTE_NOW \<or> adm_result a = RCP_SERVER_ADMIT_QUEUED)"
  using submit_keeps_store
  by (fastforce simp: admit_submit_def unchanged_store_def split: prod.splits if_splits)

text \<open>The kinds the classification gives to a frame, as the admission uses it.\<close>

definition frame_kind :: "bytes \<Rightarrow> rcp_sched_kind_t \<times> byte" where
  "frame_kind frame =
     (case rcp_compound_peek_request_type frame of
        Inl _ \<Rightarrow> (RCP_SCHED_KIND_STANDARD, 0)
      | Inr rt \<Rightarrow>
          (let kind = rcp_sched_classify True rt in
           if kind = RCP_SCHED_KIND_STANDARD then (kind, 0) else (kind, rt)))"

lemma admit_cases:
  assumes "server_ok ep"
    and "rcp_server_endpoint_admit_with_ack mem ep frame now tvb ts ref want = (a, ep')"
  shows "(admission_suspended ep \<and> adm_result a = RCP_SERVER_ADMIT_SUSPENDED \<and> ep' = ep) \<or>
    (\<not> admission_suspended ep \<and> length frame \<ge> 8 \<and> \<not> rcp_acf_header_is_request (rcp_acf_unpack_header frame) \<and>
       adm_result a = RCP_SERVER_ADMIT_REJECTED \<and> adm_error a = RCP_ERROR_INVALID_PARAMETER \<and> ep' = ep) \<or>
    (\<not> admission_suspended ep \<and> \<not> tvb \<and> fst (frame_kind frame) = RCP_SCHED_KIND_CANCELLATION \<and>
       adm_result a = RCP_SERVER_ADMIT_CANCELLATION \<and> ep' = ep) \<or>
    (\<not> admission_suspended ep \<and> \<not> tvb \<and> fst (frame_kind frame) = RCP_SCHED_KIND_STANDARD \<and>
       admit_submit mem ep frame want = (a, ep')) \<or>
    (\<not> admission_suspended ep \<and> (tvb \<or> kind_is_gated_by_ep_enable (fst (frame_kind frame))) \<and>
       store_outcome ep a ep' frame tvb (if tvb then rcp_avtp_extend_timestamp ts ref else 0)
         (fst (frame_kind frame)) (snd (frame_kind frame)))"
proof -
  have gated: "kind_is_gated_by_ep_enable k" if "k \<noteq> RCP_SCHED_KIND_STANDARD" "k \<noteq> RCP_SCHED_KIND_CANCELLATION" for k
    using that by (cases k) (simp_all add: kind_is_gated_by_ep_enable_def)
  note o = tscf_outcome [OF assms(1)] conditional_outcome [OF assms(1)]
  show ?thesis
    using assms(2) unfolding rcp_server_endpoint_admit_with_ack_def Let_def
    by (auto simp: frame_kind_def Let_def gated dest: o split: if_splits sum.splits)
qed

section \<open>Every operation keeps the store well formed\<close>

text \<open>The operations of the component as one datatype, with the arguments of their C functions, and
  the endpoint after each of them.  The last one is what the frame dispatcher does to the queue of an
  endpoint: it tags the newest stored request as a link of a chain.\<close>

datatype server_op =
    Op_submit server_mem bytes bool
  | Op_set_enable bool
  | Op_set_admission_suspended bool
  | Op_drain_one
  | Op_admit server_mem bytes u32 bool u32 u64 bool
  | Op_select_due rcp_server_tick_ctx_t
  | Op_complete nat rcp_server_tick_ctx_t
  | Op_notify_trigger byte byte
  | Op_chain_predecessor_done nat u32
  | Op_cancel_all
  | Op_cancel_single byte rcp_cancel_lifecycle_t
  | Op_cancel_non_safestate
  | Op_watchdog_purge
  | Op_cancel_chain_from u32 byte
  | Op_destroy
  | Op_link_last_pending u32 byte

fun server_apply :: "server_op \<Rightarrow> rcp_server_endpoint_t \<Rightarrow> rcp_server_endpoint_t" where
  "server_apply (Op_submit mem f w) ep = snd (snd (rcp_server_endpoint_submit mem ep f w))"
| "server_apply (Op_set_enable b) ep = rcp_server_endpoint_set_enable ep b"
| "server_apply (Op_set_admission_suspended b) ep = rcp_server_endpoint_set_admission_suspended ep b"
| "server_apply Op_drain_one ep =
     (case rcp_server_endpoint_drain_one ep of None \<Rightarrow> ep | Some (_, ep') \<Rightarrow> ep')"
| "server_apply (Op_admit mem f now tvb ts ref w) ep =
     snd (rcp_server_endpoint_admit_with_ack mem ep f now tvb ts ref w)"
| "server_apply (Op_select_due ctx) ep = snd (rcp_server_endpoint_select_due ep ctx)"
| "server_apply (Op_complete i ctx) ep = fst (snd (rcp_server_endpoint_complete ep i ctx))"
| "server_apply (Op_notify_trigger src sig) ep = snd (rcp_server_endpoint_notify_trigger ep src sig)"
| "server_apply (Op_chain_predecessor_done i now) ep =
     snd (rcp_server_endpoint_chain_predecessor_done ep i now)"
| "server_apply Op_cancel_all ep = snd (rcp_server_endpoint_cancel_all ep)"
| "server_apply (Op_cancel_single tn st) ep = snd (rcp_server_endpoint_cancel_single ep tn st)"
| "server_apply Op_cancel_non_safestate ep = snd (rcp_server_endpoint_cancel_non_safestate ep)"
| "server_apply Op_watchdog_purge ep = snd (rcp_server_endpoint_watchdog_purge ep)"
| "server_apply (Op_cancel_chain_from g p) ep = snd (rcp_server_endpoint_cancel_chain_from ep g p)"
| "server_apply Op_destroy ep = rcp_server_endpoint_destroy ep"
| "server_apply (Op_link_last_pending g p) ep = link_last_pending ep g p"

text \<open>The endpoints reached from initialisation in \<open>n\<close> operations.\<close>

inductive server_reach :: "nat \<Rightarrow> rcp_server_endpoint_t \<Rightarrow> bool" where
  start: "server_reach 0 (rcp_server_endpoint_init enable)"
| step: "server_reach n ep \<Longrightarrow> server_reach (n + 1) (server_apply op ep)"

text \<open>One step keeps the store well formed and uses at most one arrival number.\<close>

definition keeps_store :: "rcp_server_endpoint_t \<Rightarrow> rcp_server_endpoint_t \<Rightarrow> bool" where
  "keeps_store ep ep' \<longleftrightarrow> server_ok ep' \<and>
     (next_sequence ep' = next_sequence ep \<or> next_sequence ep' = next_sequence ep + 1)"

lemma keeps_store_same:
  "server_ok ep \<Longrightarrow> pending ep' = pending ep \<Longrightarrow> pending_count ep' = pending_count ep \<Longrightarrow>
   next_sequence ep' = next_sequence ep \<Longrightarrow> keeps_store ep ep'"
  by (simp add: keeps_store_def server_ok_def store.store_ok_def)

lemma keeps_store_put:
  "server_ok ep \<Longrightarrow> i < RCP_SERVER_MAX_PENDING \<Longrightarrow> in_use (pending ep ! i) \<Longrightarrow> in_use s \<Longrightarrow>
   slot_sequence s = slot_sequence (pending ep ! i) \<Longrightarrow> keeps_store ep (set_slot ep i s)"
  by (simp add: keeps_store_def server_ok_put) (simp add: set_slot_def)

lemma keeps_store_release:
  "server_ok ep \<Longrightarrow> i < RCP_SERVER_MAX_PENDING \<Longrightarrow> in_use (pending ep ! i) \<Longrightarrow> keeps_store ep (release_slot ep i)"
  by (simp add: keeps_store_def server_ok_release) (simp add: release_slot_def)

lemma keeps_store_release_all:
  "server_ok ep \<Longrightarrow> keeps_store ep (snd (release_loop P ep 0 RCP_SERVER_MAX_PENDING))"
  using release_all_spec(1,2) by (metis keeps_store_def prod.collapse)

lemma keeps_store_outcome:
  assumes "server_ok ep" and "next_sequence ep \<noteq> - 1" and "store_outcome ep a ep' frame tvb gate kind rt"
  shows "keeps_store ep ep'"
proof -
  consider "unchanged_store ep ep'" | i s where "stored_in ep ep' i s"
    using assms(3) by (auto simp: store_outcome_def)
  then show ?thesis
  proof cases
    case 1
    then show ?thesis using server_ok_unchanged [OF assms(1) 1 assms(2)]
      by (simp add: keeps_store_def unchanged_store_def)
  next
    case 2
    then show ?thesis using stored_in_ok [OF assms(1) 2 assms(2)]
      by (simp add: keeps_store_def stored_in_def)
  qed
qed

lemma keeps_store_admit:
  assumes "server_ok ep" and "next_sequence ep \<noteq> - 1"
    and "rcp_server_endpoint_admit_with_ack mem ep frame now tvb ts ref want = (a, ep')"
  shows "keeps_store ep ep'"
proof -
  consider "ep' = ep" | "admit_submit mem ep frame want = (a, ep')"
    | gate where "store_outcome ep a ep' frame tvb gate (fst (frame_kind frame)) (snd (frame_kind frame))"
    using admit_cases [OF assms(1,3)] by blast
  then show ?thesis
  proof cases
    case 1
    then show ?thesis using assms(1) by (simp add: keeps_store_same)
  next
    case 2
    then show ?thesis using admit_submit_keeps [OF 2] server_ok_unchanged [OF assms(1) _ assms(2)]
      by (auto simp: keeps_store_def unchanged_store_def)
  next
    case 3
    then show ?thesis using keeps_store_outcome assms by blast
  qed
qed

lemma keeps_store_complete:
  assumes "server_ok ep"
  shows "keeps_store ep (fst (snd (rcp_server_endpoint_complete ep i ctx)))"
proof (cases "i < RCP_SERVER_MAX_PENDING \<and> in_use (pending ep ! i)")
  case False
  then show ?thesis using assms
    by (auto simp: rcp_server_endpoint_complete_def Let_def keeps_store_same)
next
  case True
  then have r: "keeps_store ep (release_slot ep i)" using assms by (simp add: keeps_store_release)
  have p: "keeps_store ep (set_slot ep i s)" if "in_use s" "slot_sequence s = slot_sequence (pending ep ! i)" for s
    using True assms that by (simp add: keeps_store_put)
  show ?thesis using True
    by (cases "slot_kind (pending ep ! i)")
      (simp_all add: rcp_server_endpoint_complete_def Let_def r p split: option.split)
qed

lemma notify_slots_map:
  "snd (notify_slots src sig ss) =
   map (\<lambda>s. if in_use s \<and> slot_kind s = RCP_SCHED_KIND_TRIGGERED
            then s\<lparr>triggered_runtime := snd (rcp_triggered_runtime_record_occurrence (triggered_runtime s)
                                              (slot_triggered s) src sig)\<rparr> else s) ss"
  by (induction ss) (simp_all add: Let_def case_prod_unfold)

text \<open>Replacing slots by slots that agree on use and stamp, and leaving unused ones alone.\<close>

lemma keeps_store_map:
  assumes "server_ok ep" and "\<And>s. in_use (f s) = in_use s" and "\<And>s. slot_sequence (f s) = slot_sequence s"
    and "\<And>s. \<not> in_use s \<Longrightarrow> f s = s"
  shows "keeps_store ep (ep\<lparr>pending := map f (pending ep)\<rparr>)"
proof -
  have "filter in_use (map f xs) = map f (filter in_use xs)" for xs
    by (induction xs) (simp_all add: assms(2))
  then have "server_ok (ep\<lparr>pending := map f (pending ep)\<rparr>)"
    using assms by (simp add: server_ok_def store.store_ok_def)
  then show ?thesis by (simp add: keeps_store_def)
qed

lemma slot_after_unused [simp]: "\<not> in_use s \<Longrightarrow> slot_after e ctx s = s"
  by (simp add: slot_after_def)

text \<open>The request that the dispatcher tags is a stored one.\<close>

lemma last_pending_loop_in_use:
  "last_pending_loop ss i best m = best \<or>
   (\<exists>k<length ss. last_pending_loop ss i best m = i + k \<and> in_use (ss ! k))"
proof (induction ss arbitrary: i best m)
  case (Cons s ss)
  have later: "\<exists>k<length (s # ss). r = i + k \<and> in_use ((s # ss) ! k)"
    if "\<exists>k<length ss. r = i + 1 + k \<and> in_use (ss ! k)" for r
  proof -
    from that obtain k where "k < length ss" "r = i + 1 + k" "in_use (ss ! k)" by blast
    then show ?thesis by (intro exI [of _ "Suc k"]) simp
  qed
  show ?case
    using later Cons.IH [of "i + 1" best m] Cons.IH [of "i + 1" i "slot_sequence s"]
    by (cases "in_use s"; cases "best = RCP_SERVER_MAX_PENDING \<or> slot_sequence s \<ge> m") fastforce+
qed simp

lemma last_pending_index_in_use:
  "last_pending_index ep < RCP_SERVER_MAX_PENDING \<Longrightarrow> in_use (pending ep ! last_pending_index ep)"
  using last_pending_loop_in_use [of "pending ep" 0 RCP_SERVER_MAX_PENDING 0]
  by (auto simp: last_pending_index_def)

lemma keeps_store_link:
  assumes "server_ok ep"
  shows "keeps_store ep (link_last_pending ep g p)"
proof (cases "last_pending_index ep < RCP_SERVER_MAX_PENDING")
  case True
  let ?i = "last_pending_index ep" and ?ep = "snd (rcp_server_endpoint_chain_predecessor_done ep (last_pending_index ep) 0)"
  have u: "in_use (pending ep ! ?i)" using True by (rule last_pending_index_in_use)
  have len: "?i < length (pending ep)" using True assms by (simp add: server_ok_def)
  have e: "\<exists>s. link_last_pending ep g p = set_slot ep ?i s \<and> in_use s \<and> slot_sequence s = slot_sequence (pending ep ! ?i)"
    using True u len
    by (auto simp: link_last_pending_def rcp_server_endpoint_chain_predecessor_done_def Let_def set_slot_def)
  then show ?thesis using keeps_store_put [OF assms True u] by auto
next
  case False
  then show ?thesis using keeps_store_same [OF assms, of ep]
    by (simp add: link_last_pending_def rcp_server_endpoint_chain_predecessor_done_def Let_def)
qed

lemma server_apply_keeps:
  assumes "server_ok ep" and "next_sequence ep \<noteq> - 1"
  shows "keeps_store ep (server_apply op ep)"
proof (cases op)
  case (Op_submit mem f w)
  then show ?thesis using submit_keeps_store [of mem ep f w] assms(1)
    by (cases "rcp_server_endpoint_submit mem ep f w") (auto intro: keeps_store_same)
next
  case (Op_set_enable b)
  then show ?thesis using assms(1) by (auto simp: rcp_server_endpoint_set_enable_def intro: keeps_store_same)
next
  case (Op_set_admission_suspended b)
  then show ?thesis using assms(1)
    by (auto simp: rcp_server_endpoint_set_admission_suspended_def intro: keeps_store_same)
next
  case Op_drain_one
  then show ?thesis using assms(1)
    by (auto simp: rcp_server_endpoint_drain_one_def intro: keeps_store_same split: list.split)
next
  case (Op_admit mem f now tvb ts ref w)
  then show ?thesis
    using keeps_store_admit [OF assms, of mem f now tvb ts ref w]
    by (metis prod.collapse server_apply.simps(5))
next
  case (Op_select_due ctx)
  then show ?thesis using keeps_store_map [OF assms(1), of "slot_after (ep_enable ep) ctx"]
    by (simp add: rcp_server_endpoint_select_due_def case_prod_unfold select_from_slots)
next
  case (Op_complete i ctx)
  then show ?thesis using keeps_store_complete assms(1) by simp
next
  case (Op_notify_trigger src sig)
  then show ?thesis
    by (simp add: rcp_server_endpoint_notify_trigger_def case_prod_unfold notify_slots_map
        keeps_store_map [OF assms(1)])
next
  case (Op_chain_predecessor_done i now)
  then show ?thesis using assms(1)
    by (auto simp: rcp_server_endpoint_chain_predecessor_done_def Let_def
        intro: keeps_store_same keeps_store_put)
next
  case Op_cancel_all
  then show ?thesis using keeps_store_release_all assms(1) by (simp add: rcp_server_endpoint_cancel_all_def)
next
  case (Op_cancel_single tn st)
  have "keeps_store ep (release_slot ep i)"
    if "find_index (\<lambda>s. in_use s \<and> slot_transaction_num s = tn) (pending ep) = Some i" for i
    using find_index_SomeD [OF that] assms(1) by (intro keeps_store_release) (simp_all add: server_ok_def)
  then show ?thesis using Op_cancel_single keeps_store_same [OF assms(1)]
    by (simp add: rcp_server_endpoint_cancel_single_def Let_def split: option.split)
next
  case Op_cancel_non_safestate
  then show ?thesis using keeps_store_release_all assms(1)
    by (simp add: rcp_server_endpoint_cancel_non_safestate_def purge_non_safety_def)
next
  case Op_watchdog_purge
  then show ?thesis using keeps_store_release_all assms(1)
    by (simp add: rcp_server_endpoint_watchdog_purge_def purge_non_safety_def)
next
  case (Op_cancel_chain_from g p)
  then show ?thesis using keeps_store_release_all assms(1)
    by (auto simp: rcp_server_endpoint_cancel_chain_from_def intro: keeps_store_same)
next
  case Op_destroy
  then show ?thesis
    by (simp add: rcp_server_endpoint_destroy_def keeps_store_def server_ok_def store.store_ok_def)
next
  case (Op_link_last_pending g p)
  then show ?thesis using keeps_store_link assms(1) by simp
qed

lemma server_reach_ok:
  "server_reach n ep \<Longrightarrow> n < 2 ^ 64 \<Longrightarrow> server_ok ep \<and> unat (next_sequence ep) \<le> n"
proof (induction rule: server_reach.induct)
  case (start enable)
  then show ?case using server_ok_init by (simp add: rcp_server_endpoint_init_def)
next
  case (step n ep op)
  then have ih: "server_ok ep" "unat (next_sequence ep) \<le> n" by simp_all
  have ne: "next_sequence ep \<noteq> - 1"
  proof
    assume "next_sequence ep = - 1"
    then have "unat (next_sequence ep) = 2 ^ 64 - 1" by (simp add: unsigned_minus_1_eq_mask mask_eq_exp_minus_1)
    with ih(2) step.prems show False by simp
  qed
  have "unat (next_sequence ep + 1) = unat (next_sequence ep) + 1"
    using ih(2) step.prems by (simp add: unat_word_ariths)
  with server_apply_keeps [OF ih(1) ne, of op] ih(2) show ?case by (auto simp: keeps_store_def)
qed

end
