(* ===== verification/Server_Admission.thy ===== *)
theory Server_Admission
  imports Server_Store
begin

text \<open>
  The rule of admission of \<^verbatim>\<open>src/server.c\<close>, stated on its own: which outcome a request has,
  with which error code, and what the slot of a stored request holds.  The rule does not mention the
  claim of a slot, its release or the order of the checks in the decoding switch;
  \<open>admit_follows_rule\<close> shows that the code computes it.
\<close>

section \<open>The rule\<close>

definition is_response :: "bytes \<Rightarrow> bool" where
  "is_response frame \<longleftrightarrow> length frame \<ge> 8 \<and> \<not> rcp_acf_header_is_request (rcp_acf_unpack_header frame)"

text \<open>A compound-wait request that can be decoded but whose comparison code is reserved.\<close>

definition reserved_comparison :: "rcp_sched_kind_t \<Rightarrow> bytes \<Rightarrow> bool" where
  "reserved_comparison kind frame \<longleftrightarrow> kind = RCP_SCHED_KIND_COMPOUND_WAIT \<and>
     (\<exists>rt bus step evt tn payload.
        rcp_compound_decode_request frame = Inr ((rt, bus, step, evt, tn), payload) \<and>
        \<not> rcp_acf_compound_wait_evt_valid evt)"

text \<open>The requests that the decoder of their kind accepts; the target of a compound-wait request has
  to be copied.  A standard request and a cancellation are stored without decoding.\<close>

definition decodable :: "server_mem \<Rightarrow> rcp_sched_kind_t \<Rightarrow> bytes \<Rightarrow> bool" where
  "decodable mem kind frame =
     (case kind of
        RCP_SCHED_KIND_COMPOUND \<Rightarrow> \<not> isl (rcp_compound_decode_request frame)
      | RCP_SCHED_KIND_COMPOUND_WAIT \<Rightarrow> \<not> isl (rcp_compound_decode_request frame) \<and>
          \<not> reserved_comparison kind frame \<and>
          (mem_target mem \<or> snd (projr (rcp_compound_decode_request frame)) = [])
      | RCP_SCHED_KIND_TRIGGERED \<Rightarrow> \<not> isl (rcp_triggered_decode_request frame)
      | RCP_SCHED_KIND_TIMED \<Rightarrow> \<not> isl (rcp_timed_decode_request frame)
      | RCP_SCHED_KIND_CHAINED \<Rightarrow> \<not> isl (rcp_chained_decode_member frame)
      | _ \<Rightarrow> True)"

definition storable :: "server_mem \<Rightarrow> rcp_server_endpoint_t \<Rightarrow> rcp_sched_kind_t \<Rightarrow> bytes \<Rightarrow> bool" where
  "storable mem ep kind frame \<longleftrightarrow> pending_count ep < RCP_SERVER_MAX_PENDING \<and>
     decodable mem kind frame \<and> (mem_copy mem \<or> frame = [])"

text \<open>The error code of a request that is not stored.\<close>

definition refusal_code :: "rcp_server_endpoint_t \<Rightarrow> rcp_sched_kind_t \<Rightarrow> bytes \<Rightarrow> rcp_wire_error_t" where
  "refusal_code ep kind frame =
     (if \<not> kind_is_gated_by_ep_enable kind then RCP_ERROR_NONE
      else if pending_count ep \<ge> RCP_SERVER_MAX_PENDING then RCP_ERROR_REQUEST_STORAGE_OVERFLOW
      else if reserved_comparison kind frame then RCP_ERROR_UNSUPPORTED_CMD
      else RCP_ERROR_NONE)"

text \<open>What the decoder of its kind gives is what the slot holds.\<close>

definition holds_decoded :: "rcp_sched_kind_t \<Rightarrow> bytes \<Rightarrow> rcp_server_pending_t \<Rightarrow> bool" where
  "holds_decoded kind frame s =
     (case kind of
        RCP_SCHED_KIND_COMPOUND \<Rightarrow>
          (\<exists>rt bus evt payload. rcp_compound_decode_request frame =
             Inr ((rt, bus, slot_compound s, evt, slot_transaction_num s), payload))
      | RCP_SCHED_KIND_COMPOUND_WAIT \<Rightarrow>
          (\<exists>rt bus. rcp_compound_decode_request frame =
             Inr ((rt, bus, slot_compound s, compound_wait_evt s, slot_transaction_num s),
                  rcp_bytes_data (compound_wait_target s)))
      | RCP_SCHED_KIND_TRIGGERED \<Rightarrow>
          (\<exists>rt bus payload. rcp_triggered_decode_request frame =
             Inr ((rt, bus, slot_triggered s, slot_transaction_num s), payload)) \<and>
          triggered_runtime s = \<lparr>occurrence_count = 0, started = True\<rparr>
      | RCP_SCHED_KIND_TIMED \<Rightarrow>
          (\<exists>bus payload. rcp_timed_decode_request frame =
             Inr ((bus, presentation_time s, slot_transaction_num s), payload))
      | RCP_SCHED_KIND_CHAINED \<Rightarrow>
          (\<exists>bus payload. rcp_chained_decode_member frame =
             Inr ((bus, chain_exec_delay s, slot_cs s, slot_transaction_num s), payload))
      | _ \<Rightarrow> slot_transaction_num s = 0)"

definition holds_request ::
    "rcp_server_pending_t \<Rightarrow> bytes \<Rightarrow> rcp_sched_kind_t \<Rightarrow> byte \<Rightarrow> u32 \<Rightarrow> bool \<Rightarrow> u64 \<Rightarrow> u64 \<Rightarrow> bool" where
  "holds_request s frame kind rt now tvb gate arrival \<longleftrightarrow>
     in_use s \<and> rcp_bytes_data (slot_frame s) = frame \<and> slot_kind s = kind \<and> slot_request_type s = rt \<and>
     slot_sequence s = arrival \<and> has_presentation_gate s = tvb \<and> presentation_gate_ns s = gate \<and>
     \<not> armed s \<and> armed_at s = now \<and> \<not> predecessor_done s \<and> chain_group s = 0 \<and> chain_position s = 0 \<and>
     holds_decoded kind frame s"

definition first_free :: "rcp_server_endpoint_t \<Rightarrow> nat \<Rightarrow> bool" where
  "first_free ep i \<longleftrightarrow> i < RCP_SERVER_MAX_PENDING \<and> \<not> in_use (pending ep ! i) \<and>
     (\<forall>j<i. in_use (pending ep ! j))"

text \<open>Whether the queue of the disabled endpoint takes one more request.\<close>

definition queue_room :: "server_mem \<Rightarrow> rcp_server_endpoint_t \<Rightarrow> bool" where
  "queue_room mem ep \<longleftrightarrow> length (ep_queue ep) \<noteq> ep_queue_cap ep \<or>
     mem_grow mem \<and>
     rcp_alloc_checked_size (if ep_queue_cap ep = 0 then 4 else (ep_queue_cap ep * 2) mod 2 ^ 64) 16 \<noteq> 0"

text \<open>The requests that go through the store: all that wait for a presentation time and all
  conditional ones.\<close>

definition goes_to_store :: "bool \<Rightarrow> rcp_sched_kind_t \<Rightarrow> bool" where
  "goes_to_store tvb kind \<longleftrightarrow> tvb \<or> kind_is_gated_by_ep_enable kind"

definition adm :: "rcp_server_admit_t \<Rightarrow> byte \<Rightarrow> nat option \<Rightarrow> rcp_wire_error_t \<Rightarrow> rcp_bytes_t \<Rightarrow> server_admission" where
  "adm r rt i e ack = \<lparr>adm_result = r, adm_request_type = rt, adm_index = i, adm_error = e, adm_ack = ack\<rparr>"

section \<open>The store\<close>

lemma claim_slot_full:
  "server_ok ep \<Longrightarrow> claim_slot ep = None \<longleftrightarrow> pending_count ep \<ge> RCP_SERVER_MAX_PENDING"
  using store.claim_room [of ep] length_filter_le [of in_use "pending ep"]
  by (auto simp: server_ok_def store.store_ok_def)

lemma claim_slot_first:
  "server_ok ep \<Longrightarrow> claim_slot ep = Some (i, ep1) \<Longrightarrow> first_free ep i"
  by (auto simp: claim_slot_def first_free_def server_ok_def find_index_Some split: option.splits)

lemma release_claimed_eq:
  assumes "server_ok ep" and "claim_slot ep = Some (i, ep1)"
  shows "release_slot ep1 i = ep\<lparr>next_sequence := next_sequence ep + 1\<rparr>"
proof -
  have "pending (release_slot ep1 i) = pending ep"
    using store.claim_release assms by (simp add: server_ok_def)
  then show ?thesis using claim_slot_eq [OF assms(2)] by (simp add: release_slot_def)
qed

lemma set_claimed_eq:
  "claim_slot ep = Some (i, ep1) \<Longrightarrow>
   set_slot ep1 i s = ep\<lparr>pending := (pending ep)[i := s], next_sequence := next_sequence ep + 1,
                         pending_count := pending_count ep + 1\<rparr>"
  by (drule claim_slot_eq) (simp add: set_slot_def)

text \<open>The outcome of a request that goes through the store.\<close>

definition store_rule ::
    "server_mem \<Rightarrow> rcp_server_endpoint_t \<Rightarrow> bytes \<Rightarrow> u32 \<Rightarrow> bool \<Rightarrow> u64 \<Rightarrow> bool \<Rightarrow> rcp_sched_kind_t \<Rightarrow> byte \<Rightarrow>
     server_admission \<times> rcp_server_endpoint_t \<Rightarrow> bool" where
  "store_rule mem ep frame now tvb gate want kind rt r \<longleftrightarrow>
     (if storable mem ep kind frame
      then \<exists>i s. first_free ep i \<and> holds_request s frame kind rt now tvb gate (next_sequence ep) \<and>
             r = (adm RCP_SERVER_ADMIT_PENDING rt (Some i) RCP_ERROR_NONE (build_store_ack (mem_ack mem) frame want),
                  ep\<lparr>pending := (pending ep)[i := s], next_sequence := next_sequence ep + 1,
                     pending_count := pending_count ep + 1\<rparr>)
      else r = (adm RCP_SERVER_ADMIT_REJECTED rt None (refusal_code ep kind frame) None,
                ep\<lparr>next_sequence := next_sequence ep +
                     (if pending_count ep < RCP_SERVER_MAX_PENDING then 1 else 0)\<rparr>))"


section \<open>Decoding\<close>

lemma admit_decode_refused:
  "kind_is_gated_by_ep_enable kind \<Longrightarrow> \<not> decodable mem kind frame \<Longrightarrow>
   admit_decode mem kind frame s0 =
     Inl (if reserved_comparison kind frame then RCP_ERROR_UNSUPPORTED_CMD else RCP_ERROR_NONE)"
  by (cases kind)
    (auto simp: kind_is_gated_by_ep_enable_def decodable_def admit_decode_def reserved_comparison_def
      rcp_bytes_dup_def Let_def isl_def split: sum.splits)

lemma admit_decode_accepted:
  assumes "kind_is_gated_by_ep_enable kind" and "decodable mem kind frame"
    and "triggered_runtime s0 = \<lparr>occurrence_count = 0, started = False\<rparr>"
  obtains s where "admit_decode mem kind frame s0 = Inr s" "holds_decoded kind frame s"
    "in_use s = in_use s0" "armed s = armed s0" "slot_sequence s = slot_sequence s0"
    "slot_kind s = slot_kind s0" "slot_request_type s = slot_request_type s0"
    "predecessor_done s = predecessor_done s0" "chain_group s = chain_group s0"
    "chain_position s = chain_position s0"
proof (cases kind)
  case RCP_SCHED_KIND_COMPOUND
  with assms(2) obtain rt bus step evt tn pl where "rcp_compound_decode_request frame = Inr ((rt, bus, step, evt, tn), pl)"
    by (cases "rcp_compound_decode_request frame") (auto simp: decodable_def)
  with RCP_SCHED_KIND_COMPOUND show ?thesis
    by (intro that [of "s0\<lparr>slot_compound := step, slot_transaction_num := tn\<rparr>"])
      (simp_all add: admit_decode_def holds_decoded_def)
next
  case RCP_SCHED_KIND_COMPOUND_WAIT
  with assms(2) obtain rt bus step evt tn pl where d: "rcp_compound_decode_request frame = Inr ((rt, bus, step, evt, tn), pl)"
    by (cases "rcp_compound_decode_request frame") (auto simp: decodable_def)
  with RCP_SCHED_KIND_COMPOUND_WAIT assms(2) have v: "rcp_acf_compound_wait_evt_valid evt" "mem_target mem \<or> pl = []"
    by (auto simp: decodable_def reserved_comparison_def)
  show ?thesis using RCP_SCHED_KIND_COMPOUND_WAIT d v
    by (intro that [of "s0\<lparr>slot_compound := step, compound_wait_evt := evt,
            compound_wait_target := rcp_bytes_dup (mem_target mem) pl, slot_transaction_num := tn\<rparr>"])
      (auto simp: admit_decode_def holds_decoded_def rcp_bytes_dup_def)
next
  case RCP_SCHED_KIND_TRIGGERED
  with assms(2) obtain rt bus step tn pl where "rcp_triggered_decode_request frame = Inr ((rt, bus, step, tn), pl)"
    by (cases "rcp_triggered_decode_request frame") (auto simp: decodable_def)
  with RCP_SCHED_KIND_TRIGGERED assms(3) show ?thesis
    by (intro that [of "s0\<lparr>slot_triggered := step, slot_transaction_num := tn,
            triggered_runtime := \<lparr>occurrence_count = 0, started = True\<rparr>\<rparr>"])
      (simp_all add: admit_decode_def holds_decoded_def rcp_triggered_runtime_enter_started_def)
next
  case RCP_SCHED_KIND_TIMED
  with assms(2) obtain bus pt tn pl where "rcp_timed_decode_request frame = Inr ((bus, pt, tn), pl)"
    by (cases "rcp_timed_decode_request frame") (auto simp: decodable_def)
  with RCP_SCHED_KIND_TIMED show ?thesis
    by (intro that [of "s0\<lparr>presentation_time := pt, slot_transaction_num := tn\<rparr>"])
      (simp_all add: admit_decode_def holds_decoded_def)
next
  case RCP_SCHED_KIND_CHAINED
  with assms(2) obtain bus dl c tn pl where "rcp_chained_decode_member frame = Inr ((bus, dl, c, tn), pl)"
    by (cases "rcp_chained_decode_member frame") (auto simp: decodable_def)
  with RCP_SCHED_KIND_CHAINED show ?thesis
    by (intro that [of "s0\<lparr>chain_exec_delay := dl, slot_cs := c, slot_transaction_num := tn\<rparr>"])
      (simp_all add: admit_decode_def holds_decoded_def)
qed (use assms(1) in \<open>simp_all add: kind_is_gated_by_ep_enable_def\<close>)

section \<open>The code follows the rule\<close>

lemma claimed_fields:
  assumes "claim_slot ep = Some (i, ep1)"
  shows "in_use (pending ep1 ! i)" "slot_sequence (pending ep1 ! i) = next_sequence ep"
    "\<not> armed (pending ep1 ! i)" "\<not> predecessor_done (pending ep1 ! i)" "chain_group (pending ep1 ! i) = 0"
    "chain_position (pending ep1 ! i) = 0" "slot_transaction_num (pending ep1 ! i) = 0"
    "triggered_runtime (pending ep1 ! i) = \<lparr>occurrence_count = 0, started = False\<rparr>"
  using claimed_slot [OF assms] by (simp_all add: free_slot_def)

lemma dup_lost: "rcp_bytes_dup m data = None \<and> length data > 0 \<longleftrightarrow> \<not> m \<and> data \<noteq> []"
  by (auto simp: rcp_bytes_dup_def)

lemma room_of_claim: "server_ok ep \<Longrightarrow> claim_slot ep = Some c \<Longrightarrow> pending_count ep < RCP_SERVER_MAX_PENDING"
  using claim_slot_full by (metis leI option.distinct(1))

lemma tscf_rule:
  assumes "server_ok ep" and "\<not> kind_is_gated_by_ep_enable kind"
  shows "store_rule mem ep frame now True gate want kind rt
    (admit_under_tscf_gate mem ep frame now gate kind rt want rt)"
proof (cases "claim_slot ep")
  case None
  then show ?thesis using claim_slot_full [OF assms(1)] assms(2)
    by (auto simp: store_rule_def storable_def admit_under_tscf_gate_def adm_def refusal_code_def)
next
  case (Some c)
  then obtain i ep1 where c: "claim_slot ep = Some (i, ep1)" by (cases c) auto
  have room: "pending_count ep < RCP_SERVER_MAX_PENDING" by (rule room_of_claim [OF assms(1) c])
  have dec: "decodable mem kind frame" using assms(2)
    by (cases kind) (simp_all add: decodable_def kind_is_gated_by_ep_enable_def)
  show ?thesis
  proof (cases "\<not> mem_copy mem \<and> frame \<noteq> []")
    case True
    then show ?thesis using room release_claimed_eq [OF assms(1) c] assms(2)
      by (simp add: store_rule_def storable_def admit_under_tscf_gate_def c dup_lost Let_def adm_def refusal_code_def
          del: length_greater_0_conv)
  next
    case False
    let ?s = "(pending ep1 ! i)\<lparr>slot_kind := kind, slot_request_type := rt, has_presentation_gate := True,
        presentation_gate_ns := gate, armed_at := now, slot_frame := rcp_bytes_dup (mem_copy mem) frame\<rparr>"
    have "holds_request ?s frame kind rt now True gate (next_sequence ep)"
      using claimed_fields [OF c] dup_data [of "mem_copy mem" frame] False assms(2) unfolding dup_lost
      by (cases kind) (auto simp: holds_request_def holds_decoded_def kind_is_gated_by_ep_enable_def)
    then show ?thesis using room dec False claim_slot_first [OF assms(1) c]
      unfolding store_rule_def storable_def admit_under_tscf_gate_def
      by (auto simp: c dup_lost Let_def adm_def set_claimed_eq [OF c] simp del: length_greater_0_conv)
  qed
qed

lemma conditional_rule:
  assumes "server_ok ep" and "kind_is_gated_by_ep_enable kind"
  shows "store_rule mem ep frame now tvb gate want kind rt
    (admit_conditional mem ep frame now tvb gate kind rt want)"
proof (cases "claim_slot ep")
  case None
  then show ?thesis using claim_slot_full [OF assms(1)] assms(2)
    by (auto simp: store_rule_def storable_def admit_conditional_def adm_def refusal_code_def)
next
  case (Some c)
  then obtain i ep1 where c: "claim_slot ep = Some (i, ep1)" by (cases c) auto
  have room: "pending_count ep < RCP_SERVER_MAX_PENDING" by (rule room_of_claim [OF assms(1) c])
  note rel = release_claimed_eq [OF assms(1) c]
  let ?s0 = "(pending ep1 ! i)\<lparr>slot_kind := kind, slot_request_type := rt\<rparr>"
  show ?thesis
  proof (cases "decodable mem kind frame")
    case False
    then show ?thesis using room rel admit_decode_refused [OF assms(2) False] assms(2)
      by (simp add: store_rule_def storable_def admit_conditional_def c Let_def adm_def refusal_code_def)
  next
    case dec: True
    obtain s where s: "admit_decode mem kind frame ?s0 = Inr s" "holds_decoded kind frame s"
      "in_use s = in_use ?s0" "armed s = armed ?s0" "slot_sequence s = slot_sequence ?s0"
      "slot_kind s = slot_kind ?s0" "slot_request_type s = slot_request_type ?s0"
      "predecessor_done s = predecessor_done ?s0" "chain_group s = chain_group ?s0"
      "chain_position s = chain_position ?s0"
      using admit_decode_accepted [OF assms(2) dec, of ?s0] claimed_fields [OF c] by auto
    show ?thesis
    proof (cases "\<not> mem_copy mem \<and> frame \<noteq> []")
      case True
      have "\<not> reserved_comparison kind frame" using dec by (auto simp: decodable_def reserved_comparison_def)
      then show ?thesis using True room rel s(1)
        by (simp add: store_rule_def storable_def admit_conditional_def c dup_lost Let_def adm_def refusal_code_def
            del: length_greater_0_conv)
    next
      case False
      let ?s = "s\<lparr>has_presentation_gate := tvb, presentation_gate_ns := gate, armed_at := now,
          slot_frame := rcp_bytes_dup (mem_copy mem) frame\<rparr>"
      have "holds_decoded kind frame ?s" using s(2) by (cases kind) (simp_all add: holds_decoded_def)
      then have "holds_request ?s frame kind rt now tvb gate (next_sequence ep)"
        using claimed_fields [OF c] dup_data [of "mem_copy mem" frame] False s(3-) unfolding dup_lost
        by (simp add: holds_request_def)
      then show ?thesis using room dec False claim_slot_first [OF assms(1) c] s(1)
        unfolding store_rule_def storable_def admit_conditional_def
        by (auto simp: c dup_lost Let_def adm_def set_claimed_eq [OF c] simp del: length_greater_0_conv)
    qed
  qed
qed

lemma submit_rule:
  "admit_submit mem ep frame want =
     (if ep_enable ep \<or> submit_is_config frame
      then (adm RCP_SERVER_ADMIT_EXECUTE_NOW 0 None RCP_ERROR_NONE None, ep)
      else if queue_room mem ep
      then (adm RCP_SERVER_ADMIT_QUEUED 0 None RCP_ERROR_NONE (build_store_ack (mem_ack mem) frame want),
            ep\<lparr>ep_queue := ep_queue ep @ [rcp_bytes_dup (mem_copy mem) frame],
               ep_queue_cap := if length (ep_queue ep) \<noteq> ep_queue_cap ep then ep_queue_cap ep
                 else if ep_queue_cap ep = 0 then 4 else (ep_queue_cap ep * 2) mod 2 ^ 64\<rparr>)
      else (adm RCP_SERVER_ADMIT_QUEUED 0 None RCP_ERROR_NONE None, ep))"
  by (simp add: admit_submit_def rcp_server_endpoint_submit_def queue_room_def adm_def Let_def)

text \<open>The whole admission: each outcome with its condition, the admission record and the endpoint.\<close>

lemma admit_follows_rule:
  fixes mem ep frame now tvb ts ref want
  defines "r \<equiv> rcp_server_endpoint_admit_with_ack mem ep frame now tvb ts ref want"
    and "kind \<equiv> fst (frame_kind frame)" and "rt \<equiv> snd (frame_kind frame)"
  assumes ok: "server_ok ep"
  shows "admission_suspended ep \<Longrightarrow> r = (adm RCP_SERVER_ADMIT_SUSPENDED 0 None RCP_ERROR_NONE None, ep)"
    and "\<not> admission_suspended ep \<Longrightarrow> is_response frame \<Longrightarrow>
      r = (adm RCP_SERVER_ADMIT_REJECTED 0 None RCP_ERROR_INVALID_PARAMETER None, ep)"
    and "\<not> admission_suspended ep \<Longrightarrow> \<not> is_response frame \<Longrightarrow> \<not> tvb \<Longrightarrow> kind = RCP_SCHED_KIND_CANCELLATION \<Longrightarrow>
      r = (adm RCP_SERVER_ADMIT_CANCELLATION rt None RCP_ERROR_NONE None, ep)"
    and "\<not> admission_suspended ep \<Longrightarrow> \<not> is_response frame \<Longrightarrow> \<not> tvb \<Longrightarrow> kind = RCP_SCHED_KIND_STANDARD \<Longrightarrow>
      r = admit_submit mem ep frame want"
    and "\<not> admission_suspended ep \<Longrightarrow> \<not> is_response frame \<Longrightarrow> goes_to_store tvb kind \<Longrightarrow>
      store_rule mem ep frame now tvb (if tvb then rcp_avtp_extend_timestamp ts ref else 0) want kind rt r"
proof -
  have gated: "kind_is_gated_by_ep_enable k \<longleftrightarrow> k \<noteq> RCP_SCHED_KIND_STANDARD \<and> k \<noteq> RCP_SCHED_KIND_CANCELLATION" for k
    by (cases k) (simp_all add: kind_is_gated_by_ep_enable_def)
  note d = r_def kind_def rt_def rcp_server_endpoint_admit_with_ack_def frame_kind_def is_response_def adm_def Let_def
  show "admission_suspended ep \<Longrightarrow> r = (adm RCP_SERVER_ADMIT_SUSPENDED 0 None RCP_ERROR_NONE None, ep)"
    and "\<not> admission_suspended ep \<Longrightarrow> is_response frame \<Longrightarrow>
      r = (adm RCP_SERVER_ADMIT_REJECTED 0 None RCP_ERROR_INVALID_PARAMETER None, ep)"
    by (simp_all add: d)
  show "r = (adm RCP_SERVER_ADMIT_CANCELLATION rt None RCP_ERROR_NONE None, ep)"
    if "\<not> admission_suspended ep" "\<not> is_response frame" "\<not> tvb" "kind = RCP_SCHED_KIND_CANCELLATION"
    using that by (auto simp: d split: sum.splits if_splits)
  show "r = admit_submit mem ep frame want"
    if "\<not> admission_suspended ep" "\<not> is_response frame" "\<not> tvb" "kind = RCP_SCHED_KIND_STANDARD"
    using that by (auto simp: d split: sum.splits if_splits)
  show "store_rule mem ep frame now tvb (if tvb then rcp_avtp_extend_timestamp ts ref else 0) want kind rt r"
    if "\<not> admission_suspended ep" "\<not> is_response frame" "goes_to_store tvb kind"
    using that tscf_rule [OF ok] conditional_rule [OF ok]
    by (auto simp: d goes_to_store_def gated split: sum.splits)
qed

end
