(* ===== verification/Server_Correct.thy ===== *)
theory Server_Correct
  imports Server_Admission
begin

text \<open>
  The properties of one endpoint of an RC server: the store invariant, the service order and the gates
  of a tick, admission, cancellation, repetition and the queue of a disabled endpoint.
\<close>

section \<open>Properties of the request store\<close>

text \<open>C1: In every endpoint reached from initialisation by any sequence of operations (fewer than
  2 to the 64, so that the arrival counter does not wrap), \<^verbatim>\<open>pending_count\<close> is the number of
  slots in use and at most 32, slots that are not in use are zeroed, and the arrival numbers of stored
  requests are below the counter and all different.\<close>

theorem server_store_invariant:
  assumes "server_reach n ep" and "n < 2 ^ 64"
  shows "length (pending ep) = RCP_SERVER_MAX_PENDING \<and>
    pending_count ep = length (filter in_use (pending ep)) \<and> pending_count ep \<le> RCP_SERVER_MAX_PENDING \<and>
    (\<forall>s\<in>set (pending ep). \<not> in_use s \<longrightarrow> s = free_slot) \<and>
    (\<forall>s\<in>set (pending ep). in_use s \<longrightarrow> slot_sequence s < next_sequence ep) \<and>
    (\<forall>i<RCP_SERVER_MAX_PENDING. \<forall>j<RCP_SERVER_MAX_PENDING. in_use (pending ep ! i) \<and> in_use (pending ep ! j) \<and>
       slot_sequence (pending ep ! i) = slot_sequence (pending ep ! j) \<longrightarrow> i = j)"
proof -
  have ok: "server_ok ep" using server_reach_ok [OF assms] by simp
  then have "pending_count ep = length (filter in_use (pending ep))"
    "length (pending ep) = RCP_SERVER_MAX_PENDING" by (simp_all add: server_ok_def store.store_ok_def)
  moreover have "length (filter in_use (pending ep)) \<le> length (pending ep)" by (rule length_filter_le)
  ultimately show ?thesis using ok unfolding server_ok_def store.store_ok_def by metis
qed

text \<open>A compound request (transaction number 7, two repetitions) that moves sequencer 0 from state 1
  to state 2, and an endpoint that stores it.\<close>

definition sample_frame :: bytes where
  "sample_frame = [26, 5, 192, 3, 0, 7, 128, 0, 15, 1, 2, 0, 0, 0, 0, 2, 171, 0, 0, 0]"

definition sample_mem :: server_mem where
  "sample_mem = \<lparr>mem_grow = True, mem_copy = True, mem_target = True, mem_ack = True\<rparr>"

definition sample_admit :: server_op where
  "sample_admit = Op_admit sample_mem sample_frame 100 False 0 0 False"

definition sample_ep :: rcp_server_endpoint_t where
  "sample_ep = server_apply sample_admit (rcp_server_endpoint_init True)"

definition sample_ctx :: rcp_server_tick_ctx_t where
  "sample_ctx =
     \<lparr>ctx_now = 200, gptp_now = 0, gptp_locked = False,
      sequencers = Some (rcp_sequencer_table_new True True 2), endpoint_idle = True,
      in_safe_state = False, current_status = []\<rparr>"

lemma sample_ep_reach: "server_reach 1 sample_ep"
  using server_reach.step [OF server_reach.start, of sample_admit True] by (simp add: sample_ep_def)

lemma sample_ep_count: "pending_count sample_ep = 1"
  unfolding sample_ep_def by code_simp

lemma sample_ep_select: "fst (rcp_server_endpoint_select_due sample_ep sample_ctx) = Some 0"
  unfolding sample_ep_def sample_ctx_def by code_simp

theorem server_store_invariant_witness:
  "server_reach 1 sample_ep \<and> length (filter in_use (pending sample_ep)) = 1"
  using server_store_invariant [OF sample_ep_reach] sample_ep_reach sample_ep_count by simp

text \<open>C5: A tick serves the right request.  When \<^verbatim>\<open>rcp_server_endpoint_select_due\<close> selects a slot
  it is due and comes strictly before every other due slot in the service order (higher-ranked kind
  first, then arrival); when it selects nothing, no stored request is due.\<close>

theorem select_due_serves_first:
  assumes "server_reach n ep" and "n < 2 ^ 64"
  shows "case fst (rcp_server_endpoint_select_due ep ctx) of
      None \<Rightarrow> \<forall>i<RCP_SERVER_MAX_PENDING. \<not> slot_due (ep_enable ep) ctx (pending ep ! i)
    | Some i \<Rightarrow> i < RCP_SERVER_MAX_PENDING \<and> slot_due (ep_enable ep) ctx (pending ep ! i) \<and>
        (\<forall>j<RCP_SERVER_MAX_PENDING. j \<noteq> i \<and> slot_due (ep_enable ep) ctx (pending ep ! j) \<longrightarrow>
           rcp_sched_compare (slot_entry (pending ep ! i)) (slot_entry (pending ep ! j)) < 0)"
proof -
  have ok: "server_ok ep" using server_reach_ok [OF assms] by simp
  then have len: "length (pending ep) = RCP_SERVER_MAX_PENDING" by (simp add: server_ok_def)
  have unique: "i = j" if "i < RCP_SERVER_MAX_PENDING" "j < RCP_SERVER_MAX_PENDING" "in_use (pending ep ! i)"
    "in_use (pending ep ! j)" "slot_sequence (pending ep ! i) = slot_sequence (pending ep ! j)" for i j
    using ok that unfolding server_ok_def store.store_ok_def by metis
  let ?D = "due_from (ep_enable ep) ctx 0 (pending ep)"
  have mem: "(k, e) \<in> set ?D \<longleftrightarrow>
      k < RCP_SERVER_MAX_PENDING \<and> slot_due (ep_enable ep) ctx (pending ep ! k) \<and> e = slot_entry (pending ep ! k)" for k e
    using due_from_nth [of k e "ep_enable ep" ctx 0 "pending ep"] len by simp
  define r where "r = foldl better None ?D"
  have fst: "fst (rcp_server_endpoint_select_due ep ctx) = map_option fst r"
    by (simp add: rcp_server_endpoint_select_due_def case_prod_unfold select_from_best r_def)
  note b = foldl_better [OF r_def [symmetric]]
  show ?thesis
  proof (cases r)
    case None
    then have "?D = []" using b by simp
    then have "\<not> slot_due (ep_enable ep) ctx (pending ep ! k)" if "k < RCP_SERVER_MAX_PENDING" for k
      using mem [of k "slot_entry (pending ep ! k)"] that by simp
    with None fst show ?thesis by simp
  next
    case (Some x)
    obtain i e where x: "x = (i, e)" by fastforce
    have ie: "(i, e) \<in> set ?D" and best: "\<forall>y\<in>set ?D. rcp_sched_compare e (snd y) \<le> 0"
      using b Some x by auto
    have "rcp_sched_compare e (slot_entry (pending ep ! j)) < 0"
      if "j < RCP_SERVER_MAX_PENDING" "j \<noteq> i" "slot_due (ep_enable ep) ctx (pending ep ! j)" for j
    proof -
      have "(j, slot_entry (pending ep ! j)) \<in> set ?D" using mem that by blast
      then have "rcp_sched_compare e (slot_entry (pending ep ! j)) \<le> 0" using best by fastforce
      moreover have "slot_sequence (pending ep ! j) \<noteq> slot_sequence (pending ep ! i)"
        using unique [of j i] that ie mem by (auto simp: slot_due_def)
      then have "rcp_sched_compare e (slot_entry (pending ep ! j)) \<noteq> 0"
        using ie mem by (simp add: sched_compare_zero slot_entry_def)
      ultimately show ?thesis by simp
    qed
    with ie mem Some x fst show ?thesis by simp
  qed
qed

theorem select_due_serves_first_witness:
  "slot_due (ep_enable sample_ep) sample_ctx (pending sample_ep ! 0)"
  using select_due_serves_first [OF sample_ep_reach, of sample_ctx] by (simp add: sample_ep_select)

text \<open>C2: The gates of selection.  A selected request is stored; if the endpoint is disabled it is not a
  conditional request; if it is tagged as a safety request the endpoint is in safe state; if it carries
  a presentation-time gate then gPTP is locked and that time has come; its kind's own start condition
  holds or held at an earlier tick, its auxiliary condition (idle endpoint, matching status, gPTP lock)
  holds, and its execution delay has run out.\<close>

theorem selected_request_permitted:
  assumes "rcp_server_endpoint_select_due ep ctx = (Some i, ep')"
  shows "i < length (pending ep') \<and> in_use (pending ep' ! i) \<and>
    (ep_enable ep \<or> \<not> kind_is_gated_by_ep_enable (slot_kind (pending ep' ! i))) \<and>
    (rcp_e2e_is_safety_request (slot_request_type (pending ep' ! i)) \<longrightarrow> in_safe_state ctx) \<and>
    (has_presentation_gate (pending ep' ! i) \<longrightarrow>
       gptp_locked ctx \<and> rcp_timed_due (presentation_gate_ns (pending ep' ! i)) (gptp_now ctx)) \<and>
    armed (pending ep' ! i) \<and> (armed (pending ep ! i) \<or> start_condition_holds (pending ep ! i) ctx) \<and>
    auxiliary_condition_met (pending ep' ! i) ctx \<and>
    delay_expired (pending ep' ! i) ctx (ctx_now ctx - armed_at (pending ep' ! i))"
proof -
  let ?D = "due_from (ep_enable ep) ctx 0 (pending ep)" and ?s = "pending ep ! i"
  have "map_option fst (foldl better None ?D) = Some i"
    and p: "pending ep' = map (slot_after (ep_enable ep) ctx) (pending ep)"
    using assms by (auto simp: rcp_server_endpoint_select_due_def case_prod_unfold select_from_best select_from_slots)
  then obtain e where "(i, e) \<in> set ?D" using foldl_better [of None ?D] by fastforce
  then have i: "i < length (pending ep)" "slot_due (ep_enable ep) ctx ?s" by (simp_all add: due_from_nth)
  then have due: "in_use ?s" "slot_permitted (ep_enable ep) ctx ?s" "armed ?s \<or> start_condition_holds ?s ctx"
    "delay_expired ?s ctx (ctx_now ctx - armed_at (armed_slot ctx ?s))" "auxiliary_condition_met ?s ctx"
    by (simp_all add: slot_due_def is_due_eq)
  then have s': "pending ep' ! i = armed_slot ctx ?s"
    using p i(1) by (simp add: slot_after_def is_due_eq)
  have g: "has_presentation_gate (armed_slot ctx ?s) = has_presentation_gate ?s"
    "presentation_gate_ns (armed_slot ctx ?s) = presentation_gate_ns ?s" by (simp_all add: armed_slot_def)
  have "armed (armed_slot ctx ?s)" using due(3) by (auto simp: armed_slot_def)
  moreover have "i < length (pending ep')" using i(1) p by simp
  ultimately show ?thesis using due
    by (simp add: s' g delay_armed aux_armed slot_permitted_def rcp_e2e_request_may_execute_def split: if_splits)
qed

theorem selected_request_permitted_witness:
  "\<exists>ep'. rcp_server_endpoint_select_due sample_ep sample_ctx = (Some 0, ep') \<and> in_use (pending ep' ! 0)"
proof -
  obtain ep' where e: "rcp_server_endpoint_select_due sample_ep sample_ctx = (Some 0, ep')"
    using sample_ep_select by (metis prod.collapse)
  from selected_request_permitted [OF e] show ?thesis using e by blast
qed

lemma sample_frame_kind:
  "rcp_compound_peek_request_type sample_frame = Inr 0x0F"
  "rcp_sched_classify True 0x0F = RCP_SCHED_KIND_COMPOUND"
  "rcp_acf_header_is_request (rcp_acf_unpack_header sample_frame)"
  by code_simp+

lemma sample_frame_decodes:
  "rcp_compound_decode_request sample_frame =
   Inr ((0x0F, 3, \<lparr>start_state = 1, next_state = 2, sequencer_index = 0, exec_delay = 0, repeat_count = 2\<rparr>, 0, 7),
        [0xAB])"
  by code_simp

text \<open>C8: The outcome of an admission and when it occurs, in every case and for every outcome of the
  allocations.  A suspended endpoint answers suspended; a frame whose header marks it as a response is
  rejected with \<^verbatim>\<open>INVALID_PARAMETER\<close>; both change nothing.  Otherwise the frame's kind decides.  A
  cancellation without presentation time is reported to the caller and changes nothing.  A standard
  request without presentation time is to be executed now exactly when the endpoint is enabled or the
  request is a configuration request, and is else queued (its copy is appended to the queue unless the
  queue cannot grow).  Every request with a presentation time and every conditional request goes to the
  store: it is pending exactly when a slot is free, the decoder of its kind accepts it (a compound-wait
  request with a reserved comparison code is not accepted) and the copies can be allocated.  It then
  takes the first free slot, which holds the frame, its kind and request type, the presentation gate,
  the time, the next arrival number and exactly the fields that the decoder gives (sequencer step,
  comparison and target, trigger step with its counting started, presentation time, chain delay and
  abort flag, transaction number), not armed and in no chain; all other slots are unchanged.  Else it is
  rejected with \<^verbatim>\<open>REQUEST_STORAGE_OVERFLOW\<close> for a conditional request and a full store,
  \<^verbatim>\<open>UNSUPPORTED_CMD\<close> for a reserved comparison code and no code otherwise, and no slot changes.\<close>

theorem admission_outcome:
  assumes "server_reach n ep" and "n < 2 ^ 64"
    and "rcp_server_endpoint_admit_with_ack mem ep frame now tvb ts ref want = (a, ep')"
    and "frame_kind frame = (kind, rt)"
  shows "(admission_suspended ep \<longrightarrow> a = adm RCP_SERVER_ADMIT_SUSPENDED 0 None RCP_ERROR_NONE None \<and> ep' = ep) \<and>
    (\<not> admission_suspended ep \<and> is_response frame \<longrightarrow>
       a = adm RCP_SERVER_ADMIT_REJECTED 0 None RCP_ERROR_INVALID_PARAMETER None \<and> ep' = ep) \<and>
    (\<not> admission_suspended ep \<and> \<not> is_response frame \<longrightarrow>
       (\<not> tvb \<and> kind = RCP_SCHED_KIND_CANCELLATION \<longrightarrow>
          a = adm RCP_SERVER_ADMIT_CANCELLATION rt None RCP_ERROR_NONE None \<and> ep' = ep) \<and>
       (\<not> tvb \<and> kind = RCP_SCHED_KIND_STANDARD \<and> (ep_enable ep \<or> submit_is_config frame) \<longrightarrow>
          a = adm RCP_SERVER_ADMIT_EXECUTE_NOW 0 None RCP_ERROR_NONE None \<and> ep' = ep) \<and>
       (\<not> tvb \<and> kind = RCP_SCHED_KIND_STANDARD \<and> \<not> ep_enable ep \<and> \<not> submit_is_config frame \<longrightarrow>
          a = adm RCP_SERVER_ADMIT_QUEUED 0 None RCP_ERROR_NONE
                (if queue_room mem ep then build_store_ack (mem_ack mem) frame want else None) \<and>
          ep_queue ep' = ep_queue ep @ (if queue_room mem ep then [rcp_bytes_dup (mem_copy mem) frame] else []) \<and>
          pending ep' = pending ep \<and> pending_count ep' = pending_count ep \<and> next_sequence ep' = next_sequence ep \<and>
          ep_enable ep' = ep_enable ep \<and> admission_suspended ep' = admission_suspended ep) \<and>
       (goes_to_store tvb kind \<and> storable mem ep kind frame \<longrightarrow>
          (\<exists>i s. first_free ep i \<and>
             holds_request s frame kind rt now tvb (if tvb then rcp_avtp_extend_timestamp ts ref else 0)
               (next_sequence ep) \<and>
             a = adm RCP_SERVER_ADMIT_PENDING rt (Some i) RCP_ERROR_NONE (build_store_ack (mem_ack mem) frame want) \<and>
             ep' = ep\<lparr>pending := (pending ep)[i := s], next_sequence := next_sequence ep + 1,
                      pending_count := pending_count ep + 1\<rparr>)) \<and>
       (goes_to_store tvb kind \<and> \<not> storable mem ep kind frame \<longrightarrow>
          a = adm RCP_SERVER_ADMIT_REJECTED rt None (refusal_code ep kind frame) None \<and>
          (ep' = ep \<or> ep' = ep\<lparr>next_sequence := next_sequence ep + 1\<rparr>)))"
proof -
  have ok: "server_ok ep" using server_reach_ok [OF assms(1,2)] by simp
  have k: "fst (frame_kind frame) = kind" "snd (frame_kind frame) = rt" using assms(4) by simp_all
  note rule = admit_follows_rule [OF ok, where mem = mem and frame = frame and now = now and tvb = tvb
      and ts = ts and ref = ref and want = want, unfolded assms(3) k]
  show ?thesis
    by (intro conjI impI; (elim conjE)?)
      (use rule in \<open>auto simp: store_rule_def submit_rule split: if_splits\<close>)
qed

text \<open>The sample request, admitted by a fresh endpoint, is pending in slot 0 with its decoded step and
  transaction number; the same octets with the response bit set are rejected.\<close>

definition sample_response :: bytes where
  "sample_response = sample_frame[6 := 192]"

theorem admission_outcome_witness:
  "(\<exists>s. rcp_server_endpoint_admit_with_ack sample_mem (rcp_server_endpoint_init True) sample_frame 100 False 0 0 False =
      (adm RCP_SERVER_ADMIT_PENDING 0x0F (Some 0) RCP_ERROR_NONE None,
       (rcp_server_endpoint_init True)\<lparr>pending := (replicate 32 free_slot)[0 := s], next_sequence := 1,
          pending_count := 1\<rparr>) \<and>
      slot_kind s = RCP_SCHED_KIND_COMPOUND \<and> slot_transaction_num s = 7 \<and>
      slot_compound s = \<lparr>start_state = 1, next_state = 2, sequencer_index = 0, exec_delay = 0, repeat_count = 2\<rparr>) \<and>
   adm_error (fst (rcp_server_endpoint_admit_with_ack sample_mem (rcp_server_endpoint_init True) sample_response
     100 False 0 0 False)) = RCP_ERROR_INVALID_PARAMETER"
proof -
  let ?ep = "rcp_server_endpoint_init True"
  have r: "server_reach 0 ?ep" by (rule server_reach.start)
  have e: "\<not> admission_suspended ?ep" "pending ?ep = replicate 32 free_slot" "pending_count ?ep = 0" "next_sequence ?ep = 0"
    by (simp_all add: rcp_server_endpoint_init_def RCP_SERVER_MAX_PENDING_def)
  have k: "frame_kind sample_frame = (RCP_SCHED_KIND_COMPOUND, 0x0F)" "\<not> is_response sample_frame" "is_response sample_response"
    by code_simp+
  have st: "goes_to_store False RCP_SCHED_KIND_COMPOUND" "storable sample_mem ?ep RCP_SCHED_KIND_COMPOUND sample_frame"
    by (simp_all add: goes_to_store_def kind_is_gated_by_ep_enable_def storable_def decodable_def sample_frame_decodes e
        sample_mem_def RCP_SERVER_MAX_PENDING_def)
  have ack: "build_store_ack True sample_frame False = None" by (simp add: build_store_ack_def)
  note o = admission_outcome [OF r, of sample_mem, OF _ prod.collapse [symmetric]]
  have "\<exists>i s. first_free ?ep i \<and> holds_request s sample_frame RCP_SCHED_KIND_COMPOUND 0x0F 100 False 0 0 \<and>
      rcp_server_endpoint_admit_with_ack sample_mem ?ep sample_frame 100 False 0 0 False =
      (adm RCP_SERVER_ADMIT_PENDING 0x0F (Some i) RCP_ERROR_NONE None,
       ?ep\<lparr>pending := (replicate 32 free_slot)[i := s], next_sequence := 1, pending_count := 1\<rparr>)"
    using o [OF _ k(1), where now = 100 and tvb = False and ts = 0 and ref = 0 and want = False] k(2) st e ack by (auto simp: sample_mem_def prod_eq_iff)
  moreover have "i = 0" if "first_free ?ep i" for i
    using that e(2) by (auto simp: first_free_def RCP_SERVER_MAX_PENDING_def free_slot_def)
  moreover have "slot_kind s = RCP_SCHED_KIND_COMPOUND \<and> slot_transaction_num s = 7 \<and>
      slot_compound s = \<lparr>start_state = 1, next_state = 2, sequencer_index = 0, exec_delay = 0, repeat_count = 2\<rparr>"
    if "holds_request s sample_frame RCP_SCHED_KIND_COMPOUND 0x0F 100 False 0 0" for s
    using that by (simp add: holds_request_def holds_decoded_def sample_frame_decodes)
  moreover have "adm_error (fst (rcp_server_endpoint_admit_with_ack sample_mem ?ep sample_response 100 False 0 0 False)) =
      RCP_ERROR_INVALID_PARAMETER"
    using o [OF _ prod.collapse [symmetric], of sample_response] k(3) e by (simp add: adm_def)
  ultimately show ?thesis by blast
qed

text \<open>A store that holds 32 requests refuses the next conditional request with
  \<^verbatim>\<open>REQUEST_STORAGE_OVERFLOW\<close> and does not lose or change any of the stored ones.\<close>

theorem full_store_overflow:
  assumes "server_reach n ep" and "n < 2 ^ 64" and "pending_count ep = RCP_SERVER_MAX_PENDING"
    and "\<not> admission_suspended ep" and "rcp_acf_header_is_request (rcp_acf_unpack_header frame)"
    and "kind_is_gated_by_ep_enable (fst (frame_kind frame))"
  shows "rcp_server_endpoint_admit_with_ack mem ep frame now tvb ts ref want =
    (\<lparr>adm_result = RCP_SERVER_ADMIT_REJECTED, adm_request_type = snd (frame_kind frame), adm_index = None,
      adm_error = RCP_ERROR_REQUEST_STORAGE_OVERFLOW, adm_ack = None\<rparr>, ep)"
proof -
  have "server_ok ep" using server_reach_ok [OF assms(1,2)] by simp
  then have full: "claim_slot ep = None"
    using store.claim_room [of ep] assms(3) by (simp add: server_ok_def)
  obtain rt where rt: "rcp_compound_peek_request_type frame = Inr rt"
    and k: "frame_kind frame = (rcp_sched_classify True rt, rt)"
    and nk: "rcp_sched_classify True rt \<noteq> RCP_SCHED_KIND_STANDARD"
      "rcp_sched_classify True rt \<noteq> RCP_SCHED_KIND_CANCELLATION"
    using assms(6) by (auto simp: frame_kind_def kind_is_gated_by_ep_enable_def Let_def split: sum.splits if_splits)
  show ?thesis using assms(4,5) full nk
    by (simp add: rcp_server_endpoint_admit_with_ack_def rt k admit_conditional_def Let_def)
qed

text \<open>Storing the sample request 32 times fills the store.\<close>

definition full_ep :: rcp_server_endpoint_t where
  "full_ep = (server_apply sample_admit ^^ 32) (rcp_server_endpoint_init True)"

lemma server_reach_funpow: "server_reach n ep \<Longrightarrow> server_reach (n + k) ((server_apply op ^^ k) ep)"
  by (induction k) (auto intro: server_reach.step [of _ _ op, simplified])

lemma sample_admit_counts:
  assumes "server_ok ep" and "\<not> admission_suspended ep" and "pending_count ep < RCP_SERVER_MAX_PENDING"
  shows "pending_count (server_apply sample_admit ep) = pending_count ep + 1"
    and "\<not> admission_suspended (server_apply sample_admit ep)"
proof -
  have "claim_slot ep \<noteq> None" using store.claim_room [of ep] assms by (simp add: server_ok_def)
  then obtain i ep1 where c: "claim_slot ep = Some (i, ep1)" by auto
  note e = claim_slot_eq [OF c]
  have copy: "rcp_bytes_dup True sample_frame = Some sample_frame" by code_simp
  show "pending_count (server_apply sample_admit ep) = pending_count ep + 1"
    "\<not> admission_suspended (server_apply sample_admit ep)"
    using assms(2) c e
    by (simp_all add: sample_admit_def rcp_server_endpoint_admit_with_ack_def sample_frame_kind Let_def
        admit_conditional_def admit_decode_def sample_frame_decodes set_slot_def copy sample_mem_def)
qed

lemma full_ep_count:
  "k \<le> 32 \<Longrightarrow> pending_count ((server_apply sample_admit ^^ k) (rcp_server_endpoint_init True)) = k \<and>
   \<not> admission_suspended ((server_apply sample_admit ^^ k) (rcp_server_endpoint_init True))"
proof (induction k)
  case 0
  show ?case by (simp add: rcp_server_endpoint_init_def)
next
  case (Suc k)
  have "server_reach k ((server_apply sample_admit ^^ k) (rcp_server_endpoint_init True))"
    using server_reach_funpow [OF server_reach.start, of k sample_admit True] by simp
  then have "server_ok ((server_apply sample_admit ^^ k) (rcp_server_endpoint_init True))"
    using server_reach_ok Suc.prems by simp
  with Suc sample_admit_counts show ?case by (simp add: RCP_SERVER_MAX_PENDING_def)
qed

theorem full_store_overflow_witness:
  "fst (rcp_server_endpoint_admit_with_ack sample_mem full_ep sample_frame 0 False 0 0 False) =
    \<lparr>adm_result = RCP_SERVER_ADMIT_REJECTED, adm_request_type = 0x0F, adm_index = None,
      adm_error = RCP_ERROR_REQUEST_STORAGE_OVERFLOW, adm_ack = None\<rparr>"
proof -
  have r: "server_reach 32 full_ep"
    using server_reach_funpow [OF server_reach.start, of 32 sample_admit True] by (simp add: full_ep_def)
  have c: "pending_count full_ep = RCP_SERVER_MAX_PENDING" "\<not> admission_suspended full_ep"
    using full_ep_count [of 32] by (simp_all add: full_ep_def RCP_SERVER_MAX_PENDING_def)
  have k: "frame_kind sample_frame = (RCP_SCHED_KIND_COMPOUND, 0x0F)"
    by (simp add: frame_kind_def sample_frame_kind)
  show ?thesis
    by (subst full_store_overflow [OF r _ c sample_frame_kind(3)])
      (simp_all add: k kind_is_gated_by_ep_enable_def)
qed

text \<open>C9: What cancellation and the watchdog purge remove, in every endpoint that operations reach,
  including the tagging of stored requests as links of a chain by the frame dispatcher.  Clear-all
  empties the store; clear-non-safestate and the watchdog purge remove exactly the stored requests that
  are not tagged as safety requests; the chain cascade removes exactly the members of the chain at or
  after the given position, and nothing for chain group 0.  Each of them returns how many requests it
  removed and touches no other slot.\<close>

theorem cancellation_exact:
  assumes "server_reach n ep" and "n < 2 ^ 64"
  shows "(let (c, ep') = rcp_server_endpoint_cancel_all ep in
       c = pending_count ep \<and> pending_count ep' = 0 \<and> pending ep' = replicate RCP_SERVER_MAX_PENDING free_slot) \<and>
    (let (c, ep') = rcp_server_endpoint_watchdog_purge ep; keep = (\<lambda>s. rcp_e2e_is_safety_request (slot_request_type s)) in
       pending ep' = map (\<lambda>s. if in_use s \<and> \<not> keep s then free_slot else s) (pending ep) \<and>
       c = length (filter (\<lambda>s. in_use s \<and> \<not> keep s) (pending ep)) \<and>
       rcp_server_endpoint_cancel_non_safestate ep = (c, ep')) \<and>
    (let (c, ep') = rcp_server_endpoint_cancel_chain_from ep g p;
         hit = (\<lambda>s. in_use s \<and> g \<noteq> 0 \<and> chain_group s = g \<and> p \<le> chain_position s) in
       pending ep' = map (\<lambda>s. if hit s then free_slot else s) (pending ep) \<and> c = length (filter hit (pending ep)))"
proof (intro conjI)
  have ok: "server_ok ep" using server_reach_ok [OF assms] by simp
  have vacant: "\<forall>s\<in>set (pending ep). \<not> in_use s \<longrightarrow> s = free_slot"
    and count: "pending_count ep = length (filter in_use (pending ep))"
    and len: "length (pending ep) = RCP_SERVER_MAX_PENDING"
    using ok unfolding server_ok_def store.store_ok_def by blast+
  show "let (c, ep') = rcp_server_endpoint_cancel_all ep in
       c = pending_count ep \<and> pending_count ep' = 0 \<and> pending ep' = replicate RCP_SERVER_MAX_PENDING free_slot"
  proof -
    obtain c ep' where e: "release_loop (\<lambda>s. True) ep 0 RCP_SERVER_MAX_PENDING = (c, ep')" by fastforce
    note r = release_all_spec [OF ok e]
    have "pending ep' = replicate RCP_SERVER_MAX_PENDING free_slot"
      using vacant r(3) len by (intro nth_equalityI) (auto simp: list_all_iff)
    moreover have "pending_count ep' = length (filter in_use (pending ep'))"
      using r(1) by (simp add: server_ok_def store.store_ok_def)
    ultimately show ?thesis using e r(4) count by (simp add: rcp_server_endpoint_cancel_all_def)
  qed
  show "let (c, ep') = rcp_server_endpoint_watchdog_purge ep; keep = (\<lambda>s. rcp_e2e_is_safety_request (slot_request_type s)) in
       pending ep' = map (\<lambda>s. if in_use s \<and> \<not> keep s then free_slot else s) (pending ep) \<and>
       c = length (filter (\<lambda>s. in_use s \<and> \<not> keep s) (pending ep)) \<and>
       rcp_server_endpoint_cancel_non_safestate ep = (c, ep')"
    using release_all_spec(3,4) [OF ok prod.collapse [symmetric]]
    by (simp add: rcp_server_endpoint_watchdog_purge_def rcp_server_endpoint_cancel_non_safestate_def
        purge_non_safety_def rcp_e2e_watchdog_purge_should_keep_def case_prod_unfold Let_def)
  show "let (c, ep') = rcp_server_endpoint_cancel_chain_from ep g p;
         hit = (\<lambda>s. in_use s \<and> g \<noteq> 0 \<and> chain_group s = g \<and> p \<le> chain_position s) in
       pending ep' = map (\<lambda>s. if hit s then free_slot else s) (pending ep) \<and> c = length (filter hit (pending ep))"
    using release_all_spec(3,4) [OF ok prod.collapse [symmetric]]
    by (cases "g = 0") (simp_all add: rcp_server_endpoint_cancel_chain_from_def
        rcp_cancel_chain_should_cascade_def case_prod_unfold Let_def)
qed

text \<open>Three stored requests, tagged as positions 0 to 2 of chain 1: the cascade from position 1 leaves
  the first.\<close>

definition chain_ops :: "server_op list" where
  "chain_ops = concat (map (\<lambda>p. [sample_admit, Op_link_last_pending 1 p]) [0, 1, 2])"

definition chain_ep :: rcp_server_endpoint_t where
  "chain_ep = fold server_apply chain_ops (rcp_server_endpoint_init True)"

lemma server_reach_fold: "server_reach n ep \<Longrightarrow> server_reach (n + length ops) (fold server_apply ops ep)"
proof (induction ops arbitrary: n ep)
  case (Cons op ops)
  then show ?case using server_reach.step [of n ep op] Cons.IH [of "n + 1" "server_apply op ep"] by simp
qed simp

lemma chain_ep_links:
  "map (\<lambda>s. (in_use s, chain_group s, chain_position s)) (pending chain_ep) =
     [(True, 1, 0), (True, 1, 1), (True, 1, 2)] @ replicate 29 (False, 0, 0)"
  by code_simp

theorem cancellation_exact_witness:
  "fst (rcp_server_endpoint_cancel_chain_from chain_ep 1 1) = 2 \<and>
   map in_use (pending (snd (rcp_server_endpoint_cancel_chain_from chain_ep 1 1))) = True # replicate 31 False \<and>
   map in_use (pending chain_ep) = replicate 3 True @ replicate 29 False"
proof -
  have r: "server_reach 6 chain_ep"
    using server_reach_fold [OF server_reach.start, of chain_ops True]
    by (simp add: chain_ep_def chain_ops_def eval_nat_numeral)
  let ?hit = "\<lambda>s. in_use s \<and> chain_group s = 1 \<and> 1 \<le> chain_position s"
  let ?key = "\<lambda>s. (in_use s, chain_group s, chain_position s)"
  have 1: "map (\<lambda>s. ?hit s) (pending chain_ep) = map (\<lambda>(u, g, p). u \<and> g = 1 \<and> 1 \<le> p) (map ?key (pending chain_ep))"
    by simp
  have 2: "map in_use (pending chain_ep) = map fst (map ?key (pending chain_ep))" by simp
  have 3: "length (filter ?hit (pending chain_ep)) = length (filter id (map (\<lambda>s. ?hit s) (pending chain_ep)))"
    by (simp add: filter_map comp_def)
  have 4: "map in_use (map (\<lambda>s. if ?hit s then free_slot else s) (pending chain_ep)) =
      map (\<lambda>(u, g, p). u \<and> \<not> (g = 1 \<and> 1 \<le> p)) (map ?key (pending chain_ep))"
    by (auto simp: free_slot_def)
  note c = cancellation_exact [OF r, of 1 1]
  have "fst (rcp_server_endpoint_cancel_chain_from chain_ep 1 1) = length (filter ?hit (pending chain_ep))"
    "pending (snd (rcp_server_endpoint_cancel_chain_from chain_ep 1 1)) =
      map (\<lambda>s. if ?hit s then free_slot else s) (pending chain_ep)"
    using c by (simp_all add: case_prod_unfold Let_def)
  then show ?thesis unfolding 4 3 1 2 chain_ep_links
    by (simp add: 4 chain_ep_links numeral_eq_Suc del: map_map)
qed

section \<open>Repetitions\<close>

text \<open>Executions of the request in slot \<open>i\<close>, one per tick context.\<close>

definition complete_all ::
    "rcp_server_endpoint_t \<Rightarrow> nat \<Rightarrow> rcp_server_tick_ctx_t list \<Rightarrow> rcp_server_endpoint_t" where
  "complete_all ep i ctxs = foldl (\<lambda>ep ctx. fst (snd (rcp_server_endpoint_complete ep i ctx))) ep ctxs"

text \<open>The repetition counter of a stored request, for the kinds that have one.\<close>

definition slot_repeat :: "rcp_server_pending_t \<Rightarrow> u16" where
  "slot_repeat s =
     (if slot_kind s = RCP_SCHED_KIND_COMPOUND \<or> slot_kind s = RCP_SCHED_KIND_COMPOUND_WAIT
      then repeat_count (slot_compound s)
      else if slot_kind s = RCP_SCHED_KIND_TRIGGERED then trigger_repeat_count (slot_triggered s)
      else 0)"

lemma complete_slot:
  assumes "i < length (pending ep)" and "i < RCP_SERVER_MAX_PENDING" and "in_use (pending ep ! i)"
    and "rcp_server_endpoint_complete ep i ctx = (again, ep', seqs)"
  shows "length (pending ep') = length (pending ep) \<and>
    again = (repeat_left (slot_repeat (pending ep ! i)) \<noteq> None) \<and>
    (case repeat_left (slot_repeat (pending ep ! i)) of
       None \<Rightarrow> pending ep' ! i = free_slot
     | Some m \<Rightarrow> in_use (pending ep' ! i) \<and> slot_repeat (pending ep' ! i) = m \<and>
         slot_kind (pending ep' ! i) = slot_kind (pending ep ! i))"
proof -
  have z: "repeat_left 0 = None" by (simp add: repeat_left_def consts_rcp)
  show ?thesis using assms
    by (cases "slot_kind (pending ep ! i)")
      (auto simp: rcp_server_endpoint_complete_def Let_def slot_repeat_def release_slot_def set_slot_def z
        split: option.splits)
qed

text \<open>C27: A request with repetition count \<open>m\<close> is executed \<open>m + 1\<close> times and then released, and a
  request with the infinite count stays however often it is executed; the request kinds without a
  repetition field are released after one execution.\<close>

theorem repetitions_exhausted:
  assumes "server_reach n ep" and "n < 2 ^ 64" and "i < RCP_SERVER_MAX_PENDING" and "in_use (pending ep ! i)"
  shows "if slot_repeat (pending ep ! i) = RCP_COMPOUND_REPEAT_INFINITE
    then in_use (pending (complete_all ep i ctxs) ! i)
    else in_use (pending (complete_all ep i ctxs) ! i) = (length ctxs \<le> unat (slot_repeat (pending ep ! i)))"
proof -
  have vacant: "i < length (pending ep) \<Longrightarrow> \<not> in_use (pending ep ! i) \<Longrightarrow>
      \<not> in_use (pending (complete_all ep i cs) ! i)" for ep cs
    by (induction cs arbitrary: ep) (auto simp: complete_all_def rcp_server_endpoint_complete_def Let_def)
  have run: "i < length (pending ep) \<Longrightarrow> in_use (pending ep ! i) \<Longrightarrow>
      if slot_repeat (pending ep ! i) = RCP_COMPOUND_REPEAT_INFINITE
      then in_use (pending (complete_all ep i cs) ! i)
      else in_use (pending (complete_all ep i cs) ! i) = (length cs \<le> unat (slot_repeat (pending ep ! i)))" for ep cs
  proof (induction cs arbitrary: ep)
    case Nil
    then show ?case by (simp add: complete_all_def)
  next
    case (Cons c cs)
    obtain again ep' seqs where e: "rcp_server_endpoint_complete ep i c = (again, ep', seqs)"
      by (metis prod.collapse)
    note s = complete_slot [OF Cons.prems(1) assms(3) Cons.prems(2) e]
    have all: "complete_all ep i (c # cs) = complete_all ep' i cs" by (simp add: complete_all_def e)
    show ?case
    proof (cases "repeat_left (slot_repeat (pending ep ! i))")
      case None
      then have "slot_repeat (pending ep ! i) = 0" "slot_repeat (pending ep ! i) \<noteq> RCP_COMPOUND_REPEAT_INFINITE"
        by (auto simp: repeat_left_def split: if_splits)
      with None s vacant [of ep' cs] Cons.prems(1) show ?thesis by (simp add: all)
    next
      case (Some m)
      let ?r = "slot_repeat (pending ep ! i)"
      have m: "slot_repeat (pending ep' ! i) = m" "in_use (pending ep' ! i)" "i < length (pending ep')"
        using s Some Cons.prems(1) by simp_all
      have "?r = RCP_COMPOUND_REPEAT_INFINITE \<and> m = RCP_COMPOUND_REPEAT_INFINITE \<or>
          ?r \<noteq> RCP_COMPOUND_REPEAT_INFINITE \<and> m \<noteq> RCP_COMPOUND_REPEAT_INFINITE \<and> unat ?r = unat m + 1"
      proof (cases "?r = RCP_COMPOUND_REPEAT_INFINITE")
        case False
        then have r: "?r \<noteq> 0" "m = ?r - 1" using Some by (auto simp: repeat_left_def split: if_splits)
        then have "unat ?r = unat m + 1" by (simp add: unat_minus_one unat_gt_0 Suc_leI)
        moreover have "m \<noteq> RCP_COMPOUND_REPEAT_INFINITE"
          using r by (auto simp: consts_rcp)
        ultimately show ?thesis using False by simp
      qed (use Some in \<open>simp add: repeat_left_def\<close>)
      with Cons.IH [OF m(3,2)] m(1) show ?thesis by (auto simp: all)
    qed
  qed
  have "server_ok ep" using server_reach_ok [OF assms(1,2)] by simp
  then have "i < length (pending ep)" using assms(3) by (simp add: server_ok_def)
  then show ?thesis using run assms(4) by blast
qed

lemma sample_ep_slot: "in_use (pending sample_ep ! 0)" "slot_repeat (pending sample_ep ! 0) = 2"
  unfolding sample_ep_def by code_simp+

theorem repetitions_exhausted_witness:
  "in_use (pending (complete_all sample_ep 0 [sample_ctx, sample_ctx]) ! 0) \<and>
   \<not> in_use (pending (complete_all sample_ep 0 [sample_ctx, sample_ctx, sample_ctx]) ! 0)"
  using repetitions_exhausted [OF sample_ep_reach, of 0 "[sample_ctx, sample_ctx]"]
    repetitions_exhausted [OF sample_ep_reach, of 0 "[sample_ctx, sample_ctx, sample_ctx]"] sample_ep_slot
  by (simp add: consts_rcp)

section \<open>The queue of a disabled endpoint\<close>








section \<open>Single cancellation\<close>

text \<open>a standard request carried under a presentation time is stored without its transaction
  number, so that no single cancellation naming that number finds it (unless another stored request
  has it); it leaves the store only by execution, by clear-all or by a purge.\<close>

theorem tscf_gated_uncancellable:
  assumes "server_reach n ep" and "n < 2 ^ 64" and "fst (frame_kind frame) = RCP_SCHED_KIND_STANDARD"
    and "rcp_server_endpoint_admit_with_ack mem ep frame now True ts ref want = (a, ep')"
    and "adm_result a = RCP_SERVER_ADMIT_PENDING" and "tn \<noteq> 0"
    and "\<forall>s\<in>set (pending ep). in_use s \<longrightarrow> slot_transaction_num s \<noteq> tn"
  shows "rcp_server_endpoint_cancel_single ep' tn st = (RCP_CANCEL_RESULT_NOT_FOUND, ep')"
proof -
  have ok: "server_ok ep" using server_reach_ok [OF assms(1,2)] by simp
  have "admit_under_tscf_gate mem ep frame now (rcp_avtp_extend_timestamp ts ref) RCP_SCHED_KIND_STANDARD 0 want 0 = (a, ep')"
    using assms(3-5)
    by (auto simp: rcp_server_endpoint_admit_with_ack_def frame_kind_def Let_def split: if_splits sum.splits)
  then obtain i ep1 where c: "claim_slot ep = Some (i, ep1)" and
    e: "ep' = set_slot ep1 i ((pending ep1 ! i)\<lparr>slot_kind := RCP_SCHED_KIND_STANDARD, slot_request_type := 0,
        has_presentation_gate := True, presentation_gate_ns := rcp_avtp_extend_timestamp ts ref,
        armed_at := now, slot_frame := rcp_bytes_dup (mem_copy mem) frame\<rparr>)"
    using assms(5) by (auto simp: admit_under_tscf_gate_def Let_def split: option.splits if_splits)
  have p: "pending ep' = (pending ep)[i := pending ep' ! i]" "slot_transaction_num (pending ep' ! i) = 0"
    using claim_slot_eq [OF c] by (simp_all add: e set_slot_def claimed_slot [OF c]) (simp add: free_slot_def)
  have "\<forall>s\<in>set (pending ep'). \<not> (in_use s \<and> slot_transaction_num s = tn)"
    using assms(6,7) p set_update_subset_insert [of "pending ep" i "pending ep' ! i"] by auto
  then have "find_index (\<lambda>s. in_use s \<and> slot_transaction_num s = tn) (pending ep') = None"
    by (simp add: find_index_None)
  then show ?thesis by (simp add: rcp_server_endpoint_cancel_single_def rcp_cancel_attempt_def)
qed

text \<open>A read request without payload, transaction number 9.\<close>

definition sample_standard :: bytes where
  "sample_standard = [24, 3, 0, 3, 0, 9, 0, 0, 0, 0, 0, 0]"

theorem tscf_gated_uncancellable_witness:
  "bm_transaction_num (rcp_acf_unpack_header sample_standard) = 9 \<and>
   fst (rcp_server_endpoint_cancel_single
     (snd (rcp_server_endpoint_admit_with_ack sample_mem (rcp_server_endpoint_init True) sample_standard 0
        True 5 0 False)) 9 RCP_CANCEL_LIFECYCLE_QUEUED) = RCP_CANCEL_RESULT_NOT_FOUND"
proof -
  let ?r = "rcp_server_endpoint_admit_with_ack sample_mem (rcp_server_endpoint_init True) sample_standard 0 True 5 0 False"
  have f: "fst (frame_kind sample_standard) = RCP_SCHED_KIND_STANDARD"
    "adm_result (fst ?r) = RCP_SERVER_ADMIT_PENDING"
    "bm_transaction_num (rcp_acf_unpack_header sample_standard) = 9" by code_simp+
  have "\<forall>s\<in>set (pending (rcp_server_endpoint_init True)). in_use s \<longrightarrow> slot_transaction_num s \<noteq> 9"
    by (simp add: rcp_server_endpoint_init_def)
  from tscf_gated_uncancellable [OF server_reach.start _ f(1) prod.collapse [symmetric] f(2) _ this] f(3)
  show ?thesis by simp
qed

end
