(* ===== verification/Power_Modes.thy ===== *)
theory Power_Modes
  imports Lifecycle "HOL-Library.Sublist"
begin

text \<open>
  \<^verbatim>\<open>src/power.c\<close>: the power modes of an RC server, the hot-start handshake and the gate of
  standby and sleep entry.

  A mode behind a pointer is an argument and a component of the result; \<^verbatim>\<open>*out_start_kind\<close>
  is \<^const>\<open>None\<close> where the C code does not write it.  A \<^verbatim>\<open>NULL\<close> handshake or gate is
  \<^const>\<open>None\<close>, and so is a recovered lifecycle value outside the enumeration.  The text tables
  are left out.
\<close>

section \<open>Data\<close>

datatype rcp_pwrmode_t =
    RCP_PWRMODE_NORMAL | RCP_PWRMODE_STANDBY | RCP_PWRMODE_SLEEP | RCP_PWRMODE_UNPOWERED

datatype rcp_pwrmode_errc_t =
    RCP_PWRMODE_OK | RCP_PWRMODE_ERR_INVALID_TRANSITION | RCP_PWRMODE_ERR_ENTRY_REFUSED

datatype rcp_pwrmode_start_kind_t = RCP_PWRMODE_START_HOT | RCP_PWRMODE_START_COLD

datatype rcp_pwrmode_wake_path_t = RCP_PWRMODE_WAKE_VIA_PIN | RCP_PWRMODE_WAKE_VIA_NETWORK

datatype rcp_pwrmode_handshake_step_t =
    RCP_PWRMODE_HANDSHAKE_NOT_STARTED | RCP_PWRMODE_HANDSHAKE_IFACE_REENABLED
  | RCP_PWRMODE_HANDSHAKE_ECHOED | RCP_PWRMODE_HANDSHAKE_COMPLETE | RCP_PWRMODE_HANDSHAKE_FAILED

record rcp_pwrmode_handshake_t =
  hs_step :: rcp_pwrmode_handshake_step_t
  wakeup_attempts :: u32
  wakeup_repeat_limit :: u32

record rcp_pwrmode_entry_gate_t =
  gate_wup_status_clear :: bool
  gate_endpoint_idle :: bool
  gate_response_queue_empty :: bool

datatype rcp_pwrmode_entry_result_t = RCP_PWRMODE_ENTRY_OK | RCP_PWRMODE_ENTRY_REFUSED

type_synonym mode_change = "rcp_pwrmode_errc_t \<times> rcp_pwrmode_t \<times> rcp_pwrmode_start_kind_t option"

section \<open>Transitions\<close>

definition rcp_pwrmode_cold_start_lifecycle_target ::
    "rcp_lifecycle_state_t option \<Rightarrow> rcp_lifecycle_state_t" where
  "rcp_pwrmode_cold_start_lifecycle_target recovered_state =
     (case recovered_state of Some s \<Rightarrow> s | None \<Rightarrow> RCP_LIFECYCLE_HW_UNCONFIGURED)"

definition rcp_pwrmode_transition :: "rcp_pwrmode_t \<Rightarrow> rcp_pwrmode_t \<Rightarrow> mode_change" where
  "rcp_pwrmode_transition mode target =
     (if mode = target then (RCP_PWRMODE_OK, target, Some RCP_PWRMODE_START_HOT)
      else if (mode = RCP_PWRMODE_NORMAL \<and> target = RCP_PWRMODE_STANDBY) \<or>
              (mode = RCP_PWRMODE_STANDBY \<and> target = RCP_PWRMODE_NORMAL)
      then (RCP_PWRMODE_OK, target, Some RCP_PWRMODE_START_HOT)
      else if (mode = RCP_PWRMODE_NORMAL \<and> target = RCP_PWRMODE_SLEEP) \<or>
              (mode = RCP_PWRMODE_STANDBY \<and> target = RCP_PWRMODE_SLEEP)
      then (RCP_PWRMODE_OK, target, Some RCP_PWRMODE_START_COLD)
      else if target = RCP_PWRMODE_UNPOWERED \<and>
              (mode = RCP_PWRMODE_NORMAL \<or> mode = RCP_PWRMODE_STANDBY \<or> mode = RCP_PWRMODE_SLEEP)
      then (RCP_PWRMODE_OK, target, Some RCP_PWRMODE_START_COLD)
      else if mode = RCP_PWRMODE_UNPOWERED \<and> target = RCP_PWRMODE_NORMAL
      then (RCP_PWRMODE_OK, target, Some RCP_PWRMODE_START_COLD)
      else (RCP_PWRMODE_ERR_INVALID_TRANSITION, mode, None))"

section \<open>The hot-start handshake\<close>

definition rcp_pwrmode_hotstart_required :: "rcp_pwrmode_wake_path_t \<Rightarrow> bool" where
  "rcp_pwrmode_hotstart_required path = True"

definition rcp_pwrmode_handshake_init :: "u32 \<Rightarrow> rcp_pwrmode_handshake_t" where
  "rcp_pwrmode_handshake_init repeat_limit =
     \<lparr>hs_step = RCP_PWRMODE_HANDSHAKE_NOT_STARTED, wakeup_attempts = 0,
      wakeup_repeat_limit = repeat_limit\<rparr>"

definition rcp_pwrmode_handshake_iface_reenabled ::
    "rcp_pwrmode_handshake_t \<Rightarrow> bool \<Rightarrow> bool \<times> rcp_pwrmode_handshake_t" where
  "rcp_pwrmode_handshake_iface_reenabled hs network_available =
     (if hs_step hs \<noteq> RCP_PWRMODE_HANDSHAKE_NOT_STARTED then (False, hs)
      else if \<not> network_available then (False, hs)
      else (True, hs\<lparr>hs_step := RCP_PWRMODE_HANDSHAKE_IFACE_REENABLED\<rparr>))"

definition rcp_pwrmode_handshake_wakeup_attempt ::
    "rcp_pwrmode_handshake_t \<Rightarrow> bool \<Rightarrow> bool \<times> rcp_pwrmode_handshake_t" where
  "rcp_pwrmode_handshake_wakeup_attempt hs echoed =
     (if hs_step hs \<noteq> RCP_PWRMODE_HANDSHAKE_IFACE_REENABLED then (False, hs)
      else
        let hs = hs\<lparr>wakeup_attempts := wakeup_attempts hs + 1\<rparr> in
        if echoed then (True, hs\<lparr>hs_step := RCP_PWRMODE_HANDSHAKE_ECHOED\<rparr>)
        else if wakeup_attempts hs \<ge> wakeup_repeat_limit hs
        then (False, hs\<lparr>hs_step := RCP_PWRMODE_HANDSHAKE_FAILED\<rparr>)
        else (True, hs))"

definition rcp_pwrmode_handshake_resume_queues ::
    "rcp_pwrmode_handshake_t \<Rightarrow> bool \<times> rcp_pwrmode_handshake_t" where
  "rcp_pwrmode_handshake_resume_queues hs =
     (if hs_step hs \<noteq> RCP_PWRMODE_HANDSHAKE_ECHOED then (False, hs)
      else (True, hs\<lparr>hs_step := RCP_PWRMODE_HANDSHAKE_COMPLETE\<rparr>))"

definition rcp_pwrmode_handshake_is_complete :: "rcp_pwrmode_handshake_t \<Rightarrow> bool" where
  "rcp_pwrmode_handshake_is_complete hs \<longleftrightarrow> hs_step hs = RCP_PWRMODE_HANDSHAKE_COMPLETE"

definition rcp_pwrmode_handshake_has_failed :: "rcp_pwrmode_handshake_t \<Rightarrow> bool" where
  "rcp_pwrmode_handshake_has_failed hs \<longleftrightarrow> hs_step hs = RCP_PWRMODE_HANDSHAKE_FAILED"

definition rcp_pwrmode_wake_from_sleep ::
    "rcp_pwrmode_t \<Rightarrow> rcp_pwrmode_wake_path_t \<Rightarrow> rcp_pwrmode_handshake_t option \<Rightarrow> mode_change" where
  "rcp_pwrmode_wake_from_sleep mode path handshake =
     (if mode \<noteq> RCP_PWRMODE_SLEEP then (RCP_PWRMODE_ERR_INVALID_TRANSITION, mode, None)
      else
        let kind =
          (if \<not> rcp_pwrmode_hotstart_required path then RCP_PWRMODE_START_HOT
           else case handshake of
                  Some hs \<Rightarrow> if rcp_pwrmode_handshake_is_complete hs then RCP_PWRMODE_START_HOT
                             else RCP_PWRMODE_START_COLD
                | None \<Rightarrow> RCP_PWRMODE_START_COLD)
        in (RCP_PWRMODE_OK, RCP_PWRMODE_NORMAL, Some kind))"

section \<open>Entry into standby and sleep\<close>

definition rcp_pwrmode_check_entry ::
    "rcp_pwrmode_entry_gate_t option \<Rightarrow> rcp_pwrmode_entry_result_t" where
  "rcp_pwrmode_check_entry gate =
     (case gate of
        None \<Rightarrow> RCP_PWRMODE_ENTRY_REFUSED
      | Some g \<Rightarrow>
          if \<not> gate_wup_status_clear g \<or> \<not> gate_endpoint_idle g \<or> \<not> gate_response_queue_empty g
          then RCP_PWRMODE_ENTRY_REFUSED else RCP_PWRMODE_ENTRY_OK)"

definition rcp_pwrmode_commit_entry ::
    "rcp_pwrmode_t \<Rightarrow> rcp_pwrmode_t \<Rightarrow> rcp_pwrmode_entry_gate_t option \<Rightarrow> bool \<Rightarrow> mode_change" where
  "rcp_pwrmode_commit_entry mode target gate response_sent =
     (if rcp_pwrmode_check_entry gate \<noteq> RCP_PWRMODE_ENTRY_OK
      then (RCP_PWRMODE_ERR_ENTRY_REFUSED, mode, None)
      else if \<not> response_sent then (RCP_PWRMODE_ERR_ENTRY_REFUSED, mode, None)
      else if (mode \<noteq> RCP_PWRMODE_NORMAL \<and> mode \<noteq> RCP_PWRMODE_STANDBY) \<or>
              (target \<noteq> RCP_PWRMODE_STANDBY \<and> target \<noteq> RCP_PWRMODE_SLEEP)
      then (RCP_PWRMODE_ERR_INVALID_TRANSITION, mode, None)
      else rcp_pwrmode_transition mode target)"

definition rcp_pwrmode_commit_network_sleep ::
    "rcp_pwrmode_t \<Rightarrow> rcp_pwrmode_entry_gate_t option \<Rightarrow> bool \<Rightarrow> mode_change" where
  "rcp_pwrmode_commit_network_sleep mode gate response_sent =
     rcp_pwrmode_commit_entry mode RCP_PWRMODE_SLEEP gate response_sent"

section \<open>Properties\<close>

text \<open>The handshake as a state machine.\<close>

datatype handshake_op = Hs_iface bool | Hs_attempt bool | Hs_resume

fun handshake_apply :: "rcp_pwrmode_handshake_t \<Rightarrow> handshake_op \<Rightarrow> rcp_pwrmode_handshake_t" where
  "handshake_apply hs (Hs_iface available) = snd (rcp_pwrmode_handshake_iface_reenabled hs available)"
| "handshake_apply hs (Hs_attempt echoed) = snd (rcp_pwrmode_handshake_wakeup_attempt hs echoed)"
| "handshake_apply hs Hs_resume = snd (rcp_pwrmode_handshake_resume_queues hs)"

lemmas handshake_defs = rcp_pwrmode_handshake_iface_reenabled_def
  rcp_pwrmode_handshake_wakeup_attempt_def rcp_pwrmode_handshake_resume_queues_def Let_def

text \<open>The operations that must have happened, in this order, when the handshake is at a step.\<close>

fun handshake_evidence :: "rcp_pwrmode_handshake_step_t \<Rightarrow> handshake_op list" where
  "handshake_evidence RCP_PWRMODE_HANDSHAKE_NOT_STARTED = []"
| "handshake_evidence RCP_PWRMODE_HANDSHAKE_IFACE_REENABLED = [Hs_iface True]"
| "handshake_evidence RCP_PWRMODE_HANDSHAKE_ECHOED = [Hs_iface True, Hs_attempt True]"
| "handshake_evidence RCP_PWRMODE_HANDSHAKE_COMPLETE = [Hs_iface True, Hs_attempt True, Hs_resume]"
| "handshake_evidence RCP_PWRMODE_HANDSHAKE_FAILED = [Hs_iface True]"

lemma handshake_moves:
  "handshake_evidence (hs_step (handshake_apply hs x)) = handshake_evidence (hs_step hs) \<or>
   handshake_evidence (hs_step (handshake_apply hs x)) = handshake_evidence (hs_step hs) @ [x]"
  by (cases x; cases "hs_step hs") (auto simp: handshake_defs)

lemma evidence_step:
  assumes "subseq (handshake_evidence (hs_step hs)) ops"
  shows "subseq (handshake_evidence (hs_step (handshake_apply hs x))) (ops @ [x])"
  using handshake_moves [of hs x] assms subseq_rev_drop_many [OF assms, of "[x]"] by auto

lemma evidence_run:
  "subseq (handshake_evidence (hs_step (foldl handshake_apply (rcp_pwrmode_handshake_init limit) ops))) ops"
proof (induction ops rule: rev_induct)
  case Nil
  then show ?case by (simp add: rcp_pwrmode_handshake_init_def)
next
  case (snoc x ops)
  then show ?case by (simp add: evidence_step)
qed

text \<open>Whatever operations are applied to a new handshake, a wake from sleep with it is a hot start
  only if the network interface came up, after that a wake-up message was echoed, and after that the
  queues were resumed; without a handshake it is never hot.  The wake itself always ends in normal mode
  and only sleep can be woken.\<close>

theorem hot_start_needs_handshake:
  "(let (e, mode', kind) = rcp_pwrmode_wake_from_sleep mode path
        (Some (foldl handshake_apply (rcp_pwrmode_handshake_init limit) ops)) in
      (if mode = RCP_PWRMODE_SLEEP then e = RCP_PWRMODE_OK \<and> mode' = RCP_PWRMODE_NORMAL
       else e = RCP_PWRMODE_ERR_INVALID_TRANSITION \<and> mode' = mode) \<and>
      (kind = Some RCP_PWRMODE_START_HOT \<longrightarrow>
        subseq [Hs_iface True, Hs_attempt True, Hs_resume] ops)) \<and>
   snd (snd (rcp_pwrmode_wake_from_sleep mode path None)) \<noteq> Some RCP_PWRMODE_START_HOT"
  using evidence_run [of limit ops]
  by (auto simp: rcp_pwrmode_wake_from_sleep_def rcp_pwrmode_handshake_is_complete_def Let_def
      rcp_pwrmode_hotstart_required_def split: if_splits)

theorem hot_start_needs_handshake_witness:
  "snd (snd (rcp_pwrmode_wake_from_sleep RCP_PWRMODE_SLEEP RCP_PWRMODE_WAKE_VIA_PIN
     (Some (foldl handshake_apply (rcp_pwrmode_handshake_init 3)
       [Hs_iface True, Hs_attempt False, Hs_attempt True, Hs_resume])))) = Some RCP_PWRMODE_START_HOT \<and>
   snd (snd (rcp_pwrmode_wake_from_sleep RCP_PWRMODE_SLEEP RCP_PWRMODE_WAKE_VIA_PIN
     (None :: rcp_pwrmode_handshake_t option))) \<noteq> Some RCP_PWRMODE_START_HOT"
proof
  show "snd (snd (rcp_pwrmode_wake_from_sleep RCP_PWRMODE_SLEEP RCP_PWRMODE_WAKE_VIA_PIN
     (Some (foldl handshake_apply (rcp_pwrmode_handshake_init 3)
       [Hs_iface True, Hs_attempt False, Hs_attempt True, Hs_resume])))) = Some RCP_PWRMODE_START_HOT"
    by code_simp
  show "snd (snd (rcp_pwrmode_wake_from_sleep RCP_PWRMODE_SLEEP RCP_PWRMODE_WAKE_VIA_PIN
     (None :: rcp_pwrmode_handshake_t option))) \<noteq> Some RCP_PWRMODE_START_HOT"
    using hot_start_needs_handshake by blast
qed

lemma attempts_pending:
  assumes "hs_step hs = RCP_PWRMODE_HANDSHAKE_IFACE_REENABLED"
    and "unat (wakeup_attempts hs) + n < unat (wakeup_repeat_limit hs)"
  shows "foldl handshake_apply hs (replicate n (Hs_attempt False)) =
    hs\<lparr>wakeup_attempts := wakeup_attempts hs + of_nat n\<rparr>"
  using assms
proof (induction n arbitrary: hs)
  case (Suc n)
  let ?hs = "hs\<lparr>wakeup_attempts := wakeup_attempts hs + 1\<rparr>"
  have lim: "unat (wakeup_repeat_limit hs) < 2 ^ 32" using unsigned_less [of "wakeup_repeat_limit hs"] by simp
  have a: "unat (wakeup_attempts hs + 1) = unat (wakeup_attempts hs) + 1"
    using Suc.prems(2) lim by (simp add: unat_word_ariths)
  then have "handshake_apply hs (Hs_attempt False) = ?hs"
    using Suc.prems by (auto simp: handshake_defs word_le_nat_alt)
  moreover have "foldl handshake_apply ?hs (replicate n (Hs_attempt False)) =
      ?hs\<lparr>wakeup_attempts := wakeup_attempts ?hs + of_nat n\<rparr>"
    using Suc.prems a by (intro Suc.IH) simp_all
  ultimately show ?case by (simp add: algebra_simps)
qed simp

text \<open>the repetition of the wake-up message ends.  Once the interface is up, an unanswered attempt
  keeps the handshake pending while fewer attempts than the repeat limit were made, and attempt number
  max(1, limit) fails it for good; so with no answer at all the handshake reaches the failed step
  within that many attempts, and a wake from sleep is then a cold start.\<close>

theorem unanswered_handshake_fails:
  "hs_step (foldl handshake_apply (rcp_pwrmode_handshake_init limit)
       (Hs_iface True # replicate n (Hs_attempt False))) =
      (if n < max 1 (unat limit) then RCP_PWRMODE_HANDSHAKE_IFACE_REENABLED
       else RCP_PWRMODE_HANDSHAKE_FAILED)"
proof -
  define hs where "hs = handshake_apply (rcp_pwrmode_handshake_init limit) (Hs_iface True)"
  have hs: "hs = \<lparr>hs_step = RCP_PWRMODE_HANDSHAKE_IFACE_REENABLED, wakeup_attempts = 0, wakeup_repeat_limit = limit\<rparr>"
    by (simp add: hs_def handshake_defs rcp_pwrmode_handshake_init_def)
  have stuck: "foldl handshake_apply h (replicate k (Hs_attempt False)) = h"
    if "hs_step h = RCP_PWRMODE_HANDSHAKE_FAILED" for h k
    using that by (induction k) (simp_all add: handshake_defs)
  let ?m = "max 1 (unat limit)"
  have pend: "foldl handshake_apply hs (replicate k (Hs_attempt False)) = hs\<lparr>wakeup_attempts := of_nat k\<rparr>"
    if "k < ?m" for k
  proof (cases "k = 0")
    case False
    then show ?thesis using that attempts_pending [of hs k] by (simp add: hs)
  qed (simp add: hs)
  show ?thesis
  proof (cases "n < ?m")
    case True
    then show ?thesis using pend by (simp add: hs_def [symmetric] del: handshake_apply.simps) (simp add: hs)
  next
    case False
    define k where "k = ?m - 1"
    have n: "replicate n (Hs_attempt False) =
        replicate k (Hs_attempt False) @ Hs_attempt False # replicate (n - ?m) (Hs_attempt False)"
      using False by (simp add: k_def flip: replicate_Suc replicate_add)
    have lt: "unat limit < 2 ^ 32" using unsigned_less [of limit] by simp
    have "unat (of_nat k + 1 :: u32) = k + 1"
      using lt by (simp add: k_def unat_word_ariths unat_of_nat)
    then have "limit \<le> of_nat k + 1" by (simp add: word_le_nat_alt k_def)
    then have "hs_step (handshake_apply (hs\<lparr>wakeup_attempts := of_nat k\<rparr>) (Hs_attempt False)) = RCP_PWRMODE_HANDSHAKE_FAILED"
      by (simp add: hs handshake_defs)
    then show ?thesis using False pend [of k]
      by (simp add: hs_def [symmetric] n stuck k_def del: handshake_apply.simps)
  qed
qed

text \<open>the gate of standby and sleep entry.  The mode changes only if wake-up status, all endpoints
  and all response queues are clear and the response has been sent, only from normal or standby and only
  to standby or sleep; in every other case it stays as it is.  A committed entry into standby is a hot
  transition and one into sleep a cold one, except that standby to standby is no change.\<close>

theorem entry_gate_exact:
  "rcp_pwrmode_commit_entry mode target gate sent =
     (let open_gate = (case gate of None \<Rightarrow> False
            | Some g \<Rightarrow> gate_wup_status_clear g \<and> gate_endpoint_idle g \<and> gate_response_queue_empty g) in
      if \<not> (open_gate \<and> sent) then (RCP_PWRMODE_ERR_ENTRY_REFUSED, mode, None)
      else if mode \<in> {RCP_PWRMODE_NORMAL, RCP_PWRMODE_STANDBY} \<and>
              target \<in> {RCP_PWRMODE_STANDBY, RCP_PWRMODE_SLEEP}
      then (RCP_PWRMODE_OK, target,
            Some (if target = RCP_PWRMODE_STANDBY then RCP_PWRMODE_START_HOT else RCP_PWRMODE_START_COLD))
      else (RCP_PWRMODE_ERR_INVALID_TRANSITION, mode, None))"
  by (cases mode; cases target; cases gate)
    (simp_all add: rcp_pwrmode_commit_entry_def rcp_pwrmode_check_entry_def rcp_pwrmode_transition_def)

end
