(* ===== verification/Registers.thy ===== *)
theory Registers
  imports Acf
begin

text \<open>
  What the endpoint types \<^verbatim>\<open>src/ep_*.c\<close> have in common, each in its own copy.

  The configuration write (for instance \<^verbatim>\<open>rcp_ep_gpio_apply_reconfig\<close>): the payload is a 16-bit
  start address and data octets; the endpoint renders its register block, patches the octets that are not
  read-only, and parses the image back.  \<open>patch_block\<close> is the patch loop and \<open>apply_block\<close> the function.
  The contract of a block is the locale \<open>register_block\<close>, extended by \<open>readback_block\<close> for blocks that
  keep every written octet; each endpoint theory interprets them on its own registers.

  The messages: a request is an ABB message, a response an ABB message or, with a timestamp, a GBB
  message.  \<open>request_frame\<close>, \<open>response_frame\<close> and their decoders are the common parts, which the
  endpoints complete with their own checks and error codes.
\<close>

section \<open>Shared configuration data\<close>

definition RCP_ACF_MAX_PAYLOAD :: nat where
  [consts_rcp]: "RCP_ACF_MAX_PAYLOAD = RCP_ACF_GBB_MAX_PAYLOAD"

record rcp_regmap_ep_functional_cfg_t =
  fc_ep_enable :: bool
  fc_ep_clear_req_storage :: bool
  fc_ep_req_crc_enable :: bool
  fc_ep_response_ts_enable :: bool
  fc_ep_suppress_response :: bool

definition rcp_regmap_ep_functional_cfg_init :: rcp_regmap_ep_functional_cfg_t where
  "rcp_regmap_ep_functional_cfg_init =
     \<lparr>fc_ep_enable = False, fc_ep_clear_req_storage = False, fc_ep_req_crc_enable = False,
      fc_ep_response_ts_enable = False, fc_ep_suppress_response = False\<rparr>"

text \<open>The two octets in which every block packs these flags.\<close>

definition enable_clr_octet :: "rcp_regmap_ep_functional_cfg_t \<Rightarrow> byte" where
  "enable_clr_octet c =
     (if fc_ep_enable c then push_bit 0 1 else 0) OR
     (if fc_ep_clear_req_storage c then push_bit 4 1 else 0)"

definition options_octet :: "rcp_regmap_ep_functional_cfg_t \<Rightarrow> byte" where
  "options_octet c =
     (if fc_ep_req_crc_enable c then push_bit 0 1 else 0) OR
     (if fc_ep_response_ts_enable c then push_bit 3 1 else 0) OR
     (if fc_ep_suppress_response c then push_bit 7 1 else 0)"

definition parse_common :: "byte \<Rightarrow> byte \<Rightarrow> rcp_regmap_ep_functional_cfg_t" where
  "parse_common enable_clr options =
     \<lparr>fc_ep_enable = enable_clr AND push_bit 0 1 \<noteq> 0,
      fc_ep_clear_req_storage = enable_clr AND push_bit 4 1 \<noteq> 0,
      fc_ep_req_crc_enable = options AND push_bit 0 1 \<noteq> 0,
      fc_ep_response_ts_enable = options AND push_bit 3 1 \<noteq> 0,
      fc_ep_suppress_response = options AND push_bit 7 1 \<noteq> 0\<rparr>"

lemma flag_set: "(w AND push_bit k 1 \<noteq> 0) = bit w k" for w :: "'a::len word"
  using and_exp_eq_0_iff_not_bit [of w k] by (simp add: push_bit_eq_mult)

lemma parse_common_bits:
  "parse_common a b =
     \<lparr>fc_ep_enable = bit a 0, fc_ep_clear_req_storage = bit a 4, fc_ep_req_crc_enable = bit b 0,
      fc_ep_response_ts_enable = bit b 3, fc_ep_suppress_response = bit b 7\<rparr>"
  unfolding parse_common_def flag_set ..

lemma parse_common_octets [simp]: "parse_common (enable_clr_octet c) (options_octet c) = c"
  by (cases c) (simp add: parse_common_bits enable_clr_octet_def options_octet_def word_bits)

lemma common_octets_parse:
  "enable_clr_octet (parse_common a b) = a AND 0x11" "options_octet (parse_common a b) = b AND 0x89"
  by (rule word8_eqI, simp add: enable_clr_octet_def options_octet_def parse_common_bits word_bits)+

text \<open>What a block keeps of an octet written at an offset: only the meaningful bits of the flag octets, which
  all blocks have at offsets 2 and 3.\<close>

definition flag_canon :: "nat \<Rightarrow> byte \<Rightarrow> byte" where
  "flag_canon i d = (if i = 2 then d AND 0x11 else if i = 3 then d AND 0x89 else d)"

section \<open>Patching a register block\<close>

lemma put_get_u16_at: "k + 1 < length p \<Longrightarrow> put_u16 (get_u16 (drop k p)) = [p ! k, p ! (k + 1)]"
proof -
  assume "k + 1 < length p"
  then have "get_u16 (drop k p) = get_u16 [p ! k, p ! (k + 1)]" by (simp add: get_u16_def)
  then show ?thesis by (simp only: put_get_u16_octets)
qed

lemma put_get_u32_at:
  "k + 3 < length p \<Longrightarrow> put_u32 (get_u32 (drop k p)) = [p ! k, p ! (k + 1), p ! (k + 2), p ! (k + 3)]"
proof -
  assume "k + 3 < length p"
  then have "get_u32 (drop k p) = get_u32 [p ! k, p ! (k + 1), p ! (k + 2), p ! (k + 3)]" by (simp add: get_u32_def)
  then show ?thesis by (simp only: put_get_u32_octets)
qed

fun patch_block :: "(nat \<Rightarrow> bool) \<Rightarrow> bytes \<Rightarrow> nat \<Rightarrow> bytes \<Rightarrow> bytes" where
  "patch_block ro block addr [] = block"
| "patch_block ro block addr (d # ds) =
     patch_block ro (if ro addr then block else block[addr := d]) (addr + 1) ds"

lemma length_patch_block [simp]: "length (patch_block ro block addr ds) = length block"
  by (induction ds arbitrary: block addr) simp_all

lemma nth_patch_block:
  "i < length block \<Longrightarrow> addr + length ds \<le> length block \<Longrightarrow>
   patch_block ro block addr ds ! i =
     (if addr \<le> i \<and> i < addr + length ds \<and> \<not> ro i then ds ! (i - addr) else block ! i)"
proof (induction ds arbitrary: block addr)
  case (Cons d ds)
  let ?b = "if ro addr then block else block[addr := d]"
  have "patch_block ro ?b (addr + 1) ds ! i =
      (if addr + 1 \<le> i \<and> i < addr + 1 + length ds \<and> \<not> ro i then ds ! (i - (addr + 1)) else ?b ! i)"
    using Cons.prems by (intro Cons.IH) simp_all
  then show ?case using Cons.prems
    by (cases "i = addr") (auto simp: nth_Cons' Suc_le_eq less_Suc_eq)
qed auto

lemma patch_block_neutral:
  assumes "addr + length ds \<le> length block"
    and "\<And>i. i < length ds \<Longrightarrow> ro (addr + i) \<or> ds ! i = block ! (addr + i)"
  shows "patch_block ro block addr ds = block"
proof (rule nth_equalityI)
  fix i assume "i < length (patch_block ro block addr ds)"
  then show "patch_block ro block addr ds ! i = block ! i"
    using assms(2) [of "i - addr"] assms(1) by (auto simp: nth_patch_block)
qed simp

lemma u16_of_octets: "get_u16 (put_u16 v ! 0 # put_u16 v ! 1 # r) = v" "get_u16 (put_u16 v ! 0 # put_u16 v ! Suc 0 # r) = v"
  using get_put_u16 [of v r] by (simp_all add: put_u16_def)

lemma length_u16s [simp]: "length (concat (map put_u16 vs)) = 2 * length vs"
  by (induction vs) simp_all

lemma nth_u16s: "i < length vs \<Longrightarrow> get_u16 (drop (i * 2) (concat (map put_u16 vs))) = vs ! i"
proof (induction vs arbitrary: i)
  case (Cons v vs)
  then show ?case by (cases i) simp_all
qed simp

text \<open>The configuration write over the registers of an endpoint, with its result codes.\<close>

definition apply_block ::
    "('c \<Rightarrow> bytes) \<Rightarrow> ('c \<Rightarrow> bytes \<Rightarrow> 'c) \<Rightarrow> (nat \<Rightarrow> bool) \<Rightarrow> nat \<Rightarrow> 'r \<Rightarrow> 'r \<Rightarrow> 'r \<Rightarrow> 'c \<Rightarrow> bytes \<Rightarrow> 'r \<times> 'c"
  where
  "apply_block render parse ro blen ok err_short err_range cfg payload =
     (if length payload \<le> 2 then (err_short, cfg)
      else
        let start_address = unat (get_u16 payload);
            data_len = length payload - 2
        in if start_address + data_len > blen then (err_range, cfg)
           else (ok, parse cfg (patch_block ro (render cfg) start_address (drop 2 payload))))"

text \<open>The request that carries it; \<open>mem_payload\<close> and \<open>mem_frame\<close> are the outcomes of the two allocations.\<close>

definition encode_reconfig ::
    "bool \<Rightarrow> bool \<Rightarrow> rcp_byte_bus_id_t \<Rightarrow> u16 \<Rightarrow> bytes \<Rightarrow> byte \<Rightarrow> rcp_bytes_t" where
  "encode_reconfig mem_payload mem_frame bus start_address data tn =
     (if length data = 0 then None
      else if 2 + length data > RCP_ACF_MAX_PAYLOAD then None
      else if \<not> mem_payload then None
      else rcp_acf_encode_abb mem_frame
             (zero_info\<lparr>bm_byte_bus_id := bus, bm_op := RCP_ACF_OP_WRITE, bm_evt := 0x7,
                        bm_transaction_num := tn\<rparr>)
             (put_u16 start_address @ data))"

text \<open>
  \<open>wf\<close> are the configurations whose fields fit their registers; the law \<open>parse_render\<close> says that the
  image of a block describes the configuration completely, so that parsing it back changes nothing.
\<close>

locale register_block =
  fixes render :: "'c \<Rightarrow> bytes"
    and parse :: "'c \<Rightarrow> bytes \<Rightarrow> 'c"
    and ro :: "nat \<Rightarrow> bool"
    and blen :: nat
    and wf :: "'c \<Rightarrow> bool"
    and ok :: 'r
    and err_short :: 'r
    and err_range :: 'r
  assumes render_len: "wf c \<Longrightarrow> length (render c) = blen"
    and parse_render: "wf c \<Longrightarrow> parse c (render c) = c"
    and parse_wf: "wf c \<Longrightarrow> length img = blen \<Longrightarrow> wf (parse c img)"
    and codes: "ok \<noteq> err_short" "ok \<noteq> err_range" "err_short \<noteq> err_range"
begin

lemma apply_wf: "wf c \<Longrightarrow> wf (snd (apply_block render parse ro blen ok err_short err_range c payload))"
  by (simp add: apply_block_def Let_def parse_wf render_len)

text \<open>A refused write changes nothing, and it is refused exactly when it has no data or leaves the
  block.\<close>

lemma refused:
  "fst (apply_block render parse ro blen ok err_short err_range c payload) = ok \<longleftrightarrow>
   2 < length payload \<and> unat (get_u16 payload) + (length payload - 2) \<le> blen"
  "fst (apply_block render parse ro blen ok err_short err_range c payload) \<noteq> ok \<Longrightarrow>
   snd (apply_block render parse ro blen ok err_short err_range c payload) = c"
  using codes by (auto simp: apply_block_def Let_def)

lemma apply_at:
  assumes "start + length ds \<le> blen" and "ds \<noteq> []" and "start < 2 ^ 16"
  shows "apply_block render parse ro blen ok err_short err_range c (put_u16 (of_nat start) @ ds) =
    (ok, parse c (patch_block ro (render c) start ds))"
proof -
  have "unat (of_nat start :: u16) = start" using assms(3) by (simp add: unat_of_nat)
  then show ?thesis using assms(1,2) by (simp add: apply_block_def)
qed

text \<open>A write whose octets are read-only or equal to the current ones changes nothing; in particular
  writing back what was read.\<close>

lemma neutral:
  assumes "wf c" and "start + length ds \<le> blen" and "ds \<noteq> []" and "start < 2 ^ 16"
    and "\<And>i. i < length ds \<Longrightarrow> ro (start + i) \<or> ds ! i = render c ! (start + i)"
  shows "apply_block render parse ro blen ok err_short err_range c (put_u16 (of_nat start) @ ds) = (ok, c)"
proof -
  have "patch_block ro (render c) start ds = render c"
    using assms(2,5) by (intro patch_block_neutral) (simp_all add: render_len [OF assms(1)])
  then show ?thesis by (simp add: apply_at [OF assms(2-4)] parse_render [OF assms(1)])
qed

lemma write_back:
  assumes "wf c" and "start + n \<le> blen" and "0 < n" and "start < 2 ^ 16"
  shows "apply_block render parse ro blen ok err_short err_range c
    (put_u16 (of_nat start) @ take n (drop start (render c))) = (ok, c)"
  using assms by (intro neutral) (auto simp: render_len)

end

text \<open>\<open>canon\<close> is what the endpoint keeps of an octet written at an offset; it changes no octet that the
  endpoint itself renders.  Such a block returns what was written, one octet at a time.\<close>

locale readback_block = register_block render parse ro blen wf ok err_short err_range
  for render :: "'c \<Rightarrow> bytes" and parse ro blen wf and ok err_short err_range :: 'r +
  fixes canon :: "nat \<Rightarrow> byte \<Rightarrow> byte"
  assumes render_parse: "wf c \<Longrightarrow> length img = blen \<Longrightarrow>
      (\<And>i. i < blen \<Longrightarrow> ro i \<Longrightarrow> img ! i = render c ! i) \<Longrightarrow> i < blen \<Longrightarrow>
      render (parse c img) ! i = canon i (img ! i)"
    and canon_ro: "i < blen \<Longrightarrow> ro i \<Longrightarrow> canon i d = d"
begin

lemma canon_render: "wf c \<Longrightarrow> i < blen \<Longrightarrow> canon i (render c ! i) = render c ! i"
  using render_parse [of c "render c" i] by (simp add: parse_render render_len)

lemma written_octets:
  assumes "wf c" and "start + length ds \<le> blen" and "ds \<noteq> []" and "start < 2 ^ 16" and "i < blen"
  shows "render (snd (apply_block render parse ro blen ok err_short err_range c
      (put_u16 (of_nat start) @ ds))) ! i =
    (if start \<le> i \<and> i < start + length ds \<and> \<not> ro i then canon i (ds ! (i - start)) else render c ! i)"
proof -
  let ?img = "patch_block ro (render c) start ds"
  have nth: "?img ! j =
      (if start \<le> j \<and> j < start + length ds \<and> \<not> ro j then ds ! (j - start) else render c ! j)"
    if "j < blen" for j
    using assms(2) that by (simp add: nth_patch_block render_len [OF assms(1)])
  have "render (parse c ?img) ! i = canon i (?img ! i)"
    using assms(1,5) nth by (intro render_parse) (simp_all add: render_len)
  then show ?thesis using nth [OF assms(5)] canon_render [OF assms(1,5)] canon_ro [OF assms(5)]
    by (simp add: apply_at [OF assms(2-4)])
qed

end

section \<open>Messages\<close>

lemma bus_canon: "bus < 0x800 \<Longrightarrow> bus AND 0x7FF = bus" for bus :: u16
  using less_mask_eq [of bus 11] by (simp add: mask_eq_exp_minus_1)

lemma abb_small:
  "length p \<le> RCP_ACF_ABB_MAX_PAYLOAD \<Longrightarrow> \<exists>f. rcp_acf_encode_abb True h p = Some f \<and>
   rcp_acf_decode_abb (f @ rest) = Inr (abb_canon h p, p)"
  using abb.roundtrip by blast

text \<open>\<open>short\<close> and \<open>bad\<close> are the caller's codes for a frame that is too short or of another type.\<close>

definition decode_request_frame ::
    "'e \<Rightarrow> 'e \<Rightarrow> bytes \<Rightarrow> 'e + (rcp_acf_byte_message_info_t \<times> bytes)" where
  "decode_request_frame short bad b =
     (case rcp_acf_decode_abb b of
        Inl RCP_ACF_ERR_SHORT_FRAME \<Rightarrow> Inl short
      | Inl _ \<Rightarrow> Inl bad
      | Inr x \<Rightarrow> Inr x)"

definition response_message ::
    "bool \<Rightarrow> rcp_acf_byte_message_info_t \<Rightarrow> bytes \<Rightarrow> bool \<Rightarrow> u64 \<Rightarrow> rcp_bytes_t" where
  "response_message mem info payload timed timestamp =
     (if timed then
        rcp_acf_encode_gbb mem
          \<lparr>gbb_info = info\<lparr>bm_mtv := RCP_ACF_MTV_VALID\<rparr>, message_timestamp = timestamp\<rparr> payload
      else rcp_acf_encode_abb mem info payload)"

text \<open>The usual header of a response.\<close>

definition response_frame ::
    "bool \<Rightarrow> rcp_byte_bus_id_t \<Rightarrow> byte \<Rightarrow> u16 \<Rightarrow> bytes \<Rightarrow> byte \<Rightarrow> bool \<Rightarrow> u64 \<Rightarrow> rcp_bytes_t" where
  "response_frame mem bus op rss payload tn timed timestamp =
     response_message mem
       (zero_info\<lparr>bm_byte_bus_id := bus, bm_op := op, bm_rsp := 1,
          bm_read_size_or_segment_num := rss, bm_transaction_num := tn\<rparr>) payload timed timestamp"

text \<open>The header, whether the message is timed, its timestamp, and the payload.\<close>

definition decode_response_frame ::
    "'e \<Rightarrow> 'e \<Rightarrow> bytes \<Rightarrow> 'e + (rcp_acf_byte_message_info_t \<times> bool \<times> u64 \<times> bytes)" where
  "decode_response_frame short bad b =
     (case rcp_acf_peek_msg_type b of
        Inl _ \<Rightarrow> Inl short
      | Inr msg_type \<Rightarrow>
          if msg_type = RCP_ACF_MSG_TYPE_GBB then
            (case rcp_acf_decode_gbb b of
               Inl RCP_ACF_ERR_SHORT_FRAME \<Rightarrow> Inl short
             | Inl _ \<Rightarrow> Inl bad
             | Inr (hdr, payload) \<Rightarrow>
                 (let timed = rcp_acf_gbb_is_timed hdr
                  in Inr (gbb_info hdr, timed, if timed then message_timestamp hdr else 0, payload)))
          else
            (case rcp_acf_decode_abb b of
               Inl RCP_ACF_ERR_SHORT_FRAME \<Rightarrow> Inl short
             | Inl _ \<Rightarrow> Inl bad
             | Inr (hdr, payload) \<Rightarrow> Inr (hdr, False, 0, payload)))"

lemma request_wire:
  assumes "length p \<le> RCP_ACF_ABB_MAX_PAYLOAD"
  shows "\<exists>f. rcp_acf_encode_abb True h p = Some f \<and>
    decode_request_frame short bad (f @ rest) = Inr (abb_canon h p, p)"
  using abb_small [OF assms, of h rest] by (auto simp: decode_request_frame_def)

lemma decode_peeks:
  "rcp_acf_decode_gbb b = Inr x \<Longrightarrow> rcp_acf_peek_msg_type b = Inr RCP_ACF_MSG_TYPE_GBB"
  "rcp_acf_decode_abb b = Inr y \<Longrightarrow> rcp_acf_peek_msg_type b = Inr RCP_ACF_MSG_TYPE_ABB"
  by (auto simp: rcp_acf_decode_gbb_def rcp_acf_decode_abb_def rcp_acf_peek_msg_type_def
      rcp_acf_unpack_header_def Let_def consts_rcp split: if_splits)

text \<open>A response comes out of the wire with its addressing, its timestamp and its payload.\<close>

definition response_room :: "bool \<Rightarrow> nat" where
  "response_room timed = (if timed then RCP_ACF_GBB_MAX_PAYLOAD else RCP_ACF_ABB_MAX_PAYLOAD)"

lemma response_room_least: "n \<le> RCP_ACF_GBB_MAX_PAYLOAD \<Longrightarrow> n \<le> response_room timed"
  by (simp add: response_room_def consts_rcp)

lemma response_message_fits:
  assumes "length p \<le> response_room timed"
  shows "\<exists>f h. response_message True info p timed ts = Some f \<and>
    decode_response_frame short bad (f @ rest) = Inr (h, timed, if timed then ts else 0, p) \<and>
    bm_byte_bus_id h = bm_byte_bus_id info AND 0x7FF \<and> bm_transaction_num h = bm_transaction_num info \<and>
    bm_rsp h = bm_rsp info AND 1 \<and> bm_evt h = bm_evt info AND 0xF \<and> bm_ms h = bm_ms info AND 1 \<and>
    bm_err h = bm_err info AND 1 \<and>
    bm_op h = (if bm_op info = RCP_ACF_OP_READ then RCP_ACF_OP_READ else RCP_ACF_OP_WRITE) \<and>
    bm_read_size_or_segment_num h = bm_read_size_or_segment_num info AND 0xFFF"
proof (cases timed)
  case True
  let ?h = "\<lparr>gbb_info = info\<lparr>bm_mtv := RCP_ACF_MTV_VALID\<rparr>, message_timestamp = ts\<rparr>"
  have "length p \<le> RCP_ACF_GBB_MAX_PAYLOAD" using assms True by (simp add: response_room_def)
  then obtain f where f: "rcp_acf_encode_gbb True ?h p = Some f"
    "rcp_acf_decode_gbb (f @ rest) = Inr (gbb_canon ?h p, p)"
    using gbb.roundtrip [of p ?h rest] by auto
  then show ?thesis using True decode_peeks(1) [OF f(2)]
    by (simp add: response_message_def decode_response_frame_def gbb_canon_def info_canon_def
        rcp_acf_gbb_is_timed_def Let_def consts_rcp)
next
  case False
  have "length p \<le> RCP_ACF_ABB_MAX_PAYLOAD" using assms False by (simp add: response_room_def)
  from abb_small [OF this, of info rest] obtain f where f: "rcp_acf_encode_abb True info p = Some f"
    "rcp_acf_decode_abb (f @ rest) = Inr (abb_canon info p, p)" by blast
  then show ?thesis using False decode_peeks(2) [OF f(2)]
    by (simp add: response_message_def decode_response_frame_def abb_canon_def info_canon_def Let_def consts_rcp)
qed

lemma response_message_too_long: "response_room timed < length p \<Longrightarrow> response_message mem info p timed ts = None"
  by (simp add: response_room_def response_message_def rcp_acf_encode_abb_def rcp_acf_encode_gbb_def split: if_splits)

lemma response_message_wire:
  assumes "length p \<le> RCP_ACF_GBB_MAX_PAYLOAD"
  shows "\<exists>f h. response_message True info p timed ts = Some f \<and>
    decode_response_frame short bad (f @ rest) = Inr (h, timed, if timed then ts else 0, p) \<and>
    bm_byte_bus_id h = bm_byte_bus_id info AND 0x7FF \<and> bm_transaction_num h = bm_transaction_num info \<and>
    bm_rsp h = bm_rsp info AND 1 \<and> bm_evt h = bm_evt info AND 0xF \<and> bm_ms h = bm_ms info AND 1 \<and>
    bm_err h = bm_err info AND 1 \<and>
    bm_op h = (if bm_op info = RCP_ACF_OP_READ then RCP_ACF_OP_READ else RCP_ACF_OP_WRITE) \<and>
    bm_read_size_or_segment_num h = bm_read_size_or_segment_num info AND 0xFFF"
  by (rule response_message_fits [OF response_room_least [OF assms]])

lemma response_frame_fits:
  assumes "length p \<le> response_room timed" and "bus < 0x800"
  shows "\<exists>f h. response_frame True bus op rss p tn timed ts = Some f \<and>
    decode_response_frame short bad (f @ rest) = Inr (h, timed, if timed then ts else 0, p) \<and>
    bm_byte_bus_id h = bus \<and> bm_transaction_num h = tn \<and> bm_rsp h = 1 \<and>
    bm_op h = (if op = RCP_ACF_OP_READ then RCP_ACF_OP_READ else RCP_ACF_OP_WRITE) \<and>
    bm_read_size_or_segment_num h = rss AND 0xFFF"
  using response_message_fits [OF assms(1), of "zero_info\<lparr>bm_byte_bus_id := bus, bm_op := op, bm_rsp := 1,
          bm_read_size_or_segment_num := rss, bm_transaction_num := tn\<rparr>" ts short bad rest]
  by (auto simp: response_frame_def bus_canon [OF assms(2)])

lemma response_frame_too_long: "response_room timed < length p \<Longrightarrow> response_frame mem bus op rss p tn timed ts = None"
  by (simp add: response_frame_def response_message_too_long)

lemma response_wire:
  assumes "length p \<le> RCP_ACF_GBB_MAX_PAYLOAD" and "bus < 0x800"
  shows "\<exists>f h. response_frame True bus op rss p tn timed ts = Some f \<and>
    decode_response_frame short bad (f @ rest) = Inr (h, timed, if timed then ts else 0, p) \<and>
    bm_byte_bus_id h = bus \<and> bm_transaction_num h = tn \<and> bm_rsp h = 1 \<and>
    bm_op h = (if op = RCP_ACF_OP_READ then RCP_ACF_OP_READ else RCP_ACF_OP_WRITE) \<and>
    bm_read_size_or_segment_num h = rss AND 0xFFF"
  by (rule response_frame_fits [OF response_room_least [OF assms(1)] assms(2)])

end
