(* ===== verification/Ep_Wakeup.thy ===== *)
theory Ep_Wakeup
  imports Power_Modes Registers
begin

text \<open>
  \<^verbatim>\<open>src/ep_wakeup.c\<close>: the wake-up endpoint.  Wake source detection on levels and edges, the
  latch of wake sources, the SleepCMD and WakeUp messages, and the register block with its
  configuration write.

  Arrays of eight wake sources are lists of length eight.  A pointer that may be \<^verbatim>\<open>NULL\<close> is an
  option; the pin levels carry their count as list length.  \<open>mem\<close> is the outcome of the allocation
  of a frame.  The text tables are left out.
\<close>

section \<open>Data\<close>

definition RCP_EP_WAKEUP_MAX_SOURCES :: nat where [consts_rcp]: "RCP_EP_WAKEUP_MAX_SOURCES = 8"
definition RCP_EP_WAKEUP_SLEEPCMD_OPCODE :: byte where
  [consts_rcp]: "RCP_EP_WAKEUP_SLEEPCMD_OPCODE = 0xA5"
definition RCP_EP_WAKEUP_WAKEUP_OPCODE :: byte where
  [consts_rcp]: "RCP_EP_WAKEUP_WAKEUP_OPCODE = 0x5A"
definition RCP_EP_WAKEUP_REG_EP_LEN :: nat where [consts_rcp]: "RCP_EP_WAKEUP_REG_EP_LEN = 0"
definition RCP_EP_WAKEUP_REG_NR_IO_PINS_MAX :: nat where
  [consts_rcp]: "RCP_EP_WAKEUP_REG_NR_IO_PINS_MAX = 1"
definition RCP_EP_WAKEUP_REG_EP_STATUS :: nat where [consts_rcp]: "RCP_EP_WAKEUP_REG_EP_STATUS = 2"
definition RCP_EP_WAKEUP_REG_WUP_STATUS :: nat where [consts_rcp]: "RCP_EP_WAKEUP_REG_WUP_STATUS = 4"
definition RCP_EP_WAKEUP_REG_SOURCE_BASE :: nat where
  [consts_rcp]: "RCP_EP_WAKEUP_REG_SOURCE_BASE = 6"
definition RCP_EP_WAKEUP_REG_SOURCE_SPAN :: nat where
  [consts_rcp]: "RCP_EP_WAKEUP_REG_SOURCE_SPAN = 2"
definition RCP_EP_WAKEUP_EP_FUNC_LEN :: nat where [consts_rcp]: "RCP_EP_WAKEUP_EP_FUNC_LEN = 22"
definition RCP_EP_WAKEUP_RECONFIG_ADDR_LEN :: nat where
  [consts_rcp]: "RCP_EP_WAKEUP_RECONFIG_ADDR_LEN = 2"
definition RCP_EP_WAKEUP_IO_SRC_INACTIVE :: byte where
  [consts_rcp]: "RCP_EP_WAKEUP_IO_SRC_INACTIVE = 0"
definition RCP_EP_WAKEUP_IO_SRC_RISING_EDGE :: byte where
  [consts_rcp]: "RCP_EP_WAKEUP_IO_SRC_RISING_EDGE = 1"
definition RCP_EP_WAKEUP_IO_SRC_FALLING_EDGE :: byte where
  [consts_rcp]: "RCP_EP_WAKEUP_IO_SRC_FALLING_EDGE = 2"
definition RCP_EP_WAKEUP_IO_SRC_BOTH_EDGES :: byte where
  [consts_rcp]: "RCP_EP_WAKEUP_IO_SRC_BOTH_EDGES = 3"
definition RCP_EP_WAKEUP_IO_SRC_HIGH_LEVEL :: byte where
  [consts_rcp]: "RCP_EP_WAKEUP_IO_SRC_HIGH_LEVEL = 4"
definition RCP_EP_WAKEUP_IO_SRC_LOW_LEVEL :: byte where
  [consts_rcp]: "RCP_EP_WAKEUP_IO_SRC_LOW_LEVEL = 5"
record rcp_ep_wakeup_wup_status_t =
  wup_mask :: u16

record rcp_ep_wakeup_source_cfg_t =
  src_enabled :: bool
  active_high :: bool
  pin_number :: u16
  trigger_on_rising_edge :: bool
  trigger_on_falling_edge :: bool

record rcp_ep_wakeup_functional_cfg_t =
  wk_common :: rcp_regmap_ep_functional_cfg_t
  wk_sources :: "rcp_ep_wakeup_source_cfg_t list"
  wk_ep_status :: u16
  wk_wup_status :: rcp_ep_wakeup_wup_status_t
  repetition_time_us :: u32

record rcp_ep_wakeup_source_edge_state_t =
  edge_has_previous :: bool
  previous_level :: bool

datatype rcp_ep_wakeup_errc_t =
    RCP_EP_WAKEUP_OK | RCP_EP_WAKEUP_ERR_SHORT_FRAME | RCP_EP_WAKEUP_ERR_BAD_MSG_TYPE
  | RCP_EP_WAKEUP_ERR_WRONG_BUS | RCP_EP_WAKEUP_ERR_BAD_OPCODE

datatype rcp_ep_wakeup_source_t =
    RCP_EP_WAKEUP_SOURCE_UNKNOWN | RCP_EP_WAKEUP_SOURCE_IO | RCP_EP_WAKEUP_SOURCE_WAKEPIN
  | RCP_EP_WAKEUP_SOURCE_NETWORK

datatype rcp_ep_wakeup_reconfig_errc_t =
    RCP_EP_WAKEUP_RECONFIG_OK | RCP_EP_WAKEUP_RECONFIG_ERR_SHORT
  | RCP_EP_WAKEUP_RECONFIG_ERR_OUT_OF_RANGE

section \<open>The latch of wake sources\<close>

definition rcp_ep_wakeup_wup_status_init :: rcp_ep_wakeup_wup_status_t where
  "rcp_ep_wakeup_wup_status_init = \<lparr>wup_mask = 0\<rparr>"

definition rcp_ep_wakeup_wup_status_latch_source ::
    "rcp_ep_wakeup_wup_status_t \<Rightarrow> nat \<Rightarrow> rcp_ep_wakeup_wup_status_t" where
  "rcp_ep_wakeup_wup_status_latch_source s i =
     (if i \<ge> RCP_EP_WAKEUP_MAX_SOURCES then s
      else s\<lparr>wup_mask := wup_mask s OR push_bit i 1\<rparr>)"

definition rcp_ep_wakeup_wup_status_clear ::
    "rcp_ep_wakeup_wup_status_t \<Rightarrow> rcp_ep_wakeup_wup_status_t" where
  "rcp_ep_wakeup_wup_status_clear s = s\<lparr>wup_mask := 0\<rparr>"

definition rcp_ep_wakeup_wup_status_clear_source ::
    "rcp_ep_wakeup_wup_status_t \<Rightarrow> nat \<Rightarrow> rcp_ep_wakeup_wup_status_t" where
  "rcp_ep_wakeup_wup_status_clear_source s i =
     (if i \<ge> RCP_EP_WAKEUP_MAX_SOURCES then s
      else s\<lparr>wup_mask := wup_mask s AND NOT (push_bit i 1)\<rparr>)"

definition rcp_ep_wakeup_wup_status_is_clear :: "rcp_ep_wakeup_wup_status_t \<Rightarrow> bool" where
  "rcp_ep_wakeup_wup_status_is_clear s \<longleftrightarrow> wup_mask s = 0"

definition rcp_ep_wakeup_wup_status_source_is_latched ::
    "rcp_ep_wakeup_wup_status_t \<Rightarrow> nat \<Rightarrow> bool" where
  "rcp_ep_wakeup_wup_status_source_is_latched s i =
     (if i \<ge> RCP_EP_WAKEUP_MAX_SOURCES then False else wup_mask s AND push_bit i 1 \<noteq> 0)"

section \<open>Wake sources\<close>

definition rcp_ep_wakeup_functional_cfg_init :: rcp_ep_wakeup_functional_cfg_t where
  "rcp_ep_wakeup_functional_cfg_init =
     \<lparr>wk_common = rcp_regmap_ep_functional_cfg_init,
      wk_sources = replicate RCP_EP_WAKEUP_MAX_SOURCES
        \<lparr>src_enabled = False, active_high = False, pin_number = 0, trigger_on_rising_edge = False,
         trigger_on_falling_edge = False\<rparr>,
      wk_ep_status = 0, wk_wup_status = rcp_ep_wakeup_wup_status_init, repetition_time_us = 0\<rparr>"

definition rcp_ep_wakeup_functional_cfg_writable ::
    "rcp_lifecycle_state_t \<Rightarrow> rcp_lifecycle_writer_ctx_t \<Rightarrow> bool" where
  "rcp_ep_wakeup_functional_cfg_writable state writer =
     rcp_lifecycle_field_writable state RCP_LIFECYCLE_FIELD_FUNCTIONAL_W writer"

definition rcp_ep_wakeup_sleepcmd_writable :: "rcp_lifecycle_writer_ctx_t \<Rightarrow> bool" where
  "rcp_ep_wakeup_sleepcmd_writable writer = via_root_client_ep0 writer"

definition rcp_ep_wakeup_source_asserted :: "rcp_ep_wakeup_source_cfg_t \<Rightarrow> bool \<Rightarrow> bool" where
  "rcp_ep_wakeup_source_asserted cfg pin_level \<longleftrightarrow>
     src_enabled cfg \<and> pin_level = active_high cfg"

fun any_asserted :: "rcp_ep_wakeup_source_cfg_t list \<Rightarrow> bool list \<Rightarrow> nat \<Rightarrow> bool" where
  "any_asserted (s # ss) (l # ls) (Suc n) =
     (if rcp_ep_wakeup_source_asserted s l then True else any_asserted ss ls n)"
| "any_asserted _ _ _ = False"

definition rcp_ep_wakeup_any_source_asserted ::
    "rcp_ep_wakeup_functional_cfg_t option \<Rightarrow> bool list option \<Rightarrow> bool" where
  "rcp_ep_wakeup_any_source_asserted fcfg pin_levels =
     (case (fcfg, pin_levels) of
        (Some c, Some ls) \<Rightarrow> any_asserted (wk_sources c) ls (min (length ls) RCP_EP_WAKEUP_MAX_SOURCES)
      | _ \<Rightarrow> False)"

definition rcp_ep_wakeup_source_edge_state_init :: rcp_ep_wakeup_source_edge_state_t where
  "rcp_ep_wakeup_source_edge_state_init = \<lparr>edge_has_previous = False, previous_level = False\<rparr>"

definition rcp_ep_wakeup_source_edge_asserted ::
    "rcp_ep_wakeup_source_cfg_t \<Rightarrow> rcp_ep_wakeup_source_edge_state_t \<Rightarrow> bool \<Rightarrow>
     bool \<times> rcp_ep_wakeup_source_edge_state_t" where
  "rcp_ep_wakeup_source_edge_asserted cfg st pin_level =
     (if \<not> trigger_on_rising_edge cfg \<and> \<not> trigger_on_falling_edge cfg
      then (rcp_ep_wakeup_source_asserted cfg pin_level, st)
      else if \<not> edge_has_previous st
      then (False, \<lparr>edge_has_previous = True, previous_level = pin_level\<rparr>)
      else
        let rose = \<not> previous_level st \<and> pin_level;
            fell = previous_level st \<and> \<not> pin_level;
            fired = src_enabled cfg \<and> ((trigger_on_rising_edge cfg \<and> rose) \<or>
                                        (trigger_on_falling_edge cfg \<and> fell))
        in (fired, st\<lparr>previous_level := pin_level\<rparr>))"

fun any_edge_asserted ::
    "rcp_ep_wakeup_source_cfg_t list \<Rightarrow> rcp_ep_wakeup_source_edge_state_t list \<Rightarrow> bool list \<Rightarrow> nat \<Rightarrow>
     bool \<times> rcp_ep_wakeup_source_edge_state_t list" where
  "any_edge_asserted (s # ss) (st # sts) (l # ls) (Suc n) =
     (let (fired, st') = rcp_ep_wakeup_source_edge_asserted s st l;
          (any, sts') = any_edge_asserted ss sts ls n
      in (fired \<or> any, st' # sts'))"
| "any_edge_asserted _ sts _ _ = (False, sts)"

definition rcp_ep_wakeup_any_source_edge_asserted ::
    "rcp_ep_wakeup_functional_cfg_t option \<Rightarrow> rcp_ep_wakeup_source_edge_state_t list option \<Rightarrow>
     bool list option \<Rightarrow> bool \<times> rcp_ep_wakeup_source_edge_state_t list option" where
  "rcp_ep_wakeup_any_source_edge_asserted fcfg states pin_levels =
     (case (fcfg, states, pin_levels) of
        (Some c, Some sts, Some ls) \<Rightarrow>
          (let (any, sts') = any_edge_asserted (wk_sources c) sts ls
                               (min (length ls) RCP_EP_WAKEUP_MAX_SOURCES)
           in (any, Some sts'))
      | _ \<Rightarrow> (False, states))"

section \<open>Messages\<close>

definition rcp_ep_wakeup_encode_sleepcmd_request ::
    "bool \<Rightarrow> rcp_byte_bus_id_t \<Rightarrow> byte \<Rightarrow> rcp_bytes_t" where
  "rcp_ep_wakeup_encode_sleepcmd_request mem bus tn =
     rcp_acf_encode_abb mem
       (zero_info\<lparr>bm_byte_bus_id := bus, bm_op := RCP_ACF_OP_NONE, bm_transaction_num := tn\<rparr>)
       [RCP_EP_WAKEUP_SLEEPCMD_OPCODE]"

definition rcp_ep_wakeup_decode_sleepcmd_request ::
    "bytes \<Rightarrow> rcp_byte_bus_id_t \<Rightarrow> rcp_ep_wakeup_errc_t + byte" where
  "rcp_ep_wakeup_decode_sleepcmd_request b expected_bus =
     (case rcp_acf_decode_abb b of
        Inl RCP_ACF_ERR_SHORT_FRAME \<Rightarrow> Inl RCP_EP_WAKEUP_ERR_SHORT_FRAME
      | Inl _ \<Rightarrow> Inl RCP_EP_WAKEUP_ERR_BAD_MSG_TYPE
      | Inr (hdr, payload) \<Rightarrow>
          if bm_byte_bus_id hdr \<noteq> expected_bus then Inl RCP_EP_WAKEUP_ERR_WRONG_BUS
          else if length payload < 1 then Inl RCP_EP_WAKEUP_ERR_SHORT_FRAME
          else if payload ! 0 \<noteq> RCP_EP_WAKEUP_SLEEPCMD_OPCODE then Inl RCP_EP_WAKEUP_ERR_BAD_OPCODE
          else Inr (bm_transaction_num hdr))"

definition rcp_ep_wakeup_encode_sleepcmd_response ::
    "bool \<Rightarrow> rcp_byte_bus_id_t \<Rightarrow> rcp_pwrmode_entry_result_t \<Rightarrow> byte \<Rightarrow> rcp_bytes_t" where
  "rcp_ep_wakeup_encode_sleepcmd_response mem bus result tn =
     (if result = RCP_PWRMODE_ENTRY_REFUSED
      then rcp_acf_build_error_response mem bus tn RCP_ERROR_REQUEST_CANCELED
      else
        rcp_acf_encode_abb mem
          (zero_info\<lparr>bm_byte_bus_id := bus, bm_op := RCP_ACF_OP_NONE, bm_rsp := 1,
                     bm_transaction_num := tn\<rparr>)
          [RCP_EP_WAKEUP_SLEEPCMD_OPCODE, 0])"

definition rcp_ep_wakeup_decode_sleepcmd_response ::
    "bytes \<Rightarrow> rcp_byte_bus_id_t \<Rightarrow> rcp_ep_wakeup_errc_t + (rcp_pwrmode_entry_result_t \<times> byte)" where
  "rcp_ep_wakeup_decode_sleepcmd_response b expected_bus =
     (case rcp_acf_decode_abb b of
        Inl RCP_ACF_ERR_SHORT_FRAME \<Rightarrow> Inl RCP_EP_WAKEUP_ERR_SHORT_FRAME
      | Inl _ \<Rightarrow> Inl RCP_EP_WAKEUP_ERR_BAD_MSG_TYPE
      | Inr (hdr, payload) \<Rightarrow>
          if bm_byte_bus_id hdr \<noteq> expected_bus then Inl RCP_EP_WAKEUP_ERR_WRONG_BUS
          else if bm_err hdr \<noteq> 0 then
            (if length payload < 1 \<or> payload ! 0 \<noteq> wire_error_code RCP_ERROR_REQUEST_CANCELED
             then Inl RCP_EP_WAKEUP_ERR_BAD_OPCODE
             else Inr (RCP_PWRMODE_ENTRY_REFUSED, bm_transaction_num hdr))
          else if length payload < 2 then Inl RCP_EP_WAKEUP_ERR_SHORT_FRAME
          else if payload ! 0 \<noteq> RCP_EP_WAKEUP_SLEEPCMD_OPCODE then Inl RCP_EP_WAKEUP_ERR_BAD_OPCODE
          else Inr (if payload ! 1 = 0 then RCP_PWRMODE_ENTRY_OK else RCP_PWRMODE_ENTRY_REFUSED,
                    bm_transaction_num hdr))"

definition rcp_ep_wakeup_encode_wakeup_message ::
    "bool \<Rightarrow> rcp_byte_bus_id_t \<Rightarrow> byte \<Rightarrow> rcp_bytes_t" where
  "rcp_ep_wakeup_encode_wakeup_message mem bus tn =
     rcp_acf_encode_abb mem
       (zero_info\<lparr>bm_byte_bus_id := bus, bm_op := RCP_ACF_OP_NONE, bm_transaction_num := tn\<rparr>)
       [RCP_EP_WAKEUP_WAKEUP_OPCODE]"

definition rcp_ep_wakeup_decode_wakeup_message ::
    "bytes \<Rightarrow> rcp_byte_bus_id_t \<Rightarrow> rcp_ep_wakeup_errc_t + byte" where
  "rcp_ep_wakeup_decode_wakeup_message b expected_bus =
     (case rcp_acf_decode_abb b of
        Inl RCP_ACF_ERR_SHORT_FRAME \<Rightarrow> Inl RCP_EP_WAKEUP_ERR_SHORT_FRAME
      | Inl _ \<Rightarrow> Inl RCP_EP_WAKEUP_ERR_BAD_MSG_TYPE
      | Inr (hdr, payload) \<Rightarrow>
          if bm_byte_bus_id hdr \<noteq> expected_bus then Inl RCP_EP_WAKEUP_ERR_WRONG_BUS
          else if length payload < 1 then Inl RCP_EP_WAKEUP_ERR_SHORT_FRAME
          else if payload ! 0 \<noteq> RCP_EP_WAKEUP_WAKEUP_OPCODE then Inl RCP_EP_WAKEUP_ERR_BAD_OPCODE
          else Inr (bm_transaction_num hdr))"

definition rcp_ep_wakeup_is_wakeup_echo :: "bytes \<Rightarrow> rcp_byte_bus_id_t \<Rightarrow> byte \<Rightarrow> bool" where
  "rcp_ep_wakeup_is_wakeup_echo b expected_bus sent_tn =
     (case rcp_ep_wakeup_decode_wakeup_message b expected_bus of
        Inl _ \<Rightarrow> False
      | Inr tn \<Rightarrow> tn = sent_tn)"

fun wakeup_source_code :: "rcp_ep_wakeup_source_t \<Rightarrow> byte" where
  "wakeup_source_code RCP_EP_WAKEUP_SOURCE_UNKNOWN = 0"
| "wakeup_source_code RCP_EP_WAKEUP_SOURCE_IO = 1"
| "wakeup_source_code RCP_EP_WAKEUP_SOURCE_WAKEPIN = 2"
| "wakeup_source_code RCP_EP_WAKEUP_SOURCE_NETWORK = 3"

definition rcp_ep_wakeup_encode_wakeup_message_with_source ::
    "bool \<Rightarrow> rcp_byte_bus_id_t \<Rightarrow> byte \<Rightarrow> rcp_ep_wakeup_source_t \<Rightarrow> byte \<Rightarrow> rcp_bytes_t" where
  "rcp_ep_wakeup_encode_wakeup_message_with_source mem bus tn source source_index =
     rcp_acf_encode_abb mem
       (zero_info\<lparr>bm_byte_bus_id := bus, bm_op := RCP_ACF_OP_NONE, bm_transaction_num := tn\<rparr>)
       [RCP_EP_WAKEUP_WAKEUP_OPCODE, wakeup_source_code source, source_index]"

definition rcp_ep_wakeup_decode_wakeup_message_with_source ::
    "bytes \<Rightarrow> rcp_byte_bus_id_t \<Rightarrow>
     rcp_ep_wakeup_errc_t + (byte \<times> rcp_ep_wakeup_source_t \<times> byte)" where
  "rcp_ep_wakeup_decode_wakeup_message_with_source b expected_bus =
     (case rcp_acf_decode_abb b of
        Inl RCP_ACF_ERR_SHORT_FRAME \<Rightarrow> Inl RCP_EP_WAKEUP_ERR_SHORT_FRAME
      | Inl _ \<Rightarrow> Inl RCP_EP_WAKEUP_ERR_BAD_MSG_TYPE
      | Inr (hdr, payload) \<Rightarrow>
          if bm_byte_bus_id hdr \<noteq> expected_bus then Inl RCP_EP_WAKEUP_ERR_WRONG_BUS
          else if length payload < 3 then Inl RCP_EP_WAKEUP_ERR_SHORT_FRAME
          else if payload ! 0 \<noteq> RCP_EP_WAKEUP_WAKEUP_OPCODE then Inl RCP_EP_WAKEUP_ERR_BAD_OPCODE
          else
            (case find (\<lambda>s. wakeup_source_code s = payload ! 1)
                   [RCP_EP_WAKEUP_SOURCE_UNKNOWN, RCP_EP_WAKEUP_SOURCE_IO,
                    RCP_EP_WAKEUP_SOURCE_WAKEPIN, RCP_EP_WAKEUP_SOURCE_NETWORK] of
              None \<Rightarrow> Inl RCP_EP_WAKEUP_ERR_BAD_OPCODE
            | Some source \<Rightarrow> Inr (bm_transaction_num hdr, source, payload ! 2)))"

section \<open>The register block\<close>

definition wakeup_io_src :: "rcp_ep_wakeup_source_cfg_t \<Rightarrow> byte" where
  "wakeup_io_src src =
     (if trigger_on_rising_edge src \<and> trigger_on_falling_edge src then RCP_EP_WAKEUP_IO_SRC_BOTH_EDGES
      else if trigger_on_rising_edge src then RCP_EP_WAKEUP_IO_SRC_RISING_EDGE
      else if trigger_on_falling_edge src then RCP_EP_WAKEUP_IO_SRC_FALLING_EDGE
      else if \<not> src_enabled src then RCP_EP_WAKEUP_IO_SRC_INACTIVE
      else if active_high src then RCP_EP_WAKEUP_IO_SRC_HIGH_LEVEL
      else RCP_EP_WAKEUP_IO_SRC_LOW_LEVEL)"

definition render_wakeup_source :: "rcp_ep_wakeup_source_cfg_t \<Rightarrow> bytes" where
  "render_wakeup_source src =
     put_u16 (push_bit 11 (ucast (wakeup_io_src src AND 0x1F)) OR (pin_number src AND 0x07FF))"

definition rcp_ep_wakeup_render_registers :: "rcp_ep_wakeup_functional_cfg_t \<Rightarrow> bytes" where
  "rcp_ep_wakeup_render_registers cfg =
     [of_nat RCP_EP_WAKEUP_EP_FUNC_LEN, of_nat RCP_EP_WAKEUP_MAX_SOURCES] @
     put_u16 (wk_ep_status cfg) @
     put_u16 (wup_mask (wk_wup_status cfg) AND (push_bit RCP_EP_WAKEUP_MAX_SOURCES 1 - 1)) @
     concat (map render_wakeup_source (wk_sources cfg))"

definition parse_wakeup_source ::
    "rcp_ep_wakeup_source_cfg_t \<Rightarrow> u16 \<Rightarrow> rcp_ep_wakeup_source_cfg_t" where
  "parse_wakeup_source src reg =
     (let io_src = (ucast (drop_bit 11 reg AND 0x1F) :: byte);
          src = src\<lparr>pin_number := reg AND 0x07FF\<rparr>
      in if io_src = RCP_EP_WAKEUP_IO_SRC_INACTIVE
         then src\<lparr>src_enabled := False, trigger_on_rising_edge := False,
                  trigger_on_falling_edge := False\<rparr>
         else if io_src = RCP_EP_WAKEUP_IO_SRC_RISING_EDGE
         then src\<lparr>src_enabled := True, trigger_on_rising_edge := True,
                  trigger_on_falling_edge := False\<rparr>
         else if io_src = RCP_EP_WAKEUP_IO_SRC_FALLING_EDGE
         then src\<lparr>src_enabled := True, trigger_on_rising_edge := False,
                  trigger_on_falling_edge := True\<rparr>
         else if io_src = RCP_EP_WAKEUP_IO_SRC_BOTH_EDGES
         then src\<lparr>src_enabled := True, trigger_on_rising_edge := True,
                  trigger_on_falling_edge := True\<rparr>
         else if io_src = RCP_EP_WAKEUP_IO_SRC_HIGH_LEVEL
         then src\<lparr>src_enabled := True, active_high := True, trigger_on_rising_edge := False,
                  trigger_on_falling_edge := False\<rparr>
         else if io_src = RCP_EP_WAKEUP_IO_SRC_LOW_LEVEL
         then src\<lparr>src_enabled := True, active_high := False, trigger_on_rising_edge := False,
                  trigger_on_falling_edge := False\<rparr>
         else src)"

text \<open>The loop that clears the latches whose bit is written as one, over the source numbers.\<close>

definition clear_written :: "u16 \<Rightarrow> rcp_ep_wakeup_wup_status_t \<Rightarrow> nat list \<Rightarrow> rcp_ep_wakeup_wup_status_t" where
  "clear_written wup s is =
     foldl (\<lambda>s i. if wup AND push_bit i 1 \<noteq> 0 then rcp_ep_wakeup_wup_status_clear_source s i else s) s is"

definition parse_wakeup_registers ::
    "rcp_ep_wakeup_functional_cfg_t \<Rightarrow> bytes \<Rightarrow> rcp_ep_wakeup_functional_cfg_t" where
  "parse_wakeup_registers cfg img =
     cfg\<lparr>wk_ep_status := get_u16 (drop RCP_EP_WAKEUP_REG_EP_STATUS img),
         wk_wup_status := clear_written (get_u16 (drop RCP_EP_WAKEUP_REG_WUP_STATUS img))
                            (wk_wup_status cfg) [0..<RCP_EP_WAKEUP_MAX_SOURCES],
         wk_sources := map (\<lambda>i. parse_wakeup_source (wk_sources cfg ! i)
             (get_u16 (drop (RCP_EP_WAKEUP_REG_SOURCE_BASE + i * RCP_EP_WAKEUP_REG_SOURCE_SPAN) img)))
             [0..<RCP_EP_WAKEUP_MAX_SOURCES]\<rparr>"

definition wakeup_reg_offset_read_only :: "nat \<Rightarrow> bool" where
  "wakeup_reg_offset_read_only addr \<longleftrightarrow>
     addr = RCP_EP_WAKEUP_REG_EP_LEN \<or> addr = RCP_EP_WAKEUP_REG_NR_IO_PINS_MAX"

definition rcp_ep_wakeup_apply_reconfig ::
    "rcp_ep_wakeup_functional_cfg_t \<Rightarrow> bytes \<Rightarrow>
     rcp_ep_wakeup_reconfig_errc_t \<times> rcp_ep_wakeup_functional_cfg_t" where
  "rcp_ep_wakeup_apply_reconfig cfg payload =
     (if length payload \<le> RCP_EP_WAKEUP_RECONFIG_ADDR_LEN
      then (RCP_EP_WAKEUP_RECONFIG_ERR_SHORT, cfg)
      else
        let start_address = unat (get_u16 payload);
            data_len = length payload - RCP_EP_WAKEUP_RECONFIG_ADDR_LEN
        in if start_address + data_len > RCP_EP_WAKEUP_EP_FUNC_LEN
           then (RCP_EP_WAKEUP_RECONFIG_ERR_OUT_OF_RANGE, cfg)
           else
             let block = patch_block wakeup_reg_offset_read_only (rcp_ep_wakeup_render_registers cfg)
                           start_address (drop RCP_EP_WAKEUP_RECONFIG_ADDR_LEN payload)
             in (RCP_EP_WAKEUP_RECONFIG_OK, parse_wakeup_registers cfg block))"

text \<open>\<open>mem_payload\<close> and \<open>mem_frame\<close> are the outcomes of the two allocations.\<close>

definition rcp_ep_wakeup_encode_reconfig_request ::
    "bool \<Rightarrow> bool \<Rightarrow> rcp_byte_bus_id_t \<Rightarrow> u16 \<Rightarrow> bytes \<Rightarrow> byte \<Rightarrow> rcp_bytes_t" where
  "rcp_ep_wakeup_encode_reconfig_request mem_payload mem_frame bus start_address data tn =
     (if length data = 0 then None
      else if RCP_EP_WAKEUP_RECONFIG_ADDR_LEN + length data > RCP_ACF_MAX_PAYLOAD then None
      else if \<not> mem_payload then None
      else rcp_acf_encode_abb mem_frame
             (zero_info\<lparr>bm_byte_bus_id := bus, bm_op := RCP_ACF_OP_WRITE, bm_evt := 0x7,
                        bm_transaction_num := tn\<rparr>)
             (put_u16 start_address @ data))"

section \<open>The latch\<close>

lemma latched_bit:
  "rcp_ep_wakeup_wup_status_source_is_latched s i \<longleftrightarrow> i < 8 \<and> bit (wup_mask s) i"
  by (auto simp: rcp_ep_wakeup_wup_status_source_is_latched_def and_exp_eq_0_iff_not_bit consts_rcp)

lemma bit_latch: "i < 8 \<Longrightarrow>
   bit (wup_mask (rcp_ep_wakeup_wup_status_latch_source s i)) j \<longleftrightarrow> j = i \<or> bit (wup_mask s) j"
  by (auto simp: rcp_ep_wakeup_wup_status_latch_source_def consts_rcp bit_simps)

lemma bit_clear:
  "bit (wup_mask (rcp_ep_wakeup_wup_status_clear_source s i)) j \<longleftrightarrow>
   bit (wup_mask s) j \<and> \<not> (j = i \<and> i < 8)"
  by (auto simp: rcp_ep_wakeup_wup_status_clear_source_def consts_rcp bit_simps
      dest: bit_imp_le_length)

lemma bit_clear_written:
  "bit (wup_mask (clear_written wup s is)) j \<longleftrightarrow> bit (wup_mask s) j \<and> \<not> (j \<in> set is \<and> j < 8 \<and> bit wup j)"
proof (induction "is" arbitrary: s)
  case (Cons i "is")
  let ?s = "if wup AND push_bit i 1 \<noteq> 0 then rcp_ep_wakeup_wup_status_clear_source s i else s"
  have "bit (wup_mask (clear_written wup ?s is)) j \<longleftrightarrow>
      bit (wup_mask ?s) j \<and> \<not> (j \<in> set is \<and> j < 8 \<and> bit wup j)" by (rule Cons.IH)
  moreover have "bit (wup_mask ?s) j \<longleftrightarrow> bit (wup_mask s) j \<and> \<not> (j = i \<and> j < 8 \<and> bit wup j)"
    by (auto simp: and_exp_eq_0_iff_not_bit bit_clear)
  ultimately show ?case by (auto simp: clear_written_def)
qed (simp add: clear_written_def)

text \<open>the latch of wake sources behaves as a set of source numbers below eight: latching adds one,
  clearing removes one, the other sources are untouched, sources from eight on are ignored, and the
  status is clear exactly when a mask without bits above seven has no latched source.\<close>

theorem wup_status_is_a_set:
  "(rcp_ep_wakeup_wup_status_source_is_latched (rcp_ep_wakeup_wup_status_latch_source s i) j \<longleftrightarrow>
      (i < 8 \<and> j = i) \<or> rcp_ep_wakeup_wup_status_source_is_latched s j) \<and>
   (rcp_ep_wakeup_wup_status_source_is_latched (rcp_ep_wakeup_wup_status_clear_source s i) j \<longleftrightarrow>
      j \<noteq> i \<and> rcp_ep_wakeup_wup_status_source_is_latched s j) \<and>
   \<not> rcp_ep_wakeup_wup_status_source_is_latched (rcp_ep_wakeup_wup_status_clear s) j \<and>
   rcp_ep_wakeup_wup_status_is_clear (s\<lparr>wup_mask := wup_mask s AND 0xFF\<rparr>) =
     (\<forall>k. \<not> rcp_ep_wakeup_wup_status_source_is_latched s k)"
proof (intro conjI)
  show "rcp_ep_wakeup_wup_status_source_is_latched (rcp_ep_wakeup_wup_status_latch_source s i) j \<longleftrightarrow>
      (i < 8 \<and> j = i) \<or> rcp_ep_wakeup_wup_status_source_is_latched s j"
    by (cases "i < 8")
      (auto simp: latched_bit bit_latch, auto simp: rcp_ep_wakeup_wup_status_latch_source_def consts_rcp)
  show "rcp_ep_wakeup_wup_status_source_is_latched (rcp_ep_wakeup_wup_status_clear_source s i) j \<longleftrightarrow>
      j \<noteq> i \<and> rcp_ep_wakeup_wup_status_source_is_latched s j"
    by (auto simp: latched_bit bit_clear)
  show "\<not> rcp_ep_wakeup_wup_status_source_is_latched (rcp_ep_wakeup_wup_status_clear s) j"
    by (simp add: latched_bit rcp_ep_wakeup_wup_status_clear_def)
  have "bit (0xFF :: u16) k \<longleftrightarrow> k < 8" for k
    using bit_mask_iff [of 8 k, where 'a = "16 word"] by (auto simp: mask_eq_exp_minus_1)
  then show "rcp_ep_wakeup_wup_status_is_clear (s\<lparr>wup_mask := wup_mask s AND 0xFF\<rparr>) =
     (\<forall>k. \<not> rcp_ep_wakeup_wup_status_source_is_latched s k)"
    by (auto simp: rcp_ep_wakeup_wup_status_is_clear_def latched_bit bit_eq_iff [of _ "0 :: u16"] bit_simps)
qed

section \<open>Edges\<close>

text \<open>The observations of one source over time.\<close>

fun edge_run :: "rcp_ep_wakeup_source_cfg_t \<Rightarrow> rcp_ep_wakeup_source_edge_state_t \<Rightarrow> bool list \<Rightarrow> bool list" where
  "edge_run cfg st [] = []"
| "edge_run cfg st (l # ls) =
     (let (fired, st') = rcp_ep_wakeup_source_edge_asserted cfg st l in fired # edge_run cfg st' ls)"

lemma edge_run_from:
  assumes "trigger_on_rising_edge cfg \<or> trigger_on_falling_edge cfg"
  shows "edge_run cfg \<lparr>edge_has_previous = True, previous_level = p\<rparr> ls =
    map (\<lambda>(a, b). src_enabled cfg \<and> ((trigger_on_rising_edge cfg \<and> \<not> a \<and> b) \<or>
                                      (trigger_on_falling_edge cfg \<and> a \<and> \<not> b))) (zip (p # ls) ls)"
  using assms by (induction ls arbitrary: p) (auto simp: rcp_ep_wakeup_source_edge_asserted_def Let_def)

text \<open>an edge-triggered source fires at an observation exactly when it is enabled and the level
  changed in a configured direction since the observation before; the first observation never fires.\<close>

theorem edges_detected:
  assumes "trigger_on_rising_edge cfg \<or> trigger_on_falling_edge cfg"
  shows "edge_run cfg rcp_ep_wakeup_source_edge_state_init (l # ls) =
    False # map (\<lambda>(a, b). src_enabled cfg \<and> ((trigger_on_rising_edge cfg \<and> \<not> a \<and> b) \<or>
                                      (trigger_on_falling_edge cfg \<and> a \<and> \<not> b))) (zip (l # ls) ls)"
proof -
  have "rcp_ep_wakeup_source_edge_asserted cfg rcp_ep_wakeup_source_edge_state_init l =
      (False, \<lparr>edge_has_previous = True, previous_level = l\<rparr>)"
    using assms by (auto simp: rcp_ep_wakeup_source_edge_asserted_def rcp_ep_wakeup_source_edge_state_init_def)
  then show ?thesis by (simp add: edge_run_from [OF assms])
qed

theorem edges_detected_witness:
  "edge_run \<lparr>src_enabled = True, active_high = False, pin_number = 3, trigger_on_rising_edge = True,
      trigger_on_falling_edge = False\<rparr> rcp_ep_wakeup_source_edge_state_init [True, False, True, True] =
   [False, False, True, False]"
  by (subst edges_detected) simp_all

section \<open>Messages\<close>

lemmas wakeup_codec_defs = rcp_ep_wakeup_encode_sleepcmd_request_def rcp_ep_wakeup_decode_sleepcmd_request_def
  rcp_ep_wakeup_encode_sleepcmd_response_def rcp_ep_wakeup_decode_sleepcmd_response_def
  rcp_ep_wakeup_encode_wakeup_message_def rcp_ep_wakeup_decode_wakeup_message_def
  rcp_ep_wakeup_encode_wakeup_message_with_source_def rcp_ep_wakeup_decode_wakeup_message_with_source_def
  rcp_acf_build_error_response_def rcp_ep_wakeup_is_wakeup_echo_def

lemma sleepcmd_wire:
  assumes "bus < 0x800"
  shows "\<exists>f. rcp_ep_wakeup_encode_sleepcmd_request True bus tn = Some f \<and>
      rcp_ep_wakeup_decode_sleepcmd_request (f @ rest) bus = Inr tn \<and>
      rcp_ep_wakeup_decode_wakeup_message (f @ rest) bus = Inl RCP_EP_WAKEUP_ERR_BAD_OPCODE"
    and "\<exists>f. rcp_ep_wakeup_encode_sleepcmd_response True bus result tn = Some f \<and>
      rcp_ep_wakeup_decode_sleepcmd_response (f @ rest) bus = Inr (result, tn)"
proof -
  let ?h = "zero_info\<lparr>bm_byte_bus_id := bus, bm_op := RCP_ACF_OP_NONE, bm_transaction_num := tn\<rparr>"
  let ?e = "zero_info\<lparr>bm_byte_bus_id := bus, bm_transaction_num := tn, bm_evt := 0,
      bm_op := RCP_ACF_OP_NONE, bm_rsp := 1, bm_err := 1\<rparr>"
  let ?r = "zero_info\<lparr>bm_byte_bus_id := bus, bm_op := RCP_ACF_OP_NONE, bm_rsp := 1, bm_transaction_num := tn\<rparr>"
  note c = abb_canon_def info_canon_def zero_info_def Let_def bus_canon [OF assms]
  show "\<exists>f. rcp_ep_wakeup_encode_sleepcmd_request True bus tn = Some f \<and>
      rcp_ep_wakeup_decode_sleepcmd_request (f @ rest) bus = Inr tn \<and>
      rcp_ep_wakeup_decode_wakeup_message (f @ rest) bus = Inl RCP_EP_WAKEUP_ERR_BAD_OPCODE"
    using abb_small [of "[RCP_EP_WAKEUP_SLEEPCMD_OPCODE]" ?h rest]
    by (auto simp: wakeup_codec_defs c consts_rcp)
  show "\<exists>f. rcp_ep_wakeup_encode_sleepcmd_response True bus result tn = Some f \<and>
      rcp_ep_wakeup_decode_sleepcmd_response (f @ rest) bus = Inr (result, tn)"
    using abb_small [of "[RCP_EP_WAKEUP_SLEEPCMD_OPCODE, 0]" ?r rest]
      abb_small [of "[wire_error_code RCP_ERROR_REQUEST_CANCELED]" ?e rest]
    by (cases result) (auto simp: wakeup_codec_defs c consts_rcp)
qed

text \<open>the messages of the wake-up endpoint survive the wire: SleepCMD requests and responses (the
  refusal too, which travels as an error response), WakeUp messages with and without their source, and
  a WakeUp message is recognised as the echo of exactly the transaction number it carries.  A SleepCMD
  request is not mistaken for a WakeUp message.\<close>

theorem wakeup_messages_roundtrip:
  assumes "bus < 0x800"
  shows "(\<exists>f. rcp_ep_wakeup_encode_sleepcmd_request True bus tn = Some f \<and>
      rcp_ep_wakeup_decode_sleepcmd_request (f @ rest) bus = Inr tn \<and>
      rcp_ep_wakeup_decode_wakeup_message (f @ rest) bus = Inl RCP_EP_WAKEUP_ERR_BAD_OPCODE) \<and>
    (\<exists>f. rcp_ep_wakeup_encode_sleepcmd_response True bus result tn = Some f \<and>
      rcp_ep_wakeup_decode_sleepcmd_response (f @ rest) bus = Inr (result, tn)) \<and>
    (\<exists>f. rcp_ep_wakeup_encode_wakeup_message True bus tn = Some f \<and>
      rcp_ep_wakeup_decode_wakeup_message (f @ rest) bus = Inr tn \<and>
      rcp_ep_wakeup_is_wakeup_echo (f @ rest) bus sent = (sent = tn)) \<and>
    (\<exists>f. rcp_ep_wakeup_encode_wakeup_message_with_source True bus tn source idx = Some f \<and>
      rcp_ep_wakeup_decode_wakeup_message_with_source (f @ rest) bus = Inr (tn, source, idx) \<and>
      rcp_ep_wakeup_is_wakeup_echo (f @ rest) bus sent = (sent = tn))"
proof -
  let ?h = "zero_info\<lparr>bm_byte_bus_id := bus, bm_op := RCP_ACF_OP_NONE, bm_transaction_num := tn\<rparr>"
  note c = abb_canon_def info_canon_def zero_info_def Let_def bus_canon [OF assms]
  have plain: "\<exists>f. rcp_ep_wakeup_encode_wakeup_message True bus tn = Some f \<and>
      rcp_ep_wakeup_decode_wakeup_message (f @ rest) bus = Inr tn \<and>
      rcp_ep_wakeup_is_wakeup_echo (f @ rest) bus sent = (sent = tn)"
    using abb_small [of "[RCP_EP_WAKEUP_WAKEUP_OPCODE]" ?h rest]
    by (auto simp: wakeup_codec_defs c consts_rcp)
  have "\<exists>f. rcp_ep_wakeup_encode_wakeup_message_with_source True bus tn source idx = Some f \<and>
      rcp_ep_wakeup_decode_wakeup_message_with_source (f @ rest) bus = Inr (tn, source, idx) \<and>
      rcp_ep_wakeup_is_wakeup_echo (f @ rest) bus sent = (sent = tn)"
    using abb_small [of "[RCP_EP_WAKEUP_WAKEUP_OPCODE, wakeup_source_code source, idx]" ?h rest]
    by (cases source) (auto simp: wakeup_codec_defs c consts_rcp)
  with plain sleepcmd_wire [OF assms] show ?thesis by blast
qed

theorem wakeup_messages_roundtrip_witness:
  "\<exists>f. rcp_ep_wakeup_encode_sleepcmd_response True 5 RCP_PWRMODE_ENTRY_REFUSED 9 = Some f \<and>
      rcp_ep_wakeup_decode_sleepcmd_response (f @ []) 5 = Inr (RCP_PWRMODE_ENTRY_REFUSED, 9)"
  using wakeup_messages_roundtrip [of 5 9 "[]" RCP_PWRMODE_ENTRY_REFUSED] by simp

section \<open>Configuration writes\<close>

definition wakeup_wf :: "rcp_ep_wakeup_functional_cfg_t \<Rightarrow> bool" where
  "wakeup_wf cfg \<longleftrightarrow> length (wk_sources cfg) = RCP_EP_WAKEUP_MAX_SOURCES"

lemma length_render_sources [simp]: "length (concat (map render_wakeup_source ss)) = 2 * length ss"
  by (induction ss) (simp_all add: render_wakeup_source_def)

lemma length_wakeup_registers: "wakeup_wf cfg \<Longrightarrow> length (rcp_ep_wakeup_render_registers cfg) = 22"
  by (simp add: rcp_ep_wakeup_render_registers_def wakeup_wf_def consts_rcp)

lemma wakeup_registers_wup:
  "rcp_ep_wakeup_render_registers cfg ! 5 = ucast (wup_mask (wk_wup_status cfg))"
  unfolding rcp_ep_wakeup_render_registers_def
  by (simp add: put_u16_def nth_append consts_rcp, rule word8_eqI) (simp add: word_bits)

lemma parse_wakeup_wf: "wakeup_wf (parse_wakeup_registers cfg img)"
  by (simp add: parse_wakeup_registers_def wakeup_wf_def)

lemma apply_wakeup:
  assumes "start < 2 ^ 16" and "ds \<noteq> []"
  shows "rcp_ep_wakeup_apply_reconfig cfg (put_u16 (of_nat start) @ ds) =
    (if start + length ds > 22 then (RCP_EP_WAKEUP_RECONFIG_ERR_OUT_OF_RANGE, cfg)
     else (RCP_EP_WAKEUP_RECONFIG_OK, parse_wakeup_registers cfg
       (patch_block wakeup_reg_offset_read_only (rcp_ep_wakeup_render_registers cfg) start ds)))"
proof -
  have "unat (of_nat start :: u16) = start" using assms(1) by (simp add: unat_of_nat)
  then show ?thesis using assms(2) by (simp add: rcp_ep_wakeup_apply_reconfig_def consts_rcp)
qed

text \<open>C38: What a configuration write does to the latched wake sources.  A write outside the block is
  refused and changes nothing.  An accepted write that covers the low octet of \<^verbatim>\<open>wup_status\<close>
  clears exactly the sources whose written bit is one.  An accepted write that does not cover it clears
  every latched source, although it addresses other registers: the rendered image holds the latches as
  ones, and the parser takes them for written ones.\<close>

theorem wup_latch_after_write:
  assumes "wakeup_wf cfg" and "start < 2 ^ 16" and "ds \<noteq> []"
  shows "let (e, cfg') = rcp_ep_wakeup_apply_reconfig cfg (put_u16 (of_nat start) @ ds) in
    if start + length ds > 22 then e = RCP_EP_WAKEUP_RECONFIG_ERR_OUT_OF_RANGE \<and> cfg' = cfg
    else e = RCP_EP_WAKEUP_RECONFIG_OK \<and>
      (\<forall>j. rcp_ep_wakeup_wup_status_source_is_latched (wk_wup_status cfg') j =
         (rcp_ep_wakeup_wup_status_source_is_latched (wk_wup_status cfg) j \<and>
          start \<le> 5 \<and> 5 < start + length ds \<and> \<not> bit (ds ! (5 - start)) j))"
proof (cases "start + length ds > 22")
  case True
  then show ?thesis by (simp add: apply_wakeup [OF assms(2,3)])
next
  case False
  let ?img = "patch_block wakeup_reg_offset_read_only (rcp_ep_wakeup_render_registers cfg) start ds"
  have len: "length ?img = 22" using length_wakeup_registers [OF assms(1)] by simp
  have img5: "?img ! 5 = (if start \<le> 5 \<and> 5 < start + length ds then ds ! (5 - start)
      else ucast (wup_mask (wk_wup_status cfg)))"
    using False length_wakeup_registers [OF assms(1)]
    by (subst nth_patch_block) (auto simp: wakeup_registers_wup wakeup_reg_offset_read_only_def consts_rcp)
  have "bit (get_u16 (drop 4 ?img)) j \<longleftrightarrow> bit (?img ! 5) j" if "j < 8" for j
    using that len by (auto simp: get_u16_def bit_simps)
  then have "bit (wup_mask (wk_wup_status (parse_wakeup_registers cfg ?img))) j \<longleftrightarrow>
      bit (wup_mask (wk_wup_status cfg)) j \<and> \<not> bit (?img ! 5) j" if "j < 8" for j
    using that by (simp add: parse_wakeup_registers_def bit_clear_written consts_rcp)
  then have "rcp_ep_wakeup_wup_status_source_is_latched (wk_wup_status (parse_wakeup_registers cfg ?img)) j =
         (rcp_ep_wakeup_wup_status_source_is_latched (wk_wup_status cfg) j \<and>
          start \<le> 5 \<and> 5 < start + length ds \<and> \<not> bit (ds ! (5 - start)) j)" for j
    unfolding latched_bit
    by (cases "j < 8"; cases "start \<le> 5 \<and> 5 < start + length ds") (auto simp: img5 bit_simps)
  then show ?thesis using False by (simp add: apply_wakeup [OF assms(2,3)])
qed

text \<open>The witness latches sources 0 and 3 and writes the \<^verbatim>\<open>ep_status\<close> register.\<close>

theorem wup_latch_after_write_witness:
  "let cfg = rcp_ep_wakeup_functional_cfg_init\<lparr>wk_wup_status := \<lparr>wup_mask = 0x0009\<rparr>\<rparr> in
    rcp_ep_wakeup_wup_status_source_is_latched (wk_wup_status cfg) 3 \<and>
    \<not> rcp_ep_wakeup_wup_status_source_is_latched
        (wk_wup_status (snd (rcp_ep_wakeup_apply_reconfig cfg (put_u16 (of_nat 2) @ [0, 1])))) 3"
proof -
  define cfg where "cfg = rcp_ep_wakeup_functional_cfg_init\<lparr>wk_wup_status := \<lparr>wup_mask = 0x0009\<rparr>\<rparr>"
  have "wakeup_wf cfg" by (simp add: cfg_def wakeup_wf_def rcp_ep_wakeup_functional_cfg_init_def)
  from wup_latch_after_write [OF this, of 2 "[0, 1]"]
  have "\<not> rcp_ep_wakeup_wup_status_source_is_latched
      (wk_wup_status (snd (rcp_ep_wakeup_apply_reconfig cfg (put_u16 (of_nat 2) @ [0, 1])))) 3"
    by (simp add: case_prod_unfold Let_def)
  moreover have "rcp_ep_wakeup_wup_status_source_is_latched (wk_wup_status cfg) 3"
    unfolding cfg_def by code_simp
  ultimately show ?thesis by (simp add: cfg_def Let_def)
qed

end
