(* ===== verification/Tables.thy ===== *)
theory Tables
  imports Interfaces
begin

text \<open>
  Tables of entries with a key, as the managers of the library keep them: fixed arrays searched from
  the front for the first entry with a given key, whose entry is then updated in place.
\<close>

definition table_get :: "('e \<Rightarrow> 'k) \<Rightarrow> 'e list \<Rightarrow> 'k \<Rightarrow> 'e option" where
  "table_get key xs k = map_option (nth xs) (find_index (\<lambda>e. key e = k) xs)"

lemma table_get_Nil [simp]: "table_get key [] k = None"
  by (simp add: table_get_def)

lemma table_get_Cons: "table_get key (x # xs) k = (if key x = k then Some x else table_get key xs k)"
  by (simp add: table_get_def option.map_comp comp_def)

lemma table_get_found:
  "find_index (\<lambda>e. key e = k) xs = Some i \<Longrightarrow> table_get key xs k = Some (xs ! i) \<and> i < length xs \<and> key (xs ! i) = k"
  by (auto simp: table_get_def dest: find_index_SomeD)

lemma table_get_missing: "find_index (\<lambda>e. key e = k) xs = None \<Longrightarrow> table_get key xs k = None"
  by (simp add: table_get_def)

lemma table_get_key: "table_get key xs k = Some e \<Longrightarrow> key e = k \<and> e \<in> set xs"
  by (auto simp: table_get_def dest: find_index_SomeD)

text \<open>Updating the entry found under a key changes the result for this key only, as long as the new
  entry has the same key.\<close>

lemma table_get_update:
  assumes "find_index (\<lambda>e. key e = k) xs = Some i" and "key e = k"
  shows "table_get key (xs[i := e]) k' = (if k' = k then Some e else table_get key xs k')"
  using assms
proof (induction xs arbitrary: i)
  case (Cons x xs)
  show ?case
  proof (cases "key x = k")
    case True
    then show ?thesis using Cons.prems by (auto simp: table_get_Cons)
  next
    case False
    then obtain j where j: "i = Suc j" "find_index (\<lambda>e. key e = k) xs = Some j"
      using Cons.prems(1) by auto
    from Cons.IH [OF j(2) assms(2)] False j(1) show ?thesis by (auto simp: table_get_Cons)
  qed
qed simp

lemma map_key_update:
  "i < length xs \<Longrightarrow> key e = key (xs ! i) \<Longrightarrow> map key (xs[i := e]) = map key xs"
  by (simp add: map_update list_update_same_conv)

lemma table_get_append:
  "table_get key (xs @ ys) k = (case table_get key xs k of None \<Rightarrow> table_get key ys k | Some e \<Rightarrow> Some e)"
  by (induction xs) (auto simp: table_get_Cons split: option.splits)

lemma table_get_None_iff: "table_get key xs k = None \<longleftrightarrow> k \<notin> key ` set xs"
  by (induction xs) (auto simp: table_get_Cons)

end
