(* ===== verification/Powerstate.thy ===== *)
theory Powerstate
  imports Ep_Wakeup Tables
begin

text \<open>
  \<^verbatim>\<open>src/powerstate.c\<close>: the client-side mirror of the power modes of a set of endpoints.

  The tables of entries and callbacks are lists within their fixed capacities; a callback and its
  context are opaque numbers.  The calls of \<^verbatim>\<open>emit\<close> are the list of callbacks with the event,
  returned beside the manager.  Each operation is one atomic step: the pointer found under the lock
  stays valid because entries are never moved.  \<open>mem\<close> is the outcome of an allocation.
\<close>

section \<open>Data\<close>

definition RCP_POWERSTATE_MAX_ENDPOINTS :: nat where [consts_rcp]: "RCP_POWERSTATE_MAX_ENDPOINTS = 64"
definition RCP_POWERSTATE_MAX_CALLBACKS :: nat where [consts_rcp]: "RCP_POWERSTATE_MAX_CALLBACKS = 16"

datatype rcp_powerstate_errc_t =
    RCP_POWERSTATE_OK | RCP_POWERSTATE_ERR_UNKNOWN_ENDPOINT | RCP_POWERSTATE_ERR_DECODE
  | RCP_POWERSTATE_ERR_UNEXPECTED_TXN | RCP_POWERSTATE_ERR_ENTRY_REFUSED
  | RCP_POWERSTATE_ERR_TRANSITION

record rcp_power_event_t =
  ev_addr :: rcp_avtp_addr_t
  ev_mode :: rcp_pwrmode_t
  ev_err :: rcp_powerstate_errc_t

record endpoint_entry_t =
  ent_addr :: rcp_avtp_addr_t
  ent_mode :: rcp_pwrmode_t
  ent_handshake :: rcp_pwrmode_handshake_t
  resp_stream_id :: rcp_stream_id_t
  has_resp_stream_id :: bool
  request_pending :: bool
  pending_target :: rcp_pwrmode_t
  pending_txn :: byte

record rcp_powerstate_manager_t =
  pm_entries :: "endpoint_entry_t list"
  pm_callbacks :: "(nat \<times> nat) list"

type_synonym power_calls = "((nat \<times> nat) \<times> rcp_power_event_t) list"

section \<open>Operations\<close>

definition find_entry :: "rcp_powerstate_manager_t \<Rightarrow> rcp_avtp_addr_t \<Rightarrow> nat option" where
  "find_entry m addr = find_index (\<lambda>e. rcp_avtp_addr_equal (ent_addr e) addr) (pm_entries m)"

definition update_entry ::
    "rcp_powerstate_manager_t \<Rightarrow> nat \<Rightarrow> endpoint_entry_t \<Rightarrow> rcp_powerstate_manager_t" where
  "update_entry m i e = m\<lparr>pm_entries := (pm_entries m)[i := e]\<rparr>"

definition callbacks_append ::
    "rcp_powerstate_manager_t \<Rightarrow> nat \<Rightarrow> nat \<Rightarrow> bool \<times> rcp_powerstate_manager_t" where
  "callbacks_append m cb user_data =
     (if length (pm_callbacks m) = RCP_POWERSTATE_MAX_CALLBACKS then (False, m)
      else (True, m\<lparr>pm_callbacks := pm_callbacks m @ [(cb, user_data)]\<rparr>))"

definition emit ::
    "rcp_powerstate_manager_t \<Rightarrow> rcp_avtp_addr_t \<Rightarrow> rcp_pwrmode_t \<Rightarrow> rcp_powerstate_errc_t \<Rightarrow> power_calls"
  where
  "emit m addr mode err =
     map (\<lambda>cb. (cb, \<lparr>ev_addr = addr, ev_mode = mode, ev_err = err\<rparr>)) (pm_callbacks m)"

definition rcp_powerstate_manager_new ::
    "bool \<Rightarrow> rcp_avtp_addr_t list \<Rightarrow> rcp_powerstate_manager_t option" where
  "rcp_powerstate_manager_new mem addrs =
     (if length addrs > RCP_POWERSTATE_MAX_ENDPOINTS then None
      else if \<not> mem then None
      else Some \<lparr>pm_entries = map (\<lambda>a.
              \<lparr>ent_addr = a, ent_mode = RCP_PWRMODE_NORMAL,
               ent_handshake = rcp_pwrmode_handshake_init 0, resp_stream_id = rcp_stream_id_make [0, 0, 0, 0, 0, 0] 0,
               has_resp_stream_id = False, request_pending = False,
               pending_target = RCP_PWRMODE_NORMAL, pending_txn = 0\<rparr>) addrs,
             pm_callbacks = []\<rparr>)"

definition rcp_powerstate_manager_mode ::
    "rcp_powerstate_manager_t \<Rightarrow> rcp_avtp_addr_t \<Rightarrow> rcp_pwrmode_t" where
  "rcp_powerstate_manager_mode m addr =
     (case find_entry m addr of
        Some i \<Rightarrow> ent_mode (pm_entries m ! i)
      | None \<Rightarrow> RCP_PWRMODE_NORMAL)"

definition rcp_powerstate_manager_encode_entry_request ::
    "bool \<Rightarrow> rcp_powerstate_manager_t \<Rightarrow> rcp_avtp_addr_t \<Rightarrow> rcp_pwrmode_t \<Rightarrow> byte \<Rightarrow>
     rcp_bytes_t \<times> rcp_powerstate_manager_t" where
  "rcp_powerstate_manager_encode_entry_request mem m addr target_mode tn =
     (if target_mode \<noteq> RCP_PWRMODE_SLEEP then (None, m)
      else
        case find_entry m addr of
          None \<Rightarrow> (None, m)
        | Some i \<Rightarrow>
            (case rcp_ep_wakeup_encode_sleepcmd_request mem (addr_byte_bus_id addr) tn of
               None \<Rightarrow> (None, m)
             | Some frame \<Rightarrow>
                 (Some frame, update_entry m i
                    ((pm_entries m ! i)\<lparr>request_pending := True, pending_target := target_mode,
                                        pending_txn := tn\<rparr>))))"

definition rcp_powerstate_manager_apply_entry_response ::
    "rcp_powerstate_manager_t \<Rightarrow> rcp_avtp_addr_t \<Rightarrow> bytes \<Rightarrow>
     rcp_powerstate_errc_t \<times> rcp_powerstate_manager_t \<times> power_calls" where
  "rcp_powerstate_manager_apply_entry_response m addr b =
     (case find_entry m addr of
        None \<Rightarrow> (RCP_POWERSTATE_ERR_UNKNOWN_ENDPOINT, m, [])
      | Some i \<Rightarrow>
          (case rcp_ep_wakeup_decode_sleepcmd_response b (addr_byte_bus_id addr) of
             Inl _ \<Rightarrow> (RCP_POWERSTATE_ERR_DECODE, m, [])
           | Inr (result, txn) \<Rightarrow>
               let e = pm_entries m ! i in
               if \<not> request_pending e \<or> pending_txn e \<noteq> txn
               then (RCP_POWERSTATE_ERR_UNEXPECTED_TXN, m, [])
               else if result = RCP_PWRMODE_ENTRY_REFUSED then
                 (RCP_POWERSTATE_ERR_ENTRY_REFUSED, update_entry m i (e\<lparr>request_pending := False\<rparr>),
                  emit m addr (ent_mode e) RCP_POWERSTATE_ERR_ENTRY_REFUSED)
               else
                 let (tec, mode_after, _) = rcp_pwrmode_transition (ent_mode e) (pending_target e);
                     m' = update_entry m i (e\<lparr>ent_mode := mode_after, request_pending := False\<rparr>)
                 in if tec \<noteq> RCP_PWRMODE_OK
                    then (RCP_POWERSTATE_ERR_TRANSITION, m',
                          emit m' addr mode_after RCP_POWERSTATE_ERR_TRANSITION)
                    else (RCP_POWERSTATE_OK, m', emit m' addr mode_after RCP_POWERSTATE_OK)))"

text \<open>The two wake functions differ in the path only.\<close>

definition wake_via ::
    "rcp_pwrmode_wake_path_t \<Rightarrow> rcp_powerstate_manager_t \<Rightarrow> rcp_avtp_addr_t \<Rightarrow>
     rcp_powerstate_errc_t \<times> rcp_powerstate_manager_t \<times> rcp_pwrmode_start_kind_t option \<times> power_calls"
  where
  "wake_via path m addr =
     (case find_entry m addr of
        None \<Rightarrow> (RCP_POWERSTATE_ERR_UNKNOWN_ENDPOINT, m, None, [])
      | Some i \<Rightarrow>
          let e = pm_entries m ! i;
              (ec, mode_after, kind) = rcp_pwrmode_wake_from_sleep (ent_mode e) path
                                         (Some (ent_handshake e));
              m' = update_entry m i (e\<lparr>ent_mode := mode_after\<rparr>)
          in if ec \<noteq> RCP_PWRMODE_OK
             then (RCP_POWERSTATE_ERR_TRANSITION, m', kind,
                   emit m' addr mode_after RCP_POWERSTATE_ERR_TRANSITION)
             else (RCP_POWERSTATE_OK, m', kind, emit m' addr mode_after RCP_POWERSTATE_OK))"

definition rcp_powerstate_manager_wake_via_network ::
    "rcp_powerstate_manager_t \<Rightarrow> rcp_avtp_addr_t \<Rightarrow>
     rcp_powerstate_errc_t \<times> rcp_powerstate_manager_t \<times> rcp_pwrmode_start_kind_t option \<times> power_calls"
  where
  "rcp_powerstate_manager_wake_via_network m addr = wake_via RCP_PWRMODE_WAKE_VIA_NETWORK m addr"

definition rcp_powerstate_manager_handshake_begin ::
    "rcp_powerstate_manager_t \<Rightarrow> rcp_avtp_addr_t \<Rightarrow> u32 \<Rightarrow> bool \<Rightarrow> rcp_stream_id_t \<Rightarrow>
     bool \<times> rcp_powerstate_manager_t" where
  "rcp_powerstate_manager_handshake_begin m addr repeat_limit network_available stream =
     (case find_entry m addr of
        None \<Rightarrow> (False, m)
      | Some i \<Rightarrow>
          let (ok, hs) = rcp_pwrmode_handshake_iface_reenabled
                           (rcp_pwrmode_handshake_init repeat_limit) network_available
          in (ok, update_entry m i ((pm_entries m ! i)\<lparr>ent_handshake := hs, resp_stream_id := stream,
                                                        has_resp_stream_id := True\<rparr>)))"

definition rcp_powerstate_manager_wake_response_stream_id ::
    "rcp_powerstate_manager_t \<Rightarrow> rcp_avtp_addr_t \<Rightarrow> rcp_stream_id_t option" where
  "rcp_powerstate_manager_wake_response_stream_id m addr =
     (case find_entry m addr of
        None \<Rightarrow> None
      | Some i \<Rightarrow> if has_resp_stream_id (pm_entries m ! i) then Some (resp_stream_id (pm_entries m ! i))
                  else None)"

definition rcp_powerstate_manager_encode_wakeup_probe ::
    "bool \<Rightarrow> rcp_powerstate_manager_t \<Rightarrow> rcp_avtp_addr_t \<Rightarrow> byte \<Rightarrow> rcp_bytes_t" where
  "rcp_powerstate_manager_encode_wakeup_probe mem m addr tn =
     (case find_entry m addr of
        None \<Rightarrow> None
      | Some i \<Rightarrow> rcp_ep_wakeup_encode_wakeup_message mem (addr_byte_bus_id addr) tn)"

definition rcp_powerstate_manager_apply_wakeup_echo ::
    "rcp_powerstate_manager_t \<Rightarrow> rcp_avtp_addr_t \<Rightarrow> bytes \<Rightarrow> byte \<Rightarrow> bool \<times> rcp_powerstate_manager_t"
  where
  "rcp_powerstate_manager_apply_wakeup_echo m addr b sent_tn =
     (let echoed = rcp_ep_wakeup_is_wakeup_echo b (addr_byte_bus_id addr) sent_tn in
      case find_entry m addr of
        None \<Rightarrow> (False, m)
      | Some i \<Rightarrow>
          let (ok, hs) = rcp_pwrmode_handshake_wakeup_attempt (ent_handshake (pm_entries m ! i)) echoed
          in (ok, update_entry m i ((pm_entries m ! i)\<lparr>ent_handshake := hs\<rparr>)))"

definition rcp_powerstate_manager_handshake_resume_queues ::
    "rcp_powerstate_manager_t \<Rightarrow> rcp_avtp_addr_t \<Rightarrow> bool \<times> rcp_powerstate_manager_t" where
  "rcp_powerstate_manager_handshake_resume_queues m addr =
     (case find_entry m addr of
        None \<Rightarrow> (False, m)
      | Some i \<Rightarrow>
          let (ok, hs) = rcp_pwrmode_handshake_resume_queues (ent_handshake (pm_entries m ! i))
          in (ok, update_entry m i ((pm_entries m ! i)\<lparr>ent_handshake := hs\<rparr>)))"

definition rcp_powerstate_manager_wake_via_pin ::
    "rcp_powerstate_manager_t \<Rightarrow> rcp_avtp_addr_t \<Rightarrow>
     rcp_powerstate_errc_t \<times> rcp_powerstate_manager_t \<times> rcp_pwrmode_start_kind_t option \<times> power_calls"
  where
  "rcp_powerstate_manager_wake_via_pin m addr = wake_via RCP_PWRMODE_WAKE_VIA_PIN m addr"

definition rcp_powerstate_manager_subscribe ::
    "rcp_powerstate_manager_t \<Rightarrow> nat \<Rightarrow> nat \<Rightarrow> bool \<times> rcp_powerstate_manager_t" where
  "rcp_powerstate_manager_subscribe m cb user_data = callbacks_append m cb user_data"

section \<open>Entries\<close>

definition entry_of :: "rcp_powerstate_manager_t \<Rightarrow> rcp_avtp_addr_t \<Rightarrow> endpoint_entry_t option" where
  "entry_of m addr = table_get ent_addr (pm_entries m) addr"

lemma find_entry_eq: "find_entry m addr = find_index (\<lambda>e. ent_addr e = addr) (pm_entries m)"
  by (simp add: find_entry_def)

lemma find_entry_Some:
  "find_entry m addr = Some i \<Longrightarrow> entry_of m addr = Some (pm_entries m ! i) \<and> ent_addr (pm_entries m ! i) = addr"
  unfolding entry_of_def find_entry_eq by (drule table_get_found) simp

lemma find_entry_None: "find_entry m addr = None \<longleftrightarrow> entry_of m addr = None"
  by (simp add: entry_of_def find_entry_eq table_get_def)

lemma entry_of_update:
  "find_entry m addr = Some i \<Longrightarrow> ent_addr e = addr \<Longrightarrow>
   entry_of (update_entry m i e) a = (if a = addr then Some e else entry_of m a)"
  unfolding entry_of_def find_entry_eq update_entry_def
  using table_get_update [of ent_addr addr "pm_entries m" i e a] by simp

lemma callbacks_update [simp]: "pm_callbacks (update_entry m i e) = pm_callbacks m"
  by (simp add: update_entry_def)

lemma emit_update [simp]: "emit (update_entry m i e) addr mode err = emit m addr mode err"
  by (simp add: emit_def)

section \<open>Properties\<close>

lemma apply_response_spec:
  assumes "rcp_powerstate_manager_apply_entry_response m addr b = (r, m', calls)"
  shows "(\<forall>a. a \<noteq> addr \<longrightarrow> entry_of m' a = entry_of m a) \<and>
    (case entry_of m addr of
       None \<Rightarrow> r = RCP_POWERSTATE_ERR_UNKNOWN_ENDPOINT \<and> m' = m \<and> calls = []
     | Some e \<Rightarrow> \<exists>e'. entry_of m' addr = Some e' \<and> ent_handshake e' = ent_handshake e \<and>
         (r = RCP_POWERSTATE_OK \<longleftrightarrow>
            rcp_ep_wakeup_decode_sleepcmd_response b (addr_byte_bus_id addr) =
              Inr (RCP_PWRMODE_ENTRY_OK, pending_txn e) \<and> request_pending e \<and>
            fst (rcp_pwrmode_transition (ent_mode e) (pending_target e)) = RCP_PWRMODE_OK) \<and>
         ent_mode e' = (if r = RCP_POWERSTATE_OK then pending_target e else ent_mode e) \<and>
         (if r \<in> {RCP_POWERSTATE_OK, RCP_POWERSTATE_ERR_ENTRY_REFUSED, RCP_POWERSTATE_ERR_TRANSITION}
          then \<not> request_pending e' \<and> calls = emit m addr (ent_mode e') r
          else r \<in> {RCP_POWERSTATE_ERR_DECODE, RCP_POWERSTATE_ERR_UNEXPECTED_TXN} \<and> m' = m \<and> calls = []))"
proof (cases "find_entry m addr")
  case None
  then show ?thesis using assms find_entry_None [of m addr]
    by (auto simp: rcp_powerstate_manager_apply_entry_response_def)
next
  case (Some i)
  define e where "e = pm_entries m ! i"
  have e: "entry_of m addr = Some e" "ent_addr e = addr" using find_entry_Some [OF Some] by (simp_all add: e_def)
  have upd: "entry_of (update_entry m i x) a = (if a = addr then Some x else entry_of m a)"
    if "ent_addr x = addr" for x a using entry_of_update [OF Some that] .
  have tr: "fst (snd (rcp_pwrmode_transition a b)) =
      (if fst (rcp_pwrmode_transition a b) = RCP_PWRMODE_OK then b else a)" for a b
    by (cases a; cases b) (simp_all add: rcp_pwrmode_transition_def)
  show ?thesis
  proof (cases "rcp_ep_wakeup_decode_sleepcmd_response b (addr_byte_bus_id addr)")
    case (Inl x)
    then show ?thesis using assms Some e
      by (auto simp: rcp_powerstate_manager_apply_entry_response_def)
  next
    case (Inr d)
    obtain result txn where d: "d = (result, txn)" by fastforce
    show ?thesis
    proof (cases "request_pending e \<and> pending_txn e = txn")
      case False
      then show ?thesis using assms Some e Inr d
        by (auto simp: rcp_powerstate_manager_apply_entry_response_def Let_def e_def [symmetric])
    next
      case True
      then show ?thesis using assms Some e Inr d
        by (cases result)
          (auto simp: rcp_powerstate_manager_apply_entry_response_def Let_def e_def [symmetric] upd tr
            case_prod_unfold split: if_splits)
    qed
  qed
qed

text \<open>a SleepCMD response is applied exactly when the endpoint is known, has a pending request with
  the transaction number of the response, and the response is positive; then the mode becomes the
  requested one.  In every other case the mode stays, and a response that does not decode or does not
  match changes nothing and reports nothing.  Refused and applied responses end the pending request and
  call every subscriber once, with the mode after the event.  No other endpoint is touched.\<close>

theorem entry_response_exact:
  assumes "rcp_powerstate_manager_apply_entry_response m addr b = (r, m', calls)"
  shows "(\<forall>a. a \<noteq> addr \<longrightarrow> entry_of m' a = entry_of m a) \<and>
    (case entry_of m addr of
       None \<Rightarrow> r = RCP_POWERSTATE_ERR_UNKNOWN_ENDPOINT \<and> m' = m \<and> calls = []
     | Some e \<Rightarrow> \<exists>e'. entry_of m' addr = Some e' \<and> ent_handshake e' = ent_handshake e \<and>
         (r = RCP_POWERSTATE_OK \<longleftrightarrow>
            rcp_ep_wakeup_decode_sleepcmd_response b (addr_byte_bus_id addr) =
              Inr (RCP_PWRMODE_ENTRY_OK, pending_txn e) \<and> request_pending e \<and>
            fst (rcp_pwrmode_transition (ent_mode e) (pending_target e)) = RCP_PWRMODE_OK) \<and>
         ent_mode e' = (if r = RCP_POWERSTATE_OK then pending_target e else ent_mode e) \<and>
         (if r \<in> {RCP_POWERSTATE_OK, RCP_POWERSTATE_ERR_ENTRY_REFUSED, RCP_POWERSTATE_ERR_TRANSITION}
          then \<not> request_pending e' \<and> calls = emit m addr (ent_mode e') r
          else r \<in> {RCP_POWERSTATE_ERR_DECODE, RCP_POWERSTATE_ERR_UNEXPECTED_TXN} \<and> m' = m \<and> calls = []))"
  by (rule apply_response_spec [OF assms])

text \<open>A manager of one endpoint, used by the witnesses.\<close>

definition sample_addr :: rcp_avtp_addr_t where
  "sample_addr = \<lparr>addr_stream_id = rcp_stream_id_make [1, 2, 3, 4, 5, 6] 7, addr_byte_bus_id = 5\<rparr>"

definition sample_manager :: rcp_powerstate_manager_t where
  "sample_manager = the (rcp_powerstate_manager_new True [sample_addr])"

definition sleep_response :: "byte \<Rightarrow> bytes" where
  "sleep_response tn =
     rcp_bytes_data (rcp_ep_wakeup_encode_sleepcmd_response True 5 RCP_PWRMODE_ENTRY_OK tn)"

theorem entry_response_exact_witness:
  "entry_of (fst (snd (rcp_powerstate_manager_apply_entry_response sample_manager sample_addr []))) sample_addr =
     entry_of sample_manager sample_addr"
proof -
  obtain r m' calls where a:
    "rcp_powerstate_manager_apply_entry_response sample_manager sample_addr [] = (r, m', calls)"
    by (metis prod.collapse)
  have "fst (rcp_powerstate_manager_apply_entry_response sample_manager sample_addr []) = RCP_POWERSTATE_ERR_DECODE"
    by code_simp
  with a have "r = RCP_POWERSTATE_ERR_DECODE" by simp
  moreover have "entry_of sample_manager sample_addr \<noteq> None"
    by (simp add: entry_of_def sample_manager_def rcp_powerstate_manager_new_def table_get_Cons consts_rcp)
  ultimately show ?thesis using entry_response_exact [OF a] a by auto
qed

text \<open>C29: Entering sleep over the wire.  For a registered endpoint in normal or standby mode the manager
  produces a SleepCMD request that the server decodes; when the server accepts, the response it encodes
  puts the mirrored mode to sleep, and when it refuses, the mode stays and the refusal is reported.\<close>

theorem sleep_entry_end_to_end:
  assumes "entry_of m addr = Some e" and "ent_mode e \<in> {RCP_PWRMODE_NORMAL, RCP_PWRMODE_STANDBY}"
    and "addr_byte_bus_id addr < 0x800"
  shows "\<exists>f m1. rcp_powerstate_manager_encode_entry_request True m addr RCP_PWRMODE_SLEEP tn = (Some f, m1) \<and>
    rcp_ep_wakeup_decode_sleepcmd_request f (addr_byte_bus_id addr) = Inr tn \<and>
    (\<exists>g. rcp_ep_wakeup_encode_sleepcmd_response True (addr_byte_bus_id addr) result tn = Some g \<and>
       (let (r, m2, calls) = rcp_powerstate_manager_apply_entry_response m1 addr g in
        (r, rcp_powerstate_manager_mode m2 addr) =
          (if result = RCP_PWRMODE_ENTRY_OK then (RCP_POWERSTATE_OK, RCP_PWRMODE_SLEEP)
           else (RCP_POWERSTATE_ERR_ENTRY_REFUSED, ent_mode e))))"
proof -
  note w = sleepcmd_wire [OF assms(3), where rest = "[]", unfolded append_Nil2]
  obtain f where f: "rcp_ep_wakeup_encode_sleepcmd_request True (addr_byte_bus_id addr) tn = Some f"
    "rcp_ep_wakeup_decode_sleepcmd_request f (addr_byte_bus_id addr) = Inr tn" using w(1) [where tn = tn] by auto
  obtain g where g: "rcp_ep_wakeup_encode_sleepcmd_response True (addr_byte_bus_id addr) result tn = Some g"
    "rcp_ep_wakeup_decode_sleepcmd_response g (addr_byte_bus_id addr) = Inr (result, tn)"
    using w(2) [where tn = tn and result = result] by auto
  obtain i where i: "find_entry m addr = Some i" using assms(1) find_entry_None [of m addr] by fastforce
  have e: "pm_entries m ! i = e" "ent_addr e = addr" using find_entry_Some [OF i] assms(1) by simp_all
  define e1 where "e1 = e\<lparr>request_pending := True, pending_target := RCP_PWRMODE_SLEEP, pending_txn := tn\<rparr>"
  define m1 where "m1 = update_entry m i e1"
  have enc: "rcp_powerstate_manager_encode_entry_request True m addr RCP_PWRMODE_SLEEP tn = (Some f, m1)"
    by (simp add: rcp_powerstate_manager_encode_entry_request_def i f e m1_def e1_def)
  have e1: "entry_of m1 addr = Some e1"
    using entry_of_update [OF i, of e1 addr] e(2) by (simp add: m1_def e1_def)
  have tr: "fst (rcp_pwrmode_transition (ent_mode e) RCP_PWRMODE_SLEEP) = RCP_PWRMODE_OK"
    using assms(2) by (auto simp: rcp_pwrmode_transition_def)
  have mode: "entry_of m2 addr = Some e2 \<Longrightarrow> rcp_powerstate_manager_mode m2 addr = ent_mode e2" for m2 e2
    using find_entry_None [of m2 addr] find_entry_Some [of m2 addr]
    by (auto simp: rcp_powerstate_manager_mode_def split: option.split)
  obtain r m2 calls where a: "rcp_powerstate_manager_apply_entry_response m1 addr g = (r, m2, calls)"
    by (metis prod.collapse)
  from apply_response_spec [OF a] e1 obtain e2 where e2: "entry_of m2 addr = Some e2"
    "(r = RCP_POWERSTATE_OK) = (result = RCP_PWRMODE_ENTRY_OK)"
    "ent_mode e2 = (if r = RCP_POWERSTATE_OK then RCP_PWRMODE_SLEEP else ent_mode e)"
    using g(2) tr by (auto simp: e1_def)
  have "r = RCP_POWERSTATE_ERR_ENTRY_REFUSED" if "result = RCP_PWRMODE_ENTRY_REFUSED"
  proof -
    obtain k where k: "find_entry m1 addr = Some k" using e1 find_entry_None [of m1 addr] by fastforce
    then have "pm_entries m1 ! k = e1" using find_entry_Some [OF k] e1 by simp
    then show ?thesis using a k g(2) that
      by (simp add: rcp_powerstate_manager_apply_entry_response_def e1_def Let_def)
  qed
  then show ?thesis using enc f(2) g(1) a e2 mode [OF e2(1)]
    by (cases result) auto
qed

theorem sleep_entry_end_to_end_witness:
  "\<exists>f m1. rcp_powerstate_manager_encode_entry_request True sample_manager sample_addr RCP_PWRMODE_SLEEP 9 = (Some f, m1)"
proof -
  have "\<exists>e. entry_of sample_manager sample_addr = Some e \<and> ent_mode e = RCP_PWRMODE_NORMAL"
    by (simp add: entry_of_def sample_manager_def rcp_powerstate_manager_new_def table_get_Cons consts_rcp)
  moreover have "addr_byte_bus_id sample_addr < 0x800" by (simp add: sample_addr_def)
  ultimately show ?thesis using sleep_entry_end_to_end [of sample_manager sample_addr] by blast
qed

section \<open>The handshake of an earlier wake\<close>

text \<open>The operations of a manager as one datatype.\<close>

datatype power_op =
    Pw_encode_request bool rcp_avtp_addr_t rcp_pwrmode_t byte
  | Pw_apply_response rcp_avtp_addr_t bytes
  | Pw_wake rcp_pwrmode_wake_path_t rcp_avtp_addr_t
  | Pw_handshake_begin rcp_avtp_addr_t u32 bool rcp_stream_id_t
  | Pw_apply_echo rcp_avtp_addr_t bytes byte
  | Pw_resume_queues rcp_avtp_addr_t
  | Pw_subscribe nat nat

fun power_apply :: "rcp_powerstate_manager_t \<Rightarrow> power_op \<Rightarrow> rcp_powerstate_manager_t" where
  "power_apply m (Pw_encode_request mem a t tn) =
     snd (rcp_powerstate_manager_encode_entry_request mem m a t tn)"
| "power_apply m (Pw_apply_response a b) = fst (snd (rcp_powerstate_manager_apply_entry_response m a b))"
| "power_apply m (Pw_wake RCP_PWRMODE_WAKE_VIA_NETWORK a) =
     fst (snd (rcp_powerstate_manager_wake_via_network m a))"
| "power_apply m (Pw_wake RCP_PWRMODE_WAKE_VIA_PIN a) =
     fst (snd (rcp_powerstate_manager_wake_via_pin m a))"
| "power_apply m (Pw_handshake_begin a limit avail stream) =
     snd (rcp_powerstate_manager_handshake_begin m a limit avail stream)"
| "power_apply m (Pw_apply_echo a b tn) = snd (rcp_powerstate_manager_apply_wakeup_echo m a b tn)"
| "power_apply m (Pw_resume_queues a) = snd (rcp_powerstate_manager_handshake_resume_queues m a)"
| "power_apply m (Pw_subscribe cb ud) = snd (rcp_powerstate_manager_subscribe m cb ud)"

fun begins_handshake :: "rcp_avtp_addr_t \<Rightarrow> power_op \<Rightarrow> bool" where
  "begins_handshake a (Pw_handshake_begin b _ _ _) = (b = a)"
| "begins_handshake a _ = False"

definition handshake_complete :: "rcp_powerstate_manager_t \<Rightarrow> rcp_avtp_addr_t \<Rightarrow> bool" where
  "handshake_complete m a \<longleftrightarrow>
     (\<exists>e. entry_of m a = Some e \<and> rcp_pwrmode_handshake_is_complete (ent_handshake e))"

text \<open>Updating an entry keeps a complete handshake when the new entry keeps it.\<close>

lemma complete_update:
  assumes "handshake_complete m a" and "find_entry m b = Some i"
    and "ent_addr e = b" and "ent_handshake e = ent_handshake (pm_entries m ! i) \<or>
      (rcp_pwrmode_handshake_is_complete (ent_handshake (pm_entries m ! i)) \<longrightarrow>
       rcp_pwrmode_handshake_is_complete (ent_handshake e)) \<or> b \<noteq> a"
  shows "handshake_complete (update_entry m i e) a"
  using assms entry_of_update [OF assms(2,3), of a] find_entry_Some [OF assms(2)]
  by (auto simp: handshake_complete_def)

lemma complete_attempt:
  "rcp_pwrmode_handshake_is_complete hs \<Longrightarrow>
   rcp_pwrmode_handshake_is_complete (snd (rcp_pwrmode_handshake_wakeup_attempt hs x)) \<and>
   rcp_pwrmode_handshake_is_complete (snd (rcp_pwrmode_handshake_resume_queues hs))"
  by (simp add: rcp_pwrmode_handshake_is_complete_def handshake_defs)

lemma complete_wake: "handshake_complete m a \<Longrightarrow> handshake_complete (fst (snd (wake_via path m b))) a"
  using find_entry_Some [of m b]
  by (auto simp: wake_via_def Let_def case_prod_unfold intro!: complete_update split: option.split)

lemma complete_step:
  assumes "handshake_complete m a" and "\<not> begins_handshake a op"
  shows "handshake_complete (power_apply m op) a"
proof (cases op)
  case (Pw_encode_request mem b t tn)
  then show ?thesis using assms(1) find_entry_Some [of m b]
    by (auto simp: rcp_powerstate_manager_encode_entry_request_def intro!: complete_update split: option.split)
next
  case (Pw_apply_response b f)
  obtain r m' calls where r: "rcp_powerstate_manager_apply_entry_response m b f = (r, m', calls)"
    by (metis prod.collapse)
  show ?thesis using assms(1) apply_response_spec [OF r] r Pw_apply_response
    by (cases "a = b") (auto simp: handshake_complete_def split: option.splits)
next
  case (Pw_wake path b)
  then show ?thesis using complete_wake [OF assms(1)]
    by (cases path) (simp_all add: rcp_powerstate_manager_wake_via_network_def
        rcp_powerstate_manager_wake_via_pin_def)
next
  case (Pw_handshake_begin b limit avail stream)
  then show ?thesis using assms find_entry_Some [of m b]
    by (auto simp: rcp_powerstate_manager_handshake_begin_def case_prod_unfold Let_def
        intro!: complete_update split: option.split)
next
  case (Pw_apply_echo b f tn)
  then show ?thesis using assms find_entry_Some [of m b] complete_attempt
    by (auto simp: rcp_powerstate_manager_apply_wakeup_echo_def case_prod_unfold Let_def
        intro!: complete_update split: option.split)
next
  case (Pw_resume_queues b)
  then show ?thesis using assms find_entry_Some [of m b] complete_attempt
    by (auto simp: rcp_powerstate_manager_handshake_resume_queues_def case_prod_unfold Let_def
        intro!: complete_update split: option.split)
next
  case (Pw_subscribe cb ud)
  then show ?thesis using assms(1)
    by (simp add: rcp_powerstate_manager_subscribe_def callbacks_append_def handshake_complete_def entry_of_def)
qed

lemma complete_run:
  "handshake_complete m a \<Longrightarrow> list_all (\<lambda>op. \<not> begins_handshake a op) ops \<Longrightarrow>
   handshake_complete (foldl power_apply m ops) a"
  by (induction ops arbitrary: m) (simp_all add: complete_step)

text \<open>A completed handshake is never consumed.  Once the handshake of an endpoint is complete it stays
  complete through any operations (further sleep entries and wakes included) until a new handshake is
  begun for it, so that every later wake of this endpoint is classified as a hot start although no
  handshake was run for it.\<close>

theorem handshake_not_consumed:
  assumes "handshake_complete m a" and "list_all (\<lambda>op. \<not> begins_handshake a op) ops"
    and "rcp_powerstate_manager_mode (foldl power_apply m ops) a = RCP_PWRMODE_SLEEP"
  shows "fst (rcp_powerstate_manager_wake_via_network (foldl power_apply m ops) a) = RCP_POWERSTATE_OK \<and>
    fst (snd (snd (rcp_powerstate_manager_wake_via_network (foldl power_apply m ops) a))) =
      Some RCP_PWRMODE_START_HOT"
proof -
  let ?m = "foldl power_apply m ops"
  obtain e where e: "entry_of ?m a = Some e" "rcp_pwrmode_handshake_is_complete (ent_handshake e)"
    using complete_run [OF assms(1,2)] by (auto simp: handshake_complete_def)
  obtain i where i: "find_entry ?m a = Some i" using e(1) find_entry_None [of ?m a] by fastforce
  have "pm_entries ?m ! i = e" using find_entry_Some [OF i] e(1) by simp
  then show ?thesis using assms(3) e(2) i
    by (simp add: rcp_powerstate_manager_wake_via_network_def wake_via_def rcp_powerstate_manager_mode_def
        rcp_pwrmode_wake_from_sleep_def rcp_pwrmode_hotstart_required_def)
qed

text \<open>The witness runs one handshake, and then sleeps and wakes twice.\<close>

definition sleep_ops :: "byte \<Rightarrow> power_op list" where
  "sleep_ops tn = [Pw_encode_request True sample_addr RCP_PWRMODE_SLEEP tn,
     Pw_apply_response sample_addr (sleep_response tn)]"

definition handshake_ops :: "power_op list" where
  "handshake_ops = [Pw_handshake_begin sample_addr 3 True (rcp_stream_id_make [1, 2, 3, 4, 5, 6] 7),
     Pw_apply_echo sample_addr (rcp_bytes_data (rcp_ep_wakeup_encode_wakeup_message True 5 4)) 4,
     Pw_resume_queues sample_addr]"

definition awake_manager :: rcp_powerstate_manager_t where
  "awake_manager = foldl power_apply sample_manager (sleep_ops 1 @ handshake_ops)"

theorem handshake_not_consumed_witness:
  "fst (snd (snd (rcp_powerstate_manager_wake_via_network
     (foldl power_apply awake_manager ([Pw_wake RCP_PWRMODE_WAKE_VIA_PIN sample_addr] @ sleep_ops 2)) sample_addr))) =
   Some RCP_PWRMODE_START_HOT"
proof -
  have "rcp_pwrmode_handshake_is_complete (ent_handshake (pm_entries awake_manager ! 0))"
    "find_entry awake_manager sample_addr = Some 0"
    "rcp_powerstate_manager_mode (foldl power_apply awake_manager
       ([Pw_wake RCP_PWRMODE_WAKE_VIA_PIN sample_addr] @ sleep_ops 2)) sample_addr = RCP_PWRMODE_SLEEP"
    by code_simp+
  moreover from this(1,2) have "handshake_complete awake_manager sample_addr"
    using find_entry_Some by (auto simp: handshake_complete_def)
  moreover have "list_all (\<lambda>op. \<not> begins_handshake sample_addr op)
      ([Pw_wake RCP_PWRMODE_WAKE_VIA_PIN sample_addr] @ sleep_ops 2)"
    by (simp add: sleep_ops_def)
  ultimately show ?thesis using handshake_not_consumed by blast
qed

end
