(* ===== verification/Fragment_Messages.thy ===== *)
theory Fragment_Messages
  imports Fragment Registers
begin

text \<open>
  Messages that endpoints send in fragments (\<^verbatim>\<open>ep_uart.c\<close>, \<^verbatim>\<open>ep_can.c\<close>, \<^verbatim>\<open>ep_iseled.c\<close>, \<^verbatim>\<open>discovery.c\<close>): the
  payload is planned by \<^verbatim>\<open>fragment.c\<close> and each segment becomes a message with its more-segments mark and
  number.  The locale \<open>fragment_wire\<close> is the contract between the encoder of a segment and the decoder of
  the client, which hands the reassembler the low octet of the 12-bit number; inside it the two outcomes are proved:
  up to 256 numbered segments the payload is reassembled, beyond that octets are lost.
\<close>

section \<open>Messages\<close>

text \<open>The header fields of a segment.\<close>

definition fragment_message ::
    "bool \<Rightarrow> rcp_acf_byte_message_info_t \<Rightarrow> bool \<Rightarrow> u64 \<Rightarrow> rcp_fragment_segment_t \<Rightarrow> bytes \<Rightarrow> rcp_bytes_t" where
  "fragment_message mem info timed timestamp seg data =
     response_message mem
       (info\<lparr>bm_ms := if seg_ms seg then 1 else 0,
             bm_read_size_or_segment_num := if seg_ms seg then seg_segment_num seg else 0\<rparr>)
       data timed timestamp"

text \<open>The loop over the segments with the outcome of each allocation; a failure frees the messages
  built so far.\<close>

fun encode_fragments ::
    "(bool \<Rightarrow> rcp_fragment_segment_t \<Rightarrow> bytes \<Rightarrow> rcp_bytes_t) \<Rightarrow> bool list \<Rightarrow> bytes \<Rightarrow>
     rcp_fragment_segment_t list \<Rightarrow> bytes list option" where
  "encode_fragments enc mems p [] = Some []"
| "encode_fragments enc mems p (s # ss) =
     (case mems of
        [] \<Rightarrow> None
      | m # ms \<Rightarrow>
          (case enc m s (take (seg_len s) (drop (seg_offset s) p)) of
             None \<Rightarrow> None
           | Some f \<Rightarrow>
               (case encode_fragments enc ms p ss of
                  None \<Rightarrow> None
                | Some fs \<Rightarrow> Some (f # fs))))"

definition decode_fragment_frame ::
    "'e \<Rightarrow> 'e \<Rightarrow> bytes \<Rightarrow> 'e + (rcp_acf_byte_message_info_t \<times> bool \<times> byte \<times> bytes \<times> bool \<times> u64)" where
  "decode_fragment_frame short bad b =
     (case decode_response_frame short bad b of
        Inl e \<Rightarrow> Inl e
      | Inr (hdr, timed, timestamp, payload) \<Rightarrow>
          Inr (hdr, bm_ms hdr \<noteq> 0, ucast (bm_read_size_or_segment_num hdr), payload, timed, timestamp))"

lemma fragment_message_wire:
  assumes "length q \<le> RCP_ACF_GBB_MAX_PAYLOAD"
  shows "\<exists>f h. fragment_message True info timed ts s q = Some f \<and>
    decode_fragment_frame short bad (f @ rest) =
      Inr (h, seg_ms s, if seg_ms s then ucast (seg_segment_num s AND 0xFFF) else 0, q, timed, if timed then ts else 0) \<and>
    bm_byte_bus_id h = bm_byte_bus_id info AND 0x7FF \<and> bm_transaction_num h = bm_transaction_num info \<and>
    bm_evt h = bm_evt info AND 0xF"
  using response_message_wire [OF assms, of "info\<lparr>bm_ms := if seg_ms s then 1 else 0,
      bm_read_size_or_segment_num := if seg_ms s then seg_segment_num s else 0\<rparr>" timed ts short bad rest]
  by (cases "seg_ms s") (elim exE conjE, simp add: fragment_message_def decode_fragment_frame_def)+

section \<open>A client that reassembles\<close>

text \<open>\<open>dec\<close> gives the mark, the number and the payload of a frame; a frame that it refuses ends the run.\<close>

fun feed_fragments ::
    "(bytes \<Rightarrow> (bool \<times> byte \<times> bytes) option) \<Rightarrow> rcp_fragment_reassembler_t \<Rightarrow> bytes list \<Rightarrow>
     rcp_fragment_reasm_result_t list \<times> rcp_fragment_reassembler_t" where
  "feed_fragments dec r [] = ([], r)"
| "feed_fragments dec r (f # fs) =
     (case dec f of
        None \<Rightarrow> ([], r)
      | Some (ms, num, p) \<Rightarrow>
          (let (x, r') = rcp_fragment_reassembler_feed True r ms (ucast num) p;
               (xs, r'') = feed_fragments dec r' fs
           in (x # xs, r'')))"

text \<open>What is left of a number after the client's decoder.\<close>

definition octet_num :: "u16 \<Rightarrow> u16" where
  "octet_num w = ucast (ucast (w AND 0xFFF) :: byte)"

definition octet_seg :: "rcp_fragment_segment_t \<Rightarrow> rcp_fragment_segment_t" where
  "octet_seg s = s\<lparr>seg_segment_num := octet_num (seg_segment_num s)\<rparr>"

lemma octet_seg_simps [simp]:
  "seg_ms (octet_seg s) = seg_ms s" "seg_offset (octet_seg s) = seg_offset s" "seg_len (octet_seg s) = seg_len s"
  "seg_segment_num (octet_seg s) = octet_num (seg_segment_num s)"
  by (simp_all add: octet_seg_def)

lemma octet_num_of_nat: "j \<le> 4096 \<Longrightarrow> octet_num (of_nat j) = of_nat (j mod 256)"
proof -
  assume "j \<le> 4096"
  have "ucast (w AND 0xFFF :: u16) = (ucast w :: byte)" for w
    by (rule word8_eqI) (simp_all add: word_bits)
  then have "unat (octet_num (of_nat j)) = j mod 256"
    by (simp add: octet_num_def unsigned_ucast_eq unsigned_of_nat take_bit_eq_mod mod_mod_cancel)
  moreover have "unat (of_nat (j mod 256) :: u16) = j mod 256" by (simp add: unat_of_nat)
  ultimately show ?thesis by (simp add: word_unat_eq_iff)
qed

lemma feed_last_any_num:
  "rcp_fragment_reassembler_feed mem r False a p = rcp_fragment_reassembler_feed mem r False b p"
  by (simp add: rcp_fragment_reassembler_feed_def Let_def)

lemma plan_segments_num:
  "s \<in> set (plan_segments L m off i k) \<Longrightarrow> seg_ms s \<Longrightarrow> \<exists>j<i + k. seg_segment_num s = of_nat j"
proof (induction k arbitrary: off i)
  case (Suc k)
  show ?case
  proof (cases "s \<in> set (plan_segments L m (size_add off m) (i + 1) k)")
    case True
    from Suc.IH [OF this Suc.prems(2)] show ?thesis by simp
  next
    case False
    with Suc.prems show ?thesis by (intro exI [of _ i]) simp
  qed
qed simp

lemma plan_of_count:
  "n = rcp_fragment_plan_count L m \<Longrightarrow> n \<noteq> 0 \<Longrightarrow> \<exists>segs. rcp_fragment_plan L m n = Inr segs"
  by (auto simp: rcp_fragment_plan_def Let_def)

text \<open>Up to 256 segments the numbers survive.\<close>

lemma feed_octet_plan:
  "i + k \<le> 256 \<Longrightarrow> feed_segments r p (map octet_seg (plan_segments L m off i k)) =
   feed_segments r p (plan_segments L m off i k)"
proof (induction k arbitrary: r off i)
  case 0
  then show ?case using feed_last_any_num by (simp add: octet_num_def)
next
  case (Suc k)
  have "octet_num (of_nat i) = of_nat i" using Suc.prems by (simp add: octet_num_of_nat)
  moreover have "feed_segments r' p (map octet_seg (plan_segments L m (size_add off m) (i + 1) k)) =
      feed_segments r' p (plan_segments L m (size_add off m) (i + 1) k)" for r'
    using Suc.prems by (intro Suc.IH) simp
  ultimately show ?case by simp
qed

lemma planned_feed:
  assumes "length p \<le> mt" and "mt \<le> SIZE_MAX" and "length p \<le> 2 ^ 63"
    and "rcp_fragment_plan (length p) m n = Inr segs"
  shows "\<exists>r. feed_segments (rcp_fragment_reassembler_init mt) p segs =
      (replicate (n - 1) RCP_FRAGMENT_REASM_CONTINUE @ [RCP_FRAGMENT_REASM_COMPLETE], r) \<and> reasm_buf r = p"
  using assms(3,4)
proof (cases rule: plan_OK_cases)
  case single
  then show ?thesis using feed_single [OF assms(1,2)] by auto
next
  case (split k)
  then show ?thesis using feed_planned [of "rcp_fragment_reassembler_init mt" 0 p k m 0] assms(1,2)
    by (auto simp: rcp_fragment_reassembler_init_def reasm_ok_def)
qed

lemma octet_plan:
  assumes "length p \<le> 2 ^ 63" and "rcp_fragment_plan (length p) m n = Inr segs" and "n \<le> 257"
  shows "feed_segments r p (map octet_seg segs) = feed_segments r p segs"
  using assms(1,2)
proof (cases rule: plan_OK_cases)
  case single
  then show ?thesis using feed_last_any_num by (simp add: octet_num_def)
next
  case (split k)
  then show ?thesis using assms(3) by (simp add: feed_octet_plan)
qed

text \<open>Beyond that, the client refuses every further numbered segment and completes with the last one, which
  carries no number.\<close>

lemma feed_refused_tail:
  assumes "reasm_ok r" and "collecting r" and "expected_segment_num r = 256" and "256 \<le> i" and "i + n \<le> 4096"
    and "off + n * m \<le> length p" and "length (reasm_buf r) + (length p - (off + n * m)) \<le> max_total_len r"
    and "length p \<le> SIZE_MAX"
  shows "\<exists>r'. feed_segments r p (map octet_seg (plan_segments (length p) m off i n)) =
      (replicate n RCP_FRAGMENT_REASM_ERR_OUT_OF_ORDER @ [RCP_FRAGMENT_REASM_COMPLETE], r') \<and>
    reasm_buf r' = reasm_buf r @ drop (off + n * m) p"
  using assms(4-)
proof (induction n arbitrary: off i)
  case 0
  have "length (reasm_buf r) + length (drop off p) \<le> max_total_len r" using 0 by simp
  from feed_result [OF assms(1) this, of False "octet_num 0"] 0 assms(2) show ?case
    by (auto simp: size_sub_exact)
next
  case (Suc n)
  have "octet_num (of_nat i) \<noteq> 256"
  proof -
    have "octet_num (of_nat i) = of_nat (i mod 256)" using Suc.prems by (intro octet_num_of_nat) simp
    then have "unat (octet_num (of_nat i)) = i mod 256" by (simp add: unat_of_nat)
    moreover have "i mod 256 < 256" by simp
    moreover have "unat (256 :: u16) = 256" by simp
    ultimately show ?thesis by (metis less_irrefl)
  qed
  then have one: "rcp_fragment_reassembler_feed True r True (octet_num (of_nat i)) q =
      (RCP_FRAGMENT_REASM_ERR_OUT_OF_ORDER, r)" for q
    using assms(2,3) by (simp add: rcp_fragment_reassembler_feed_def Let_def)
  have off: "size_add off m = off + m" using Suc.prems by (simp add: size_add_exact)
  have "\<exists>r'. feed_segments r p (map octet_seg (plan_segments (length p) m (off + m) (i + 1) n)) =
      (replicate n RCP_FRAGMENT_REASM_ERR_OUT_OF_ORDER @ [RCP_FRAGMENT_REASM_COMPLETE], r') \<and>
    reasm_buf r' = reasm_buf r @ drop (off + m + n * m) p"
    using Suc.prems by (intro Suc.IH) (simp_all add: add.assoc)
  then show ?case by (auto simp: one off add.assoc)
qed

lemma feed_wrapped:
  assumes "reasm_ok r" and "reasm_buf r = take off p" and "length p \<le> max_total_len r"
    and "off + (a + n) * m \<le> length p" and "(if collecting r then expected_segment_num r else 0) = of_nat i"
    and "\<not> collecting r \<Longrightarrow> i = 0" and "i + a = 256" and "n \<le> 3840"
  shows "\<exists>r'. feed_segments r p (map octet_seg (plan_segments (length p) m off i (a + n))) =
      (replicate a RCP_FRAGMENT_REASM_CONTINUE @ replicate n RCP_FRAGMENT_REASM_ERR_OUT_OF_ORDER @
        [RCP_FRAGMENT_REASM_COMPLETE], r') \<and>
    reasm_buf r' = take (off + a * m) p @ drop (off + (a + n) * m) p"
  using assms(1-7)
proof (induction a arbitrary: r off i)
  case 0
  have "collecting r" "expected_segment_num r = 256" using 0 by (auto split: if_splits)
  then show ?case
    using 0 assms(8) feed_refused_tail [of r i n off m p] by (simp add: reasm_ok_def)
next
  case (Suc a)
  have sz: "length p \<le> SIZE_MAX" using Suc.prems by (simp add: reasm_ok_def)
  have "off + Suc (a + n) * m \<le> length p" using Suc.prems(4) by simp
  note e = plan_step_exact [OF this sz]
  let ?q = "take m (drop off p)"
  have tk: "take off p @ ?q = take (off + m) p" by (simp add: take_add)
  have num: "octet_num (of_nat i) = of_nat i" using Suc.prems(7) by (simp add: octet_num_of_nat)
  have "length (reasm_buf r) + length ?q \<le> max_total_len r"
    using Suc.prems e by simp
  from feed_result [OF Suc.prems(1) this, of True "of_nat i"] Suc.prems(5)
  obtain c where f: "rcp_fragment_reassembler_feed True r True (of_nat i) ?q =
      (RCP_FRAGMENT_REASM_CONTINUE,
        r\<lparr>reasm_buf := reasm_buf r @ ?q, reasm_cap := c, collecting := True,
          expected_segment_num := if collecting r then expected_segment_num r + 1 else 1\<rparr>)"
    and ok: "reasm_ok (r\<lparr>reasm_buf := reasm_buf r @ ?q, reasm_cap := c\<rparr>)" by auto
  let ?r = "r\<lparr>reasm_buf := reasm_buf r @ ?q, reasm_cap := c, collecting := True,
          expected_segment_num := if collecting r then expected_segment_num r + 1 else 1\<rparr>"
  have "\<exists>r'. feed_segments ?r p (map octet_seg (plan_segments (length p) m (off + m) (i + 1) (a + n))) =
      (replicate a RCP_FRAGMENT_REASM_CONTINUE @ replicate n RCP_FRAGMENT_REASM_ERR_OUT_OF_ORDER @
        [RCP_FRAGMENT_REASM_COMPLETE], r') \<and>
    reasm_buf r' = take (off + m + a * m) p @ drop (off + m + (a + n) * m) p"
  proof (rule Suc.IH)
    show "reasm_ok ?r" using ok by (simp add: reasm_ok_def)
    show "(if collecting ?r then expected_segment_num ?r else 0) = of_nat (i + 1)"
      using Suc.prems(5,6) by (auto split: if_splits)
  qed (use Suc.prems e tk in \<open>simp_all\<close>)
  then show ?case by (auto simp: f e(1) num add.assoc)
qed

section \<open>The contract of encoder and decoder\<close>

locale fragment_wire =
  fixes enc :: "bool \<Rightarrow> rcp_fragment_segment_t \<Rightarrow> bytes \<Rightarrow> rcp_bytes_t"
    and dec :: "bytes \<Rightarrow> (bool \<times> byte \<times> bytes) option"
    and limit :: nat
  assumes carried: "length q \<le> limit \<Longrightarrow> \<exists>f num. enc True s q = Some f \<and> dec f = Some (seg_ms s, num, q) \<and>
      (seg_ms s \<longrightarrow> num = ucast (seg_segment_num s AND 0xFFF))"
begin

lemma feed_encoded:
  assumes "\<And>s. s \<in> set segs \<Longrightarrow> length (seg_slice p s) \<le> limit"
  shows "\<exists>fs. encode_fragments enc (replicate (length segs) True) p segs = Some fs \<and> length fs = length segs \<and>
    feed_fragments dec r fs = feed_segments r p (map octet_seg segs)"
  using assms
proof (induction segs arbitrary: r)
  case (Cons s segs)
  from carried [OF Cons.prems [of s], of s] obtain f num where
    f: "enc True s (seg_slice p s) = Some f" "dec f = Some (seg_ms s, num, seg_slice p s)"
    "seg_ms s \<Longrightarrow> num = ucast (seg_segment_num s AND 0xFFF)" by auto
  have one: "rcp_fragment_reassembler_feed True r (seg_ms s) (ucast num) (seg_slice p s) =
      rcp_fragment_reassembler_feed True r (seg_ms s) (octet_num (seg_segment_num s)) (seg_slice p s)"
    using f(3) feed_last_any_num by (cases "seg_ms s") (auto simp: octet_num_def)
  obtain x r' where x: "rcp_fragment_reassembler_feed True r (seg_ms s) (octet_num (seg_segment_num s))
      (seg_slice p s) = (x, r')" by fastforce
  from Cons.IH [of r'] Cons.prems obtain fs where
    "encode_fragments enc (replicate (length segs) True) p segs = Some fs"
    "length fs = length segs" "feed_fragments dec r' fs = feed_segments r' p (map octet_seg segs)" by auto
  with f(1,2) one x show ?case by simp
qed simp

lemma plan_fits:
  assumes "length p \<le> 2 ^ 63" and "rcp_fragment_plan (length p) m n = Inr segs"
    and "min (length p) m \<le> limit"
  shows "(\<forall>s\<in>set segs. length (seg_slice p s) \<le> limit) \<and> length segs = n"
  using assms(1,2)
proof (cases rule: plan_OK_cases)
  case single
  then show ?thesis using assms(3) by auto
next
  case (split k)
  have "length (seg_slice p s) \<le> min (length p) m" if "s \<in> set segs" for s
    using plan_segments_lens [of 0 k m "length p" s 0] split assms(1) that by (auto simp: SIZE_MAX_def)
  moreover have "length segs = Suc k"
    using arg_cong [OF plan_segments_ms [of "length p" m 0 0 k], of length] split by simp
  ultimately show ?thesis using assms(3) split(1) by (meson le_trans)
qed

text \<open>With at most 256 numbered segments the client has the payload after the last one, and not before.\<close>

lemma reassembled:
  assumes "rcp_fragment_plan (length p) m n = Inr segs" and "length p \<le> 2 ^ 63" and "min (length p) m \<le> limit"
    and "n \<le> 257" and "length p \<le> mt" and "mt \<le> SIZE_MAX"
  shows "\<exists>fs r. encode_fragments enc (replicate n True) p segs = Some fs \<and> length fs = n \<and>
    feed_fragments dec (rcp_fragment_reassembler_init mt) fs =
      (replicate (n - 1) RCP_FRAGMENT_REASM_CONTINUE @ [RCP_FRAGMENT_REASM_COMPLETE], r) \<and> reasm_buf r = p"
  using feed_encoded [of segs p "rcp_fragment_reassembler_init mt"] plan_fits [OF assms(2,1,3)]
    planned_feed [OF assms(5,6,2,1)] octet_plan [OF assms(2,1,4)] by fastforce

text \<open>With more, the segments from the 257th on are refused but for the last, so that the client completes
  with a payload from which they are missing.\<close>

lemma octets_lost:
  assumes "rcp_fragment_plan (length p) m n = Inr segs" and "length p \<le> 2 ^ 63" and "min (length p) m \<le> limit"
    and "257 < n" and "length p \<le> mt" and "mt \<le> SIZE_MAX"
  shows "\<exists>fs r. encode_fragments enc (replicate n True) p segs = Some fs \<and> length fs = n \<and>
    feed_fragments dec (rcp_fragment_reassembler_init mt) fs =
      (replicate 256 RCP_FRAGMENT_REASM_CONTINUE @ replicate (n - 257) RCP_FRAGMENT_REASM_ERR_OUT_OF_ORDER @
        [RCP_FRAGMENT_REASM_COMPLETE], r) \<and>
    reasm_buf r = take (256 * m) p @ drop ((n - 1) * m) p \<and> length (reasm_buf r) < length p"
  using assms(2,1)
proof (cases rule: plan_OK_cases)
  case single
  then show ?thesis using assms(4) by simp
next
  case (split k)
  have km: "256 + (k - 256) = k" "n - 257 = k - 256" "n - 1 = k" using assms(4) split(1) by simp_all
  have "\<exists>r'. feed_segments (rcp_fragment_reassembler_init mt) p
        (map octet_seg (plan_segments (length p) m 0 0 (256 + (k - 256)))) =
      (replicate 256 RCP_FRAGMENT_REASM_CONTINUE @ replicate (k - 256) RCP_FRAGMENT_REASM_ERR_OUT_OF_ORDER @
        [RCP_FRAGMENT_REASM_COMPLETE], r') \<and>
    reasm_buf r' = take (0 + 256 * m) p @ drop (0 + (256 + (k - 256)) * m) p"
    using split km(1) assms(5,6)
    by (intro feed_wrapped) (simp_all add: rcp_fragment_reassembler_init_def reasm_ok_def)
  then obtain r where r: "feed_segments (rcp_fragment_reassembler_init mt) p (map octet_seg segs) =
      (replicate 256 RCP_FRAGMENT_REASM_CONTINUE @ replicate (k - 256) RCP_FRAGMENT_REASM_ERR_OUT_OF_ORDER @
        [RCP_FRAGMENT_REASM_COMPLETE], r)" "reasm_buf r = take (256 * m) p @ drop (k * m) p"
    unfolding km(1) split(7) add_0 by blast
  have "length (take (256 * m) p @ drop (k * m) p) < length p"
  proof -
    have lt: "256 * m < k * m" using split(2) km assms(4) by simp
    have "256 * m \<le> length p" using lt split(5) by linarith
    then have "length (take (256 * m) p @ drop (k * m) p) = 256 * m + (length p - k * m)"
      by (simp only: length_append length_take length_drop min_absorb2)
    then show ?thesis using lt split(5) by linarith
  qed
  moreover note fit = plan_fits [OF assms(2,1,3)]
  obtain fs where "encode_fragments enc (replicate n True) p segs = Some fs" "length fs = n"
    "feed_fragments dec (rcp_fragment_reassembler_init mt) fs =
      feed_segments (rcp_fragment_reassembler_init mt) p (map octet_seg segs)"
    using feed_encoded [of segs p "rcp_fragment_reassembler_init mt"] fit by blast
  ultimately show ?thesis unfolding km(2,3) using r by metis
qed

end

end
