(* ===== verification/Regmap_General.thy ===== *)
theory Regmap_General
  imports Lifecycle Registers
begin

text \<open>
  \<^verbatim>\<open>src/regmap.c\<close>, first part: the general register map of an RC server (TC18 Table 20), its
  image of \<open>0x44\<close> octets, the read exchange with endpoint 0 that carries it and the write request
  that is always refused.

  The record has all registers of \<^verbatim>\<open>rcp_regmap_general_t\<close>.  The lifecycle state and the index of
  the root client are not part of the image.  The text table of the error codes is left out.
\<close>

section \<open>Data\<close>

definition RCP_REGMAP_EP0_INDEX :: u16 where
  [consts_rcp]: "RCP_REGMAP_EP0_INDEX = 0"
definition RCP_REGMAP_NO_ROOT_CLIENT :: u16 where
  [consts_rcp]: "RCP_REGMAP_NO_ROOT_CLIENT = 0xFFFF"
definition RCP_REGMAP_GENERAL_LEN :: nat where
  [consts_rcp]: "RCP_REGMAP_GENERAL_LEN = 0x44"

definition rcp_regmap_is_ep0 :: "u16 \<Rightarrow> bool" where
  "rcp_regmap_is_ep0 ep_index \<longleftrightarrow> ep_index = RCP_REGMAP_EP0_INDEX"

record rcp_regmap_general_t =
  rm_magic :: u32
  rm_svr_version :: u32
  rm_vendor_id :: u16
  rm_device_id :: u16
  rm_svr_ep_count :: u16
  rm_svr_lifecycle_state :: byte
  rm_svr_req_stream_max :: byte
  rm_svr_responder_streams_max :: byte
  rm_svr_sequencers_max :: byte
  rm_svr_configuration_lock :: byte
  rm_svr_responder_mem_size :: u16
  rm_svr_req_mem_size :: u16
  rm_svr_implemented_options :: byte
  rm_reserved_0x17 :: byte
  rm_svr_io_pin_count :: u16
  rm_svr_root_client_index :: u16
  rm_svr_hw_cfg_ptr :: u16
  rm_svr_request_stream_cfg_capacity :: byte
  rm_svr_response_stream_cfg_capacity :: byte
  rm_svr_request_stream_cfg_ptr :: u16
  rm_svr_response_stream_cfg_ptr :: u16
  rm_reserved_0x22 :: u16
  rm_svr_ep_generic_cfg_ptr :: u16
  rm_svr_ep_generic_cfg_capacity :: u16
  rm_svr_ep_functional_cfg_ptr :: u16
  rm_svr_ep_bytebus_id_map_ptr :: u16
  rm_svr_ep_bytebus_id_map_capacity :: byte
  rm_svr_sequencer_state_ptr :: u16
  rm_svr_network_interface_cfg_ptr :: u16
  rm_svr_network_interface_cfg_capacity :: u16
  rm_svr_physical_layer_cfg_ptr :: u16
  rm_svr_physical_layer_cfg_capacity :: u16
  rm_svr_time_synch_cfg_ptr :: u16
  rm_svr_time_synch_cfg_capacity :: u16
  rm_svr_security_cfg_ptr :: u16
  rm_svr_security_cfg_capacity :: u16
  rm_svr_device_specific_cfg_ptr :: u16
  rm_svr_device_specific_cfg_capacity :: u16

datatype rcp_regmap_general_errc_t =
    RCP_REGMAP_GENERAL_OK | RCP_REGMAP_GENERAL_ERR_SHORT_FRAME | RCP_REGMAP_GENERAL_ERR_BAD_MSG_TYPE
  | RCP_REGMAP_GENERAL_ERR_WRONG_BUS | RCP_REGMAP_GENERAL_ERR_WRONG_OP

definition rcp_regmap_general_init :: rcp_regmap_general_t where
  "rcp_regmap_general_init =
     \<lparr>rm_magic = 0,
      rm_svr_version = 0,
      rm_vendor_id = 0,
      rm_device_id = 0,
      rm_svr_ep_count = 0,
      rm_svr_lifecycle_state = 0,
      rm_svr_req_stream_max = 0,
      rm_svr_responder_streams_max = 0,
      rm_svr_sequencers_max = 0,
      rm_svr_configuration_lock = 0,
      rm_svr_responder_mem_size = 0,
      rm_svr_req_mem_size = 0,
      rm_svr_implemented_options = 0,
      rm_reserved_0x17 = 0,
      rm_svr_io_pin_count = 0,
      rm_svr_root_client_index = RCP_REGMAP_NO_ROOT_CLIENT,
      rm_svr_hw_cfg_ptr = 0,
      rm_svr_request_stream_cfg_capacity = 0,
      rm_svr_response_stream_cfg_capacity = 0,
      rm_svr_request_stream_cfg_ptr = 0,
      rm_svr_response_stream_cfg_ptr = 0,
      rm_reserved_0x22 = 0,
      rm_svr_ep_generic_cfg_ptr = 0,
      rm_svr_ep_generic_cfg_capacity = 0,
      rm_svr_ep_functional_cfg_ptr = 0,
      rm_svr_ep_bytebus_id_map_ptr = 0,
      rm_svr_ep_bytebus_id_map_capacity = 0,
      rm_svr_sequencer_state_ptr = 0,
      rm_svr_network_interface_cfg_ptr = 0,
      rm_svr_network_interface_cfg_capacity = 0,
      rm_svr_physical_layer_cfg_ptr = 0,
      rm_svr_physical_layer_cfg_capacity = 0,
      rm_svr_time_synch_cfg_ptr = 0,
      rm_svr_time_synch_cfg_capacity = 0,
      rm_svr_security_cfg_ptr = 0,
      rm_svr_security_cfg_capacity = 0,
      rm_svr_device_specific_cfg_ptr = 0,
      rm_svr_device_specific_cfg_capacity = 0\<rparr>"

section \<open>The image\<close>

definition rcp_regmap_general_render :: "rcp_regmap_general_t \<Rightarrow> bytes" where
  "rcp_regmap_general_render gm =
     put_u32 (rm_magic gm) @
     put_u32 (rm_svr_version gm) @
     put_u16 (rm_vendor_id gm) @
     put_u16 (rm_device_id gm) @
     put_u16 (rm_svr_ep_count gm) @
     [rm_svr_req_stream_max gm] @
     [rm_svr_responder_streams_max gm] @
     put_u16 (rm_svr_responder_mem_size gm) @
     put_u16 (rm_svr_req_mem_size gm) @
     [rm_svr_sequencers_max gm] @
     [rm_svr_configuration_lock gm] @
     [rm_svr_implemented_options gm] @
     [rm_reserved_0x17 gm] @
     put_u16 (rm_svr_io_pin_count gm) @
     put_u16 (rm_svr_hw_cfg_ptr gm) @
     [rm_svr_request_stream_cfg_capacity gm] @
     [rm_svr_response_stream_cfg_capacity gm] @
     put_u16 (rm_svr_request_stream_cfg_ptr gm) @
     put_u16 (rm_svr_response_stream_cfg_ptr gm) @
     put_u16 (rm_reserved_0x22 gm) @
     put_u16 (rm_svr_ep_generic_cfg_ptr gm) @
     put_u16 (rm_svr_ep_generic_cfg_capacity gm) @
     put_u16 (rm_svr_ep_bytebus_id_map_ptr gm) @
     [rm_svr_ep_bytebus_id_map_capacity gm] @
     [0] @
     put_u16 (rm_svr_ep_functional_cfg_ptr gm) @
     put_u16 (rm_svr_sequencer_state_ptr gm) @
     put_u16 (rm_svr_network_interface_cfg_ptr gm) @
     put_u16 (rm_svr_network_interface_cfg_capacity gm) @
     put_u16 (rm_svr_physical_layer_cfg_ptr gm) @
     put_u16 (rm_svr_physical_layer_cfg_capacity gm) @
     put_u16 (rm_svr_time_synch_cfg_ptr gm) @
     put_u16 (rm_svr_time_synch_cfg_capacity gm) @
     put_u16 (rm_svr_security_cfg_ptr gm) @
     put_u16 (rm_svr_security_cfg_capacity gm) @
     put_u16 (rm_svr_device_specific_cfg_ptr gm) @
     put_u16 (rm_svr_device_specific_cfg_capacity gm)"

text \<open>The registers are read back from an image of which the first \<open>have\<close> octets came with the response; the
  registers after the fifth one only when the response goes beyond it.\<close>

definition general_parse :: "rcp_regmap_general_t \<Rightarrow> bytes \<Rightarrow> nat \<Rightarrow> rcp_regmap_general_t" where
  "general_parse out_map img have =
     (let out1 = out_map\<lparr>
         rm_magic := get_u32 img,
         rm_svr_version := get_u32 (drop 0x4 img),
         rm_vendor_id := get_u16 (drop 0x8 img),
         rm_device_id := get_u16 (drop 0xA img),
         rm_svr_ep_count := get_u16 (drop 0xC img)\<rparr>
      in if have \<le> 0x0E then out1
         else out1\<lparr>
            rm_svr_req_stream_max := img ! 0xE,
            rm_svr_responder_streams_max := img ! 0xF,
            rm_svr_responder_mem_size := get_u16 (drop 0x10 img),
            rm_svr_req_mem_size := get_u16 (drop 0x12 img),
            rm_svr_sequencers_max := img ! 0x14,
            rm_svr_configuration_lock := img ! 0x15,
            rm_svr_implemented_options := img ! 0x16,
            rm_reserved_0x17 := img ! 0x17,
            rm_svr_io_pin_count := get_u16 (drop 0x18 img),
            rm_svr_hw_cfg_ptr := get_u16 (drop 0x1A img),
            rm_svr_request_stream_cfg_capacity := img ! 0x1C,
            rm_svr_response_stream_cfg_capacity := img ! 0x1D,
            rm_svr_request_stream_cfg_ptr := get_u16 (drop 0x1E img),
            rm_svr_response_stream_cfg_ptr := get_u16 (drop 0x20 img),
            rm_reserved_0x22 := get_u16 (drop 0x22 img),
            rm_svr_ep_generic_cfg_ptr := get_u16 (drop 0x24 img),
            rm_svr_ep_generic_cfg_capacity := get_u16 (drop 0x26 img),
            rm_svr_ep_bytebus_id_map_ptr := get_u16 (drop 0x28 img),
            rm_svr_ep_bytebus_id_map_capacity := img ! 0x2A,
            rm_svr_ep_functional_cfg_ptr := get_u16 (drop 0x2C img),
            rm_svr_sequencer_state_ptr := get_u16 (drop 0x2E img),
            rm_svr_network_interface_cfg_ptr := get_u16 (drop 0x30 img),
            rm_svr_network_interface_cfg_capacity := get_u16 (drop 0x32 img),
            rm_svr_physical_layer_cfg_ptr := get_u16 (drop 0x34 img),
            rm_svr_physical_layer_cfg_capacity := get_u16 (drop 0x36 img),
            rm_svr_time_synch_cfg_ptr := get_u16 (drop 0x38 img),
            rm_svr_time_synch_cfg_capacity := get_u16 (drop 0x3A img),
            rm_svr_security_cfg_ptr := get_u16 (drop 0x3C img),
            rm_svr_security_cfg_capacity := get_u16 (drop 0x3E img),
            rm_svr_device_specific_cfg_ptr := get_u16 (drop 0x40 img),
            rm_svr_device_specific_cfg_capacity := get_u16 (drop 0x42 img)\<rparr>)"

section \<open>Messages\<close>

text \<open>A response of \<open>read_size\<close> octets: \<open>copy_len\<close> octets of a table image from an offset on, filled
  with zeroes.\<close>

definition read_response_payload :: "bytes \<Rightarrow> nat \<Rightarrow> nat \<Rightarrow> bytes" where
  "read_response_payload img copy_len read_size =
     take read_size (take copy_len img @ replicate (256 - copy_len) 0)"

definition ep0_read_header :: "byte \<Rightarrow> byte \<Rightarrow> rcp_acf_byte_message_info_t" where
  "ep0_read_header read_size tn =
     zero_info\<lparr>bm_byte_bus_id := RCP_REGMAP_EP0_INDEX, bm_op := RCP_ACF_OP_READ, bm_rsp := 1,
               bm_read_size_or_segment_num := ucast read_size, bm_transaction_num := tn\<rparr>"

definition rcp_regmap_general_encode_read_response ::
    "bool \<Rightarrow> rcp_regmap_general_t \<Rightarrow> byte \<Rightarrow> byte \<Rightarrow> rcp_bytes_t" where
  "rcp_regmap_general_encode_read_response mem gm read_size tn =
     (let img = rcp_regmap_general_render gm;
          copy_len = (if unat read_size < RCP_REGMAP_GENERAL_LEN then unat read_size else RCP_REGMAP_GENERAL_LEN)
      in rcp_acf_encode_abb mem (ep0_read_header read_size tn)
           (read_response_payload img copy_len (unat read_size)))"

text \<open>The checks on an incoming frame that all decoders of this file share: its type, its bus and its
  operation.\<close>

definition ep0_frame ::
    "'e \<Rightarrow> 'e \<Rightarrow> 'e \<Rightarrow> 'e \<Rightarrow> byte \<Rightarrow> bytes \<Rightarrow> 'e + (rcp_acf_byte_message_info_t \<times> bytes)" where
  "ep0_frame short bad wrong_bus wrong_op expected b =
     (case decode_request_frame short bad b of
        Inl e \<Rightarrow> Inl e
      | Inr (hdr, payload) \<Rightarrow>
          if bm_byte_bus_id hdr \<noteq> RCP_REGMAP_EP0_INDEX then Inl wrong_bus
          else if bm_op hdr \<noteq> expected then Inl wrong_op
          else Inr (hdr, payload))"

definition general_frame ::
    "byte \<Rightarrow> bytes \<Rightarrow> rcp_regmap_general_errc_t + (rcp_acf_byte_message_info_t \<times> bytes)" where
  "general_frame =
     ep0_frame RCP_REGMAP_GENERAL_ERR_SHORT_FRAME RCP_REGMAP_GENERAL_ERR_BAD_MSG_TYPE
       RCP_REGMAP_GENERAL_ERR_WRONG_BUS RCP_REGMAP_GENERAL_ERR_WRONG_OP"

definition rcp_regmap_general_decode_read_response ::
    "bytes \<Rightarrow> rcp_regmap_general_t \<Rightarrow> rcp_regmap_general_errc_t \<times> rcp_regmap_general_t" where
  "rcp_regmap_general_decode_read_response b out_map =
     (case general_frame RCP_ACF_OP_READ b of
        Inl e \<Rightarrow> (e, out_map)
      | Inr (hdr, payload) \<Rightarrow>
          (let have = (if length payload < RCP_REGMAP_GENERAL_LEN then length payload else RCP_REGMAP_GENERAL_LEN);
               img = take have payload @ replicate (RCP_REGMAP_GENERAL_LEN - have) 0
           in (RCP_REGMAP_GENERAL_OK, general_parse out_map img have)))"

text \<open>The error to answer a write request with, and its transaction number.\<close>

definition no_writer :: rcp_lifecycle_writer_ctx_t where
  "no_writer = \<lparr>via_root_client_ep0 = False, via_owning_stream = False, via_non_unicast_frame = False,
                via_discovery_stream = False, via_valid_stream_association = False\<rparr>"

definition rcp_regmap_general_decode_write_request ::
    "bytes \<Rightarrow> rcp_regmap_general_errc_t + (rcp_wire_error_t \<times> byte)" where
  "rcp_regmap_general_decode_write_request b =
     (case general_frame RCP_ACF_OP_WRITE b of
        Inl e \<Rightarrow> Inl e
      | Inr (hdr, payload) \<Rightarrow>
          Inr (rcp_lifecycle_field_write_error RCP_LIFECYCLE_RCP_CONFIGURED RCP_LIFECYCLE_FIELD_READ_ONLY
                 no_writer,
               bm_transaction_num hdr))"

section \<open>The read exchange\<close>

lemma length_general_render [simp]: "length (rcp_regmap_general_render gm) = RCP_REGMAP_GENERAL_LEN"
  by (simp add: rcp_regmap_general_render_def consts_rcp)

lemma length_read_response_payload [simp]:
  "n < 256 \<Longrightarrow> copy_len \<le> length img \<Longrightarrow> copy_len \<le> 256 \<Longrightarrow>
   length (read_response_payload img copy_len n) = n"
  by (simp add: read_response_payload_def)

lemma read_only_locked [simp]:
  "rcp_lifecycle_field_write_error st RCP_LIFECYCLE_FIELD_READ_ONLY w = RCP_ERROR_LOCKED_MEM_ACCESS"
  by (simp add: rcp_lifecycle_field_write_error_def rcp_lifecycle_field_writable_def)

text \<open>The registers outside the image keep their values; the others come back as they were.\<close>

lemma general_parse_render:
  "general_parse old (rcp_regmap_general_render gm) RCP_REGMAP_GENERAL_LEN =
     gm\<lparr>rm_svr_lifecycle_state := rm_svr_lifecycle_state old,
        rm_svr_root_client_index := rm_svr_root_client_index old\<rparr>"
  unfolding general_parse_def rcp_regmap_general_render_def consts_rcp
  by (rule rcp_regmap_general_t.equality) (simp_all add: nth_append get_put_u16 [where r = "[]", simplified])

lemma ep0_frame_decoded:
  "rcp_acf_decode_abb b = Inr (h, p) \<Longrightarrow> bm_byte_bus_id h = 0 \<Longrightarrow> bm_op h = expected \<Longrightarrow>
   ep0_frame short bad wrong_bus wrong_op expected b = Inr (h, p)"
  by (simp add: ep0_frame_def decode_request_frame_def consts_rcp)

text \<open>A response that covers the whole general map carries every register of its image to the client: the decoded
  map is the server's, but for the lifecycle state and the root client, which keep the client's values.  A
  shorter response of at least the first five registers carries these.  A write request to the general
  map is always answered with the lock error.\<close>

theorem general_map_read_exchange:
  "(RCP_REGMAP_GENERAL_LEN \<le> unat n \<longrightarrow>
      (\<exists>f. rcp_regmap_general_encode_read_response True gm n tn = Some f \<and>
         rcp_regmap_general_decode_read_response (f @ rest) old =
           (RCP_REGMAP_GENERAL_OK,
            gm\<lparr>rm_svr_lifecycle_state := rm_svr_lifecycle_state old,
               rm_svr_root_client_index := rm_svr_root_client_index old\<rparr>))) \<and>
   (unat n = 0x0E \<longrightarrow>
      (\<exists>f. rcp_regmap_general_encode_read_response True gm n tn = Some f \<and>
         rcp_regmap_general_decode_read_response (f @ rest) old =
           (RCP_REGMAP_GENERAL_OK,
            old\<lparr>rm_magic := rm_magic gm, rm_svr_version := rm_svr_version gm, rm_vendor_id := rm_vendor_id gm,
               rm_device_id := rm_device_id gm, rm_svr_ep_count := rm_svr_ep_count gm\<rparr>))) \<and>
   (\<forall>err tn'. rcp_regmap_general_decode_write_request b = Inr (err, tn') \<longrightarrow> err = RCP_ERROR_LOCKED_MEM_ACCESS)"
proof -
  let ?img = "rcp_regmap_general_render gm"
  have n: "unat n < 256" using unsigned_less [of n, where 'a = nat] by simp
  have wire: "\<exists>f. rcp_acf_encode_abb True (ep0_read_header n tn) p = Some f \<and>
      general_frame RCP_ACF_OP_READ (f @ rest) = Inr (abb_canon (ep0_read_header n tn) p, p)" if "length p < 256" for p
  proof -
    have "length p \<le> RCP_ACF_ABB_MAX_PAYLOAD" using that by (simp add: consts_rcp)
    from abb_small [OF this, of "ep0_read_header n tn" rest] obtain f where
      "rcp_acf_encode_abb True (ep0_read_header n tn) p = Some f"
      "rcp_acf_decode_abb (f @ rest) = Inr (abb_canon (ep0_read_header n tn) p, p)" by blast
    then show ?thesis unfolding general_frame_def
      by (auto intro!: ep0_frame_decoded simp: abb_canon_def info_canon_def ep0_read_header_def Let_def consts_rcp)
  qed
  have long: "\<exists>f. rcp_regmap_general_encode_read_response True gm n tn = Some f \<and>
      rcp_regmap_general_decode_read_response (f @ rest) old =
        (RCP_REGMAP_GENERAL_OK, general_parse old ?img RCP_REGMAP_GENERAL_LEN)"
    if ge: "RCP_REGMAP_GENERAL_LEN \<le> unat n"
  proof -
    let ?p = "read_response_payload ?img RCP_REGMAP_GENERAL_LEN (unat n)"
    have p: "?p = ?img @ replicate (unat n - RCP_REGMAP_GENERAL_LEN) 0"
      using ge n by (simp add: read_response_payload_def consts_rcp)
    then have "length ?p < 256" using ge n by simp
    from wire [OF this] show ?thesis using ge
      by (auto simp: rcp_regmap_general_encode_read_response_def rcp_regmap_general_decode_read_response_def p Let_def)
  qed
  have short: "\<exists>f. rcp_regmap_general_encode_read_response True gm n tn = Some f \<and>
      rcp_regmap_general_decode_read_response (f @ rest) old =
        (RCP_REGMAP_GENERAL_OK, general_parse old (take 0x0E ?img @ replicate 54 0) 0x0E)"
    if eq: "unat n = 0x0E"
  proof -
    have p: "read_response_payload ?img 0x0E 0x0E = take 0x0E ?img"
      by (simp add: read_response_payload_def consts_rcp)
    then have "length (read_response_payload ?img 0x0E 0x0E) < 256" by (simp add: consts_rcp)
    from wire [OF this] show ?thesis using eq
      by (auto simp: rcp_regmap_general_encode_read_response_def rcp_regmap_general_decode_read_response_def p
          consts_rcp Let_def)
  qed
  have prefix: "general_parse old (take 0x0E ?img @ replicate 54 0) 0x0E =
      old\<lparr>rm_magic := rm_magic gm, rm_svr_version := rm_svr_version gm, rm_vendor_id := rm_vendor_id gm,
         rm_device_id := rm_device_id gm, rm_svr_ep_count := rm_svr_ep_count gm\<rparr>"
    by (simp add: general_parse_def rcp_regmap_general_render_def)
  show ?thesis using long short general_parse_render prefix
    by (auto simp: rcp_regmap_general_decode_write_request_def split: sum.splits)
qed

theorem general_map_read_exchange_witness:
  "\<exists>f. rcp_regmap_general_encode_read_response True rcp_regmap_general_init 0x44 5 = Some f \<and>
     fst (rcp_regmap_general_decode_read_response (f @ []) rcp_regmap_general_init) = RCP_REGMAP_GENERAL_OK"
  using general_map_read_exchange [of "0x44" rcp_regmap_general_init 5 "[]" rcp_regmap_general_init "[]"]
  by (auto simp: consts_rcp)

end
