(* ===== verification/Discovery.thy ===== *)
theory Discovery
  imports Fragment_Messages Tables Regmap_General
begin

text \<open>
  \<^verbatim>\<open>src/discovery.c\<close>: discovery requests and responses (whole and fragmented), the claim of the
  discovery stream with its timeout, and the client's cache of results.

  Discovery reads the first five registers of the general map.  \<open>mem_acf\<close> and
  \<open>mem_avtp\<close> are the outcomes of the two allocations of an encoder; the fragmented encoder has one
  pair per fragment.  The cache is a list with its capacity.  The text table is left out.
\<close>

section \<open>Data\<close>

datatype rcp_discovery_errc_t =
    RCP_DISCOVERY_OK | RCP_DISCOVERY_ERR_SHORT_FRAME | RCP_DISCOVERY_ERR_NOT_NTSCF
  | RCP_DISCOVERY_ERR_BAD_MSG_TYPE | RCP_DISCOVERY_ERR_WRONG_BUS | RCP_DISCOVERY_ERR_WRONG_OP

definition RCP_DISCOVERY_GENERAL_SLICE_LEN :: nat where
  [consts_rcp]: "RCP_DISCOVERY_GENERAL_SLICE_LEN = 14"
definition RCP_DISCOVERY_MAX_FRAGMENT_SEGMENTS :: nat where
  [consts_rcp]: "RCP_DISCOVERY_MAX_FRAGMENT_SEGMENTS = 255"
definition RCP_DISCOVERY_DEFAULT_TIMEOUT_MS :: u32 where
  [consts_rcp]: "RCP_DISCOVERY_DEFAULT_TIMEOUT_MS = 20"

record rcp_discovery_request_t =
  dreq_requester :: rcp_stream_id_t
  dreq_read_size :: byte
  dreq_transaction_num :: byte

record rcp_discovery_result_t =
  dres_valid :: bool
  dres_server_stream_id :: rcp_stream_id_t
  dres_magic :: u32
  dres_svr_version :: u32
  dres_vendor_id :: u16
  dres_device_id :: u16
  dres_svr_ep_count :: u16

record rcp_discovery_claim_t =
  claim_held :: bool
  claimant :: rcp_stream_id_t
  claim_deadline_ms :: u64
  claim_timeout_ms :: u32

record rcp_discovery_cache_t =
  cache_entries :: "rcp_discovery_result_t list"
  cache_cap :: nat

section \<open>Requests\<close>

definition rcp_discovery_should_drop :: "byte \<Rightarrow> bool" where
  "rcp_discovery_should_drop avtp_subtype \<longleftrightarrow> avtp_subtype \<noteq> RCP_AVTP_SUBTYPE_NTSCF"

definition decode_common ::
    "bytes \<Rightarrow> rcp_discovery_errc_t + (rcp_stream_id_t \<times> rcp_acf_byte_message_info_t \<times> bytes)" where
  "decode_common b =
     (case rcp_avtp_peek_subtype b of
        Inl _ \<Rightarrow> Inl RCP_DISCOVERY_ERR_SHORT_FRAME
      | Inr subtype \<Rightarrow>
          if rcp_discovery_should_drop subtype then Inl RCP_DISCOVERY_ERR_NOT_NTSCF
          else
            (case rcp_avtp_decode_ntscf b of
              Inl RCP_AVTP_ERR_SHORT_FRAME \<Rightarrow> Inl RCP_DISCOVERY_ERR_SHORT_FRAME
            | Inl _ \<Rightarrow> Inl RCP_DISCOVERY_ERR_NOT_NTSCF
            | Inr (ntscf_hdr, ntscf_payload) \<Rightarrow>
                (case rcp_acf_decode_abb ntscf_payload of
                   Inl RCP_ACF_ERR_SHORT_FRAME \<Rightarrow> Inl RCP_DISCOVERY_ERR_SHORT_FRAME
                 | Inl _ \<Rightarrow> Inl RCP_DISCOVERY_ERR_BAD_MSG_TYPE
                 | Inr (hdr, payload) \<Rightarrow>
                     if bm_byte_bus_id hdr \<noteq> RCP_LIFECYCLE_DISCOVERY_BYTE_BUS_ID
                     then Inl RCP_DISCOVERY_ERR_WRONG_BUS
                     else if bm_op hdr \<noteq> RCP_ACF_OP_READ then Inl RCP_DISCOVERY_ERR_WRONG_OP
                     else Inr (n_stream_id ntscf_hdr, hdr, payload))))"

text \<open>The ACF message inside an NTSCF frame, as all encoders of this file build it.\<close>

definition discovery_frame ::
    "bool \<Rightarrow> bool \<Rightarrow> rcp_acf_byte_message_info_t \<Rightarrow> bytes \<Rightarrow> rcp_stream_id_t \<Rightarrow> rcp_bytes_t" where
  "discovery_frame mem_acf mem_avtp hdr payload stream =
     (case rcp_acf_encode_abb mem_acf hdr payload of
        None \<Rightarrow> None
      | Some acf_frame \<Rightarrow>
          rcp_avtp_encode_ntscf mem_avtp
            \<lparr>n_sv = 1, n_version = 0, ntscf_data_length = 0, n_sequence_num = 0, n_stream_id = stream\<rparr>
            acf_frame)"

definition rcp_discovery_encode_request ::
    "bool \<Rightarrow> bool \<Rightarrow> rcp_stream_id_t \<Rightarrow> byte \<Rightarrow> byte \<Rightarrow> rcp_bytes_t" where
  "rcp_discovery_encode_request mem_acf mem_avtp requester read_size tn =
     discovery_frame mem_acf mem_avtp
       (zero_info\<lparr>bm_byte_bus_id := RCP_LIFECYCLE_DISCOVERY_BYTE_BUS_ID, bm_op := RCP_ACF_OP_READ,
                  bm_read_size_or_segment_num := ucast read_size, bm_transaction_num := tn\<rparr>)
       [] requester"

definition rcp_discovery_decode_request ::
    "bytes \<Rightarrow> rcp_discovery_errc_t + rcp_discovery_request_t" where
  "rcp_discovery_decode_request b =
     (case decode_common b of
        Inl e \<Rightarrow> Inl e
      | Inr (requester, hdr, payload) \<Rightarrow>
          Inr \<lparr>dreq_requester = requester, dreq_read_size = ucast (bm_read_size_or_segment_num hdr),
               dreq_transaction_num = bm_transaction_num hdr\<rparr>)"

section \<open>Responses\<close>

text \<open>The octets of the general register slice, and the payload of a response: the slice cut or
  filled with zeroes to \<open>read_size\<close> octets.\<close>

definition general_slice :: "rcp_regmap_general_t \<Rightarrow> bytes" where
  "general_slice gm =
     put_u32 (rm_magic gm) @ put_u32 (rm_svr_version gm) @ put_u16 (rm_vendor_id gm) @
     put_u16 (rm_device_id gm) @ put_u16 (rm_svr_ep_count gm)"

definition response_payload :: "rcp_regmap_general_t \<Rightarrow> byte \<Rightarrow> bytes" where
  "response_payload gm read_size =
     (let copy_len = min (unat read_size) RCP_DISCOVERY_GENERAL_SLICE_LEN in
      take (unat read_size) (take copy_len (general_slice gm) @ replicate (256 - copy_len) 0))"

definition rcp_discovery_encode_response ::
    "bool \<Rightarrow> bool \<Rightarrow> rcp_regmap_general_t \<Rightarrow> byte \<Rightarrow> byte \<Rightarrow> rcp_stream_id_t \<Rightarrow> rcp_bytes_t" where
  "rcp_discovery_encode_response mem_acf mem_avtp gm read_size tn stream =
     discovery_frame mem_acf mem_avtp
       (zero_info\<lparr>bm_byte_bus_id := RCP_LIFECYCLE_DISCOVERY_BYTE_BUS_ID, bm_op := RCP_ACF_OP_READ,
                  bm_rsp := 1, bm_read_size_or_segment_num := ucast read_size,
                  bm_transaction_num := tn\<rparr>)
       (response_payload gm read_size) stream"

definition slice_result :: "bytes \<Rightarrow> rcp_stream_id_t \<Rightarrow> rcp_discovery_result_t" where
  "slice_result p stream =
     \<lparr>dres_valid = True, dres_server_stream_id = stream, dres_magic = get_u32 p,
      dres_svr_version = get_u32 (drop 4 p), dres_vendor_id = get_u16 (drop 8 p),
      dres_device_id = get_u16 (drop 10 p), dres_svr_ep_count = get_u16 (drop 12 p)\<rparr>"

definition rcp_discovery_decode_response ::
    "bytes \<Rightarrow> rcp_discovery_errc_t + rcp_discovery_result_t" where
  "rcp_discovery_decode_response b =
     (case decode_common b of
        Inl e \<Rightarrow> Inl e
      | Inr (stream, hdr, payload) \<Rightarrow>
          if length payload < RCP_DISCOVERY_GENERAL_SLICE_LEN then Inl RCP_DISCOVERY_ERR_SHORT_FRAME
          else Inr (slice_result payload stream))"

section \<open>Fragmented responses\<close>

definition rcp_discovery_response_fragment_count :: "byte \<Rightarrow> nat \<Rightarrow> nat" where
  "rcp_discovery_response_fragment_count read_size max_fragment_payload =
     rcp_fragment_plan_count (unat read_size) max_fragment_payload"

definition discovery_fragment ::
    "bool \<Rightarrow> bool \<Rightarrow> byte \<Rightarrow> byte \<Rightarrow> rcp_stream_id_t \<Rightarrow> bytes \<Rightarrow> rcp_fragment_segment_t \<Rightarrow> rcp_bytes_t"
  where
  "discovery_fragment mem_acf mem_avtp read_size tn stream payload seg =
     discovery_frame mem_acf mem_avtp
       (zero_info\<lparr>bm_byte_bus_id := RCP_LIFECYCLE_DISCOVERY_BYTE_BUS_ID, bm_op := RCP_ACF_OP_READ,
                  bm_rsp := 1, bm_transaction_num := tn, bm_ms := if seg_ms seg then 1 else 0,
                  bm_read_size_or_segment_num :=
                    if seg_ms seg then seg_segment_num seg else ucast read_size\<rparr>)
       (take (seg_len seg) (drop (seg_offset seg) payload)) stream"

text \<open>The encoding loop over the segments and their allocation outcomes; a failure frees the frames
  built so far and gives none.\<close>

fun discovery_fragments ::
    "(bool \<times> bool) list \<Rightarrow> byte \<Rightarrow> byte \<Rightarrow> rcp_stream_id_t \<Rightarrow> bytes \<Rightarrow> rcp_fragment_segment_t list \<Rightarrow>
     bytes list option" where
  "discovery_fragments mems read_size tn stream payload [] = Some []"
| "discovery_fragments mems read_size tn stream payload (s # ss) =
     (case mems of
        [] \<Rightarrow> None
      | (ma, mv) # ms \<Rightarrow>
          (case discovery_fragment ma mv read_size tn stream payload s of
             None \<Rightarrow> None
           | Some f \<Rightarrow>
               (case discovery_fragments ms read_size tn stream payload ss of
                  None \<Rightarrow> None
                | Some fs \<Rightarrow> Some (f # fs))))"

definition rcp_discovery_encode_response_fragmented ::
    "(bool \<times> bool) list \<Rightarrow> rcp_regmap_general_t \<Rightarrow> byte \<Rightarrow> byte \<Rightarrow> rcp_stream_id_t \<Rightarrow> nat \<Rightarrow>
     bytes list" where
  "rcp_discovery_encode_response_fragmented mems gm read_size tn stream max_fragment_payload =
     (let count = rcp_discovery_response_fragment_count read_size max_fragment_payload in
      if count = 0 then []
      else if count > RCP_DISCOVERY_MAX_FRAGMENT_SEGMENTS then []
      else
        (case rcp_fragment_plan (unat read_size) max_fragment_payload count of
          Inl _ \<Rightarrow> []
        | Inr segs \<Rightarrow>
            (case discovery_fragments mems read_size tn stream (response_payload gm read_size) segs of
               None \<Rightarrow> []
             | Some fs \<Rightarrow> fs)))"

definition rcp_discovery_decode_response_fragment ::
    "bytes \<Rightarrow> rcp_discovery_errc_t + (rcp_stream_id_t \<times> bool \<times> byte \<times> bytes)" where
  "rcp_discovery_decode_response_fragment b =
     (case decode_common b of
        Inl e \<Rightarrow> Inl e
      | Inr (stream, hdr, payload) \<Rightarrow>
          Inr (stream, bm_ms hdr \<noteq> 0, ucast (bm_read_size_or_segment_num hdr), payload))"

definition rcp_discovery_decode_reassembled_response ::
    "bytes \<Rightarrow> rcp_stream_id_t \<Rightarrow> rcp_discovery_errc_t + rcp_discovery_result_t" where
  "rcp_discovery_decode_reassembled_response reassembled stream =
     (if length reassembled < RCP_DISCOVERY_GENERAL_SLICE_LEN then Inl RCP_DISCOVERY_ERR_SHORT_FRAME
      else Inr (slice_result reassembled stream))"

section \<open>The claim of the discovery stream\<close>

definition rcp_discovery_claim_init :: "u32 \<Rightarrow> rcp_discovery_claim_t" where
  "rcp_discovery_claim_init timeout_ms =
     \<lparr>claim_held = False, claimant = rcp_stream_id_make [0, 0, 0, 0, 0, 0] 0, claim_deadline_ms = 0,
      claim_timeout_ms = timeout_ms\<rparr>"

definition rcp_discovery_claim_is_open :: "rcp_discovery_claim_t \<Rightarrow> u64 \<Rightarrow> bool" where
  "rcp_discovery_claim_is_open claim now_ms =
     (if \<not> claim_held claim then True else now_ms \<ge> claim_deadline_ms claim)"

definition rcp_discovery_claim_note_request ::
    "rcp_discovery_claim_t \<Rightarrow> rcp_stream_id_t \<Rightarrow> u64 \<Rightarrow> bool \<times> rcp_discovery_claim_t" where
  "rcp_discovery_claim_note_request claim requester now_ms =
     (if \<not> rcp_discovery_claim_is_open claim now_ms then (False, claim)
      else (True, claim\<lparr>claim_held := True, claimant := requester,
                        claim_deadline_ms := now_ms + ucast (claim_timeout_ms claim)\<rparr>))"

definition rcp_discovery_claim_is_claimant ::
    "rcp_discovery_claim_t \<Rightarrow> rcp_stream_id_t \<Rightarrow> u64 \<Rightarrow> bool" where
  "rcp_discovery_claim_is_claimant claim writer now_ms =
     (if \<not> claim_held claim then False
      else if now_ms \<ge> claim_deadline_ms claim then False
      else rcp_stream_id_equal (claimant claim) writer)"

definition rcp_discovery_claim_note_config_write ::
    "rcp_discovery_claim_t \<Rightarrow> rcp_stream_id_t \<Rightarrow> u64 \<Rightarrow> bool \<times> rcp_discovery_claim_t" where
  "rcp_discovery_claim_note_config_write claim writer now_ms =
     (if \<not> rcp_discovery_claim_is_claimant claim writer now_ms then (False, claim)
      else (True, claim\<lparr>claim_deadline_ms := now_ms + ucast (claim_timeout_ms claim)\<rparr>))"

definition rcp_discovery_claim_release :: "rcp_discovery_claim_t \<Rightarrow> rcp_discovery_claim_t" where
  "rcp_discovery_claim_release claim = claim\<lparr>claim_held := False\<rparr>"

section \<open>The client's cache\<close>

definition rcp_discovery_cache_init :: rcp_discovery_cache_t where
  "rcp_discovery_cache_init = \<lparr>cache_entries = [], cache_cap = 0\<rparr>"

definition rcp_discovery_cache_destroy :: "rcp_discovery_cache_t \<Rightarrow> rcp_discovery_cache_t" where
  "rcp_discovery_cache_destroy cache = \<lparr>cache_entries = [], cache_cap = 0\<rparr>"

text \<open>An entry has 28 octets; \<open>mem\<close> is the outcome of the reallocation.\<close>

definition rcp_discovery_cache_put ::
    "bool \<Rightarrow> rcp_discovery_cache_t \<Rightarrow> rcp_discovery_result_t \<Rightarrow> bool \<times> rcp_discovery_cache_t" where
  "rcp_discovery_cache_put mem cache result =
     (case find_index (\<lambda>e. rcp_stream_id_equal (dres_server_stream_id e) (dres_server_stream_id result))
             (cache_entries cache) of
        Some i \<Rightarrow> (True, cache\<lparr>cache_entries := (cache_entries cache)[i := result]\<rparr>)
      | None \<Rightarrow>
          if length (cache_entries cache) = cache_cap cache then
            (let new_cap = (if cache_cap cache = 0 then 4 else (cache_cap cache * 2) mod 2 ^ 64) in
             if rcp_alloc_checked_size new_cap 28 = 0 \<or> \<not> mem then (False, cache)
             else (True, \<lparr>cache_entries = cache_entries cache @ [result], cache_cap = new_cap\<rparr>))
          else (True, cache\<lparr>cache_entries := cache_entries cache @ [result]\<rparr>))"

definition rcp_discovery_cache_find ::
    "rcp_discovery_cache_t \<Rightarrow> rcp_stream_id_t \<Rightarrow> rcp_discovery_result_t option" where
  "rcp_discovery_cache_find cache stream_id =
     map_option (nth (cache_entries cache))
       (find_index (\<lambda>e. rcp_stream_id_equal (dres_server_stream_id e) stream_id) (cache_entries cache))"

definition rcp_discovery_cache_len :: "rcp_discovery_cache_t \<Rightarrow> nat" where
  "rcp_discovery_cache_len cache = length (cache_entries cache)"

section \<open>The wire\<close>

lemma discovery_frame_wire:
  assumes "stream_id_wf stream" and "length p \<le> RCP_ACF_ABB_MAX_PAYLOAD"
    and "bm_byte_bus_id hdr = 0" and "bm_op hdr = RCP_ACF_OP_READ"
  shows "\<exists>f. discovery_frame True True hdr p stream = Some f \<and>
    decode_common (f @ rest) = Inr (stream, abb_canon hdr p, p)"
proof -
  let ?n = "\<lparr>n_sv = 1, n_version = 0, ntscf_data_length = 0, n_sequence_num = 0, n_stream_id = stream\<rparr>"
  obtain a where a: "rcp_acf_encode_abb True hdr p = Some a" "rcp_acf_decode_abb a = Inr (abb_canon hdr p, p)"
    using abb.roundtrip [OF _ assms(2), of hdr "[]"] by auto
  have pad: "8 + length p + unat (rcp_acf_pad_len (8 + length p)) \<le> 4 * 511"
    using assms(2) by (intro padded_le) (simp_all add: consts_rcp)
  have "length a = 8 + length p + unat (rcp_acf_pad_len (8 + length p))"
    using a(1) assms(2) by (auto simp: abb_encode_eq Let_def)
  then have len: "length a \<le> RCP_AVTP_NTSCF_MAX_PAYLOAD" using pad by (simp add: consts_rcp)
  have wf: "ntscf_wf ?n" using assms(1) by (simp add: ntscf_wf_def)
  obtain f where f: "rcp_avtp_encode_ntscf True ?n a = Some f"
    "rcp_avtp_decode_ntscf (f @ rest) = Inr (ntscf_canon ?n a, a)"
    using ntscf.roundtrip [OF wf len, of rest] by blast
  have "n_stream_id (ntscf_canon ?n a) = stream" by (simp add: ntscf_canon_def)
  moreover have "bm_byte_bus_id (abb_canon hdr p) = 0" "bm_op (abb_canon hdr p) = RCP_ACF_OP_READ"
    using assms(3,4) by (simp_all add: abb_canon_def info_canon_def Let_def)
  ultimately show ?thesis using a f
    by (simp add: discovery_frame_def decode_common_def ntscf_peek [OF f(2)] rcp_discovery_should_drop_def
        consts_rcp)
qed

lemma ucast_byte_field: "(ucast ((ucast (w :: byte) :: u16) AND 0xFFF) :: byte) = w"
  by (rule word8_eqI) (simp add: word_bits)

text \<open>a discovery request comes out of the wire as it went in: the requester's stream, the read size
  and the transaction number, whatever octets follow the frame.\<close>

theorem discovery_request_roundtrip:
  assumes "stream_id_wf requester"
  shows "\<exists>f. rcp_discovery_encode_request True True requester read_size tn = Some f \<and>
    rcp_discovery_decode_request (f @ rest) =
      Inr \<lparr>dreq_requester = requester, dreq_read_size = read_size, dreq_transaction_num = tn\<rparr>"
  using discovery_frame_wire [OF assms, of "[]" "zero_info\<lparr>bm_byte_bus_id := RCP_LIFECYCLE_DISCOVERY_BYTE_BUS_ID,
      bm_op := RCP_ACF_OP_READ, bm_read_size_or_segment_num := ucast read_size, bm_transaction_num := tn\<rparr>" rest]
  by (auto simp: rcp_discovery_encode_request_def rcp_discovery_decode_request_def consts_rcp
      abb_canon_def info_canon_def Let_def ucast_byte_field)

theorem discovery_request_roundtrip_witness:
  "\<exists>f. rcp_discovery_encode_request True True (rcp_stream_id_make [1, 2, 3, 4, 5, 6] 7) 14 9 = Some f \<and>
    rcp_discovery_decode_request (f @ [0xFF]) =
      Inr \<lparr>dreq_requester = rcp_stream_id_make [1, 2, 3, 4, 5, 6] 7, dreq_read_size = 14, dreq_transaction_num = 9\<rparr>"
  by (rule discovery_request_roundtrip) (simp add: stream_id_wf_def rcp_stream_id_make_def)

lemma length_general_slice [simp]: "length (general_slice gm) = 14"
  by (simp add: general_slice_def)

lemma byte_le_255: "unat (w :: byte) \<le> 255"
  using unsigned_less [of w, where 'a = nat] by simp

lemma length_response_payload [simp]: "length (response_payload gm n) = unat n"
  using byte_le_255 [of n] by (simp add: response_payload_def Let_def consts_rcp)

lemma response_payload_slice:
  "14 \<le> unat n \<Longrightarrow> \<exists>rest. response_payload gm n = general_slice gm @ rest"
  by (simp add: response_payload_def Let_def consts_rcp min_def)

lemma slice_result_of_slice:
  "slice_result (general_slice gm @ rest) stream =
     \<lparr>dres_valid = True, dres_server_stream_id = stream, dres_magic = rm_magic gm,
      dres_svr_version = rm_svr_version gm, dres_vendor_id = rm_vendor_id gm,
      dres_device_id = rm_device_id gm, dres_svr_ep_count = rm_svr_ep_count gm\<rparr>"
  by (simp add: slice_result_def general_slice_def)

text \<open>What a client learns from the registers of a server.\<close>

definition expected_result :: "rcp_regmap_general_t \<Rightarrow> rcp_stream_id_t \<Rightarrow> rcp_discovery_result_t" where
  "expected_result gm stream =
     \<lparr>dres_valid = True, dres_server_stream_id = stream, dres_magic = rm_magic gm,
      dres_svr_version = rm_svr_version gm, dres_vendor_id = rm_vendor_id gm,
      dres_device_id = rm_device_id gm, dres_svr_ep_count = rm_svr_ep_count gm\<rparr>"

text \<open>a discovery response carries the registers of the server to the client whenever the requested
  size covers the slice of fourteen octets; a smaller response is refused as too short.\<close>

theorem discovery_response_roundtrip:
  assumes "stream_id_wf stream"
  shows "\<exists>f. rcp_discovery_encode_response True True gm read_size tn stream = Some f \<and>
    rcp_discovery_decode_response (f @ rest) =
      (if 14 \<le> unat read_size then Inr (expected_result gm stream) else Inl RCP_DISCOVERY_ERR_SHORT_FRAME)"
proof -
  have "length (response_payload gm read_size) \<le> RCP_ACF_ABB_MAX_PAYLOAD"
    using byte_le_255 [of read_size] by (simp add: consts_rcp)
  from discovery_frame_wire [OF assms this, of "zero_info\<lparr>bm_byte_bus_id := RCP_LIFECYCLE_DISCOVERY_BYTE_BUS_ID,
      bm_op := RCP_ACF_OP_READ, bm_rsp := 1, bm_read_size_or_segment_num := ucast read_size, bm_transaction_num := tn\<rparr>" rest]
  obtain f where f: "rcp_discovery_encode_response True True gm read_size tn stream = Some f"
    "\<exists>h. decode_common (f @ rest) = Inr (stream, h, response_payload gm read_size)"
    by (auto simp: rcp_discovery_encode_response_def consts_rcp)
  then show ?thesis using response_payload_slice [of read_size gm]
    by (auto simp: rcp_discovery_decode_response_def consts_rcp slice_result_of_slice expected_result_def)
qed

theorem discovery_response_roundtrip_witness:
  "\<exists>f. rcp_discovery_encode_response True True
      (rcp_regmap_general_init\<lparr>rm_magic := 0xCAFE, rm_svr_version := 3, rm_vendor_id := 4, rm_device_id := 5,
        rm_svr_ep_count := 6\<rparr>) 14 9
      (rcp_stream_id_make [1, 2, 3, 4, 5, 6] 7) = Some f \<and>
    (\<exists>r. rcp_discovery_decode_response (f @ []) = Inr r \<and> dres_magic r = 0xCAFE)"
  using discovery_response_roundtrip [of "rcp_stream_id_make [1, 2, 3, 4, 5, 6] 7"
    "(rcp_regmap_general_init\<lparr>rm_magic := 0xCAFE, rm_svr_version := 3, rm_vendor_id := 4, rm_device_id := 5,
        rm_svr_ep_count := 6\<rparr>)" 14 9 "[]"]
  by (auto simp: stream_id_wf_def rcp_stream_id_make_def expected_result_def)

section \<open>Fragmented responses reach the client\<close>

text \<open>The bounds that the comment on the segment array claims: never more segments than octets.\<close>

lemma mult_gap: "k * m < (L :: nat) \<Longrightarrow> 0 < m \<Longrightarrow> k < L"
  by (cases m) (auto intro: le_less_trans [of k "k * m" L])

lemma plan_count_le:
  assumes "0 < L" and "L \<le> 2 ^ 63" shows "rcp_fragment_plan_count L m \<le> L"
proof (cases "rcp_fragment_plan_count L m = 0")
  case False
  from plan_count_cases [OF assms(2) refl False] show ?thesis
  proof (elim disjE conjE)
    let ?n = "rcp_fragment_plan_count L m"
    assume "0 < m" "(?n - 1) * m < L"
    then have "?n - 1 < L" using mult_gap by blast
    then show ?thesis by simp
  qed (use assms(1) in auto)
qed simp

lemma plan_count_pos:
  assumes "0 < m" and "L \<le> 255" shows "0 < rcp_fragment_plan_count L m"
proof (cases "L \<le> m")
  case False
  let ?c = "(L + m - 1) div m"
  have e: "size_sub (size_add L m) 1 = L + m - 1" using False assms by (intro size_exacts) simp_all
  have "1 \<le> ?c" using False assms by (simp add: less_eq_div_iff_mult_less_eq)
  moreover have "?c \<le> L + m - 1" by (rule div_le_dividend)
  ultimately have c: "1 \<le> ?c" "?c \<le> 510" using False assms by linarith+
  then have "size_sub ?c 1 \<le> 4096" by (simp add: size_sub_exact SIZE_MAX_def)
  then show ?thesis using False assms c
    by (simp add: rcp_fragment_plan_count_def Let_def e [unfolded One_nat_def] consts_rcp)
qed (use assms in \<open>simp add: rcp_fragment_plan_count_def\<close>)

lemma plan_exists:
  assumes "0 < m" and "L \<le> 255" and "n = rcp_fragment_plan_count L m"
  shows "\<exists>segs. rcp_fragment_plan L m n = Inr segs \<and> length segs = n"
proof -
  have len: "length (plan_segments L m off i k) = Suc k" for off i k
    by (induction k arbitrary: off i) simp_all
  show ?thesis using plan_count_pos [OF assms(1,2)] assms(3) by (auto simp: rcp_fragment_plan_def len Let_def)
qed

text \<open>A client that decodes the frames it receives and feeds them to a reassembler.\<close>

fun feed_frames :: "rcp_fragment_reassembler_t \<Rightarrow> bytes list \<Rightarrow>
    rcp_fragment_reasm_result_t list \<times> rcp_fragment_reassembler_t" where
  "feed_frames r [] = ([], r)"
| "feed_frames r (f # fs) =
     (case rcp_discovery_decode_response_fragment f of
        Inl _ \<Rightarrow> ([], r)
      | Inr (stream, ms, num, p) \<Rightarrow>
          (let (x, r') = rcp_fragment_reassembler_feed True r ms (ucast num) p;
               (xs, r'') = feed_frames r' fs
           in (x # xs, r'')))"

definition seg_fits :: "bytes \<Rightarrow> rcp_fragment_segment_t \<Rightarrow> bool" where
  "seg_fits p s \<longleftrightarrow> length (seg_slice p s) \<le> RCP_ACF_ABB_MAX_PAYLOAD \<and>
     (seg_ms s \<longrightarrow> unat (seg_segment_num s) < 256)"

lemma ucast_u16_byte: "unat (w :: u16) < 256 \<Longrightarrow> ucast (ucast (w AND 0xFFF) :: byte) = w"
proof -
  assume "unat w < 256"
  then have w: "w < 2 ^ 8" by (simp add: word_less_nat_alt)
  then have "w = take_bit 8 w" by (metis less_mask_eq take_bit_eq_mask)
  then have "bit w i \<Longrightarrow> i < 8" for i by (metis bit_take_bit_iff)
  then have "\<not> bit w i" if "8 \<le> i" for i using that by (meson not_le)
  then show ?thesis by (intro word16_eqI) (simp_all add: word_bits)
qed

lemma discovery_fragment_wire:
  assumes "stream_id_wf stream" and "seg_fits p s"
  shows "\<exists>f num. discovery_fragment True True read_size tn stream p s = Some f \<and>
    rcp_discovery_decode_response_fragment f = Inr (stream, seg_ms s, num, seg_slice p s) \<and>
    (seg_ms s \<longrightarrow> ucast num = seg_segment_num s)"
proof -
  let ?h = "zero_info\<lparr>bm_byte_bus_id := RCP_LIFECYCLE_DISCOVERY_BYTE_BUS_ID, bm_op := RCP_ACF_OP_READ,
                  bm_rsp := 1, bm_transaction_num := tn, bm_ms := if seg_ms s then 1 else 0,
                  bm_read_size_or_segment_num :=
                    if seg_ms s then seg_segment_num s else ucast read_size\<rparr>"
  have "length (seg_slice p s) \<le> RCP_ACF_ABB_MAX_PAYLOAD" using assms(2) by (simp add: seg_fits_def)
  from discovery_frame_wire [OF assms(1) this, of ?h "[]"] obtain f where
    f: "discovery_frame True True ?h (seg_slice p s) stream = Some f"
    "decode_common f = Inr (stream, abb_canon ?h (seg_slice p s), seg_slice p s)"
    by (auto simp: consts_rcp)
  then show ?thesis using assms(2)
    by (auto simp: discovery_fragment_def rcp_discovery_decode_response_fragment_def abb_canon_def
        info_canon_def Let_def seg_fits_def ucast_u16_byte)
qed

lemma discovery_fragments_feed:
  assumes "stream_id_wf stream" and "\<And>s. s \<in> set segs \<Longrightarrow> seg_fits p s"
  shows "\<exists>fs. discovery_fragments (replicate (length segs) (True, True)) read_size tn stream p segs = Some fs \<and>
    length fs = length segs \<and> feed_frames r fs = feed_segments r p segs"
  using assms(2)
proof (induction segs arbitrary: r)
  case (Cons s segs)
  from discovery_fragment_wire [OF assms(1) Cons.prems [of s]] obtain f num where
    f: "discovery_fragment True True read_size tn stream p s = Some f"
    "rcp_discovery_decode_response_fragment f = Inr (stream, seg_ms s, num, seg_slice p s)"
    "seg_ms s \<Longrightarrow> ucast num = seg_segment_num s" by fastforce
  have one: "rcp_fragment_reassembler_feed True r (seg_ms s) (ucast num) (seg_slice p s) =
      rcp_fragment_reassembler_feed True r (seg_ms s) (seg_segment_num s) (seg_slice p s)"
    using f(3) feed_last_any_num by (cases "seg_ms s") auto
  obtain x r' where x: "rcp_fragment_reassembler_feed True r (seg_ms s) (seg_segment_num s) (seg_slice p s) = (x, r')"
    by fastforce
  from Cons.IH [of r'] Cons.prems obtain fs where
    "discovery_fragments (replicate (length segs) (True, True)) read_size tn stream p segs = Some fs"
    "length fs = length segs" "feed_frames r' fs = feed_segments r' p segs" by auto
  with f(1,2) one x show ?case by simp
qed simp

lemma plan_seg_fits:
  assumes "length p \<le> 255" and "rcp_fragment_plan (length p) m n = Inr segs" and "s \<in> set segs"
  shows "seg_fits p s"
proof -
  have "length p \<le> 2 ^ 63" using assms(1) by simp
  from this assms(2) have "seg_ms s \<longrightarrow> unat (seg_segment_num s) < 256"
  proof (cases rule: plan_OK_cases)
    case (split k)
    have k: "k < 256" using mult_gap [OF split(5,2)] assms(1) by simp
    show ?thesis
    proof
      assume "seg_ms s"
      from plan_segments_num [OF assms(3) [unfolded split(7)] this] obtain j where
        "j < k" "seg_segment_num s = of_nat j" by auto
      with k show "unat (seg_segment_num s) < 256" by (simp add: unat_of_nat)
    qed
  qed (use assms(3) in auto)
  then show ?thesis using assms(1) by (simp add: seg_fits_def consts_rcp)
qed

text \<open>A discovery response that is sent in fragments tells the client the same as a whole one.  For
  every non-zero fragment size the server produces the planned number of frames, each a valid NTSCF frame;
  a client that feeds them to a fresh reassembler sees \<open>CONTINUE\<close> for all but the last, then \<open>COMPLETE\<close>,
  and decodes the server's registers from the reassembled octets.\<close>

theorem discovery_fragments_end_to_end:
  assumes "stream_id_wf stream" and "14 \<le> unat read_size" and "0 < m"
    and "unat read_size \<le> mt" and "mt \<le> SIZE_MAX"
    and "count = rcp_discovery_response_fragment_count read_size m"
  shows "\<exists>fs r. rcp_discovery_encode_response_fragmented (replicate count (True, True)) gm read_size tn stream m = fs \<and>
    length fs = count \<and> 0 < count \<and>
    feed_frames (rcp_fragment_reassembler_init mt) fs =
      (replicate (count - 1) RCP_FRAGMENT_REASM_CONTINUE @ [RCP_FRAGMENT_REASM_COMPLETE], r) \<and>
    rcp_discovery_decode_reassembled_response (rcp_fragment_reassembler_get r) stream =
      Inr (expected_result gm stream)"
proof -
  let ?p = "response_payload gm read_size"
  have L: "length ?p = unat read_size" "length ?p \<le> 255" using byte_le_255 [of read_size] by simp_all
  have cnt: "count = rcp_fragment_plan_count (length ?p) m"
    by (simp add: assms(6) rcp_discovery_response_fragment_count_def)
  have c0: "count \<noteq> 0" using plan_count_pos [OF assms(3) L(2)] cnt by simp
  have c255: "count \<le> 255" using plan_count_le [of "length ?p" m] assms(2) L cnt by simp
  obtain segs where segs: "rcp_fragment_plan (length ?p) m count = Inr segs" "length segs = count"
    using plan_exists [OF assms(3) L(2) cnt] by blast
  from planned_feed [OF _ assms(5) _ segs(1)] assms(4) L obtain r where
    r: "feed_segments (rcp_fragment_reassembler_init mt) ?p segs =
      (replicate (count - 1) RCP_FRAGMENT_REASM_CONTINUE @ [RCP_FRAGMENT_REASM_COMPLETE], r)" "reasm_buf r = ?p"
    by auto
  from discovery_fragments_feed [OF assms(1) plan_seg_fits [OF L(2) segs(1)], of segs read_size tn "rcp_fragment_reassembler_init mt"]
  obtain fs where fs: "discovery_fragments (replicate (length segs) (True, True)) read_size tn stream ?p segs = Some fs"
    "length fs = length segs"
    "feed_frames (rcp_fragment_reassembler_init mt) fs = feed_segments (rcp_fragment_reassembler_init mt) ?p segs"
    by blast
  have enc: "rcp_discovery_encode_response_fragmented (replicate count (True, True)) gm read_size tn stream m = fs"
    using c0 c255 segs fs(1) assms(6)
    by (simp add: rcp_discovery_encode_response_fragmented_def Let_def consts_rcp)
  obtain rest where "?p = general_slice gm @ rest" using response_payload_slice [OF assms(2)] by blast
  then have "rcp_discovery_decode_reassembled_response ?p stream = Inr (expected_result gm stream)"
    by (simp add: rcp_discovery_decode_reassembled_response_def consts_rcp slice_result_of_slice expected_result_def)
  with enc fs r c0 segs(2) show ?thesis by (auto simp: rcp_fragment_reassembler_get_def)
qed

theorem discovery_fragments_end_to_end_witness:
  "\<exists>fs r. rcp_discovery_encode_response_fragmented
      (replicate (rcp_discovery_response_fragment_count 20 6) (True, True))
      (rcp_regmap_general_init\<lparr>rm_magic := 0xCAFE, rm_svr_version := 3, rm_vendor_id := 4, rm_device_id := 5,
        rm_svr_ep_count := 6\<rparr>)
      20 9 (rcp_stream_id_make [1, 2, 3, 4, 5, 6] 7) 6 = fs \<and> length fs = 4 \<and>
    snd (feed_frames (rcp_fragment_reassembler_init 64) fs) = r \<and>
    (\<exists>x. rcp_discovery_decode_reassembled_response (rcp_fragment_reassembler_get r)
      (rcp_stream_id_make [1, 2, 3, 4, 5, 6] 7) = Inr x \<and> dres_magic x = 0xCAFE \<and> dres_svr_ep_count x = 6)"
proof -
  have "rcp_discovery_response_fragment_count 20 6 = 4"
    by (simp add: rcp_discovery_response_fragment_count_def rcp_fragment_plan_count_def size_add_def
        size_sub_def consts_rcp)
  then show ?thesis
    using discovery_fragments_end_to_end [of "rcp_stream_id_make [1, 2, 3, 4, 5, 6] 7" 20 6 64 _
      "(rcp_regmap_general_init\<lparr>rm_magic := 0xCAFE, rm_svr_version := 3, rm_vendor_id := 4, rm_device_id := 5,
        rm_svr_ep_count := 6\<rparr>)" 9, OF _ _ _ _ _ refl]
    by (auto simp: stream_id_wf_def rcp_stream_id_make_def expected_result_def SIZE_MAX_def)
qed

section \<open>Who may write the configuration\<close>

text \<open>The events that reach a claim, with the answer given to each, latest last.\<close>

datatype claim_event = Request rcp_stream_id_t u64 | Config_Write rcp_stream_id_t u64 | Release

fun claim_step :: "claim_event \<Rightarrow> rcp_discovery_claim_t \<Rightarrow> bool \<times> rcp_discovery_claim_t" where
  "claim_step (Request s t) c = rcp_discovery_claim_note_request c s t"
| "claim_step (Config_Write s t) c = rcp_discovery_claim_note_config_write c s t"
| "claim_step Release c = (True, rcp_discovery_claim_release c)"

inductive claim_trace :: "u32 \<Rightarrow> (claim_event \<times> bool) list \<Rightarrow> rcp_discovery_claim_t \<Rightarrow> bool" for tmo where
  init: "claim_trace tmo [] (rcp_discovery_claim_init tmo)"
| step: "claim_trace tmo h c \<Longrightarrow> claim_step e c = (ok, c') \<Longrightarrow> claim_trace tmo (h @ [(e, ok)]) c'"

fun event_time :: "claim_event \<Rightarrow> u64" where
  "event_time (Request s t) = t"
| "event_time (Config_Write s t) = t"
| "event_time Release = 0"

text \<open>A history that ends in an unbroken reservation of \<open>w\<close>: a granted request of \<open>w\<close> at \<open>t0\<close>, after
  which only writes of \<open>w\<close> were accepted, the last accepted event being at \<open>t\<close>.\<close>

inductive reserved :: "rcp_stream_id_t \<Rightarrow> (claim_event \<times> bool) list \<Rightarrow> u64 \<Rightarrow> bool" for w where
  granted: "reserved w (h @ [(Request w t, True)]) t"
| extended: "reserved w h t \<Longrightarrow> reserved w (h @ [(Config_Write w t', True)]) t'"
| refused: "reserved w h t \<Longrightarrow> reserved w (h @ [(e, False)]) t"

lemma claim_trace_reserved:
  "claim_trace tmo h c \<Longrightarrow>
   claim_timeout_ms c = tmo \<and>
   (claim_held c \<longrightarrow> (\<exists>t. reserved (claimant c) h t \<and> claim_deadline_ms c = t + ucast tmo))"
proof (induction rule: claim_trace.induct)
  case init
  then show ?case by (simp add: rcp_discovery_claim_init_def)
next
  case (step h c e ok c')
  from step.hyps(2) step.IH show ?case
    by (cases e)
      (auto simp: rcp_discovery_claim_note_request_def rcp_discovery_claim_note_config_write_def
        rcp_discovery_claim_is_claimant_def rcp_discovery_claim_release_def
        split: if_splits intro: reserved.intros)
qed

text \<open>Whatever requests, configuration writes and releases reach the claim of a server, a
  configuration write of \<open>w\<close> at \<open>t\<close> is accepted only at the end of an unbroken reservation of \<open>w\<close>: \<open>w\<close>
  was granted the stream, nobody else has been granted it or has written since, there was no release, and
  \<open>t\<close> is before the deadline set by the last accepted event.\<close>

theorem config_write_needs_reservation:
  assumes "claim_trace tmo h c" and "fst (claim_step (Config_Write w t) c)"
  shows "\<exists>t0. reserved w h t0 \<and> t < t0 + ucast tmo"
  using claim_trace_reserved [OF assms(1)] assms(2)
  by (auto simp: rcp_discovery_claim_note_config_write_def rcp_discovery_claim_is_claimant_def
      split: if_splits)

lemma sample_claim_trace:
  "claim_trace 20 ([] @ [(Request (rcp_stream_id_make [1, 2, 3, 4, 5, 6] 7) 100, True)])
     (snd (claim_step (Request (rcp_stream_id_make [1, 2, 3, 4, 5, 6] 7) 100) (rcp_discovery_claim_init 20)))"
  by (rule claim_trace.step [OF claim_trace.init])
    (simp add: rcp_discovery_claim_note_request_def rcp_discovery_claim_is_open_def rcp_discovery_claim_init_def)

theorem config_write_needs_reservation_witness:
  "\<exists>t0. reserved (rcp_stream_id_make [1, 2, 3, 4, 5, 6] 7)
      ([] @ [(Request (rcp_stream_id_make [1, 2, 3, 4, 5, 6] 7) 100, True)]) t0 \<and> 119 < t0 + ucast (20 :: u32)"
  by (rule config_write_needs_reservation [OF sample_claim_trace])
    (simp add: rcp_discovery_claim_note_request_def rcp_discovery_claim_is_open_def rcp_discovery_claim_init_def
      rcp_discovery_claim_note_config_write_def rcp_discovery_claim_is_claimant_def)

text \<open>The stream cannot be taken away and cannot be kept: while a reservation runs every discovery
  request is refused and leaves the claim alone, and once its deadline has come the next request is
  granted, to any requester.\<close>

theorem claim_not_preempted_and_lapses:
  assumes "claim_trace tmo h c"
  shows "(fst (claim_step (Request w t) c) \<longleftrightarrow> \<not> (claim_held c \<and> t < claim_deadline_ms c)) \<and>
    (claim_held c \<longrightarrow> (\<exists>t0. reserved (claimant c) h t0 \<and> claim_deadline_ms c = t0 + ucast tmo)) \<and>
    (fst (claim_step (Request w t) c) \<longrightarrow>
      claimant (snd (claim_step (Request w t) c)) = w \<and>
      claim_deadline_ms (snd (claim_step (Request w t) c)) = t + ucast tmo) \<and>
    (\<not> fst (claim_step e c) \<longrightarrow> snd (claim_step e c) = c)"
proof (intro conjI)
  note f = claim_trace_reserved [OF assms]
  show "fst (claim_step (Request w t) c) \<longleftrightarrow> \<not> (claim_held c \<and> t < claim_deadline_ms c)"
    by (auto simp: rcp_discovery_claim_note_request_def rcp_discovery_claim_is_open_def not_less)
  show "claim_held c \<longrightarrow> (\<exists>t0. reserved (claimant c) h t0 \<and> claim_deadline_ms c = t0 + ucast tmo)"
    using f by blast
  show "fst (claim_step (Request w t) c) \<longrightarrow>
      claimant (snd (claim_step (Request w t) c)) = w \<and>
      claim_deadline_ms (snd (claim_step (Request w t) c)) = t + ucast tmo"
    using f by (auto simp: rcp_discovery_claim_note_request_def split: if_splits)
  show "\<not> fst (claim_step e c) \<longrightarrow> snd (claim_step e c) = c"
    by (cases e) (auto simp: rcp_discovery_claim_note_request_def rcp_discovery_claim_note_config_write_def
        split: if_splits)
qed

theorem claim_not_preempted_and_lapses_witness:
  "\<not> fst (claim_step (Request (rcp_stream_id_make [9, 9, 9, 9, 9, 9] 9) 119)
      (snd (claim_step (Request (rcp_stream_id_make [1, 2, 3, 4, 5, 6] 7) 100) (rcp_discovery_claim_init 20)))) \<and>
   fst (claim_step (Request (rcp_stream_id_make [9, 9, 9, 9, 9, 9] 9) 120)
      (snd (claim_step (Request (rcp_stream_id_make [1, 2, 3, 4, 5, 6] 7) 100) (rcp_discovery_claim_init 20))))"
  unfolding claim_not_preempted_and_lapses [OF sample_claim_trace, THEN conjunct1]
  by (simp add: rcp_discovery_claim_note_request_def rcp_discovery_claim_is_open_def rcp_discovery_claim_init_def)

section \<open>The cache is a map\<close>

lemma cache_find_table:
  "rcp_discovery_cache_find cache = table_get dres_server_stream_id (cache_entries cache)"
  by (simp add: fun_eq_iff rcp_discovery_cache_find_def table_get_def)

text \<open>The cache of discovery results refines a finite map from server streams to results: a put that
  succeeds updates exactly the binding of its server, and a put that fails, for want of memory, leaves the
  cache as it was.\<close>

theorem cache_refines_map:
  "rcp_discovery_cache_find (snd (rcp_discovery_cache_put mem cache result)) =
     (if fst (rcp_discovery_cache_put mem cache result)
      then (rcp_discovery_cache_find cache)(dres_server_stream_id result \<mapsto> result)
      else rcp_discovery_cache_find cache)"
proof (cases "find_index (\<lambda>e. dres_server_stream_id e = dres_server_stream_id result) (cache_entries cache)")
  case None
  have "rcp_discovery_cache_find \<lparr>cache_entries = cache_entries cache @ [result], cache_cap = n\<rparr> =
      (rcp_discovery_cache_find cache)(dres_server_stream_id result \<mapsto> result)" for n
    using table_get_missing [OF None]
    by (auto simp: fun_eq_iff cache_find_table table_get_append table_get_Cons split: option.splits)
  from this [of "cache_cap cache"] this show ?thesis using None
    by (cases cache) (auto simp: rcp_discovery_cache_put_def Let_def)
next
  case (Some i)
  then show ?thesis
    by (auto simp: fun_eq_iff rcp_discovery_cache_put_def cache_find_table table_get_update)
qed

end
