(* ===== verification/Ep_Gpio.thy ===== *)
theory Ep_Gpio
  imports Lifecycle Registers
begin

text \<open>
  \<^verbatim>\<open>src/ep_gpio.c\<close>: the GPIO endpoint.  A pin array of the code is a list of 32 octets; the debounce
  state of a pin and the functional configuration are records.  An out-parameter that is written only on
  success is part of the \<open>Inr\<close> or \<open>Some\<close> result.  The register block interprets
  \<open>register_block\<close> and \<open>readback_block\<close>.  The text tables are left out.
\<close>

section \<open>Data\<close>

definition RCP_EP_GPIO_MAX_PINS :: nat where [consts_rcp]: "RCP_EP_GPIO_MAX_PINS = 32"
definition RCP_EP_GPIO_PAYLOAD_LEN :: nat where [consts_rcp]: "RCP_EP_GPIO_PAYLOAD_LEN = 4"
definition RCP_EP_GPIO_EP_FUNC_LEN :: nat where [consts_rcp]: "RCP_EP_GPIO_EP_FUNC_LEN = 0x29"
definition RCP_EP_GPIO_REG_EP_LEN :: nat where [consts_rcp]: "RCP_EP_GPIO_REG_EP_LEN = 0"
definition RCP_EP_GPIO_REG_IO_MAX :: nat where [consts_rcp]: "RCP_EP_GPIO_REG_IO_MAX = 1"
definition RCP_EP_GPIO_REG_EP_ENABLE_CLR :: nat where [consts_rcp]: "RCP_EP_GPIO_REG_EP_ENABLE_CLR = 2"
definition RCP_EP_GPIO_REG_EP_OPTIONS :: nat where [consts_rcp]: "RCP_EP_GPIO_REG_EP_OPTIONS = 3"
definition RCP_EP_GPIO_REG_BASE_CLK :: nat where [consts_rcp]: "RCP_EP_GPIO_REG_BASE_CLK = 4"
definition RCP_EP_GPIO_REG_EP_STATUS :: nat where [consts_rcp]: "RCP_EP_GPIO_REG_EP_STATUS = 6"
definition RCP_EP_GPIO_REG_CLK_DIVIDER :: nat where [consts_rcp]: "RCP_EP_GPIO_REG_CLK_DIVIDER = 8"
definition RCP_EP_GPIO_REG_DEBOUNCE_IO0 :: nat where [consts_rcp]: "RCP_EP_GPIO_REG_DEBOUNCE_IO0 = 9"
definition RCP_REGMAP_PIN_PROP_OUTPUT :: byte where [consts_rcp]: "RCP_REGMAP_PIN_PROP_OUTPUT = push_bit 0 1"
definition RCP_REGMAP_PIN_PROP_INPUT :: byte where [consts_rcp]: "RCP_REGMAP_PIN_PROP_INPUT = push_bit 1 1"

datatype rcp_ep_gpio_write_semantics_t =
    RCP_EP_GPIO_WRITE_REPLACE | RCP_EP_GPIO_WRITE_OR | RCP_EP_GPIO_WRITE_AND | RCP_EP_GPIO_WRITE_XOR
  | RCP_EP_GPIO_WRITE_RESERVED4 | RCP_EP_GPIO_WRITE_ADD | RCP_EP_GPIO_WRITE_SUB
  | RCP_EP_GPIO_WRITE_RECONFIG

fun gpio_write_code :: "rcp_ep_gpio_write_semantics_t \<Rightarrow> byte" where
  "gpio_write_code RCP_EP_GPIO_WRITE_REPLACE = 0"
| "gpio_write_code RCP_EP_GPIO_WRITE_OR = 1"
| "gpio_write_code RCP_EP_GPIO_WRITE_AND = 2"
| "gpio_write_code RCP_EP_GPIO_WRITE_XOR = 3"
| "gpio_write_code RCP_EP_GPIO_WRITE_RESERVED4 = 4"
| "gpio_write_code RCP_EP_GPIO_WRITE_ADD = 5"
| "gpio_write_code RCP_EP_GPIO_WRITE_SUB = 6"
| "gpio_write_code RCP_EP_GPIO_WRITE_RECONFIG = 7"

datatype rcp_ep_gpio_trigger_t =
    RCP_EP_GPIO_TRIGGER_NONE | RCP_EP_GPIO_TRIGGER_ANY_CHANGE | RCP_EP_GPIO_TRIGGER_RISING
  | RCP_EP_GPIO_TRIGGER_FALLING

fun gpio_trigger_code :: "rcp_ep_gpio_trigger_t \<Rightarrow> byte" where
  "gpio_trigger_code RCP_EP_GPIO_TRIGGER_NONE = 0"
| "gpio_trigger_code RCP_EP_GPIO_TRIGGER_ANY_CHANGE = 1"
| "gpio_trigger_code RCP_EP_GPIO_TRIGGER_RISING = 2"
| "gpio_trigger_code RCP_EP_GPIO_TRIGGER_FALLING = 3"

datatype rcp_ep_gpio_response_timing_t =
    RCP_EP_GPIO_RESPONSE_IMMEDIATE | RCP_EP_GPIO_RESPONSE_AFTER_DEBOUNCE

datatype rcp_ep_gpio_reconfig_errc_t =
    RCP_EP_GPIO_RECONFIG_OK | RCP_EP_GPIO_RECONFIG_ERR_SHORT | RCP_EP_GPIO_RECONFIG_ERR_OUT_OF_RANGE

datatype rcp_ep_gpio_errc_t =
    RCP_EP_GPIO_OK | RCP_EP_GPIO_ERR_SHORT_FRAME | RCP_EP_GPIO_ERR_BAD_MSG_TYPE
  | RCP_EP_GPIO_ERR_WRONG_BUS | RCP_EP_GPIO_ERR_WRONG_OP | RCP_EP_GPIO_ERR_BAD_PAYLOAD_LEN
  | RCP_EP_GPIO_ERR_RESERVED_EVT

record rcp_ep_gpio_debounce_state_t =
  has_settled :: bool
  settled_value :: bool
  has_candidate :: bool
  candidate_value :: bool
  consecutive_count :: byte

record rcp_ep_gpio_pin_cfg_t =
  pin_property :: byte
  pin_trigger :: byte

record rcp_ep_gpio_functional_cfg_t =
  gpio_common :: rcp_regmap_ep_functional_cfg_t
  gpio_pins :: "rcp_ep_gpio_pin_cfg_t list"
  gpio_ep_status :: u16
  gpio_clk_divider :: byte
  gpio_debounce :: bytes

section \<open>Pins and writes\<close>

definition rcp_ep_gpio_pin_index_valid :: "byte \<Rightarrow> bool" where
  "rcp_ep_gpio_pin_index_valid pin_index \<longleftrightarrow> unat pin_index < RCP_EP_GPIO_MAX_PINS"

definition rcp_ep_gpio_pin_mask :: "byte \<Rightarrow> u32" where
  "rcp_ep_gpio_pin_mask pin_index =
     (if \<not> rcp_ep_gpio_pin_index_valid pin_index then 0 else push_bit (unat pin_index) 1)"

definition rcp_ep_gpio_pin_get :: "u32 \<Rightarrow> byte \<Rightarrow> bool" where
  "rcp_ep_gpio_pin_get bitmask pin_index \<longleftrightarrow> bitmask AND rcp_ep_gpio_pin_mask pin_index \<noteq> 0"

definition rcp_ep_gpio_write_semantics_valid :: "byte \<Rightarrow> bool" where
  "rcp_ep_gpio_write_semantics_valid v \<longleftrightarrow> v \<le> gpio_write_code RCP_EP_GPIO_WRITE_RECONFIG"

fun rcp_ep_gpio_apply_write :: "u32 \<Rightarrow> u32 \<Rightarrow> rcp_ep_gpio_write_semantics_t \<Rightarrow> u32" where
  "rcp_ep_gpio_apply_write current request RCP_EP_GPIO_WRITE_REPLACE = request"
| "rcp_ep_gpio_apply_write current request RCP_EP_GPIO_WRITE_OR = current OR request"
| "rcp_ep_gpio_apply_write current request RCP_EP_GPIO_WRITE_AND = current AND request"
| "rcp_ep_gpio_apply_write current request RCP_EP_GPIO_WRITE_XOR = current XOR request"
| "rcp_ep_gpio_apply_write current request RCP_EP_GPIO_WRITE_ADD =
     (let sum = (ucast current :: u64) + ucast request
      in if sum > 0xFFFFFFFF then 0xFFFFFFFF else ucast sum)"
| "rcp_ep_gpio_apply_write current request RCP_EP_GPIO_WRITE_SUB =
     (if current > request then 0 else request - current)"
| "rcp_ep_gpio_apply_write current request RCP_EP_GPIO_WRITE_RESERVED4 = current"
| "rcp_ep_gpio_apply_write current request RCP_EP_GPIO_WRITE_RECONFIG = current"

definition rcp_ep_gpio_toggle_pin_direction :: "bytes \<Rightarrow> u32 \<Rightarrow> bytes" where
  "rcp_ep_gpio_toggle_pin_direction pins toggle_mask =
     map (\<lambda>i. let p = pins ! i in
       if toggle_mask AND rcp_ep_gpio_pin_mask (of_nat i) = 0 then p
       else if p AND RCP_REGMAP_PIN_PROP_OUTPUT \<noteq> 0
       then (p AND NOT RCP_REGMAP_PIN_PROP_OUTPUT) OR RCP_REGMAP_PIN_PROP_INPUT
       else (p AND NOT RCP_REGMAP_PIN_PROP_INPUT) OR RCP_REGMAP_PIN_PROP_OUTPUT)
     [0..<RCP_EP_GPIO_MAX_PINS]"

text \<open>The loop that collects the mask of the output pins.\<close>

definition output_mask :: "bytes \<Rightarrow> nat list \<Rightarrow> u32" where
  "output_mask pins is =
     foldl (\<lambda>m i. if pins ! i AND RCP_REGMAP_PIN_PROP_OUTPUT \<noteq> 0
                  then m OR rcp_ep_gpio_pin_mask (of_nat i) else m) 0 is"

definition rcp_ep_gpio_apply_masked_write ::
    "u32 \<Rightarrow> u32 \<Rightarrow> rcp_ep_gpio_write_semantics_t \<Rightarrow> bytes \<Rightarrow> u32" where
  "rcp_ep_gpio_apply_masked_write current request evt pins =
     (let combined = rcp_ep_gpio_apply_write current request evt;
          m = output_mask pins [0..<RCP_EP_GPIO_MAX_PINS]
      in (combined AND m) OR (current AND NOT m))"

section \<open>Triggers and debouncing\<close>

fun rcp_ep_gpio_trigger_fires :: "rcp_ep_gpio_trigger_t \<Rightarrow> bool \<Rightarrow> bool \<Rightarrow> bool" where
  "rcp_ep_gpio_trigger_fires RCP_EP_GPIO_TRIGGER_ANY_CHANGE prev_level new_level = (prev_level \<noteq> new_level)"
| "rcp_ep_gpio_trigger_fires RCP_EP_GPIO_TRIGGER_RISING prev_level new_level = (\<not> prev_level \<and> new_level)"
| "rcp_ep_gpio_trigger_fires RCP_EP_GPIO_TRIGGER_FALLING prev_level new_level = (prev_level \<and> \<not> new_level)"
| "rcp_ep_gpio_trigger_fires RCP_EP_GPIO_TRIGGER_NONE prev_level new_level = False"

definition rcp_ep_gpio_trigger_signal_number :: "byte \<Rightarrow> rcp_ep_gpio_trigger_t \<Rightarrow> byte option" where
  "rcp_ep_gpio_trigger_signal_number pin_index trigger =
     (if unat pin_index \<ge> RCP_EP_GPIO_MAX_PINS then None
      else if trigger = RCP_EP_GPIO_TRIGGER_NONE then None
      else Some (3 * pin_index + gpio_trigger_code trigger))"

definition rcp_ep_gpio_debounce_state_init :: rcp_ep_gpio_debounce_state_t where
  "rcp_ep_gpio_debounce_state_init =
     \<lparr>has_settled = False, settled_value = False, has_candidate = False, candidate_value = False,
      consecutive_count = 0\<rparr>"

text \<open>The new state, the change flag and the returned value.\<close>

definition rcp_ep_gpio_debounce_sample ::
    "rcp_ep_gpio_debounce_state_t \<Rightarrow> bool \<Rightarrow> byte \<Rightarrow> rcp_ep_gpio_debounce_state_t \<times> bool \<times> bool" where
  "rcp_ep_gpio_debounce_sample s raw_value n =
     (let prev_settled = (has_settled s \<and> settled_value s) in
      if n = 0 then
        (let changed = (has_settled s \<and> prev_settled \<noteq> raw_value);
             s = s\<lparr>has_candidate := False, has_settled := True, settled_value := raw_value\<rparr>
         in (s, changed, settled_value s))
      else
        let s = (if \<not> has_candidate s \<or> candidate_value s \<noteq> raw_value
                 then s\<lparr>has_candidate := True, candidate_value := raw_value, consecutive_count := 1\<rparr>
                 else if consecutive_count s < 0xFF
                 then s\<lparr>consecutive_count := consecutive_count s + 1\<rparr>
                 else s)
        in let (s, changed) =
                 (if consecutive_count s \<ge> n \<and> (\<not> has_settled s \<or> settled_value s \<noteq> candidate_value s)
                  then (s\<lparr>has_settled := True, settled_value := candidate_value s\<rparr>, has_settled s)
                  else (s, False))
           in (s, changed, if has_settled s then settled_value s else False))"

definition rcp_ep_gpio_response_timing :: "byte \<Rightarrow> nat \<Rightarrow> rcp_ep_gpio_response_timing_t" where
  "rcp_ep_gpio_response_timing op payload_len =
     (if op = RCP_ACF_OP_WRITE then RCP_EP_GPIO_RESPONSE_AFTER_DEBOUNCE
      else if op = RCP_ACF_OP_READ then
        (if payload_len = 0 then RCP_EP_GPIO_RESPONSE_IMMEDIATE
         else RCP_EP_GPIO_RESPONSE_AFTER_DEBOUNCE)
      else RCP_EP_GPIO_RESPONSE_IMMEDIATE)"

section \<open>Functional configuration\<close>

definition rcp_ep_gpio_functional_cfg_init :: rcp_ep_gpio_functional_cfg_t where
  "rcp_ep_gpio_functional_cfg_init =
     \<lparr>gpio_common = rcp_regmap_ep_functional_cfg_init,
      gpio_pins = replicate RCP_EP_GPIO_MAX_PINS \<lparr>pin_property = 0, pin_trigger = 0\<rparr>,
      gpio_ep_status = 0, gpio_clk_divider = 0, gpio_debounce = replicate RCP_EP_GPIO_MAX_PINS 0\<rparr>"

definition rcp_ep_gpio_functional_cfg_writable ::
    "rcp_lifecycle_state_t \<Rightarrow> rcp_lifecycle_writer_ctx_t \<Rightarrow> bool" where
  "rcp_ep_gpio_functional_cfg_writable state writer =
     rcp_lifecycle_field_writable state RCP_LIFECYCLE_FIELD_FUNCTIONAL_W writer"

definition rcp_ep_gpio_set_pin_property ::
    "rcp_ep_gpio_functional_cfg_t \<Rightarrow> byte \<Rightarrow> byte \<Rightarrow> rcp_lifecycle_state_t \<Rightarrow>
     rcp_lifecycle_writer_ctx_t \<Rightarrow> bool \<times> rcp_ep_gpio_functional_cfg_t" where
  "rcp_ep_gpio_set_pin_property cfg pin_index property state writer =
     (if \<not> rcp_ep_gpio_pin_index_valid pin_index then (False, cfg)
      else if \<not> rcp_ep_gpio_functional_cfg_writable state writer then (False, cfg)
      else (True, cfg\<lparr>gpio_pins := (gpio_pins cfg)[unat pin_index :=
              (gpio_pins cfg ! unat pin_index)\<lparr>pin_property := property\<rparr>]\<rparr>))"

definition rcp_ep_gpio_set_pin_trigger ::
    "rcp_ep_gpio_functional_cfg_t \<Rightarrow> byte \<Rightarrow> rcp_ep_gpio_trigger_t \<Rightarrow> rcp_lifecycle_state_t \<Rightarrow>
     rcp_lifecycle_writer_ctx_t \<Rightarrow> bool \<times> rcp_ep_gpio_functional_cfg_t" where
  "rcp_ep_gpio_set_pin_trigger cfg pin_index trigger state writer =
     (if \<not> rcp_ep_gpio_pin_index_valid pin_index then (False, cfg)
      else if \<not> rcp_ep_gpio_functional_cfg_writable state writer then (False, cfg)
      else (True, cfg\<lparr>gpio_pins := (gpio_pins cfg)[unat pin_index :=
              (gpio_pins cfg ! unat pin_index)\<lparr>pin_trigger := gpio_trigger_code trigger\<rparr>]\<rparr>))"

section \<open>The register block\<close>

definition rcp_ep_gpio_render_registers :: "rcp_ep_gpio_functional_cfg_t \<Rightarrow> bytes" where
  "rcp_ep_gpio_render_registers cfg =
     [of_nat RCP_EP_GPIO_EP_FUNC_LEN, of_nat RCP_EP_GPIO_MAX_PINS,
      enable_clr_octet (gpio_common cfg), options_octet (gpio_common cfg)] @
     put_u16 0 @ put_u16 (gpio_ep_status cfg) @ [gpio_clk_divider cfg] @
     map (\<lambda>i. gpio_debounce cfg ! i) [0..<RCP_EP_GPIO_MAX_PINS]"

definition gpio_parse_registers ::
    "rcp_ep_gpio_functional_cfg_t \<Rightarrow> bytes \<Rightarrow> rcp_ep_gpio_functional_cfg_t" where
  "gpio_parse_registers cfg img =
     cfg\<lparr>gpio_common := parse_common (img ! RCP_EP_GPIO_REG_EP_ENABLE_CLR) (img ! RCP_EP_GPIO_REG_EP_OPTIONS),
         gpio_ep_status := get_u16 (drop RCP_EP_GPIO_REG_EP_STATUS img),
         gpio_clk_divider := img ! RCP_EP_GPIO_REG_CLK_DIVIDER,
         gpio_debounce := map (\<lambda>i. img ! (RCP_EP_GPIO_REG_DEBOUNCE_IO0 + i)) [0..<RCP_EP_GPIO_MAX_PINS]\<rparr>"

definition gpio_reg_offset_read_only :: "nat \<Rightarrow> bool" where
  "gpio_reg_offset_read_only addr \<longleftrightarrow>
     addr = RCP_EP_GPIO_REG_EP_LEN \<or> addr = RCP_EP_GPIO_REG_IO_MAX \<or>
     addr = RCP_EP_GPIO_REG_BASE_CLK \<or> addr = RCP_EP_GPIO_REG_BASE_CLK + 1"

definition rcp_ep_gpio_apply_reconfig ::
    "rcp_ep_gpio_functional_cfg_t \<Rightarrow> bytes \<Rightarrow> rcp_ep_gpio_reconfig_errc_t \<times> rcp_ep_gpio_functional_cfg_t"
  where
  "rcp_ep_gpio_apply_reconfig =
     apply_block rcp_ep_gpio_render_registers gpio_parse_registers gpio_reg_offset_read_only
       RCP_EP_GPIO_EP_FUNC_LEN RCP_EP_GPIO_RECONFIG_OK RCP_EP_GPIO_RECONFIG_ERR_SHORT
       RCP_EP_GPIO_RECONFIG_ERR_OUT_OF_RANGE"

definition rcp_ep_gpio_encode_reconfig_request ::
    "bool \<Rightarrow> bool \<Rightarrow> rcp_byte_bus_id_t \<Rightarrow> u16 \<Rightarrow> bytes \<Rightarrow> byte \<Rightarrow> rcp_bytes_t" where
  "rcp_ep_gpio_encode_reconfig_request mem_payload mem_frame bus start_address data tn =
     encode_reconfig mem_payload mem_frame bus start_address data tn"

section \<open>Messages\<close>

fun rcp_ep_gpio_wire_error :: "rcp_ep_gpio_errc_t \<Rightarrow> rcp_wire_error_t" where
  "rcp_ep_gpio_wire_error RCP_EP_GPIO_ERR_BAD_PAYLOAD_LEN = RCP_ERROR_INVALID_PARAMETER"
| "rcp_ep_gpio_wire_error RCP_EP_GPIO_ERR_RESERVED_EVT = RCP_ERROR_UNSUPPORTED_CMD"
| "rcp_ep_gpio_wire_error _ = RCP_ERROR_NONE"

definition rcp_ep_gpio_encode_read_request :: "bool \<Rightarrow> rcp_byte_bus_id_t \<Rightarrow> byte \<Rightarrow> rcp_bytes_t" where
  "rcp_ep_gpio_encode_read_request mem bus tn =
     rcp_acf_encode_abb mem
       (zero_info\<lparr>bm_byte_bus_id := bus, bm_op := RCP_ACF_OP_READ, bm_transaction_num := tn\<rparr>) []"

definition rcp_ep_gpio_decode_read_request ::
    "bytes \<Rightarrow> rcp_byte_bus_id_t \<Rightarrow> rcp_ep_gpio_errc_t + byte" where
  "rcp_ep_gpio_decode_read_request b expected_bus =
     (case decode_request_frame RCP_EP_GPIO_ERR_SHORT_FRAME RCP_EP_GPIO_ERR_BAD_MSG_TYPE b of
        Inl e \<Rightarrow> Inl e
      | Inr (hdr, payload) \<Rightarrow>
          if bm_byte_bus_id hdr \<noteq> expected_bus then Inl RCP_EP_GPIO_ERR_WRONG_BUS
          else if bm_op hdr \<noteq> RCP_ACF_OP_READ then Inl RCP_EP_GPIO_ERR_WRONG_OP
          else Inr (bm_transaction_num hdr))"

definition rcp_ep_gpio_encode_write_request ::
    "bool \<Rightarrow> rcp_byte_bus_id_t \<Rightarrow> u32 \<Rightarrow> rcp_ep_gpio_write_semantics_t \<Rightarrow> byte \<Rightarrow> rcp_bytes_t" where
  "rcp_ep_gpio_encode_write_request mem bus bitmask evt tn =
     rcp_acf_encode_abb mem
       (zero_info\<lparr>bm_byte_bus_id := bus, bm_op := RCP_ACF_OP_WRITE,
                  bm_evt := gpio_write_code evt AND 0x7, bm_transaction_num := tn\<rparr>)
       (put_u32 bitmask)"

definition rcp_ep_gpio_decode_write_request ::
    "bytes \<Rightarrow> rcp_byte_bus_id_t \<Rightarrow> rcp_ep_gpio_errc_t + (u32 \<times> byte \<times> byte)" where
  "rcp_ep_gpio_decode_write_request b expected_bus =
     (case decode_request_frame RCP_EP_GPIO_ERR_SHORT_FRAME RCP_EP_GPIO_ERR_BAD_MSG_TYPE b of
        Inl e \<Rightarrow> Inl e
      | Inr (hdr, payload) \<Rightarrow>
          if bm_byte_bus_id hdr \<noteq> expected_bus then Inl RCP_EP_GPIO_ERR_WRONG_BUS
          else if bm_op hdr \<noteq> RCP_ACF_OP_WRITE then Inl RCP_EP_GPIO_ERR_WRONG_OP
          else if length payload \<noteq> RCP_EP_GPIO_PAYLOAD_LEN then Inl RCP_EP_GPIO_ERR_BAD_PAYLOAD_LEN
          else if bm_evt hdr AND 0x7 = gpio_write_code RCP_EP_GPIO_WRITE_RESERVED4
          then Inl RCP_EP_GPIO_ERR_RESERVED_EVT
          else Inr (get_u32 payload, bm_evt hdr AND 0x7, bm_transaction_num hdr))"

definition rcp_ep_gpio_encode_response ::
    "bool \<Rightarrow> rcp_byte_bus_id_t \<Rightarrow> u32 \<Rightarrow> byte \<Rightarrow> bool \<Rightarrow> u64 \<Rightarrow> rcp_bytes_t" where
  "rcp_ep_gpio_encode_response mem bus bitmask tn timed timestamp =
     response_frame mem bus RCP_ACF_OP_READ 0 (put_u32 bitmask) tn timed timestamp"

definition rcp_ep_gpio_decode_response ::
    "bytes \<Rightarrow> rcp_byte_bus_id_t \<Rightarrow> rcp_ep_gpio_errc_t + (u32 \<times> bool \<times> u64 \<times> byte)" where
  "rcp_ep_gpio_decode_response b expected_bus =
     (case decode_response_frame RCP_EP_GPIO_ERR_SHORT_FRAME RCP_EP_GPIO_ERR_BAD_MSG_TYPE b of
        Inl e \<Rightarrow> Inl e
      | Inr (hdr, timed, timestamp, payload) \<Rightarrow>
          if bm_byte_bus_id hdr \<noteq> expected_bus then Inl RCP_EP_GPIO_ERR_WRONG_BUS
          else if length payload \<noteq> RCP_EP_GPIO_PAYLOAD_LEN then Inl RCP_EP_GPIO_ERR_BAD_PAYLOAD_LEN
          else Inr (get_u32 payload, timed, timestamp, bm_transaction_num hdr))"

section \<open>What a write does to the pins\<close>

lemma bit_pin_mask: "i < 32 \<Longrightarrow> bit (rcp_ep_gpio_pin_mask (of_nat i)) j \<longleftrightarrow> j = i"
proof -
  assume "i < 32"
  then have "unat (of_nat i :: byte) = i" by (simp add: unat_of_nat)
  with \<open>i < 32\<close> show ?thesis
    by (auto simp: rcp_ep_gpio_pin_mask_def rcp_ep_gpio_pin_index_valid_def consts_rcp bit_simps)
qed

lemma output_flag: "(p AND RCP_REGMAP_PIN_PROP_OUTPUT \<noteq> 0) = bit p 0"
  unfolding RCP_REGMAP_PIN_PROP_OUTPUT_def by (rule flag_set)

lemma bit_output_mask:
  "set is \<subseteq> {..<32} \<Longrightarrow> bit (output_mask pins is) j \<longleftrightarrow> j \<in> set is \<and> bit (pins ! j) 0"
proof (induction "is" rule: rev_induct)
  case (snoc i "is")
  then show ?case by (auto simp: output_mask_def bit_or_iff bit_pin_mask output_flag)
qed (simp add: output_mask_def)

lemma apply_write_arith:
  "unat (rcp_ep_gpio_apply_write current request RCP_EP_GPIO_WRITE_ADD) =
     min (2 ^ 32 - 1) (unat current + unat request)"
  "unat (rcp_ep_gpio_apply_write current request RCP_EP_GPIO_WRITE_SUB) = unat request - unat current"
proof -
  have b: "unat current < 2 ^ 32" "unat request < 2 ^ 32"
    using unsigned_less [of current, where 'a = nat] unsigned_less [of request, where 'a = nat] by simp_all
  let ?s = "(ucast current :: u64) + ucast request"
  have s: "unat ?s = unat current + unat request"
    using b by (simp add: unat_word_ariths unsigned_ucast_eq take_bit_nat_eq_self)
  have g: "?s > 0xFFFFFFFF \<longleftrightarrow> unat current + unat request > 2 ^ 32 - 1"
    unfolding word_less_nat_alt s by simp
  have u: "unat (ucast ?s :: u32) = unat current + unat request"
    if "unat current + unat request \<le> 2 ^ 32 - 1"
    using that s by (simp add: unsigned_ucast_eq take_bit_nat_eq_self)
  show "unat (rcp_ep_gpio_apply_write current request RCP_EP_GPIO_WRITE_ADD) =
      min (2 ^ 32 - 1) (unat current + unat request)"
    using g u by (auto simp: Let_def min_def)
  show "unat (rcp_ep_gpio_apply_write current request RCP_EP_GPIO_WRITE_SUB) = unat request - unat current"
    by (auto simp: word_less_nat_alt not_less unat_sub word_le_nat_alt)
qed

text \<open>C30: A GPIO write changes output pins only, and changes them to the bits of the combined value:
  the request itself, the bitwise or, and, exclusive or with the current value, the sum and the difference
  request minus current as numbers that saturate at the ends of 32 bits, and the current value for the
  reserved and the configuration codes.\<close>

theorem gpio_write_exact:
  assumes "j < 32"
  shows "bit (rcp_ep_gpio_apply_masked_write current request evt pins) j =
      (if bit (pins ! j) 0 then bit (rcp_ep_gpio_apply_write current request evt) j else bit current j) \<and>
    (case evt of
       RCP_EP_GPIO_WRITE_REPLACE \<Rightarrow> bit (rcp_ep_gpio_apply_write current request evt) j = bit request j
     | RCP_EP_GPIO_WRITE_OR \<Rightarrow>
         bit (rcp_ep_gpio_apply_write current request evt) j = (bit current j \<or> bit request j)
     | RCP_EP_GPIO_WRITE_AND \<Rightarrow>
         bit (rcp_ep_gpio_apply_write current request evt) j = (bit current j \<and> bit request j)
     | RCP_EP_GPIO_WRITE_XOR \<Rightarrow>
         bit (rcp_ep_gpio_apply_write current request evt) j = (bit current j \<noteq> bit request j)
     | RCP_EP_GPIO_WRITE_ADD \<Rightarrow> unat (rcp_ep_gpio_apply_write current request evt) =
         min (2 ^ 32 - 1) (unat current + unat request)
     | RCP_EP_GPIO_WRITE_SUB \<Rightarrow> unat (rcp_ep_gpio_apply_write current request evt) =
         unat request - unat current
     | _ \<Rightarrow> rcp_ep_gpio_apply_write current request evt = current)"
proof
  have "set [0..<RCP_EP_GPIO_MAX_PINS] \<subseteq> {..<32}" by (auto simp: consts_rcp)
  from bit_output_mask [OF this, of pins j] assms
  have "bit (output_mask pins [0..<RCP_EP_GPIO_MAX_PINS]) j = bit (pins ! j) 0" by (simp add: consts_rcp)
  then show "bit (rcp_ep_gpio_apply_masked_write current request evt pins) j =
      (if bit (pins ! j) 0 then bit (rcp_ep_gpio_apply_write current request evt) j else bit current j)"
    using assms by (auto simp: rcp_ep_gpio_apply_masked_write_def Let_def bit_simps)
qed (use apply_write_arith [of current request] in \<open>cases evt; simp add: bit_simps\<close>)

theorem gpio_write_exact_witness:
  "bit (rcp_ep_gpio_apply_masked_write 0xF0 0x0F RCP_EP_GPIO_WRITE_OR (replicate 4 2 @ replicate 28 1)) 3 = False \<and>
   bit (rcp_ep_gpio_apply_masked_write 0xF0 0x1F RCP_EP_GPIO_WRITE_XOR (replicate 4 2 @ replicate 28 1)) 4 = False"
  using gpio_write_exact [of 3 "0xF0" "0x0F" RCP_EP_GPIO_WRITE_OR "replicate 4 2 @ replicate 28 1"]
    gpio_write_exact [of 4 "0xF0" "0x1F" RCP_EP_GPIO_WRITE_XOR "replicate 4 2 @ replicate 28 1"]
  by (simp add: nth_append word_bits)

section \<open>The debounce filter\<close>

text \<open>The reference: the value of the latest run of at least \<open>n\<close> equal samples; the history has its
  latest sample first.\<close>

definition run_length :: "bool list \<Rightarrow> nat" where
  "run_length h = length (takeWhile (\<lambda>y. y = hd h) h)"

fun debounced :: "nat \<Rightarrow> bool list \<Rightarrow> bool option" where
  "debounced n [] = None"
| "debounced n (x # xs) = (if n \<le> run_length (x # xs) then Some x else debounced n xs)"

definition debounce_state :: "byte \<Rightarrow> bool list \<Rightarrow> rcp_ep_gpio_debounce_state_t" where
  "debounce_state n xs =
     foldl (\<lambda>s x. fst (rcp_ep_gpio_debounce_sample s x n)) rcp_ep_gpio_debounce_state_init xs"

definition debounce_inv :: "byte \<Rightarrow> bool list \<Rightarrow> rcp_ep_gpio_debounce_state_t \<Rightarrow> bool" where
  "debounce_inv n h s \<longleftrightarrow>
     debounced (unat n) h = (if has_settled s then Some (settled_value s) else None) \<and>
     (n \<noteq> 0 \<longrightarrow> has_candidate s = (h \<noteq> []) \<and>
       (h \<noteq> [] \<longrightarrow> candidate_value s = hd h \<and> unat (consecutive_count s) = min 255 (run_length h)))"

lemma run_length_Cons:
  "run_length (x # h) = (if h \<noteq> [] \<and> hd h = x then Suc (run_length h) else 1)"
  by (cases h) (auto simp: run_length_def)

text \<open>The candidate after a sample counts the run that ends with it.\<close>

lemma candidate_step:
  assumes "debounce_inv n h s" and "n \<noteq> 0"
    and "s' = (if \<not> has_candidate s \<or> candidate_value s \<noteq> x
                 then s\<lparr>has_candidate := True, candidate_value := x, consecutive_count := 1\<rparr>
                 else if consecutive_count s < 0xFF
                 then s\<lparr>consecutive_count := consecutive_count s + 1\<rparr>
                 else s)"
  shows "has_candidate s'" "candidate_value s' = x"
    "unat (consecutive_count s') = min 255 (run_length (x # h))"
    "has_settled s' = has_settled s" "settled_value s' = settled_value s"
proof -
  have "unat (consecutive_count s + 1) = Suc (unat (consecutive_count s))"
    if "consecutive_count s < 0xFF"
    using that by (simp add: unat_word_ariths word_less_nat_alt)
  moreover have "unat (consecutive_count s) = 255" if "\<not> consecutive_count s < 0xFF"
    using that unsigned_less [of "consecutive_count s", where 'a = nat]
    by (simp add: word_less_nat_alt not_less)
  ultimately show "unat (consecutive_count s') = min 255 (run_length (x # h))"
    using assms by (auto simp: debounce_inv_def run_length_Cons word_less_nat_alt min_def)
qed (use assms in \<open>auto simp: debounce_inv_def\<close>)

lemma debounce_step:
  assumes "debounce_inv n h s" and "rcp_ep_gpio_debounce_sample s x n = (s', changed, out)"
  shows "debounce_inv n (x # h) s' \<and>
    (changed \<longleftrightarrow> debounced (unat n) h \<noteq> None \<and> debounced (unat n) (x # h) \<noteq> debounced (unat n) h) \<and>
    (out \<longleftrightarrow> debounced (unat n) (x # h) = Some True)"
proof (cases "n = 0")
  case True
  then show ?thesis using assms
    by (auto simp: debounce_inv_def rcp_ep_gpio_debounce_sample_def Let_def)
next
  case False
  define s1 where "s1 = (if \<not> has_candidate s \<or> candidate_value s \<noteq> x
                 then s\<lparr>has_candidate := True, candidate_value := x, consecutive_count := 1\<rparr>
                 else if consecutive_count s < 0xFF
                 then s\<lparr>consecutive_count := consecutive_count s + 1\<rparr>
                 else s)"
  note c = candidate_step [OF assms(1) False s1_def]
  have "unat n \<le> 255" using unsigned_less [of n, where 'a = nat] by simp
  then have ge: "consecutive_count s1 \<ge> n \<longleftrightarrow> unat n \<le> run_length (x # h)"
    using c(3) by (auto simp: word_le_nat_alt)
  have d: "debounced (unat n) h = (if has_settled s1 then Some (settled_value s1) else None)"
    using assms(1) c(4,5) by (simp add: debounce_inv_def)
  have "(s', changed, out) =
      (let (s, changed) =
                 (if consecutive_count s1 \<ge> n \<and> (\<not> has_settled s1 \<or> settled_value s1 \<noteq> candidate_value s1)
                  then (s1\<lparr>has_settled := True, settled_value := candidate_value s1\<rparr>, has_settled s1)
                  else (s1, False))
           in (s, changed, if has_settled s then settled_value s else False))"
    using assms(2) False by (simp only: rcp_ep_gpio_debounce_sample_def Let_def s1_def if_False)
  then show ?thesis using False c(1-3) ge d
    by (auto simp: debounce_inv_def split: if_splits)
qed

lemma debounce_state_inv: "debounce_inv n (rev xs) (debounce_state n xs)"
proof (induction xs rule: rev_induct)
  case Nil
  show ?case by (simp add: debounce_inv_def debounce_state_def rcp_ep_gpio_debounce_state_init_def)
next
  case (snoc x xs)
  obtain s' c v where "rcp_ep_gpio_debounce_sample (debounce_state n xs) x n = (s', c, v)"
    by (metis prod.collapse)
  with debounce_step [OF snoc this] show ?case by (simp add: debounce_state_def)
qed

text \<open>C4: Whatever samples a pin delivered, the debounce filter with its saturating one-octet counter
  returns the value of the latest run of \<open>n\<close> equal samples (false before there was one), and reports a
  change exactly when this value differs from the one settled before.\<close>

theorem debounce_reference:
  "snd (rcp_ep_gpio_debounce_sample (debounce_state n xs) x n) =
     (debounced (unat n) (rev xs) \<noteq> None \<and> debounced (unat n) (x # rev xs) \<noteq> debounced (unat n) (rev xs),
      debounced (unat n) (x # rev xs) = Some True)"
proof -
  obtain s' c v where "rcp_ep_gpio_debounce_sample (debounce_state n xs) x n = (s', c, v)"
    by (metis prod.collapse)
  with debounce_step [OF debounce_state_inv this] show ?thesis by simp
qed

section \<open>Configuration writes\<close>

definition gpio_wf :: "rcp_ep_gpio_functional_cfg_t \<Rightarrow> bool" where
  "gpio_wf c \<longleftrightarrow> length (gpio_debounce c) = 32"

lemma nth_gpio_registers:
  "i < 41 \<Longrightarrow> rcp_ep_gpio_render_registers c ! i =
     (if i < 9 then [0x29, 32, enable_clr_octet (gpio_common c), options_octet (gpio_common c), 0, 0,
        put_u16 (gpio_ep_status c) ! 0, put_u16 (gpio_ep_status c) ! 1, gpio_clk_divider c] ! i
      else gpio_debounce c ! (i - 9))"
  by (auto simp: rcp_ep_gpio_render_registers_def consts_rcp put_u16_def nth_append nth_Cons' less_Suc_eq numeral_eq_Suc)

lemma gpio_parse_nth:
  assumes "length img = 41" and "\<And>i. i < 41 \<Longrightarrow> gpio_reg_offset_read_only i \<Longrightarrow>
      img ! i = rcp_ep_gpio_render_registers c ! i" and "i < 41"
  shows "rcp_ep_gpio_render_registers (gpio_parse_registers c img) ! i = flag_canon i (img ! i)"
proof (cases "i < 9")
  case True
  have ro: "img ! 0 = 0x29" "img ! Suc 0 = 32" "img ! 4 = 0" "img ! 5 = 0"
    using assms(2) [of 0] assms(2) [of 1] assms(2) [of 4] assms(2) [of 5]
    by (simp_all add: gpio_reg_offset_read_only_def consts_rcp nth_gpio_registers)
  have st: "put_u16 (get_u16 (drop 6 img)) = [img ! 6, img ! 7]"
    using assms(1) by (simp add: put_get_u16_at)
  have "i \<in> {0, 1, 2, 3, 4, 5, 6, 7, 8}" using True by auto
  then show ?thesis
    by (auto simp: nth_gpio_registers gpio_parse_registers_def consts_rcp common_octets_parse st ro flag_canon_def)
next
  case False
  then obtain k where "i = 9 + k" using le_Suc_ex [of 9 i] by auto
  then show ?thesis using assms(3)
    by (simp add: nth_gpio_registers gpio_parse_registers_def consts_rcp flag_canon_def)
qed

lemma gpio_parse_wf: "gpio_wf (gpio_parse_registers c img)"
  by (simp add: gpio_wf_def gpio_parse_registers_def consts_rcp)

lemma gpio_canon_ro: "gpio_reg_offset_read_only i \<Longrightarrow> flag_canon i d = d"
  by (auto simp: gpio_reg_offset_read_only_def flag_canon_def consts_rcp)

interpretation gpio_regs: readback_block rcp_ep_gpio_render_registers gpio_parse_registers
  gpio_reg_offset_read_only RCP_EP_GPIO_EP_FUNC_LEN gpio_wf RCP_EP_GPIO_RECONFIG_OK
  RCP_EP_GPIO_RECONFIG_ERR_SHORT RCP_EP_GPIO_RECONFIG_ERR_OUT_OF_RANGE flag_canon
proof unfold_locales
  fix c
  assume "gpio_wf c"
  then show "length (rcp_ep_gpio_render_registers c) = RCP_EP_GPIO_EP_FUNC_LEN"
    by (simp add: rcp_ep_gpio_render_registers_def consts_rcp)
  have "get_u16 (drop 6 (rcp_ep_gpio_render_registers c)) = gpio_ep_status c"
    by (simp add: rcp_ep_gpio_render_registers_def put_u16_def [of 0] get_put_u16 del: put_u16_def)
  moreover have "map (\<lambda>i. rcp_ep_gpio_render_registers c ! (9 + i)) [0..<32] = gpio_debounce c"
    using \<open>gpio_wf c\<close> by (intro nth_equalityI) (simp_all add: gpio_wf_def nth_gpio_registers)
  ultimately show "gpio_parse_registers c (rcp_ep_gpio_render_registers c) = c"
    by (simp add: gpio_parse_registers_def consts_rcp nth_gpio_registers)
qed (simp_all add: gpio_parse_wf gpio_canon_ro gpio_parse_nth RCP_EP_GPIO_EP_FUNC_LEN_def)

text \<open>A configuration write to the GPIO registers.  It is accepted exactly when it has data and stays
  inside the 41 octets, and otherwise changes nothing.  Afterwards every octet reads back as written,
  apart from the bits of the two flag octets that have no meaning, if it was addressed and is not
  read-only, and as before if not; the pins' properties and triggers are never touched.\<close>

theorem gpio_reconfig_readback:
  assumes "gpio_wf cfg" and "start < 2 ^ 16"
  shows "let (e, cfg') = rcp_ep_gpio_apply_reconfig cfg (put_u16 (of_nat start) @ ds) in
    (e = RCP_EP_GPIO_RECONFIG_OK \<longleftrightarrow> ds \<noteq> [] \<and> start + length ds \<le> 41) \<and>
    (e \<noteq> RCP_EP_GPIO_RECONFIG_OK \<longrightarrow> cfg' = cfg) \<and>
    gpio_wf cfg' \<and> gpio_pins cfg' = gpio_pins cfg \<and>
    (e = RCP_EP_GPIO_RECONFIG_OK \<longrightarrow>
      (\<forall>i<41. rcp_ep_gpio_render_registers cfg' ! i =
        (if start \<le> i \<and> i < start + length ds \<and> i \<notin> {0, 1, 4, 5}
         then flag_canon i (ds ! (i - start)) else rcp_ep_gpio_render_registers cfg ! i)))"
proof -
  let ?p = "put_u16 (of_nat start) @ ds"
  have u: "unat (of_nat start :: u16) = start" using assms(2) by (simp add: unat_of_nat)
  have ok: "fst (rcp_ep_gpio_apply_reconfig cfg ?p) = RCP_EP_GPIO_RECONFIG_OK \<longleftrightarrow>
      ds \<noteq> [] \<and> start + length ds \<le> 41"
    using gpio_regs.refused(1) [of cfg ?p] u by (auto simp: rcp_ep_gpio_apply_reconfig_def consts_rcp)
  have pins: "gpio_pins (snd (rcp_ep_gpio_apply_reconfig cfg ?p)) = gpio_pins cfg"
    by (simp add: rcp_ep_gpio_apply_reconfig_def apply_block_def Let_def gpio_parse_registers_def)
  have "rcp_ep_gpio_render_registers (snd (rcp_ep_gpio_apply_reconfig cfg ?p)) ! i =
        (if start \<le> i \<and> i < start + length ds \<and> i \<notin> {0, 1, 4, 5}
         then flag_canon i (ds ! (i - start)) else rcp_ep_gpio_render_registers cfg ! i)"
    if "ds \<noteq> []" "start + length ds \<le> 41" "i < 41" for i
    using gpio_regs.written_octets [OF assms(1) _ that(1) assms(2), of i] that
    by (simp add: rcp_ep_gpio_apply_reconfig_def gpio_reg_offset_read_only_def consts_rcp)
  then show ?thesis
    using ok pins gpio_regs.refused(2) [of cfg ?p] gpio_regs.apply_wf [OF assms(1), of ?p]
    by (simp add: case_prod_unfold Let_def rcp_ep_gpio_apply_reconfig_def)
qed

theorem gpio_reconfig_readback_witness:
  "rcp_ep_gpio_render_registers (snd (rcp_ep_gpio_apply_reconfig rcp_ep_gpio_functional_cfg_init
     (put_u16 (of_nat 1) @ [9, 0xFF, 0xFF]))) ! 2 = 0x11"
  using gpio_reconfig_readback [of rcp_ep_gpio_functional_cfg_init 1 "[9, 0xFF, 0xFF]"]
  by (simp add: case_prod_unfold Let_def gpio_wf_def rcp_ep_gpio_functional_cfg_init_def consts_rcp flag_canon_def)

section \<open>Messages\<close>

text \<open>the GPIO messages survive the wire: read requests, write requests with their value and code (the
  reserved code is refused with its own error, for which the wire error is the unsupported command), and
  responses with and without a timestamp.\<close>

theorem gpio_messages_roundtrip:
  assumes "bus < 0x800"
  shows "(\<exists>f. rcp_ep_gpio_encode_read_request True bus tn = Some f \<and>
      rcp_ep_gpio_decode_read_request (f @ rest) bus = Inr tn \<and>
      rcp_ep_gpio_decode_write_request (f @ rest) bus = Inl RCP_EP_GPIO_ERR_WRONG_OP) \<and>
    (\<exists>f. rcp_ep_gpio_encode_write_request True bus v evt tn = Some f \<and>
      rcp_ep_gpio_decode_write_request (f @ rest) bus =
        (if evt = RCP_EP_GPIO_WRITE_RESERVED4 then Inl RCP_EP_GPIO_ERR_RESERVED_EVT
         else Inr (v, gpio_write_code evt, tn))) \<and>
    (\<exists>f. rcp_ep_gpio_encode_response True bus v tn timed ts = Some f \<and>
      rcp_ep_gpio_decode_response (f @ rest) bus = Inr (v, timed, if timed then ts else 0, tn))"
proof (intro conjI)
  note c = abb_canon_def info_canon_def Let_def zero_info_def bus_canon [OF assms] consts_rcp
  show "\<exists>f. rcp_ep_gpio_encode_read_request True bus tn = Some f \<and>
      rcp_ep_gpio_decode_read_request (f @ rest) bus = Inr tn \<and>
      rcp_ep_gpio_decode_write_request (f @ rest) bus = Inl RCP_EP_GPIO_ERR_WRONG_OP"
    using request_wire [of "[]" "zero_info\<lparr>bm_byte_bus_id := bus, bm_op := RCP_ACF_OP_READ, bm_transaction_num := tn\<rparr>"
      RCP_EP_GPIO_ERR_SHORT_FRAME RCP_EP_GPIO_ERR_BAD_MSG_TYPE rest]
    by (auto simp: rcp_ep_gpio_encode_read_request_def rcp_ep_gpio_decode_read_request_def
        rcp_ep_gpio_decode_write_request_def c)
  show "\<exists>f. rcp_ep_gpio_encode_write_request True bus v evt tn = Some f \<and>
      rcp_ep_gpio_decode_write_request (f @ rest) bus =
        (if evt = RCP_EP_GPIO_WRITE_RESERVED4 then Inl RCP_EP_GPIO_ERR_RESERVED_EVT
         else Inr (v, gpio_write_code evt, tn))"
    using request_wire [of "put_u32 v" "zero_info\<lparr>bm_byte_bus_id := bus, bm_op := RCP_ACF_OP_WRITE,
                  bm_evt := gpio_write_code evt AND 0x7, bm_transaction_num := tn\<rparr>"
      RCP_EP_GPIO_ERR_SHORT_FRAME RCP_EP_GPIO_ERR_BAD_MSG_TYPE rest] get_put_u32 [of v "[]"]
    by (cases evt) (auto simp: rcp_ep_gpio_encode_write_request_def rcp_ep_gpio_decode_write_request_def c)
  show "\<exists>f. rcp_ep_gpio_encode_response True bus v tn timed ts = Some f \<and>
      rcp_ep_gpio_decode_response (f @ rest) bus = Inr (v, timed, if timed then ts else 0, tn)"
    using response_wire [of "put_u32 v" bus RCP_ACF_OP_READ 0 tn timed ts RCP_EP_GPIO_ERR_SHORT_FRAME
      RCP_EP_GPIO_ERR_BAD_MSG_TYPE rest] get_put_u32 [of v "[]"] assms
    by (auto simp: rcp_ep_gpio_encode_response_def rcp_ep_gpio_decode_response_def consts_rcp)
qed

theorem gpio_messages_roundtrip_witness:
  "\<exists>f. rcp_ep_gpio_encode_response True 5 0xA5A5 9 True 1234 = Some f \<and>
      rcp_ep_gpio_decode_response (f @ []) 5 = Inr (0xA5A5, True, 1234, 9)"
  using gpio_messages_roundtrip [of 5 9 "[]" "0xA5A5" RCP_EP_GPIO_WRITE_OR True 1234] by simp

end
