(* ===== verification/Ep_Adc.thy ===== *)
theory Ep_Adc
  imports Lifecycle Registers
begin

text \<open>
  \<^verbatim>\<open>src/ep_adc.c\<close>: the ADC endpoint: averaging, sample spacing, triggers, functional configuration,
  register block and messages.  Arrays of samples and values are lists; an out-array that is filled only
  on success is part of the result.  The text tables are left out.
\<close>

section \<open>Data\<close>

definition RCP_EP_PWM_IN_NO_SIGNAL :: u16 where [consts_rcp]: "RCP_EP_PWM_IN_NO_SIGNAL = 0xFFFF"
definition RCP_EP_ADC_VALUE_LEN :: nat where [consts_rcp]: "RCP_EP_ADC_VALUE_LEN = 2"
definition RCP_EP_ADC_MAX_VALUES :: nat where
  [consts_rcp]: "RCP_EP_ADC_MAX_VALUES = RCP_ACF_MAX_PAYLOAD div RCP_EP_ADC_VALUE_LEN"
definition RCP_EP_ADC_TRIGGER_BELOW_MIN :: byte where [consts_rcp]: "RCP_EP_ADC_TRIGGER_BELOW_MIN = 0x01"
definition RCP_EP_ADC_TRIGGER_ABOVE_MIN :: byte where [consts_rcp]: "RCP_EP_ADC_TRIGGER_ABOVE_MIN = 0x02"
definition RCP_EP_ADC_TRIGGER_BELOW_MAX :: byte where [consts_rcp]: "RCP_EP_ADC_TRIGGER_BELOW_MAX = 0x04"
definition RCP_EP_ADC_TRIGGER_ABOVE_MAX :: byte where [consts_rcp]: "RCP_EP_ADC_TRIGGER_ABOVE_MAX = 0x08"
definition RCP_EP_ADC_TRIGGER_MEASUREMENT_FINISHED :: byte where
  [consts_rcp]: "RCP_EP_ADC_TRIGGER_MEASUREMENT_FINISHED = 0x10"
definition RCP_EP_ADC_EP_FUNC_LEN :: nat where [consts_rcp]: "RCP_EP_ADC_EP_FUNC_LEN = 0x12"
definition RCP_EP_ADC_REG_EP_LEN :: nat where [consts_rcp]: "RCP_EP_ADC_REG_EP_LEN = 0"
definition RCP_EP_ADC_REG_RESERVED_01 :: nat where [consts_rcp]: "RCP_EP_ADC_REG_RESERVED_01 = 1"
definition RCP_EP_ADC_REG_EP_ENABLE_CLR :: nat where [consts_rcp]: "RCP_EP_ADC_REG_EP_ENABLE_CLR = 2"
definition RCP_EP_ADC_REG_EP_OPTIONS :: nat where [consts_rcp]: "RCP_EP_ADC_REG_EP_OPTIONS = 3"
definition RCP_EP_ADC_REG_BASE_CLK :: nat where [consts_rcp]: "RCP_EP_ADC_REG_BASE_CLK = 4"
definition RCP_EP_ADC_REG_EP_STATUS :: nat where [consts_rcp]: "RCP_EP_ADC_REG_EP_STATUS = 6"
definition RCP_EP_ADC_REG_BASE_CLK_DIVIDER :: nat where [consts_rcp]: "RCP_EP_ADC_REG_BASE_CLK_DIVIDER = 8"
definition RCP_EP_ADC_REG_SAMPLE_INTERVAL :: nat where [consts_rcp]: "RCP_EP_ADC_REG_SAMPLE_INTERVAL = 9"
definition RCP_EP_ADC_REG_AVG_INTERVALS :: nat where [consts_rcp]: "RCP_EP_ADC_REG_AVG_INTERVALS = 10"
definition RCP_EP_ADC_REG_SAMPLES_PER_AVG :: nat where [consts_rcp]: "RCP_EP_ADC_REG_SAMPLES_PER_AVG = 11"
definition RCP_EP_ADC_REG_COMBINE_AVG :: nat where [consts_rcp]: "RCP_EP_ADC_REG_COMBINE_AVG = 12"
definition RCP_EP_ADC_REG_RESOLUTION :: nat where [consts_rcp]: "RCP_EP_ADC_REG_RESOLUTION = 13"
definition RCP_EP_ADC_REG_TRIGGER_MIN :: nat where [consts_rcp]: "RCP_EP_ADC_REG_TRIGGER_MIN = 14"
definition RCP_EP_ADC_REG_TRIGGER_MAX :: nat where [consts_rcp]: "RCP_EP_ADC_REG_TRIGGER_MAX = 16"

record rcp_ep_adc_sample_t =
  smp_value :: u16
  smp_timestamp :: u64

record rcp_ep_adc_avg_value_t =
  avg_value :: u16
  avg_timestamp :: u64

datatype rcp_ep_adc_spacing_result_t = RCP_EP_ADC_SPACING_OK | RCP_EP_ADC_SPACING_VIOLATION

datatype rcp_ep_adc_cadence_case_t =
    RCP_EP_ADC_CADENCE_ACCUMULATE | RCP_EP_ADC_CADENCE_ONE_TO_ONE | RCP_EP_ADC_CADENCE_FAN_OUT

datatype rcp_ep_adc_reconfig_errc_t =
    RCP_EP_ADC_RECONFIG_OK | RCP_EP_ADC_RECONFIG_ERR_SHORT | RCP_EP_ADC_RECONFIG_ERR_OUT_OF_RANGE

datatype rcp_ep_adc_errc_t =
    RCP_EP_ADC_OK | RCP_EP_ADC_ERR_SHORT_FRAME | RCP_EP_ADC_ERR_BAD_MSG_TYPE | RCP_EP_ADC_ERR_WRONG_BUS
  | RCP_EP_ADC_ERR_WRONG_OP | RCP_EP_ADC_ERR_BAD_PAYLOAD_LEN | RCP_EP_ADC_ERR_TOO_MANY_VALUES
  | RCP_EP_ADC_ERR_BAD_EVT

record rcp_ep_adc_functional_cfg_t =
  adc_common :: rcp_regmap_ep_functional_cfg_t
  adc_samples_per_avg_interval :: u16
  adc_avg_intervals_per_request :: u16
  adc_combine_avg_values :: byte
  adc_ep_status :: u16
  adc_base_clk_divider :: byte
  adc_sample_interval :: byte
  adc_resolution :: byte
  adc_trigger_min :: u16
  adc_trigger_max :: u16

record rcp_ep_adc_trigger_state_t =
  adc_has_previous :: bool
  adc_previous_value :: u16

section \<open>Averaging\<close>

definition rcp_ep_adc_response_value_count :: "u16 \<Rightarrow> nat" where
  "rcp_ep_adc_response_value_count read_size =
     (if read_size mod of_nat RCP_EP_ADC_VALUE_LEN \<noteq> 0 then 0
      else unat read_size div RCP_EP_ADC_VALUE_LEN)"

text \<open>The loop that sums and counts the usable samples, and the backward scan for the last of them.\<close>

fun sum_samples :: "u64 \<Rightarrow> nat \<Rightarrow> rcp_ep_adc_sample_t list \<Rightarrow> u64 \<times> nat" where
  "sum_samples total_v counted [] = (total_v, counted)"
| "sum_samples total_v counted (x # xs) =
     (if smp_value x = RCP_EP_PWM_IN_NO_SIGNAL then sum_samples total_v counted xs
      else sum_samples (total_v + ucast (smp_value x)) (counted + 1) xs)"

definition last_usable :: "rcp_ep_adc_sample_t list \<Rightarrow> rcp_ep_adc_sample_t option" where
  "last_usable samples = find (\<lambda>x. smp_value x \<noteq> RCP_EP_PWM_IN_NO_SIGNAL) (rev samples)"

definition rcp_ep_adc_average_interval :: "rcp_ep_adc_sample_t list \<Rightarrow> rcp_ep_adc_avg_value_t" where
  "rcp_ep_adc_average_interval samples =
     (if length samples = 0 then \<lparr>avg_value = RCP_EP_PWM_IN_NO_SIGNAL, avg_timestamp = 0\<rparr>
      else
        let (total_v, counted) = sum_samples 0 0 samples;
            ts = (case last_usable samples of
                    None \<Rightarrow> smp_timestamp (samples ! (length samples - 1))
                  | Some x \<Rightarrow> smp_timestamp x)
        in \<lparr>avg_value = (if counted = 0 then RCP_EP_PWM_IN_NO_SIGNAL else ucast (total_v div of_nat counted)),
            avg_timestamp = ts\<rparr>)"

text \<open>The loop over consecutive pairs.\<close>

fun spacing_ok :: "u64 \<Rightarrow> u64 \<Rightarrow> rcp_ep_adc_sample_t list \<Rightarrow> bool" where
  "spacing_ok lo hi (a # b # xs) =
     (if smp_timestamp b < smp_timestamp a then False
      else
        let actual_ns = smp_timestamp b - smp_timestamp a
        in if actual_ns < lo \<or> actual_ns > hi then False else spacing_ok lo hi (b # xs))"
| "spacing_ok lo hi _ = True"

definition rcp_ep_adc_validate_sample_spacing ::
    "rcp_ep_adc_sample_t list \<Rightarrow> byte \<Rightarrow> byte \<Rightarrow> u32 \<Rightarrow> u64 \<Rightarrow> rcp_ep_adc_spacing_result_t" where
  "rcp_ep_adc_validate_sample_spacing samples base_clk_divider sample_interval base_clk_hz tolerance_ns =
     (if length samples < 2 \<or> base_clk_hz = 0 \<or> base_clk_divider = 0 then RCP_EP_ADC_SPACING_OK
      else
        let expected_ns = (ucast sample_interval * ucast base_clk_divider * 1000000000) div ucast base_clk_hz;
            lo = (if expected_ns > tolerance_ns then expected_ns - tolerance_ns else 0);
            hi = (if expected_ns \<le> - 1 - tolerance_ns then expected_ns + tolerance_ns else - 1)
        in if spacing_ok lo hi samples then RCP_EP_ADC_SPACING_OK else RCP_EP_ADC_SPACING_VIOLATION)"

definition rcp_ep_adc_collect_response_values :: "rcp_ep_adc_avg_value_t list \<Rightarrow> nat \<Rightarrow> u16 list" where
  "rcp_ep_adc_collect_response_values avg_values value_count =
     (let n = (if length avg_values < value_count then length avg_values else value_count)
      in map (\<lambda>i. avg_value (avg_values ! i)) [0..<n])"

definition rcp_ep_adc_cadence_case :: "u16 \<Rightarrow> byte \<Rightarrow> rcp_ep_adc_cadence_case_t" where
  "rcp_ep_adc_cadence_case avg_intervals_per_request combine_avg_values =
     (if (ucast combine_avg_values :: u32) > ucast avg_intervals_per_request
      then RCP_EP_ADC_CADENCE_ACCUMULATE
      else if (ucast combine_avg_values :: u32) < ucast avg_intervals_per_request
      then RCP_EP_ADC_CADENCE_FAN_OUT
      else RCP_EP_ADC_CADENCE_ONE_TO_ONE)"

definition rcp_ep_adc_cadence_response_ready :: "nat \<Rightarrow> byte \<Rightarrow> bool" where
  "rcp_ep_adc_cadence_response_ready pending_value_count combine_avg_values \<longleftrightarrow>
     pending_value_count \<ge> unat combine_avg_values"

definition rcp_ep_adc_capture_moment_timestamp :: "rcp_ep_adc_avg_value_t list \<Rightarrow> u64" where
  "rcp_ep_adc_capture_moment_timestamp avg_values =
     (if length avg_values = 0 then 0 else avg_timestamp (avg_values ! 0))"

section \<open>Functional configuration\<close>

definition rcp_ep_adc_functional_cfg_init :: rcp_ep_adc_functional_cfg_t where
  "rcp_ep_adc_functional_cfg_init =
     \<lparr>adc_common = rcp_regmap_ep_functional_cfg_init, adc_samples_per_avg_interval = 0,
      adc_avg_intervals_per_request = 0, adc_combine_avg_values = 0, adc_ep_status = 0,
      adc_base_clk_divider = 0, adc_sample_interval = 0, adc_resolution = 0, adc_trigger_min = 0,
      adc_trigger_max = 0\<rparr>"

definition rcp_ep_adc_functional_cfg_writable ::
    "rcp_lifecycle_state_t \<Rightarrow> rcp_lifecycle_writer_ctx_t \<Rightarrow> bool" where
  "rcp_ep_adc_functional_cfg_writable state writer =
     rcp_lifecycle_field_writable state RCP_LIFECYCLE_FIELD_FUNCTIONAL_W writer"

definition rcp_ep_adc_set_samples_per_avg_interval ::
    "rcp_ep_adc_functional_cfg_t \<Rightarrow> u16 \<Rightarrow> rcp_lifecycle_state_t \<Rightarrow> rcp_lifecycle_writer_ctx_t \<Rightarrow>
     bool \<times> rcp_ep_adc_functional_cfg_t" where
  "rcp_ep_adc_set_samples_per_avg_interval cfg samples_per_interval state writer =
     (if \<not> rcp_ep_adc_functional_cfg_writable state writer then (False, cfg)
      else (True, cfg\<lparr>adc_samples_per_avg_interval := samples_per_interval\<rparr>))"

definition rcp_ep_adc_set_avg_intervals_per_request ::
    "rcp_ep_adc_functional_cfg_t \<Rightarrow> u16 \<Rightarrow> rcp_lifecycle_state_t \<Rightarrow> rcp_lifecycle_writer_ctx_t \<Rightarrow>
     bool \<times> rcp_ep_adc_functional_cfg_t" where
  "rcp_ep_adc_set_avg_intervals_per_request cfg intervals_per_request state writer =
     (if \<not> rcp_ep_adc_functional_cfg_writable state writer then (False, cfg)
      else (True, cfg\<lparr>adc_avg_intervals_per_request := intervals_per_request\<rparr>))"

definition rcp_ep_adc_set_combine_avg_values ::
    "rcp_ep_adc_functional_cfg_t \<Rightarrow> byte \<Rightarrow> rcp_lifecycle_state_t \<Rightarrow> rcp_lifecycle_writer_ctx_t \<Rightarrow>
     bool \<times> rcp_ep_adc_functional_cfg_t" where
  "rcp_ep_adc_set_combine_avg_values cfg combine state writer =
     (if \<not> rcp_ep_adc_functional_cfg_writable state writer then (False, cfg)
      else (True, cfg\<lparr>adc_combine_avg_values := combine\<rparr>))"

section \<open>Triggers\<close>

definition rcp_ep_adc_trigger_state_init :: rcp_ep_adc_trigger_state_t where
  "rcp_ep_adc_trigger_state_init = \<lparr>adc_has_previous = False, adc_previous_value = 0\<rparr>"

definition rcp_ep_adc_trigger_evaluate ::
    "rcp_ep_adc_trigger_state_t \<Rightarrow> u16 \<Rightarrow> u16 \<Rightarrow> u16 \<Rightarrow> bool \<Rightarrow> byte \<times> rcp_ep_adc_trigger_state_t" where
  "rcp_ep_adc_trigger_evaluate s value tmin tmax measurement_finished =
     (let prev = adc_previous_value s;
          fired = (if adc_has_previous s then
                     (if prev \<ge> tmin \<and> value < tmin then RCP_EP_ADC_TRIGGER_BELOW_MIN else 0) OR
                     (if prev \<le> tmin \<and> value > tmin then RCP_EP_ADC_TRIGGER_ABOVE_MIN else 0) OR
                     (if prev \<ge> tmax \<and> value < tmax then RCP_EP_ADC_TRIGGER_BELOW_MAX else 0) OR
                     (if prev \<le> tmax \<and> value > tmax then RCP_EP_ADC_TRIGGER_ABOVE_MAX else 0)
                   else 0);
          fired = (if measurement_finished then fired OR RCP_EP_ADC_TRIGGER_MEASUREMENT_FINISHED else fired)
      in (fired, \<lparr>adc_has_previous = True, adc_previous_value = value\<rparr>))"

section \<open>The register block\<close>

definition rcp_ep_adc_render_registers :: "rcp_ep_adc_functional_cfg_t \<Rightarrow> bytes" where
  "rcp_ep_adc_render_registers cfg =
     [of_nat RCP_EP_ADC_EP_FUNC_LEN, 0, enable_clr_octet (adc_common cfg), options_octet (adc_common cfg)] @
     put_u16 0 @ put_u16 (adc_ep_status cfg) @
     [adc_base_clk_divider cfg, adc_sample_interval cfg,
      ucast (adc_avg_intervals_per_request cfg AND 0xFF), ucast (adc_samples_per_avg_interval cfg AND 0xFF),
      adc_combine_avg_values cfg, adc_resolution cfg] @
     put_u16 (adc_trigger_min cfg) @ put_u16 (adc_trigger_max cfg)"

definition adc_parse_registers ::
    "rcp_ep_adc_functional_cfg_t \<Rightarrow> bytes \<Rightarrow> rcp_ep_adc_functional_cfg_t" where
  "adc_parse_registers cfg img =
     cfg\<lparr>adc_common := parse_common (img ! RCP_EP_ADC_REG_EP_ENABLE_CLR) (img ! RCP_EP_ADC_REG_EP_OPTIONS),
         adc_ep_status := get_u16 (drop RCP_EP_ADC_REG_EP_STATUS img),
         adc_base_clk_divider := img ! RCP_EP_ADC_REG_BASE_CLK_DIVIDER,
         adc_sample_interval := img ! RCP_EP_ADC_REG_SAMPLE_INTERVAL,
         adc_avg_intervals_per_request := ucast (img ! RCP_EP_ADC_REG_AVG_INTERVALS),
         adc_samples_per_avg_interval := ucast (img ! RCP_EP_ADC_REG_SAMPLES_PER_AVG),
         adc_combine_avg_values := img ! RCP_EP_ADC_REG_COMBINE_AVG,
         adc_resolution := img ! RCP_EP_ADC_REG_RESOLUTION,
         adc_trigger_min := get_u16 (drop RCP_EP_ADC_REG_TRIGGER_MIN img),
         adc_trigger_max := get_u16 (drop RCP_EP_ADC_REG_TRIGGER_MAX img)\<rparr>"

definition adc_reg_offset_read_only :: "nat \<Rightarrow> bool" where
  "adc_reg_offset_read_only addr \<longleftrightarrow>
     addr = RCP_EP_ADC_REG_EP_LEN \<or> addr = RCP_EP_ADC_REG_RESERVED_01 \<or>
     addr = RCP_EP_ADC_REG_BASE_CLK \<or> addr = RCP_EP_ADC_REG_BASE_CLK + 1"

definition rcp_ep_adc_apply_reconfig ::
    "rcp_ep_adc_functional_cfg_t \<Rightarrow> bytes \<Rightarrow> rcp_ep_adc_reconfig_errc_t \<times> rcp_ep_adc_functional_cfg_t" where
  "rcp_ep_adc_apply_reconfig =
     apply_block rcp_ep_adc_render_registers adc_parse_registers adc_reg_offset_read_only
       RCP_EP_ADC_EP_FUNC_LEN RCP_EP_ADC_RECONFIG_OK RCP_EP_ADC_RECONFIG_ERR_SHORT
       RCP_EP_ADC_RECONFIG_ERR_OUT_OF_RANGE"

definition rcp_ep_adc_encode_reconfig_request ::
    "bool \<Rightarrow> bool \<Rightarrow> rcp_byte_bus_id_t \<Rightarrow> u16 \<Rightarrow> bytes \<Rightarrow> byte \<Rightarrow> rcp_bytes_t" where
  "rcp_ep_adc_encode_reconfig_request mem_payload mem_frame bus start_address data tn =
     encode_reconfig mem_payload mem_frame bus start_address data tn"

section \<open>Messages\<close>

definition rcp_ep_adc_encode_read_request :: "bool \<Rightarrow> rcp_byte_bus_id_t \<Rightarrow> u16 \<Rightarrow> byte \<Rightarrow> rcp_bytes_t" where
  "rcp_ep_adc_encode_read_request mem bus read_size tn =
     rcp_acf_encode_abb mem
       (zero_info\<lparr>bm_byte_bus_id := bus, bm_op := RCP_ACF_OP_READ, bm_read_size_or_segment_num := read_size,
                  bm_transaction_num := tn\<rparr>) []"

definition rcp_ep_adc_decode_read_request ::
    "bytes \<Rightarrow> rcp_byte_bus_id_t \<Rightarrow> rcp_ep_adc_errc_t + (u16 \<times> byte)" where
  "rcp_ep_adc_decode_read_request b expected_bus =
     (case decode_request_frame RCP_EP_ADC_ERR_SHORT_FRAME RCP_EP_ADC_ERR_BAD_MSG_TYPE b of
        Inl e \<Rightarrow> Inl e
      | Inr (hdr, payload) \<Rightarrow>
          if bm_byte_bus_id hdr \<noteq> expected_bus then Inl RCP_EP_ADC_ERR_WRONG_BUS
          else if bm_op hdr \<noteq> RCP_ACF_OP_READ then Inl RCP_EP_ADC_ERR_WRONG_OP
          else if \<not> rcp_acf_evt_row2_is_plain (bm_evt hdr) then Inl RCP_EP_ADC_ERR_BAD_EVT
          else Inr (bm_read_size_or_segment_num hdr, bm_transaction_num hdr))"

text \<open>\<open>mem_payload\<close> and \<open>mem_frame\<close> are the outcomes of the two allocations.\<close>

definition rcp_ep_adc_encode_response ::
    "bool \<Rightarrow> bool \<Rightarrow> rcp_byte_bus_id_t \<Rightarrow> u16 list \<Rightarrow> byte \<Rightarrow> bool \<Rightarrow> u64 \<Rightarrow> rcp_bytes_t" where
  "rcp_ep_adc_encode_response mem_payload mem_frame bus values tn timed timestamp =
     (if length values = 0 \<or> length values > RCP_EP_ADC_MAX_VALUES then None
      else if \<not> mem_payload then None
      else response_frame mem_frame bus RCP_ACF_OP_READ (of_nat (length values * RCP_EP_ADC_VALUE_LEN))
             (concat (map put_u16 values)) tn timed timestamp)"

definition rcp_ep_adc_decode_response ::
    "bytes \<Rightarrow> rcp_byte_bus_id_t \<Rightarrow> nat \<Rightarrow> rcp_ep_adc_errc_t + (u16 list \<times> bool \<times> u64 \<times> byte)" where
  "rcp_ep_adc_decode_response b expected_bus max_values =
     (case decode_response_frame RCP_EP_ADC_ERR_SHORT_FRAME RCP_EP_ADC_ERR_BAD_MSG_TYPE b of
        Inl e \<Rightarrow> Inl e
      | Inr (hdr, timed, timestamp, payload) \<Rightarrow>
          if bm_byte_bus_id hdr \<noteq> expected_bus then Inl RCP_EP_ADC_ERR_WRONG_BUS
          else if length payload = 0 \<or> length payload mod RCP_EP_ADC_VALUE_LEN \<noteq> 0
          then Inl RCP_EP_ADC_ERR_BAD_PAYLOAD_LEN
          else
            let value_count = length payload div RCP_EP_ADC_VALUE_LEN
            in if value_count > max_values then Inl RCP_EP_ADC_ERR_TOO_MANY_VALUES
               else Inr (map (\<lambda>i. get_u16 (drop (i * RCP_EP_ADC_VALUE_LEN) payload)) [0..<value_count],
                         timed, timestamp, bm_transaction_num hdr))"

section \<open>The average\<close>

text \<open>The usable values of an interval, as numbers.\<close>

definition usable :: "rcp_ep_adc_sample_t list \<Rightarrow> nat list" where
  "usable xs = map (\<lambda>x. unat (smp_value x)) (filter (\<lambda>x. smp_value x \<noteq> RCP_EP_PWM_IN_NO_SIGNAL) xs)"

lemma usable_less: "v \<in> set (usable xs) \<Longrightarrow> v < 65535"
proof -
  assume "v \<in> set (usable xs)"
  then obtain w :: u16 where w: "v = unat w" "w \<noteq> 0xFFFF" by (auto simp: usable_def consts_rcp)
  have "unat w \<noteq> unat (0xFFFF :: u16)" using w(2) by (simp only: word_unat_eq_iff not_False_eq_True)
  then show ?thesis using w(1) unsigned_less [of w, where 'a = nat] by simp
qed

lemma usable_Cons:
  "usable (x # xs) = (if smp_value x = RCP_EP_PWM_IN_NO_SIGNAL then usable xs else unat (smp_value x) # usable xs)"
  by (simp add: usable_def)

lemma sum_list_bound: "(\<And>v. v \<in> set xs \<Longrightarrow> v \<le> b) \<Longrightarrow> sum_list xs \<le> length xs * (b :: nat)"
  by (induction xs) (auto intro: add_mono)

lemma sum_samples_eq:
  "unat acc + sum_list (usable xs) < 2 ^ 64 \<Longrightarrow>
   \<exists>t. sum_samples acc k xs = (t, k + length (usable xs)) \<and> unat t = unat acc + sum_list (usable xs)"
proof (induction xs arbitrary: acc k)
  case (Cons x xs)
  show ?case
  proof (cases "smp_value x = RCP_EP_PWM_IN_NO_SIGNAL")
    case True
    then show ?thesis using Cons by (simp add: usable_Cons)
  next
    case False
    have "unat (acc + ucast (smp_value x)) = unat acc + unat (smp_value x)"
      using Cons.prems False unsigned_less [of "smp_value x", where 'a = nat]
      by (simp add: usable_Cons unat_word_ariths unsigned_ucast_eq take_bit_nat_eq_self)
    with Cons.IH [of "acc + ucast (smp_value x)" "k + 1"] Cons.prems False show ?thesis
      by (auto simp: usable_Cons)
  qed
qed (simp add: usable_def)

lemma mean_bounds:
  assumes "xs \<noteq> []" and "\<And>v. v \<in> set xs \<Longrightarrow> lo \<le> v" and "\<And>v. v \<in> set xs \<Longrightarrow> v \<le> (hi :: nat)"
  shows "lo \<le> sum_list xs div length xs" and "sum_list xs div length xs \<le> hi"
proof -
  have "length xs * lo \<le> sum_list xs"
    using assms(2) by (induction xs) (auto intro: add_mono)
  then show "lo \<le> sum_list xs div length xs"
    using assms(1) by (simp add: less_eq_div_iff_mult_less_eq mult.commute)
  have "sum_list xs \<le> length xs * hi" by (rule sum_list_bound [OF assms(3)])
  then show "sum_list xs div length xs \<le> hi"
    using assms(1) div_le_mono [of "sum_list xs" "length xs * hi" "length xs"] by simp
qed

text \<open>the value of an averaging interval is the mean, rounded down, of the samples that are not the
  no-signal mark; the 64-bit sum never overflows for intervals of up to \<open>2\<^sup>4\<^sup>8\<close> samples.  The mean lies
  between the smallest and the largest of them, and is the no-signal mark exactly when there is none.\<close>

theorem adc_average_exact:
  assumes "length samples \<le> 2 ^ 48"
  shows "avg_value (rcp_ep_adc_average_interval samples) =
      (if usable samples = [] then RCP_EP_PWM_IN_NO_SIGNAL
       else of_nat (sum_list (usable samples) div length (usable samples))) \<and>
    (usable samples \<noteq> [] \<longrightarrow>
      Min (set (usable samples)) \<le> unat (avg_value (rcp_ep_adc_average_interval samples)) \<and>
      unat (avg_value (rcp_ep_adc_average_interval samples)) \<le> Max (set (usable samples))) \<and>
    (avg_value (rcp_ep_adc_average_interval samples) = RCP_EP_PWM_IN_NO_SIGNAL \<longleftrightarrow> usable samples = [])"
proof (cases "usable samples = []")
  case True
  then have "sum_samples 0 0 samples = (0, 0)"
    using sum_samples_eq [of 0 samples 0] by (auto simp: unat_eq_0)
  with True show ?thesis by (simp add: rcp_ep_adc_average_interval_def)
next
  case False
  let ?u = "usable samples"
  let ?m = "sum_list ?u div length ?u"
  have len: "length ?u \<le> 2 ^ 48" using assms by (simp add: usable_def le_trans [OF length_filter_le])
  have "sum_list ?u \<le> length ?u * 65535"
    by (intro sum_list_bound) (use usable_less in \<open>fastforce\<close>)
  also have "\<dots> \<le> 2 ^ 48 * 65535" using len by (intro mult_right_mono) simp_all
  finally have s: "sum_list ?u < 2 ^ 64" by simp
  from sum_samples_eq [of 0 samples 0] s obtain t where
    t: "sum_samples 0 0 samples = (t, length ?u)" "unat t = sum_list ?u" by auto
  have m: "unat (t div of_nat (length ?u)) = ?m"
    using t(2) len by (simp add: unat_div unat_of_nat)
  have b: "Min (set ?u) \<le> ?m" "?m \<le> Max (set ?u)" using mean_bounds [OF False, of "Min (set ?u)" "Max (set ?u)"] by simp_all
  have "Max (set ?u) < 65535" using False usable_less Max_in [of "set ?u"] by auto
  then have m16: "?m < 65535" using b(2) by simp
  have ne: "samples \<noteq> []" using False by (auto simp: usable_def)
  have v: "avg_value (rcp_ep_adc_average_interval samples) = of_nat ?m"
    using False ne t(1) by (simp add: rcp_ep_adc_average_interval_def m [symmetric])
  have u: "unat (of_nat ?m :: u16) = ?m" using m16 by (simp add: unat_of_nat)
  have "(of_nat ?m :: u16) \<noteq> 0xFFFF"
  proof
    assume "(of_nat ?m :: u16) = 0xFFFF"
    from arg_cong [OF this, of unat] u m16 show False by simp
  qed
  then show ?thesis using False v u b by (simp add: consts_rcp)
qed

theorem adc_average_exact_witness:
  "avg_value (rcp_ep_adc_average_interval
     [\<lparr>smp_value = 10, smp_timestamp = 1\<rparr>, \<lparr>smp_value = 0xFFFF, smp_timestamp = 2\<rparr>,
      \<lparr>smp_value = 21, smp_timestamp = 3\<rparr>]) = 15"
  using adc_average_exact [of "[\<lparr>smp_value = 10, smp_timestamp = 1\<rparr>, \<lparr>smp_value = 0xFFFF, smp_timestamp = 2\<rparr>,
      \<lparr>smp_value = 21, smp_timestamp = 3\<rparr>]"]
  by (simp add: usable_def consts_rcp numeral_2_eq_2 [symmetric])

section \<open>The spacing of samples\<close>

text \<open>The reference, on numbers: consecutive timestamps do not decrease and their distance is within
  \<open>tol\<close> of \<open>e\<close>.\<close>

definition gap_ok :: "nat \<Rightarrow> nat \<Rightarrow> rcp_ep_adc_sample_t \<Rightarrow> rcp_ep_adc_sample_t \<Rightarrow> bool" where
  "gap_ok e tol a b \<longleftrightarrow> unat (smp_timestamp a) \<le> unat (smp_timestamp b) \<and>
     e \<le> unat (smp_timestamp b) - unat (smp_timestamp a) + tol \<and>
     unat (smp_timestamp b) - unat (smp_timestamp a) \<le> e + tol"

lemma spacing_ok_pairs:
  "spacing_ok lo hi xs \<longleftrightarrow> (\<forall>i<length xs - 1. smp_timestamp (xs ! i) \<le> smp_timestamp (xs ! Suc i) \<and>
      lo \<le> smp_timestamp (xs ! Suc i) - smp_timestamp (xs ! i) \<and>
      smp_timestamp (xs ! Suc i) - smp_timestamp (xs ! i) \<le> hi)"
  by (induction lo hi xs rule: spacing_ok.induct) (auto simp: All_less_Suc2 Let_def not_less)

lemma expected_ns_exact:
  fixes si dv :: byte and hz :: u32
  assumes "hz \<noteq> 0"
  shows "unat ((ucast si * ucast dv * 1000000000 :: u64) div ucast hz) =
    unat si * unat dv * 1000000000 div unat hz"
proof -
  have b: "unat si \<le> 255" "unat dv \<le> 255"
    using unsigned_less [of si, where 'a = nat] unsigned_less [of dv, where 'a = nat] by simp_all
  have "unat si * unat dv \<le> 255 * 255" using b by (rule mult_le_mono)
  moreover have "unat (ucast si :: u64) = unat si" "unat (ucast dv :: u64) = unat dv"
    using b by (simp_all add: unsigned_ucast_eq take_bit_nat_eq_self)
  ultimately have p: "unat (ucast si * ucast dv :: u64) = unat si * unat dv"
    using unat_mult_lem [of "ucast si :: u64" "ucast dv"] by simp
  define k where "k = unat si * unat dv"
  have k: "unat (ucast si * ucast dv :: u64) = k" "k \<le> 65025"
    using p \<open>unat si * unat dv \<le> 255 * 255\<close> by (simp_all add: k_def)
  then have "unat (ucast si * ucast dv * 1000000000 :: u64) = k * 1000000000"
    using unat_mult_lem [of "ucast si * ucast dv :: u64" 1000000000] by simp
  moreover have "unat (ucast hz :: u64) = unat hz"
    using unsigned_less [of hz, where 'a = nat] by (simp add: unsigned_ucast_eq take_bit_nat_eq_self)
  ultimately show ?thesis by (simp add: unat_div k_def)
qed

lemma window_exact:
  fixes e tol :: u64
  shows "unat (if e > tol then e - tol else 0) = unat e - unat tol"
    and "unat (if e \<le> - 1 - tol then e + tol else - 1) = min (2 ^ 64 - 1) (unat e + unat tol)"
proof -
  show "unat (if e > tol then e - tol else 0) = unat e - unat tol"
    by (auto simp: word_less_nat_alt word_le_nat_alt unat_sub)
  have m: "unat (- 1 :: u64) = 2 ^ 64 - 1" by (simp add: unsigned_minus_1_eq_mask mask_eq_exp_minus_1)
  have "tol \<le> - 1" by (rule word_order.extremum)
  then have "unat (- 1 - tol) = 2 ^ 64 - 1 - unat tol" using m by (simp add: unat_sub del: word_order.extremum)
  then have c: "e \<le> - 1 - tol \<longleftrightarrow> unat e + unat tol \<le> 2 ^ 64 - 1"
    using unsigned_less [of tol, where 'a = nat] by (auto simp: word_le_nat_alt)
  have "unat (e + tol) = unat e + unat tol" if "unat e + unat tol \<le> 2 ^ 64 - 1"
    using that by (simp add: unat_word_ariths)
  then show "unat (if e \<le> - 1 - tol then e + tol else - 1) = min (2 ^ 64 - 1) (unat e + unat tol)"
    using c m by (auto simp: min_def)
qed

text \<open>the check of the sample spacing accepts exactly the sequences whose consecutive timestamps keep
  the configured distance, \<open>interval * divider * 10\<^sup>9 div clock\<close> nanoseconds, up to the tolerance: the 64-bit
  arithmetic of the code, with its saturated bounds, agrees with the arithmetic of the natural numbers for
  every tolerance.  Without two samples, a clock and a divider there is nothing to check.\<close>

theorem adc_spacing_exact:
  "rcp_ep_adc_validate_sample_spacing xs dv si hz tol = RCP_EP_ADC_SPACING_OK \<longleftrightarrow>
     length xs < 2 \<or> hz = 0 \<or> dv = 0 \<or>
     (\<forall>i<length xs - 1. gap_ok (unat si * unat dv * 1000000000 div unat hz) (unat tol) (xs ! i) (xs ! Suc i))"
proof (cases "length xs < 2 \<or> hz = 0 \<or> dv = 0")
  case False
  define e :: u64 where "e = (ucast si * ucast dv * 1000000000) div ucast hz"
  define lo where "lo = (if e > tol then e - tol else 0)"
  define hi where "hi = (if e \<le> - 1 - tol then e + tol else - 1)"
  have e: "unat e = unat si * unat dv * 1000000000 div unat hz"
    unfolding e_def using False by (intro expected_ns_exact) simp
  have w: "unat lo = unat e - unat tol" "unat hi = min (2 ^ 64 - 1) (unat e + unat tol)"
    unfolding lo_def hi_def by (rule window_exact)+
  have gap: "a \<le> b \<and> lo \<le> b - a \<and> b - a \<le> hi \<longleftrightarrow>
      unat a \<le> unat b \<and> unat e \<le> unat b - unat a + unat tol \<and> unat b - unat a \<le> unat e + unat tol"
    for a b :: u64
    using w unsigned_less [of b, where 'a = nat]
    by (auto simp: word_le_nat_alt unat_sub min_def split: if_splits)
  have "rcp_ep_adc_validate_sample_spacing xs dv si hz tol =
      (if spacing_ok lo hi xs then RCP_EP_ADC_SPACING_OK else RCP_EP_ADC_SPACING_VIOLATION)"
    using False by (simp add: rcp_ep_adc_validate_sample_spacing_def Let_def e_def lo_def hi_def)
  moreover have "spacing_ok lo hi xs \<longleftrightarrow>
      (\<forall>i<length xs - 1. gap_ok (unat e) (unat tol) (xs ! i) (xs ! Suc i))"
    unfolding spacing_ok_pairs gap gap_ok_def ..
  ultimately show ?thesis using False by (simp only: e) simp
qed (auto simp: rcp_ep_adc_validate_sample_spacing_def)

theorem adc_spacing_exact_witness:
  "rcp_ep_adc_validate_sample_spacing
     [\<lparr>smp_value = 1, smp_timestamp = 100\<rparr>, \<lparr>smp_value = 2, smp_timestamp = 2105\<rparr>] 2 1 1000000 (- 1) =
   RCP_EP_ADC_SPACING_OK \<and>
   rcp_ep_adc_validate_sample_spacing
     [\<lparr>smp_value = 1, smp_timestamp = 100\<rparr>, \<lparr>smp_value = 2, smp_timestamp = 2105\<rparr>] 2 1 1000000 4 \<noteq>
   RCP_EP_ADC_SPACING_OK"
  unfolding adc_spacing_exact
  by (simp add: gap_ok_def unsigned_minus_1_eq_mask mask_eq_exp_minus_1)

section \<open>Configuration writes\<close>

definition adc_wf :: "rcp_ep_adc_functional_cfg_t \<Rightarrow> bool" where
  "adc_wf c \<longleftrightarrow> adc_samples_per_avg_interval c AND 0xFF = adc_samples_per_avg_interval c \<and>
     adc_avg_intervals_per_request c AND 0xFF = adc_avg_intervals_per_request c"

lemma adc_registers:
  "rcp_ep_adc_render_registers c =
     [0x12, 0, enable_clr_octet (adc_common c), options_octet (adc_common c), 0, 0,
      put_u16 (adc_ep_status c) ! 0, put_u16 (adc_ep_status c) ! 1,
      adc_base_clk_divider c, adc_sample_interval c,
      ucast (adc_avg_intervals_per_request c AND 0xFF), ucast (adc_samples_per_avg_interval c AND 0xFF),
      adc_combine_avg_values c, adc_resolution c,
      put_u16 (adc_trigger_min c) ! 0, put_u16 (adc_trigger_min c) ! 1,
      put_u16 (adc_trigger_max c) ! 0, put_u16 (adc_trigger_max c) ! 1]"
  by (simp add: rcp_ep_adc_render_registers_def put_u16_def consts_rcp)

lemma ucast_low_octet: "ucast (ucast (w AND 0xFF) :: byte) = w AND 0xFF" for w :: u16
  by (rule word16_eqI) (simp add: word_bits)

lemma low_octet_id: "w AND 0xFF = w \<Longrightarrow> ucast (ucast w :: byte) = w" for w :: u16
  by (metis ucast_low_octet)

lemma adc_parse_wf: "adc_wf (adc_parse_registers c img)"
proof -
  have "(ucast b :: u16) AND 0xFF = ucast b" for b :: byte by (rule word16_eqI) (simp add: word_bits)
  then show ?thesis by (simp add: adc_wf_def adc_parse_registers_def)
qed

lemma adc_parse_nth:
  assumes "length img = 18" and "\<And>i. i < 18 \<Longrightarrow> adc_reg_offset_read_only i \<Longrightarrow>
      img ! i = rcp_ep_adc_render_registers c ! i" and "i < 18"
  shows "rcp_ep_adc_render_registers (adc_parse_registers c img) ! i = flag_canon i (img ! i)"
proof -
  have ro: "img ! 0 = 0x12" "img ! Suc 0 = 0" "img ! 4 = 0" "img ! 5 = 0"
    using assms(2) [of 0] assms(2) [of 1] assms(2) [of 4] assms(2) [of 5]
    by (simp_all add: adc_reg_offset_read_only_def consts_rcp adc_registers)
  have w: "put_u16 (get_u16 (drop 6 img)) = [img ! 6, img ! 7]"
    "put_u16 (get_u16 (drop 14 img)) = [img ! 14, img ! 15]"
    "put_u16 (get_u16 (drop 16 img)) = [img ! 16, img ! 17]"
    using assms(1) by (simp_all add: put_get_u16_at)
  have "(ucast ((ucast b :: u16) AND 0xFF) :: byte) = b" for b
    by (rule word8_eqI) (simp add: word_bits)
  moreover have "i \<in> {0, 1, 2, 3, 4, 5, 6, 7, 8, 9, 10, 11, 12, 13, 14, 15, 16, 17}"
    using assms(3) by (simp, presburger)
  ultimately show ?thesis
    by (auto simp: adc_registers adc_parse_registers_def consts_rcp common_octets_parse w ro flag_canon_def)
qed

interpretation adc_regs: readback_block rcp_ep_adc_render_registers adc_parse_registers
  adc_reg_offset_read_only RCP_EP_ADC_EP_FUNC_LEN adc_wf RCP_EP_ADC_RECONFIG_OK
  RCP_EP_ADC_RECONFIG_ERR_SHORT RCP_EP_ADC_RECONFIG_ERR_OUT_OF_RANGE flag_canon
proof unfold_locales
  fix c
  assume "adc_wf c"
  then show "adc_parse_registers c (rcp_ep_adc_render_registers c) = c"
    by (simp add: adc_registers adc_parse_registers_def adc_wf_def consts_rcp low_octet_id u16_of_octets)
  show "length (rcp_ep_adc_render_registers c) = RCP_EP_ADC_EP_FUNC_LEN"
    by (simp add: adc_registers consts_rcp)
next
  fix i d assume "adc_reg_offset_read_only i"
  then show "flag_canon i d = d" by (auto simp: adc_reg_offset_read_only_def flag_canon_def consts_rcp)
qed (simp_all add: adc_parse_wf adc_parse_nth RCP_EP_ADC_EP_FUNC_LEN_def)

text \<open>A write addressed elsewhere cuts the two 16-bit counts to the octet that their registers hold; on
  configurations that fit the registers nothing is lost.\<close>

lemma adc_write_back:
  assumes "adc_wf c" and "start + n \<le> 18" and "0 < n"
  shows "rcp_ep_adc_apply_reconfig c (put_u16 (of_nat start) @ take n (drop start (rcp_ep_adc_render_registers c))) =
    (RCP_EP_ADC_RECONFIG_OK, c)"
  using adc_regs.write_back [OF assms(1), of start n] assms(2,3)
  by (simp add: rcp_ep_adc_apply_reconfig_def consts_rcp)

section \<open>Messages\<close>

text \<open>the ADC messages survive the wire: a read request with its read size and transaction number, and
  a response with any number of values from one to the largest that fits a message, in order, with its
  timestamp if it has one; a receiver with room for fewer values refuses the response.\<close>

theorem adc_messages_roundtrip:
  assumes "bus < 0x800" and "read_size < 0x1000" and "vs \<noteq> []" and "length vs \<le> RCP_EP_ADC_MAX_VALUES"
  shows "(\<exists>f. rcp_ep_adc_encode_read_request True bus read_size tn = Some f \<and>
      rcp_ep_adc_decode_read_request (f @ rest) bus = Inr (read_size, tn)) \<and>
    (\<exists>f. rcp_ep_adc_encode_response True True bus vs tn timed ts = Some f \<and>
      rcp_ep_adc_decode_response (f @ rest) bus room =
        (if length vs \<le> room then Inr (vs, timed, if timed then ts else 0, tn)
         else Inl RCP_EP_ADC_ERR_TOO_MANY_VALUES))"
proof
  have rs: "read_size AND 0xFFF = read_size"
    using less_mask_eq [of read_size 12] assms(2) by (simp add: mask_eq_exp_minus_1)
  show "\<exists>f. rcp_ep_adc_encode_read_request True bus read_size tn = Some f \<and>
      rcp_ep_adc_decode_read_request (f @ rest) bus = Inr (read_size, tn)"
    using request_wire [of "[]" "zero_info\<lparr>bm_byte_bus_id := bus, bm_op := RCP_ACF_OP_READ,
        bm_read_size_or_segment_num := read_size, bm_transaction_num := tn\<rparr>"
      RCP_EP_ADC_ERR_SHORT_FRAME RCP_EP_ADC_ERR_BAD_MSG_TYPE rest]
    by (auto simp: rcp_ep_adc_encode_read_request_def rcp_ep_adc_decode_read_request_def abb_canon_def
        info_canon_def Let_def zero_info_def rcp_acf_evt_row2_is_plain_def bus_canon [OF assms(1)] rs consts_rcp)
  let ?p = "concat (map put_u16 vs)"
  have len: "length ?p \<le> RCP_ACF_GBB_MAX_PAYLOAD" using assms(4) by (simp add: consts_rcp)
  have vs: "map (\<lambda>i. get_u16 (drop (i * 2) ?p)) [0..<length vs] = vs"
    by (rule nth_equalityI) (simp_all add: nth_u16s)
  have ne: "?p \<noteq> []" using assms(3) length_u16s [of vs] by (metis length_0_conv mult_eq_0_iff zero_neq_numeral)
  from response_wire [OF len assms(1), of RCP_ACF_OP_READ "of_nat (length vs * RCP_EP_ADC_VALUE_LEN)" tn timed ts
      RCP_EP_ADC_ERR_SHORT_FRAME RCP_EP_ADC_ERR_BAD_MSG_TYPE rest]
  show "\<exists>f. rcp_ep_adc_encode_response True True bus vs tn timed ts = Some f \<and>
      rcp_ep_adc_decode_response (f @ rest) bus room =
        (if length vs \<le> room then Inr (vs, timed, if timed then ts else 0, tn)
         else Inl RCP_EP_ADC_ERR_TOO_MANY_VALUES)"
    using assms(3,4) vs ne
    by (auto simp: rcp_ep_adc_encode_response_def rcp_ep_adc_decode_response_def RCP_EP_ADC_VALUE_LEN_def simp del: concat_eq_Nil_conv)
qed

theorem adc_messages_roundtrip_witness:
  "\<exists>f. rcp_ep_adc_encode_response True True 5 [1, 2, 0xFFFF] 9 False 0 = Some f \<and>
      rcp_ep_adc_decode_response (f @ []) 5 3 = Inr ([1, 2, 0xFFFF], False, 0, 9)"
  using adc_messages_roundtrip [of 5 14 "[1, 2, 0xFFFF]" 9 "[]" False 0 3] by (simp add: consts_rcp)

end
