(* ===== verification/Ep_Bus.thy ===== *)
theory Ep_Bus
  imports Lifecycle Registers
begin

text \<open>
  \<^verbatim>\<open>src/ep_i2c.c\<close> and \<^verbatim>\<open>src/ep_lin.c\<close>: the two endpoints that pass octets through to a serial
  bus.  Payloads go in and out verbatim; what the files add is the direction of a transfer, the matching of
  a LIN response, the transmission trigger, the functional configuration and the register blocks.  The
  direction of the I2C code is an enumeration of two values, so that its validity test is always true
  here; the mode, which the code casts to an octet, is an octet.  The text tables are left out.
\<close>

section \<open>I2C\<close>

definition RCP_EP_I2C_EP_FUNC_LEN :: nat where [consts_rcp]: "RCP_EP_I2C_EP_FUNC_LEN = 0x0B"
definition RCP_EP_I2C_REG_EP_LEN :: nat where [consts_rcp]: "RCP_EP_I2C_REG_EP_LEN = 0"
definition RCP_EP_I2C_REG_RESERVED_01 :: nat where [consts_rcp]: "RCP_EP_I2C_REG_RESERVED_01 = 1"
definition RCP_EP_I2C_REG_EP_ENABLE_CLR :: nat where [consts_rcp]: "RCP_EP_I2C_REG_EP_ENABLE_CLR = 2"
definition RCP_EP_I2C_REG_EP_OPTIONS :: nat where [consts_rcp]: "RCP_EP_I2C_REG_EP_OPTIONS = 3"
definition RCP_EP_I2C_REG_BASE_CLK :: nat where [consts_rcp]: "RCP_EP_I2C_REG_BASE_CLK = 4"
definition RCP_EP_I2C_REG_EP_STATUS :: nat where [consts_rcp]: "RCP_EP_I2C_REG_EP_STATUS = 6"
definition RCP_EP_I2C_REG_CLOCK_DIVIDER :: nat where [consts_rcp]: "RCP_EP_I2C_REG_CLOCK_DIVIDER = 8"
definition RCP_EP_I2C_REG_MODE :: nat where [consts_rcp]: "RCP_EP_I2C_REG_MODE = 9"
definition RCP_EP_I2C_REG_TRAIL :: nat where [consts_rcp]: "RCP_EP_I2C_REG_TRAIL = 10"
definition RCP_EP_I2C_MAX_READ_SIZE :: u16 where [consts_rcp]: "RCP_EP_I2C_MAX_READ_SIZE = 0x0FFF"

datatype rcp_ep_i2c_mode_t =
    RCP_EP_I2C_MODE_STANDARD | RCP_EP_I2C_MODE_FAST | RCP_EP_I2C_MODE_FAST_PLUS
  | RCP_EP_I2C_MODE_HIGH_SPEED | RCP_EP_I2C_MODE_ULTRA_FAST

fun i2c_mode_code :: "rcp_ep_i2c_mode_t \<Rightarrow> byte" where
  "i2c_mode_code RCP_EP_I2C_MODE_STANDARD = 0"
| "i2c_mode_code RCP_EP_I2C_MODE_FAST = 1"
| "i2c_mode_code RCP_EP_I2C_MODE_FAST_PLUS = 2"
| "i2c_mode_code RCP_EP_I2C_MODE_HIGH_SPEED = 3"
| "i2c_mode_code RCP_EP_I2C_MODE_ULTRA_FAST = 4"

datatype rcp_ep_i2c_dir_t = RCP_EP_I2C_DIR_WRITE | RCP_EP_I2C_DIR_READ

datatype rcp_ep_i2c_reconfig_errc_t =
    RCP_EP_I2C_RECONFIG_OK | RCP_EP_I2C_RECONFIG_ERR_SHORT | RCP_EP_I2C_RECONFIG_ERR_OUT_OF_RANGE

datatype rcp_ep_i2c_errc_t =
    RCP_EP_I2C_OK | RCP_EP_I2C_ERR_SHORT_FRAME | RCP_EP_I2C_ERR_BAD_MSG_TYPE | RCP_EP_I2C_ERR_WRONG_BUS
  | RCP_EP_I2C_ERR_WRONG_OP | RCP_EP_I2C_ERR_BAD_EVT

record rcp_ep_i2c_functional_cfg_t =
  i2c_common :: rcp_regmap_ep_functional_cfg_t
  i2c_mode :: byte
  i2c_ep_status :: u16
  i2c_clock_divider :: byte
  i2c_trail :: byte

definition rcp_ep_i2c_mode_valid :: "byte \<Rightarrow> bool" where
  "rcp_ep_i2c_mode_valid v \<longleftrightarrow> v \<le> i2c_mode_code RCP_EP_I2C_MODE_ULTRA_FAST"

definition rcp_ep_i2c_functional_cfg_init :: rcp_ep_i2c_functional_cfg_t where
  "rcp_ep_i2c_functional_cfg_init =
     \<lparr>i2c_common = rcp_regmap_ep_functional_cfg_init, i2c_mode = 0, i2c_ep_status = 0,
      i2c_clock_divider = 0, i2c_trail = 0\<rparr>"

definition rcp_ep_i2c_functional_cfg_writable ::
    "rcp_lifecycle_state_t \<Rightarrow> rcp_lifecycle_writer_ctx_t \<Rightarrow> bool" where
  "rcp_ep_i2c_functional_cfg_writable state writer =
     rcp_lifecycle_field_writable state RCP_LIFECYCLE_FIELD_FUNCTIONAL_W writer"

definition rcp_ep_i2c_set_mode ::
    "rcp_ep_i2c_functional_cfg_t \<Rightarrow> byte \<Rightarrow> rcp_lifecycle_state_t \<Rightarrow>
     rcp_lifecycle_writer_ctx_t \<Rightarrow> bool \<times> rcp_ep_i2c_functional_cfg_t" where
  "rcp_ep_i2c_set_mode cfg mode state writer =
     (if \<not> rcp_ep_i2c_mode_valid mode then (False, cfg)
      else if \<not> rcp_ep_i2c_functional_cfg_writable state writer then (False, cfg)
      else (True, cfg\<lparr>i2c_mode := mode\<rparr>))"

definition rcp_ep_i2c_dir_valid :: "rcp_ep_i2c_dir_t \<Rightarrow> bool" where
  "rcp_ep_i2c_dir_valid d \<longleftrightarrow> d = RCP_EP_I2C_DIR_WRITE \<or> d = RCP_EP_I2C_DIR_READ"

definition dir_to_op :: "rcp_ep_i2c_dir_t \<Rightarrow> byte" where
  "dir_to_op d = (if d = RCP_EP_I2C_DIR_READ then RCP_ACF_OP_READ else RCP_ACF_OP_WRITE)"

definition op_to_dir :: "byte \<Rightarrow> rcp_ep_i2c_dir_t" where
  "op_to_dir op = (if op = RCP_ACF_OP_READ then RCP_EP_I2C_DIR_READ else RCP_EP_I2C_DIR_WRITE)"

definition rcp_ep_i2c_render_registers :: "rcp_ep_i2c_functional_cfg_t \<Rightarrow> bytes" where
  "rcp_ep_i2c_render_registers cfg =
     [of_nat RCP_EP_I2C_EP_FUNC_LEN, 0, enable_clr_octet (i2c_common cfg), options_octet (i2c_common cfg)] @
     put_u16 0 @ put_u16 (i2c_ep_status cfg) @ [i2c_clock_divider cfg, i2c_mode cfg, i2c_trail cfg]"

definition i2c_parse_registers ::
    "rcp_ep_i2c_functional_cfg_t \<Rightarrow> bytes \<Rightarrow> rcp_ep_i2c_functional_cfg_t" where
  "i2c_parse_registers cfg img =
     cfg\<lparr>i2c_common := parse_common (img ! RCP_EP_I2C_REG_EP_ENABLE_CLR) (img ! RCP_EP_I2C_REG_EP_OPTIONS),
         i2c_ep_status := get_u16 (drop RCP_EP_I2C_REG_EP_STATUS img),
         i2c_clock_divider := img ! RCP_EP_I2C_REG_CLOCK_DIVIDER,
         i2c_mode := img ! RCP_EP_I2C_REG_MODE,
         i2c_trail := img ! RCP_EP_I2C_REG_TRAIL\<rparr>"

definition i2c_reg_offset_read_only :: "nat \<Rightarrow> bool" where
  "i2c_reg_offset_read_only addr \<longleftrightarrow>
     addr = RCP_EP_I2C_REG_EP_LEN \<or> addr = RCP_EP_I2C_REG_RESERVED_01 \<or>
     addr = RCP_EP_I2C_REG_BASE_CLK \<or> addr = RCP_EP_I2C_REG_BASE_CLK + 1"

definition rcp_ep_i2c_apply_reconfig ::
    "rcp_ep_i2c_functional_cfg_t \<Rightarrow> bytes \<Rightarrow> rcp_ep_i2c_reconfig_errc_t \<times> rcp_ep_i2c_functional_cfg_t" where
  "rcp_ep_i2c_apply_reconfig =
     apply_block rcp_ep_i2c_render_registers i2c_parse_registers i2c_reg_offset_read_only
       RCP_EP_I2C_EP_FUNC_LEN RCP_EP_I2C_RECONFIG_OK RCP_EP_I2C_RECONFIG_ERR_SHORT
       RCP_EP_I2C_RECONFIG_ERR_OUT_OF_RANGE"

definition rcp_ep_i2c_encode_reconfig_request ::
    "bool \<Rightarrow> bool \<Rightarrow> rcp_byte_bus_id_t \<Rightarrow> u16 \<Rightarrow> bytes \<Rightarrow> byte \<Rightarrow> rcp_bytes_t" where
  "rcp_ep_i2c_encode_reconfig_request mem_payload mem_frame bus start_address data tn =
     encode_reconfig mem_payload mem_frame bus start_address data tn"

definition rcp_ep_i2c_encode_transfer_request ::
    "bool \<Rightarrow> rcp_byte_bus_id_t \<Rightarrow> rcp_ep_i2c_dir_t \<Rightarrow> bytes \<Rightarrow> u16 \<Rightarrow> byte \<Rightarrow> rcp_bytes_t" where
  "rcp_ep_i2c_encode_transfer_request mem bus direction tx_data read_size tn =
     (if \<not> rcp_ep_i2c_dir_valid direction then None
      else if read_size > RCP_EP_I2C_MAX_READ_SIZE then None
      else if direction = RCP_EP_I2C_DIR_WRITE \<and> read_size \<noteq> 0 then None
      else rcp_acf_encode_abb mem
             (zero_info\<lparr>bm_byte_bus_id := bus, bm_op := dir_to_op direction, bm_evt := 0,
                        bm_transaction_num := tn,
                        bm_read_size_or_segment_num :=
                          if direction = RCP_EP_I2C_DIR_READ then read_size else 0\<rparr>) tx_data)"

definition rcp_ep_i2c_decode_transfer_request ::
    "bytes \<Rightarrow> rcp_byte_bus_id_t \<Rightarrow> rcp_ep_i2c_errc_t + (rcp_ep_i2c_dir_t \<times> bytes \<times> u16 \<times> byte)" where
  "rcp_ep_i2c_decode_transfer_request b expected_bus =
     (case decode_request_frame RCP_EP_I2C_ERR_SHORT_FRAME RCP_EP_I2C_ERR_BAD_MSG_TYPE b of
        Inl e \<Rightarrow> Inl e
      | Inr (hdr, payload) \<Rightarrow>
          if bm_byte_bus_id hdr \<noteq> expected_bus then Inl RCP_EP_I2C_ERR_WRONG_BUS
          else if \<not> rcp_acf_evt_row2_is_plain (bm_evt hdr) then Inl RCP_EP_I2C_ERR_BAD_EVT
          else
            let direction = op_to_dir (bm_op hdr)
            in Inr (direction, payload,
                    if direction = RCP_EP_I2C_DIR_READ then bm_read_size_or_segment_num hdr else 0,
                    bm_transaction_num hdr))"

definition rcp_ep_i2c_encode_response ::
    "bool \<Rightarrow> rcp_byte_bus_id_t \<Rightarrow> rcp_ep_i2c_dir_t \<Rightarrow> bytes \<Rightarrow> byte \<Rightarrow> bool \<Rightarrow> u64 \<Rightarrow> rcp_bytes_t" where
  "rcp_ep_i2c_encode_response mem bus direction rx_data tn timed timestamp =
     (if \<not> rcp_ep_i2c_dir_valid direction then None
      else if direction = RCP_EP_I2C_DIR_WRITE \<and> length rx_data \<noteq> 0 then None
      else response_frame mem bus (dir_to_op direction) 0 rx_data tn timed timestamp)"

definition rcp_ep_i2c_decode_response ::
    "bytes \<Rightarrow> rcp_byte_bus_id_t \<Rightarrow>
     rcp_ep_i2c_errc_t + (rcp_ep_i2c_dir_t \<times> bytes \<times> bool \<times> u64 \<times> byte)" where
  "rcp_ep_i2c_decode_response b expected_bus =
     (case decode_response_frame RCP_EP_I2C_ERR_SHORT_FRAME RCP_EP_I2C_ERR_BAD_MSG_TYPE b of
        Inl e \<Rightarrow> Inl e
      | Inr (hdr, timed, timestamp, payload) \<Rightarrow>
          if bm_byte_bus_id hdr \<noteq> expected_bus then Inl RCP_EP_I2C_ERR_WRONG_BUS
          else Inr (op_to_dir (bm_op hdr), payload, timed, timestamp, bm_transaction_num hdr))"

section \<open>LIN\<close>

definition RCP_EP_LIN_EP_FUNC_LEN :: nat where [consts_rcp]: "RCP_EP_LIN_EP_FUNC_LEN = 9"
definition RCP_EP_LIN_REG_EP_LEN :: nat where [consts_rcp]: "RCP_EP_LIN_REG_EP_LEN = 0"
definition RCP_EP_LIN_REG_RESERVED_01 :: nat where [consts_rcp]: "RCP_EP_LIN_REG_RESERVED_01 = 1"
definition RCP_EP_LIN_REG_EP_ENABLE_CLR :: nat where [consts_rcp]: "RCP_EP_LIN_REG_EP_ENABLE_CLR = 2"
definition RCP_EP_LIN_REG_EP_OPTIONS :: nat where [consts_rcp]: "RCP_EP_LIN_REG_EP_OPTIONS = 3"
definition RCP_EP_LIN_REG_BASE_CLK :: nat where [consts_rcp]: "RCP_EP_LIN_REG_BASE_CLK = 4"
definition RCP_EP_LIN_REG_EP_STATUS :: nat where [consts_rcp]: "RCP_EP_LIN_REG_EP_STATUS = 6"
definition RCP_EP_LIN_REG_CLK_DIVIDER :: nat where [consts_rcp]: "RCP_EP_LIN_REG_CLK_DIVIDER = 8"

datatype rcp_ep_lin_trigger_t = RCP_EP_LIN_TRIGGER_NONE | RCP_EP_LIN_TRIGGER_TX_DONE

fun lin_trigger_code :: "rcp_ep_lin_trigger_t \<Rightarrow> byte" where
  "lin_trigger_code RCP_EP_LIN_TRIGGER_NONE = 0"
| "lin_trigger_code RCP_EP_LIN_TRIGGER_TX_DONE = 1"

datatype rcp_ep_lin_reconfig_errc_t =
    RCP_EP_LIN_RECONFIG_OK | RCP_EP_LIN_RECONFIG_ERR_SHORT | RCP_EP_LIN_RECONFIG_ERR_OUT_OF_RANGE

datatype rcp_ep_lin_errc_t =
    RCP_EP_LIN_OK | RCP_EP_LIN_ERR_SHORT_FRAME | RCP_EP_LIN_ERR_BAD_MSG_TYPE | RCP_EP_LIN_ERR_WRONG_BUS
  | RCP_EP_LIN_ERR_WRONG_OP | RCP_EP_LIN_ERR_BAD_EVT

record rcp_ep_lin_functional_cfg_t =
  lin_common :: rcp_regmap_ep_functional_cfg_t
  lin_clk_divider :: u32
  lin_trigger :: byte
  lin_ep_status :: u16
  lin_wire_clk_divider :: byte

definition rcp_ep_lin_response_matches :: "bytes \<Rightarrow> bytes \<Rightarrow> bool" where
  "rcp_ep_lin_response_matches tx_data rx_data = rcp_acf_compound_wait_match 0 tx_data rx_data"

definition rcp_ep_lin_trigger_fires :: "rcp_ep_lin_trigger_t \<Rightarrow> bool \<Rightarrow> bool \<Rightarrow> bool" where
  "rcp_ep_lin_trigger_fires trigger tx_done_event trailing_time_expired =
     (case trigger of
        RCP_EP_LIN_TRIGGER_TX_DONE \<Rightarrow> tx_done_event \<and> trailing_time_expired
      | RCP_EP_LIN_TRIGGER_NONE \<Rightarrow> False)"

definition rcp_ep_lin_functional_cfg_init :: rcp_ep_lin_functional_cfg_t where
  "rcp_ep_lin_functional_cfg_init =
     \<lparr>lin_common = rcp_regmap_ep_functional_cfg_init, lin_clk_divider = 0, lin_trigger = 0,
      lin_ep_status = 0, lin_wire_clk_divider = 0\<rparr>"

definition rcp_ep_lin_functional_cfg_writable ::
    "rcp_lifecycle_state_t \<Rightarrow> rcp_lifecycle_writer_ctx_t \<Rightarrow> bool" where
  "rcp_ep_lin_functional_cfg_writable state writer =
     rcp_lifecycle_field_writable state RCP_LIFECYCLE_FIELD_FUNCTIONAL_W writer"

definition rcp_ep_lin_set_clk_divider ::
    "rcp_ep_lin_functional_cfg_t \<Rightarrow> u32 \<Rightarrow> rcp_lifecycle_state_t \<Rightarrow> rcp_lifecycle_writer_ctx_t \<Rightarrow>
     bool \<times> rcp_ep_lin_functional_cfg_t" where
  "rcp_ep_lin_set_clk_divider cfg divider state writer =
     (if \<not> rcp_ep_lin_functional_cfg_writable state writer then (False, cfg)
      else (True, cfg\<lparr>lin_clk_divider := divider\<rparr>))"

definition rcp_ep_lin_set_trigger ::
    "rcp_ep_lin_functional_cfg_t \<Rightarrow> rcp_ep_lin_trigger_t \<Rightarrow> rcp_lifecycle_state_t \<Rightarrow>
     rcp_lifecycle_writer_ctx_t \<Rightarrow> bool \<times> rcp_ep_lin_functional_cfg_t" where
  "rcp_ep_lin_set_trigger cfg trigger state writer =
     (if \<not> rcp_ep_lin_functional_cfg_writable state writer then (False, cfg)
      else (True, cfg\<lparr>lin_trigger := lin_trigger_code trigger\<rparr>))"

definition rcp_ep_lin_render_registers :: "rcp_ep_lin_functional_cfg_t \<Rightarrow> bytes" where
  "rcp_ep_lin_render_registers cfg =
     [of_nat RCP_EP_LIN_EP_FUNC_LEN, 0, enable_clr_octet (lin_common cfg), options_octet (lin_common cfg)] @
     put_u16 0 @ put_u16 (lin_ep_status cfg) @ [lin_wire_clk_divider cfg]"

definition lin_parse_registers ::
    "rcp_ep_lin_functional_cfg_t \<Rightarrow> bytes \<Rightarrow> rcp_ep_lin_functional_cfg_t" where
  "lin_parse_registers cfg img =
     cfg\<lparr>lin_common := parse_common (img ! RCP_EP_LIN_REG_EP_ENABLE_CLR) (img ! RCP_EP_LIN_REG_EP_OPTIONS),
         lin_ep_status := get_u16 (drop RCP_EP_LIN_REG_EP_STATUS img),
         lin_wire_clk_divider := img ! RCP_EP_LIN_REG_CLK_DIVIDER\<rparr>"

definition lin_reg_offset_read_only :: "nat \<Rightarrow> bool" where
  "lin_reg_offset_read_only addr \<longleftrightarrow>
     addr = RCP_EP_LIN_REG_EP_LEN \<or> addr = RCP_EP_LIN_REG_RESERVED_01 \<or>
     addr = RCP_EP_LIN_REG_BASE_CLK \<or> addr = RCP_EP_LIN_REG_BASE_CLK + 1"

definition rcp_ep_lin_apply_reconfig ::
    "rcp_ep_lin_functional_cfg_t \<Rightarrow> bytes \<Rightarrow> rcp_ep_lin_reconfig_errc_t \<times> rcp_ep_lin_functional_cfg_t" where
  "rcp_ep_lin_apply_reconfig =
     apply_block rcp_ep_lin_render_registers lin_parse_registers lin_reg_offset_read_only
       RCP_EP_LIN_EP_FUNC_LEN RCP_EP_LIN_RECONFIG_OK RCP_EP_LIN_RECONFIG_ERR_SHORT
       RCP_EP_LIN_RECONFIG_ERR_OUT_OF_RANGE"

definition rcp_ep_lin_encode_reconfig_request ::
    "bool \<Rightarrow> bool \<Rightarrow> rcp_byte_bus_id_t \<Rightarrow> u16 \<Rightarrow> bytes \<Rightarrow> byte \<Rightarrow> rcp_bytes_t" where
  "rcp_ep_lin_encode_reconfig_request mem_payload mem_frame bus start_address data tn =
     encode_reconfig mem_payload mem_frame bus start_address data tn"

definition rcp_ep_lin_encode_command_request ::
    "bool \<Rightarrow> rcp_byte_bus_id_t \<Rightarrow> bytes \<Rightarrow> byte \<Rightarrow> rcp_bytes_t" where
  "rcp_ep_lin_encode_command_request mem bus tx_data tn =
     rcp_acf_encode_abb mem
       (zero_info\<lparr>bm_byte_bus_id := bus, bm_op := RCP_ACF_OP_READ, bm_transaction_num := tn\<rparr>) tx_data"

definition rcp_ep_lin_decode_command_request ::
    "bytes \<Rightarrow> rcp_byte_bus_id_t \<Rightarrow> rcp_ep_lin_errc_t + (bytes \<times> byte)" where
  "rcp_ep_lin_decode_command_request b expected_bus =
     (case decode_request_frame RCP_EP_LIN_ERR_SHORT_FRAME RCP_EP_LIN_ERR_BAD_MSG_TYPE b of
        Inl e \<Rightarrow> Inl e
      | Inr (hdr, payload) \<Rightarrow>
          if bm_byte_bus_id hdr \<noteq> expected_bus then Inl RCP_EP_LIN_ERR_WRONG_BUS
          else if bm_op hdr \<noteq> RCP_ACF_OP_READ then Inl RCP_EP_LIN_ERR_WRONG_OP
          else if \<not> rcp_acf_evt_row2_is_plain (bm_evt hdr) then Inl RCP_EP_LIN_ERR_BAD_EVT
          else Inr (payload, bm_transaction_num hdr))"

definition rcp_ep_lin_encode_response ::
    "bool \<Rightarrow> rcp_byte_bus_id_t \<Rightarrow> bytes \<Rightarrow> byte \<Rightarrow> bool \<Rightarrow> u64 \<Rightarrow> rcp_bytes_t" where
  "rcp_ep_lin_encode_response mem bus rx_data tn timed timestamp =
     response_frame mem bus RCP_ACF_OP_READ 0 rx_data tn timed timestamp"

definition rcp_ep_lin_decode_response ::
    "bytes \<Rightarrow> rcp_byte_bus_id_t \<Rightarrow> rcp_ep_lin_errc_t + (bytes \<times> bool \<times> u64 \<times> byte)" where
  "rcp_ep_lin_decode_response b expected_bus =
     (case decode_response_frame RCP_EP_LIN_ERR_SHORT_FRAME RCP_EP_LIN_ERR_BAD_MSG_TYPE b of
        Inl e \<Rightarrow> Inl e
      | Inr (hdr, timed, timestamp, payload) \<Rightarrow>
          if bm_byte_bus_id hdr \<noteq> expected_bus then Inl RCP_EP_LIN_ERR_WRONG_BUS
          else Inr (payload, timed, timestamp, bm_transaction_num hdr))"

section \<open>The register blocks\<close>

lemma i2c_registers:
  "rcp_ep_i2c_render_registers c =
     [0x0B, 0, enable_clr_octet (i2c_common c), options_octet (i2c_common c), 0, 0,
      put_u16 (i2c_ep_status c) ! 0, put_u16 (i2c_ep_status c) ! 1, i2c_clock_divider c, i2c_mode c, i2c_trail c]"
  by (simp add: rcp_ep_i2c_render_registers_def put_u16_def consts_rcp)

lemma lin_registers:
  "rcp_ep_lin_render_registers c =
     [9, 0, enable_clr_octet (lin_common c), options_octet (lin_common c), 0, 0,
      put_u16 (lin_ep_status c) ! 0, put_u16 (lin_ep_status c) ! 1, lin_wire_clk_divider c]"
  by (simp add: rcp_ep_lin_render_registers_def put_u16_def consts_rcp)

lemma i2c_parse_nth:
  assumes "length img = 11" and "\<And>i. i < 11 \<Longrightarrow> i2c_reg_offset_read_only i \<Longrightarrow>
      img ! i = rcp_ep_i2c_render_registers c ! i" and "i < 11"
  shows "rcp_ep_i2c_render_registers (i2c_parse_registers c img) ! i = flag_canon i (img ! i)"
proof -
  have ro: "img ! 0 = 0x0B" "img ! Suc 0 = 0" "img ! 4 = 0" "img ! 5 = 0"
    using assms(2) [of 0] assms(2) [of 1] assms(2) [of 4] assms(2) [of 5]
    by (simp_all add: i2c_reg_offset_read_only_def consts_rcp i2c_registers)
  have w: "put_u16 (get_u16 (drop 6 img)) = [img ! 6, img ! 7]"
    using assms(1) by (simp add: put_get_u16_at)
  have "i \<in> {0, 1, 2, 3, 4, 5, 6, 7, 8, 9, 10}" using assms(3) by (simp, presburger)
  then show ?thesis
    by (auto simp: i2c_registers i2c_parse_registers_def consts_rcp common_octets_parse w ro flag_canon_def)
qed

lemma lin_parse_nth:
  assumes "length img = 9" and "\<And>i. i < 9 \<Longrightarrow> lin_reg_offset_read_only i \<Longrightarrow>
      img ! i = rcp_ep_lin_render_registers c ! i" and "i < 9"
  shows "rcp_ep_lin_render_registers (lin_parse_registers c img) ! i = flag_canon i (img ! i)"
proof -
  have ro: "img ! 0 = 9" "img ! Suc 0 = 0" "img ! 4 = 0" "img ! 5 = 0"
    using assms(2) [of 0] assms(2) [of 1] assms(2) [of 4] assms(2) [of 5]
    by (simp_all add: lin_reg_offset_read_only_def consts_rcp lin_registers)
  have w: "put_u16 (get_u16 (drop 6 img)) = [img ! 6, img ! 7]"
    using assms(1) by (simp add: put_get_u16_at)
  have "i \<in> {0, 1, 2, 3, 4, 5, 6, 7, 8}" using assms(3) by (simp, presburger)
  then show ?thesis
    by (auto simp: lin_registers lin_parse_registers_def consts_rcp common_octets_parse w ro flag_canon_def)
qed

interpretation i2c_regs: readback_block rcp_ep_i2c_render_registers i2c_parse_registers
  i2c_reg_offset_read_only RCP_EP_I2C_EP_FUNC_LEN "\<lambda>_. True" RCP_EP_I2C_RECONFIG_OK
  RCP_EP_I2C_RECONFIG_ERR_SHORT RCP_EP_I2C_RECONFIG_ERR_OUT_OF_RANGE flag_canon
proof unfold_locales
  fix c
  show "i2c_parse_registers c (rcp_ep_i2c_render_registers c) = c"
    by (simp add: i2c_registers i2c_parse_registers_def consts_rcp u16_of_octets)
  show "length (rcp_ep_i2c_render_registers c) = RCP_EP_I2C_EP_FUNC_LEN"
    by (simp add: i2c_registers consts_rcp)
next
  fix i d assume "i2c_reg_offset_read_only i"
  then show "flag_canon i d = d" by (auto simp: i2c_reg_offset_read_only_def flag_canon_def consts_rcp)
qed (simp_all add: i2c_parse_nth RCP_EP_I2C_EP_FUNC_LEN_def)

interpretation lin_regs: readback_block rcp_ep_lin_render_registers lin_parse_registers
  lin_reg_offset_read_only RCP_EP_LIN_EP_FUNC_LEN "\<lambda>_. True" RCP_EP_LIN_RECONFIG_OK
  RCP_EP_LIN_RECONFIG_ERR_SHORT RCP_EP_LIN_RECONFIG_ERR_OUT_OF_RANGE flag_canon
proof unfold_locales
  fix c
  show "lin_parse_registers c (rcp_ep_lin_render_registers c) = c"
    by (simp add: lin_registers lin_parse_registers_def consts_rcp u16_of_octets)
  show "length (rcp_ep_lin_render_registers c) = RCP_EP_LIN_EP_FUNC_LEN"
    by (simp add: lin_registers consts_rcp)
next
  fix i d assume "lin_reg_offset_read_only i"
  then show "flag_canon i d = d" by (auto simp: lin_reg_offset_read_only_def flag_canon_def consts_rcp)
qed (simp_all add: lin_parse_nth RCP_EP_LIN_EP_FUNC_LEN_def)

text \<open>a configuration write to the I2C or to the LIN registers is accepted exactly when it has data
  and stays inside the block, changes nothing otherwise, and afterwards every addressed octet that is not
  read-only reads back as written (apart from the meaningless bits of the flag octets) and every other octet
  as before; the LIN settings that are not registers are kept.\<close>

theorem serial_reconfig_readback:
  assumes "start < 2 ^ 16" and "ds \<noteq> []"
  shows "(fst (rcp_ep_i2c_apply_reconfig ci (put_u16 (of_nat start) @ ds)) = RCP_EP_I2C_RECONFIG_OK \<longleftrightarrow>
      start + length ds \<le> 11) \<and>
    (11 < start + length ds \<longrightarrow> snd (rcp_ep_i2c_apply_reconfig ci (put_u16 (of_nat start) @ ds)) = ci) \<and>
    (start + length ds \<le> 11 \<longrightarrow> (\<forall>i<11.
      rcp_ep_i2c_render_registers (snd (rcp_ep_i2c_apply_reconfig ci (put_u16 (of_nat start) @ ds))) ! i =
        (if start \<le> i \<and> i < start + length ds \<and> i \<notin> {0, 1, 4, 5} then flag_canon i (ds ! (i - start))
         else rcp_ep_i2c_render_registers ci ! i))) \<and>
    (fst (rcp_ep_lin_apply_reconfig cl (put_u16 (of_nat start) @ ds)) = RCP_EP_LIN_RECONFIG_OK \<longleftrightarrow>
      start + length ds \<le> 9) \<and>
    (9 < start + length ds \<longrightarrow> snd (rcp_ep_lin_apply_reconfig cl (put_u16 (of_nat start) @ ds)) = cl) \<and>
    (start + length ds \<le> 9 \<longrightarrow> (\<forall>i<9.
      rcp_ep_lin_render_registers (snd (rcp_ep_lin_apply_reconfig cl (put_u16 (of_nat start) @ ds))) ! i =
        (if start \<le> i \<and> i < start + length ds \<and> i \<notin> {0, 1, 4, 5} then flag_canon i (ds ! (i - start))
         else rcp_ep_lin_render_registers cl ! i))) \<and>
    lin_clk_divider (snd (rcp_ep_lin_apply_reconfig cl (put_u16 (of_nat start) @ ds))) = lin_clk_divider cl \<and>
    lin_trigger (snd (rcp_ep_lin_apply_reconfig cl (put_u16 (of_nat start) @ ds))) = lin_trigger cl"
proof -
  let ?p = "put_u16 (of_nat start) @ ds"
  have u: "unat (of_nat start :: u16) = start" using assms(1) by (simp add: unat_of_nat)
  have i: "fst (rcp_ep_i2c_apply_reconfig ci ?p) = RCP_EP_I2C_RECONFIG_OK \<longleftrightarrow> start + length ds \<le> 11"
    using i2c_regs.refused(1) [of ci ?p] u assms(2) by (simp add: rcp_ep_i2c_apply_reconfig_def consts_rcp)
  have l: "fst (rcp_ep_lin_apply_reconfig cl ?p) = RCP_EP_LIN_RECONFIG_OK \<longleftrightarrow> start + length ds \<le> 9"
    using lin_regs.refused(1) [of cl ?p] u assms(2) by (simp add: rcp_ep_lin_apply_reconfig_def consts_rcp)
  have ir: "11 < start + length ds \<longrightarrow> snd (rcp_ep_i2c_apply_reconfig ci ?p) = ci"
    using i2c_regs.refused(2) [of ci ?p] i by (auto simp: rcp_ep_i2c_apply_reconfig_def)
  have lr: "9 < start + length ds \<longrightarrow> snd (rcp_ep_lin_apply_reconfig cl ?p) = cl"
    using lin_regs.refused(2) [of cl ?p] l by (auto simp: rcp_ep_lin_apply_reconfig_def)
  have io: "start + length ds \<le> 11 \<longrightarrow> (\<forall>i<11. rcp_ep_i2c_render_registers (snd (rcp_ep_i2c_apply_reconfig ci ?p)) ! i =
        (if start \<le> i \<and> i < start + length ds \<and> i \<notin> {0, 1, 4, 5} then flag_canon i (ds ! (i - start))
         else rcp_ep_i2c_render_registers ci ! i))"
    using i2c_regs.written_octets [of start ds _ ci, OF TrueI _ assms(2,1)]
    by (simp add: rcp_ep_i2c_apply_reconfig_def i2c_reg_offset_read_only_def consts_rcp)
  have lo: "start + length ds \<le> 9 \<longrightarrow> (\<forall>i<9. rcp_ep_lin_render_registers (snd (rcp_ep_lin_apply_reconfig cl ?p)) ! i =
        (if start \<le> i \<and> i < start + length ds \<and> i \<notin> {0, 1, 4, 5} then flag_canon i (ds ! (i - start))
         else rcp_ep_lin_render_registers cl ! i))"
    using lin_regs.written_octets [of start ds _ cl, OF TrueI _ assms(2,1)]
    by (simp add: rcp_ep_lin_apply_reconfig_def lin_reg_offset_read_only_def consts_rcp)
  have "lin_clk_divider (snd (rcp_ep_lin_apply_reconfig cl ?p)) = lin_clk_divider cl \<and>
    lin_trigger (snd (rcp_ep_lin_apply_reconfig cl ?p)) = lin_trigger cl"
    by (simp add: rcp_ep_lin_apply_reconfig_def apply_block_def Let_def lin_parse_registers_def)
  with i l ir lr io lo show ?thesis by blast
qed

theorem serial_reconfig_readback_witness:
  "rcp_ep_i2c_render_registers (snd (rcp_ep_i2c_apply_reconfig rcp_ep_i2c_functional_cfg_init
     (put_u16 (of_nat 8) @ [7, 2]))) ! 9 = 2"
  using serial_reconfig_readback [of 8 "[7, 2]" rcp_ep_i2c_functional_cfg_init]
  by (simp add: flag_canon_def)

section \<open>Messages\<close>

text \<open>the messages of the two pass-through endpoints survive the wire with their payload verbatim.  An
  I2C transfer keeps its direction and, when it reads, its read size; an I2C write response that carries
  data is refused at the encoder.\<close>

theorem serial_messages_roundtrip:
  assumes "bus < 0x800" and "length p \<le> RCP_ACF_GBB_MAX_PAYLOAD" and "read_size < 0x1000"
    and "dir = RCP_EP_I2C_DIR_WRITE \<Longrightarrow> read_size = 0"
  shows "(\<exists>f. rcp_ep_i2c_encode_transfer_request True bus dir p read_size tn = Some f \<and>
      rcp_ep_i2c_decode_transfer_request (f @ rest) bus = Inr (dir, p, read_size, tn)) \<and>
    (if dir = RCP_EP_I2C_DIR_WRITE \<and> p \<noteq> [] then rcp_ep_i2c_encode_response True bus dir p tn timed ts = None
     else \<exists>f. rcp_ep_i2c_encode_response True bus dir p tn timed ts = Some f \<and>
       rcp_ep_i2c_decode_response (f @ rest) bus = Inr (dir, p, timed, if timed then ts else 0, tn)) \<and>
    (\<exists>f. rcp_ep_lin_encode_command_request True bus p tn = Some f \<and>
      rcp_ep_lin_decode_command_request (f @ rest) bus = Inr (p, tn)) \<and>
    (\<exists>f. rcp_ep_lin_encode_response True bus p tn timed ts = Some f \<and>
      rcp_ep_lin_decode_response (f @ rest) bus = Inr (p, timed, if timed then ts else 0, tn))"
proof (intro conjI)
  have rs: "read_size AND 0xFFF = read_size" "\<not> 0xFFF < read_size"
    using less_mask_eq [of read_size 12] assms(3) by (simp_all add: mask_eq_exp_minus_1 word_le_nat_alt word_less_nat_alt)
  have len: "length p \<le> RCP_ACF_ABB_MAX_PAYLOAD" using assms(2) by (simp add: consts_rcp)
  note c = abb_canon_def info_canon_def Let_def zero_info_def rcp_acf_evt_row2_is_plain_def
    bus_canon [OF assms(1)] rs consts_rcp dir_to_op_def op_to_dir_def rcp_ep_i2c_dir_valid_def
  show "\<exists>f. rcp_ep_i2c_encode_transfer_request True bus dir p read_size tn = Some f \<and>
      rcp_ep_i2c_decode_transfer_request (f @ rest) bus = Inr (dir, p, read_size, tn)"
    using request_wire [OF len, of "zero_info\<lparr>bm_byte_bus_id := bus, bm_op := dir_to_op dir, bm_evt := 0,
        bm_transaction_num := tn, bm_read_size_or_segment_num := if dir = RCP_EP_I2C_DIR_READ then read_size else 0\<rparr>"
      RCP_EP_I2C_ERR_SHORT_FRAME RCP_EP_I2C_ERR_BAD_MSG_TYPE rest] assms(4)
    by (cases dir) (auto simp: rcp_ep_i2c_encode_transfer_request_def rcp_ep_i2c_decode_transfer_request_def c)
  show "if dir = RCP_EP_I2C_DIR_WRITE \<and> p \<noteq> [] then rcp_ep_i2c_encode_response True bus dir p tn timed ts = None
     else \<exists>f. rcp_ep_i2c_encode_response True bus dir p tn timed ts = Some f \<and>
       rcp_ep_i2c_decode_response (f @ rest) bus = Inr (dir, p, timed, if timed then ts else 0, tn)"
    using response_wire [OF assms(2,1), of "dir_to_op dir" 0 tn timed ts RCP_EP_I2C_ERR_SHORT_FRAME
      RCP_EP_I2C_ERR_BAD_MSG_TYPE rest]
    by (cases dir) (auto simp: rcp_ep_i2c_encode_response_def rcp_ep_i2c_decode_response_def c)
  show "\<exists>f. rcp_ep_lin_encode_command_request True bus p tn = Some f \<and>
      rcp_ep_lin_decode_command_request (f @ rest) bus = Inr (p, tn)"
    using request_wire [OF len, of "zero_info\<lparr>bm_byte_bus_id := bus, bm_op := RCP_ACF_OP_READ, bm_transaction_num := tn\<rparr>"
      RCP_EP_LIN_ERR_SHORT_FRAME RCP_EP_LIN_ERR_BAD_MSG_TYPE rest]
    by (auto simp: rcp_ep_lin_encode_command_request_def rcp_ep_lin_decode_command_request_def c)
  show "\<exists>f. rcp_ep_lin_encode_response True bus p tn timed ts = Some f \<and>
      rcp_ep_lin_decode_response (f @ rest) bus = Inr (p, timed, if timed then ts else 0, tn)"
    using response_wire [OF assms(2,1), of RCP_ACF_OP_READ 0 tn timed ts RCP_EP_LIN_ERR_SHORT_FRAME
      RCP_EP_LIN_ERR_BAD_MSG_TYPE rest]
    by (auto simp: rcp_ep_lin_encode_response_def rcp_ep_lin_decode_response_def)
qed

theorem serial_messages_roundtrip_witness:
  "\<exists>f. rcp_ep_lin_encode_response True 5 [1, 2, 3] 9 True 77 = Some f \<and>
      rcp_ep_lin_decode_response (f @ []) 5 = Inr ([1, 2, 3], True, 77, 9)"
  using serial_messages_roundtrip [of 5 "[1, 2, 3]" 4 RCP_EP_I2C_DIR_READ 9 "[]" True 77] by (simp add: consts_rcp)

end
