(* ===== verification/Regmap_Tables.thy ===== *)
theory Regmap_Tables
  imports Regmap_General
begin

text \<open>
  \<^verbatim>\<open>src/regmap.c\<close>, second part: the configuration tables behind the general map.  Every table is a
  list of rows of fixed width.  A row is rendered into octets; a configuration write renders the whole
  table, patches the addressed octets and parses all rows back (\<open>apply_rows\<close>).  The table of the generic
  endpoint configuration instead stores the touched fields one by one.

  The locale \<open>row_table\<close> states what a row codec owes to this scheme and proves once what a write does
  to a table; \<open>readback_table\<close> adds that a read returns what was written.  Every table is an
  interpretation.

  An array and its count are one list.  The sequencer table, which the code keeps in two parallel arrays, is a
  list of pairs.  \<^verbatim>\<open>size_t\<close> values are naturals.  The text tables are left out.
\<close>

section \<open>Tables of rows\<close>

fun parse_rows :: "nat \<Rightarrow> ('r \<Rightarrow> bytes \<Rightarrow> 'r) \<Rightarrow> 'r list \<Rightarrow> bytes \<Rightarrow> 'r list" where
  "parse_rows stride parse [] block = []"
| "parse_rows stride parse (r # rs) block =
     parse r (take stride block) # parse_rows stride parse rs (drop stride block)"

definition render_rows :: "('r \<Rightarrow> bytes) \<Rightarrow> 'r list \<Rightarrow> bytes" where
  "render_rows render rows = concat (map render rows)"

text \<open>The patch loop of these tables: every octet is writable.\<close>

abbreviation patch_rows :: "bytes \<Rightarrow> nat \<Rightarrow> bytes \<Rightarrow> bytes" where
  "patch_rows \<equiv> patch_block (\<lambda>_. False)"

definition apply_rows ::
    "nat \<Rightarrow> nat \<Rightarrow> ('r \<Rightarrow> bytes) \<Rightarrow> ('r \<Rightarrow> bytes \<Rightarrow> 'r) \<Rightarrow> 'e \<Rightarrow> 'e \<Rightarrow> 'e \<Rightarrow> 'r list \<Rightarrow> nat \<Rightarrow> bytes \<Rightarrow>
     'e \<times> 'r list" where
  "apply_rows stride max_entries render parse ok err_short err_range entries relative data =
     (if length data = 0 then (err_short, entries)
      else if length entries > max_entries then (err_range, entries)
      else if relative + length data > length entries * stride then (err_range, entries)
      else (ok, parse_rows stride parse entries (patch_rows (render_rows render entries) relative data)))"

lemma length_parse_rows [simp]: "length (parse_rows n p rows b) = length rows"
  by (induction rows arbitrary: b) simp_all

lemma nth_parse_rows:
  "k < length rows \<Longrightarrow> parse_rows n p rows b ! k = p (rows ! k) (take n (drop (k * n) b))"
proof (induction rows arbitrary: b k)
  case (Cons r rows)
  then show ?case by (cases k) (simp_all add: add.commute)
qed simp

lemma row_room: "k < m \<Longrightarrow> k * n + n \<le> m * n" for k :: nat
  using mult_le_mono1 [of "Suc k" m n] by simp

locale row_table =
  fixes stride max_entries :: nat
    and render :: "'r \<Rightarrow> bytes"
    and parse :: "'r \<Rightarrow> bytes \<Rightarrow> 'r"
    and wf :: "'r \<Rightarrow> bool"
    and ok err_short err_range :: 'e
  assumes row_len [simp]: "length (render r) = stride"
    and stride_pos: "0 < stride"
    and parse_render: "wf r \<Longrightarrow> parse r (render r) = r"
    and parse_wf: "wf r \<Longrightarrow> length b = stride \<Longrightarrow> wf (parse r b)"
    and codes: "ok \<noteq> err_short" "ok \<noteq> err_range"
begin

lemma length_render_rows [simp]: "length (render_rows render rows) = length rows * stride"
  by (induction rows) (simp_all add: render_rows_def)

lemma row_of_image:
  "k < length rows \<Longrightarrow> take stride (drop (k * stride) (render_rows render rows)) = render (rows ! k)"
proof (induction rows arbitrary: k)
  case (Cons r rows)
  then show ?case by (cases k) (simp_all add: render_rows_def)
qed simp

lemma octet_of_image:
  assumes "i < length rows * stride"
  shows "render_rows render rows ! i = render (rows ! (i div stride)) ! (i mod stride)"
proof -
  have k: "i div stride < length rows" using assms by (simp add: less_mult_imp_div_less)
  have "render (rows ! (i div stride)) ! (i mod stride) =
      take stride (drop (i div stride * stride) (render_rows render rows)) ! (i mod stride)"
    by (simp add: row_of_image [OF k])
  also have "\<dots> = render_rows render rows ! (i div stride * stride + i mod stride)"
    using stride_pos k by (subst nth_take, simp) (subst nth_drop, simp_all)
  finally show ?thesis by simp
qed

lemma parse_image: "list_all wf rows \<Longrightarrow> parse_rows stride parse rows (render_rows render rows) = rows"
  by (rule nth_equalityI) (simp_all add: nth_parse_rows row_of_image parse_render list_all_length)

text \<open>A write is accepted exactly when it has data, the table fits its buffer and the span lies inside the table; a
  refused write changes nothing.\<close>

lemma accepted:
  "fst (apply_rows stride max_entries render parse ok err_short err_range rows a ds) = ok \<longleftrightarrow>
   ds \<noteq> [] \<and> length rows \<le> max_entries \<and> a + length ds \<le> length rows * stride"
  using codes by (auto simp: apply_rows_def)

lemma apply_eq:
  "ds \<noteq> [] \<Longrightarrow> length rows \<le> max_entries \<Longrightarrow> a + length ds \<le> length rows * stride \<Longrightarrow>
   apply_rows stride max_entries render parse ok err_short err_range rows a ds =
     (ok, parse_rows stride parse rows (patch_rows (render_rows render rows) a ds))"
  by (auto simp: apply_rows_def)

lemma refused_same:
  "fst (apply_rows stride max_entries render parse ok err_short err_range rows a ds) \<noteq> ok \<Longrightarrow>
   snd (apply_rows stride max_entries render parse ok err_short err_range rows a ds) = rows"
  by (auto simp: apply_rows_def)

lemma length_apply [simp]:
  "length (snd (apply_rows stride max_entries render parse ok err_short err_range rows a ds)) = length rows"
  by (simp add: apply_rows_def)

lemma apply_wf:
  "list_all wf rows \<Longrightarrow>
   list_all wf (snd (apply_rows stride max_entries render parse ok err_short err_range rows a ds))"
  using row_room [of _ "length rows" stride]
  by (auto simp: apply_rows_def list_all_length nth_parse_rows le_diff_conv2 add.commute
      intro!: parse_wf min_absorb2)

text \<open>A write changes only the rows it touches, provided the rows are well formed.\<close>

lemma other_rows:
  assumes wf: "wf (rows ! k)" and k: "k < length rows"
    and off: "a + length ds \<le> k * stride \<or> k * stride + stride \<le> a"
  shows "snd (apply_rows stride max_entries render parse ok err_short err_range rows a ds) ! k = rows ! k"
proof (cases "fst (apply_rows stride max_entries render parse ok err_short err_range rows a ds) = ok")
  case True
  then have acc: "ds \<noteq> []" "length rows \<le> max_entries" "a + length ds \<le> length rows * stride"
    by (simp_all add: accepted)
  have le: "k * stride + stride \<le> length rows * stride"
    using k by (rule row_room)
  let ?img = "patch_rows (render_rows render rows) a ds"
  have "take stride (drop (k * stride) ?img) = take stride (drop (k * stride) (render_rows render rows))"
    using off le acc(3) k by (intro nth_equalityI) (auto simp: nth_patch_block)
  then show ?thesis using k wf by (simp add: apply_eq [OF acc] nth_parse_rows row_of_image parse_render)
next
  case False
  then show ?thesis by (simp add: refused_same)
qed

lemma same_octets:
  assumes "list_all wf rows" and "\<And>i. i < length ds \<Longrightarrow> ds ! i = render_rows render rows ! (a + i)"
  shows "snd (apply_rows stride max_entries render parse ok err_short err_range rows a ds) = rows"
proof (cases "fst (apply_rows stride max_entries render parse ok err_short err_range rows a ds) = ok")
  case True
  then have acc: "ds \<noteq> []" "length rows \<le> max_entries" "a + length ds \<le> length rows * stride"
    by (simp_all add: accepted)
  have "patch_rows (render_rows render rows) a ds = render_rows render rows"
    using acc(3) assms(2) by (intro patch_block_neutral) simp_all
  then show ?thesis by (simp add: apply_eq [OF acc] parse_image assms(1))
qed (simp add: refused_same)

end

text \<open>\<open>canon\<close> is what a row keeps of an octet that is written at an offset of the row.\<close>

locale readback_table = row_table stride max_entries render parse wf ok err_short err_range
  for stride max_entries and render :: "'r \<Rightarrow> bytes" and parse wf and ok err_short err_range :: 'e +
  fixes canon :: "nat \<Rightarrow> byte \<Rightarrow> byte"
  assumes render_parse: "wf r \<Longrightarrow> length b = stride \<Longrightarrow> j < stride \<Longrightarrow>
      render (parse r b) ! j = canon j (b ! j)"
begin

lemma canon_octet:
  assumes "list_all wf rows" and "i < length rows * stride"
  shows "canon (i mod stride) (render_rows render rows ! i) = render_rows render rows ! i"
proof -
  let ?r = "rows ! (i div stride)"
  have "i div stride < length rows" using assms(2) by (simp add: less_mult_imp_div_less)
  then have "wf ?r" using assms(1) by (simp add: list_all_length)
  then show ?thesis using render_parse [of ?r "render ?r" "i mod stride"] stride_pos
    by (simp add: octet_of_image [OF assms(2)] parse_render)
qed

lemma written_octets:
  assumes wf: "list_all wf rows"
    and acc: "ds \<noteq> []" "length rows \<le> max_entries" "a + length ds \<le> length rows * stride"
    and i: "i < length rows * stride"
  shows "render_rows render (snd (apply_rows stride max_entries render parse ok err_short err_range rows a ds)) ! i =
    (if a \<le> i \<and> i < a + length ds then canon (i mod stride) (ds ! (i - a)) else render_rows render rows ! i)"
proof -
  let ?img = "patch_rows (render_rows render rows) a ds"
  let ?k = "i div stride" and ?j = "i mod stride"
  have k: "?k < length rows" using i by (simp add: less_mult_imp_div_less)
  have len: "length (take stride (drop (?k * stride) ?img)) = stride"
    using row_room [OF k, of stride] by simp
  have at: "take stride (drop (?k * stride) ?img) ! ?j = ?img ! i"
    using stride_pos k by (subst nth_take, simp) (subst nth_drop, simp_all)
  have "render (parse (rows ! ?k) (take stride (drop (?k * stride) ?img))) ! ?j = canon ?j (?img ! i)"
    using wf k len at stride_pos by (subst render_parse) (simp_all add: list_all_length)
  then show ?thesis using i acc(3) canon_octet [OF wf i]
    by (simp add: apply_eq [OF acc] octet_of_image nth_parse_rows k nth_patch_block)
qed

end

section \<open>HW pin map\<close>

record rcp_regmap_hw_pin_map_entry_t =
  hw_ep_nr :: byte
  hw_ep_pin_nr :: byte
  hw_pin_type :: byte

datatype rcp_regmap_hw_pin_map_reconfig_errc_t =
    RCP_REGMAP_HW_PIN_MAP_RECONFIG_OK | RCP_REGMAP_HW_PIN_MAP_RECONFIG_ERR_SHORT
  | RCP_REGMAP_HW_PIN_MAP_RECONFIG_ERR_OUT_OF_RANGE

definition RCP_REGMAP_HW_PIN_MAP_MAX_ENTRIES :: nat where
  [consts_rcp]: "RCP_REGMAP_HW_PIN_MAP_MAX_ENTRIES = 64"

definition hw_row :: "rcp_regmap_hw_pin_map_entry_t \<Rightarrow> bytes" where
  "hw_row e = [hw_ep_nr e, hw_ep_pin_nr e, hw_pin_type e]"

definition hw_parse_row :: "rcp_regmap_hw_pin_map_entry_t \<Rightarrow> bytes \<Rightarrow> rcp_regmap_hw_pin_map_entry_t" where
  "hw_parse_row e b = e\<lparr>hw_ep_nr := b ! 0, hw_ep_pin_nr := b ! 1, hw_pin_type := b ! 2\<rparr>"

definition rcp_regmap_hw_pin_map_render :: "rcp_regmap_hw_pin_map_entry_t list \<Rightarrow> bytes" where
  "rcp_regmap_hw_pin_map_render = render_rows hw_row"

definition rcp_regmap_hw_pin_map_apply_reconfig ::
    "rcp_regmap_hw_pin_map_entry_t list \<Rightarrow> u16 \<Rightarrow> bytes \<Rightarrow>
     rcp_regmap_hw_pin_map_reconfig_errc_t \<times> rcp_regmap_hw_pin_map_entry_t list" where
  "rcp_regmap_hw_pin_map_apply_reconfig entries relative data =
     apply_rows 3 RCP_REGMAP_HW_PIN_MAP_MAX_ENTRIES hw_row hw_parse_row
       RCP_REGMAP_HW_PIN_MAP_RECONFIG_OK RCP_REGMAP_HW_PIN_MAP_RECONFIG_ERR_SHORT
       RCP_REGMAP_HW_PIN_MAP_RECONFIG_ERR_OUT_OF_RANGE entries (unat relative) data"

interpretation hw: readback_table 3 RCP_REGMAP_HW_PIN_MAP_MAX_ENTRIES hw_row hw_parse_row "\<lambda>_. True"
  RCP_REGMAP_HW_PIN_MAP_RECONFIG_OK RCP_REGMAP_HW_PIN_MAP_RECONFIG_ERR_SHORT
  RCP_REGMAP_HW_PIN_MAP_RECONFIG_ERR_OUT_OF_RANGE "\<lambda>_ d. d"
  by unfold_locales (auto simp: hw_row_def hw_parse_row_def less_Suc_eq numeral_eq_Suc)

section \<open>Endpoint id map\<close>

record rcp_regmap_ep_id_map_entry_t =
  em_ep_id :: u16
  em_byte_bus_id :: rcp_byte_bus_id_t
  em_request_stream_index :: byte
  em_crc_required :: bool

datatype rcp_regmap_ep_id_map_reconfig_errc_t =
    RCP_REGMAP_EP_ID_MAP_RECONFIG_OK | RCP_REGMAP_EP_ID_MAP_RECONFIG_ERR_SHORT
  | RCP_REGMAP_EP_ID_MAP_RECONFIG_ERR_OUT_OF_RANGE

definition RCP_REGMAP_EP_ID_MAP_MAX_ENTRIES :: nat where
  [consts_rcp]: "RCP_REGMAP_EP_ID_MAP_MAX_ENTRIES = 64"

text \<open>Bus id and control bit share 16 bits.\<close>

definition bbid_ctrl :: "rcp_byte_bus_id_t \<Rightarrow> bool \<Rightarrow> u16" where
  "bbid_ctrl bus crc = push_bit 5 (bus AND 0x07FF) OR (if crc then 0x10 else 0)"

definition em_row :: "rcp_regmap_ep_id_map_entry_t \<Rightarrow> bytes" where
  "em_row e =
     [em_request_stream_index e, ucast (em_ep_id e)] @
     put_u16 (bbid_ctrl (em_byte_bus_id e) (em_crc_required e))"

definition em_parse_row :: "rcp_regmap_ep_id_map_entry_t \<Rightarrow> bytes \<Rightarrow> rcp_regmap_ep_id_map_entry_t" where
  "em_parse_row e b =
     (let ctrl = get_u16 (drop 2 b)
      in e\<lparr>em_request_stream_index := b ! 0, em_ep_id := ucast (b ! 1),
          em_byte_bus_id := drop_bit 5 ctrl AND 0x07FF,
          em_crc_required := ctrl AND 0x10 \<noteq> 0\<rparr>)"

definition rcp_regmap_ep_id_map_render :: "rcp_regmap_ep_id_map_entry_t list \<Rightarrow> bytes" where
  "rcp_regmap_ep_id_map_render = render_rows em_row"

definition rcp_regmap_ep_id_map_apply_reconfig ::
    "rcp_regmap_ep_id_map_entry_t list \<Rightarrow> u16 \<Rightarrow> bytes \<Rightarrow>
     rcp_regmap_ep_id_map_reconfig_errc_t \<times> rcp_regmap_ep_id_map_entry_t list" where
  "rcp_regmap_ep_id_map_apply_reconfig entries relative data =
     apply_rows 4 RCP_REGMAP_EP_ID_MAP_MAX_ENTRIES em_row em_parse_row
       RCP_REGMAP_EP_ID_MAP_RECONFIG_OK RCP_REGMAP_EP_ID_MAP_RECONFIG_ERR_SHORT
       RCP_REGMAP_EP_ID_MAP_RECONFIG_ERR_OUT_OF_RANGE entries (unat relative) data"

text \<open>A row keeps an endpoint id of 8 bits and a bus id of 11 bits; the low four bits of its last octet are
  reserved.\<close>

definition em_wf :: "rcp_regmap_ep_id_map_entry_t \<Rightarrow> bool" where
  "em_wf e \<longleftrightarrow> take_bit 8 (em_ep_id e) = em_ep_id e \<and> take_bit 11 (em_byte_bus_id e) = em_byte_bus_id e"

definition em_canon :: "nat \<Rightarrow> byte \<Rightarrow> byte" where
  "em_canon j d = (if j = 3 then d AND 0xF0 else d)"

lemma mask_flag: "(w AND 0x10 \<noteq> 0) = bit w 4" "(w AND 0x80 \<noteq> 0) = bit w 7" "(w AND 0x08 \<noteq> 0) = bit w 3"
  "(w AND 0x04 \<noteq> 0) = bit w 2" "(w AND 0x02 \<noteq> 0) = bit w 1" "(w AND 0x01 \<noteq> 0) = bit w 0"
  for w :: "'a::len word"
  using flag_set [of w 4] flag_set [of w 7] flag_set [of w 3] flag_set [of w 2] flag_set [of w 1] flag_set [of w 0]
  by (simp_all add: push_bit_eq_mult)

lemma octet_word: "ucast (ucast w :: byte) = take_bit 8 w" "ucast (ucast d :: u16) = d" for w :: u16 and d :: byte
  by (rule word16_eqI, simp add: word_bits) (rule word8_eqI, simp add: word_bits)

lemma bbid_ctrl_fields:
  "drop_bit 5 (bbid_ctrl bus crc) AND 0x07FF = take_bit 11 bus" "bit (bbid_ctrl bus crc) 4 = crc"
  "bbid_ctrl (drop_bit 5 w AND 0x07FF) (bit w 4) = w AND 0xFFF0"
  by (rule word16_eqI, simp add: bbid_ctrl_def word_bits)
    (simp add: bbid_ctrl_def word_bits, rule word16_eqI, simp add: bbid_ctrl_def word_bits)

lemma put_masked: "put_u16 (get_u16 [a, b] AND 0xFFF0) = [a, b AND 0xF0]"
  unfolding put_u16_def get_u16_def list.inject
  by (intro conjI word8_eqI) (simp_all add: word_bits)

lemma em_parse_render: "em_wf e \<Longrightarrow> em_parse_row e (em_row e) = e"
  by (cases e) (simp add: em_parse_row_def em_row_def Let_def mask_flag bbid_ctrl_fields octet_word em_wf_def
      get_put_u16 [where r = "[]", simplified])

lemma em_render_parse:
  assumes "length b = 4"
  shows "em_row (em_parse_row e b) = [b ! 0, b ! 1, b ! 2, b ! 3 AND 0xF0]"
proof -
  have "get_u16 (drop 2 b) = get_u16 [b ! 2, b ! 3]" using assms by (simp add: get_u16_def)
  then show ?thesis
    by (simp add: em_parse_row_def em_row_def Let_def mask_flag bbid_ctrl_fields octet_word put_masked)
qed

interpretation em: readback_table 4 RCP_REGMAP_EP_ID_MAP_MAX_ENTRIES em_row em_parse_row em_wf
  RCP_REGMAP_EP_ID_MAP_RECONFIG_OK RCP_REGMAP_EP_ID_MAP_RECONFIG_ERR_SHORT
  RCP_REGMAP_EP_ID_MAP_RECONFIG_ERR_OUT_OF_RANGE em_canon
proof unfold_locales
  show "em_wf (em_parse_row e b)" for e b
  proof -
    have "take_bit 11 (w AND 0x7FF) = w AND 0x7FF" "take_bit 8 (ucast (d :: byte)) = (ucast d :: u16)"
      for w :: u16 and d by (rule word16_eqI, simp add: word_bits)+
    then show ?thesis by (simp add: em_wf_def em_parse_row_def Let_def)
  qed
  show "em_row (em_parse_row e b) ! j = em_canon j (b ! j)" if "length b = 4" "j < 4" for e b j
    using that by (auto simp: em_render_parse em_canon_def less_Suc_eq numeral_eq_Suc)
qed (simp_all add: em_parse_render, simp add: em_row_def)

section \<open>Response queue configuration\<close>

record rcp_regmap_response_queue_cfg_t =
  rqc_stream_uid :: u16
  rqc_max_avtpdu_size :: u16
  rqc_queue_size :: u16
  rqc_flush_on_count :: u16
  rqc_flush_time_us :: u32

datatype rcp_regmap_response_queue_cfg_reconfig_errc_t =
    RCP_REGMAP_RESPONSE_QUEUE_CFG_RECONFIG_OK | RCP_REGMAP_RESPONSE_QUEUE_CFG_RECONFIG_ERR_SHORT
  | RCP_REGMAP_RESPONSE_QUEUE_CFG_RECONFIG_ERR_OUT_OF_RANGE

definition RCP_REGMAP_RESPONSE_QUEUE_CFG_MAX_ENTRIES :: nat where
  [consts_rcp]: "RCP_REGMAP_RESPONSE_QUEUE_CFG_MAX_ENTRIES = 64"

definition rcp_regmap_response_queue_cfg_init :: rcp_regmap_response_queue_cfg_t where
  "rcp_regmap_response_queue_cfg_init =
     \<lparr>rqc_stream_uid = 0, rqc_max_avtpdu_size = 0, rqc_queue_size = 0, rqc_flush_on_count = 0,
      rqc_flush_time_us = 0\<rparr>"

definition rcp_regmap_response_queue_stream_id ::
    "rcp_regmap_response_queue_cfg_t \<Rightarrow> bytes \<Rightarrow> rcp_stream_id_t" where
  "rcp_regmap_response_queue_stream_id cfg m = rcp_stream_id_make m (rqc_stream_uid cfg)"

definition rqc_row :: "rcp_regmap_response_queue_cfg_t \<Rightarrow> bytes" where
  "rqc_row e =
     (let flush_time_wire = (if rqc_flush_time_us e > 0xFFFF then 0xFFFF else ucast (rqc_flush_time_us e))
      in put_u16 (rqc_stream_uid e) @ put_u16 (rqc_max_avtpdu_size e) @ put_u16 (rqc_queue_size e) @
         put_u16 (rqc_flush_on_count e) @ put_u16 flush_time_wire)"

definition rqc_parse_row :: "rcp_regmap_response_queue_cfg_t \<Rightarrow> bytes \<Rightarrow> rcp_regmap_response_queue_cfg_t" where
  "rqc_parse_row e b =
     e\<lparr>rqc_stream_uid := get_u16 b, rqc_max_avtpdu_size := get_u16 (drop 2 b), rqc_queue_size := get_u16 (drop 4 b),
      rqc_flush_on_count := get_u16 (drop 6 b), rqc_flush_time_us := ucast (get_u16 (drop 8 b))\<rparr>"

definition rcp_regmap_response_queue_cfg_render :: "rcp_regmap_response_queue_cfg_t list \<Rightarrow> bytes" where
  "rcp_regmap_response_queue_cfg_render = render_rows rqc_row"

definition rcp_regmap_response_queue_cfg_apply_reconfig ::
    "rcp_regmap_response_queue_cfg_t list \<Rightarrow> u16 \<Rightarrow> bytes \<Rightarrow>
     rcp_regmap_response_queue_cfg_reconfig_errc_t \<times> rcp_regmap_response_queue_cfg_t list" where
  "rcp_regmap_response_queue_cfg_apply_reconfig entries relative data =
     apply_rows 10 RCP_REGMAP_RESPONSE_QUEUE_CFG_MAX_ENTRIES rqc_row rqc_parse_row
       RCP_REGMAP_RESPONSE_QUEUE_CFG_RECONFIG_OK RCP_REGMAP_RESPONSE_QUEUE_CFG_RECONFIG_ERR_SHORT
       RCP_REGMAP_RESPONSE_QUEUE_CFG_RECONFIG_ERR_OUT_OF_RANGE entries (unat relative) data"

text \<open>The register holds flush times up to \<open>0xFFFF\<close> microseconds.\<close>

definition rqc_wf :: "rcp_regmap_response_queue_cfg_t \<Rightarrow> bool" where
  "rqc_wf e \<longleftrightarrow> rqc_flush_time_us e \<le> 0xFFFF"

lemma ucast_u16_bound: "ucast (w :: u16) \<le> (0xFFFF :: u32)"
proof -
  have "unat w < 2 ^ 16" using unsigned_less [of w, where 'a = nat] by simp
  then show ?thesis by (simp add: word_le_nat_alt unsigned_ucast_eq take_bit_nat_eq_self)
qed

lemma ucast_u16_u32: "ucast (ucast w :: u32) = w" for w :: u16
  by (rule word16_eqI) (simp add: word_bits)

lemma ucast_u32_u16: "w \<le> 0xFFFF \<Longrightarrow> ucast (ucast w :: u16) = w" for w :: u32
proof -
  assume "w \<le> 0xFFFF"
  then have "unat w < 2 ^ 16" by (simp add: word_le_nat_alt)
  then have "unat (ucast (ucast w :: u16) :: u32) = unat w"
    by (simp add: unsigned_ucast_eq unsigned_take_bit_eq take_bit_nat_eq_self)
  then show ?thesis by (simp only: word_unat_eq_iff)
qed

lemma rqc_parse_render: "rqc_wf e \<Longrightarrow> rqc_parse_row e (rqc_row e) = e"
  by (cases e) (auto simp: rqc_parse_row_def rqc_row_def rqc_wf_def Let_def ucast_u32_u16 not_less
      get_put_u16 [where r = "[]", simplified] dest: leD)

lemma rqc_render_parse:
  assumes "length b = 10"
  shows "rqc_row (rqc_parse_row e b) = [b ! 0, b ! 1, b ! 2, b ! 3, b ! 4, b ! 5, b ! 6, b ! 7, b ! 8, b ! 9]"
proof -
  have at: "put_u16 (get_u16 (drop k b)) = [b ! k, b ! (k + 1)]" if "k < 9" for k
    using that assms by (intro put_get_u16_at) simp
  have "\<not> ucast w > (0xFFFF :: u32)" for w :: u16 using ucast_u16_bound [of w] by (simp add: not_less)
  then show ?thesis using at [of 0] at [of 2] at [of 4] at [of 6] at [of 8]
    by (simp add: rqc_row_def rqc_parse_row_def Let_def ucast_u16_u32)
qed

interpretation rqc: readback_table 10 RCP_REGMAP_RESPONSE_QUEUE_CFG_MAX_ENTRIES rqc_row rqc_parse_row rqc_wf
  RCP_REGMAP_RESPONSE_QUEUE_CFG_RECONFIG_OK RCP_REGMAP_RESPONSE_QUEUE_CFG_RECONFIG_ERR_SHORT
  RCP_REGMAP_RESPONSE_QUEUE_CFG_RECONFIG_ERR_OUT_OF_RANGE "\<lambda>_ d. d"
proof unfold_locales
  show "rqc_row (rqc_parse_row e b) ! j = b ! j" if "length b = 10" "j < 10" for e b j
    using that by (auto simp: rqc_render_parse less_Suc_eq numeral_eq_Suc)
  show "length (rqc_row e) = 10" for e by (simp add: rqc_row_def Let_def)
  show "rqc_wf (rqc_parse_row e b)" for e b by (simp add: rqc_wf_def rqc_parse_row_def ucast_u16_bound)
qed (simp_all add: rqc_parse_render)

section \<open>Sequencer table\<close>

datatype rcp_regmap_sequencer_table_reconfig_errc_t =
    RCP_REGMAP_SEQUENCER_TABLE_RECONFIG_OK | RCP_REGMAP_SEQUENCER_TABLE_RECONFIG_ERR_SHORT
  | RCP_REGMAP_SEQUENCER_TABLE_RECONFIG_ERR_OUT_OF_RANGE

definition RCP_REGMAP_SEQUENCER_STATE_MAX_ENTRIES :: nat where
  [consts_rcp]: "RCP_REGMAP_SEQUENCER_STATE_MAX_ENTRIES = 255"

text \<open>A row is the state of a sequencer and the index of the request stream that owns it.\<close>

type_synonym sequencer_row = "byte \<times> byte"

definition sq_row :: "sequencer_row \<Rightarrow> bytes" where
  "sq_row r = [fst r, snd r]"

definition sq_parse_row :: "sequencer_row \<Rightarrow> bytes \<Rightarrow> sequencer_row" where
  "sq_parse_row r b = (b ! 0, b ! 1)"

definition rcp_regmap_sequencer_table_render :: "sequencer_row list \<Rightarrow> bytes" where
  "rcp_regmap_sequencer_table_render = render_rows sq_row"

definition rcp_regmap_sequencer_table_apply_reconfig ::
    "sequencer_row list \<Rightarrow> u16 \<Rightarrow> bytes \<Rightarrow> rcp_regmap_sequencer_table_reconfig_errc_t \<times> sequencer_row list" where
  "rcp_regmap_sequencer_table_apply_reconfig rows relative data =
     apply_rows 2 RCP_REGMAP_SEQUENCER_STATE_MAX_ENTRIES sq_row sq_parse_row
       RCP_REGMAP_SEQUENCER_TABLE_RECONFIG_OK RCP_REGMAP_SEQUENCER_TABLE_RECONFIG_ERR_SHORT
       RCP_REGMAP_SEQUENCER_TABLE_RECONFIG_ERR_OUT_OF_RANGE rows (unat relative) data"

interpretation sq: readback_table 2 RCP_REGMAP_SEQUENCER_STATE_MAX_ENTRIES sq_row sq_parse_row "\<lambda>_. True"
  RCP_REGMAP_SEQUENCER_TABLE_RECONFIG_OK RCP_REGMAP_SEQUENCER_TABLE_RECONFIG_ERR_SHORT
  RCP_REGMAP_SEQUENCER_TABLE_RECONFIG_ERR_OUT_OF_RANGE "\<lambda>_ d. d"
  by unfold_locales (auto simp: sq_row_def sq_parse_row_def less_Suc_eq numeral_eq_Suc)

section \<open>Optional sections\<close>

text \<open>A section of an optional subsystem is its own image: a buffer of 256 octets of which \<open>len\<close> are in
  use.\<close>

record rcp_regmap_optional_subsystem_cfg_t =
  oc_data :: bytes
  oc_len :: nat

datatype rcp_regmap_optional_subsystem_cfg_reconfig_errc_t =
    RCP_REGMAP_OPTIONAL_SUBSYSTEM_CFG_RECONFIG_OK
  | RCP_REGMAP_OPTIONAL_SUBSYSTEM_CFG_RECONFIG_ERR_SHORT
  | RCP_REGMAP_OPTIONAL_SUBSYSTEM_CFG_RECONFIG_ERR_OUT_OF_RANGE

definition RCP_REGMAP_OPTIONAL_SUBSYSTEM_CFG_MAX_OCTETS :: nat where
  [consts_rcp]: "RCP_REGMAP_OPTIONAL_SUBSYSTEM_CFG_MAX_OCTETS = 256"

definition rcp_regmap_optional_subsystem_cfg_apply_reconfig ::
    "rcp_regmap_optional_subsystem_cfg_t \<Rightarrow> u16 \<Rightarrow> bytes \<Rightarrow>
     rcp_regmap_optional_subsystem_cfg_reconfig_errc_t \<times> rcp_regmap_optional_subsystem_cfg_t" where
  "rcp_regmap_optional_subsystem_cfg_apply_reconfig cfg relative data =
     (if length data = 0 then (RCP_REGMAP_OPTIONAL_SUBSYSTEM_CFG_RECONFIG_ERR_SHORT, cfg)
      else if unat relative + length data > oc_len cfg
      then (RCP_REGMAP_OPTIONAL_SUBSYSTEM_CFG_RECONFIG_ERR_OUT_OF_RANGE, cfg)
      else (RCP_REGMAP_OPTIONAL_SUBSYSTEM_CFG_RECONFIG_OK,
            cfg\<lparr>oc_data := take (unat relative) (oc_data cfg) @ data @
                 drop (unat relative + length data) (oc_data cfg)\<rparr>))"

definition oc_wf :: "rcp_regmap_optional_subsystem_cfg_t \<Rightarrow> bool" where
  "oc_wf cfg \<longleftrightarrow> length (oc_data cfg) = RCP_REGMAP_OPTIONAL_SUBSYSTEM_CFG_MAX_OCTETS \<and>
     oc_len cfg \<le> RCP_REGMAP_OPTIONAL_SUBSYSTEM_CFG_MAX_OCTETS"

lemma oc_apply_wf:
  "oc_wf cfg \<Longrightarrow> oc_wf (snd (rcp_regmap_optional_subsystem_cfg_apply_reconfig cfg relative data))"
  by (auto simp: oc_wf_def rcp_regmap_optional_subsystem_cfg_apply_reconfig_def)

lemma oc_written:
  assumes "oc_wf cfg" "data \<noteq> []" "unat relative + length data \<le> oc_len cfg" "i < oc_len cfg"
  shows "oc_data (snd (rcp_regmap_optional_subsystem_cfg_apply_reconfig cfg relative data)) ! i =
    (if unat relative \<le> i \<and> i < unat relative + length data then data ! (i - unat relative)
     else oc_data cfg ! i)"
  using assms
  by (auto simp: rcp_regmap_optional_subsystem_cfg_apply_reconfig_def oc_wf_def nth_append)

end
