(* ===== verification/Ep_Spi.thy ===== *)
theory Ep_Spi
  imports Regmap_Tables
begin

text \<open>
  \<^verbatim>\<open>src/ep_spi.c\<close>: the SPI endpoint with its six channels.  The configuration of the channels is a list
  of six records; their registers are a table of rows behind the six octets that all endpoints have.
  \<open>mode\<close> and the other small enumerations are kept as the octets the code stores.  The text tables are left out.
\<close>

section \<open>Data\<close>

definition RCP_EP_SPI_MAX_CHANNELS :: nat where [consts_rcp]: "RCP_EP_SPI_MAX_CHANNELS = 6"
definition RCP_EP_SPI_REG_EP_LEN :: nat where [consts_rcp]: "RCP_EP_SPI_REG_EP_LEN = 0"
definition RCP_EP_SPI_REG_NR_CS :: nat where [consts_rcp]: "RCP_EP_SPI_REG_NR_CS = 1"
definition RCP_EP_SPI_REG_EP_ENABLE_CLR :: nat where [consts_rcp]: "RCP_EP_SPI_REG_EP_ENABLE_CLR = 2"
definition RCP_EP_SPI_REG_EP_OPTIONS :: nat where [consts_rcp]: "RCP_EP_SPI_REG_EP_OPTIONS = 3"
definition RCP_EP_SPI_REG_EP_STATUS :: nat where [consts_rcp]: "RCP_EP_SPI_REG_EP_STATUS = 4"
definition RCP_EP_SPI_REG_CHANNEL_BASE :: nat where [consts_rcp]: "RCP_EP_SPI_REG_CHANNEL_BASE = 6"
definition RCP_EP_SPI_REG_CHANNEL_SPAN :: nat where [consts_rcp]: "RCP_EP_SPI_REG_CHANNEL_SPAN = 8"
definition RCP_EP_SPI_CHREG_BAUD_RATE :: nat where [consts_rcp]: "RCP_EP_SPI_CHREG_BAUD_RATE = 0"
definition RCP_EP_SPI_CHREG_CFG :: nat where [consts_rcp]: "RCP_EP_SPI_CHREG_CFG = 2"
definition RCP_EP_SPI_CHREG_CS_LEADTIME :: nat where [consts_rcp]: "RCP_EP_SPI_CHREG_CS_LEADTIME = 3"
definition RCP_EP_SPI_CHREG_CS_TRAILTIME :: nat where [consts_rcp]: "RCP_EP_SPI_CHREG_CS_TRAILTIME = 4"
definition RCP_EP_SPI_CHREG_BITS_MAX :: nat where [consts_rcp]: "RCP_EP_SPI_CHREG_BITS_MAX = 5"
definition RCP_EP_SPI_CHREG_PAUSE_MIN :: nat where [consts_rcp]: "RCP_EP_SPI_CHREG_PAUSE_MIN = 6"
definition RCP_EP_SPI_CHREG_RESERVED :: nat where [consts_rcp]: "RCP_EP_SPI_CHREG_RESERVED = 7"
definition RCP_EP_SPI_CFG_BIT_CLK_POLARITY :: byte where "RCP_EP_SPI_CFG_BIT_CLK_POLARITY = push_bit 0 1"
definition RCP_EP_SPI_CFG_BIT_CLK_PHASE :: byte where "RCP_EP_SPI_CFG_BIT_CLK_PHASE = push_bit 1 1"
definition RCP_EP_SPI_CFG_BIT_CS_POLARITY :: byte where "RCP_EP_SPI_CFG_BIT_CS_POLARITY = push_bit 2 1"
definition RCP_EP_SPI_CFG_BIT_USE_CS :: byte where "RCP_EP_SPI_CFG_BIT_USE_CS = push_bit 3 1"
definition RCP_EP_SPI_CFG_BIT_DEASSERT_CS_PAUSE :: byte where "RCP_EP_SPI_CFG_BIT_DEASSERT_CS_PAUSE = push_bit 4 1"

definition RCP_EP_SPI_EP_FUNC_LEN :: nat where
  [consts_rcp]: "RCP_EP_SPI_EP_FUNC_LEN =
    RCP_EP_SPI_REG_CHANNEL_BASE + RCP_EP_SPI_MAX_CHANNELS * RCP_EP_SPI_REG_CHANNEL_SPAN"

datatype rcp_ep_spi_mode_t = RCP_EP_SPI_MODE_0 | RCP_EP_SPI_MODE_1 | RCP_EP_SPI_MODE_2 | RCP_EP_SPI_MODE_3

fun spi_mode_code :: "rcp_ep_spi_mode_t \<Rightarrow> byte" where
  "spi_mode_code RCP_EP_SPI_MODE_0 = 0"
| "spi_mode_code RCP_EP_SPI_MODE_1 = 1"
| "spi_mode_code RCP_EP_SPI_MODE_2 = 2"
| "spi_mode_code RCP_EP_SPI_MODE_3 = 3"

datatype rcp_ep_spi_bit_order_t = RCP_EP_SPI_BIT_ORDER_MSB_FIRST | RCP_EP_SPI_BIT_ORDER_LSB_FIRST

fun spi_bit_order_code :: "rcp_ep_spi_bit_order_t \<Rightarrow> byte" where
  "spi_bit_order_code RCP_EP_SPI_BIT_ORDER_MSB_FIRST = 0"
| "spi_bit_order_code RCP_EP_SPI_BIT_ORDER_LSB_FIRST = 1"

datatype rcp_ep_spi_cs_polarity_t = RCP_EP_SPI_CS_ACTIVE_LOW | RCP_EP_SPI_CS_ACTIVE_HIGH

fun spi_cs_polarity_code :: "rcp_ep_spi_cs_polarity_t \<Rightarrow> byte" where
  "spi_cs_polarity_code RCP_EP_SPI_CS_ACTIVE_LOW = 0"
| "spi_cs_polarity_code RCP_EP_SPI_CS_ACTIVE_HIGH = 1"

datatype rcp_ep_spi_trigger_t =
    RCP_EP_SPI_TRIGGER_NONE | RCP_EP_SPI_TRIGGER_TRANSFER_DONE | RCP_EP_SPI_TRIGGER_CS_ASSERT
  | RCP_EP_SPI_TRIGGER_CS_DEASSERT

fun spi_trigger_code :: "rcp_ep_spi_trigger_t \<Rightarrow> byte" where
  "spi_trigger_code RCP_EP_SPI_TRIGGER_NONE = 0"
| "spi_trigger_code RCP_EP_SPI_TRIGGER_TRANSFER_DONE = 1"
| "spi_trigger_code RCP_EP_SPI_TRIGGER_CS_ASSERT = 2"
| "spi_trigger_code RCP_EP_SPI_TRIGGER_CS_DEASSERT = 3"

datatype rcp_ep_spi_event_t =
    RCP_EP_SPI_EVENT_TRANSFER_DONE | RCP_EP_SPI_EVENT_CS_ASSERT | RCP_EP_SPI_EVENT_CS_DEASSERT

datatype rcp_ep_spi_reconfig_errc_t =
    RCP_EP_SPI_RECONFIG_OK | RCP_EP_SPI_RECONFIG_ERR_SHORT | RCP_EP_SPI_RECONFIG_ERR_OUT_OF_RANGE

datatype rcp_ep_spi_errc_t =
    RCP_EP_SPI_OK | RCP_EP_SPI_ERR_SHORT_FRAME | RCP_EP_SPI_ERR_BAD_MSG_TYPE | RCP_EP_SPI_ERR_WRONG_BUS
  | RCP_EP_SPI_ERR_WRONG_OP | RCP_EP_SPI_ERR_BAD_CHANNEL

record rcp_ep_spi_channel_cfg_t =
  spi_mode :: byte
  spi_bit_order :: byte
  spi_cs_polarity :: byte
  spi_trigger :: byte
  spi_clock_divider :: u32
  spi_inter_byte_delay_ns :: u32
  spi_inter_transfer_delay_ns :: u32
  spi_baud_rate_kbps :: u16
  spi_use_common_cs :: bool
  spi_cs_clk_leadtime :: byte
  spi_clk_cs_trailtime :: byte
  spi_bits_max :: byte
  spi_pause_min :: byte
  spi_deassert_cs_pause :: bool

record rcp_ep_spi_functional_cfg_t =
  spi_common :: rcp_regmap_ep_functional_cfg_t
  spi_channels :: "rcp_ep_spi_channel_cfg_t list"
  spi_ep_status :: u16

section \<open>Channels, modes and triggers\<close>

definition rcp_ep_spi_channel_valid :: "byte \<Rightarrow> bool" where
  "rcp_ep_spi_channel_valid channel \<longleftrightarrow> channel < of_nat RCP_EP_SPI_MAX_CHANNELS"

definition rcp_ep_spi_mode_valid :: "byte \<Rightarrow> bool" where
  "rcp_ep_spi_mode_valid v \<longleftrightarrow> v \<le> spi_mode_code RCP_EP_SPI_MODE_3"

definition rcp_ep_spi_mode_cpol :: "byte \<Rightarrow> bool" where
  "rcp_ep_spi_mode_cpol mode \<longleftrightarrow> mode = spi_mode_code RCP_EP_SPI_MODE_2 \<or> mode = spi_mode_code RCP_EP_SPI_MODE_3"

definition rcp_ep_spi_mode_cpha :: "byte \<Rightarrow> bool" where
  "rcp_ep_spi_mode_cpha mode \<longleftrightarrow> mode = spi_mode_code RCP_EP_SPI_MODE_1 \<or> mode = spi_mode_code RCP_EP_SPI_MODE_3"

definition mode_from_bits :: "bool \<Rightarrow> bool \<Rightarrow> rcp_ep_spi_mode_t" where
  "mode_from_bits cpol cpha =
     (if \<not> cpol \<and> \<not> cpha then RCP_EP_SPI_MODE_0
      else if \<not> cpol \<and> cpha then RCP_EP_SPI_MODE_1
      else if cpol \<and> \<not> cpha then RCP_EP_SPI_MODE_2
      else RCP_EP_SPI_MODE_3)"

fun rcp_ep_spi_trigger_fires :: "rcp_ep_spi_trigger_t \<Rightarrow> rcp_ep_spi_event_t \<Rightarrow> bool" where
  "rcp_ep_spi_trigger_fires RCP_EP_SPI_TRIGGER_TRANSFER_DONE event = (event = RCP_EP_SPI_EVENT_TRANSFER_DONE)"
| "rcp_ep_spi_trigger_fires RCP_EP_SPI_TRIGGER_CS_ASSERT event = (event = RCP_EP_SPI_EVENT_CS_ASSERT)"
| "rcp_ep_spi_trigger_fires RCP_EP_SPI_TRIGGER_CS_DEASSERT event = (event = RCP_EP_SPI_EVENT_CS_DEASSERT)"
| "rcp_ep_spi_trigger_fires RCP_EP_SPI_TRIGGER_NONE event = False"

definition rcp_ep_spi_trigger_signal_number :: "byte \<Rightarrow> rcp_ep_spi_trigger_t \<Rightarrow> byte option" where
  "rcp_ep_spi_trigger_signal_number channel trigger =
     (if channel \<ge> of_nat RCP_EP_SPI_MAX_CHANNELS then None
      else
        (case trigger of
           RCP_EP_SPI_TRIGGER_CS_ASSERT \<Rightarrow> Some (2 + 2 * channel)
         | RCP_EP_SPI_TRIGGER_CS_DEASSERT \<Rightarrow> Some (3 + 2 * channel)
         | _ \<Rightarrow> None))"

section \<open>Configuration\<close>

definition spi_channel_zero :: rcp_ep_spi_channel_cfg_t where
  "spi_channel_zero =
     \<lparr>spi_mode = 0, spi_bit_order = 0, spi_cs_polarity = 0, spi_trigger = 0, spi_clock_divider = 0,
      spi_inter_byte_delay_ns = 0, spi_inter_transfer_delay_ns = 0, spi_baud_rate_kbps = 0,
      spi_use_common_cs = False, spi_cs_clk_leadtime = 0, spi_clk_cs_trailtime = 0, spi_bits_max = 0,
      spi_pause_min = 0, spi_deassert_cs_pause = False\<rparr>"

definition rcp_ep_spi_functional_cfg_init :: rcp_ep_spi_functional_cfg_t where
  "rcp_ep_spi_functional_cfg_init =
     \<lparr>spi_common = rcp_regmap_ep_functional_cfg_init,
      spi_channels = replicate RCP_EP_SPI_MAX_CHANNELS spi_channel_zero, spi_ep_status = 0\<rparr>"

definition rcp_ep_spi_functional_cfg_writable ::
    "rcp_lifecycle_state_t \<Rightarrow> rcp_lifecycle_writer_ctx_t \<Rightarrow> bool" where
  "rcp_ep_spi_functional_cfg_writable state writer =
     rcp_lifecycle_field_writable state RCP_LIFECYCLE_FIELD_FUNCTIONAL_W writer"

text \<open>The common part of the setters of a channel.\<close>

definition set_channel ::
    "(rcp_ep_spi_channel_cfg_t \<Rightarrow> rcp_ep_spi_channel_cfg_t) \<Rightarrow> rcp_ep_spi_functional_cfg_t \<Rightarrow> byte \<Rightarrow>
     rcp_lifecycle_state_t \<Rightarrow> rcp_lifecycle_writer_ctx_t \<Rightarrow> bool \<times> rcp_ep_spi_functional_cfg_t" where
  "set_channel upd cfg channel state writer =
     (if \<not> rcp_ep_spi_channel_valid channel then (False, cfg)
      else if \<not> rcp_ep_spi_functional_cfg_writable state writer then (False, cfg)
      else (True, cfg\<lparr>spi_channels := (spi_channels cfg)[unat channel := upd (spi_channels cfg ! unat channel)]\<rparr>))"

definition rcp_ep_spi_set_channel_mode ::
    "rcp_ep_spi_functional_cfg_t \<Rightarrow> byte \<Rightarrow> rcp_ep_spi_mode_t \<Rightarrow> rcp_lifecycle_state_t \<Rightarrow>
     rcp_lifecycle_writer_ctx_t \<Rightarrow> bool \<times> rcp_ep_spi_functional_cfg_t" where
  "rcp_ep_spi_set_channel_mode cfg channel mode state writer =
     set_channel (\<lambda>ch. ch\<lparr>spi_mode := spi_mode_code mode\<rparr>) cfg channel state writer"

definition rcp_ep_spi_set_channel_bit_order ::
    "rcp_ep_spi_functional_cfg_t \<Rightarrow> byte \<Rightarrow> rcp_ep_spi_bit_order_t \<Rightarrow> rcp_lifecycle_state_t \<Rightarrow>
     rcp_lifecycle_writer_ctx_t \<Rightarrow> bool \<times> rcp_ep_spi_functional_cfg_t" where
  "rcp_ep_spi_set_channel_bit_order cfg channel bit_order state writer =
     set_channel (\<lambda>ch. ch\<lparr>spi_bit_order := spi_bit_order_code bit_order\<rparr>) cfg channel state writer"

definition rcp_ep_spi_set_channel_cs_polarity ::
    "rcp_ep_spi_functional_cfg_t \<Rightarrow> byte \<Rightarrow> rcp_ep_spi_cs_polarity_t \<Rightarrow> rcp_lifecycle_state_t \<Rightarrow>
     rcp_lifecycle_writer_ctx_t \<Rightarrow> bool \<times> rcp_ep_spi_functional_cfg_t" where
  "rcp_ep_spi_set_channel_cs_polarity cfg channel cs_polarity state writer =
     set_channel (\<lambda>ch. ch\<lparr>spi_cs_polarity := spi_cs_polarity_code cs_polarity\<rparr>) cfg channel state writer"

definition rcp_ep_spi_set_channel_clock_divider ::
    "rcp_ep_spi_functional_cfg_t \<Rightarrow> byte \<Rightarrow> u32 \<Rightarrow> rcp_lifecycle_state_t \<Rightarrow>
     rcp_lifecycle_writer_ctx_t \<Rightarrow> bool \<times> rcp_ep_spi_functional_cfg_t" where
  "rcp_ep_spi_set_channel_clock_divider cfg channel clock_divider state writer =
     set_channel (\<lambda>ch. ch\<lparr>spi_clock_divider := clock_divider\<rparr>) cfg channel state writer"

definition rcp_ep_spi_set_channel_timing ::
    "rcp_ep_spi_functional_cfg_t \<Rightarrow> byte \<Rightarrow> u32 \<Rightarrow> u32 \<Rightarrow> rcp_lifecycle_state_t \<Rightarrow>
     rcp_lifecycle_writer_ctx_t \<Rightarrow> bool \<times> rcp_ep_spi_functional_cfg_t" where
  "rcp_ep_spi_set_channel_timing cfg channel inter_byte_delay_ns inter_transfer_delay_ns state writer =
     set_channel (\<lambda>ch. ch\<lparr>spi_inter_byte_delay_ns := inter_byte_delay_ns,
       spi_inter_transfer_delay_ns := inter_transfer_delay_ns\<rparr>) cfg channel state writer"

definition rcp_ep_spi_set_channel_trigger ::
    "rcp_ep_spi_functional_cfg_t \<Rightarrow> byte \<Rightarrow> rcp_ep_spi_trigger_t \<Rightarrow> rcp_lifecycle_state_t \<Rightarrow>
     rcp_lifecycle_writer_ctx_t \<Rightarrow> bool \<times> rcp_ep_spi_functional_cfg_t" where
  "rcp_ep_spi_set_channel_trigger cfg channel trigger state writer =
     set_channel (\<lambda>ch. ch\<lparr>spi_trigger := spi_trigger_code trigger\<rparr>) cfg channel state writer"

section \<open>Registers\<close>

definition spi_cfg_octet :: "rcp_ep_spi_channel_cfg_t \<Rightarrow> byte" where
  "spi_cfg_octet ch =
     (if rcp_ep_spi_mode_cpol (spi_mode ch) then RCP_EP_SPI_CFG_BIT_CLK_POLARITY else 0) OR
     (if rcp_ep_spi_mode_cpha (spi_mode ch) then RCP_EP_SPI_CFG_BIT_CLK_PHASE else 0) OR
     (if spi_cs_polarity ch = spi_cs_polarity_code RCP_EP_SPI_CS_ACTIVE_HIGH
      then RCP_EP_SPI_CFG_BIT_CS_POLARITY else 0) OR
     (if spi_use_common_cs ch then RCP_EP_SPI_CFG_BIT_USE_CS else 0) OR
     (if spi_deassert_cs_pause ch then RCP_EP_SPI_CFG_BIT_DEASSERT_CS_PAUSE else 0)"

definition spi_channel_registers :: "rcp_ep_spi_channel_cfg_t \<Rightarrow> bytes" where
  "spi_channel_registers ch =
     put_u16 (spi_baud_rate_kbps ch) @
     [spi_cfg_octet ch, spi_cs_clk_leadtime ch, spi_clk_cs_trailtime ch, spi_bits_max ch, spi_pause_min ch, 0]"

definition spi_parse_channel :: "rcp_ep_spi_channel_cfg_t \<Rightarrow> bytes \<Rightarrow> rcp_ep_spi_channel_cfg_t" where
  "spi_parse_channel ch b =
     (let cfg_byte = b ! RCP_EP_SPI_CHREG_CFG;
          cpol = cfg_byte AND RCP_EP_SPI_CFG_BIT_CLK_POLARITY \<noteq> 0;
          cpha = cfg_byte AND RCP_EP_SPI_CFG_BIT_CLK_PHASE \<noteq> 0
      in ch\<lparr>spi_mode := spi_mode_code (mode_from_bits cpol cpha),
            spi_cs_polarity :=
              if cfg_byte AND RCP_EP_SPI_CFG_BIT_CS_POLARITY \<noteq> 0
              then spi_cs_polarity_code RCP_EP_SPI_CS_ACTIVE_HIGH
              else spi_cs_polarity_code RCP_EP_SPI_CS_ACTIVE_LOW,
            spi_use_common_cs := cfg_byte AND RCP_EP_SPI_CFG_BIT_USE_CS \<noteq> 0,
            spi_deassert_cs_pause := cfg_byte AND RCP_EP_SPI_CFG_BIT_DEASSERT_CS_PAUSE \<noteq> 0,
            spi_baud_rate_kbps := get_u16 (drop RCP_EP_SPI_CHREG_BAUD_RATE b),
            spi_cs_clk_leadtime := b ! RCP_EP_SPI_CHREG_CS_LEADTIME,
            spi_clk_cs_trailtime := b ! RCP_EP_SPI_CHREG_CS_TRAILTIME,
            spi_bits_max := b ! RCP_EP_SPI_CHREG_BITS_MAX,
            spi_pause_min := b ! RCP_EP_SPI_CHREG_PAUSE_MIN\<rparr>)"

definition spi_block_head :: "rcp_ep_spi_functional_cfg_t \<Rightarrow> bytes" where
  "spi_block_head cfg =
     [of_nat RCP_EP_SPI_EP_FUNC_LEN, (of_nat RCP_EP_SPI_MAX_CHANNELS - 1) AND 0x0F,
      enable_clr_octet (spi_common cfg), options_octet (spi_common cfg)] @ put_u16 (spi_ep_status cfg)"

definition rcp_ep_spi_render_registers :: "rcp_ep_spi_functional_cfg_t \<Rightarrow> bytes" where
  "rcp_ep_spi_render_registers cfg =
     spi_block_head cfg @ render_rows spi_channel_registers (spi_channels cfg)"

definition spi_parse_registers ::
    "rcp_ep_spi_functional_cfg_t \<Rightarrow> bytes \<Rightarrow> rcp_ep_spi_functional_cfg_t" where
  "spi_parse_registers cfg img =
     cfg\<lparr>spi_common := parse_common (img ! RCP_EP_SPI_REG_EP_ENABLE_CLR) (img ! RCP_EP_SPI_REG_EP_OPTIONS),
         spi_ep_status := get_u16 (drop RCP_EP_SPI_REG_EP_STATUS img),
         spi_channels := parse_rows RCP_EP_SPI_REG_CHANNEL_SPAN spi_parse_channel (spi_channels cfg)
           (drop RCP_EP_SPI_REG_CHANNEL_BASE img)\<rparr>"

definition spi_reg_offset_read_only :: "nat \<Rightarrow> bool" where
  "spi_reg_offset_read_only addr =
     (if addr = RCP_EP_SPI_REG_EP_LEN \<or> addr = RCP_EP_SPI_REG_NR_CS then True
      else if addr \<ge> RCP_EP_SPI_REG_CHANNEL_BASE
      then (addr - RCP_EP_SPI_REG_CHANNEL_BASE) mod RCP_EP_SPI_REG_CHANNEL_SPAN = RCP_EP_SPI_CHREG_RESERVED
      else False)"

definition rcp_ep_spi_apply_reconfig ::
    "rcp_ep_spi_functional_cfg_t \<Rightarrow> bytes \<Rightarrow> rcp_ep_spi_reconfig_errc_t \<times> rcp_ep_spi_functional_cfg_t" where
  "rcp_ep_spi_apply_reconfig =
     apply_block rcp_ep_spi_render_registers spi_parse_registers spi_reg_offset_read_only
       RCP_EP_SPI_EP_FUNC_LEN RCP_EP_SPI_RECONFIG_OK RCP_EP_SPI_RECONFIG_ERR_SHORT
       RCP_EP_SPI_RECONFIG_ERR_OUT_OF_RANGE"

definition rcp_ep_spi_encode_reconfig_request ::
    "bool \<Rightarrow> bool \<Rightarrow> rcp_byte_bus_id_t \<Rightarrow> u16 \<Rightarrow> bytes \<Rightarrow> byte \<Rightarrow> rcp_bytes_t" where
  "rcp_ep_spi_encode_reconfig_request mem_payload mem_frame bus start_address data tn =
     encode_reconfig mem_payload mem_frame bus start_address data tn"

section \<open>Messages\<close>

definition rcp_ep_spi_encode_transfer_request ::
    "bool \<Rightarrow> rcp_byte_bus_id_t \<Rightarrow> byte \<Rightarrow> bytes \<Rightarrow> u16 \<Rightarrow> byte \<Rightarrow> rcp_bytes_t" where
  "rcp_ep_spi_encode_transfer_request mem bus channel tx_data read_size tn =
     rcp_acf_encode_abb mem
       (zero_info\<lparr>bm_byte_bus_id := bus, bm_op := RCP_ACF_OP_READ, bm_evt := channel AND 0x7,
          bm_read_size_or_segment_num := read_size, bm_transaction_num := tn\<rparr>) tx_data"

text \<open>Channel, data, read size and transaction number.\<close>

definition rcp_ep_spi_decode_transfer_request ::
    "bytes \<Rightarrow> rcp_byte_bus_id_t \<Rightarrow> rcp_ep_spi_errc_t + (byte \<times> bytes \<times> u16 \<times> byte)" where
  "rcp_ep_spi_decode_transfer_request b expected_bus =
     (case decode_request_frame RCP_EP_SPI_ERR_SHORT_FRAME RCP_EP_SPI_ERR_BAD_MSG_TYPE b of
        Inl e \<Rightarrow> Inl e
      | Inr (hdr, payload) \<Rightarrow>
          if bm_byte_bus_id hdr \<noteq> expected_bus then Inl RCP_EP_SPI_ERR_WRONG_BUS
          else if bm_op hdr \<noteq> RCP_ACF_OP_READ then Inl RCP_EP_SPI_ERR_WRONG_OP
          else
            let channel = bm_evt hdr AND 0x7
            in if \<not> rcp_ep_spi_channel_valid channel then Inl RCP_EP_SPI_ERR_BAD_CHANNEL
               else Inr (channel, payload, bm_read_size_or_segment_num hdr, bm_transaction_num hdr))"

definition rcp_ep_spi_transfer_length :: "nat \<Rightarrow> u16 \<Rightarrow> nat" where
  "rcp_ep_spi_transfer_length tx_len read_size = (if unat read_size > tx_len then unat read_size else tx_len)"

definition rcp_ep_spi_encode_response ::
    "bool \<Rightarrow> rcp_byte_bus_id_t \<Rightarrow> byte \<Rightarrow> bytes \<Rightarrow> byte \<Rightarrow> bool \<Rightarrow> u64 \<Rightarrow> rcp_bytes_t" where
  "rcp_ep_spi_encode_response mem bus channel rx_data tn timed timestamp =
     response_message mem
       (zero_info\<lparr>bm_byte_bus_id := bus, bm_op := RCP_ACF_OP_READ, bm_rsp := 1, bm_evt := channel AND 0x7,
          bm_transaction_num := tn\<rparr>) rx_data timed timestamp"

definition rcp_ep_spi_decode_response ::
    "bytes \<Rightarrow> rcp_byte_bus_id_t \<Rightarrow> rcp_ep_spi_errc_t + (byte \<times> bytes \<times> bool \<times> u64 \<times> byte)" where
  "rcp_ep_spi_decode_response b expected_bus =
     (case decode_response_frame RCP_EP_SPI_ERR_SHORT_FRAME RCP_EP_SPI_ERR_BAD_MSG_TYPE b of
        Inl e \<Rightarrow> Inl e
      | Inr (hdr, timed, timestamp, payload) \<Rightarrow>
          if bm_byte_bus_id hdr \<noteq> expected_bus then Inl RCP_EP_SPI_ERR_WRONG_BUS
          else
            let channel = bm_evt hdr AND 0x7
            in if \<not> rcp_ep_spi_channel_valid channel then Inl RCP_EP_SPI_ERR_BAD_CHANNEL
               else Inr (channel, payload, timed, timestamp, bm_transaction_num hdr))"

section \<open>The register block\<close>

text \<open>Channels whose mode and polarity are values of their enumerations.\<close>

definition spi_channel_wf :: "rcp_ep_spi_channel_cfg_t \<Rightarrow> bool" where
  "spi_channel_wf ch \<longleftrightarrow> rcp_ep_spi_mode_valid (spi_mode ch) \<and> spi_cs_polarity ch \<le> 1"

definition spi_channel_canon :: "nat \<Rightarrow> byte \<Rightarrow> byte" where
  "spi_channel_canon j d = (if j = 2 then d AND 0x1F else if j = 7 then 0 else d)"

definition spi_wf :: "rcp_ep_spi_functional_cfg_t \<Rightarrow> bool" where
  "spi_wf c \<longleftrightarrow> length (spi_channels c) = 6 \<and> list_all spi_channel_wf (spi_channels c)"

definition spi_canon :: "nat \<Rightarrow> byte \<Rightarrow> byte" where
  "spi_canon i d = (if 6 \<le> i \<and> (i - 6) mod 8 = 2 then d AND 0x1F else flag_canon i d)"

lemmas spi_bits = RCP_EP_SPI_CFG_BIT_CLK_POLARITY_def RCP_EP_SPI_CFG_BIT_CLK_PHASE_def
  RCP_EP_SPI_CFG_BIT_CS_POLARITY_def RCP_EP_SPI_CFG_BIT_USE_CS_def RCP_EP_SPI_CFG_BIT_DEASSERT_CS_PAUSE_def

lemma spi_cfg_octet_bits:
  "bit (spi_cfg_octet ch) 0 = rcp_ep_spi_mode_cpol (spi_mode ch)"
  "bit (spi_cfg_octet ch) 1 = rcp_ep_spi_mode_cpha (spi_mode ch)"
  "bit (spi_cfg_octet ch) 2 = (spi_cs_polarity ch = 1)"
  "bit (spi_cfg_octet ch) 3 = spi_use_common_cs ch"
  "bit (spi_cfg_octet ch) 4 = spi_deassert_cs_pause ch"
  by (simp_all add: spi_cfg_octet_def spi_bits word_bits)

lemma spi_mode_cases: "rcp_ep_spi_mode_valid m \<Longrightarrow> m = 0 \<or> m = 1 \<or> m = 2 \<or> m = 3"
proof -
  assume "rcp_ep_spi_mode_valid m"
  then have "unat m \<le> 3" by (simp add: rcp_ep_spi_mode_valid_def word_le_nat_alt)
  then have "unat m = 0 \<or> unat m = 1 \<or> unat m = 2 \<or> unat m = 3" by linarith
  then show ?thesis by (auto simp: word_unat_eq_iff)
qed

lemma byte_le_1: "(v :: byte) \<le> 1 \<Longrightarrow> v = 0 \<or> v = 1"
proof -
  assume "v \<le> 1"
  then have "unat v = 0 \<or> unat v = 1" by (simp add: word_le_nat_alt) linarith
  then show ?thesis by (auto simp: word_unat_eq_iff)
qed

lemma mode_of_its_bits:
  "rcp_ep_spi_mode_valid m \<Longrightarrow>
   spi_mode_code (mode_from_bits (rcp_ep_spi_mode_cpol m) (rcp_ep_spi_mode_cpha m)) = m"
  by (drule spi_mode_cases)
    (auto simp: mode_from_bits_def rcp_ep_spi_mode_cpol_def rcp_ep_spi_mode_cpha_def)

lemma bits_of_mode [simp]:
  "rcp_ep_spi_mode_cpol (spi_mode_code (mode_from_bits a b)) = a"
  "rcp_ep_spi_mode_cpha (spi_mode_code (mode_from_bits a b)) = b"
  "rcp_ep_spi_mode_valid (spi_mode_code (mode_from_bits a b))"
  by (auto simp: mode_from_bits_def rcp_ep_spi_mode_cpol_def rcp_ep_spi_mode_cpha_def rcp_ep_spi_mode_valid_def)

lemma spi_parse_channel_bits:
  "spi_parse_channel ch b =
     ch\<lparr>spi_mode := spi_mode_code (mode_from_bits (bit (b ! 2) 0) (bit (b ! 2) 1)),
        spi_cs_polarity := if bit (b ! 2) 2 then 1 else 0,
        spi_use_common_cs := bit (b ! 2) 3, spi_deassert_cs_pause := bit (b ! 2) 4,
        spi_baud_rate_kbps := get_u16 b, spi_cs_clk_leadtime := b ! 3, spi_clk_cs_trailtime := b ! 4,
        spi_bits_max := b ! 5, spi_pause_min := b ! 6\<rparr>"
  unfolding spi_parse_channel_def spi_bits flag_set Let_def by (simp add: consts_rcp)

lemma spi_channel_octets:
  "spi_channel_registers ch =
     [put_u16 (spi_baud_rate_kbps ch) ! 0, put_u16 (spi_baud_rate_kbps ch) ! 1, spi_cfg_octet ch,
      spi_cs_clk_leadtime ch, spi_clk_cs_trailtime ch, spi_bits_max ch, spi_pause_min ch, 0]"
  by (simp add: spi_channel_registers_def put_u16_def)

interpretation spi_rows: readback_table 8 6 spi_channel_registers spi_parse_channel spi_channel_wf
  RCP_EP_SPI_RECONFIG_OK RCP_EP_SPI_RECONFIG_ERR_SHORT RCP_EP_SPI_RECONFIG_ERR_OUT_OF_RANGE spi_channel_canon
proof unfold_locales
  fix ch and b :: bytes and j :: nat
  show "length (spi_channel_registers ch) = 8" by (simp add: spi_channel_registers_def)
  show "spi_parse_channel ch (spi_channel_registers ch) = ch" if "spi_channel_wf ch"
    using that byte_le_1 [of "spi_cs_polarity ch"]
    by (auto simp: spi_parse_channel_bits spi_channel_octets spi_cfg_octet_bits [simplified] u16_of_octets
        spi_channel_wf_def mode_of_its_bits)
  show "spi_channel_wf (spi_parse_channel ch b)"
    by (simp add: spi_parse_channel_bits spi_channel_wf_def)
  assume b: "length b = 8" and j: "j < 8"
  have w: "put_u16 (get_u16 b) = [b ! 0, b ! 1]" using put_get_u16_at [of 0 b] b by simp
  have o: "spi_cfg_octet (spi_parse_channel ch b) = b ! 2 AND 0x1F"
    by (rule word8_eqI) (simp_all add: spi_cfg_octet_def spi_bits spi_parse_channel_bits word_bits)
  have "j \<in> {0, 1, 2, 3, 4, 5, 6, 7}" using j by (simp, presburger)
  then show "spi_channel_registers (spi_parse_channel ch b) ! j = spi_channel_canon j (b ! j)"
    unfolding spi_channel_octets o by (auto simp: spi_parse_channel_bits w spi_channel_canon_def)
qed simp_all

lemma spi_block:
  "rcp_ep_spi_render_registers c =
     [54, 5, enable_clr_octet (spi_common c), options_octet (spi_common c),
      put_u16 (spi_ep_status c) ! 0, put_u16 (spi_ep_status c) ! 1] @
     render_rows spi_channel_registers (spi_channels c)"
  by (simp add: rcp_ep_spi_render_registers_def spi_block_head_def put_u16_def consts_rcp)

lemma spi_block_nth:
  "\<not> i < 6 \<Longrightarrow> rcp_ep_spi_render_registers c ! i = render_rows spi_channel_registers (spi_channels c) ! (i - 6)"
proof -
  assume "\<not> i < 6"
  moreover have "length (spi_block_head c) = 6" by (simp add: spi_block_head_def)
  ultimately show ?thesis by (simp add: rcp_ep_spi_render_registers_def nth_append)
qed

lemma spi_parse_nth:
  assumes "spi_wf c" and "length img = 54" and "\<And>i. i < 54 \<Longrightarrow> spi_reg_offset_read_only i \<Longrightarrow>
      img ! i = rcp_ep_spi_render_registers c ! i" and "i < 54"
  shows "rcp_ep_spi_render_registers (spi_parse_registers c img) ! i = spi_canon i (img ! i)"
proof (cases "i < 6")
  case True
  have ro: "img ! 0 = 54" "img ! Suc 0 = 5"
    using assms(3) [of 0] assms(3) [of 1] by (simp_all add: spi_reg_offset_read_only_def consts_rcp spi_block)
  have w: "put_u16 (get_u16 (drop 4 img)) = [img ! 4, img ! 5]" using assms(2) by (simp add: put_get_u16_at)
  have "i \<in> {0, 1, 2, 3, 4, 5}" using True by (simp, presburger)
  then show ?thesis
    by (auto simp: spi_block spi_parse_registers_def consts_rcp common_octets_parse w ro flag_canon_def spi_canon_def)
next
  case False
  let ?rows = "spi_channels c" and ?b = "drop 6 img" and ?i = "i - 6"
  let ?k = "?i div 8" and ?j = "?i mod 8"
  have len: "length ?rows = 6" and wf: "list_all spi_channel_wf ?rows" using assms(1) by (simp_all add: spi_wf_def)
  have k: "?k < 6" using assms(4) by simp
  have i: "?i < 6 * 8" using assms(4) by simp
  define b where "b = take 8 (drop (?k * 8) ?b)"
  have row: "length b = 8" using k assms(2) by (simp add: b_def)
  have at: "b ! ?j = img ! i"
    using False k assms(2) by (simp add: b_def nth_take)
  have "rcp_ep_spi_render_registers (spi_parse_registers c img) ! i =
      render_rows spi_channel_registers (parse_rows 8 spi_parse_channel ?rows ?b) ! ?i"
    using False by (simp add: spi_block_nth spi_parse_registers_def consts_rcp)
  also have "\<dots> = spi_channel_canon ?j (img ! i)"
    using spi_rows.octet_of_image [of ?i "parse_rows 8 spi_parse_channel ?rows ?b"] i len k wf
      spi_rows.render_parse [of "?rows ! ?k" b ?j] row at
    by (simp add: nth_parse_rows list_all_length b_def [symmetric] del: drop_drop)
  also have "\<dots> = spi_canon i (img ! i)"
  proof (cases "?j = 7")
    case True
    have "img ! i = rcp_ep_spi_render_registers c ! i"
      using assms(3,4) True False by (simp add: spi_reg_offset_read_only_def consts_rcp)
    also have "\<dots> = 0"
      using False True spi_rows.octet_of_image [of ?i ?rows] i len
      by (simp add: spi_block_nth spi_channel_octets)
    finally show ?thesis using True False by (simp add: spi_channel_canon_def spi_canon_def flag_canon_def)
  next
    case False
    then show ?thesis using \<open>\<not> i < 6\<close> by (simp add: spi_channel_canon_def spi_canon_def flag_canon_def)
  qed
  finally show ?thesis .
qed

interpretation spi_regs: readback_block rcp_ep_spi_render_registers spi_parse_registers
  spi_reg_offset_read_only RCP_EP_SPI_EP_FUNC_LEN spi_wf RCP_EP_SPI_RECONFIG_OK
  RCP_EP_SPI_RECONFIG_ERR_SHORT RCP_EP_SPI_RECONFIG_ERR_OUT_OF_RANGE spi_canon
proof unfold_locales
  fix c and img :: bytes assume wf: "spi_wf c"
  then show "length (rcp_ep_spi_render_registers c) = RCP_EP_SPI_EP_FUNC_LEN"
    by (simp add: spi_block spi_wf_def consts_rcp)
  show "spi_parse_registers c (rcp_ep_spi_render_registers c) = c"
    using wf by (simp add: spi_block spi_parse_registers_def consts_rcp u16_of_octets spi_rows.parse_image spi_wf_def)
  assume "length img = RCP_EP_SPI_EP_FUNC_LEN"
  then show "spi_wf (spi_parse_registers c img)"
    using wf by (auto simp: spi_wf_def spi_parse_registers_def consts_rcp list_all_length nth_parse_rows
        intro!: spi_rows.parse_wf)
next
  fix i d assume "spi_reg_offset_read_only i"
  then show "spi_canon i d = d"
    by (auto simp: spi_reg_offset_read_only_def spi_canon_def flag_canon_def consts_rcp split: if_splits)
qed (simp_all add: spi_parse_nth consts_rcp)

lemma spi_apply_channels:
  assumes "spi_wf c" and "start < 2 ^ 16" and "ds \<noteq> []" and "start + length ds \<le> 54" and "k < 6"
  shows "spi_channels (snd (rcp_ep_spi_apply_reconfig c (put_u16 (of_nat start) @ ds))) ! k =
    spi_parse_channel (spi_channels c ! k)
      (take 8 (drop (k * 8 + 6) (patch_block spi_reg_offset_read_only (rcp_ep_spi_render_registers c) start ds)))"
  using spi_regs.apply_at [of start ds c] assms
  by (simp add: rcp_ep_spi_apply_reconfig_def consts_rcp spi_parse_registers_def nth_parse_rows spi_wf_def add.commute)

lemma spi_channel_image:
  assumes "spi_wf c" and "k < 6"
  shows "take 8 (drop (k * 8 + 6) (rcp_ep_spi_render_registers c)) = spi_channel_registers (spi_channels c ! k)"
proof -
  have "length (spi_block_head c) = 6" by (simp add: spi_block_head_def)
  then have "drop (k * 8 + 6) (rcp_ep_spi_render_registers c) =
      drop (k * 8) (render_rows spi_channel_registers (spi_channels c))"
    by (simp add: rcp_ep_spi_render_registers_def)
  then show ?thesis using assms spi_rows.row_of_image [of k "spi_channels c"] by (simp add: spi_wf_def)
qed

text \<open>Channels are configured independently.  A configuration write inside the block is applied, and a channel
  whose eight registers it does not address keeps its whole configuration; of an addressed channel the
  settings that are not registers (bit order, trigger, clock divider, delays) are kept as well, and its
  registers read back as written.\<close>

theorem spi_channels_independent:
  assumes "spi_wf c" and "start < 2 ^ 16" and "ds \<noteq> []" and "start + length ds \<le> 54" and "k < 6"
    and "rcp_ep_spi_apply_reconfig c (put_u16 (of_nat start) @ ds) = (rc, c')"
  shows "rc = RCP_EP_SPI_RECONFIG_OK \<and> spi_wf c' \<and>
    (start + length ds \<le> 6 + 8 * k \<or> 14 + 8 * k \<le> start \<longrightarrow> spi_channels c' ! k = spi_channels c ! k) \<and>
    spi_bit_order (spi_channels c' ! k) = spi_bit_order (spi_channels c ! k) \<and>
    spi_trigger (spi_channels c' ! k) = spi_trigger (spi_channels c ! k) \<and>
    spi_clock_divider (spi_channels c' ! k) = spi_clock_divider (spi_channels c ! k) \<and>
    spi_inter_byte_delay_ns (spi_channels c' ! k) = spi_inter_byte_delay_ns (spi_channels c ! k) \<and>
    spi_inter_transfer_delay_ns (spi_channels c' ! k) = spi_inter_transfer_delay_ns (spi_channels c ! k) \<and>
    (\<forall>j<54. rcp_ep_spi_render_registers c' ! j =
      (if start \<le> j \<and> j < start + length ds \<and> \<not> spi_reg_offset_read_only j then spi_canon j (ds ! (j - start))
       else rcp_ep_spi_render_registers c ! j))"
proof -
  let ?p = "put_u16 (of_nat start) @ ds"
  have rc: "rc = RCP_EP_SPI_RECONFIG_OK" "c' = snd (rcp_ep_spi_apply_reconfig c ?p)"
    using spi_regs.apply_at [of start ds c] assms(2-4,6)
    by (simp_all add: rcp_ep_spi_apply_reconfig_def consts_rcp)
  note ch = spi_apply_channels [OF assms(1-5), folded rc(2)]
  have wf: "spi_wf c'" using spi_regs.apply_wf [OF assms(1)] rc(2) by (simp add: rcp_ep_spi_apply_reconfig_def)
  have oct: "rcp_ep_spi_render_registers c' ! j =
      (if start \<le> j \<and> j < start + length ds \<and> \<not> spi_reg_offset_read_only j then spi_canon j (ds ! (j - start))
       else rcp_ep_spi_render_registers c ! j)" if "j < 54" for j
    using spi_regs.written_octets [OF assms(1) _ assms(3,2), of j] that assms(4) rc(2)
    by (simp add: rcp_ep_spi_apply_reconfig_def consts_rcp)
  have same: "spi_channels c' ! k = spi_channels c ! k"
    if "start + length ds \<le> 6 + 8 * k \<or> 14 + 8 * k \<le> start"
  proof -
    have len: "length (rcp_ep_spi_render_registers c) = 54"
      using spi_regs.render_len [OF assms(1)] by (simp add: consts_rcp)
    have "take 8 (drop (k * 8 + 6) (patch_block spi_reg_offset_read_only (rcp_ep_spi_render_registers c) start ds)) =
        take 8 (drop (k * 8 + 6) (rcp_ep_spi_render_registers c))"
      using that assms(4,5) len by (intro nth_equalityI) (auto simp: nth_patch_block)
    moreover have "spi_channel_wf (spi_channels c ! k)" using assms(1,5) by (simp add: spi_wf_def list_all_length)
    ultimately show ?thesis
      using ch spi_channel_image [OF assms(1,5)] spi_rows.parse_render by simp
  qed
  show ?thesis using rc(1) wf oct same by (simp add: ch spi_parse_channel_bits)
qed

lemma spi_init_wf: "spi_wf rcp_ep_spi_functional_cfg_init"
  by (simp add: spi_wf_def rcp_ep_spi_functional_cfg_init_def spi_channel_wf_def spi_channel_zero_def
      rcp_ep_spi_mode_valid_def list_all_length consts_rcp)

theorem spi_channels_independent_witness:
  "rcp_ep_spi_render_registers (snd (rcp_ep_spi_apply_reconfig rcp_ep_spi_functional_cfg_init
     (put_u16 (of_nat 14) @ [1, 2]))) ! 15 = 2"
  using spi_channels_independent [of rcp_ep_spi_functional_cfg_init 14 "[1, 2]" 0
      "fst (rcp_ep_spi_apply_reconfig rcp_ep_spi_functional_cfg_init (put_u16 (of_nat 14) @ [1, 2]))"
      "snd (rcp_ep_spi_apply_reconfig rcp_ep_spi_functional_cfg_init (put_u16 (of_nat 14) @ [1, 2]))"]
  by (simp add: spi_init_wf spi_canon_def flag_canon_def spi_reg_offset_read_only_def consts_rcp)

section \<open>Transfers\<close>

lemma spi_signal_nat:
  "map_option unat (rcp_ep_spi_trigger_signal_number c t) =
     (if 6 \<le> unat c then None
      else case t of RCP_EP_SPI_TRIGGER_CS_ASSERT \<Rightarrow> Some (2 + 2 * unat c)
             | RCP_EP_SPI_TRIGGER_CS_DEASSERT \<Rightarrow> Some (3 + 2 * unat c) | _ \<Rightarrow> None)"
  by (cases t) (simp_all add: rcp_ep_spi_trigger_signal_number_def consts_rcp word_le_nat_alt unat_word_ariths)

lemma spi_signal_unique:
  assumes "rcp_ep_spi_trigger_signal_number c t = rcp_ep_spi_trigger_signal_number d u"
    and "rcp_ep_spi_trigger_signal_number c t = Some n"
  shows "c = d \<and> t = u"
  using spi_signal_nat [of c t] spi_signal_nat [of d u] assms
  by (cases t; cases u) (auto simp: word_unat_eq_iff split: if_splits, presburger+)

text \<open>A transfer keeps its channel, data, read size and transaction from the client to the server, and its response
  back; a request for one of the two channel numbers that the field can carry but no endpoint has is refused.
  The signal numbers of the chip select triggers are different for all channels and edges.\<close>

theorem spi_transfer_roundtrip:
  assumes "bus < 0x800" and "length p \<le> RCP_ACF_GBB_MAX_PAYLOAD" and "read_size < 0x1000" and "channel < 8"
  shows "(\<exists>f. rcp_ep_spi_encode_transfer_request True bus channel p read_size tn = Some f \<and>
      rcp_ep_spi_decode_transfer_request (f @ rest) bus =
        (if channel < 6 then Inr (channel, p, read_size, tn) else Inl RCP_EP_SPI_ERR_BAD_CHANNEL)) \<and>
    (\<exists>f. rcp_ep_spi_encode_response True bus channel p tn timed ts = Some f \<and>
      rcp_ep_spi_decode_response (f @ rest) bus =
        (if channel < 6 then Inr (channel, p, timed, if timed then ts else 0, tn)
         else Inl RCP_EP_SPI_ERR_BAD_CHANNEL)) \<and>
    (\<forall>c d t u. rcp_ep_spi_trigger_signal_number c t = rcp_ep_spi_trigger_signal_number d u \<longrightarrow>
      rcp_ep_spi_trigger_signal_number c t = None \<or> c = d \<and> t = u)"
proof (intro conjI allI impI)
  have rs: "read_size AND 0xFFF = read_size"
    using less_mask_eq [of read_size 12] assms(3) by (simp add: mask_eq_exp_minus_1)
  have ch: "channel AND 7 = channel"
    using less_mask_eq [of channel 3] assms(4) by (simp add: mask_eq_exp_minus_1)
  have ch4: "channel AND 0xF = channel"
    using less_mask_eq [of channel 4] assms(4) by (simp add: mask_eq_exp_minus_1 word_less_nat_alt)
  have len: "length p \<le> RCP_ACF_ABB_MAX_PAYLOAD" using assms(2) by (simp add: consts_rcp)
  note c = abb_canon_def info_canon_def Let_def zero_info_def bus_canon [OF assms(1)] rs ch ch4 consts_rcp
    rcp_ep_spi_channel_valid_def
  show "\<exists>f. rcp_ep_spi_encode_transfer_request True bus channel p read_size tn = Some f \<and>
      rcp_ep_spi_decode_transfer_request (f @ rest) bus =
        (if channel < 6 then Inr (channel, p, read_size, tn) else Inl RCP_EP_SPI_ERR_BAD_CHANNEL)"
    using request_wire [OF len, of "zero_info\<lparr>bm_byte_bus_id := bus, bm_op := RCP_ACF_OP_READ, bm_evt := channel AND 0x7,
          bm_read_size_or_segment_num := read_size, bm_transaction_num := tn\<rparr>"
      RCP_EP_SPI_ERR_SHORT_FRAME RCP_EP_SPI_ERR_BAD_MSG_TYPE rest]
    by (auto simp: rcp_ep_spi_encode_transfer_request_def rcp_ep_spi_decode_transfer_request_def c)
  show "\<exists>f. rcp_ep_spi_encode_response True bus channel p tn timed ts = Some f \<and>
      rcp_ep_spi_decode_response (f @ rest) bus =
        (if channel < 6 then Inr (channel, p, timed, if timed then ts else 0, tn)
         else Inl RCP_EP_SPI_ERR_BAD_CHANNEL)"
    using response_message_wire [OF assms(2), of "zero_info\<lparr>bm_byte_bus_id := bus, bm_op := RCP_ACF_OP_READ,
          bm_rsp := 1, bm_evt := channel AND 0x7, bm_transaction_num := tn\<rparr>" timed ts RCP_EP_SPI_ERR_SHORT_FRAME
      RCP_EP_SPI_ERR_BAD_MSG_TYPE rest]
    by (elim exE conjE) (simp add: rcp_ep_spi_encode_response_def rcp_ep_spi_decode_response_def c)
  fix c d t u assume "rcp_ep_spi_trigger_signal_number c t = rcp_ep_spi_trigger_signal_number d u"
  then show "rcp_ep_spi_trigger_signal_number c t = None \<or> c = d \<and> t = u"
    using spi_signal_unique by (cases "rcp_ep_spi_trigger_signal_number c t") auto
qed

theorem spi_transfer_roundtrip_witness:
  "\<exists>f. rcp_ep_spi_encode_transfer_request True 5 2 [1, 2, 3] 4 9 = Some f \<and>
      rcp_ep_spi_decode_transfer_request (f @ []) 5 = Inr (2, [1, 2, 3], 4, 9)"
  using spi_transfer_roundtrip [of 5 "[1, 2, 3]" 4 2 9 "[]" False 0] by (simp add: consts_rcp)

end
