(* ===== verification/Ep_Uart.thy ===== *)
theory Ep_Uart
  imports Fragment_Messages Lifecycle
begin

text \<open>
  \<^verbatim>\<open>src/ep_uart.c\<close>: the UART endpoint: bit padding, triggers, its register block, write and read messages, the
  decision when a read is answered, and read responses in fragments.  \<open>mem_segs\<close> is the outcome of the
  allocation of the plan.  Parity and stop bits are the octets the code stores.  The text tables are left out.
\<close>

section \<open>Data\<close>

definition RCP_EP_UART_NR_BITS_MIN :: byte where [consts_rcp]: "RCP_EP_UART_NR_BITS_MIN = 1"
definition RCP_EP_UART_NR_BITS_MAX :: byte where [consts_rcp]: "RCP_EP_UART_NR_BITS_MAX = 8"
definition RCP_EP_UART_REG_EP_LEN :: nat where [consts_rcp]: "RCP_EP_UART_REG_EP_LEN = 0"
definition RCP_EP_UART_REG_RESERVED_01 :: nat where [consts_rcp]: "RCP_EP_UART_REG_RESERVED_01 = 1"
definition RCP_EP_UART_REG_EP_ENABLE_CLR :: nat where [consts_rcp]: "RCP_EP_UART_REG_EP_ENABLE_CLR = 2"
definition RCP_EP_UART_REG_EP_OPTIONS :: nat where [consts_rcp]: "RCP_EP_UART_REG_EP_OPTIONS = 3"
definition RCP_EP_UART_REG_EP_STATUS :: nat where [consts_rcp]: "RCP_EP_UART_REG_EP_STATUS = 4"
definition RCP_EP_UART_REG_BAUD_RATE :: nat where [consts_rcp]: "RCP_EP_UART_REG_BAUD_RATE = 6"
definition RCP_EP_UART_REG_NR_BITS :: nat where [consts_rcp]: "RCP_EP_UART_REG_NR_BITS = 8"
definition RCP_EP_UART_REG_FLAGS :: nat where [consts_rcp]: "RCP_EP_UART_REG_FLAGS = 9"
definition RCP_EP_UART_REG_STOP_BITS :: nat where [consts_rcp]: "RCP_EP_UART_REG_STOP_BITS = 0x0A"
definition RCP_EP_UART_REG_TIMEOUT :: nat where [consts_rcp]: "RCP_EP_UART_REG_TIMEOUT = 0x0B"
definition RCP_EP_UART_REG_TRAIL :: nat where [consts_rcp]: "RCP_EP_UART_REG_TRAIL = 0x0C"
definition RCP_EP_UART_EP_FUNC_LEN :: nat where [consts_rcp]: "RCP_EP_UART_EP_FUNC_LEN = 0x0D"
definition RCP_EP_UART_FLAG_PARITY_ENABLE :: byte where "RCP_EP_UART_FLAG_PARITY_ENABLE = push_bit 0 1"
definition RCP_EP_UART_FLAG_PARITY_POL :: byte where "RCP_EP_UART_FLAG_PARITY_POL = push_bit 1 1"
definition RCP_EP_UART_FLAG_RTS_ENABLE :: byte where "RCP_EP_UART_FLAG_RTS_ENABLE = push_bit 2 1"
definition RCP_EP_UART_FLAG_CTS_ENABLE :: byte where "RCP_EP_UART_FLAG_CTS_ENABLE = push_bit 3 1"
definition RCP_EP_UART_FLAG_HALF_DUPLEX :: byte where "RCP_EP_UART_FLAG_HALF_DUPLEX = push_bit 4 1"

datatype rcp_ep_uart_parity_t = RCP_EP_UART_PARITY_NONE | RCP_EP_UART_PARITY_ODD | RCP_EP_UART_PARITY_EVEN

fun uart_parity_code :: "rcp_ep_uart_parity_t \<Rightarrow> byte" where
  "uart_parity_code RCP_EP_UART_PARITY_NONE = 0"
| "uart_parity_code RCP_EP_UART_PARITY_ODD = 1"
| "uart_parity_code RCP_EP_UART_PARITY_EVEN = 2"

datatype rcp_ep_uart_stop_bits_t =
    RCP_EP_UART_STOP_BITS_ONE | RCP_EP_UART_STOP_BITS_TWO | RCP_EP_UART_STOP_BITS_ONE_HALF

fun uart_stop_bits_code :: "rcp_ep_uart_stop_bits_t \<Rightarrow> byte" where
  "uart_stop_bits_code RCP_EP_UART_STOP_BITS_ONE = 0"
| "uart_stop_bits_code RCP_EP_UART_STOP_BITS_TWO = 1"
| "uart_stop_bits_code RCP_EP_UART_STOP_BITS_ONE_HALF = 2"

datatype rcp_ep_uart_trigger_t =
    RCP_EP_UART_TRIGGER_NONE | RCP_EP_UART_TRIGGER_TX_FINALIZED | RCP_EP_UART_TRIGGER_RX_FINALIZED

fun uart_trigger_code :: "rcp_ep_uart_trigger_t \<Rightarrow> byte" where
  "uart_trigger_code RCP_EP_UART_TRIGGER_NONE = 0"
| "uart_trigger_code RCP_EP_UART_TRIGGER_TX_FINALIZED = 1"
| "uart_trigger_code RCP_EP_UART_TRIGGER_RX_FINALIZED = 2"

datatype rcp_ep_uart_event_t =
    RCP_EP_UART_EVENT_TX_REQUEST_FINALIZED | RCP_EP_UART_EVENT_READ_REQUEST_FINALIZED

datatype rcp_ep_uart_reconfig_errc_t =
    RCP_EP_UART_RECONFIG_OK | RCP_EP_UART_RECONFIG_ERR_SHORT | RCP_EP_UART_RECONFIG_ERR_OUT_OF_RANGE

datatype rcp_ep_uart_errc_t =
    RCP_EP_UART_OK | RCP_EP_UART_ERR_SHORT_FRAME | RCP_EP_UART_ERR_BAD_MSG_TYPE | RCP_EP_UART_ERR_WRONG_BUS
  | RCP_EP_UART_ERR_WRONG_OP | RCP_EP_UART_ERR_UNKNOWN_CMD | RCP_EP_UART_ERR_BAD_EVT

datatype rcp_ep_uart_read_completion_t =
    RCP_EP_UART_READ_NOT_YET_COMPLETE | RCP_EP_UART_READ_RESPOND_NORMAL | RCP_EP_UART_READ_RESPOND_FRAGMENTED

record rcp_ep_uart_functional_cfg_t =
  uart_common :: rcp_regmap_ep_functional_cfg_t
  uart_baud_rate :: u32
  uart_nr_bits :: byte
  uart_parity :: byte
  uart_stop_bits :: byte
  uart_ep_rx_buffer_size :: u16
  uart_timeout_ms :: u32
  uart_ep_status :: u16
  uart_baud_rate_kbps :: u16
  uart_rts_enable :: bool
  uart_cts_enable :: bool
  uart_half_duplex :: bool
  uart_wire_timeout_bit_times :: byte
  uart_trail :: byte
  uart_trigger :: byte

section \<open>Bit padding and triggers\<close>

definition rcp_ep_uart_nr_bits_valid :: "byte \<Rightarrow> bool" where
  "rcp_ep_uart_nr_bits_valid nr_bits \<longleftrightarrow> RCP_EP_UART_NR_BITS_MIN \<le> nr_bits \<and> nr_bits \<le> RCP_EP_UART_NR_BITS_MAX"

definition rcp_ep_uart_bit_pad_mask :: "byte \<Rightarrow> byte" where
  "rcp_ep_uart_bit_pad_mask nr_bits =
     (if \<not> rcp_ep_uart_nr_bits_valid nr_bits then 0
      else if nr_bits = 8 then 0xFF
      else push_bit (unat nr_bits) 1 - 1)"

definition rcp_ep_uart_apply_bit_padding :: "bytes \<Rightarrow> byte \<Rightarrow> bytes" where
  "rcp_ep_uart_apply_bit_padding buf nr_bits = map (\<lambda>b. b AND rcp_ep_uart_bit_pad_mask nr_bits) buf"

fun rcp_ep_uart_trigger_fires :: "rcp_ep_uart_trigger_t \<Rightarrow> rcp_ep_uart_event_t \<Rightarrow> bool" where
  "rcp_ep_uart_trigger_fires RCP_EP_UART_TRIGGER_TX_FINALIZED event = (event = RCP_EP_UART_EVENT_TX_REQUEST_FINALIZED)"
| "rcp_ep_uart_trigger_fires RCP_EP_UART_TRIGGER_RX_FINALIZED event = (event = RCP_EP_UART_EVENT_READ_REQUEST_FINALIZED)"
| "rcp_ep_uart_trigger_fires RCP_EP_UART_TRIGGER_NONE event = False"

section \<open>Configuration\<close>

definition rcp_ep_uart_functional_cfg_init :: rcp_ep_uart_functional_cfg_t where
  "rcp_ep_uart_functional_cfg_init =
     \<lparr>uart_common = rcp_regmap_ep_functional_cfg_init, uart_baud_rate = 0,
      uart_nr_bits = RCP_EP_UART_NR_BITS_MAX, uart_parity = 0, uart_stop_bits = 0, uart_ep_rx_buffer_size = 0,
      uart_timeout_ms = 0, uart_ep_status = 0, uart_baud_rate_kbps = 0, uart_rts_enable = False,
      uart_cts_enable = False, uart_half_duplex = False, uart_wire_timeout_bit_times = 0, uart_trail = 0,
      uart_trigger = 0\<rparr>"

definition rcp_ep_uart_functional_cfg_writable ::
    "rcp_lifecycle_state_t \<Rightarrow> rcp_lifecycle_writer_ctx_t \<Rightarrow> bool" where
  "rcp_ep_uart_functional_cfg_writable state writer =
     rcp_lifecycle_field_writable state RCP_LIFECYCLE_FIELD_FUNCTIONAL_W writer"

definition rcp_ep_uart_set_baud_rate ::
    "rcp_ep_uart_functional_cfg_t \<Rightarrow> u32 \<Rightarrow> rcp_lifecycle_state_t \<Rightarrow> rcp_lifecycle_writer_ctx_t \<Rightarrow>
     bool \<times> rcp_ep_uart_functional_cfg_t" where
  "rcp_ep_uart_set_baud_rate cfg baud_rate state writer =
     (if \<not> rcp_ep_uart_functional_cfg_writable state writer then (False, cfg)
      else (True, cfg\<lparr>uart_baud_rate := baud_rate\<rparr>))"

definition rcp_ep_uart_set_frame_format ::
    "rcp_ep_uart_functional_cfg_t \<Rightarrow> byte \<Rightarrow> rcp_ep_uart_parity_t \<Rightarrow> rcp_ep_uart_stop_bits_t \<Rightarrow>
     rcp_lifecycle_state_t \<Rightarrow> rcp_lifecycle_writer_ctx_t \<Rightarrow> bool \<times> rcp_ep_uart_functional_cfg_t" where
  "rcp_ep_uart_set_frame_format cfg nr_bits parity stop_bits state writer =
     (if \<not> rcp_ep_uart_nr_bits_valid nr_bits then (False, cfg)
      else if \<not> rcp_ep_uart_functional_cfg_writable state writer then (False, cfg)
      else (True, cfg\<lparr>uart_nr_bits := nr_bits, uart_parity := uart_parity_code parity,
                      uart_stop_bits := uart_stop_bits_code stop_bits\<rparr>))"

definition rcp_ep_uart_set_rx_buffer_size ::
    "rcp_ep_uart_functional_cfg_t \<Rightarrow> u16 \<Rightarrow> rcp_lifecycle_state_t \<Rightarrow> rcp_lifecycle_writer_ctx_t \<Rightarrow>
     bool \<times> rcp_ep_uart_functional_cfg_t" where
  "rcp_ep_uart_set_rx_buffer_size cfg rx_buffer_size state writer =
     (if \<not> rcp_ep_uart_functional_cfg_writable state writer then (False, cfg)
      else (True, cfg\<lparr>uart_ep_rx_buffer_size := rx_buffer_size\<rparr>))"

definition rcp_ep_uart_set_timeout ::
    "rcp_ep_uart_functional_cfg_t \<Rightarrow> u32 \<Rightarrow> rcp_lifecycle_state_t \<Rightarrow> rcp_lifecycle_writer_ctx_t \<Rightarrow>
     bool \<times> rcp_ep_uart_functional_cfg_t" where
  "rcp_ep_uart_set_timeout cfg timeout_ms state writer =
     (if \<not> rcp_ep_uart_functional_cfg_writable state writer then (False, cfg)
      else (True, cfg\<lparr>uart_timeout_ms := timeout_ms\<rparr>))"

definition rcp_ep_uart_set_trigger ::
    "rcp_ep_uart_functional_cfg_t \<Rightarrow> rcp_ep_uart_trigger_t \<Rightarrow> rcp_lifecycle_state_t \<Rightarrow>
     rcp_lifecycle_writer_ctx_t \<Rightarrow> bool \<times> rcp_ep_uart_functional_cfg_t" where
  "rcp_ep_uart_set_trigger cfg trigger state writer =
     (if \<not> rcp_ep_uart_functional_cfg_writable state writer then (False, cfg)
      else (True, cfg\<lparr>uart_trigger := uart_trigger_code trigger\<rparr>))"

section \<open>Registers\<close>

definition stop_bits_to_half_units :: "byte \<Rightarrow> byte" where
  "stop_bits_to_half_units stop_bits =
     (if stop_bits = uart_stop_bits_code RCP_EP_UART_STOP_BITS_TWO then 4
      else if stop_bits = uart_stop_bits_code RCP_EP_UART_STOP_BITS_ONE_HALF then 3
      else 2)"

definition half_units_to_stop_bits :: "byte \<Rightarrow> byte" where
  "half_units_to_stop_bits half_units =
     (if half_units = 3 then uart_stop_bits_code RCP_EP_UART_STOP_BITS_ONE_HALF
      else if half_units \<ge> 4 then uart_stop_bits_code RCP_EP_UART_STOP_BITS_TWO
      else uart_stop_bits_code RCP_EP_UART_STOP_BITS_ONE)"

definition uart_flags_octet :: "rcp_ep_uart_functional_cfg_t \<Rightarrow> byte" where
  "uart_flags_octet cfg =
     (if uart_parity cfg \<noteq> uart_parity_code RCP_EP_UART_PARITY_NONE then RCP_EP_UART_FLAG_PARITY_ENABLE else 0) OR
     (if uart_parity cfg = uart_parity_code RCP_EP_UART_PARITY_EVEN then RCP_EP_UART_FLAG_PARITY_POL else 0) OR
     (if uart_rts_enable cfg then RCP_EP_UART_FLAG_RTS_ENABLE else 0) OR
     (if uart_cts_enable cfg then RCP_EP_UART_FLAG_CTS_ENABLE else 0) OR
     (if uart_half_duplex cfg then RCP_EP_UART_FLAG_HALF_DUPLEX else 0)"

definition rcp_ep_uart_render_registers :: "rcp_ep_uart_functional_cfg_t \<Rightarrow> bytes" where
  "rcp_ep_uart_render_registers cfg =
     [of_nat RCP_EP_UART_EP_FUNC_LEN, 0, enable_clr_octet (uart_common cfg), options_octet (uart_common cfg)] @
     put_u16 (uart_ep_status cfg) @ put_u16 (uart_baud_rate_kbps cfg) @
     [uart_nr_bits cfg, uart_flags_octet cfg, stop_bits_to_half_units (uart_stop_bits cfg),
      uart_wire_timeout_bit_times cfg, uart_trail cfg]"

definition uart_parse_registers ::
    "rcp_ep_uart_functional_cfg_t \<Rightarrow> bytes \<Rightarrow> rcp_ep_uart_functional_cfg_t" where
  "uart_parse_registers cfg img =
     (let flags = img ! RCP_EP_UART_REG_FLAGS;
          parity_enable = flags AND RCP_EP_UART_FLAG_PARITY_ENABLE \<noteq> 0;
          parity_pol = flags AND RCP_EP_UART_FLAG_PARITY_POL \<noteq> 0
      in cfg\<lparr>uart_common :=
               parse_common (img ! RCP_EP_UART_REG_EP_ENABLE_CLR) (img ! RCP_EP_UART_REG_EP_OPTIONS),
             uart_ep_status := get_u16 (drop RCP_EP_UART_REG_EP_STATUS img),
             uart_baud_rate_kbps := get_u16 (drop RCP_EP_UART_REG_BAUD_RATE img),
             uart_nr_bits := img ! RCP_EP_UART_REG_NR_BITS,
             uart_parity :=
               if \<not> parity_enable then uart_parity_code RCP_EP_UART_PARITY_NONE
               else if parity_pol then uart_parity_code RCP_EP_UART_PARITY_EVEN
               else uart_parity_code RCP_EP_UART_PARITY_ODD,
             uart_rts_enable := flags AND RCP_EP_UART_FLAG_RTS_ENABLE \<noteq> 0,
             uart_cts_enable := flags AND RCP_EP_UART_FLAG_CTS_ENABLE \<noteq> 0,
             uart_half_duplex := flags AND RCP_EP_UART_FLAG_HALF_DUPLEX \<noteq> 0,
             uart_stop_bits := half_units_to_stop_bits (img ! RCP_EP_UART_REG_STOP_BITS),
             uart_wire_timeout_bit_times := img ! RCP_EP_UART_REG_TIMEOUT,
             uart_trail := img ! RCP_EP_UART_REG_TRAIL\<rparr>)"

definition uart_reg_offset_read_only :: "nat \<Rightarrow> bool" where
  "uart_reg_offset_read_only addr \<longleftrightarrow> addr = RCP_EP_UART_REG_EP_LEN \<or> addr = RCP_EP_UART_REG_RESERVED_01"

definition rcp_ep_uart_apply_reconfig ::
    "rcp_ep_uart_functional_cfg_t \<Rightarrow> bytes \<Rightarrow> rcp_ep_uart_reconfig_errc_t \<times> rcp_ep_uart_functional_cfg_t" where
  "rcp_ep_uart_apply_reconfig =
     apply_block rcp_ep_uart_render_registers uart_parse_registers uart_reg_offset_read_only
       RCP_EP_UART_EP_FUNC_LEN RCP_EP_UART_RECONFIG_OK RCP_EP_UART_RECONFIG_ERR_SHORT
       RCP_EP_UART_RECONFIG_ERR_OUT_OF_RANGE"

definition rcp_ep_uart_encode_reconfig_request ::
    "bool \<Rightarrow> bool \<Rightarrow> rcp_byte_bus_id_t \<Rightarrow> u16 \<Rightarrow> bytes \<Rightarrow> byte \<Rightarrow> rcp_bytes_t" where
  "rcp_ep_uart_encode_reconfig_request mem_payload mem_frame bus start_address data tn =
     encode_reconfig mem_payload mem_frame bus start_address data tn"

section \<open>Messages\<close>

definition rcp_ep_uart_encode_write_request ::
    "bool \<Rightarrow> rcp_byte_bus_id_t \<Rightarrow> bytes \<Rightarrow> byte \<Rightarrow> rcp_bytes_t" where
  "rcp_ep_uart_encode_write_request mem bus tx_data tn =
     rcp_acf_encode_abb mem
       (zero_info\<lparr>bm_byte_bus_id := bus, bm_op := RCP_ACF_OP_WRITE, bm_evt := 0, bm_transaction_num := tn\<rparr>) tx_data"

definition rcp_ep_uart_decode_write_request ::
    "bytes \<Rightarrow> rcp_byte_bus_id_t \<Rightarrow> rcp_ep_uart_errc_t + (bytes \<times> byte)" where
  "rcp_ep_uart_decode_write_request b expected_bus =
     (case decode_request_frame RCP_EP_UART_ERR_SHORT_FRAME RCP_EP_UART_ERR_BAD_MSG_TYPE b of
        Inl e \<Rightarrow> Inl e
      | Inr (hdr, payload) \<Rightarrow>
          if bm_byte_bus_id hdr \<noteq> expected_bus then Inl RCP_EP_UART_ERR_WRONG_BUS
          else if bm_op hdr \<noteq> RCP_ACF_OP_WRITE then Inl RCP_EP_UART_ERR_WRONG_OP
          else if \<not> rcp_acf_evt_row2_is_plain (bm_evt hdr) then Inl RCP_EP_UART_ERR_BAD_EVT
          else Inr (payload, bm_transaction_num hdr))"

definition rcp_ep_uart_encode_write_response ::
    "bool \<Rightarrow> rcp_byte_bus_id_t \<Rightarrow> bytes \<Rightarrow> byte \<Rightarrow> bool \<Rightarrow> u64 \<Rightarrow> rcp_bytes_t" where
  "rcp_ep_uart_encode_write_response mem bus accepted_data tn timed timestamp =
     response_frame mem bus RCP_ACF_OP_WRITE 0 accepted_data tn timed timestamp"

definition rcp_ep_uart_decode_write_response ::
    "bytes \<Rightarrow> rcp_byte_bus_id_t \<Rightarrow> rcp_ep_uart_errc_t + (bytes \<times> bool \<times> u64 \<times> byte)" where
  "rcp_ep_uart_decode_write_response b expected_bus =
     (case decode_response_frame RCP_EP_UART_ERR_SHORT_FRAME RCP_EP_UART_ERR_BAD_MSG_TYPE b of
        Inl e \<Rightarrow> Inl e
      | Inr (hdr, timed, timestamp, payload) \<Rightarrow>
          if bm_byte_bus_id hdr \<noteq> expected_bus then Inl RCP_EP_UART_ERR_WRONG_BUS
          else Inr (payload, timed, timestamp, bm_transaction_num hdr))"

definition rcp_ep_uart_encode_read_request ::
    "bool \<Rightarrow> rcp_byte_bus_id_t \<Rightarrow> u16 \<Rightarrow> byte \<Rightarrow> rcp_bytes_t" where
  "rcp_ep_uart_encode_read_request mem bus read_size tn =
     rcp_acf_encode_abb mem
       (zero_info\<lparr>bm_byte_bus_id := bus, bm_op := RCP_ACF_OP_READ, bm_evt := 0, bm_transaction_num := tn,
          bm_read_size_or_segment_num := read_size\<rparr>) []"

definition rcp_ep_uart_decode_read_request ::
    "bytes \<Rightarrow> rcp_byte_bus_id_t \<Rightarrow> rcp_ep_uart_errc_t + (u16 \<times> byte)" where
  "rcp_ep_uart_decode_read_request b expected_bus =
     (case decode_request_frame RCP_EP_UART_ERR_SHORT_FRAME RCP_EP_UART_ERR_BAD_MSG_TYPE b of
        Inl e \<Rightarrow> Inl e
      | Inr (hdr, payload) \<Rightarrow>
          if bm_byte_bus_id hdr \<noteq> expected_bus then Inl RCP_EP_UART_ERR_WRONG_BUS
          else if bm_op hdr \<noteq> RCP_ACF_OP_READ then Inl RCP_EP_UART_ERR_WRONG_OP
          else if \<not> rcp_acf_evt_row2_is_plain (bm_evt hdr) then Inl RCP_EP_UART_ERR_BAD_EVT
          else if length payload \<noteq> 0 then Inl RCP_EP_UART_ERR_UNKNOWN_CMD
          else Inr (bm_read_size_or_segment_num hdr, bm_transaction_num hdr))"

definition rcp_ep_uart_encode_read_response ::
    "bool \<Rightarrow> rcp_byte_bus_id_t \<Rightarrow> bytes \<Rightarrow> byte \<Rightarrow> bool \<Rightarrow> u64 \<Rightarrow> rcp_bytes_t" where
  "rcp_ep_uart_encode_read_response mem bus rx_data tn timed timestamp =
     response_frame mem bus RCP_ACF_OP_READ 0 rx_data tn timed timestamp"

definition rcp_ep_uart_decode_read_response ::
    "bytes \<Rightarrow> rcp_byte_bus_id_t \<Rightarrow> rcp_ep_uart_errc_t + (bytes \<times> bool \<times> u64 \<times> byte)" where
  "rcp_ep_uart_decode_read_response b expected_bus =
     (case decode_response_frame RCP_EP_UART_ERR_SHORT_FRAME RCP_EP_UART_ERR_BAD_MSG_TYPE b of
        Inl e \<Rightarrow> Inl e
      | Inr (hdr, timed, timestamp, payload) \<Rightarrow>
          if bm_byte_bus_id hdr \<noteq> expected_bus then Inl RCP_EP_UART_ERR_WRONG_BUS
          else Inr (payload, timed, timestamp, bm_transaction_num hdr))"

section \<open>Completion of a read\<close>

definition rcp_ep_uart_wire_timeout_us :: "u16 \<Rightarrow> byte \<Rightarrow> u32" where
  "rcp_ep_uart_wire_timeout_us baud_rate_kbps wire_timeout_bit_times =
     (if baud_rate_kbps = 0 then 0
      else
        let bit_periods_us_numerator = ucast wire_timeout_bit_times * 1000
        in (bit_periods_us_numerator + ucast baud_rate_kbps - 1) div ucast baud_rate_kbps)"

definition rcp_ep_uart_read_completion_decision ::
    "u16 \<Rightarrow> u16 \<Rightarrow> u32 \<Rightarrow> u32 \<Rightarrow> u16 \<Rightarrow> rcp_ep_uart_read_completion_t" where
  "rcp_ep_uart_read_completion_decision bytes_available read_size elapsed_ms timeout_ms rx_fifo_size =
     (if read_size > rx_fifo_size \<and> bytes_available \<ge> rx_fifo_size then RCP_EP_UART_READ_RESPOND_FRAGMENTED
      else if bytes_available \<ge> read_size then RCP_EP_UART_READ_RESPOND_NORMAL
      else if elapsed_ms \<ge> timeout_ms then RCP_EP_UART_READ_RESPOND_NORMAL
      else RCP_EP_UART_READ_NOT_YET_COMPLETE)"

section \<open>Responses in fragments\<close>

definition rcp_ep_uart_read_response_fragment_count :: "nat \<Rightarrow> nat \<Rightarrow> nat" where
  "rcp_ep_uart_read_response_fragment_count rx_len max_fragment_payload =
     rcp_fragment_plan_count rx_len max_fragment_payload"

text \<open>The message of one segment.\<close>

definition uart_fragment ::
    "rcp_byte_bus_id_t \<Rightarrow> byte \<Rightarrow> bool \<Rightarrow> u64 \<Rightarrow> bool \<Rightarrow> rcp_fragment_segment_t \<Rightarrow> bytes \<Rightarrow> rcp_bytes_t" where
  "uart_fragment bus tn timed timestamp mem seg data =
     fragment_message mem
       (zero_info\<lparr>bm_byte_bus_id := bus, bm_op := RCP_ACF_OP_READ, bm_rsp := 1, bm_evt := 0,
          bm_transaction_num := tn\<rparr>) timed timestamp seg data"

definition rcp_ep_uart_encode_read_response_fragmented ::
    "bool \<Rightarrow> bool list \<Rightarrow> rcp_byte_bus_id_t \<Rightarrow> bytes \<Rightarrow> byte \<Rightarrow> bool \<Rightarrow> u64 \<Rightarrow> nat \<Rightarrow> bytes list" where
  "rcp_ep_uart_encode_read_response_fragmented mem_segs mems bus rx_data tn timed timestamp max_fragment_payload =
     (let count = rcp_fragment_plan_count (length rx_data) max_fragment_payload in
      if count = 0 then []
      else if \<not> mem_segs then []
      else
        (case rcp_fragment_plan (length rx_data) max_fragment_payload count of
           Inl _ \<Rightarrow> []
         | Inr segs \<Rightarrow>
             (case encode_fragments (uart_fragment bus tn timed timestamp) mems rx_data segs of
                None \<Rightarrow> []
              | Some frames \<Rightarrow> frames)))"

text \<open>Mark, number, payload, timing and transaction number of a fragment.\<close>

definition rcp_ep_uart_decode_read_response_fragment ::
    "bytes \<Rightarrow> rcp_byte_bus_id_t \<Rightarrow> rcp_ep_uart_errc_t + (bool \<times> byte \<times> bytes \<times> bool \<times> u64 \<times> byte)" where
  "rcp_ep_uart_decode_read_response_fragment b expected_bus =
     (case decode_fragment_frame RCP_EP_UART_ERR_SHORT_FRAME RCP_EP_UART_ERR_BAD_MSG_TYPE b of
        Inl e \<Rightarrow> Inl e
      | Inr (hdr, ms, num, payload, timed, timestamp) \<Rightarrow>
          if bm_byte_bus_id hdr \<noteq> expected_bus then Inl RCP_EP_UART_ERR_WRONG_BUS
          else Inr (ms, num, payload, timed, timestamp, bm_transaction_num hdr))"

section \<open>The register block\<close>

definition uart_wf :: "rcp_ep_uart_functional_cfg_t \<Rightarrow> bool" where
  "uart_wf c \<longleftrightarrow> uart_parity c \<in> {0, 1, 2} \<and> uart_stop_bits c \<in> {0, 1, 2}"

text \<open>The polarity is meaningful only with parity; stop bits are 2, 3 or 4 halves.\<close>

definition uart_canon :: "nat \<Rightarrow> byte \<Rightarrow> byte" where
  "uart_canon i d =
     (if i = 9 then (if bit d 0 then d AND 0x1F else d AND 0x1C)
      else if i = 10 then stop_bits_to_half_units (half_units_to_stop_bits d)
      else flag_canon i d)"

lemmas uart_flag_defs = RCP_EP_UART_FLAG_PARITY_ENABLE_def RCP_EP_UART_FLAG_PARITY_POL_def
  RCP_EP_UART_FLAG_RTS_ENABLE_def RCP_EP_UART_FLAG_CTS_ENABLE_def RCP_EP_UART_FLAG_HALF_DUPLEX_def

lemma uart_flags_bits:
  "bit (uart_flags_octet c) 0 = (uart_parity c \<noteq> 0)" "bit (uart_flags_octet c) 1 = (uart_parity c = 2)"
  "bit (uart_flags_octet c) 2 = uart_rts_enable c" "bit (uart_flags_octet c) 3 = uart_cts_enable c"
  "bit (uart_flags_octet c) 4 = uart_half_duplex c"
  by (simp_all add: uart_flags_octet_def uart_flag_defs word_bits)

lemma uart_registers:
  "rcp_ep_uart_render_registers c =
     [13, 0, enable_clr_octet (uart_common c), options_octet (uart_common c),
      put_u16 (uart_ep_status c) ! 0, put_u16 (uart_ep_status c) ! 1,
      put_u16 (uart_baud_rate_kbps c) ! 0, put_u16 (uart_baud_rate_kbps c) ! 1,
      uart_nr_bits c, uart_flags_octet c, stop_bits_to_half_units (uart_stop_bits c),
      uart_wire_timeout_bit_times c, uart_trail c]"
  by (simp add: rcp_ep_uart_render_registers_def put_u16_def consts_rcp)

lemma uart_parse_bits:
  "uart_parse_registers c img =
     c\<lparr>uart_common := parse_common (img ! 2) (img ! 3), uart_ep_status := get_u16 (drop 4 img),
       uart_baud_rate_kbps := get_u16 (drop 6 img), uart_nr_bits := img ! 8,
       uart_parity := if \<not> bit (img ! 9) 0 then 0 else if bit (img ! 9) 1 then 2 else 1,
       uart_rts_enable := bit (img ! 9) 2, uart_cts_enable := bit (img ! 9) 3, uart_half_duplex := bit (img ! 9) 4,
       uart_stop_bits := half_units_to_stop_bits (img ! 10), uart_wire_timeout_bit_times := img ! 11,
       uart_trail := img ! 12\<rparr>"
  unfolding uart_parse_registers_def uart_flag_defs flag_set Let_def by (simp add: consts_rcp)

lemma uart_flags_parse:
  "uart_flags_octet (uart_parse_registers c img) = uart_canon 9 (img ! 9)"
  by (rule word8_eqI) (auto simp: uart_flags_octet_def uart_flag_defs uart_parse_bits uart_canon_def word_bits)

lemma uart_parse_nth:
  assumes "length img = 13" and "\<And>i. i < 13 \<Longrightarrow> uart_reg_offset_read_only i \<Longrightarrow>
      img ! i = rcp_ep_uart_render_registers c ! i" and "i < 13"
  shows "rcp_ep_uart_render_registers (uart_parse_registers c img) ! i = uart_canon i (img ! i)"
proof -
  have ro: "img ! 0 = 13" "img ! Suc 0 = 0"
    using assms(2) [of 0] assms(2) [of 1] by (simp_all add: uart_reg_offset_read_only_def consts_rcp uart_registers)
  have w: "put_u16 (get_u16 (drop 4 img)) = [img ! 4, img ! 5]" "put_u16 (get_u16 (drop 6 img)) = [img ! 6, img ! 7]"
    using assms(1) by (simp_all add: put_get_u16_at)
  have "i \<in> {0, 1, 2, 3, 4, 5, 6, 7, 8, 9, 10, 11, 12}" using assms(3) by (simp, presburger)
  then show ?thesis unfolding uart_registers uart_flags_parse
    by (auto simp: uart_parse_bits common_octets_parse w ro flag_canon_def uart_canon_def)
qed

interpretation uart_regs: readback_block rcp_ep_uart_render_registers uart_parse_registers
  uart_reg_offset_read_only RCP_EP_UART_EP_FUNC_LEN uart_wf RCP_EP_UART_RECONFIG_OK
  RCP_EP_UART_RECONFIG_ERR_SHORT RCP_EP_UART_RECONFIG_ERR_OUT_OF_RANGE uart_canon
proof unfold_locales
  fix c and img :: bytes
  show "length (rcp_ep_uart_render_registers c) = RCP_EP_UART_EP_FUNC_LEN"
    by (simp add: uart_registers consts_rcp)
  show "uart_parse_registers c (rcp_ep_uart_render_registers c) = c" if "uart_wf c"
    using that by (auto simp: uart_registers uart_parse_bits uart_flags_bits [simplified] u16_of_octets uart_wf_def
        half_units_to_stop_bits_def stop_bits_to_half_units_def)
  show "uart_wf (uart_parse_registers c img)"
    by (simp add: uart_wf_def uart_parse_bits half_units_to_stop_bits_def)
next
  fix i d assume "uart_reg_offset_read_only i"
  then show "uart_canon i d = d" by (auto simp: uart_reg_offset_read_only_def uart_canon_def flag_canon_def consts_rcp)
qed (simp_all add: uart_parse_nth RCP_EP_UART_EP_FUNC_LEN_def)

section \<open>Reads and paddings\<close>

lemma pad_mask_nat:
  "rcp_ep_uart_nr_bits_valid n \<Longrightarrow> rcp_ep_uart_bit_pad_mask n = mask (unat n)"
proof -
  assume v: "rcp_ep_uart_nr_bits_valid n"
  show ?thesis
  proof (cases "n = 8")
    case True
    then show ?thesis using v by (simp add: rcp_ep_uart_bit_pad_mask_def mask_eq_exp_minus_1)
  next
    case False
    then show ?thesis using v by (simp add: rcp_ep_uart_bit_pad_mask_def mask_eq_exp_minus_1 push_bit_eq_mult)
  qed
qed

text \<open>Padding keeps the \<open>n\<close> low bits of each octet and clears the others, so that it can be repeated; octets of another
  number of bits become zero.\<close>

lemma padding_exact:
  "rcp_ep_uart_nr_bits_valid n \<Longrightarrow> rcp_ep_uart_apply_bit_padding buf n = map (take_bit (unat n)) buf"
  "\<not> rcp_ep_uart_nr_bits_valid n \<Longrightarrow> rcp_ep_uart_apply_bit_padding buf n = replicate (length buf) 0"
  by (simp_all add: rcp_ep_uart_apply_bit_padding_def pad_mask_nat take_bit_eq_mask)
    (simp add: rcp_ep_uart_bit_pad_mask_def map_replicate_const)

text \<open>The time-out of a read in microseconds is the least number of them in which the configured number of bits
  passes at the configured rate (which is in bits per millisecond), and never overflows.\<close>

lemma wire_timeout_least:
  assumes "0 < unat kbps"
  shows "unat (rcp_ep_uart_wire_timeout_us kbps bits) = (LEAST us. unat bits * 1000 \<le> us * unat kbps)"
proof -
  let ?n = "unat bits * 1000" and ?k = "unat kbps"
  have b: "unat bits < 256" "?k < 65536"
    using unsigned_less [of bits, where 'a = nat] unsigned_less [of kbps, where 'a = nat] by simp_all
  have u: "unat (ucast bits :: u32) = unat bits" "unat (ucast kbps :: u32) = ?k"
    by (simp_all add: unsigned_ucast_eq take_bit_nat_eq_self b order_less_trans [OF b(1)] order_less_trans [OF b(2)])
  have k0: "kbps \<noteq> 0" using assms by auto
  have "unat (ucast bits * 1000 + ucast kbps :: u32) = ?n + ?k"
    using b by (simp add: unat_word_ariths u)
  then have "unat (ucast bits * 1000 + ucast kbps - 1 :: u32) = ?n + ?k - 1"
    using assms by (simp add: unat_sub word_le_nat_alt)
  then have v: "unat (rcp_ep_uart_wire_timeout_us kbps bits) = (?n + ?k - 1) div ?k"
    using k0 by (simp add: rcp_ep_uart_wire_timeout_us_def unat_div u Let_def)
  have "(?n + ?k - 1) div ?k \<le> us \<longleftrightarrow> ?n \<le> us * ?k" for us
  proof -
    have "(?n + ?k - 1) div ?k \<le> us \<longleftrightarrow> (?n + ?k - 1) div ?k < Suc us" by auto
    also have "\<dots> \<longleftrightarrow> ?n + ?k - 1 < Suc us * ?k" using assms by (simp add: div_less_iff_less_mult)
    also have "\<dots> \<longleftrightarrow> ?n \<le> us * ?k" using assms by auto
    finally show ?thesis .
  qed
  then show ?thesis unfolding v by (metis (no_types, lifting) Least_equality le_refl)
qed

section \<open>The client of fragmented responses\<close>

definition uart_client ::
    "rcp_byte_bus_id_t \<Rightarrow> bytes \<Rightarrow> (bool \<times> byte \<times> bytes) option" where
  "uart_client bus b =
     (case rcp_ep_uart_decode_read_response_fragment b bus of
        Inl _ \<Rightarrow> None
      | Inr (ms, num, payload, _) \<Rightarrow> Some (ms, num, payload))"

interpretation uart_wire: fragment_wire "uart_fragment (bus AND 0x7FF) tn timed ts" "uart_client (bus AND 0x7FF)"
  RCP_ACF_GBB_MAX_PAYLOAD for bus tn timed ts
proof
  fix q :: bytes and s assume "length q \<le> RCP_ACF_GBB_MAX_PAYLOAD"
  from fragment_message_wire [OF this, of "zero_info\<lparr>bm_byte_bus_id := bus AND 0x7FF, bm_op := RCP_ACF_OP_READ,
      bm_rsp := 1, bm_evt := 0, bm_transaction_num := tn\<rparr>" timed ts s
      RCP_EP_UART_ERR_SHORT_FRAME RCP_EP_UART_ERR_BAD_MSG_TYPE "[]"]
  show "\<exists>f num. uart_fragment (bus AND 0x7FF) tn timed ts True s q = Some f \<and>
      uart_client (bus AND 0x7FF) f = Some (seg_ms s, num, q) \<and>
      (seg_ms s \<longrightarrow> num = ucast (seg_segment_num s AND 0xFFF))"
    by (elim exE conjE) (simp add: uart_fragment_def uart_client_def and.assoc
        rcp_ep_uart_decode_read_response_fragment_def)
qed

lemma uart_fragmented_eq:
  assumes "rcp_fragment_plan (length p) m n = Inr segs"
    and "encode_fragments (uart_fragment bus tn timed ts) mems p segs = Some fs"
  shows "rcp_ep_uart_encode_read_response_fragmented True mems bus p tn timed ts m = fs"
proof -
  have "rcp_fragment_plan_count (length p) m = n" "n \<noteq> 0"
    using assms(1) by (auto simp: rcp_fragment_plan_def Let_def split: if_splits)
  then show ?thesis using assms by (simp add: rcp_ep_uart_encode_read_response_fragmented_def Let_def)
qed

text \<open>C31: A read response that needs \<open>n > 0\<close> fragments, on a bus id of 11 bits, with a segment size that fits one message
  (or all octets in one segment that fits), at most \<open>2 ^ 63\<close> received octets, every allocation of the encoder
  successful, and a reassembler whose limit is at least the number of received octets.  Up to 257 fragments a client
  that feeds them to the fresh reassembler has the received octets after the last one.  Beyond that the client's
  decoder has cut the segment numbers to 8 bits: the segments from number 256 on are refused as out of order, but the
  last one, which has no number, completes the message, so that the client ends with octets missing from the middle.\<close>

theorem uart_fragmented_read:
  assumes "bus < 0x800" and "n = rcp_ep_uart_read_response_fragment_count (length p) m" and "0 < n"
    and "min (length p) m \<le> RCP_ACF_GBB_MAX_PAYLOAD" and "length p \<le> 2 ^ 63" and "length p \<le> mt" and "mt \<le> SIZE_MAX"
  shows "\<exists>fs r. rcp_ep_uart_encode_read_response_fragmented True (replicate n True) bus p tn timed ts m = fs \<and>
    length fs = n \<and>
    feed_fragments (uart_client bus) (rcp_fragment_reassembler_init mt) fs =
      (if n \<le> 257 then replicate (n - 1) RCP_FRAGMENT_REASM_CONTINUE @ [RCP_FRAGMENT_REASM_COMPLETE]
       else replicate 256 RCP_FRAGMENT_REASM_CONTINUE @ replicate (n - 257) RCP_FRAGMENT_REASM_ERR_OUT_OF_ORDER @
         [RCP_FRAGMENT_REASM_COMPLETE], r) \<and>
    rcp_fragment_reassembler_get r = (if n \<le> 257 then p else take (256 * m) p @ drop ((n - 1) * m) p) \<and>
    (257 < n \<longrightarrow> length (rcp_fragment_reassembler_get r) < length p)"
proof -
  obtain segs where segs: "rcp_fragment_plan (length p) m n = Inr segs"
    using plan_of_count assms(2,3) by (fastforce simp: rcp_ep_uart_read_response_fragment_count_def)
  note wire = uart_wire.reassembled [OF segs assms(5,4) _ assms(6,7), of bus, unfolded bus_canon [OF assms(1)]]
    uart_wire.octets_lost [OF segs assms(5,4) _ assms(6,7), of bus, unfolded bus_canon [OF assms(1)]]
  show ?thesis
  proof (cases "n \<le> 257")
    case True
    from wire(1) [OF this, of tn timed ts] obtain fs r where
      "encode_fragments (uart_fragment bus tn timed ts) (replicate n True) p segs = Some fs" "length fs = n"
      "feed_fragments (uart_client bus) (rcp_fragment_reassembler_init mt) fs =
        (replicate (n - 1) RCP_FRAGMENT_REASM_CONTINUE @ [RCP_FRAGMENT_REASM_COMPLETE], r)" "reasm_buf r = p" by blast
    then show ?thesis using True uart_fragmented_eq [OF segs] by (auto simp: rcp_fragment_reassembler_get_def)
  next
    case False
    then have n: "257 < n" by simp
    from wire(2) [OF n, of tn timed ts] obtain fs r where
      "encode_fragments (uart_fragment bus tn timed ts) (replicate n True) p segs = Some fs" "length fs = n"
      "feed_fragments (uart_client bus) (rcp_fragment_reassembler_init mt) fs =
        (replicate 256 RCP_FRAGMENT_REASM_CONTINUE @ replicate (n - 257) RCP_FRAGMENT_REASM_ERR_OUT_OF_ORDER @
          [RCP_FRAGMENT_REASM_COMPLETE], r)" "reasm_buf r = take (256 * m) p @ drop ((n - 1) * m) p"
      "length (reasm_buf r) < length p" by blast
    then show ?thesis using False uart_fragmented_eq [OF segs] by (auto simp: rcp_fragment_reassembler_get_def)
  qed
qed

lemma uart_sample_count: "rcp_ep_uart_read_response_fragment_count (length (replicate 300 (7::byte))) 1 = 300"
  by (simp add: rcp_ep_uart_read_response_fragment_count_def rcp_fragment_plan_count_def size_add_def size_sub_def
      consts_rcp)

theorem uart_fragmented_read_witness:
  "\<exists>r. snd (feed_fragments (uart_client 5) (rcp_fragment_reassembler_init 1000)
      (rcp_ep_uart_encode_read_response_fragmented True (replicate 300 True) 5 (replicate 300 7) 9 False 0 1)) = r \<and>
    length (rcp_fragment_reassembler_get r) < 300"
  using uart_fragmented_read [OF _ uart_sample_count [symmetric], of 5 1000 9 False 0]
  by (auto simp: consts_rcp SIZE_MAX_def)

text \<open>A read is answered at once when the requested octets are there or, for a request larger than the receive
  buffer, when the buffer is full, and otherwise when the time-out has passed and not before; a fragmented
  answer is given exactly for a full buffer below the request.\<close>

lemma read_completion_exact:
  "rcp_ep_uart_read_completion_decision av n el tmo fifo \<noteq> RCP_EP_UART_READ_NOT_YET_COMPLETE \<longleftrightarrow>
     min n fifo \<le> av \<or> tmo \<le> el"
  "rcp_ep_uart_read_completion_decision av n el tmo fifo = RCP_EP_UART_READ_RESPOND_FRAGMENTED \<longleftrightarrow>
     fifo < n \<and> fifo \<le> av"
  by (auto simp: rcp_ep_uart_read_completion_decision_def min_def not_le split: if_splits)

text \<open>The messages survive the wire.\<close>

theorem uart_messages_roundtrip:
  assumes "bus < 0x800" and "length p \<le> RCP_ACF_GBB_MAX_PAYLOAD" and "read_size < 0x1000"
  shows "(\<exists>f. rcp_ep_uart_encode_write_request True bus p tn = Some f \<and>
      rcp_ep_uart_decode_write_request (f @ rest) bus = Inr (p, tn) \<and>
      rcp_ep_uart_decode_read_request (f @ rest) bus = Inl RCP_EP_UART_ERR_WRONG_OP) \<and>
    (\<exists>f. rcp_ep_uart_encode_write_response True bus p tn timed ts = Some f \<and>
      rcp_ep_uart_decode_write_response (f @ rest) bus = Inr (p, timed, if timed then ts else 0, tn)) \<and>
    (\<exists>f. rcp_ep_uart_encode_read_request True bus read_size tn = Some f \<and>
      rcp_ep_uart_decode_read_request (f @ rest) bus = Inr (read_size, tn) \<and>
      rcp_ep_uart_decode_write_request (f @ rest) bus = Inl RCP_EP_UART_ERR_WRONG_OP) \<and>
    (\<exists>f. rcp_ep_uart_encode_read_response True bus p tn timed ts = Some f \<and>
      rcp_ep_uart_decode_read_response (f @ rest) bus = Inr (p, timed, if timed then ts else 0, tn))"
proof (intro conjI)
  have rs: "read_size AND 0xFFF = read_size"
    using less_mask_eq [of read_size 12] assms(3) by (simp add: mask_eq_exp_minus_1)
  have len: "length p \<le> RCP_ACF_ABB_MAX_PAYLOAD" "length ([] :: bytes) \<le> RCP_ACF_ABB_MAX_PAYLOAD"
    using assms(2) by (simp_all add: consts_rcp)
  note c = abb_canon_def info_canon_def Let_def zero_info_def rcp_acf_evt_row2_is_plain_def
    bus_canon [OF assms(1)] rs consts_rcp rcp_ep_uart_decode_write_request_def rcp_ep_uart_decode_read_request_def
  show "\<exists>f. rcp_ep_uart_encode_write_request True bus p tn = Some f \<and>
      rcp_ep_uart_decode_write_request (f @ rest) bus = Inr (p, tn) \<and>
      rcp_ep_uart_decode_read_request (f @ rest) bus = Inl RCP_EP_UART_ERR_WRONG_OP"
    using request_wire [OF len(1), of "zero_info\<lparr>bm_byte_bus_id := bus, bm_op := RCP_ACF_OP_WRITE, bm_evt := 0,
        bm_transaction_num := tn\<rparr>" RCP_EP_UART_ERR_SHORT_FRAME RCP_EP_UART_ERR_BAD_MSG_TYPE rest]
    by (auto simp: rcp_ep_uart_encode_write_request_def c)
  show "\<exists>f. rcp_ep_uart_encode_read_request True bus read_size tn = Some f \<and>
      rcp_ep_uart_decode_read_request (f @ rest) bus = Inr (read_size, tn) \<and>
      rcp_ep_uart_decode_write_request (f @ rest) bus = Inl RCP_EP_UART_ERR_WRONG_OP"
    using request_wire [OF len(2), of "zero_info\<lparr>bm_byte_bus_id := bus, bm_op := RCP_ACF_OP_READ, bm_evt := 0,
        bm_transaction_num := tn, bm_read_size_or_segment_num := read_size\<rparr>"
        RCP_EP_UART_ERR_SHORT_FRAME RCP_EP_UART_ERR_BAD_MSG_TYPE rest]
    by (auto simp: rcp_ep_uart_encode_read_request_def c)
  show "\<exists>f. rcp_ep_uart_encode_write_response True bus p tn timed ts = Some f \<and>
      rcp_ep_uart_decode_write_response (f @ rest) bus = Inr (p, timed, if timed then ts else 0, tn)"
    using response_wire [OF assms(2,1), of RCP_ACF_OP_WRITE 0 tn timed ts RCP_EP_UART_ERR_SHORT_FRAME
      RCP_EP_UART_ERR_BAD_MSG_TYPE rest]
    by (auto simp: rcp_ep_uart_encode_write_response_def rcp_ep_uart_decode_write_response_def)
  show "\<exists>f. rcp_ep_uart_encode_read_response True bus p tn timed ts = Some f \<and>
      rcp_ep_uart_decode_read_response (f @ rest) bus = Inr (p, timed, if timed then ts else 0, tn)"
    using response_wire [OF assms(2,1), of RCP_ACF_OP_READ 0 tn timed ts RCP_EP_UART_ERR_SHORT_FRAME
      RCP_EP_UART_ERR_BAD_MSG_TYPE rest]
    by (auto simp: rcp_ep_uart_encode_read_response_def rcp_ep_uart_decode_read_response_def)
qed

theorem uart_messages_roundtrip_witness:
  "\<exists>f. rcp_ep_uart_encode_read_request True 5 100 9 = Some f \<and>
      rcp_ep_uart_decode_read_request (f @ []) 5 = Inr (100, 9)"
  using uart_messages_roundtrip [of 5 "[]" 100 9 "[]" False 0] by (auto simp: consts_rcp)

end
