(* ===== verification/Ep_Can.thy ===== *)
theory Ep_Can
  imports Fragment_Messages Lifecycle
begin

text \<open>
  \<^verbatim>\<open>src/ep_can.c\<close>: the CAN endpoint: frame formats and identifiers, its configuration and registers, CAN frames
  as requests and responses, whole and in fragments.  A frame format is the code of the enumeration, because decoders
  meet codes that name no format; an absent XL header is \<open>None\<close>.  The text tables are left out.
\<close>

section \<open>Frame formats\<close>

type_synonym rcp_ep_can_frame_format_t = byte

definition RCP_EP_CAN_FRAME_CBFF :: byte where [consts_rcp]: "RCP_EP_CAN_FRAME_CBFF = 0"
definition RCP_EP_CAN_FRAME_CEFF :: byte where [consts_rcp]: "RCP_EP_CAN_FRAME_CEFF = 1"
definition RCP_EP_CAN_FRAME_FBFF :: byte where [consts_rcp]: "RCP_EP_CAN_FRAME_FBFF = 2"
definition RCP_EP_CAN_FRAME_FEFF :: byte where [consts_rcp]: "RCP_EP_CAN_FRAME_FEFF = 3"
definition RCP_EP_CAN_FRAME_XL_CLASSICAL_PL :: byte where [consts_rcp]: "RCP_EP_CAN_FRAME_XL_CLASSICAL_PL = 4"
definition RCP_EP_CAN_FRAME_XL_NEW_PL :: byte where [consts_rcp]: "RCP_EP_CAN_FRAME_XL_NEW_PL = 5"

definition RCP_EP_CAN_CLASSICAL_MAX_DATA_LEN :: nat where [consts_rcp]: "RCP_EP_CAN_CLASSICAL_MAX_DATA_LEN = 8"
definition RCP_EP_CAN_FD_MAX_DATA_LEN :: nat where [consts_rcp]: "RCP_EP_CAN_FD_MAX_DATA_LEN = 64"
definition RCP_EP_CAN_XL_MAX_DATA_LEN :: nat where [consts_rcp]: "RCP_EP_CAN_XL_MAX_DATA_LEN = 2048"
definition RCP_EP_CAN_MAX_FRAGMENT_SEGMENTS :: nat where [consts_rcp]: "RCP_EP_CAN_MAX_FRAGMENT_SEGMENTS = 256"
definition RCP_EP_CAN_XL_MAX_FILTERS :: nat where [consts_rcp]: "RCP_EP_CAN_XL_MAX_FILTERS = 4"

datatype rcp_ep_can_id_width_t = RCP_EP_CAN_ID_WIDTH_BASE_11 | RCP_EP_CAN_ID_WIDTH_EXTENDED_29

definition rcp_ep_can_frame_format_valid :: "byte \<Rightarrow> bool" where
  "rcp_ep_can_frame_format_valid v \<longleftrightarrow> v \<le> RCP_EP_CAN_FRAME_XL_NEW_PL"

definition rcp_ep_can_frame_format_is_xl :: "rcp_ep_can_frame_format_t \<Rightarrow> bool" where
  "rcp_ep_can_frame_format_is_xl format \<longleftrightarrow>
     format = RCP_EP_CAN_FRAME_XL_CLASSICAL_PL \<or> format = RCP_EP_CAN_FRAME_XL_NEW_PL"

definition rcp_ep_can_xl_frame_matches_provisioned_pl :: "bool \<Rightarrow> rcp_ep_can_frame_format_t \<Rightarrow> bool" where
  "rcp_ep_can_xl_frame_matches_provisioned_pl xl_new_pl_provisioned format =
     (if \<not> rcp_ep_can_frame_format_is_xl format then True
      else if xl_new_pl_provisioned then format = RCP_EP_CAN_FRAME_XL_NEW_PL
      else format = RCP_EP_CAN_FRAME_XL_CLASSICAL_PL)"

definition rcp_ep_can_frame_format_id_width :: "rcp_ep_can_frame_format_t \<Rightarrow> rcp_ep_can_id_width_t" where
  "rcp_ep_can_frame_format_id_width format =
     (if format = RCP_EP_CAN_FRAME_CEFF \<or> format = RCP_EP_CAN_FRAME_FEFF
      then RCP_EP_CAN_ID_WIDTH_EXTENDED_29 else RCP_EP_CAN_ID_WIDTH_BASE_11)"

definition rcp_ep_can_arbitration_id_valid :: "rcp_ep_can_frame_format_t \<Rightarrow> u32 \<Rightarrow> bool" where
  "rcp_ep_can_arbitration_id_valid format ident =
     (if \<not> rcp_ep_can_frame_format_valid format then False
      else if rcp_ep_can_frame_format_id_width format = RCP_EP_CAN_ID_WIDTH_EXTENDED_29
      then ident \<le> 0x1FFFFFFF
      else ident \<le> 0x7FF)"

definition rcp_ep_can_frame_format_max_data_len :: "rcp_ep_can_frame_format_t \<Rightarrow> nat" where
  "rcp_ep_can_frame_format_max_data_len format =
     (if format = RCP_EP_CAN_FRAME_CBFF \<or> format = RCP_EP_CAN_FRAME_CEFF then RCP_EP_CAN_CLASSICAL_MAX_DATA_LEN
      else if format = RCP_EP_CAN_FRAME_FBFF \<or> format = RCP_EP_CAN_FRAME_FEFF then RCP_EP_CAN_FD_MAX_DATA_LEN
      else if format = RCP_EP_CAN_FRAME_XL_CLASSICAL_PL \<or> format = RCP_EP_CAN_FRAME_XL_NEW_PL
      then RCP_EP_CAN_XL_MAX_DATA_LEN
      else 0)"

section \<open>Configuration\<close>

record rcp_ep_can_xl_header_t =
  xl_sdt :: byte
  xl_vcid :: byte
  xl_af :: u32

record rcp_ep_can_bit_timing_t =
  bt_prescaler :: u32
  bt_prop_seg :: u16
  bt_phase_seg1 :: u16
  bt_phase_seg2 :: u16
  bt_sync_jump_width :: byte

record rcp_ep_can_xl_filter_t =
  xlf_id :: u32
  xlf_mask :: u32
  xlf_enable :: bool

record rcp_ep_can_functional_cfg_t =
  can_common :: rcp_regmap_ep_functional_cfg_t
  can_arbitration_timing :: rcp_ep_can_bit_timing_t
  can_fd_data_timing :: rcp_ep_can_bit_timing_t
  can_xl_data_timing :: rcp_ep_can_bit_timing_t
  can_delay_comp_enable :: bool
  can_delay_comp_offset :: byte
  can_exec_delay_clk_divider :: u32
  can_xl_filters :: "rcp_ep_can_xl_filter_t list"
  can_ep_status :: u16
  can_status :: u32
  can_fifo_status :: u32
  can_xl_new_pl_provisioned :: bool

definition zero_timing :: rcp_ep_can_bit_timing_t where
  "zero_timing =
     \<lparr>bt_prescaler = 0, bt_prop_seg = 0, bt_phase_seg1 = 0, bt_phase_seg2 = 0, bt_sync_jump_width = 0\<rparr>"

definition rcp_ep_can_functional_cfg_init :: rcp_ep_can_functional_cfg_t where
  "rcp_ep_can_functional_cfg_init =
     \<lparr>can_common = rcp_regmap_ep_functional_cfg_init, can_arbitration_timing = zero_timing,
      can_fd_data_timing = zero_timing, can_xl_data_timing = zero_timing, can_delay_comp_enable = False,
      can_delay_comp_offset = 0, can_exec_delay_clk_divider = 0,
      can_xl_filters = replicate RCP_EP_CAN_XL_MAX_FILTERS \<lparr>xlf_id = 0, xlf_mask = 0, xlf_enable = False\<rparr>,
      can_ep_status = 0, can_status = 0, can_fifo_status = 0, can_xl_new_pl_provisioned = False\<rparr>"

definition rcp_ep_can_xl_filter_index_valid :: "byte \<Rightarrow> bool" where
  "rcp_ep_can_xl_filter_index_valid index \<longleftrightarrow> index < of_nat RCP_EP_CAN_XL_MAX_FILTERS"

definition rcp_ep_can_functional_cfg_writable ::
    "rcp_lifecycle_state_t \<Rightarrow> rcp_lifecycle_writer_ctx_t \<Rightarrow> bool" where
  "rcp_ep_can_functional_cfg_writable state writer =
     rcp_lifecycle_field_writable state RCP_LIFECYCLE_FIELD_FUNCTIONAL_W writer"

text \<open>The common part of the setters.\<close>

definition can_set ::
    "(rcp_ep_can_functional_cfg_t \<Rightarrow> rcp_ep_can_functional_cfg_t) \<Rightarrow> rcp_ep_can_functional_cfg_t \<Rightarrow>
     rcp_lifecycle_state_t \<Rightarrow> rcp_lifecycle_writer_ctx_t \<Rightarrow> bool \<times> rcp_ep_can_functional_cfg_t" where
  "can_set upd cfg state writer =
     (if \<not> rcp_ep_can_functional_cfg_writable state writer then (False, cfg) else (True, upd cfg))"

definition rcp_ep_can_set_arbitration_timing ::
    "rcp_ep_can_functional_cfg_t \<Rightarrow> rcp_ep_can_bit_timing_t \<Rightarrow> rcp_lifecycle_state_t \<Rightarrow>
     rcp_lifecycle_writer_ctx_t \<Rightarrow> bool \<times> rcp_ep_can_functional_cfg_t" where
  "rcp_ep_can_set_arbitration_timing cfg timing = can_set (\<lambda>c. c\<lparr>can_arbitration_timing := timing\<rparr>) cfg"

definition rcp_ep_can_set_fd_data_timing ::
    "rcp_ep_can_functional_cfg_t \<Rightarrow> rcp_ep_can_bit_timing_t \<Rightarrow> rcp_lifecycle_state_t \<Rightarrow>
     rcp_lifecycle_writer_ctx_t \<Rightarrow> bool \<times> rcp_ep_can_functional_cfg_t" where
  "rcp_ep_can_set_fd_data_timing cfg timing = can_set (\<lambda>c. c\<lparr>can_fd_data_timing := timing\<rparr>) cfg"

definition rcp_ep_can_set_xl_data_timing ::
    "rcp_ep_can_functional_cfg_t \<Rightarrow> rcp_ep_can_bit_timing_t \<Rightarrow> rcp_lifecycle_state_t \<Rightarrow>
     rcp_lifecycle_writer_ctx_t \<Rightarrow> bool \<times> rcp_ep_can_functional_cfg_t" where
  "rcp_ep_can_set_xl_data_timing cfg timing = can_set (\<lambda>c. c\<lparr>can_xl_data_timing := timing\<rparr>) cfg"

definition rcp_ep_can_set_delay_compensation ::
    "rcp_ep_can_functional_cfg_t \<Rightarrow> bool \<Rightarrow> byte \<Rightarrow> rcp_lifecycle_state_t \<Rightarrow>
     rcp_lifecycle_writer_ctx_t \<Rightarrow> bool \<times> rcp_ep_can_functional_cfg_t" where
  "rcp_ep_can_set_delay_compensation cfg enable offset =
     can_set (\<lambda>c. c\<lparr>can_delay_comp_enable := enable, can_delay_comp_offset := offset\<rparr>) cfg"

definition rcp_ep_can_set_xl_new_pl_provisioned ::
    "rcp_ep_can_functional_cfg_t \<Rightarrow> bool \<Rightarrow> rcp_lifecycle_state_t \<Rightarrow>
     rcp_lifecycle_writer_ctx_t \<Rightarrow> bool \<times> rcp_ep_can_functional_cfg_t" where
  "rcp_ep_can_set_xl_new_pl_provisioned cfg provisioned =
     can_set (\<lambda>c. c\<lparr>can_xl_new_pl_provisioned := provisioned\<rparr>) cfg"

definition rcp_ep_can_set_exec_delay_clk_divider ::
    "rcp_ep_can_functional_cfg_t \<Rightarrow> u32 \<Rightarrow> rcp_lifecycle_state_t \<Rightarrow>
     rcp_lifecycle_writer_ctx_t \<Rightarrow> bool \<times> rcp_ep_can_functional_cfg_t" where
  "rcp_ep_can_set_exec_delay_clk_divider cfg divider = can_set (\<lambda>c. c\<lparr>can_exec_delay_clk_divider := divider\<rparr>) cfg"

definition rcp_ep_can_set_xl_filter ::
    "rcp_ep_can_functional_cfg_t \<Rightarrow> byte \<Rightarrow> rcp_ep_can_xl_filter_t \<Rightarrow> rcp_lifecycle_state_t \<Rightarrow>
     rcp_lifecycle_writer_ctx_t \<Rightarrow> bool \<times> rcp_ep_can_functional_cfg_t" where
  "rcp_ep_can_set_xl_filter cfg index flt state writer =
     (if \<not> rcp_ep_can_xl_filter_index_valid index then (False, cfg)
      else can_set (\<lambda>c. c\<lparr>can_xl_filters := (can_xl_filters c)[unat index := flt]\<rparr>) cfg state writer)"

section \<open>Frames as payloads\<close>

datatype rcp_ep_can_errc_t =
    RCP_EP_CAN_OK | RCP_EP_CAN_ERR_SHORT_FRAME | RCP_EP_CAN_ERR_BAD_MSG_TYPE | RCP_EP_CAN_ERR_WRONG_BUS
  | RCP_EP_CAN_ERR_WRONG_OP | RCP_EP_CAN_ERR_BAD_FRAME_FORMAT | RCP_EP_CAN_ERR_BAD_EVT
  | RCP_EP_CAN_ERR_BAD_ARBITRATION_ID

definition prefix_len_for :: "rcp_ep_can_frame_format_t \<Rightarrow> nat" where
  "prefix_len_for format = (if rcp_ep_can_frame_format_is_xl format then 10 else 4)"

definition write_prefix ::
    "rcp_ep_can_frame_format_t \<Rightarrow> u32 \<Rightarrow> rcp_ep_can_xl_header_t option \<Rightarrow> bytes" where
  "write_prefix format arbitration_id xl_header =
     (let combined = push_bit 29 (ucast format) OR (arbitration_id AND 0x1FFFFFFF)
      in put_u32 combined @
         (if rcp_ep_can_frame_format_is_xl format
          then [xl_sdt (the xl_header), xl_vcid (the xl_header)] @ put_u32 (xl_af (the xl_header))
          else []))"

definition read_frame_format :: "bytes \<Rightarrow> rcp_ep_can_frame_format_t" where
  "read_frame_format p = ucast (drop_bit 29 (get_u32 p) AND 0x7)"

text \<open>Identifier and, for an XL format, the XL header; the code leaves the output untouched otherwise.\<close>

definition read_prefix ::
    "bytes \<Rightarrow> rcp_ep_can_frame_format_t \<Rightarrow> u32 \<times> rcp_ep_can_xl_header_t option" where
  "read_prefix p format =
     (get_u32 p AND 0x1FFFFFFF,
      if rcp_ep_can_frame_format_is_xl format
      then Some \<lparr>xl_sdt = p ! 4, xl_vcid = p ! 5, xl_af = get_u32 (drop 6 p)\<rparr> else None)"

definition encode_preconditions_ok ::
    "rcp_ep_can_frame_format_t \<Rightarrow> u32 \<Rightarrow> rcp_ep_can_xl_header_t option \<Rightarrow> nat \<Rightarrow> bool" where
  "encode_preconditions_ok frame_format arbitration_id xl_header data_len =
     (if \<not> rcp_ep_can_frame_format_valid frame_format then False
      else if \<not> rcp_ep_can_arbitration_id_valid frame_format arbitration_id then False
      else if data_len > rcp_ep_can_frame_format_max_data_len frame_format then False
      else
        let is_xl = rcp_ep_can_frame_format_is_xl frame_format
        in if is_xl \<and> xl_header = None then False
           else if \<not> is_xl \<and> xl_header \<noteq> None then False
           else True)"

definition build_payload ::
    "rcp_ep_can_frame_format_t \<Rightarrow> u32 \<Rightarrow> rcp_ep_can_xl_header_t option \<Rightarrow> bytes \<Rightarrow> bytes" where
  "build_payload frame_format arbitration_id xl_header data =
     write_prefix frame_format arbitration_id xl_header @ data"

text \<open>The common tail of the decoders: format, identifier, XL header and data.\<close>

definition can_parse_payload ::
    "bytes \<Rightarrow> rcp_ep_can_errc_t + (rcp_ep_can_frame_format_t \<times> u32 \<times> rcp_ep_can_xl_header_t option \<times> bytes)" where
  "can_parse_payload payload =
     (if length payload < 4 then Inl RCP_EP_CAN_ERR_SHORT_FRAME
      else
        let frame_format = read_frame_format payload; prefix_len = prefix_len_for frame_format
        in if \<not> rcp_ep_can_frame_format_valid frame_format then Inl RCP_EP_CAN_ERR_BAD_FRAME_FORMAT
           else if length payload < prefix_len then Inl RCP_EP_CAN_ERR_SHORT_FRAME
           else
             let (arbitration_id, xl_header) = read_prefix payload frame_format
             in if \<not> rcp_ep_can_arbitration_id_valid frame_format arbitration_id
                then Inl RCP_EP_CAN_ERR_BAD_ARBITRATION_ID
                else Inr (frame_format, arbitration_id, xl_header, drop prefix_len payload))"

section \<open>Messages\<close>

definition can_request_header :: "rcp_byte_bus_id_t \<Rightarrow> byte \<Rightarrow> rcp_acf_byte_message_info_t" where
  "can_request_header bus tn =
     zero_info\<lparr>bm_byte_bus_id := bus, bm_op := RCP_ACF_OP_WRITE, bm_evt := 0, bm_transaction_num := tn\<rparr>"

definition can_response_header :: "rcp_byte_bus_id_t \<Rightarrow> byte \<Rightarrow> rcp_acf_byte_message_info_t" where
  "can_response_header bus tn =
     zero_info\<lparr>bm_byte_bus_id := bus, bm_op := RCP_ACF_OP_READ, bm_rsp := 1, bm_evt := 0, bm_transaction_num := tn\<rparr>"

definition rcp_ep_can_encode_frame_request ::
    "bool \<Rightarrow> rcp_byte_bus_id_t \<Rightarrow> rcp_ep_can_frame_format_t \<Rightarrow> u32 \<Rightarrow> rcp_ep_can_xl_header_t option \<Rightarrow> bytes \<Rightarrow>
     byte \<Rightarrow> rcp_bytes_t" where
  "rcp_ep_can_encode_frame_request mem bus frame_format arbitration_id xl_header tx_data tn =
     (if \<not> encode_preconditions_ok frame_format arbitration_id xl_header (length tx_data) then None
      else rcp_acf_encode_abb mem (can_request_header bus tn)
             (build_payload frame_format arbitration_id xl_header tx_data))"

definition rcp_ep_can_decode_frame_request ::
    "bytes \<Rightarrow> rcp_byte_bus_id_t \<Rightarrow>
     rcp_ep_can_errc_t + ((rcp_ep_can_frame_format_t \<times> u32 \<times> rcp_ep_can_xl_header_t option \<times> bytes) \<times> byte)" where
  "rcp_ep_can_decode_frame_request b expected_bus =
     (case decode_request_frame RCP_EP_CAN_ERR_SHORT_FRAME RCP_EP_CAN_ERR_BAD_MSG_TYPE b of
        Inl e \<Rightarrow> Inl e
      | Inr (hdr, payload) \<Rightarrow>
          if bm_byte_bus_id hdr \<noteq> expected_bus then Inl RCP_EP_CAN_ERR_WRONG_BUS
          else if bm_op hdr \<noteq> RCP_ACF_OP_WRITE then Inl RCP_EP_CAN_ERR_WRONG_OP
          else if \<not> rcp_acf_evt_row2_is_plain (bm_evt hdr) then Inl RCP_EP_CAN_ERR_BAD_EVT
          else
            (case can_parse_payload payload of
               Inl e \<Rightarrow> Inl e
             | Inr frame \<Rightarrow> Inr (frame, bm_transaction_num hdr)))"

definition rcp_ep_can_frame_request_fragment_count ::
    "rcp_ep_can_frame_format_t \<Rightarrow> u32 \<Rightarrow> rcp_ep_can_xl_header_t option \<Rightarrow> nat \<Rightarrow> nat \<Rightarrow> nat" where
  "rcp_ep_can_frame_request_fragment_count frame_format arbitration_id xl_header tx_len max_fragment_payload =
     (if \<not> encode_preconditions_ok frame_format arbitration_id xl_header tx_len then 0
      else
        let count = rcp_fragment_plan_count (prefix_len_for frame_format + tx_len) max_fragment_payload
        in if count > RCP_EP_CAN_MAX_FRAGMENT_SEGMENTS then 0 else count)"

text \<open>The two encoders of fragments differ in their header and in the timestamp of a response.\<close>

definition can_fragments ::
    "nat \<Rightarrow> (bool \<Rightarrow> rcp_fragment_segment_t \<Rightarrow> bytes \<Rightarrow> rcp_bytes_t) \<Rightarrow> bool list \<Rightarrow> bytes \<Rightarrow> nat \<Rightarrow> bytes list" where
  "can_fragments count enc mems combined max_fragment_payload =
     (if count = 0 then []
      else
        (case rcp_fragment_plan (length combined) max_fragment_payload count of
           Inl _ \<Rightarrow> []
         | Inr segs \<Rightarrow>
             (case encode_fragments enc mems combined segs of
                None \<Rightarrow> []
              | Some frames \<Rightarrow> frames)))"

definition rcp_ep_can_encode_frame_request_fragmented ::
    "bool list \<Rightarrow> rcp_byte_bus_id_t \<Rightarrow> rcp_ep_can_frame_format_t \<Rightarrow> u32 \<Rightarrow> rcp_ep_can_xl_header_t option \<Rightarrow> bytes \<Rightarrow>
     byte \<Rightarrow> nat \<Rightarrow> bytes list" where
  "rcp_ep_can_encode_frame_request_fragmented mems bus frame_format arbitration_id xl_header tx_data tn m =
     can_fragments
       (rcp_ep_can_frame_request_fragment_count frame_format arbitration_id xl_header (length tx_data) m)
       (\<lambda>mem seg data. fragment_message mem (can_request_header bus tn) False 0 seg data) mems
       (build_payload frame_format arbitration_id xl_header tx_data) m"

definition rcp_ep_can_encode_frame_response ::
    "bool \<Rightarrow> rcp_byte_bus_id_t \<Rightarrow> rcp_ep_can_frame_format_t \<Rightarrow> u32 \<Rightarrow> rcp_ep_can_xl_header_t option \<Rightarrow> bytes \<Rightarrow>
     byte \<Rightarrow> bool \<Rightarrow> u64 \<Rightarrow> rcp_bytes_t" where
  "rcp_ep_can_encode_frame_response mem bus frame_format arbitration_id xl_header rx_data tn timed timestamp =
     (if \<not> encode_preconditions_ok frame_format arbitration_id xl_header (length rx_data) then None
      else response_message mem (can_response_header bus tn)
             (build_payload frame_format arbitration_id xl_header rx_data) timed timestamp)"

definition rcp_ep_can_decode_frame_response ::
    "bytes \<Rightarrow> rcp_byte_bus_id_t \<Rightarrow>
     rcp_ep_can_errc_t + ((rcp_ep_can_frame_format_t \<times> u32 \<times> rcp_ep_can_xl_header_t option \<times> bytes) \<times>
       bool \<times> u64 \<times> byte)" where
  "rcp_ep_can_decode_frame_response b expected_bus =
     (case decode_response_frame RCP_EP_CAN_ERR_SHORT_FRAME RCP_EP_CAN_ERR_BAD_MSG_TYPE b of
        Inl e \<Rightarrow> Inl e
      | Inr (hdr, timed, timestamp, payload) \<Rightarrow>
          if bm_byte_bus_id hdr \<noteq> expected_bus then Inl RCP_EP_CAN_ERR_WRONG_BUS
          else if \<not> rcp_acf_evt_row2_is_plain (bm_evt hdr) then Inl RCP_EP_CAN_ERR_BAD_EVT
          else
            (case can_parse_payload payload of
               Inl e \<Rightarrow> Inl e
             | Inr frame \<Rightarrow> Inr (frame, timed, timestamp, bm_transaction_num hdr)))"

definition rcp_ep_can_frame_response_fragment_count ::
    "rcp_ep_can_frame_format_t \<Rightarrow> u32 \<Rightarrow> rcp_ep_can_xl_header_t option \<Rightarrow> nat \<Rightarrow> nat \<Rightarrow> nat" where
  "rcp_ep_can_frame_response_fragment_count frame_format arbitration_id xl_header rx_len max_fragment_payload =
     (if \<not> encode_preconditions_ok frame_format arbitration_id xl_header rx_len then 0
      else
        let count = rcp_fragment_plan_count (prefix_len_for frame_format + rx_len) max_fragment_payload
        in if count > RCP_EP_CAN_MAX_FRAGMENT_SEGMENTS then 0 else count)"

definition rcp_ep_can_encode_frame_response_fragmented ::
    "bool list \<Rightarrow> rcp_byte_bus_id_t \<Rightarrow> rcp_ep_can_frame_format_t \<Rightarrow> u32 \<Rightarrow> rcp_ep_can_xl_header_t option \<Rightarrow> bytes \<Rightarrow>
     byte \<Rightarrow> bool \<Rightarrow> u64 \<Rightarrow> nat \<Rightarrow> bytes list" where
  "rcp_ep_can_encode_frame_response_fragmented mems bus frame_format arbitration_id xl_header rx_data tn timed
      timestamp m =
     can_fragments
       (rcp_ep_can_frame_response_fragment_count frame_format arbitration_id xl_header (length rx_data) m)
       (\<lambda>mem seg data. fragment_message mem (can_response_header bus tn) timed timestamp seg data) mems
       (build_payload frame_format arbitration_id xl_header rx_data) m"

definition rcp_ep_can_decode_frame_response_fragment ::
    "bytes \<Rightarrow> rcp_byte_bus_id_t \<Rightarrow> rcp_ep_can_errc_t + (bool \<times> byte \<times> bytes \<times> bool \<times> u64 \<times> byte)" where
  "rcp_ep_can_decode_frame_response_fragment b expected_bus =
     (case decode_fragment_frame RCP_EP_CAN_ERR_SHORT_FRAME RCP_EP_CAN_ERR_BAD_MSG_TYPE b of
        Inl e \<Rightarrow> Inl e
      | Inr (hdr, ms, num, payload, timed, timestamp) \<Rightarrow>
          if bm_byte_bus_id hdr \<noteq> expected_bus then Inl RCP_EP_CAN_ERR_WRONG_BUS
          else if \<not> rcp_acf_evt_row2_is_plain (bm_evt hdr) then Inl RCP_EP_CAN_ERR_BAD_EVT
          else Inr (ms, num, payload, timed, timestamp, bm_transaction_num hdr))"

definition rcp_ep_can_decode_reassembled_frame_response ::
    "bytes \<Rightarrow> rcp_ep_can_errc_t + (rcp_ep_can_frame_format_t \<times> u32 \<times> rcp_ep_can_xl_header_t option \<times> bytes)" where
  "rcp_ep_can_decode_reassembled_frame_response reassembled = can_parse_payload reassembled"

section \<open>Registers\<close>

definition RCP_EP_CAN_REG_EP_LEN :: nat where [consts_rcp]: "RCP_EP_CAN_REG_EP_LEN = 0"
definition RCP_EP_CAN_REG_RESERVED_01 :: nat where [consts_rcp]: "RCP_EP_CAN_REG_RESERVED_01 = 1"
definition RCP_EP_CAN_REG_EP_ENABLE_CLR :: nat where [consts_rcp]: "RCP_EP_CAN_REG_EP_ENABLE_CLR = 2"
definition RCP_EP_CAN_REG_EP_OPTIONS :: nat where [consts_rcp]: "RCP_EP_CAN_REG_EP_OPTIONS = 3"
definition RCP_EP_CAN_REG_BASE_CLK :: nat where [consts_rcp]: "RCP_EP_CAN_REG_BASE_CLK = 4"
definition RCP_EP_CAN_REG_EP_STATUS :: nat where [consts_rcp]: "RCP_EP_CAN_REG_EP_STATUS = 6"
definition RCP_EP_CAN_REG_UNDECOMPOSED_START :: nat where [consts_rcp]: "RCP_EP_CAN_REG_UNDECOMPOSED_START = 8"
definition RCP_EP_CAN_REG_UNDECOMPOSED_LEN :: nat where [consts_rcp]: "RCP_EP_CAN_REG_UNDECOMPOSED_LEN = 0x14"
definition RCP_EP_CAN_REG_STATUS :: nat where [consts_rcp]: "RCP_EP_CAN_REG_STATUS = 0x1C"
definition RCP_EP_CAN_REG_FIFO_STATUS :: nat where [consts_rcp]: "RCP_EP_CAN_REG_FIFO_STATUS = 0x20"
definition RCP_EP_CAN_EP_FUNC_LEN :: nat where [consts_rcp]: "RCP_EP_CAN_EP_FUNC_LEN = 0x24"

datatype rcp_ep_can_reconfig_errc_t =
    RCP_EP_CAN_RECONFIG_OK | RCP_EP_CAN_RECONFIG_ERR_SHORT | RCP_EP_CAN_RECONFIG_ERR_OUT_OF_RANGE

definition rcp_ep_can_render_registers :: "rcp_ep_can_functional_cfg_t \<Rightarrow> bytes" where
  "rcp_ep_can_render_registers cfg =
     [of_nat RCP_EP_CAN_EP_FUNC_LEN, 0, enable_clr_octet (can_common cfg), options_octet (can_common cfg)] @
     put_u16 0 @ put_u16 (can_ep_status cfg) @ replicate RCP_EP_CAN_REG_UNDECOMPOSED_LEN 0 @
     put_u32 (can_status cfg) @ put_u32 (can_fifo_status cfg)"

definition parse_can_registers ::
    "rcp_ep_can_functional_cfg_t \<Rightarrow> bytes \<Rightarrow> rcp_ep_can_functional_cfg_t" where
  "parse_can_registers cfg img =
     cfg\<lparr>can_common := parse_common (img ! RCP_EP_CAN_REG_EP_ENABLE_CLR) (img ! RCP_EP_CAN_REG_EP_OPTIONS),
         can_ep_status := get_u16 (drop RCP_EP_CAN_REG_EP_STATUS img),
         can_status := get_u32 (drop RCP_EP_CAN_REG_STATUS img),
         can_fifo_status := get_u32 (drop RCP_EP_CAN_REG_FIFO_STATUS img)\<rparr>"

definition can_reg_offset_read_only :: "nat \<Rightarrow> bool" where
  "can_reg_offset_read_only addr \<longleftrightarrow>
     addr = RCP_EP_CAN_REG_EP_LEN \<or> addr = RCP_EP_CAN_REG_RESERVED_01 \<or>
     (addr \<ge> RCP_EP_CAN_REG_BASE_CLK \<and> addr < RCP_EP_CAN_REG_BASE_CLK + 2) \<or>
     (addr \<ge> RCP_EP_CAN_REG_UNDECOMPOSED_START \<and>
      addr < RCP_EP_CAN_REG_UNDECOMPOSED_START + RCP_EP_CAN_REG_UNDECOMPOSED_LEN)"

definition rcp_ep_can_apply_reconfig ::
    "rcp_ep_can_functional_cfg_t \<Rightarrow> bytes \<Rightarrow> rcp_ep_can_reconfig_errc_t \<times> rcp_ep_can_functional_cfg_t" where
  "rcp_ep_can_apply_reconfig =
     apply_block rcp_ep_can_render_registers parse_can_registers can_reg_offset_read_only
       RCP_EP_CAN_EP_FUNC_LEN RCP_EP_CAN_RECONFIG_OK RCP_EP_CAN_RECONFIG_ERR_SHORT
       RCP_EP_CAN_RECONFIG_ERR_OUT_OF_RANGE"

section \<open>The register block\<close>

lemma u32_of_octets: "get_u32 (put_u32 v ! 0 # put_u32 v ! 1 # put_u32 v ! 2 # put_u32 v ! 3 # r) = v"
  using get_put_u32 [of v r] by (simp add: put_u32_def)

lemma can_registers:
  "rcp_ep_can_render_registers c =
     [0x24, 0, enable_clr_octet (can_common c), options_octet (can_common c), 0, 0,
      put_u16 (can_ep_status c) ! 0, put_u16 (can_ep_status c) ! 1, 0, 0, 0, 0, 0, 0, 0, 0, 0, 0, 0, 0, 0, 0, 0, 0, 0, 0,
      0, 0,
      put_u32 (can_status c) ! 0, put_u32 (can_status c) ! 1, put_u32 (can_status c) ! 2, put_u32 (can_status c) ! 3,
      put_u32 (can_fifo_status c) ! 0, put_u32 (can_fifo_status c) ! 1, put_u32 (can_fifo_status c) ! 2,
      put_u32 (can_fifo_status c) ! 3]"
  by (simp add: rcp_ep_can_render_registers_def put_u16_def put_u32_def consts_rcp numeral_eq_Suc)


lemma can_parse_nth:
  assumes "length img = 36" and "\<And>i. i < 36 \<Longrightarrow> can_reg_offset_read_only i \<Longrightarrow>
      img ! i = rcp_ep_can_render_registers c ! i" and "i < 36"
  shows "rcp_ep_can_render_registers (parse_can_registers c img) ! i = flag_canon i (img ! i)"
proof (cases "can_reg_offset_read_only i")
  case True
  then have i: "i \<in> {0, 1, 4, 5, 8, 9, 10, 11, 12, 13, 14, 15, 16, 17, 18, 19, 20, 21, 22, 23, 24, 25, 26, 27}"
    unfolding can_reg_offset_read_only_def consts_rcp by (simp, presburger)
  have "rcp_ep_can_render_registers (parse_can_registers c img) ! i = rcp_ep_can_render_registers c ! i"
    using i unfolding can_registers by auto
  moreover have "flag_canon i (img ! i) = img ! i" using i by (auto simp: flag_canon_def)
  ultimately show ?thesis using assms(2) [OF assms(3) True] by simp
next
  case False
  then have i: "i \<in> {2, 3, 6, 7, 28, 29, 30, 31, 32, 33, 34, 35}"
    using assms(3) unfolding can_reg_offset_read_only_def consts_rcp by (simp, presburger)
  have w: "put_u16 (get_u16 (drop 6 img)) = [img ! 6, img ! 7]"
    "put_u32 (get_u32 (drop 28 img)) = [img ! 28, img ! 29, img ! 30, img ! 31]"
    "put_u32 (get_u32 (drop 32 img)) = [img ! 32, img ! 33, img ! 34, img ! 35]"
    using assms(1) by (simp_all add: put_get_u16_at put_get_u32_at)
  show ?thesis using i unfolding can_registers
    by (auto simp: parse_can_registers_def consts_rcp common_octets_parse w flag_canon_def)
qed

interpretation can_regs: readback_block rcp_ep_can_render_registers parse_can_registers
  can_reg_offset_read_only RCP_EP_CAN_EP_FUNC_LEN "\<lambda>_. True" RCP_EP_CAN_RECONFIG_OK
  RCP_EP_CAN_RECONFIG_ERR_SHORT RCP_EP_CAN_RECONFIG_ERR_OUT_OF_RANGE flag_canon
proof unfold_locales
  fix c
  show "length (rcp_ep_can_render_registers c) = RCP_EP_CAN_EP_FUNC_LEN"
    by (simp add: can_registers consts_rcp)
  show "parse_can_registers c (rcp_ep_can_render_registers c) = c"
    by (simp add: can_registers parse_can_registers_def u16_of_octets u32_of_octets [simplified] consts_rcp)
next
  fix i d assume "can_reg_offset_read_only i"
  then show "flag_canon i d = d" by (auto simp: can_reg_offset_read_only_def flag_canon_def consts_rcp)
qed (simp_all add: can_parse_nth RCP_EP_CAN_EP_FUNC_LEN_def)

section \<open>Frames survive as payloads\<close>

lemma can_combined:
  fixes fmt :: byte and ident :: u32
  assumes "fmt \<le> 5" and "ident \<le> 0x1FFFFFFF"
  shows "ucast (drop_bit 29 (push_bit 29 (ucast fmt :: u32) OR (ident AND 0x1FFFFFFF)) AND 0x7) = fmt"
    and "(push_bit 29 (ucast fmt :: u32) OR (ident AND 0x1FFFFFFF)) AND 0x1FFFFFFF = ident"
proof -
  have f: "fmt AND 0x7 = fmt"
    using less_mask_eq [of fmt 3] assms(1) by (simp add: mask_eq_exp_minus_1 word_less_nat_alt word_le_nat_alt)
  have i: "ident AND 0x1FFFFFFF = ident"
    using less_mask_eq [of ident 29] assms(2) by (simp add: mask_eq_exp_minus_1 word_less_nat_alt word_le_nat_alt)
  have "ucast (drop_bit 29 (push_bit 29 (ucast fmt :: u32) OR (ident AND 0x1FFFFFFF)) AND 0x7) = fmt AND 0x7"
    by (rule word8_eqI) (simp_all add: word_bits)
  then show "ucast (drop_bit 29 (push_bit 29 (ucast fmt :: u32) OR (ident AND 0x1FFFFFFF)) AND 0x7) = fmt"
    by (simp add: f)
  have "(push_bit 29 (ucast fmt :: u32) OR (ident AND 0x1FFFFFFF)) AND 0x1FFFFFFF = ident AND 0x1FFFFFFF"
    by (rule word32_eqI) (simp_all add: word_bits)
  then show "(push_bit 29 (ucast fmt :: u32) OR (ident AND 0x1FFFFFFF)) AND 0x1FFFFFFF = ident"
    by (simp add: i)
qed

lemma can_preconditions:
  assumes "encode_preconditions_ok fmt ident xl n"
  shows "fmt \<le> 5" "rcp_ep_can_arbitration_id_valid fmt ident" "ident \<le> 0x1FFFFFFF"
    "rcp_ep_can_frame_format_is_xl fmt \<longleftrightarrow> xl \<noteq> None" "n \<le> rcp_ep_can_frame_format_max_data_len fmt"
proof -
  show "fmt \<le> 5" "rcp_ep_can_arbitration_id_valid fmt ident"
    "rcp_ep_can_frame_format_is_xl fmt \<longleftrightarrow> xl \<noteq> None" "n \<le> rcp_ep_can_frame_format_max_data_len fmt"
    using assms
    by (auto simp: encode_preconditions_ok_def rcp_ep_can_frame_format_valid_def Let_def consts_rcp split: if_splits)
  then have "ident \<le> 0x1FFFFFFF \<or> ident \<le> 0x7FF"
    by (auto simp: rcp_ep_can_arbitration_id_valid_def split: if_splits)
  then show "ident \<le> 0x1FFFFFFF" by (elim disjE) (simp_all add: order_trans [of ident "0x7FF"])
qed

lemma write_prefix_length:
  "length (write_prefix fmt ident xl) = prefix_len_for fmt"
  by (simp add: write_prefix_def prefix_len_for_def Let_def put_u32_def)

lemma build_payload_length:
  "length (build_payload fmt ident xl data) = prefix_len_for fmt + length data"
  by (simp add: build_payload_def write_prefix_length)

text \<open>Every frame that the encoders accept is read back from its payload.\<close>

lemma can_payload_roundtrip:
  assumes "encode_preconditions_ok fmt ident xl (length data)"
  shows "can_parse_payload (build_payload fmt ident xl data) = Inr (fmt, ident, xl, data)"
proof -
  note p = can_preconditions [OF assms]
  let ?b = "build_payload fmt ident xl data"
  have g: "get_u32 ?b = push_bit 29 (ucast fmt) OR (ident AND 0x1FFFFFFF)"
    by (simp add: build_payload_def write_prefix_def Let_def get_put_u32)
  have f: "read_frame_format ?b = fmt" using can_combined(1) [OF p(1,3)] by (simp add: read_frame_format_def g)
  have r: "read_prefix ?b fmt = (ident, xl)"
  proof (cases xl)
    case None
    then show ?thesis using can_combined(2) [OF p(1,3)] p(4) g by (simp add: read_prefix_def)
  next
    case (Some h)
    have "drop 6 ?b = put_u32 (xl_af h) @ data" "?b ! 4 = xl_sdt h" "?b ! 5 = xl_vcid h"
      using Some p(4) by (simp_all add: build_payload_def write_prefix_def Let_def put_u32_def)
    then show ?thesis using can_combined(2) [OF p(1,3)] p(4) Some g by (simp add: read_prefix_def get_put_u32)
  qed
  have "4 \<le> prefix_len_for fmt" by (simp add: prefix_len_for_def)
  moreover have "drop (prefix_len_for fmt) ?b = data" by (simp add: build_payload_def write_prefix_length)
  ultimately show ?thesis using p(1,2)
    by (simp add: can_parse_payload_def Let_def f r build_payload_length rcp_ep_can_frame_format_valid_def consts_rcp)
qed

section \<open>The client of fragmented responses\<close>

definition can_client :: "rcp_byte_bus_id_t \<Rightarrow> bytes \<Rightarrow> (bool \<times> byte \<times> bytes) option" where
  "can_client bus b =
     (case rcp_ep_can_decode_frame_response_fragment b bus of
        Inl _ \<Rightarrow> None
      | Inr (ms, num, payload, _) \<Rightarrow> Some (ms, num, payload))"

interpretation can_wire: fragment_wire
  "\<lambda>mem seg data. fragment_message mem (can_response_header (bus AND 0x7FF) tn) timed ts seg data"
  "can_client (bus AND 0x7FF)" RCP_ACF_GBB_MAX_PAYLOAD for bus tn timed ts
proof
  fix q :: bytes and s assume "length q \<le> RCP_ACF_GBB_MAX_PAYLOAD"
  from fragment_message_wire [OF this, of "can_response_header (bus AND 0x7FF) tn" timed ts s
      RCP_EP_CAN_ERR_SHORT_FRAME RCP_EP_CAN_ERR_BAD_MSG_TYPE "[]"]
  show "\<exists>f num. fragment_message True (can_response_header (bus AND 0x7FF) tn) timed ts s q = Some f \<and>
      can_client (bus AND 0x7FF) f = Some (seg_ms s, num, q) \<and>
      (seg_ms s \<longrightarrow> num = ucast (seg_segment_num s AND 0xFFF))"
    by (elim exE conjE) (simp add: can_client_def can_response_header_def and.assoc rcp_acf_evt_row2_is_plain_def
        rcp_ep_can_decode_frame_response_fragment_def consts_rcp)
qed

text \<open>C32: A frame of any format whose response needs \<open>n > 0\<close> fragments (so that the encoder accepts it), on a bus id of
  11 bits, with a segment size that fits one message, every allocation of the encoder successful and a reassembler
  whose limit is at least 2058 octets (the largest CAN payload), reaches the client whole: the client has the payload
  after the last fragment and not before, and reads the frame from it.  The limit of 256 segments keeps CAN
  off the numbers that the client cannot tell apart.\<close>

theorem can_fragmented_frame:
  assumes "bus < 0x800" and "n = rcp_ep_can_frame_response_fragment_count fmt ident xl (length data) m" and "0 < n"
    and "m \<le> RCP_ACF_GBB_MAX_PAYLOAD" and "2058 \<le> mt" and "mt \<le> SIZE_MAX"
  shows "\<exists>r. feed_fragments (can_client bus) (rcp_fragment_reassembler_init mt)
      (rcp_ep_can_encode_frame_response_fragmented (replicate n True) bus fmt ident xl data tn timed ts m) =
      (replicate (n - 1) RCP_FRAGMENT_REASM_CONTINUE @ [RCP_FRAGMENT_REASM_COMPLETE], r) \<and>
    rcp_ep_can_decode_reassembled_frame_response (rcp_fragment_reassembler_get r) = Inr (fmt, ident, xl, data)"
proof -
  let ?b = "build_payload fmt ident xl data"
  have pre: "encode_preconditions_ok fmt ident xl (length data)" and n: "n = rcp_fragment_plan_count (length ?b) m"
    "n \<le> 257"
    using assms(2,3) by (auto simp: rcp_ep_can_frame_response_fragment_count_def Let_def build_payload_length
        RCP_EP_CAN_MAX_FRAGMENT_SEGMENTS_def split: if_splits)
  have "length data \<le> 2048"
    using can_preconditions(5) [OF pre]
    by (auto simp: rcp_ep_can_frame_format_max_data_len_def consts_rcp split: if_splits)
  then have len: "length ?b \<le> 2058" by (simp add: build_payload_length prefix_len_for_def)
  obtain segs where segs: "rcp_fragment_plan (length ?b) m n = Inr segs" using plan_of_count n(1) assms(3) by blast
  have "length ?b \<le> 2 ^ 63" "min (length ?b) m \<le> RCP_ACF_GBB_MAX_PAYLOAD" "length ?b \<le> mt"
    using len assms(4,5) by simp_all
  from can_wire.reassembled [OF segs this(1,2) n(2) this(3) assms(6), of bus, unfolded bus_canon [OF assms(1)]]
  obtain fs r where "encode_fragments (\<lambda>mem seg data. fragment_message mem (can_response_header bus tn) timed ts seg data)
      (replicate n True) ?b segs = Some fs"
    "feed_fragments (can_client bus) (rcp_fragment_reassembler_init mt) fs =
        (replicate (n - 1) RCP_FRAGMENT_REASM_CONTINUE @ [RCP_FRAGMENT_REASM_COMPLETE], r)" "reasm_buf r = ?b" by blast
  then show ?thesis using segs assms(3) can_payload_roundtrip [OF pre]
    by (simp add: rcp_ep_can_encode_frame_response_fragmented_def can_fragments_def assms(2) [symmetric]
        rcp_fragment_reassembler_get_def rcp_ep_can_decode_reassembled_frame_response_def)
qed

lemma can_sample_count: "rcp_ep_can_frame_response_fragment_count 4 0x123 (Some \<lparr>xl_sdt = 1, xl_vcid = 2, xl_af = 3\<rparr>)
    (length (replicate 2048 (7::byte))) 1000 = 3"
  by (simp add: rcp_ep_can_frame_response_fragment_count_def rcp_fragment_plan_count_def size_add_def size_sub_def
      encode_preconditions_ok_def rcp_ep_can_frame_format_valid_def rcp_ep_can_arbitration_id_valid_def
      rcp_ep_can_frame_format_id_width_def rcp_ep_can_frame_format_max_data_len_def prefix_len_for_def
      rcp_ep_can_frame_format_is_xl_def consts_rcp)

theorem can_fragmented_frame_witness:
  "\<exists>r. snd (feed_fragments (can_client 5) (rcp_fragment_reassembler_init 4096)
      (rcp_ep_can_encode_frame_response_fragmented (replicate 3 True) 5 4 0x123
        (Some \<lparr>xl_sdt = 1, xl_vcid = 2, xl_af = 3\<rparr>) (replicate 2048 7) 9 True 77 1000)) = r \<and>
    rcp_ep_can_decode_reassembled_frame_response (rcp_fragment_reassembler_get r) =
      Inr (4, 0x123, Some \<lparr>xl_sdt = 1, xl_vcid = 2, xl_af = 3\<rparr>, replicate 2048 7)"
  using can_fragmented_frame [OF _ can_sample_count [symmetric], of 5 4096 9 True 77]
  by (auto simp: consts_rcp SIZE_MAX_def)

text \<open>In a single message, a frame that the format admits and that fits is carried whole; an XL frame that
  does not fit is refused by the encoder and has to go in fragments.\<close>

theorem can_single_frame:
  assumes "bus < 0x800" and "encode_preconditions_ok fmt ident xl (length data)"
  shows "(if prefix_len_for fmt + length data \<le> RCP_ACF_ABB_MAX_PAYLOAD
      then \<exists>f. rcp_ep_can_encode_frame_request True bus fmt ident xl data tn = Some f \<and>
        rcp_ep_can_decode_frame_request (f @ rest) bus = Inr ((fmt, ident, xl, data), tn)
      else rcp_ep_can_encode_frame_request True bus fmt ident xl data tn = None \<and> rcp_ep_can_frame_format_is_xl fmt)"
    and "prefix_len_for fmt + length data \<le> RCP_ACF_GBB_MAX_PAYLOAD \<Longrightarrow>
      \<exists>f. rcp_ep_can_encode_frame_response True bus fmt ident xl data tn timed ts = Some f \<and>
        rcp_ep_can_decode_frame_response (f @ rest) bus =
          Inr ((fmt, ident, xl, data), timed, if timed then ts else 0, tn)"
proof -
  let ?b = "build_payload fmt ident xl data"
  note rt = can_payload_roundtrip [OF assms(2)] and len = build_payload_length [of fmt ident xl data]
  note c = assms(2) rt bus_canon [OF assms(1)] rcp_acf_evt_row2_is_plain_def
  show "if prefix_len_for fmt + length data \<le> RCP_ACF_ABB_MAX_PAYLOAD
      then \<exists>f. rcp_ep_can_encode_frame_request True bus fmt ident xl data tn = Some f \<and>
        rcp_ep_can_decode_frame_request (f @ rest) bus = Inr ((fmt, ident, xl, data), tn)
      else rcp_ep_can_encode_frame_request True bus fmt ident xl data tn = None \<and> rcp_ep_can_frame_format_is_xl fmt"
  proof (cases "prefix_len_for fmt + length data \<le> RCP_ACF_ABB_MAX_PAYLOAD")
    case True
    then have l: "length ?b \<le> RCP_ACF_ABB_MAX_PAYLOAD" by (simp add: len)
    show ?thesis using True request_wire [OF l, of "can_request_header bus tn" RCP_EP_CAN_ERR_SHORT_FRAME
        RCP_EP_CAN_ERR_BAD_MSG_TYPE rest]
      by (auto simp: rcp_ep_can_encode_frame_request_def rcp_ep_can_decode_frame_request_def can_request_header_def
          abb_canon_def info_canon_def Let_def zero_info_def consts_rcp c)
  next
    case False
    then have "rcp_ep_can_frame_format_is_xl fmt"
      using can_preconditions(5) [OF assms(2)]
      by (auto simp: rcp_ep_can_frame_format_max_data_len_def rcp_ep_can_frame_format_is_xl_def prefix_len_for_def
          consts_rcp split: if_splits)
    then show ?thesis using False by (simp add: rcp_ep_can_encode_frame_request_def rcp_acf_encode_abb_def len)
  qed
  show "\<exists>f. rcp_ep_can_encode_frame_response True bus fmt ident xl data tn timed ts = Some f \<and>
        rcp_ep_can_decode_frame_response (f @ rest) bus =
          Inr ((fmt, ident, xl, data), timed, if timed then ts else 0, tn)"
    if "prefix_len_for fmt + length data \<le> RCP_ACF_GBB_MAX_PAYLOAD"
  proof -
    have l: "length ?b \<le> RCP_ACF_GBB_MAX_PAYLOAD" using that by (simp add: len)
    from response_message_wire [OF l, of "can_response_header bus tn" timed ts RCP_EP_CAN_ERR_SHORT_FRAME
        RCP_EP_CAN_ERR_BAD_MSG_TYPE rest]
    show ?thesis
      by (elim exE conjE) (simp add: rcp_ep_can_encode_frame_response_def rcp_ep_can_decode_frame_response_def
          can_response_header_def c consts_rcp)
  qed
qed

theorem can_single_frame_witness:
  "\<exists>f. rcp_ep_can_encode_frame_request True 5 1 0x12345 None [1, 2, 3] 9 = Some f \<and>
      rcp_ep_can_decode_frame_request (f @ []) 5 = Inr ((1, 0x12345, None, [1, 2, 3]), 9)"
  using can_single_frame(1) [of 5 1 "0x12345" None "[1, 2, 3]" 9 "[]"]
  by (simp add: encode_preconditions_ok_def rcp_ep_can_frame_format_valid_def rcp_ep_can_arbitration_id_valid_def
      rcp_ep_can_frame_format_id_width_def rcp_ep_can_frame_format_max_data_len_def prefix_len_for_def
      rcp_ep_can_frame_format_is_xl_def consts_rcp)

end
