(* ===== verification/Ep_Iseled.thy ===== *)
theory Ep_Iseled
  imports Fragment_Messages Lifecycle
begin

text \<open>
  \<^verbatim>\<open>src/ep_iseled.c\<close>: the ISELED endpoint: the line code of 5-bit symbols with a parity bit, the CRC-8 of a
  bit frame, the configuration and its registers, commands and their responses, whole and in fragments.  The loops over
  octets are maps and folds; the loop of \<open>popcount4\<close> keeps its accumulator.  The text tables are left out.
\<close>

section \<open>Symbols\<close>

function popcount4_loop :: "byte \<Rightarrow> byte \<Rightarrow> byte" where
  "popcount4_loop c v = (if v = 0 then c else popcount4_loop (c + (v AND 1)) (drop_bit 1 v))"
  by pat_completeness auto
termination
proof (relation "measure (unat \<circ> snd)")
  fix c v :: byte assume "v \<noteq> 0"
  then have "0 < unat v" by (simp add: unat_gt_0)
  then show "((c + (v AND 1), drop_bit 1 v), c, v) \<in> measure (unat \<circ> snd)"
    by (simp add: drop_bit_eq_div unat_div)
qed simp

declare popcount4_loop.simps [simp del]

definition popcount4 :: "byte \<Rightarrow> byte" where
  "popcount4 n = popcount4_loop 0 (n AND 0x0F)"

definition rcp_ep_iseled_symbol_encode :: "byte \<Rightarrow> byte" where
  "rcp_ep_iseled_symbol_encode nibble =
     (let n = nibble AND 0x0F; parity = popcount4 n AND 0x01
      in push_bit 4 parity OR n)"

definition rcp_ep_iseled_symbol_decode :: "byte \<Rightarrow> byte option" where
  "rcp_ep_iseled_symbol_decode symbol =
     (let s = symbol AND 0x1F;
          n = s AND 0x0F;
          parity_bit = drop_bit 4 s AND 0x01;
          want_parity = popcount4 n AND 0x01
      in if parity_bit \<noteq> want_parity then None else Some n)"

section \<open>Bit frames\<close>

definition iseled_crc8_step :: "byte \<Rightarrow> byte" where
  "iseled_crc8_step crc = (if crc AND 0x80 \<noteq> 0 then push_bit 1 crc XOR 0x07 else push_bit 1 crc)"

definition crc8_update :: "byte \<Rightarrow> byte \<Rightarrow> byte" where
  "crc8_update crc b = (iseled_crc8_step ^^ 8) (crc XOR b)"

definition rcp_ep_iseled_crc8 :: "bytes \<Rightarrow> byte" where
  "rcp_ep_iseled_crc8 data = foldl crc8_update 0 data"

definition rcp_ep_iseled_bitframe_encoded_len :: "nat \<Rightarrow> bool \<Rightarrow> nat" where
  "rcp_ep_iseled_bitframe_encoded_len data_len append_crc =
     (size_add data_len (if append_crc then 1 else 0) * 2) mod 2 ^ 64"

definition rcp_ep_iseled_encode_bitframe :: "bool \<Rightarrow> bytes \<Rightarrow> bool \<Rightarrow> rcp_bytes_t" where
  "rcp_ep_iseled_encode_bitframe mem data append_crc =
     (let data_len = length data;
          content_len = size_add data_len (if append_crc then 1 else 0);
          n = (content_len * 2) mod 2 ^ 64
      in if n = 0 then None
         else if \<not> mem then None
         else
           let crc = (if append_crc then rcp_ep_iseled_crc8 data else 0)
           in Some (concat (map (\<lambda>i.
                let octet = (if i < data_len then data ! i else crc)
                in [rcp_ep_iseled_symbol_encode (drop_bit 4 octet), rcp_ep_iseled_symbol_encode (octet AND 0x0F)])
                [0..<content_len])))"

datatype rcp_ep_iseled_errc_t =
    RCP_EP_ISELED_OK | RCP_EP_ISELED_ERR_SHORT_FRAME | RCP_EP_ISELED_ERR_BAD_MSG_TYPE | RCP_EP_ISELED_ERR_WRONG_BUS
  | RCP_EP_ISELED_ERR_WRONG_OP | RCP_EP_ISELED_ERR_BAD_SYMBOL | RCP_EP_ISELED_ERR_CRC_MISMATCH
  | RCP_EP_ISELED_ERR_ODD_SYMBOL_COUNT | RCP_EP_ISELED_ERR_ALLOC | RCP_EP_ISELED_ERR_BAD_EVT

text \<open>The loop over pairs of symbols.\<close>

fun iseled_decode_octets :: "bytes \<Rightarrow> bytes option" where
  "iseled_decode_octets (x # y # ss) =
     (case rcp_ep_iseled_symbol_decode x of
        None \<Rightarrow> None
      | Some hi \<Rightarrow>
          (case rcp_ep_iseled_symbol_decode y of
             None \<Rightarrow> None
           | Some lo \<Rightarrow> map_option ((#) (push_bit 4 hi OR lo)) (iseled_decode_octets ss)))"
| "iseled_decode_octets _ = Some []"

text \<open>The two allocations are the buffer of the octets and, with a CRC, the copy without it; a failure of the second
  is not an error of the code.\<close>

definition rcp_ep_iseled_decode_bitframe ::
    "bool \<Rightarrow> bool \<Rightarrow> bytes \<Rightarrow> bool \<Rightarrow> rcp_ep_iseled_errc_t + rcp_bytes_t" where
  "rcp_ep_iseled_decode_bitframe mem mem_copy symbols expect_crc =
     (if odd (length symbols) then Inl RCP_EP_ISELED_ERR_ODD_SYMBOL_COUNT
      else
        let byte_count = length symbols div 2
        in if expect_crc \<and> byte_count = 0 then Inl RCP_EP_ISELED_ERR_SHORT_FRAME
           else if byte_count > 0 \<and> \<not> mem then Inl RCP_EP_ISELED_ERR_ALLOC
           else
             (case iseled_decode_octets symbols of
                None \<Rightarrow> Inl RCP_EP_ISELED_ERR_BAD_SYMBOL
              | Some octets \<Rightarrow>
                  if expect_crc then
                    let data_len = byte_count - 1; want = rcp_ep_iseled_crc8 (take data_len octets)
                    in if octets ! data_len \<noteq> want then Inl RCP_EP_ISELED_ERR_CRC_MISMATCH
                       else Inr (rcp_bytes_dup mem_copy (take data_len octets))
                  else if byte_count > 0 then Inr (Some octets)
                  else Inr None))"

section \<open>Configuration\<close>

datatype rcp_ep_iseled_trigger_t = RCP_EP_ISELED_TRIGGER_NONE | RCP_EP_ISELED_TRIGGER_TX_COMPLETE

definition iseled_trigger_code :: "rcp_ep_iseled_trigger_t \<Rightarrow> byte" where
  "iseled_trigger_code t = (case t of RCP_EP_ISELED_TRIGGER_NONE \<Rightarrow> 0 | RCP_EP_ISELED_TRIGGER_TX_COMPLETE \<Rightarrow> 1)"

definition rcp_ep_iseled_requires_isp_n :: "bool \<Rightarrow> bool" where
  "rcp_ep_iseled_requires_isp_n use_rcv_clk = use_rcv_clk"

definition rcp_ep_iseled_trigger_fires :: "rcp_ep_iseled_trigger_t \<Rightarrow> bool \<Rightarrow> bool" where
  "rcp_ep_iseled_trigger_fires trigger tx_complete_event =
     (case trigger of
        RCP_EP_ISELED_TRIGGER_TX_COMPLETE \<Rightarrow> tx_complete_event
      | RCP_EP_ISELED_TRIGGER_NONE \<Rightarrow> False)"

record rcp_ep_iseled_functional_cfg_t =
  iseled_common :: rcp_regmap_ep_functional_cfg_t
  iseled_bit_clk_divider :: u32
  iseled_use_rcv_clk :: bool
  iseled_crc_enable :: bool
  iseled_trigger :: byte
  iseled_base_clk :: u16
  iseled_ep_status :: u16
  iseled_wire_clk_divider :: byte
  iseled_collect_resp :: bool
  iseled_nr_leds :: u16
  iseled_rcv_timeout :: u16

definition rcp_ep_iseled_functional_cfg_init :: rcp_ep_iseled_functional_cfg_t where
  "rcp_ep_iseled_functional_cfg_init =
     \<lparr>iseled_common = rcp_regmap_ep_functional_cfg_init, iseled_bit_clk_divider = 0, iseled_use_rcv_clk = False,
      iseled_crc_enable = False, iseled_trigger = 0, iseled_base_clk = 0, iseled_ep_status = 0,
      iseled_wire_clk_divider = 0, iseled_collect_resp = False, iseled_nr_leds = 0, iseled_rcv_timeout = 0\<rparr>"

definition rcp_ep_iseled_functional_cfg_writable ::
    "rcp_lifecycle_state_t \<Rightarrow> rcp_lifecycle_writer_ctx_t \<Rightarrow> bool" where
  "rcp_ep_iseled_functional_cfg_writable state writer =
     rcp_lifecycle_field_writable state RCP_LIFECYCLE_FIELD_FUNCTIONAL_W writer"

definition rcp_ep_iseled_set_bit_clk_divider ::
    "rcp_ep_iseled_functional_cfg_t \<Rightarrow> u32 \<Rightarrow> rcp_lifecycle_state_t \<Rightarrow> rcp_lifecycle_writer_ctx_t \<Rightarrow>
     bool \<times> rcp_ep_iseled_functional_cfg_t" where
  "rcp_ep_iseled_set_bit_clk_divider cfg divider state writer =
     (if \<not> rcp_ep_iseled_functional_cfg_writable state writer then (False, cfg)
      else (True, cfg\<lparr>iseled_bit_clk_divider := divider\<rparr>))"

definition rcp_ep_iseled_set_use_rcv_clk ::
    "rcp_ep_iseled_functional_cfg_t \<Rightarrow> bool \<Rightarrow> rcp_lifecycle_state_t \<Rightarrow> rcp_lifecycle_writer_ctx_t \<Rightarrow>
     bool \<times> rcp_ep_iseled_functional_cfg_t" where
  "rcp_ep_iseled_set_use_rcv_clk cfg use_rcv_clk state writer =
     (if \<not> rcp_ep_iseled_functional_cfg_writable state writer then (False, cfg)
      else (True, cfg\<lparr>iseled_use_rcv_clk := use_rcv_clk\<rparr>))"

definition rcp_ep_iseled_set_crc_enable ::
    "rcp_ep_iseled_functional_cfg_t \<Rightarrow> bool \<Rightarrow> rcp_lifecycle_state_t \<Rightarrow> rcp_lifecycle_writer_ctx_t \<Rightarrow>
     bool \<times> rcp_ep_iseled_functional_cfg_t" where
  "rcp_ep_iseled_set_crc_enable cfg enable state writer =
     (if \<not> rcp_ep_iseled_functional_cfg_writable state writer then (False, cfg)
      else (True, cfg\<lparr>iseled_crc_enable := enable\<rparr>))"

definition rcp_ep_iseled_set_trigger ::
    "rcp_ep_iseled_functional_cfg_t \<Rightarrow> rcp_ep_iseled_trigger_t \<Rightarrow> rcp_lifecycle_state_t \<Rightarrow>
     rcp_lifecycle_writer_ctx_t \<Rightarrow> bool \<times> rcp_ep_iseled_functional_cfg_t" where
  "rcp_ep_iseled_set_trigger cfg trigger state writer =
     (if \<not> rcp_ep_iseled_functional_cfg_writable state writer then (False, cfg)
      else (True, cfg\<lparr>iseled_trigger := iseled_trigger_code trigger\<rparr>))"

section \<open>Registers\<close>

definition RCP_EP_ISELED_REG_EP_LEN :: nat where [consts_rcp]: "RCP_EP_ISELED_REG_EP_LEN = 0"
definition RCP_EP_ISELED_REG_RESERVED_01 :: nat where [consts_rcp]: "RCP_EP_ISELED_REG_RESERVED_01 = 1"
definition RCP_EP_ISELED_REG_EP_ENABLE_CLR :: nat where [consts_rcp]: "RCP_EP_ISELED_REG_EP_ENABLE_CLR = 2"
definition RCP_EP_ISELED_REG_EP_OPTIONS :: nat where [consts_rcp]: "RCP_EP_ISELED_REG_EP_OPTIONS = 3"
definition RCP_EP_ISELED_REG_BASE_CLK :: nat where [consts_rcp]: "RCP_EP_ISELED_REG_BASE_CLK = 4"
definition RCP_EP_ISELED_REG_EP_STATUS :: nat where [consts_rcp]: "RCP_EP_ISELED_REG_EP_STATUS = 6"
definition RCP_EP_ISELED_REG_CLK_DIVIDER :: nat where [consts_rcp]: "RCP_EP_ISELED_REG_CLK_DIVIDER = 8"
definition RCP_EP_ISELED_REG_FLAGS :: nat where [consts_rcp]: "RCP_EP_ISELED_REG_FLAGS = 9"
definition RCP_EP_ISELED_REG_NR_LEDS :: nat where [consts_rcp]: "RCP_EP_ISELED_REG_NR_LEDS = 10"
definition RCP_EP_ISELED_REG_RCV_TIMEOUT :: nat where [consts_rcp]: "RCP_EP_ISELED_REG_RCV_TIMEOUT = 12"
definition RCP_EP_ISELED_EP_FUNC_LEN :: nat where [consts_rcp]: "RCP_EP_ISELED_EP_FUNC_LEN = 14"
definition RCP_EP_ISELED_FLAG_COLLECT_RESP :: byte where "RCP_EP_ISELED_FLAG_COLLECT_RESP = push_bit 3 1"
definition RCP_EP_ISELED_FLAG_USE_RCV_CLK :: byte where "RCP_EP_ISELED_FLAG_USE_RCV_CLK = push_bit 4 1"
definition RCP_EP_ISELED_MAX_READ_SIZE :: u16 where [consts_rcp]: "RCP_EP_ISELED_MAX_READ_SIZE = 0x0FFF"

datatype rcp_ep_iseled_reconfig_errc_t =
    RCP_EP_ISELED_RECONFIG_OK | RCP_EP_ISELED_RECONFIG_ERR_SHORT | RCP_EP_ISELED_RECONFIG_ERR_OUT_OF_RANGE

definition iseled_flags_octet :: "rcp_ep_iseled_functional_cfg_t \<Rightarrow> byte" where
  "iseled_flags_octet cfg =
     (if iseled_collect_resp cfg then RCP_EP_ISELED_FLAG_COLLECT_RESP else 0) OR
     (if iseled_use_rcv_clk cfg then RCP_EP_ISELED_FLAG_USE_RCV_CLK else 0)"

definition rcp_ep_iseled_render_registers :: "rcp_ep_iseled_functional_cfg_t \<Rightarrow> bytes" where
  "rcp_ep_iseled_render_registers cfg =
     [of_nat RCP_EP_ISELED_EP_FUNC_LEN, 0, enable_clr_octet (iseled_common cfg), options_octet (iseled_common cfg)] @
     put_u16 (iseled_base_clk cfg) @ put_u16 (iseled_ep_status cfg) @
     [iseled_wire_clk_divider cfg, iseled_flags_octet cfg] @
     put_u16 (iseled_nr_leds cfg) @ put_u16 (iseled_rcv_timeout cfg)"

definition parse_iseled_registers ::
    "rcp_ep_iseled_functional_cfg_t \<Rightarrow> bytes \<Rightarrow> rcp_ep_iseled_functional_cfg_t" where
  "parse_iseled_registers cfg img =
     (let flags = img ! RCP_EP_ISELED_REG_FLAGS
      in cfg\<lparr>iseled_common :=
               parse_common (img ! RCP_EP_ISELED_REG_EP_ENABLE_CLR) (img ! RCP_EP_ISELED_REG_EP_OPTIONS),
             iseled_collect_resp := flags AND RCP_EP_ISELED_FLAG_COLLECT_RESP \<noteq> 0,
             iseled_use_rcv_clk := flags AND RCP_EP_ISELED_FLAG_USE_RCV_CLK \<noteq> 0,
             iseled_ep_status := get_u16 (drop RCP_EP_ISELED_REG_EP_STATUS img),
             iseled_wire_clk_divider := img ! RCP_EP_ISELED_REG_CLK_DIVIDER,
             iseled_nr_leds := get_u16 (drop RCP_EP_ISELED_REG_NR_LEDS img),
             iseled_rcv_timeout := get_u16 (drop RCP_EP_ISELED_REG_RCV_TIMEOUT img)\<rparr>)"

definition iseled_reg_offset_read_only :: "nat \<Rightarrow> bool" where
  "iseled_reg_offset_read_only addr \<longleftrightarrow>
     addr = RCP_EP_ISELED_REG_EP_LEN \<or> addr = RCP_EP_ISELED_REG_RESERVED_01 \<or>
     addr = RCP_EP_ISELED_REG_BASE_CLK \<or> addr = RCP_EP_ISELED_REG_BASE_CLK + 1"

definition rcp_ep_iseled_apply_reconfig ::
    "rcp_ep_iseled_functional_cfg_t \<Rightarrow> bytes \<Rightarrow> rcp_ep_iseled_reconfig_errc_t \<times> rcp_ep_iseled_functional_cfg_t" where
  "rcp_ep_iseled_apply_reconfig =
     apply_block rcp_ep_iseled_render_registers parse_iseled_registers iseled_reg_offset_read_only
       RCP_EP_ISELED_EP_FUNC_LEN RCP_EP_ISELED_RECONFIG_OK RCP_EP_ISELED_RECONFIG_ERR_SHORT
       RCP_EP_ISELED_RECONFIG_ERR_OUT_OF_RANGE"

definition rcp_ep_iseled_encode_reconfig_request ::
    "bool \<Rightarrow> bool \<Rightarrow> rcp_byte_bus_id_t \<Rightarrow> u16 \<Rightarrow> bytes \<Rightarrow> byte \<Rightarrow> rcp_bytes_t" where
  "rcp_ep_iseled_encode_reconfig_request mem_payload mem_frame bus start_address data tn =
     encode_reconfig mem_payload mem_frame bus start_address data tn"

section \<open>Messages\<close>

definition rcp_ep_iseled_encode_command_request ::
    "bool \<Rightarrow> rcp_byte_bus_id_t \<Rightarrow> bytes \<Rightarrow> byte \<Rightarrow> rcp_bytes_t" where
  "rcp_ep_iseled_encode_command_request mem bus tx_data tn =
     rcp_acf_encode_abb mem
       (zero_info\<lparr>bm_byte_bus_id := bus, bm_op := RCP_ACF_OP_WRITE, bm_evt := 0, bm_transaction_num := tn\<rparr>) tx_data"

definition rcp_ep_iseled_decode_command_request ::
    "bytes \<Rightarrow> rcp_byte_bus_id_t \<Rightarrow> rcp_ep_iseled_errc_t + (bytes \<times> byte)" where
  "rcp_ep_iseled_decode_command_request b expected_bus =
     (case decode_request_frame RCP_EP_ISELED_ERR_SHORT_FRAME RCP_EP_ISELED_ERR_BAD_MSG_TYPE b of
        Inl e \<Rightarrow> Inl e
      | Inr (hdr, payload) \<Rightarrow>
          if bm_byte_bus_id hdr \<noteq> expected_bus then Inl RCP_EP_ISELED_ERR_WRONG_BUS
          else if bm_op hdr \<noteq> RCP_ACF_OP_WRITE then Inl RCP_EP_ISELED_ERR_WRONG_OP
          else if \<not> rcp_acf_evt_row2_is_plain (bm_evt hdr) then Inl RCP_EP_ISELED_ERR_BAD_EVT
          else Inr (payload, bm_transaction_num hdr))"

definition rcp_ep_iseled_encode_read_request ::
    "bool \<Rightarrow> rcp_byte_bus_id_t \<Rightarrow> bytes \<Rightarrow> u16 \<Rightarrow> byte \<Rightarrow> rcp_bytes_t" where
  "rcp_ep_iseled_encode_read_request mem bus tx_data read_size tn =
     (if read_size > RCP_EP_ISELED_MAX_READ_SIZE then None
      else rcp_acf_encode_abb mem
             (zero_info\<lparr>bm_byte_bus_id := bus, bm_op := RCP_ACF_OP_READ, bm_evt := 0, bm_transaction_num := tn,
                bm_read_size_or_segment_num := read_size\<rparr>) tx_data)"

definition rcp_ep_iseled_decode_read_request ::
    "bytes \<Rightarrow> rcp_byte_bus_id_t \<Rightarrow> rcp_ep_iseled_errc_t + (bytes \<times> u16 \<times> byte)" where
  "rcp_ep_iseled_decode_read_request b expected_bus =
     (case decode_request_frame RCP_EP_ISELED_ERR_SHORT_FRAME RCP_EP_ISELED_ERR_BAD_MSG_TYPE b of
        Inl e \<Rightarrow> Inl e
      | Inr (hdr, payload) \<Rightarrow>
          if bm_byte_bus_id hdr \<noteq> expected_bus then Inl RCP_EP_ISELED_ERR_WRONG_BUS
          else if bm_op hdr \<noteq> RCP_ACF_OP_READ then Inl RCP_EP_ISELED_ERR_WRONG_OP
          else if \<not> rcp_acf_evt_row2_is_plain (bm_evt hdr) then Inl RCP_EP_ISELED_ERR_BAD_EVT
          else Inr (payload, bm_read_size_or_segment_num hdr, bm_transaction_num hdr))"

definition rcp_ep_iseled_encode_response ::
    "bool \<Rightarrow> rcp_byte_bus_id_t \<Rightarrow> bytes \<Rightarrow> byte \<Rightarrow> bool \<Rightarrow> u64 \<Rightarrow> rcp_bytes_t" where
  "rcp_ep_iseled_encode_response mem bus rx_data tn timed timestamp =
     response_frame mem bus RCP_ACF_OP_READ 0 rx_data tn timed timestamp"

definition rcp_ep_iseled_decode_response ::
    "bytes \<Rightarrow> rcp_byte_bus_id_t \<Rightarrow> rcp_ep_iseled_errc_t + (bytes \<times> bool \<times> u64 \<times> byte)" where
  "rcp_ep_iseled_decode_response b expected_bus =
     (case decode_response_frame RCP_EP_ISELED_ERR_SHORT_FRAME RCP_EP_ISELED_ERR_BAD_MSG_TYPE b of
        Inl e \<Rightarrow> Inl e
      | Inr (hdr, timed, timestamp, payload) \<Rightarrow>
          if bm_byte_bus_id hdr \<noteq> expected_bus then Inl RCP_EP_ISELED_ERR_WRONG_BUS
          else Inr (payload, timed, timestamp, bm_transaction_num hdr))"

definition rcp_ep_iseled_response_fragment_count :: "nat \<Rightarrow> u16 \<Rightarrow> nat \<Rightarrow> nat" where
  "rcp_ep_iseled_response_fragment_count available_len read_size max_fragment_payload =
     (let capped_len = (if available_len < unat read_size then available_len else unat read_size)
      in rcp_fragment_plan_count capped_len max_fragment_payload)"

definition iseled_fragment ::
    "rcp_byte_bus_id_t \<Rightarrow> byte \<Rightarrow> bool \<Rightarrow> u64 \<Rightarrow> bool \<Rightarrow> rcp_fragment_segment_t \<Rightarrow> bytes \<Rightarrow> rcp_bytes_t" where
  "iseled_fragment bus tn timed timestamp mem seg data =
     fragment_message mem
       (zero_info\<lparr>bm_byte_bus_id := bus, bm_op := RCP_ACF_OP_READ, bm_rsp := 1, bm_evt := 0,
          bm_transaction_num := tn\<rparr>) timed timestamp seg data"

definition rcp_ep_iseled_encode_response_fragmented ::
    "bool \<Rightarrow> bool list \<Rightarrow> rcp_byte_bus_id_t \<Rightarrow> bytes \<Rightarrow> u16 \<Rightarrow> byte \<Rightarrow> bool \<Rightarrow> u64 \<Rightarrow> nat \<Rightarrow> bytes list" where
  "rcp_ep_iseled_encode_response_fragmented mem_segs mems bus rx_data read_size tn timed timestamp
      max_fragment_payload =
     (let rx_len = length rx_data;
          capped_len = (if rx_len < unat read_size then rx_len else unat read_size);
          count = rcp_fragment_plan_count capped_len max_fragment_payload
      in if count = 0 then []
         else if \<not> mem_segs then []
         else
           (case rcp_fragment_plan capped_len max_fragment_payload count of
              Inl _ \<Rightarrow> []
            | Inr segs \<Rightarrow>
                (case encode_fragments (iseled_fragment bus tn timed timestamp) mems rx_data segs of
                   None \<Rightarrow> []
                 | Some frames \<Rightarrow> frames)))"

section \<open>The line code\<close>

lemma popcount4_loop_steps:
  "popcount4_loop c 0 = c"
  "v \<noteq> 0 \<Longrightarrow> popcount4_loop c v = popcount4_loop (c + (v AND 1)) (drop_bit 1 v)"
  by (simp_all add: popcount4_loop.simps)

lemma nibble_cases: "(n :: byte) AND 0xF \<in> {0, 1, 2, 3, 4, 5, 6, 7, 8, 9, 10, 11, 12, 13, 14, 15}"
proof -
  obtain k where k: "n AND 0xF = of_nat k" "k < 16"
  proof
    show "n AND 0xF = of_nat (unat (n AND 0xF))" by simp
    show "unat (n AND 0xF) < 16" using word_and_le1 [of n "0xF"] by (simp add: word_le_nat_alt)
  qed
  have "k \<in> {0, 1, 2, 3, 4, 5, 6, 7, 8, 9, 10, 11, 12, 13, 14, 15}" using k(2) by (simp, presburger)
  then show ?thesis unfolding k(1) by (elim insertE) simp_all
qed

text \<open>The loop computes the parity of the four bits.\<close>

lemma popcount4_parity:
  "popcount4 n AND 1 = of_bool ((bit n 0 \<noteq> bit n 1) \<noteq> (bit n 2 \<noteq> bit n 3))"
proof -
  have "bit n i = bit (n AND 0xF) i" if "i < 4" for i
    using that by (simp add: bit_simps less_Suc_eq numeral_eq_Suc) auto
  then have b: "bit n 0 = bit (n AND 0xF) 0" "bit n 1 = bit (n AND 0xF) 1" "bit n 2 = bit (n AND 0xF) 2"
    "bit n 3 = bit (n AND 0xF) 3" by simp_all
  show ?thesis unfolding popcount4_def b using nibble_cases [of n]
    by (elim insertE) (simp_all add: popcount4_loop_steps)
qed

definition odd_nibble :: "byte \<Rightarrow> bool" where
  "odd_nibble n \<longleftrightarrow> (bit n 0 \<noteq> bit n 1) \<noteq> (bit n 2 \<noteq> bit n 3)"

lemma symbol_encode_eq: "rcp_ep_iseled_symbol_encode n = (n AND 0xF) OR (if odd_nibble n then 0x10 else 0)"
  unfolding rcp_ep_iseled_symbol_encode_def Let_def popcount4_parity odd_nibble_def
  by (rule word8_eqI) (simp add: word_bits)

lemma symbol_decode_eq:
  "rcp_ep_iseled_symbol_decode s = (if bit s 4 = odd_nibble s then Some (s AND 0xF) else None)"
proof -
  have "drop_bit 4 (s AND 0x1F) AND 1 = of_bool (bit s 4)" by (rule word8_eqI) (simp add: word_bits)
  moreover have "(s AND 0x1F) AND 0xF = s AND 0xF" by (rule word8_eqI) (simp add: word_bits)
  moreover have "popcount4 (s AND 0xF) AND 1 = of_bool (odd_nibble s)"
    unfolding popcount4_parity odd_nibble_def by (simp add: word_bits)
  ultimately show ?thesis by (simp add: rcp_ep_iseled_symbol_decode_def Let_def)
qed

lemma odd_nibble_encode [simp]:
  "odd_nibble (n AND 0xF) = odd_nibble n" "odd_nibble (n OR 0x10) = odd_nibble n"
  by (simp_all add: odd_nibble_def word_bits)

lemma symbol_roundtrip: "rcp_ep_iseled_symbol_decode (rcp_ep_iseled_symbol_encode n) = Some (n AND 0xF)"
proof -
  have "(n AND 0xF OR 0x10) AND 0xF = n AND 0xF" by (rule word8_eqI) (simp add: word_bits)
  then show ?thesis by (simp add: symbol_decode_eq symbol_encode_eq bit_simps)
qed

text \<open>The decoder accepts exactly the sixteen code words, whatever the three upper bits of the octet are.\<close>

lemma symbol_code_words:
  "rcp_ep_iseled_symbol_decode s = Some n \<longleftrightarrow> n AND 0xF = n \<and> s AND 0x1F = rcp_ep_iseled_symbol_encode n"
proof
  assume "rcp_ep_iseled_symbol_decode s = Some n"
  then have n: "n = s AND 0xF" "bit s 4 = odd_nibble s" by (simp_all add: symbol_decode_eq split: if_splits)
  have "s AND 0x1F = (s AND 0xF) OR (if bit s 4 then 0x10 else 0)"
    by (rule word8_eqI) (simp add: word_bits)
  then show "n AND 0xF = n \<and> s AND 0x1F = rcp_ep_iseled_symbol_encode n"
    using n by (simp add: symbol_encode_eq and.assoc)
next
  assume "n AND 0xF = n \<and> s AND 0x1F = rcp_ep_iseled_symbol_encode n"
  moreover have "rcp_ep_iseled_symbol_decode (s AND 0x1F) = rcp_ep_iseled_symbol_decode s"
    unfolding symbol_decode_eq odd_nibble_def by (simp add: bit_simps and.assoc, metis)
  ultimately show "rcp_ep_iseled_symbol_decode s = Some n" using symbol_roundtrip [of n] by simp
qed

lemma symbol_bit_error:
  assumes "i < 5"
  shows "rcp_ep_iseled_symbol_decode (flip_bit i (rcp_ep_iseled_symbol_encode n)) = None"
proof -
  have "i \<in> {0, 1, 2, 3, 4}" using assms by (simp, presburger)
  then have "bit (flip_bit i (rcp_ep_iseled_symbol_encode n)) 4 \<noteq> odd_nibble (flip_bit i (rcp_ep_iseled_symbol_encode n))"
    by (elim insertE) (auto simp: odd_nibble_def symbol_encode_eq bit_simps)
  then show ?thesis by (simp add: symbol_decode_eq)
qed

section \<open>The checksum\<close>

lemma iseled_crc8_step_bits:
  "iseled_crc8_step c = (if bit c 7 then push_bit 1 c XOR 7 else push_bit 1 c)"
proof -
  have "c AND 0x80 = (if bit c 7 then 0x80 else 0)" by (rule word8_eqI) (simp add: word_bits)
  then show ?thesis by (simp add: iseled_crc8_step_def)
qed

lemma iseled_crc8_step_inj: "inj iseled_crc8_step"
proof
  fix c d assume e: "iseled_crc8_step c = iseled_crc8_step d"
  have b: "bit (iseled_crc8_step c) i = (if i = 0 then bit c 7 else i < 8 \<and> bit c (i - 1) \<noteq> (i < 3 \<and> bit c 7))" for c i
    by (cases "i = 0"; cases "i = 1"; cases "i = 2")
      (auto simp: iseled_crc8_step_bits bit_simps numeral_eq_Suc less_Suc_eq)
  have top: "bit c 7 = bit d 7" using b [of c 0] b [of d 0] e by simp
  show "c = d"
  proof (rule bit_word_eqI)
    fix i assume "i < LENGTH(8)"
    then show "bit c i = bit d i" using b [of c "Suc i"] b [of d "Suc i"] e top by (cases "i = 7") auto
  qed
qed

lemma crc8_update_inj: "crc8_update c a = crc8_update d b \<longleftrightarrow> c XOR a = d XOR b"
  unfolding crc8_update_def by (rule inj_eq [OF inj_fn [OF iseled_crc8_step_inj]])

lemma crc8_fold_inj: "foldl crc8_update c ds = foldl crc8_update d ds \<longleftrightarrow> c = d"
  by (induction ds arbitrary: c d) (simp_all add: crc8_update_inj xor_right_cancel_iff)

lemma crc8_detects:
  "rcp_ep_iseled_crc8 (pre @ a # post) = rcp_ep_iseled_crc8 (pre @ b # post) \<longleftrightarrow> a = b"
  by (simp add: rcp_ep_iseled_crc8_def crc8_fold_inj crc8_update_inj xor_left_cancel_iff)

section \<open>Bit frames\<close>

definition octet_symbols :: "byte \<Rightarrow> bytes" where
  "octet_symbols d = [rcp_ep_iseled_symbol_encode (drop_bit 4 d), rcp_ep_iseled_symbol_encode (d AND 0x0F)]"

definition frame_content :: "bytes \<Rightarrow> bool \<Rightarrow> bytes" where
  "frame_content data append_crc = data @ (if append_crc then [rcp_ep_iseled_crc8 data] else [])"

lemma encode_bitframe_content:
  assumes "length data < 2 ^ 62" and "data \<noteq> [] \<or> append_crc"
  shows "rcp_ep_iseled_encode_bitframe True data append_crc =
    Some (concat (map octet_symbols (frame_content data append_crc)))"
proof -
  have n: "size_add (length data) (if append_crc then 1 else 0) = length (frame_content data append_crc)"
    using assms(1) by (simp add: size_add_exact SIZE_MAX_def frame_content_def)
  have m: "length (frame_content data append_crc) * 2 mod 2 ^ 64 \<noteq> 0"
  proof -
    have "length (frame_content data append_crc) * 2 < 2 ^ 64" "frame_content data append_crc \<noteq> []"
      using assms by (auto simp: frame_content_def)
    then show ?thesis by simp
  qed
  have "map (\<lambda>i. octet_symbols (if i < length data then data ! i
        else if append_crc then rcp_ep_iseled_crc8 data else 0)) [0..<length (frame_content data append_crc)] =
      map octet_symbols (frame_content data append_crc)"
    by (rule nth_equalityI) (auto simp: frame_content_def nth_append split: if_splits)
  then show ?thesis using m by (simp add: rcp_ep_iseled_encode_bitframe_def Let_def n octet_symbols_def)
qed

lemma octet_split: "push_bit 4 (drop_bit 4 d AND 0xF) OR (d AND 0xF) = d" for d :: byte
  by (rule word8_eqI) (simp add: word_bits)

lemma decode_octets_frame:
  "iseled_decode_octets (concat (map octet_symbols ds) @ ss) = map_option ((@) ds) (iseled_decode_octets ss)"
  by (induction ds)
    (auto simp: octet_symbols_def symbol_roundtrip octet_split option.map_comp comp_def map_option.id [unfolded id_def]
      intro!: option.map_cong)

lemma frame_length: "length (concat (map octet_symbols ds)) = 2 * length ds"
  by (induction ds) (simp_all add: octet_symbols_def)

text \<open>Bit frames are read back, with and without the checksum.\<close>

theorem bitframe_roundtrip:
  assumes "length data < 2 ^ 62" and "data \<noteq> [] \<or> append_crc"
  shows "\<exists>ss out. rcp_ep_iseled_encode_bitframe True data append_crc = Some ss \<and>
    length ss = rcp_ep_iseled_bitframe_encoded_len (length data) append_crc \<and>
    rcp_ep_iseled_decode_bitframe True True ss append_crc = Inr out \<and> rcp_bytes_data out = data"
proof -
  let ?c = "frame_content data append_crc" and ?ss = "concat (map octet_symbols (frame_content data append_crc))"
  have "length ?ss = rcp_ep_iseled_bitframe_encoded_len (length data) append_crc"
    using assms(1) by (simp add: frame_length rcp_ep_iseled_bitframe_encoded_len_def size_add_exact SIZE_MAX_def
        frame_content_def)
  moreover have "iseled_decode_octets ?ss = Some ?c" using decode_octets_frame [of ?c "[]"] by simp
  then have "\<exists>out. rcp_ep_iseled_decode_bitframe True True ?ss append_crc = Inr out \<and> rcp_bytes_data out = data"
    using assms(2) by (auto simp: rcp_ep_iseled_decode_bitframe_def frame_length Let_def frame_content_def)
  ultimately show ?thesis using encode_bitframe_content [OF assms] by blast
qed

theorem bitframe_roundtrip_witness:
  "\<exists>ss out. rcp_ep_iseled_encode_bitframe True [0x12, 0xF0] True = Some ss \<and>
    length ss = rcp_ep_iseled_bitframe_encoded_len (length [0x12, 0xF0 :: byte]) True \<and>
    rcp_ep_iseled_decode_bitframe True True ss True = Inr out \<and> rcp_bytes_data out = [0x12, 0xF0]"
  using bitframe_roundtrip [of "[0x12, 0xF0]" True] by simp

lemma octet_from_symbols:
  assumes "rcp_ep_iseled_symbol_decode x = Some hi" and "rcp_ep_iseled_symbol_decode y = Some lo"
    and "push_bit 4 hi OR lo = d"
  shows "map (\<lambda>s. s AND 0x1F) [x, y] = octet_symbols d"
proof -
  have h: "hi AND 0xF = hi" "lo AND 0xF = lo" "x AND 0x1F = rcp_ep_iseled_symbol_encode hi"
    "y AND 0x1F = rcp_ep_iseled_symbol_encode lo" using assms(1,2) by (simp_all add: symbol_code_words)
  have "drop_bit 4 (push_bit 4 (hi AND 0xF) OR (lo AND 0xF)) = hi AND 0xF"
    "(push_bit 4 (hi AND 0xF) OR (lo AND 0xF)) AND 0xF = lo AND 0xF"
    by (rule word8_eqI, simp add: word_bits)+
  then show ?thesis using assms(3) h by (simp add: octet_symbols_def)
qed

text \<open>C33: With the checksum, a frame in which the two symbols of one octet, of the content or of the checksum itself, have
  been replaced by anything else is refused: the parity or the CRC does not match.\<close>

theorem bitframe_corruption_detected:
  assumes "frame_content data True = pre @ d # post" and "map (\<lambda>s. s AND 0x1F) [x, y] \<noteq> octet_symbols d"
  shows "rcp_ep_iseled_decode_bitframe True mem_copy
      (concat (map octet_symbols pre) @ [x, y] @ concat (map octet_symbols post)) True \<in>
    {Inl RCP_EP_ISELED_ERR_BAD_SYMBOL, Inl RCP_EP_ISELED_ERR_CRC_MISMATCH}"
proof -
  let ?ss = "concat (map octet_symbols pre) @ [x, y] @ concat (map octet_symbols post)"
  have len: "length ?ss = 2 * (length pre + 1 + length post)" by (simp add: frame_length)
  have post: "iseled_decode_octets (concat (map octet_symbols post)) = Some post"
    using decode_octets_frame [of post "[]"] by simp
  show ?thesis
  proof (cases "iseled_decode_octets ?ss")
    case None
    then show ?thesis by (simp add: rcp_ep_iseled_decode_bitframe_def frame_length)
  next
    case (Some octets)
    then obtain hi lo where hl: "rcp_ep_iseled_symbol_decode x = Some hi" "rcp_ep_iseled_symbol_decode y = Some lo"
      and o: "octets = pre @ (push_bit 4 hi OR lo) # post"
      by (auto simp: decode_octets_frame post split: option.splits)
    let ?e = "push_bit 4 hi OR lo"
    have ne: "?e \<noteq> d" using octet_from_symbols [OF hl] assms(2) by blast
    have "octets ! (length pre + length post) \<noteq> rcp_ep_iseled_crc8 (take (length pre + length post) octets)"
    proof (cases post rule: rev_cases)
      case Nil
      then show ?thesis using assms(1) ne o by (auto simp: frame_content_def)
    next
      case (snoc post' c)
      then have "data = pre @ d # post'" "c = rcp_ep_iseled_crc8 data"
        using assms(1) by (auto simp: frame_content_def)
      moreover have "octets ! (length pre + length post) = c" "take (length pre + length post) octets = pre @ ?e # post'"
        using o snoc by (simp_all add: nth_append)
      ultimately show ?thesis using ne crc8_detects by metis
    qed
    then show ?thesis using Some len by (simp add: rcp_ep_iseled_decode_bitframe_def Let_def)
  qed
qed

theorem bitframe_corruption_detected_witness:
  "rcp_ep_iseled_decode_bitframe True True
      (concat (map octet_symbols [0x12]) @ [0x0F, 0x0F] @ concat (map octet_symbols [rcp_ep_iseled_crc8 [0x12, 0xF0]]))
      True \<in> {Inl RCP_EP_ISELED_ERR_BAD_SYMBOL, Inl RCP_EP_ISELED_ERR_CRC_MISMATCH}"
  using bitframe_corruption_detected [of "[0x12, 0xF0]" "[0x12]" "0xF0" "[rcp_ep_iseled_crc8 [0x12, 0xF0]]" "0x0F" "0x0F" True]
  by (simp add: frame_content_def octet_symbols_def symbol_encode_eq odd_nibble_def)

text \<open>When the copy of the content cannot be allocated, a good frame with a checksum is reported as decoded with no
  content, although the header of the module promises an allocation error.\<close>

theorem bitframe_lost_copy:
  assumes "length data < 2 ^ 62" and "rcp_ep_iseled_encode_bitframe True data True = Some ss"
  shows "rcp_ep_iseled_decode_bitframe True False ss True = Inr None"
proof -
  have ss: "ss = concat (map octet_symbols (frame_content data True))"
    using encode_bitframe_content [OF assms(1), of True] assms(2) by simp
  have "iseled_decode_octets ss = Some (frame_content data True)"
    using decode_octets_frame [of "frame_content data True" "[]"] by (simp add: ss)
  moreover have "length ss = 2 * (length data + 1)" unfolding ss frame_length by (simp add: frame_content_def)
  ultimately show ?thesis
    by (simp add: rcp_ep_iseled_decode_bitframe_def Let_def frame_content_def rcp_bytes_dup_def)
qed

theorem bitframe_lost_copy_witness:
  "rcp_ep_iseled_decode_bitframe True False (concat (map octet_symbols (frame_content [7] True))) True = Inr None"
  using bitframe_lost_copy [of "[7]", OF _ encode_bitframe_content [of "[7]" True]] by simp

section \<open>The register block\<close>

lemmas iseled_flag_defs = RCP_EP_ISELED_FLAG_COLLECT_RESP_def RCP_EP_ISELED_FLAG_USE_RCV_CLK_def

definition iseled_canon :: "nat \<Rightarrow> byte \<Rightarrow> byte" where
  "iseled_canon i d = (if i = 9 then d AND 0x18 else flag_canon i d)"

lemma iseled_registers:
  "rcp_ep_iseled_render_registers c =
     [14, 0, enable_clr_octet (iseled_common c), options_octet (iseled_common c),
      put_u16 (iseled_base_clk c) ! 0, put_u16 (iseled_base_clk c) ! 1,
      put_u16 (iseled_ep_status c) ! 0, put_u16 (iseled_ep_status c) ! 1,
      iseled_wire_clk_divider c, iseled_flags_octet c,
      put_u16 (iseled_nr_leds c) ! 0, put_u16 (iseled_nr_leds c) ! 1,
      put_u16 (iseled_rcv_timeout c) ! 0, put_u16 (iseled_rcv_timeout c) ! 1]"
  by (simp add: rcp_ep_iseled_render_registers_def put_u16_def consts_rcp)

lemma iseled_parse_bits:
  "parse_iseled_registers c img =
     c\<lparr>iseled_common := parse_common (img ! 2) (img ! 3), iseled_collect_resp := bit (img ! 9) 3,
       iseled_use_rcv_clk := bit (img ! 9) 4, iseled_ep_status := get_u16 (drop 6 img),
       iseled_wire_clk_divider := img ! 8, iseled_nr_leds := get_u16 (drop 10 img),
       iseled_rcv_timeout := get_u16 (drop 12 img)\<rparr>"
  unfolding parse_iseled_registers_def iseled_flag_defs flag_set Let_def by (simp add: consts_rcp)

lemma iseled_flags_bits:
  "bit (iseled_flags_octet c) 3 = iseled_collect_resp c" "bit (iseled_flags_octet c) 4 = iseled_use_rcv_clk c"
  by (simp_all add: iseled_flags_octet_def iseled_flag_defs word_bits)

lemma iseled_flags_parse: "iseled_flags_octet (parse_iseled_registers c img) = img ! 9 AND 0x18"
  by (rule word8_eqI) (simp add: iseled_flags_octet_def iseled_flag_defs iseled_parse_bits word_bits)

lemma iseled_parse_nth:
  assumes "length img = 14" and "\<And>i. i < 14 \<Longrightarrow> iseled_reg_offset_read_only i \<Longrightarrow>
      img ! i = rcp_ep_iseled_render_registers c ! i" and "i < 14"
  shows "rcp_ep_iseled_render_registers (parse_iseled_registers c img) ! i = iseled_canon i (img ! i)"
proof -
  have ro: "img ! 0 = 14" "img ! Suc 0 = 0" "put_u16 (iseled_base_clk c) ! 0 = img ! 4"
    "put_u16 (iseled_base_clk c) ! Suc 0 = img ! 5"
    using assms(2) [of 0] assms(2) [of 1] assms(2) [of 4] assms(2) [of 5]
    by (simp_all add: iseled_reg_offset_read_only_def consts_rcp iseled_registers)
  have w: "put_u16 (get_u16 (drop 6 img)) = [img ! 6, img ! 7]" "put_u16 (get_u16 (drop 10 img)) = [img ! 10, img ! 11]"
    "put_u16 (get_u16 (drop 12 img)) = [img ! 12, img ! 13]"
    using assms(1) by (simp_all add: put_get_u16_at)
  have "i \<in> {0, 1, 2, 3, 4, 5, 6, 7, 8, 9, 10, 11, 12, 13}" using assms(3) by (simp, presburger)
  then show ?thesis unfolding iseled_registers iseled_flags_parse
    by (auto simp: iseled_parse_bits common_octets_parse w ro flag_canon_def iseled_canon_def)
qed

interpretation iseled_regs: readback_block rcp_ep_iseled_render_registers parse_iseled_registers
  iseled_reg_offset_read_only RCP_EP_ISELED_EP_FUNC_LEN "\<lambda>_. True" RCP_EP_ISELED_RECONFIG_OK
  RCP_EP_ISELED_RECONFIG_ERR_SHORT RCP_EP_ISELED_RECONFIG_ERR_OUT_OF_RANGE iseled_canon
proof unfold_locales
  fix c
  show "length (rcp_ep_iseled_render_registers c) = RCP_EP_ISELED_EP_FUNC_LEN"
    by (simp add: iseled_registers consts_rcp)
  show "parse_iseled_registers c (rcp_ep_iseled_render_registers c) = c"
    by (simp add: iseled_registers iseled_parse_bits iseled_flags_bits u16_of_octets)
next
  fix i d assume "iseled_reg_offset_read_only i"
  then show "iseled_canon i d = d"
    by (auto simp: iseled_reg_offset_read_only_def iseled_canon_def flag_canon_def consts_rcp)
qed (simp_all add: iseled_parse_nth RCP_EP_ISELED_EP_FUNC_LEN_def)

end
