(* ===== verification/Ep_Pwm.thy ===== *)
theory Ep_Pwm
  imports Ep_Adc
begin

text \<open>
  \<^verbatim>\<open>src/ep_pwm.c\<close>: the PWM output and PWM input endpoints: writes with their semantics and the limits of the
  active phase, the generator state, the trigger events within a cycle, captured values and their comparison,
  functional configurations, register blocks and messages.  The text tables are left out.
\<close>

section \<open>Values\<close>

definition RCP_EP_PWM_PAYLOAD_LEN :: nat where [consts_rcp]: "RCP_EP_PWM_PAYLOAD_LEN = 4"

record rcp_ep_pwm_value_t =
  pwm_period :: u16
  pwm_active_duration :: u16

definition put_pwm_value :: "rcp_ep_pwm_value_t \<Rightarrow> bytes" where
  "put_pwm_value v = put_u16 (pwm_period v) @ put_u16 (pwm_active_duration v)"

definition get_pwm_value :: "bytes \<Rightarrow> rcp_ep_pwm_value_t" where
  "get_pwm_value p = \<lparr>pwm_period = get_u16 p, pwm_active_duration = get_u16 (drop 2 p)\<rparr>"

section \<open>Writes to an output\<close>

datatype rcp_ep_pwm_out_write_semantics_t =
    RCP_EP_PWM_OUT_WRITE_REPLACE | RCP_EP_PWM_OUT_WRITE_OR | RCP_EP_PWM_OUT_WRITE_AND | RCP_EP_PWM_OUT_WRITE_XOR
  | RCP_EP_PWM_OUT_WRITE_RESERVED4 | RCP_EP_PWM_OUT_WRITE_ADD | RCP_EP_PWM_OUT_WRITE_SUB
  | RCP_EP_PWM_OUT_WRITE_RECONFIG

fun pwm_write_code :: "rcp_ep_pwm_out_write_semantics_t \<Rightarrow> byte" where
  "pwm_write_code RCP_EP_PWM_OUT_WRITE_REPLACE = 0"
| "pwm_write_code RCP_EP_PWM_OUT_WRITE_OR = 1"
| "pwm_write_code RCP_EP_PWM_OUT_WRITE_AND = 2"
| "pwm_write_code RCP_EP_PWM_OUT_WRITE_XOR = 3"
| "pwm_write_code RCP_EP_PWM_OUT_WRITE_RESERVED4 = 4"
| "pwm_write_code RCP_EP_PWM_OUT_WRITE_ADD = 5"
| "pwm_write_code RCP_EP_PWM_OUT_WRITE_SUB = 6"
| "pwm_write_code RCP_EP_PWM_OUT_WRITE_RECONFIG = 7"

definition saturating_add_u16 :: "u16 \<Rightarrow> u16 \<Rightarrow> u16" where
  "saturating_add_u16 current request =
     (let sum = (ucast current :: u32) + ucast request in if sum > 0xFFFF then 0xFFFF else ucast sum)"

definition saturating_sub_u16 :: "u16 \<Rightarrow> u16 \<Rightarrow> u16" where
  "saturating_sub_u16 current request = (if current > request then 0 else request - current)"

fun apply_write_field :: "u16 \<Rightarrow> u16 \<Rightarrow> rcp_ep_pwm_out_write_semantics_t \<Rightarrow> u16" where
  "apply_write_field current request RCP_EP_PWM_OUT_WRITE_REPLACE = request"
| "apply_write_field current request RCP_EP_PWM_OUT_WRITE_OR = current OR request"
| "apply_write_field current request RCP_EP_PWM_OUT_WRITE_AND = current AND request"
| "apply_write_field current request RCP_EP_PWM_OUT_WRITE_XOR = current XOR request"
| "apply_write_field current request RCP_EP_PWM_OUT_WRITE_ADD = saturating_add_u16 current request"
| "apply_write_field current request RCP_EP_PWM_OUT_WRITE_SUB = saturating_sub_u16 current request"
| "apply_write_field current request RCP_EP_PWM_OUT_WRITE_RESERVED4 = current"
| "apply_write_field current request RCP_EP_PWM_OUT_WRITE_RECONFIG = current"

definition rcp_ep_pwm_out_write_semantics_valid :: "byte \<Rightarrow> bool" where
  "rcp_ep_pwm_out_write_semantics_valid v \<longleftrightarrow> v \<le> pwm_write_code RCP_EP_PWM_OUT_WRITE_RECONFIG"

definition rcp_ep_pwm_out_apply_write ::
    "rcp_ep_pwm_value_t \<Rightarrow> rcp_ep_pwm_value_t \<Rightarrow> rcp_ep_pwm_out_write_semantics_t \<Rightarrow> u16 \<Rightarrow> u16 \<Rightarrow>
     rcp_ep_pwm_value_t" where
  "rcp_ep_pwm_out_apply_write current request evt duty_cycle_min duty_cycle_max =
     (let period = apply_write_field (pwm_period current) (pwm_period request) evt;
          active = apply_write_field (pwm_active_duration current) (pwm_active_duration request) evt;
          active = (if active < duty_cycle_min then duty_cycle_min else active);
          active = (if active > duty_cycle_max then duty_cycle_max else active)
      in \<lparr>pwm_period = period, pwm_active_duration = active\<rparr>)"

datatype rcp_ep_pwm_out_generation_state_t =
    RCP_EP_PWM_OUT_GEN_STOPPED | RCP_EP_PWM_OUT_GEN_OUTPUT_DISABLED | RCP_EP_PWM_OUT_GEN_RUNNING

definition rcp_ep_pwm_out_generation_state :: "rcp_ep_pwm_value_t \<Rightarrow> rcp_ep_pwm_out_generation_state_t" where
  "rcp_ep_pwm_out_generation_state v =
     (if pwm_period v = 0 then RCP_EP_PWM_OUT_GEN_STOPPED
      else if pwm_active_duration v = 0 then RCP_EP_PWM_OUT_GEN_OUTPUT_DISABLED
      else RCP_EP_PWM_OUT_GEN_RUNNING)"

section \<open>Triggers of an output\<close>

datatype rcp_ep_pwm_out_trigger_t =
    RCP_EP_PWM_OUT_TRIGGER_NONE | RCP_EP_PWM_OUT_TRIGGER_CYCLE_START | RCP_EP_PWM_OUT_TRIGGER_MID_PULSE
  | RCP_EP_PWM_OUT_TRIGGER_DONE

fun pwm_out_trigger_code :: "rcp_ep_pwm_out_trigger_t \<Rightarrow> byte" where
  "pwm_out_trigger_code RCP_EP_PWM_OUT_TRIGGER_NONE = 0"
| "pwm_out_trigger_code RCP_EP_PWM_OUT_TRIGGER_CYCLE_START = 1"
| "pwm_out_trigger_code RCP_EP_PWM_OUT_TRIGGER_MID_PULSE = 2"
| "pwm_out_trigger_code RCP_EP_PWM_OUT_TRIGGER_DONE = 3"

datatype rcp_ep_pwm_out_event_t =
    RCP_EP_PWM_OUT_EVENT_CYCLE_START | RCP_EP_PWM_OUT_EVENT_MID_PULSE | RCP_EP_PWM_OUT_EVENT_DONE

definition rcp_ep_pwm_out_trigger_fires :: "rcp_ep_pwm_out_trigger_t \<Rightarrow> rcp_ep_pwm_out_event_t \<Rightarrow> bool" where
  "rcp_ep_pwm_out_trigger_fires trigger event =
     (case trigger of
        RCP_EP_PWM_OUT_TRIGGER_CYCLE_START \<Rightarrow> event = RCP_EP_PWM_OUT_EVENT_CYCLE_START
      | RCP_EP_PWM_OUT_TRIGGER_MID_PULSE \<Rightarrow> event = RCP_EP_PWM_OUT_EVENT_MID_PULSE
      | RCP_EP_PWM_OUT_TRIGGER_DONE \<Rightarrow> event = RCP_EP_PWM_OUT_EVENT_DONE
      | RCP_EP_PWM_OUT_TRIGGER_NONE \<Rightarrow> False)"

definition RCP_EP_PWM_OUT_TRIGGER_EVENT_CYCLE_START :: byte where
  [consts_rcp]: "RCP_EP_PWM_OUT_TRIGGER_EVENT_CYCLE_START = 1"
definition RCP_EP_PWM_OUT_TRIGGER_EVENT_MID_PULSE :: byte where
  [consts_rcp]: "RCP_EP_PWM_OUT_TRIGGER_EVENT_MID_PULSE = 2"

definition rcp_ep_pwm_out_trigger_events_at_tick :: "u16 \<Rightarrow> u16 \<Rightarrow> byte \<Rightarrow> u32 \<Rightarrow> byte" where
  "rcp_ep_pwm_out_trigger_events_at_tick period active_duration skew raw_tick =
     (if period = 0 then 0
      else
        let skew_mod = (ucast skew :: u32) mod ucast period;
            delayed_tick = (raw_tick mod ucast period + ucast period - skew_mod) mod ucast period
        in (if delayed_tick = 0 then RCP_EP_PWM_OUT_TRIGGER_EVENT_CYCLE_START else 0) OR
           (if delayed_tick = ucast (active_duration div 2) then RCP_EP_PWM_OUT_TRIGGER_EVENT_MID_PULSE else 0))"

section \<open>Configuration of an output\<close>

definition RCP_EP_PWM_OUT_REG_EP_LEN :: nat where [consts_rcp]: "RCP_EP_PWM_OUT_REG_EP_LEN = 0"
definition RCP_EP_PWM_OUT_REG_RESERVED_01 :: nat where [consts_rcp]: "RCP_EP_PWM_OUT_REG_RESERVED_01 = 1"
definition RCP_EP_PWM_OUT_REG_EP_ENABLE_CLR :: nat where [consts_rcp]: "RCP_EP_PWM_OUT_REG_EP_ENABLE_CLR = 2"
definition RCP_EP_PWM_OUT_REG_EP_OPTIONS :: nat where [consts_rcp]: "RCP_EP_PWM_OUT_REG_EP_OPTIONS = 3"
definition RCP_EP_PWM_OUT_REG_BASE_CLK :: nat where [consts_rcp]: "RCP_EP_PWM_OUT_REG_BASE_CLK = 4"
definition RCP_EP_PWM_OUT_REG_EP_STATUS :: nat where [consts_rcp]: "RCP_EP_PWM_OUT_REG_EP_STATUS = 6"
definition RCP_EP_PWM_OUT_REG_CLK_DIVIDER :: nat where [consts_rcp]: "RCP_EP_PWM_OUT_REG_CLK_DIVIDER = 8"
definition RCP_EP_PWM_OUT_REG_SIGNAL_FLAGS :: nat where [consts_rcp]: "RCP_EP_PWM_OUT_REG_SIGNAL_FLAGS = 9"
definition RCP_EP_PWM_OUT_REG_DUTY_CYCLE_MIN :: nat where [consts_rcp]: "RCP_EP_PWM_OUT_REG_DUTY_CYCLE_MIN = 10"
definition RCP_EP_PWM_OUT_REG_DUTY_CYCLE_MAX :: nat where [consts_rcp]: "RCP_EP_PWM_OUT_REG_DUTY_CYCLE_MAX = 12"
definition RCP_EP_PWM_OUT_REG_SKEW :: nat where [consts_rcp]: "RCP_EP_PWM_OUT_REG_SKEW = 14"
definition RCP_EP_PWM_OUT_EP_FUNC_LEN :: nat where [consts_rcp]: "RCP_EP_PWM_OUT_EP_FUNC_LEN = 15"

datatype rcp_ep_pwm_out_reconfig_errc_t =
    RCP_EP_PWM_OUT_RECONFIG_OK | RCP_EP_PWM_OUT_RECONFIG_ERR_SHORT | RCP_EP_PWM_OUT_RECONFIG_ERR_OUT_OF_RANGE

record rcp_ep_pwm_out_functional_cfg_t =
  pwmo_common :: rcp_regmap_ep_functional_cfg_t
  pwmo_trigger :: byte
  pwmo_base_clk :: u16
  pwmo_ep_status :: u16
  pwmo_clk_divider :: byte
  pwmo_signal_flags :: byte
  pwmo_duty_cycle_min :: u16
  pwmo_duty_cycle_max :: u16
  pwmo_skew :: byte

definition rcp_ep_pwm_out_functional_cfg_init :: rcp_ep_pwm_out_functional_cfg_t where
  "rcp_ep_pwm_out_functional_cfg_init =
     \<lparr>pwmo_common = rcp_regmap_ep_functional_cfg_init, pwmo_trigger = 0, pwmo_base_clk = 0, pwmo_ep_status = 0,
      pwmo_clk_divider = 0, pwmo_signal_flags = 0, pwmo_duty_cycle_min = 0, pwmo_duty_cycle_max = 0, pwmo_skew = 0\<rparr>"

definition rcp_ep_pwm_out_functional_cfg_writable ::
    "rcp_lifecycle_state_t \<Rightarrow> rcp_lifecycle_writer_ctx_t \<Rightarrow> bool" where
  "rcp_ep_pwm_out_functional_cfg_writable state writer =
     rcp_lifecycle_field_writable state RCP_LIFECYCLE_FIELD_FUNCTIONAL_W writer"

definition rcp_ep_pwm_out_set_trigger ::
    "rcp_ep_pwm_out_functional_cfg_t \<Rightarrow> rcp_ep_pwm_out_trigger_t \<Rightarrow> rcp_lifecycle_state_t \<Rightarrow>
     rcp_lifecycle_writer_ctx_t \<Rightarrow> bool \<times> rcp_ep_pwm_out_functional_cfg_t" where
  "rcp_ep_pwm_out_set_trigger cfg trigger state writer =
     (if \<not> rcp_ep_pwm_out_functional_cfg_writable state writer then (False, cfg)
      else (True, cfg\<lparr>pwmo_trigger := pwm_out_trigger_code trigger\<rparr>))"

definition rcp_ep_pwm_out_set_enabled ::
    "rcp_ep_pwm_out_functional_cfg_t \<Rightarrow> bool \<Rightarrow> rcp_lifecycle_state_t \<Rightarrow> rcp_lifecycle_writer_ctx_t \<Rightarrow>
     bool \<times> rcp_ep_pwm_out_functional_cfg_t" where
  "rcp_ep_pwm_out_set_enabled cfg enabled state writer =
     (if \<not> rcp_ep_pwm_out_functional_cfg_writable state writer then (False, cfg)
      else (True, cfg\<lparr>pwmo_common := (pwmo_common cfg)\<lparr>fc_ep_enable := enabled\<rparr>\<rparr>))"

definition rcp_ep_pwm_out_render_registers :: "rcp_ep_pwm_out_functional_cfg_t \<Rightarrow> bytes" where
  "rcp_ep_pwm_out_render_registers cfg =
     [of_nat RCP_EP_PWM_OUT_EP_FUNC_LEN, 0, enable_clr_octet (pwmo_common cfg), options_octet (pwmo_common cfg)] @
     put_u16 (pwmo_base_clk cfg) @ put_u16 (pwmo_ep_status cfg) @
     [pwmo_clk_divider cfg, pwmo_signal_flags cfg] @
     put_u16 (pwmo_duty_cycle_min cfg) @ put_u16 (pwmo_duty_cycle_max cfg) @ [pwmo_skew cfg]"

definition pwm_out_parse_registers ::
    "rcp_ep_pwm_out_functional_cfg_t \<Rightarrow> bytes \<Rightarrow> rcp_ep_pwm_out_functional_cfg_t" where
  "pwm_out_parse_registers cfg img =
     cfg\<lparr>pwmo_common :=
           parse_common (img ! RCP_EP_PWM_OUT_REG_EP_ENABLE_CLR) (img ! RCP_EP_PWM_OUT_REG_EP_OPTIONS),
         pwmo_ep_status := get_u16 (drop RCP_EP_PWM_OUT_REG_EP_STATUS img),
         pwmo_clk_divider := img ! RCP_EP_PWM_OUT_REG_CLK_DIVIDER,
         pwmo_signal_flags := img ! RCP_EP_PWM_OUT_REG_SIGNAL_FLAGS,
         pwmo_duty_cycle_min := get_u16 (drop RCP_EP_PWM_OUT_REG_DUTY_CYCLE_MIN img),
         pwmo_duty_cycle_max := get_u16 (drop RCP_EP_PWM_OUT_REG_DUTY_CYCLE_MAX img),
         pwmo_skew := img ! RCP_EP_PWM_OUT_REG_SKEW\<rparr>"

definition pwm_out_reg_offset_read_only :: "nat \<Rightarrow> bool" where
  "pwm_out_reg_offset_read_only addr \<longleftrightarrow>
     addr = RCP_EP_PWM_OUT_REG_EP_LEN \<or> addr = RCP_EP_PWM_OUT_REG_RESERVED_01 \<or>
     addr = RCP_EP_PWM_OUT_REG_BASE_CLK \<or> addr = RCP_EP_PWM_OUT_REG_BASE_CLK + 1"

definition rcp_ep_pwm_out_apply_reconfig ::
    "rcp_ep_pwm_out_functional_cfg_t \<Rightarrow> bytes \<Rightarrow>
     rcp_ep_pwm_out_reconfig_errc_t \<times> rcp_ep_pwm_out_functional_cfg_t" where
  "rcp_ep_pwm_out_apply_reconfig =
     apply_block rcp_ep_pwm_out_render_registers pwm_out_parse_registers pwm_out_reg_offset_read_only
       RCP_EP_PWM_OUT_EP_FUNC_LEN RCP_EP_PWM_OUT_RECONFIG_OK RCP_EP_PWM_OUT_RECONFIG_ERR_SHORT
       RCP_EP_PWM_OUT_RECONFIG_ERR_OUT_OF_RANGE"

definition rcp_ep_pwm_out_encode_reconfig_request ::
    "bool \<Rightarrow> bool \<Rightarrow> rcp_byte_bus_id_t \<Rightarrow> u16 \<Rightarrow> bytes \<Rightarrow> byte \<Rightarrow> rcp_bytes_t" where
  "rcp_ep_pwm_out_encode_reconfig_request mem_payload mem_frame bus start_address data tn =
     encode_reconfig mem_payload mem_frame bus start_address data tn"

section \<open>Messages of an output\<close>

datatype rcp_ep_pwm_out_errc_t =
    RCP_EP_PWM_OUT_OK | RCP_EP_PWM_OUT_ERR_SHORT_FRAME | RCP_EP_PWM_OUT_ERR_BAD_MSG_TYPE
  | RCP_EP_PWM_OUT_ERR_WRONG_BUS | RCP_EP_PWM_OUT_ERR_WRONG_OP | RCP_EP_PWM_OUT_ERR_BAD_PAYLOAD_LEN
  | RCP_EP_PWM_OUT_ERR_RESERVED_EVT

fun rcp_ep_pwm_out_wire_error :: "rcp_ep_pwm_out_errc_t \<Rightarrow> rcp_wire_error_t" where
  "rcp_ep_pwm_out_wire_error RCP_EP_PWM_OUT_ERR_BAD_PAYLOAD_LEN = RCP_ERROR_INVALID_PARAMETER"
| "rcp_ep_pwm_out_wire_error RCP_EP_PWM_OUT_ERR_RESERVED_EVT = RCP_ERROR_UNSUPPORTED_CMD"
| "rcp_ep_pwm_out_wire_error _ = RCP_ERROR_NONE"

definition rcp_ep_pwm_out_encode_read_request :: "bool \<Rightarrow> rcp_byte_bus_id_t \<Rightarrow> byte \<Rightarrow> rcp_bytes_t" where
  "rcp_ep_pwm_out_encode_read_request mem bus tn =
     rcp_acf_encode_abb mem
       (zero_info\<lparr>bm_byte_bus_id := bus, bm_op := RCP_ACF_OP_READ, bm_transaction_num := tn\<rparr>) []"

definition rcp_ep_pwm_out_decode_read_request ::
    "bytes \<Rightarrow> rcp_byte_bus_id_t \<Rightarrow> rcp_ep_pwm_out_errc_t + byte" where
  "rcp_ep_pwm_out_decode_read_request b expected_bus =
     (case decode_request_frame RCP_EP_PWM_OUT_ERR_SHORT_FRAME RCP_EP_PWM_OUT_ERR_BAD_MSG_TYPE b of
        Inl e \<Rightarrow> Inl e
      | Inr (hdr, payload) \<Rightarrow>
          if bm_byte_bus_id hdr \<noteq> expected_bus then Inl RCP_EP_PWM_OUT_ERR_WRONG_BUS
          else if bm_op hdr \<noteq> RCP_ACF_OP_READ then Inl RCP_EP_PWM_OUT_ERR_WRONG_OP
          else Inr (bm_transaction_num hdr))"

definition rcp_ep_pwm_out_encode_write_request ::
    "bool \<Rightarrow> rcp_byte_bus_id_t \<Rightarrow> rcp_ep_pwm_value_t \<Rightarrow> rcp_ep_pwm_out_write_semantics_t \<Rightarrow> byte \<Rightarrow>
     rcp_bytes_t" where
  "rcp_ep_pwm_out_encode_write_request mem bus v evt tn =
     rcp_acf_encode_abb mem
       (zero_info\<lparr>bm_byte_bus_id := bus, bm_op := RCP_ACF_OP_WRITE,
                  bm_evt := pwm_write_code evt AND 0x7, bm_transaction_num := tn\<rparr>)
       (put_pwm_value v)"

definition rcp_ep_pwm_out_decode_write_request ::
    "bytes \<Rightarrow> rcp_byte_bus_id_t \<Rightarrow> rcp_ep_pwm_out_errc_t + (rcp_ep_pwm_value_t \<times> byte \<times> byte)" where
  "rcp_ep_pwm_out_decode_write_request b expected_bus =
     (case decode_request_frame RCP_EP_PWM_OUT_ERR_SHORT_FRAME RCP_EP_PWM_OUT_ERR_BAD_MSG_TYPE b of
        Inl e \<Rightarrow> Inl e
      | Inr (hdr, payload) \<Rightarrow>
          if bm_byte_bus_id hdr \<noteq> expected_bus then Inl RCP_EP_PWM_OUT_ERR_WRONG_BUS
          else if bm_op hdr \<noteq> RCP_ACF_OP_WRITE then Inl RCP_EP_PWM_OUT_ERR_WRONG_OP
          else if length payload \<noteq> RCP_EP_PWM_PAYLOAD_LEN then Inl RCP_EP_PWM_OUT_ERR_BAD_PAYLOAD_LEN
          else if bm_evt hdr AND 0x7 = pwm_write_code RCP_EP_PWM_OUT_WRITE_RESERVED4
          then Inl RCP_EP_PWM_OUT_ERR_RESERVED_EVT
          else Inr (get_pwm_value payload, bm_evt hdr AND 0x7, bm_transaction_num hdr))"

definition rcp_ep_pwm_out_encode_response ::
    "bool \<Rightarrow> rcp_byte_bus_id_t \<Rightarrow> rcp_ep_pwm_value_t \<Rightarrow> byte \<Rightarrow> bool \<Rightarrow> u64 \<Rightarrow> rcp_bytes_t" where
  "rcp_ep_pwm_out_encode_response mem bus v tn timed timestamp =
     response_frame mem bus RCP_ACF_OP_READ 0 (put_pwm_value v) tn timed timestamp"

definition rcp_ep_pwm_out_decode_response ::
    "bytes \<Rightarrow> rcp_byte_bus_id_t \<Rightarrow> rcp_ep_pwm_out_errc_t + (rcp_ep_pwm_value_t \<times> bool \<times> u64 \<times> byte)" where
  "rcp_ep_pwm_out_decode_response b expected_bus =
     (case decode_response_frame RCP_EP_PWM_OUT_ERR_SHORT_FRAME RCP_EP_PWM_OUT_ERR_BAD_MSG_TYPE b of
        Inl e \<Rightarrow> Inl e
      | Inr (hdr, timed, timestamp, payload) \<Rightarrow>
          if bm_byte_bus_id hdr \<noteq> expected_bus then Inl RCP_EP_PWM_OUT_ERR_WRONG_BUS
          else if length payload \<noteq> RCP_EP_PWM_PAYLOAD_LEN then Inl RCP_EP_PWM_OUT_ERR_BAD_PAYLOAD_LEN
          else Inr (get_pwm_value payload, timed, timestamp, bm_transaction_num hdr))"

section \<open>The input\<close>

datatype rcp_ep_pwm_in_trigger_t =
    RCP_EP_PWM_IN_TRIGGER_NONE | RCP_EP_PWM_IN_TRIGGER_RISING | RCP_EP_PWM_IN_TRIGGER_FALLING

fun pwm_in_trigger_code :: "rcp_ep_pwm_in_trigger_t \<Rightarrow> byte" where
  "pwm_in_trigger_code RCP_EP_PWM_IN_TRIGGER_NONE = 0"
| "pwm_in_trigger_code RCP_EP_PWM_IN_TRIGGER_RISING = 1"
| "pwm_in_trigger_code RCP_EP_PWM_IN_TRIGGER_FALLING = 2"

definition rcp_ep_pwm_in_trigger_fires :: "rcp_ep_pwm_in_trigger_t \<Rightarrow> bool \<Rightarrow> bool \<Rightarrow> bool" where
  "rcp_ep_pwm_in_trigger_fires trigger prev_level new_level =
     (case trigger of
        RCP_EP_PWM_IN_TRIGGER_RISING \<Rightarrow> \<not> prev_level \<and> new_level
      | RCP_EP_PWM_IN_TRIGGER_FALLING \<Rightarrow> prev_level \<and> \<not> new_level
      | RCP_EP_PWM_IN_TRIGGER_NONE \<Rightarrow> False)"

definition RCP_EP_PWM_IN_REG_EP_LEN :: nat where [consts_rcp]: "RCP_EP_PWM_IN_REG_EP_LEN = 0"
definition RCP_EP_PWM_IN_REG_RESERVED_01 :: nat where [consts_rcp]: "RCP_EP_PWM_IN_REG_RESERVED_01 = 1"
definition RCP_EP_PWM_IN_REG_EP_ENABLE_CLR :: nat where [consts_rcp]: "RCP_EP_PWM_IN_REG_EP_ENABLE_CLR = 2"
definition RCP_EP_PWM_IN_REG_EP_OPTIONS :: nat where [consts_rcp]: "RCP_EP_PWM_IN_REG_EP_OPTIONS = 3"
definition RCP_EP_PWM_IN_REG_BASE_CLK :: nat where [consts_rcp]: "RCP_EP_PWM_IN_REG_BASE_CLK = 4"
definition RCP_EP_PWM_IN_REG_EP_STATUS :: nat where [consts_rcp]: "RCP_EP_PWM_IN_REG_EP_STATUS = 6"
definition RCP_EP_PWM_IN_REG_CLK_DIVIDER :: nat where [consts_rcp]: "RCP_EP_PWM_IN_REG_CLK_DIVIDER = 8"
definition RCP_EP_PWM_IN_REG_FLAGS :: nat where [consts_rcp]: "RCP_EP_PWM_IN_REG_FLAGS = 9"
definition RCP_EP_PWM_IN_REG_MAX_PERIOD :: nat where [consts_rcp]: "RCP_EP_PWM_IN_REG_MAX_PERIOD = 10"
definition RCP_EP_PWM_IN_EP_FUNC_LEN :: nat where [consts_rcp]: "RCP_EP_PWM_IN_EP_FUNC_LEN = 12"

datatype rcp_ep_pwm_in_reconfig_errc_t =
    RCP_EP_PWM_IN_RECONFIG_OK | RCP_EP_PWM_IN_RECONFIG_ERR_SHORT | RCP_EP_PWM_IN_RECONFIG_ERR_OUT_OF_RANGE

record rcp_ep_pwm_in_functional_cfg_t =
  pwmi_common :: rcp_regmap_ep_functional_cfg_t
  pwmi_trigger :: byte
  pwmi_base_clk :: u16
  pwmi_ep_status :: u16
  pwmi_clk_divider :: byte
  pwmi_flags :: byte
  pwmi_max_period :: u16

definition rcp_ep_pwm_in_functional_cfg_init :: rcp_ep_pwm_in_functional_cfg_t where
  "rcp_ep_pwm_in_functional_cfg_init =
     \<lparr>pwmi_common = rcp_regmap_ep_functional_cfg_init, pwmi_trigger = 0, pwmi_base_clk = 0, pwmi_ep_status = 0,
      pwmi_clk_divider = 0, pwmi_flags = 0, pwmi_max_period = 0\<rparr>"

definition rcp_ep_pwm_in_functional_cfg_writable ::
    "rcp_lifecycle_state_t \<Rightarrow> rcp_lifecycle_writer_ctx_t \<Rightarrow> bool" where
  "rcp_ep_pwm_in_functional_cfg_writable state writer =
     rcp_lifecycle_field_writable state RCP_LIFECYCLE_FIELD_FUNCTIONAL_W writer"

definition rcp_ep_pwm_in_set_trigger ::
    "rcp_ep_pwm_in_functional_cfg_t \<Rightarrow> rcp_ep_pwm_in_trigger_t \<Rightarrow> rcp_lifecycle_state_t \<Rightarrow>
     rcp_lifecycle_writer_ctx_t \<Rightarrow> bool \<times> rcp_ep_pwm_in_functional_cfg_t" where
  "rcp_ep_pwm_in_set_trigger cfg trigger state writer =
     (if \<not> rcp_ep_pwm_in_functional_cfg_writable state writer then (False, cfg)
      else (True, cfg\<lparr>pwmi_trigger := pwm_in_trigger_code trigger\<rparr>))"

definition rcp_ep_pwm_in_render_registers :: "rcp_ep_pwm_in_functional_cfg_t \<Rightarrow> bytes" where
  "rcp_ep_pwm_in_render_registers cfg =
     [of_nat RCP_EP_PWM_IN_EP_FUNC_LEN, 0, enable_clr_octet (pwmi_common cfg), options_octet (pwmi_common cfg)] @
     put_u16 (pwmi_base_clk cfg) @ put_u16 (pwmi_ep_status cfg) @
     [pwmi_clk_divider cfg, pwmi_flags cfg] @ put_u16 (pwmi_max_period cfg)"

definition parse_pwm_in_registers ::
    "rcp_ep_pwm_in_functional_cfg_t \<Rightarrow> bytes \<Rightarrow> rcp_ep_pwm_in_functional_cfg_t" where
  "parse_pwm_in_registers cfg img =
     cfg\<lparr>pwmi_common :=
           parse_common (img ! RCP_EP_PWM_IN_REG_EP_ENABLE_CLR) (img ! RCP_EP_PWM_IN_REG_EP_OPTIONS),
         pwmi_ep_status := get_u16 (drop RCP_EP_PWM_IN_REG_EP_STATUS img),
         pwmi_clk_divider := img ! RCP_EP_PWM_IN_REG_CLK_DIVIDER,
         pwmi_flags := img ! RCP_EP_PWM_IN_REG_FLAGS,
         pwmi_max_period := get_u16 (drop RCP_EP_PWM_IN_REG_MAX_PERIOD img)\<rparr>"

definition pwm_in_reg_offset_read_only :: "nat \<Rightarrow> bool" where
  "pwm_in_reg_offset_read_only addr \<longleftrightarrow>
     addr = RCP_EP_PWM_IN_REG_EP_LEN \<or> addr = RCP_EP_PWM_IN_REG_RESERVED_01 \<or>
     addr = RCP_EP_PWM_IN_REG_BASE_CLK \<or> addr = RCP_EP_PWM_IN_REG_BASE_CLK + 1"

definition rcp_ep_pwm_in_apply_reconfig ::
    "rcp_ep_pwm_in_functional_cfg_t \<Rightarrow> bytes \<Rightarrow> rcp_ep_pwm_in_reconfig_errc_t \<times> rcp_ep_pwm_in_functional_cfg_t" where
  "rcp_ep_pwm_in_apply_reconfig =
     apply_block rcp_ep_pwm_in_render_registers parse_pwm_in_registers pwm_in_reg_offset_read_only
       RCP_EP_PWM_IN_EP_FUNC_LEN RCP_EP_PWM_IN_RECONFIG_OK RCP_EP_PWM_IN_RECONFIG_ERR_SHORT
       RCP_EP_PWM_IN_RECONFIG_ERR_OUT_OF_RANGE"

definition rcp_ep_pwm_in_encode_reconfig_request ::
    "bool \<Rightarrow> bool \<Rightarrow> rcp_byte_bus_id_t \<Rightarrow> u16 \<Rightarrow> bytes \<Rightarrow> byte \<Rightarrow> rcp_bytes_t" where
  "rcp_ep_pwm_in_encode_reconfig_request mem_payload mem_frame bus start_address data tn =
     encode_reconfig mem_payload mem_frame bus start_address data tn"

datatype rcp_ep_pwm_in_errc_t =
    RCP_EP_PWM_IN_OK | RCP_EP_PWM_IN_ERR_SHORT_FRAME | RCP_EP_PWM_IN_ERR_BAD_MSG_TYPE
  | RCP_EP_PWM_IN_ERR_WRONG_BUS | RCP_EP_PWM_IN_ERR_WRONG_OP | RCP_EP_PWM_IN_ERR_BAD_PAYLOAD_LEN
  | RCP_EP_PWM_IN_ERR_BAD_EVT

definition rcp_ep_pwm_in_encode_read_request :: "bool \<Rightarrow> rcp_byte_bus_id_t \<Rightarrow> byte \<Rightarrow> rcp_bytes_t" where
  "rcp_ep_pwm_in_encode_read_request mem bus tn =
     rcp_acf_encode_abb mem
       (zero_info\<lparr>bm_byte_bus_id := bus, bm_op := RCP_ACF_OP_READ, bm_transaction_num := tn\<rparr>) []"

definition rcp_ep_pwm_in_decode_read_request ::
    "bytes \<Rightarrow> rcp_byte_bus_id_t \<Rightarrow> rcp_ep_pwm_in_errc_t + byte" where
  "rcp_ep_pwm_in_decode_read_request b expected_bus =
     (case decode_request_frame RCP_EP_PWM_IN_ERR_SHORT_FRAME RCP_EP_PWM_IN_ERR_BAD_MSG_TYPE b of
        Inl e \<Rightarrow> Inl e
      | Inr (hdr, payload) \<Rightarrow>
          if bm_byte_bus_id hdr \<noteq> expected_bus then Inl RCP_EP_PWM_IN_ERR_WRONG_BUS
          else if bm_op hdr \<noteq> RCP_ACF_OP_READ then Inl RCP_EP_PWM_IN_ERR_WRONG_OP
          else if \<not> rcp_acf_evt_row2_is_plain (bm_evt hdr) then Inl RCP_EP_PWM_IN_ERR_BAD_EVT
          else Inr (bm_transaction_num hdr))"

definition rcp_ep_pwm_in_encode_response ::
    "bool \<Rightarrow> rcp_byte_bus_id_t \<Rightarrow> rcp_ep_pwm_value_t \<Rightarrow> byte \<Rightarrow> bool \<Rightarrow> u64 \<Rightarrow> rcp_bytes_t" where
  "rcp_ep_pwm_in_encode_response mem bus v tn timed timestamp =
     response_frame mem bus RCP_ACF_OP_READ 0 (put_pwm_value v) tn timed timestamp"

definition rcp_ep_pwm_in_decode_response ::
    "bytes \<Rightarrow> rcp_byte_bus_id_t \<Rightarrow> rcp_ep_pwm_in_errc_t + (rcp_ep_pwm_value_t \<times> bool \<times> u64 \<times> byte)" where
  "rcp_ep_pwm_in_decode_response b expected_bus =
     (case decode_response_frame RCP_EP_PWM_IN_ERR_SHORT_FRAME RCP_EP_PWM_IN_ERR_BAD_MSG_TYPE b of
        Inl e \<Rightarrow> Inl e
      | Inr (hdr, timed, timestamp, payload) \<Rightarrow>
          if bm_byte_bus_id hdr \<noteq> expected_bus then Inl RCP_EP_PWM_IN_ERR_WRONG_BUS
          else if length payload \<noteq> RCP_EP_PWM_PAYLOAD_LEN then Inl RCP_EP_PWM_IN_ERR_BAD_PAYLOAD_LEN
          else Inr (get_pwm_value payload, timed, timestamp, bm_transaction_num hdr))"

datatype rcp_ep_pwm_in_max_period_outcome_t =
    RCP_EP_PWM_IN_MAX_PERIOD_OK | RCP_EP_PWM_IN_MAX_PERIOD_INVALIDATE | RCP_EP_PWM_IN_MAX_PERIOD_STOP
  | RCP_EP_PWM_IN_MAX_PERIOD_STOP_AND_ERROR

definition rcp_ep_pwm_in_max_period_outcome ::
    "u16 \<Rightarrow> u16 \<Rightarrow> bool \<Rightarrow> bool \<Rightarrow> rcp_ep_pwm_in_max_period_outcome_t" where
  "rcp_ep_pwm_in_max_period_outcome measured_period max_period err_on_max_period resp_on_err_enabled =
     (if measured_period \<le> max_period then RCP_EP_PWM_IN_MAX_PERIOD_OK
      else if \<not> err_on_max_period then RCP_EP_PWM_IN_MAX_PERIOD_INVALIDATE
      else if resp_on_err_enabled then RCP_EP_PWM_IN_MAX_PERIOD_STOP_AND_ERROR
      else RCP_EP_PWM_IN_MAX_PERIOD_STOP)"

fun rcp_ep_pwm_in_wire_error :: "rcp_ep_pwm_in_max_period_outcome_t \<Rightarrow> rcp_wire_error_t" where
  "rcp_ep_pwm_in_wire_error RCP_EP_PWM_IN_MAX_PERIOD_STOP_AND_ERROR = RCP_ERROR_PWM_IN_NO_SIGNAL"
| "rcp_ep_pwm_in_wire_error _ = RCP_ERROR_NONE"

datatype rcp_ep_pwm_in_compound_wait_mode_t =
    RCP_EP_PWM_IN_CMP_PERIOD_GE | RCP_EP_PWM_IN_CMP_PERIOD_LE | RCP_EP_PWM_IN_CMP_DUTY_GE | RCP_EP_PWM_IN_CMP_DUTY_LE

fun pwm_in_wait_code :: "rcp_ep_pwm_in_compound_wait_mode_t \<Rightarrow> byte" where
  "pwm_in_wait_code RCP_EP_PWM_IN_CMP_PERIOD_GE = 4"
| "pwm_in_wait_code RCP_EP_PWM_IN_CMP_PERIOD_LE = 5"
| "pwm_in_wait_code RCP_EP_PWM_IN_CMP_DUTY_GE = 6"
| "pwm_in_wait_code RCP_EP_PWM_IN_CMP_DUTY_LE = 7"

definition rcp_ep_pwm_in_compound_wait_mode_valid :: "byte \<Rightarrow> bool" where
  "rcp_ep_pwm_in_compound_wait_mode_valid v \<longleftrightarrow>
     v \<ge> pwm_in_wait_code RCP_EP_PWM_IN_CMP_PERIOD_GE \<and> v \<le> pwm_in_wait_code RCP_EP_PWM_IN_CMP_DUTY_LE"

fun rcp_ep_pwm_in_compound_wait_compare ::
    "rcp_ep_pwm_value_t \<Rightarrow> rcp_ep_pwm_in_compound_wait_mode_t \<Rightarrow> u16 \<Rightarrow> bool" where
  "rcp_ep_pwm_in_compound_wait_compare captured RCP_EP_PWM_IN_CMP_PERIOD_GE threshold =
     (if pwm_period captured = RCP_EP_PWM_IN_NO_SIGNAL then False else pwm_period captured \<le> threshold)"
| "rcp_ep_pwm_in_compound_wait_compare captured RCP_EP_PWM_IN_CMP_PERIOD_LE threshold =
     (if pwm_period captured = RCP_EP_PWM_IN_NO_SIGNAL then False else pwm_period captured \<ge> threshold)"
| "rcp_ep_pwm_in_compound_wait_compare captured RCP_EP_PWM_IN_CMP_DUTY_GE threshold =
     (if pwm_active_duration captured = RCP_EP_PWM_IN_NO_SIGNAL then False
      else pwm_active_duration captured \<le> threshold)"
| "rcp_ep_pwm_in_compound_wait_compare captured RCP_EP_PWM_IN_CMP_DUTY_LE threshold =
     (if pwm_active_duration captured = RCP_EP_PWM_IN_NO_SIGNAL then False
      else pwm_active_duration captured \<ge> threshold)"

section \<open>What a write does\<close>

lemma saturating_nat:
  "unat (saturating_add_u16 c r) = min 65535 (unat c + unat r)"
  "unat (saturating_sub_u16 c r) = unat r - unat c"
proof -
  have b: "unat c < 65536" "unat r < 65536"
    using unsigned_less [of c, where 'a = nat] unsigned_less [of r, where 'a = nat] by simp_all
  let ?s = "(ucast c :: u32) + ucast r"
  have s: "unat ?s = unat c + unat r"
    using b by (simp add: unat_word_ariths unsigned_ucast_eq take_bit_nat_eq_self)
  have g: "?s > 0xFFFF \<longleftrightarrow> unat c + unat r > 65535" unfolding word_less_nat_alt s by simp
  have u: "unat (ucast ?s :: u16) = unat c + unat r" if "unat c + unat r \<le> 65535"
    using that s by (simp add: unsigned_ucast_eq take_bit_nat_eq_self)
  show "unat (saturating_add_u16 c r) = min 65535 (unat c + unat r)"
    using g u by (auto simp: saturating_add_u16_def Let_def min_def)
  show "unat (saturating_sub_u16 c r) = unat r - unat c"
    by (auto simp: saturating_sub_u16_def word_less_nat_alt not_less unat_sub word_le_nat_alt)
qed

text \<open>A write gives each field its combined value, where sums and differences (request minus current) saturate at the
  ends of 16 bits, and then moves the active phase between the limits.  With limits in the wrong order the
  upper limit wins, although the header says that the lower one does; in particular a channel that has not been
  configured yet keeps its output disabled.\<close>

theorem pwm_write_exact:
  "pwm_period (rcp_ep_pwm_out_apply_write cur req evt dmin dmax) =
     apply_write_field (pwm_period cur) (pwm_period req) evt"
  "pwm_active_duration (rcp_ep_pwm_out_apply_write cur req evt dmin dmax) =
     min dmax (max dmin (apply_write_field (pwm_active_duration cur) (pwm_active_duration req) evt))"
  "unat (apply_write_field c r RCP_EP_PWM_OUT_WRITE_ADD) = min 65535 (unat c + unat r)"
  "unat (apply_write_field c r RCP_EP_PWM_OUT_WRITE_SUB) = unat r - unat c"
  "dmax < dmin \<Longrightarrow> pwm_active_duration (rcp_ep_pwm_out_apply_write cur req evt dmin dmax) = dmax"
  "rcp_ep_pwm_out_generation_state
     (rcp_ep_pwm_out_apply_write cur req evt (pwmo_duty_cycle_min rcp_ep_pwm_out_functional_cfg_init)
        (pwmo_duty_cycle_max rcp_ep_pwm_out_functional_cfg_init)) \<noteq> RCP_EP_PWM_OUT_GEN_RUNNING"
  by (auto simp: rcp_ep_pwm_out_apply_write_def Let_def min_def max_def saturating_nat
      rcp_ep_pwm_out_functional_cfg_init_def rcp_ep_pwm_out_generation_state_def word_gt_0)

theorem pwm_write_exact_witness:
  "pwm_active_duration (rcp_ep_pwm_out_apply_write \<lparr>pwm_period = 100, pwm_active_duration = 50\<rparr>
      \<lparr>pwm_period = 100, pwm_active_duration = 70\<rparr> RCP_EP_PWM_OUT_WRITE_REPLACE 90 10) = 10"
  by (rule pwm_write_exact(5)) simp

section \<open>Trigger events of a cycle\<close>

lemma residue_shift:
  fixes a d k p :: nat
  assumes "d < p" and "a < p"
  shows "(a + p - d) mod p = k \<longleftrightarrow> k < p \<and> a = (d + k) mod p"
proof -
  have l: "(a + p - d) mod p = (if d \<le> a then a - d else a + p - d)"
    using assms by (auto simp: mod_if)
  have r: "(d + k) mod p = (if d + k < p then d + k else d + k - p)" if "k < p"
    using that assms by (auto simp: mod_if)
  show ?thesis
  proof (cases "k < p")
    case True
    then show ?thesis using l r assms by auto
  next
    case False
    then show ?thesis using mod_less_divisor [of p "a + p - d"] assms by auto
  qed
qed

lemma delayed_tick_nat:
  fixes period :: u16 and skew :: byte and raw :: u32
  assumes "period \<noteq> 0"
  shows "unat ((raw mod ucast period + ucast period - (ucast skew :: u32) mod ucast period) mod ucast period) =
    (unat raw mod unat period + unat period - unat skew mod unat period) mod unat period"
proof -
  have p: "0 < unat period" "unat period < 65536"
    using assms unsigned_less [of period, where 'a = nat] by (simp_all add: unat_gt_0)
  have u: "unat (ucast period :: u32) = unat period" "unat (ucast skew :: u32) = unat skew"
    using p unsigned_less [of skew, where 'a = nat] by (simp_all add: unsigned_ucast_eq take_bit_nat_eq_self)
  have r: "unat raw mod unat period < unat period" "unat skew mod unat period < unat period"
    using p by simp_all
  have "unat (raw mod ucast period + ucast period) =
      (unat (raw mod ucast period) + unat (ucast period :: u32)) mod 2 ^ 32" by (simp add: unat_word_ariths)
  also have "\<dots> = unat raw mod unat period + unat period"
  proof -
    have "unat raw mod unat period + unat period < 131072" using p r by linarith
    then show ?thesis unfolding unat_mod u by (intro mod_less) simp
  qed
  finally have "unat (raw mod ucast period + ucast period) = unat raw mod unat period + unat period" .
  moreover have "(ucast skew :: u32) mod ucast period \<le> raw mod ucast period + ucast period"
    unfolding word_le_nat_alt calculation using r by (simp add: unat_mod u)
  ultimately show ?thesis by (simp add: unat_mod u unat_sub)
qed

lemma events_at_tick:
  assumes "period \<noteq> 0"
  shows "bit (rcp_ep_pwm_out_trigger_events_at_tick period active skew raw) 0 \<longleftrightarrow>
      unat raw mod unat period = unat skew mod unat period"
    and "bit (rcp_ep_pwm_out_trigger_events_at_tick period active skew raw) 1 \<longleftrightarrow>
      unat active div 2 < unat period \<and> unat raw mod unat period = (unat skew + unat active div 2) mod unat period"
    and "rcp_ep_pwm_out_trigger_events_at_tick 0 active skew raw = 0"
proof -
  let ?t = "(raw mod ucast period + ucast period - (ucast skew :: u32) mod ucast period) mod ucast period"
  have p: "0 < unat period" using assms by (simp add: unat_gt_0)
  have half: "unat (ucast (active div 2) :: u32) = unat active div 2"
    using unsigned_less [of active, where 'a = nat] by (simp add: unsigned_ucast_eq unat_div take_bit_nat_eq_self)
  have eq: "?t = w \<longleftrightarrow> unat w < unat period \<and>
      unat raw mod unat period = (unat skew mod unat period + unat w) mod unat period" for w
    unfolding word_unat_eq_iff delayed_tick_nat [OF assms] using p by (intro residue_shift) simp_all
  have ev: "rcp_ep_pwm_out_trigger_events_at_tick period active skew raw =
      (if ?t = 0 then 1 else 0) OR (if ?t = ucast (active div 2) then 2 else 0)"
    using assms by (simp add: rcp_ep_pwm_out_trigger_events_at_tick_def Let_def consts_rcp)
  show "bit (rcp_ep_pwm_out_trigger_events_at_tick period active skew raw) 0 \<longleftrightarrow>
      unat raw mod unat period = unat skew mod unat period"
    unfolding ev using p by (simp add: eq bit_simps)
  show "bit (rcp_ep_pwm_out_trigger_events_at_tick period active skew raw) 1 \<longleftrightarrow>
      unat active div 2 < unat period \<and> unat raw mod unat period = (unat skew + unat active div 2) mod unat period"
    unfolding ev by (simp add: eq bit_simps half mod_add_left_eq)
  show "rcp_ep_pwm_out_trigger_events_at_tick 0 active skew raw = 0"
    by (simp add: rcp_ep_pwm_out_trigger_events_at_tick_def)
qed

text \<open>Within every cycle of a running channel the start event occurs at exactly one tick, the skew modulo the period, and
  the mid-pulse event at exactly one tick, half of the active phase later, unless that half is not shorter than the
  period, when it never occurs.  A stopped channel has no events.\<close>

theorem pwm_trigger_events:
  "(if period = 0 then rcp_ep_pwm_out_trigger_events_at_tick period active skew raw = 0
    else (bit (rcp_ep_pwm_out_trigger_events_at_tick period active skew raw) 0 \<longleftrightarrow>
        unat raw mod unat period = unat skew mod unat period) \<and>
      (bit (rcp_ep_pwm_out_trigger_events_at_tick period active skew raw) 1 \<longleftrightarrow>
        unat active div 2 < unat period \<and>
        unat raw mod unat period = (unat skew + unat active div 2) mod unat period))"
  using events_at_tick(1,2) [of period active skew raw] events_at_tick(3) [of 1 active skew raw] by simp

section \<open>The register blocks\<close>

lemma pwm_out_registers:
  "rcp_ep_pwm_out_render_registers c =
     [15, 0, enable_clr_octet (pwmo_common c), options_octet (pwmo_common c),
      put_u16 (pwmo_base_clk c) ! 0, put_u16 (pwmo_base_clk c) ! 1,
      put_u16 (pwmo_ep_status c) ! 0, put_u16 (pwmo_ep_status c) ! 1,
      pwmo_clk_divider c, pwmo_signal_flags c,
      put_u16 (pwmo_duty_cycle_min c) ! 0, put_u16 (pwmo_duty_cycle_min c) ! 1,
      put_u16 (pwmo_duty_cycle_max c) ! 0, put_u16 (pwmo_duty_cycle_max c) ! 1, pwmo_skew c]"
  by (simp add: rcp_ep_pwm_out_render_registers_def put_u16_def consts_rcp)

lemma pwm_out_parse_nth:
  assumes "length img = 15" and "\<And>i. i < 15 \<Longrightarrow> pwm_out_reg_offset_read_only i \<Longrightarrow>
      img ! i = rcp_ep_pwm_out_render_registers c ! i" and "i < 15"
  shows "rcp_ep_pwm_out_render_registers (pwm_out_parse_registers c img) ! i = flag_canon i (img ! i)"
proof -
  have ro: "img ! 0 = 15" "img ! Suc 0 = 0" "put_u16 (pwmo_base_clk c) ! 0 = img ! 4"
    "put_u16 (pwmo_base_clk c) ! Suc 0 = img ! 5"
    using assms(2) [of 0] assms(2) [of 1] assms(2) [of 4] assms(2) [of 5]
    by (simp_all add: pwm_out_reg_offset_read_only_def consts_rcp pwm_out_registers)
  have w: "put_u16 (get_u16 (drop 6 img)) = [img ! 6, img ! 7]" "put_u16 (get_u16 (drop 10 img)) = [img ! 10, img ! 11]"
    "put_u16 (get_u16 (drop 12 img)) = [img ! 12, img ! 13]"
    using assms(1) by (simp_all add: put_get_u16_at)
  have "i \<in> {0, 1, 2, 3, 4, 5, 6, 7, 8, 9, 10, 11, 12, 13, 14}" using assms(3) by (simp, presburger)
  then show ?thesis unfolding pwm_out_registers
    by (auto simp: pwm_out_parse_registers_def common_octets_parse w ro flag_canon_def consts_rcp)
qed

interpretation pwm_out_regs: readback_block rcp_ep_pwm_out_render_registers pwm_out_parse_registers
  pwm_out_reg_offset_read_only RCP_EP_PWM_OUT_EP_FUNC_LEN "\<lambda>_. True" RCP_EP_PWM_OUT_RECONFIG_OK
  RCP_EP_PWM_OUT_RECONFIG_ERR_SHORT RCP_EP_PWM_OUT_RECONFIG_ERR_OUT_OF_RANGE flag_canon
proof unfold_locales
  fix c
  show "length (rcp_ep_pwm_out_render_registers c) = RCP_EP_PWM_OUT_EP_FUNC_LEN"
    by (simp add: pwm_out_registers consts_rcp)
  show "pwm_out_parse_registers c (rcp_ep_pwm_out_render_registers c) = c"
    by (simp add: pwm_out_registers pwm_out_parse_registers_def u16_of_octets consts_rcp)
next
  fix i d assume "pwm_out_reg_offset_read_only i"
  then show "flag_canon i d = d" by (auto simp: pwm_out_reg_offset_read_only_def flag_canon_def consts_rcp)
qed (simp_all add: pwm_out_parse_nth RCP_EP_PWM_OUT_EP_FUNC_LEN_def)

lemma pwm_in_registers:
  "rcp_ep_pwm_in_render_registers c =
     [12, 0, enable_clr_octet (pwmi_common c), options_octet (pwmi_common c),
      put_u16 (pwmi_base_clk c) ! 0, put_u16 (pwmi_base_clk c) ! 1,
      put_u16 (pwmi_ep_status c) ! 0, put_u16 (pwmi_ep_status c) ! 1,
      pwmi_clk_divider c, pwmi_flags c, put_u16 (pwmi_max_period c) ! 0, put_u16 (pwmi_max_period c) ! 1]"
  by (simp add: rcp_ep_pwm_in_render_registers_def put_u16_def consts_rcp)

lemma pwm_in_parse_nth:
  assumes "length img = 12" and "\<And>i. i < 12 \<Longrightarrow> pwm_in_reg_offset_read_only i \<Longrightarrow>
      img ! i = rcp_ep_pwm_in_render_registers c ! i" and "i < 12"
  shows "rcp_ep_pwm_in_render_registers (parse_pwm_in_registers c img) ! i = flag_canon i (img ! i)"
proof -
  have ro: "img ! 0 = 12" "img ! Suc 0 = 0" "put_u16 (pwmi_base_clk c) ! 0 = img ! 4"
    "put_u16 (pwmi_base_clk c) ! Suc 0 = img ! 5"
    using assms(2) [of 0] assms(2) [of 1] assms(2) [of 4] assms(2) [of 5]
    by (simp_all add: pwm_in_reg_offset_read_only_def consts_rcp pwm_in_registers)
  have w: "put_u16 (get_u16 (drop 6 img)) = [img ! 6, img ! 7]" "put_u16 (get_u16 (drop 10 img)) = [img ! 10, img ! 11]"
    using assms(1) by (simp_all add: put_get_u16_at)
  have "i \<in> {0, 1, 2, 3, 4, 5, 6, 7, 8, 9, 10, 11}" using assms(3) by (simp, presburger)
  then show ?thesis unfolding pwm_in_registers
    by (auto simp: parse_pwm_in_registers_def common_octets_parse w ro flag_canon_def consts_rcp)
qed

interpretation pwm_in_regs: readback_block rcp_ep_pwm_in_render_registers parse_pwm_in_registers
  pwm_in_reg_offset_read_only RCP_EP_PWM_IN_EP_FUNC_LEN "\<lambda>_. True" RCP_EP_PWM_IN_RECONFIG_OK
  RCP_EP_PWM_IN_RECONFIG_ERR_SHORT RCP_EP_PWM_IN_RECONFIG_ERR_OUT_OF_RANGE flag_canon
proof unfold_locales
  fix c
  show "length (rcp_ep_pwm_in_render_registers c) = RCP_EP_PWM_IN_EP_FUNC_LEN"
    by (simp add: pwm_in_registers consts_rcp)
  show "parse_pwm_in_registers c (rcp_ep_pwm_in_render_registers c) = c"
    by (simp add: pwm_in_registers parse_pwm_in_registers_def u16_of_octets consts_rcp)
next
  fix i d assume "pwm_in_reg_offset_read_only i"
  then show "flag_canon i d = d" by (auto simp: pwm_in_reg_offset_read_only_def flag_canon_def consts_rcp)
qed (simp_all add: pwm_in_parse_nth RCP_EP_PWM_IN_EP_FUNC_LEN_def)

section \<open>Messages\<close>

lemma get_put_pwm_value [simp]: "get_pwm_value (put_pwm_value v) = v" "length (put_pwm_value v) = 4"
  using get_put_u16 [of "pwm_period v" "put_u16 (pwm_active_duration v)"] get_put_u16 [of "pwm_active_duration v" "[]"]
  by (simp_all add: get_pwm_value_def put_pwm_value_def put_u16_def)

theorem pwm_messages_roundtrip:
  assumes "bus < 0x800"
  shows "\<exists>f. rcp_ep_pwm_out_encode_read_request True bus tn = Some f \<and>
      rcp_ep_pwm_out_decode_read_request (f @ rest) bus = Inr tn \<and>
      rcp_ep_pwm_out_decode_write_request (f @ rest) bus = Inl RCP_EP_PWM_OUT_ERR_WRONG_OP \<and>
      rcp_ep_pwm_in_decode_read_request (f @ rest) bus = Inr tn"
    and "\<exists>f. rcp_ep_pwm_out_encode_write_request True bus v evt tn = Some f \<and>
      rcp_ep_pwm_out_decode_write_request (f @ rest) bus =
        (if evt = RCP_EP_PWM_OUT_WRITE_RESERVED4 then Inl RCP_EP_PWM_OUT_ERR_RESERVED_EVT
         else Inr (v, pwm_write_code evt, tn))"
    and "\<exists>f. rcp_ep_pwm_out_encode_response True bus v tn timed ts = Some f \<and>
      rcp_ep_pwm_out_decode_response (f @ rest) bus = Inr (v, timed, if timed then ts else 0, tn)"
    and "\<exists>f. rcp_ep_pwm_in_encode_response True bus v tn timed ts = Some f \<and>
      rcp_ep_pwm_in_decode_response (f @ rest) bus = Inr (v, timed, if timed then ts else 0, tn)"
proof -
  note c = abb_canon_def info_canon_def Let_def zero_info_def rcp_acf_evt_row2_is_plain_def bus_canon [OF assms] consts_rcp
  show "\<exists>f. rcp_ep_pwm_out_encode_read_request True bus tn = Some f \<and>
      rcp_ep_pwm_out_decode_read_request (f @ rest) bus = Inr tn \<and>
      rcp_ep_pwm_out_decode_write_request (f @ rest) bus = Inl RCP_EP_PWM_OUT_ERR_WRONG_OP \<and>
      rcp_ep_pwm_in_decode_read_request (f @ rest) bus = Inr tn"
    using request_wire [of "[]" "zero_info\<lparr>bm_byte_bus_id := bus, bm_op := RCP_ACF_OP_READ, bm_transaction_num := tn\<rparr>"
        RCP_EP_PWM_OUT_ERR_SHORT_FRAME RCP_EP_PWM_OUT_ERR_BAD_MSG_TYPE rest]
      request_wire [of "[]" "zero_info\<lparr>bm_byte_bus_id := bus, bm_op := RCP_ACF_OP_READ, bm_transaction_num := tn\<rparr>"
        RCP_EP_PWM_IN_ERR_SHORT_FRAME RCP_EP_PWM_IN_ERR_BAD_MSG_TYPE rest]
    by (auto simp: rcp_ep_pwm_out_encode_read_request_def rcp_ep_pwm_out_decode_read_request_def
        rcp_ep_pwm_in_decode_read_request_def rcp_ep_pwm_out_decode_write_request_def c)
  show "\<exists>f. rcp_ep_pwm_out_encode_write_request True bus v evt tn = Some f \<and>
      rcp_ep_pwm_out_decode_write_request (f @ rest) bus =
        (if evt = RCP_EP_PWM_OUT_WRITE_RESERVED4 then Inl RCP_EP_PWM_OUT_ERR_RESERVED_EVT
         else Inr (v, pwm_write_code evt, tn))"
    using request_wire [of "put_pwm_value v" "zero_info\<lparr>bm_byte_bus_id := bus, bm_op := RCP_ACF_OP_WRITE,
                  bm_evt := pwm_write_code evt AND 0x7, bm_transaction_num := tn\<rparr>"
      RCP_EP_PWM_OUT_ERR_SHORT_FRAME RCP_EP_PWM_OUT_ERR_BAD_MSG_TYPE rest]
    by (cases evt) (auto simp: rcp_ep_pwm_out_encode_write_request_def rcp_ep_pwm_out_decode_write_request_def c)
  show "\<exists>f. rcp_ep_pwm_out_encode_response True bus v tn timed ts = Some f \<and>
      rcp_ep_pwm_out_decode_response (f @ rest) bus = Inr (v, timed, if timed then ts else 0, tn)"
    using response_wire [of "put_pwm_value v" bus RCP_ACF_OP_READ 0 tn timed ts RCP_EP_PWM_OUT_ERR_SHORT_FRAME
      RCP_EP_PWM_OUT_ERR_BAD_MSG_TYPE rest] assms
    by (auto simp: rcp_ep_pwm_out_encode_response_def rcp_ep_pwm_out_decode_response_def consts_rcp)
  show "\<exists>f. rcp_ep_pwm_in_encode_response True bus v tn timed ts = Some f \<and>
      rcp_ep_pwm_in_decode_response (f @ rest) bus = Inr (v, timed, if timed then ts else 0, tn)"
    using response_wire [of "put_pwm_value v" bus RCP_ACF_OP_READ 0 tn timed ts RCP_EP_PWM_IN_ERR_SHORT_FRAME
      RCP_EP_PWM_IN_ERR_BAD_MSG_TYPE rest] assms
    by (auto simp: rcp_ep_pwm_in_encode_response_def rcp_ep_pwm_in_decode_response_def consts_rcp)
qed

theorem pwm_messages_roundtrip_witness:
  "\<exists>f. rcp_ep_pwm_in_encode_response True 5 \<lparr>pwm_period = 100, pwm_active_duration = 50\<rparr> 9 True 1234 = Some f \<and>
      rcp_ep_pwm_in_decode_response (f @ []) 5 = Inr (\<lparr>pwm_period = 100, pwm_active_duration = 50\<rparr>, True, 1234, 9)"
  using pwm_messages_roundtrip(4) [of 5 "\<lparr>pwm_period = 100, pwm_active_duration = 50\<rparr>" 9 True 1234 "[]"] by simp

end
