(* ===== verification/Ep_Mdio.thy ===== *)
theory Ep_Mdio
  imports Lifecycle Registers
begin

text \<open>
  \<^verbatim>\<open>src/ep_mdio.c\<close>: the MDIO endpoint: clause 22 and clause 45 addresses and the memory map selector (MMS), bursts,
  packing of register words, the functional registers and the messages of the two families.  Clause and mode are
  the codes that the wire carries, because the decoders meet codes that name nothing.  A decoder that hands out
  a pointer to packed words and their count returns the octets from there on and the count.  The text tables
  are left out.
\<close>

section \<open>Addresses\<close>

definition RCP_EP_MDIO_CLAUSE_22 :: byte where [consts_rcp]: "RCP_EP_MDIO_CLAUSE_22 = 0"
definition RCP_EP_MDIO_CLAUSE_45 :: byte where [consts_rcp]: "RCP_EP_MDIO_CLAUSE_45 = 1"
definition RCP_EP_MDIO_MODE_MMD_SINGLE :: byte where [consts_rcp]: "RCP_EP_MDIO_MODE_MMD_SINGLE = 0"
definition RCP_EP_MDIO_MODE_MMD_MULTI :: byte where [consts_rcp]: "RCP_EP_MDIO_MODE_MMD_MULTI = 1"
definition RCP_EP_MDIO_MODE_MMS_SINGLE :: byte where [consts_rcp]: "RCP_EP_MDIO_MODE_MMS_SINGLE = 2"
definition RCP_EP_MDIO_MODE_MMS_MULTI :: byte where [consts_rcp]: "RCP_EP_MDIO_MODE_MMS_MULTI = 3"
definition RCP_EP_MDIO_PRTAD_MAX :: byte where [consts_rcp]: "RCP_EP_MDIO_PRTAD_MAX = 0x1F"
definition RCP_EP_MDIO_DEVAD_MAX :: byte where [consts_rcp]: "RCP_EP_MDIO_DEVAD_MAX = 0x1F"
definition RCP_EP_MDIO_CLAUSE22_REGAD_MAX :: u16 where [consts_rcp]: "RCP_EP_MDIO_CLAUSE22_REGAD_MAX = 0x1F"
definition RCP_EP_MDIO_MMS_MAX :: byte where [consts_rcp]: "RCP_EP_MDIO_MMS_MAX = 0x0F"
definition RCP_EP_MDIO_MAX_BURST_WORDS :: nat where [consts_rcp]: "RCP_EP_MDIO_MAX_BURST_WORDS = 512"
definition MODE_OCTET_LEN :: nat where [consts_rcp]: "MODE_OCTET_LEN = 1"
definition ADDR_PREFIX_LEN :: nat where [consts_rcp]: "ADDR_PREFIX_LEN = 5"
definition MMS_ADDR_PREFIX_LEN :: nat where [consts_rcp]: "MMS_ADDR_PREFIX_LEN = 3"
definition READ_REQUEST_PAYLOAD_LEN :: nat where
  [consts_rcp]: "READ_REQUEST_PAYLOAD_LEN = MODE_OCTET_LEN + ADDR_PREFIX_LEN + 2"
definition WRITE_REQUEST_MIN_PAYLOAD_LEN :: nat where
  [consts_rcp]: "WRITE_REQUEST_MIN_PAYLOAD_LEN = MODE_OCTET_LEN + ADDR_PREFIX_LEN"
definition MMS_READ_REQUEST_PAYLOAD_LEN :: nat where
  [consts_rcp]: "MMS_READ_REQUEST_PAYLOAD_LEN = MODE_OCTET_LEN + MMS_ADDR_PREFIX_LEN + 2"
definition MMS_WRITE_REQUEST_MIN_PAYLOAD_LEN :: nat where
  [consts_rcp]: "MMS_WRITE_REQUEST_MIN_PAYLOAD_LEN = MODE_OCTET_LEN + MMS_ADDR_PREFIX_LEN"
definition MDIO_MODE_MASK :: byte where [consts_rcp]: "MDIO_MODE_MASK = 0x03"

record rcp_ep_mdio_addr_t =
  mdio_clause :: byte
  mdio_prtad :: byte
  mdio_devad :: byte
  mdio_regad :: u16

record rcp_ep_mdio_mms_addr_t =
  mms_sel :: byte
  mms_reg :: u16

definition rcp_ep_mdio_addr_valid :: "rcp_ep_mdio_addr_t \<Rightarrow> bool" where
  "rcp_ep_mdio_addr_valid addr =
     (if mdio_prtad addr > RCP_EP_MDIO_PRTAD_MAX then False
      else if mdio_clause addr = RCP_EP_MDIO_CLAUSE_22
      then mdio_devad addr = 0 \<and> mdio_regad addr \<le> RCP_EP_MDIO_CLAUSE22_REGAD_MAX
      else if mdio_clause addr = RCP_EP_MDIO_CLAUSE_45 then mdio_devad addr \<le> RCP_EP_MDIO_DEVAD_MAX
      else False)"

definition rcp_ep_mdio_burst_next_regad :: "byte \<Rightarrow> u16 \<Rightarrow> u16" where
  "rcp_ep_mdio_burst_next_regad clause regad =
     (if clause = RCP_EP_MDIO_CLAUSE_22 then (regad + 1) AND RCP_EP_MDIO_CLAUSE22_REGAD_MAX
      else if clause = RCP_EP_MDIO_CLAUSE_45 then regad + 1
      else regad)"

definition rcp_ep_mdio_mode_for_word_count :: "nat \<Rightarrow> byte" where
  "rcp_ep_mdio_mode_for_word_count word_count =
     (if word_count > 1 then RCP_EP_MDIO_MODE_MMD_MULTI else RCP_EP_MDIO_MODE_MMD_SINGLE)"

definition rcp_ep_mdio_mode_is_unsupported_mms :: "byte \<Rightarrow> bool" where
  "rcp_ep_mdio_mode_is_unsupported_mms mode \<longleftrightarrow>
     mode = RCP_EP_MDIO_MODE_MMS_SINGLE \<or> mode = RCP_EP_MDIO_MODE_MMS_MULTI"

definition rcp_ep_mdio_mms_addr_valid :: "rcp_ep_mdio_mms_addr_t \<Rightarrow> bool" where
  "rcp_ep_mdio_mms_addr_valid addr \<longleftrightarrow> mms_sel addr \<le> RCP_EP_MDIO_MMS_MAX"

definition rcp_ep_mdio_mms_uses_32bit_words :: "byte \<Rightarrow> bool" where
  "rcp_ep_mdio_mms_uses_32bit_words mms \<longleftrightarrow> mms = 0 \<or> mms = 1"

definition rcp_ep_mdio_mms_burst_next_addr :: "u16 \<Rightarrow> u16" where
  "rcp_ep_mdio_mms_burst_next_addr addr = addr + 1"

definition rcp_ep_mdio_mms_mode_for_word_count :: "nat \<Rightarrow> byte" where
  "rcp_ep_mdio_mms_mode_for_word_count word_count =
     (if word_count > 1 then RCP_EP_MDIO_MODE_MMS_MULTI else RCP_EP_MDIO_MODE_MMS_SINGLE)"

section \<open>Packed words\<close>

definition rcp_ep_mdio_word_encode :: "u16 \<Rightarrow> bytes" where
  "rcp_ep_mdio_word_encode w = put_u16 w"

definition rcp_ep_mdio_word_decode :: "bytes \<Rightarrow> u16" where
  "rcp_ep_mdio_word_decode p = get_u16 p"

definition rcp_ep_mdio_pack_len :: "nat \<Rightarrow> nat" where
  "rcp_ep_mdio_pack_len word_count = word_count * 2 mod 2 ^ 64"

definition rcp_ep_mdio_pack_words :: "bool \<Rightarrow> u16 list \<Rightarrow> rcp_bytes_t" where
  "rcp_ep_mdio_pack_words mem words =
     (if length words = 0 then None
      else if \<not> mem then None
      else Some (concat (map rcp_ep_mdio_word_encode words)))"

definition rcp_ep_mdio_word_count_of :: "nat \<Rightarrow> nat option" where
  "rcp_ep_mdio_word_count_of byte_len = (if odd byte_len then None else Some (byte_len div 2))"

definition rcp_ep_mdio_unpack_word_at :: "bytes \<Rightarrow> nat \<Rightarrow> u16" where
  "rcp_ep_mdio_unpack_word_at data i = rcp_ep_mdio_word_decode (drop (2 * i) data)"

definition mms_word_width :: "byte \<Rightarrow> nat" where
  "mms_word_width mms = (if rcp_ep_mdio_mms_uses_32bit_words mms then 4 else 2)"

definition rcp_ep_mdio_word32_encode :: "u32 \<Rightarrow> bytes" where
  "rcp_ep_mdio_word32_encode w = put_u32 w"

definition rcp_ep_mdio_word32_decode :: "bytes \<Rightarrow> u32" where
  "rcp_ep_mdio_word32_decode p = get_u32 p"

definition rcp_ep_mdio_mms_pack_len :: "byte \<Rightarrow> nat \<Rightarrow> nat" where
  "rcp_ep_mdio_mms_pack_len mms word_count = word_count * mms_word_width mms mod 2 ^ 64"

definition rcp_ep_mdio_mms_pack_words :: "bool \<Rightarrow> byte \<Rightarrow> u32 list \<Rightarrow> rcp_bytes_t" where
  "rcp_ep_mdio_mms_pack_words mem mms words =
     (let width = mms_word_width mms
      in if length words = 0 then None
         else if \<not> mem then None
         else Some (concat (map (\<lambda>w.
                if width = 4 then rcp_ep_mdio_word32_encode w
                else rcp_ep_mdio_word_encode (ucast (w AND 0xFFFF))) words)))"

definition rcp_ep_mdio_mms_word_count_of :: "byte \<Rightarrow> nat \<Rightarrow> nat option" where
  "rcp_ep_mdio_mms_word_count_of mms byte_len =
     (let width = mms_word_width mms in if byte_len mod width \<noteq> 0 then None else Some (byte_len div width))"

definition rcp_ep_mdio_mms_unpack_word_at :: "byte \<Rightarrow> bytes \<Rightarrow> nat \<Rightarrow> u32" where
  "rcp_ep_mdio_mms_unpack_word_at mms data i =
     (let width = mms_word_width mms
      in if width = 4 then rcp_ep_mdio_word32_decode (drop (width * i) data)
         else ucast (rcp_ep_mdio_word_decode (drop (width * i) data)))"

section \<open>Functional registers\<close>

definition RCP_EP_MDIO_REG_EP_LEN :: nat where [consts_rcp]: "RCP_EP_MDIO_REG_EP_LEN = 0"
definition RCP_EP_MDIO_REG_RESERVED_01 :: nat where [consts_rcp]: "RCP_EP_MDIO_REG_RESERVED_01 = 1"
definition RCP_EP_MDIO_REG_EP_ENABLE_CLR :: nat where [consts_rcp]: "RCP_EP_MDIO_REG_EP_ENABLE_CLR = 2"
definition RCP_EP_MDIO_REG_EP_OPTIONS :: nat where [consts_rcp]: "RCP_EP_MDIO_REG_EP_OPTIONS = 3"
definition RCP_EP_MDIO_REG_EP_STATUS :: nat where [consts_rcp]: "RCP_EP_MDIO_REG_EP_STATUS = 4"
definition RCP_EP_MDIO_EP_FUNC_LEN :: nat where [consts_rcp]: "RCP_EP_MDIO_EP_FUNC_LEN = 6"

datatype rcp_ep_mdio_reconfig_errc_t =
    RCP_EP_MDIO_RECONFIG_OK | RCP_EP_MDIO_RECONFIG_ERR_SHORT | RCP_EP_MDIO_RECONFIG_ERR_OUT_OF_RANGE

record rcp_ep_mdio_functional_cfg_t =
  mdio_common :: rcp_regmap_ep_functional_cfg_t
  mdio_ep_status :: u16

definition rcp_ep_mdio_functional_cfg_init :: rcp_ep_mdio_functional_cfg_t where
  "rcp_ep_mdio_functional_cfg_init = \<lparr>mdio_common = rcp_regmap_ep_functional_cfg_init, mdio_ep_status = 0\<rparr>"

definition rcp_ep_mdio_functional_cfg_writable ::
    "rcp_lifecycle_state_t \<Rightarrow> rcp_lifecycle_writer_ctx_t \<Rightarrow> bool" where
  "rcp_ep_mdio_functional_cfg_writable state writer =
     rcp_lifecycle_field_writable state RCP_LIFECYCLE_FIELD_FUNCTIONAL_W writer"

definition rcp_ep_mdio_render_registers :: "rcp_ep_mdio_functional_cfg_t \<Rightarrow> bytes" where
  "rcp_ep_mdio_render_registers cfg =
     [of_nat RCP_EP_MDIO_EP_FUNC_LEN, 0, enable_clr_octet (mdio_common cfg), options_octet (mdio_common cfg)] @
     put_u16 (mdio_ep_status cfg)"

definition parse_mdio_registers ::
    "rcp_ep_mdio_functional_cfg_t \<Rightarrow> bytes \<Rightarrow> rcp_ep_mdio_functional_cfg_t" where
  "parse_mdio_registers cfg img =
     cfg\<lparr>mdio_common := parse_common (img ! RCP_EP_MDIO_REG_EP_ENABLE_CLR) (img ! RCP_EP_MDIO_REG_EP_OPTIONS),
         mdio_ep_status := get_u16 (drop RCP_EP_MDIO_REG_EP_STATUS img)\<rparr>"

definition mdio_reg_offset_read_only :: "nat \<Rightarrow> bool" where
  "mdio_reg_offset_read_only addr \<longleftrightarrow> addr = RCP_EP_MDIO_REG_EP_LEN \<or> addr = RCP_EP_MDIO_REG_RESERVED_01"

definition rcp_ep_mdio_apply_reconfig ::
    "rcp_ep_mdio_functional_cfg_t \<Rightarrow> bytes \<Rightarrow> rcp_ep_mdio_reconfig_errc_t \<times> rcp_ep_mdio_functional_cfg_t" where
  "rcp_ep_mdio_apply_reconfig =
     apply_block rcp_ep_mdio_render_registers parse_mdio_registers mdio_reg_offset_read_only
       RCP_EP_MDIO_EP_FUNC_LEN RCP_EP_MDIO_RECONFIG_OK RCP_EP_MDIO_RECONFIG_ERR_SHORT
       RCP_EP_MDIO_RECONFIG_ERR_OUT_OF_RANGE"

definition rcp_ep_mdio_encode_reconfig_request ::
    "bool \<Rightarrow> bool \<Rightarrow> rcp_byte_bus_id_t \<Rightarrow> u16 \<Rightarrow> bytes \<Rightarrow> byte \<Rightarrow> rcp_bytes_t" where
  "rcp_ep_mdio_encode_reconfig_request mem_payload mem_frame bus start_address data tn =
     encode_reconfig mem_payload mem_frame bus start_address data tn"

section \<open>Messages\<close>

datatype rcp_ep_mdio_errc_t =
    RCP_EP_MDIO_OK | RCP_EP_MDIO_ERR_SHORT_FRAME | RCP_EP_MDIO_ERR_BAD_MSG_TYPE | RCP_EP_MDIO_ERR_WRONG_BUS
  | RCP_EP_MDIO_ERR_WRONG_OP | RCP_EP_MDIO_ERR_BAD_ADDR | RCP_EP_MDIO_ERR_BAD_WORD_COUNT | RCP_EP_MDIO_ERR_ALLOC
  | RCP_EP_MDIO_ERR_BAD_EVT | RCP_EP_MDIO_ERR_UNSUPPORTED_MMS | RCP_EP_MDIO_ERR_BAD_MMS_ADDR
  | RCP_EP_MDIO_ERR_WRONG_MDIO_MODE

definition put_addr_prefix :: "rcp_ep_mdio_addr_t \<Rightarrow> bytes" where
  "put_addr_prefix addr = [mdio_clause addr, mdio_prtad addr, mdio_devad addr] @ put_u16 (mdio_regad addr)"

definition get_addr_prefix :: "bytes \<Rightarrow> rcp_ep_mdio_addr_t" where
  "get_addr_prefix p =
     \<lparr>mdio_clause = p ! 0, mdio_prtad = p ! 1, mdio_devad = p ! 2, mdio_regad = get_u16 (drop 3 p)\<rparr>"

definition put_mms_addr_prefix :: "rcp_ep_mdio_mms_addr_t \<Rightarrow> bytes" where
  "put_mms_addr_prefix addr = mms_sel addr # put_u16 (mms_reg addr)"

definition get_mms_addr_prefix :: "bytes \<Rightarrow> rcp_ep_mdio_mms_addr_t" where
  "get_mms_addr_prefix p = \<lparr>mms_sel = p ! 0, mms_reg = get_u16 (drop 1 p)\<rparr>"

text \<open>The header of a request, and the checks that the four decoders of requests make first.\<close>

definition mdio_request :: "bool \<Rightarrow> rcp_byte_bus_id_t \<Rightarrow> byte \<Rightarrow> byte \<Rightarrow> bytes \<Rightarrow> rcp_bytes_t" where
  "mdio_request mem bus op tn payload =
     rcp_acf_encode_abb mem
       (zero_info\<lparr>bm_byte_bus_id := bus, bm_op := op, bm_evt := 0, bm_transaction_num := tn\<rparr>) payload"

definition mdio_request_payload ::
    "bytes \<Rightarrow> rcp_byte_bus_id_t \<Rightarrow> byte \<Rightarrow> nat \<Rightarrow> rcp_ep_mdio_errc_t + (bytes \<times> byte)" where
  "mdio_request_payload b expected_bus op min_len =
     (case decode_request_frame RCP_EP_MDIO_ERR_SHORT_FRAME RCP_EP_MDIO_ERR_BAD_MSG_TYPE b of
        Inl e \<Rightarrow> Inl e
      | Inr (hdr, payload) \<Rightarrow>
          if bm_byte_bus_id hdr \<noteq> expected_bus then Inl RCP_EP_MDIO_ERR_WRONG_BUS
          else if bm_op hdr \<noteq> op then Inl RCP_EP_MDIO_ERR_WRONG_OP
          else if \<not> rcp_acf_evt_row2_is_plain (bm_evt hdr) then Inl RCP_EP_MDIO_ERR_BAD_EVT
          else if length payload < min_len then Inl RCP_EP_MDIO_ERR_SHORT_FRAME
          else Inr (payload, bm_transaction_num hdr))"

definition rcp_ep_mdio_encode_read_request ::
    "bool \<Rightarrow> rcp_byte_bus_id_t \<Rightarrow> rcp_ep_mdio_addr_t \<Rightarrow> nat \<Rightarrow> byte \<Rightarrow> rcp_bytes_t" where
  "rcp_ep_mdio_encode_read_request mem bus addr word_count tn =
     (if \<not> rcp_ep_mdio_addr_valid addr then None
      else if word_count = 0 \<or> word_count > RCP_EP_MDIO_MAX_BURST_WORDS then None
      else mdio_request mem bus RCP_ACF_OP_READ tn
             ([rcp_ep_mdio_mode_for_word_count word_count] @ put_addr_prefix addr @ put_u16 (of_nat word_count)))"

definition rcp_ep_mdio_decode_read_request ::
    "bytes \<Rightarrow> rcp_byte_bus_id_t \<Rightarrow> rcp_ep_mdio_errc_t + (rcp_ep_mdio_addr_t \<times> nat \<times> byte)" where
  "rcp_ep_mdio_decode_read_request b expected_bus =
     (case mdio_request_payload b expected_bus RCP_ACF_OP_READ READ_REQUEST_PAYLOAD_LEN of
        Inl e \<Rightarrow> Inl e
      | Inr (payload, tn) \<Rightarrow>
          let mode = payload ! 0 AND MDIO_MODE_MASK;
              addr = get_addr_prefix (drop MODE_OCTET_LEN payload);
              word_count = get_u16 (drop (MODE_OCTET_LEN + ADDR_PREFIX_LEN) payload)
          in if rcp_ep_mdio_mode_is_unsupported_mms mode then Inl RCP_EP_MDIO_ERR_UNSUPPORTED_MMS
             else if \<not> rcp_ep_mdio_addr_valid addr then Inl RCP_EP_MDIO_ERR_BAD_ADDR
             else if word_count = 0 \<or> unat word_count > RCP_EP_MDIO_MAX_BURST_WORDS
             then Inl RCP_EP_MDIO_ERR_BAD_WORD_COUNT
             else Inr (addr, unat word_count, tn))"

text \<open>The two encoders of responses of a family differ in the operation; so do the two decoders in nothing.\<close>

definition mdio_words_response ::
    "bool \<Rightarrow> bool \<Rightarrow> rcp_byte_bus_id_t \<Rightarrow> byte \<Rightarrow> u16 list \<Rightarrow> byte \<Rightarrow> bool \<Rightarrow> u64 \<Rightarrow> rcp_bytes_t" where
  "mdio_words_response mem_words mem bus op words tn timed timestamp =
     (if length words > RCP_EP_MDIO_MAX_BURST_WORDS then None
      else
        let payload = rcp_ep_mdio_pack_words mem_words words
        in if length words > 0 \<and> payload = None then None
           else response_frame mem bus op 0 (rcp_bytes_data payload) tn timed timestamp)"

definition mdio_decode_words_response ::
    "bytes \<Rightarrow> rcp_byte_bus_id_t \<Rightarrow> (nat \<Rightarrow> nat option) \<Rightarrow>
     rcp_ep_mdio_errc_t + (bytes \<times> nat \<times> bool \<times> u64 \<times> byte)" where
  "mdio_decode_words_response b expected_bus count_of =
     (case decode_response_frame RCP_EP_MDIO_ERR_SHORT_FRAME RCP_EP_MDIO_ERR_BAD_MSG_TYPE b of
        Inl e \<Rightarrow> Inl e
      | Inr (hdr, timed, timestamp, payload) \<Rightarrow>
          if bm_byte_bus_id hdr \<noteq> expected_bus then Inl RCP_EP_MDIO_ERR_WRONG_BUS
          else
            (case count_of (length payload) of
               None \<Rightarrow> Inl RCP_EP_MDIO_ERR_BAD_WORD_COUNT
             | Some word_count \<Rightarrow>
                 if word_count > RCP_EP_MDIO_MAX_BURST_WORDS then Inl RCP_EP_MDIO_ERR_BAD_WORD_COUNT
                 else Inr (payload, word_count, timed, timestamp, bm_transaction_num hdr)))"

definition rcp_ep_mdio_encode_read_response ::
    "bool \<Rightarrow> bool \<Rightarrow> rcp_byte_bus_id_t \<Rightarrow> u16 list \<Rightarrow> byte \<Rightarrow> bool \<Rightarrow> u64 \<Rightarrow> rcp_bytes_t" where
  "rcp_ep_mdio_encode_read_response mem_words mem bus words tn timed timestamp =
     mdio_words_response mem_words mem bus RCP_ACF_OP_READ words tn timed timestamp"

definition rcp_ep_mdio_decode_read_response ::
    "bytes \<Rightarrow> rcp_byte_bus_id_t \<Rightarrow> rcp_ep_mdio_errc_t + (bytes \<times> nat \<times> bool \<times> u64 \<times> byte)" where
  "rcp_ep_mdio_decode_read_response b expected_bus =
     mdio_decode_words_response b expected_bus rcp_ep_mdio_word_count_of"

definition rcp_ep_mdio_encode_write_request ::
    "bool \<Rightarrow> bool \<Rightarrow> bool \<Rightarrow> rcp_byte_bus_id_t \<Rightarrow> rcp_ep_mdio_addr_t \<Rightarrow> u16 list \<Rightarrow> byte \<Rightarrow> rcp_bytes_t" where
  "rcp_ep_mdio_encode_write_request mem_words mem_payload mem bus addr words tn =
     (if \<not> rcp_ep_mdio_addr_valid addr then None
      else if length words = 0 \<or> length words > RCP_EP_MDIO_MAX_BURST_WORDS then None
      else
        (case rcp_ep_mdio_pack_words mem_words words of
           None \<Rightarrow> None
         | Some words_bytes \<Rightarrow>
             if \<not> mem_payload then None
             else mdio_request mem bus RCP_ACF_OP_WRITE tn
                    ([rcp_ep_mdio_mode_for_word_count (length words)] @ put_addr_prefix addr @ words_bytes)))"

definition rcp_ep_mdio_decode_write_request ::
    "bytes \<Rightarrow> rcp_byte_bus_id_t \<Rightarrow> rcp_ep_mdio_errc_t + (rcp_ep_mdio_addr_t \<times> bytes \<times> nat \<times> byte)" where
  "rcp_ep_mdio_decode_write_request b expected_bus =
     (case mdio_request_payload b expected_bus RCP_ACF_OP_WRITE WRITE_REQUEST_MIN_PAYLOAD_LEN of
        Inl e \<Rightarrow> Inl e
      | Inr (payload, tn) \<Rightarrow>
          let mode = payload ! 0 AND MDIO_MODE_MASK;
              addr = get_addr_prefix (drop MODE_OCTET_LEN payload);
              words_len = length payload - WRITE_REQUEST_MIN_PAYLOAD_LEN
          in if rcp_ep_mdio_mode_is_unsupported_mms mode then Inl RCP_EP_MDIO_ERR_UNSUPPORTED_MMS
             else if \<not> rcp_ep_mdio_addr_valid addr then Inl RCP_EP_MDIO_ERR_BAD_ADDR
             else
               (case rcp_ep_mdio_word_count_of words_len of
                  None \<Rightarrow> Inl RCP_EP_MDIO_ERR_BAD_WORD_COUNT
                | Some word_count \<Rightarrow>
                    if word_count = 0 \<or> word_count > RCP_EP_MDIO_MAX_BURST_WORDS
                    then Inl RCP_EP_MDIO_ERR_BAD_WORD_COUNT
                    else Inr (addr, drop (MODE_OCTET_LEN + ADDR_PREFIX_LEN) payload, word_count, tn)))"

definition rcp_ep_mdio_encode_write_response ::
    "bool \<Rightarrow> bool \<Rightarrow> rcp_byte_bus_id_t \<Rightarrow> u16 list \<Rightarrow> byte \<Rightarrow> bool \<Rightarrow> u64 \<Rightarrow> rcp_bytes_t" where
  "rcp_ep_mdio_encode_write_response mem_words mem bus accepted_words tn timed timestamp =
     mdio_words_response mem_words mem bus RCP_ACF_OP_WRITE accepted_words tn timed timestamp"

definition rcp_ep_mdio_decode_write_response ::
    "bytes \<Rightarrow> rcp_byte_bus_id_t \<Rightarrow> rcp_ep_mdio_errc_t + (bytes \<times> nat \<times> bool \<times> u64 \<times> byte)" where
  "rcp_ep_mdio_decode_write_response b expected_bus =
     mdio_decode_words_response b expected_bus rcp_ep_mdio_word_count_of"

section \<open>Messages of the memory map selector\<close>

definition rcp_ep_mdio_encode_mms_read_request ::
    "bool \<Rightarrow> rcp_byte_bus_id_t \<Rightarrow> rcp_ep_mdio_mms_addr_t \<Rightarrow> nat \<Rightarrow> byte \<Rightarrow> rcp_bytes_t" where
  "rcp_ep_mdio_encode_mms_read_request mem bus addr word_count tn =
     (if \<not> rcp_ep_mdio_mms_addr_valid addr then None
      else if word_count = 0 \<or> word_count > RCP_EP_MDIO_MAX_BURST_WORDS then None
      else mdio_request mem bus RCP_ACF_OP_READ tn
             ([rcp_ep_mdio_mms_mode_for_word_count word_count] @ put_mms_addr_prefix addr @
              put_u16 (of_nat word_count)))"

definition rcp_ep_mdio_decode_mms_read_request ::
    "bytes \<Rightarrow> rcp_byte_bus_id_t \<Rightarrow> rcp_ep_mdio_errc_t + (rcp_ep_mdio_mms_addr_t \<times> nat \<times> byte)" where
  "rcp_ep_mdio_decode_mms_read_request b expected_bus =
     (case mdio_request_payload b expected_bus RCP_ACF_OP_READ MMS_READ_REQUEST_PAYLOAD_LEN of
        Inl e \<Rightarrow> Inl e
      | Inr (payload, tn) \<Rightarrow>
          let mode = payload ! 0 AND MDIO_MODE_MASK;
              addr = get_mms_addr_prefix (drop MODE_OCTET_LEN payload);
              word_count = get_u16 (drop (MODE_OCTET_LEN + MMS_ADDR_PREFIX_LEN) payload)
          in if \<not> rcp_ep_mdio_mode_is_unsupported_mms mode then Inl RCP_EP_MDIO_ERR_WRONG_MDIO_MODE
             else if \<not> rcp_ep_mdio_mms_addr_valid addr then Inl RCP_EP_MDIO_ERR_BAD_MMS_ADDR
             else if word_count = 0 \<or> unat word_count > RCP_EP_MDIO_MAX_BURST_WORDS
             then Inl RCP_EP_MDIO_ERR_BAD_WORD_COUNT
             else Inr (addr, unat word_count, tn))"

definition mdio_mms_words_response ::
    "bool \<Rightarrow> bool \<Rightarrow> rcp_byte_bus_id_t \<Rightarrow> byte \<Rightarrow> byte \<Rightarrow> u32 list \<Rightarrow> byte \<Rightarrow> bool \<Rightarrow> u64 \<Rightarrow> rcp_bytes_t" where
  "mdio_mms_words_response mem_words mem bus op mms words tn timed timestamp =
     (if length words > RCP_EP_MDIO_MAX_BURST_WORDS then None
      else
        let payload = rcp_ep_mdio_mms_pack_words mem_words mms words
        in if length words > 0 \<and> payload = None then None
           else response_frame mem bus op 0 (rcp_bytes_data payload) tn timed timestamp)"

definition rcp_ep_mdio_encode_mms_read_response ::
    "bool \<Rightarrow> bool \<Rightarrow> rcp_byte_bus_id_t \<Rightarrow> byte \<Rightarrow> u32 list \<Rightarrow> byte \<Rightarrow> bool \<Rightarrow> u64 \<Rightarrow> rcp_bytes_t" where
  "rcp_ep_mdio_encode_mms_read_response mem_words mem bus mms words tn timed timestamp =
     mdio_mms_words_response mem_words mem bus RCP_ACF_OP_READ mms words tn timed timestamp"

definition rcp_ep_mdio_decode_mms_read_response ::
    "bytes \<Rightarrow> rcp_byte_bus_id_t \<Rightarrow> byte \<Rightarrow> rcp_ep_mdio_errc_t + (bytes \<times> nat \<times> bool \<times> u64 \<times> byte)" where
  "rcp_ep_mdio_decode_mms_read_response b expected_bus mms =
     mdio_decode_words_response b expected_bus (rcp_ep_mdio_mms_word_count_of mms)"

definition rcp_ep_mdio_encode_mms_write_request ::
    "bool \<Rightarrow> bool \<Rightarrow> bool \<Rightarrow> rcp_byte_bus_id_t \<Rightarrow> rcp_ep_mdio_mms_addr_t \<Rightarrow> u32 list \<Rightarrow> byte \<Rightarrow> rcp_bytes_t" where
  "rcp_ep_mdio_encode_mms_write_request mem_words mem_payload mem bus addr words tn =
     (if \<not> rcp_ep_mdio_mms_addr_valid addr then None
      else if length words = 0 \<or> length words > RCP_EP_MDIO_MAX_BURST_WORDS then None
      else
        (case rcp_ep_mdio_mms_pack_words mem_words (mms_sel addr) words of
           None \<Rightarrow> None
         | Some words_bytes \<Rightarrow>
             if \<not> mem_payload then None
             else mdio_request mem bus RCP_ACF_OP_WRITE tn
                    ([rcp_ep_mdio_mms_mode_for_word_count (length words)] @ put_mms_addr_prefix addr @
                     words_bytes)))"

definition rcp_ep_mdio_decode_mms_write_request ::
    "bytes \<Rightarrow> rcp_byte_bus_id_t \<Rightarrow> rcp_ep_mdio_errc_t + (rcp_ep_mdio_mms_addr_t \<times> bytes \<times> nat \<times> byte)" where
  "rcp_ep_mdio_decode_mms_write_request b expected_bus =
     (case mdio_request_payload b expected_bus RCP_ACF_OP_WRITE MMS_WRITE_REQUEST_MIN_PAYLOAD_LEN of
        Inl e \<Rightarrow> Inl e
      | Inr (payload, tn) \<Rightarrow>
          let mode = payload ! 0 AND MDIO_MODE_MASK;
              addr = get_mms_addr_prefix (drop MODE_OCTET_LEN payload);
              words_len = length payload - MMS_WRITE_REQUEST_MIN_PAYLOAD_LEN
          in if \<not> rcp_ep_mdio_mode_is_unsupported_mms mode then Inl RCP_EP_MDIO_ERR_WRONG_MDIO_MODE
             else if \<not> rcp_ep_mdio_mms_addr_valid addr then Inl RCP_EP_MDIO_ERR_BAD_MMS_ADDR
             else
               (case rcp_ep_mdio_mms_word_count_of (mms_sel addr) words_len of
                  None \<Rightarrow> Inl RCP_EP_MDIO_ERR_BAD_WORD_COUNT
                | Some word_count \<Rightarrow>
                    if word_count = 0 \<or> word_count > RCP_EP_MDIO_MAX_BURST_WORDS
                    then Inl RCP_EP_MDIO_ERR_BAD_WORD_COUNT
                    else Inr (addr, drop (MODE_OCTET_LEN + MMS_ADDR_PREFIX_LEN) payload, word_count, tn)))"

definition rcp_ep_mdio_encode_mms_write_response ::
    "bool \<Rightarrow> bool \<Rightarrow> rcp_byte_bus_id_t \<Rightarrow> byte \<Rightarrow> u32 list \<Rightarrow> byte \<Rightarrow> bool \<Rightarrow> u64 \<Rightarrow> rcp_bytes_t" where
  "rcp_ep_mdio_encode_mms_write_response mem_words mem bus mms accepted_words tn timed timestamp =
     mdio_mms_words_response mem_words mem bus RCP_ACF_OP_WRITE mms accepted_words tn timed timestamp"

definition rcp_ep_mdio_decode_mms_write_response ::
    "bytes \<Rightarrow> rcp_byte_bus_id_t \<Rightarrow> byte \<Rightarrow> rcp_ep_mdio_errc_t + (bytes \<times> nat \<times> bool \<times> u64 \<times> byte)" where
  "rcp_ep_mdio_decode_mms_write_response b expected_bus mms =
     mdio_decode_words_response b expected_bus (rcp_ep_mdio_mms_word_count_of mms)"

section \<open>The register block\<close>

lemma mdio_registers:
  "rcp_ep_mdio_render_registers c =
     [6, 0, enable_clr_octet (mdio_common c), options_octet (mdio_common c),
      put_u16 (mdio_ep_status c) ! 0, put_u16 (mdio_ep_status c) ! 1]"
  by (simp add: rcp_ep_mdio_render_registers_def put_u16_def consts_rcp)

lemma mdio_parse_nth:
  assumes "length img = 6" and "\<And>i. i < 6 \<Longrightarrow> mdio_reg_offset_read_only i \<Longrightarrow>
      img ! i = rcp_ep_mdio_render_registers c ! i" and "i < 6"
  shows "rcp_ep_mdio_render_registers (parse_mdio_registers c img) ! i = flag_canon i (img ! i)"
proof -
  have ro: "img ! 0 = 6" "img ! Suc 0 = 0"
    using assms(2) [of 0] assms(2) [of 1] by (simp_all add: mdio_reg_offset_read_only_def consts_rcp mdio_registers)
  have w: "put_u16 (get_u16 (drop 4 img)) = [img ! 4, img ! 5]" using assms(1) by (simp add: put_get_u16_at)
  have "i \<in> {0, 1, 2, 3, 4, 5}" using assms(3) by (simp, presburger)
  then show ?thesis unfolding mdio_registers
    by (auto simp: parse_mdio_registers_def common_octets_parse w ro flag_canon_def consts_rcp)
qed

interpretation mdio_regs: readback_block rcp_ep_mdio_render_registers parse_mdio_registers
  mdio_reg_offset_read_only RCP_EP_MDIO_EP_FUNC_LEN "\<lambda>_. True" RCP_EP_MDIO_RECONFIG_OK
  RCP_EP_MDIO_RECONFIG_ERR_SHORT RCP_EP_MDIO_RECONFIG_ERR_OUT_OF_RANGE flag_canon
proof unfold_locales
  fix c
  show "length (rcp_ep_mdio_render_registers c) = RCP_EP_MDIO_EP_FUNC_LEN"
    by (simp add: mdio_registers consts_rcp)
  show "parse_mdio_registers c (rcp_ep_mdio_render_registers c) = c"
    by (simp add: mdio_registers parse_mdio_registers_def u16_of_octets consts_rcp)
next
  fix i d assume "mdio_reg_offset_read_only i"
  then show "flag_canon i d = d" by (auto simp: mdio_reg_offset_read_only_def flag_canon_def consts_rcp)
qed (simp_all add: mdio_parse_nth RCP_EP_MDIO_EP_FUNC_LEN_def)

section \<open>Bursts\<close>

lemma burst_next_valid:
  "rcp_ep_mdio_addr_valid a \<Longrightarrow>
   rcp_ep_mdio_addr_valid (a\<lparr>mdio_regad := rcp_ep_mdio_burst_next_regad (mdio_clause a) (mdio_regad a)\<rparr>)"
  using word_and_le1 [of "mdio_regad a + 1" "RCP_EP_MDIO_CLAUSE22_REGAD_MAX"]
  by (auto simp: rcp_ep_mdio_addr_valid_def rcp_ep_mdio_burst_next_regad_def split: if_splits)

section \<open>Words\<close>

definition words_of :: "bytes \<Rightarrow> nat \<Rightarrow> u16 list" where
  "words_of data n = map (rcp_ep_mdio_unpack_word_at data) [0..<n]"

definition mms_words_of :: "byte \<Rightarrow> bytes \<Rightarrow> nat \<Rightarrow> u32 list" where
  "mms_words_of mms data n = map (rcp_ep_mdio_mms_unpack_word_at mms data) [0..<n]"

definition mms_octets :: "byte \<Rightarrow> u32 \<Rightarrow> bytes" where
  "mms_octets mms w =
     (if mms_word_width mms = 4 then rcp_ep_mdio_word32_encode w
      else rcp_ep_mdio_word_encode (ucast (w AND 0xFFFF)))"

text \<open>A map of 16-bit words keeps the low half of a word.\<close>

definition mms_canon :: "byte \<Rightarrow> u32 \<Rightarrow> u32" where
  "mms_canon mms w = (if rcp_ep_mdio_mms_uses_32bit_words mms then w else w AND 0xFFFF)"

lemma pack_words_some:
  "ws \<noteq> [] \<Longrightarrow> rcp_ep_mdio_pack_words True ws = Some (concat (map put_u16 ws))"
  by (simp add: rcp_ep_mdio_pack_words_def rcp_ep_mdio_word_encode_def [abs_def])

lemma words_of_packed: "words_of (concat (map put_u16 ws)) (length ws) = ws"
  by (rule nth_equalityI)
    (simp_all add: words_of_def rcp_ep_mdio_unpack_word_at_def rcp_ep_mdio_word_decode_def nth_u16s mult.commute)

lemma mms_width: "mms_word_width mms = 4 \<or> mms_word_width mms = 2"
  by (simp add: mms_word_width_def)

lemma mms_octets_length [simp]: "length (mms_octets mms w) = mms_word_width mms"
  by (simp add: mms_octets_def rcp_ep_mdio_word32_encode_def rcp_ep_mdio_word_encode_def put_u16_def put_u32_def
      mms_word_width_def)

lemma mms_pack_length: "length (concat (map (mms_octets mms) ws)) = mms_word_width mms * length ws"
  by (induction ws) simp_all

lemma mms_pack_some:
  "ws \<noteq> [] \<Longrightarrow> rcp_ep_mdio_mms_pack_words True mms ws = Some (concat (map (mms_octets mms) ws))"
  by (simp add: rcp_ep_mdio_mms_pack_words_def mms_octets_def [abs_def] Let_def)

lemma mms_unpack_first: "rcp_ep_mdio_mms_unpack_word_at mms (mms_octets mms w @ r) 0 = mms_canon mms w"
proof -
  have "ucast (ucast (w AND 0xFFFF) :: u16) = w AND 0xFFFF" by (rule word32_eqI) (simp_all add: word_bits)
  then show ?thesis
    by (simp add: rcp_ep_mdio_mms_unpack_word_at_def mms_octets_def mms_canon_def mms_word_width_def
        rcp_ep_mdio_word32_encode_def rcp_ep_mdio_word32_decode_def rcp_ep_mdio_word_encode_def
        rcp_ep_mdio_word_decode_def get_put_u32 get_put_u16)
qed

lemma mms_unpack_later:
  "rcp_ep_mdio_mms_unpack_word_at mms (mms_octets mms w @ r) (Suc i) = rcp_ep_mdio_mms_unpack_word_at mms r i"
  by (simp add: rcp_ep_mdio_mms_unpack_word_at_def Let_def)

lemma mms_words_packed:
  "mms_words_of mms (concat (map (mms_octets mms) ws)) (length ws) = map (mms_canon mms) ws"
proof (induction ws)
  case (Cons w ws)
  have "map (rcp_ep_mdio_mms_unpack_word_at mms (mms_octets mms w @ r)) [0..<Suc n] =
      mms_canon mms w # mms_words_of mms r n" for r n
    by (simp add: upt_conv_Cons map_Suc_upt [symmetric] mms_words_of_def mms_unpack_first mms_unpack_later comp_def
        del: upt_Suc)
  with Cons show ?case by (simp add: mms_words_of_def del: upt_Suc)
qed (simp add: mms_words_of_def)

section \<open>Messages survive the wire\<close>

lemma mdio_request_wire:
  assumes "length p \<le> RCP_ACF_ABB_MAX_PAYLOAD" and "bus < 0x800" and "op = RCP_ACF_OP_READ \<or> op = RCP_ACF_OP_WRITE"
  shows "\<exists>f. mdio_request True bus op tn p = Some f \<and>
    (\<forall>n. mdio_request_payload (f @ rest) bus op n =
      (if length p < n then Inl RCP_EP_MDIO_ERR_SHORT_FRAME else Inr (p, tn)))"
  using request_wire [OF assms(1), of "zero_info\<lparr>bm_byte_bus_id := bus, bm_op := op, bm_evt := 0,
      bm_transaction_num := tn\<rparr>" RCP_EP_MDIO_ERR_SHORT_FRAME RCP_EP_MDIO_ERR_BAD_MSG_TYPE rest] assms(3)
  by (auto simp: mdio_request_def mdio_request_payload_def abb_canon_def info_canon_def Let_def zero_info_def
      rcp_acf_evt_row2_is_plain_def bus_canon [OF assms(2)] consts_rcp)

lemma mdio_request_too_long: "RCP_ACF_ABB_MAX_PAYLOAD < length p \<Longrightarrow> mdio_request mem bus op tn p = None"
  by (simp add: mdio_request_def rcp_acf_encode_abb_def)

lemma addr_prefix: "get_addr_prefix (put_addr_prefix a @ r) = a" "length (put_addr_prefix a) = 5"
  using get_put_u16 [of "mdio_regad a" r] by (simp_all add: get_addr_prefix_def put_addr_prefix_def put_u16_def)

lemma mms_addr_prefix: "get_mms_addr_prefix (put_mms_addr_prefix a @ r) = a" "length (put_mms_addr_prefix a) = 3"
  using get_put_u16 [of "mms_reg a" r] by (simp_all add: get_mms_addr_prefix_def put_mms_addr_prefix_def put_u16_def)

lemma mdio_count_octets:
  "n \<le> 512 \<Longrightarrow> unat (get_u16 (put_u16 (of_nat n))) = n" "0 < n \<Longrightarrow> n \<le> 512 \<Longrightarrow> get_u16 (put_u16 (of_nat n)) \<noteq> 0"
proof -
  have g: "get_u16 (put_u16 (of_nat n)) = of_nat n" using get_put_u16 [of "of_nat n" "[]"] by simp
  show "n \<le> 512 \<Longrightarrow> unat (get_u16 (put_u16 (of_nat n))) = n" unfolding g by (simp add: unat_of_nat)
  then show "0 < n \<Longrightarrow> n \<le> 512 \<Longrightarrow> get_u16 (put_u16 (of_nat n)) \<noteq> 0" by (metis less_not_refl unsigned_0)
qed

lemmas mdio_modes = rcp_ep_mdio_mode_for_word_count_def rcp_ep_mdio_mms_mode_for_word_count_def
  rcp_ep_mdio_mode_is_unsupported_mms_def

text \<open>Requests and responses of the register family for every burst that the module allows: the address, the
  words in order and the number of words come out of the wire, and the decoders of the other family refuse the
  requests.\<close>

theorem mdio_mmd_roundtrip:
  assumes "bus < 0x800" and "rcp_ep_mdio_addr_valid a" and "ws \<noteq> []" and "length ws \<le> RCP_EP_MDIO_MAX_BURST_WORDS"
  shows "\<exists>f. rcp_ep_mdio_encode_read_request True bus a (length ws) tn = Some f \<and>
      rcp_ep_mdio_decode_read_request (f @ rest) bus = Inr (a, length ws, tn) \<and>
      rcp_ep_mdio_decode_mms_read_request (f @ rest) bus = Inl RCP_EP_MDIO_ERR_WRONG_MDIO_MODE"
    and "\<exists>f data. rcp_ep_mdio_encode_write_request True True True bus a ws tn = Some f \<and>
      rcp_ep_mdio_decode_write_request (f @ rest) bus = Inr (a, data, length ws, tn) \<and>
      words_of data (length ws) = ws \<and>
      rcp_ep_mdio_decode_mms_write_request (f @ rest) bus = Inl RCP_EP_MDIO_ERR_WRONG_MDIO_MODE"
    and "\<exists>f data. rcp_ep_mdio_encode_read_response True True bus ws tn timed ts = Some f \<and>
      rcp_ep_mdio_decode_read_response (f @ rest) bus =
        Inr (data, length ws, timed, if timed then ts else 0, tn) \<and> words_of data (length ws) = ws"
proof -
  let ?n = "length ws" and ?d = "concat (map put_u16 ws)"
  let ?m = "rcp_ep_mdio_mode_for_word_count (length ws)"
  have n: "0 < ?n" "?n \<le> 512" using assms(3,4) by (simp_all add: consts_rcp)
  have m: "\<not> rcp_ep_mdio_mode_is_unsupported_mms (?m AND MDIO_MODE_MASK)" by (simp add: mdio_modes consts_rcp)
  let ?r = "[?m] @ put_addr_prefix a @ put_u16 (of_nat ?n)"
  have "length ?r \<le> RCP_ACF_ABB_MAX_PAYLOAD" by (simp add: addr_prefix consts_rcp)
  from mdio_request_wire [OF this assms(1), of RCP_ACF_OP_READ tn rest]
  show "\<exists>f. rcp_ep_mdio_encode_read_request True bus a (length ws) tn = Some f \<and>
      rcp_ep_mdio_decode_read_request (f @ rest) bus = Inr (a, length ws, tn) \<and>
      rcp_ep_mdio_decode_mms_read_request (f @ rest) bus = Inl RCP_EP_MDIO_ERR_WRONG_MDIO_MODE"
    using n m mdio_count_octets [of ?n] assms(2)
    by (auto simp: rcp_ep_mdio_encode_read_request_def rcp_ep_mdio_decode_read_request_def
        rcp_ep_mdio_decode_mms_read_request_def addr_prefix [unfolded append_Nil2] addr_prefix Let_def consts_rcp)
  let ?w = "[?m] @ put_addr_prefix a @ ?d"
  have "length ?w \<le> RCP_ACF_ABB_MAX_PAYLOAD" using n by (simp add: addr_prefix consts_rcp)
  from mdio_request_wire [OF this assms(1), of RCP_ACF_OP_WRITE tn rest]
  show "\<exists>f data. rcp_ep_mdio_encode_write_request True True True bus a ws tn = Some f \<and>
      rcp_ep_mdio_decode_write_request (f @ rest) bus = Inr (a, data, length ws, tn) \<and>
      words_of data (length ws) = ws \<and>
      rcp_ep_mdio_decode_mms_write_request (f @ rest) bus = Inl RCP_EP_MDIO_ERR_WRONG_MDIO_MODE"
    using n m assms(2,3) words_of_packed [of ws]
    by (auto simp: rcp_ep_mdio_encode_write_request_def rcp_ep_mdio_decode_write_request_def pack_words_some
        rcp_ep_mdio_decode_mms_write_request_def addr_prefix Let_def consts_rcp rcp_ep_mdio_word_count_of_def)
  have len: "length ?d \<le> RCP_ACF_GBB_MAX_PAYLOAD" using n by (simp add: consts_rcp)
  from response_wire [OF len assms(1), of RCP_ACF_OP_READ 0 tn timed ts RCP_EP_MDIO_ERR_SHORT_FRAME
      RCP_EP_MDIO_ERR_BAD_MSG_TYPE rest]
  show "\<exists>f data. rcp_ep_mdio_encode_read_response True True bus ws tn timed ts = Some f \<and>
      rcp_ep_mdio_decode_read_response (f @ rest) bus =
        Inr (data, length ws, timed, if timed then ts else 0, tn) \<and> words_of data (length ws) = ws"
    using n assms(3) words_of_packed [of ws]
    by (auto simp: rcp_ep_mdio_encode_read_response_def rcp_ep_mdio_decode_read_response_def mdio_words_response_def
        mdio_decode_words_response_def pack_words_some rcp_ep_mdio_word_count_of_def RCP_EP_MDIO_MAX_BURST_WORDS_def Let_def)
qed

theorem mdio_mmd_roundtrip_witness:
  "\<exists>f. rcp_ep_mdio_encode_read_request True 5
        \<lparr>mdio_clause = 1, mdio_prtad = 3, mdio_devad = 7, mdio_regad = 0x8000\<rparr> (length [1, 2 :: u16]) 9 = Some f \<and>
      rcp_ep_mdio_decode_read_request (f @ []) 5 =
        Inr (\<lparr>mdio_clause = 1, mdio_prtad = 3, mdio_devad = 7, mdio_regad = 0x8000\<rparr>, length [1, 2 :: u16], 9)"
proof -
  have "rcp_ep_mdio_addr_valid \<lparr>mdio_clause = 1, mdio_prtad = 3, mdio_devad = 7, mdio_regad = 0x8000\<rparr>"
    by (simp add: rcp_ep_mdio_addr_valid_def consts_rcp)
  from mdio_mmd_roundtrip(1) [OF _ this, of 5 "[1, 2]" 9 "[]"] show ?thesis by (auto simp: consts_rcp)
qed

lemma mms_response:
  assumes "bus < 0x800" and "ws \<noteq> []" and "length ws \<le> RCP_EP_MDIO_MAX_BURST_WORDS"
  shows "if mms_word_width mms * length ws \<le> response_room timed
    then \<exists>f data. mdio_mms_words_response True True bus op mms ws tn timed ts = Some f \<and>
      mdio_decode_words_response (f @ rest) bus (rcp_ep_mdio_mms_word_count_of mms) =
        Inr (data, length ws, timed, if timed then ts else 0, tn) \<and>
      mms_words_of mms data (length ws) = map (mms_canon mms) ws
    else mdio_mms_words_response True True bus op mms ws tn timed ts = None"
proof -
  let ?n = "length ws" and ?d = "concat (map (mms_octets mms) ws)"
  have n: "0 < ?n" "?n \<le> 512" using assms(2,3) by (simp_all add: consts_rcp)
  have cnt: "rcp_ep_mdio_mms_word_count_of mms (mms_word_width mms * ?n) = Some ?n"
    using mms_width [of mms] by (auto simp: rcp_ep_mdio_mms_word_count_of_def Let_def)
  have e: "mdio_mms_words_response True True bus op mms ws tn timed ts = response_frame True bus op 0 ?d tn timed ts"
    using n assms(2) by (simp add: mdio_mms_words_response_def mms_pack_some RCP_EP_MDIO_MAX_BURST_WORDS_def)
  have len: "length ?d = mms_word_width mms * ?n" by (simp add: mms_pack_length)
  show ?thesis
  proof (cases "length ?d \<le> response_room timed")
    case True
    from response_frame_fits [OF this assms(1), of op 0 tn ts RCP_EP_MDIO_ERR_SHORT_FRAME RCP_EP_MDIO_ERR_BAD_MSG_TYPE rest]
    show ?thesis unfolding e using True len n cnt mms_words_packed [of mms ws]
      by (auto simp: mdio_decode_words_response_def RCP_EP_MDIO_MAX_BURST_WORDS_def simp del: length_concat)
  next
    case False
    then show ?thesis using len response_frame_too_long [of timed ?d] by (simp add: e del: length_concat)
  qed
qed

lemma mms_messages:
  assumes "bus < 0x800" and "rcp_ep_mdio_mms_addr_valid a" and "ws \<noteq> []" and "length ws \<le> RCP_EP_MDIO_MAX_BURST_WORDS"
  shows "\<exists>f. rcp_ep_mdio_encode_mms_read_request True bus a (length ws) tn = Some f \<and>
      rcp_ep_mdio_decode_mms_read_request (f @ rest) bus = Inr (a, length ws, tn)"
    and "if 4 + mms_word_width (mms_sel a) * length ws \<le> RCP_ACF_ABB_MAX_PAYLOAD
      then \<exists>f data. rcp_ep_mdio_encode_mms_write_request True True True bus a ws tn = Some f \<and>
        rcp_ep_mdio_decode_mms_write_request (f @ rest) bus = Inr (a, data, length ws, tn) \<and>
        mms_words_of (mms_sel a) data (length ws) = map (mms_canon (mms_sel a)) ws
      else rcp_ep_mdio_encode_mms_write_request True True True bus a ws tn = None"
proof -
  let ?n = "length ws"
  let ?m = "rcp_ep_mdio_mms_mode_for_word_count (length ws)"
  have n: "0 < ?n" "?n \<le> 512" using assms(3,4) by (simp_all add: consts_rcp)
  have m: "rcp_ep_mdio_mode_is_unsupported_mms (?m AND MDIO_MODE_MASK)" by (simp add: mdio_modes consts_rcp)
  have cnt: "rcp_ep_mdio_mms_word_count_of mms (mms_word_width mms * ?n) = Some ?n" for mms
    using mms_width [of mms] by (auto simp: rcp_ep_mdio_mms_word_count_of_def Let_def)
  show "\<exists>f. rcp_ep_mdio_encode_mms_read_request True bus a (length ws) tn = Some f \<and>
      rcp_ep_mdio_decode_mms_read_request (f @ rest) bus = Inr (a, length ws, tn)"
  proof -
    have "length ([?m] @ put_mms_addr_prefix a @ put_u16 (of_nat ?n)) \<le> RCP_ACF_ABB_MAX_PAYLOAD"
      by (simp add: mms_addr_prefix consts_rcp)
    from mdio_request_wire [OF this assms(1), of RCP_ACF_OP_READ tn rest] show ?thesis
      using n m mdio_count_octets [of ?n] assms(2)
      by (auto simp: rcp_ep_mdio_encode_mms_read_request_def rcp_ep_mdio_decode_mms_read_request_def
          mms_addr_prefix Let_def consts_rcp)
  qed
  show "if 4 + mms_word_width (mms_sel a) * length ws \<le> RCP_ACF_ABB_MAX_PAYLOAD
      then \<exists>f data. rcp_ep_mdio_encode_mms_write_request True True True bus a ws tn = Some f \<and>
        rcp_ep_mdio_decode_mms_write_request (f @ rest) bus = Inr (a, data, length ws, tn) \<and>
        mms_words_of (mms_sel a) data (length ws) = map (mms_canon (mms_sel a)) ws
      else rcp_ep_mdio_encode_mms_write_request True True True bus a ws tn = None"
  proof -
    let ?d = "concat (map (mms_octets (mms_sel a)) ws)"
    let ?w = "[?m] @ put_mms_addr_prefix a @ ?d"
    have lw: "length ?w = 4 + mms_word_width (mms_sel a) * ?n" by (simp add: mms_addr_prefix mms_pack_length)
    have e: "rcp_ep_mdio_encode_mms_write_request True True True bus a ws tn = mdio_request True bus RCP_ACF_OP_WRITE tn ?w"
      using n assms(2,3) by (simp add: rcp_ep_mdio_encode_mms_write_request_def mms_pack_some consts_rcp)
    show ?thesis
    proof (cases "length ?w \<le> RCP_ACF_ABB_MAX_PAYLOAD")
      case True
      from mdio_request_wire [OF this assms(1), of RCP_ACF_OP_WRITE tn rest] obtain f where
        f: "mdio_request True bus RCP_ACF_OP_WRITE tn ?w = Some f"
        "mdio_request_payload (f @ rest) bus RCP_ACF_OP_WRITE 4 = Inr (?w, tn)" using lw by auto
      have "rcp_ep_mdio_decode_mms_write_request (f @ rest) bus = Inr (a, ?d, ?n, tn)"
        using f(2) n m assms(2) cnt [of "mms_sel a"]
        by (simp add: rcp_ep_mdio_decode_mms_write_request_def mms_addr_prefix mms_pack_length consts_rcp)
      then show ?thesis using f(1) e True lw mms_words_packed by simp
    next
      case False
      then show ?thesis using e lw mdio_request_too_long [of ?w] by simp
    qed
  qed
qed

text \<open>C34: The memory map family, for a byte bus id of 11 bits and a burst of 1 to 512 words.  A read request comes out of
  the wire.  A write request comes out of the wire with its words, cut to the width of the map, exactly if they
  fit a message, and cannot be encoded otherwise: up to 508 words of 32 bits fit.  The same holds for
  read responses and for write responses, which carry up to 509 words of 32 bits without and up to
  507 with a timestamp.  So the module accepts a read request for more words, up to its limit of 512, but has no
  response for it.\<close>

theorem mdio_mms_roundtrip:
  assumes "bus < 0x800" and "rcp_ep_mdio_mms_addr_valid a" and "ws \<noteq> []" and "length ws \<le> RCP_EP_MDIO_MAX_BURST_WORDS"
  shows "(\<exists>f. rcp_ep_mdio_encode_mms_read_request True bus a (length ws) tn = Some f \<and>
      rcp_ep_mdio_decode_mms_read_request (f @ rest) bus = Inr (a, length ws, tn)) \<and>
    (if 4 + mms_word_width (mms_sel a) * length ws \<le> RCP_ACF_ABB_MAX_PAYLOAD
      then \<exists>f data. rcp_ep_mdio_encode_mms_write_request True True True bus a ws tn = Some f \<and>
        rcp_ep_mdio_decode_mms_write_request (f @ rest) bus = Inr (a, data, length ws, tn) \<and>
        mms_words_of (mms_sel a) data (length ws) = map (mms_canon (mms_sel a)) ws
      else rcp_ep_mdio_encode_mms_write_request True True True bus a ws tn = None) \<and>
    (if mms_word_width mms * length ws \<le> (if timed then RCP_ACF_GBB_MAX_PAYLOAD else RCP_ACF_ABB_MAX_PAYLOAD)
      then (\<exists>f data. rcp_ep_mdio_encode_mms_read_response True True bus mms ws tn timed ts = Some f \<and>
          rcp_ep_mdio_decode_mms_read_response (f @ rest) bus mms =
            Inr (data, length ws, timed, if timed then ts else 0, tn) \<and>
          mms_words_of mms data (length ws) = map (mms_canon mms) ws) \<and>
        (\<exists>f data. rcp_ep_mdio_encode_mms_write_response True True bus mms ws tn timed ts = Some f \<and>
          rcp_ep_mdio_decode_mms_write_response (f @ rest) bus mms =
            Inr (data, length ws, timed, if timed then ts else 0, tn) \<and>
          mms_words_of mms data (length ws) = map (mms_canon mms) ws)
      else rcp_ep_mdio_encode_mms_read_response True True bus mms ws tn timed ts = None \<and>
        rcp_ep_mdio_encode_mms_write_response True True bus mms ws tn timed ts = None)"
  using mms_messages [OF assms, of tn rest]
    mms_response [OF assms(1,3,4), of mms timed RCP_ACF_OP_READ tn ts rest]
    mms_response [OF assms(1,3,4), of mms timed RCP_ACF_OP_WRITE tn ts rest]
  unfolding rcp_ep_mdio_encode_mms_read_response_def rcp_ep_mdio_decode_mms_read_response_def
    rcp_ep_mdio_encode_mms_write_response_def rcp_ep_mdio_decode_mms_write_response_def response_room_def
  by (intro conjI; simp split del: if_split) (simp split: if_splits)

text \<open>Words of 32 bits: 509 fit a response without a timestamp and not one with it, and 512 fit none.\<close>

theorem mdio_mms_roundtrip_witness:
  "rcp_ep_mdio_encode_mms_read_response True True 5 0 (replicate 509 7) 9 False 0 \<noteq> None \<and>
   rcp_ep_mdio_encode_mms_write_response True True 5 0 (replicate 509 7) 9 True 0 = None \<and>
   rcp_ep_mdio_encode_mms_read_response True True 5 0 (replicate 512 7) 9 False 0 = None"
proof -
  have a: "(5 :: u16) < 0x800" "rcp_ep_mdio_mms_addr_valid \<lparr>mms_sel = 0, mms_reg = 0\<rparr>"
    by (simp_all add: rcp_ep_mdio_mms_addr_valid_def)
  have w: "mms_word_width 0 = 4" by (simp add: mms_word_width_def rcp_ep_mdio_mms_uses_32bit_words_def)
  note r = mdio_mms_roundtrip [OF a, where mms = 0]
  show ?thesis
    using r [of "replicate 509 7" 9 "[]" False 0] r [of "replicate 509 7" 9 "[]" True 0] r [of "replicate 512 7" 9 "[]" False 0]
    by (auto simp: w consts_rcp)
qed

end
