(* ===== verification/Monitors.thy ===== *)
theory Monitors
  imports E2e Tables
begin

text \<open>
  \<^verbatim>\<open>src/watchdog.c\<close> and \<^verbatim>\<open>src/deadline.c\<close>: the watchdog keeper and the deadline monitor, two tables
  of streams that a background thread evaluates against the clock.

  \<open>now_ms\<close> is the value of \<^verbatim>\<open>rcp_monotonic_ms\<close>, \<open>mem\<close> the outcome of the allocation and
  \<open>thr\<close> whether the thread could be started.  A callback is a pair of numbers, the function and its
  context; a call is recorded with its event.  The operations of the keeper are single steps, because they
  change the table only under the mutex.  Those of the monitor decide under the mutex and act later under
  it again, so that they are split at that point: \<open>decide_heartbeat\<close>, \<open>decide_overflow\<close>, \<open>decide_check\<close>
  are the first critical sections and \<open>emit\<close> the second.  \<open>poll_wait\<close> is the waiting loop that both
  threads share.
\<close>

section \<open>The waiting loop\<close>

text \<open>A sleep of the loop: it is not zero and does not pass the interval.\<close>

lemma chunk_progress:
  fixes p w :: u64
  assumes "w < p" and "c = (if p - w < 5 then p - w else 5)" and "d = (if c = 0 then 1 else c)"
  shows "unat (w + d) = unat w + unat d" "unat w + unat d \<le> unat p" "0 < unat d" "unat d \<le> 5" "d = c"
proof -
  have g: "unat (p - w) = unat p - unat w" using assms(1) by (intro unat_sub) (simp add: less_imp_le)
  have pos: "0 < unat p - unat w" using assms(1) by (simp add: word_less_nat_alt)
  have "c \<noteq> 0" using assms(2) g pos by (auto simp: unat_eq_0 [symmetric] simp del: unat_eq_0)
  then have d: "d = c" using assms(3) by simp
  have c: "unat c = min (unat p - unat w) 5"
    using assms(2) g by (auto simp: word_less_nat_alt min_def)
  then show le: "unat w + unat d \<le> unat p" using d pos by simp
  show "0 < unat d" "unat d \<le> 5" "d = c" using c d pos by simp_all
  show "unat (w + d) = unat w + unat d"
    using le unsigned_less [of p, where 'a = nat] by (simp add: unat_word_ariths)
qed

text \<open>\<open>closed\<close> tells what the thread reads at each turn; the result is the list of sleeps.\<close>

function poll_wait :: "(nat \<Rightarrow> bool) \<Rightarrow> nat \<Rightarrow> u64 \<Rightarrow> u64 \<Rightarrow> u64 list" where
  "poll_wait closed k poll_interval_ms waited_ms =
     (if waited_ms < poll_interval_ms then
        (let chunk = (if poll_interval_ms - waited_ms < 5 then poll_interval_ms - waited_ms else 5);
             chunk = (if chunk = 0 then 1 else chunk)
         in if closed k then []
            else chunk # poll_wait closed (k + 1) poll_interval_ms (waited_ms + chunk))
      else [])"
  by pat_completeness auto

termination
proof (relation "measure (\<lambda>(closed, k, p, w). unat p - unat w)")
  fix closed k and p w chunk d :: u64
  assume a: "w < p" "chunk = (if p - w < 5 then p - w else 5)" "d = (if chunk = 0 then 1 else chunk)"
  from chunk_progress [OF this] show "((closed, k + 1, p, w + d), (closed, k, p, w)) \<in>
      measure (\<lambda>(closed, k, p, w). unat p - unat w)"
    by simp
qed simp

declare poll_wait.simps [simp del]

section \<open>The watchdog keeper\<close>

definition RCP_WATCHDOG_MAX_STREAMS :: nat where [consts_rcp]: "RCP_WATCHDOG_MAX_STREAMS = 16"
definition RCP_WATCHDOG_MAX_CALLBACKS :: nat where [consts_rcp]: "RCP_WATCHDOG_MAX_CALLBACKS = 16"

record rcp_watchdog_stream_cfg_t =
  wd_stream_id :: u64
  rx_wd_enable :: bool
  rx_wd_timeout_ms :: u32
  rx_wd_safestate_enable :: bool
  rx_wd_info_enable :: bool

record rcp_watchdog_event_t =
  wev_stream_id :: u64
  wev_result :: rcp_e2e_wd_result_t

record stream_state_t =
  ss_cfg :: rcp_watchdog_stream_cfg_t
  last_kick_ms :: u64
  last_result :: rcp_e2e_wd_result_t

record rcp_watchdog_keeper_t =
  wd_poll_interval_ms :: u64
  wd_states :: "stream_state_t list"
  wd_callbacks :: "(nat \<times> nat) list"
  wd_closed :: bool
  wd_have_run_thread :: bool

type_synonym wd_calls = "((nat \<times> nat) \<times> rcp_watchdog_event_t) list"

definition rcp_watchdog_default_config :: u64 where
  "rcp_watchdog_default_config = 10"

definition no_overflow :: rcp_e2e_wd_result_t where
  "no_overflow = \<lparr>overflowed = False, wd_enter_safe_state = False, notify = False\<rparr>"

definition wd_find_state :: "rcp_watchdog_keeper_t \<Rightarrow> u64 \<Rightarrow> nat option" where
  "wd_find_state k stream_id = find_index (\<lambda>s. wd_stream_id (ss_cfg s) = stream_id) (wd_states k)"

definition wd_callbacks_append ::
    "rcp_watchdog_keeper_t \<Rightarrow> nat \<Rightarrow> nat \<Rightarrow> bool \<times> rcp_watchdog_keeper_t" where
  "wd_callbacks_append k cb user_data =
     (if length (wd_callbacks k) = RCP_WATCHDOG_MAX_CALLBACKS then (False, k)
      else (True, k\<lparr>wd_callbacks := wd_callbacks k @ [(cb, user_data)]\<rparr>))"

definition wd_result_equal :: "rcp_e2e_wd_result_t \<Rightarrow> rcp_e2e_wd_result_t \<Rightarrow> bool" where
  "wd_result_equal a b \<longleftrightarrow> overflowed a = overflowed b \<and>
     wd_enter_safe_state a = wd_enter_safe_state b \<and> notify a = notify b"

definition elapsed_since :: "u64 \<Rightarrow> u64 \<Rightarrow> u64" where
  "elapsed_since now_ms t = (if now_ms \<ge> t then now_ms - t else 0)"

definition evaluate_stream ::
    "(nat \<times> nat) list \<Rightarrow> stream_state_t \<Rightarrow> u64 \<Rightarrow> stream_state_t \<times> wd_calls" where
  "evaluate_stream callbacks st now_ms =
     (let elapsed = elapsed_since now_ms (last_kick_ms st);
          result = rcp_e2e_wd_evaluate (rx_wd_enable (ss_cfg st)) (rx_wd_timeout_ms (ss_cfg st))
                     (rx_wd_safestate_enable (ss_cfg st)) (rx_wd_info_enable (ss_cfg st)) elapsed
      in if \<not> wd_result_equal result (last_result st)
         then (st\<lparr>last_result := result\<rparr>,
               map (\<lambda>cb. (cb, \<lparr>wev_stream_id = wd_stream_id (ss_cfg st), wev_result = result\<rparr>)) callbacks)
         else (st, []))"

definition evaluate_all ::
    "rcp_watchdog_keeper_t \<Rightarrow> u64 \<Rightarrow> rcp_watchdog_keeper_t \<times> wd_calls" where
  "evaluate_all k now_ms =
     (let rs = map (\<lambda>st. evaluate_stream (wd_callbacks k) st now_ms) (wd_states k)
      in (k\<lparr>wd_states := map fst rs\<rparr>, concat (map snd rs)))"

text \<open>One turn of the thread: nothing when the keeper is closed, which ends the thread.\<close>

definition wd_run_turn ::
    "rcp_watchdog_keeper_t \<Rightarrow> u64 \<Rightarrow> (rcp_watchdog_keeper_t \<times> wd_calls) option" where
  "wd_run_turn k now_ms = (if wd_closed k then None else Some (evaluate_all k now_ms))"

definition rcp_watchdog_keeper_new ::
    "bool \<Rightarrow> bool \<Rightarrow> u64 \<Rightarrow> u64 \<Rightarrow> rcp_watchdog_stream_cfg_t list \<Rightarrow> rcp_watchdog_keeper_t option" where
  "rcp_watchdog_keeper_new mem thr now_ms poll streams =
     (if length streams > RCP_WATCHDOG_MAX_STREAMS then None
      else if \<not> mem then None
      else
        let k = \<lparr>wd_poll_interval_ms = poll,
                 wd_states = map (\<lambda>c. \<lparr>ss_cfg = c, last_kick_ms = now_ms, last_result = no_overflow\<rparr>) streams,
                 wd_callbacks = [], wd_closed = False, wd_have_run_thread = False\<rparr>;
            k = fst (evaluate_all k now_ms)
        in Some (if thr then k\<lparr>wd_have_run_thread := True\<rparr> else k))"

definition rcp_watchdog_keeper_kick ::
    "rcp_watchdog_keeper_t \<Rightarrow> u64 \<Rightarrow> u64 \<Rightarrow> bool \<times> rcp_watchdog_keeper_t" where
  "rcp_watchdog_keeper_kick k stream_id now_ms =
     (case wd_find_state k stream_id of
        None \<Rightarrow> (False, k)
      | Some i \<Rightarrow> (True, k\<lparr>wd_states := (wd_states k)[i := (wd_states k ! i)\<lparr>last_kick_ms := now_ms\<rparr>]\<rparr>))"

definition rcp_watchdog_keeper_status :: "rcp_watchdog_keeper_t \<Rightarrow> u64 \<Rightarrow> rcp_e2e_wd_result_t" where
  "rcp_watchdog_keeper_status k stream_id =
     (case wd_find_state k stream_id of
        None \<Rightarrow> no_overflow
      | Some i \<Rightarrow> last_result (wd_states k ! i))"

definition rcp_watchdog_keeper_subscribe ::
    "rcp_watchdog_keeper_t \<Rightarrow> nat \<Rightarrow> nat \<Rightarrow> bool \<times> rcp_watchdog_keeper_t" where
  "rcp_watchdog_keeper_subscribe k cb user_data = wd_callbacks_append k cb user_data"

definition rcp_watchdog_keeper_close :: "rcp_watchdog_keeper_t \<Rightarrow> rcp_watchdog_keeper_t" where
  "rcp_watchdog_keeper_close k = k\<lparr>wd_closed := True, wd_have_run_thread := False\<rparr>"

section \<open>The deadline monitor\<close>

definition RCP_DEADLINE_MAX_STREAMS :: nat where [consts_rcp]: "RCP_DEADLINE_MAX_STREAMS = 16"
definition RCP_DEADLINE_MAX_CALLBACKS :: nat where [consts_rcp]: "RCP_DEADLINE_MAX_CALLBACKS = 16"

record rcp_deadline_config_t =
  default_deadline_ms :: u64
  dl_poll_interval_ms :: u64

record rcp_deadline_stream_cfg_t =
  dcfg_stream_id :: u64
  dcfg_deadline_ms :: u64

record rcp_liveness_event_t =
  lev_stream_id :: u64
  lev_alive :: bool

record stream_watch_t =
  sw_stream_id :: u64
  deadline_ms :: u64
  last_signal_ms :: u64
  alive :: bool
  ever_reported :: bool

record rcp_deadline_monitor_t =
  dl_cfg :: rcp_deadline_config_t
  dl_states :: "stream_watch_t list"
  dl_callbacks :: "(nat \<times> nat) list"
  dl_closed :: bool
  dl_have_run_thread :: bool

type_synonym dl_calls = "((nat \<times> nat) \<times> rcp_liveness_event_t) list"

definition rcp_deadline_default_config :: rcp_deadline_config_t where
  "rcp_deadline_default_config = \<lparr>default_deadline_ms = 50, dl_poll_interval_ms = 5\<rparr>"

definition dl_find_state :: "rcp_deadline_monitor_t \<Rightarrow> u64 \<Rightarrow> nat option" where
  "dl_find_state m stream_id = find_index (\<lambda>s. sw_stream_id s = stream_id) (dl_states m)"

definition dl_callbacks_append ::
    "rcp_deadline_monitor_t \<Rightarrow> nat \<Rightarrow> nat \<Rightarrow> bool \<times> rcp_deadline_monitor_t" where
  "dl_callbacks_append m cb user_data =
     (if length (dl_callbacks m) = RCP_DEADLINE_MAX_CALLBACKS then (False, m)
      else (True, m\<lparr>dl_callbacks := dl_callbacks m @ [(cb, user_data)]\<rparr>))"

definition dl_emit :: "rcp_deadline_monitor_t \<Rightarrow> nat \<Rightarrow> bool \<Rightarrow> rcp_deadline_monitor_t \<times> dl_calls" where
  "dl_emit m i a =
     (m\<lparr>dl_states := (dl_states m)[i := (dl_states m ! i)\<lparr>alive := a, ever_reported := True\<rparr>]\<rparr>,
      map (\<lambda>cb. (cb, \<lparr>lev_stream_id = sw_stream_id (dl_states m ! i), lev_alive = a\<rparr>)) (dl_callbacks m))"

text \<open>The first critical section of a heartbeat: the entry, whether it was alive, and the new table.\<close>

definition decide_heartbeat ::
    "rcp_deadline_monitor_t \<Rightarrow> u64 \<Rightarrow> u64 \<Rightarrow> (nat \<times> bool) option \<times> rcp_deadline_monitor_t" where
  "decide_heartbeat m stream_id now_ms =
     (case dl_find_state m stream_id of
        None \<Rightarrow> (None, m)
      | Some i \<Rightarrow>
          (Some (i, alive (dl_states m ! i)),
           m\<lparr>dl_states := (dl_states m)[i := (dl_states m ! i)\<lparr>last_signal_ms := now_ms\<rparr>]\<rparr>))"

definition rcp_deadline_monitor_heartbeat ::
    "rcp_deadline_monitor_t \<Rightarrow> u64 \<Rightarrow> u64 \<Rightarrow> bool \<times> rcp_deadline_monitor_t \<times> dl_calls" where
  "rcp_deadline_monitor_heartbeat m stream_id now_ms =
     (case decide_heartbeat m stream_id now_ms of
        (None, m) \<Rightarrow> (False, m, [])
      | (Some (i, was_alive), m) \<Rightarrow>
          if \<not> was_alive then (let (m, calls) = dl_emit m i True in (True, m, calls)) else (True, m, []))"

definition decide_overflow :: "rcp_deadline_monitor_t \<Rightarrow> u64 \<Rightarrow> (nat \<times> bool) option" where
  "decide_overflow m stream_id =
     (case dl_find_state m stream_id of
        None \<Rightarrow> None
      | Some i \<Rightarrow> Some (i, alive (dl_states m ! i) \<or> \<not> ever_reported (dl_states m ! i)))"

definition rcp_deadline_monitor_notify_overflow ::
    "rcp_deadline_monitor_t \<Rightarrow> u64 \<Rightarrow> bool \<times> rcp_deadline_monitor_t \<times> dl_calls" where
  "rcp_deadline_monitor_notify_overflow m stream_id =
     (case decide_overflow m stream_id of
        None \<Rightarrow> (False, m, [])
      | Some (i, should_emit) \<Rightarrow>
          if should_emit then (let (m, calls) = dl_emit m i False in (True, m, calls)) else (True, m, []))"

definition decide_check :: "rcp_deadline_monitor_t \<Rightarrow> nat \<Rightarrow> u64 \<Rightarrow> bool" where
  "decide_check m i now_ms =
     (let st = dl_states m ! i
      in elapsed_since now_ms (last_signal_ms st) \<ge> deadline_ms st \<and> (alive st \<or> \<not> ever_reported st))"

text \<open>The loop over the entries from \<open>i\<close> on, \<open>n\<close> of them left.\<close>

fun check_from :: "rcp_deadline_monitor_t \<Rightarrow> u64 \<Rightarrow> nat \<Rightarrow> nat \<Rightarrow> rcp_deadline_monitor_t \<times> dl_calls" where
  "check_from m now_ms i 0 = (m, [])"
| "check_from m now_ms i (Suc n) =
     (let (m, calls) = (if decide_check m i now_ms then dl_emit m i False else (m, []));
          (m, more_calls) = check_from m now_ms (i + 1) n
      in (m, calls @ more_calls))"

definition check_deadlines :: "rcp_deadline_monitor_t \<Rightarrow> u64 \<Rightarrow> rcp_deadline_monitor_t \<times> dl_calls" where
  "check_deadlines m now_ms = check_from m now_ms 0 (length (dl_states m))"

definition dl_run_turn ::
    "rcp_deadline_monitor_t \<Rightarrow> u64 \<Rightarrow> (rcp_deadline_monitor_t \<times> dl_calls) option" where
  "dl_run_turn m now_ms = (if dl_closed m then None else Some (check_deadlines m now_ms))"

definition rcp_deadline_monitor_new ::
    "bool \<Rightarrow> bool \<Rightarrow> u64 \<Rightarrow> rcp_deadline_config_t \<Rightarrow> rcp_deadline_stream_cfg_t list \<Rightarrow>
     rcp_deadline_monitor_t option" where
  "rcp_deadline_monitor_new mem thr now_ms cfg streams =
     (if length streams > RCP_DEADLINE_MAX_STREAMS then None
      else if \<not> mem then None
      else Some \<lparr>dl_cfg = cfg,
        dl_states = map (\<lambda>c.
          \<lparr>sw_stream_id = dcfg_stream_id c,
           deadline_ms = if dcfg_deadline_ms c \<noteq> 0 then dcfg_deadline_ms c else default_deadline_ms cfg,
           last_signal_ms = now_ms, alive = False, ever_reported = False\<rparr>) streams,
        dl_callbacks = [], dl_closed = False, dl_have_run_thread = thr\<rparr>)"

definition rcp_deadline_monitor_alive :: "rcp_deadline_monitor_t \<Rightarrow> u64 \<Rightarrow> bool" where
  "rcp_deadline_monitor_alive m stream_id =
     (case dl_find_state m stream_id of
        None \<Rightarrow> False
      | Some i \<Rightarrow> alive (dl_states m ! i))"

definition rcp_deadline_monitor_subscribe ::
    "rcp_deadline_monitor_t \<Rightarrow> nat \<Rightarrow> nat \<Rightarrow> bool \<times> rcp_deadline_monitor_t" where
  "rcp_deadline_monitor_subscribe m cb user_data = dl_callbacks_append m cb user_data"

definition rcp_deadline_monitor_close :: "rcp_deadline_monitor_t \<Rightarrow> rcp_deadline_monitor_t" where
  "rcp_deadline_monitor_close m = m\<lparr>dl_closed := True, dl_have_run_thread := False\<rparr>"

section \<open>The waiting loop waits for the poll interval\<close>

lemma poll_wait_total:
  "(\<And>j. \<not> closed j) \<Longrightarrow> waited \<le> poll \<Longrightarrow>
   sum_list (map unat (poll_wait closed k poll waited)) = unat poll - unat waited \<and>
   (\<forall>c\<in>set (poll_wait closed k poll waited). 0 < unat c \<and> unat c \<le> 5)"
proof (induction closed k poll waited rule: poll_wait.induct)
  case (1 closed k p w)
  show ?case
  proof (cases "w < p")
    case False
    then show ?thesis using 1(3) by (subst (1 2) poll_wait.simps) simp
  next
    case True
    define c where "c = (if p - w < 5 then p - w else 5)"
    define d where "d = (if c = 0 then 1 else c)"
    note f = chunk_progress [OF True c_def d_def]
    have e: "poll_wait closed k p w = d # poll_wait closed (k + 1) p (w + d)"
      using True 1(2) by (subst poll_wait.simps) (simp add: c_def d_def Let_def)
    have le: "w + d \<le> p" using f(1,2) by (simp add: word_le_nat_alt)
    have "\<not> closed k" by (rule 1(2))
    from 1(1) [OF True c_def d_def this 1(2) le] f
    show ?thesis unfolding e by auto
  qed
qed

text \<open>the waiting loop of the two background threads ends, sleeps at most five milliseconds at a time,
  never zero, and as long as nobody closes the monitor the sleeps add up to exactly the poll interval.\<close>

theorem poll_wait_exact:
  assumes "\<And>j. \<not> closed j"
  shows "sum_list (map unat (poll_wait closed k poll 0)) = unat poll \<and>
    (\<forall>c\<in>set (poll_wait closed k poll 0). 0 < unat c \<and> unat c \<le> 5)"
  using poll_wait_total [of closed 0 poll k, OF assms] by simp

theorem poll_wait_exact_witness:
  "sum_list (map unat (poll_wait (\<lambda>_. False) 0 12 0)) = 12"
  using poll_wait_exact [of "\<lambda>_. False" 0 12] by simp

section \<open>What the watchdog reports\<close>

lemma table_get_map:
  "(\<And>x. key (f x) = key x) \<Longrightarrow> table_get key (map f xs) k = map_option f (table_get key xs k)"
  by (induction xs) (auto simp: table_get_Cons)

text \<open>Operations on a keeper over time, and the time of the latest kick of a stream.\<close>

datatype wd_op = Kick u64 u64 | Poll u64

fun wd_exec :: "rcp_watchdog_keeper_t \<Rightarrow> wd_op \<Rightarrow> rcp_watchdog_keeper_t" where
  "wd_exec k (Kick stream_id t) = snd (rcp_watchdog_keeper_kick k stream_id t)"
| "wd_exec k (Poll t) = fst (evaluate_all k t)"

fun latest_kick :: "u64 \<Rightarrow> u64 \<Rightarrow> wd_op list \<Rightarrow> u64" where
  "latest_kick t0 stream_id [] = t0"
| "latest_kick t0 stream_id (Kick s t # ops) = latest_kick (if s = stream_id then t else t0) stream_id ops"
| "latest_kick t0 stream_id (Poll t # ops) = latest_kick t0 stream_id ops"

abbreviation wd_entry :: "rcp_watchdog_keeper_t \<Rightarrow> u64 \<Rightarrow> stream_state_t option" where
  "wd_entry k \<equiv> table_get (\<lambda>s. wd_stream_id (ss_cfg s)) (wd_states k)"

lemma evaluate_stream_keeps:
  "ss_cfg (fst (evaluate_stream cbs st t)) = ss_cfg st"
  "last_kick_ms (fst (evaluate_stream cbs st t)) = last_kick_ms st"
  by (simp_all add: evaluate_stream_def Let_def)

lemma evaluate_stream_result:
  "last_result (fst (evaluate_stream cbs st t)) =
     rcp_e2e_wd_evaluate (rx_wd_enable (ss_cfg st)) (rx_wd_timeout_ms (ss_cfg st))
       (rx_wd_safestate_enable (ss_cfg st)) (rx_wd_info_enable (ss_cfg st)) (elapsed_since t (last_kick_ms st))"
  by (auto simp: evaluate_stream_def Let_def wd_result_equal_def)

lemma wd_entry_evaluate:
  "wd_entry (fst (evaluate_all k t)) sid = map_option (\<lambda>st. fst (evaluate_stream (wd_callbacks k) st t)) (wd_entry k sid)"
  by (simp add: evaluate_all_def Let_def comp_def table_get_map evaluate_stream_keeps(1))

lemma wd_entry_kick:
  "wd_entry (snd (rcp_watchdog_keeper_kick k s t)) sid =
     map_option (\<lambda>st. if s = sid then st\<lparr>last_kick_ms := t\<rparr> else st) (wd_entry k sid)"
proof (cases "wd_find_state k s")
  case None
  then have "wd_entry k s = None" by (simp add: wd_find_state_def table_get_missing)
  with None show ?thesis by (auto simp: rcp_watchdog_keeper_kick_def map_option_case split: option.splits)
next
  case (Some i)
  then have f: "find_index (\<lambda>e. wd_stream_id (ss_cfg e) = s) (wd_states k) = Some i"
    by (simp add: wd_find_state_def)
  from table_get_found [OF f] have g: "wd_entry k s = Some (wd_states k ! i)" "wd_stream_id (ss_cfg (wd_states k ! i)) = s"
    by auto
  show ?thesis using Some g table_get_update [OF f, of "(wd_states k ! i)\<lparr>last_kick_ms := t\<rparr>" sid]
    by (auto simp: rcp_watchdog_keeper_kick_def map_option_case split: option.splits)
qed

lemma wd_run_entry:
  assumes "wd_entry k sid = Some st"
  shows "\<exists>st'. wd_entry (foldl wd_exec k ops) sid = Some st' \<and> ss_cfg st' = ss_cfg st \<and>
    last_kick_ms st' = latest_kick (last_kick_ms st) sid ops"
  using assms
proof (induction ops arbitrary: k st)
  case (Cons op ops)
  show ?case
  proof (cases op)
    case (Kick s t)
    with Cons.prems have "wd_entry (wd_exec k op) sid = Some (if s = sid then st\<lparr>last_kick_ms := t\<rparr> else st)"
      by (simp add: wd_entry_kick)
    from Cons.IH [OF this] Kick show ?thesis by (auto split: if_splits)
  next
    case (Poll t)
    with Cons.prems have "wd_entry (wd_exec k op) sid = Some (fst (evaluate_stream (wd_callbacks k) st t))"
      by (simp add: wd_entry_evaluate)
    from Cons.IH [OF this] Poll show ?thesis by (auto simp: evaluate_stream_keeps)
  qed
qed simp

lemma wd_status_entry:
  "rcp_watchdog_keeper_status k sid = (case wd_entry k sid of None \<Rightarrow> no_overflow | Some st \<Rightarrow> last_result st)"
  by (auto simp: rcp_watchdog_keeper_status_def wd_find_state_def table_get_def split: option.splits)

text \<open>Whatever kicks and evaluations came before, an evaluation at time \<open>t\<close> leaves every registered
  stream with the verdict of its own configuration for the time since its latest kick, or since the keeper
  was made if there was none; kicks of other streams have no influence.  In particular an enabled watchdog
  has overflowed exactly when that time has reached the timeout.\<close>

theorem watchdog_status_exact:
  assumes "rcp_watchdog_keeper_new True thr t0 poll streams = Some k"
    and "table_get wd_stream_id streams sid = Some c"
  shows "rcp_watchdog_keeper_status (fst (evaluate_all (foldl wd_exec k ops) t)) sid =
      rcp_e2e_wd_evaluate (rx_wd_enable c) (rx_wd_timeout_ms c) (rx_wd_safestate_enable c) (rx_wd_info_enable c)
        (elapsed_since t (latest_kick t0 sid ops)) \<and>
    (overflowed (rcp_watchdog_keeper_status (fst (evaluate_all (foldl wd_exec k ops) t)) sid) \<longleftrightarrow>
      rx_wd_enable c \<and> ucast (rx_wd_timeout_ms c) \<le> elapsed_since t (latest_kick t0 sid ops))"
proof -
  let ?init = "\<lambda>c. \<lparr>ss_cfg = c, last_kick_ms = t0, last_result = no_overflow\<rparr>"
  have get: "table_get (\<lambda>s. wd_stream_id (ss_cfg s)) (map ?init streams) sid = map_option ?init (table_get wd_stream_id streams sid)"
    by (induction streams) (auto simp: table_get_Cons)
  define k0 where "k0 = \<lparr>wd_poll_interval_ms = poll, wd_states = map ?init streams, wd_callbacks = [],
      wd_closed = False, wd_have_run_thread = False\<rparr>"
  have "wd_states k = wd_states (fst (evaluate_all k0 t0))"
    using assms(1) by (auto simp: rcp_watchdog_keeper_new_def Let_def k0_def split: if_splits)
  then have "wd_entry k sid = map_option (\<lambda>st. fst (evaluate_stream (wd_callbacks k0) st t0)) (wd_entry k0 sid)"
    using wd_entry_evaluate [of k0 t0 sid] by simp
  then have "\<exists>st. wd_entry k sid = Some st \<and> ss_cfg st = c \<and> last_kick_ms st = t0"
    using get assms(2) by (simp add: k0_def evaluate_stream_keeps)
  then obtain st where "wd_entry k sid = Some st" "ss_cfg st = c" "last_kick_ms st = t0" by blast
  with wd_run_entry [OF this(1), of ops] obtain st' where
    "wd_entry (foldl wd_exec k ops) sid = Some st'" "ss_cfg st' = c" "last_kick_ms st' = latest_kick t0 sid ops" by auto
  then have "rcp_watchdog_keeper_status (fst (evaluate_all (foldl wd_exec k ops) t)) sid =
      rcp_e2e_wd_evaluate (rx_wd_enable c) (rx_wd_timeout_ms c) (rx_wd_safestate_enable c) (rx_wd_info_enable c)
        (elapsed_since t (latest_kick t0 sid ops))"
    by (simp add: wd_status_entry wd_entry_evaluate evaluate_stream_result)
  then show ?thesis by (simp add: rcp_e2e_wd_evaluate_def Let_def)
qed

theorem watchdog_status_exact_witness:
  "\<exists>k. rcp_watchdog_keeper_new True True 0 10
      [\<lparr>wd_stream_id = 7, rx_wd_enable = True, rx_wd_timeout_ms = 20, rx_wd_safestate_enable = True,
        rx_wd_info_enable = False\<rparr>] = Some k \<and>
    overflowed (rcp_watchdog_keeper_status (fst (evaluate_all (foldl wd_exec k [Kick 7 15, Poll 30, Kick 8 34]) 36)) 7) \<and>
    \<not> overflowed (rcp_watchdog_keeper_status (fst (evaluate_all (foldl wd_exec k [Kick 7 15, Poll 30, Kick 7 34]) 36)) 7)"
proof -
  let ?c = "\<lparr>wd_stream_id = 7, rx_wd_enable = True, rx_wd_timeout_ms = 20, rx_wd_safestate_enable = True,
        rx_wd_info_enable = False\<rparr>"
  obtain k where k: "rcp_watchdog_keeper_new True True 0 10 [?c] = Some k"
    by (auto simp: rcp_watchdog_keeper_new_def Let_def consts_rcp)
  have c: "table_get wd_stream_id [?c] 7 = Some ?c" by (simp add: table_get_Cons)
  show ?thesis
    using k watchdog_status_exact [OF k c, of "[Kick 7 15, Poll 30, Kick 8 34]" 36]
      watchdog_status_exact [OF k c, of "[Kick 7 15, Poll 30, Kick 7 34]" 36]
    by (auto simp: elapsed_since_def rcp_e2e_wd_evaluate_def Let_def)
qed

section \<open>What the deadline monitor reports\<close>

text \<open>Operations on a monitor, run one after the other, with the calls they make.\<close>

datatype dl_op = Heartbeat u64 u64 | Overflow u64 | Check u64

fun dl_exec :: "rcp_deadline_monitor_t \<Rightarrow> dl_op \<Rightarrow> rcp_deadline_monitor_t \<times> dl_calls" where
  "dl_exec m (Heartbeat s t) = snd (rcp_deadline_monitor_heartbeat m s t)"
| "dl_exec m (Overflow s) = snd (rcp_deadline_monitor_notify_overflow m s)"
| "dl_exec m (Check t) = check_deadlines m t"

fun dl_run :: "rcp_deadline_monitor_t \<Rightarrow> dl_op list \<Rightarrow> rcp_deadline_monitor_t \<times> dl_calls" where
  "dl_run m [] = (m, [])"
| "dl_run m (op # ops) = (let (m, c1) = dl_exec m op; (m, c2) = dl_run m ops in (m, c1 @ c2))"

text \<open>The reports about one stream, and their relation to an entry of the table.\<close>

definition reports :: "u64 \<Rightarrow> dl_calls \<Rightarrow> bool list" where
  "reports s calls = map (\<lambda>c. lev_alive (snd c)) (filter (\<lambda>c. lev_stream_id (snd c) = s) calls)"

definition entry_reports :: "stream_watch_t \<Rightarrow> bool list \<Rightarrow> bool" where
  "entry_reports st es \<longleftrightarrow> successively (\<noteq>) es \<and>
     (if ever_reported st then es \<noteq> [] \<and> last es = alive st else es = [] \<and> \<not> alive st)"

definition dl_inv :: "(nat \<times> nat) \<Rightarrow> u64 list \<Rightarrow> rcp_deadline_monitor_t \<Rightarrow> dl_calls \<Rightarrow> bool" where
  "dl_inv cb ids m calls \<longleftrightarrow> dl_callbacks m = [cb] \<and> distinct ids \<and> map sw_stream_id (dl_states m) = ids \<and>
     (\<forall>st\<in>set (dl_states m). entry_reports st (reports (sw_stream_id st) calls))"

lemma reports_append [simp]: "reports s (a @ b) = reports s a @ reports s b"
  by (simp add: reports_def)

lemma successively_snoc: "successively P (xs @ [x]) \<longleftrightarrow> successively P xs \<and> (xs = [] \<or> P (last xs) x)"
  by (auto simp: successively_append_iff)

lemma distinct_key_nth:
  "distinct (map f xs) \<Longrightarrow> i < length xs \<Longrightarrow> x \<in> set (xs[i := y]) \<Longrightarrow>
   x = y \<or> x \<in> set xs \<and> f x \<noteq> f (xs ! i)"
  by (auto simp: in_set_conv_nth distinct_conv_nth nth_list_update split: if_splits)

lemma dl_emit_inv:
  assumes "dl_inv cb ids m calls" and "i < length (dl_states m)"
    and "alive (dl_states m ! i) \<noteq> a \<or> \<not> ever_reported (dl_states m ! i)"
  shows "dl_inv cb ids (fst (dl_emit m i a)) (calls @ snd (dl_emit m i a))"
proof -
  let ?st = "dl_states m ! i"
  let ?new = "?st\<lparr>alive := a, ever_reported := True\<rparr>"
  have i: "entry_reports ?st (reports (sw_stream_id ?st) calls)" using assms(1,2) by (simp add: dl_inv_def)
  have cbs: "snd (dl_emit m i a) = [(cb, \<lparr>lev_stream_id = sw_stream_id ?st, lev_alive = a\<rparr>)]"
    using assms(1) by (simp add: dl_emit_def dl_inv_def)
  have new: "entry_reports ?new (reports (sw_stream_id ?st) (calls @ snd (dl_emit m i a)))"
    using i assms(3) unfolding cbs by (auto simp: entry_reports_def reports_def successively_snoc split: if_splits)
  have ids: "map sw_stream_id ((dl_states m)[i := ?new]) = map sw_stream_id (dl_states m)"
    using assms(2) by (simp add: map_update list_update_same_conv)
  have "entry_reports st (reports (sw_stream_id st) (calls @ snd (dl_emit m i a)))"
    if "st \<in> set ((dl_states m)[i := ?new])" for st
  proof -
    have d: "distinct (map sw_stream_id (dl_states m))" using assms(1) by (simp add: dl_inv_def)
    from distinct_key_nth [OF d assms(2) that] show ?thesis
    proof
      assume "st = ?new"
      with new show ?thesis by simp
    next
      assume "st \<in> set (dl_states m) \<and> sw_stream_id st \<noteq> sw_stream_id ?st"
      with assms(1) show ?thesis unfolding cbs by (auto simp: dl_inv_def reports_def)
    qed
  qed
  with assms(1) ids show ?thesis by (simp add: dl_inv_def dl_emit_def)
qed

lemma dl_signal_inv:
  assumes "dl_inv cb ids m calls" and "i < length (dl_states m)"
  shows "dl_inv cb ids (m\<lparr>dl_states := (dl_states m)[i := (dl_states m ! i)\<lparr>last_signal_ms := t\<rparr>]\<rparr>) calls"
proof -
  let ?new = "(dl_states m ! i)\<lparr>last_signal_ms := t\<rparr>"
  have "map sw_stream_id ((dl_states m)[i := ?new]) = map sw_stream_id (dl_states m)"
    using assms(2) by (simp add: map_update list_update_same_conv)
  moreover have "entry_reports st (reports (sw_stream_id st) calls)" if "st \<in> set ((dl_states m)[i := ?new])" for st
    using that assms set_update_subset_insert [of "dl_states m" i ?new]
    by (auto simp: dl_inv_def entry_reports_def dest!: subsetD)
  ultimately show ?thesis using assms(1) by (simp add: dl_inv_def)
qed

lemma dl_find_bound: "dl_find_state m s = Some i \<Longrightarrow> i < length (dl_states m)"
  by (auto simp: dl_find_state_def dest: find_index_SomeD)

lemma heartbeat_inv:
  assumes "dl_inv cb ids m calls"
  shows "dl_inv cb ids (fst (dl_exec m (Heartbeat s t))) (calls @ snd (dl_exec m (Heartbeat s t)))"
proof (cases "dl_find_state m s")
  case None
  then show ?thesis using assms by (simp add: rcp_deadline_monitor_heartbeat_def decide_heartbeat_def)
next
  case (Some i)
  note b = dl_find_bound [OF Some]
  let ?m = "m\<lparr>dl_states := (dl_states m)[i := (dl_states m ! i)\<lparr>last_signal_ms := t\<rparr>]\<rparr>"
  note inv = dl_signal_inv [OF assms b, of t]
  show ?thesis using Some b inv dl_emit_inv [OF inv, of i True]
    by (simp add: rcp_deadline_monitor_heartbeat_def decide_heartbeat_def case_prod_unfold Let_def)
qed

lemma overflow_inv:
  assumes "dl_inv cb ids m calls"
  shows "dl_inv cb ids (fst (dl_exec m (Overflow s))) (calls @ snd (dl_exec m (Overflow s)))"
proof (cases "dl_find_state m s")
  case (Some i)
  then show ?thesis using assms dl_emit_inv [OF assms dl_find_bound [OF Some], of False]
    by (auto simp: rcp_deadline_monitor_notify_overflow_def decide_overflow_def case_prod_unfold Let_def)
qed (use assms in \<open>simp add: rcp_deadline_monitor_notify_overflow_def decide_overflow_def\<close>)

lemma check_from_inv:
  "dl_inv cb ids m calls \<Longrightarrow> i + n \<le> length (dl_states m) \<Longrightarrow>
   dl_inv cb ids (fst (check_from m t i n)) (calls @ snd (check_from m t i n)) \<and>
   length (dl_states (fst (check_from m t i n))) = length (dl_states m)"
proof (induction n arbitrary: m calls i)
  case (Suc n)
  let ?e = "if decide_check m i t then dl_emit m i False else (m, [])"
  have "dl_inv cb ids (fst ?e) (calls @ snd ?e)"
    using Suc.prems dl_emit_inv [OF Suc.prems(1), of i False] by (auto simp: decide_check_def Let_def)
  moreover have l: "length (dl_states (fst ?e)) = length (dl_states m)" by (simp add: dl_emit_def)
  ultimately have "dl_inv cb ids (fst (check_from (fst ?e) t (i + 1) n))
      ((calls @ snd ?e) @ snd (check_from (fst ?e) t (i + 1) n)) \<and>
    length (dl_states (fst (check_from (fst ?e) t (i + 1) n))) = length (dl_states (fst ?e))"
    using Suc.prems(2) by (intro Suc.IH) simp_all
  with l show ?case by (simp add: case_prod_unfold Let_def)
qed simp

lemma dl_exec_inv:
  "dl_inv cb ids m calls \<Longrightarrow> dl_inv cb ids (fst (dl_exec m op)) (calls @ snd (dl_exec m op))"
  using heartbeat_inv overflow_inv check_from_inv [of cb ids m calls 0 "length (dl_states m)"]
  by (cases op) (auto simp: check_deadlines_def)

lemma dl_run_inv:
  "dl_inv cb ids m calls \<Longrightarrow> dl_inv cb ids (fst (dl_run m ops)) (calls @ snd (dl_run m ops))"
proof (induction ops arbitrary: m calls)
  case (Cons op ops)
  from Cons.IH [OF dl_exec_inv [OF Cons.prems, of op]] show ?case
    by (simp add: case_prod_unfold Let_def)
qed simp

text \<open>C36: Let a monitor be created for streams with pairwise different ids, and let one subscriber be
  registered before the first operation and no other.  As long as its operations (heartbeats, overflow notices
  and checks of the deadlines, in any order) run one after the other, the subscriber sees only transitions: for every
  registered stream the reports alternate between alive and dead, and the latest report is what
  \<^verbatim>\<open>rcp_deadline_monitor_alive\<close> answers (false if there was none).\<close>

theorem liveness_reports_alternate:
  assumes "rcp_deadline_monitor_new True thr t0 cfg streams = Some m"
    and "rcp_deadline_monitor_subscribe m cb ctx = (True, m')"
    and "distinct (map dcfg_stream_id streams)" and "s \<in> set (map dcfg_stream_id streams)"
  shows "successively (\<noteq>) (reports s (snd (dl_run m' ops))) \<and>
    rcp_deadline_monitor_alive (fst (dl_run m' ops)) s =
      (reports s (snd (dl_run m' ops)) \<noteq> [] \<and> last (reports s (snd (dl_run m' ops))))"
proof -
  let ?ids = "map dcfg_stream_id streams"
  let ?r = "dl_run m' ops"
  have "dl_inv (cb, ctx) ?ids m' []"
    using assms(1-3)
    by (auto simp: rcp_deadline_monitor_new_def rcp_deadline_monitor_subscribe_def dl_callbacks_append_def
        dl_inv_def entry_reports_def reports_def comp_def split: if_splits)
  from dl_run_inv [OF this, of ops] have inv: "dl_inv (cb, ctx) ?ids (fst ?r) (snd ?r)" by simp
  then have "s \<in> sw_stream_id ` set (dl_states (fst ?r))"
    using assms(4) by (metis dl_inv_def set_map)
  then have "dl_find_state (fst ?r) s \<noteq> None" by (auto simp: dl_find_state_def find_index_None)
  then obtain i where i: "dl_find_state (fst ?r) s = Some i" by blast
  from find_index_SomeD [OF i [unfolded dl_find_state_def]] inv
  have "entry_reports (dl_states (fst ?r) ! i) (reports s (snd ?r))" by (auto simp: dl_inv_def)
  then show ?thesis using i by (auto simp: rcp_deadline_monitor_alive_def entry_reports_def split: if_splits)
qed

theorem liveness_reports_alternate_witness:
  "\<exists>m m'. rcp_deadline_monitor_new True True 0 rcp_deadline_default_config
      [\<lparr>dcfg_stream_id = 7, dcfg_deadline_ms = 0\<rparr>] = Some m \<and>
    rcp_deadline_monitor_subscribe m 1 2 = (True, m') \<and>
    successively (\<noteq>) (reports 7 (snd (dl_run m' [Heartbeat 7 10, Check 70, Overflow 7, Heartbeat 7 71])))"
proof -
  obtain m where m: "rcp_deadline_monitor_new True True 0 rcp_deadline_default_config
      [\<lparr>dcfg_stream_id = 7, dcfg_deadline_ms = 0\<rparr>] = Some m"
    by (auto simp: rcp_deadline_monitor_new_def consts_rcp)
  then have "length (dl_callbacks m) = 0" by (auto simp: rcp_deadline_monitor_new_def split: if_splits)
  then obtain m' where m': "rcp_deadline_monitor_subscribe m 1 2 = (True, m')"
    by (auto simp: rcp_deadline_monitor_subscribe_def dl_callbacks_append_def consts_rcp)
  have "successively (\<noteq>) (reports 7 (snd (dl_run m' [Heartbeat 7 10, Check 70, Overflow 7, Heartbeat 7 71])))"
    by (rule conjunct1 [OF liveness_reports_alternate [OF m m']]) simp_all
  with m m' show ?thesis by blast
qed

text \<open>A check leaves no stream alive whose deadline has passed, and touches no other.\<close>

lemma check_from_alive:
  "i + n \<le> length (dl_states m) \<Longrightarrow> j < length (dl_states m) \<Longrightarrow>
   dl_states (fst (check_from m t i n)) ! j =
     (if i \<le> j \<and> j < i + n \<and> decide_check m j t
      then (dl_states m ! j)\<lparr>alive := False, ever_reported := True\<rparr> else dl_states m ! j)"
proof (induction n arbitrary: m i)
  case (Suc n)
  let ?m = "fst (if decide_check m i t then dl_emit m i False else (m, []))"
  have st: "dl_states ?m ! k = (if k = i \<and> decide_check m i t
      then (dl_states m ! k)\<lparr>alive := False, ever_reported := True\<rparr> else dl_states m ! k)"
    if "k < length (dl_states m)" for k
    using that by (auto simp: dl_emit_def)
  have l: "length (dl_states ?m) = length (dl_states m)" by (simp add: dl_emit_def)
  have d: "decide_check ?m j t = decide_check m j t" if "j \<noteq> i"
    using that st [OF Suc.prems(2)] by (simp add: decide_check_def)
  have "dl_states (fst (check_from ?m t (i + 1) n)) ! j =
     (if i + 1 \<le> j \<and> j < i + 1 + n \<and> decide_check ?m j t
      then (dl_states ?m ! j)\<lparr>alive := False, ever_reported := True\<rparr> else dl_states ?m ! j)"
    using Suc.prems l by (intro Suc.IH) simp_all
  then have "dl_states (fst (check_from m t i (Suc n))) ! j =
     (if i + 1 \<le> j \<and> j < i + 1 + n \<and> decide_check ?m j t
      then (dl_states ?m ! j)\<lparr>alive := False, ever_reported := True\<rparr> else dl_states ?m ! j)"
    by (simp add: case_prod_unfold Let_def)
  with st [OF Suc.prems(2)] d show ?case by (cases "j = i") auto
qed auto

text \<open>a check at time \<open>t\<close> declares dead exactly the streams whose time since the latest signal has
  reached their deadline, and changes nothing else: no stream stays alive past its deadline, and no stream
  within its deadline is declared dead.\<close>

theorem check_deadlines_exact:
  assumes "j < length (dl_states m)"
  shows "(alive (dl_states (fst (check_deadlines m t)) ! j) \<longleftrightarrow>
      alive (dl_states m ! j) \<and>
      elapsed_since t (last_signal_ms (dl_states m ! j)) < deadline_ms (dl_states m ! j)) \<and>
    last_signal_ms (dl_states (fst (check_deadlines m t)) ! j) = last_signal_ms (dl_states m ! j)"
  using check_from_alive [of 0 "length (dl_states m)" m j t] assms
  by (auto simp: check_deadlines_def decide_check_def Let_def not_le)

theorem check_deadlines_exact_witness:
  "\<not> alive (dl_states (fst (check_deadlines
      \<lparr>dl_cfg = rcp_deadline_default_config, dl_states =
        [\<lparr>sw_stream_id = 7, deadline_ms = 50, last_signal_ms = 10, alive = True, ever_reported = True\<rparr>],
       dl_callbacks = [], dl_closed = False, dl_have_run_thread = True\<rparr> 60)) ! 0)"
  by (subst check_deadlines_exact [THEN conjunct1]) (simp_all add: elapsed_since_def)

section \<open>A heartbeat between the decision and the report\<close>

text \<open>C39: The check decides under the mutex and reports after it has released it.  When a heartbeat of the
  same stream comes in between, it sees the stream alive and reports nothing, and then the check declares the
  stream dead: the monitor answers dead although the heartbeat has just reset the timer and less than the
  deadline has passed since, and the next checks report nothing until another heartbeat comes.\<close>

theorem heartbeat_lost_between_decision_and_report:
  assumes "dl_find_state m s = Some i" and "alive (dl_states m ! i)"
    and "decide_check m i t" and "0 < deadline_ms (dl_states m ! i)"
  shows "let (answer, m1, calls1) = rcp_deadline_monitor_heartbeat m s t';
             (m2, calls2) = dl_emit m1 i False
         in answer \<and> calls1 = [] \<and> \<not> rcp_deadline_monitor_alive m2 s \<and>
            elapsed_since t' (last_signal_ms (dl_states m2 ! i)) < deadline_ms (dl_states m2 ! i) \<and>
            (\<forall>t''. \<not> decide_check m2 i t'')"
proof -
  note b = dl_find_bound [OF assms(1)]
  let ?st = "dl_states m ! i"
  let ?m1 = "m\<lparr>dl_states := (dl_states m)[i := ?st\<lparr>last_signal_ms := t'\<rparr>]\<rparr>"
  have h: "rcp_deadline_monitor_heartbeat m s t' = (True, ?m1, [])"
    using assms(1,2) by (simp add: rcp_deadline_monitor_heartbeat_def decide_heartbeat_def)
  let ?m2 = "fst (dl_emit ?m1 i False)"
  have st: "dl_states ?m2 ! i = ?st\<lparr>last_signal_ms := t', alive := False, ever_reported := True\<rparr>"
    using b by (simp add: dl_emit_def)
  have "map sw_stream_id (dl_states ?m2) = map sw_stream_id (dl_states m)"
    using b by (simp add: dl_emit_def map_update list_update_same_conv)
  then have "find_index (\<lambda>e. sw_stream_id e = s) (dl_states ?m2) = find_index (\<lambda>e. sw_stream_id e = s) (dl_states m)"
    by (intro find_index_nth_cong) (metis length_map, metis length_map nth_map)
  then have "dl_find_state ?m2 s = Some i" using assms(1) by (simp add: dl_find_state_def)
  then show ?thesis using h st assms(4)
    by (simp add: case_prod_unfold Let_def rcp_deadline_monitor_alive_def elapsed_since_def decide_check_def
        word_neq_0_conv)
qed

theorem heartbeat_lost_between_decision_and_report_witness:
  "let m = \<lparr>dl_cfg = rcp_deadline_default_config, dl_states =
        [\<lparr>sw_stream_id = 7, deadline_ms = 50, last_signal_ms = 10, alive = True, ever_reported = True\<rparr>],
       dl_callbacks = [(1, 2)], dl_closed = False, dl_have_run_thread = True\<rparr>;
       m1 = fst (snd (rcp_deadline_monitor_heartbeat m 7 61))
   in decide_check m 0 60 \<and> \<not> rcp_deadline_monitor_alive (fst (dl_emit m1 0 False)) 7"
proof -
  define m where "m = \<lparr>dl_cfg = rcp_deadline_default_config, dl_states =
        [\<lparr>sw_stream_id = 7, deadline_ms = 50, last_signal_ms = 10, alive = True, ever_reported = True\<rparr>],
       dl_callbacks = [(1, 2)], dl_closed = False, dl_have_run_thread = True\<rparr>"
  have d: "decide_check m 0 60" by (simp add: m_def decide_check_def elapsed_since_def)
  have "dl_find_state m 7 = Some 0" "alive (dl_states m ! 0)" "0 < deadline_ms (dl_states m ! 0)"
    by (simp_all add: m_def dl_find_state_def)
  from heartbeat_lost_between_decision_and_report [OF this(1,2) d this(3), of 61] d show ?thesis
    unfolding m_def [symmetric] by (simp add: case_prod_unfold Let_def)
qed

end
