(* ===== verification/Authz.thy ===== *)
theory Authz
  imports Avtp
begin

text \<open>
  \<^verbatim>\<open>src/authz.c\<close> and the string helpers of \<^verbatim>\<open>src/mem_bounded.h\<close>: the access policy, a list of
  permissions for identities.  A C string is the list of its characters; a NUL inside the list ends it
  and so does the end of the list.  \<open>authz_mem\<close> holds the outcomes of the three allocations of
  \<^verbatim>\<open>rcp_authz_policy_allow\<close>.  Sizes are those of a platform with eight-octet pointers.
\<close>

section \<open>Strings\<close>

definition NUL :: char where "NUL = CHR 0x00"

fun rcp_strnlen_bounded :: "string \<Rightarrow> nat \<Rightarrow> nat" where
  "rcp_strnlen_bounded s 0 = 0"
| "rcp_strnlen_bounded [] (Suc n) = 0"
| "rcp_strnlen_bounded (c # cs) (Suc n) = (if c \<noteq> NUL then 1 + rcp_strnlen_bounded cs n else 0)"

definition rcp_strncpy_bounded :: "nat \<Rightarrow> string \<Rightarrow> string \<Rightarrow> string" where
  "rcp_strncpy_bounded dst_cap dst src =
     (if dst_cap = 0 then dst else take (rcp_strnlen_bounded src (dst_cap - 1)) src)"

text \<open>The comparison \<^verbatim>\<open>strncmp(s, t, n) == 0\<close> of the C library.\<close>

fun strncmp_equal :: "nat \<Rightarrow> string \<Rightarrow> string \<Rightarrow> bool" where
  "strncmp_equal 0 s t = True"
| "strncmp_equal (Suc n) [] [] = True"
| "strncmp_equal (Suc n) [] (d # ds) = (d = NUL)"
| "strncmp_equal (Suc n) (c # cs) [] = (c = NUL)"
| "strncmp_equal (Suc n) (c # cs) (d # ds) = (c = d \<and> (c = NUL \<or> strncmp_equal n cs ds))"

definition c_string :: "string \<Rightarrow> string" where
  "c_string s = takeWhile (\<lambda>c. c \<noteq> NUL) s"

lemma strnlen_exact: "rcp_strnlen_bounded s n = min n (length (c_string s))"
  by (induction s n rule: rcp_strnlen_bounded.induct) (simp_all add: c_string_def)

lemma strncpy_exact: "0 < n \<Longrightarrow> rcp_strncpy_bounded n dst s = take (n - 1) (c_string s)"
proof -
  assume "0 < n"
  have "take (length (c_string s)) s = c_string s"
    using takeWhile_eq_take [of "\<lambda>c. c \<noteq> NUL" s] by (simp add: c_string_def)
  then have "take (min m (length (c_string s))) s = take m (c_string s)" for m
    by (metis take_take)
  with \<open>0 < n\<close> show ?thesis by (simp add: rcp_strncpy_bounded_def strnlen_exact)
qed

lemma strncmp_exact: "strncmp_equal n s t \<longleftrightarrow> take n (c_string s) = take n (c_string t)"
  by (induction n s t rule: strncmp_equal.induct) (auto simp: c_string_def)

lemma c_string_idem [simp]: "c_string (c_string s) = c_string s"
  by (simp add: c_string_def)

lemma c_string_take: "c_string (take n (c_string s)) = take n (c_string s)"
  unfolding c_string_def by (auto simp: takeWhile_eq_all_conv dest: in_set_takeD set_takeWhileD)

section \<open>The policy\<close>

definition RCP_AUTHZ_IDENTITY_MAX :: nat where [consts_rcp]: "RCP_AUTHZ_IDENTITY_MAX = 128"
definition sizeof_avtp_addr :: nat where "sizeof_avtp_addr = 10"
definition sizeof_policy_entry :: nat where "sizeof_policy_entry = 160"

record policy_entry_t =
  pe_identity :: string
  pe_addrs :: "rcp_avtp_addr_t list"
  pe_request_types :: "byte list"

record rcp_authz_policy_t =
  az_refcount :: int
  az_entries :: "policy_entry_t list"
  az_entries_cap :: nat

record authz_mem =
  mem_addrs :: bool
  mem_types :: bool
  mem_entries :: bool

definition copy_identity :: "string \<Rightarrow> string" where
  "copy_identity src = rcp_strncpy_bounded RCP_AUTHZ_IDENTITY_MAX [] src"

definition rcp_authz_policy_new :: "bool \<Rightarrow> rcp_authz_policy_t option" where
  "rcp_authz_policy_new mem =
     (if \<not> mem then None else Some \<lparr>az_refcount = 1, az_entries = [], az_entries_cap = 0\<rparr>)"

definition rcp_authz_policy_retain :: "rcp_authz_policy_t option \<Rightarrow> rcp_authz_policy_t option" where
  "rcp_authz_policy_retain p = map_option (\<lambda>p. p\<lparr>az_refcount := az_refcount p + 1\<rparr>) p"

text \<open>The last release frees the policy: no state is left.\<close>

definition rcp_authz_policy_release :: "rcp_authz_policy_t option \<Rightarrow> rcp_authz_policy_t option" where
  "rcp_authz_policy_release p =
     (case p of
        None \<Rightarrow> None
      | Some p \<Rightarrow>
          if az_refcount p - 1 > 0 then Some (p\<lparr>az_refcount := az_refcount p - 1\<rparr>) else None)"

text \<open>\<open>rcp_alloc_checked_size\<close> yields 0 when the product does not fit \<open>size_t\<close>; then nothing is allocated.\<close>

definition array_allocated :: "bool \<Rightarrow> nat \<Rightarrow> nat \<Rightarrow> bool" where
  "array_allocated mem n elem_size \<longleftrightarrow> rcp_alloc_checked_size n elem_size \<noteq> 0 \<and> mem"

definition rcp_authz_policy_allow ::
    "authz_mem \<Rightarrow> rcp_authz_policy_t \<Rightarrow> string \<Rightarrow> rcp_avtp_addr_t list \<Rightarrow> byte list \<Rightarrow>
     bool \<times> rcp_authz_policy_t" where
  "rcp_authz_policy_allow mem policy identity addrs request_types =
     (if length addrs > 0 \<and> \<not> array_allocated (mem_addrs mem) (length addrs) sizeof_avtp_addr
      then (False, policy)
      else if length request_types > 0 \<and> \<not> array_allocated (mem_types mem) (length request_types) 1
      then (False, policy)
      else
        let entry = \<lparr>pe_identity = copy_identity identity, pe_addrs = addrs,
                     pe_request_types = request_types\<rparr>
        in if length (az_entries policy) = az_entries_cap policy then
             (let new_cap = (if az_entries_cap policy = 0 then 4 else az_entries_cap policy * 2)
              in if \<not> array_allocated (mem_entries mem) new_cap sizeof_policy_entry
                 then (False, policy)
                 else (True, policy\<lparr>az_entries := az_entries policy @ [entry],
                                    az_entries_cap := new_cap\<rparr>))
           else (True, policy\<lparr>az_entries := az_entries policy @ [entry]\<rparr>))"

fun any_addr_equal :: "rcp_avtp_addr_t list \<Rightarrow> rcp_avtp_addr_t \<Rightarrow> bool" where
  "any_addr_equal [] addr = False"
| "any_addr_equal (a # addrs) addr = (if rcp_avtp_addr_equal a addr then True else any_addr_equal addrs addr)"

definition entry_matches_addr :: "policy_entry_t \<Rightarrow> rcp_avtp_addr_t \<Rightarrow> bool" where
  "entry_matches_addr e addr = (if length (pe_addrs e) = 0 then True else any_addr_equal (pe_addrs e) addr)"

fun any_type_equal :: "byte list \<Rightarrow> byte \<Rightarrow> bool" where
  "any_type_equal [] t = False"
| "any_type_equal (x # xs) t = (if x = t then True else any_type_equal xs t)"

definition entry_matches_request_type :: "policy_entry_t \<Rightarrow> byte \<Rightarrow> bool" where
  "entry_matches_request_type e request_type =
     (if length (pe_request_types e) = 0 then True else any_type_equal (pe_request_types e) request_type)"

fun permit_entries :: "policy_entry_t list \<Rightarrow> string \<Rightarrow> rcp_avtp_addr_t \<Rightarrow> byte \<Rightarrow> bool" where
  "permit_entries [] identity addr request_type = False"
| "permit_entries (e # es) identity addr request_type =
     (if \<not> strncmp_equal RCP_AUTHZ_IDENTITY_MAX (pe_identity e) identity
      then permit_entries es identity addr request_type
      else if entry_matches_addr e addr \<and> entry_matches_request_type e request_type then True
      else permit_entries es identity addr request_type)"

definition rcp_authz_policy_permit ::
    "rcp_authz_policy_t \<Rightarrow> string \<Rightarrow> rcp_avtp_addr_t \<Rightarrow> byte \<Rightarrow> bool" where
  "rcp_authz_policy_permit policy identity addr request_type =
     permit_entries (az_entries policy) identity addr request_type"

section \<open>Correctness\<close>

lemma addr_equal_eq: "rcp_avtp_addr_equal a b \<longleftrightarrow> a = b"
  by (cases a; cases b) (auto simp: rcp_avtp_addr_equal_def rcp_stream_id_equal_def intro: rcp_stream_id_t.equality)

lemma any_addr_equal_iff: "any_addr_equal addrs addr \<longleftrightarrow> addr \<in> set addrs"
  by (induction addrs) (auto simp: addr_equal_eq)

lemma any_type_equal_iff: "any_type_equal ts t \<longleftrightarrow> t \<in> set ts"
  by (induction ts) auto

text \<open>A grant is a call of \<^verbatim>\<open>rcp_authz_policy_allow\<close> with the outcomes of its allocations.\<close>

type_synonym grant = "authz_mem \<times> string \<times> rcp_avtp_addr_t list \<times> byte list"

fun grant_all :: "rcp_authz_policy_t \<Rightarrow> grant list \<Rightarrow> grant list \<times> rcp_authz_policy_t" where
  "grant_all p [] = ([], p)"
| "grant_all p ((mem, identity, addrs, types) # gs) =
     (let (ok, p') = rcp_authz_policy_allow mem p identity addrs types;
          (taken, p'') = grant_all p' gs
      in (if ok then (mem, identity, addrs, types) # taken else taken, p''))"

text \<open>What a grant permits, from its arguments.  The stored identity has at most 127 characters, the
  presented one is compared on its first 128.\<close>

fun grant_covers :: "string \<Rightarrow> rcp_avtp_addr_t \<Rightarrow> byte \<Rightarrow> grant \<Rightarrow> bool" where
  "grant_covers identity addr t (mem, granted, addrs, types) \<longleftrightarrow>
     take 127 (c_string granted) = c_string identity \<and>
     (addrs = [] \<or> addr \<in> set addrs) \<and> (types = [] \<or> t \<in> set types)"

fun grant_entry :: "grant \<Rightarrow> policy_entry_t" where
  "grant_entry (mem, granted, addrs, types) =
     \<lparr>pe_identity = copy_identity granted, pe_addrs = addrs, pe_request_types = types\<rparr>"

lemma allow_result:
  "rcp_authz_policy_allow mem p identity addrs types = (ok, p') \<Longrightarrow>
     az_entries p' = az_entries p @ (if ok then [grant_entry (mem, identity, addrs, types)] else []) \<and>
     (\<not> ok \<longrightarrow> p' = p)"
  by (auto simp: rcp_authz_policy_allow_def Let_def split: if_splits)

lemma grant_all_entries:
  "grant_all p gs = (taken, p') \<Longrightarrow> az_entries p' = az_entries p @ map grant_entry taken"
proof (induction gs arbitrary: p taken)
  case (Cons g gs)
  obtain mem identity addrs types where g: "g = (mem, identity, addrs, types)" by (cases g) auto
  obtain ok q where q: "rcp_authz_policy_allow mem p identity addrs types = (ok, q)" by fastforce
  obtain rest where rest: "grant_all q gs = (rest, p')"
    and taken: "taken = (if ok then g # rest else rest)"
    using Cons.prems g q by (auto split: prod.splits)
  from Cons.IH [OF rest] allow_result [OF q] taken g show ?case by auto
qed simp

lemma stored_identity:
  "strncmp_equal RCP_AUTHZ_IDENTITY_MAX (copy_identity granted) identity \<longleftrightarrow>
     take 127 (c_string granted) = c_string identity"
proof -
  let ?s = "take 127 (c_string granted)" and ?t = "c_string identity"
  have "strncmp_equal 128 ?s identity \<longleftrightarrow> take 128 ?s = take 128 ?t"
    by (simp add: strncmp_exact c_string_take)
  also have "take 128 ?s = ?s" by simp
  also have "?s = take 128 ?t \<longleftrightarrow> ?s = ?t"
  proof
    assume e: "?s = take 128 ?t"
    then have "length (take 128 ?t) \<le> 127" by (metis length_take min.cobounded2 min.commute)
    then have "length ?t \<le> 127" by simp
    with e show "?s = ?t" by simp
  next
    assume e: "?s = ?t"
    then have "length ?t \<le> 127" by (metis length_take min.cobounded2 min.commute)
    with e show "?s = take 128 ?t" by simp
  qed
  finally show ?thesis by (simp add: copy_identity_def strncpy_exact consts_rcp)
qed

lemma entry_matches:
  "entry_matches_addr (grant_entry g) addr \<and> entry_matches_request_type (grant_entry g) t \<and>
     strncmp_equal RCP_AUTHZ_IDENTITY_MAX (pe_identity (grant_entry g)) identity
   \<longleftrightarrow> grant_covers identity addr t g"
  by (cases g) (auto simp: stored_identity entry_matches_addr_def entry_matches_request_type_def
      any_addr_equal_iff any_type_equal_iff)

lemma permit_entries_iff:
  "permit_entries es identity addr t \<longleftrightarrow>
     (\<exists>e\<in>set es. strncmp_equal RCP_AUTHZ_IDENTITY_MAX (pe_identity e) identity \<and>
        entry_matches_addr e addr \<and> entry_matches_request_type e t)"
  by (induction es) auto

lemma permit_grants:
  "rcp_authz_policy_new True = Some p \<Longrightarrow>
   rcp_authz_policy_permit (snd (grant_all p gs)) identity addr t \<longleftrightarrow>
     (\<exists>g\<in>set (fst (grant_all p gs)). grant_covers identity addr t g)"
proof -
  assume p: "rcp_authz_policy_new True = Some p"
  obtain taken q where q: "grant_all p gs = (taken, q)" by fastforce
  have "az_entries q = map grant_entry taken"
    using grant_all_entries [OF q] p by (auto simp: rcp_authz_policy_new_def)
  then have "rcp_authz_policy_permit q identity addr t \<longleftrightarrow> (\<exists>g\<in>set taken. grant_covers identity addr t g)"
    by (simp add: rcp_authz_policy_permit_def permit_entries_iff entry_matches [symmetric] conj_ac)
  with q show ?thesis by simp
qed

text \<open>C37: A new policy denies every request.  After any calls of \<^verbatim>\<open>rcp_authz_policy_allow\<close>, some of
  which may have failed for want of memory, a request is permitted exactly if one of the calls that
  succeeded granted the identity the address and the request type, where no addresses or no types stand
  for all of them.  An identity of 128 or more characters is never permitted, although it can be granted:
  the grant then holds for its first 127 characters instead.\<close>

theorem authz_permit_exact:
  assumes "rcp_authz_policy_new True = Some p" and "grant_all p gs = (taken, q)"
  shows "\<not> rcp_authz_policy_permit p identity addr t \<and>
    (rcp_authz_policy_permit q identity addr t \<longleftrightarrow>
       (\<exists>(mem, granted, addrs, types) \<in> set taken. take 127 (c_string granted) = c_string identity \<and>
          (addrs = [] \<or> addr \<in> set addrs) \<and> (types = [] \<or> t \<in> set types))) \<and>
    (128 \<le> length (c_string identity) \<longrightarrow> \<not> rcp_authz_policy_permit q identity addr t) \<and>
    ((mem, identity, [], []) \<in> set taken \<longrightarrow>
       rcp_authz_policy_permit q (take 127 (c_string identity)) addr t)"
proof (intro conjI impI)
  have iff: "rcp_authz_policy_permit q i addr t \<longleftrightarrow> (\<exists>g\<in>set taken. grant_covers i addr t g)" for i
    using permit_grants [OF assms(1), of gs] assms(2) by simp
  show "\<not> rcp_authz_policy_permit p identity addr t"
    using permit_grants [OF assms(1), of "[]"] by simp
  show exact: "rcp_authz_policy_permit q identity addr t \<longleftrightarrow>
       (\<exists>(mem, granted, addrs, types) \<in> set taken. take 127 (c_string granted) = c_string identity \<and>
          (addrs = [] \<or> addr \<in> set addrs) \<and> (types = [] \<or> t \<in> set types))"
    unfolding iff by (intro bex_cong) auto
  show "\<not> rcp_authz_policy_permit q identity addr t" if "128 \<le> length (c_string identity)"
    unfolding exact
  proof
    assume "\<exists>(mem, granted, addrs, types) \<in> set taken. take 127 (c_string granted) = c_string identity \<and>
          (addrs = [] \<or> addr \<in> set addrs) \<and> (types = [] \<or> t \<in> set types)"
    then obtain granted where "take 127 (c_string granted) = c_string identity" by auto
    then have "length (c_string identity) \<le> 127" by (metis length_take min.cobounded2 min.commute)
    with that show False by simp
  qed
  show "rcp_authz_policy_permit q (take 127 (c_string identity)) addr t"
    if "(mem, identity, [], []) \<in> set taken"
    unfolding iff using that by (intro bexI [OF _ that]) (simp add: c_string_take)
qed

definition authz_addr :: rcp_avtp_addr_t where
  "authz_addr = \<lparr>addr_stream_id = \<lparr>mac = [2, 0, 0, 0, 0, 1], unique_id = 0\<rparr>, addr_byte_bus_id = 5\<rparr>"

definition authz_grants :: "grant list" where
  "authz_grants = [(\<lparr>mem_addrs = True, mem_types = True, mem_entries = True\<rparr>, ''alice'', [], [1, 2])]"

theorem authz_permit_exact_witness:
  "\<exists>p q. rcp_authz_policy_new True = Some p \<and> grant_all p authz_grants = (authz_grants, q) \<and>
     \<not> rcp_authz_policy_permit p ''alice'' authz_addr 1 \<and>
     rcp_authz_policy_permit q ''alice'' authz_addr 1 \<and>
     \<not> rcp_authz_policy_permit q ''alice'' authz_addr 3 \<and>
     \<not> rcp_authz_policy_permit q ''bob'' authz_addr 1"
proof -
  obtain p where p: "rcp_authz_policy_new True = Some p" by (simp add: rcp_authz_policy_new_def)
  obtain q where q: "grant_all p authz_grants = (authz_grants, q)"
    using p by (auto simp: rcp_authz_policy_new_def authz_grants_def rcp_authz_policy_allow_def
        array_allocated_def checked_size_exact sizeof_policy_entry_def SIZE_MAX_def)
  note r = authz_permit_exact [OF p q, of _ authz_addr]
  have "rcp_authz_policy_permit q ''alice'' authz_addr 1" "\<not> rcp_authz_policy_permit q ''alice'' authz_addr 3"
    "\<not> rcp_authz_policy_permit q ''bob'' authz_addr 1"
    using r [of "''alice''" 1] r [of "''alice''" 3] r [of "''bob''" 1]
    by (simp_all add: authz_grants_def c_string_def NUL_def)
  with r [of "''alice''" 1] p q show ?thesis by blast
qed

lemma release_simps [simp]:
  "rcp_authz_policy_release None = None"
  "rcp_authz_policy_release (Some p) =
     (if 1 < az_refcount p then Some (p\<lparr>az_refcount := az_refcount p - 1\<rparr>) else None)"
  by (simp_all add: rcp_authz_policy_release_def)

text \<open>A policy lives exactly as long as it has been released at most as often as it was retained.\<close>

lemma policy_lifetime:
  assumes "rcp_authz_policy_new True = Some p"
  shows "(rcp_authz_policy_release ^^ m) ((rcp_authz_policy_retain ^^ n) (Some p)) \<noteq> None \<longleftrightarrow> m \<le> n"
proof -
  have up: "(rcp_authz_policy_retain ^^ n) (Some p) = Some (p\<lparr>az_refcount := az_refcount p + int n\<rparr>)" for n
    by (induction n) (simp_all add: rcp_authz_policy_retain_def)
  have gone: "(rcp_authz_policy_release ^^ m) None = None" for m
    by (induction m) simp_all
  have down: "(rcp_authz_policy_release ^^ m) (Some r) \<noteq> None \<longleftrightarrow> int m < az_refcount r"
    if "0 < az_refcount r" for m and r :: rcp_authz_policy_t
    using that
  proof (induction m arbitrary: r)
    case (Suc m)
    then show ?case
      by (auto simp: funpow_Suc_right gone simp del: funpow.simps)
  qed simp
  have "int m < 1 + int n \<longleftrightarrow> m \<le> n" by linarith
  with down [of "p\<lparr>az_refcount := az_refcount p + int n\<rparr>" m] assms show ?thesis
    by (auto simp: up rcp_authz_policy_new_def)
qed

end
