(* ===== verification/Tsn.thy ===== *)
theory Tsn
  imports Scheduler
begin

text \<open>
  \<^verbatim>\<open>src/tsn.c\<close>: the map from request kinds to IEEE 802.1p priorities, the classification of an encoded
  frame and the transport wrapper that tags a socket with the priority of the frame it is about to send.

  The wrapped transport is a parameter: its state is of any type and its vtable functions are arguments.
  The value given to \<^verbatim>\<open>setsockopt\<close> for \<^verbatim>\<open>SO_PRIORITY\<close>, whose result the code ignores, is part of the
  result of \<open>tsn_send\<close>; \<open>None\<close> stands for no call.  The platform is one that has \<^verbatim>\<open>SO_PRIORITY\<close>.
\<close>

section \<open>Priorities\<close>

type_synonym rcp_tsn_pcp_map_t = "byte list"

fun sched_kind_code :: "rcp_sched_kind_t \<Rightarrow> nat" where
  "sched_kind_code RCP_SCHED_KIND_STANDARD = 0"
| "sched_kind_code RCP_SCHED_KIND_CHAINED = 1"
| "sched_kind_code RCP_SCHED_KIND_COMPOUND_WAIT = 2"
| "sched_kind_code RCP_SCHED_KIND_COMPOUND = 3"
| "sched_kind_code RCP_SCHED_KIND_TIMED = 4"
| "sched_kind_code RCP_SCHED_KIND_TRIGGERED = 5"
| "sched_kind_code RCP_SCHED_KIND_CANCELLATION = 6"

definition rcp_tsn_default_pcp_map :: rcp_tsn_pcp_map_t where
  "rcp_tsn_default_pcp_map =
     map rcp_sched_kind_rank
       [RCP_SCHED_KIND_STANDARD, RCP_SCHED_KIND_CHAINED, RCP_SCHED_KIND_COMPOUND_WAIT,
        RCP_SCHED_KIND_COMPOUND, RCP_SCHED_KIND_TIMED, RCP_SCHED_KIND_TRIGGERED,
        RCP_SCHED_KIND_CANCELLATION]"

text \<open>\<open>kind\<close> is the integer value of the enumeration, which a caller may leave.\<close>

definition rcp_tsn_pcp_for :: "rcp_tsn_pcp_map_t \<Rightarrow> int \<Rightarrow> byte" where
  "rcp_tsn_pcp_for m kind =
     (let kind = (if kind < int (sched_kind_code RCP_SCHED_KIND_STANDARD) \<or>
                     kind > int (sched_kind_code RCP_SCHED_KIND_CANCELLATION)
                  then int (sched_kind_code RCP_SCHED_KIND_STANDARD) else kind)
      in m ! nat kind)"

record rcp_tsn_config_t =
  tsn_pcp_map :: rcp_tsn_pcp_map_t
  tsn_vlan_id :: int
  tsn_cycle_ns :: int

definition rcp_tsn_default_config :: rcp_tsn_config_t where
  "rcp_tsn_default_config = \<lparr>tsn_pcp_map = rcp_tsn_default_pcp_map, tsn_vlan_id = 0, tsn_cycle_ns = 0\<rparr>"

section \<open>Frame classification\<close>

definition classify_payload :: "bytes \<Rightarrow> rcp_sched_kind_t" where
  "classify_payload payload =
     (if length payload = 0 then RCP_SCHED_KIND_STANDARD
      else
        case rcp_acf_peek_msg_type payload of
          Inl _ \<Rightarrow> RCP_SCHED_KIND_STANDARD
        | Inr acf_type \<Rightarrow>
            if acf_type \<noteq> RCP_ACF_MSG_TYPE_GBB then RCP_SCHED_KIND_STANDARD
            else
              (case rcp_compound_peek_request_type payload of
                 Inl _ \<Rightarrow> RCP_SCHED_KIND_STANDARD
               | Inr request_type \<Rightarrow> rcp_sched_classify True request_type))"

definition rcp_tsn_classify_frame :: "bytes \<Rightarrow> rcp_sched_kind_t" where
  "rcp_tsn_classify_frame frame =
     (case rcp_avtp_peek_subtype frame of
        Inl _ \<Rightarrow> RCP_SCHED_KIND_STANDARD
      | Inr subtype \<Rightarrow>
          if subtype = RCP_AVTP_SUBTYPE_NTSCF then
            (case rcp_avtp_decode_ntscf frame of
               Inl _ \<Rightarrow> RCP_SCHED_KIND_STANDARD
             | Inr (nhdr, payload) \<Rightarrow> classify_payload payload)
          else if subtype = RCP_AVTP_SUBTYPE_TSCF then
            (case rcp_avtp_decode_tscf frame of
               Inl _ \<Rightarrow> RCP_SCHED_KIND_STANDARD
             | Inr (thdr, payload) \<Rightarrow> classify_payload payload)
          else RCP_SCHED_KIND_STANDARD)"

section \<open>The transport wrapper\<close>

record 'i tsn_transport_t =
  tsn_refcount :: int
  tsn_time_sync :: bool
  tsn_inner :: 'i
  tsn_fd :: int
  tsn_cfg :: rcp_tsn_config_t

definition tsn_send ::
    "('i \<Rightarrow> bytes \<Rightarrow> rcp_errc_t \<times> 'i) \<Rightarrow> 'i tsn_transport_t \<Rightarrow> bytes \<Rightarrow>
     rcp_errc_t \<times> byte option \<times> 'i tsn_transport_t" where
  "tsn_send send t frame =
     (let prio = (if 0 \<le> tsn_fd t
                  then Some (rcp_tsn_pcp_for (tsn_pcp_map (tsn_cfg t))
                               (int (sched_kind_code (rcp_tsn_classify_frame frame))))
                  else None);
          (rc, inner) = send (tsn_inner t) frame
      in (rc, prio, t\<lparr>tsn_inner := inner\<rparr>))"

text \<open>\<open>None\<close> stands for a call that has not returned, as in the receive function of the wrapped transport.\<close>

definition tsn_recv ::
    "('i \<Rightarrow> bool \<Rightarrow> nat \<Rightarrow> (rcp_errc_t \<times> bytes option \<times> 'i) option) \<Rightarrow> 'i tsn_transport_t \<Rightarrow> bool \<Rightarrow> nat \<Rightarrow>
     (rcp_errc_t \<times> bytes option \<times> 'i tsn_transport_t) option" where
  "tsn_recv recv t ctx_done buf_cap =
     (case recv (tsn_inner t) ctx_done buf_cap of
        None \<Rightarrow> None
      | Some (rc, frame, inner) \<Rightarrow> Some (rc, frame, t\<lparr>tsn_inner := inner\<rparr>))"

definition tsn_close ::
    "('i \<Rightarrow> rcp_errc_t \<times> 'i) \<Rightarrow> 'i tsn_transport_t \<Rightarrow> rcp_errc_t \<times> 'i tsn_transport_t" where
  "tsn_close close t = (let (rc, inner) = close (tsn_inner t) in (rc, t\<lparr>tsn_inner := inner\<rparr>))"

text \<open>Destroying the wrapper leaves what the release of the wrapped transport leaves.\<close>

definition tsn_destroy :: "('i \<Rightarrow> 'i option) \<Rightarrow> 'i tsn_transport_t \<Rightarrow> 'i option" where
  "tsn_destroy release t = release (tsn_inner t)"

definition rcp_tsn_avtp_transport_new ::
    "bool \<Rightarrow> ('i \<Rightarrow> 'i) \<Rightarrow> ('i \<Rightarrow> bool) \<Rightarrow> 'i \<Rightarrow> int \<Rightarrow> rcp_tsn_config_t \<Rightarrow> 'i tsn_transport_t option" where
  "rcp_tsn_avtp_transport_new mem retain sync inner socket_fd cfg =
     (if \<not> mem then None
      else Some \<lparr>tsn_refcount = 1, tsn_time_sync = sync inner, tsn_inner = retain inner,
                 tsn_fd = socket_fd, tsn_cfg = cfg\<rparr>)"

section \<open>The wrapper over the loopback transport\<close>

text \<open>The wrapper keeps the contract of a bounded queue of the transport it wraps.\<close>

definition tsn_push ::
    "rcp_avtp_loopback_transport_t tsn_transport_t \<Rightarrow> bytes \<Rightarrow>
     rcp_avtp_loopback_transport_t tsn_transport_t option" where
  "tsn_push t f = (case tsn_send (loopback_send True) t f of
                     (RCP_OK, _, t') \<Rightarrow> Some t' | _ \<Rightarrow> None)"

definition tsn_pop ::
    "nat \<Rightarrow> rcp_avtp_loopback_transport_t tsn_transport_t \<Rightarrow>
     (bytes \<times> rcp_avtp_loopback_transport_t tsn_transport_t) option" where
  "tsn_pop mtu t = (case tsn_recv loopback_recv t True mtu of
                      Some (RCP_OK, Some f, t') \<Rightarrow> Some (f, t') | _ \<Rightarrow> None)"

lemma tsn_push_inner: "tsn_push t f = map_option (\<lambda>i. t\<lparr>tsn_inner := i\<rparr>) (lb_push (tsn_inner t) f)"
  by (auto simp: tsn_push_def tsn_send_def lb_push_def Let_def split: prod.splits rcp_errc_t.splits)

lemma tsn_pop_inner:
  "tsn_pop mtu t = map_option (\<lambda>(f, i). (f, t\<lparr>tsn_inner := i\<rparr>)) (lb_pop mtu (tsn_inner t))"
  by (auto simp: tsn_pop_def tsn_recv_def lb_pop_def
      split: prod.splits rcp_errc_t.splits option.splits)

interpretation tsn_loopback: bounded_fifo tsn_push "tsn_pop mtu" "lb_frames \<circ> tsn_inner"
    "lb_cap \<circ> tsn_inner" "lb_open mtu \<circ> tsn_inner" "\<lambda>f. length f \<le> mtu" for mtu
  by unfold_locales
    (auto simp: tsn_push_inner tsn_pop_inner loopback.push_full loopback.pop_empty
      dest: lb_push_Some lb_pop_Some)

section \<open>Correctness\<close>

lemma classify_payload_peek:
  "classify_payload p =
     (case rcp_compound_peek_request_type p of
        Inl _ \<Rightarrow> RCP_SCHED_KIND_STANDARD | Inr t \<Rightarrow> rcp_sched_classify True t)"
  by (cases "length p = 0")
    (auto simp: classify_payload_def rcp_acf_peek_msg_type_def rcp_compound_peek_request_type_def
      consts_rcp split: sum.splits)

lemma default_pcp: "rcp_tsn_pcp_for rcp_tsn_default_pcp_map (int (sched_kind_code k)) = rcp_sched_kind_rank k"
  by (cases k) (simp_all add: rcp_tsn_pcp_for_def rcp_tsn_default_pcp_map_def)

text \<open>A frame is tagged with the kind the server gives to the first request in it: a payload framed as
  NTSCF or TSCF classifies as its request type does when it is a repurposed message and as a standard
  request otherwise, whatever follows the frame.  With the default map the tag is an 802.1p priority, and
  of two frames the one with the higher priority carries the request that the scheduler serves first,
  whatever their order of arrival.\<close>

theorem tsn_priority_agrees:
  assumes "ntscf_wf h" and "tscf_wf g" and "length p \<le> RCP_AVTP_NTSCF_MAX_PAYLOAD"
    and "0 \<le> tsn_fd t" and "tsn_cfg t = rcp_tsn_default_config"
  shows "\<exists>f f' kind. rcp_avtp_encode_ntscf True h p = Some f \<and> rcp_avtp_encode_tscf True g p = Some f' \<and>
    kind = (case rcp_compound_peek_request_type p of
              Inl _ \<Rightarrow> RCP_SCHED_KIND_STANDARD | Inr rt \<Rightarrow> rcp_sched_classify True rt) \<and>
    rcp_tsn_classify_frame (f @ rest) = kind \<and> rcp_tsn_classify_frame (f' @ rest) = kind \<and>
    fst (snd (tsn_send send t (f @ rest))) = Some (rcp_sched_kind_rank kind) \<and>
    rcp_sched_kind_rank kind < 8 \<and>
    (rcp_sched_kind_rank other < rcp_sched_kind_rank kind \<longrightarrow>
       rcp_sched_compare \<lparr>entry_kind = kind, entry_sequence = s\<rparr> \<lparr>entry_kind = other, entry_sequence = s'\<rparr> < 0)"
proof -
  obtain f where f: "rcp_avtp_encode_ntscf True h p = Some f"
    "rcp_avtp_decode_ntscf (f @ rest) = Inr (ntscf_canon h p, p)"
    using ntscf.roundtrip [OF assms(1,3)] by blast
  have "length p \<le> RCP_AVTP_TSCF_MAX_PAYLOAD" using assms(3) by (simp add: consts_rcp)
  then obtain f' where f': "rcp_avtp_encode_tscf True g p = Some f'"
    "rcp_avtp_decode_tscf (f' @ rest) = Inr (tscf_canon g p, p)"
    using tscf.roundtrip [OF assms(2)] by blast
  define kind where "kind = classify_payload p"
  have c: "rcp_tsn_classify_frame (f @ rest) = kind" "rcp_tsn_classify_frame (f' @ rest) = kind"
    using f(2) ntscf_peek [OF f(2)] f'(2) tscf_peek [OF f'(2)]
    by (simp_all add: rcp_tsn_classify_frame_def kind_def consts_rcp)
  have "fst (snd (tsn_send send t (f @ rest))) = Some (rcp_sched_kind_rank kind)"
    using assms(4,5) c(1) default_pcp [of kind]
    by (simp add: tsn_send_def rcp_tsn_default_config_def Let_def split: prod.splits)
  moreover have "rcp_sched_kind_rank kind < 8" by (cases kind) simp_all
  moreover have "rcp_sched_compare \<lparr>entry_kind = kind, entry_sequence = s\<rparr> \<lparr>entry_kind = other, entry_sequence = s'\<rparr> < 0"
    if "rcp_sched_kind_rank other < rcp_sched_kind_rank kind"
    using that by (auto simp: rcp_sched_compare_def Let_def)
  ultimately show ?thesis
    using f(1) f'(1) c classify_payload_peek [of p] unfolding kind_def by blast
qed

definition tsn_sample :: "unit tsn_transport_t" where
  "tsn_sample = \<lparr>tsn_refcount = 1, tsn_time_sync = True, tsn_inner = (), tsn_fd = 3,
                 tsn_cfg = rcp_tsn_default_config\<rparr>"

definition tsn_clear_all :: bytes where
  "tsn_clear_all = [push_bit 1 RCP_ACF_MSG_TYPE_GBB, 4, 0, 0, 0, 0, 0, 0,
                    RCP_REQUEST_TYPE_CLEAR_ALL, 0, 0, 0, 0, 0, 0, 0]"

theorem tsn_priority_agrees_witness:
  "\<exists>f. rcp_avtp_encode_ntscf True ntscf_sample tsn_clear_all = Some f \<and>
     rcp_tsn_classify_frame (f @ []) = RCP_SCHED_KIND_CANCELLATION \<and>
     fst (snd (tsn_send (\<lambda>i f. (RCP_OK, i)) tsn_sample (f @ []))) = Some 6"
proof -
  have "ntscf_wf ntscf_sample" "tscf_wf tscf_sample"
    by (simp_all add: ntscf_sample_def ntscf_wf_def tscf_sample_def tscf_wf_def stream_id_wf_def)
  from tsn_priority_agrees [OF this, of tsn_clear_all tsn_sample "[]" "\<lambda>i f. (RCP_OK, i)" RCP_SCHED_KIND_STANDARD 0 0]
  show ?thesis
    by (auto simp: tsn_sample_def tsn_clear_all_def rcp_compound_peek_request_type_def
        rcp_sched_classify_def consts_rcp)
qed

end
