(* ===== verification/Regmap_Config.thy ===== *)
theory Regmap_Config
  imports Regmap_Tables
begin

text \<open>
  \<^verbatim>\<open>src/regmap.c\<close>, third part: the request stream configuration with its watchdog units, the
  generic endpoint configuration, the predicates over the endpoint id map, the numbering of the named signals,
  and the identity of a writer.

  A conversion that fails returns \<^const>\<open>None\<close>.  The live status of the streams, which only the renderer
  of the request stream table reads, is an optional list of flags.
\<close>

section \<open>Watchdog units\<close>

definition rcp_regmap_wd_timeout_ms_to_ticks :: "u32 \<Rightarrow> u32 \<Rightarrow> u16 option" where
  "rcp_regmap_wd_timeout_ms_to_ticks timeout_ms ms_per_tick =
     (if ms_per_tick = 0 then None
      else
        let ticks = timeout_ms div ms_per_tick
        in if ticks > 0xFFFF then None else Some (ucast ticks))"

definition rcp_regmap_wd_timeout_ticks_to_ms :: "u16 \<Rightarrow> u32 \<Rightarrow> u32 option" where
  "rcp_regmap_wd_timeout_ticks_to_ms ticks ms_per_tick =
     (if ms_per_tick = 0 then None
      else
        let product = (ucast ticks :: u64) * ucast ms_per_tick
        in if product > 0xFFFFFFFF then None else Some (ucast product))"

section \<open>Request stream configuration\<close>

record rcp_regmap_request_stream_cfg_t =
  rsc_configured :: bool
  rsc_rx_stream_id :: u64
  rsc_rx_secure_channel_index :: byte
  rsc_rx_ack_stream_index :: byte
  rsc_rx_resp_stream_index :: byte
  rsc_rx_enforce_e2e :: bool
  rsc_rx_enforce_seq :: bool
  rsc_rx_seq_safestate_enable :: bool
  rsc_rx_wd_enable :: bool
  rsc_rx_wd_timeout_ms :: u32
  rsc_rx_wd_action :: byte
  rsc_rx_wd_safestate_enable :: bool
  rsc_rx_wd_info_enable :: bool
  rsc_rx_ovrflw_safestate_enable :: bool
  rsc_rx_safety_measure :: byte
  rsc_rx_safestate_sequencer :: u16
  rsc_rx_safe_sequencer_state :: byte
  rsc_rx_stream_max_request_size :: nat

datatype rcp_regmap_request_stream_cfg_reconfig_errc_t =
    RCP_REGMAP_REQUEST_STREAM_CFG_RECONFIG_OK | RCP_REGMAP_REQUEST_STREAM_CFG_RECONFIG_ERR_SHORT
  | RCP_REGMAP_REQUEST_STREAM_CFG_RECONFIG_ERR_OUT_OF_RANGE

definition RCP_REGMAP_REQUEST_STREAM_CFG_MAX_ENTRIES :: nat where
  [consts_rcp]: "RCP_REGMAP_REQUEST_STREAM_CFG_MAX_ENTRIES = 64"

definition rcp_regmap_request_stream_cfg_init :: rcp_regmap_request_stream_cfg_t where
  "rcp_regmap_request_stream_cfg_init =
     \<lparr>rsc_configured = False, rsc_rx_stream_id = 0, rsc_rx_secure_channel_index = 0,
      rsc_rx_ack_stream_index = 0, rsc_rx_resp_stream_index = 1, rsc_rx_enforce_e2e = False,
      rsc_rx_enforce_seq = False, rsc_rx_seq_safestate_enable = False, rsc_rx_wd_enable = False,
      rsc_rx_wd_timeout_ms = 0, rsc_rx_wd_action = 0, rsc_rx_wd_safestate_enable = False,
      rsc_rx_wd_info_enable = False, rsc_rx_ovrflw_safestate_enable = False, rsc_rx_safety_measure = 0,
      rsc_rx_safestate_sequencer = 0, rsc_rx_safe_sequencer_state = 0, rsc_rx_stream_max_request_size = 0\<rparr>"

text \<open>The enforcement octet at offset \<open>0x0D\<close>; its bit 7 is the live status of the stream.\<close>

definition rsc_bits :: "rcp_regmap_request_stream_cfg_t \<Rightarrow> bool \<Rightarrow> byte" where
  "rsc_bits e blocked =
     (if rsc_rx_enforce_e2e e then 0x01 else 0) OR
     (if rsc_rx_enforce_seq e \<and> rsc_rx_seq_safestate_enable e then 0x02 else 0) OR
     (if rsc_rx_wd_enable e \<and> rsc_rx_wd_safestate_enable e then 0x04 else 0) OR
     (if rsc_rx_ovrflw_safestate_enable e then 0x08 else 0) OR
     (if blocked then 0x80 else 0)"

definition rsc_row :: "u32 \<Rightarrow> bool \<Rightarrow> rcp_regmap_request_stream_cfg_t \<Rightarrow> bytes" where
  "rsc_row mpt blocked e =
     put_u64 (rsc_rx_stream_id e) @
     put_u16 (if rsc_rx_stream_max_request_size e > 0xFFFF then 0xFFFF
              else of_nat (rsc_rx_stream_max_request_size e)) @
     (case rcp_regmap_wd_timeout_ms_to_ticks (rsc_rx_wd_timeout_ms e) mpt of
        Some wd_timeout_ticks \<Rightarrow> put_u16 wd_timeout_ticks
      | None \<Rightarrow> [0, 0]) @
     [rsc_rx_secure_channel_index e,
      rsc_bits e blocked,
      if rsc_rx_safestate_sequencer e > 0xFF then 0xFF else ucast (rsc_rx_safestate_sequencer e),
      rsc_rx_safe_sequencer_state e,
      rsc_rx_ack_stream_index e,
      rsc_rx_resp_stream_index e,
      0, 0, 0, 0, 0, 0]"

definition rsc_parse_row ::
    "u32 \<Rightarrow> rcp_regmap_request_stream_cfg_t \<Rightarrow> bytes \<Rightarrow> rcp_regmap_request_stream_cfg_t" where
  "rsc_parse_row mpt e b =
     (let bits_0x000d = b ! 0x0D;
          seq_bit = bits_0x000d AND 0x02 \<noteq> 0;
          wd_bit = bits_0x000d AND 0x04 \<noteq> 0
      in e\<lparr>rsc_rx_stream_id := get_u64 b,
          rsc_rx_stream_max_request_size := unat (get_u16 (drop 8 b)),
          rsc_rx_wd_timeout_ms :=
            (case rcp_regmap_wd_timeout_ticks_to_ms (get_u16 (drop 0x0A b)) mpt of
               Some wd_timeout_ms \<Rightarrow> wd_timeout_ms
             | None \<Rightarrow> rsc_rx_wd_timeout_ms e),
          rsc_rx_secure_channel_index := b ! 0x0C,
          rsc_rx_enforce_e2e := bits_0x000d AND 0x01 \<noteq> 0,
          rsc_rx_enforce_seq := seq_bit,
          rsc_rx_seq_safestate_enable := seq_bit,
          rsc_rx_wd_enable := wd_bit,
          rsc_rx_wd_safestate_enable := wd_bit,
          rsc_rx_ovrflw_safestate_enable := bits_0x000d AND 0x08 \<noteq> 0,
          rsc_rx_safestate_sequencer := ucast (b ! 0x0E),
          rsc_rx_safe_sequencer_state := b ! 0x0F,
          rsc_rx_ack_stream_index := b ! 0x10,
          rsc_rx_resp_stream_index := b ! 0x11\<rparr>)"

definition status_flags :: "nat \<Rightarrow> bool list option \<Rightarrow> bool list" where
  "status_flags count rx_stream_status_blocked =
     (case rx_stream_status_blocked of None \<Rightarrow> replicate count False | Some flags \<Rightarrow> take count flags)"

definition rcp_regmap_request_stream_cfg_render ::
    "rcp_regmap_request_stream_cfg_t list \<Rightarrow> u32 \<Rightarrow> bool list option \<Rightarrow> bytes" where
  "rcp_regmap_request_stream_cfg_render entries mpt rx_stream_status_blocked =
     concat (map (\<lambda>(e, blocked). rsc_row mpt blocked e)
       (zip entries (status_flags (length entries) rx_stream_status_blocked)))"

definition rcp_regmap_request_stream_cfg_apply_reconfig ::
    "rcp_regmap_request_stream_cfg_t list \<Rightarrow> u16 \<Rightarrow> bytes \<Rightarrow> u32 \<Rightarrow>
     rcp_regmap_request_stream_cfg_reconfig_errc_t \<times> rcp_regmap_request_stream_cfg_t list" where
  "rcp_regmap_request_stream_cfg_apply_reconfig entries relative data mpt =
     apply_rows 24 RCP_REGMAP_REQUEST_STREAM_CFG_MAX_ENTRIES (rsc_row mpt False) (rsc_parse_row mpt)
       RCP_REGMAP_REQUEST_STREAM_CFG_RECONFIG_OK RCP_REGMAP_REQUEST_STREAM_CFG_RECONFIG_ERR_SHORT
       RCP_REGMAP_REQUEST_STREAM_CFG_RECONFIG_ERR_OUT_OF_RANGE entries (unat relative) data"

definition rcp_regmap_request_stream_cfg_resolve_index ::
    "rcp_regmap_request_stream_cfg_t list option \<Rightarrow> u64 \<Rightarrow> byte" where
  "rcp_regmap_request_stream_cfg_resolve_index entries stream_id =
     (case entries of
        None \<Rightarrow> 0
      | Some es \<Rightarrow>
          (case find_index (\<lambda>e. rsc_rx_stream_id e = stream_id) es of
             Some i \<Rightarrow> of_nat (i + 1)
           | None \<Rightarrow> 0))"

section \<open>Facts on the watchdog units\<close>

lemma ucast_via_nat: "ucast w = of_nat (unat w)" for w :: "'a::len word"
  by (simp add: unsigned_def)

lemma wd_ms_to_ticks_nat:
  "rcp_regmap_wd_timeout_ms_to_ticks ms m =
     (if m = 0 \<or> unat ms div unat m > 0xFFFF then None else Some (of_nat (unat ms div unat m)))"
  by (simp add: rcp_regmap_wd_timeout_ms_to_ticks_def Let_def word_less_nat_alt unat_div ucast_via_nat)

lemma wd_ticks_to_ms_nat:
  "rcp_regmap_wd_timeout_ticks_to_ms t m =
     (if m = 0 \<or> unat t * unat m > 0xFFFFFFFF then None else Some (of_nat (unat t * unat m)))"
proof -
  have lt: "unat t < 2 ^ 16" "unat m < 2 ^ 32"
    using unsigned_less [of t, where 'a = nat] unsigned_less [of m, where 'a = nat] by simp_all
  then have "unat t * unat m < 2 ^ 16 * 2 ^ 32" by (intro mult_strict_mono) simp_all
  moreover have "unat (ucast t :: u64) = unat t" "unat (ucast m :: u64) = unat m"
    using lt by (simp_all add: unsigned_ucast_eq take_bit_nat_eq_self)
  ultimately have p: "unat ((ucast t :: u64) * ucast m) = unat t * unat m"
    by (simp add: unat_word_ariths)
  have "(ucast ((ucast t :: u64) * ucast m) :: u32) = of_nat (unat t * unat m)"
    by (subst ucast_via_nat) (simp only: p)
  then show ?thesis unfolding rcp_regmap_wd_timeout_ticks_to_ms_def Let_def word_less_nat_alt p
    by (simp del: of_nat_mult)
qed

text \<open>Converting to ticks and back never lengthens a timeout and loses less than one tick; ticks survive the way
  through milliseconds.\<close>

lemma wd_round_down:
  assumes "rcp_regmap_wd_timeout_ms_to_ticks ms m = Some t"
  shows "\<exists>ms'. rcp_regmap_wd_timeout_ticks_to_ms t m = Some ms' \<and> unat ms' = unat ms - unat ms mod unat m"
proof -
  have m: "m \<noteq> 0" and t: "unat t = unat ms div unat m"
    using assms by (auto simp: wd_ms_to_ticks_nat unat_of_nat take_bit_nat_eq_self split: if_splits)
  have p: "unat t * unat m = unat ms - unat ms mod unat m"
    unfolding t by (simp add: minus_mod_eq_div_mult)
  have "unat t * unat m < 2 ^ 32" using unsigned_less [of ms, where 'a = nat] p by simp
  then have "unat (of_nat (unat t * unat m) :: u32) = unat t * unat m" "\<not> unat t * unat m > 0xFFFFFFFF"
    by (simp_all add: unat_of_nat del: of_nat_mult)
  then show ?thesis using m by (simp add: wd_ticks_to_ms_nat del: of_nat_mult) (simp add: p)
qed

lemma wd_ticks_roundtrip:
  "rcp_regmap_wd_timeout_ticks_to_ms t m = Some ms \<Longrightarrow> rcp_regmap_wd_timeout_ms_to_ticks ms m = Some t"
proof -
  assume "rcp_regmap_wd_timeout_ticks_to_ms t m = Some ms"
  then have m: "m \<noteq> 0" and le: "unat t * unat m \<le> 0xFFFFFFFF" and ms: "ms = of_nat (unat t * unat m)"
    by (auto simp: wd_ticks_to_ms_nat split: if_splits)
  have "unat m > 0" using m by (simp add: unat_gt_0)
  then have "unat ms div unat m = unat t" using le by (simp add: ms unat_of_nat del: of_nat_mult)
  moreover have "unat t \<le> 0xFFFF" using unsigned_less [of t, where 'a = nat] by simp
  ultimately show ?thesis using m by (simp add: wd_ms_to_ticks_nat)
qed

lemma wd_ticks_fit:
  assumes "m \<noteq> 0" "m \<le> 0x10001"
  shows "\<exists>ms. rcp_regmap_wd_timeout_ticks_to_ms t m = Some ms"
proof -
  have "unat t \<le> 0xFFFF" using unsigned_less [of t, where 'a = nat] by simp
  moreover have "unat m \<le> 0x10001" using assms(2) by (simp add: word_le_nat_alt)
  ultimately have "unat t * unat m \<le> 0xFFFF * 0x10001" by (rule mult_le_mono)
  then show ?thesis using assms(1) by (simp add: wd_ticks_to_ms_nat del: of_nat_mult)
qed

section \<open>The request stream table as rows\<close>

text \<open>The configurations that the wire format expresses: sequence and watchdog enforcement come with
  their safe-state flag, sizes and indices fit their registers, and the timeout is a whole number of ticks.\<close>

definition rsc_wf :: "u32 \<Rightarrow> rcp_regmap_request_stream_cfg_t \<Rightarrow> bool" where
  "rsc_wf mpt e \<longleftrightarrow>
     rsc_rx_enforce_seq e = rsc_rx_seq_safestate_enable e \<and>
     rsc_rx_wd_enable e = rsc_rx_wd_safestate_enable e \<and>
     rsc_rx_stream_max_request_size e \<le> 0xFFFF \<and>
     take_bit 8 (rsc_rx_safestate_sequencer e) = rsc_rx_safestate_sequencer e \<and>
     (mpt \<noteq> 0 \<longrightarrow> (\<exists>t. rcp_regmap_wd_timeout_ticks_to_ms t mpt = Some (rsc_rx_wd_timeout_ms e)))"

definition rsc_canon :: "nat \<Rightarrow> byte \<Rightarrow> byte" where
  "rsc_canon j d = (if j = 0x0D then d AND 0x0F else if 0x12 \<le> j then 0 else d)"

lemma length_rsc_row [simp]: "length (rsc_row mpt blocked e) = 24"
  by (simp add: rsc_row_def split: option.split)

lemma rsc_bits_fields:
  "bit (rsc_bits e blocked) 0 = rsc_rx_enforce_e2e e"
  "bit (rsc_bits e blocked) (Suc 0) = (rsc_rx_enforce_seq e \<and> rsc_rx_seq_safestate_enable e)"
  "bit (rsc_bits e blocked) 2 = (rsc_rx_wd_enable e \<and> rsc_rx_wd_safestate_enable e)"
  "bit (rsc_bits e blocked) 3 = rsc_rx_ovrflw_safestate_enable e"
  by (simp_all add: rsc_bits_def word_bits)

lemma small_octet: "take_bit 8 w = w \<Longrightarrow> w \<le> 0xFF" for w :: u16
  using uint_less_of_take_bit(2) [of 8 w] by (simp add: word_le_nat_alt)

lemma rsc_parse_render: "rsc_wf mpt e \<Longrightarrow> rsc_parse_row mpt e (rsc_row mpt False e) = e"
proof -
  assume wf: "rsc_wf mpt e"
  have seq: "\<not> rsc_rx_safestate_sequencer e > 0xFF" "take_bit 8 (rsc_rx_safestate_sequencer e) = rsc_rx_safestate_sequencer e"
    using wf small_octet by (auto simp: rsc_wf_def not_less)
  have size: "unat (of_nat (rsc_rx_stream_max_request_size e) :: u16) = rsc_rx_stream_max_request_size e"
    using wf by (simp add: rsc_wf_def unat_of_nat)
  have flags: "rsc_rx_enforce_seq e = rsc_rx_seq_safestate_enable e"
    "rsc_rx_wd_enable e = rsc_rx_wd_safestate_enable e" "rsc_rx_stream_max_request_size e \<le> 0xFFFF"
    using wf by (simp_all add: rsc_wf_def)
  show ?thesis
  proof (cases "mpt = 0")
    case True
    then show ?thesis using seq size flags
      by (intro rcp_regmap_request_stream_cfg_t.equality)
        (simp_all add: rsc_parse_row_def Let_def rsc_row_def rcp_regmap_wd_timeout_ms_to_ticks_def
          rcp_regmap_wd_timeout_ticks_to_ms_def nth_append mask_flag rsc_bits_fields octet_word)
  next
    case False
    then obtain t where t: "rcp_regmap_wd_timeout_ticks_to_ms t mpt = Some (rsc_rx_wd_timeout_ms e)"
      using wf by (auto simp: rsc_wf_def)
    show ?thesis using seq size flags
      by (intro rcp_regmap_request_stream_cfg_t.equality)
        (simp_all add: rsc_parse_row_def Let_def rsc_row_def t wd_ticks_roundtrip [OF t] nth_append mask_flag
          rsc_bits_fields octet_word)
  qed
qed

lemma rsc_parse_wf: "rsc_wf mpt e \<Longrightarrow> rsc_wf mpt (rsc_parse_row mpt e b)"
proof -
  assume wf: "rsc_wf mpt e"
  have "take_bit 8 (ucast (d :: byte)) = (ucast d :: u16)" for d by (rule word16_eqI, simp add: word_bits)
  moreover have "unat w \<le> 0xFFFF" for w :: u16 using unsigned_less [of w, where 'a = nat] by simp
  ultimately show ?thesis using wf
    by (cases "rcp_regmap_wd_timeout_ticks_to_ms (get_u16 (drop 10 b)) mpt")
      (auto simp: rsc_wf_def rsc_parse_row_def Let_def)
qed

lemma rsc_render_parse:
  assumes "length b = 24" and "mpt \<noteq> 0" and "mpt \<le> 0x10001"
  shows "rsc_row mpt False (rsc_parse_row mpt e b) =
    take 13 b @ [b ! 13 AND 0x0F] @ take 4 (drop 14 b) @ [0, 0, 0, 0, 0, 0]"
proof -
  obtain ms where ms: "rcp_regmap_wd_timeout_ticks_to_ms (get_u16 (drop 10 b)) mpt = Some ms"
    using wd_ticks_fit [OF assms(2,3)] by blast
  obtain b0 b1 b2 b3 b4 b5 b6 b7 b8 b9 b10 b11 b12 b13 b14 b15 b16 b17 r where
    b: "b = [b0, b1, b2, b3, b4, b5, b6, b7, b8, b9, b10, b11, b12, b13, b14, b15, b16, b17] @ r"
    using assms(1) by (auto simp: numeral_eq_Suc length_Suc_conv)
  have g: "get_u64 b = get_u64 [b0, b1, b2, b3, b4, b5, b6, b7]" "get_u16 (drop 8 b) = get_u16 [b8, b9]"
    "get_u16 (drop 10 b) = get_u16 [b10, b11]"
    by (simp_all add: b get_u64_def get_u16_def)
  note ms = ms [unfolded g(3)]
  have lt: "\<not> unat w > 0xFFFF" for w :: u16 using unsigned_less [of w, where 'a = nat] by simp
  have oct: "\<not> ucast d > (0xFF :: u16)" for d :: byte
    using unsigned_less [of d, where 'a = nat] by (simp add: word_less_nat_alt not_less unsigned_ucast_eq take_bit_nat_eq_self)
  have bits: "rsc_bits (rsc_parse_row mpt e b) False = b ! 13 AND 0x0F"
    by (rule word8_eqI) (simp add: rsc_bits_def rsc_parse_row_def Let_def mask_flag word_bits)
  show ?thesis unfolding rsc_row_def bits
    by (simp add: rsc_parse_row_def Let_def ms wd_ticks_roundtrip [OF ms] g put_get_u64_octets put_get_u16_octets
        lt oct octet_word) (simp add: b)
qed

interpretation rsc: row_table 24 RCP_REGMAP_REQUEST_STREAM_CFG_MAX_ENTRIES "rsc_row mpt False" "rsc_parse_row mpt"
  "rsc_wf mpt" RCP_REGMAP_REQUEST_STREAM_CFG_RECONFIG_OK RCP_REGMAP_REQUEST_STREAM_CFG_RECONFIG_ERR_SHORT
  RCP_REGMAP_REQUEST_STREAM_CFG_RECONFIG_ERR_OUT_OF_RANGE for mpt
  by unfold_locales (simp_all add: rsc_parse_render rsc_parse_wf)

text \<open>Reading back needs a tick that is at most \<open>0x10001\<close> milliseconds long, so that every tick count
  of 16 bits fits the field.\<close>

definition rsc_readable :: "u32 \<Rightarrow> rcp_regmap_request_stream_cfg_t \<Rightarrow> bool" where
  "rsc_readable mpt e \<longleftrightarrow> mpt \<noteq> 0 \<and> mpt \<le> 0x10001 \<and> rsc_wf mpt e"

interpretation rscr: readback_table 24 RCP_REGMAP_REQUEST_STREAM_CFG_MAX_ENTRIES "rsc_row mpt False"
  "rsc_parse_row mpt" "rsc_readable mpt" RCP_REGMAP_REQUEST_STREAM_CFG_RECONFIG_OK
  RCP_REGMAP_REQUEST_STREAM_CFG_RECONFIG_ERR_SHORT RCP_REGMAP_REQUEST_STREAM_CFG_RECONFIG_ERR_OUT_OF_RANGE
  rsc_canon for mpt
proof unfold_locales
  show "rsc_row mpt False (rsc_parse_row mpt e b) ! j = rsc_canon j (b ! j)"
    if "rsc_readable mpt e" "length b = 24" "j < 24" for e b j
  proof -
    have "(take 13 b @ [b ! 13 AND 0x0F] @ take 4 (drop 14 b) @ [0, 0, 0, 0, 0, 0]) ! j = rsc_canon j (b ! j)"
      using that(2,3) by (auto simp: nth_append rsc_canon_def less_Suc_eq numeral_eq_Suc)
    then show ?thesis using that(1,2) by (simp add: rsc_render_parse rsc_readable_def)
  qed
qed (simp_all add: rsc_readable_def rsc_parse_render rsc_parse_wf)

section \<open>Generic endpoint configuration\<close>

record rcp_regmap_ep_generic_cfg_t =
  gc_ep_type :: byte
  gc_ep_used :: bool
  gc_ep_delay_time :: u32
  gc_ep_req_storage_size :: u32
  gc_ep_description :: u32
  gc_ep_tx_buffer_size :: u16
  gc_ep_rx_buffer_size :: u16

datatype rcp_regmap_ep_generic_cfg_reconfig_errc_t =
    RCP_REGMAP_EP_GENERIC_CFG_RECONFIG_OK | RCP_REGMAP_EP_GENERIC_CFG_RECONFIG_ERR_SHORT
  | RCP_REGMAP_EP_GENERIC_CFG_RECONFIG_ERR_OUT_OF_RANGE

definition RCP_REGMAP_EP_GENERIC_CFG_MAX_ENTRIES :: nat where
  [consts_rcp]: "RCP_REGMAP_EP_GENERIC_CFG_MAX_ENTRIES = 64"

definition rcp_regmap_ep_generic_cfg_init :: rcp_regmap_ep_generic_cfg_t where
  "rcp_regmap_ep_generic_cfg_init =
     \<lparr>gc_ep_type = 0, gc_ep_used = False, gc_ep_delay_time = 0, gc_ep_req_storage_size = 0,
      gc_ep_description = 0, gc_ep_tx_buffer_size = 0, gc_ep_rx_buffer_size = 0\<rparr>"

definition rcp_regmap_ep_delay_time_us_to_reg :: "u32 \<Rightarrow> byte option" where
  "rcp_regmap_ep_delay_time_us_to_reg delay_us =
     (if delay_us = 1 then Some 0 else if delay_us = 10 then Some 1
      else if delay_us = 20 then Some 2 else if delay_us = 50 then Some 3 else None)"

definition rcp_regmap_ep_delay_time_reg_to_us :: "byte \<Rightarrow> u32" where
  "rcp_regmap_ep_delay_time_reg_to_us reg = [1, 10, 20, 50] ! unat (reg AND 0x3)"

definition rcp_regmap_ep_req_storage_size_words_to_octets :: "u16 \<Rightarrow> u32" where
  "rcp_regmap_ep_req_storage_size_words_to_octets words = ucast words * 4"

definition rcp_regmap_ep_req_storage_size_octets_to_words :: "u32 \<Rightarrow> u16 option" where
  "rcp_regmap_ep_req_storage_size_octets_to_words octets =
     (if octets mod 4 \<noteq> 0 then None
      else
        let words = octets div 4
        in if words > 0xFFFF then None else Some (ucast words))"

definition gc_row :: "rcp_regmap_ep_generic_cfg_t \<Rightarrow> bytes" where
  "gc_row e =
     (let delay_reg = (case rcp_regmap_ep_delay_time_us_to_reg (gc_ep_delay_time e) of
                         Some r \<Rightarrow> r | None \<Rightarrow> 0);
          req_storage_words =
            (case rcp_regmap_ep_req_storage_size_octets_to_words (gc_ep_req_storage_size e) of
               Some w \<Rightarrow> w
             | None \<Rightarrow>
                 (let clamped = (if gc_ep_req_storage_size e > 0xFFFF * 4 then 0xFFFF * 4
                                 else gc_ep_req_storage_size e)
                  in ucast (clamped div 4)));
          octet1 = (if gc_ep_used e then 0x01 else 0x00) OR push_bit 4 (delay_reg AND 0x3)
      in [gc_ep_type e, octet1] @ put_u16 req_storage_words @ put_u32 (gc_ep_description e) @
         put_u16 (gc_ep_tx_buffer_size e) @ put_u16 (gc_ep_rx_buffer_size e))"

definition rcp_regmap_ep_generic_cfg_render :: "rcp_regmap_ep_generic_cfg_t list \<Rightarrow> bytes" where
  "rcp_regmap_ep_generic_cfg_render = render_rows gc_row"

text \<open>A field is stored when the write covers all of its octets.\<close>

definition gc_covers :: "nat \<Rightarrow> nat \<Rightarrow> nat \<Rightarrow> nat \<Rightarrow> bool" where
  "gc_covers touched_start touched_end at width \<longleftrightarrow> touched_start \<le> at \<and> at + width \<le> touched_end"

definition gc_store_row ::
    "nat \<Rightarrow> bytes \<Rightarrow> nat \<Rightarrow> rcp_regmap_ep_generic_cfg_t \<Rightarrow> rcp_regmap_ep_generic_cfg_t" where
  "gc_store_row touched_start data row_i e =
     (let touched_end = touched_start + length data;
          row_base = row_i * 12;
          covers = (\<lambda>offset width. gc_covers touched_start touched_end (row_base + offset) width);
          at = (\<lambda>offset. drop (row_base + offset - touched_start) data);
          octet1 = hd (at 1);
          e1 = (if covers 1 1
                then e\<lparr>gc_ep_used := (if row_i = 0 then True else octet1 AND 0x01 \<noteq> 0),
                       gc_ep_delay_time := rcp_regmap_ep_delay_time_reg_to_us (drop_bit 4 octet1 AND 0x3)\<rparr>
                else e);
          e2 = (if covers 2 2
                then e1\<lparr>gc_ep_req_storage_size :=
                          rcp_regmap_ep_req_storage_size_words_to_octets (get_u16 (at 2))\<rparr>
                else e1);
          e3 = (if covers 4 4 then e2\<lparr>gc_ep_description := get_u32 (at 4)\<rparr> else e2);
          e4 = (if covers 8 2 then e3\<lparr>gc_ep_tx_buffer_size := get_u16 (at 8)\<rparr> else e3)
      in if covers 10 2 then e4\<lparr>gc_ep_rx_buffer_size := get_u16 (at 10)\<rparr> else e4)"

fun gc_store_rows ::
    "nat \<Rightarrow> bytes \<Rightarrow> nat list \<Rightarrow> rcp_regmap_ep_generic_cfg_t list \<Rightarrow> rcp_regmap_ep_generic_cfg_t list" where
  "gc_store_rows touched_start data [] entries = entries"
| "gc_store_rows touched_start data (row_i # rest) entries =
     gc_store_rows touched_start data rest
       (entries[row_i := gc_store_row touched_start data row_i (entries ! row_i)])"

definition rcp_regmap_ep_generic_cfg_apply_reconfig ::
    "rcp_regmap_ep_generic_cfg_t list \<Rightarrow> u16 \<Rightarrow> bytes \<Rightarrow>
     rcp_regmap_ep_generic_cfg_reconfig_errc_t \<times> rcp_regmap_ep_generic_cfg_t list" where
  "rcp_regmap_ep_generic_cfg_apply_reconfig entries relative data =
     (if length data = 0 then (RCP_REGMAP_EP_GENERIC_CFG_RECONFIG_ERR_SHORT, entries)
      else
        let touched_start = unat relative;
            touched_end = touched_start + length data
        in if touched_end > length entries * 12
           then (RCP_REGMAP_EP_GENERIC_CFG_RECONFIG_ERR_OUT_OF_RANGE, entries)
           else
             let row_start_idx = touched_start div 12;
                 row_end_idx = (touched_end - 1) div 12
             in (RCP_REGMAP_EP_GENERIC_CFG_RECONFIG_OK,
                 gc_store_rows touched_start data [row_start_idx..<row_end_idx + 1] entries))"

section \<open>What a write to the generic configuration stores\<close>

lemma length_gc_store_rows [simp]: "length (gc_store_rows start ds is es) = length es"
  by (induction "is" arbitrary: es) simp_all

lemma nth_gc_store_rows:
  "distinct is \<Longrightarrow> k < length es \<Longrightarrow>
   gc_store_rows start ds is es ! k = (if k \<in> set is then gc_store_row start ds k (es ! k) else es ! k)"
proof (induction "is" arbitrary: es)
  case (Cons i "is")
  then show ?case by (cases "k = i") auto
qed simp

lemma gc_row_outside:
  assumes "start + length ds \<le> k * 12 \<or> k * 12 + 12 \<le> start"
  shows "gc_store_row start ds k e = e"
proof -
  have "\<not> gc_covers start (start + length ds) (k * 12 + offset) width" if "offset < 12" "0 < width" for offset width
    using assms that by (auto simp: gc_covers_def)
  from this [of 1 1] this [of 2 2] this [of 4 4] this [of 8 2] this [of 10 2]
  show ?thesis by (simp only: gc_store_row_def Let_def) (simp only: if_False)
qed

text \<open>Every row is stored independently of the others, also outside the span of the loop.\<close>

lemma gc_apply_rows:
  assumes "ds \<noteq> []" and "unat relative + length ds \<le> length es * 12"
  shows "rcp_regmap_ep_generic_cfg_apply_reconfig es relative ds =
    (RCP_REGMAP_EP_GENERIC_CFG_RECONFIG_OK,
     map (\<lambda>k. gc_store_row (unat relative) ds k (es ! k)) [0..<length es])"
proof -
  let ?s = "unat relative" and ?t = "unat relative + length ds"
  have out: "gc_store_row ?s ds k (es ! k) = es ! k" if "\<not> (?s div 12 \<le> k \<and> k \<le> (?t - 1) div 12)" for k
  proof (rule gc_row_outside)
    show "?t \<le> k * 12 \<or> k * 12 + 12 \<le> ?s"
      using that assms(1) less_eq_div_iff_mult_less_eq [of 12 "Suc k" ?s] div_less_iff_less_mult [of 12 "?t - 1" k]
      by (cases ds) (auto simp: Suc_le_eq not_le)
  qed
  have "gc_store_rows ?s ds [?s div 12..<(?t - 1) div 12 + 1] es =
      map (\<lambda>k. gc_store_row ?s ds k (es ! k)) [0..<length es]"
    using out by (intro nth_equalityI) (auto simp: nth_gc_store_rows)
  then show ?thesis using assms by (simp add: rcp_regmap_ep_generic_cfg_apply_reconfig_def Let_def)
qed

lemma gc_apply_refused:
  "fst (rcp_regmap_ep_generic_cfg_apply_reconfig es relative ds) \<noteq> RCP_REGMAP_EP_GENERIC_CFG_RECONFIG_OK \<Longrightarrow>
   snd (rcp_regmap_ep_generic_cfg_apply_reconfig es relative ds) = es"
  "fst (rcp_regmap_ep_generic_cfg_apply_reconfig es relative ds) = RCP_REGMAP_EP_GENERIC_CFG_RECONFIG_OK \<longleftrightarrow>
   ds \<noteq> [] \<and> unat relative + length ds \<le> length es * 12"
  by (auto simp: rcp_regmap_ep_generic_cfg_apply_reconfig_def Let_def)

lemma gc_apply_length [simp]: "length (snd (rcp_regmap_ep_generic_cfg_apply_reconfig es relative ds)) = length es"
  by (simp add: rcp_regmap_ep_generic_cfg_apply_reconfig_def Let_def)

lemma gc_type_kept: "gc_ep_type (gc_store_row start ds k e) = gc_ep_type e"
  by (simp add: gc_store_row_def Let_def)

text \<open>The unit conversions of the registers lose nothing on the values they accept.\<close>

lemma delay_roundtrip:
  "rcp_regmap_ep_delay_time_us_to_reg us = Some r \<Longrightarrow> rcp_regmap_ep_delay_time_reg_to_us r = us"
  "rcp_regmap_ep_delay_time_us_to_reg (rcp_regmap_ep_delay_time_reg_to_us r) = Some (r AND 0x3)"
proof -
  show "rcp_regmap_ep_delay_time_us_to_reg us = Some r \<Longrightarrow> rcp_regmap_ep_delay_time_reg_to_us r = us"
    by (auto simp: rcp_regmap_ep_delay_time_us_to_reg_def rcp_regmap_ep_delay_time_reg_to_us_def split: if_splits)
  have "r AND 0x3 \<in> {0, 1, 2, 3}"
  proof -
    have "take_bit 2 (r AND 0x3) = r AND 0x3" by (rule word8_eqI) (simp add: word_bits)
    from uint_less_of_take_bit(2) [OF this]
    have "unat (r AND 0x3) = 0 \<or> unat (r AND 0x3) = 1 \<or> unat (r AND 0x3) = 2 \<or> unat (r AND 0x3) = 3"
      by simp arith
    then show ?thesis by (simp add: word_unat_eq_iff)
  qed
  then show "rcp_regmap_ep_delay_time_us_to_reg (rcp_regmap_ep_delay_time_reg_to_us r) = Some (r AND 0x3)"
    by (auto simp: rcp_regmap_ep_delay_time_us_to_reg_def rcp_regmap_ep_delay_time_reg_to_us_def)
qed

lemma storage_roundtrip:
  "rcp_regmap_ep_req_storage_size_octets_to_words octets = Some w \<Longrightarrow>
   rcp_regmap_ep_req_storage_size_words_to_octets w = octets"
  "rcp_regmap_ep_req_storage_size_octets_to_words (rcp_regmap_ep_req_storage_size_words_to_octets w) = Some w"
proof -
  show "rcp_regmap_ep_req_storage_size_words_to_octets w = octets"
    if "rcp_regmap_ep_req_storage_size_octets_to_words octets = Some w"
  proof -
    have "octets mod 4 = 0" "octets div 4 \<le> 0xFFFF" and w: "w = ucast (octets div 4)"
      using that by (auto simp: rcp_regmap_ep_req_storage_size_octets_to_words_def Let_def not_less split: if_splits)
    then have "ucast w * 4 = octets div 4 * 4" by (simp add: ucast_u32_u16)
    also have "\<dots> = octets" using \<open>octets mod 4 = 0\<close> mod_div_mult_eq [of octets 4] by simp
    finally show ?thesis by (simp add: rcp_regmap_ep_req_storage_size_words_to_octets_def)
  qed
  have "unat (ucast w * 4 :: u32) = unat w * 4"
    using unsigned_less [of w, where 'a = nat] by (simp add: unat_word_ariths unsigned_ucast_eq take_bit_nat_eq_self)
  then have "(ucast w * 4 :: u32) mod 4 = 0" "(ucast w * 4 :: u32) div 4 = ucast w"
    using unsigned_less [of w, where 'a = nat]
    by (simp_all add: word_unat_eq_iff unat_mod unat_div unsigned_ucast_eq take_bit_nat_eq_self)
  then show "rcp_regmap_ep_req_storage_size_octets_to_words (rcp_regmap_ep_req_storage_size_words_to_octets w) =
      Some w"
    using ucast_u16_bound [of w]
    by (simp add: rcp_regmap_ep_req_storage_size_octets_to_words_def
        rcp_regmap_ep_req_storage_size_words_to_octets_def Let_def not_less ucast_u16_u32)
qed

section \<open>The endpoint id map\<close>

fun rcp_regmap_ep_id_map_is_ascending :: "rcp_regmap_ep_id_map_entry_t list \<Rightarrow> bool" where
  "rcp_regmap_ep_id_map_is_ascending (prev # cur # rest) =
     (if em_request_stream_index prev \<noteq> em_request_stream_index cur
      then if \<not> em_request_stream_index prev < em_request_stream_index cur then False
           else rcp_regmap_ep_id_map_is_ascending (cur # rest)
      else if \<not> em_byte_bus_id prev < em_byte_bus_id cur then False
      else rcp_regmap_ep_id_map_is_ascending (cur # rest))"
| "rcp_regmap_ep_id_map_is_ascending entries = True"

definition rcp_regmap_ep_id_map_effective_count :: "rcp_regmap_ep_id_map_entry_t list \<Rightarrow> nat" where
  "rcp_regmap_ep_id_map_effective_count entries =
     (case find_index (\<lambda>e. em_request_stream_index e = 0) entries of
        Some i \<Rightarrow> i
      | None \<Rightarrow> length entries)"

text \<open>The row keeps its CRC flag.\<close>

definition rcp_regmap_ep_id_map_row_init_default ::
    "rcp_regmap_ep_id_map_entry_t \<Rightarrow> rcp_regmap_ep_id_map_entry_t" where
  "rcp_regmap_ep_id_map_row_init_default row =
     row\<lparr>em_request_stream_index := 1, em_ep_id := RCP_REGMAP_EP0_INDEX, em_byte_bus_id := 0\<rparr>"

fun rcp_regmap_ep_id_map_has_single_client_per_ep :: "rcp_regmap_ep_id_map_entry_t list \<Rightarrow> bool" where
  "rcp_regmap_ep_id_map_has_single_client_per_ep [] = True"
| "rcp_regmap_ep_id_map_has_single_client_per_ep (e # rest) =
     (if list_ex (\<lambda>f. em_ep_id e = em_ep_id f \<and> em_request_stream_index e \<noteq> em_request_stream_index f) rest
      then False
      else rcp_regmap_ep_id_map_has_single_client_per_ep rest)"

text \<open>The endpoint types run parallel to the map.\<close>

fun shared_bus_from :: "(rcp_regmap_ep_id_map_entry_t \<times> byte) list \<Rightarrow> bool" where
  "shared_bus_from [] = True"
| "shared_bus_from ((e, t) # rest) =
     (if list_ex (\<lambda>(f, u). em_request_stream_index e = em_request_stream_index f \<and>
                        em_byte_bus_id e = em_byte_bus_id f \<and> t \<noteq> u) rest
      then False
      else shared_bus_from rest)"

definition rcp_regmap_ep_id_map_shared_bus_homogeneous ::
    "rcp_regmap_ep_id_map_entry_t list \<Rightarrow> bytes \<Rightarrow> bool" where
  "rcp_regmap_ep_id_map_shared_bus_homogeneous entries ep_types = shared_bus_from (zip entries ep_types)"

definition rcp_regmap_ep_id_map_ep_type_has_fixed_ep_id ::
    "rcp_regmap_ep_id_map_entry_t list \<Rightarrow> bytes \<Rightarrow> byte \<Rightarrow> u16 \<Rightarrow> bool" where
  "rcp_regmap_ep_id_map_ep_type_has_fixed_ep_id entries ep_types target_ep_type required_ep_id =
     list_all (\<lambda>(e, t). \<not> (t = target_ep_type \<and> em_ep_id e \<noteq> required_ep_id)) (zip entries ep_types)"

text \<open>The loop keeps the rows it has passed, the number of ids found and those written to the caller's
  array.\<close>

fun byte_bus_ids_loop ::
    "byte \<Rightarrow> nat \<Rightarrow> rcp_regmap_ep_id_map_entry_t list \<Rightarrow> rcp_regmap_ep_id_map_entry_t list \<Rightarrow> nat \<Rightarrow>
     rcp_byte_bus_id_t list \<Rightarrow> nat \<times> rcp_byte_bus_id_t list" where
  "byte_bus_ids_loop rsi out_capacity passed [] found out = (found, out)"
| "byte_bus_ids_loop rsi out_capacity passed (e # rest) found out =
     (if em_request_stream_index e \<noteq> rsi
      then byte_bus_ids_loop rsi out_capacity (passed @ [e]) rest found out
      else if list_ex (\<lambda>p. em_request_stream_index p = rsi \<and> em_byte_bus_id p = em_byte_bus_id e) passed
      then byte_bus_ids_loop rsi out_capacity (passed @ [e]) rest found out
      else byte_bus_ids_loop rsi out_capacity (passed @ [e]) rest (found + 1)
             (if found < out_capacity then out @ [em_byte_bus_id e] else out))"

definition rcp_regmap_ep_id_map_byte_bus_ids_for_stream ::
    "rcp_regmap_ep_id_map_entry_t list \<Rightarrow> byte \<Rightarrow> nat \<Rightarrow> nat \<times> rcp_byte_bus_id_t list" where
  "rcp_regmap_ep_id_map_byte_bus_ids_for_stream entries rsi out_capacity =
     byte_bus_ids_loop rsi out_capacity [] entries 0 []"

fun rcp_regmap_ep_id_map_is_valid_association ::
    "rcp_regmap_ep_id_map_entry_t list \<Rightarrow> byte \<Rightarrow> rcp_byte_bus_id_t \<Rightarrow> bool" where
  "rcp_regmap_ep_id_map_is_valid_association [] rsi bus = False"
| "rcp_regmap_ep_id_map_is_valid_association (e # rest) rsi bus =
     (if em_request_stream_index e = rsi \<and> em_byte_bus_id e = bus then True
      else rcp_regmap_ep_id_map_is_valid_association rest rsi bus)"

section \<open>Writers\<close>

record rcp_regmap_ep_client_t =
  has_owning_stream :: bool
  owning_stream_index :: u16

definition rcp_regmap_writer_ctx ::
    "rcp_regmap_general_t \<Rightarrow> rcp_regmap_ep_client_t option \<Rightarrow> u16 \<Rightarrow> bool \<Rightarrow> bool \<Rightarrow> bool \<Rightarrow>
     rcp_byte_bus_id_t \<Rightarrow> rcp_regmap_ep_id_map_entry_t list \<Rightarrow> rcp_lifecycle_writer_ctx_t" where
  "rcp_regmap_writer_ctx gm ep_client requesting_stream_index via_ep0 via_unicast via_disc bus ep_id_map =
     \<lparr>via_root_client_ep0 =
        via_ep0 \<and> rm_svr_root_client_index gm \<noteq> RCP_REGMAP_NO_ROOT_CLIENT \<and>
        requesting_stream_index = rm_svr_root_client_index gm,
      via_owning_stream =
        (case ep_client of None \<Rightarrow> False
         | Some c \<Rightarrow> has_owning_stream c \<and> requesting_stream_index = owning_stream_index c),
      via_non_unicast_frame = (\<not> via_unicast),
      via_discovery_stream = via_disc,
      via_valid_stream_association =
        (rm_svr_root_client_index gm = RCP_REGMAP_NO_ROOT_CLIENT \<and>
         rcp_regmap_ep_id_map_is_valid_association ep_id_map (ucast requesting_stream_index) bus)\<rparr>"

record rcp_regmap_svr_ep_cfg_t =
  svr_discovery_timeout :: u16
  svr_ep_status :: u16

definition rcp_regmap_svr_ep_cfg_init :: rcp_regmap_svr_ep_cfg_t where
  "rcp_regmap_svr_ep_cfg_init = \<lparr>svr_discovery_timeout = 20000, svr_ep_status = 0\<rparr>"

section \<open>Named signals\<close>

text \<open>A signal is its position in the enumeration of the header, which lists the signals of each kind of
  endpoint one after the other.\<close>

type_synonym rcp_regmap_named_signal_t = int

definition RCP_REGMAP_SIGNAL_GPIO0 :: int where [consts_rcp]: "RCP_REGMAP_SIGNAL_GPIO0 = 0"
definition RCP_REGMAP_SIGNAL_GPIO31 :: int where [consts_rcp]: "RCP_REGMAP_SIGNAL_GPIO31 = 31"
definition RCP_REGMAP_SIGNAL_SPI_CLK :: int where [consts_rcp]: "RCP_REGMAP_SIGNAL_SPI_CLK = 32"
definition RCP_REGMAP_SIGNAL_SPI_CS5 :: int where [consts_rcp]: "RCP_REGMAP_SIGNAL_SPI_CS5 = 40"
definition RCP_REGMAP_SIGNAL_I2C_SCL :: int where [consts_rcp]: "RCP_REGMAP_SIGNAL_I2C_SCL = 41"
definition RCP_REGMAP_SIGNAL_I2C_SDA :: int where [consts_rcp]: "RCP_REGMAP_SIGNAL_I2C_SDA = 42"
definition RCP_REGMAP_SIGNAL_UART_TX :: int where [consts_rcp]: "RCP_REGMAP_SIGNAL_UART_TX = 43"
definition RCP_REGMAP_SIGNAL_UART_CTS :: int where [consts_rcp]: "RCP_REGMAP_SIGNAL_UART_CTS = 46"
definition RCP_REGMAP_SIGNAL_LIN_TXD :: int where [consts_rcp]: "RCP_REGMAP_SIGNAL_LIN_TXD = 47"
definition RCP_REGMAP_SIGNAL_LIN_NSLP :: int where [consts_rcp]: "RCP_REGMAP_SIGNAL_LIN_NSLP = 49"
definition RCP_REGMAP_SIGNAL_PWM_OUT :: int where [consts_rcp]: "RCP_REGMAP_SIGNAL_PWM_OUT = 50"
definition RCP_REGMAP_SIGNAL_PWM_OUTN :: int where [consts_rcp]: "RCP_REGMAP_SIGNAL_PWM_OUTN = 51"
definition RCP_REGMAP_SIGNAL_PWM_IN :: int where [consts_rcp]: "RCP_REGMAP_SIGNAL_PWM_IN = 52"
definition RCP_REGMAP_SIGNAL_ADC_IN :: int where [consts_rcp]: "RCP_REGMAP_SIGNAL_ADC_IN = 53"
definition RCP_REGMAP_SIGNAL_DAC_OUT :: int where [consts_rcp]: "RCP_REGMAP_SIGNAL_DAC_OUT = 54"
definition RCP_REGMAP_SIGNAL_CAN_RXD :: int where [consts_rcp]: "RCP_REGMAP_SIGNAL_CAN_RXD = 55"
definition RCP_REGMAP_SIGNAL_CAN_TXD :: int where [consts_rcp]: "RCP_REGMAP_SIGNAL_CAN_TXD = 56"
definition RCP_REGMAP_SIGNAL_ISELED_ISP_P :: int where [consts_rcp]: "RCP_REGMAP_SIGNAL_ISELED_ISP_P = 57"
definition RCP_REGMAP_SIGNAL_ISELED_ISP_N :: int where [consts_rcp]: "RCP_REGMAP_SIGNAL_ISELED_ISP_N = 58"
definition RCP_REGMAP_SIGNAL_MDIO_MDC :: int where [consts_rcp]: "RCP_REGMAP_SIGNAL_MDIO_MDC = 59"
definition RCP_REGMAP_SIGNAL_MDIO_DATA :: int where [consts_rcp]: "RCP_REGMAP_SIGNAL_MDIO_DATA = 60"

definition rcp_regmap_named_signal_ep_signal_nr :: "rcp_regmap_named_signal_t \<Rightarrow> byte" where
  "rcp_regmap_named_signal_ep_signal_nr sig =
     (if sig < RCP_REGMAP_SIGNAL_GPIO0 then 0
      else if sig \<le> RCP_REGMAP_SIGNAL_GPIO31 then of_int sig
      else if sig \<le> RCP_REGMAP_SIGNAL_SPI_CS5 then of_int (sig - RCP_REGMAP_SIGNAL_SPI_CLK)
      else if sig \<le> RCP_REGMAP_SIGNAL_I2C_SDA then of_int (sig - RCP_REGMAP_SIGNAL_I2C_SCL)
      else if sig \<le> RCP_REGMAP_SIGNAL_UART_CTS then of_int (sig - RCP_REGMAP_SIGNAL_UART_TX)
      else if sig \<le> RCP_REGMAP_SIGNAL_LIN_NSLP then of_int (sig - RCP_REGMAP_SIGNAL_LIN_TXD)
      else if sig \<le> RCP_REGMAP_SIGNAL_PWM_OUTN then of_int (sig - RCP_REGMAP_SIGNAL_PWM_OUT)
      else if sig = RCP_REGMAP_SIGNAL_PWM_IN then 0
      else if sig = RCP_REGMAP_SIGNAL_ADC_IN then 0
      else if sig = RCP_REGMAP_SIGNAL_DAC_OUT then 0
      else if sig \<le> RCP_REGMAP_SIGNAL_CAN_TXD then of_int (sig - RCP_REGMAP_SIGNAL_CAN_RXD)
      else if sig \<le> RCP_REGMAP_SIGNAL_ISELED_ISP_N then of_int (sig - RCP_REGMAP_SIGNAL_ISELED_ISP_P)
      else if sig \<le> RCP_REGMAP_SIGNAL_MDIO_DATA then of_int (sig - RCP_REGMAP_SIGNAL_MDIO_MDC)
      else 0)"

section \<open>Facts on the endpoint id map\<close>

text \<open>The order of the map: by request stream, then by bus.\<close>

definition em_less :: "rcp_regmap_ep_id_map_entry_t \<Rightarrow> rcp_regmap_ep_id_map_entry_t \<Rightarrow> bool" where
  "em_less e f \<longleftrightarrow> em_request_stream_index e < em_request_stream_index f \<or>
     em_request_stream_index e = em_request_stream_index f \<and> em_byte_bus_id e < em_byte_bus_id f"

lemma em_less_trans: "em_less e f \<Longrightarrow> em_less f g \<Longrightarrow> em_less e g"
  by (auto simp: em_less_def)

lemma ascending_sorted: "rcp_regmap_ep_id_map_is_ascending es \<longleftrightarrow> sorted_wrt em_less es"
proof (induction es rule: rcp_regmap_ep_id_map_is_ascending.induct)
  case (1 prev cur rest)
  have step: "em_less prev cur \<longleftrightarrow> (if em_request_stream_index prev \<noteq> em_request_stream_index cur
      then em_request_stream_index prev < em_request_stream_index cur else em_byte_bus_id prev < em_byte_bus_id cur)"
    by (auto simp: em_less_def)
  have "rcp_regmap_ep_id_map_is_ascending (prev # cur # rest) \<longleftrightarrow>
      em_less prev cur \<and> rcp_regmap_ep_id_map_is_ascending (cur # rest)"
    by (simp add: step)
  also have "\<dots> \<longleftrightarrow> em_less prev cur \<and> sorted_wrt em_less (cur # rest)"
    using 1 by (auto simp: step split: if_splits)
  also have "\<dots> \<longleftrightarrow> sorted_wrt em_less (prev # cur # rest)"
    using em_less_trans [of prev cur] by auto
  finally show ?case .
qed simp_all

lemma association_exists:
  "rcp_regmap_ep_id_map_is_valid_association es rsi bus \<longleftrightarrow>
   (\<exists>e\<in>set es. em_request_stream_index e = rsi \<and> em_byte_bus_id e = bus)"
  by (induction es) auto

lemma single_client_pairs:
  "rcp_regmap_ep_id_map_has_single_client_per_ep es \<longleftrightarrow>
   (\<forall>e\<in>set es. \<forall>f\<in>set es. em_ep_id e = em_ep_id f \<longrightarrow> em_request_stream_index e = em_request_stream_index f)"
  by (induction es) (auto simp: list_ex_iff)

text \<open>The buses of a stream in the order of their first row.\<close>

definition stream_buses :: "byte \<Rightarrow> rcp_regmap_ep_id_map_entry_t list \<Rightarrow> rcp_byte_bus_id_t list" where
  "stream_buses rsi es =
     rev (remdups (rev (map em_byte_bus_id (filter (\<lambda>e. em_request_stream_index e = rsi) es))))"

lemma stream_buses_snoc:
  "stream_buses rsi (es @ [e]) =
     (if em_request_stream_index e = rsi \<and> em_byte_bus_id e \<notin> set (stream_buses rsi es)
      then stream_buses rsi es @ [em_byte_bus_id e] else stream_buses rsi es)"
  by (simp add: stream_buses_def)

lemma byte_bus_ids_loop_buses:
  "byte_bus_ids_loop rsi cap passed rest (length (stream_buses rsi passed)) (take cap (stream_buses rsi passed)) =
     (length (stream_buses rsi (passed @ rest)), take cap (stream_buses rsi (passed @ rest)))"
proof (induction rest arbitrary: passed)
  case (Cons e rest)
  have mem: "list_ex (\<lambda>p. em_request_stream_index p = rsi \<and> em_byte_bus_id p = em_byte_bus_id e) passed \<longleftrightarrow>
      em_byte_bus_id e \<in> set (stream_buses rsi passed)"
    by (auto simp: list_ex_iff stream_buses_def image_iff)
  have "byte_bus_ids_loop rsi cap passed (e # rest) (length (stream_buses rsi passed)) (take cap (stream_buses rsi passed)) =
      byte_bus_ids_loop rsi cap (passed @ [e]) rest (length (stream_buses rsi (passed @ [e])))
        (take cap (stream_buses rsi (passed @ [e])))"
    by (simp add: mem stream_buses_snoc)
  then show ?case using Cons.IH [of "passed @ [e]"] by simp
qed simp

lemma byte_bus_ids_exact:
  "rcp_regmap_ep_id_map_byte_bus_ids_for_stream es rsi cap =
     (length (stream_buses rsi es), take cap (stream_buses rsi es))"
  using byte_bus_ids_loop_buses [of rsi cap "[]" es]
  by (simp add: rcp_regmap_ep_id_map_byte_bus_ids_for_stream_def stream_buses_def)

text \<open>The queries over the endpoint id map mean what they say.  The map is ascending exactly when it is
  strictly sorted by stream and bus, and then a stream and a bus identify one row.  A pair is a valid association
  exactly when a row has it.  The listing of the buses of a stream returns how many there are and writes the
  first of them, in the order of their rows, without repetition, as many as the caller has room for.  The
  effective length is that of the longest prefix of rows in use.\<close>

theorem ep_id_map_queries:
  "(rcp_regmap_ep_id_map_is_ascending es \<longleftrightarrow> sorted_wrt em_less es) \<and>
   (rcp_regmap_ep_id_map_is_ascending es \<longrightarrow>
      distinct (map (\<lambda>e. (em_request_stream_index e, em_byte_bus_id e)) es)) \<and>
   (rcp_regmap_ep_id_map_is_valid_association es rsi bus \<longleftrightarrow>
      (rsi, bus) \<in> (\<lambda>e. (em_request_stream_index e, em_byte_bus_id e)) ` set es) \<and>
   fst (rcp_regmap_ep_id_map_byte_bus_ids_for_stream es rsi cap) =
      card {b. rcp_regmap_ep_id_map_is_valid_association es rsi b} \<and>
   snd (rcp_regmap_ep_id_map_byte_bus_ids_for_stream es rsi cap) = take cap (stream_buses rsi es) \<and>
   distinct (stream_buses rsi es) \<and>
   set (stream_buses rsi es) = {b. rcp_regmap_ep_id_map_is_valid_association es rsi b} \<and>
   takeWhile (\<lambda>e. em_request_stream_index e \<noteq> 0) es = take (rcp_regmap_ep_id_map_effective_count es) es"
proof (intro conjI impI)
  show asc: "rcp_regmap_ep_id_map_is_ascending es \<longleftrightarrow> sorted_wrt em_less es" by (rule ascending_sorted)
  show "distinct (map (\<lambda>e. (em_request_stream_index e, em_byte_bus_id e)) es)"
    if "rcp_regmap_ep_id_map_is_ascending es"
  proof -
    have "sorted_wrt em_less es \<Longrightarrow> distinct (map (\<lambda>e. (em_request_stream_index e, em_byte_bus_id e)) es)" for es
      by (induction es) (auto simp: em_less_def)
    then show ?thesis using that asc by simp
  qed
  show "rcp_regmap_ep_id_map_is_valid_association es rsi bus \<longleftrightarrow>
      (rsi, bus) \<in> (\<lambda>e. (em_request_stream_index e, em_byte_bus_id e)) ` set es"
    by (auto simp: association_exists)
  show set_eq: "set (stream_buses rsi es) = {b. rcp_regmap_ep_id_map_is_valid_association es rsi b}"
    by (auto simp: stream_buses_def association_exists)
  show dist: "distinct (stream_buses rsi es)" by (simp add: stream_buses_def)
  show "fst (rcp_regmap_ep_id_map_byte_bus_ids_for_stream es rsi cap) =
      card {b. rcp_regmap_ep_id_map_is_valid_association es rsi b}"
    using distinct_card [OF dist] by (simp add: byte_bus_ids_exact set_eq)
  show "snd (rcp_regmap_ep_id_map_byte_bus_ids_for_stream es rsi cap) = take cap (stream_buses rsi es)"
    by (simp add: byte_bus_ids_exact)
  show "takeWhile (\<lambda>e. em_request_stream_index e \<noteq> 0) es = take (rcp_regmap_ep_id_map_effective_count es) es"
    unfolding rcp_regmap_ep_id_map_effective_count_def
    by (induction es) (auto split: option.split option.splits)
qed

theorem ep_id_map_queries_witness:
  "let es = [\<lparr>em_ep_id = 1, em_byte_bus_id = 5, em_request_stream_index = 1, em_crc_required = False\<rparr>,
             \<lparr>em_ep_id = 2, em_byte_bus_id = 7, em_request_stream_index = 1, em_crc_required = False\<rparr>]
   in rcp_regmap_ep_id_map_is_ascending es \<and>
      distinct (map (\<lambda>e. (em_request_stream_index e, em_byte_bus_id e)) es)"
  using ep_id_map_queries [of "[\<lparr>em_ep_id = 1, em_byte_bus_id = 5, em_request_stream_index = 1, em_crc_required = False\<rparr>,
             \<lparr>em_ep_id = 2, em_byte_bus_id = 7, em_request_stream_index = 1, em_crc_required = False\<rparr>]"]
  by simp

end
