(* ===== verification/Regmap_Ep0.thy ===== *)
theory Regmap_Ep0
  imports Regmap_Config
begin

text \<open>
  \<^verbatim>\<open>src/regmap.c\<close>, fourth part: endpoint 0, the window through which clients read and write the
  tables of the register map.  A request carries a 16-bit address; the section that contains it decides which
  rule of the lifecycle applies and which table is read or written.

  \<open>regmap_tables\<close> collects the tables that the functions receive as separate arguments, and
  \<open>ep0_env\<close> the arguments that describe the request and the server.  \<open>stale\<close> is the previous
  content of the scratch buffers, which the code leaves uninitialised beyond the rendered table.  The functions
  are executable; a table of more rows than its scratch buffer holds is outside the model of the two paths
  that render it without a check.
\<close>

section \<open>Data\<close>

record rcp_regmap_optional_subsystem_cfg_ptrs_t =
  network_interface_cfg :: "rcp_regmap_optional_subsystem_cfg_t option"
  physical_layer_cfg :: "rcp_regmap_optional_subsystem_cfg_t option"
  time_synch_cfg :: "rcp_regmap_optional_subsystem_cfg_t option"
  security_cfg :: "rcp_regmap_optional_subsystem_cfg_t option"

record regmap_tables =
  rt_general :: rcp_regmap_general_t
  rt_hw_pin_map :: "rcp_regmap_hw_pin_map_entry_t list"
  rt_ep_id_map :: "rcp_regmap_ep_id_map_entry_t list"
  rt_response_queue_cfg :: "rcp_regmap_response_queue_cfg_t list"
  rt_request_stream_cfg :: "rcp_regmap_request_stream_cfg_t list"
  rt_ep_generic_cfg :: "rcp_regmap_ep_generic_cfg_t list"
  rt_sequencers :: "sequencer_row list option"
  rt_optional :: "rcp_regmap_optional_subsystem_cfg_ptrs_t option"

record ep0_env =
  env_state :: rcp_lifecycle_state_t
  env_writer :: rcp_lifecycle_writer_ctx_t
  env_requester_stream_index :: byte
  env_watchdog_ms_per_tick :: u32
  env_ep_types :: "bytes option"
  env_fixed_target_ep_type :: byte
  env_fixed_required_ep_id :: u16
  env_stale :: "nat \<Rightarrow> byte"

datatype rcp_regmap_ep0_errc_t =
    RCP_REGMAP_EP0_OK | RCP_REGMAP_EP0_ERR_SHORT_FRAME | RCP_REGMAP_EP0_ERR_BAD_MSG_TYPE
  | RCP_REGMAP_EP0_ERR_WRONG_BUS | RCP_REGMAP_EP0_ERR_WRONG_OP | RCP_REGMAP_EP0_ERR_SHORT_PAYLOAD

datatype rcp_regmap_ep0_write_op_t =
    RCP_REGMAP_EP0_WRITE_OP_SET | RCP_REGMAP_EP0_WRITE_OP_OR | RCP_REGMAP_EP0_WRITE_OP_AND
  | RCP_REGMAP_EP0_WRITE_OP_XOR

section \<open>Sections\<close>

text \<open>The test of the dispatchers for a table of \<open>len\<close> octets at \<open>ptr\<close>.  An absent table has
  length 0.\<close>

definition in_section :: "nat \<Rightarrow> u16 \<Rightarrow> nat \<Rightarrow> bool" where
  "in_section addr ptr len \<longleftrightarrow> unat ptr \<le> addr \<and> addr < unat ptr + len"

definition sequencer_rows :: "regmap_tables \<Rightarrow> sequencer_row list" where
  "sequencer_rows tb = (case rt_sequencers tb of None \<Rightarrow> [] | Some rows \<Rightarrow> rows)"

definition optional_len :: "rcp_regmap_optional_subsystem_cfg_t option \<Rightarrow> nat" where
  "optional_len cfg = (case cfg of None \<Rightarrow> 0 | Some c \<Rightarrow> oc_len c)"

definition optional_part ::
    "(rcp_regmap_optional_subsystem_cfg_ptrs_t \<Rightarrow> rcp_regmap_optional_subsystem_cfg_t option) \<Rightarrow>
     regmap_tables \<Rightarrow> rcp_regmap_optional_subsystem_cfg_t option" where
  "optional_part sel tb = (case rt_optional tb of None \<Rightarrow> None | Some ptrs \<Rightarrow> sel ptrs)"

datatype ep0_sec =
    Sec_General | Sec_Hw | Sec_Ep_Id | Sec_Response | Sec_Request | Sec_Generic | Sec_Sequencer
  | Sec_Network | Sec_Physical | Sec_Time | Sec_Security | Sec_None

text \<open>The order in which both dispatchers look for the section of an address.\<close>

definition ep0_section :: "regmap_tables \<Rightarrow> nat \<Rightarrow> ep0_sec" where
  "ep0_section tb addr =
     (let gm = rt_general tb in
      if addr < RCP_REGMAP_GENERAL_LEN then Sec_General
      else if in_section addr (rm_svr_hw_cfg_ptr gm) (length (rt_hw_pin_map tb) * 3) then Sec_Hw
      else if in_section addr (rm_svr_ep_bytebus_id_map_ptr gm) (length (rt_ep_id_map tb) * 4) then Sec_Ep_Id
      else if in_section addr (rm_svr_response_stream_cfg_ptr gm) (length (rt_response_queue_cfg tb) * 10)
      then Sec_Response
      else if in_section addr (rm_svr_request_stream_cfg_ptr gm) (length (rt_request_stream_cfg tb) * 24)
      then Sec_Request
      else if in_section addr (rm_svr_ep_generic_cfg_ptr gm) (length (rt_ep_generic_cfg tb) * 12)
      then Sec_Generic
      else if in_section addr (rm_svr_sequencer_state_ptr gm) (length (sequencer_rows tb) * 2)
      then Sec_Sequencer
      else if in_section addr (rm_svr_network_interface_cfg_ptr gm)
                (optional_len (optional_part network_interface_cfg tb)) then Sec_Network
      else if in_section addr (rm_svr_physical_layer_cfg_ptr gm)
                (optional_len (optional_part physical_layer_cfg tb)) then Sec_Physical
      else if in_section addr (rm_svr_time_synch_cfg_ptr gm)
                (optional_len (optional_part time_synch_cfg tb)) then Sec_Time
      else if in_section addr (rm_svr_security_cfg_ptr gm)
                (optional_len (optional_part security_cfg tb)) then Sec_Security
      else Sec_None)"

section \<open>Combining a write with the current content\<close>

fun combine_octet :: "rcp_regmap_ep0_write_op_t \<Rightarrow> byte \<Rightarrow> byte \<Rightarrow> byte" where
  "combine_octet RCP_REGMAP_EP0_WRITE_OP_OR cur req = cur OR req"
| "combine_octet RCP_REGMAP_EP0_WRITE_OP_AND cur req = cur AND req"
| "combine_octet RCP_REGMAP_EP0_WRITE_OP_XOR cur req = cur XOR req"
| "combine_octet RCP_REGMAP_EP0_WRITE_OP_SET cur req = req"

definition rcp_regmap_ep0_combine_write_op ::
    "rcp_regmap_ep0_write_op_t \<Rightarrow> bytes \<Rightarrow> bytes \<Rightarrow> bytes" where
  "rcp_regmap_ep0_combine_write_op op current request =
     map (\<lambda>(c, r). combine_octet op c r) (zip current request)"

text \<open>A scratch buffer of \<open>cap\<close> octets with a table image at its start.\<close>

definition scratch :: "nat \<Rightarrow> (nat \<Rightarrow> byte) \<Rightarrow> bytes \<Rightarrow> bytes" where
  "scratch cap stale img = img @ map stale [length img..<cap]"

text \<open>The octets that a write really stores: combined with the rendered table for OR, AND and XOR when
  the span and the table fit the scratch buffer, and the request's own octets otherwise.\<close>

definition write_octets ::
    "rcp_regmap_ep0_write_op_t \<Rightarrow> nat \<Rightarrow> bool \<Rightarrow> bytes \<Rightarrow> nat \<Rightarrow> bytes \<Rightarrow> bytes" where
  "write_octets op cap fits buffer relative data =
     (if op \<noteq> RCP_REGMAP_EP0_WRITE_OP_SET \<and> relative + length data \<le> cap \<and> fits
      then rcp_regmap_ep0_combine_write_op op (drop relative buffer) data
      else data)"

section \<open>Authorization\<close>

fun touches_w_plus :: "nat \<Rightarrow> nat \<Rightarrow> bool" where
  "touches_w_plus relative 0 = False"
| "touches_w_plus relative (Suc n) =
     (if relative mod 10 < 2 \<or> relative mod 10 \<ge> 6 then True else touches_w_plus (relative + 1) n)"

definition respqueue_cfg_row_write_authorize ::
    "rcp_lifecycle_state_t \<Rightarrow> rcp_lifecycle_writer_ctx_t \<Rightarrow> bool \<Rightarrow> u16 \<Rightarrow> nat \<Rightarrow> rcp_wire_error_t" where
  "respqueue_cfg_row_write_authorize state writer locked relative data_len =
     (if \<not> rcp_lifecycle_field_writable state RCP_LIFECYCLE_FIELD_HW_GENERIC writer
      then rcp_lifecycle_field_write_error state RCP_LIFECYCLE_FIELD_HW_GENERIC writer
      else if touches_w_plus (unat relative) data_len \<and> locked then RCP_ERROR_LOCKED_MEM_ACCESS
      else RCP_ERROR_NONE)"

text \<open>The walk over the octets of a write to the sequencer table.\<close>

fun sequencer_octets_authorize ::
    "sequencer_row list \<Rightarrow> byte \<Rightarrow> nat \<Rightarrow> nat \<Rightarrow> rcp_wire_error_t" where
  "sequencer_octets_authorize rows requester a 0 = RCP_ERROR_NONE"
| "sequencer_octets_authorize rows requester a (Suc n) =
     (let row_index = a div 2; row_offset = a mod 2; cur_owner = snd (rows ! row_index) in
      if row_index \<ge> length rows then sequencer_octets_authorize rows requester (a + 1) n
      else if row_offset = 0
      then if cur_owner = 0 \<or> cur_owner \<noteq> requester then RCP_ERROR_UNAUTHORIZED_ACCESS
           else sequencer_octets_authorize rows requester (a + 1) n
      else if cur_owner \<noteq> 0 \<and> cur_owner \<noteq> requester then RCP_ERROR_UNAUTHORIZED_ACCESS
      else sequencer_octets_authorize rows requester (a + 1) n)"

definition sequencer_row_write_authorize ::
    "rcp_lifecycle_state_t \<Rightarrow> rcp_lifecycle_writer_ctx_t \<Rightarrow> sequencer_row list \<Rightarrow> byte \<Rightarrow> u16 \<Rightarrow> nat \<Rightarrow>
     rcp_wire_error_t" where
  "sequencer_row_write_authorize state writer rows requester relative data_len =
     (if \<not> rcp_lifecycle_field_writable state RCP_LIFECYCLE_FIELD_FUNCTIONAL_W_STAR writer
      then rcp_lifecycle_field_write_error state RCP_LIFECYCLE_FIELD_FUNCTIONAL_W_STAR writer
      else sequencer_octets_authorize rows requester (unat relative) data_len)"

text \<open>The carve-out for the stream status: only octet \<open>0x0D\<close> of a row, and only its bit 7, may differ from
  the current image.\<close>

fun status_octets_only :: "u16 \<Rightarrow> nat \<Rightarrow> bytes \<Rightarrow> bytes \<Rightarrow> bool" where
  "status_octets_only relative i [] current = True"
| "status_octets_only relative i (d # ds) current =
     (let addr_i = relative + of_nat i in
      if addr_i mod 24 \<noteq> 0x0D then False
      else if d AND 0x7F \<noteq> current ! unat addr_i AND 0x7F then False
      else status_octets_only relative (i + 1) ds current)"

definition request_stream_cfg_row_write_authorize ::
    "rcp_lifecycle_state_t \<Rightarrow> rcp_lifecycle_writer_ctx_t \<Rightarrow> u16 \<Rightarrow> bytes \<Rightarrow> bytes option \<Rightarrow> bool" where
  "request_stream_cfg_row_write_authorize state writer relative write_data current_rendered =
     (if rcp_lifecycle_field_writable state RCP_LIFECYCLE_FIELD_FUNCTIONAL_W_STAR writer then True
      else
        (case current_rendered of
           None \<Rightarrow> False
         | Some current \<Rightarrow> status_octets_only relative 0 write_data current))"

definition ep_id_map_write_keeps_fixed_ep_id ::
    "rcp_regmap_ep_id_map_entry_t list \<Rightarrow> bytes option \<Rightarrow> byte \<Rightarrow> u16 \<Rightarrow> (nat \<Rightarrow> byte) \<Rightarrow> u16 \<Rightarrow> bytes \<Rightarrow> bool" where
  "ep_id_map_write_keeps_fixed_ep_id entries ep_types target_ep_type required_ep_id stale relative data =
     (case ep_types of
        None \<Rightarrow> True
      | Some types \<Rightarrow>
          let cap = RCP_REGMAP_EP_ID_MAP_MAX_ENTRIES * 4 in
          if unat relative + length data > cap then True
          else
            let block = patch_rows (scratch cap stale (rcp_regmap_ep_id_map_render entries))
                          (unat relative) data
            in list_all (\<lambda>i. \<not> (types ! i = target_ep_type \<and> block ! (4 * i + 1) \<noteq> ucast required_ep_id))
                 [0..<length entries])"

section \<open>Writing a section\<close>

text \<open>Each function answers with the wire error and the tables after the write.\<close>

definition applied :: "bool \<Rightarrow> rcp_wire_error_t" where
  "applied ok = (if ok then RCP_ERROR_NONE else RCP_ERROR_INVALID_PARAMETER)"

definition write_hw_pin_map ::
    "ep0_env \<Rightarrow> rcp_regmap_ep0_write_op_t \<Rightarrow> u16 \<Rightarrow> bytes \<Rightarrow> regmap_tables \<Rightarrow> rcp_wire_error_t \<times> regmap_tables" where
  "write_hw_pin_map env op addr data tb =
     (let relative = addr - rm_svr_hw_cfg_ptr (rt_general tb); rows = rt_hw_pin_map tb in
      if \<not> rcp_lifecycle_field_writable (env_state env) RCP_LIFECYCLE_FIELD_HW_GENERIC (env_writer env)
      then (rcp_lifecycle_field_write_error (env_state env) RCP_LIFECYCLE_FIELD_HW_GENERIC (env_writer env), tb)
      else
        let cap = RCP_REGMAP_HW_PIN_MAP_MAX_ENTRIES * 3;
            write_data = write_octets op cap (length rows \<le> RCP_REGMAP_HW_PIN_MAP_MAX_ENTRIES)
              (scratch cap (env_stale env) (rcp_regmap_hw_pin_map_render rows)) (unat relative) data;
            (rc, rows') = rcp_regmap_hw_pin_map_apply_reconfig rows relative write_data
        in (applied (rc = RCP_REGMAP_HW_PIN_MAP_RECONFIG_OK), tb\<lparr>rt_hw_pin_map := rows'\<rparr>))"

definition config_locked :: "regmap_tables \<Rightarrow> bool" where
  "config_locked tb \<longleftrightarrow> rm_svr_configuration_lock (rt_general tb) \<noteq> 0"

definition write_ep_id_map ::
    "ep0_env \<Rightarrow> rcp_regmap_ep0_write_op_t \<Rightarrow> u16 \<Rightarrow> bytes \<Rightarrow> regmap_tables \<Rightarrow> rcp_wire_error_t \<times> regmap_tables" where
  "write_ep_id_map env op addr data tb =
     (let relative = addr - rm_svr_ep_bytebus_id_map_ptr (rt_general tb); rows = rt_ep_id_map tb;
          locked = config_locked tb in
      if \<not> rcp_lifecycle_field_writable_w_plus (env_state env) (env_writer env) locked
      then (rcp_lifecycle_field_write_error_w_plus (env_state env) (env_writer env) locked, tb)
      else
        let cap = RCP_REGMAP_EP_ID_MAP_MAX_ENTRIES * 4;
            write_data = write_octets op cap (length rows \<le> RCP_REGMAP_EP_ID_MAP_MAX_ENTRIES)
              (scratch cap (env_stale env) (rcp_regmap_ep_id_map_render rows)) (unat relative) data
        in if \<not> ep_id_map_write_keeps_fixed_ep_id rows (env_ep_types env) (env_fixed_target_ep_type env)
                 (env_fixed_required_ep_id env) (env_stale env) relative write_data
           then (RCP_ERROR_INVALID_PARAMETER, tb)
           else
             let (rc, rows') = rcp_regmap_ep_id_map_apply_reconfig rows relative write_data
             in (applied (rc = RCP_REGMAP_EP_ID_MAP_RECONFIG_OK), tb\<lparr>rt_ep_id_map := rows'\<rparr>))"

definition write_response_queue_cfg ::
    "ep0_env \<Rightarrow> rcp_regmap_ep0_write_op_t \<Rightarrow> u16 \<Rightarrow> bytes \<Rightarrow> regmap_tables \<Rightarrow> rcp_wire_error_t \<times> regmap_tables" where
  "write_response_queue_cfg env op addr data tb =
     (let relative = addr - rm_svr_response_stream_cfg_ptr (rt_general tb); rows = rt_response_queue_cfg tb;
          auth_err = respqueue_cfg_row_write_authorize (env_state env) (env_writer env) (config_locked tb)
            relative (length data) in
      if auth_err \<noteq> RCP_ERROR_NONE then (auth_err, tb)
      else
        let cap = RCP_REGMAP_RESPONSE_QUEUE_CFG_MAX_ENTRIES * 10;
            write_data = write_octets op cap (length rows \<le> RCP_REGMAP_RESPONSE_QUEUE_CFG_MAX_ENTRIES)
              (scratch cap (env_stale env) (rcp_regmap_response_queue_cfg_render rows)) (unat relative) data;
            (rc, rows') = rcp_regmap_response_queue_cfg_apply_reconfig rows relative write_data
        in (applied (rc = RCP_REGMAP_RESPONSE_QUEUE_CFG_RECONFIG_OK), tb\<lparr>rt_response_queue_cfg := rows'\<rparr>))"

definition write_request_stream_cfg ::
    "ep0_env \<Rightarrow> rcp_regmap_ep0_write_op_t \<Rightarrow> u16 \<Rightarrow> bytes \<Rightarrow> regmap_tables \<Rightarrow> rcp_wire_error_t \<times> regmap_tables" where
  "write_request_stream_cfg env op addr data tb =
     (let relative = addr - rm_svr_request_stream_cfg_ptr (rt_general tb); rows = rt_request_stream_cfg tb;
          mpt = env_watchdog_ms_per_tick env;
          cap = RCP_REGMAP_REQUEST_STREAM_CFG_MAX_ENTRIES * 24;
          have_rendered = unat relative + length data \<le> cap;
          rendered = scratch cap (env_stale env) (rcp_regmap_request_stream_cfg_render rows mpt None);
          write_data = write_octets op cap True rendered (unat relative) data in
      if \<not> request_stream_cfg_row_write_authorize (env_state env) (env_writer env) relative write_data
            (if have_rendered then Some rendered else None)
      then (rcp_lifecycle_field_write_error (env_state env) RCP_LIFECYCLE_FIELD_FUNCTIONAL_W_STAR
              (env_writer env), tb)
      else
        let (rc, rows') = rcp_regmap_request_stream_cfg_apply_reconfig rows relative write_data mpt
        in (applied (rc = RCP_REGMAP_REQUEST_STREAM_CFG_RECONFIG_OK), tb\<lparr>rt_request_stream_cfg := rows'\<rparr>))"

definition write_ep_generic_cfg ::
    "ep0_env \<Rightarrow> rcp_regmap_ep0_write_op_t \<Rightarrow> u16 \<Rightarrow> bytes \<Rightarrow> regmap_tables \<Rightarrow> rcp_wire_error_t \<times> regmap_tables" where
  "write_ep_generic_cfg env op addr data tb =
     (let relative = addr - rm_svr_ep_generic_cfg_ptr (rt_general tb); rows = rt_ep_generic_cfg tb in
      if \<not> rcp_lifecycle_field_writable (env_state env) RCP_LIFECYCLE_FIELD_HW_GENERIC (env_writer env)
      then (rcp_lifecycle_field_write_error (env_state env) RCP_LIFECYCLE_FIELD_HW_GENERIC (env_writer env), tb)
      else
        let cap = RCP_REGMAP_EP_GENERIC_CFG_MAX_ENTRIES * 12;
            write_data = write_octets op cap (length rows \<le> RCP_REGMAP_EP_GENERIC_CFG_MAX_ENTRIES)
              (scratch cap (env_stale env) (rcp_regmap_ep_generic_cfg_render rows)) (unat relative) data;
            (rc, rows') = rcp_regmap_ep_generic_cfg_apply_reconfig rows relative write_data
        in (applied (rc = RCP_REGMAP_EP_GENERIC_CFG_RECONFIG_OK), tb\<lparr>rt_ep_generic_cfg := rows'\<rparr>))"

definition write_sequencers ::
    "ep0_env \<Rightarrow> rcp_regmap_ep0_write_op_t \<Rightarrow> u16 \<Rightarrow> bytes \<Rightarrow> regmap_tables \<Rightarrow> rcp_wire_error_t \<times> regmap_tables" where
  "write_sequencers env op addr data tb =
     (let relative = addr - rm_svr_sequencer_state_ptr (rt_general tb); rows = sequencer_rows tb;
          auth_err = sequencer_row_write_authorize (env_state env) (env_writer env) rows
            (env_requester_stream_index env) relative (length data) in
      if auth_err \<noteq> RCP_ERROR_NONE then (auth_err, tb)
      else
        let cap = RCP_REGMAP_SEQUENCER_STATE_MAX_ENTRIES * 2;
            write_data = write_octets op cap (length rows \<le> RCP_REGMAP_SEQUENCER_STATE_MAX_ENTRIES)
              (scratch cap (env_stale env) (rcp_regmap_sequencer_table_render rows)) (unat relative) data;
            (rc, rows') = rcp_regmap_sequencer_table_apply_reconfig rows relative write_data
        in (applied (rc = RCP_REGMAP_SEQUENCER_TABLE_RECONFIG_OK), tb\<lparr>rt_sequencers := Some rows'\<rparr>))"

text \<open>A section of an optional subsystem; the caller has already found the address in it.\<close>

definition optional_subsystem_cfg_write_route ::
    "ep0_env \<Rightarrow> rcp_regmap_ep0_write_op_t \<Rightarrow> u16 \<Rightarrow> u16 \<Rightarrow> bytes \<Rightarrow> rcp_regmap_optional_subsystem_cfg_t \<Rightarrow>
     rcp_wire_error_t \<times> rcp_regmap_optional_subsystem_cfg_t" where
  "optional_subsystem_cfg_write_route env op addr table_ptr data cfg =
     (let relative = addr - table_ptr in
      if \<not> rcp_lifecycle_field_writable (env_state env) RCP_LIFECYCLE_FIELD_FUNCTIONAL_W_STAR (env_writer env)
      then (rcp_lifecycle_field_write_error (env_state env) RCP_LIFECYCLE_FIELD_FUNCTIONAL_W_STAR
              (env_writer env), cfg)
      else
        let write_data = write_octets op (oc_len cfg) (length data \<le> RCP_ACF_ABB_MAX_PAYLOAD)
              (oc_data cfg) (unat relative) data;
            (rc, cfg') = rcp_regmap_optional_subsystem_cfg_apply_reconfig cfg relative write_data
        in (applied (rc = RCP_REGMAP_OPTIONAL_SUBSYSTEM_CFG_RECONFIG_OK), cfg'))"

definition write_optional ::
    "(rcp_regmap_optional_subsystem_cfg_ptrs_t \<Rightarrow> rcp_regmap_optional_subsystem_cfg_t option) \<Rightarrow>
     ((rcp_regmap_optional_subsystem_cfg_t option \<Rightarrow> rcp_regmap_optional_subsystem_cfg_t option) \<Rightarrow>
       rcp_regmap_optional_subsystem_cfg_ptrs_t \<Rightarrow> rcp_regmap_optional_subsystem_cfg_ptrs_t) \<Rightarrow>
     u16 \<Rightarrow> ep0_env \<Rightarrow> rcp_regmap_ep0_write_op_t \<Rightarrow> u16 \<Rightarrow> bytes \<Rightarrow> regmap_tables \<Rightarrow>
     rcp_wire_error_t \<times> regmap_tables" where
  "write_optional sel upd table_ptr env op addr data tb =
     (case optional_part sel tb of
        None \<Rightarrow> (RCP_ERROR_EP_NOT_FOUND, tb)
      | Some cfg \<Rightarrow>
          let (err, cfg') = optional_subsystem_cfg_write_route env op addr table_ptr data cfg
          in (err, tb\<lparr>rt_optional := map_option (upd (\<lambda>_. Some cfg')) (rt_optional tb)\<rparr>))"

section \<open>The write dispatcher\<close>

definition ep0_write_op :: "byte \<Rightarrow> rcp_regmap_ep0_write_op_t option" where
  "ep0_write_op evt =
     (let e = evt AND 0x07 in
      if e > 3 then None
      else if e = 0 then Some RCP_REGMAP_EP0_WRITE_OP_SET
      else if e = 1 then Some RCP_REGMAP_EP0_WRITE_OP_OR
      else if e = 2 then Some RCP_REGMAP_EP0_WRITE_OP_AND
      else Some RCP_REGMAP_EP0_WRITE_OP_XOR)"

definition ep0_write ::
    "ep0_env \<Rightarrow> rcp_regmap_ep0_write_op_t \<Rightarrow> u16 \<Rightarrow> bytes \<Rightarrow> regmap_tables \<Rightarrow> rcp_wire_error_t \<times> regmap_tables" where
  "ep0_write env op addr data tb =
     (let gm = rt_general tb in
      case ep0_section tb (unat addr) of
        Sec_General \<Rightarrow>
          (rcp_lifecycle_field_write_error RCP_LIFECYCLE_RCP_CONFIGURED RCP_LIFECYCLE_FIELD_READ_ONLY
             (env_writer env), tb)
      | Sec_Hw \<Rightarrow> write_hw_pin_map env op addr data tb
      | Sec_Ep_Id \<Rightarrow> write_ep_id_map env op addr data tb
      | Sec_Response \<Rightarrow> write_response_queue_cfg env op addr data tb
      | Sec_Request \<Rightarrow> write_request_stream_cfg env op addr data tb
      | Sec_Generic \<Rightarrow> write_ep_generic_cfg env op addr data tb
      | Sec_Sequencer \<Rightarrow> write_sequencers env op addr data tb
      | Sec_Network \<Rightarrow>
          write_optional network_interface_cfg network_interface_cfg_update
            (rm_svr_network_interface_cfg_ptr gm) env op addr data tb
      | Sec_Physical \<Rightarrow>
          write_optional physical_layer_cfg physical_layer_cfg_update
            (rm_svr_physical_layer_cfg_ptr gm) env op addr data tb
      | Sec_Time \<Rightarrow>
          write_optional time_synch_cfg time_synch_cfg_update (rm_svr_time_synch_cfg_ptr gm) env op addr data tb
      | Sec_Security \<Rightarrow>
          write_optional security_cfg security_cfg_update (rm_svr_security_cfg_ptr gm) env op addr data tb
      | Sec_None \<Rightarrow> (RCP_ERROR_EP_NOT_FOUND, tb))"

definition ep0_request_frame ::
    "byte \<Rightarrow> bytes \<Rightarrow> rcp_regmap_ep0_errc_t + (rcp_acf_byte_message_info_t \<times> bytes)" where
  "ep0_request_frame expected b =
     (case ep0_frame RCP_REGMAP_EP0_ERR_SHORT_FRAME RCP_REGMAP_EP0_ERR_BAD_MSG_TYPE
             RCP_REGMAP_EP0_ERR_WRONG_BUS RCP_REGMAP_EP0_ERR_WRONG_OP expected b of
        Inl e \<Rightarrow> Inl e
      | Inr (hdr, payload) \<Rightarrow>
          if length payload < 2 then Inl RCP_REGMAP_EP0_ERR_SHORT_PAYLOAD else Inr (hdr, payload))"

text \<open>A refused frame, or the wire error and the transaction number of the answer; and the tables.\<close>

definition rcp_regmap_ep0_decode_write_request ::
    "ep0_env \<Rightarrow> bytes \<Rightarrow> regmap_tables \<Rightarrow>
     (rcp_regmap_ep0_errc_t + (rcp_wire_error_t \<times> byte)) \<times> regmap_tables" where
  "rcp_regmap_ep0_decode_write_request env b tb =
     (case ep0_request_frame RCP_ACF_OP_WRITE b of
        Inl e \<Rightarrow> (Inl e, tb)
      | Inr (hdr, payload) \<Rightarrow>
          (case ep0_write_op (bm_evt hdr) of
             None \<Rightarrow> (Inr (RCP_ERROR_UNSUPPORTED_CMD, bm_transaction_num hdr), tb)
           | Some op \<Rightarrow>
               (let (err, tb') = ep0_write env op (get_u16 payload) (drop 2 payload) tb
                in (Inr (err, bm_transaction_num hdr), tb'))))"

section \<open>Reading\<close>

text \<open>Address, read size and transaction number of a read request.\<close>

definition rcp_regmap_ep0_decode_read_request ::
    "bytes \<Rightarrow> rcp_regmap_ep0_errc_t + (u16 \<times> byte \<times> byte)" where
  "rcp_regmap_ep0_decode_read_request b =
     (case ep0_request_frame RCP_ACF_OP_READ b of
        Inl e \<Rightarrow> Inl e
      | Inr (hdr, payload) \<Rightarrow>
          Inr (get_u16 payload, ucast (bm_read_size_or_segment_num hdr), bm_transaction_num hdr))"

definition ep0_read_response_from_slice ::
    "bool \<Rightarrow> bytes \<Rightarrow> nat \<Rightarrow> byte \<Rightarrow> byte \<Rightarrow> rcp_bytes_t" where
  "ep0_read_response_from_slice mem table_image offset read_size tn =
     (let avail = (if offset < length table_image then length table_image - offset else 0);
          copy_len = (if avail < unat read_size then avail else unat read_size)
      in rcp_acf_encode_abb mem (ep0_read_header read_size tn)
           (read_response_payload (drop offset table_image) copy_len (unat read_size)))"

text \<open>The reader clamps the row counts to what its buffers hold.\<close>

definition clamp_tables :: "regmap_tables \<Rightarrow> regmap_tables" where
  "clamp_tables tb =
     tb\<lparr>rt_hw_pin_map := take RCP_REGMAP_HW_PIN_MAP_MAX_ENTRIES (rt_hw_pin_map tb),
        rt_ep_id_map := take RCP_REGMAP_EP_ID_MAP_MAX_ENTRIES (rt_ep_id_map tb),
        rt_response_queue_cfg := take RCP_REGMAP_RESPONSE_QUEUE_CFG_MAX_ENTRIES (rt_response_queue_cfg tb),
        rt_request_stream_cfg := take RCP_REGMAP_REQUEST_STREAM_CFG_MAX_ENTRIES (rt_request_stream_cfg tb),
        rt_ep_generic_cfg := take RCP_REGMAP_EP_GENERIC_CFG_MAX_ENTRIES (rt_ep_generic_cfg tb)\<rparr>"

definition optional_image :: "rcp_regmap_optional_subsystem_cfg_t option \<Rightarrow> bytes" where
  "optional_image cfg = (case cfg of None \<Rightarrow> [] | Some c \<Rightarrow> take (oc_len c) (oc_data c))"

text \<open>Start address and image of a section.\<close>

fun section_image :: "regmap_tables \<Rightarrow> u32 \<Rightarrow> bool list option \<Rightarrow> ep0_sec \<Rightarrow> nat \<times> bytes" where
  "section_image tb mpt blocked Sec_General = (0, rcp_regmap_general_render (rt_general tb))"
| "section_image tb mpt blocked Sec_Hw =
     (unat (rm_svr_hw_cfg_ptr (rt_general tb)), rcp_regmap_hw_pin_map_render (rt_hw_pin_map tb))"
| "section_image tb mpt blocked Sec_Ep_Id =
     (unat (rm_svr_ep_bytebus_id_map_ptr (rt_general tb)), rcp_regmap_ep_id_map_render (rt_ep_id_map tb))"
| "section_image tb mpt blocked Sec_Response =
     (unat (rm_svr_response_stream_cfg_ptr (rt_general tb)),
      rcp_regmap_response_queue_cfg_render (rt_response_queue_cfg tb))"
| "section_image tb mpt blocked Sec_Request =
     (unat (rm_svr_request_stream_cfg_ptr (rt_general tb)),
      rcp_regmap_request_stream_cfg_render (rt_request_stream_cfg tb) mpt blocked)"
| "section_image tb mpt blocked Sec_Generic =
     (unat (rm_svr_ep_generic_cfg_ptr (rt_general tb)), rcp_regmap_ep_generic_cfg_render (rt_ep_generic_cfg tb))"
| "section_image tb mpt blocked Sec_Sequencer =
     (unat (rm_svr_sequencer_state_ptr (rt_general tb)),
      rcp_regmap_sequencer_table_render (take RCP_REGMAP_SEQUENCER_STATE_MAX_ENTRIES (sequencer_rows tb)))"
| "section_image tb mpt blocked Sec_Network =
     (unat (rm_svr_network_interface_cfg_ptr (rt_general tb)), optional_image (optional_part network_interface_cfg tb))"
| "section_image tb mpt blocked Sec_Physical =
     (unat (rm_svr_physical_layer_cfg_ptr (rt_general tb)), optional_image (optional_part physical_layer_cfg tb))"
| "section_image tb mpt blocked Sec_Time =
     (unat (rm_svr_time_synch_cfg_ptr (rt_general tb)), optional_image (optional_part time_synch_cfg tb))"
| "section_image tb mpt blocked Sec_Security =
     (unat (rm_svr_security_cfg_ptr (rt_general tb)), optional_image (optional_part security_cfg tb))"
| "section_image tb mpt blocked Sec_None = (0, [])"

definition rcp_regmap_ep0_encode_read_response ::
    "bool \<Rightarrow> u16 \<Rightarrow> byte \<Rightarrow> byte \<Rightarrow> regmap_tables \<Rightarrow> u32 \<Rightarrow> bool list option \<Rightarrow> rcp_wire_error_t \<times> rcp_bytes_t" where
  "rcp_regmap_ep0_encode_read_response mem addr read_size tn tb mpt blocked =
     (let ct = clamp_tables tb; sec = ep0_section ct (unat addr) in
      if sec = Sec_None then (RCP_ERROR_EP_NOT_FOUND, None)
      else
        let (start, img) = section_image ct mpt blocked sec
        in (RCP_ERROR_NONE, ep0_read_response_from_slice mem img (unat addr - start) read_size tn))"

end
