(* ===== verification/Regmap_Locking.thy ===== *)
theory Regmap_Locking
  imports Regmap_Ep0
begin

text \<open>
  What the write dispatcher of endpoint 0 guarantees: a refused write changes nothing, the lifecycle state
  freezes the tables, the sequencers belong to their owners, a fixed endpoint id stays fixed, and an accepted
  write changes exactly the addressed octets of the memory that reads show.
\<close>

section \<open>Refused writes\<close>

lemma applied_iff [simp]: "applied ok = RCP_ERROR_NONE \<longleftrightarrow> ok"
  by (simp add: applied_def)

named_theorems write_defs \<open>the functions that write one section\<close>

declare write_hw_pin_map_def [write_defs] write_ep_id_map_def [write_defs]
  write_response_queue_cfg_def [write_defs] write_request_stream_cfg_def [write_defs]
  write_ep_generic_cfg_def [write_defs] write_sequencers_def [write_defs]

lemmas apply_defs = rcp_regmap_hw_pin_map_apply_reconfig_def rcp_regmap_ep_id_map_apply_reconfig_def
  rcp_regmap_response_queue_cfg_apply_reconfig_def rcp_regmap_request_stream_cfg_apply_reconfig_def
  rcp_regmap_sequencer_table_apply_reconfig_def

lemma same_tables [simp]:
  "tb\<lparr>rt_hw_pin_map := rt_hw_pin_map tb\<rparr> = tb" "tb\<lparr>rt_ep_id_map := rt_ep_id_map tb\<rparr> = tb"
  "tb\<lparr>rt_response_queue_cfg := rt_response_queue_cfg tb\<rparr> = tb"
  "tb\<lparr>rt_request_stream_cfg := rt_request_stream_cfg tb\<rparr> = tb"
  "tb\<lparr>rt_ep_generic_cfg := rt_ep_generic_cfg tb\<rparr> = tb" "tb\<lparr>rt_sequencers := rt_sequencers tb\<rparr> = tb"
  "tb\<lparr>rt_optional := rt_optional tb\<rparr> = tb"
  by simp_all

lemma hw_refused: "fst (write_hw_pin_map env op a ds tb) \<noteq> RCP_ERROR_NONE \<Longrightarrow> snd (write_hw_pin_map env op a ds tb) = tb"
  using hw.refused_same by (auto simp: write_defs apply_defs Let_def case_prod_unfold)

lemma em_refused: "fst (write_ep_id_map env op a ds tb) \<noteq> RCP_ERROR_NONE \<Longrightarrow> snd (write_ep_id_map env op a ds tb) = tb"
  using em.refused_same by (auto simp: write_defs apply_defs Let_def case_prod_unfold)

lemma rqc_refused:
  "fst (write_response_queue_cfg env op a ds tb) \<noteq> RCP_ERROR_NONE \<Longrightarrow> snd (write_response_queue_cfg env op a ds tb) = tb"
  using rqc.refused_same by (auto simp: write_defs apply_defs Let_def case_prod_unfold)

lemma rsc_refused:
  "fst (write_request_stream_cfg env op a ds tb) \<noteq> RCP_ERROR_NONE \<Longrightarrow> snd (write_request_stream_cfg env op a ds tb) = tb"
  using rsc.refused_same by (auto simp: write_defs apply_defs Let_def case_prod_unfold)

lemma gc_refused:
  "fst (write_ep_generic_cfg env op a ds tb) \<noteq> RCP_ERROR_NONE \<Longrightarrow> snd (write_ep_generic_cfg env op a ds tb) = tb"
  using gc_apply_refused(1) by (auto simp: write_defs Let_def case_prod_unfold)

lemma sq_refused:
  assumes "rt_sequencers tb = Some rows"
  shows "fst (write_sequencers env op a ds tb) \<noteq> RCP_ERROR_NONE \<Longrightarrow> snd (write_sequencers env op a ds tb) = tb"
  using sq.refused_same assms
  by (auto simp: write_defs apply_defs Let_def case_prod_unfold sequencer_rows_def intro!: regmap_tables.equality)

lemma optional_route_refused:
  "fst (optional_subsystem_cfg_write_route env op a ptr ds cfg) \<noteq> RCP_ERROR_NONE \<Longrightarrow>
   snd (optional_subsystem_cfg_write_route env op a ptr ds cfg) = cfg"
  by (auto simp: optional_subsystem_cfg_write_route_def rcp_regmap_optional_subsystem_cfg_apply_reconfig_def
      Let_def split: if_splits)

lemma optional_refused:
  assumes "fst (write_optional sel upd ptr env op a ds tb) \<noteq> RCP_ERROR_NONE"
    and "\<And>p. upd (\<lambda>_. sel p) p = p"
  shows "snd (write_optional sel upd ptr env op a ds tb) = tb"
proof (cases "optional_part sel tb")
  case (Some cfg)
  then obtain ptrs where p: "rt_optional tb = Some ptrs" "sel ptrs = Some cfg"
    by (auto simp: optional_part_def split: option.splits)
  have "fst (optional_subsystem_cfg_write_route env op a ptr ds cfg) \<noteq> RCP_ERROR_NONE"
    using assms(1) Some by (simp add: write_optional_def case_prod_unfold Let_def)
  then have "snd (write_optional sel upd ptr env op a ds tb) =
      tb\<lparr>rt_optional := map_option (upd (\<lambda>_. sel ptrs)) (rt_optional tb)\<rparr>"
    using Some p(2) by (simp add: write_optional_def case_prod_unfold Let_def optional_route_refused)
  also have "\<dots> = tb\<lparr>rt_optional := rt_optional tb\<rparr>" using assms(2) p(1) by simp
  finally show ?thesis by simp
qed (simp add: write_optional_def)

lemma ep0_write_refused:
  "fst (ep0_write env op a ds tb) \<noteq> RCP_ERROR_NONE \<Longrightarrow> snd (ep0_write env op a ds tb) = tb"
proof (cases "ep0_section tb (unat a)")
  case Sec_Sequencer
  then obtain rows where "rt_sequencers tb = Some rows"
    by (auto simp: ep0_section_def sequencer_rows_def in_section_def Let_def split: if_splits option.splits)
  then show "fst (ep0_write env op a ds tb) \<noteq> RCP_ERROR_NONE \<Longrightarrow> ?thesis"
    using Sec_Sequencer sq_refused by (simp add: ep0_write_def)
qed (simp_all add: ep0_write_def hw_refused em_refused rqc_refused rsc_refused gc_refused optional_refused)

lemma ep0_decode_cases:
  obtains (rejected) r where "rcp_regmap_ep0_decode_write_request env b tb = (r, tb)" "\<And>tn. r \<noteq> Inr (RCP_ERROR_NONE, tn)"
  | (written) hdr payload op where "ep0_request_frame RCP_ACF_OP_WRITE b = Inr (hdr, payload)"
      "ep0_write_op (bm_evt hdr) = Some op"
      "rcp_regmap_ep0_decode_write_request env b tb =
         (Inr (fst (ep0_write env op (get_u16 payload) (drop 2 payload) tb), bm_transaction_num hdr),
          snd (ep0_write env op (get_u16 payload) (drop 2 payload) tb))"
proof (cases "ep0_request_frame RCP_ACF_OP_WRITE b")
  case (Inl e)
  then show ?thesis by (intro rejected [of "Inl e"]) (simp_all add: rcp_regmap_ep0_decode_write_request_def)
next
  case (Inr hp)
  obtain hdr payload where hp: "hp = (hdr, payload)" by (cases hp)
  show ?thesis
  proof (cases "ep0_write_op (bm_evt hdr)")
    case None
    then show ?thesis using Inr hp
      by (intro rejected [of "Inr (RCP_ERROR_UNSUPPORTED_CMD, bm_transaction_num hdr)"])
        (simp_all add: rcp_regmap_ep0_decode_write_request_def)
  next
    case (Some op)
    then show ?thesis using Inr hp
      by (intro written [of hdr payload op])
        (simp_all add: rcp_regmap_ep0_decode_write_request_def case_prod_unfold Let_def)
  qed
qed

text \<open>C23: A write request to endpoint 0 that is not answered with success changes no table: neither a
  malformed frame, an unsupported operation, a locked or unauthorized section, a span that leaves its table, a
  violated endpoint id, nor an address outside every section.\<close>

theorem ep0_refused_write_changes_nothing:
  "(\<exists>tn. fst (rcp_regmap_ep0_decode_write_request env b tb) = Inr (RCP_ERROR_NONE, tn)) \<or>
   snd (rcp_regmap_ep0_decode_write_request env b tb) = tb"
proof (cases rule: ep0_decode_cases [of env b tb])
  case (written hdr payload op)
  then show ?thesis using ep0_write_refused [of env op "get_u16 payload" "drop 2 payload" tb] by auto
qed simp

section \<open>Locking by the lifecycle\<close>

text \<open>Which writers the lifecycle admits.\<close>

lemma hw_generic_writable:
  "rcp_lifecycle_field_writable st RCP_LIFECYCLE_FIELD_HW_GENERIC w \<longleftrightarrow>
   st = RCP_LIFECYCLE_HW_UNCONFIGURED \<and> via_discovery_stream w \<and> \<not> via_non_unicast_frame w"
  by (auto simp: rcp_lifecycle_field_writable_def)

lemma w_star_frozen: "\<not> rcp_lifecycle_field_writable RCP_LIFECYCLE_RCP_CONFIGURED RCP_LIFECYCLE_FIELD_FUNCTIONAL_W_STAR w"
  by (simp add: rcp_lifecycle_field_writable_def)

lemma hw_write_error:
  "\<not> rcp_lifecycle_field_writable st k w \<Longrightarrow> rcp_lifecycle_field_write_error st k w \<noteq> RCP_ERROR_NONE"
  by (simp add: rcp_lifecycle_field_write_error_def)

lemma ep0_write_hw_fixed:
  assumes "\<not> rcp_lifecycle_field_writable (env_state env) RCP_LIFECYCLE_FIELD_HW_GENERIC (env_writer env)"
  shows "rt_hw_pin_map (snd (ep0_write env op a ds tb)) = rt_hw_pin_map tb \<and>
    rt_response_queue_cfg (snd (ep0_write env op a ds tb)) = rt_response_queue_cfg tb \<and>
    rt_ep_generic_cfg (snd (ep0_write env op a ds tb)) = rt_ep_generic_cfg tb"
  using assms hw_write_error [OF assms]
  by (cases "ep0_section tb (unat a)")
    (auto simp: ep0_write_def write_defs Let_def case_prod_unfold respqueue_cfg_row_write_authorize_def
      write_optional_def split: option.split)

text \<open>C21: The hardware description (pin map, response queues, generic endpoint configuration) changes only in the
  state \<open>HW_UNCONFIGURED\<close>, by a unicast request on the discovery stream.  This is the rule that the comments
  inside \<^verbatim>\<open>respqueue_cfg_row_write_authorize\<close> and before the generic endpoint configuration in
  \<^verbatim>\<open>regmap.c\<close> give (figure 17 of the specification).  The description of the dispatcher in
  \<^verbatim>\<open>regmap.h\<close> and the comment at the pin map still describe a wider window for the last two tables:
  writes by an authorised writer in the state \<open>HW_CONFIGURED\<close>.\<close>

theorem ep0_hardware_locked:
  assumes "\<not> (env_state env = RCP_LIFECYCLE_HW_UNCONFIGURED \<and> via_discovery_stream (env_writer env) \<and>
    \<not> via_non_unicast_frame (env_writer env))"
  shows "rt_hw_pin_map (snd (rcp_regmap_ep0_decode_write_request env b tb)) = rt_hw_pin_map tb \<and>
    rt_response_queue_cfg (snd (rcp_regmap_ep0_decode_write_request env b tb)) = rt_response_queue_cfg tb \<and>
    rt_ep_generic_cfg (snd (rcp_regmap_ep0_decode_write_request env b tb)) = rt_ep_generic_cfg tb"
  using ep0_write_hw_fixed [unfolded hw_generic_writable, OF assms]
  by (cases rule: ep0_decode_cases [of env b tb]) auto

text \<open>In the last lifecycle state the request stream table admits only writes that keep all bits but the
  stream status, which the table does not store.\<close>

lemma render_request_rows:
  "rcp_regmap_request_stream_cfg_render rows mpt None = render_rows (rsc_row mpt False) rows"
proof -
  have "map (\<lambda>(e, blocked). rsc_row mpt blocked e) (zip rows (replicate (length rows) False)) = map (rsc_row mpt False) rows"
    by (rule nth_equalityI) simp_all
  then show ?thesis by (simp add: rcp_regmap_request_stream_cfg_render_def render_rows_def status_flags_def)
qed

lemma status_only_octets:
  "status_octets_only relative i ds cur \<Longrightarrow> unat relative + i + length ds < 2 ^ 16 \<Longrightarrow> k < length ds \<Longrightarrow>
   (unat relative + i + k) mod 24 = 0x0D \<and> ds ! k AND 0x7F = cur ! (unat relative + i + k) AND 0x7F"
proof (induction ds arbitrary: i k)
  case (Cons d ds)
  have at: "unat (relative + of_nat i) = unat relative + i" using Cons.prems(2)
    by (simp add: unat_word_ariths unat_of_nat)
  have first: "(unat relative + i) mod 24 = 0x0D" "d AND 0x7F = cur ! (unat relative + i) AND 0x7F"
    "status_octets_only relative (i + 1) ds cur"
    using Cons.prems(1) at
    by (auto simp: Let_def word_unat_eq_iff unat_mod split: if_splits)
  show ?case
  proof (cases k)
    case (Suc j)
    then show ?thesis using Cons.IH [of "i + 1" j] first(3) Cons.prems(2,3) by simp
  qed (use first in simp)
qed simp

lemma rsc_parse_status:
  "length b = 24 \<Longrightarrow> d AND 0x7F = b ! 13 AND 0x7F \<Longrightarrow> rsc_parse_row mpt e (b[13 := d]) = rsc_parse_row mpt e b"
proof -
  assume len: "length b = 24" and d: "d AND 0x7F = b ! 13 AND 0x7F"
  have bits: "bit d n = bit (b ! 13) n" if "n < 7" for n
  proof -
    have "bit (d AND 0x7F) n = bit (b ! 13 AND 0x7F) n" using d by simp
    moreover have "bit (0x7F :: byte) n" using that by (auto simp: less_Suc_eq numeral_eq_Suc)
    ultimately show ?thesis by (simp add: bit_and_iff)
  qed
  have "get_u64 (b[13 := d]) = get_u64 b" "get_u16 (drop 8 (b[13 := d])) = get_u16 (drop 8 b)"
    "get_u16 (drop 10 (b[13 := d])) = get_u16 (drop 10 b)"
    using len by (simp_all add: get_u64_def get_u16_def)
  then show ?thesis using len by (simp add: rsc_parse_row_def Let_def mask_flag bits)
qed

lemma status_write_neutral:
  assumes wf: "list_all (rsc_wf mpt) rows" and room: "a + length ds \<le> length rows * 24"
    and keep: "\<And>k. k < length ds \<Longrightarrow> (a + k) mod 24 = 13 \<and>
      ds ! k AND 0x7F = render_rows (rsc_row mpt False) rows ! (a + k) AND 0x7F"
  shows "parse_rows 24 (rsc_parse_row mpt) rows (patch_rows (render_rows (rsc_row mpt False) rows) a ds) = rows"
proof (rule nth_equalityI)
  fix k assume "k < length (parse_rows 24 (rsc_parse_row mpt) rows (patch_rows (render_rows (rsc_row mpt False) rows) a ds))"
  then have k: "k < length rows" by simp
  let ?img = "render_rows (rsc_row mpt False) rows"
  let ?new = "patch_rows ?img a ds"
  let ?r = "rsc_row mpt False (rows ! k)"
  let ?s = "take 24 (drop (k * 24) ?new)"
  have le: "k * 24 + 24 \<le> length rows * 24" using k by (rule row_room)
  have len: "length ?s = 24" using le by simp
  have at: "?s ! j = ?new ! (k * 24 + j)" "?r ! j = ?img ! (k * 24 + j)" if "j < 24" for j
  proof -
    show "?s ! j = ?new ! (k * 24 + j)" using that le by simp
    show "?r ! j = ?img ! (k * 24 + j)"
      using rsc.octet_of_image [of "k * 24 + j" rows mpt] that le by simp
  qed
  have new: "?new ! i = (if a \<le> i \<and> i < a + length ds then ds ! (i - a) else ?img ! i)" if "i < length rows * 24" for i
    using that room by (simp add: nth_patch_block)
  have oct: "?s ! j AND 0x7F = ?r ! j AND 0x7F \<and> (j \<noteq> 13 \<longrightarrow> ?s ! j = ?r ! j)" if "j < 24" for j
    using that le new [of "k * 24 + j"] keep [of "k * 24 + j - a"] by (auto simp: at less_diff_conv2 add.commute)
  have "?s = ?r[13 := ?s ! 13]"
    using len oct by (intro nth_equalityI) (auto simp: nth_list_update)
  then have "rsc_parse_row mpt (rows ! k) ?s = rsc_parse_row mpt (rows ! k) ?r"
    using rsc_parse_status [of ?r "?s ! 13" mpt "rows ! k"] oct [of 13] by simp
  then show "parse_rows 24 (rsc_parse_row mpt) rows ?new ! k = rows ! k"
    using wf k by (simp add: nth_parse_rows rsc_parse_render list_all_length)
qed simp

lemma rsc_frozen:
  assumes st: "env_state env = RCP_LIFECYCLE_RCP_CONFIGURED"
    and wf: "list_all (rsc_wf (env_watchdog_ms_per_tick env)) (rt_request_stream_cfg tb)"
  shows "snd (write_request_stream_cfg env op a ds tb) = tb"
proof (cases "fst (write_request_stream_cfg env op a ds tb) = RCP_ERROR_NONE")
  case True
  define mpt where "mpt = env_watchdog_ms_per_tick env"
  define rows where "rows = rt_request_stream_cfg tb"
  define rel where "rel = a - rm_svr_request_stream_cfg_ptr (rt_general tb)"
  define buf where "buf = scratch (64 * 24) (env_stale env) (render_rows (rsc_row mpt False) rows)"
  define wd where "wd = write_octets op (64 * 24) True buf (unat rel) ds"
  have eq: "write_request_stream_cfg env op a ds tb =
      (if \<not> request_stream_cfg_row_write_authorize (env_state env) (env_writer env) rel wd
            (if unat rel + length ds \<le> 64 * 24 then Some buf else None)
       then (rcp_lifecycle_field_write_error (env_state env) RCP_LIFECYCLE_FIELD_FUNCTIONAL_W_STAR (env_writer env), tb)
       else (applied (fst (rcp_regmap_request_stream_cfg_apply_reconfig rows rel wd mpt) =
               RCP_REGMAP_REQUEST_STREAM_CFG_RECONFIG_OK),
             tb\<lparr>rt_request_stream_cfg := snd (rcp_regmap_request_stream_cfg_apply_reconfig rows rel wd mpt)\<rparr>))"
    by (simp add: write_request_stream_cfg_def Let_def case_prod_unfold mpt_def rows_def rel_def buf_def wd_def
        render_request_rows RCP_REGMAP_REQUEST_STREAM_CFG_MAX_ENTRIES_def)
  have auth: "request_stream_cfg_row_write_authorize (env_state env) (env_writer env) rel wd
      (if unat rel + length ds \<le> 64 * 24 then Some buf else None)"
    and ok: "fst (rcp_regmap_request_stream_cfg_apply_reconfig rows rel wd mpt) = RCP_REGMAP_REQUEST_STREAM_CFG_RECONFIG_OK"
    using True hw_write_error [OF w_star_frozen] st by (auto simp: eq split: if_splits)
  have only: "status_octets_only rel 0 wd buf" using auth st w_star_frozen
    by (auto simp: request_stream_cfg_row_write_authorize_def split: if_splits)
  have acc: "wd \<noteq> []" "length rows \<le> 64" "unat rel + length wd \<le> length rows * 24"
    using ok rsc.accepted [of mpt rows "unat rel" wd]
    by (simp_all add: rcp_regmap_request_stream_cfg_apply_reconfig_def RCP_REGMAP_REQUEST_STREAM_CFG_MAX_ENTRIES_def)
  have small: "unat rel + length wd \<le> 64 * 24" using acc(2,3) by (meson le_trans mult_le_mono1)
  have "parse_rows 24 (rsc_parse_row mpt) rows (patch_rows (render_rows (rsc_row mpt False) rows) (unat rel) wd) = rows"
  proof (rule status_write_neutral [OF _ acc(3)])
    fix k assume k: "k < length wd"
    have "buf ! (unat rel + k) = render_rows (rsc_row mpt False) rows ! (unat rel + k)"
      using k acc(3) by (simp add: buf_def scratch_def nth_append)
    then show "(unat rel + k) mod 24 = 13 \<and>
        wd ! k AND 0x7F = render_rows (rsc_row mpt False) rows ! (unat rel + k) AND 0x7F"
      using status_only_octets [OF only _ k] small by simp
  qed (use wf in \<open>simp add: mpt_def rows_def\<close>)
  then have "snd (rcp_regmap_request_stream_cfg_apply_reconfig rows rel wd mpt) = rows"
    using rsc.apply_eq [of wd rows "unat rel" mpt] acc
    by (simp add: rcp_regmap_request_stream_cfg_apply_reconfig_def RCP_REGMAP_REQUEST_STREAM_CFG_MAX_ENTRIES_def)
  then show ?thesis using auth by (simp add: eq rows_def)
qed (simp add: rsc_refused)

lemma ep0_write_frozen:
  assumes st: "env_state env = RCP_LIFECYCLE_RCP_CONFIGURED"
    and wf: "list_all (rsc_wf (env_watchdog_ms_per_tick env)) (rt_request_stream_cfg tb)"
  shows "snd (ep0_write env op a ds tb) = tb"
proof (cases "fst (ep0_write env op a ds tb) = RCP_ERROR_NONE")
  case True
  have hw: "\<not> rcp_lifecycle_field_writable (env_state env) RCP_LIFECYCLE_FIELD_HW_GENERIC w" for w
    by (simp add: hw_generic_writable st)
  have star: "\<not> rcp_lifecycle_field_writable (env_state env) RCP_LIFECYCLE_FIELD_FUNCTIONAL_W_STAR w" for w
    by (simp add: st w_star_frozen)
  have err: "rcp_lifecycle_field_write_error (env_state env) RCP_LIFECYCLE_FIELD_HW_GENERIC w \<noteq> RCP_ERROR_NONE"
    "rcp_lifecycle_field_write_error (env_state env) RCP_LIFECYCLE_FIELD_FUNCTIONAL_W_STAR w \<noteq> RCP_ERROR_NONE"
    "rcp_lifecycle_field_write_error_w_plus (env_state env) w l \<noteq> RCP_ERROR_NONE" for w l
    using hw star
    by (simp_all add: hw_write_error rcp_lifecycle_field_write_error_w_plus_def rcp_lifecycle_field_writable_w_plus_def)
  show ?thesis
  proof (cases "ep0_section tb (unat a)")
    case Sec_Request
    then show ?thesis by (simp add: ep0_write_def rsc_frozen [OF st wf])
  qed (use True in \<open>simp_all add: ep0_write_def write_defs Let_def hw star err
        respqueue_cfg_row_write_authorize_def sequencer_row_write_authorize_def
        rcp_lifecycle_field_writable_w_plus_def write_optional_def optional_subsystem_cfg_write_route_def
      split: option.splits\<close>)
qed (simp add: ep0_write_refused)

text \<open>C20: Once the server is configured, no request to endpoint 0 changes any table, whoever sends it, as long
  as the request streams are configured within what their registers express.  The one write that is still
  answered with success, to the status bit of a stream, stores nothing.\<close>

theorem ep0_frozen_when_configured:
  assumes "env_state env = RCP_LIFECYCLE_RCP_CONFIGURED"
    and "list_all (rsc_wf (env_watchdog_ms_per_tick env)) (rt_request_stream_cfg tb)"
  shows "snd (rcp_regmap_ep0_decode_write_request env b tb) = tb"
  using ep0_write_frozen [OF assms] by (cases rule: ep0_decode_cases [of env b tb]) auto

section \<open>Sequencer ownership\<close>

lemma length_scratch: "cap \<le> length (scratch cap stale img)"
  by (simp add: scratch_def)

lemma length_write_octets:
  "cap \<le> length buffer \<Longrightarrow> length (write_octets op cap fits buffer relative data) = length data"
  by (auto simp: write_octets_def rcp_regmap_ep0_combine_write_op_def)

lemma sequencer_authorized:
  "sequencer_octets_authorize rows req a n = RCP_ERROR_NONE \<Longrightarrow> a \<le> c \<Longrightarrow> c < a + n \<Longrightarrow> c div 2 < length rows \<Longrightarrow>
   (c mod 2 = 0 \<longrightarrow> snd (rows ! (c div 2)) = req \<and> req \<noteq> 0) \<and>
   (c mod 2 \<noteq> 0 \<longrightarrow> snd (rows ! (c div 2)) \<in> {0, req})"
proof (induction n arbitrary: a)
  case (Suc n)
  show ?case
  proof (cases "c = a")
    case True
    then show ?thesis using Suc.prems by (auto simp: Let_def split: if_splits)
  next
    case False
    then show ?thesis using Suc.prems Suc.IH [of "a + 1"] by (auto simp: Let_def split: if_splits)
  qed
qed simp

lemma sequencer_octets:
  "i < length rows \<Longrightarrow> render_rows sq_row rows ! (2 * i) = fst (rows ! i)"
  "i < length rows \<Longrightarrow> render_rows sq_row rows ! (2 * i + 1) = snd (rows ! i)"
  using sq.octet_of_image [of "2 * i" rows] sq.octet_of_image [of "2 * i + 1" rows] by (simp_all add: sq_row_def)

lemma write_sequencers_owned:
  fixes env op a ds tb i
  assumes i: "i < length (sequencer_rows tb)"
  defines "rows' \<equiv> sequencer_rows (snd (write_sequencers env op a ds tb))"
  shows "length rows' = length (sequencer_rows tb)"
    and "fst (rows' ! i) \<noteq> fst (sequencer_rows tb ! i) \<Longrightarrow>
      snd (sequencer_rows tb ! i) = env_requester_stream_index env \<and> env_requester_stream_index env \<noteq> 0"
    and "snd (rows' ! i) \<noteq> snd (sequencer_rows tb ! i) \<Longrightarrow>
      snd (sequencer_rows tb ! i) \<in> {0, env_requester_stream_index env}"
proof -
  let ?rows = "sequencer_rows tb" and ?req = "env_requester_stream_index env"
  define rel where "rel = a - rm_svr_sequencer_state_ptr (rt_general tb)"
  define wd where "wd = write_octets op (255 * 2) (length ?rows \<le> 255)
    (scratch (255 * 2) (env_stale env) (render_rows sq_row ?rows)) (unat rel) ds"
  let ?new = "snd (rcp_regmap_sequencer_table_apply_reconfig ?rows rel wd)"
  have wdlen: "length wd = length ds" unfolding wd_def by (intro length_write_octets length_scratch)
  have eq: "rows' = ?rows \<or> rows' = ?new \<and> sequencer_octets_authorize ?rows ?req (unat rel) (length ds) = RCP_ERROR_NONE"
    by (auto simp: rows'_def write_sequencers_def Let_def case_prod_unfold sequencer_row_write_authorize_def
        rel_def wd_def rcp_regmap_sequencer_table_render_def RCP_REGMAP_SEQUENCER_STATE_MAX_ENTRIES_def
        sequencer_rows_def hw_write_error split: if_splits)
  show len: "length rows' = length ?rows"
    using eq by (auto simp: rcp_regmap_sequencer_table_apply_reconfig_def)
  have octet: "unat rel \<le> c \<and> c < unat rel + length ds \<and>
      sequencer_octets_authorize ?rows ?req (unat rel) (length ds) = RCP_ERROR_NONE"
    if "c < length ?rows * 2" "render_rows sq_row rows' ! c \<noteq> render_rows sq_row ?rows ! c" for c
  proof (cases "fst (rcp_regmap_sequencer_table_apply_reconfig ?rows rel wd) = RCP_REGMAP_SEQUENCER_TABLE_RECONFIG_OK")
    case True
    then have acc: "wd \<noteq> []" "length ?rows \<le> RCP_REGMAP_SEQUENCER_STATE_MAX_ENTRIES"
      "unat rel + length wd \<le> length ?rows * 2"
      using sq.accepted [of ?rows "unat rel" wd] by (simp_all add: rcp_regmap_sequencer_table_apply_reconfig_def)
    have "list_all (\<lambda>_. True) ?rows" by (simp add: list_all_iff)
    from sq.written_octets [OF this acc that(1)] show ?thesis using eq that(2) wdlen
      by (auto simp: rcp_regmap_sequencer_table_apply_reconfig_def split: if_splits)
  next
    case False
    then show ?thesis using eq that sq.refused_same
      by (auto simp: rcp_regmap_sequencer_table_apply_reconfig_def)
  qed
  show "snd (?rows ! i) = ?req \<and> ?req \<noteq> 0" if "fst (rows' ! i) \<noteq> fst (?rows ! i)"
    using octet [of "2 * i"] that i len sequencer_octets(1) [of i rows'] sequencer_octets(1) [OF i]
      sequencer_authorized [of ?rows ?req "unat rel" "length ds" "2 * i"] by auto
  show "snd (?rows ! i) \<in> {0, ?req}" if "snd (rows' ! i) \<noteq> snd (?rows ! i)"
    using octet [of "2 * i + 1"] that i len sequencer_octets(2) [of i rows'] sequencer_octets(2) [OF i]
      sequencer_authorized [of ?rows ?req "unat rel" "length ds" "2 * i + 1"] by auto
qed

lemma ep0_write_sequencers:
  "rt_sequencers (snd (ep0_write env op a ds tb)) = rt_sequencers tb \<or>
   ep0_write env op a ds tb = write_sequencers env op a ds tb"
  by (cases "ep0_section tb (unat a)")
    (auto simp: ep0_write_def write_hw_pin_map_def write_ep_id_map_def write_response_queue_cfg_def
      write_request_stream_cfg_def write_ep_generic_cfg_def Let_def case_prod_unfold write_optional_def
      split: option.split)

text \<open>C22: A request changes the state of a sequencer only when its stream owns the sequencer, and changes the
  owner only when the sequencer is free or its own stream owns it.  In particular no request reaches a
  sequencer of another stream.\<close>

theorem ep0_sequencers_belong_to_owner:
  fixes env b tb i
  defines "rows' \<equiv> sequencer_rows (snd (rcp_regmap_ep0_decode_write_request env b tb))"
  assumes "i < length (sequencer_rows tb)"
  shows "length rows' = length (sequencer_rows tb) \<and>
    (fst (rows' ! i) \<noteq> fst (sequencer_rows tb ! i) \<longrightarrow>
       snd (sequencer_rows tb ! i) = env_requester_stream_index env \<and> env_requester_stream_index env \<noteq> 0) \<and>
    (snd (rows' ! i) \<noteq> snd (sequencer_rows tb ! i) \<longrightarrow>
       snd (sequencer_rows tb ! i) = 0 \<or> snd (sequencer_rows tb ! i) = env_requester_stream_index env)"
proof (cases rule: ep0_decode_cases [of env b tb])
  case (written hdr payload op)
  then show ?thesis
    using ep0_write_sequencers [of env op "get_u16 payload" "drop 2 payload" tb]
      write_sequencers_owned [OF assms(2), of env op "get_u16 payload" "drop 2 payload"]
    by (auto simp: rows'_def sequencer_rows_def)
qed (simp add: rows'_def)

section \<open>Fixed endpoint ids\<close>

lemma em_parsed_ep_id:
  assumes "i < length rows" and "length b = length rows * 4"
  shows "em_ep_id (parse_rows 4 em_parse_row rows b ! i) = ucast (b ! (4 * i + 1))"
  using assms row_room [of i "length rows" 4] by (simp add: nth_parse_rows em_parse_row_def Let_def mult.commute)

lemma write_ep_id_map_fixed:
  assumes types: "env_ep_types env = Some types" and tlen: "length (rt_ep_id_map tb) \<le> length types"
    and req: "take_bit 8 (env_fixed_required_ep_id env) = env_fixed_required_ep_id env"
    and fixed: "rcp_regmap_ep_id_map_ep_type_has_fixed_ep_id (rt_ep_id_map tb) types
      (env_fixed_target_ep_type env) (env_fixed_required_ep_id env)"
  shows "rcp_regmap_ep_id_map_ep_type_has_fixed_ep_id (rt_ep_id_map (snd (write_ep_id_map env op a ds tb))) types
    (env_fixed_target_ep_type env) (env_fixed_required_ep_id env)"
proof (cases "fst (write_ep_id_map env op a ds tb) = RCP_ERROR_NONE")
  case True
  let ?rows = "rt_ep_id_map tb" and ?target = "env_fixed_target_ep_type env" and ?required = "env_fixed_required_ep_id env"
  define rel where "rel = a - rm_svr_ep_bytebus_id_map_ptr (rt_general tb)"
  define wd where "wd = write_octets op (64 * 4) (length ?rows \<le> 64)
    (scratch (64 * 4) (env_stale env) (render_rows em_row ?rows)) (unat rel) ds"
  let ?app = "rcp_regmap_ep_id_map_apply_reconfig ?rows rel wd"
  have facts: "rt_ep_id_map (snd (write_ep_id_map env op a ds tb)) = snd ?app"
    "fst ?app = RCP_REGMAP_EP_ID_MAP_RECONFIG_OK"
    "ep_id_map_write_keeps_fixed_ep_id ?rows (Some types) ?target ?required (env_stale env) rel wd"
    using True types
    by (auto simp: write_ep_id_map_def Let_def case_prod_unfold rel_def wd_def rcp_regmap_ep_id_map_render_def
        RCP_REGMAP_EP_ID_MAP_MAX_ENTRIES_def rcp_lifecycle_field_write_error_w_plus_def split: if_splits)
  have acc: "wd \<noteq> []" "length ?rows \<le> 64" "unat rel + length wd \<le> length ?rows * 4"
    using facts(2) em.accepted [of ?rows "unat rel" wd]
    by (simp_all add: rcp_regmap_ep_id_map_apply_reconfig_def RCP_REGMAP_EP_ID_MAP_MAX_ENTRIES_def)
  let ?img = "patch_rows (render_rows em_row ?rows) (unat rel) wd"
  have new: "snd ?app = parse_rows 4 em_parse_row ?rows ?img"
    using em.apply_eq [of wd ?rows "unat rel"] acc
    by (simp add: rcp_regmap_ep_id_map_apply_reconfig_def RCP_REGMAP_EP_ID_MAP_MAX_ENTRIES_def)
  have small: "unat rel + length wd \<le> 64 * 4" using acc(2,3) by simp
  let ?blk = "patch_rows (scratch (64 * 4) (env_stale env) (render_rows em_row ?rows)) (unat rel) wd"
  have blk: "?blk ! c = ?img ! c" if "c < length ?rows * 4" for c
    using that acc small by (simp add: nth_patch_block scratch_def nth_append)
  have kept: "\<not> (types ! i = ?target \<and> ?blk ! (4 * i + 1) \<noteq> ucast ?required)" if "i < length ?rows" for i
    using facts(3) small that
    by (auto simp: ep_id_map_write_keeps_fixed_ep_id_def Let_def rcp_regmap_ep_id_map_render_def
        RCP_REGMAP_EP_ID_MAP_MAX_ENTRIES_def list_all_iff)
  have "em_ep_id (snd ?app ! i) = ?required" if i: "i < length ?rows" and t: "types ! i = ?target" for i
  proof -
    have "?img ! (4 * i + 1) = ucast ?required"
      using kept [OF i] t blk [of "4 * i + 1"] i by simp
    then show ?thesis using i req by (simp add: new em_parsed_ep_id octet_word)
  qed
  then show ?thesis using tlen
    by (auto simp: facts(1) rcp_regmap_ep_id_map_ep_type_has_fixed_ep_id_def new list_all_length)
qed (simp add: em_refused fixed)

lemma ep0_write_ep_id_map:
  "rt_ep_id_map (snd (ep0_write env op a ds tb)) = rt_ep_id_map tb \<or>
   ep0_write env op a ds tb = write_ep_id_map env op a ds tb"
  by (cases "ep0_section tb (unat a)")
    (auto simp: ep0_write_def write_hw_pin_map_def write_sequencers_def write_response_queue_cfg_def
      write_request_stream_cfg_def write_ep_generic_cfg_def Let_def case_prod_unfold write_optional_def
      split: option.split)

text \<open>An endpoint type with a fixed endpoint id keeps it: when the table respects the rule and the server supplies the
  types, the table respects it after every request, whatever operation and span the request has.\<close>

theorem ep0_fixed_ep_id_kept:
  assumes "env_ep_types env = Some types" and "length (rt_ep_id_map tb) \<le> length types"
    and "env_fixed_required_ep_id env < 0x100"
    and "rcp_regmap_ep_id_map_ep_type_has_fixed_ep_id (rt_ep_id_map tb) types
      (env_fixed_target_ep_type env) (env_fixed_required_ep_id env)"
  shows "rcp_regmap_ep_id_map_ep_type_has_fixed_ep_id
    (rt_ep_id_map (snd (rcp_regmap_ep0_decode_write_request env b tb))) types
    (env_fixed_target_ep_type env) (env_fixed_required_ep_id env)"
proof (cases rule: ep0_decode_cases [of env b tb])
  case (written hdr payload op)
  have "take_bit 8 (env_fixed_required_ep_id env) = env_fixed_required_ep_id env"
    using assms(3) less_mask_eq [of "env_fixed_required_ep_id env" 8]
    by (simp add: take_bit_eq_mask)
  then show ?thesis using written assms(4) write_ep_id_map_fixed [OF assms(1,2) _ assms(4), of op "get_u16 payload" "drop 2 payload"]
      ep0_write_ep_id_map [of env op "get_u16 payload" "drop 2 payload" tb] by auto
qed (use assms(4) in simp)

end
