(* ===== verification/Regmap_Generic.thy ===== *)
theory Regmap_Generic
  imports Regmap_Locking
begin

text \<open>
  The registers of the generic endpoint configuration after a write.  Its rule differs from the other tables of
  the register map: a field changes only when the write covers all of its octets, the endpoint type is
  read-only, and endpoint 0 stays in use.
\<close>

section \<open>The fields of a row\<close>

text \<open>Offset and width of the field that contains octet \<open>j\<close> of a row.\<close>

definition gc_field :: "nat \<Rightarrow> nat \<times> nat" where
  "gc_field j = (if j < 2 then (j, 1) else if j < 4 then (2, 2) else if j < 8 then (4, 4) else if j < 10 then (8, 2)
     else (10, 2))"

text \<open>A write of the octets from \<open>start\<close> to \<open>stop\<close> takes effect on octet \<open>i\<close> of the table.\<close>

definition gc_takes :: "nat \<Rightarrow> nat \<Rightarrow> nat \<Rightarrow> bool" where
  "gc_takes start stop i \<longleftrightarrow>
     (let j = i mod 12; (offset, width) = gc_field j; first = i - j + offset
      in j \<noteq> 0 \<and> start \<le> first \<and> first + width \<le> stop)"

lemma gc_takes_inside: "gc_takes start stop i \<Longrightarrow> start \<le> i \<and> i < stop"
proof -
  assume t: "gc_takes start stop i"
  let ?j = "i mod 12"
  have "?j \<le> i" by simp
  moreover have "fst (gc_field ?j) \<le> ?j" "?j < fst (gc_field ?j) + snd (gc_field ?j)"
    using mod_less_divisor [of 12 i] by (auto simp: gc_field_def)
  moreover have "start \<le> i - ?j + fst (gc_field ?j)" "i - ?j + fst (gc_field ?j) + snd (gc_field ?j) \<le> stop"
    using t by (simp_all add: gc_takes_def case_prod_unfold Let_def)
  ultimately show ?thesis by linarith
qed

text \<open>What the registers keep of an octet: the use bit, which endpoint 0 has set, and the delay code share
  octet 1; every other field is stored as it is.\<close>

definition gc_canon :: "nat \<Rightarrow> byte \<Rightarrow> byte" where
  "gc_canon i d = (if i mod 12 = 1 then (d AND 0x31) OR (if i < 12 then 1 else 0) else d)"

definition gc_octet1 :: "rcp_regmap_ep_generic_cfg_t \<Rightarrow> byte" where
  "gc_octet1 e = (if gc_ep_used e then 0x01 else 0x00) OR
     push_bit 4 ((case rcp_regmap_ep_delay_time_us_to_reg (gc_ep_delay_time e) of Some r \<Rightarrow> r | None \<Rightarrow> 0) AND 0x3)"

definition gc_words :: "rcp_regmap_ep_generic_cfg_t \<Rightarrow> u16" where
  "gc_words e = (case rcp_regmap_ep_req_storage_size_octets_to_words (gc_ep_req_storage_size e) of
       Some w \<Rightarrow> w
     | None \<Rightarrow> ucast ((if gc_ep_req_storage_size e > 0xFFFF * 4 then 0xFFFF * 4 else gc_ep_req_storage_size e) div 4))"

lemma gc_row_parts:
  "gc_row e = [gc_ep_type e, gc_octet1 e] @ put_u16 (gc_words e) @ put_u32 (gc_ep_description e) @
     put_u16 (gc_ep_tx_buffer_size e) @ put_u16 (gc_ep_rx_buffer_size e)"
  by (simp add: gc_row_def gc_octet1_def gc_words_def Let_def split: option.split)

lemma gc_octet1_parsed:
  "gc_octet1 (e\<lparr>gc_ep_used := u, gc_ep_delay_time := rcp_regmap_ep_delay_time_reg_to_us (drop_bit 4 d AND 0x3)\<rparr>) =
     (d AND 0x30) OR (if u then 1 else 0)"
proof -
  have "push_bit 4 (drop_bit 4 d AND 0x3) = d AND 0x30" by (rule word8_eqI) (auto simp: word_bits)
  then show ?thesis by (simp add: gc_octet1_def delay_roundtrip(2) or.commute)
qed

section \<open>What a write stores\<close>

text \<open>Octet 1 depends on its own fields only, and so does the storage size.\<close>

lemma gc_fields_kept [simp]:
  "gc_octet1 (e\<lparr>gc_ep_req_storage_size := a\<rparr>) = gc_octet1 e" "gc_octet1 (e\<lparr>gc_ep_description := b\<rparr>) = gc_octet1 e"
  "gc_octet1 (e\<lparr>gc_ep_tx_buffer_size := c\<rparr>) = gc_octet1 e" "gc_octet1 (e\<lparr>gc_ep_rx_buffer_size := c\<rparr>) = gc_octet1 e"
  "gc_words (e\<lparr>gc_ep_used := u, gc_ep_delay_time := d\<rparr>) = gc_words e" "gc_words (e\<lparr>gc_ep_description := b\<rparr>) = gc_words e"
  "gc_words (e\<lparr>gc_ep_tx_buffer_size := c\<rparr>) = gc_words e" "gc_words (e\<lparr>gc_ep_rx_buffer_size := c\<rparr>) = gc_words e"
  "gc_words (e\<lparr>gc_ep_req_storage_size := rcp_regmap_ep_req_storage_size_words_to_octets w\<rparr>) = w"
  by (simp_all add: gc_octet1_def gc_words_def storage_roundtrip(2) split: option.split)

lemma gc_octet1_canon:
  "(d AND 0x30) OR (if (if k = 0 then True else d AND 0x01 \<noteq> 0) then 1 else 0) = gc_canon (k * 12 + 1) d"
proof -
  have "(k * 12 + 1) mod 12 = 1" by (metis mod_less mod_mult_self3 one_less_numeral_iff semiring_norm(76))
  moreover have "(d AND 0x30) OR 1 = (d AND 0x31) OR 1" by (rule word8_eqI) (auto simp: word_bits)
  moreover have "(d AND 0x30) OR (d AND 1) = d AND 0x31" by (rule word8_eqI) (auto simp: word_bits)
  moreover have "d AND 1 = (if d AND 1 \<noteq> 0 then 1 else 0)" by (simp add: and_one_eq)
  ultimately show ?thesis by (auto simp: gc_canon_def)
qed

text \<open>The fields of a row after a write.\<close>

lemma gc_store_fields:
  fixes start ds k e
  defines "e' \<equiv> gc_store_row start ds k e" and "stop \<equiv> start + length ds"
  shows "gc_octet1 e' = (if gc_covers start stop (k * 12 + 1) 1 then gc_canon (k * 12 + 1) (ds ! (k * 12 + 1 - start)) else gc_octet1 e)"
    and "gc_words e' = (if gc_covers start stop (k * 12 + 2) 2 then get_u16 (drop (k * 12 + 2 - start) ds) else gc_words e)"
    and "gc_ep_description e' = (if gc_covers start stop (k * 12 + 4) 4 then get_u32 (drop (k * 12 + 4 - start) ds) else gc_ep_description e)"
    and "gc_ep_tx_buffer_size e' = (if gc_covers start stop (k * 12 + 8) 2 then get_u16 (drop (k * 12 + 8 - start) ds) else gc_ep_tx_buffer_size e)"
    and "gc_ep_rx_buffer_size e' = (if gc_covers start stop (k * 12 + 10) 2 then get_u16 (drop (k * 12 + 10 - start) ds) else gc_ep_rx_buffer_size e)"
proof -
  have hd: "hd (drop (k * 12 + 1 - start) ds) = ds ! (k * 12 + 1 - start)" if "gc_covers start stop (k * 12 + 1) 1"
    using that by (intro hd_drop_conv_nth) (auto simp: gc_covers_def stop_def)
  note d = e'_def gc_store_row_def Let_def stop_def [symmetric]
  show "gc_octet1 e' = (if gc_covers start stop (k * 12 + 1) 1 then gc_canon (k * 12 + 1) (ds ! (k * 12 + 1 - start)) else gc_octet1 e)"
    unfolding d using hd
    by (cases "gc_covers start stop (k * 12 + 1) 1")
      (simp_all only: if_True if_False if_distrib [of gc_octet1] gc_fields_kept gc_octet1_parsed gc_octet1_canon if_cancel)
  show "gc_words e' = (if gc_covers start stop (k * 12 + 2) 2 then get_u16 (drop (k * 12 + 2 - start) ds) else gc_words e)"
    unfolding d by (simp add: if_distrib [of gc_words] cong: if_cong)
  show "gc_ep_description e' = (if gc_covers start stop (k * 12 + 4) 4 then get_u32 (drop (k * 12 + 4 - start) ds) else gc_ep_description e)"
    "gc_ep_tx_buffer_size e' = (if gc_covers start stop (k * 12 + 8) 2 then get_u16 (drop (k * 12 + 8 - start) ds) else gc_ep_tx_buffer_size e)"
    "gc_ep_rx_buffer_size e' = (if gc_covers start stop (k * 12 + 10) 2 then get_u16 (drop (k * 12 + 10 - start) ds) else gc_ep_rx_buffer_size e)"
    unfolding d by simp_all
qed

lemma gc_row_stored:
  assumes "j < 12"
  shows "gc_row (gc_store_row start ds k e) ! j =
    (if gc_takes start (start + length ds) (k * 12 + j)
     then gc_canon (k * 12 + j) (ds ! (k * 12 + j - start)) else gc_row e ! j)"
proof -
  define b where "b = k * 12"
  let ?stop = "start + length ds"
  have m: "(b + i) mod 12 = i" if "i < 12" for i using that by (simp add: b_def)
  have takes: "gc_takes start ?stop (b + j) \<longleftrightarrow>
      j \<noteq> 0 \<and> gc_covers start ?stop (b + fst (gc_field j)) (snd (gc_field j))"
    unfolding gc_takes_def m [OF assms] using assms by (simp add: case_prod_unfold Let_def gc_covers_def)
  have canon: "gc_canon (b + i) d = d" if "i < 12" "i \<noteq> 1" for i d using that m [of i] by (simp add: gc_canon_def)
  have two: "put_u16 (get_u16 (drop (b + f - start) ds)) = [ds ! (b + f - start), ds ! (b + (f + 1) - start)]"
    if "gc_covers start ?stop (b + f) 2" for f
    using that put_get_u16_at [of "b + f - start" ds] by (auto simp: gc_covers_def Suc_diff_le)
  have four: "put_u32 (get_u32 (drop (b + 4 - start) ds)) =
      [ds ! (b + 4 - start), ds ! (b + 5 - start), ds ! (b + 6 - start), ds ! (b + 7 - start)]"
    if c: "gc_covers start ?stop (b + 4) 4"
  proof -
    have "b + 4 - start + 1 = b + 5 - start" "b + 4 - start + 2 = b + 6 - start" "b + 4 - start + 3 = b + 7 - start"
      using c by (auto simp: gc_covers_def)
    then show ?thesis using c put_get_u32_at [of "b + 4 - start" ds] by (auto simp: gc_covers_def)
  qed
  have parts: "gc_row (gc_store_row start ds k e) =
      [gc_ep_type e, if gc_covers start ?stop (b + 1) 1 then gc_canon (b + 1) (ds ! (b + 1 - start)) else gc_octet1 e] @
      (if gc_covers start ?stop (b + 2) 2 then [ds ! (b + 2 - start), ds ! (b + 3 - start)] else put_u16 (gc_words e)) @
      (if gc_covers start ?stop (b + 4) 4
       then [ds ! (b + 4 - start), ds ! (b + 5 - start), ds ! (b + 6 - start), ds ! (b + 7 - start)]
       else put_u32 (gc_ep_description e)) @
      (if gc_covers start ?stop (b + 8) 2 then [ds ! (b + 8 - start), ds ! (b + 9 - start)] else put_u16 (gc_ep_tx_buffer_size e)) @
      (if gc_covers start ?stop (b + 10) 2 then [ds ! (b + 10 - start), ds ! (b + 11 - start)] else put_u16 (gc_ep_rx_buffer_size e))"
    unfolding gc_row_parts gc_store_fields gc_type_kept b_def [symmetric]
    using two [of 2] two [of 8] two [of 10] four by (simp del: add_2_eq_Suc add_2_eq_Suc')
  consider "j = 0" | "j = 1" | "j = 2" | "j = 3" | "j = 4" | "j = 5" | "j = 6" | "j = 7" | "j = 8" | "j = 9" | "j = 10" | "j = 11"
    using assms by (auto simp: eval_nat_numeral less_Suc_eq)
  then show ?thesis
    unfolding b_def [symmetric] takes parts unfolding gc_row_parts
    by cases (simp_all add: canon gc_field_def nth_append put_u16_def put_u32_def del: add_2_eq_Suc add_2_eq_Suc')
qed

lemma length_gc_row [simp]: "length (gc_row e) = 12"
  by (simp add: gc_row_def Let_def)

lemma length_gc_rows [simp]: "length (render_rows gc_row rows) = length rows * 12"
  by (induction rows) (simp_all add: render_rows_def)

lemma render_rows_octet:
  assumes "\<And>r. length (f r) = n" and "0 < n"
  shows "i < length rows * n \<Longrightarrow> render_rows f rows ! i = f (rows ! (i div n)) ! (i mod n)"
proof (induction rows arbitrary: i)
  case (Cons r rows)
  show ?case
  proof (cases "i < n")
    case False
    then have "i - n < length rows * n" "i div n = Suc ((i - n) div n)" "i mod n = (i - n) mod n"
      using Cons.prems assms(2) by (auto simp: le_div_geq le_mod_geq)
    then show ?thesis using Cons.IH [of "i - n"] False assms(1) by (simp add: render_rows_def nth_append)
  qed (use assms in \<open>simp add: render_rows_def nth_append\<close>)
qed simp

lemmas gc_octet_of_image = render_rows_octet [of gc_row 12, OF length_gc_row]

text \<open>The image of the table after an accepted write.\<close>

lemma gc_written:
  assumes "fst (rcp_regmap_ep_generic_cfg_apply_reconfig es relative ds) = RCP_REGMAP_EP_GENERIC_CFG_RECONFIG_OK"
    and "i < length es * 12"
  shows "render_rows gc_row (snd (rcp_regmap_ep_generic_cfg_apply_reconfig es relative ds)) ! i =
    (if gc_takes (unat relative) (unat relative + length ds) i
     then gc_canon i (ds ! (i - unat relative)) else render_rows gc_row es ! i)"
proof -
  have acc: "ds \<noteq> []" "unat relative + length ds \<le> length es * 12" using assms(1) by (simp_all add: gc_apply_refused)
  have k: "i div 12 < length es" using assms(2) by (simp add: less_mult_imp_div_less)
  have nth: "render_rows gc_row xs ! i = gc_row (xs ! (i div 12)) ! (i mod 12)" if "length xs = length es" for xs
    using that assms(2) by (simp add: gc_octet_of_image)
  show ?thesis using gc_row_stored [of "i mod 12" "unat relative" ds "i div 12" "es ! (i div 12)"] k
    by (simp add: nth gc_apply_rows [OF acc])
qed

end
