(* ===== verification/Regmap_Memory.thy ===== *)
theory Regmap_Memory
  imports Regmap_Generic
begin

text \<open>
  Endpoint 0 as a memory.  \<open>ep0_octet\<close> is the abstract view of the tables: the octet at an address, if a
  section contains it.  Reads return octets of this memory, with the live status of the streams laid over it
  (\<open>live_octet\<close>), and an accepted write changes exactly the octets it addresses, in the generic endpoint
  configuration only those of whole fields.
\<close>

section \<open>The abstract memory\<close>

definition ep0_octet :: "regmap_tables \<Rightarrow> u32 \<Rightarrow> nat \<Rightarrow> byte option" where
  "ep0_octet tb mpt addr =
     (let sec = ep0_section tb addr; (start, img) = section_image tb mpt None sec
      in if sec = Sec_None then None else Some (img ! (addr - start)))"

text \<open>Tables within the bounds of their buffers.\<close>

definition tables_bounded :: "regmap_tables \<Rightarrow> bool" where
  "tables_bounded tb \<longleftrightarrow>
     length (rt_hw_pin_map tb) \<le> RCP_REGMAP_HW_PIN_MAP_MAX_ENTRIES \<and>
     length (rt_ep_id_map tb) \<le> RCP_REGMAP_EP_ID_MAP_MAX_ENTRIES \<and>
     length (rt_response_queue_cfg tb) \<le> RCP_REGMAP_RESPONSE_QUEUE_CFG_MAX_ENTRIES \<and>
     length (rt_request_stream_cfg tb) \<le> RCP_REGMAP_REQUEST_STREAM_CFG_MAX_ENTRIES \<and>
     length (rt_ep_generic_cfg tb) \<le> RCP_REGMAP_EP_GENERIC_CFG_MAX_ENTRIES \<and>
     length (sequencer_rows tb) \<le> RCP_REGMAP_SEQUENCER_STATE_MAX_ENTRIES \<and>
     (\<forall>sel\<in>{network_interface_cfg, physical_layer_cfg, time_synch_cfg, security_cfg}.
        pred_option oc_wf (optional_part sel tb))"

lemma clamp_bounded: "tables_bounded tb \<Longrightarrow> clamp_tables tb = tb"
  by (simp add: clamp_tables_def tables_bounded_def)

lemma optional_image_len:
  "pred_option oc_wf cfg \<Longrightarrow> length (optional_image cfg) = optional_len cfg"
  by (cases cfg) (simp_all add: optional_image_def optional_len_def oc_wf_def)

lemmas render_defs = rcp_regmap_hw_pin_map_render_def rcp_regmap_ep_id_map_render_def
  rcp_regmap_response_queue_cfg_render_def rcp_regmap_ep_generic_cfg_render_def
  rcp_regmap_sequencer_table_render_def render_request_rows

text \<open>The window of a section.\<close>

definition in_window :: "regmap_tables \<Rightarrow> u32 \<Rightarrow> ep0_sec \<Rightarrow> nat \<Rightarrow> bool" where
  "in_window tb mpt sec addr \<longleftrightarrow>
     (let (start, img) = section_image tb mpt None sec in start \<le> addr \<and> addr < start + length img)"

lemma section_in_window:
  "tables_bounded tb \<Longrightarrow> ep0_section tb addr = sec \<Longrightarrow> sec \<noteq> Sec_None \<Longrightarrow> in_window tb mpt sec addr"
  by (cases sec)
    (auto simp: ep0_section_def in_window_def in_section_def Let_def render_defs tables_bounded_def
      optional_image_len split: if_splits)

text \<open>The live status of the streams is no part of the tables: the caller of a read passes it, one flag for each row
  of the request stream table, and the read shows it in bit 7 of octet \<open>0x0D\<close> of the row.\<close>

definition live_octet :: "regmap_tables \<Rightarrow> bool list option \<Rightarrow> nat \<Rightarrow> byte \<Rightarrow> byte" where
  "live_octet tb blocked addr d =
     (case blocked of
        None \<Rightarrow> d
      | Some flags \<Rightarrow>
          let i = addr - unat (rm_svr_request_stream_cfg_ptr (rt_general tb)) in
          if ep0_section tb addr = Sec_Request \<and> i mod 24 = 0x0D \<and> flags ! (i div 24) then d OR 0x80 else d)"

definition status_fits :: "regmap_tables \<Rightarrow> bool list option \<Rightarrow> bool" where
  "status_fits tb blocked \<longleftrightarrow> pred_option (\<lambda>flags. length (rt_request_stream_cfg tb) \<le> length flags) blocked"

lemma rsc_row_live:
  "j < 24 \<Longrightarrow> rsc_row mpt blocked e ! j =
     (if j = 0x0D \<and> blocked then rsc_row mpt False e ! j OR 0x80 else rsc_row mpt False e ! j)"
proof -
  have bits: "rsc_bits e True = rsc_bits e False OR 0x80" by (simp add: rsc_bits_def)
  let ?pre = "put_u64 (rsc_rx_stream_id e) @
     put_u16 (if rsc_rx_stream_max_request_size e > 0xFFFF then 0xFFFF else of_nat (rsc_rx_stream_max_request_size e)) @
     (case rcp_regmap_wd_timeout_ms_to_ticks (rsc_rx_wd_timeout_ms e) mpt of Some ticks \<Rightarrow> put_u16 ticks | None \<Rightarrow> [0, 0]) @
     [rsc_rx_secure_channel_index e]"
  have "\<exists>post. \<forall>bl. rsc_row mpt bl e = ?pre @ rsc_bits e bl # post" by (simp add: rsc_row_def)
  then obtain post where row: "\<And>bl. rsc_row mpt bl e = ?pre @ rsc_bits e bl # post" by blast
  have "length ?pre = 0x0D" by (simp split: option.split)
  then show ?thesis unfolding row using bits by (cases blocked) (auto simp: nth_append nth_Cons' simp del: append_assoc)
qed

text \<open>The image of a section with the live status, octet by octet.\<close>

lemma section_image_live:
  assumes "status_fits tb blocked"
  shows "fst (section_image tb mpt blocked sec) = fst (section_image tb mpt None sec)"
    and "length (snd (section_image tb mpt blocked sec)) = length (snd (section_image tb mpt None sec))"
    and "i < length (snd (section_image tb mpt None sec)) \<Longrightarrow> snd (section_image tb mpt blocked sec) ! i =
      (if sec = Sec_Request \<and> i mod 24 = 0x0D \<and> (\<exists>flags. blocked = Some flags \<and> flags ! (i div 24))
       then snd (section_image tb mpt None sec) ! i OR 0x80 else snd (section_image tb mpt None sec) ! i)"
proof -
  let ?rows = "rt_request_stream_cfg tb" and ?f = "\<lambda>(e, b). rsc_row mpt b e"
  have len: "length (?f p) = 24" for p by (cases p) simp
  have r: "rcp_regmap_request_stream_cfg_render ?rows mpt bl = render_rows ?f (zip ?rows (status_flags (length ?rows) bl))" for bl
    by (simp add: rcp_regmap_request_stream_cfg_render_def render_rows_def)
  have n: "length (status_flags (length ?rows) bl) = length ?rows" if "status_fits tb bl" for bl
    using that by (cases bl) (auto simp: status_fits_def status_flags_def)
  have none: "status_fits tb None" by (simp add: status_fits_def)
  have l: "length (rcp_regmap_request_stream_cfg_render ?rows mpt bl) = length ?rows * 24" if "status_fits tb bl" for bl
  proof -
    have "length (render_rows ?f ps) = length ps * 24" for ps by (induction ps) (auto simp: render_rows_def)
    then show ?thesis using n [OF that] by (simp add: r)
  qed
  show "fst (section_image tb mpt blocked sec) = fst (section_image tb mpt None sec)" by (cases sec) simp_all
  show "length (snd (section_image tb mpt blocked sec)) = length (snd (section_image tb mpt None sec))"
    by (cases sec) (simp_all add: l assms none)
  assume i: "i < length (snd (section_image tb mpt None sec))"
  show "snd (section_image tb mpt blocked sec) ! i =
      (if sec = Sec_Request \<and> i mod 24 = 0x0D \<and> (\<exists>flags. blocked = Some flags \<and> flags ! (i div 24))
       then snd (section_image tb mpt None sec) ! i OR 0x80 else snd (section_image tb mpt None sec) ! i)"
  proof (cases "sec = Sec_Request")
    case True
    then have "i < length ?rows * 24" using i l [OF none] by simp
    then have k: "i div 24 < length ?rows" by (simp add: less_mult_imp_div_less)
    have nth: "rcp_regmap_request_stream_cfg_render ?rows mpt bl ! i =
        rsc_row mpt (status_flags (length ?rows) bl ! (i div 24)) (?rows ! (i div 24)) ! (i mod 24)" if "status_fits tb bl" for bl
      unfolding r using render_rows_octet [of ?f 24 i "zip ?rows (status_flags (length ?rows) bl)", OF len]
        \<open>i < length ?rows * 24\<close> n [OF that] k by simp
    have fl: "status_flags (length ?rows) bl ! (i div 24) \<longleftrightarrow> (\<exists>flags. bl = Some flags \<and> flags ! (i div 24))"
      if "status_fits tb bl" for bl
      using that k by (cases bl) (auto simp: status_flags_def status_fits_def)
    have "rsc_row mpt (status_flags (length ?rows) None ! (i div 24)) e = rsc_row mpt False e" for e
      using k by (simp add: status_flags_def)
    then show ?thesis
      using True fl [OF assms] nth [OF assms] nth [OF none]
        rsc_row_live [of "i mod 24" mpt "status_flags (length ?rows) blocked ! (i div 24)" "?rows ! (i div 24)"]
      by auto
  qed (cases sec; simp)
qed

section \<open>What an accepted write stores\<close>

lemma write_octets_nth:
  assumes "k < length ds" and "relative + length ds \<le> length img" and "length img \<le> cap"
  shows "write_octets op cap True (scratch cap stale img) relative ds ! k =
    combine_octet op (img ! (relative + k)) (ds ! k)"
proof (cases "op = RCP_REGMAP_EP0_WRITE_OP_SET")
  case False
  moreover have "k < length img - relative" using assms by simp
  ultimately show ?thesis using assms
    by (simp add: write_octets_def rcp_regmap_ep0_combine_write_op_def scratch_def nth_append)
qed (use assms in \<open>simp add: write_octets_def\<close>)

context readback_table
begin

text \<open>A table written through a scratch buffer of its maximal size.\<close>

lemma write_through:
  fixes rows ds relative op stale
  defines "img \<equiv> render_rows render rows"
  defines "wd \<equiv> write_octets op (max_entries * stride) True (scratch (max_entries * stride) stale img) relative ds"
  assumes wf: "list_all wf rows"
    and ok: "fst (apply_rows stride max_entries render parse ok err_short err_range rows relative wd) = ok"
  shows "ds \<noteq> [] \<and> relative + length ds \<le> length img \<and>
    (\<forall>i<length img. render_rows render (snd (apply_rows stride max_entries render parse ok err_short err_range rows
        relative wd)) ! i =
      (if relative \<le> i \<and> i < relative + length ds
       then canon (i mod stride) (combine_octet op (img ! i) (ds ! (i - relative))) else img ! i))"
proof -
  have len: "length wd = length ds" unfolding wd_def by (intro length_write_octets length_scratch)
  have acc: "wd \<noteq> []" "length rows \<le> max_entries" "relative + length wd \<le> length rows * stride"
    using ok by (simp_all add: accepted)
  have cap: "length img \<le> max_entries * stride" using acc(2) by (simp add: img_def)
  have "wd ! (i - relative) = combine_octet op (img ! i) (ds ! (i - relative))"
    if "relative \<le> i" "i < relative + length ds" for i
    using write_octets_nth [of "i - relative" ds relative img "max_entries * stride" op stale] that acc(3) len cap
    by (simp add: wd_def img_def less_diff_conv2 add.commute)
  then show ?thesis using written_octets [OF wf acc] acc(1,3) len by (auto simp: img_def)
qed

end

text \<open>A change inside one section, seen through the memory.\<close>

definition sections_disjoint :: "regmap_tables \<Rightarrow> bool" where
  "sections_disjoint tb \<longleftrightarrow> (\<forall>mpt sec addr. in_window tb mpt sec addr \<longrightarrow> ep0_section tb addr = sec)"




definition tables_wf :: "u32 \<Rightarrow> regmap_tables \<Rightarrow> bool" where
  "tables_wf mpt tb \<longleftrightarrow> tables_bounded tb \<and> list_all em_wf (rt_ep_id_map tb) \<and>
     list_all rqc_wf (rt_response_queue_cfg tb) \<and> list_all (rsc_readable mpt) (rt_request_stream_cfg tb)"












text \<open>Storing rows or a section of the same size keeps the layout and the images of the other sections.\<close>

lemma optional_part_upd [simp]:
  "optional_part sel (tb\<lparr>rt_hw_pin_map := r1\<rparr>) = optional_part sel tb"
  "optional_part sel (tb\<lparr>rt_ep_id_map := r2\<rparr>) = optional_part sel tb"
  "optional_part sel (tb\<lparr>rt_response_queue_cfg := r3\<rparr>) = optional_part sel tb"
  "optional_part sel (tb\<lparr>rt_request_stream_cfg := r4\<rparr>) = optional_part sel tb"
  "optional_part sel (tb\<lparr>rt_sequencers := r5\<rparr>) = optional_part sel tb"
  "optional_part sel (tb\<lparr>rt_ep_generic_cfg := r6\<rparr>) = optional_part sel tb"
  "optional_part sel (tb\<lparr>rt_optional := p\<rparr>) = (case p of None \<Rightarrow> None | Some ptrs \<Rightarrow> sel ptrs)"
  by (simp_all add: optional_part_def)

lemma sequencer_rows_upd [simp]:
  "sequencer_rows (tb\<lparr>rt_hw_pin_map := r1\<rparr>) = sequencer_rows tb"
  "sequencer_rows (tb\<lparr>rt_ep_id_map := r2\<rparr>) = sequencer_rows tb"
  "sequencer_rows (tb\<lparr>rt_response_queue_cfg := r3\<rparr>) = sequencer_rows tb"
  "sequencer_rows (tb\<lparr>rt_request_stream_cfg := r4\<rparr>) = sequencer_rows tb"
  "sequencer_rows (tb\<lparr>rt_sequencers := Some r5\<rparr>) = r5"
  "sequencer_rows (tb\<lparr>rt_optional := p\<rparr>) = sequencer_rows tb"
  "sequencer_rows (tb\<lparr>rt_ep_generic_cfg := r6\<rparr>) = sequencer_rows tb"
  by (simp_all add: sequencer_rows_def)







section \<open>Reads and writes of the memory\<close>



text \<open>C19: A read of \<open>n\<close> octets at an address that lies in a section is answered with \<open>n\<close> octets: those
  of the memory as far as the section goes, and zeroes after it; in octet \<open>0x0D\<close> of a row of the request stream
  table bit 7 is set exactly if the live status that the caller passes marks the stream of the row as
  blocked.  An address outside every section is answered with the error code and no message.  The
  hypotheses: every table fits its buffer, the sections do not overlap, and the live status, if there is one,
  has a flag for each row.\<close>

theorem ep0_read_shows_memory:
  assumes "tables_bounded tb" and "sections_disjoint tb" and "status_fits tb blocked"
  shows "(ep0_section tb (unat addr) = Sec_None \<longrightarrow>
       rcp_regmap_ep0_encode_read_response mem addr n tn tb mpt blocked = (RCP_ERROR_EP_NOT_FOUND, None)) \<and>
    (ep0_section tb (unat addr) \<noteq> Sec_None \<longrightarrow>
       (\<exists>f h p. rcp_regmap_ep0_encode_read_response True addr n tn tb mpt blocked = (RCP_ERROR_NONE, Some f) \<and>
         rcp_acf_decode_abb f = Inr (h, p) \<and> bm_transaction_num h = tn \<and> bm_rsp h = 1 \<and> length p = unat n \<and>
         (\<forall>i<unat n. p ! i =
            (if ep0_section tb (unat addr + i) = ep0_section tb (unat addr)
             then live_octet tb blocked (unat addr + i) (the (ep0_octet tb mpt (unat addr + i))) else 0))))"
proof (intro conjI impI)
  show "rcp_regmap_ep0_encode_read_response mem addr n tn tb mpt blocked = (RCP_ERROR_EP_NOT_FOUND, None)"
    if "ep0_section tb (unat addr) = Sec_None"
    using that by (simp add: rcp_regmap_ep0_encode_read_response_def clamp_bounded [OF assms(1)])
  assume ne: "ep0_section tb (unat addr) \<noteq> Sec_None"
  define sec where "sec = ep0_section tb (unat addr)"
  obtain start base where base: "section_image tb mpt None sec = (start, base)" by force
  define img where "img = snd (section_image tb mpt blocked sec)"
  note live = section_image_live [OF assms(3), where mpt = mpt and sec = sec, unfolded base fst_conv snd_conv, folded img_def]
  have img: "section_image tb mpt blocked sec = (start, img)" using live(1) by (simp add: img_def prod_eq_iff)
  have win: "start \<le> unat addr" "unat addr < start + length img"
    using section_in_window [OF assms(1) _ ne, of "unat addr" mpt] base live(2) by (simp_all add: in_window_def sec_def)
  define off where "off = unat addr - start"
  define copy where "copy = (if length img - off < unat n then length img - off else unat n)"
  let ?p = "read_response_payload (drop off img) copy (unat n)"
  have n: "unat n < 256" using unsigned_less [of n, where 'a = nat] by simp
  have off: "off < length img" using win by (simp add: off_def)
  have len: "length ?p = unat n" using n off by (simp add: copy_def)
  have "length ?p \<le> RCP_ACF_ABB_MAX_PAYLOAD" using len n by (simp add: consts_rcp)
  from abb_small [OF this, of "ep0_read_header n tn" "[]"] obtain f where
    f: "rcp_acf_encode_abb True (ep0_read_header n tn) ?p = Some f"
      "rcp_acf_decode_abb f = Inr (abb_canon (ep0_read_header n tn) ?p, ?p)" by auto
  have enc: "rcp_regmap_ep0_encode_read_response True addr n tn tb mpt blocked = (RCP_ERROR_NONE, Some f)"
    using ne img f(1) [unfolded copy_def off_def] off [unfolded off_def]
    by (auto simp: rcp_regmap_ep0_encode_read_response_def clamp_bounded [OF assms(1)] Let_def
        ep0_read_response_from_slice_def sec_def [symmetric] split: if_splits)
  have oct: "?p ! i = (if ep0_section tb (unat addr + i) = sec
      then live_octet tb blocked (unat addr + i) (the (ep0_octet tb mpt (unat addr + i))) else 0)"
    if i: "i < unat n" for i
  proof -
    have "ep0_section tb (unat addr + i) = sec \<longleftrightarrow> in_window tb mpt sec (unat addr + i)"
      using section_in_window [OF assms(1), of "unat addr + i" sec mpt] assms(2) ne
      by (auto simp: sections_disjoint_def sec_def)
    also have "\<dots> \<longleftrightarrow> off + i < length img" using base live(2) win by (auto simp: in_window_def off_def)
    finally have inside: "ep0_section tb (unat addr + i) = sec \<longleftrightarrow> off + i < length img" .
    have copied: "?p ! i = (if off + i < length img then img ! (off + i) else 0)"
      using i n off by (auto simp: read_response_payload_def copy_def nth_append)
    have "img ! (off + i) = live_octet tb blocked (unat addr + i) (the (ep0_octet tb mpt (unat addr + i)))"
      if h: "off + i < length img"
    proof -
      have s: "ep0_section tb (unat addr + i) = sec" using inside h by simp
      have a: "unat addr + i - start = off + i" using win by (simp add: off_def)
      have "the (ep0_octet tb mpt (unat addr + i)) = base ! (off + i)"
        using s ne base a by (simp add: ep0_octet_def sec_def)
      moreover have "start = unat (rm_svr_request_stream_cfg_ptr (rt_general tb))" if "sec = Sec_Request"
        using that base by simp
      ultimately show ?thesis using live(3) [of "off + i"] h live(2) s a
        by (auto simp: live_octet_def Let_def split: option.splits)
    qed
    with copied inside show ?thesis by simp
  qed
  show "\<exists>f h p. rcp_regmap_ep0_encode_read_response True addr n tn tb mpt blocked = (RCP_ERROR_NONE, Some f) \<and>
      rcp_acf_decode_abb f = Inr (h, p) \<and> bm_transaction_num h = tn \<and> bm_rsp h = 1 \<and> length p = unat n \<and>
      (\<forall>i<unat n. p ! i = (if ep0_section tb (unat addr + i) = ep0_section tb (unat addr)
         then live_octet tb blocked (unat addr + i) (the (ep0_octet tb mpt (unat addr + i))) else 0))"
    using enc f(2) oct len
    by (intro exI [of _ f] exI [of _ "abb_canon (ep0_read_header n tn) ?p"] exI [of _ ?p])
      (simp add: abb_canon_def info_canon_def ep0_read_header_def Let_def sec_def)
qed

section \<open>A side effect of writes to the request stream table\<close>

text \<open>What the registers of a row can express of it: sequence and watchdog enforcement only together with their
  safe-state flag, a request size up to \<open>0xFFFF\<close>, a sequencer index up to \<open>0xFF\<close>, and the watchdog timeout
  in whole ticks, where more ticks than the register holds are shown as 0.  A tick length of 0 leaves the timeout
  alone.\<close>

definition rsc_expressible :: "u32 \<Rightarrow> rcp_regmap_request_stream_cfg_t \<Rightarrow> rcp_regmap_request_stream_cfg_t" where
  "rsc_expressible mpt e =
     e\<lparr>rsc_rx_enforce_seq := rsc_rx_enforce_seq e \<and> rsc_rx_seq_safestate_enable e,
       rsc_rx_seq_safestate_enable := rsc_rx_enforce_seq e \<and> rsc_rx_seq_safestate_enable e,
       rsc_rx_wd_enable := rsc_rx_wd_enable e \<and> rsc_rx_wd_safestate_enable e,
       rsc_rx_wd_safestate_enable := rsc_rx_wd_enable e \<and> rsc_rx_wd_safestate_enable e,
       rsc_rx_stream_max_request_size := min 0xFFFF (rsc_rx_stream_max_request_size e),
       rsc_rx_safestate_sequencer := min 0xFF (rsc_rx_safestate_sequencer e),
       rsc_rx_wd_timeout_ms :=
         if mpt = 0 then rsc_rx_wd_timeout_ms e
         else if unat (rsc_rx_wd_timeout_ms e) div unat mpt > 0xFFFF then 0
         else rsc_rx_wd_timeout_ms e - rsc_rx_wd_timeout_ms e mod mpt\<rparr>"

lemma parse_timeout:
  "(case rcp_regmap_wd_timeout_ticks_to_ms
        (get_u16 (case rcp_regmap_wd_timeout_ms_to_ticks ms mpt of Some t \<Rightarrow> put_u16 t | None \<Rightarrow> [0, 0])) mpt of
      Some v \<Rightarrow> v | None \<Rightarrow> ms) =
   (if mpt = 0 then ms else if unat ms div unat mpt > 0xFFFF then 0 else ms - ms mod mpt)"
proof (cases "rcp_regmap_wd_timeout_ms_to_ticks ms mpt")
  case None
  moreover have "get_u16 [0, 0] = 0" by (simp add: get_u16_def)
  ultimately show ?thesis
    by (auto simp: wd_ms_to_ticks_nat wd_ticks_to_ms_nat split: if_splits)
next
  case (Some t)
  then have m: "mpt \<noteq> 0" "\<not> unat ms div unat mpt > 0xFFFF" by (auto simp: wd_ms_to_ticks_nat split: if_splits)
  obtain ms' where ms': "rcp_regmap_wd_timeout_ticks_to_ms t mpt = Some ms'" "unat ms' = unat ms - unat ms mod unat mpt"
    using wd_round_down [OF Some] by blast
  have "ms mod mpt \<le> ms" by (simp add: word_le_nat_alt unat_mod)
  then have "ms' = ms - ms mod mpt" using ms'(2) by (simp add: word_unat_eq_iff unat_sub unat_mod)
  moreover have "get_u16 (put_u16 t) = t" using get_put_u16 [of t "[]"] by simp
  ultimately show ?thesis using Some m ms'(1) by simp
qed

lemma parse_own_row: "rsc_parse_row mpt e (rsc_row mpt False e) = rsc_expressible mpt e"
proof -
  define S where "S = (if rsc_rx_stream_max_request_size e > 0xFFFF then 0xFFFF else of_nat (rsc_rx_stream_max_request_size e) :: u16)"
  define q where "q = (if rsc_rx_safestate_sequencer e > 0xFF then 0xFF else ucast (rsc_rx_safestate_sequencer e) :: byte)"
  let ?W = "case rcp_regmap_wd_timeout_ms_to_ticks (rsc_rx_wd_timeout_ms e) mpt of Some t \<Rightarrow> put_u16 t | None \<Rightarrow> [0, 0]"
  have "length ?W = 2" by (simp split: option.split)
  then obtain w0 w1 where W: "?W = [w0, w1]" by (auto simp: eval_nat_numeral length_Suc_conv)
  have row: "rsc_row mpt False e = put_u64 (rsc_rx_stream_id e) @ put_u16 S @
      [w0, w1, rsc_rx_secure_channel_index e, rsc_bits e False, q, rsc_rx_safe_sequencer_state e,
       rsc_rx_ack_stream_index e, rsc_rx_resp_stream_index e, 0, 0, 0, 0, 0, 0]"
    unfolding rsc_row_def W S_def q_def by simp
  have size: "unat S = min 0xFFFF (rsc_rx_stream_max_request_size e)" by (simp add: S_def unat_of_nat min_def)
  have seq: "ucast q = min 0xFF (rsc_rx_safestate_sequencer e)"
  proof (cases "rsc_rx_safestate_sequencer e > 0xFF")
    case False
    then have "unat (rsc_rx_safestate_sequencer e) < 2 ^ 8" by (simp add: word_less_nat_alt)
    then have "ucast (ucast (rsc_rx_safestate_sequencer e) :: byte) = rsc_rx_safestate_sequencer e"
      by (simp add: word_unat_eq_iff unsigned_ucast_eq unsigned_take_bit_eq take_bit_nat_eq_self)
    moreover have "min 0xFF (rsc_rx_safestate_sequencer e) = rsc_rx_safestate_sequencer e"
      using False by (intro min_absorb2) (simp add: not_less)
    ultimately show ?thesis using False by (simp add: q_def)
  qed (simp add: q_def min_def less_imp_le)
  have timeout: "(case rcp_regmap_wd_timeout_ticks_to_ms (get_u16 (w0 # w1 # r)) mpt of
      Some v \<Rightarrow> v | None \<Rightarrow> rsc_rx_wd_timeout_ms e) = rsc_rx_wd_timeout_ms (rsc_expressible mpt e)" for r
  proof -
    have "get_u16 (w0 # w1 # r) = get_u16 [w0, w1]" by (simp add: get_u16_def)
    then show ?thesis using parse_timeout [of "rsc_rx_wd_timeout_ms e" mpt] unfolding W by (simp add: rsc_expressible_def)
  qed
  show ?thesis
    by (intro rcp_regmap_request_stream_cfg_t.equality)
      (simp_all add: rsc_parse_row_def Let_def row timeout size seq nth_append mask_flag rsc_bits_fields,
       simp_all add: rsc_expressible_def)
qed

text \<open>C40: A write to the request stream table parses every row of the table back from its registers, also the rows
  that it does not address, and the registers cannot express every configuration.  A row that the write does
  not address afterwards is what its registers express: a row that enforced sequence numbers or the watchdog
  without the safe-state flag no longer does, sizes and sequencer indices beyond their registers are cut off,
  and the watchdog timeout is rounded down to whole ticks, or becomes 0 if it has more ticks than its
  register holds.  So the write leaves such a row alone exactly if its registers express it.\<close>

theorem request_stream_write_renormalises:
  assumes "fst (rcp_regmap_request_stream_cfg_apply_reconfig rows relative ds mpt) =
      RCP_REGMAP_REQUEST_STREAM_CFG_RECONFIG_OK"
    and "k < length rows" and "unat relative + length ds \<le> 24 * k \<or> 24 * k + 24 \<le> unat relative"
  shows "snd (rcp_regmap_request_stream_cfg_apply_reconfig rows relative ds mpt) ! k = rsc_expressible mpt (rows ! k)"
proof -
  let ?img = "render_rows (rsc_row mpt False) rows"
  have acc: "ds \<noteq> []" "length rows \<le> RCP_REGMAP_REQUEST_STREAM_CFG_MAX_ENTRIES"
    "unat relative + length ds \<le> length rows * 24"
    using assms(1) rsc.accepted [of mpt rows "unat relative" ds]
    by (simp_all add: rcp_regmap_request_stream_cfg_apply_reconfig_def)
  have room: "k * 24 + 24 \<le> length rows * 24" using assms(2) by (rule row_room)
  have "take 24 (drop (k * 24) (patch_rows ?img (unat relative) ds)) = take 24 (drop (k * 24) ?img)"
    using assms(3) acc(3) room by (intro nth_equalityI) (auto simp: nth_patch_block mult.commute)
  also have "\<dots> = rsc_row mpt False (rows ! k)" by (rule rsc.row_of_image [OF assms(2)])
  finally show ?thesis using assms(2) rsc.apply_eq [OF acc, of mpt]
    by (simp add: rcp_regmap_request_stream_cfg_apply_reconfig_def nth_parse_rows parse_own_row)
qed

text \<open>A write to the first of two rows switches off the sequence enforcement of the second, which has no
  safe-state flag, and rounds its watchdog timeout of 25 ms to two ticks of 10 ms.\<close>

theorem request_stream_write_renormalises_witness:
  "snd (rcp_regmap_request_stream_cfg_apply_reconfig
     [rcp_regmap_request_stream_cfg_init,
      rcp_regmap_request_stream_cfg_init\<lparr>rsc_rx_enforce_seq := True, rsc_rx_wd_timeout_ms := 25\<rparr>] 0x10 [7] 10) ! 1 =
   rcp_regmap_request_stream_cfg_init\<lparr>rsc_rx_wd_timeout_ms := 20\<rparr>"
proof -
  let ?rows = "[rcp_regmap_request_stream_cfg_init,
      rcp_regmap_request_stream_cfg_init\<lparr>rsc_rx_enforce_seq := True, rsc_rx_wd_timeout_ms := 25\<rparr>]"
  have "fst (rcp_regmap_request_stream_cfg_apply_reconfig ?rows 0x10 [7] 10) = RCP_REGMAP_REQUEST_STREAM_CFG_RECONFIG_OK"
    by (simp add: rcp_regmap_request_stream_cfg_apply_reconfig_def apply_rows_def consts_rcp)
  from request_stream_write_renormalises [OF this, of 1]
  show ?thesis by (simp add: rsc_expressible_def rcp_regmap_request_stream_cfg_init_def)
qed

section \<open>A small server\<close>

text \<open>A server with one pin, one endpoint, two sequencers and one request stream, for the witnesses.\<close>

definition small_general :: rcp_regmap_general_t where
  "small_general = rcp_regmap_general_init\<lparr>rm_svr_hw_cfg_ptr := 0x100, rm_svr_ep_bytebus_id_map_ptr := 0x200,
     rm_svr_sequencer_state_ptr := 0x300, rm_svr_request_stream_cfg_ptr := 0x400\<rparr>"

definition small_tables :: regmap_tables where
  "small_tables = \<lparr>rt_general = small_general,
     rt_hw_pin_map = [\<lparr>hw_ep_nr = 1, hw_ep_pin_nr = 2, hw_pin_type = 3\<rparr>],
     rt_ep_id_map = [\<lparr>em_ep_id = 1, em_byte_bus_id = 5, em_request_stream_index = 1, em_crc_required = False\<rparr>],
     rt_response_queue_cfg = [], rt_request_stream_cfg = [rcp_regmap_request_stream_cfg_init],
     rt_ep_generic_cfg = [], rt_sequencers = Some [(0, 1), (5, 2)], rt_optional = None\<rparr>"

definition small_env :: "rcp_lifecycle_state_t \<Rightarrow> ep0_env" where
  "small_env st = \<lparr>env_state = st, env_writer = best_writer, env_requester_stream_index = 1,
     env_watchdog_ms_per_tick = 1, env_ep_types = Some [9], env_fixed_target_ep_type = 9,
     env_fixed_required_ep_id = 1, env_stale = (\<lambda>_. 0)\<rparr>"

lemmas small_defs = small_general_def small_tables_def small_env_def rcp_regmap_general_init_def
  rcp_regmap_request_stream_cfg_init_def

lemma small_general_ptrs:
  "rm_svr_hw_cfg_ptr small_general = 0x100" "rm_svr_ep_bytebus_id_map_ptr small_general = 0x200"
  "rm_svr_response_stream_cfg_ptr small_general = 0" "rm_svr_request_stream_cfg_ptr small_general = 0x400"
  "rm_svr_ep_generic_cfg_ptr small_general = 0" "rm_svr_sequencer_state_ptr small_general = 0x300"
  "rm_svr_configuration_lock small_general = 0"
  by (simp_all add: small_general_def rcp_regmap_general_init_def)

lemma small_sections:
  "ep0_section small_tables a =
     (if a < 0x44 then Sec_General else if 0x100 \<le> a \<and> a < 0x103 then Sec_Hw
      else if 0x200 \<le> a \<and> a < 0x204 then Sec_Ep_Id else if 0x400 \<le> a \<and> a < 0x418 then Sec_Request
      else if 0x300 \<le> a \<and> a < 0x304 then Sec_Sequencer else Sec_None)"
  by (simp add: ep0_section_def Let_def small_tables_def small_general_ptrs in_section_def sequencer_rows_def
      optional_part_def optional_len_def consts_rcp)

lemma small_disjoint: "sections_disjoint small_tables"
  unfolding sections_disjoint_def
proof (intro allI impI)
  fix mpt sec addr assume "in_window small_tables mpt sec addr"
  then show "ep0_section small_tables addr = sec"
    unfolding small_sections
    by (cases sec) (auto simp: in_window_def render_defs small_tables_def small_general_ptrs
        sequencer_rows_def optional_part_def optional_image_def consts_rcp render_rows_def hw_row_def em_row_def sq_row_def)
qed

lemma small_bounded: "tables_bounded small_tables"
  by (simp add: tables_bounded_def small_tables_def sequencer_rows_def optional_part_def consts_rcp)

lemma small_wf: "tables_wf 1 small_tables"
proof -
  have "rcp_regmap_wd_timeout_ticks_to_ms 0 1 = Some 0"
    by (simp add: rcp_regmap_wd_timeout_ticks_to_ms_def)
  then have "rsc_readable 1 rcp_regmap_request_stream_cfg_init"
    by (auto simp: rsc_readable_def rsc_wf_def rcp_regmap_request_stream_cfg_init_def)
  moreover have "em_wf \<lparr>em_ep_id = 1, em_byte_bus_id = 5, em_request_stream_index = 1, em_crc_required = False\<rparr>"
    by (simp add: em_wf_def)
  ultimately show ?thesis using small_bounded by (simp add: tables_wf_def) (simp add: small_tables_def)
qed

text \<open>A request of the client, and the frame that carries it.\<close>

definition small_request :: "byte \<Rightarrow> rcp_acf_byte_message_info_t" where
  "small_request evt = zero_info\<lparr>bm_op := RCP_ACF_OP_WRITE, bm_evt := evt, bm_transaction_num := 9\<rparr>"

definition small_frame :: "byte \<Rightarrow> bytes \<Rightarrow> bytes" where
  "small_frame evt p = the (rcp_acf_encode_abb True (small_request evt) p)"




section \<open>Witnesses\<close>

text \<open>A configured server keeps its tables, also under the accepted write to the status bit of its stream.\<close>

theorem ep0_frozen_when_configured_witness:
  "snd (rcp_regmap_ep0_decode_write_request (small_env RCP_LIFECYCLE_RCP_CONFIGURED)
     (small_frame 0 [0x04, 0x0D, 0x80]) small_tables) = small_tables"
proof (rule ep0_frozen_when_configured)
  show "list_all (rsc_wf (env_watchdog_ms_per_tick (small_env RCP_LIFECYCLE_RCP_CONFIGURED)))
      (rt_request_stream_cfg small_tables)"
    using small_wf by (auto simp: tables_wf_def rsc_readable_def small_env_def list_all_iff)
qed (simp add: small_env_def)

theorem ep0_hardware_locked_witness:
  "rt_hw_pin_map (snd (rcp_regmap_ep0_decode_write_request (small_env RCP_LIFECYCLE_HW_CONFIGURED)
     (small_frame 0 [0x01, 0x00, 0xAA]) small_tables)) = rt_hw_pin_map small_tables"
  using ep0_hardware_locked [of "small_env RCP_LIFECYCLE_HW_CONFIGURED" "small_frame 0 [0x01, 0x00, 0xAA]" small_tables]
  by (simp add: small_env_def)

text \<open>The second sequencer belongs to stream 2, so a request of stream 1 does not reach it.\<close>

theorem ep0_sequencers_belong_to_owner_witness:
  "sequencer_rows (snd (rcp_regmap_ep0_decode_write_request (small_env RCP_LIFECYCLE_HW_CONFIGURED)
     (small_frame 0 [0x03, 0x02, 7]) small_tables)) ! 1 = (5, 2)"
  using ep0_sequencers_belong_to_owner [of 1 small_tables "small_env RCP_LIFECYCLE_HW_CONFIGURED"
      "small_frame 0 [0x03, 0x02, 7]"]
  by (auto simp: small_tables_def sequencer_rows_def small_env_def prod_eq_iff)

theorem ep0_fixed_ep_id_kept_witness:
  "rcp_regmap_ep_id_map_ep_type_has_fixed_ep_id
     (rt_ep_id_map (snd (rcp_regmap_ep0_decode_write_request (small_env RCP_LIFECYCLE_HW_CONFIGURED)
        (small_frame 0 [0x02, 0x01, 4]) small_tables))) [9] 9 1"
  using ep0_fixed_ep_id_kept [of "small_env RCP_LIFECYCLE_HW_CONFIGURED" "[9]" small_tables "small_frame 0 [0x02, 0x01, 4]"]
  by (simp add: small_env_def small_tables_def rcp_regmap_ep_id_map_ep_type_has_fixed_ep_id_def)

text \<open>A read of four octets at the pin map shows its row and a zero after it; a read of the enforcement octet
  of a stream that is blocked shows bit 7.\<close>

lemma small_octets:
  "ep0_octet small_tables 1 0x100 = Some 1" "ep0_octet small_tables 1 0x101 = Some 2"
  "ep0_octet small_tables 1 0x102 = Some 3" "ep0_octet small_tables 1 0x40D = Some 0"
  by (simp_all add: ep0_octet_def small_sections render_defs)
    (simp_all add: small_tables_def small_general_ptrs render_rows_def hw_row_def rsc_row_def rsc_bits_def nth_append
      rcp_regmap_request_stream_cfg_init_def split: option.split)

theorem ep0_read_shows_memory_witness:
  "(\<exists>f h. rcp_regmap_ep0_encode_read_response True 0x100 4 7 small_tables 1 (Some [True]) = (RCP_ERROR_NONE, Some f) \<and>
      rcp_acf_decode_abb f = Inr (h, [1, 2, 3, 0])) \<and>
   (\<exists>f h. rcp_regmap_ep0_encode_read_response True 0x40D 1 7 small_tables 1 (Some [True]) = (RCP_ERROR_NONE, Some f) \<and>
      rcp_acf_decode_abb f = Inr (h, [0x80]))"
proof
  have fits: "status_fits small_tables (Some [True])" by (simp add: status_fits_def small_tables_def)
  note read = ep0_read_shows_memory [OF small_bounded small_disjoint fits, where mem = True and mpt = 1 and tn = 7]
  have live: "live_octet small_tables (Some [True]) a d = (if a = 0x40D then d OR 0x80 else d)" if "a \<in> {0x100, 0x101, 0x102, 0x40D}" for a d
    using that by (auto simp: live_octet_def small_sections) (simp_all add: small_tables_def small_general_ptrs)
  from read [of "0x100" 4] obtain f h p where
    r: "rcp_regmap_ep0_encode_read_response True 0x100 4 7 small_tables 1 (Some [True]) = (RCP_ERROR_NONE, Some f)"
      "rcp_acf_decode_abb f = Inr (h, p)" and p: "length p = 4"
    and o: "\<And>i. i < 4 \<Longrightarrow> p ! i = (if ep0_section small_tables (0x100 + i) = Sec_Hw
        then live_octet small_tables (Some [True]) (0x100 + i) (the (ep0_octet small_tables 1 (0x100 + i))) else 0)"
    by (auto simp: small_sections)
  have "p = [p ! 0, p ! 1, p ! 2, p ! 3]" using p by (auto simp: eval_nat_numeral length_Suc_conv)
  moreover have "p ! 0 = 1" "p ! 1 = 2" "p ! 2 = 3" "p ! 3 = 0"
    using o [of 0] o [of 1] o [of 2] o [of 3] by (simp_all add: small_sections small_octets live)
  ultimately have "p = [1, 2, 3, 0]" by simp
  with r show "\<exists>f h. rcp_regmap_ep0_encode_read_response True 0x100 4 7 small_tables 1 (Some [True]) = (RCP_ERROR_NONE, Some f) \<and>
      rcp_acf_decode_abb f = Inr (h, [1, 2, 3, 0])" by blast
  from read [of "0x40D" 1] obtain f h p where
    r: "rcp_regmap_ep0_encode_read_response True 0x40D 1 7 small_tables 1 (Some [True]) = (RCP_ERROR_NONE, Some f)"
      "rcp_acf_decode_abb f = Inr (h, p)" and p: "length p = 1" "p ! 0 = 0x80"
    by (auto simp: small_sections small_octets live)
  then have "p = [0x80]" by (cases p) auto
  with r show "\<exists>f h. rcp_regmap_ep0_encode_read_response True 0x40D 1 7 small_tables 1 (Some [True]) = (RCP_ERROR_NONE, Some f) \<and>
      rcp_acf_decode_abb f = Inr (h, [0x80])" by blast
qed



end
