(* ===== verification/Mock_Server.thy ===== *)
theory Mock_Server
  imports Server_Store Monitors Power_Modes Discovery Regmap_Config
begin

text \<open>
  \<^verbatim>\<open>src/mock.c\<close>, part 1: the state of the server that puts the components together, its
  endpoint table and configuration tables, and the operations that dispatch no request.

  Endpoints, trackers and reassemblers are lists; a pointer to an endpoint slot is an index.  A
  configuration table is the list of its first \<^verbatim>\<open>count\<close> rows.  The watchdog keeper and the
  stream fault tracker the server points to are fields of it (\<^const>\<open>None\<close> for \<^verbatim>\<open>NULL\<close>).

  A handler is a function pointer given by the user.  It appears here as a number, and what it does as
  the parameter \<open>mock_handlers\<close>: the responses are a function of all calls made so far, which the field
  \<open>ms_calls\<close> records, so a handler may keep any state of its own.  A handler does not call the server.
\<close>

section \<open>Data\<close>

datatype rcp_mock_errc_t =
    RCP_MOCK_OK | RCP_MOCK_ERR_DUPLICATE_BUS_ID | RCP_MOCK_ERR_CAPACITY | RCP_MOCK_ERR_NOT_FOUND

fun rcp_mock_strerror :: "rcp_mock_errc_t \<Rightarrow> string" where
  "rcp_mock_strerror RCP_MOCK_OK = ''ok''"
| "rcp_mock_strerror RCP_MOCK_ERR_DUPLICATE_BUS_ID = ''duplicate byte_bus_id''"
| "rcp_mock_strerror RCP_MOCK_ERR_CAPACITY = ''endpoint table full''"
| "rcp_mock_strerror RCP_MOCK_ERR_NOT_FOUND = ''byte_bus_id not registered''"

definition RCP_MOCK_MAX_ENDPOINTS :: nat where [consts_rcp]: "RCP_MOCK_MAX_ENDPOINTS = 64"
definition RCP_MOCK_FRAG_REASM_DEFAULT_MAX_TOTAL_LEN :: nat where
  [consts_rcp]: "RCP_MOCK_FRAG_REASM_DEFAULT_MAX_TOTAL_LEN = 65536"
definition RCP_MOCK_MAX_FRAME_MEMBERS :: nat where [consts_rcp]: "RCP_MOCK_MAX_FRAME_MEMBERS = 32"

text \<open>A call of a handler: the function, its user data and the request.\<close>

type_synonym mock_call = "nat \<times> nat \<times> bytes"

record mock_handlers =
  run_single :: "mock_call list \<Rightarrow> mock_call \<Rightarrow> rcp_bytes_t"
  run_multi :: "mock_call list \<Rightarrow> mock_call \<Rightarrow> nat \<Rightarrow> nat \<times> rcp_bytes_t list"

text \<open>The allocations of one call of the server, and the clock the watchdog keeper reads in it.\<close>

record mock_mem =
  mm_server :: server_mem
  mm_response :: bool
  mm_unwrap :: bool
  mm_reasm :: bool
  mm_encode :: bool
  mm_now_ms :: u64

record rcp_mock_endpoint_slot_t =
  sl_in_use :: bool
  sl_byte_bus_id :: rcp_byte_bus_id_t
  sl_stream_scoped :: bool
  sl_stream_id :: u64
  sl_generic :: rcp_regmap_ep_generic_cfg_t
  sl_queue :: rcp_server_endpoint_t
  sl_handler :: "nat option"
  sl_multi_handler :: "nat option"
  sl_user_data :: nat
  sl_deferred_response :: rcp_bytes_t
  sl_req_crc_enable :: bool
  sl_rx_enforce_e2e :: bool

record rcp_mock_server_t =
  ms_state :: rcp_lifecycle_state_t
  ms_regmap :: rcp_regmap_general_t
  ms_endpoints :: "rcp_mock_endpoint_slot_t list"
  ms_endpoint_count :: nat
  ms_hw_pin_map :: "rcp_regmap_hw_pin_map_entry_t list"
  ms_request_stream_cfg :: "rcp_regmap_request_stream_cfg_t list"
  ms_seq_tracker :: "rcp_e2e_seq_tracker_t list"
  ms_stream_status :: "rcp_e2e_stream_status_t list"
  ms_frag_reasm :: "rcp_fragment_reassembler_t list"
  ms_frag_first_header :: "bytes list"
  ms_gptp_trigger_state :: rcp_server_gptp_trigger_state_t
  ms_response_queue_cfg :: "rcp_regmap_response_queue_cfg_t list"
  ms_response_queue_seeded :: "bool list"
  ms_response_queue_last_transmit_us :: "u64 list"
  ms_ep_id_map :: "rcp_regmap_ep_id_map_entry_t list"
  ms_network_interface_cfg :: rcp_regmap_optional_subsystem_cfg_t
  ms_physical_layer_cfg :: rcp_regmap_optional_subsystem_cfg_t
  ms_time_synch_cfg :: rcp_regmap_optional_subsystem_cfg_t
  ms_security_cfg :: rcp_regmap_optional_subsystem_cfg_t
  ms_svr_ep_cfg :: rcp_regmap_svr_ep_cfg_t
  ms_discovery_claim :: rcp_discovery_claim_t
  ms_sequencers :: rcp_sequencer_table_t
  ms_watchdog :: "rcp_watchdog_keeper_t option"
  ms_stream_fault_tracker :: "rcp_e2e_stream_fault_tracker_t option"
  ms_tscf_policy :: rcp_avtp_tscf_fallback_t
  ms_calls :: "mock_call list"

text \<open>What \<^verbatim>\<open>memset\<close> leaves of a slot.\<close>

definition zero_endpoint_slot :: rcp_mock_endpoint_slot_t where
  "zero_endpoint_slot =
     \<lparr>sl_in_use = False, sl_byte_bus_id = 0, sl_stream_scoped = False, sl_stream_id = 0,
      sl_generic = rcp_regmap_ep_generic_cfg_init, sl_queue = rcp_server_endpoint_init False,
      sl_handler = None, sl_multi_handler = None, sl_user_data = 0, sl_deferred_response = None,
      sl_req_crc_enable = False, sl_rx_enforce_e2e = False\<rparr>"

definition zero_optional_cfg :: rcp_regmap_optional_subsystem_cfg_t where
  "zero_optional_cfg =
     \<lparr>oc_data = replicate RCP_REGMAP_OPTIONAL_SUBSYSTEM_CFG_MAX_OCTETS 0, oc_len = 0\<rparr>"

section \<open>Construction\<close>

definition rcp_mock_server_set_discovery_timeout_us :: "rcp_mock_server_t \<Rightarrow> u16 \<Rightarrow> rcp_mock_server_t" where
  "rcp_mock_server_set_discovery_timeout_us srv timeout_us =
     srv\<lparr>ms_svr_ep_cfg := (ms_svr_ep_cfg srv)\<lparr>svr_discovery_timeout := timeout_us\<rparr>,
         ms_discovery_claim := (ms_discovery_claim srv)\<lparr>claim_timeout_ms := ucast timeout_us div 1000\<rparr>\<rparr>"

definition rcp_mock_server_new :: "bool \<Rightarrow> rcp_mock_server_t option" where
  "rcp_mock_server_new mem =
     (if \<not> mem then None
      else Some (rcp_mock_server_set_discovery_timeout_us
        \<lparr>ms_state = RCP_LIFECYCLE_HW_UNCONFIGURED, ms_regmap = rcp_regmap_general_init,
         ms_endpoints = replicate RCP_MOCK_MAX_ENDPOINTS zero_endpoint_slot, ms_endpoint_count = 0,
         ms_hw_pin_map = [], ms_request_stream_cfg = [],
         ms_seq_tracker = replicate RCP_REGMAP_REQUEST_STREAM_CFG_MAX_ENTRIES rcp_e2e_seq_tracker_init,
         ms_stream_status = replicate RCP_REGMAP_REQUEST_STREAM_CFG_MAX_ENTRIES rcp_e2e_stream_status_init,
         ms_frag_reasm = replicate RCP_REGMAP_REQUEST_STREAM_CFG_MAX_ENTRIES
           (rcp_fragment_reassembler_init RCP_MOCK_FRAG_REASM_DEFAULT_MAX_TOTAL_LEN),
         ms_frag_first_header = replicate RCP_REGMAP_REQUEST_STREAM_CFG_MAX_ENTRIES [],
         ms_gptp_trigger_state = rcp_server_gptp_trigger_state_init,
         ms_response_queue_cfg = [],
         ms_response_queue_seeded = replicate RCP_REGMAP_RESPONSE_QUEUE_CFG_MAX_ENTRIES False,
         ms_response_queue_last_transmit_us = replicate RCP_REGMAP_RESPONSE_QUEUE_CFG_MAX_ENTRIES 0,
         ms_ep_id_map = [rcp_regmap_ep_id_map_row_init_default
           \<lparr>em_ep_id = 0, em_byte_bus_id = 0, em_request_stream_index = 0, em_crc_required = False\<rparr>],
         ms_network_interface_cfg = zero_optional_cfg, ms_physical_layer_cfg = zero_optional_cfg,
         ms_time_synch_cfg = zero_optional_cfg, ms_security_cfg = zero_optional_cfg,
         ms_svr_ep_cfg = rcp_regmap_svr_ep_cfg_init, ms_discovery_claim = rcp_discovery_claim_init 0,
         ms_sequencers = empty_table, ms_watchdog = None, ms_stream_fault_tracker = None,
         ms_tscf_policy = RCP_AVTP_TSCF_FALLBACK_DROP, ms_calls = []\<rparr>
        (svr_discovery_timeout rcp_regmap_svr_ep_cfg_init)))"

section \<open>Endpoint lookup\<close>

definition find_slot :: "rcp_mock_server_t \<Rightarrow> rcp_byte_bus_id_t \<Rightarrow> nat option" where
  "find_slot srv byte_bus_id =
     find_index (\<lambda>s. sl_in_use s \<and> sl_byte_bus_id s = byte_bus_id) (ms_endpoints srv)"

definition find_slot_on_stream :: "rcp_mock_server_t \<Rightarrow> u64 \<Rightarrow> rcp_byte_bus_id_t \<Rightarrow> nat option" where
  "find_slot_on_stream srv stream_id byte_bus_id =
     find_index (\<lambda>s. sl_in_use s \<and> sl_byte_bus_id s = byte_bus_id \<and>
                    (\<not> sl_stream_scoped s \<or> sl_stream_id s = stream_id)) (ms_endpoints srv)"

definition upd_slot ::
    "rcp_mock_server_t \<Rightarrow> nat \<Rightarrow> (rcp_mock_endpoint_slot_t \<Rightarrow> rcp_mock_endpoint_slot_t) \<Rightarrow> rcp_mock_server_t" where
  "upd_slot srv i f = srv\<lparr>ms_endpoints := (ms_endpoints srv)[i := f (ms_endpoints srv ! i)]\<rparr>"

definition slot_queue :: "rcp_mock_server_t \<Rightarrow> nat \<Rightarrow> rcp_server_endpoint_t" where
  "slot_queue srv i = sl_queue (ms_endpoints srv ! i)"

definition put_queue :: "rcp_mock_server_t \<Rightarrow> nat \<Rightarrow> rcp_server_endpoint_t \<Rightarrow> rcp_mock_server_t" where
  "put_queue srv i q = upd_slot srv i (\<lambda>s. s\<lparr>sl_queue := q\<rparr>)"

section \<open>The endpoint table\<close>

text \<open>The registers that count the endpoints.\<close>

definition set_endpoint_count :: "rcp_mock_server_t \<Rightarrow> nat \<Rightarrow> rcp_mock_server_t" where
  "set_endpoint_count srv n =
     srv\<lparr>ms_endpoint_count := n,
         ms_regmap := (ms_regmap srv)\<lparr>rm_svr_ep_count := of_nat n,
                                     rm_svr_ep_generic_cfg_capacity := of_nat (n * 12)\<rparr>\<rparr>"

definition new_endpoint_slot ::
    "rcp_byte_bus_id_t \<Rightarrow> byte \<Rightarrow> bool \<Rightarrow> nat option \<Rightarrow> nat \<Rightarrow> rcp_mock_endpoint_slot_t" where
  "new_endpoint_slot byte_bus_id ep_type ep_en handler user_data =
     zero_endpoint_slot\<lparr>sl_in_use := True, sl_byte_bus_id := byte_bus_id,
       sl_generic := rcp_regmap_ep_generic_cfg_init\<lparr>gc_ep_type := ep_type, gc_ep_used := True\<rparr>,
       sl_queue := rcp_server_endpoint_init ep_en, sl_handler := handler, sl_user_data := user_data\<rparr>"

definition claim_endpoint_slot ::
    "rcp_mock_server_t \<Rightarrow> rcp_mock_endpoint_slot_t \<Rightarrow> rcp_mock_errc_t \<times> rcp_mock_server_t" where
  "claim_endpoint_slot srv slot =
     (if ms_endpoint_count srv \<ge> RCP_MOCK_MAX_ENDPOINTS then (RCP_MOCK_ERR_CAPACITY, srv)
      else
        case find_index (\<lambda>s. \<not> sl_in_use s) (ms_endpoints srv) of
          None \<Rightarrow> (RCP_MOCK_ERR_CAPACITY, srv)
        | Some i \<Rightarrow>
            (RCP_MOCK_OK, set_endpoint_count (upd_slot srv i (\<lambda>s. slot)) (ms_endpoint_count srv + 1)))"

definition rcp_mock_server_add_endpoint ::
    "rcp_mock_server_t \<Rightarrow> rcp_byte_bus_id_t \<Rightarrow> byte \<Rightarrow> bool \<Rightarrow> nat option \<Rightarrow> nat \<Rightarrow>
     rcp_mock_errc_t \<times> rcp_mock_server_t" where
  "rcp_mock_server_add_endpoint srv byte_bus_id ep_type ep_en handler user_data =
     (if find_slot srv byte_bus_id \<noteq> None then (RCP_MOCK_ERR_DUPLICATE_BUS_ID, srv)
      else claim_endpoint_slot srv (new_endpoint_slot byte_bus_id ep_type ep_en handler user_data))"

definition rcp_mock_server_add_endpoint_on_stream ::
    "rcp_mock_server_t \<Rightarrow> u64 \<Rightarrow> rcp_byte_bus_id_t \<Rightarrow> byte \<Rightarrow> bool \<Rightarrow> nat option \<Rightarrow> nat \<Rightarrow>
     rcp_mock_errc_t \<times> rcp_mock_server_t" where
  "rcp_mock_server_add_endpoint_on_stream srv stream_id byte_bus_id ep_type ep_en handler user_data =
     (if find_slot_on_stream srv stream_id byte_bus_id \<noteq> None then (RCP_MOCK_ERR_DUPLICATE_BUS_ID, srv)
      else claim_endpoint_slot srv
        ((new_endpoint_slot byte_bus_id ep_type ep_en handler user_data)
           \<lparr>sl_stream_scoped := True, sl_stream_id := stream_id\<rparr>))"

definition rcp_mock_server_add_endpoint_multi_response ::
    "rcp_mock_server_t \<Rightarrow> rcp_byte_bus_id_t \<Rightarrow> byte \<Rightarrow> bool \<Rightarrow> nat \<Rightarrow> nat \<Rightarrow>
     rcp_mock_errc_t \<times> rcp_mock_server_t" where
  "rcp_mock_server_add_endpoint_multi_response srv byte_bus_id ep_type ep_en handler user_data =
     (let (rc, srv) = rcp_mock_server_add_endpoint srv byte_bus_id ep_type ep_en None 0 in
      if rc \<noteq> RCP_MOCK_OK then (rc, srv)
      else
        case find_slot srv byte_bus_id of
          None \<Rightarrow> (RCP_MOCK_ERR_CAPACITY, srv)
        | Some i \<Rightarrow>
            (RCP_MOCK_OK, upd_slot srv i (\<lambda>s. s\<lparr>sl_multi_handler := Some handler, sl_user_data := user_data\<rparr>)))"

definition release_endpoint_slot :: "rcp_mock_server_t \<Rightarrow> nat option \<Rightarrow> bool \<times> rcp_mock_server_t" where
  "release_endpoint_slot srv hit =
     (case hit of
        None \<Rightarrow> (False, srv)
      | Some i \<Rightarrow>
          (True, set_endpoint_count (upd_slot srv i (\<lambda>s. zero_endpoint_slot)) (size_sub (ms_endpoint_count srv) 1)))"

definition rcp_mock_server_remove_endpoint ::
    "rcp_mock_server_t \<Rightarrow> rcp_byte_bus_id_t \<Rightarrow> bool \<times> rcp_mock_server_t" where
  "rcp_mock_server_remove_endpoint srv byte_bus_id = release_endpoint_slot srv (find_slot srv byte_bus_id)"

definition rcp_mock_server_remove_endpoint_on_stream ::
    "rcp_mock_server_t \<Rightarrow> u64 \<Rightarrow> rcp_byte_bus_id_t \<Rightarrow> bool \<times> rcp_mock_server_t" where
  "rcp_mock_server_remove_endpoint_on_stream srv stream_id byte_bus_id =
     release_endpoint_slot srv (find_slot_on_stream srv stream_id byte_bus_id)"

text \<open>The rows of the generic configuration are those of the slots in use, in order; the caller's array
  takes the first \<open>out_capacity\<close> of them.\<close>

definition rcp_mock_server_ep_generic_cfg_view ::
    "rcp_mock_server_t \<Rightarrow> nat \<Rightarrow> nat \<times> rcp_regmap_ep_generic_cfg_t list" where
  "rcp_mock_server_ep_generic_cfg_view srv out_capacity =
     (ms_endpoint_count srv, take out_capacity (map sl_generic (filter sl_in_use (ms_endpoints srv))))"

fun apply_generic_rows ::
    "rcp_mock_endpoint_slot_t list \<Rightarrow> rcp_regmap_ep_generic_cfg_t list \<Rightarrow> rcp_mock_endpoint_slot_t list" where
  "apply_generic_rows [] rows = []"
| "apply_generic_rows (s # ss) [] = s # ss"
| "apply_generic_rows (s # ss) (e # es) =
     (if \<not> sl_in_use s then s # apply_generic_rows ss (e # es)
      else s\<lparr>sl_generic := e\<rparr> # apply_generic_rows ss es)"

definition rcp_mock_server_apply_ep_generic_cfg ::
    "rcp_mock_server_t \<Rightarrow> rcp_regmap_ep_generic_cfg_t list \<Rightarrow> bool \<times> rcp_mock_server_t" where
  "rcp_mock_server_apply_ep_generic_cfg srv rows =
     (if length rows \<noteq> ms_endpoint_count srv then (False, srv)
      else (True, srv\<lparr>ms_endpoints := apply_generic_rows (ms_endpoints srv) rows\<rparr>))"

text \<open>The operations on one endpoint: the flag says whether the endpoint exists.\<close>

definition on_slot ::
    "rcp_mock_server_t \<Rightarrow> nat option \<Rightarrow> (rcp_mock_endpoint_slot_t \<Rightarrow> rcp_mock_endpoint_slot_t) \<Rightarrow>
     bool \<times> rcp_mock_server_t" where
  "on_slot srv hit f = (case hit of None \<Rightarrow> (False, srv) | Some i \<Rightarrow> (True, upd_slot srv i f))"

definition rcp_mock_server_set_endpoint_enable ::
    "rcp_mock_server_t \<Rightarrow> rcp_byte_bus_id_t \<Rightarrow> bool \<Rightarrow> bool \<times> rcp_mock_server_t" where
  "rcp_mock_server_set_endpoint_enable srv byte_bus_id enable =
     on_slot srv (find_slot srv byte_bus_id)
       (\<lambda>s. s\<lparr>sl_queue := rcp_server_endpoint_set_enable (sl_queue s) enable\<rparr>)"

definition rcp_mock_server_set_endpoint_enable_on_stream ::
    "rcp_mock_server_t \<Rightarrow> u64 \<Rightarrow> rcp_byte_bus_id_t \<Rightarrow> bool \<Rightarrow> bool \<times> rcp_mock_server_t" where
  "rcp_mock_server_set_endpoint_enable_on_stream srv stream_id byte_bus_id enable =
     on_slot srv (find_slot_on_stream srv stream_id byte_bus_id)
       (\<lambda>s. s\<lparr>sl_queue := rcp_server_endpoint_set_enable (sl_queue s) enable\<rparr>)"

definition rcp_mock_server_set_endpoint_req_crc_enable ::
    "rcp_mock_server_t \<Rightarrow> rcp_byte_bus_id_t \<Rightarrow> bool \<Rightarrow> bool \<times> rcp_mock_server_t" where
  "rcp_mock_server_set_endpoint_req_crc_enable srv byte_bus_id enable =
     on_slot srv (find_slot srv byte_bus_id) (\<lambda>s. s\<lparr>sl_req_crc_enable := enable\<rparr>)"

definition rcp_mock_server_set_endpoint_req_crc_enable_on_stream ::
    "rcp_mock_server_t \<Rightarrow> u64 \<Rightarrow> rcp_byte_bus_id_t \<Rightarrow> bool \<Rightarrow> bool \<times> rcp_mock_server_t" where
  "rcp_mock_server_set_endpoint_req_crc_enable_on_stream srv stream_id byte_bus_id enable =
     on_slot srv (find_slot_on_stream srv stream_id byte_bus_id) (\<lambda>s. s\<lparr>sl_req_crc_enable := enable\<rparr>)"

definition rcp_mock_server_set_endpoint_rx_enforce_e2e ::
    "rcp_mock_server_t \<Rightarrow> rcp_byte_bus_id_t \<Rightarrow> bool \<Rightarrow> bool \<times> rcp_mock_server_t" where
  "rcp_mock_server_set_endpoint_rx_enforce_e2e srv byte_bus_id enable =
     on_slot srv (find_slot srv byte_bus_id) (\<lambda>s. s\<lparr>sl_rx_enforce_e2e := enable\<rparr>)"

definition rcp_mock_server_set_endpoint_rx_enforce_e2e_on_stream ::
    "rcp_mock_server_t \<Rightarrow> u64 \<Rightarrow> rcp_byte_bus_id_t \<Rightarrow> bool \<Rightarrow> bool \<times> rcp_mock_server_t" where
  "rcp_mock_server_set_endpoint_rx_enforce_e2e_on_stream srv stream_id byte_bus_id enable =
     on_slot srv (find_slot_on_stream srv stream_id byte_bus_id) (\<lambda>s. s\<lparr>sl_rx_enforce_e2e := enable\<rparr>)"

definition rcp_mock_server_endpoint_queue_len :: "rcp_mock_server_t \<Rightarrow> rcp_byte_bus_id_t \<Rightarrow> nat" where
  "rcp_mock_server_endpoint_queue_len srv byte_bus_id =
     (case find_slot srv byte_bus_id of None \<Rightarrow> 0 | Some i \<Rightarrow> rcp_server_endpoint_queue_len (slot_queue srv i))"

definition rcp_mock_server_pending_count :: "rcp_mock_server_t \<Rightarrow> rcp_byte_bus_id_t \<Rightarrow> nat" where
  "rcp_mock_server_pending_count srv byte_bus_id =
     (case find_slot srv byte_bus_id of None \<Rightarrow> 0 | Some i \<Rightarrow> rcp_server_endpoint_pending_count (slot_queue srv i))"

definition rcp_mock_server_pending_count_on_stream ::
    "rcp_mock_server_t \<Rightarrow> u64 \<Rightarrow> rcp_byte_bus_id_t \<Rightarrow> nat" where
  "rcp_mock_server_pending_count_on_stream srv stream_id byte_bus_id =
     (case find_slot_on_stream srv stream_id byte_bus_id of
        None \<Rightarrow> 0 | Some i \<Rightarrow> rcp_server_endpoint_pending_count (slot_queue srv i))"

definition rcp_mock_server_stash_deferred_response ::
    "rcp_mock_server_t \<Rightarrow> rcp_byte_bus_id_t \<Rightarrow> rcp_bytes_t \<Rightarrow> bool \<times> rcp_mock_server_t" where
  "rcp_mock_server_stash_deferred_response srv byte_bus_id response =
     on_slot srv (find_slot srv byte_bus_id) (\<lambda>s. s\<lparr>sl_deferred_response := response\<rparr>)"

definition rcp_mock_server_stash_deferred_response_on_stream ::
    "rcp_mock_server_t \<Rightarrow> u64 \<Rightarrow> rcp_byte_bus_id_t \<Rightarrow> rcp_bytes_t \<Rightarrow> bool \<times> rcp_mock_server_t" where
  "rcp_mock_server_stash_deferred_response_on_stream srv stream_id byte_bus_id response =
     on_slot srv (find_slot_on_stream srv stream_id byte_bus_id) (\<lambda>s. s\<lparr>sl_deferred_response := response\<rparr>)"

definition take_deferred :: "rcp_mock_server_t \<Rightarrow> nat option \<Rightarrow> bool \<times> rcp_bytes_t \<times> rcp_mock_server_t" where
  "take_deferred srv hit =
     (case hit of
        None \<Rightarrow> (False, None, srv)
      | Some i \<Rightarrow>
          let response = sl_deferred_response (ms_endpoints srv ! i) in
          if response = None then (False, None, srv)
          else (True, response, upd_slot srv i (\<lambda>s. s\<lparr>sl_deferred_response := None\<rparr>)))"

definition rcp_mock_server_take_deferred_response ::
    "rcp_mock_server_t \<Rightarrow> rcp_byte_bus_id_t \<Rightarrow> bool \<times> rcp_bytes_t \<times> rcp_mock_server_t" where
  "rcp_mock_server_take_deferred_response srv byte_bus_id = take_deferred srv (find_slot srv byte_bus_id)"

definition rcp_mock_server_take_deferred_response_on_stream ::
    "rcp_mock_server_t \<Rightarrow> u64 \<Rightarrow> rcp_byte_bus_id_t \<Rightarrow> bool \<times> rcp_bytes_t \<times> rcp_mock_server_t" where
  "rcp_mock_server_take_deferred_response_on_stream srv stream_id byte_bus_id =
     take_deferred srv (find_slot_on_stream srv stream_id byte_bus_id)"

section \<open>Configuration\<close>

fun lifecycle_code :: "rcp_lifecycle_state_t \<Rightarrow> byte" where
  "lifecycle_code RCP_LIFECYCLE_HW_UNCONFIGURED = 0"
| "lifecycle_code RCP_LIFECYCLE_HW_CONFIGURED = 1"
| "lifecycle_code RCP_LIFECYCLE_RCP_CONFIGURED = 2"

definition rcp_mock_server_transition ::
    "rcp_mock_server_t \<Rightarrow> rcp_lifecycle_state_t \<Rightarrow> rcp_lifecycle_plausibility_snapshot_t option \<Rightarrow>
     rcp_lifecycle_writer_ctx_t \<Rightarrow> bool \<Rightarrow> rcp_lifecycle_errc_t \<times> rcp_mock_server_t" where
  "rcp_mock_server_transition srv target snap writer all_other_eps_idle =
     (let (rc, st) = rcp_lifecycle_transition (ms_state srv) target snap writer all_other_eps_idle in
      (rc, srv\<lparr>ms_state := st, ms_regmap := (ms_regmap srv)\<lparr>rm_svr_lifecycle_state := lifecycle_code st\<rparr>\<rparr>))"

definition rcp_mock_server_pwrmode_resume ::
    "rcp_mock_server_t \<Rightarrow> rcp_pwrmode_handshake_t \<Rightarrow> bool \<times> rcp_pwrmode_handshake_t \<times> rcp_mock_server_t" where
  "rcp_mock_server_pwrmode_resume srv hs =
     (let (ok, hs) = rcp_pwrmode_handshake_resume_queues hs in
      if \<not> ok then (False, hs, srv)
      else (True, hs, srv\<lparr>ms_endpoints :=
        map (\<lambda>s. if sl_in_use s then s\<lparr>sl_queue := rcp_server_endpoint_set_enable (sl_queue s) True\<rparr> else s)
          (ms_endpoints srv)\<rparr>))"

definition rcp_mock_server_set_hw_pin_map ::
    "rcp_mock_server_t \<Rightarrow> rcp_regmap_hw_pin_map_entry_t list \<Rightarrow> bool \<times> rcp_mock_server_t" where
  "rcp_mock_server_set_hw_pin_map srv rows =
     (if length rows > RCP_REGMAP_HW_PIN_MAP_MAX_ENTRIES then (False, srv)
      else (True, srv\<lparr>ms_hw_pin_map := rows,
                      ms_regmap := (ms_regmap srv)\<lparr>rm_svr_io_pin_count := of_nat (length rows)\<rparr>\<rparr>))"

definition rcp_mock_server_set_request_stream_cfg ::
    "rcp_mock_server_t \<Rightarrow> rcp_regmap_request_stream_cfg_t list \<Rightarrow> bool \<times> rcp_mock_server_t" where
  "rcp_mock_server_set_request_stream_cfg srv rows =
     (if length rows > RCP_REGMAP_REQUEST_STREAM_CFG_MAX_ENTRIES then (False, srv)
      else (True, srv\<lparr>ms_request_stream_cfg := rows,
                      ms_regmap := (ms_regmap srv)
                        \<lparr>rm_svr_request_stream_cfg_capacity := of_nat (length rows)\<rparr>\<rparr>))"

definition rcp_mock_server_set_response_queue_cfg ::
    "rcp_mock_server_t \<Rightarrow> rcp_regmap_response_queue_cfg_t list \<Rightarrow> bool \<times> rcp_mock_server_t" where
  "rcp_mock_server_set_response_queue_cfg srv rows =
     (if length rows > RCP_REGMAP_RESPONSE_QUEUE_CFG_MAX_ENTRIES then (False, srv)
      else (True, srv\<lparr>ms_response_queue_cfg := rows,
                      ms_regmap := (ms_regmap srv)
                        \<lparr>rm_svr_response_stream_cfg_capacity := of_nat (length rows)\<rparr>\<rparr>))"

definition rcp_mock_server_set_ep_id_map ::
    "rcp_mock_server_t \<Rightarrow> rcp_regmap_ep_id_map_entry_t list \<Rightarrow> bool \<times> rcp_mock_server_t" where
  "rcp_mock_server_set_ep_id_map srv rows =
     (if length rows > RCP_REGMAP_EP_ID_MAP_MAX_ENTRIES then (False, srv)
      else (True, srv\<lparr>ms_ep_id_map := rows,
                      ms_regmap := (ms_regmap srv)
                        \<lparr>rm_svr_ep_bytebus_id_map_capacity := of_nat (length rows)\<rparr>\<rparr>))"

text \<open>The section and its capacity register.\<close>

definition optional_subsystem_cfg_set ::
    "rcp_regmap_optional_subsystem_cfg_t \<Rightarrow> u16 \<Rightarrow> bytes \<Rightarrow>
     bool \<times> rcp_regmap_optional_subsystem_cfg_t \<times> u16" where
  "optional_subsystem_cfg_set cfg capacity data =
     (if length data > RCP_REGMAP_OPTIONAL_SUBSYSTEM_CFG_MAX_OCTETS then (False, cfg, capacity)
      else (True, \<lparr>oc_data = data @ drop (length data) (oc_data cfg), oc_len = length data\<rparr>,
            of_nat (length data)))"

definition rcp_mock_server_set_network_interface_cfg ::
    "rcp_mock_server_t \<Rightarrow> bytes \<Rightarrow> bool \<times> rcp_mock_server_t" where
  "rcp_mock_server_set_network_interface_cfg srv data =
     (let (ok, cfg, cap) = optional_subsystem_cfg_set (ms_network_interface_cfg srv)
            (rm_svr_network_interface_cfg_capacity (ms_regmap srv)) data
      in (ok, srv\<lparr>ms_network_interface_cfg := cfg,
                  ms_regmap := (ms_regmap srv)\<lparr>rm_svr_network_interface_cfg_capacity := cap\<rparr>\<rparr>))"

definition rcp_mock_server_set_physical_layer_cfg ::
    "rcp_mock_server_t \<Rightarrow> bytes \<Rightarrow> bool \<times> rcp_mock_server_t" where
  "rcp_mock_server_set_physical_layer_cfg srv data =
     (let (ok, cfg, cap) = optional_subsystem_cfg_set (ms_physical_layer_cfg srv)
            (rm_svr_physical_layer_cfg_capacity (ms_regmap srv)) data
      in (ok, srv\<lparr>ms_physical_layer_cfg := cfg,
                  ms_regmap := (ms_regmap srv)\<lparr>rm_svr_physical_layer_cfg_capacity := cap\<rparr>\<rparr>))"

definition rcp_mock_server_set_time_synch_cfg ::
    "rcp_mock_server_t \<Rightarrow> bytes \<Rightarrow> bool \<times> rcp_mock_server_t" where
  "rcp_mock_server_set_time_synch_cfg srv data =
     (let (ok, cfg, cap) = optional_subsystem_cfg_set (ms_time_synch_cfg srv)
            (rm_svr_time_synch_cfg_capacity (ms_regmap srv)) data
      in (ok, srv\<lparr>ms_time_synch_cfg := cfg,
                  ms_regmap := (ms_regmap srv)\<lparr>rm_svr_time_synch_cfg_capacity := cap\<rparr>\<rparr>))"

definition rcp_mock_server_set_security_cfg ::
    "rcp_mock_server_t \<Rightarrow> bytes \<Rightarrow> bool \<times> rcp_mock_server_t" where
  "rcp_mock_server_set_security_cfg srv data =
     (let (ok, cfg, cap) = optional_subsystem_cfg_set (ms_security_cfg srv)
            (rm_svr_security_cfg_capacity (ms_regmap srv)) data
      in (ok, srv\<lparr>ms_security_cfg := cfg,
                  ms_regmap := (ms_regmap srv)\<lparr>rm_svr_security_cfg_capacity := cap\<rparr>\<rparr>))"

definition rcp_mock_server_set_tscf_unsupported_time_sync_policy ::
    "rcp_mock_server_t \<Rightarrow> rcp_avtp_tscf_fallback_t \<Rightarrow> rcp_mock_server_t" where
  "rcp_mock_server_set_tscf_unsupported_time_sync_policy srv policy = srv\<lparr>ms_tscf_policy := policy\<rparr>"

definition rcp_mock_server_set_watchdog_keeper ::
    "rcp_mock_server_t \<Rightarrow> rcp_watchdog_keeper_t option \<Rightarrow> rcp_mock_server_t" where
  "rcp_mock_server_set_watchdog_keeper srv keeper = srv\<lparr>ms_watchdog := keeper\<rparr>"

definition rcp_mock_server_set_stream_fault_tracker ::
    "rcp_mock_server_t \<Rightarrow> rcp_e2e_stream_fault_tracker_t option \<Rightarrow> rcp_mock_server_t" where
  "rcp_mock_server_set_stream_fault_tracker srv tracker = srv\<lparr>ms_stream_fault_tracker := tracker\<rparr>"

definition rcp_mock_server_set_sequencer_count ::
    "bool \<Rightarrow> bool \<Rightarrow> rcp_mock_server_t \<Rightarrow> u16 \<Rightarrow> bool \<times> rcp_mock_server_t" where
  "rcp_mock_server_set_sequencer_count mem_state mem_owner srv n =
     (let table = rcp_sequencer_table_new mem_state mem_owner n;
          actual = seq_count table
      in (n = 0 \<or> seq_state table \<noteq> [],
          srv\<lparr>ms_sequencers := table,
              ms_regmap := (ms_regmap srv)
                \<lparr>rm_svr_sequencers_max := if actual > 0xFF then 0xFF else ucast actual\<rparr>\<rparr>))"

section \<open>Streams and their safe state\<close>

text \<open>The row of a stream, from 1; 0 for a stream that is not configured.\<close>

definition stream_index_of :: "rcp_mock_server_t \<Rightarrow> u64 \<Rightarrow> byte" where
  "stream_index_of srv stream_id =
     rcp_regmap_request_stream_cfg_resolve_index (Some (ms_request_stream_cfg srv)) stream_id"

definition upd_status ::
    "rcp_mock_server_t \<Rightarrow> byte \<Rightarrow> (rcp_e2e_stream_status_t \<Rightarrow> rcp_e2e_stream_status_t) \<Rightarrow> rcp_mock_server_t" where
  "upd_status srv idx f =
     srv\<lparr>ms_stream_status := (ms_stream_status srv)[unat idx - 1 := f (ms_stream_status srv ! (unat idx - 1))]\<rparr>"

definition rcp_mock_server_watchdog_purge :: "rcp_mock_server_t \<Rightarrow> rcp_byte_bus_id_t \<Rightarrow> nat \<times> rcp_mock_server_t" where
  "rcp_mock_server_watchdog_purge srv byte_bus_id =
     (case find_slot srv byte_bus_id of
        None \<Rightarrow> (0, srv)
      | Some i \<Rightarrow> let (n, q) = rcp_server_endpoint_watchdog_purge (slot_queue srv i) in (n, put_queue srv i q))"

definition rcp_mock_server_watchdog_purge_on_stream ::
    "rcp_mock_server_t \<Rightarrow> u64 \<Rightarrow> rcp_byte_bus_id_t \<Rightarrow> nat \<times> rcp_mock_server_t" where
  "rcp_mock_server_watchdog_purge_on_stream srv stream_id byte_bus_id =
     (case find_slot_on_stream srv stream_id byte_bus_id of
        None \<Rightarrow> (0, srv)
      | Some i \<Rightarrow> let (n, q) = rcp_server_endpoint_watchdog_purge (slot_queue srv i) in (n, put_queue srv i q))"

text \<open>The loop over the endpoints bound to the stream; \<open>resolved\<close> is the stream id when the row exists.\<close>

fun purge_bound :: "u64 option \<Rightarrow> rcp_mock_server_t \<Rightarrow> rcp_byte_bus_id_t list \<Rightarrow> nat \<times> rcp_mock_server_t" where
  "purge_bound resolved srv [] = (0, srv)"
| "purge_bound resolved srv (b # bs) =
     (let (n, srv) = (case resolved of
                        Some sid \<Rightarrow> rcp_mock_server_watchdog_purge_on_stream srv sid b
                      | None \<Rightarrow> rcp_mock_server_watchdog_purge srv b);
          (m, srv) = purge_bound resolved srv bs
      in (n + m, srv))"

definition rcp_mock_server_broadcast_safe_state ::
    "rcp_mock_server_t \<Rightarrow> byte \<Rightarrow> nat \<times> rcp_mock_server_t" where
  "rcp_mock_server_broadcast_safe_state srv stream_nr =
     (if stream_nr = 0 then (0, srv)
      else
        let resolved = (if unat stream_nr \<le> length (ms_request_stream_cfg srv)
                        then Some (rsc_rx_stream_id (ms_request_stream_cfg srv ! (unat stream_nr - 1)))
                        else None);
            (total_bound, bound) = rcp_regmap_ep_id_map_byte_bus_ids_for_stream (ms_ep_id_map srv)
              stream_nr RCP_MOCK_MAX_ENDPOINTS
        in purge_bound resolved srv (take (min total_bound RCP_MOCK_MAX_ENDPOINTS) bound))"

definition rcp_mock_server_stream_status_rx_blocked :: "rcp_mock_server_t \<Rightarrow> u64 \<Rightarrow> bool" where
  "rcp_mock_server_stream_status_rx_blocked srv stream_id =
     (let idx = stream_index_of srv stream_id in
      if idx = 0 then False else rcp_e2e_stream_status_rx_blocked (ms_stream_status srv ! (unat idx - 1)))"

definition rcp_mock_server_check_watchdog ::
    "rcp_mock_server_t \<Rightarrow> byte \<Rightarrow> u64 \<Rightarrow> bool \<times> rcp_e2e_wd_result_t \<times> rcp_mock_server_t" where
  "rcp_mock_server_check_watchdog srv stream_nr elapsed =
     (if stream_nr = 0 \<or> unat stream_nr > length (ms_request_stream_cfg srv)
      then (False, no_overflow, srv)
      else
        let cfg = ms_request_stream_cfg srv ! (unat stream_nr - 1);
            result = rcp_e2e_wd_evaluate (rsc_rx_wd_enable cfg) (rsc_rx_wd_timeout_ms cfg)
              (rsc_rx_wd_safestate_enable cfg) (rsc_rx_wd_info_enable cfg) elapsed;
            srv = upd_status srv stream_nr (\<lambda>s. rcp_e2e_stream_status_note_wd s result)
        in (True, result, if wd_enter_safe_state result
                          then snd (rcp_mock_server_broadcast_safe_state srv stream_nr) else srv))"

definition rcp_mock_server_fragment_reassembler ::
    "rcp_mock_server_t \<Rightarrow> u64 \<Rightarrow> rcp_fragment_reassembler_t option" where
  "rcp_mock_server_fragment_reassembler srv stream_id =
     (let idx = stream_index_of srv stream_id in
      if idx = 0 then None else Some (ms_frag_reasm srv ! (unat idx - 1)))"

section \<open>Response queues\<close>

definition rcp_mock_server_check_response_queue_heartbeat ::
    "bool \<Rightarrow> rcp_mock_server_t \<Rightarrow> byte \<Rightarrow> bytes \<Rightarrow> u64 \<Rightarrow> bool \<times> rcp_bytes_t \<times> rcp_mock_server_t" where
  "rcp_mock_server_check_response_queue_heartbeat mem srv response_stream_nr mac_addr now_us =
     (if response_stream_nr = 0 \<or> unat response_stream_nr > length (ms_response_queue_cfg srv)
      then (False, None, srv)
      else
        let idx = unat response_stream_nr - 1;
            cfg = ms_response_queue_cfg srv ! idx
        in if \<not> ms_response_queue_seeded srv ! idx then
             (False, None, srv\<lparr>ms_response_queue_seeded := (ms_response_queue_seeded srv)[idx := True],
                               ms_response_queue_last_transmit_us :=
                                 (ms_response_queue_last_transmit_us srv)[idx := now_us]\<rparr>)
           else if now_us < ms_response_queue_last_transmit_us srv ! idx then (False, None, srv)
           else if \<not> rcp_respqueue_should_flush_by_time (now_us - ms_response_queue_last_transmit_us srv ! idx)
                        (ucast (rqc_flush_time_us cfg))
           then (False, None, srv)
           else
             let heartbeat = rcp_avtp_encode_ntscf mem
                   \<lparr>n_sv = 1, n_version = 0, ntscf_data_length = 0, n_sequence_num = 0,
                    n_stream_id = rcp_regmap_response_queue_stream_id cfg mac_addr\<rparr> []
             in (True, heartbeat,
                 if heartbeat \<noteq> None
                 then srv\<lparr>ms_response_queue_last_transmit_us :=
                           (ms_response_queue_last_transmit_us srv)[idx := now_us]\<rparr>
                 else srv))"

definition rcp_mock_server_wakeup_repetition_interval_us :: "rcp_mock_server_t \<Rightarrow> byte \<Rightarrow> u32 option" where
  "rcp_mock_server_wakeup_repetition_interval_us srv stream_nr =
     (if stream_nr = 0 \<or> unat stream_nr > length (ms_request_stream_cfg srv) then None
      else
        let resp = rsc_rx_resp_stream_index (ms_request_stream_cfg srv ! (unat stream_nr - 1)) in
        if resp = 0 \<or> unat resp > length (ms_response_queue_cfg srv) then None
        else Some (rqc_flush_time_us (ms_response_queue_cfg srv ! (unat resp - 1))))"

section \<open>Triggers\<close>

fun notify_endpoints ::
    "byte \<Rightarrow> byte \<Rightarrow> rcp_mock_endpoint_slot_t list \<Rightarrow> nat \<times> rcp_mock_endpoint_slot_t list" where
  "notify_endpoints source_ep signal_nr [] = (0, [])"
| "notify_endpoints source_ep signal_nr (s # ss) =
     (let (matched, ss') = notify_endpoints source_ep signal_nr ss in
      if \<not> sl_in_use s then (matched, s # ss')
      else
        let (n, q) = rcp_server_endpoint_notify_trigger (sl_queue s) source_ep signal_nr
        in (n + matched, s\<lparr>sl_queue := q\<rparr> # ss'))"

definition rcp_mock_server_notify_trigger ::
    "rcp_mock_server_t \<Rightarrow> byte \<Rightarrow> byte \<Rightarrow> nat \<times> rcp_mock_server_t" where
  "rcp_mock_server_notify_trigger srv source_ep signal_nr =
     (let (matched, eps) = notify_endpoints source_ep signal_nr (ms_endpoints srv)
      in (matched, srv\<lparr>ms_endpoints := eps\<rparr>))"

definition rcp_mock_server_notify_gptp_lock_state ::
    "rcp_mock_server_t \<Rightarrow> bool \<Rightarrow> byte \<Rightarrow> nat \<times> rcp_mock_server_t" where
  "rcp_mock_server_notify_gptp_lock_state srv locked source_ep =
     (let (hit, st) = rcp_server_gptp_trigger_evaluate (ms_gptp_trigger_state srv) locked;
          srv = srv\<lparr>ms_gptp_trigger_state := st\<rparr>
      in case hit of
           None \<Rightarrow> (0, srv)
         | Some signal_nr \<Rightarrow> rcp_mock_server_notify_trigger srv source_ep signal_nr)"

end
