(* ===== verification/Mock_Dispatch.thy ===== *)
theory Mock_Dispatch
  imports Mock_Server
begin

text \<open>
  \<^verbatim>\<open>src/mock.c\<close>, part 2: the way of one request through the server - lifecycle filter, endpoint
  lookup, admission, handler, suppression of responses - with and without end-to-end protection and
  fragmentation, and the execution of stored requests.

  The pairs of functions that differ only in passing on the presentation time (\<^verbatim>\<open>_tscf\<close>) share
  one definition with the presentation time as arguments; the functions themselves are its instances.
\<close>

datatype rcp_mock_dispatch_result_t =
    RCP_MOCK_DISPATCH_OK | RCP_MOCK_DISPATCH_QUEUED | RCP_MOCK_DISPATCH_DROPPED
  | RCP_MOCK_DISPATCH_ERR_UNKNOWN_BUS | RCP_MOCK_DISPATCH_PENDING | RCP_MOCK_DISPATCH_CANCELLED
  | RCP_MOCK_DISPATCH_REJECTED | RCP_MOCK_DISPATCH_CHAIN_ERROR | RCP_MOCK_DISPATCH_CHAIN_ABORTED
  | RCP_MOCK_DISPATCH_CRC_ERROR | RCP_MOCK_DISPATCH_STREAM_FAULTED | RCP_MOCK_DISPATCH_SEQ_ERROR
  | RCP_MOCK_DISPATCH_FRAGMENT_PENDING

type_synonym dispatch_out = "rcp_mock_dispatch_result_t \<times> rcp_bytes_t \<times> rcp_mock_server_t"

datatype rcp_admit_reject_shape_t =
    RCP_ADMIT_REJECT_SHAPE_ACKNOWLEDGE | RCP_ADMIT_REJECT_SHAPE_ERROR_RESPONSE

text \<open>The presentation time of the frame: \<^verbatim>\<open>tv\<close>, \<^verbatim>\<open>avtp_timestamp\<close> and
  \<^verbatim>\<open>gptp_reference_now\<close>.\<close>

type_synonym presentation = "bool \<times> u32 \<times> u64"

section \<open>Handlers and cancellation\<close>

definition run_handler ::
    "mock_handlers \<Rightarrow> rcp_mock_server_t \<Rightarrow> nat \<Rightarrow> bytes \<Rightarrow> rcp_bytes_t \<times> rcp_mock_server_t" where
  "run_handler hs srv i request =
     (let slot = ms_endpoints srv ! i in
      case sl_handler slot of
        None \<Rightarrow> (None, srv)
      | Some h \<Rightarrow>
          let call = (h, sl_user_data slot, request)
          in (run_single hs (ms_calls srv) call, srv\<lparr>ms_calls := ms_calls srv @ [call]\<rparr>))"

text \<open>The error response to a request whose header can be read.\<close>

definition error_for_request ::
    "bool \<Rightarrow> rcp_byte_bus_id_t \<Rightarrow> bytes \<Rightarrow> rcp_wire_error_t \<Rightarrow> rcp_bytes_t" where
  "error_for_request mem byte_bus_id request error =
     (if length request \<ge> 8
      then rcp_acf_build_error_response mem byte_bus_id (bm_transaction_num (rcp_acf_unpack_header request)) error
      else None)"

text \<open>The chain of the first stored request with the transaction number to cancel.\<close>

definition cancel_target_chain :: "rcp_server_endpoint_t \<Rightarrow> byte \<Rightarrow> u32 \<times> byte" where
  "cancel_target_chain q target_tn =
     (case find_index (\<lambda>s. in_use s \<and> slot_transaction_num s = target_tn) (pending q) of
        None \<Rightarrow> (0, 0)
      | Some j \<Rightarrow> (chain_group (pending q ! j), chain_position (pending q ! j)))"

definition apply_cancellation ::
    "bool \<Rightarrow> rcp_server_endpoint_t \<Rightarrow> byte \<Rightarrow> bytes \<Rightarrow> rcp_byte_bus_id_t \<Rightarrow>
     rcp_bytes_t \<times> rcp_server_endpoint_t" where
  "apply_cancellation mem q request_type request byte_bus_id =
     (if request_type = RCP_REQUEST_TYPE_CLEAR_ALL then (None, snd (rcp_server_endpoint_cancel_all q))
      else if request_type = RCP_REQUEST_TYPE_CLEAR_NON_SAFESTATE
      then (None, snd (rcp_server_endpoint_cancel_non_safestate q))
      else if request_type = RCP_REQUEST_TYPE_CLEAR_SINGLE then
        (case rcp_cancel_decode_clear_single request of
           Inl _ \<Rightarrow> (None, q)
         | Inr (bus, target_tn, tn) \<Rightarrow>
             let (grp, position) = cancel_target_chain q target_tn;
                 (result, q') = rcp_server_endpoint_cancel_single q target_tn RCP_CANCEL_LIFECYCLE_QUEUED
             in if result = RCP_CANCEL_RESULT_NOT_FOUND
                then (rcp_acf_build_error_response mem byte_bus_id tn RCP_ERROR_REQUEST_NOT_FOUND, q')
                else if result = RCP_CANCEL_RESULT_CANCELED
                then (None, snd (rcp_server_endpoint_cancel_chain_from q' grp position))
                else (None, q'))
      else (None, q))"

section \<open>Admission\<close>

definition admission_reject_response_shape :: "rcp_wire_error_t \<Rightarrow> rcp_admit_reject_shape_t" where
  "admission_reject_response_shape error =
     (if error = RCP_ERROR_UNSUPPORTED_CMD then RCP_ADMIT_REJECT_SHAPE_ERROR_RESPONSE
      else RCP_ADMIT_REJECT_SHAPE_ACKNOWLEDGE)"

definition finish_admission ::
    "mock_handlers \<Rightarrow> mock_mem \<Rightarrow> rcp_mock_server_t \<Rightarrow> nat \<Rightarrow> server_admission \<Rightarrow> bytes \<Rightarrow>
     rcp_byte_bus_id_t \<Rightarrow> dispatch_out" where
  "finish_admission hs mem srv i adm request byte_bus_id =
     (case adm_result adm of
        RCP_SERVER_ADMIT_EXECUTE_NOW \<Rightarrow>
          (let (response, srv) = run_handler hs srv i request in (RCP_MOCK_DISPATCH_OK, response, srv))
      | RCP_SERVER_ADMIT_QUEUED \<Rightarrow> (RCP_MOCK_DISPATCH_QUEUED, adm_ack adm, srv)
      | RCP_SERVER_ADMIT_PENDING \<Rightarrow> (RCP_MOCK_DISPATCH_PENDING, adm_ack adm, srv)
      | RCP_SERVER_ADMIT_CANCELLATION \<Rightarrow>
          (let (response, q) = apply_cancellation (mm_response mem) (slot_queue srv i)
                 (adm_request_type adm) request byte_bus_id
           in (RCP_MOCK_DISPATCH_CANCELLED, response, put_queue srv i q))
      | _ \<Rightarrow>
          (RCP_MOCK_DISPATCH_REJECTED,
           if adm_error adm = RCP_ERROR_NONE then None
           else if length request < 8 then None
           else
             let hdr = rcp_acf_unpack_header request in
             if admission_reject_response_shape (adm_error adm) = RCP_ADMIT_REJECT_SHAPE_ERROR_RESPONSE
             then rcp_acf_build_error_response (mm_response mem) byte_bus_id (bm_transaction_num hdr) (adm_error adm)
             else if rcp_acf_evt_requests_acknowledge (bm_evt hdr)
             then rcp_acf_build_acknowledge_rejected_response (mm_response mem) byte_bus_id
                    (bm_transaction_num hdr) (adm_error adm)
             else None, srv))"

text \<open>The consequence of a full store for the whole stream.\<close>

definition note_storage_overflow :: "rcp_mock_server_t \<Rightarrow> u64 \<Rightarrow> rcp_mock_server_t" where
  "note_storage_overflow srv stream_id =
     (let idx = stream_index_of srv stream_id in
      if idx = 0 then srv
      else
        let enter = rcp_e2e_overflow_should_enter_safe_state
              (rsc_rx_ovrflw_safestate_enable (ms_request_stream_cfg srv ! (unat idx - 1)));
            srv = upd_status srv idx (\<lambda>s. rcp_e2e_stream_status_note_overflow s enter)
        in if enter then snd (rcp_mock_server_broadcast_safe_state srv idx) else srv)"

text \<open>The request just stored is taken out of the store again, by its transaction number.\<close>

definition reject_stored ::
    "mock_mem \<Rightarrow> rcp_mock_server_t \<Rightarrow> nat \<Rightarrow> rcp_server_pending_t \<Rightarrow> rcp_byte_bus_id_t \<Rightarrow> rcp_wire_error_t \<Rightarrow>
     dispatch_out" where
  "reject_stored mem srv i stored byte_bus_id error =
     (let tn = slot_transaction_num stored;
          q = snd (rcp_server_endpoint_cancel_single (slot_queue srv i) tn RCP_CANCEL_LIFECYCLE_QUEUED)
      in (RCP_MOCK_DISPATCH_REJECTED, rcp_acf_build_error_response (mm_response mem) byte_bus_id tn error,
          put_queue srv i q))"

text \<open>What follows the admission by the endpoint at slot \<open>i\<close>.\<close>

definition after_admission ::
    "mock_handlers \<Rightarrow> mock_mem \<Rightarrow> rcp_mock_server_t \<Rightarrow> nat \<Rightarrow> server_admission \<Rightarrow> rcp_byte_bus_id_t \<Rightarrow> bool \<Rightarrow>
     u64 \<Rightarrow> bytes \<Rightarrow> dispatch_out" where
  "after_admission hs mem srv i adm byte_bus_id time_sync stream_id request =
     (let pend = (adm_result adm = RCP_SERVER_ADMIT_PENDING);
          admitted_index = (case adm_index adm of None \<Rightarrow> 0 | Some k \<Rightarrow> k);
          stored = pending (slot_queue srv i) ! admitted_index
      in if pend \<and> adm_request_type adm = RCP_REQUEST_TYPE_TIMED \<and> \<not> time_sync then
           reject_stored mem srv i stored byte_bus_id (rcp_timed_wire_error RCP_TIMED_REJECT_GPTP_FAIL)
         else
           let srv = (if adm_error adm = RCP_ERROR_REQUEST_STORAGE_OVERFLOW
                      then note_storage_overflow srv stream_id else srv);
               access = rcp_sequencer_access_check (ms_sequencers srv)
                          (ucast (sequencer_index (slot_compound stored))) (stream_index_of srv stream_id)
           in if pend \<and> \<not> rcp_sequencer_table_unsupported (ms_sequencers srv) \<and>
                 (slot_kind stored = RCP_SCHED_KIND_COMPOUND \<or> slot_kind stored = RCP_SCHED_KIND_COMPOUND_WAIT) \<and>
                 access \<noteq> RCP_SEQUENCER_ACCESS_OK
              then reject_stored mem srv i stored byte_bus_id (rcp_sequencer_wire_error access)
              else finish_admission hs mem srv i adm request byte_bus_id)"

definition dispatch_plain_inner ::
    "mock_handlers \<Rightarrow> mock_mem \<Rightarrow> rcp_mock_server_t \<Rightarrow> rcp_byte_bus_id_t \<Rightarrow> byte \<Rightarrow> byte \<Rightarrow> bool \<Rightarrow> u64 \<Rightarrow>
     presentation \<Rightarrow> bytes \<Rightarrow> dispatch_out" where
  "dispatch_plain_inner hs mem srv byte_bus_id avtp_subtype acf_msg_type time_sync stream_id pt request =
     (let (tv, ts, gptp_reference_now) = pt;
          effective_tv = (if avtp_subtype = RCP_AVTP_SUBTYPE_TSCF \<and> \<not> time_sync \<and>
                             ms_tscf_policy srv = RCP_AVTP_TSCF_FALLBACK_IGNORE then False else tv)
      in case rcp_lifecycle_should_accept (ms_state srv) time_sync avtp_subtype acf_msg_type byte_bus_id
                (ms_tscf_policy srv) of
           RCP_LIFECYCLE_DROP \<Rightarrow> (RCP_MOCK_DISPATCH_DROPPED, None, srv)
         | RCP_LIFECYCLE_REJECT \<Rightarrow>
             (RCP_MOCK_DISPATCH_REJECTED,
              error_for_request (mm_response mem) byte_bus_id request RCP_ERROR_REQUEST_REJECTED, srv)
         | RCP_LIFECYCLE_ACCEPT \<Rightarrow>
             (case find_slot_on_stream srv stream_id byte_bus_id of
                None \<Rightarrow> (RCP_MOCK_DISPATCH_ERR_UNKNOWN_BUS, None, srv)
              | Some i \<Rightarrow>
                  let (adm, q) = rcp_server_endpoint_admit_with_ack (mm_server mem) (slot_queue srv i) request 0
                        effective_tv ts gptp_reference_now True
                  in after_admission hs mem (put_queue srv i q) i adm byte_bus_id time_sync stream_id request))"

definition suppress_response_per_stream_cfg :: "rcp_mock_server_t \<Rightarrow> u64 \<Rightarrow> rcp_bytes_t \<Rightarrow> rcp_bytes_t" where
  "suppress_response_per_stream_cfg srv stream_id out =
     (case out of
        None \<Rightarrow> None
      | Some bs \<Rightarrow>
          let idx = stream_index_of srv stream_id in
          if idx = 0 then out
          else if length bs < 8 then out
          else
            let cfg = ms_request_stream_cfg srv ! (unat idx - 1) in
            if rcp_acf_classify_response (rcp_acf_unpack_header bs) = RCP_ACF_RESP_ACKNOWLEDGE
            then (if rsc_rx_ack_stream_index cfg = 0 then None else out)
            else (if rsc_rx_resp_stream_index cfg = 0 then None else out))"

definition dispatch_plain ::
    "mock_handlers \<Rightarrow> mock_mem \<Rightarrow> rcp_mock_server_t \<Rightarrow> rcp_byte_bus_id_t \<Rightarrow> byte \<Rightarrow> byte \<Rightarrow> bool \<Rightarrow> u64 \<Rightarrow>
     presentation \<Rightarrow> bytes \<Rightarrow> dispatch_out" where
  "dispatch_plain hs mem srv byte_bus_id avtp_subtype acf_msg_type time_sync stream_id pt request =
     (let (result, response, srv) =
            dispatch_plain_inner hs mem srv byte_bus_id avtp_subtype acf_msg_type time_sync stream_id pt request
      in (result, suppress_response_per_stream_cfg srv stream_id response, srv))"

section \<open>Plain requests\<close>

definition kick_watchdog :: "mock_mem \<Rightarrow> rcp_mock_server_t \<Rightarrow> u64 \<Rightarrow> rcp_mock_server_t" where
  "kick_watchdog mem srv stream_id =
     (case ms_watchdog srv of
        None \<Rightarrow> srv
      | Some k \<Rightarrow> srv\<lparr>ms_watchdog := Some (snd (rcp_watchdog_keeper_kick k stream_id (mm_now_ms mem)))\<rparr>)"

definition rcp_mock_server_dispatch ::
    "mock_handlers \<Rightarrow> mock_mem \<Rightarrow> rcp_mock_server_t \<Rightarrow> rcp_byte_bus_id_t \<Rightarrow> byte \<Rightarrow> byte \<Rightarrow> bool \<Rightarrow> u64 \<Rightarrow>
     bytes \<Rightarrow> dispatch_out" where
  "rcp_mock_server_dispatch hs mem srv byte_bus_id avtp_subtype acf_msg_type time_sync stream_id request =
     dispatch_plain hs mem (kick_watchdog mem srv stream_id) byte_bus_id avtp_subtype acf_msg_type time_sync
       stream_id (False, 0, 0) request"

definition rcp_mock_server_dispatch_tscf ::
    "mock_handlers \<Rightarrow> mock_mem \<Rightarrow> rcp_mock_server_t \<Rightarrow> rcp_byte_bus_id_t \<Rightarrow> byte \<Rightarrow> byte \<Rightarrow> bool \<Rightarrow> u64 \<Rightarrow>
     presentation \<Rightarrow> bool \<Rightarrow> bytes \<Rightarrow> dispatch_out" where
  "rcp_mock_server_dispatch_tscf hs mem srv byte_bus_id avtp_subtype acf_msg_type time_sync stream_id pt
       tscf_reserved_all_zero request =
     (let srv = kick_watchdog mem srv stream_id; (tv, ts, ref) = pt in
      if avtp_subtype = RCP_AVTP_SUBTYPE_TSCF \<and> tscf_reserved_all_zero then
        (if ms_tscf_policy srv = RCP_AVTP_TSCF_FALLBACK_DROP then (RCP_MOCK_DISPATCH_DROPPED, None, srv)
         else dispatch_plain hs mem srv byte_bus_id RCP_AVTP_SUBTYPE_NTSCF acf_msg_type time_sync stream_id
                (False, ts, ref) request)
      else dispatch_plain hs mem srv byte_bus_id avtp_subtype acf_msg_type time_sync stream_id pt request)"

text \<open>The endpoint that answers a request with several responses.  The array has \<open>out_cap\<close> entries; a
  handler reports how many it has filled.\<close>

definition suppress_first :: "rcp_mock_server_t \<Rightarrow> u64 \<Rightarrow> nat \<Rightarrow> rcp_bytes_t list \<Rightarrow> rcp_bytes_t list" where
  "suppress_first srv stream_id n rs =
     map (suppress_response_per_stream_cfg srv stream_id) (take n rs) @ drop n rs"

definition rcp_mock_server_dispatch_multi_response ::
    "mock_handlers \<Rightarrow> mock_mem \<Rightarrow> rcp_mock_server_t \<Rightarrow> rcp_byte_bus_id_t \<Rightarrow> byte \<Rightarrow> byte \<Rightarrow> bool \<Rightarrow> u64 \<Rightarrow>
     bytes \<Rightarrow> nat \<Rightarrow> rcp_mock_dispatch_result_t \<times> nat \<times> rcp_bytes_t list \<times> rcp_mock_server_t" where
  "rcp_mock_server_dispatch_multi_response hs mem srv byte_bus_id avtp_subtype acf_msg_type time_sync
       stream_id request out_cap =
     (let none = replicate out_cap None; srv = kick_watchdog mem srv stream_id in
      case rcp_lifecycle_should_accept (ms_state srv) time_sync avtp_subtype acf_msg_type byte_bus_id
             (ms_tscf_policy srv) of
        RCP_LIFECYCLE_DROP \<Rightarrow> (RCP_MOCK_DISPATCH_DROPPED, 0, none, srv)
      | RCP_LIFECYCLE_REJECT \<Rightarrow>
          (if length request \<ge> 8 \<and> out_cap > 0 then
             let r = suppress_response_per_stream_cfg srv stream_id
                       (error_for_request (mm_response mem) byte_bus_id request RCP_ERROR_REQUEST_REJECTED)
             in (RCP_MOCK_DISPATCH_REJECTED, if r \<noteq> None then 1 else 0, none[0 := r], srv)
           else (RCP_MOCK_DISPATCH_REJECTED, 0, none, srv))
      | RCP_LIFECYCLE_ACCEPT \<Rightarrow>
          (case find_slot_on_stream srv stream_id byte_bus_id of
             None \<Rightarrow> (RCP_MOCK_DISPATCH_ERR_UNKNOWN_BUS, 0, none, srv)
           | Some i \<Rightarrow>
               (case sl_multi_handler (ms_endpoints srv ! i) of
                  None \<Rightarrow> (RCP_MOCK_DISPATCH_OK, 0, none, srv)
                | Some h \<Rightarrow>
                    let call = (h, sl_user_data (ms_endpoints srv ! i), request);
                        (n, rs) = run_multi hs (ms_calls srv) call out_cap;
                        srv = srv\<lparr>ms_calls := ms_calls srv @ [call]\<rparr>
                    in (RCP_MOCK_DISPATCH_OK, n, suppress_first srv stream_id (min n out_cap) rs, srv))))"

section \<open>Protected requests\<close>

definition RCP_MOCK_E2E_HEADER_OCTET1_PLACEHOLDER :: byte where
  [consts_rcp]: "RCP_MOCK_E2E_HEADER_OCTET1_PLACEHOLDER = 0"
definition RCP_MOCK_E2E_TU_PLACEHOLDER :: bool where [consts_rcp]: "RCP_MOCK_E2E_TU_PLACEHOLDER = False"

definition stream_is_faulted :: "rcp_mock_server_t \<Rightarrow> u64 \<Rightarrow> bool" where
  "stream_is_faulted srv stream_id =
     (case ms_stream_fault_tracker srv of
        None \<Rightarrow> False | Some t \<Rightarrow> rcp_e2e_stream_fault_tracker_is_faulted t stream_id)"

text \<open>The consequences of a request that fails its check: the fault tracker, the status of the stream
  and the safe state.\<close>

definition note_crc_failure :: "rcp_mock_server_t \<Rightarrow> u64 \<Rightarrow> bool \<Rightarrow> rcp_mock_server_t" where
  "note_crc_failure srv stream_id enforce =
     (let srv = (case ms_stream_fault_tracker srv of
                   None \<Rightarrow> srv
                 | Some t \<Rightarrow> srv\<lparr>ms_stream_fault_tracker :=
                     Some (snd (rcp_e2e_stream_fault_tracker_on_crc_error t stream_id enforce))\<rparr>);
          idx = stream_index_of srv stream_id
      in if idx = 0 then srv
         else
           let srv = upd_status srv idx (\<lambda>s. snd (rcp_e2e_stream_status_note_crc_error s enforce))
           in if rcp_e2e_crc_error_should_enter_safe_state enforce
              then snd (rcp_mock_server_broadcast_safe_state srv idx) else srv)"

definition dispatch_e2e_core ::
    "mock_handlers \<Rightarrow> mock_mem \<Rightarrow> rcp_mock_server_t \<Rightarrow> rcp_byte_bus_id_t \<Rightarrow> byte \<Rightarrow> byte \<Rightarrow> bool \<Rightarrow> u64 \<Rightarrow>
     u32 \<Rightarrow> presentation \<Rightarrow> bytes \<Rightarrow> dispatch_out" where
  "dispatch_e2e_core hs mem srv byte_bus_id avtp_subtype acf_msg_type time_sync stream_id ts pt request =
     (let srv = kick_watchdog mem srv stream_id;
          plain = (\<lambda>req. dispatch_plain hs mem srv byte_bus_id avtp_subtype acf_msg_type time_sync stream_id pt req)
      in if stream_is_faulted srv stream_id then
           (RCP_MOCK_DISPATCH_STREAM_FAULTED,
            error_for_request (mm_response mem) byte_bus_id request RCP_ERROR_POCI_FAILURE, srv)
         else
           case find_slot_on_stream srv stream_id byte_bus_id of
             None \<Rightarrow> plain request
           | Some i \<Rightarrow>
               let slot = ms_endpoints srv ! i in
               if \<not> sl_req_crc_enable slot then plain request
               else
                 let (unwrap_result, unwrapped) =
                       rcp_e2e_unwrap_framed (mm_unwrap mem) stream_id (avtp_subtype = RCP_AVTP_SUBTYPE_NTSCF)
                         RCP_MOCK_E2E_HEADER_OCTET1_PLACEHOLDER RCP_MOCK_E2E_TU_PLACEHOLDER ts request
                 in if unwrap_result \<noteq> RCP_E2E_OK then
                      (RCP_MOCK_DISPATCH_CRC_ERROR,
                       let werr = rcp_e2e_wire_error unwrap_result in
                       if werr \<noteq> RCP_ERROR_NONE then error_for_request (mm_response mem) byte_bus_id request werr
                       else None,
                       note_crc_failure srv stream_id (sl_rx_enforce_e2e slot))
                    else plain (rcp_bytes_data unwrapped))"

definition rcp_mock_server_dispatch_e2e ::
    "mock_handlers \<Rightarrow> mock_mem \<Rightarrow> rcp_mock_server_t \<Rightarrow> rcp_byte_bus_id_t \<Rightarrow> byte \<Rightarrow> byte \<Rightarrow> bool \<Rightarrow> u64 \<Rightarrow>
     u32 \<Rightarrow> bytes \<Rightarrow> dispatch_out" where
  "rcp_mock_server_dispatch_e2e hs mem srv byte_bus_id avtp_subtype acf_msg_type time_sync stream_id ts request =
     dispatch_e2e_core hs mem srv byte_bus_id avtp_subtype acf_msg_type time_sync stream_id ts (False, 0, 0) request"

definition rcp_mock_server_dispatch_e2e_tscf ::
    "mock_handlers \<Rightarrow> mock_mem \<Rightarrow> rcp_mock_server_t \<Rightarrow> rcp_byte_bus_id_t \<Rightarrow> byte \<Rightarrow> byte \<Rightarrow> bool \<Rightarrow> u64 \<Rightarrow>
     presentation \<Rightarrow> bytes \<Rightarrow> dispatch_out" where
  "rcp_mock_server_dispatch_e2e_tscf hs mem srv byte_bus_id avtp_subtype acf_msg_type time_sync stream_id pt request =
     dispatch_e2e_core hs mem srv byte_bus_id avtp_subtype acf_msg_type time_sync stream_id (fst (snd pt)) pt request"

section \<open>Protected fragments\<close>

text \<open>A fragment in either message format.\<close>

datatype fragment_header = Gbb_fragment rcp_acf_gbb_header_t | Abb_fragment rcp_acf_byte_message_info_t

definition decode_fragment :: "byte \<Rightarrow> bytes \<Rightarrow> (fragment_header \<times> bytes) option" where
  "decode_fragment acf_msg_type b =
     (if acf_msg_type = RCP_ACF_MSG_TYPE_GBB then
        (case rcp_acf_decode_gbb b of Inl _ \<Rightarrow> None | Inr (hdr, payload) \<Rightarrow> Some (Gbb_fragment hdr, payload))
      else
        (case rcp_acf_decode_abb b of Inl _ \<Rightarrow> None | Inr (hdr, payload) \<Rightarrow> Some (Abb_fragment hdr, payload)))"

fun fragment_tn :: "fragment_header \<Rightarrow> byte" where
  "fragment_tn (Gbb_fragment hdr) = bm_transaction_num (gbb_info hdr)"
| "fragment_tn (Abb_fragment hdr) = bm_transaction_num hdr"

fun encode_fragment :: "bool \<Rightarrow> fragment_header \<Rightarrow> bytes \<Rightarrow> rcp_bytes_t" where
  "encode_fragment mem (Gbb_fragment hdr) payload = rcp_acf_encode_gbb mem hdr payload"
| "encode_fragment mem (Abb_fragment hdr) payload = rcp_acf_encode_abb mem hdr payload"

definition put_reasm :: "rcp_mock_server_t \<Rightarrow> byte \<Rightarrow> rcp_fragment_reassembler_t \<Rightarrow> rcp_mock_server_t" where
  "put_reasm srv idx r = srv\<lparr>ms_frag_reasm := (ms_frag_reasm srv)[unat idx - 1 := r]\<rparr>"

text \<open>A fragment that is not the last one; \<open>idx\<close> is the row of its stream.\<close>

definition feed_more_segments ::
    "mock_mem \<Rightarrow> rcp_mock_server_t \<Rightarrow> byte \<Rightarrow> byte \<Rightarrow> bytes \<Rightarrow> dispatch_out" where
  "feed_more_segments mem srv idx acf_msg_type fragment =
     (let k = unat idx - 1;
          reasm = ms_frag_reasm srv ! k;
          header_len = (if acf_msg_type = RCP_ACF_MSG_TYPE_GBB then RCP_ACF_GBB_HEADER_LEN
                        else RCP_ACF_ABB_HEADER_LEN)
      in case decode_fragment acf_msg_type fragment of
           None \<Rightarrow> (RCP_MOCK_DISPATCH_REJECTED, None, srv)
         | Some (hdr, payload) \<Rightarrow>
             let srv = (if \<not> rcp_fragment_reassembler_is_collecting reasm
                        then srv\<lparr>ms_frag_first_header :=
                                  (ms_frag_first_header srv)[k := take header_len fragment]\<rparr>
                        else srv);
                 (r, reasm) = rcp_fragment_reassembler_feed (mm_reasm mem) reasm True
                   (bm_read_size_or_segment_num (rcp_acf_unpack_header fragment)) payload
             in if r \<noteq> RCP_FRAGMENT_REASM_CONTINUE
                then (RCP_MOCK_DISPATCH_REJECTED, None, put_reasm srv idx (rcp_fragment_reassembler_reset reasm))
                else (RCP_MOCK_DISPATCH_FRAGMENT_PENDING, None, put_reasm srv idx reasm))"

text \<open>The last fragment: it carries the checksum over the header of the first one and the reassembled
  payload.\<close>

definition feed_last_segment ::
    "mock_handlers \<Rightarrow> mock_mem \<Rightarrow> rcp_mock_server_t \<Rightarrow> nat \<Rightarrow> byte \<Rightarrow> rcp_byte_bus_id_t \<Rightarrow> byte \<Rightarrow> byte \<Rightarrow> bool \<Rightarrow>
     u64 \<Rightarrow> u32 \<Rightarrow> presentation \<Rightarrow> bytes \<Rightarrow> dispatch_out" where
  "feed_last_segment hs mem srv i idx byte_bus_id avtp_subtype acf_msg_type time_sync stream_id ts pt fragment =
     (let k = unat idx - 1;
          reasm = ms_frag_reasm srv ! k;
          pad = unat (bm_pad (rcp_acf_unpack_header fragment));
          is_ntscf = (avtp_subtype = RCP_AVTP_SUBTYPE_NTSCF);
          effective_ts = (if is_ntscf then 0 else ts);
          reset = (\<lambda>srv. put_reasm srv idx (rcp_fragment_reassembler_reset (ms_frag_reasm srv ! k)));
          rejected = (RCP_MOCK_DISPATCH_REJECTED, None, reset srv)
      in if length fragment < RCP_E2E_CRC_LEN then rejected
         else if pad > length fragment - RCP_E2E_CRC_LEN then rejected
         else
           let real_len = length fragment - RCP_E2E_CRC_LEN - pad;
               got = get_u32 (drop real_len fragment);
               (unwrap_result, unwrapped) = rcp_e2e_unwrap_framed (mm_unwrap mem) stream_id is_ntscf
                 RCP_MOCK_E2E_HEADER_OCTET1_PLACEHOLDER RCP_MOCK_E2E_TU_PLACEHOLDER ts fragment
           in if unwrap_result = RCP_E2E_ERR_SHORT_FRAME then rejected
              else
                case decode_fragment acf_msg_type (rcp_bytes_data unwrapped) of
                  None \<Rightarrow> rejected
                | Some (final_hdr, final_payload) \<Rightarrow>
                    let (r, reasm) = rcp_fragment_reassembler_feed (mm_reasm mem) reasm False 0 final_payload;
                        srv = put_reasm srv idx reasm
                    in if r \<noteq> RCP_FRAGMENT_REASM_COMPLETE
                       then (RCP_MOCK_DISPATCH_REJECTED, None, reset srv)
                       else
                         let reassembled = rcp_fragment_reassembler_get reasm;
                             want = rcp_e2e_compute_fragmented_crc avtp_subtype
                               RCP_MOCK_E2E_HEADER_OCTET1_PLACEHOLDER RCP_MOCK_E2E_TU_PLACEHOLDER stream_id
                               effective_ts (ms_frag_first_header srv ! k) reassembled
                         in if got \<noteq> want then
                              (RCP_MOCK_DISPATCH_CRC_ERROR,
                               rcp_acf_build_error_response (mm_response mem) byte_bus_id (fragment_tn final_hdr)
                                 RCP_ERROR_POCI_FAILURE,
                               reset (note_crc_failure srv stream_id (sl_rx_enforce_e2e (ms_endpoints srv ! i))))
                            else
                              let encoded = encode_fragment (mm_encode mem) final_hdr reassembled;
                                  srv = reset srv
                              in if encoded = None \<and> length reassembled \<noteq> 0 then
                                   (RCP_MOCK_DISPATCH_REJECTED,
                                    rcp_acf_build_error_response (mm_response mem) byte_bus_id
                                      (fragment_tn final_hdr) RCP_ERROR_REQUEST_REJECTED, srv)
                                 else dispatch_plain hs mem srv byte_bus_id avtp_subtype acf_msg_type time_sync
                                        stream_id pt (rcp_bytes_data encoded))"

definition dispatch_e2e_fragment_core ::
    "mock_handlers \<Rightarrow> mock_mem \<Rightarrow> rcp_mock_server_t \<Rightarrow> rcp_byte_bus_id_t \<Rightarrow> byte \<Rightarrow> byte \<Rightarrow> bool \<Rightarrow> u64 \<Rightarrow>
     u32 \<Rightarrow> presentation \<Rightarrow> bytes \<Rightarrow> dispatch_out" where
  "dispatch_e2e_fragment_core hs mem srv byte_bus_id avtp_subtype acf_msg_type time_sync stream_id ts pt fragment =
     (let srv = kick_watchdog mem srv stream_id;
          plain = dispatch_plain hs mem srv byte_bus_id avtp_subtype acf_msg_type time_sync stream_id pt fragment;
          e2e = dispatch_e2e_core hs mem srv byte_bus_id avtp_subtype acf_msg_type time_sync stream_id ts pt fragment
      in if stream_is_faulted srv stream_id then
           (RCP_MOCK_DISPATCH_STREAM_FAULTED,
            error_for_request (mm_response mem) byte_bus_id fragment RCP_ERROR_POCI_FAILURE, srv)
         else
           case find_slot_on_stream srv stream_id byte_bus_id of
             None \<Rightarrow> plain
           | Some i \<Rightarrow>
               if \<not> sl_req_crc_enable (ms_endpoints srv ! i) then plain
               else if length fragment < 8 then (RCP_MOCK_DISPATCH_REJECTED, None, srv)
               else
                 let idx = stream_index_of srv stream_id in
                 if idx = 0 then e2e
                 else if bm_ms (rcp_acf_unpack_header fragment) \<noteq> 0
                 then feed_more_segments mem srv idx acf_msg_type fragment
                 else if \<not> rcp_fragment_reassembler_is_collecting (ms_frag_reasm srv ! (unat idx - 1)) then e2e
                 else feed_last_segment hs mem srv i idx byte_bus_id avtp_subtype acf_msg_type time_sync stream_id
                        ts pt fragment)"

definition rcp_mock_server_dispatch_e2e_fragment ::
    "mock_handlers \<Rightarrow> mock_mem \<Rightarrow> rcp_mock_server_t \<Rightarrow> rcp_byte_bus_id_t \<Rightarrow> byte \<Rightarrow> byte \<Rightarrow> bool \<Rightarrow> u64 \<Rightarrow>
     u32 \<Rightarrow> bytes \<Rightarrow> dispatch_out" where
  "rcp_mock_server_dispatch_e2e_fragment hs mem srv byte_bus_id avtp_subtype acf_msg_type time_sync stream_id ts
       fragment =
     dispatch_e2e_fragment_core hs mem srv byte_bus_id avtp_subtype acf_msg_type time_sync stream_id ts (False, 0, 0)
       fragment"

definition rcp_mock_server_dispatch_e2e_fragment_tscf ::
    "mock_handlers \<Rightarrow> mock_mem \<Rightarrow> rcp_mock_server_t \<Rightarrow> rcp_byte_bus_id_t \<Rightarrow> byte \<Rightarrow> byte \<Rightarrow> bool \<Rightarrow> u64 \<Rightarrow>
     presentation \<Rightarrow> bytes \<Rightarrow> dispatch_out" where
  "rcp_mock_server_dispatch_e2e_fragment_tscf hs mem srv byte_bus_id avtp_subtype acf_msg_type time_sync stream_id pt
       fragment =
     dispatch_e2e_fragment_core hs mem srv byte_bus_id avtp_subtype acf_msg_type time_sync stream_id (fst (snd pt)) pt
       fragment"

section \<open>Queued and stored requests\<close>

definition drain_slot ::
    "mock_handlers \<Rightarrow> rcp_mock_server_t \<Rightarrow> nat option \<Rightarrow> bool \<times> rcp_bytes_t \<times> rcp_mock_server_t" where
  "drain_slot hs srv hit =
     (case hit of
        None \<Rightarrow> (False, None, srv)
      | Some i \<Rightarrow>
          (case rcp_server_endpoint_drain_one (slot_queue srv i) of
             None \<Rightarrow> (False, None, srv)
           | Some (frame, q) \<Rightarrow>
               let (response, srv) = run_handler hs (put_queue srv i q) i (rcp_bytes_data frame)
               in (True, response, srv)))"

definition rcp_mock_server_drain_endpoint ::
    "mock_handlers \<Rightarrow> rcp_mock_server_t \<Rightarrow> rcp_byte_bus_id_t \<Rightarrow> bool \<times> rcp_bytes_t \<times> rcp_mock_server_t" where
  "rcp_mock_server_drain_endpoint hs srv byte_bus_id = drain_slot hs srv (find_slot srv byte_bus_id)"

definition rcp_mock_server_drain_endpoint_on_stream ::
    "mock_handlers \<Rightarrow> rcp_mock_server_t \<Rightarrow> u64 \<Rightarrow> rcp_byte_bus_id_t \<Rightarrow> bool \<times> rcp_bytes_t \<times> rcp_mock_server_t" where
  "rcp_mock_server_drain_endpoint_on_stream hs srv stream_id byte_bus_id =
     drain_slot hs srv (find_slot_on_stream srv stream_id byte_bus_id)"

definition tick_slot ::
    "mock_handlers \<Rightarrow> mock_mem \<Rightarrow> rcp_mock_server_t \<Rightarrow> nat option \<Rightarrow> rcp_byte_bus_id_t \<Rightarrow> rcp_server_tick_ctx_t \<Rightarrow>
     bool \<times> rcp_bytes_t \<times> rcp_mock_server_t" where
  "tick_slot hs mem srv hit byte_bus_id ctx =
     (case hit of
        None \<Rightarrow> (False, None, srv)
      | Some i \<Rightarrow>
          let ctx = ctx\<lparr>sequencers := Some (ms_sequencers srv)\<rparr>;
              (due, q) = rcp_server_endpoint_select_due (slot_queue srv i) ctx;
              srv = put_queue srv i q
          in case due of
               None \<Rightarrow> (False, None, srv)
             | Some index \<Rightarrow>
                 let stored = pending q ! index;
                     request = rcp_bytes_data (slot_frame stored);
                     (response, srv) =
                       (if slot_kind stored = RCP_SCHED_KIND_CANCELLATION then
                          (let (response, q) = apply_cancellation (mm_response mem) q (slot_request_type stored)
                                 request byte_bus_id
                           in (response, put_queue srv i q))
                        else run_handler hs srv i request);
                     (more, q, seqs) = rcp_server_endpoint_complete (slot_queue srv i) index ctx;
                     srv = put_queue srv i q
                 in (True, response,
                     case seqs of None \<Rightarrow> srv | Some t \<Rightarrow> srv\<lparr>ms_sequencers := t\<rparr>))"

definition rcp_mock_server_tick ::
    "mock_handlers \<Rightarrow> mock_mem \<Rightarrow> rcp_mock_server_t \<Rightarrow> rcp_byte_bus_id_t \<Rightarrow> rcp_server_tick_ctx_t \<Rightarrow>
     bool \<times> rcp_bytes_t \<times> rcp_mock_server_t" where
  "rcp_mock_server_tick hs mem srv byte_bus_id ctx =
     tick_slot hs mem srv (find_slot srv byte_bus_id) byte_bus_id ctx"

definition rcp_mock_server_tick_on_stream ::
    "mock_handlers \<Rightarrow> mock_mem \<Rightarrow> rcp_mock_server_t \<Rightarrow> u64 \<Rightarrow> rcp_byte_bus_id_t \<Rightarrow> rcp_server_tick_ctx_t \<Rightarrow>
     bool \<times> rcp_bytes_t \<times> rcp_mock_server_t" where
  "rcp_mock_server_tick_on_stream hs mem srv stream_id byte_bus_id ctx =
     tick_slot hs mem srv (find_slot_on_stream srv stream_id byte_bus_id) byte_bus_id ctx"

section \<open>Frames of several requests\<close>

record rcp_mock_frame_member_result_t =
  fm_result :: rcp_mock_dispatch_result_t
  fm_byte_bus_id :: rcp_byte_bus_id_t
  fm_response :: rcp_bytes_t

definition peek_member_byte_bus_id :: "bytes \<Rightarrow> (byte \<times> rcp_byte_bus_id_t) option" where
  "peek_member_byte_bus_id member =
     (case rcp_acf_peek_msg_type member of
        Inl _ \<Rightarrow> None
      | Inr msg_type \<Rightarrow>
          if msg_type = RCP_ACF_MSG_TYPE_ABB then
            (case rcp_acf_decode_abb member of
               Inl _ \<Rightarrow> None | Inr (hdr, payload) \<Rightarrow> Some (msg_type, bm_byte_bus_id hdr))
          else if msg_type = RCP_ACF_MSG_TYPE_GBB then
            (case rcp_acf_decode_gbb member of
               Inl _ \<Rightarrow> None | Inr (hdr, payload) \<Rightarrow> Some (msg_type, bm_byte_bus_id (gbb_info hdr)))
          else None)"

text \<open>The \<^verbatim>\<open>cs\<close> bit and the transaction number of a chained member.\<close>

definition is_chained_member :: "bytes \<Rightarrow> (byte \<times> byte) option" where
  "is_chained_member member =
     (case rcp_compound_peek_request_type member of
        Inl _ \<Rightarrow> None
      | Inr request_type \<Rightarrow>
          if request_type \<noteq> RCP_REQUEST_TYPE_CHAINED then None
          else
            case rcp_chained_decode_member member of
              Inl _ \<Rightarrow> None
            | Inr ((bus, delay, cs, tn), payload) \<Rightarrow> Some (cs, tn))"

definition frame_seq_gate_admits :: "rcp_mock_server_t \<Rightarrow> u64 \<Rightarrow> byte \<Rightarrow> bool \<times> rcp_mock_server_t" where
  "frame_seq_gate_admits srv stream_id sequence_num =
     (let idx = stream_index_of srv stream_id; k = unat idx - 1 in
      if idx = 0 then (True, srv)
      else
        let cfg = ms_request_stream_cfg srv ! k;
            (result, tracker) = rcp_e2e_seq_evaluate (ms_seq_tracker srv ! k) (rsc_rx_enforce_seq cfg)
              (rsc_rx_seq_safestate_enable cfg) sequence_num;
            srv = srv\<lparr>ms_seq_tracker := (ms_seq_tracker srv)[k := tracker]\<rparr>;
            srv = upd_status srv idx (\<lambda>s. rcp_e2e_stream_status_note_seq s result)
        in (accept result, if seq_enter_safe_state result
                           then snd (rcp_mock_server_broadcast_safe_state srv idx) else srv))"

text \<open>The request just stored is marked as the next link of its chain.\<close>

definition mark_chain_link ::
    "rcp_mock_server_t \<Rightarrow> u64 \<Rightarrow> rcp_byte_bus_id_t \<Rightarrow> u32 \<Rightarrow> nat \<Rightarrow> rcp_mock_server_t" where
  "mark_chain_link srv stream_id byte_bus_id grp position =
     (case find_slot_on_stream srv stream_id byte_bus_id of
        None \<Rightarrow> srv
      | Some i \<Rightarrow> put_queue srv i (link_last_pending (slot_queue srv i) grp (of_nat position)))"

text \<open>The octets of member \<open>i\<close>; \<^const>\<open>None\<close> when the end of the last stored member is not known.\<close>

definition frame_member :: "bytes \<Rightarrow> nat list \<Rightarrow> nat \<Rightarrow> nat \<Rightarrow> bytes option" where
  "frame_member frame offsets real_count i =
     (if i + 1 < length offsets then Some (take (offsets ! (i + 1) - offsets ! i) (drop (offsets ! i) frame))
      else if i + 1 = real_count then Some (drop (offsets ! i) frame)
      else None)"

text \<open>How a frame hands a member to the server, and which results count as an error of the predecessor
  in a chain.\<close>

record member_dispatch =
  md_call :: "mock_mem \<Rightarrow> rcp_mock_server_t \<Rightarrow> rcp_byte_bus_id_t \<Rightarrow> byte \<Rightarrow> bytes \<Rightarrow> dispatch_out"
  md_errors :: "rcp_mock_dispatch_result_t list"

record chain_state =
  cst_aborted :: bool
  cst_prev_errored :: bool
  cst_group :: u32
  cst_position :: nat

text \<open>One member of the frame.\<close>

definition dispatch_member ::
    "member_dispatch \<Rightarrow> mock_mem \<Rightarrow> u64 \<Rightarrow> nat \<Rightarrow> bytes \<Rightarrow> chain_state \<Rightarrow> rcp_mock_server_t \<Rightarrow>
     rcp_mock_frame_member_result_t \<times> chain_state \<times> rcp_mock_server_t" where
  "dispatch_member md mem stream_id i member cst srv =
     (case peek_member_byte_bus_id member of
        None \<Rightarrow> (\<lparr>fm_result = RCP_MOCK_DISPATCH_ERR_UNKNOWN_BUS, fm_byte_bus_id = 0, fm_response = None\<rparr>,
                 cst\<lparr>cst_prev_errored := True\<rparr>, srv)
      | Some (msg_type, byte_bus_id) \<Rightarrow>
          let chained = is_chained_member member;
              cst = (if chained = None then cst\<lparr>cst_group := of_nat i + 1, cst_position := 0\<rparr>
                     else cst\<lparr>cst_position := cst_position cst + 1\<rparr>);
              (outcome, aborted, tn) =
                (case chained of
                   None \<Rightarrow> (RCP_CHAINED_MEMBER_OK, cst_aborted cst, 0)
                 | Some (cs, tn) \<Rightarrow>
                     let (outcome, aborted) = rcp_chained_advance (cst_aborted cst) (i > 0) (cst_prev_errored cst) cs
                     in (outcome, aborted, tn));
              cst = cst\<lparr>cst_aborted := aborted\<rparr>
          in case outcome of
               RCP_CHAINED_MEMBER_CHAIN_ERROR \<Rightarrow>
                 (\<lparr>fm_result = RCP_MOCK_DISPATCH_CHAIN_ERROR, fm_byte_bus_id = byte_bus_id,
                   fm_response = rcp_acf_build_error_response (mm_response mem) byte_bus_id tn RCP_ERROR_CHAIN_ERROR\<rparr>,
                  cst\<lparr>cst_prev_errored := True\<rparr>, srv)
             | RCP_CHAINED_MEMBER_CHAIN_ABORTED \<Rightarrow>
                 (\<lparr>fm_result = RCP_MOCK_DISPATCH_CHAIN_ABORTED, fm_byte_bus_id = byte_bus_id,
                   fm_response = rcp_acf_build_error_response (mm_response mem) byte_bus_id tn RCP_ERROR_CHAIN_ABORTED\<rparr>,
                  cst\<lparr>cst_prev_errored := True\<rparr>, srv)
             | RCP_CHAINED_MEMBER_OK \<Rightarrow>
                 let (result, response, srv) = md_call md mem srv byte_bus_id msg_type member
                 in (\<lparr>fm_result = result, fm_byte_bus_id = byte_bus_id, fm_response = response\<rparr>,
                     cst\<lparr>cst_prev_errored := (result \<in> set (md_errors md))\<rparr>,
                     if result = RCP_MOCK_DISPATCH_PENDING
                     then mark_chain_link srv stream_id byte_bus_id (cst_group cst) (cst_position cst) else srv))"

text \<open>The loop over the members from \<open>i\<close> on, \<open>n\<close> of them left.\<close>

fun dispatch_members ::
    "member_dispatch \<Rightarrow> (nat \<Rightarrow> mock_mem) \<Rightarrow> u64 \<Rightarrow> bytes \<Rightarrow> nat list \<Rightarrow> nat \<Rightarrow> nat \<Rightarrow> nat \<Rightarrow> chain_state \<Rightarrow>
     rcp_mock_server_t \<Rightarrow> rcp_mock_frame_member_result_t list \<times> rcp_mock_server_t" where
  "dispatch_members md mems stream_id frame offsets real_count i 0 cst srv = ([], srv)"
| "dispatch_members md mems stream_id frame offsets real_count i (Suc n) cst srv =
     (case frame_member frame offsets real_count i of
        None \<Rightarrow> ([], srv)
      | Some member \<Rightarrow>
          let (r, cst, srv) = dispatch_member md (mems i) stream_id i member cst srv;
              (rs, srv) = dispatch_members md mems stream_id frame offsets real_count (i + 1) n cst srv
          in (r # rs, srv))"

definition dispatch_frame_core ::
    "member_dispatch \<Rightarrow> (nat \<Rightarrow> mock_mem) \<Rightarrow> rcp_mock_server_t \<Rightarrow> u64 \<Rightarrow> byte \<Rightarrow> bytes \<Rightarrow> nat \<Rightarrow>
     rcp_mock_frame_member_result_t list \<times> rcp_mock_server_t" where
  "dispatch_frame_core md mems srv stream_id sequence_num frame out_cap =
     (let (real_count, offsets) = rcp_sched_split_frame_members frame RCP_MOCK_MAX_FRAME_MEMBERS;
          stored_count = min real_count RCP_MOCK_MAX_FRAME_MEMBERS;
          process_count = min stored_count out_cap
      in if real_count = 0 then ([], srv)
         else
           let (admits, srv) = frame_seq_gate_admits srv stream_id sequence_num in
           if \<not> admits
           then (replicate process_count
                   \<lparr>fm_result = RCP_MOCK_DISPATCH_SEQ_ERROR, fm_byte_bus_id = 0, fm_response = None\<rparr>, srv)
           else dispatch_members md mems stream_id frame offsets real_count 0 process_count
                  \<lparr>cst_aborted = False, cst_prev_errored = False, cst_group = 0, cst_position = 0\<rparr> srv)"

definition frame_plain :: "mock_handlers \<Rightarrow> byte \<Rightarrow> bool \<Rightarrow> u64 \<Rightarrow> member_dispatch" where
  "frame_plain hs avtp_subtype time_sync stream_id =
     \<lparr>md_call = \<lambda>mem srv bus mt req. rcp_mock_server_dispatch hs mem srv bus avtp_subtype mt time_sync stream_id req,
      md_errors = [RCP_MOCK_DISPATCH_ERR_UNKNOWN_BUS, RCP_MOCK_DISPATCH_REJECTED, RCP_MOCK_DISPATCH_DROPPED]\<rparr>"

definition frame_e2e :: "mock_handlers \<Rightarrow> byte \<Rightarrow> bool \<Rightarrow> u64 \<Rightarrow> u32 \<Rightarrow> member_dispatch" where
  "frame_e2e hs avtp_subtype time_sync stream_id ts =
     \<lparr>md_call = \<lambda>mem srv bus mt req.
        rcp_mock_server_dispatch_e2e hs mem srv bus avtp_subtype mt time_sync stream_id ts req,
      md_errors = [RCP_MOCK_DISPATCH_ERR_UNKNOWN_BUS, RCP_MOCK_DISPATCH_REJECTED, RCP_MOCK_DISPATCH_DROPPED,
                   RCP_MOCK_DISPATCH_CRC_ERROR]\<rparr>"

definition frame_e2e_tscf :: "mock_handlers \<Rightarrow> byte \<Rightarrow> bool \<Rightarrow> u64 \<Rightarrow> presentation \<Rightarrow> member_dispatch" where
  "frame_e2e_tscf hs avtp_subtype time_sync stream_id pt =
     \<lparr>md_call = \<lambda>mem srv bus mt req.
        rcp_mock_server_dispatch_e2e_tscf hs mem srv bus avtp_subtype mt time_sync stream_id pt req,
      md_errors = [RCP_MOCK_DISPATCH_ERR_UNKNOWN_BUS, RCP_MOCK_DISPATCH_REJECTED, RCP_MOCK_DISPATCH_DROPPED,
                   RCP_MOCK_DISPATCH_CRC_ERROR]\<rparr>"

definition rcp_mock_server_dispatch_frame ::
    "mock_handlers \<Rightarrow> (nat \<Rightarrow> mock_mem) \<Rightarrow> rcp_mock_server_t \<Rightarrow> byte \<Rightarrow> bool \<Rightarrow> u64 \<Rightarrow> byte \<Rightarrow> bytes \<Rightarrow> nat \<Rightarrow>
     rcp_mock_frame_member_result_t list \<times> rcp_mock_server_t" where
  "rcp_mock_server_dispatch_frame hs mems srv avtp_subtype time_sync stream_id sequence_num frame out_cap =
     dispatch_frame_core (frame_plain hs avtp_subtype time_sync stream_id) mems srv stream_id sequence_num frame out_cap"

definition rcp_mock_server_dispatch_frame_e2e ::
    "mock_handlers \<Rightarrow> (nat \<Rightarrow> mock_mem) \<Rightarrow> rcp_mock_server_t \<Rightarrow> byte \<Rightarrow> bool \<Rightarrow> u64 \<Rightarrow> u32 \<Rightarrow> byte \<Rightarrow> bytes \<Rightarrow> nat \<Rightarrow>
     rcp_mock_frame_member_result_t list \<times> rcp_mock_server_t" where
  "rcp_mock_server_dispatch_frame_e2e hs mems srv avtp_subtype time_sync stream_id ts sequence_num frame out_cap =
     dispatch_frame_core (frame_e2e hs avtp_subtype time_sync stream_id ts) mems srv stream_id sequence_num frame out_cap"

definition rcp_mock_server_dispatch_frame_e2e_tscf ::
    "mock_handlers \<Rightarrow> (nat \<Rightarrow> mock_mem) \<Rightarrow> rcp_mock_server_t \<Rightarrow> byte \<Rightarrow> bool \<Rightarrow> u64 \<Rightarrow> presentation \<Rightarrow> byte \<Rightarrow> bytes \<Rightarrow>
     nat \<Rightarrow> rcp_mock_frame_member_result_t list \<times> rcp_mock_server_t" where
  "rcp_mock_server_dispatch_frame_e2e_tscf hs mems srv avtp_subtype time_sync stream_id pt sequence_num frame out_cap =
     dispatch_frame_core (frame_e2e_tscf hs avtp_subtype time_sync stream_id pt) mems srv stream_id sequence_num frame out_cap"

end
