(* ===== verification/Mock_Table.thy ===== *)
theory Mock_Table
  imports Mock_Dispatch
begin

text \<open>
  Facts on the endpoint table of \<^verbatim>\<open>src/mock.c\<close>: which endpoint answers for a stream and a byte bus
  id, what registration and removal do to that, and what the safe state of a stream purges.  A request
  changes no routing (\<open>same_table\<close>), so these facts hold along every dispatch.
\<close>

section \<open>Routing\<close>

definition slot_keys :: "rcp_mock_endpoint_slot_t \<Rightarrow> bool \<times> rcp_byte_bus_id_t \<times> bool \<times> u64" where
  "slot_keys s = (sl_in_use s, sl_byte_bus_id s, sl_stream_scoped s, sl_stream_id s)"

definition answers :: "u64 \<Rightarrow> rcp_byte_bus_id_t \<Rightarrow> rcp_mock_endpoint_slot_t \<Rightarrow> bool" where
  "answers sid bus s \<longleftrightarrow> sl_in_use s \<and> sl_byte_bus_id s = bus \<and> (\<not> sl_stream_scoped s \<or> sl_stream_id s = sid)"

text \<open>Two endpoints share a byte bus id only on different streams.\<close>

definition routes_apart :: "rcp_mock_endpoint_slot_t list \<Rightarrow> bool" where
  "routes_apart xs \<longleftrightarrow> (\<forall>i<length xs. \<forall>j<length xs. i \<noteq> j \<longrightarrow> sl_in_use (xs ! i) \<longrightarrow> sl_in_use (xs ! j) \<longrightarrow>
     sl_byte_bus_id (xs ! i) = sl_byte_bus_id (xs ! j) \<longrightarrow>
     sl_stream_scoped (xs ! i) \<and> sl_stream_scoped (xs ! j) \<and> sl_stream_id (xs ! i) \<noteq> sl_stream_id (xs ! j))"

definition table_ok :: "rcp_mock_server_t \<Rightarrow> bool" where
  "table_ok srv \<longleftrightarrow> length (ms_endpoints srv) = RCP_MOCK_MAX_ENDPOINTS \<and>
     ms_endpoint_count srv = length (filter sl_in_use (ms_endpoints srv)) \<and>
     rm_svr_ep_count (ms_regmap srv) = of_nat (ms_endpoint_count srv) \<and>
     rm_svr_ep_generic_cfg_capacity (ms_regmap srv) = of_nat (ms_endpoint_count srv * 12) \<and>
     routes_apart (ms_endpoints srv)"

text \<open>The endpoint a request reaches, and the endpoint an operation without a stream reaches.\<close>

definition route :: "rcp_mock_server_t \<Rightarrow> u64 \<Rightarrow> rcp_byte_bus_id_t \<Rightarrow> rcp_mock_endpoint_slot_t option" where
  "route srv sid bus = map_option (\<lambda>i. ms_endpoints srv ! i) (find_slot_on_stream srv sid bus)"

lemma find_on_stream_answers:
  "find_slot_on_stream srv sid bus = find_index (answers sid bus) (ms_endpoints srv)"
  unfolding find_slot_on_stream_def answers_def by (rule arg_cong [of _ _ "\<lambda>p. find_index p _"]) auto

lemma answers_unique:
  "routes_apart xs \<Longrightarrow> i < length xs \<Longrightarrow> j < length xs \<Longrightarrow> answers sid bus (xs ! i) \<Longrightarrow>
   answers sid bus (xs ! j) \<Longrightarrow> i = j"
  unfolding routes_apart_def answers_def by metis

lemma find_on_stream_iff:
  assumes "routes_apart (ms_endpoints srv)"
  shows "find_slot_on_stream srv sid bus = Some i \<longleftrightarrow>
    i < length (ms_endpoints srv) \<and> answers sid bus (ms_endpoints srv ! i)"
proof -
  have "\<not> answers sid bus (ms_endpoints srv ! j)"
    if "i < length (ms_endpoints srv)" "answers sid bus (ms_endpoints srv ! i)" "j < i" for j
    using answers_unique [OF assms that(1) _ that(2), of j] that by auto
  then show ?thesis unfolding find_on_stream_answers by (auto simp: find_index_Some)
qed

lemma route_Some_iff:
  "routes_apart (ms_endpoints srv) \<Longrightarrow>
   route srv sid bus = Some s \<longleftrightarrow> (\<exists>i<length (ms_endpoints srv). ms_endpoints srv ! i = s \<and> answers sid bus s)"
  unfolding route_def by (auto simp: find_on_stream_iff)

lemma route_eqI:
  assumes "routes_apart (ms_endpoints srv)" and "routes_apart (ms_endpoints srv')"
    and "\<And>s. (s \<in> set (ms_endpoints srv) \<and> answers sid bus s) = (s \<in> set (ms_endpoints srv') \<and> answers sid' bus' s)"
  shows "route srv sid bus = route srv' sid' bus'"
proof -
  have "route srv sid bus = Some s \<longleftrightarrow> route srv' sid' bus' = Some s" for s
    unfolding route_Some_iff [OF assms(1)] route_Some_iff [OF assms(2)]
    using assms(3) [of s] by (simp add: in_set_conv_nth) metis
  then show ?thesis by (metis not_None_eq)
qed

section \<open>Operations that keep the routing\<close>

definition same_table :: "rcp_mock_server_t \<Rightarrow> rcp_mock_server_t \<Rightarrow> bool" where
  "same_table srv srv' \<longleftrightarrow> map slot_keys (ms_endpoints srv') = map slot_keys (ms_endpoints srv) \<and>
     ms_endpoint_count srv' = ms_endpoint_count srv \<and>
     rm_svr_ep_count (ms_regmap srv') = rm_svr_ep_count (ms_regmap srv) \<and>
     rm_svr_ep_generic_cfg_capacity (ms_regmap srv') = rm_svr_ep_generic_cfg_capacity (ms_regmap srv)"

lemma same_table_refl [simp]: "same_table srv srv"
  by (simp add: same_table_def)

lemma same_table_trans: "same_table a b \<Longrightarrow> same_table b c \<Longrightarrow> same_table a c"
  by (simp add: same_table_def)

lemma same_table_length: "same_table srv srv' \<Longrightarrow> length (ms_endpoints srv') = length (ms_endpoints srv)"
  unfolding same_table_def by (metis length_map)

lemma same_table_keys:
  "same_table srv srv' \<Longrightarrow> i < length (ms_endpoints srv) \<Longrightarrow>
   slot_keys (ms_endpoints srv' ! i) = slot_keys (ms_endpoints srv ! i)"
  using same_table_length [of srv srv'] unfolding same_table_def by (metis nth_map)

lemma same_table_find:
  assumes "same_table srv srv'"
  shows "find_slot_on_stream srv' sid bus = find_slot_on_stream srv sid bus"
    and "find_slot srv' bus = find_slot srv bus"
  unfolding find_slot_on_stream_def find_slot_def using same_table_length [OF assms] same_table_keys [OF assms]
  by (intro find_index_nth_cong; simp add: slot_keys_def)+

lemma same_table_ok:
  assumes "table_ok srv" and "same_table srv srv'"
  shows "table_ok srv'"
proof -
  have "length (filter sl_in_use xs) = length (filter fst (map slot_keys xs))" for xs
    by (induction xs) (simp_all add: slot_keys_def)
  then have "length (filter sl_in_use (ms_endpoints srv')) = length (filter sl_in_use (ms_endpoints srv))"
    using assms(2) unfolding same_table_def by metis
  moreover have "routes_apart (ms_endpoints srv')"
    using assms(1) same_table_keys [OF assms(2)] same_table_length [OF assms(2)]
    unfolding table_ok_def routes_apart_def by (simp add: slot_keys_def)
  ultimately show ?thesis using assms same_table_length [OF assms(2)]
    by (simp add: table_ok_def same_table_def)
qed

lemma same_table_upd_slot:
  "(\<And>s. slot_keys (f s) = slot_keys s) \<Longrightarrow> same_table srv (upd_slot srv i f)"
  unfolding same_table_def upd_slot_def
  by (simp add: map_update [symmetric]) (metis list_update_id map_update)

lemma same_table_put_queue [simp]: "same_table srv (put_queue srv i q)"
  unfolding put_queue_def by (rule same_table_upd_slot) (simp add: slot_keys_def)

lemma same_table_fields [simp]:
  "same_table srv (srv\<lparr>ms_calls := a\<rparr>)" "same_table srv (srv\<lparr>ms_sequencers := t\<rparr>)"
  "same_table srv (srv\<lparr>ms_watchdog := w\<rparr>)" "same_table srv (srv\<lparr>ms_stream_fault_tracker := f\<rparr>)"
  "same_table srv (srv\<lparr>ms_seq_tracker := st\<rparr>)" "same_table srv (srv\<lparr>ms_frag_first_header := h\<rparr>)"
  "same_table srv (upd_status srv idx g)" "same_table srv (put_reasm srv idx r)"
  by (simp_all add: same_table_def upd_status_def put_reasm_def)

section \<open>The safe state of a stream\<close>

definition purged_slot :: "rcp_mock_endpoint_slot_t \<Rightarrow> rcp_mock_endpoint_slot_t" where
  "purged_slot s = s\<lparr>sl_queue := snd (rcp_server_endpoint_watchdog_purge (sl_queue s))\<rparr>"

definition bound_slot :: "u64 option \<Rightarrow> rcp_mock_server_t \<Rightarrow> rcp_byte_bus_id_t \<Rightarrow> nat option" where
  "bound_slot resolved srv b =
     (case resolved of Some sid \<Rightarrow> find_slot_on_stream srv sid b | None \<Rightarrow> find_slot srv b)"

lemma bound_slot_same: "same_table srv srv' \<Longrightarrow> bound_slot r srv' = bound_slot r srv"
  by (rule ext) (simp add: bound_slot_def same_table_find split: option.split)

lemma bound_slot_bus:
  "bound_slot r srv b = Some i \<Longrightarrow> i < length (ms_endpoints srv) \<and> sl_byte_bus_id (ms_endpoints srv ! i) = b"
  by (auto simp: bound_slot_def find_slot_def find_slot_on_stream_def dest: find_index_SomeD split: option.splits)

text \<open>One turn of the loop.\<close>

lemma purge_bound_step:
  "snd (purge_bound r srv (b # bs)) =
   snd (purge_bound r (case bound_slot r srv b of None \<Rightarrow> srv | Some i \<Rightarrow> upd_slot srv i purged_slot) bs)"
  by (simp add: bound_slot_def rcp_mock_server_watchdog_purge_on_stream_def rcp_mock_server_watchdog_purge_def
      put_queue_def slot_queue_def upd_slot_def purged_slot_def Let_def case_prod_unfold split: option.split)

lemma purge_bound_exact:
  "distinct bs \<Longrightarrow>
   snd (purge_bound r srv bs) = srv\<lparr>ms_endpoints := ms_endpoints (snd (purge_bound r srv bs))\<rparr> \<and>
   length (ms_endpoints (snd (purge_bound r srv bs))) = length (ms_endpoints srv) \<and>
   (\<forall>j<length (ms_endpoints srv). ms_endpoints (snd (purge_bound r srv bs)) ! j =
      (if \<exists>b\<in>set bs. bound_slot r srv b = Some j then purged_slot (ms_endpoints srv ! j) else ms_endpoints srv ! j))"
proof (induction bs arbitrary: srv)
  case (Cons b bs)
  define srv1 where "srv1 = (case bound_slot r srv b of None \<Rightarrow> srv | Some i \<Rightarrow> upd_slot srv i purged_slot)"
  have keys: "slot_keys (purged_slot s) = slot_keys s" for s by (simp add: slot_keys_def purged_slot_def)
  have same: "same_table srv srv1"
    unfolding srv1_def by (auto simp: keys intro: same_table_upd_slot split: option.split)
  have eps: "srv1 = srv\<lparr>ms_endpoints := ms_endpoints srv1\<rparr>"
    "j < length (ms_endpoints srv) \<Longrightarrow> ms_endpoints srv1 ! j =
      (if bound_slot r srv b = Some j then purged_slot (ms_endpoints srv ! j) else ms_endpoints srv ! j)" for j
    by (auto simp: srv1_def upd_slot_def nth_list_update split: option.split)
  have once: "bound_slot r srv b = Some j \<Longrightarrow> \<forall>c\<in>set bs. bound_slot r srv c \<noteq> Some j" for j
    using bound_slot_bus [of r srv] Cons.prems by (metis distinct.simps(2))
  have ih: "snd (purge_bound r srv1 bs) = srv1\<lparr>ms_endpoints := ms_endpoints (snd (purge_bound r srv1 bs))\<rparr>"
    "length (ms_endpoints (snd (purge_bound r srv1 bs))) = length (ms_endpoints srv)"
    "j < length (ms_endpoints srv) \<Longrightarrow> ms_endpoints (snd (purge_bound r srv1 bs)) ! j =
      (if \<exists>b\<in>set bs. bound_slot r srv b = Some j then purged_slot (ms_endpoints srv1 ! j) else ms_endpoints srv1 ! j)" for j
    using Cons.IH [of srv1] Cons.prems unfolding same_table_length [OF same] bound_slot_same [OF same]
    by (simp_all only: distinct.simps simp_thms)
  have "snd (purge_bound r srv1 bs) = srv\<lparr>ms_endpoints := ms_endpoints (snd (purge_bound r srv1 bs))\<rparr>"
    by (subst ih(1), subst (1) eps(1)) simp
  with ih(2,3) eps(2) once show ?case unfolding purge_bound_step srv1_def [symmetric] by auto
qed simp

text \<open>The slots the broadcast for a stream reaches.\<close>

definition safe_state_slots :: "rcp_mock_server_t \<Rightarrow> byte \<Rightarrow> nat set" where
  "safe_state_slots srv idx =
     (let resolved = (if unat idx \<le> length (ms_request_stream_cfg srv)
                      then Some (rsc_rx_stream_id (ms_request_stream_cfg srv ! (unat idx - 1))) else None)
      in {j. idx \<noteq> 0 \<and> (\<exists>b\<in>set (take RCP_MOCK_MAX_ENDPOINTS (stream_buses idx (ms_ep_id_map srv))).
             bound_slot resolved srv b = Some j)})"

lemma broadcast_exact:
  "snd (rcp_mock_server_broadcast_safe_state srv idx) =
     srv\<lparr>ms_endpoints := ms_endpoints (snd (rcp_mock_server_broadcast_safe_state srv idx))\<rparr>"
  "length (ms_endpoints (snd (rcp_mock_server_broadcast_safe_state srv idx))) = length (ms_endpoints srv)"
  "j < length (ms_endpoints srv) \<Longrightarrow> ms_endpoints (snd (rcp_mock_server_broadcast_safe_state srv idx)) ! j =
     (if j \<in> safe_state_slots srv idx then purged_slot (ms_endpoints srv ! j) else ms_endpoints srv ! j)"
proof -
  define bs where "bs = take RCP_MOCK_MAX_ENDPOINTS (stream_buses idx (ms_ep_id_map srv))"
  have d: "distinct bs" unfolding bs_def by (simp add: stream_buses_def)
  have ids: "rcp_regmap_ep_id_map_byte_bus_ids_for_stream (ms_ep_id_map srv) idx RCP_MOCK_MAX_ENDPOINTS =
      (length (stream_buses idx (ms_ep_id_map srv)), bs)"
    unfolding bs_def by (rule byte_bus_ids_exact)
  have t: "take (min (length (stream_buses idx (ms_ep_id_map srv))) RCP_MOCK_MAX_ENDPOINTS) bs = bs"
    by (simp add: bs_def min_def)
  show "snd (rcp_mock_server_broadcast_safe_state srv idx) =
      srv\<lparr>ms_endpoints := ms_endpoints (snd (rcp_mock_server_broadcast_safe_state srv idx))\<rparr>"
    "length (ms_endpoints (snd (rcp_mock_server_broadcast_safe_state srv idx))) = length (ms_endpoints srv)"
    "j < length (ms_endpoints srv) \<Longrightarrow> ms_endpoints (snd (rcp_mock_server_broadcast_safe_state srv idx)) ! j =
      (if j \<in> safe_state_slots srv idx then purged_slot (ms_endpoints srv ! j) else ms_endpoints srv ! j)"
    using purge_bound_exact [OF d, of _ srv]
    by (auto simp: rcp_mock_server_broadcast_safe_state_def ids t safe_state_slots_def Let_def bs_def [symmetric])
qed

section \<open>Registration and removal\<close>

lemma routes_apart_update:
  assumes "routes_apart xs" and "sl_in_use y \<Longrightarrow> \<forall>s\<in>set xs. sl_in_use s \<and> sl_byte_bus_id s = sl_byte_bus_id y \<longrightarrow>
      sl_stream_scoped s \<and> sl_stream_scoped y \<and> sl_stream_id s \<noteq> sl_stream_id y"
  shows "routes_apart (xs[i := y])"
  unfolding routes_apart_def
proof (intro allI impI)
  fix a b
  assume h: "a < length (xs[i := y])" "b < length (xs[i := y])" "a \<noteq> b" "sl_in_use (xs[i := y] ! a)"
    "sl_in_use (xs[i := y] ! b)" "sl_byte_bus_id (xs[i := y] ! a) = sl_byte_bus_id (xs[i := y] ! b)"
  then have "sl_in_use y" if "a = i \<or> b = i" using that by auto
  with h assms show "sl_stream_scoped (xs[i := y] ! a) \<and> sl_stream_scoped (xs[i := y] ! b) \<and>
      sl_stream_id (xs[i := y] ! a) \<noteq> sl_stream_id (xs[i := y] ! b)"
    by (cases "a = i"; cases "b = i") (auto simp: routes_apart_def)
qed

lemma route_replace:
  assumes "routes_apart (ms_endpoints srv)" and "routes_apart (ms_endpoints srv')"
    and eps: "ms_endpoints srv' = (ms_endpoints srv)[i := y]" and i: "i < length (ms_endpoints srv)"
  shows "route srv' sid bus = (if answers sid bus y then Some y
    else if answers sid bus (ms_endpoints srv ! i) then None else route srv sid bus)"
proof -
  have new: "route srv' sid bus = Some s \<longleftrightarrow>
      (\<exists>k<length (ms_endpoints srv). (if k = i then y else ms_endpoints srv ! k) = s \<and> answers sid bus s)" for s
    unfolding route_Some_iff [OF assms(2)] eps using i by (auto simp: nth_list_update)
  show ?thesis
  proof (cases "answers sid bus y")
    case True
    with new [of y] i show ?thesis by auto
  next
    case n: False
    show ?thesis
    proof (cases "answers sid bus (ms_endpoints srv ! i)")
      case True
      then have "route srv' sid bus \<noteq> Some s" for s
        unfolding new using n answers_unique [OF assms(1) i _ True] by auto
      with n True show ?thesis by (metis not_None_eq)
    next
      case False
      then have "route srv' sid bus = Some s \<longleftrightarrow> route srv sid bus = Some s" for s
        unfolding new route_Some_iff [OF assms(1)] using n by auto
      with n False show ?thesis by (metis not_None_eq)
    qed
  qed
qed

lemma table_ok_count:
  "table_ok srv \<Longrightarrow> ms_endpoint_count srv \<le> RCP_MOCK_MAX_ENDPOINTS \<and>
   (ms_endpoint_count srv < RCP_MOCK_MAX_ENDPOINTS \<longleftrightarrow> (\<exists>s\<in>set (ms_endpoints srv). \<not> sl_in_use s))"
  using length_filter_le [of sl_in_use "ms_endpoints srv"] length_filter_less [of _ "ms_endpoints srv" sl_in_use]
    filter_True [of "ms_endpoints srv" sl_in_use]
  by (fastforce simp: table_ok_def)

text \<open>A slot that is claimed for an endpoint that conflicts with none.\<close>

lemma claim_endpoint:
  assumes ok: "table_ok srv" and use: "sl_in_use y"
    and apart: "\<forall>s\<in>set (ms_endpoints srv). sl_in_use s \<and> sl_byte_bus_id s = sl_byte_bus_id y \<longrightarrow>
      sl_stream_scoped s \<and> sl_stream_scoped y \<and> sl_stream_id s \<noteq> sl_stream_id y"
    and claim: "claim_endpoint_slot srv y = (rc, srv')"
  shows "rc = (if ms_endpoint_count srv = RCP_MOCK_MAX_ENDPOINTS then RCP_MOCK_ERR_CAPACITY else RCP_MOCK_OK)"
    and "table_ok srv'" and "rc \<noteq> RCP_MOCK_OK \<longrightarrow> srv' = srv"
    and "rc = RCP_MOCK_OK \<longrightarrow> route srv' sid bus = (if answers sid bus y then Some y else route srv sid bus)"
proof -
  note count = table_ok_count [OF ok]
  show rc: "rc = (if ms_endpoint_count srv = RCP_MOCK_MAX_ENDPOINTS then RCP_MOCK_ERR_CAPACITY else RCP_MOCK_OK)"
    using claim count by (auto simp: claim_endpoint_slot_def find_index_None split: if_splits option.splits)
  show "rc \<noteq> RCP_MOCK_OK \<longrightarrow> srv' = srv"
    using claim by (auto simp: claim_endpoint_slot_def split: if_splits option.splits)
  have new: "\<exists>i<length (ms_endpoints srv). \<not> sl_in_use (ms_endpoints srv ! i) \<and>
      srv' = set_endpoint_count (upd_slot srv i (\<lambda>s. y)) (ms_endpoint_count srv + 1)" if "rc = RCP_MOCK_OK"
    using claim that by (auto simp: claim_endpoint_slot_def dest!: find_index_SomeD split: if_splits option.splits)
  have apart': "routes_apart ((ms_endpoints srv)[i := y])" for i
    using ok apart by (intro routes_apart_update) (auto simp: table_ok_def)
  show "table_ok srv'"
  proof (cases "rc = RCP_MOCK_OK")
    case True
    then obtain i where i: "i < length (ms_endpoints srv)" "\<not> sl_in_use (ms_endpoints srv ! i)"
      "srv' = set_endpoint_count (upd_slot srv i (\<lambda>s. y)) (ms_endpoint_count srv + 1)" using new by blast
    then show ?thesis using ok apart' use length_filter_update [OF i(1), of sl_in_use y]
      by (simp add: table_ok_def set_endpoint_count_def upd_slot_def)
  qed (use ok \<open>rc \<noteq> RCP_MOCK_OK \<longrightarrow> srv' = srv\<close> in simp)
  then show "rc = RCP_MOCK_OK \<longrightarrow> route srv' sid bus = (if answers sid bus y then Some y else route srv sid bus)"
  proof (intro impI)
    assume ok': "table_ok srv'" and "rc = RCP_MOCK_OK"
    then obtain i where i: "i < length (ms_endpoints srv)" "\<not> sl_in_use (ms_endpoints srv ! i)"
      "srv' = set_endpoint_count (upd_slot srv i (\<lambda>s. y)) (ms_endpoint_count srv + 1)" using new by blast
    have "ms_endpoints srv' = (ms_endpoints srv)[i := y]" by (simp add: i(3) set_endpoint_count_def upd_slot_def)
    moreover have "\<not> answers sid bus (ms_endpoints srv ! i)" using i(2) by (simp add: answers_def)
    ultimately show "route srv' sid bus = (if answers sid bus y then Some y else route srv sid bus)"
      using route_replace [of srv srv' i y sid bus] ok ok' i(1) by (simp add: table_ok_def)
  qed
qed

lemma find_slot_route: "find_slot srv bus \<noteq> None \<longleftrightarrow> (\<exists>sid. route srv sid bus \<noteq> None)"
  by (auto simp: route_def find_slot_def find_slot_on_stream_def find_index_None)

lemma route_new_slot:
  "answers sid bus (new_endpoint_slot b ty en h ud) \<longleftrightarrow> bus = b"
  "answers sid bus ((new_endpoint_slot b ty en h ud)\<lparr>sl_stream_scoped := True, sl_stream_id := s\<rparr>) \<longleftrightarrow> bus = b \<and> sid = s"
  by (auto simp: answers_def new_endpoint_slot_def zero_endpoint_slot_def)

text \<open>Registration without a stream.\<close>

lemma add_endpoint_routes:
  assumes ok: "table_ok srv" and add: "rcp_mock_server_add_endpoint srv bus ty en h ud = (rc, srv')"
  shows "rc = (if \<exists>s. route srv s bus \<noteq> None then RCP_MOCK_ERR_DUPLICATE_BUS_ID
      else if ms_endpoint_count srv = RCP_MOCK_MAX_ENDPOINTS then RCP_MOCK_ERR_CAPACITY else RCP_MOCK_OK)"
    and "table_ok srv'"
    and "if rc = RCP_MOCK_OK
      then \<forall>s b. route srv' s b = (if b = bus then Some (new_endpoint_slot bus ty en h ud) else route srv s b)
      else srv' = srv"
proof -
  let ?y = "new_endpoint_slot bus ty en h ud"
  have use: "sl_in_use ?y" "sl_byte_bus_id ?y = bus" by (simp_all add: new_endpoint_slot_def)
  have y: "\<forall>s\<in>set (ms_endpoints srv). sl_in_use s \<and> sl_byte_bus_id s = sl_byte_bus_id ?y \<longrightarrow>
      sl_stream_scoped s \<and> sl_stream_scoped ?y \<and> sl_stream_id s \<noteq> sl_stream_id ?y" if "find_slot srv bus = None"
    using that by (auto simp: use find_slot_def find_index_None)
  note claim = claim_endpoint [OF ok use(1) y prod.collapse [symmetric]]
  show "rc = (if \<exists>s. route srv s bus \<noteq> None then RCP_MOCK_ERR_DUPLICATE_BUS_ID
      else if ms_endpoint_count srv = RCP_MOCK_MAX_ENDPOINTS then RCP_MOCK_ERR_CAPACITY else RCP_MOCK_OK)"
    using claim(1) add unfolding find_slot_route [symmetric] by (auto simp: rcp_mock_server_add_endpoint_def split: if_splits)
  show "table_ok srv'" using claim(2) add ok by (auto simp: rcp_mock_server_add_endpoint_def split: if_splits)
  show "if rc = RCP_MOCK_OK
      then \<forall>s b. route srv' s b = (if b = bus then Some ?y else route srv s b)
      else srv' = srv"
    using claim(3,4) add by (auto simp: rcp_mock_server_add_endpoint_def route_new_slot split: if_splits)
qed

lemma release_endpoint:
  assumes ok: "table_ok srv" and hit: "i < length (ms_endpoints srv)" "sl_in_use (ms_endpoints srv ! i)"
    and srv': "release_endpoint_slot srv (Some i) = (found, srv')"
  shows "found" and "table_ok srv'"
    and "route srv' sid bus = (if answers sid bus (ms_endpoints srv ! i) then None else route srv sid bus)"
proof -
  have e: "found" "srv' = set_endpoint_count (upd_slot srv i (\<lambda>s. zero_endpoint_slot)) (size_sub (ms_endpoint_count srv) 1)"
    using srv' by (simp_all add: release_endpoint_slot_def)
  have n: "\<not> sl_in_use zero_endpoint_slot" "\<not> answers sid bus zero_endpoint_slot"
    by (simp_all add: zero_endpoint_slot_def answers_def)
  have c: "length (filter sl_in_use ((ms_endpoints srv)[i := zero_endpoint_slot])) + 1 = ms_endpoint_count srv"
    using length_filter_update [OF hit(1), of sl_in_use zero_endpoint_slot] hit(2) n ok by (simp add: table_ok_def)
  have sub: "size_sub (ms_endpoint_count srv) 1 = ms_endpoint_count srv - 1"
    using c table_ok_count [OF ok] by (intro size_sub_exact) (simp_all add: consts_rcp SIZE_MAX_def)
  have apart: "routes_apart ((ms_endpoints srv)[i := zero_endpoint_slot])"
    using ok n by (intro routes_apart_update) (auto simp: table_ok_def)
  show "found" by (rule e(1))
  show ok': "table_ok srv'" using ok c apart unfolding e(2) sub
    by (simp add: table_ok_def set_endpoint_count_def upd_slot_def)
  show "route srv' sid bus = (if answers sid bus (ms_endpoints srv ! i) then None else route srv sid bus)"
    using route_replace [of srv srv' i zero_endpoint_slot sid bus] ok ok' hit n
    by (simp add: e(2) table_ok_def set_endpoint_count_def upd_slot_def)
qed

end
