(* ===== verification/Mock_Effects.thy ===== *)
theory Mock_Effects
  imports Mock_Table
begin

text \<open>
  What a request may do to the server of \<^verbatim>\<open>src/mock.c\<close>: it changes the queue of the endpoint it
  is for, and through the safe state of its stream it may purge the stores of other endpoints; it
  changes neither the routing nor the configuration, and runs at most the handler of its endpoint.
\<close>

section \<open>Relations on servers\<close>

text \<open>The configuration that no request changes, and the sizes of the tables indexed by stream.\<close>

definition array_sizes :: "rcp_mock_server_t \<Rightarrow> nat list" where
  "array_sizes srv = [length (ms_seq_tracker srv), length (ms_stream_status srv), length (ms_frag_reasm srv),
     length (ms_frag_first_header srv), length (ms_response_queue_seeded srv),
     length (ms_response_queue_last_transmit_us srv)]"

definition settings :: "rcp_mock_server_t \<Rightarrow> rcp_lifecycle_state_t \<times> rcp_regmap_general_t \<times> nat \<times>
    rcp_regmap_request_stream_cfg_t list \<times> rcp_regmap_ep_id_map_entry_t list \<times> rcp_avtp_tscf_fallback_t \<times>
    rcp_regmap_response_queue_cfg_t list \<times> rcp_regmap_hw_pin_map_entry_t list \<times> nat list" where
  "settings srv = (ms_state srv, ms_regmap srv, ms_endpoint_count srv, ms_request_stream_cfg srv, ms_ep_id_map srv,
     ms_tscf_policy srv, ms_response_queue_cfg srv, ms_hw_pin_map srv, array_sizes srv)"

text \<open>An endpoint slot without its queue.\<close>

definition slot_rest :: "rcp_mock_endpoint_slot_t \<Rightarrow> rcp_mock_endpoint_slot_t" where
  "slot_rest s = s\<lparr>sl_queue := rcp_server_endpoint_init False\<rparr>"

lemma slot_rest_simps [simp]:
  "slot_rest (s\<lparr>sl_queue := q\<rparr>) = slot_rest s" "slot_rest (purged_slot s) = slot_rest s"
  by (simp_all add: slot_rest_def purged_slot_def)

lemma slot_restD:
  "slot_rest s = slot_rest s' \<Longrightarrow> slot_keys s = slot_keys s' \<and> sl_handler s = sl_handler s' \<and>
     sl_user_data s = sl_user_data s' \<and> sl_req_crc_enable s = sl_req_crc_enable s' \<and>
     sl_rx_enforce_e2e s = sl_rx_enforce_e2e s'"
  by (cases s; cases s') (simp add: slot_rest_def slot_keys_def)

definition only_queues :: "rcp_mock_server_t \<Rightarrow> rcp_mock_server_t \<Rightarrow> bool" where
  "only_queues srv srv' \<longleftrightarrow> settings srv' = settings srv \<and>
     map slot_rest (ms_endpoints srv') = map slot_rest (ms_endpoints srv)"

lemma only_queues_length: "only_queues srv srv' \<Longrightarrow> length (ms_endpoints srv') = length (ms_endpoints srv)"
  unfolding only_queues_def by (metis length_map)

lemma only_queues_nth:
  "only_queues srv srv' \<Longrightarrow> j < length (ms_endpoints srv) \<Longrightarrow>
   slot_rest (ms_endpoints srv' ! j) = slot_rest (ms_endpoints srv ! j)"
  using only_queues_length [of srv srv'] unfolding only_queues_def by (metis nth_map)

text \<open>Only the endpoint at slot \<open>i\<close> changes.\<close>

definition queue_at :: "nat \<Rightarrow> rcp_mock_server_t \<Rightarrow> rcp_mock_server_t \<Rightarrow> bool" where
  "queue_at i srv srv' \<longleftrightarrow> only_queues srv srv' \<and>
     (\<forall>j<length (ms_endpoints srv). j \<noteq> i \<longrightarrow> ms_endpoints srv' ! j = ms_endpoints srv ! j)"

text \<open>The endpoints other than \<open>tgt\<close> are unchanged or purged.\<close>

definition effect :: "nat option \<Rightarrow> rcp_mock_server_t \<Rightarrow> rcp_mock_server_t \<Rightarrow> bool" where
  "effect tgt srv srv' \<longleftrightarrow> only_queues srv srv' \<and>
     (\<forall>j<length (ms_endpoints srv). tgt \<noteq> Some j \<longrightarrow>
        ms_endpoints srv' ! j = ms_endpoints srv ! j \<or> ms_endpoints srv' ! j = purged_slot (ms_endpoints srv ! j))"

lemma only_queues_refl [simp]: "only_queues srv srv"
  by (simp add: only_queues_def)

lemma only_queues_trans: "only_queues a b \<Longrightarrow> only_queues b c \<Longrightarrow> only_queues a c"
  by (simp add: only_queues_def)

lemma only_queues_table: "only_queues srv srv' \<Longrightarrow> same_table srv srv'"
proof -
  assume h: "only_queues srv srv'"
  have "map slot_keys (ms_endpoints srv') = map slot_keys (ms_endpoints srv)"
    using only_queues_length [OF h] slot_restD [OF only_queues_nth [OF h]] by (intro nth_equalityI) simp_all
  with h show ?thesis by (simp add: same_table_def only_queues_def settings_def)
qed

lemma queue_at_refl [simp]: "queue_at i srv srv"
  by (simp add: queue_at_def)

lemma queue_at_trans: "queue_at i a b \<Longrightarrow> queue_at i b c \<Longrightarrow> queue_at i a c"
  unfolding queue_at_def using only_queues_length [of a b] only_queues_trans [of a b c] by simp

lemma effect_of_queue: "queue_at i srv srv' \<Longrightarrow> effect (Some i) srv srv'"
  by (simp add: queue_at_def effect_def)

lemma effect_of_none: "effect None srv srv' \<Longrightarrow> effect t srv srv'"
  by (auto simp: effect_def)

lemma effect_refl [simp]: "effect t srv srv"
  by (simp add: effect_def)

lemma queue_then_effect: "queue_at i a b \<Longrightarrow> effect (Some i) b c \<Longrightarrow> effect (Some i) a c"
  unfolding queue_at_def effect_def using only_queues_length [of a b] only_queues_trans [of a b c] by auto

lemma effect_then_queue: "effect (Some i) a b \<Longrightarrow> queue_at i b c \<Longrightarrow> effect (Some i) a c"
  unfolding queue_at_def effect_def using only_queues_length [of a b] only_queues_trans [of a b c] by auto

text \<open>Changes outside the endpoints and the configuration.\<close>

definition outside :: "rcp_mock_server_t \<Rightarrow> rcp_mock_server_t \<Rightarrow> bool" where
  "outside srv srv' \<longleftrightarrow> settings srv' = settings srv \<and> ms_endpoints srv' = ms_endpoints srv"

lemma outside_fields [simp]:
  "outside srv srv"
  "outside srv (srv\<lparr>ms_calls := a\<rparr>)" "outside srv (srv\<lparr>ms_sequencers := t\<rparr>)"
  "outside srv (srv\<lparr>ms_watchdog := w\<rparr>)" "outside srv (srv\<lparr>ms_stream_fault_tracker := f\<rparr>)"
  "outside srv (srv\<lparr>ms_seq_tracker := (ms_seq_tracker srv)[k := st]\<rparr>)"
  "outside srv (srv\<lparr>ms_frag_first_header := (ms_frag_first_header srv)[k := h]\<rparr>)"
  "outside srv (upd_status srv idx g)" "outside srv (put_reasm srv idx r)" "outside srv (kick_watchdog mem srv sid)"
  by (simp_all add: outside_def settings_def array_sizes_def upd_status_def put_reasm_def kick_watchdog_def split: option.split)

lemma outside_queue_at: "outside srv srv' \<Longrightarrow> queue_at i srv srv'"
  by (simp add: outside_def queue_at_def only_queues_def)

lemma outside_effect:
  "outside a b \<Longrightarrow> effect t b c \<Longrightarrow> effect t a c" "effect t a b \<Longrightarrow> outside b c \<Longrightarrow> effect t a c"
  by (simp_all add: outside_def effect_def only_queues_def)

lemma outside_trans: "outside a b \<Longrightarrow> outside b c \<Longrightarrow> outside a c"
  by (simp add: outside_def)

lemma outside_find:
  assumes "outside srv srv'"
  shows "find_slot_on_stream srv' sid bus = find_slot_on_stream srv sid bus" and "find_slot srv' bus = find_slot srv bus"
    and "stream_index_of srv' sid = stream_index_of srv sid" and "ms_endpoints srv' = ms_endpoints srv"
    and "suppress_response_per_stream_cfg srv' sid r = suppress_response_per_stream_cfg srv sid r"
  using assms by (simp_all add: outside_def settings_def find_slot_on_stream_def find_slot_def stream_index_of_def
      suppress_response_per_stream_cfg_def Let_def split: option.split)

lemma queue_at_put [simp]: "queue_at i srv (put_queue srv i q)"
proof -
  have "map slot_rest ((ms_endpoints srv)[i := (ms_endpoints srv ! i)\<lparr>sl_queue := q\<rparr>]) = map slot_rest (ms_endpoints srv)"
    by (simp add: map_update) (metis list_update_id map_update)
  then show ?thesis by (simp add: queue_at_def only_queues_def settings_def array_sizes_def put_queue_def upd_slot_def)
qed

lemma untouched_fields [simp]:
  "ms_calls (upd_status srv idx g) = ms_calls srv" "ms_calls (put_queue srv i q) = ms_calls srv"
  "ms_calls (put_reasm srv idx r) = ms_calls srv" "ms_calls (kick_watchdog mem srv sid) = ms_calls srv"
  "ms_stream_fault_tracker (upd_status srv idx g) = ms_stream_fault_tracker srv"
  "ms_stream_fault_tracker (put_queue srv i q) = ms_stream_fault_tracker srv"
  "ms_stream_fault_tracker (put_reasm srv idx r) = ms_stream_fault_tracker srv"
  "ms_stream_fault_tracker (kick_watchdog mem srv sid) = ms_stream_fault_tracker srv"
  by (simp_all add: upd_status_def put_queue_def upd_slot_def put_reasm_def kick_watchdog_def split: option.split)

section \<open>Safe state\<close>

lemma broadcast_effect: "effect None srv (snd (rcp_mock_server_broadcast_safe_state srv idx))"
proof -
  note b = broadcast_exact [where srv = srv and idx = idx]
  have "settings (snd (rcp_mock_server_broadcast_safe_state srv idx)) = settings srv"
    by (subst b(1)) (simp add: settings_def array_sizes_def)
  moreover have "map slot_rest (ms_endpoints (snd (rcp_mock_server_broadcast_safe_state srv idx))) =
      map slot_rest (ms_endpoints srv)"
    using b(2,3) by (intro nth_equalityI) simp_all
  ultimately show ?thesis using b(3) by (auto simp: effect_def only_queues_def)
qed

lemma broadcast_calls [simp]:
  "ms_calls (snd (rcp_mock_server_broadcast_safe_state srv idx)) = ms_calls srv"
  "ms_stream_fault_tracker (snd (rcp_mock_server_broadcast_safe_state srv idx)) = ms_stream_fault_tracker srv"
  "ms_frag_reasm (snd (rcp_mock_server_broadcast_safe_state srv idx)) = ms_frag_reasm srv"
  by (subst broadcast_exact(1), simp)+

lemma note_overflow_effect:
  "effect None srv (note_storage_overflow srv sid)" "ms_calls (note_storage_overflow srv sid) = ms_calls srv"
  "ms_stream_fault_tracker (note_storage_overflow srv sid) = ms_stream_fault_tracker srv"
  by (simp_all add: note_storage_overflow_def Let_def outside_effect(1) [OF outside_fields(8) broadcast_effect]
      outside_effect(2) [OF effect_refl outside_fields(8)])

lemma note_crc_effect:
  "effect None srv (note_crc_failure srv sid enforce)" "ms_calls (note_crc_failure srv sid enforce) = ms_calls srv"
  "ms_stream_fault_tracker (note_crc_failure srv sid enforce) =
     map_option (\<lambda>t. snd (rcp_e2e_stream_fault_tracker_on_crc_error t sid enforce)) (ms_stream_fault_tracker srv)"
proof -
  define srv1 where "srv1 = (case ms_stream_fault_tracker srv of
       None \<Rightarrow> srv
     | Some t \<Rightarrow> srv\<lparr>ms_stream_fault_tracker := Some (snd (rcp_e2e_stream_fault_tracker_on_crc_error t sid enforce))\<rparr>)"
  have o: "outside srv srv1" and calls: "ms_calls srv1 = ms_calls srv"
    and trk: "ms_stream_fault_tracker srv1 =
      map_option (\<lambda>t. snd (rcp_e2e_stream_fault_tracker_on_crc_error t sid enforce)) (ms_stream_fault_tracker srv)"
    by (simp_all add: srv1_def split: option.split)
  define srv2 where "srv2 = upd_status srv1 (stream_index_of srv1 sid)
       (\<lambda>s. snd (rcp_e2e_stream_status_note_crc_error s enforce))"
  have o2: "outside srv1 srv2" "ms_calls srv2 = ms_calls srv1"
    "ms_stream_fault_tracker srv2 = ms_stream_fault_tracker srv1"
    by (simp_all add: srv2_def)
  have eq: "note_crc_failure srv sid enforce =
      (if stream_index_of srv1 sid = 0 then srv1
       else if enforce then snd (rcp_mock_server_broadcast_safe_state srv2 (stream_index_of srv1 sid)) else srv2)"
    by (simp add: note_crc_failure_def srv1_def srv2_def Let_def rcp_e2e_crc_error_should_enter_safe_state_def)
  show "effect None srv (note_crc_failure srv sid enforce)"
    unfolding eq using outside_effect(1) [OF outside_trans [OF o o2(1)] broadcast_effect]
      outside_effect(2) [OF effect_refl o] outside_effect(2) [OF effect_refl outside_trans [OF o o2(1)]] by simp
  show "ms_calls (note_crc_failure srv sid enforce) = ms_calls srv"
    "ms_stream_fault_tracker (note_crc_failure srv sid enforce) =
       map_option (\<lambda>t. snd (rcp_e2e_stream_fault_tracker_on_crc_error t sid enforce)) (ms_stream_fault_tracker srv)"
    unfolding eq using o2 calls trk by simp_all
qed

section \<open>One request\<close>

definition handler_call :: "rcp_mock_server_t \<Rightarrow> nat \<Rightarrow> bytes \<Rightarrow> mock_call list" where
  "handler_call srv i request =
     (case sl_handler (ms_endpoints srv ! i) of
        None \<Rightarrow> [] | Some h \<Rightarrow> [(h, sl_user_data (ms_endpoints srv ! i), request)])"

lemma handler_call_same:
  "only_queues srv srv' \<Longrightarrow> i < length (ms_endpoints srv) \<Longrightarrow> handler_call srv' i request = handler_call srv i request"
  using slot_restD [OF only_queues_nth [of srv srv' i]] by (simp add: handler_call_def split: option.split)

lemma run_handler_effect:
  "run_handler hs srv i request = (response, srv') \<Longrightarrow>
   outside srv srv' \<and> ms_calls srv' = ms_calls srv @ handler_call srv i request \<and>
   ms_stream_fault_tracker srv' = ms_stream_fault_tracker srv"
  by (auto simp: run_handler_def handler_call_def Let_def split: option.splits)

lemma finish_admission_effect:
  "finish_admission hs mem srv i adm request bus = (r, response, srv') \<Longrightarrow>
   queue_at i srv srv' \<and> ms_stream_fault_tracker srv' = ms_stream_fault_tracker srv \<and>
   (r = RCP_MOCK_DISPATCH_OK \<longleftrightarrow> adm_result adm = RCP_SERVER_ADMIT_EXECUTE_NOW) \<and>
   ms_calls srv' = ms_calls srv @
     (if adm_result adm = RCP_SERVER_ADMIT_EXECUTE_NOW then handler_call srv i request else [])"
  by (cases "adm_result adm")
    (auto simp: finish_admission_def outside_queue_at dest!: run_handler_effect split: prod.splits)

lemma after_admission_effect:
  assumes "after_admission hs mem srv i adm bus time_sync sid request = (r, response, srv')"
    and i: "i < length (ms_endpoints srv)"
  shows "effect (Some i) srv srv' \<and> ms_stream_fault_tracker srv' = ms_stream_fault_tracker srv \<and>
    (ms_calls srv' = ms_calls srv \<or> r = RCP_MOCK_DISPATCH_OK \<and> ms_calls srv' = ms_calls srv @ handler_call srv i request)"
proof -
  define srv1 where "srv1 = (if adm_error adm = RCP_ERROR_REQUEST_STORAGE_OVERFLOW
     then note_storage_overflow srv sid else srv)"
  have e: "effect (Some i) srv srv1" "ms_calls srv1 = ms_calls srv"
    "ms_stream_fault_tracker srv1 = ms_stream_fault_tracker srv"
    unfolding srv1_def using note_overflow_effect effect_of_none by simp_all
  have h: "handler_call srv1 i request = handler_call srv i request"
    using e(1) i by (intro handler_call_same) (simp_all add: effect_def)
  have "(\<exists>s st err. (s = srv \<or> s = srv1) \<and> reject_stored mem s i st bus err = (r, response, srv')) \<or>
      finish_admission hs mem srv1 i adm request bus = (r, response, srv')"
    using assms(1) unfolding after_admission_def srv1_def [symmetric] Let_def by (auto split: if_splits)
  then show ?thesis
  proof
    assume "\<exists>s st err. (s = srv \<or> s = srv1) \<and> reject_stored mem s i st bus err = (r, response, srv')"
    then obtain s q where s: "s = srv \<or> s = srv1" "srv' = put_queue s i q"
      by (auto simp: reject_stored_def Let_def)
    moreover have "effect (Some i) srv s" using s e(1) by auto
    ultimately show ?thesis using e effect_then_queue [OF _ queue_at_put] by auto
  next
    assume "finish_admission hs mem srv1 i adm request bus = (r, response, srv')"
    from finish_admission_effect [OF this] e h effect_then_queue show ?thesis by (auto split: if_splits)
  qed
qed

lemma dispatch_plain_effect:
  assumes "dispatch_plain hs mem srv bus sub mt time_sync sid pt request = (r, response, srv')"
  shows "effect (find_slot_on_stream srv sid bus) srv srv'"
    and "ms_stream_fault_tracker srv' = ms_stream_fault_tracker srv"
    and "ms_calls srv' = ms_calls srv \<or>
      r = RCP_MOCK_DISPATCH_OK \<and>
      rcp_lifecycle_should_accept (ms_state srv) time_sync sub mt bus (ms_tscf_policy srv) = RCP_LIFECYCLE_ACCEPT \<and>
      (\<exists>i<length (ms_endpoints srv). find_slot_on_stream srv sid bus = Some i \<and>
         ms_calls srv' = ms_calls srv @ handler_call srv i request)"
proof -
  obtain resp where inner: "dispatch_plain_inner hs mem srv bus sub mt time_sync sid pt request = (r, resp, srv')"
    using assms by (auto simp: dispatch_plain_def split: prod.splits)
  have "effect (find_slot_on_stream srv sid bus) srv srv' \<and>
      ms_stream_fault_tracker srv' = ms_stream_fault_tracker srv \<and>
      (ms_calls srv' = ms_calls srv \<or> r = RCP_MOCK_DISPATCH_OK \<and>
       rcp_lifecycle_should_accept (ms_state srv) time_sync sub mt bus (ms_tscf_policy srv) = RCP_LIFECYCLE_ACCEPT \<and>
       (\<exists>i<length (ms_endpoints srv). find_slot_on_stream srv sid bus = Some i \<and>
         ms_calls srv' = ms_calls srv @ handler_call srv i request))"
  proof (cases "rcp_lifecycle_should_accept (ms_state srv) time_sync sub mt bus (ms_tscf_policy srv) = RCP_LIFECYCLE_ACCEPT \<and>
      find_slot_on_stream srv sid bus \<noteq> None")
    case False
    then show ?thesis using inner
      by (auto simp: dispatch_plain_inner_def Let_def split: rcp_lifecycle_accept_t.splits option.splits prod.splits)
  next
    case True
    then obtain i where i: "find_slot_on_stream srv sid bus = Some i" by blast
    then have len: "i < length (ms_endpoints srv)" by (auto simp: find_on_stream_answers dest: find_index_SomeD)
    obtain adm q where a: "after_admission hs mem (put_queue srv i q) i adm bus time_sync sid request = (r, resp, srv')"
      using inner True i by (auto simp: dispatch_plain_inner_def Let_def split: prod.splits)
    have q: "queue_at i srv (put_queue srv i q)" by simp
    have l: "i < length (ms_endpoints (put_queue srv i q))" using len by (simp add: put_queue_def upd_slot_def)
    have "handler_call (put_queue srv i q) i request = handler_call srv i request"
      using q len by (intro handler_call_same) (simp_all add: queue_at_def)
    with after_admission_effect [OF a l] queue_then_effect [OF q] True i len show ?thesis by auto
  qed
  then show "effect (find_slot_on_stream srv sid bus) srv srv'"
    "ms_stream_fault_tracker srv' = ms_stream_fault_tracker srv"
    "ms_calls srv' = ms_calls srv \<or> r = RCP_MOCK_DISPATCH_OK \<and>
      rcp_lifecycle_should_accept (ms_state srv) time_sync sub mt bus (ms_tscf_policy srv) = RCP_LIFECYCLE_ACCEPT \<and>
      (\<exists>i<length (ms_endpoints srv). find_slot_on_stream srv sid bus = Some i \<and>
         ms_calls srv' = ms_calls srv @ handler_call srv i request)"
    by blast+
qed

section \<open>Protected requests and fragments\<close>

text \<open>What a request on the protected path does: the plain path with the request or with the frame a
  check has accepted, or nothing but the consequences of a failed check.\<close>

lemma dispatch_e2e_cases:
  assumes "dispatch_e2e_core hs mem srv bus sub mt time_sync sid ts pt request = (r, response, srv')"
  shows "(r = RCP_MOCK_DISPATCH_STREAM_FAULTED \<and> stream_is_faulted srv sid \<and> srv' = kick_watchdog mem srv sid) \<or>
    (\<not> stream_is_faulted srv sid \<and> r = RCP_MOCK_DISPATCH_CRC_ERROR \<and>
       (\<exists>i. find_slot_on_stream srv sid bus = Some i \<and> sl_req_crc_enable (ms_endpoints srv ! i) \<and>
         fst (rcp_e2e_unwrap_framed (mm_unwrap mem) sid (sub = RCP_AVTP_SUBTYPE_NTSCF)
                RCP_MOCK_E2E_HEADER_OCTET1_PLACEHOLDER RCP_MOCK_E2E_TU_PLACEHOLDER ts request) \<noteq> RCP_E2E_OK \<and>
         srv' = note_crc_failure (kick_watchdog mem srv sid) sid (sl_rx_enforce_e2e (ms_endpoints srv ! i)))) \<or>
    (\<not> stream_is_faulted srv sid \<and>
       (\<exists>req. dispatch_plain hs mem (kick_watchdog mem srv sid) bus sub mt time_sync sid pt req = (r, response, srv') \<and>
          (case route srv sid bus of
             None \<Rightarrow> req = request
           | Some s \<Rightarrow> if sl_req_crc_enable s
               then (\<exists>u. req = rcp_bytes_data u \<and>
                 rcp_e2e_unwrap_framed (mm_unwrap mem) sid (sub = RCP_AVTP_SUBTYPE_NTSCF)
                   RCP_MOCK_E2E_HEADER_OCTET1_PLACEHOLDER RCP_MOCK_E2E_TU_PLACEHOLDER ts request = (RCP_E2E_OK, u))
               else req = request)))"
proof -
  have o: "outside srv (kick_watchdog mem srv sid)" by simp
  have f: "stream_is_faulted (kick_watchdog mem srv sid) sid = stream_is_faulted srv sid"
    by (simp add: stream_is_faulted_def)
  show ?thesis using assms unfolding dispatch_e2e_core_def Let_def f outside_find(1,4) [OF o] route_def
    by (auto split: if_splits option.splits prod.splits)
qed

text \<open>Whatever the path, a request has an effect on its own endpoint only, apart from purges; it runs no
  handler but that of its endpoint, and that at most once.\<close>

definition request_effect ::
    "u64 \<Rightarrow> rcp_byte_bus_id_t \<Rightarrow> rcp_mock_server_t \<Rightarrow> rcp_mock_server_t \<Rightarrow> bool" where
  "request_effect sid bus srv srv' \<longleftrightarrow> effect (find_slot_on_stream srv sid bus) srv srv' \<and>
     (ms_calls srv' = ms_calls srv \<or>
      (\<exists>i<length (ms_endpoints srv). \<exists>req. find_slot_on_stream srv sid bus = Some i \<and>
         ms_calls srv' = ms_calls srv @ handler_call srv i req))"

lemma request_effect_refl [simp]: "request_effect sid bus srv srv"
  by (simp add: request_effect_def)

lemma request_effect_plain:
  assumes "dispatch_plain hs mem srv bus sub mt time_sync sid pt request = (r, response, srv')"
  shows "request_effect sid bus srv srv'"
  using dispatch_plain_effect(1,3) [OF assms] unfolding request_effect_def by auto

lemma outside_handler_call: "outside a b \<Longrightarrow> handler_call b i req = handler_call a i req"
  by (simp add: outside_def handler_call_def split: option.split)

lemma request_effect_outside:
  assumes "outside a b" and "ms_calls b = ms_calls a" and "request_effect sid bus b c"
  shows "request_effect sid bus a c"
  using assms(2,3) outside_effect(1) [OF assms(1)]
  by (simp add: request_effect_def outside_find(1,4) [OF assms(1)] outside_handler_call [OF assms(1)])

lemma request_effect_out:
  "outside a b \<Longrightarrow> ms_calls b = ms_calls a \<Longrightarrow> request_effect sid bus a b"
  using request_effect_outside request_effect_refl by blast

lemma request_effect_crc: "request_effect sid bus srv (note_crc_failure srv s e)"
  using note_crc_effect effect_of_none by (simp add: request_effect_def)

lemma request_effect_then_outside:
  "request_effect sid bus a b \<Longrightarrow> outside b c \<Longrightarrow> ms_calls c = ms_calls b \<Longrightarrow> request_effect sid bus a c"
  by (auto simp: request_effect_def intro: outside_effect(2))

lemmas through_kick = request_effect_outside [OF outside_fields(10) untouched_fields(4)]

lemma request_effect_e2e:
  "dispatch_e2e_core hs mem srv bus sub mt time_sync sid ts pt request = (r, response, srv') \<Longrightarrow>
   request_effect sid bus srv srv'"
  using dispatch_e2e_cases [of hs mem srv bus sub mt time_sync sid ts pt request r response srv']
  by (auto intro: through_kick [OF request_effect_refl] through_kick [OF request_effect_crc]
      through_kick [OF request_effect_plain])

lemma feed_more_effect:
  "feed_more_segments mem srv idx mt fragment = (r, response, srv') \<Longrightarrow> outside srv srv' \<and> ms_calls srv' = ms_calls srv"
  by (auto simp: feed_more_segments_def Let_def split: if_splits option.splits prod.splits
      intro: outside_trans [OF outside_fields(7) outside_fields(9)])

lemma request_effect_last:
  assumes "feed_last_segment hs mem srv i idx bus sub mt time_sync sid ts pt fragment = (r, response, srv')"
  shows "request_effect sid bus srv srv'"
proof -
  have rej: "request_effect sid bus srv (put_reasm srv idx x)" for x by (intro request_effect_out) simp_all
  have two: "request_effect sid bus srv (put_reasm (put_reasm srv idx x) idx y)" for x y
    by (intro request_effect_out) (auto intro: outside_trans [OF outside_fields(9) outside_fields(9)])
  have crc: "request_effect sid bus srv (put_reasm (note_crc_failure (put_reasm srv idx x) sid e) idx y)" for x y e
    by (rule request_effect_outside [OF outside_fields(9)], simp)
      (rule request_effect_then_outside [OF request_effect_crc], simp_all)
  have plain: "request_effect sid bus srv srv'"
    if "dispatch_plain hs mem (put_reasm (put_reasm srv idx x) idx y) bus sb mt time_sync sid pt req = (r, response, srv')"
    for x y req sb
    by (rule request_effect_outside [OF outside_trans [OF outside_fields(9) outside_fields(9)] _ request_effect_plain [OF that]])
      simp
  show ?thesis using assms unfolding feed_last_segment_def Let_def
    by (auto split: if_splits option.splits prod.splits intro: rej two crc dest: plain)
qed

lemma request_effect_fragment:
  assumes "dispatch_e2e_fragment_core hs mem srv bus sub mt time_sync sid ts pt fragment = (r, response, srv')"
  shows "request_effect sid bus srv srv'"
proof (rule through_kick)
  show "request_effect sid bus (kick_watchdog mem srv sid) srv'"
    using assms unfolding dispatch_e2e_fragment_core_def Let_def
    by (auto split: if_splits option.splits dest: request_effect_plain request_effect_e2e request_effect_last
        dest!: feed_more_effect intro: request_effect_out)
qed

end
