(* ===== verification/Mock_Reach.thy ===== *)
theory Mock_Reach
  imports Mock_Effects
begin

text \<open>
  The states of the server of \<^verbatim>\<open>src/mock.c\<close>: every operation of its interface as a step, and the
  invariant of every state that steps can reach.  The three functions that take a whole frame differ
  in the function that takes one request; what they share is proved once for any such function
  (\<open>frame_dispatcher\<close>) and holds for each of them by interpretation.
\<close>

section \<open>Frames\<close>

lemma gate_effect:
  assumes "frame_seq_gate_admits srv sid num = (ok, srv')"
  shows "effect None srv srv'" and "ms_calls srv' = ms_calls srv"
proof -
  define k where "k = unat (stream_index_of srv sid) - 1"
  define cfg where "cfg = ms_request_stream_cfg srv ! k"
  define ev where "ev = rcp_e2e_seq_evaluate (ms_seq_tracker srv ! k) (rsc_rx_enforce_seq cfg)
      (rsc_rx_seq_safestate_enable cfg) num"
  define srv1 where "srv1 = upd_status (srv\<lparr>ms_seq_tracker := (ms_seq_tracker srv)[k := snd ev]\<rparr>)
      (stream_index_of srv sid) (\<lambda>s. rcp_e2e_stream_status_note_seq s (fst ev))"
  have o: "outside srv srv1" "ms_calls srv1 = ms_calls srv"
    unfolding srv1_def using outside_trans [OF outside_fields(6) outside_fields(8)] by simp_all
  have "srv' = srv \<or> srv' = srv1 \<or> srv' = snd (rcp_mock_server_broadcast_safe_state srv1 (stream_index_of srv sid))"
    using assms unfolding frame_seq_gate_admits_def Let_def srv1_def ev_def cfg_def k_def
    by (auto simp: case_prod_unfold split: if_splits)
  then show "effect None srv srv'" "ms_calls srv' = ms_calls srv"
    using o outside_effect(1) [OF o(1) broadcast_effect] outside_effect(2) [OF effect_refl o(1)] by auto
qed

lemma mark_chain_queue: "\<exists>i. queue_at i srv (mark_chain_link srv sid bus g p)"
  unfolding mark_chain_link_def Let_def by (auto split: option.split intro: queue_at_refl queue_at_put)

lemma mark_chain_calls [simp]: "ms_calls (mark_chain_link srv sid bus g p) = ms_calls srv"
  unfolding mark_chain_link_def Let_def by (simp split: option.split)

text \<open>A relation between servers that holds across every change of one queue, every purge and every
  request the frame hands over.\<close>

locale frame_dispatcher =
  fixes md :: member_dispatch and keeps :: "rcp_mock_server_t \<Rightarrow> rcp_mock_server_t \<Rightarrow> bool"
  assumes keeps_trans: "keeps a b \<Longrightarrow> keeps b c \<Longrightarrow> keeps a c"
    and keeps_queue: "queue_at i a b \<Longrightarrow> ms_calls b = ms_calls a \<Longrightarrow> keeps a b"
    and keeps_purge: "effect None a b \<Longrightarrow> ms_calls b = ms_calls a \<Longrightarrow> keeps a b"
    and keeps_call: "md_call md mem srv bus mt req = (r, response, srv') \<Longrightarrow> keeps srv srv'"
begin

lemma keeps_refl: "keeps srv srv"
  by (rule keeps_purge) simp_all

lemma member_keeps: "keeps srv (snd (snd (dispatch_member md mem sid i member cst srv)))"
proof -
  have mark: "keeps srv (mark_chain_link a s b g p)" if "keeps srv a" for a s b g p
    using that keeps_trans mark_chain_queue [of a s b g p] keeps_queue mark_chain_calls by blast
  show ?thesis
    by (auto simp: dispatch_member_def Let_def intro: keeps_refl keeps_call mark [OF keeps_call]
        split: option.split prod.split rcp_chained_member_outcome_t.split)
qed

lemma members_keep: "keeps srv (snd (dispatch_members md mems sid frame offsets real i n cst srv))"
proof (induction n arbitrary: i cst srv)
  case (Suc n)
  show ?case
  proof (cases "frame_member frame offsets real i")
    case (Some m)
    obtain r cst1 srv1 where d: "dispatch_member md (mems i) sid i m cst srv = (r, cst1, srv1)" by (metis prod_cases3)
    then have "keeps srv srv1" using member_keeps [of srv "mems i" sid i m cst] by simp
    with Some d Suc.IH [of srv1 "i + 1" cst1] show ?thesis by (auto simp: case_prod_unfold Let_def intro: keeps_trans)
  qed (simp add: keeps_refl)
qed (simp add: keeps_refl)

theorem frame_keeps: "keeps srv (snd (dispatch_frame_core md mems srv sid num frame cap))"
proof -
  obtain ok srv1 where g: "frame_seq_gate_admits srv sid num = (ok, srv1)" by (metis surj_pair)
  then have "keeps srv srv1" using gate_effect [OF g] keeps_purge by simp
  then show ?thesis using members_keep keeps_trans
    by (auto simp: dispatch_frame_core_def Let_def g case_prod_unfold keeps_refl)
qed

end

lemma request_effect_dispatch:
  "rcp_mock_server_dispatch hs mem srv bus sub mt time_sync sid req = (r, response, srv') \<Longrightarrow> request_effect sid bus srv srv'"
  "rcp_mock_server_dispatch_tscf hs mem srv bus sub mt time_sync sid pt allzero req = (r, response, srv') \<Longrightarrow>
     request_effect sid bus srv srv'"
  by (auto simp: rcp_mock_server_dispatch_def rcp_mock_server_dispatch_tscf_def Let_def split: if_splits prod.splits
      intro: through_kick [OF request_effect_plain] through_kick [OF request_effect_refl])

lemma request_only_queues: "request_effect sid bus srv srv' \<Longrightarrow> only_queues srv srv'"
  by (simp add: request_effect_def effect_def)

lemma queue_only_queues: "queue_at i a b \<Longrightarrow> only_queues a b"
  by (simp add: queue_at_def)

interpretation plain_frame: frame_dispatcher "frame_plain hs sub time_sync sid" only_queues for hs sub time_sync sid
  by unfold_locales (auto simp: frame_plain_def effect_def intro: only_queues_trans queue_only_queues
      dest: request_only_queues [OF request_effect_dispatch(1)])

interpretation e2e_frame: frame_dispatcher "frame_e2e hs sub time_sync sid ts" only_queues for hs sub time_sync sid ts
  by unfold_locales (auto simp: frame_e2e_def rcp_mock_server_dispatch_e2e_def effect_def
      intro: only_queues_trans queue_only_queues dest: request_only_queues [OF request_effect_e2e])

interpretation e2e_tscf_frame: frame_dispatcher "frame_e2e_tscf hs sub time_sync sid pt" only_queues
  for hs sub time_sync sid pt
  by unfold_locales (auto simp: frame_e2e_tscf_def rcp_mock_server_dispatch_e2e_tscf_def effect_def
      intro: only_queues_trans queue_only_queues dest: request_only_queues [OF request_effect_e2e])

section \<open>Queued and stored requests\<close>

lemma run_handler_outside: "outside srv (snd (run_handler hs srv i req))"
  by (simp add: run_handler_def Let_def split: option.split)

lemma drain_queues: "only_queues srv (snd (snd (drain_slot hs srv hit)))"
  unfolding drain_slot_def
  by (auto simp: Let_def case_prod_unfold split: option.split
      intro: queue_only_queues [OF queue_at_trans [OF queue_at_put outside_queue_at [OF run_handler_outside]]])

lemma tick_queues: "only_queues srv (snd (snd (tick_slot hs mem srv hit bus ctx)))"
proof (cases hit)
  case (Some i)
  have q: "queue_at i srv (put_queue srv i a)" for a by simp
  have two: "queue_at i srv (put_queue (put_queue srv i a) i b)" for a b
    using queue_at_trans [OF queue_at_put queue_at_put] .
  have run: "queue_at i srv (put_queue b i c)" if "run_handler hs (put_queue srv i a) i req = (r, b)" for a req r b c
    using queue_at_trans [OF queue_at_trans [OF queue_at_put outside_queue_at] queue_at_put] run_handler_effect [OF that] by blast
  have seq: "queue_at i srv (b\<lparr>ms_sequencers := t\<rparr>)" if "queue_at i srv b" for b t
    using queue_at_trans [OF that outside_queue_at [OF outside_fields(3)]] .
  show ?thesis unfolding tick_slot_def Some
    by (rule queue_only_queues [of i])
      (auto simp: Let_def split: option.split prod.split intro: q two run seq queue_at_trans [OF two queue_at_put])
qed (simp add: tick_slot_def)

section \<open>Steps\<close>

text \<open>One operation of the interface, with any arguments.\<close>

inductive mock_step :: "rcp_mock_server_t \<Rightarrow> rcp_mock_server_t \<Rightarrow> bool" where
  set_discovery_timeout_us: "mock_step srv (rcp_mock_server_set_discovery_timeout_us srv t)"
| transition: "mock_step srv (snd (rcp_mock_server_transition srv target snap writer idle))"
| pwrmode_resume: "mock_step srv (snd (snd (rcp_mock_server_pwrmode_resume srv hand)))"
| set_hw_pin_map: "mock_step srv (snd (rcp_mock_server_set_hw_pin_map srv pins))"
| set_request_stream_cfg: "mock_step srv (snd (rcp_mock_server_set_request_stream_cfg srv cfgs))"
| set_response_queue_cfg: "mock_step srv (snd (rcp_mock_server_set_response_queue_cfg srv rqs))"
| set_ep_id_map: "mock_step srv (snd (rcp_mock_server_set_ep_id_map srv em))"
| set_network_interface_cfg: "mock_step srv (snd (rcp_mock_server_set_network_interface_cfg srv data))"
| set_physical_layer_cfg: "mock_step srv (snd (rcp_mock_server_set_physical_layer_cfg srv data))"
| set_time_synch_cfg: "mock_step srv (snd (rcp_mock_server_set_time_synch_cfg srv data))"
| set_security_cfg: "mock_step srv (snd (rcp_mock_server_set_security_cfg srv data))"
| set_tscf_policy: "mock_step srv (rcp_mock_server_set_tscf_unsupported_time_sync_policy srv policy)"
| set_watchdog_keeper: "mock_step srv (rcp_mock_server_set_watchdog_keeper srv keeper)"
| set_stream_fault_tracker: "mock_step srv (rcp_mock_server_set_stream_fault_tracker srv tracker)"
| set_sequencer_count: "mock_step srv (snd (rcp_mock_server_set_sequencer_count m1 m2 srv n))"
| add_endpoint: "mock_step srv (snd (rcp_mock_server_add_endpoint srv bus ty en h ud))"
| add_endpoint_on_stream: "mock_step srv (snd (rcp_mock_server_add_endpoint_on_stream srv sid bus ty en h ud))"
| add_endpoint_multi: "mock_step srv (snd (rcp_mock_server_add_endpoint_multi_response srv bus ty en mh ud))"
| remove_endpoint: "mock_step srv (snd (rcp_mock_server_remove_endpoint srv bus))"
| remove_endpoint_on_stream: "mock_step srv (snd (rcp_mock_server_remove_endpoint_on_stream srv sid bus))"
| apply_ep_generic_cfg: "mock_step srv (snd (rcp_mock_server_apply_ep_generic_cfg srv gcs))"
| set_endpoint_enable: "mock_step srv (snd (rcp_mock_server_set_endpoint_enable srv bus b))"
| set_endpoint_enable_on_stream: "mock_step srv (snd (rcp_mock_server_set_endpoint_enable_on_stream srv sid bus b))"
| set_req_crc: "mock_step srv (snd (rcp_mock_server_set_endpoint_req_crc_enable srv bus b))"
| set_req_crc_on_stream: "mock_step srv (snd (rcp_mock_server_set_endpoint_req_crc_enable_on_stream srv sid bus b))"
| set_enforce: "mock_step srv (snd (rcp_mock_server_set_endpoint_rx_enforce_e2e srv bus b))"
| set_enforce_on_stream: "mock_step srv (snd (rcp_mock_server_set_endpoint_rx_enforce_e2e_on_stream srv sid bus b))"
| stash: "mock_step srv (snd (rcp_mock_server_stash_deferred_response srv bus resp))"
| stash_on_stream: "mock_step srv (snd (rcp_mock_server_stash_deferred_response_on_stream srv sid bus resp))"
| take_resp: "mock_step srv (snd (snd (rcp_mock_server_take_deferred_response srv bus)))"
| take_resp_on_stream: "mock_step srv (snd (snd (rcp_mock_server_take_deferred_response_on_stream srv sid bus)))"
| watchdog_purge: "mock_step srv (snd (rcp_mock_server_watchdog_purge srv bus))"
| watchdog_purge_on_stream: "mock_step srv (snd (rcp_mock_server_watchdog_purge_on_stream srv sid bus))"
| broadcast: "mock_step srv (snd (rcp_mock_server_broadcast_safe_state srv idx))"
| check_watchdog: "mock_step srv (snd (snd (rcp_mock_server_check_watchdog srv idx elapsed)))"
| heartbeat: "mock_step srv (snd (snd (rcp_mock_server_check_response_queue_heartbeat m srv idx mac_addr now)))"
| notify_trigger: "mock_step srv (snd (rcp_mock_server_notify_trigger srv src sig))"
| notify_gptp: "mock_step srv (snd (rcp_mock_server_notify_gptp_lock_state srv locked src))"
| dispatch: "mock_step srv (snd (snd (rcp_mock_server_dispatch hs mem srv bus sub mt ts sid req)))"
| dispatch_tscf: "mock_step srv (snd (snd (rcp_mock_server_dispatch_tscf hs mem srv bus sub mt ts sid pt z req)))"
| dispatch_multi: "mock_step srv (snd (snd (snd (rcp_mock_server_dispatch_multi_response hs mem srv bus sub mt ts sid req cap))))"
| dispatch_e2e: "mock_step srv (snd (snd (rcp_mock_server_dispatch_e2e hs mem srv bus sub mt ts sid ats req)))"
| dispatch_e2e_tscf: "mock_step srv (snd (snd (rcp_mock_server_dispatch_e2e_tscf hs mem srv bus sub mt ts sid pt req)))"
| dispatch_fragment: "mock_step srv (snd (snd (rcp_mock_server_dispatch_e2e_fragment hs mem srv bus sub mt ts sid ats req)))"
| dispatch_fragment_tscf:
    "mock_step srv (snd (snd (rcp_mock_server_dispatch_e2e_fragment_tscf hs mem srv bus sub mt ts sid pt req)))"
| drain: "mock_step srv (snd (snd (rcp_mock_server_drain_endpoint hs srv bus)))"
| drain_on_stream: "mock_step srv (snd (snd (rcp_mock_server_drain_endpoint_on_stream hs srv sid bus)))"
| tick: "mock_step srv (snd (snd (rcp_mock_server_tick hs mem srv bus ctx)))"
| tick_on_stream: "mock_step srv (snd (snd (rcp_mock_server_tick_on_stream hs mem srv sid bus ctx)))"
| dispatch_frame: "mock_step srv (snd (rcp_mock_server_dispatch_frame hs mems srv sub ts sid num frm cap))"
| dispatch_frame_e2e: "mock_step srv (snd (rcp_mock_server_dispatch_frame_e2e hs mems srv sub ts sid ats num frm cap))"
| dispatch_frame_e2e_tscf:
    "mock_step srv (snd (rcp_mock_server_dispatch_frame_e2e_tscf hs mems srv sub ts sid pt num frm cap))"

inductive mock_reach :: "rcp_mock_server_t \<Rightarrow> bool" where
  start: "rcp_mock_server_new True = Some srv \<Longrightarrow> mock_reach srv"
| step: "mock_reach srv \<Longrightarrow> mock_step srv srv' \<Longrightarrow> mock_reach srv'"

section \<open>The invariant\<close>

text \<open>Every table indexed by a stream has room for every stream that can be configured.\<close>

definition arrays_ok :: "rcp_mock_server_t \<Rightarrow> bool" where
  "arrays_ok srv \<longleftrightarrow> array_sizes srv = [64, 64, 64, 64, 64, 64] \<and>
     length (ms_request_stream_cfg srv) \<le> 64 \<and> length (ms_response_queue_cfg srv) \<le> 64 \<and>
     length (ms_ep_id_map srv) \<le> 64 \<and> length (ms_hw_pin_map srv) \<le> 64"

definition mock_ok :: "rcp_mock_server_t \<Rightarrow> bool" where
  "mock_ok srv \<longleftrightarrow> table_ok srv \<and> arrays_ok srv"

text \<open>A change that leaves the routing and the sizes alone.\<close>

definition sizes :: "rcp_mock_server_t \<Rightarrow> nat list" where
  "sizes srv = length (ms_request_stream_cfg srv) # length (ms_response_queue_cfg srv) # length (ms_ep_id_map srv) #
     length (ms_hw_pin_map srv) # array_sizes srv"

lemma mock_ok_same: "mock_ok srv \<Longrightarrow> same_table srv srv' \<Longrightarrow> sizes srv' = sizes srv \<Longrightarrow> mock_ok srv'"
  using same_table_ok [of srv srv'] by (simp add: mock_ok_def arrays_ok_def sizes_def)

lemma mock_ok_queues: "mock_ok srv \<Longrightarrow> only_queues srv srv' \<Longrightarrow> mock_ok srv'"
  by (erule mock_ok_same, erule only_queues_table) (simp add: only_queues_def settings_def sizes_def)

lemma mock_ok_slot:
  "mock_ok srv \<Longrightarrow> (\<And>s. slot_keys (f s) = slot_keys s) \<Longrightarrow> mock_ok (upd_slot srv i f)"
  by (erule mock_ok_same) (simp_all add: same_table_upd_slot, simp add: sizes_def array_sizes_def upd_slot_def)

lemma sizes_table:
  "sizes (set_endpoint_count srv n) = sizes srv" "sizes (upd_slot srv i f) = sizes srv"
  by (simp_all add: sizes_def array_sizes_def set_endpoint_count_def upd_slot_def)

lemma mock_ok_new: "rcp_mock_server_new True = Some srv \<Longrightarrow> mock_ok srv"
  by (auto simp: rcp_mock_server_new_def rcp_mock_server_set_discovery_timeout_us_def mock_ok_def table_ok_def
      arrays_ok_def array_sizes_def routes_apart_def zero_endpoint_slot_def rcp_regmap_general_init_def consts_rcp)

lemma mock_ok_settings:
  assumes "mock_ok srv"
  shows "mock_ok (rcp_mock_server_set_discovery_timeout_us srv t)"
    "mock_ok (snd (rcp_mock_server_transition srv target snap writer idle))"
    "mock_ok (snd (rcp_mock_server_set_network_interface_cfg srv data))"
    "mock_ok (snd (rcp_mock_server_set_physical_layer_cfg srv data))"
    "mock_ok (snd (rcp_mock_server_set_time_synch_cfg srv data))"
    "mock_ok (snd (rcp_mock_server_set_security_cfg srv data))"
    "mock_ok (rcp_mock_server_set_tscf_unsupported_time_sync_policy srv policy)"
    "mock_ok (rcp_mock_server_set_watchdog_keeper srv keeper)"
    "mock_ok (rcp_mock_server_set_stream_fault_tracker srv tracker)"
    "mock_ok (snd (rcp_mock_server_set_sequencer_count m1 m2 srv n))"
    "mock_ok (snd (snd (rcp_mock_server_check_response_queue_heartbeat m srv idx mac_addr now)))"
  by (rule mock_ok_same [OF assms];
      simp add: rcp_mock_server_set_discovery_timeout_us_def rcp_mock_server_transition_def
        rcp_mock_server_set_network_interface_cfg_def rcp_mock_server_set_physical_layer_cfg_def
        rcp_mock_server_set_time_synch_cfg_def rcp_mock_server_set_security_cfg_def
        rcp_mock_server_set_tscf_unsupported_time_sync_policy_def rcp_mock_server_set_watchdog_keeper_def
        rcp_mock_server_set_stream_fault_tracker_def rcp_mock_server_set_sequencer_count_def
        rcp_mock_server_check_response_queue_heartbeat_def
        case_prod_unfold Let_def same_table_def sizes_def array_sizes_def)+

lemma mock_ok_tables:
  assumes "mock_ok srv"
  shows "mock_ok (snd (rcp_mock_server_set_hw_pin_map srv pins))"
    "mock_ok (snd (rcp_mock_server_set_request_stream_cfg srv cfgs))"
    "mock_ok (snd (rcp_mock_server_set_response_queue_cfg srv rqs))"
    "mock_ok (snd (rcp_mock_server_set_ep_id_map srv em))"
  using assms by (simp_all add: rcp_mock_server_set_hw_pin_map_def rcp_mock_server_set_request_stream_cfg_def
      rcp_mock_server_set_response_queue_cfg_def rcp_mock_server_set_ep_id_map_def mock_ok_def table_ok_def
      arrays_ok_def array_sizes_def consts_rcp)

lemma on_slot_ok:
  "mock_ok srv \<Longrightarrow> (\<And>s. slot_keys (f s) = slot_keys s) \<Longrightarrow> mock_ok (snd (on_slot srv hit f))"
  by (simp add: on_slot_def mock_ok_slot split: option.split)

lemma mock_ok_flags:
  assumes "mock_ok srv"
  shows "mock_ok (snd (rcp_mock_server_set_endpoint_enable srv bus b))"
    "mock_ok (snd (rcp_mock_server_set_endpoint_enable_on_stream srv sid bus b))"
    "mock_ok (snd (rcp_mock_server_set_endpoint_req_crc_enable srv bus b))"
    "mock_ok (snd (rcp_mock_server_set_endpoint_req_crc_enable_on_stream srv sid bus b))"
    "mock_ok (snd (rcp_mock_server_set_endpoint_rx_enforce_e2e srv bus b))"
    "mock_ok (snd (rcp_mock_server_set_endpoint_rx_enforce_e2e_on_stream srv sid bus b))"
    "mock_ok (snd (rcp_mock_server_stash_deferred_response srv bus resp))"
    "mock_ok (snd (rcp_mock_server_stash_deferred_response_on_stream srv sid bus resp))"
    "mock_ok (snd (snd (rcp_mock_server_take_deferred_response srv bus)))"
    "mock_ok (snd (snd (rcp_mock_server_take_deferred_response_on_stream srv sid bus)))"
  using assms
  by (auto simp: rcp_mock_server_set_endpoint_enable_def rcp_mock_server_set_endpoint_enable_on_stream_def
      rcp_mock_server_set_endpoint_req_crc_enable_def rcp_mock_server_set_endpoint_req_crc_enable_on_stream_def
      rcp_mock_server_set_endpoint_rx_enforce_e2e_def rcp_mock_server_set_endpoint_rx_enforce_e2e_on_stream_def
      rcp_mock_server_stash_deferred_response_def rcp_mock_server_stash_deferred_response_on_stream_def
      rcp_mock_server_take_deferred_response_def rcp_mock_server_take_deferred_response_on_stream_def
      take_deferred_def slot_keys_def Let_def intro!: on_slot_ok mock_ok_slot split: option.split)

lemma mock_ok_registration:
  assumes "mock_ok srv"
  shows "mock_ok (snd (rcp_mock_server_add_endpoint srv bus ty en h ud))"
    and "mock_ok (snd (rcp_mock_server_add_endpoint_on_stream srv sid bus ty en h ud))"
    and "mock_ok (snd (rcp_mock_server_remove_endpoint srv bus))"
    and "mock_ok (snd (rcp_mock_server_remove_endpoint_on_stream srv sid bus))"
proof -
  have ok: "table_ok srv" using assms by (simp add: mock_ok_def)
  have sz: "sizes (snd (claim_endpoint_slot srv y)) = sizes srv" for y
    by (simp add: claim_endpoint_slot_def sizes_table split: option.split)
  have sz': "sizes (snd (release_endpoint_slot srv hit)) = sizes srv" for hit
    by (simp add: release_endpoint_slot_def sizes_table split: option.split)
  have mk: "mock_ok srv'" if "table_ok srv'" "sizes srv' = sizes srv" for srv'
    using that assms by (simp add: mock_ok_def arrays_ok_def sizes_def)
  have use: "sl_in_use (new_endpoint_slot bus ty en h ud)" "sl_byte_bus_id (new_endpoint_slot bus ty en h ud) = bus"
    by (simp_all add: new_endpoint_slot_def)
  note claim = claim_endpoint(2) [OF ok _ _ prod.collapse [symmetric]]
  have "table_ok (snd (claim_endpoint_slot srv (new_endpoint_slot bus ty en h ud)))" if "find_slot srv bus = None"
    using that by (intro claim) (auto simp: use find_slot_def find_index_None)
  then show "mock_ok (snd (rcp_mock_server_add_endpoint srv bus ty en h ud))"
    using assms mk sz by (simp add: rcp_mock_server_add_endpoint_def)
  have "table_ok (snd (claim_endpoint_slot srv ((new_endpoint_slot bus ty en h ud)\<lparr>sl_stream_scoped := True, sl_stream_id := sid\<rparr>)))"
    if "find_slot_on_stream srv sid bus = None"
    using that by (intro claim) (auto simp: use find_slot_on_stream_def find_index_None)
  then show "mock_ok (snd (rcp_mock_server_add_endpoint_on_stream srv sid bus ty en h ud))"
    using assms mk sz by (simp add: rcp_mock_server_add_endpoint_on_stream_def)
  have "table_ok (snd (release_endpoint_slot srv hit))" if "hit = find_slot srv bus \<or> hit = find_slot_on_stream srv sid bus" for hit
  proof (cases hit)
    case (Some i)
    then have "find_slot srv bus = Some i \<or> find_slot_on_stream srv sid bus = Some i" using that by auto
    then have "i < length (ms_endpoints srv)" "sl_in_use (ms_endpoints srv ! i)"
      by (auto simp: find_slot_def find_slot_on_stream_def dest: find_index_SomeD)
    then show ?thesis using release_endpoint(2) [OF ok _ _ prod.collapse [symmetric]] Some by blast
  qed (simp add: release_endpoint_slot_def ok)
  then show "mock_ok (snd (rcp_mock_server_remove_endpoint srv bus))"
    "mock_ok (snd (rcp_mock_server_remove_endpoint_on_stream srv sid bus))"
    using mk sz' by (simp_all add: rcp_mock_server_remove_endpoint_def rcp_mock_server_remove_endpoint_on_stream_def)
qed

lemma mock_ok_multi:
  "mock_ok srv \<Longrightarrow> mock_ok (snd (rcp_mock_server_add_endpoint_multi_response srv bus ty en mh ud))"
  using mock_ok_registration(1) [of srv bus ty en None 0]
  by (auto simp: rcp_mock_server_add_endpoint_multi_response_def Let_def case_prod_unfold slot_keys_def
      intro: mock_ok_slot split: option.split)

lemma generic_rows_keys: "map slot_keys (apply_generic_rows ss es) = map slot_keys ss"
  by (induction ss es rule: apply_generic_rows.induct) (simp_all add: slot_keys_def)

lemma mock_ok_generic: "mock_ok srv \<Longrightarrow> mock_ok (snd (rcp_mock_server_apply_ep_generic_cfg srv gcs))"
  by (erule mock_ok_same)
    (simp_all add: rcp_mock_server_apply_ep_generic_cfg_def same_table_def generic_rows_keys sizes_def array_sizes_def)

lemma notify_endpoints_rest: "map slot_rest (snd (notify_endpoints src sig ss)) = map slot_rest ss"
  by (induction ss) (simp_all add: Let_def case_prod_unfold)

lemma notify_queues:
  "only_queues srv (snd (rcp_mock_server_notify_trigger srv src sig))"
  "only_queues srv (snd (rcp_mock_server_notify_gptp_lock_state srv locked src))"
proof -
  have n: "only_queues srv (snd (rcp_mock_server_notify_trigger srv src sig))" for srv sig
    by (simp add: rcp_mock_server_notify_trigger_def case_prod_unfold Let_def only_queues_def settings_def
        array_sizes_def notify_endpoints_rest)
  then show "only_queues srv (snd (rcp_mock_server_notify_trigger srv src sig))" .
  have "only_queues srv (srv\<lparr>ms_gptp_trigger_state := st\<rparr>)" for st
    by (simp add: only_queues_def settings_def array_sizes_def)
  with n show "only_queues srv (snd (rcp_mock_server_notify_gptp_lock_state srv locked src))"
    by (auto simp: rcp_mock_server_notify_gptp_lock_state_def case_prod_unfold Let_def
        intro: only_queues_trans split: option.split)
qed

lemma resume_queues: "only_queues srv (snd (snd (rcp_mock_server_pwrmode_resume srv hand)))"
  by (auto simp: rcp_mock_server_pwrmode_resume_def case_prod_unfold Let_def only_queues_def settings_def array_sizes_def)

lemma purge_queues:
  "only_queues srv (snd (rcp_mock_server_watchdog_purge srv bus))"
  "only_queues srv (snd (rcp_mock_server_watchdog_purge_on_stream srv sid bus))"
  "only_queues srv (snd (rcp_mock_server_broadcast_safe_state srv idx))"
  using broadcast_effect [of srv idx]
  by (auto simp: rcp_mock_server_watchdog_purge_def rcp_mock_server_watchdog_purge_on_stream_def case_prod_unfold
      Let_def effect_def intro: queue_only_queues [OF queue_at_put] split: option.split)

lemma check_watchdog_queues: "only_queues srv (snd (snd (rcp_mock_server_check_watchdog srv idx elapsed)))"
  using outside_effect(1) [OF outside_fields(8) broadcast_effect] outside_effect(2) [OF effect_refl outside_fields(8)]
  by (auto simp: rcp_mock_server_check_watchdog_def Let_def effect_def)

lemma outside_queues: "outside a b \<Longrightarrow> only_queues a b"
  by (simp add: outside_def only_queues_def)

lemma multi_queues:
  "only_queues srv (snd (snd (snd (rcp_mock_server_dispatch_multi_response hs mem srv bus sub mt ts sid req cap))))"
  by (auto simp: rcp_mock_server_dispatch_multi_response_def Let_def case_prod_unfold
      intro: outside_queues [OF outside_fields(10)]
        outside_queues [OF outside_trans [OF outside_fields(10) outside_fields(2)]]
      split: rcp_lifecycle_accept_t.split option.split)

lemma request_queues:
  "only_queues srv (snd (snd (rcp_mock_server_dispatch hs mem srv bus sub mt ts sid req)))"
  "only_queues srv (snd (snd (rcp_mock_server_dispatch_tscf hs mem srv bus sub mt ts sid pt z req)))"
  "only_queues srv (snd (snd (rcp_mock_server_dispatch_e2e hs mem srv bus sub mt ts sid ats req)))"
  "only_queues srv (snd (snd (rcp_mock_server_dispatch_e2e_tscf hs mem srv bus sub mt ts sid pt req)))"
  "only_queues srv (snd (snd (rcp_mock_server_dispatch_e2e_fragment hs mem srv bus sub mt ts sid ats req)))"
  "only_queues srv (snd (snd (rcp_mock_server_dispatch_e2e_fragment_tscf hs mem srv bus sub mt ts sid pt req)))"
proof -
  have t: "only_queues srv (snd (snd x))" if "\<And>r resp srv'. x = (r, resp, srv') \<Longrightarrow> request_effect sid bus srv srv'"
    for x :: dispatch_out using that by (cases x) (auto dest: request_only_queues)
  show "only_queues srv (snd (snd (rcp_mock_server_dispatch hs mem srv bus sub mt ts sid req)))"
    by (rule t) (rule request_effect_dispatch(1))
  show "only_queues srv (snd (snd (rcp_mock_server_dispatch_tscf hs mem srv bus sub mt ts sid pt z req)))"
    by (rule t) (rule request_effect_dispatch(2))
  show "only_queues srv (snd (snd (rcp_mock_server_dispatch_e2e hs mem srv bus sub mt ts sid ats req)))"
    "only_queues srv (snd (snd (rcp_mock_server_dispatch_e2e_tscf hs mem srv bus sub mt ts sid pt req)))"
    unfolding rcp_mock_server_dispatch_e2e_def rcp_mock_server_dispatch_e2e_tscf_def
    by (rule t, erule request_effect_e2e)+
  show "only_queues srv (snd (snd (rcp_mock_server_dispatch_e2e_fragment hs mem srv bus sub mt ts sid ats req)))"
    "only_queues srv (snd (snd (rcp_mock_server_dispatch_e2e_fragment_tscf hs mem srv bus sub mt ts sid pt req)))"
    unfolding rcp_mock_server_dispatch_e2e_fragment_def rcp_mock_server_dispatch_e2e_fragment_tscf_def
    by (rule t, erule request_effect_fragment)+
qed

lemma frame_queues:
  "only_queues srv (snd (rcp_mock_server_dispatch_frame hs mems srv sub ts sid num frm cap))"
  "only_queues srv (snd (rcp_mock_server_dispatch_frame_e2e hs mems srv sub ts sid ats num frm cap))"
  "only_queues srv (snd (rcp_mock_server_dispatch_frame_e2e_tscf hs mems srv sub ts sid pt num frm cap))"
  unfolding rcp_mock_server_dispatch_frame_def rcp_mock_server_dispatch_frame_e2e_def
    rcp_mock_server_dispatch_frame_e2e_tscf_def
  by (rule plain_frame.frame_keeps e2e_frame.frame_keeps e2e_tscf_frame.frame_keeps)+

lemma serve_queues:
  "only_queues srv (snd (snd (rcp_mock_server_drain_endpoint hs srv bus)))"
  "only_queues srv (snd (snd (rcp_mock_server_drain_endpoint_on_stream hs srv sid bus)))"
  "only_queues srv (snd (snd (rcp_mock_server_tick hs mem srv bus ctx)))"
  "only_queues srv (snd (snd (rcp_mock_server_tick_on_stream hs mem srv sid bus ctx)))"
  by (simp_all add: rcp_mock_server_drain_endpoint_def rcp_mock_server_drain_endpoint_on_stream_def
      rcp_mock_server_tick_def rcp_mock_server_tick_on_stream_def drain_queues tick_queues)

lemmas step_queues = notify_queues resume_queues purge_queues check_watchdog_queues multi_queues request_queues
  frame_queues serve_queues

lemma mock_step_ok: "mock_step srv srv' \<Longrightarrow> mock_ok srv \<Longrightarrow> mock_ok srv'"
  by (induction rule: mock_step.induct)
    (simp_all add: mock_ok_settings mock_ok_tables mock_ok_flags mock_ok_registration mock_ok_multi mock_ok_generic
      mock_ok_queues [OF _ step_queues(1)] mock_ok_queues [OF _ step_queues(2)] mock_ok_queues [OF _ step_queues(3)]
      mock_ok_queues [OF _ step_queues(4)] mock_ok_queues [OF _ step_queues(5)] mock_ok_queues [OF _ step_queues(6)]
      mock_ok_queues [OF _ step_queues(7)] mock_ok_queues [OF _ step_queues(8)] mock_ok_queues [OF _ request_queues(1)]
      mock_ok_queues [OF _ request_queues(2)] mock_ok_queues [OF _ request_queues(3)] mock_ok_queues [OF _ request_queues(4)]
      mock_ok_queues [OF _ request_queues(5)] mock_ok_queues [OF _ request_queues(6)] mock_ok_queues [OF _ frame_queues(1)]
      mock_ok_queues [OF _ frame_queues(2)] mock_ok_queues [OF _ frame_queues(3)] mock_ok_queues [OF _ serve_queues(1)]
      mock_ok_queues [OF _ serve_queues(2)] mock_ok_queues [OF _ serve_queues(3)] mock_ok_queues [OF _ serve_queues(4)])

lemma mock_reach_ok: "mock_reach srv \<Longrightarrow> mock_ok srv"
  by (induction rule: mock_reach.induct) (auto intro: mock_ok_new mock_step_ok)

end
