(* ===== verification/Mock_Chain.thy ===== *)
theory Mock_Chain
  imports Mock_Reach
begin

text \<open>
  Chains of requests in a frame, as the three functions of \<^verbatim>\<open>src/mock.c\<close> that take a whole frame
  decide them: a reference for the verdict on a chained member in terms of the results reported for
  the members before it (\<open>chain_verdict\<close>), and the proof, once for any function that takes a single
  request (\<open>chain_dispatcher\<close>), that the loop over the members decides as the reference does.
\<close>

section \<open>The verdict on a member\<close>

text \<open>Results of a chained member that was not executed because of its chain.\<close>

abbreviation chain_stopped :: "rcp_mock_dispatch_result_t \<Rightarrow> bool" where
  "chain_stopped r \<equiv> r = RCP_MOCK_DISPATCH_CHAIN_ERROR \<or> r = RCP_MOCK_DISPATCH_CHAIN_ABORTED"

text \<open>The verdict on a chained member with the \<^verbatim>\<open>cs\<close> bit \<open>cs\<close> after members with the results \<open>prev\<close>:
  a chained member at the head of the frame is an error, and it is aborted after any chained member
  that was stopped, or after a predecessor that failed if it asks for that.\<close>

definition chain_verdict ::
    "rcp_mock_dispatch_result_t list \<Rightarrow> rcp_mock_dispatch_result_t list \<Rightarrow> byte \<Rightarrow> rcp_mock_dispatch_result_t option" where
  "chain_verdict errors prev cs =
     (if prev = [] then Some RCP_MOCK_DISPATCH_CHAIN_ERROR
      else if (\<exists>r\<in>set prev. chain_stopped r) \<or> last prev \<in> set errors \<and> cs = RCP_CHAINED_CS_ABORT_ON_ERROR
      then Some RCP_MOCK_DISPATCH_CHAIN_ABORTED
      else None)"

text \<open>What the result \<open>r\<close> of a member tells about it after members with the results \<open>prev\<close>.\<close>

definition chain_law ::
    "rcp_mock_dispatch_result_t list \<Rightarrow> rcp_mock_dispatch_result_t list \<Rightarrow> bytes \<Rightarrow> rcp_mock_dispatch_result_t \<Rightarrow> bool" where
  "chain_law errors prev member r =
     (if peek_member_byte_bus_id member = None then r = RCP_MOCK_DISPATCH_ERR_UNKNOWN_BUS
      else case is_chained_member member of
             None \<Rightarrow> \<not> chain_stopped r
           | Some (cs, tn) \<Rightarrow>
               (case chain_verdict errors prev cs of None \<Rightarrow> \<not> chain_stopped r | Some v \<Rightarrow> r = v))"

definition chain_inv ::
    "rcp_mock_dispatch_result_t list \<Rightarrow> rcp_mock_dispatch_result_t list \<Rightarrow> chain_state \<Rightarrow> bool" where
  "chain_inv errors prev cst \<longleftrightarrow>
     cst_aborted cst = (\<exists>r\<in>set prev. chain_stopped r) \<and>
     cst_prev_errored cst = (prev \<noteq> [] \<and> (last prev \<in> set errors \<or> chain_stopped (last prev)))"

locale chain_dispatcher =
  fixes md :: member_dispatch
  assumes call_result: "md_call md mem srv bus mt req = (r, response, srv') \<Longrightarrow> \<not> chain_stopped r"
    and unknown_error: "RCP_MOCK_DISPATCH_ERR_UNKNOWN_BUS \<in> set (md_errors md)"
begin

text \<open>A member either has a readable address and no verdict against it, and then is handed over, or it
  leaves the server alone.\<close>

lemma member_cases:
  assumes "dispatch_member md mem sid i member cst srv = (r, cst', srv')"
  shows "peek_member_byte_bus_id member = None \<and> fm_result r = RCP_MOCK_DISPATCH_ERR_UNKNOWN_BUS \<and> srv' = srv \<and>
      cst_aborted cst' = cst_aborted cst \<and> cst_prev_errored cst' \<or>
    peek_member_byte_bus_id member \<noteq> None \<and>
      (let (outcome, aborted) = (case is_chained_member member of
             None \<Rightarrow> (RCP_CHAINED_MEMBER_OK, cst_aborted cst)
           | Some (cs, tn) \<Rightarrow> rcp_chained_advance (cst_aborted cst) (0 < i) (cst_prev_errored cst) cs)
       in cst_aborted cst' = aborted \<and>
          (if outcome = RCP_CHAINED_MEMBER_OK
           then \<not> chain_stopped (fm_result r) \<and> cst_prev_errored cst' = (fm_result r \<in> set (md_errors md))
           else fm_result r = (if outcome = RCP_CHAINED_MEMBER_CHAIN_ERROR then RCP_MOCK_DISPATCH_CHAIN_ERROR
                               else RCP_MOCK_DISPATCH_CHAIN_ABORTED) \<and>
                cst_prev_errored cst' \<and> srv' = srv))"
proof (cases "peek_member_byte_bus_id member")
  case None
  then show ?thesis using assms by (auto simp: dispatch_member_def)
next
  case (Some a)
  obtain mt bus where a: "a = (mt, bus)" by (cases a)
  have call: "\<not> chain_stopped (fst (md_call md mem srv bus mt member))"
    using call_result by (cases "md_call md mem srv bus mt member") auto
  show ?thesis
  proof (cases "is_chained_member member")
    case None
    then show ?thesis using assms Some a call
      by (auto simp: dispatch_member_def Let_def case_prod_unfold)
  next
    case (Some c)
    obtain cs tn where c: "c = (cs, tn)" by (cases c)
    obtain outcome aborted where
      adv: "rcp_chained_advance (cst_aborted cst) (0 < i) (cst_prev_errored cst) cs = (outcome, aborted)" by fastforce
    show ?thesis using assms Some \<open>peek_member_byte_bus_id member = Some a\<close> a c adv call
      by (cases outcome) (auto simp: dispatch_member_def Let_def case_prod_unfold)
  qed
qed

lemma member_law:
  assumes "chain_inv (md_errors md) prev cst" and "length prev = i"
    and "dispatch_member md mem sid i member cst srv = (r, cst', srv')"
  shows "chain_law (md_errors md) prev member (fm_result r) \<and> chain_inv (md_errors md) (prev @ [fm_result r]) cst'"
proof -
  note inv = assms(1) [unfolded chain_inv_def]
  note cases = member_cases [OF assms(3)]
  have last: "chain_stopped (last prev) \<Longrightarrow> prev \<noteq> [] \<Longrightarrow> cst_aborted cst"
    using inv by (meson last_in_set)
  show ?thesis
  proof (cases "peek_member_byte_bus_id member")
    case None
    then show ?thesis using cases inv unknown_error by (simp add: chain_law_def chain_inv_def)
  next
    case (Some a)
    show ?thesis
    proof (cases "is_chained_member member")
      case None
      then show ?thesis using cases inv \<open>peek_member_byte_bus_id member = Some a\<close>
        by (simp add: chain_law_def chain_inv_def)
    next
      case (Some c)
      obtain cs tn where c: "c = (cs, tn)" by (cases c)
      show ?thesis using cases Some \<open>peek_member_byte_bus_id member = Some a\<close> c inv assms(2) last
        by (cases "cst_aborted cst"; cases "prev = []")
          (auto simp: chain_law_def chain_inv_def chain_verdict_def rcp_chained_advance_def split: if_splits)
    qed
  qed
qed

lemma members_law:
  assumes "chain_inv (md_errors md) prev cst" and "length prev = i"
    and "dispatch_members md mems sid frame offsets real i n cst srv = (rs, srv')" and "k < length rs"
  shows "\<exists>m. frame_member frame offsets real (i + k) = Some m \<and>
    chain_law (md_errors md) (prev @ map fm_result (take k rs)) m (fm_result (rs ! k))"
  using assms
proof (induction n arbitrary: i cst srv prev rs k)
  case (Suc n)
  then obtain m where m: "frame_member frame offsets real i = Some m" by (auto split: option.splits)
  obtain r cst1 srv1 where d: "dispatch_member md (mems i) sid i m cst srv = (r, cst1, srv1)" by (metis prod_cases3)
  obtain rs1 srv2 where rest: "dispatch_members md mems sid frame offsets real (i + 1) n cst1 srv1 = (rs1, srv2)"
    by (metis surj_pair)
  have rs: "rs = r # rs1" using Suc.prems(3) m d rest by simp
  have law: "chain_law (md_errors md) prev m (fm_result r)" "chain_inv (md_errors md) (prev @ [fm_result r]) cst1"
    using member_law [OF Suc.prems(1,2) d] by simp_all
  show ?case
  proof (cases k)
    case 0
    then show ?thesis using m law(1) by (simp add: rs)
  next
    case (Suc j)
    have "length (prev @ [fm_result r]) = i + 1" using Suc.prems(2) by simp
    from Suc.IH [OF law(2) this, of srv1 rs1 j] rest Suc.prems(3,4) show ?thesis
      by (auto simp: rs m d \<open>k = Suc j\<close>)
  qed
qed simp

theorem frame_law:
  assumes "dispatch_frame_core md mems srv sid num frame cap = (rs, srv')"
    and "rcp_sched_split_frame_members frame RCP_MOCK_MAX_FRAME_MEMBERS = (real, offsets)"
  shows "if fst (frame_seq_gate_admits srv sid num)
    then \<forall>k<length rs. \<exists>m. frame_member frame offsets real k = Some m \<and>
       chain_law (md_errors md) (map fm_result (take k rs)) m (fm_result (rs ! k))
    else \<forall>r\<in>set rs. fm_result r = RCP_MOCK_DISPATCH_SEQ_ERROR"
proof -
  let ?c = "\<lparr>cst_aborted = False, cst_prev_errored = False, cst_group = 0, cst_position = 0\<rparr>"
  have "chain_inv (md_errors md) [] ?c" by (simp add: chain_inv_def)
  note l = members_law [OF this]
  obtain ok srv1 where "frame_seq_gate_admits srv sid num = (ok, srv1)" by (metis surj_pair)
  with assms show ?thesis
    using l [of 0 mems sid frame offsets real "min (min real RCP_MOCK_MAX_FRAME_MEMBERS) cap" srv1 rs srv']
    by (auto simp: dispatch_frame_core_def Let_def split: if_splits)
qed

end

text \<open>A frame that passes the sequence check has a result for each member that can be told apart, as far
  as the caller has room.\<close>

lemma length_members:
  "(\<And>k. k < n \<Longrightarrow> frame_member frame offsets real (i + k) \<noteq> None) \<Longrightarrow>
   length (fst (dispatch_members md mems sid frame offsets real i n cst srv)) = n"
proof (induction n arbitrary: i cst srv)
  case (Suc n)
  obtain m where m: "frame_member frame offsets real i = Some m" using Suc.prems [of 0] by auto
  have "frame_member frame offsets real (i + 1 + k) \<noteq> None" if "k < n" for k
    using Suc.prems [of "Suc k"] that by simp
  from Suc.IH [OF this] m show ?case by (simp add: Let_def case_prod_unfold)
qed simp

section \<open>The three functions\<close>

lemma finish_not_stopped: "\<not> chain_stopped (fst (finish_admission hs mem srv i adm request bus))"
  unfolding finish_admission_def by (simp add: case_prod_unfold Let_def split: rcp_server_admit_t.split)

lemma after_not_stopped: "\<not> chain_stopped (fst (after_admission hs mem srv i adm bus sync sid request))"
proof -
  have reject: "fst (reject_stored mem srv i stored bus e) = RCP_MOCK_DISPATCH_REJECTED" for srv stored e
    by (simp add: reject_stored_def Let_def)
  have branch: "\<not> chain_stopped (fst a) \<Longrightarrow> \<not> chain_stopped (fst b) \<Longrightarrow> \<not> chain_stopped (fst (if c then a else b))"
    for a b :: dispatch_out and c by simp
  show ?thesis unfolding after_admission_def Let_def
    by (intro branch finish_not_stopped) (simp_all add: reject)
qed

lemma plain_not_stopped:
  assumes "dispatch_plain hs mem srv bus sub mt time_sync sid pt req = (r, response, srv')"
  shows "\<not> chain_stopped r"
proof -
  have "r = fst (dispatch_plain_inner hs mem srv bus sub mt time_sync sid pt req)"
    using assms by (simp add: dispatch_plain_def case_prod_unfold Let_def)
  then show ?thesis unfolding dispatch_plain_inner_def Let_def case_prod_unfold
    using after_not_stopped by (simp split: rcp_lifecycle_accept_t.split option.split)
qed

lemma e2e_not_stopped:
  assumes "dispatch_e2e_core hs mem srv bus sub mt time_sync sid ts pt req = (r, response, srv')"
  shows "\<not> chain_stopped r"
  using dispatch_e2e_cases [OF assms] plain_not_stopped by fastforce

interpretation plain_chain: chain_dispatcher "frame_plain hs sub time_sync sid" for hs sub time_sync sid
  by unfold_locales (auto simp: frame_plain_def rcp_mock_server_dispatch_def dest: plain_not_stopped)

interpretation e2e_chain: chain_dispatcher "frame_e2e hs sub time_sync sid ts" for hs sub time_sync sid ts
  by unfold_locales (auto simp: frame_e2e_def rcp_mock_server_dispatch_e2e_def dest: e2e_not_stopped)

interpretation e2e_tscf_chain: chain_dispatcher "frame_e2e_tscf hs sub time_sync sid pt" for hs sub time_sync sid pt
  by unfold_locales (auto simp: frame_e2e_tscf_def rcp_mock_server_dispatch_e2e_tscf_def dest: e2e_not_stopped)

end
