(* ===== verification/Mock_Correct.thy ===== *)
theory Mock_Correct
  imports Server_Correct Mock_Chain
begin

text \<open>
  The properties of the server of \<^verbatim>\<open>src/mock.c\<close> as a whole: its invariant, the routing of requests
  to endpoints, the isolation of endpoints, end-to-end protection with the latch of faulted streams,
  the safe state of a stream, chained requests in a frame, and the rejection of stored requests.
\<close>

section \<open>The invariant\<close>

lemma unat_of_nat_below: "n < 2 ^ LENGTH('a::len) \<Longrightarrow> unat (of_nat n :: 'a word) = n"
  by (simp add: unsigned_of_nat take_bit_nat_eq_self)

lemma stream_index_row:
  assumes "arrays_ok srv" and "stream_index_of srv sid \<noteq> 0"
  shows "unat (stream_index_of srv sid) - 1 < length (ms_request_stream_cfg srv)"
    and "rsc_rx_stream_id (ms_request_stream_cfg srv ! (unat (stream_index_of srv sid) - 1)) = sid"
proof -
  from assms(2) obtain i where i: "find_index (\<lambda>e. rsc_rx_stream_id e = sid) (ms_request_stream_cfg srv) = Some i"
    "stream_index_of srv sid = of_nat (i + 1)"
    by (auto simp: stream_index_of_def rcp_regmap_request_stream_cfg_resolve_index_def split: option.splits)
  note row = find_index_SomeD [OF i(1)]
  then have "i + 1 < 256" using assms(1) by (simp add: arrays_ok_def)
  then have "unat (stream_index_of srv sid) = i + 1" unfolding i(2) by (intro unat_of_nat_below) simp
  with row show "unat (stream_index_of srv sid) - 1 < length (ms_request_stream_cfg srv)"
    "rsc_rx_stream_id (ms_request_stream_cfg srv ! (unat (stream_index_of srv sid) - 1)) = sid" by simp_all
qed

text \<open>C11: In every state the server can reach, the endpoint table has 64 slots; its counter, the register
  with the number of endpoints and the register with the size of their configuration (12 octets each)
  agree with the slots in use; at most one endpoint answers for a stream and a byte bus id; and the
  row that a stream id resolves to lies inside every table that is indexed with it and has that stream
  id.\<close>

theorem mock_server_invariant:
  assumes "mock_reach srv"
  shows "length (ms_endpoints srv) = RCP_MOCK_MAX_ENDPOINTS \<and>
    ms_endpoint_count srv = length (filter sl_in_use (ms_endpoints srv)) \<and>
    unat (rm_svr_ep_count (ms_regmap srv)) = ms_endpoint_count srv \<and>
    unat (rm_svr_ep_generic_cfg_capacity (ms_regmap srv)) = 12 * ms_endpoint_count srv \<and>
    (\<forall>i<RCP_MOCK_MAX_ENDPOINTS. \<forall>j<RCP_MOCK_MAX_ENDPOINTS.
       answers sid bus (ms_endpoints srv ! i) \<and> answers sid bus (ms_endpoints srv ! j) \<longrightarrow> i = j) \<and>
    (stream_index_of srv sid \<noteq> 0 \<longrightarrow>
       (let k = unat (stream_index_of srv sid) - 1 in
        k < length (ms_request_stream_cfg srv) \<and> k < length (ms_seq_tracker srv) \<and> k < length (ms_stream_status srv) \<and>
        k < length (ms_frag_reasm srv) \<and> k < length (ms_frag_first_header srv) \<and>
        rsc_rx_stream_id (ms_request_stream_cfg srv ! k) = sid))"
proof -
  have ok: "table_ok srv" "arrays_ok srv" using mock_reach_ok [OF assms] by (simp_all add: mock_ok_def)
  have c: "ms_endpoint_count srv \<le> 64" using table_ok_count [OF ok(1)] by (simp add: consts_rcp)
  have u: "unat (of_nat (ms_endpoint_count srv) :: u16) = ms_endpoint_count srv"
    "unat (of_nat (ms_endpoint_count srv * 12) :: u16) = ms_endpoint_count srv * 12"
    using c by (intro unat_of_nat_below; simp)+
  have apart: "\<forall>i<RCP_MOCK_MAX_ENDPOINTS. \<forall>j<RCP_MOCK_MAX_ENDPOINTS.
      answers sid bus (ms_endpoints srv ! i) \<and> answers sid bus (ms_endpoints srv ! j) \<longrightarrow> i = j"
    using ok(1) answers_unique [of "ms_endpoints srv"] by (auto simp: table_ok_def)
  have row: "let k = unat (stream_index_of srv sid) - 1 in
      k < length (ms_request_stream_cfg srv) \<and> k < length (ms_seq_tracker srv) \<and> k < length (ms_stream_status srv) \<and>
      k < length (ms_frag_reasm srv) \<and> k < length (ms_frag_first_header srv) \<and>
      rsc_rx_stream_id (ms_request_stream_cfg srv ! k) = sid" if "stream_index_of srv sid \<noteq> 0"
    using stream_index_row [OF ok(2) that] ok(2) unfolding arrays_ok_def array_sizes_def Let_def by auto
  show ?thesis using ok(1) u apart row unfolding table_ok_def by auto
qed

definition fresh_server :: rcp_mock_server_t where
  "fresh_server = the (rcp_mock_server_new True)"

lemma fresh_server_reach: "mock_reach fresh_server"
  by (rule mock_reach.start) (simp add: fresh_server_def rcp_mock_server_new_def)

definition one_endpoint :: rcp_mock_server_t where
  "one_endpoint = snd (rcp_mock_server_add_endpoint_on_stream fresh_server 9 3 1 True (Some 0) 0)"

lemma one_endpoint_reach: "mock_reach one_endpoint"
  unfolding one_endpoint_def by (rule mock_reach.step [OF fresh_server_reach mock_step.add_endpoint_on_stream])

definition echo_handlers :: mock_handlers where
  "echo_handlers = \<lparr>run_single = \<lambda>calls call. Some (snd (snd call)), run_multi = \<lambda>calls call cap. (0, [])\<rparr>"

definition plenty :: mock_mem where
  "plenty = \<lparr>mm_server = sample_mem, mm_response = True, mm_unwrap = True, mm_reasm = True, mm_encode = True,
     mm_now_ms = 0\<rparr>"

theorem mock_server_invariant_witness:
  "unat (rm_svr_ep_count (ms_regmap one_endpoint)) = ms_endpoint_count one_endpoint"
  using mock_server_invariant [OF one_endpoint_reach, of 0 0] by blast

section \<open>Routing\<close>

text \<open>C12: The endpoint table is a map from streams and byte bus ids to endpoints.  Registration on a stream
  succeeds exactly when no endpoint answers there and a slot is free, and then changes that one entry;
  registration without a stream succeeds exactly when no endpoint answers for the bus on any stream,
  and then answers on all of them; removal takes out exactly the entries of the endpoint that
  answers.  A failed operation changes nothing.\<close>

theorem endpoint_routing:
  assumes "mock_reach srv"
  shows "(case rcp_mock_server_add_endpoint_on_stream srv sid bus ty en h ud of (rc, srv') \<Rightarrow>
      rc = (if route srv sid bus \<noteq> None then RCP_MOCK_ERR_DUPLICATE_BUS_ID
            else if ms_endpoint_count srv = RCP_MOCK_MAX_ENDPOINTS then RCP_MOCK_ERR_CAPACITY else RCP_MOCK_OK) \<and>
      (if rc = RCP_MOCK_OK
       then \<forall>s b. route srv' s b = (if s = sid \<and> b = bus
              then Some ((new_endpoint_slot bus ty en h ud)\<lparr>sl_stream_scoped := True, sl_stream_id := sid\<rparr>)
              else route srv s b)
       else srv' = srv)) \<and>
    (case rcp_mock_server_add_endpoint srv bus ty en h ud of (rc, srv') \<Rightarrow>
      rc = (if \<exists>s. route srv s bus \<noteq> None then RCP_MOCK_ERR_DUPLICATE_BUS_ID
            else if ms_endpoint_count srv = RCP_MOCK_MAX_ENDPOINTS then RCP_MOCK_ERR_CAPACITY else RCP_MOCK_OK) \<and>
      (if rc = RCP_MOCK_OK
       then \<forall>s b. route srv' s b = (if b = bus then Some (new_endpoint_slot bus ty en h ud) else route srv s b)
       else srv' = srv)) \<and>
    (case rcp_mock_server_remove_endpoint_on_stream srv sid bus of (found, srv') \<Rightarrow>
      (case route srv sid bus of
         None \<Rightarrow> \<not> found \<and> srv' = srv
       | Some x \<Rightarrow> found \<and> (\<forall>s b. route srv' s b = (if answers s b x then None else route srv s b))))"
proof -
  have ok: "table_ok srv" using mock_reach_ok [OF assms] by (simp add: mock_ok_def)
  then have apart: "routes_apart (ms_endpoints srv)" by (simp add: table_ok_def)
  have use: "sl_in_use (new_endpoint_slot bus ty en h ud)" "sl_byte_bus_id (new_endpoint_slot bus ty en h ud) = bus"
    by (simp_all add: new_endpoint_slot_def)
  have r: "route srv s b = None \<longleftrightarrow> find_slot_on_stream srv s b = None" for s b by (simp add: route_def)
  let ?y = "new_endpoint_slot bus ty en h ud"
  let ?z = "?y\<lparr>sl_stream_scoped := True, sl_stream_id := sid\<rparr>"
  have z: "\<forall>s\<in>set (ms_endpoints srv). sl_in_use s \<and> sl_byte_bus_id s = sl_byte_bus_id ?z \<longrightarrow>
      sl_stream_scoped s \<and> sl_stream_scoped ?z \<and> sl_stream_id s \<noteq> sl_stream_id ?z"
    if "find_slot_on_stream srv sid bus = None"
    using that by (auto simp: use find_slot_on_stream_def find_index_None)
  note claim_z = claim_endpoint [OF ok _ z prod.collapse [symmetric]]
  have add_z: "case rcp_mock_server_add_endpoint_on_stream srv sid bus ty en h ud of (rc, srv') \<Rightarrow>
      rc = (if route srv sid bus \<noteq> None then RCP_MOCK_ERR_DUPLICATE_BUS_ID
            else if ms_endpoint_count srv = RCP_MOCK_MAX_ENDPOINTS then RCP_MOCK_ERR_CAPACITY else RCP_MOCK_OK) \<and>
      (if rc = RCP_MOCK_OK then \<forall>s b. route srv' s b = (if s = sid \<and> b = bus then Some ?z else route srv s b)
       else srv' = srv)"
    using claim_z(1,3,4) use(1)
    by (auto simp: rcp_mock_server_add_endpoint_on_stream_def r route_new_slot case_prod_unfold)
  have add_y: "case rcp_mock_server_add_endpoint srv bus ty en h ud of (rc, srv') \<Rightarrow>
      rc = (if \<exists>s. route srv s bus \<noteq> None then RCP_MOCK_ERR_DUPLICATE_BUS_ID
            else if ms_endpoint_count srv = RCP_MOCK_MAX_ENDPOINTS then RCP_MOCK_ERR_CAPACITY else RCP_MOCK_OK) \<and>
      (if rc = RCP_MOCK_OK then \<forall>s b. route srv' s b = (if b = bus then Some ?y else route srv s b) else srv' = srv)"
    using add_endpoint_routes(1,3) [OF ok prod.collapse [symmetric]] by (simp add: case_prod_unfold)
  have rem: "case rcp_mock_server_remove_endpoint_on_stream srv sid bus of (found, srv') \<Rightarrow>
      (case route srv sid bus of
         None \<Rightarrow> \<not> found \<and> srv' = srv
       | Some x \<Rightarrow> found \<and> (\<forall>s b. route srv' s b = (if answers s b x then None else route srv s b)))"
  proof (cases "find_slot_on_stream srv sid bus")
    case None
    then show ?thesis by (simp add: rcp_mock_server_remove_endpoint_on_stream_def release_endpoint_slot_def route_def)
  next
    case (Some i)
    then have i: "i < length (ms_endpoints srv)" "sl_in_use (ms_endpoints srv ! i)"
      by (auto simp: find_on_stream_iff [OF apart] answers_def)
    from release_endpoint(1,3) [OF ok i prod.collapse [symmetric]] Some show ?thesis
      by (simp add: rcp_mock_server_remove_endpoint_on_stream_def route_def case_prod_unfold)
  qed
  show ?thesis using add_z add_y rem by blast
qed

lemma fresh_routes: "route fresh_server sid bus = None"
  by (simp add: route_def find_slot_on_stream_def find_index_None fresh_server_def rcp_mock_server_new_def
      rcp_mock_server_set_discovery_timeout_us_def zero_endpoint_slot_def)

theorem endpoint_routing_witness:
  "route one_endpoint 9 3 \<noteq> None \<and> route one_endpoint 8 3 = None"
proof -
  have "ms_endpoint_count fresh_server = 0"
    by (simp add: fresh_server_def rcp_mock_server_new_def rcp_mock_server_set_discovery_timeout_us_def)
  with endpoint_routing [OF fresh_server_reach, of 9 3 1 True "Some 0" 0] show ?thesis
    by (simp add: one_endpoint_def fresh_routes case_prod_unfold consts_rcp)
qed

section \<open>Isolation\<close>

text \<open>C13: Whatever request arrives on a stream for a byte bus id, and on whichever of the six paths - plain or
  protected, with or without presentation time, whole or in fragments - it changes no endpoint but the
  one that answers there, except that other endpoints may lose non-safety requests to a purge
  (\<open>effect\<close>); no routing, flag or configuration changes; and of all handlers only that of this endpoint
  runs, at most once.  On the plain path the handler gets exactly the request, and only if the
  lifecycle state of the server accepts it.\<close>

theorem request_isolation:
  "request_effect sid bus srv (snd (snd (rcp_mock_server_dispatch hs mem srv bus sub mt sync sid req))) \<and>
   request_effect sid bus srv (snd (snd (rcp_mock_server_dispatch_tscf hs mem srv bus sub mt sync sid pt z req))) \<and>
   request_effect sid bus srv (snd (snd (rcp_mock_server_dispatch_e2e hs mem srv bus sub mt sync sid ts req))) \<and>
   request_effect sid bus srv (snd (snd (rcp_mock_server_dispatch_e2e_tscf hs mem srv bus sub mt sync sid pt req))) \<and>
   request_effect sid bus srv (snd (snd (rcp_mock_server_dispatch_e2e_fragment hs mem srv bus sub mt sync sid ts req))) \<and>
   request_effect sid bus srv (snd (snd (rcp_mock_server_dispatch_e2e_fragment_tscf hs mem srv bus sub mt sync sid pt req))) \<and>
   (case rcp_mock_server_dispatch hs mem srv bus sub mt sync sid req of (r, response, srv') \<Rightarrow>
      ms_calls srv' = ms_calls srv \<or>
      r = RCP_MOCK_DISPATCH_OK \<and>
      rcp_lifecycle_should_accept (ms_state srv) sync sub mt bus (ms_tscf_policy srv) = RCP_LIFECYCLE_ACCEPT \<and>
      (\<exists>slot h. route srv sid bus = Some slot \<and> sl_handler slot = Some h \<and>
         ms_calls srv' = ms_calls srv @ [(h, sl_user_data slot, req)]))"
proof (intro conjI)
  have t: "request_effect sid bus srv (snd (snd x))" if "\<And>r resp srv'. x = (r, resp, srv') \<Longrightarrow> request_effect sid bus srv srv'"
    for x :: dispatch_out using that by (cases x) auto
  show "request_effect sid bus srv (snd (snd (rcp_mock_server_dispatch hs mem srv bus sub mt sync sid req)))"
    by (rule t) (rule request_effect_dispatch(1))
  show "request_effect sid bus srv (snd (snd (rcp_mock_server_dispatch_tscf hs mem srv bus sub mt sync sid pt z req)))"
    by (rule t) (rule request_effect_dispatch(2))
  show "request_effect sid bus srv (snd (snd (rcp_mock_server_dispatch_e2e hs mem srv bus sub mt sync sid ts req)))"
    "request_effect sid bus srv (snd (snd (rcp_mock_server_dispatch_e2e_tscf hs mem srv bus sub mt sync sid pt req)))"
    unfolding rcp_mock_server_dispatch_e2e_def rcp_mock_server_dispatch_e2e_tscf_def
    by (rule t, erule request_effect_e2e)+
  show "request_effect sid bus srv (snd (snd (rcp_mock_server_dispatch_e2e_fragment hs mem srv bus sub mt sync sid ts req)))"
    "request_effect sid bus srv (snd (snd (rcp_mock_server_dispatch_e2e_fragment_tscf hs mem srv bus sub mt sync sid pt req)))"
    unfolding rcp_mock_server_dispatch_e2e_fragment_def rcp_mock_server_dispatch_e2e_fragment_tscf_def
    by (rule t, erule request_effect_fragment)+
  obtain r response srv' where d: "rcp_mock_server_dispatch hs mem srv bus sub mt sync sid req = (r, response, srv')"
    by (metis prod_cases3)
  have o: "outside srv (kick_watchdog mem srv sid)" by simp
  have s: "ms_state (kick_watchdog mem srv sid) = ms_state srv" "ms_tscf_policy (kick_watchdog mem srv sid) = ms_tscf_policy srv"
    using o by (simp_all add: outside_def settings_def)
  from dispatch_plain_effect(3) [OF d [unfolded rcp_mock_server_dispatch_def]]
  show "case rcp_mock_server_dispatch hs mem srv bus sub mt sync sid req of (r, response, srv') \<Rightarrow>
      ms_calls srv' = ms_calls srv \<or>
      r = RCP_MOCK_DISPATCH_OK \<and>
      rcp_lifecycle_should_accept (ms_state srv) sync sub mt bus (ms_tscf_policy srv) = RCP_LIFECYCLE_ACCEPT \<and>
      (\<exists>slot h. route srv sid bus = Some slot \<and> sl_handler slot = Some h \<and>
         ms_calls srv' = ms_calls srv @ [(h, sl_user_data slot, req)])"
    unfolding outside_find(1,4) [OF o] outside_handler_call [OF o] s
    by (auto simp: d route_def handler_call_def split: option.splits)
qed

section \<open>End-to-end protection\<close>

lemma faulted_kick [simp]: "stream_is_faulted (kick_watchdog mem srv sid') sid = stream_is_faulted srv sid"
  by (simp add: stream_is_faulted_def)

text \<open>C14: A request that a client protects, with header octet 1 zero and the tu bit clear, reaches a protected endpoint exactly as the plain request would.
  If a burst of errors within four octets hits the protected message or its checksum and leaves the
  padding field of the message header (the top two bits of octet 2) as it was, the server answers with
  a checksum error: no handler runs, endpoints at most lose non-safety requests to the safe state, and
  if the endpoint enforces protection and the fault tracker has room, the stream is faulted.  The stream
  is not faulted before, the message has at least 8 octets, and the copy the server makes can be
  allocated.\<close>

theorem protected_dispatch:
  assumes "route srv sid bus = Some slot" and "sl_req_crc_enable slot" and "\<not> stream_is_faulted srv sid"
    and "mm_unwrap mem" and wrap: "rcp_e2e_wrap_framed m sid (sub = RCP_AVTP_SUBTYPE_NTSCF) 0 False ts f = Some w"
    and len: "8 \<le> length f"
  shows "rcp_mock_server_dispatch_e2e hs mem srv bus sub mt sync sid ts w =
      rcp_mock_server_dispatch hs mem srv bus sub mt sync sid f \<and>
    (\<forall>pre ws ws' post. w = pre @ ws @ post \<and> length ws = length ws' \<and> length ws \<le> 4 \<and> ws \<noteq> ws' \<and>
       acf_pad_octets (pre @ ws' @ post) = acf_pad_octets w \<and>
       (length pre + length ws \<le> length f - unat (acf_pad_octets f) \<or>
        length f - unat (acf_pad_octets f) \<le> length pre \<and>
        length pre + length ws \<le> length f - unat (acf_pad_octets f) + 4) \<longrightarrow>
       (case rcp_mock_server_dispatch_e2e hs mem srv bus sub mt sync sid ts (pre @ ws' @ post) of (r, response, srv') \<Rightarrow>
          r = RCP_MOCK_DISPATCH_CRC_ERROR \<and> ms_calls srv' = ms_calls srv \<and> effect None srv srv' \<and>
          (\<forall>t. ms_stream_fault_tracker srv = Some t \<and> sl_rx_enforce_e2e slot \<and>
             fst (rcp_e2e_stream_fault_tracker_on_crc_error t sid True) \<longrightarrow> stream_is_faulted srv' sid)))"
proof (intro conjI allI impI)
  let ?k = "kick_watchdog mem srv sid"
  obtain i where i: "find_slot_on_stream srv sid bus = Some i" "ms_endpoints srv ! i = slot"
    using assms(1) by (auto simp: route_def)
  have o: "outside srv ?k" by simp
  note w = wrap [unfolded rcp_e2e_wrap_framed_def]
  have "rcp_e2e_unwrap_framed (mm_unwrap mem) sid (sub = RCP_AVTP_SUBTYPE_NTSCF) 0 False ts w = (RCP_E2E_OK, Some f)"
    using unwrap_wrap [OF w len] assms(4) by (simp add: rcp_e2e_unwrap_framed_def split: if_splits)
  then show "rcp_mock_server_dispatch_e2e hs mem srv bus sub mt sync sid ts w =
      rcp_mock_server_dispatch hs mem srv bus sub mt sync sid f"
    using assms(2,3) i
    by (simp add: rcp_mock_server_dispatch_e2e_def rcp_mock_server_dispatch_def dispatch_e2e_core_def Let_def
        outside_find(1,4) [OF o] consts_rcp)
  fix pre ws ws' post
  assume h: "w = pre @ ws @ post \<and> length ws = length ws' \<and> length ws \<le> 4 \<and> ws \<noteq> ws' \<and>
       acf_pad_octets (pre @ ws' @ post) = acf_pad_octets w \<and>
       (length pre + length ws \<le> length f - unat (acf_pad_octets f) \<or>
        length f - unat (acf_pad_octets f) \<le> length pre \<and>
        length pre + length ws \<le> length f - unat (acf_pad_octets f) + 4)"
  then have a: "w = pre @ ws @ post" "length ws = length ws'" "length ws \<le> 4" "ws \<noteq> ws'" "acf_pad_octets (pre @ ws' @ post) = acf_pad_octets w"
    by blast+
  from h have "fst (rcp_e2e_unwrap_framed True sid (sub = RCP_AVTP_SUBTYPE_NTSCF) 0 False ts (pre @ ws' @ post)) =
      RCP_E2E_ERR_CRC_MISMATCH"
    unfolding rcp_e2e_unwrap_framed_def
    using unwrap_tampered [OF w len a] unwrap_crc_tampered [OF w len a(1,2,4)] by blast
  then obtain u where "rcp_e2e_unwrap_framed (mm_unwrap mem) sid (sub = RCP_AVTP_SUBTYPE_NTSCF) 0 False ts (pre @ ws' @ post) =
      (RCP_E2E_ERR_CRC_MISMATCH, u)"
    using assms(4) by (cases "rcp_e2e_unwrap_framed True sid (sub = RCP_AVTP_SUBTYPE_NTSCF) 0 False ts (pre @ ws' @ post)") auto
  then have "\<exists>resp. rcp_mock_server_dispatch_e2e hs mem srv bus sub mt sync sid ts (pre @ ws' @ post) =
      (RCP_MOCK_DISPATCH_CRC_ERROR, resp, note_crc_failure ?k sid (sl_rx_enforce_e2e slot))"
    using assms(2,3) i
    by (simp add: rcp_mock_server_dispatch_e2e_def dispatch_e2e_core_def Let_def outside_find(1,4) [OF o] consts_rcp)
  then obtain resp where d: "rcp_mock_server_dispatch_e2e hs mem srv bus sub mt sync sid ts (pre @ ws' @ post) =
      (RCP_MOCK_DISPATCH_CRC_ERROR, resp, note_crc_failure ?k sid (sl_rx_enforce_e2e slot))" by blast
  have latched: "stream_is_faulted (note_crc_failure ?k sid (sl_rx_enforce_e2e slot)) sid"
    if "ms_stream_fault_tracker srv = Some t" "sl_rx_enforce_e2e slot"
      "fst (rcp_e2e_stream_fault_tracker_on_crc_error t sid True)" for t
    using that faults.note_latched [of t sid True sid] by (simp add: stream_is_faulted_def note_crc_effect(3))
  show "case rcp_mock_server_dispatch_e2e hs mem srv bus sub mt sync sid ts (pre @ ws' @ post) of (r, response, srv') \<Rightarrow>
      r = RCP_MOCK_DISPATCH_CRC_ERROR \<and> ms_calls srv' = ms_calls srv \<and> effect None srv srv' \<and>
      (\<forall>t. ms_stream_fault_tracker srv = Some t \<and> sl_rx_enforce_e2e slot \<and>
         fst (rcp_e2e_stream_fault_tracker_on_crc_error t sid True) \<longrightarrow> stream_is_faulted srv' sid)"
    unfolding d prod.case
    using note_crc_effect(1,2) [of ?k sid "sl_rx_enforce_e2e slot"] outside_effect(1) [OF o]
    by (intro conjI allI impI; (blast intro: latched | simp))
qed

definition guarded_slot :: rcp_mock_endpoint_slot_t where
  "guarded_slot = (new_endpoint_slot 3 1 True (Some 0) 0)\<lparr>sl_req_crc_enable := True, sl_rx_enforce_e2e := True\<rparr>"

definition guarded_server :: rcp_mock_server_t where
  "guarded_server = fresh_server\<lparr>ms_endpoints := [guarded_slot],
     ms_stream_fault_tracker := Some rcp_e2e_stream_fault_tracker_init\<rparr>"

lemma guarded_server_facts:
  "route guarded_server 9 3 = Some guarded_slot" "sl_req_crc_enable guarded_slot"
  "\<not> stream_is_faulted guarded_server 9"
  "fst (rcp_e2e_stream_fault_tracker_on_crc_error rcp_e2e_stream_fault_tracker_init 9 True)"
proof -
  show "route guarded_server 9 3 = Some guarded_slot"
    by (simp add: route_def find_slot_on_stream_def guarded_server_def guarded_slot_def new_endpoint_slot_def zero_endpoint_slot_def)
  show "sl_req_crc_enable guarded_slot" by (simp add: guarded_slot_def)
  have "\<not> rcp_e2e_stream_fault_tracker_is_faulted rcp_e2e_stream_fault_tracker_init 9" by code_simp
  then show "\<not> stream_is_faulted guarded_server 9" by (simp add: stream_is_faulted_def guarded_server_def)
  show "fst (rcp_e2e_stream_fault_tracker_on_crc_error rcp_e2e_stream_fault_tracker_init 9 True)" by code_simp
qed

theorem protected_dispatch_witness:
  "\<exists>w. rcp_e2e_wrap_framed True 9 True 0 False 0 (replicate 8 0) = Some w \<and>
     rcp_mock_server_dispatch_e2e echo_handlers plenty guarded_server 3 RCP_AVTP_SUBTYPE_NTSCF RCP_ACF_MSG_TYPE_ABB False 9 0 w =
       rcp_mock_server_dispatch echo_handlers plenty guarded_server 3 RCP_AVTP_SUBTYPE_NTSCF RCP_ACF_MSG_TYPE_ABB False 9
         (replicate 8 0) \<and>
     stream_is_faulted (snd (snd (rcp_mock_server_dispatch_e2e echo_handlers plenty guarded_server 3
       RCP_AVTP_SUBTYPE_NTSCF RCP_ACF_MSG_TYPE_ABB False 9 0 (take 4 w @ [7] @ drop 5 w)))) 9"
proof -
  let ?f = "replicate 8 0 :: bytes"
  have "msg_quadlets ?f = 0" by (simp add: msg_quadlets_def numeral_eq_Suc)
  then obtain w where w: "rcp_e2e_wrap_framed True 9 True 0 False 0 ?f = Some w"
    using wrap_defined [of ?f] unfolding rcp_e2e_wrap_framed_def by fastforce
  have len: "length w = 12" using length_wrap [OF w [unfolded rcp_e2e_wrap_framed_def]] by simp
  have pad: "unat (acf_pad_octets ?f) = 0" by (simp add: acf_pad_octets_def numeral_eq_Suc)
  have "w ! 4 = 0"
    using w by (auto simp: rcp_e2e_wrap_framed_def rcp_e2e_wrap_def adapt_acf_msg_length_def Let_def pad nth_append split: if_splits)
  then have parts: "w = take 4 w @ [0] @ drop 5 w" using len id_take_nth_drop [of 4 w] by simp
  have two: "acf_pad_octets (take 4 w @ [7] @ drop 5 w) = acf_pad_octets w"
    using len by (simp add: acf_pad_octets_def nth_append)
  have mem: "mm_unwrap plenty" by (simp add: plenty_def)
  have tracker: "ms_stream_fault_tracker guarded_server = Some rcp_e2e_stream_fault_tracker_init" "sl_rx_enforce_e2e guarded_slot"
    by (simp_all add: guarded_server_def guarded_slot_def)
  have sub: "(RCP_AVTP_SUBTYPE_NTSCF = RCP_AVTP_SUBTYPE_NTSCF) = True" by simp
  note p = protected_dispatch [OF guarded_server_facts(1-3) mem,
      of True RCP_AVTP_SUBTYPE_NTSCF 0 ?f w echo_handlers RCP_ACF_MSG_TYPE_ABB False, unfolded sub, OF w]
  let ?out = "rcp_mock_server_dispatch_e2e echo_handlers plenty guarded_server 3 RCP_AVTP_SUBTYPE_NTSCF RCP_ACF_MSG_TYPE_ABB
      False 9 0 (take 4 w @ [7] @ drop 5 w)"
  have "w = take 4 w @ [0] @ drop 5 w \<and> length [0 :: byte] = length [7 :: byte] \<and> length [0 :: byte] \<le> 4 \<and> [0] \<noteq> [7 :: byte] \<and>
      acf_pad_octets (take 4 w @ [7] @ drop 5 w) = acf_pad_octets w \<and>
      (length (take 4 w) + length [0 :: byte] \<le> length ?f - unat (acf_pad_octets ?f) \<or>
       length ?f - unat (acf_pad_octets ?f) \<le> length (take 4 w) \<and>
       length (take 4 w) + length [0 :: byte] \<le> length ?f - unat (acf_pad_octets ?f) + 4)"
    using parts two len pad by simp
  from conjunct2 [OF p, rule_format, OF _ this] tracker guarded_server_facts(4)
  have "stream_is_faulted (snd (snd ?out)) 9" by (cases ?out) auto
  with w conjunct1 [OF p] show ?thesis by simp
qed

text \<open>On a faulted stream no protected request reaches an endpoint, whatever its bus and its form, and the
  stream stays faulted: requests alone never clear the fault.\<close>

theorem faulted_stream_refused:
  assumes "stream_is_faulted srv sid"
    and "out \<in> {rcp_mock_server_dispatch_e2e hs mem srv bus sub mt sync sid ts req,
      rcp_mock_server_dispatch_e2e_tscf hs mem srv bus sub mt sync sid pt req,
      rcp_mock_server_dispatch_e2e_fragment hs mem srv bus sub mt sync sid ts req,
      rcp_mock_server_dispatch_e2e_fragment_tscf hs mem srv bus sub mt sync sid pt req}"
  shows "case out of (r, response, srv') \<Rightarrow>
    r = RCP_MOCK_DISPATCH_STREAM_FAULTED \<and> ms_endpoints srv' = ms_endpoints srv \<and> ms_calls srv' = ms_calls srv \<and>
    stream_is_faulted srv' sid"
proof -
  have o: "outside srv (kick_watchdog mem srv sid)" by simp
  show ?thesis using assms
    by (auto simp: rcp_mock_server_dispatch_e2e_def rcp_mock_server_dispatch_e2e_tscf_def
        rcp_mock_server_dispatch_e2e_fragment_def rcp_mock_server_dispatch_e2e_fragment_tscf_def
        dispatch_e2e_core_def dispatch_e2e_fragment_core_def Let_def outside_find(4) [OF o])
qed

theorem faulted_stream_refused_witness:
  "\<exists>srv. stream_is_faulted srv 9 \<and>
     fst (rcp_mock_server_dispatch_e2e echo_handlers plenty srv 3 RCP_AVTP_SUBTYPE_NTSCF RCP_ACF_MSG_TYPE_ABB False 9 0 [1]) =
       RCP_MOCK_DISPATCH_STREAM_FAULTED"
proof -
  let ?t = "snd (rcp_e2e_stream_fault_tracker_on_crc_error rcp_e2e_stream_fault_tracker_init 9 True)"
  have "rcp_e2e_stream_fault_tracker_is_faulted ?t 9" by code_simp
  then have f: "stream_is_faulted (fresh_server\<lparr>ms_stream_fault_tracker := Some ?t\<rparr>) 9" by (simp add: stream_is_faulted_def)
  from faulted_stream_refused [OF f insertI1, of echo_handlers plenty 3 RCP_AVTP_SUBTYPE_NTSCF RCP_ACF_MSG_TYPE_ABB False 0 "[1]"] f
  show ?thesis by (auto split: prod.splits)
qed

section \<open>Safe state\<close>

text \<open>C15: The safe state of a configured stream purges exactly the endpoints that answer on this stream for a
  byte bus id which the endpoint id map associates with it; every other endpoint, and everything else
  in the server, is unchanged.\<close>

theorem safe_state_exact:
  assumes "mock_reach srv" and "0 < unat idx" and "unat idx \<le> length (ms_request_stream_cfg srv)"
  shows "snd (rcp_mock_server_broadcast_safe_state srv idx) =
    srv\<lparr>ms_endpoints := map (\<lambda>s. if \<exists>b. rcp_regmap_ep_id_map_is_valid_association (ms_ep_id_map srv) idx b \<and>
           answers (rsc_rx_stream_id (ms_request_stream_cfg srv ! (unat idx - 1))) b s
         then purged_slot s else s) (ms_endpoints srv)\<rparr>"
proof -
  let ?sid = "rsc_rx_stream_id (ms_request_stream_cfg srv ! (unat idx - 1))"
  have ok: "routes_apart (ms_endpoints srv)" "length (ms_ep_id_map srv) \<le> 64"
    using mock_reach_ok [OF assms(1)] by (simp_all add: mock_ok_def table_ok_def arrays_ok_def)
  have "length (stream_buses idx (ms_ep_id_map srv)) \<le> length (ms_ep_id_map srv)"
    unfolding stream_buses_def
    by (simp, rule le_trans [OF length_remdups_leq]) simp
  then have all: "take RCP_MOCK_MAX_ENDPOINTS (stream_buses idx (ms_ep_id_map srv)) = stream_buses idx (ms_ep_id_map srv)"
    using ok(2) by (simp add: consts_rcp)
  have set_eq: "b \<in> set (stream_buses idx (ms_ep_id_map srv)) \<longleftrightarrow>
      rcp_regmap_ep_id_map_is_valid_association (ms_ep_id_map srv) idx b" for b
    by (auto simp: stream_buses_def association_exists)
  have idx: "idx \<noteq> 0" using assms(2) by auto
  have hit: "j \<in> safe_state_slots srv idx \<longleftrightarrow>
      (\<exists>b. rcp_regmap_ep_id_map_is_valid_association (ms_ep_id_map srv) idx b \<and> answers ?sid b (ms_endpoints srv ! j))"
    if "j < length (ms_endpoints srv)" for j
    using assms(3) idx that
    by (auto simp: safe_state_slots_def Let_def all set_eq bound_slot_def find_on_stream_iff [OF ok(1)] Bex_def)
  note b = broadcast_exact [where srv = srv and idx = idx]
  have "ms_endpoints (snd (rcp_mock_server_broadcast_safe_state srv idx)) =
      map (\<lambda>s. if \<exists>b. rcp_regmap_ep_id_map_is_valid_association (ms_ep_id_map srv) idx b \<and> answers ?sid b s
               then purged_slot s else s) (ms_endpoints srv)"
    using b(2,3) hit by (intro nth_equalityI) simp_all
  then show ?thesis by (subst b(1)) simp
qed

text \<open>A server with a stream, an endpoint on it and the association of both.\<close>

definition associated_server :: rcp_mock_server_t where
  "associated_server =
     snd (rcp_mock_server_set_ep_id_map
       (snd (rcp_mock_server_set_request_stream_cfg one_endpoint
          [rcp_regmap_request_stream_cfg_init\<lparr>rsc_rx_stream_id := 9\<rparr>]))
       [\<lparr>em_ep_id = 1, em_byte_bus_id = 3, em_request_stream_index = 1, em_crc_required = False\<rparr>])"

theorem safe_state_exact_witness:
  "snd (rcp_mock_server_broadcast_safe_state associated_server 1) =
    associated_server\<lparr>ms_endpoints := map (\<lambda>s. if answers 9 3 s then purged_slot s else s)
      (ms_endpoints associated_server)\<rparr>"
proof -
  have r: "mock_reach associated_server" unfolding associated_server_def
    by (intro mock_reach.step [OF mock_reach.step [OF one_endpoint_reach mock_step.set_request_stream_cfg] mock_step.set_ep_id_map])
  have "ms_request_stream_cfg associated_server = [rcp_regmap_request_stream_cfg_init\<lparr>rsc_rx_stream_id := 9\<rparr>]"
    by (simp add: associated_server_def rcp_mock_server_set_ep_id_map_def rcp_mock_server_set_request_stream_cfg_def consts_rcp Let_def)
  moreover have "ms_ep_id_map associated_server =
      [\<lparr>em_ep_id = 1, em_byte_bus_id = 3, em_request_stream_index = 1, em_crc_required = False\<rparr>]"
    by (simp add: associated_server_def rcp_mock_server_set_ep_id_map_def consts_rcp Let_def)
  ultimately show ?thesis using safe_state_exact [OF r, of 1] by (auto simp: association_exists)
qed

section \<open>Chained requests\<close>

text \<open>C16: The result of every member of a frame that passes the sequence check (\<open>chain_law\<close>).  A member whose address cannot
  be read is reported as such.  A member that is not chained is handed to the server.  A chained member
  is an error at the head of the frame; it is aborted if any chained member before it was an error or
  was aborted, or if its predecessor failed and it asks to be aborted then; otherwise it is handed to
  the server.  The abort lasts to the end of the frame: it also covers a chain that starts, with a
  member that is not chained, after the one that failed.\<close>

theorem chained_members_exact:
  assumes "rcp_sched_split_frame_members frame RCP_MOCK_MAX_FRAME_MEMBERS = (real, offsets)"
    and "(errors, rs, srv') \<in>
      {([RCP_MOCK_DISPATCH_ERR_UNKNOWN_BUS, RCP_MOCK_DISPATCH_REJECTED, RCP_MOCK_DISPATCH_DROPPED],
        rcp_mock_server_dispatch_frame hs mems srv sub sync sid num frame cap),
       ([RCP_MOCK_DISPATCH_ERR_UNKNOWN_BUS, RCP_MOCK_DISPATCH_REJECTED, RCP_MOCK_DISPATCH_DROPPED,
         RCP_MOCK_DISPATCH_CRC_ERROR],
        rcp_mock_server_dispatch_frame_e2e hs mems srv sub sync sid ts num frame cap),
       ([RCP_MOCK_DISPATCH_ERR_UNKNOWN_BUS, RCP_MOCK_DISPATCH_REJECTED, RCP_MOCK_DISPATCH_DROPPED,
         RCP_MOCK_DISPATCH_CRC_ERROR],
        rcp_mock_server_dispatch_frame_e2e_tscf hs mems srv sub sync sid pt num frame cap)}"
  shows "if fst (frame_seq_gate_admits srv sid num)
    then \<forall>k<length rs. \<exists>m. frame_member frame offsets real k = Some m \<and>
       chain_law errors (map fm_result (take k rs)) m (fm_result (rs ! k))
    else \<forall>r\<in>set rs. fm_result r = RCP_MOCK_DISPATCH_SEQ_ERROR"
  using assms(2) plain_chain.frame_law [OF _ assms(1), of hs sub sync sid mems srv sid num cap rs srv']
    e2e_chain.frame_law [OF _ assms(1), of hs sub sync sid ts mems srv sid num cap rs srv']
    e2e_tscf_chain.frame_law [OF _ assms(1), of hs sub sync sid pt mems srv sid num cap rs srv']
  by (auto simp: rcp_mock_server_dispatch_frame_def rcp_mock_server_dispatch_frame_e2e_def
      rcp_mock_server_dispatch_frame_e2e_tscf_def frame_plain_def frame_e2e_def frame_e2e_tscf_def)

text \<open>A chained member, a member that is not chained and another chained member.\<close>

definition two_chains :: bytes where
  "two_chains = [26, 5, 192, 3, 1, 8, 128, 0, 1, 0, 0, 0, 0, 10, 0, 0, 1, 0, 0, 0] @
     [28, 3, 192, 3, 0, 4, 128, 0, 9, 0, 0, 0] @
     [26, 5, 192, 3, 1, 9, 128, 0, 1, 0, 0, 0, 0, 10, 0, 0, 1, 0, 0, 0]"

lemma two_chains_members:
  "rcp_sched_split_frame_members two_chains RCP_MOCK_MAX_FRAME_MEMBERS = (3, [0, 20, 32])"
  "map (frame_member two_chains [0, 20, 32] 3) [0, 1, 2] =
     [Some (take 20 two_chains), Some (take 12 (drop 20 two_chains)), Some (drop 32 two_chains)]"
  "peek_member_byte_bus_id (take 20 two_chains) = Some (RCP_ACF_MSG_TYPE_GBB, 3)"
  "is_chained_member (take 20 two_chains) = Some (1, 8)"
  "peek_member_byte_bus_id (drop 32 two_chains) = Some (RCP_ACF_MSG_TYPE_GBB, 3)"
  "is_chained_member (drop 32 two_chains) = Some (1, 9)"
  by code_simp+

theorem chained_members_exact_witness:
  "case rcp_mock_server_dispatch_frame echo_handlers (\<lambda>i. plenty) fresh_server RCP_AVTP_SUBTYPE_NTSCF False 9 0 two_chains 4
   of (rs, srv') \<Rightarrow> length rs = 3 \<and> fm_result (rs ! 0) = RCP_MOCK_DISPATCH_CHAIN_ERROR \<and>
     fm_result (rs ! 2) = RCP_MOCK_DISPATCH_CHAIN_ABORTED"
proof -
  obtain rs srv' where d: "rcp_mock_server_dispatch_frame echo_handlers (\<lambda>i. plenty) fresh_server RCP_AVTP_SUBTYPE_NTSCF
      False 9 0 two_chains 4 = (rs, srv')" by fastforce
  have members: "frame_member two_chains [0, 20, 32] 3 0 = Some (take 20 two_chains)"
    "frame_member two_chains [0, 20, 32] 3 (Suc 0) = Some (take 12 (drop 20 two_chains))"
    "frame_member two_chains [0, 20, 32] 3 2 = Some (drop 32 two_chains)"
    using two_chains_members(2) by simp_all
  have "stream_index_of fresh_server 9 = 0"
    by (simp add: stream_index_of_def fresh_server_def rcp_mock_server_new_def rcp_mock_server_set_discovery_timeout_us_def
        rcp_regmap_request_stream_cfg_resolve_index_def)
  then have gate: "frame_seq_gate_admits fresh_server 9 0 = (True, fresh_server)" by (simp add: frame_seq_gate_admits_def)
  have "frame_member two_chains [0, 20, 32] 3 (0 + k) \<noteq> None" if "k < 3" for k
    using that members by (auto simp: less_Suc_eq numeral_eq_Suc)
  note len = length_members [OF this]
  from d have "dispatch_members (frame_plain echo_handlers RCP_AVTP_SUBTYPE_NTSCF False 9) (\<lambda>i. plenty) 9 two_chains
      [0, 20, 32] 3 0 3 \<lparr>cst_aborted = False, cst_prev_errored = False, cst_group = 0, cst_position = 0\<rparr> fresh_server =
      (rs, srv')"
    unfolding rcp_mock_server_dispatch_frame_def dispatch_frame_core_def two_chains_members(1) gate
    by (simp add: RCP_MOCK_MAX_FRAME_MEMBERS_def)
  with len [of 3] have length: "length rs = 3" by (metis fst_conv)
  let ?errors = "[RCP_MOCK_DISPATCH_ERR_UNKNOWN_BUS, RCP_MOCK_DISPATCH_REJECTED, RCP_MOCK_DISPATCH_DROPPED]"
  have "(?errors, rs, srv') \<in>
      {(?errors, rcp_mock_server_dispatch_frame echo_handlers (\<lambda>i. plenty) fresh_server RCP_AVTP_SUBTYPE_NTSCF
          False 9 0 two_chains 4),
       (?errors @ [RCP_MOCK_DISPATCH_CRC_ERROR], rcp_mock_server_dispatch_frame_e2e echo_handlers (\<lambda>i. plenty)
          fresh_server RCP_AVTP_SUBTYPE_NTSCF False 9 0 0 two_chains 4),
       (?errors @ [RCP_MOCK_DISPATCH_CRC_ERROR], rcp_mock_server_dispatch_frame_e2e_tscf echo_handlers (\<lambda>i. plenty)
          fresh_server RCP_AVTP_SUBTYPE_NTSCF False 9 (False, 0, 0) 0 two_chains 4)}"
    by (simp add: d)
  note exact = chained_members_exact [OF two_chains_members(1) this [unfolded append_Cons append_Nil],
      unfolded gate fst_conv if_True length, rule_format]
  have "fm_result (rs ! 0) = RCP_MOCK_DISPATCH_CHAIN_ERROR"
    using exact [of 0] by (simp add: members two_chains_members chain_law_def chain_verdict_def)
  moreover from this have "\<exists>r\<in>set (map fm_result (take 2 rs)). chain_stopped r" "take 2 rs \<noteq> []"
    using length by (cases rs; auto simp: take_Cons')+
  then have "fm_result (rs ! 2) = RCP_MOCK_DISPATCH_CHAIN_ABORTED"
    using exact [of 2] by (simp add: members two_chains_members chain_law_def chain_verdict_def del: set_map)
  ultimately show ?thesis using d length by simp
qed

section \<open>Rejection of a stored request\<close>

lemma find_index_stored:
  assumes "k < length xs" and "P y"
  shows "find_index P (xs[k := y]) = Some (case find_index P (take k xs) of None \<Rightarrow> k | Some j \<Rightarrow> j)"
proof (cases "find_index P (take k xs)")
  case None
  then have "\<not> P (xs ! j)" if "j < k" for j
    using that assms(1) nth_mem [of j "take k xs"] by (simp add: find_index_None)
  with None assms show ?thesis by (simp add: find_index_Some)
next
  case (Some j)
  then have "j < k" "P (xs ! j)" "\<forall>i<j. \<not> P (xs ! i)" using assms(1) by (auto simp: find_index_Some)
  with assms(1) have "find_index P (xs[k := y]) = Some j" by (simp add: find_index_Some)
  with Some show ?thesis by simp
qed

text \<open>A request that an endpoint has just stored is taken out again by its transaction number.\<close>

lemma stored_then_cancelled:
  assumes "server_ok ep" and "stored_in ep ep' k s"
  shows "pending (snd (rcp_server_endpoint_cancel_single ep' (slot_transaction_num s) RCP_CANCEL_LIFECYCLE_QUEUED)) =
    (case find_index (\<lambda>x. in_use x \<and> slot_transaction_num x = slot_transaction_num s) (take k (pending ep)) of
       None \<Rightarrow> pending ep | Some j \<Rightarrow> (pending ep)[j := free_slot, k := s])"
proof -
  have k: "k < length (pending ep)" "pending ep' = (pending ep)[k := s]" "in_use s" "\<not> in_use (pending ep ! k)"
    using assms by (simp_all add: stored_in_def server_ok_def)
  then have free: "pending ep ! k = free_slot"
    using assms(1) by (auto simp: server_ok_def store.store_ok_def)
  let ?P = "\<lambda>x. in_use x \<and> slot_transaction_num x = slot_transaction_num s"
  have hit: "find_index ?P (pending ep') = Some (case find_index ?P (take k (pending ep)) of None \<Rightarrow> k | Some j \<Rightarrow> j)"
    unfolding k(2) by (rule find_index_stored) (simp_all add: k)
  have "(pending ep)[k := free_slot] = pending ep" using free by (metis list_update_id)
  moreover have "j < k" if "find_index ?P (take k (pending ep)) = Some j" for j
    using find_index_SomeD [OF that] by simp
  ultimately show ?thesis unfolding rcp_server_endpoint_cancel_single_def Let_def hit
    by (auto simp: rcp_cancel_attempt_def rcp_cancel_is_cancellable_def release_slot_def k(2) list_update_swap
        split: option.split)
qed

text \<open>C17: A timed request without time synchronisation is answered with a rejection and runs no handler.  The
  endpoint has stored it by then and takes it out by its transaction number.  If no request in a slot
  before it has the same number, the store is as it was.  Otherwise that older request is lost and the
  rejected one stays in the store.\<close>

theorem rejected_timed_request:
  assumes "route srv sid bus = Some slot" and "server_ok (sl_queue slot)"
    and "rcp_lifecycle_should_accept (ms_state srv) False sub mt bus (ms_tscf_policy srv) = RCP_LIFECYCLE_ACCEPT"
    and "rcp_server_endpoint_admit_with_ack (mm_server mem) (sl_queue slot) req 0 False 0 0 True = (a, q)"
    and "adm_result a = RCP_SERVER_ADMIT_PENDING" and "adm_request_type a = RCP_REQUEST_TYPE_TIMED" and "adm_index a = Some k"
  shows "case rcp_mock_server_dispatch hs mem srv bus sub mt False sid req of (r, response, srv') \<Rightarrow>
    r = RCP_MOCK_DISPATCH_REJECTED \<and> ms_calls srv' = ms_calls srv \<and>
    (\<exists>slot'. route srv' sid bus = Some slot' \<and>
       (let stored = pending (sl_queue slot); s = pending q ! k in
        pending (sl_queue slot') =
          (case find_index (\<lambda>x. in_use x \<and> slot_transaction_num x = slot_transaction_num s) (take k stored) of
             None \<Rightarrow> stored
           | Some j \<Rightarrow> stored[j := free_slot, k := s])))"
proof -
  let ?k = "kick_watchdog mem srv sid"
  obtain i where i: "find_slot_on_stream srv sid bus = Some i" "ms_endpoints srv ! i = slot"
    using assms(1) by (auto simp: route_def)
  have len: "i < length (ms_endpoints srv)" using i(1) find_index_SomeD unfolding find_on_stream_answers by blast
  have o: "outside srv ?k" by simp
  have st: "stored_in (sl_queue slot) q k (pending q ! k)"
  proof -
    have "\<exists>s. stored_in (sl_queue slot) q k s"
      using admit_cases [OF assms(2,4)] assms(5,7) admit_submit_keeps [of "mm_server mem" "sl_queue slot" req True a q]
      by (auto simp: store_outcome_def)
    then obtain s where s: "stored_in (sl_queue slot) q k s" by blast
    then have "pending q ! k = s" using assms(2) by (simp add: stored_in_def server_ok_def)
    with s show ?thesis by simp
  qed
  let ?c = "snd (rcp_server_endpoint_cancel_single q (slot_transaction_num (pending q ! k)) RCP_CANCEL_LIFECYCLE_QUEUED)"
  have kick: "find_slot_on_stream ?k sid bus = Some i" "slot_queue ?k i = sl_queue slot" "i < length (ms_endpoints ?k)"
    "ms_state ?k = ms_state srv" "ms_tscf_policy ?k = ms_tscf_policy srv"
    using i len o [unfolded outside_def settings_def] by (simp_all add: outside_find(1,4) [OF o] slot_queue_def)
  have put: "slot_queue (put_queue ?k i q) i = q" using kick(3) by (simp add: slot_queue_def put_queue_def upd_slot_def)
  have "dispatch_plain_inner hs mem ?k bus sub mt False sid (False, 0, 0) req =
      after_admission hs mem (put_queue ?k i q) i a bus False sid req"
    unfolding dispatch_plain_inner_def Let_def prod.case kick assms(3) if_cancel option.case rcp_lifecycle_accept_t.case assms(4) ..
  also have "\<dots> = reject_stored mem (put_queue ?k i q) i (pending q ! k) bus (rcp_timed_wire_error RCP_TIMED_REJECT_GPTP_FAIL)"
    using assms(5-7) by (simp add: after_admission_def put)
  finally obtain resp where d: "rcp_mock_server_dispatch hs mem srv bus sub mt False sid req =
      (RCP_MOCK_DISPATCH_REJECTED, resp, put_queue (put_queue ?k i q) i ?c)"
    by (simp add: rcp_mock_server_dispatch_def dispatch_plain_def reject_stored_def Let_def put)
  have "route (put_queue (put_queue ?k i q) i ?c) sid bus = Some (slot\<lparr>sl_queue := ?c\<rparr>)"
    using i len by (simp add: route_def find_slot_on_stream_def put_queue_def upd_slot_def find_index_update_same
        outside_find(4) [OF o])
  then show ?thesis using stored_then_cancelled [OF assms(2) st] by (simp add: d Let_def)
qed

definition timed_seven :: bytes where
  "timed_seven = rcp_bytes_data (rcp_timed_encode_request True 3 1000 7 [1])"

lemma timed_admission:
  "(\<lambda>(a, q). (adm_result a, adm_request_type a, adm_index a, in_use (pending q ! 1), slot_transaction_num (pending q ! 1)))
     (rcp_server_endpoint_admit_with_ack sample_mem sample_ep timed_seven 0 False 0 0 True) =
   (RCP_SERVER_ADMIT_PENDING, RCP_REQUEST_TYPE_TIMED, Some 1, True, 7)"
  "in_use (pending sample_ep ! 0)" "slot_transaction_num (pending sample_ep ! 0) = 7" "length (pending sample_ep) = 32"
  by code_simp+

definition storing_server :: rcp_mock_server_t where
  "storing_server = fresh_server\<lparr>ms_state := RCP_LIFECYCLE_RCP_CONFIGURED,
     ms_endpoints := [(new_endpoint_slot 3 1 True (Some 0) 0)\<lparr>sl_queue := sample_ep\<rparr>]\<rparr>"

text \<open>The compound request with transaction number 7 is lost to a timed request with the same number.\<close>

theorem rejected_timed_request_witness:
  "case rcp_mock_server_dispatch echo_handlers plenty storing_server 3 RCP_AVTP_SUBTYPE_NTSCF RCP_ACF_MSG_TYPE_GBB False 9
     timed_seven of (r, response, srv') \<Rightarrow>
     r = RCP_MOCK_DISPATCH_REJECTED \<and>
     (\<exists>slot'. route srv' 9 3 = Some slot' \<and> \<not> in_use (pending (sl_queue slot') ! 0) \<and> in_use (pending (sl_queue slot') ! 1))"
proof -
  let ?slot = "(new_endpoint_slot 3 1 True (Some 0) 0)\<lparr>sl_queue := sample_ep\<rparr>"
  have r: "route storing_server 9 3 = Some ?slot"
    by (simp add: route_def find_slot_on_stream_def storing_server_def new_endpoint_slot_def zero_endpoint_slot_def)
  have ok: "server_ok (sl_queue ?slot)" using server_reach_ok [OF sample_ep_reach] by simp
  have "rcp_lifecycle_should_accept RCP_LIFECYCLE_RCP_CONFIGURED False RCP_AVTP_SUBTYPE_NTSCF RCP_ACF_MSG_TYPE_GBB 3
      RCP_AVTP_TSCF_FALLBACK_DROP = RCP_LIFECYCLE_ACCEPT" by code_simp
  then have l: "rcp_lifecycle_should_accept (ms_state storing_server) False RCP_AVTP_SUBTYPE_NTSCF RCP_ACF_MSG_TYPE_GBB 3
      (ms_tscf_policy storing_server) = RCP_LIFECYCLE_ACCEPT"
    by (simp add: storing_server_def fresh_server_def rcp_mock_server_new_def rcp_mock_server_set_discovery_timeout_us_def)
  obtain a q where admit: "rcp_server_endpoint_admit_with_ack (mm_server plenty) (sl_queue ?slot) timed_seven 0 False 0 0 True = (a, q)"
    by fastforce
  then have a: "adm_result a = RCP_SERVER_ADMIT_PENDING" "adm_request_type a = RCP_REQUEST_TYPE_TIMED" "adm_index a = Some 1"
    "in_use (pending q ! 1)" "slot_transaction_num (pending q ! 1) = 7"
    using timed_admission(1) by (simp_all add: plenty_def)
  have "take 1 (pending sample_ep) = [pending sample_ep ! 0]" using timed_admission(4) by (cases "pending sample_ep") auto
  then have "find_index (\<lambda>x. in_use x \<and> slot_transaction_num x = 7) (take 1 (pending sample_ep)) = Some 0"
    using timed_admission(2,3) by simp
  then show ?thesis
    using rejected_timed_request [OF r ok l admit a(1-3), of echo_handlers] timed_admission(4) a(4,5)
    by (auto simp: Let_def free_slot_def split: prod.splits)
qed

end
