(* ===== verification/Loan.thy ===== *)
theory Loan
  imports Rcp_Core "HOL-Library.Multiset"
begin

text \<open>
  \<^verbatim>\<open>src/loan.c\<close>: the pool of payload buffers.  Buffers are shared by address between the pool, the loans and
  the client, so the model has an explicit heap: a partial map from addresses to octets, in which a
  freed buffer is undefined.  Which address an allocation returns is an argument (\<^const>\<open>None\<close> when it
  fails); of the allocator the proofs use only that it returns an address that is not in use.  The small
  objects that hold a loan and its release context are values.
\<close>

section \<open>Operations\<close>

type_synonym loan_heap = "nat \<rightharpoonup> bytes"

record pool_entry_t =
  pe_data :: nat
  pe_cap :: nat

definition RCP_LOAN_POOL_MAX_ENTRIES :: nat where [consts_rcp]: "RCP_LOAN_POOL_MAX_ENTRIES = 64"

type_synonym rcp_loan_pool_t = "pool_entry_t list"

text \<open>The release function and its context; \<^const>\<open>None\<close> once the buffer is back.\<close>

record rcp_loan_t =
  ln_data :: nat
  ln_len :: nat
  ln_release :: "pool_entry_t option"

definition rcp_loan_pool_new :: "bool \<Rightarrow> rcp_loan_pool_t option" where
  "rcp_loan_pool_new mem = (if mem then Some [] else None)"

definition pool_append :: "rcp_loan_pool_t \<Rightarrow> pool_entry_t \<Rightarrow> rcp_loan_pool_t option" where
  "pool_append pool e = (if length pool = RCP_LOAN_POOL_MAX_ENTRIES then None else Some (pool @ [e]))"

definition loan_release_to_pool ::
    "loan_heap \<Rightarrow> rcp_loan_pool_t \<Rightarrow> pool_entry_t \<Rightarrow> loan_heap \<times> rcp_loan_pool_t" where
  "loan_release_to_pool heap pool ctx =
     (case pool_append pool ctx of
        None \<Rightarrow> (heap(pe_data ctx := None), pool)
      | Some pool' \<Rightarrow> (heap, pool'))"

definition rcp_loan_return ::
    "loan_heap \<Rightarrow> rcp_loan_pool_t \<Rightarrow> rcp_loan_t \<Rightarrow> loan_heap \<times> rcp_loan_pool_t \<times> rcp_loan_t" where
  "rcp_loan_return heap pool loan =
     (case ln_release loan of
        None \<Rightarrow> (heap, pool, loan)
      | Some ctx \<Rightarrow>
          let (heap, pool) = loan_release_to_pool heap pool ctx in (heap, pool, loan\<lparr>ln_release := None\<rparr>))"

definition rcp_loan_release ::
    "loan_heap \<Rightarrow> rcp_loan_pool_t \<Rightarrow> rcp_loan_t option \<Rightarrow> loan_heap \<times> rcp_loan_pool_t" where
  "rcp_loan_release heap pool loan =
     (case loan of
        None \<Rightarrow> (heap, pool)
      | Some l \<Rightarrow> let (heap, pool, l) = rcp_loan_return heap pool l in (heap, pool))"

text \<open>The first buffer that is large enough; the last entry takes its place.\<close>

definition take_pooled :: "rcp_loan_pool_t \<Rightarrow> nat \<Rightarrow> (pool_entry_t \<times> rcp_loan_pool_t) option" where
  "take_pooled pool size_wanted =
     (case find_index (\<lambda>e. pe_cap e \<ge> size_wanted) pool of
        None \<Rightarrow> None
      | Some i \<Rightarrow> Some (pool ! i, butlast (pool[i := last pool])))"

definition acquire_buffer ::
    "nat option \<Rightarrow> loan_heap \<Rightarrow> rcp_loan_pool_t \<Rightarrow> nat \<Rightarrow> (pool_entry_t \<times> loan_heap \<times> rcp_loan_pool_t) option" where
  "acquire_buffer fresh heap pool size_wanted =
     (case take_pooled pool size_wanted of
        Some (e, pool') \<Rightarrow>
          Some (e, heap(pe_data e := map_option (\<lambda>bs. replicate size_wanted 0 @ drop size_wanted bs) (heap (pe_data e))), pool')
      | None \<Rightarrow>
          (case fresh of
             None \<Rightarrow> None
           | Some a \<Rightarrow>
               Some (\<lparr>pe_data = a, pe_cap = size_wanted\<rparr>,
                     heap(a \<mapsto> replicate (if size_wanted > 0 then size_wanted else 1) 0), pool)))"

definition rcp_loan_pool_acquire ::
    "nat option \<Rightarrow> bool \<Rightarrow> bool \<Rightarrow> loan_heap \<Rightarrow> rcp_loan_pool_t \<Rightarrow> nat \<Rightarrow>
     rcp_loan_t option \<times> loan_heap \<times> rcp_loan_pool_t" where
  "rcp_loan_pool_acquire fresh mem_loan mem_ctx heap pool size_wanted =
     (case acquire_buffer fresh heap pool size_wanted of
        None \<Rightarrow> (None, heap, pool)
      | Some (e, heap, pool) \<Rightarrow>
          if \<not> mem_loan \<or> \<not> mem_ctx then (None, heap(pe_data e := None), pool)
          else (Some \<lparr>ln_data = pe_data e, ln_len = size_wanted, ln_release = Some e\<rparr>, heap, pool))"

definition rcp_loan_pool_destroy :: "loan_heap \<Rightarrow> rcp_loan_pool_t option \<Rightarrow> loan_heap" where
  "rcp_loan_pool_destroy heap pool =
     (case pool of None \<Rightarrow> heap | Some p \<Rightarrow> heap |` (- pe_data ` set p))"

section \<open>A pool and its client\<close>

text \<open>The heap, a pool, and the loans the client holds.\<close>

record loan_world =
  lw_heap :: loan_heap
  lw_pool :: rcp_loan_pool_t
  lw_loans :: "rcp_loan_t list"

definition lent :: "rcp_loan_t list \<Rightarrow> pool_entry_t list" where
  "lent loans = List.map_filter ln_release loans"

inductive loan_step :: "loan_world \<Rightarrow> loan_world \<Rightarrow> bool" where
  acquired: "rcp_loan_pool_acquire fresh m1 m2 (lw_heap w) (lw_pool w) n = (Some l, heap, pool) \<Longrightarrow>
    (\<forall>a. fresh = Some a \<longrightarrow> lw_heap w a = None) \<Longrightarrow>
    loan_step w (w\<lparr>lw_heap := heap, lw_pool := pool, lw_loans := lw_loans w @ [l]\<rparr>)"
| refused: "rcp_loan_pool_acquire fresh m1 m2 (lw_heap w) (lw_pool w) n = (None, heap, pool) \<Longrightarrow>
    (\<forall>a. fresh = Some a \<longrightarrow> lw_heap w a = None) \<Longrightarrow>
    loan_step w (w\<lparr>lw_heap := heap, lw_pool := pool\<rparr>)"
| returned: "i < length (lw_loans w) \<Longrightarrow> rcp_loan_return (lw_heap w) (lw_pool w) (lw_loans w ! i) = (heap, pool, l) \<Longrightarrow>
    loan_step w (w\<lparr>lw_heap := heap, lw_pool := pool, lw_loans := (lw_loans w)[i := l]\<rparr>)"
| released: "i < length (lw_loans w) \<Longrightarrow>
    rcp_loan_release (lw_heap w) (lw_pool w) (Some (lw_loans w ! i)) = (heap, pool) \<Longrightarrow>
    loan_step w (w\<lparr>lw_heap := heap, lw_pool := pool, lw_loans := take i (lw_loans w) @ drop (Suc i) (lw_loans w)\<rparr>)"
| written: "i < length (lw_loans w) \<Longrightarrow> ln_release (lw_loans w ! i) \<noteq> None \<Longrightarrow> j < ln_len (lw_loans w ! i) \<Longrightarrow>
    lw_heap w (ln_data (lw_loans w ! i)) = Some bs \<Longrightarrow>
    loan_step w (w\<lparr>lw_heap := (lw_heap w)(ln_data (lw_loans w ! i) \<mapsto> bs[j := b])\<rparr>)"

inductive loan_reach :: "loan_world \<Rightarrow> bool" where
  start: "rcp_loan_pool_new mem = Some p \<Longrightarrow> loan_reach \<lparr>lw_heap = Map.empty, lw_pool = p, lw_loans = []\<rparr>"
| step: "loan_reach w \<Longrightarrow> loan_step w w' \<Longrightarrow> loan_reach w'"

text \<open>Every buffer of the heap belongs to exactly one place in the pool or one loan, and is as large as
  recorded.\<close>

definition buffers_ok :: "loan_heap \<Rightarrow> pool_entry_t multiset \<Rightarrow> bool" where
  "buffers_ok heap es \<longleftrightarrow> (\<forall>a. count (image_mset pe_data es) a = (if heap a = None then 0 else 1)) \<and>
     (\<forall>e\<in>#es. \<exists>bs. heap (pe_data e) = Some bs \<and> pe_cap e \<le> length bs)"

definition loan_ok :: "rcp_loan_t \<Rightarrow> bool" where
  "loan_ok l \<longleftrightarrow> (\<forall>e. ln_release l = Some e \<longrightarrow> pe_data e = ln_data l \<and> ln_len l \<le> pe_cap e)"

definition world_ok :: "loan_world \<Rightarrow> bool" where
  "world_ok w \<longleftrightarrow> buffers_ok (lw_heap w) (mset (lw_pool w) + mset (lent (lw_loans w))) \<and>
     (\<forall>l\<in>set (lw_loans w). loan_ok l) \<and> length (lw_pool w) \<le> RCP_LOAN_POOL_MAX_ENTRIES"

section \<open>The invariant\<close>

lemma buffers_count:
  "buffers_ok heap es \<Longrightarrow> count (image_mset pe_data es) a = (if heap a = None then 0 else 1)"
  unfolding buffers_ok_def by blast

lemma buffers_remove:
  assumes "buffers_ok heap (add_mset e es)"
  shows "buffers_ok (heap(pe_data e := None)) es"
proof -
  have c: "count (image_mset pe_data es) a + (if a = pe_data e then 1 else 0) = (if heap a = None then 0 else 1)" for a
    using buffers_count [OF assms, of a] unfolding image_mset_add_mset count_add_mset
    by (cases "a = pe_data e") simp_all
  have "count (image_mset pe_data es) (pe_data e) = 0" using c [of "pe_data e"] by (simp split: if_splits)
  then have "pe_data e \<notin># image_mset pe_data es" by (simp only: count_eq_zero_iff not_False_eq_True)
  then have apart: "pe_data x \<noteq> pe_data e" if "x \<in># es" for x using that by (metis image_eqI set_image_mset)
  have "count (image_mset pe_data es) a = (if (heap(pe_data e := None)) a = None then 0 else 1)" for a
    using c [of a] by (auto split: if_splits)
  then show ?thesis using assms apart by (auto simp: buffers_ok_def)
qed

lemma buffers_add:
  assumes "buffers_ok heap es" and "heap (pe_data e) = None" and "pe_cap e \<le> length bs"
  shows "buffers_ok (heap(pe_data e \<mapsto> bs)) (add_mset e es)"
proof -
  have "pe_data x \<noteq> pe_data e" if "x \<in># es" for x using assms(1,2) that by (force simp: buffers_ok_def)
  with assms show ?thesis by (auto simp: buffers_ok_def)
qed

lemma buffers_write:
  assumes "buffers_ok heap es" and "heap a = Some bs" and "length bs' = length bs"
  shows "buffers_ok (heap(a \<mapsto> bs')) es"
  using assms by (fastforce simp: buffers_ok_def)

lemma take_pooled_SomeD:
  assumes "take_pooled pool n = Some (e, pool')"
  shows "mset pool = add_mset e (mset pool')" and "n \<le> pe_cap e" and "length pool' < length pool"
proof -
  obtain i where f: "find_index (\<lambda>e. pe_cap e \<ge> n) pool = Some i" and e: "e = pool ! i" "pool' = butlast (pool[i := last pool])"
    using assms by (auto simp: take_pooled_def split: option.splits)
  note i = find_index_SomeD [OF f, THEN conjunct1] find_index_SomeD [OF f, THEN conjunct2] e
  then have ne: "pool \<noteq> []" by auto
  have l: "last (pool[i := last pool]) = last pool"
    using ne i(1) by (simp add: last_conv_nth nth_list_update)
  have "butlast (pool[i := last pool]) @ [last pool] = pool[i := last pool]"
    using ne l append_butlast_last_id [of "pool[i := last pool]"] by simp
  then have "mset (pool[i := last pool]) = mset (butlast (pool[i := last pool]) @ [last pool])" by simp
  then have "mset (pool[i := last pool]) = add_mset (last pool) (mset pool')" by (simp add: i(4))
  then show "mset pool = add_mset e (mset pool')"
    using i(1,3) by (simp add: mset_update) (metis add_mset_remove_trivial insert_DiffM nth_mem_mset)
  show "n \<le> pe_cap e" "length pool' < length pool" using i ne by auto
qed

lemma lent_simps [simp]:
  "lent [] = []" "lent (l # ls) = (case ln_release l of None \<Rightarrow> lent ls | Some e \<Rightarrow> e # lent ls)"
  "lent (ls @ ms) = lent ls @ lent ms"
  by (simp_all add: lent_def List.map_filter_def split: option.split)

lemma lent_split:
  "i < length ls \<Longrightarrow> lent ls = lent (take i ls) @ lent [ls ! i] @ lent (drop (Suc i) ls)"
  by (metis append_Cons append_Nil id_take_nth_drop lent_simps(3))

lemma lent_update:
  "i < length ls \<Longrightarrow> lent (ls[i := l]) = lent (take i ls) @ lent [l] @ lent (drop (Suc i) ls)"
  by (simp add: upd_conv_take_nth_drop del: lent_simps(2)) (metis append_Cons append_Nil lent_simps(3))

text \<open>The buffer of a loan goes to the pool or is freed.\<close>

lemma release_to_pool_ok:
  assumes "loan_release_to_pool heap pool e = (heap', pool')" and "buffers_ok heap (mset pool + add_mset e es)"
    and "length pool \<le> RCP_LOAN_POOL_MAX_ENTRIES"
  shows "buffers_ok heap' (mset pool' + es)" and "length pool' \<le> RCP_LOAN_POOL_MAX_ENTRIES"
  using assms buffers_remove [of heap e "mset pool + es"]
  by (auto simp: loan_release_to_pool_def pool_append_def split: if_splits)

text \<open>A buffer that is acquired leaves the pool or comes from the allocator, is zeroed, and no other buffer
  changes.\<close>

lemma acquire_buffer_ok:
  assumes "acquire_buffer fresh heap pool n = Some (e, heap', pool')" and "buffers_ok heap (mset pool + es)"
    and "\<And>a. fresh = Some a \<Longrightarrow> heap a = None"
  shows "buffers_ok heap' (add_mset e (mset pool' + es))" and "length pool' \<le> length pool" and "n \<le> pe_cap e"
    and "\<exists>bs. heap' (pe_data e) = Some bs \<and> take n bs = replicate n 0"
    and "a \<noteq> pe_data e \<Longrightarrow> heap' a = heap a"
proof -
  have "buffers_ok heap' (add_mset e (mset pool' + es)) \<and> length pool' \<le> length pool \<and> n \<le> pe_cap e \<and>
      (\<exists>bs. heap' (pe_data e) = Some bs \<and> take n bs = replicate n 0) \<and> (a \<noteq> pe_data e \<longrightarrow> heap' a = heap a)"
  proof (cases "take_pooled pool n")
    case None
    then obtain b where b: "fresh = Some b" "e = \<lparr>pe_data = b, pe_cap = n\<rparr>" "pool' = pool"
      "heap' = heap(b \<mapsto> replicate (if n > 0 then n else 1) 0)"
      using assms(1) by (auto simp: acquire_buffer_def split: option.splits)
    then show ?thesis using buffers_add [OF assms(2), of e "replicate (if n > 0 then n else 1) 0"] assms(3) by auto
  next
    case (Some x)
    then obtain p where x: "x = (e, p)" using assms(1) by (cases x) (auto simp: acquire_buffer_def)
    note t = take_pooled_SomeD [OF Some [unfolded x]]
    obtain bs where bs: "heap (pe_data e) = Some bs" "pe_cap e \<le> length bs" using assms(2) t(1) by (auto simp: buffers_ok_def)
    have "heap' = heap(pe_data e \<mapsto> replicate n 0 @ drop n bs)" "pool' = p"
      using assms(1) Some x bs by (simp_all add: acquire_buffer_def)
    then show ?thesis using t bs buffers_write [OF assms(2) bs(1), of "replicate n 0 @ drop n bs"] by simp
  qed
  then show "buffers_ok heap' (add_mset e (mset pool' + es))" "length pool' \<le> length pool" "n \<le> pe_cap e"
    "\<exists>bs. heap' (pe_data e) = Some bs \<and> take n bs = replicate n 0" "a \<noteq> pe_data e \<Longrightarrow> heap' a = heap a" by blast+
qed

lemma loan_step_ok: "loan_step w w' \<Longrightarrow> world_ok w \<Longrightarrow> world_ok w'"
proof (induction rule: loan_step.induct)
  case (acquired fresh m1 m2 w n l heap pool)
  then obtain e where e: "acquire_buffer fresh (lw_heap w) (lw_pool w) n = Some (e, heap, pool)"
    "l = \<lparr>ln_data = pe_data e, ln_len = n, ln_release = Some e\<rparr>"
    by (auto simp: rcp_loan_pool_acquire_def split: option.splits prod.splits if_splits)
  note a = acquire_buffer_ok [OF e(1), of "mset (lent (lw_loans w))"]
  from acquired.prems a acquired.hyps(2) show ?case by (auto simp: world_ok_def e(2) loan_ok_def ac_simps)
next
  case (refused fresh m1 m2 w n heap pool)
  then consider "heap = lw_heap w" "pool = lw_pool w"
    | e heap1 where "acquire_buffer fresh (lw_heap w) (lw_pool w) n = Some (e, heap1, pool)" "heap = heap1(pe_data e := None)"
    by (auto simp: rcp_loan_pool_acquire_def split: option.splits prod.splits if_splits)
  then show ?case
  proof cases
    case (2 e heap1)
    note a = acquire_buffer_ok [OF 2(1), of "mset (lent (lw_loans w))"]
    show ?thesis using refused.prems a refused.hyps(2) buffers_remove [of heap1 e] 2(2) by (auto simp: world_ok_def)
  qed (use refused.prems in \<open>simp add: world_ok_def\<close>)
next
  case (returned i w heap pool l)
  show ?case
  proof (cases "ln_release (lw_loans w ! i)")
    case None
    then have "heap = lw_heap w" "pool = lw_pool w" "l = lw_loans w ! i"
      using returned.hyps(2) by (simp_all add: rcp_loan_return_def)
    then show ?thesis using returned.prems by simp
  next
    case (Some e)
    let ?es = "mset (lent (take i (lw_loans w))) + mset (lent (drop (Suc i) (lw_loans w)))"
    have r: "loan_release_to_pool (lw_heap w) (lw_pool w) e = (heap, pool)" "l = (lw_loans w ! i)\<lparr>ln_release := None\<rparr>"
      using returned.hyps(2) Some by (auto simp: rcp_loan_return_def split: prod.splits)
    have "buffers_ok (lw_heap w) (mset (lw_pool w) + add_mset e ?es)"
      using returned.prems Some lent_split [OF returned.hyps(1)] by (simp add: world_ok_def ac_simps)
    note ok = release_to_pool_ok [OF r(1) this]
    have "loan_ok x" if "x \<in> set ((lw_loans w)[i := l])" for x
      using that set_update_subset_insert [of "lw_loans w" i l] returned.prems by (auto simp: world_ok_def loan_ok_def r(2))
    then show ?thesis using ok returned.prems lent_update [OF returned.hyps(1), of l] r(2) by (auto simp: world_ok_def ac_simps)
  qed
next
  case (released i w heap pool)
  let ?es = "mset (lent (take i (lw_loans w))) + mset (lent (drop (Suc i) (lw_loans w)))"
  have "loan_ok x" if "x \<in> set (take i (lw_loans w) @ drop (Suc i) (lw_loans w))" for x
    using that released.prems by (auto simp: world_ok_def dest: in_set_takeD in_set_dropD)
  moreover have "buffers_ok heap (mset pool + ?es) \<and> length pool \<le> RCP_LOAN_POOL_MAX_ENTRIES"
  proof (cases "ln_release (lw_loans w ! i)")
    case None
    then show ?thesis using released.prems released.hyps(2) lent_split [OF released.hyps(1)]
      by (simp add: world_ok_def rcp_loan_release_def rcp_loan_return_def)
  next
    case (Some e)
    have r: "loan_release_to_pool (lw_heap w) (lw_pool w) e = (heap, pool)"
      using released.hyps(2) Some by (auto simp: rcp_loan_release_def rcp_loan_return_def split: prod.splits)
    have "buffers_ok (lw_heap w) (mset (lw_pool w) + add_mset e ?es)"
      using released.prems Some lent_split [OF released.hyps(1)] by (simp add: world_ok_def ac_simps)
    from release_to_pool_ok [OF r this] released.prems show ?thesis by (simp add: world_ok_def)
  qed
  ultimately show ?case by (simp add: world_ok_def ac_simps)
next
  case (written i w j bs b)
  then show ?case using buffers_write [of "lw_heap w" _ "ln_data (lw_loans w ! i)" bs "bs[j := b]"] by (simp add: world_ok_def)
qed

lemma loan_reach_ok: "loan_reach w \<Longrightarrow> world_ok w"
proof (induction rule: loan_reach.induct)
  case (start mem p)
  then show ?case by (auto simp: world_ok_def buffers_ok_def rcp_loan_pool_new_def split: if_splits)
next
  case (step w w')
  then show ?case using loan_step_ok by blast
qed

section \<open>Properties\<close>

lemma buffer_once:
  assumes "buffers_ok heap (add_mset d (add_mset e es))"
  shows "pe_data d \<noteq> pe_data e"
proof
  assume "pe_data d = pe_data e"
  moreover have "count (image_mset pe_data (add_mset d (add_mset e es))) (pe_data d) \<le> 1"
    unfolding buffers_count [OF assms] by simp
  ultimately show False by simp
qed

lemma lent_two:
  assumes "i < j" and "j < length ls" and "ln_release (ls ! i) = Some d" and "ln_release (ls ! j) = Some e"
  shows "\<exists>es. mset (lent ls) = add_mset d (add_mset e es)"
proof -
  have "e \<in># mset (lent (drop (Suc i) ls))"
    using assms lent_split [of "j - Suc i" "drop (Suc i) ls"] by simp
  then obtain es where "mset (lent (drop (Suc i) ls)) = add_mset e es" by (metis insert_DiffM)
  then show ?thesis using lent_split [of i ls] assms by auto
qed

lemma on_loan:
  assumes "world_ok w" and "l \<in> set (lw_loans w)" and "ln_release l = Some d"
  shows "d \<in># mset (lent (lw_loans w))" and "pe_data d = ln_data l" and "ln_len l \<le> pe_cap d"
  using assms by (force simp: lent_def List.map_filter_def world_ok_def loan_ok_def)+

lemma loan_held:
  assumes "world_ok w" and "l \<in> set (lw_loans w)" and "ln_release l = Some d"
  shows "(\<exists>bs. lw_heap w (ln_data l) = Some bs \<and> ln_len l \<le> length bs) \<and> ln_data l \<notin> pe_data ` set (lw_pool w)"
proof -
  obtain es where es: "mset (lent (lw_loans w)) = add_mset d es" using on_loan(1) [OF assms] by (metis insert_DiffM)
  have ok: "buffers_ok (lw_heap w) (add_mset d (mset (lw_pool w) + es))"
    using assms(1) by (simp add: world_ok_def es)
  have "pe_data d \<noteq> pe_data e" if e: "e \<in> set (lw_pool w)" for e
  proof -
    obtain ps where "mset (lw_pool w) = add_mset e ps" using multi_member_split [of e "mset (lw_pool w)"] e by auto
    then show ?thesis using buffer_once [of "lw_heap w" d e "ps + es"] ok by simp
  qed
  moreover obtain bs where "lw_heap w (pe_data d) = Some bs" "pe_cap d \<le> length bs"
    using ok unfolding buffers_ok_def by auto
  ultimately show ?thesis using on_loan(2,3) [OF assms] by (auto simp: image_iff)
qed

lemma loans_apart:
  assumes "world_ok w" and "j < i" and "i < length (lw_loans w)"
    and "ln_release (lw_loans w ! j) = Some d" and "ln_release (lw_loans w ! i) = Some e"
  shows "ln_data (lw_loans w ! j) \<noteq> ln_data (lw_loans w ! i)"
proof -
  obtain es where "mset (lent (lw_loans w)) = add_mset d (add_mset e es)" using lent_two [OF assms(2-5)] by blast
  then have "pe_data d \<noteq> pe_data e"
    using buffer_once [of "lw_heap w" d e "mset (lw_pool w) + es"] assms(1) by (simp add: world_ok_def)
  then show ?thesis using on_loan(2) [OF assms(1) _ assms(4)] on_loan(2) [OF assms(1) _ assms(5)] assms(2,3) by simp
qed

lemma heap_owned:
  assumes "world_ok w"
  shows "dom (lw_heap w) = pe_data ` set (lw_pool w) \<union> ln_data ` {l \<in> set (lw_loans w). ln_release l \<noteq> None}"
proof -
  have ok: "buffers_ok (lw_heap w) (mset (lw_pool w) + mset (lent (lw_loans w)))" using assms by (simp add: world_ok_def)
  have "a \<in> dom (lw_heap w) \<longleftrightarrow> a \<in># image_mset pe_data (mset (lw_pool w) + mset (lent (lw_loans w)))" for a
    using buffers_count [OF ok, of a] count_eq_zero_iff by (metis domIff zero_neq_one)
  then have "dom (lw_heap w) = set_mset (image_mset pe_data (mset (lw_pool w) + mset (lent (lw_loans w))))" by blast
  also have "\<dots> = pe_data ` set (lw_pool w) \<union> pe_data ` set (lent (lw_loans w))" by (simp add: image_Un)
  also have "pe_data ` set (lent (lw_loans w)) = ln_data ` {l \<in> set (lw_loans w). ln_release l \<noteq> None}"
    using on_loan(2) [OF assms] by (force simp: lent_def List.map_filter_def image_iff)
  finally show ?thesis .
qed

lemma new_loan:
  assumes "world_ok w" and acq: "rcp_loan_pool_acquire fresh m1 m2 (lw_heap w) (lw_pool w) n = (Some l, heap, pool)"
    and fresh: "\<And>a. fresh = Some a \<Longrightarrow> lw_heap w a = None"
  shows "ln_len l = n \<and> (\<exists>bs. heap (ln_data l) = Some bs \<and> take n bs = replicate n 0) \<and>
    (\<forall>k\<in>set (lw_loans w). ln_release k \<noteq> None \<longrightarrow> ln_data k \<noteq> ln_data l \<and> heap (ln_data k) = lw_heap w (ln_data k))"
proof -
  obtain e where e: "acquire_buffer fresh (lw_heap w) (lw_pool w) n = Some (e, heap, pool)"
    "l = \<lparr>ln_data = pe_data e, ln_len = n, ln_release = Some e\<rparr>"
    using acq by (auto simp: rcp_loan_pool_acquire_def split: option.splits prod.splits if_splits)
  have ok: "buffers_ok (lw_heap w) (mset (lw_pool w) + mset (lent (lw_loans w)))" using assms(1) by (simp add: world_ok_def)
  note a = acquire_buffer_ok [OF e(1) ok fresh]
  have "ln_data k \<noteq> pe_data e" if k: "k \<in> set (lw_loans w)" "ln_release k = Some d" for k d
  proof -
    obtain es where "mset (lent (lw_loans w)) = add_mset d es" using on_loan(1) [OF assms(1) k] by (metis insert_DiffM)
    then show ?thesis using buffer_once [of heap e d "mset pool + es"] a(1) on_loan(2) [OF assms(1) k] by simp
  qed
  then show ?thesis using a(4,5) e(2) by auto
qed

text \<open>C35: However a client acquires, writes, returns and releases loans, the buffers it holds are different from
  each other and from every buffer of the pool, and hold the octets asked for; every allocated buffer is
  in the pool or on loan, so that none leaks, and after the last loan is back destroying the pool frees
  everything.  A new loan is zeroed and leaves the buffers of all other loans alone.\<close>

theorem loan_pool_sound:
  assumes "loan_reach w"
  shows "(\<forall>i<length (lw_loans w). \<forall>d. ln_release (lw_loans w ! i) = Some d \<longrightarrow>
      (\<exists>bs. lw_heap w (ln_data (lw_loans w ! i)) = Some bs \<and> ln_len (lw_loans w ! i) \<le> length bs) \<and>
      ln_data (lw_loans w ! i) \<notin> pe_data ` set (lw_pool w) \<and>
      (\<forall>j<i. ln_release (lw_loans w ! j) \<noteq> None \<longrightarrow> ln_data (lw_loans w ! j) \<noteq> ln_data (lw_loans w ! i))) \<and>
    dom (lw_heap w) = pe_data ` set (lw_pool w) \<union> ln_data ` {l \<in> set (lw_loans w). ln_release l \<noteq> None} \<and>
    length (lw_pool w) \<le> RCP_LOAN_POOL_MAX_ENTRIES \<and>
    ((\<forall>l\<in>set (lw_loans w). ln_release l = None) \<longrightarrow> rcp_loan_pool_destroy (lw_heap w) (Some (lw_pool w)) = Map.empty) \<and>
    (case rcp_loan_pool_acquire fresh m1 m2 (lw_heap w) (lw_pool w) n of
       (None, heap, pool) \<Rightarrow> True
     | (Some l, heap, pool) \<Rightarrow> (\<forall>a. fresh = Some a \<longrightarrow> lw_heap w a = None) \<longrightarrow>
         ln_len l = n \<and> (\<exists>bs. heap (ln_data l) = Some bs \<and> take n bs = replicate n 0) \<and>
         (\<forall>k\<in>set (lw_loans w). ln_release k \<noteq> None \<longrightarrow> ln_data k \<noteq> ln_data l \<and> heap (ln_data k) = lw_heap w (ln_data k)))"
proof -
  note ok = loan_reach_ok [OF assms]
  have pool: "length (lw_pool w) \<le> RCP_LOAN_POOL_MAX_ENTRIES" using ok by (simp add: world_ok_def)
  have new: "case rcp_loan_pool_acquire fresh m1 m2 (lw_heap w) (lw_pool w) n of
       (None, heap, pool) \<Rightarrow> True
     | (Some l, heap, pool) \<Rightarrow> (\<forall>a. fresh = Some a \<longrightarrow> lw_heap w a = None) \<longrightarrow>
         ln_len l = n \<and> (\<exists>bs. heap (ln_data l) = Some bs \<and> take n bs = replicate n 0) \<and>
         (\<forall>k\<in>set (lw_loans w). ln_release k \<noteq> None \<longrightarrow> ln_data k \<noteq> ln_data l \<and> heap (ln_data k) = lw_heap w (ln_data k))"
    using new_loan [OF ok, of fresh m1 m2 n] by (auto split: option.split prod.split)
  have destroy: "(\<forall>l\<in>set (lw_loans w). ln_release l = None) \<longrightarrow>
      rcp_loan_pool_destroy (lw_heap w) (Some (lw_pool w)) = Map.empty"
    using heap_owned [OF ok] by (auto simp: rcp_loan_pool_destroy_def restrict_map_def fun_eq_iff domIff)
  show ?thesis
    using loan_held [OF ok nth_mem] loans_apart [OF ok] heap_owned [OF ok] pool new destroy by blast
qed

definition one_loan :: loan_world where
  "one_loan = \<lparr>lw_heap = [5 \<mapsto> [0, 0, 0]], lw_pool = [],
     lw_loans = [\<lparr>ln_data = 5, ln_len = 3, ln_release = Some \<lparr>pe_data = 5, pe_cap = 3\<rparr>\<rparr>]\<rparr>"

theorem loan_pool_sound_witness:
  "loan_reach one_loan \<and> dom (lw_heap one_loan) = {5}"
proof -
  let ?w = "\<lparr>lw_heap = Map.empty, lw_pool = [], lw_loans = []\<rparr>"
  have "rcp_loan_pool_acquire (Some 5) True True (lw_heap ?w) (lw_pool ?w) 3 =
      (Some \<lparr>ln_data = 5, ln_len = 3, ln_release = Some \<lparr>pe_data = 5, pe_cap = 3\<rparr>\<rparr>, [5 \<mapsto> [0, 0, 0]], [])"
    by (simp add: rcp_loan_pool_acquire_def acquire_buffer_def take_pooled_def numeral_eq_Suc)
  from loan_step.acquired [OF this] have "loan_step ?w one_loan" by (simp add: one_loan_def)
  then have r: "loan_reach one_loan"
    using loan_reach.step [OF loan_reach.start, of True "[]" one_loan] by (simp add: rcp_loan_pool_new_def)
  from loan_pool_sound [OF r, where fresh = None and ?m1.0 = True and ?m2.0 = True and n = 0]
  have "dom (lw_heap one_loan) = pe_data ` set (lw_pool one_loan) \<union> ln_data ` {l \<in> set (lw_loans one_loan). ln_release l \<noteq> None}"
    by blast
  also have "\<dots> = {5}" by (auto simp: one_loan_def)
  finally show ?thesis using r by simp
qed

end
