(* ===== verification/Faultinject.thy ===== *)
theory Faultinject
  imports Rcp_Core
begin

text \<open>
  \<^verbatim>\<open>src/faultinject.c\<close>: the ordered rules that make requests fail, and the proof that a run of evaluations
  plays the rules as a script.  Every function of the file runs under the mutex of the injector and is a
  single step.
\<close>

section \<open>Operations\<close>

datatype rcp_fi_action_t = RCP_FI_PROCEED | RCP_FI_DROP | RCP_FI_SLOW | RCP_FI_ERROR | RCP_FI_TIMEOUT

record rcp_fi_rule_t =
  fi_type :: rcp_fi_action_t
  fi_latency_ms :: u64
  fi_count :: int

record rcp_faultinject =
  fi_rules :: "rcp_fi_rule_t list"
  fi_rules_cap :: nat

text \<open>The size of a rule: an enumeration, a 64-bit number and an \<^verbatim>\<open>int\<close>, each on an eight octet boundary.\<close>

definition sizeof_fi_rule :: nat where "sizeof_fi_rule = 24"

definition rcp_faultinject_new :: "bool \<Rightarrow> rcp_faultinject option" where
  "rcp_faultinject_new mem = (if mem then Some \<lparr>fi_rules = [], fi_rules_cap = 0\<rparr> else None)"

definition rcp_faultinject_add_rule ::
    "bool \<Rightarrow> rcp_faultinject \<Rightarrow> rcp_fi_rule_t \<Rightarrow> bool \<times> rcp_faultinject" where
  "rcp_faultinject_add_rule mem fi rule =
     (if length (fi_rules fi) = fi_rules_cap fi then
        (let new_cap = (if fi_rules_cap fi = 0 then 4 else fi_rules_cap fi * 2)
         in if rcp_alloc_checked_size new_cap sizeof_fi_rule = 0 \<or> \<not> mem then (False, fi)
            else (True, fi\<lparr>fi_rules := fi_rules fi @ [rule], fi_rules_cap := new_cap\<rparr>))
      else (True, fi\<lparr>fi_rules := fi_rules fi @ [rule]\<rparr>))"

definition rcp_faultinject_clear_rules :: "rcp_faultinject \<Rightarrow> rcp_faultinject" where
  "rcp_faultinject_clear_rules fi = fi\<lparr>fi_rules := []\<rparr>"

definition fi_pick :: "rcp_faultinject \<Rightarrow> rcp_fi_rule_t option \<times> rcp_faultinject" where
  "fi_pick fi =
     (case fi_rules fi of
        [] \<Rightarrow> (None, fi)
      | r # rs \<Rightarrow>
          (Some r,
           if fi_count r > 0 then
             (if fi_count r - 1 = 0 then fi\<lparr>fi_rules := rs\<rparr>
              else fi\<lparr>fi_rules := r\<lparr>fi_count := fi_count r - 1\<rparr> # rs\<rparr>)
           else fi))"

text \<open>The action, and the latency that is stored for a slow one.\<close>

definition rcp_faultinject_evaluate ::
    "rcp_faultinject \<Rightarrow> (rcp_fi_action_t \<times> u64 option) \<times> rcp_faultinject" where
  "rcp_faultinject_evaluate fi =
     (let (picked, fi) = fi_pick fi in
      case picked of
        None \<Rightarrow> ((RCP_FI_PROCEED, None), fi)
      | Some r \<Rightarrow> ((fi_type r, if fi_type r = RCP_FI_SLOW then Some (fi_latency_ms r) else None), fi))"

section \<open>The script\<close>

fun evaluations :: "nat \<Rightarrow> rcp_faultinject \<Rightarrow> (rcp_fi_action_t \<times> u64 option) list \<times> rcp_faultinject" where
  "evaluations 0 fi = ([], fi)"
| "evaluations (Suc n) fi =
     (let (x, fi) = rcp_faultinject_evaluate fi; (xs, fi) = evaluations n fi in (x # xs, fi))"

text \<open>What \<open>n\<close> requests meet: each rule in turn as often as its count says, a rule without a positive count
  from then on, and no fault once the rules are used up.\<close>

definition rule_effect :: "rcp_fi_rule_t \<Rightarrow> rcp_fi_action_t \<times> u64 option" where
  "rule_effect r = (fi_type r, if fi_type r = RCP_FI_SLOW then Some (fi_latency_ms r) else None)"

fun fault_script :: "rcp_fi_rule_t list \<Rightarrow> nat \<Rightarrow> (rcp_fi_action_t \<times> u64 option) list" where
  "fault_script [] n = replicate n (RCP_FI_PROCEED, None)"
| "fault_script (r # rs) n =
     (if fi_count r > 0
      then replicate (min n (nat (fi_count r))) (rule_effect r) @ fault_script rs (n - nat (fi_count r))
      else replicate n (rule_effect r))"

lemma fault_script_0 [simp]: "fault_script rs 0 = []"
  by (induction rs) auto

lemma evaluate_script:
  assumes "rcp_faultinject_evaluate fi = (x, fi')"
  shows "fault_script (fi_rules fi) (Suc n) = x # fault_script (fi_rules fi') n"
proof (cases "fi_rules fi")
  case Nil
  then show ?thesis using assms by (auto simp: rcp_faultinject_evaluate_def fi_pick_def)
next
  case (Cons r rs)
  show ?thesis
  proof (cases "fi_count r > 0")
    case True
    then obtain c where c: "fi_count r = int (Suc c)" by (metis gr0_implies_Suc pos_int_cases)
    then show ?thesis using assms Cons
      by (cases c) (auto simp: rcp_faultinject_evaluate_def fi_pick_def rule_effect_def nat_add_distrib)
  qed (use assms Cons in \<open>auto simp: rcp_faultinject_evaluate_def fi_pick_def rule_effect_def\<close>)
qed

lemma evaluations_script: "fst (evaluations n fi) = fault_script (fi_rules fi) n"
proof (induction n arbitrary: fi)
  case (Suc n)
  obtain x fi' where x: "rcp_faultinject_evaluate fi = (x, fi')" by fastforce
  from Suc.IH [of fi'] evaluate_script [OF x, of n] x show ?case by (simp add: Let_def case_prod_unfold)
qed simp

lemma add_rule_appends:
  "rcp_faultinject_add_rule mem fi r = (ok, fi') \<Longrightarrow> fi_rules fi' = (if ok then fi_rules fi @ [r] else fi_rules fi)"
  by (auto simp: rcp_faultinject_add_rule_def Let_def split: if_splits)

text \<open>An injector to which rules were added one after the other plays them as a script: evaluated before
  each of \<open>n\<close> requests, it gives each rule in the order of the additions as often as its count says,
  then, at the first rule whose count is not positive, that rule for ever, and no fault when all are used
  up.  A rule that could not be added changes nothing, and clearing the rules ends the faults.\<close>

theorem faults_follow_script:
  "fst (evaluations n fi) = fault_script (fi_rules fi) n \<and>
   (case rcp_faultinject_add_rule mem fi r of (ok, fi') \<Rightarrow>
      fst (evaluations n fi') = fault_script (if ok then fi_rules fi @ [r] else fi_rules fi) n) \<and>
   fst (evaluations n (rcp_faultinject_clear_rules fi)) = replicate n (RCP_FI_PROCEED, None)"
proof -
  obtain ok fi' where a: "rcp_faultinject_add_rule mem fi r = (ok, fi')" by fastforce
  show ?thesis using add_rule_appends [OF a]
    by (simp add: a evaluations_script rcp_faultinject_clear_rules_def)
qed

end
