(* ===== verification/Spec2Isabelle.thy ===== *)
theory Spec2Isabelle
  imports Server_Correct Powerstate Discovery Ep_Gpio Ep_Adc Ep_Bus Ep_Spi Ep_Uart Ep_Can Ep_Iseled Ep_Pwm Ep_Mdio
    Monitors Authz Tsn Regmap_Memory Mock_Correct Loan Faultinject
begin

text \<open>
  A verification of c-RCP, a C implementation of a remote control protocol: a client sends requests to
  endpoints (pins, converters, buses) of a server over IEEE 1722 frames, and the server executes them at
  once or when a condition holds.  Paths are relative to the repository: \<^verbatim>\<open>src/x.c\<close> and \<^verbatim>\<open>include/rcp/x.h\<close>.

  \<^bold>\<open>The program.\<close>  A request is an ACF message (\<^verbatim>\<open>acf.c\<close>), possibly with a request type in place of
  its timestamp (\<^verbatim>\<open>request.c\<close>), protected by a CRC (\<^verbatim>\<open>e2e.c\<close>), carried in an AVTP frame (\<^verbatim>\<open>avtp.c\<close>) that
  may hold several of them (\<^verbatim>\<open>scheduler.c\<close>) or a fragment of one (\<^verbatim>\<open>fragment.c\<close>).  The server filters frames
  and register writes by its lifecycle (\<^verbatim>\<open>lifecycle.c\<close>), stores and schedules requests per endpoint
  (\<^verbatim>\<open>server.c\<close>, with the sequencers of \<^verbatim>\<open>request_sequencer.c\<close>), and queues its responses (\<^verbatim>\<open>respqueue.c\<close>).
  Its tables are registers that clients read and write through endpoint 0 (\<^verbatim>\<open>regmap.c\<close>).  \<^verbatim>\<open>mock.c\<close> puts these
  parts together to a server with a table of endpoints and their handlers.
  Endpoint types interpret the payloads (\<^verbatim>\<open>ep_*.c\<close>).  Clients find servers (\<^verbatim>\<open>discovery.c\<close>), put them to
  sleep and wake them (\<^verbatim>\<open>power.c\<close>, \<^verbatim>\<open>powerstate.c\<close>, \<^verbatim>\<open>ep_wakeup.c\<close>), watch their streams
  (\<^verbatim>\<open>watchdog.c\<close>, \<^verbatim>\<open>deadline.c\<close>), check who may send what (\<^verbatim>\<open>authz.c\<close>) and tag frames with a network
  priority (\<^verbatim>\<open>tsn.c\<close>).

  \<^bold>\<open>Conventions.\<close>  A C function keeps its name; a static function of several files gets a prefix.  Unsigned
  integers are words of their width, so that wrap-around is that of C; \<open>size_t\<close> is a natural number where
  it counts octets in memory, with the guards against overflow written out.  Buffers are octet lists.  A
  function that can fail returns a sum, with the error code on the left, or a pair of code and result; the
  state it changes is returned.  Whether an allocation succeeds is an argument (\<open>mem\<close>), and an owned buffer
  is an option.  Functions that run under a mutex are single steps; where the code releases the mutex in
  between, the steps are separate definitions.  Callbacks are recorded as values of the result.  Clocks are
  arguments.

  \<^bold>\<open>Theories.\<close>
  \<^item> \<open>Prelude\<close>: octet lists, \<^verbatim>\<open>put_u16\<close> to \<^verbatim>\<open>get_u64\<close>, bit-level lemmas (\<open>word_bits\<close>), \<open>find_index\<close>, and the
    collections \<open>consts_rcp\<close> (constants) and \<open>field_laws\<close> (packed fields).
  \<^item> \<open>Rcp_Core\<close>: \<^verbatim>\<open>rcp.c\<close>, \<^verbatim>\<open>errors.c\<close>, \<^verbatim>\<open>alloc.c\<close>: status and wire error codes, owned buffers, size guards.
  \<^item> \<open>Interfaces\<close>: the locales that components promise and use: wire codecs, banks of sequencers, latches by
    key, service orders, bounded queues, stores of stamped slots.  \<open>Tables\<close>: keyed tables.
  \<^item> \<open>Avtp\<close>, \<open>Acf\<close>, \<open>Requests\<close>: the codecs, interpreted as wire codecs (they invert each other, stay inside
    the frame and no frame is a prefix of another), timestamp extension as the nearest congruent instant, the
    loopback transport as a bounded queue, the compound-wait comparison against its bit-level reference, the
    run-time rules of compound, triggered, chained and timed requests.  \<open>Sequencer\<close>: the sequencer table.
  \<^item> \<open>Scheduler\<close>: kinds, ranks and the service order; splitting of a frame into its members.
  \<^item> \<open>E2e\<close>: the CRC as a linear shift register with detection of every burst of up to four octets that leaves the
    padding field alone (and a frame that shows why the field is an exception), binding of the frame header, sequence evaluation, the latch of faulted streams.
  \<^item> \<open>Lifecycle\<close>: transitions refine the lifecycle diagram, plausibility checks, write locks of registers.
  \<^item> \<open>Fragment\<close>, \<open>Respqueue\<close>: plans and reassembly as inverse, the reassembler and queue invariants.
  \<^item> \<open>Server\<close> (definitions), \<open>Server_Store\<close> (the store as a slot store, each operation keeps it),
    \<open>Server_Admission\<close> (the rule of admission: the outcome of every request and the contents of its slot) and
    \<open>Server_Correct\<close> (properties): \<^verbatim>\<open>server.c\<close>.  Reachable endpoints are those that operations, and the tagging of
    chain links by the frame dispatcher (\<open>link_last_pending\<close>, from \<^verbatim>\<open>mock.c\<close>), lead to from initialisation in fewer than 2 to the 64 steps, so that the arrival counter does not wrap.
  \<^item> \<open>Power_Modes\<close>, \<open>Powerstate\<close>, \<open>Ep_Wakeup\<close>: power modes and the wake handshake as a state machine, the
    manager that mirrors the modes of many endpoints, the wake-up endpoint with its latches and messages.
  \<^item> \<open>Discovery\<close>: codecs, fragmented responses up to 255 fragments, the configuration claim as a traced state
    machine, the cache as a finite map.
  \<^item> \<open>Registers\<close>: what endpoint types share: flag octets, configuration writes on a register image as a
    locale (what is written is read back, read-only octets apart), request and response frames.
  \<^item> \<open>Regmap_General\<close>, \<open>Regmap_Tables\<close>, \<open>Regmap_Config\<close>, \<open>Regmap_Ep0\<close>: \<^verbatim>\<open>regmap.c\<close>: the general map, the row tables as
    instances of a locale of row-wise tables, unit conversions and queries, and endpoint 0 with its sections,
    authorization, write operations and reads.  \<open>Regmap_Locking\<close>: what no request to endpoint 0 can change in which
    state and for whom.  \<open>Regmap_Generic\<close>: the registers of the generic endpoint configuration after a write, whose
    fields change only as a whole.  \<open>Regmap_Memory\<close>: endpoint 0 as an abstract octet memory, which its writes update and
    its reads show, with the live status of the streams laid over it; what a write to the request stream table does to
    the rows it does not address.
  \<^item> \<open>Ep_Gpio\<close>, \<open>Ep_Adc\<close>, \<open>Ep_Bus\<close>: \<^verbatim>\<open>ep_gpio.c\<close>, \<^verbatim>\<open>ep_adc.c\<close>, \<^verbatim>\<open>ep_i2c.c\<close> and \<^verbatim>\<open>ep_lin.c\<close>: their register blocks
    as instances of these locales, write operations, debouncing, averaging, sample spacing, messages.
  \<^item> \<open>Fragment_Messages\<close>: messages that endpoints send in fragments; the locale \<open>fragment_wire\<close> between the encoder of a
    segment and the client's decoder, with the two outcomes for up to 257 and for more fragments.  \<open>Ep_Uart\<close>, \<open>Ep_Can\<close>,
    \<open>Ep_Iseled\<close>: \<^verbatim>\<open>ep_uart.c\<close>, \<^verbatim>\<open>ep_can.c\<close>, \<^verbatim>\<open>ep_iseled.c\<close> with their fragmented responses, the frames of CAN, the line code
    and checksum of ISELED.
  \<^item> \<open>Ep_Spi\<close>, \<open>Ep_Pwm\<close>, \<open>Ep_Mdio\<close>: \<^verbatim>\<open>ep_spi.c\<close> with its channels as a row table, \<^verbatim>\<open>ep_pwm.c\<close> with writes, limits and
    the trigger events of a cycle, \<^verbatim>\<open>ep_mdio.c\<close> with its two address families and packed words.
  \<^item> \<open>Monitors\<close>: \<^verbatim>\<open>watchdog.c\<close> and \<^verbatim>\<open>deadline.c\<close>, with the waiting loop of their threads.
  \<^item> \<open>Authz\<close>, \<open>Tsn\<close>: the access policy with C strings; priorities and the transport wrapper, which keeps the
    queue contract of what it wraps.
  \<^item> \<open>Mock_Server\<close>, \<open>Mock_Dispatch\<close>: \<^verbatim>\<open>mock.c\<close>: the record of the server with its operations, and the ways of a request
    or a frame through it.  Handlers are functions of the calls made so far, recorded in \<open>ms_calls\<close>.  \<open>Mock_Table\<close>: the endpoint
    table as a map from streams and bus ids, and the safe state.  \<open>Mock_Effects\<close>: what one request may change.  \<open>Mock_Reach\<close>: all
    operations as steps, with the invariant of reachable servers; the functions that take frames as instances of the locale
    \<open>frame_dispatcher\<close>.  \<open>Mock_Chain\<close>: the verdicts on chained requests, with the locale \<open>chain_dispatcher\<close>.  \<open>Mock_Correct\<close>:
    invariant, routing, isolation, protected requests, safe state, chains, and the rejection of stored requests.
  \<^item> \<open>Loan\<close>: \<^verbatim>\<open>loan.c\<close>, the pool of payload buffers over an explicit heap, with the client's operations as steps: buffers on loan
    are never shared, none leaks.  \<open>Faultinject\<close>: \<^verbatim>\<open>faultinject.c\<close>, whose evaluations play the rules as a script.
  \<^item> This theory: a request from the client's encoder to the server's decoder, and a timed request from its
    encoding to its execution.

  \<^bold>\<open>Bounds and fuel.\<close>  No definition has fuel: loops are structural recursions over lists or have a measure
  (the waiting loop, the eviction loop of the response queue).  Bounds are those of the code: 32 stored
  requests, 64 endpoints, 32 members of a frame, 64 pooled buffers, 2047 octets in an NTSCF frame, 255 fragments of a
  discovery response, 127 characters of an identity.

  \<^bold>\<open>Not modelled.\<close>  String tables (\<^verbatim>\<open>*_strerror\<close>), the allocator itself, mutexes and threads beyond the
  atomicity described above; \<^verbatim>\<open>ratelimit.c\<close>, which computes in IEEE doubles; the socket, shared-memory and raw Ethernet
  transports, the command-line tools, the recorder and the platform layer, which are input and output; the bridges to other
  protocols, which are stubs; \<^verbatim>\<open>relay.c\<close> and \<^verbatim>\<open>adapt.c\<close>, which turn messages of decimal strings into calls of the modelled
  encoders and decoders; and \<^verbatim>\<open>config.c\<close>, which scans a text for the rows of the modelled tables.  A handler that calls back into the
  server that runs it is outside the model of \<^verbatim>\<open>mock.c\<close>.
\<close>

section \<open>Delivery of a protected request\<close>

lemma abb_delivered:
  assumes "rcp_acf_encode_abb True h p = Some m" and "length p \<le> 2032" and "ntscf_wf n"
    and "rcp_avtp_loopback_transport_new True True sync cap = Some lb"
  shows "\<exists>w f t u. rcp_e2e_wrap_framed True sid True o1 tub ts m = Some w \<and>
    rcp_avtp_encode_ntscf True n w = Some f \<and>
    loopback_send True lb f = (RCP_OK, t) \<and> loopback_recv t True (length f) = Some (RCP_OK, Some f, u) \<and>
    rcp_avtp_decode_ntscf f = Inr (ntscf_canon n w, w) \<and>
    rcp_e2e_unwrap_framed True sid True o1 tub' ts' w = (RCP_E2E_OK, Some m)"
proof -
  note m = abb_protectable [OF assms(1,2)]
  obtain w where w: "rcp_e2e_wrap_framed True sid True o1 tub ts m = Some w"
    unfolding rcp_e2e_wrap_framed_def using wrap_defined [OF m] by blast
  note w' = w [unfolded rcp_e2e_wrap_framed_def]
  have "length w \<le> RCP_AVTP_NTSCF_MAX_PAYLOAD"
    using length_wrap [OF w' m(1)] m(3) by (simp add: consts_rcp)
  then obtain f where f: "rcp_avtp_encode_ntscf True n w = Some f"
    "rcp_avtp_decode_ntscf (f @ []) = Inr (ntscf_canon n w, w)"
    using ntscf.roundtrip [OF assms(3)] by blast
  have un: "rcp_e2e_unwrap_framed True sid True o1 tub' ts' w = (RCP_E2E_OK, Some m)"
    using unwrap_wrap [OF w' m(1)] by (auto simp: rcp_e2e_unwrap_framed_def split: if_splits)
  let ?mtu = "length f"
  note op = lb_open_new(1) [OF assms(4), of ?mtu] lb_open_new(2,3) [OF assms(4)]
  obtain t where t: "lb_push lb f = Some t"
    using loopback.push_full [OF op(1), of f] op(2,3) by auto
  note pt = lb_push_Some [OF op(1) _ t]
  obtain x u where u: "lb_pop ?mtu t = Some (x, u)"
    using loopback.pop_empty [of ?mtu t] pt by (cases "lb_pop ?mtu t") auto
  have "x = f" using lb_pop_Some [OF _ u] pt op(2) by auto
  then have "loopback_recv t True ?mtu = Some (RCP_OK, Some f, u)"
    using u by (auto simp: lb_pop_def split: option.splits prod.splits rcp_errc_t.splits)
  moreover have "loopback_send True lb f = (RCP_OK, t)"
    using t by (auto simp: lb_push_def split: prod.splits rcp_errc_t.splits)
  ultimately show ?thesis using w f un by auto
qed

text \<open>C7: A GPIO write that a client encodes, protects, frames and sends over a new loopback transport is
  received, unwrapped and decoded as the same write: the same pins, operation and transaction.  It is
  refused only for the reserved operation.\<close>

theorem protected_write_delivered:
  assumes "bus < 0x800" and "ntscf_wf n"
    and "rcp_avtp_loopback_transport_new True True sync cap = Some lb"
  shows "\<exists>m w f t u. rcp_ep_gpio_encode_write_request True bus v evt tn = Some m \<and>
    rcp_e2e_wrap_framed True sid True o1 tub ts m = Some w \<and>
    rcp_avtp_encode_ntscf True n w = Some f \<and>
    loopback_send True lb f = (RCP_OK, t) \<and> loopback_recv t True (length f) = Some (RCP_OK, Some f, u) \<and>
    rcp_avtp_decode_ntscf f = Inr (ntscf_canon n w, w) \<and>
    rcp_e2e_unwrap_framed True sid True o1 tub' ts' w = (RCP_E2E_OK, Some m) \<and>
    rcp_ep_gpio_decode_write_request m bus =
      (if evt = RCP_EP_GPIO_WRITE_RESERVED4 then Inl RCP_EP_GPIO_ERR_RESERVED_EVT
       else Inr (v, gpio_write_code evt, tn))"
proof -
  let ?h = "zero_info\<lparr>bm_byte_bus_id := bus, bm_op := RCP_ACF_OP_WRITE,
              bm_evt := gpio_write_code evt AND 0x7, bm_transaction_num := tn\<rparr>"
  obtain m where m: "rcp_acf_encode_abb True ?h (put_u32 v) = Some m"
    and d: "decode_request_frame RCP_EP_GPIO_ERR_SHORT_FRAME RCP_EP_GPIO_ERR_BAD_MSG_TYPE (m @ []) =
      Inr (abb_canon ?h (put_u32 v), put_u32 v)"
    using request_wire [of "put_u32 v" ?h RCP_EP_GPIO_ERR_SHORT_FRAME RCP_EP_GPIO_ERR_BAD_MSG_TYPE "[]"]
    by (auto simp: RCP_ACF_ABB_MAX_PAYLOAD_def)
  have "rcp_ep_gpio_decode_write_request m bus =
      (if evt = RCP_EP_GPIO_WRITE_RESERVED4 then Inl RCP_EP_GPIO_ERR_RESERVED_EVT
       else Inr (v, gpio_write_code evt, tn))"
    using d get_put_u32 [of v "[]"]
    by (cases evt) (auto simp: rcp_ep_gpio_decode_write_request_def abb_canon_def info_canon_def Let_def
        zero_info_def bus_canon [OF assms(1)] consts_rcp)
  moreover have "length (put_u32 v) \<le> 2032" by simp
  ultimately show ?thesis
    using m abb_delivered [OF m _ assms(2,3), of sid o1 tub ts tub' ts']
    unfolding rcp_ep_gpio_encode_write_request_def by blast
qed

theorem protected_write_delivered_witness:
  "\<exists>lb m w f t u. rcp_avtp_loopback_transport_new True True False 4 = Some lb \<and>
    rcp_ep_gpio_encode_write_request True 5 0xF0F0 RCP_EP_GPIO_WRITE_XOR 9 = Some m \<and>
    rcp_e2e_wrap_framed True 7 True 0 False 0 m = Some w \<and>
    rcp_avtp_encode_ntscf True ntscf_sample w = Some f \<and>
    loopback_send True lb f = (RCP_OK, t) \<and> loopback_recv t True (length f) = Some (RCP_OK, Some f, u) \<and>
    rcp_avtp_decode_ntscf f = Inr (ntscf_canon ntscf_sample w, w) \<and>
    rcp_e2e_unwrap_framed True 7 True 0 True 1 w = (RCP_E2E_OK, Some m) \<and>
    rcp_ep_gpio_decode_write_request m 5 = Inr (0xF0F0, 3, 9)"
proof -
  obtain lb where lb: "rcp_avtp_loopback_transport_new True True False 4 = Some lb"
    by (simp add: rcp_avtp_loopback_transport_new_def)
  have "(5 :: u16) < 0x800" "ntscf_wf ntscf_sample"
    by (simp_all add: ntscf_sample_def ntscf_wf_def stream_id_wf_def)
  from protected_write_delivered [OF this lb, of "0xF0F0" RCP_EP_GPIO_WRITE_XOR 9 7 0 False 0 True 1] lb
  show ?thesis by simp
qed

section \<open>A timed request from the client to its execution\<close>

lemma peek_decoded:
  assumes "rcp_acf_decode_gbb b = Inr (hdr, p)" and "bm_mtv (gbb_info hdr) = RCP_ACF_MTV_UNTIMED"
  shows "rcp_compound_peek_request_type b = Inr (ucast (drop_bit 56 (message_timestamp hdr) AND 0xFF))"
    and "rcp_acf_unpack_header b = gbb_info hdr" and "16 \<le> length b"
proof -
  have b: "16 \<le> length b" "drop_bit 1 (b ! 0) = RCP_ACF_MSG_TYPE_GBB" "gbb_info hdr = rcp_acf_unpack_header b"
    "message_timestamp hdr = get_u64 (drop 8 b)"
    using assms(1) by (auto simp: rcp_acf_decode_gbb_def Let_def consts_rcp split: if_splits)
  have "b ! 8 = ucast (drop_bit 56 (message_timestamp hdr) AND 0xFF)"
    using b(1) unfolding b(4) get_u64_def by (intro word8_eqI) (simp add: word_bits)
  then show "rcp_compound_peek_request_type b = Inr (ucast (drop_bit 56 (message_timestamp hdr) AND 0xFF))"
    using b assms(2)
    by (simp add: rcp_compound_peek_request_type_def rcp_acf_unpack_header_def consts_rcp)
  show "rcp_acf_unpack_header b = gbb_info hdr" "16 \<le> length b" using b by simp_all
qed

lemma timed_frame:
  assumes "rcp_timed_decode_request f = Inr ((bus, pt, tn), p)"
    and "rcp_acf_decode_gbb f = Inr (hdr, p)" and "bm_rsp (gbb_info hdr) = 0"
  shows "rcp_compound_peek_request_type f = Inr RCP_REQUEST_TYPE_TIMED"
    and "rcp_acf_header_is_request (rcp_acf_unpack_header f)" and "16 \<le> length f"
proof -
  have m: "bm_mtv (gbb_info hdr) = RCP_ACF_MTV_UNTIMED"
    "ucast (drop_bit 56 (message_timestamp hdr) AND 0xFF) = RCP_REQUEST_TYPE_TIMED"
    using assms(1,2) by (auto simp: rcp_timed_decode_request_def split: if_splits)
  note p = peek_decoded [OF assms(2) m(1)]
  show "rcp_compound_peek_request_type f = Inr RCP_REQUEST_TYPE_TIMED" using p(1) m(2) by simp
  show "rcp_acf_header_is_request (rcp_acf_unpack_header f)"
    using p(2) assms(3) by (simp add: rcp_acf_header_is_request_def)
  show "16 \<le> length f" by (rule p(3))
qed

lemma timed_encoded:
  assumes "pt \<le> RCP_TIMED_PRESENTATION_TIME_MAX" and "length p \<le> RCP_ACF_GBB_MAX_PAYLOAD"
  obtains f where "rcp_timed_encode_request True bus pt tn p = Some f"
    "rcp_timed_decode_request f = Inr ((bus AND 0x7FF, pt, tn), p)"
    "rcp_compound_peek_request_type f = Inr RCP_REQUEST_TYPE_TIMED"
    "rcp_acf_header_is_request (rcp_acf_unpack_header f)" "16 \<le> length f"
proof -
  obtain f where f: "timed_req_encode True (bus, pt, tn) p = Some f"
    "rcp_timed_decode_request (f @ []) = Inr (timed_req_canon (bus, pt, tn) p, p)"
    using timed.roundtrip [of "(bus, pt, tn)" p "[]"] assms by auto
  have e: "rcp_timed_encode_request True bus pt tn p = Some f"
    using f(1) by (simp add: timed_req_encode_def)
  then obtain ts where "gbb_repurposed_frame True (zero_info\<lparr>bm_byte_bus_id := bus, bm_transaction_num := tn\<rparr>) ts p = Some f"
    using assms(1) by (auto simp: rcp_timed_encode_request_def split: if_splits)
  from repurposed_decode [OF this, of "[]"] obtain hdr
    where h: "rcp_acf_decode_gbb f = Inr (hdr, p)" "bm_rsp (gbb_info hdr) = 0"
    by (auto simp: info_canon_def zero_info_def Let_def)
  have d: "rcp_timed_decode_request f = Inr ((bus AND 0x7FF, pt, tn), p)" using f(2) by simp
  from that [OF e d timed_frame [OF d h]] show thesis .
qed

definition timed_slot :: "u64 \<Rightarrow> byte \<Rightarrow> bytes \<Rightarrow> u32 \<Rightarrow> rcp_server_pending_t" where
  "timed_slot pt tn f now =
     free_slot\<lparr>in_use := True, slot_sequence := 0, slot_kind := RCP_SCHED_KIND_TIMED,
               slot_request_type := RCP_REQUEST_TYPE_TIMED, presentation_time := pt,
               slot_transaction_num := tn, has_presentation_gate := False, presentation_gate_ns := 0,
               armed_at := now, slot_frame := Some f\<rparr>"

definition timed_store :: "u64 \<Rightarrow> byte \<Rightarrow> bytes \<Rightarrow> u32 \<Rightarrow> rcp_server_endpoint_t" where
  "timed_store pt tn f now =
     (rcp_server_endpoint_init True)
       \<lparr>pending := timed_slot pt tn f now # replicate 31 free_slot, pending_count := 1, next_sequence := 1\<rparr>"

lemma claim_first:
  "claim_slot (rcp_server_endpoint_init e) =
     Some (0, (rcp_server_endpoint_init e)
       \<lparr>pending := free_slot\<lparr>in_use := True, slot_sequence := 0\<rparr> # replicate 31 free_slot,
        next_sequence := 1, pending_count := 1\<rparr>)"
proof -
  have r: "replicate 32 free_slot = free_slot # replicate 31 free_slot" by (simp add: numeral_eq_Suc)
  show ?thesis by (simp add: claim_slot_def rcp_server_endpoint_init_def RCP_SERVER_MAX_PENDING_def r)
qed

lemma timed_admitted:
  assumes "rcp_timed_decode_request f = Inr ((bus, pt, tn), p)" and "mem_copy mem"
    and "rcp_compound_peek_request_type f = Inr RCP_REQUEST_TYPE_TIMED"
    and "rcp_acf_header_is_request (rcp_acf_unpack_header f)" and "16 \<le> length f"
  shows "\<exists>ack. rcp_server_endpoint_admit mem (rcp_server_endpoint_init True) f now False 0 0 =
    (\<lparr>adm_result = RCP_SERVER_ADMIT_PENDING, adm_request_type = RCP_REQUEST_TYPE_TIMED, adm_index = Some 0,
      adm_error = RCP_ERROR_NONE, adm_ack = ack\<rparr>, timed_store pt tn f now)"
proof -
  have kind: "rcp_sched_classify True RCP_REQUEST_TYPE_TIMED = RCP_SCHED_KIND_TIMED"
    by (simp add: rcp_sched_classify_def rcp_request_type_is_triggered_def consts_rcp)
  have init: "\<not> admission_suspended (rcp_server_endpoint_init True)"
    by (simp add: rcp_server_endpoint_init_def)
  have dup: "rcp_bytes_dup True f = Some f" using assms(5) by (auto simp: rcp_bytes_dup_def)
  show ?thesis
    using assms kind dup init
    by (simp add: rcp_server_endpoint_admit_def rcp_server_endpoint_admit_with_ack_def Let_def
        admit_conditional_def claim_first admit_decode_def set_slot_def timed_store_def timed_slot_def)
qed

lemma due_from_free: "due_from en ctx i (replicate n free_slot) = []"
  by (induction n arbitrary: i) (simp_all add: slot_due_def)

lemma timed_slot_due:
  "slot_due True ctx (timed_slot pt tn f now) \<longleftrightarrow> gptp_locked ctx \<and> rcp_timed_due pt (gptp_now ctx)"
  by (auto simp: slot_due_def is_due_eq slot_permitted_def timed_slot_def start_condition_holds_def
      auxiliary_condition_met_def delay_expired_def free_slot_def rcp_e2e_request_may_execute_def
      rcp_e2e_is_safety_request_def consts_rcp)

text \<open>C6: A timed request that a client encodes is stored by an enabled, empty endpoint with its transaction
  number, and from then on a tick selects it exactly when the endpoint has a locked clock and the
  presentation time has come; completing it empties the store.\<close>

theorem timed_request_served_on_time:
  assumes "pt \<le> RCP_TIMED_PRESENTATION_TIME_MAX" and "length p \<le> RCP_ACF_GBB_MAX_PAYLOAD"
    and "mem_copy mem"
  shows "\<exists>f a ep. rcp_timed_encode_request True bus pt tn p = Some f \<and>
    rcp_server_endpoint_admit mem (rcp_server_endpoint_init True) f now False 0 0 = (a, ep) \<and>
    adm_result a = RCP_SERVER_ADMIT_PENDING \<and> adm_index a = Some 0 \<and>
    slot_transaction_num (pending ep ! 0) = tn \<and> slot_frame (pending ep ! 0) = Some f \<and>
    (\<forall>ctx. fst (rcp_server_endpoint_select_due ep ctx) =
       (if gptp_locked ctx \<and> rcp_timed_due pt (gptp_now ctx) then Some 0 else None)) \<and>
    (\<forall>ctx. fst (rcp_server_endpoint_complete ep 0 ctx) = False \<and>
       pending_count (fst (snd (rcp_server_endpoint_complete ep 0 ctx))) = 0)"
proof -
  obtain f where f: "rcp_timed_encode_request True bus pt tn p = Some f"
    "rcp_timed_decode_request f = Inr ((bus AND 0x7FF, pt, tn), p)"
    "rcp_compound_peek_request_type f = Inr RCP_REQUEST_TYPE_TIMED"
    "rcp_acf_header_is_request (rcp_acf_unpack_header f)" "16 \<le> length f"
    using timed_encoded [OF assms(1,2)] by blast
  let ?ep = "timed_store pt tn f now"
  obtain a where a: "rcp_server_endpoint_admit mem (rcp_server_endpoint_init True) f now False 0 0 = (a, ?ep)"
    "adm_result a = RCP_SERVER_ADMIT_PENDING" "adm_index a = Some 0"
    using timed_admitted [OF f(2) assms(3) f(3-5)] by fastforce
  have "fst (rcp_server_endpoint_select_due ?ep ctx) =
       (if gptp_locked ctx \<and> rcp_timed_due pt (gptp_now ctx) then Some 0 else None)" for ctx
    by (simp add: rcp_server_endpoint_select_due_def Let_def case_prod_unfold select_from_best timed_store_def
        rcp_server_endpoint_init_def due_from_free timed_slot_due better_def del: select_due_from.simps)
  moreover have "fst (rcp_server_endpoint_complete ?ep 0 ctx) = False \<and>
       pending_count (fst (snd (rcp_server_endpoint_complete ?ep 0 ctx))) = 0" for ctx
    by (simp add: rcp_server_endpoint_complete_def timed_store_def timed_slot_def release_slot_def
        RCP_SERVER_MAX_PENDING_def Let_def)
  moreover have "slot_transaction_num (pending ?ep ! 0) = tn" "slot_frame (pending ?ep ! 0) = Some f"
    by (simp_all add: timed_store_def timed_slot_def)
  ultimately show ?thesis using f(1) a by blast
qed

theorem timed_request_served_on_time_witness:
  "\<exists>f a ep. rcp_timed_encode_request True 3 1000 7 [1, 2] = Some f \<and>
    rcp_server_endpoint_admit sample_mem (rcp_server_endpoint_init True) f 5 False 0 0 = (a, ep) \<and>
    adm_result a = RCP_SERVER_ADMIT_PENDING \<and>
    fst (rcp_server_endpoint_select_due ep (sample_ctx\<lparr>gptp_locked := True, gptp_now := 999\<rparr>)) = None \<and>
    fst (rcp_server_endpoint_select_due ep (sample_ctx\<lparr>gptp_locked := True, gptp_now := 1000\<rparr>)) = Some 0"
proof -
  have due: "\<not> rcp_timed_due 1000 999" "rcp_timed_due 1000 1000" by code_simp+
  have "(1000 :: u64) \<le> RCP_TIMED_PRESENTATION_TIME_MAX" "length [1, 2 :: byte] \<le> RCP_ACF_GBB_MAX_PAYLOAD"
    "mem_copy sample_mem" by (simp_all add: consts_rcp sample_mem_def)
  from timed_request_served_on_time [OF this, of 3 7 5] obtain f a ep
    where "rcp_timed_encode_request True 3 1000 7 [1, 2] = Some f"
      "rcp_server_endpoint_admit sample_mem (rcp_server_endpoint_init True) f 5 False 0 0 = (a, ep)"
      "adm_result a = RCP_SERVER_ADMIT_PENDING"
      and r: "\<forall>ctx. fst (rcp_server_endpoint_select_due ep ctx) =
        (if gptp_locked ctx \<and> rcp_timed_due 1000 (gptp_now ctx) then Some 0 else None)"
    by blast
  moreover have
    "fst (rcp_server_endpoint_select_due ep (sample_ctx\<lparr>gptp_locked := True, gptp_now := 999\<rparr>)) = None"
    "fst (rcp_server_endpoint_select_due ep (sample_ctx\<lparr>gptp_locked := True, gptp_now := 1000\<rparr>)) = Some 0"
    using r due by simp_all
  ultimately show ?thesis by blast
qed

end
